(* ===== verification/Prelude.thy ===== *)
theory Prelude
  imports Main "HOL-Library.Char_ord" "HOL-Library.List_Lexorder"
begin

text \<open>
  Shared vocabulary of the development.

  \<^item> Python results and handlers: a call that may raise is a value of a sum type
    (\<open>Inl\<close> the exception), and a call that also reads and writes the session is a
    function from the store to a result and the next store. The store is returned on
    the exceptional path too, because the source stages changes and then raises.
  \<^item> Python strings: a \<open>str\<close> is modelled by the bytes of its UTF-8 form, one
    \<open>char\<close> per byte. Equality, concatenation, membership of ASCII text, code point
    order and \<open>encode("utf-8")\<close> are exact on it. The theory \<open>Platform\<close> splits it into
    characters and adds what depends on the Unicode tables.
  \<^item> Tables: the rows of one SQL table, as a list in insertion order, with lookup by
    primary key, update of a row and the law interface \<open>keyed_table\<close>.
\<close>

named_theorems result_simps \<open>inversion of successful results\<close>
named_theorems handler_simps \<open>inversion of successful handlers\<close>
named_theorems evolves_intros \<open>handlers whose every outcome is related to the start\<close>

section \<open>Results\<close>

definition bindR :: "'e + 'a \<Rightarrow> ('a \<Rightarrow> 'e + 'b) \<Rightarrow> 'e + 'b" where
  "bindR m f = (case m of Inl e \<Rightarrow> Inl e | Inr x \<Rightarrow> f x)"

definition raise_if :: "bool \<Rightarrow> 'e \<Rightarrow> 'e + unit" where
  "raise_if bad e = (if bad then Inl e else Inr ())"

definition option_or :: "'e \<Rightarrow> 'a option \<Rightarrow> 'e + 'a" where
  "option_or e x = (case x of None \<Rightarrow> Inl e | Some y \<Rightarrow> Inr y)"

fun mapR :: "('a \<Rightarrow> 'e + 'b) \<Rightarrow> 'a list \<Rightarrow> 'e + 'b list" where
  "mapR f [] = Inr []"
| "mapR f (x # xs) = bindR (f x) (\<lambda>y. bindR (mapR f xs) (\<lambda>ys. Inr (y # ys)))"

lemma bindR_simps [simp]:
  "bindR (Inl e) f = Inl e"
  "bindR (Inr x) f = f x"
  by (simp_all add: bindR_def)

lemma bindR_assoc: "bindR (bindR m f) g = bindR m (\<lambda>x. bindR (f x) g)"
  by (cases m) simp_all

lemma bindR_Inr_iff [result_simps]:
  "bindR m f = Inr y \<longleftrightarrow> (\<exists>x. m = Inr x \<and> f x = Inr y)"
  by (cases m) simp_all

lemma bindR_Inl_iff:
  "bindR m f = Inl e \<longleftrightarrow> m = Inl e \<or> (\<exists>x. m = Inr x \<and> f x = Inl e)"
  by (cases m) simp_all

lemma raise_if_simps [simp]:
  "raise_if True e = Inl e"
  "raise_if False e = Inr ()"
  by (simp_all add: raise_if_def)

lemma raise_if_Inr_iff [result_simps]: "raise_if bad e = Inr u \<longleftrightarrow> \<not> bad"
  by (simp add: raise_if_def)

lemma raise_if_Inl_iff: "raise_if bad e = Inl e' \<longleftrightarrow> bad \<and> e' = e"
  by (auto simp: raise_if_def)

lemma option_or_simps [simp]:
  "option_or e None = Inl e"
  "option_or e (Some x) = Inr x"
  by (simp_all add: option_or_def)

lemma option_or_Inr_iff [result_simps]: "option_or e x = Inr y \<longleftrightarrow> x = Some y"
  by (cases x) simp_all

lemma mapR_Inr_iff:
  "mapR f xs = Inr ys \<longleftrightarrow> list_all2 (\<lambda>x y. f x = Inr y) xs ys"
  by (induction xs arbitrary: ys) (auto simp: bindR_Inr_iff list_all2_Cons1)

section \<open>Handlers over a store\<close>

type_synonym ('s, 'e, 'a) handler = "'s \<Rightarrow> ('e + 'a) \<times> 's"

definition returnH :: "'a \<Rightarrow> ('s, 'e, 'a) handler" where
  "returnH x = (\<lambda>s. (Inr x, s))"

definition raiseH :: "'e \<Rightarrow> ('s, 'e, 'a) handler" where
  "raiseH e = (\<lambda>s. (Inl e, s))"

definition liftH :: "'e + 'a \<Rightarrow> ('s, 'e, 'a) handler" where
  "liftH r = (\<lambda>s. (r, s))"

definition getH :: "('s \<Rightarrow> 'a) \<Rightarrow> ('s, 'e, 'a) handler" where
  "getH f = (\<lambda>s. (Inr (f s), s))"

definition modifyH :: "('s \<Rightarrow> 's) \<Rightarrow> ('s, 'e, unit) handler" where
  "modifyH f = (\<lambda>s. (Inr (), f s))"

definition bindH :: "('s, 'e, 'a) handler \<Rightarrow> ('a \<Rightarrow> ('s, 'e, 'b) handler) \<Rightarrow> ('s, 'e, 'b) handler" where
  "bindH m f = (\<lambda>s. case m s of (Inl e, s') \<Rightarrow> (Inl e, s') | (Inr x, s') \<Rightarrow> f x s')"

definition raise_ifH :: "bool \<Rightarrow> 'e \<Rightarrow> ('s, 'e, unit) handler" where
  "raise_ifH bad e = liftH (raise_if bad e)"

definition whenH :: "bool \<Rightarrow> ('s, 'e, unit) handler \<Rightarrow> ('s, 'e, unit) handler" where
  "whenH c m = (if c then m else returnH ())"

text \<open>A unit of work that commits only when it returns: an exception rolls it back.\<close>

definition transact :: "('s, 'e, 'a) handler \<Rightarrow> ('s, 'e, 'a) handler" where
  "transact m = (\<lambda>s. case m s of (Inl e, s') \<Rightarrow> (Inl e, s) | (Inr x, s') \<Rightarrow> (Inr x, s'))"

text \<open>\<open>try\<close> and \<open>except\<close>: the handler gets the exception and the store as it was raised in.\<close>

definition catchH :: "('s, 'e, 'a) handler \<Rightarrow> ('e \<Rightarrow> ('s, 'e, 'a) handler) \<Rightarrow> ('s, 'e, 'a) handler" where
  "catchH m h = (\<lambda>s. case m s of (Inl e, s') \<Rightarrow> h e s' | (Inr x, s') \<Rightarrow> (Inr x, s'))"

lemma returnH_run [handler_simps]: "returnH x s = r \<longleftrightarrow> r = (Inr x, s)"
  by (auto simp: returnH_def)

lemma raiseH_run [handler_simps]: "raiseH e s = r \<longleftrightarrow> r = (Inl e, s)"
  by (auto simp: raiseH_def)

lemma liftH_run [handler_simps]: "liftH m s = (r, s') \<longleftrightarrow> m = r \<and> s' = s"
  by (auto simp: liftH_def)

lemma getH_run [handler_simps]: "getH f s = (r, s') \<longleftrightarrow> r = Inr (f s) \<and> s' = s"
  by (auto simp: getH_def)

lemma modifyH_run [handler_simps]: "modifyH f s = (r, s') \<longleftrightarrow> r = Inr () \<and> s' = f s"
  by (auto simp: modifyH_def)

lemma raise_ifH_Inr_run [handler_simps]: "raise_ifH bad e s = (Inr u, s') \<longleftrightarrow> \<not> bad \<and> s' = s"
  by (auto simp: raise_ifH_def liftH_def raise_if_def)

lemma raise_ifH_Inl_run [handler_simps]: "raise_ifH bad e s = (Inl e', s') \<longleftrightarrow> bad \<and> e' = e \<and> s' = s"
  by (auto simp: raise_ifH_def liftH_def raise_if_def)

lemma bindH_Inr_run [handler_simps]:
  "bindH m f s = (Inr y, t) \<longleftrightarrow> (\<exists>x s'. m s = (Inr x, s') \<and> f x s' = (Inr y, t))"
  by (auto simp: bindH_def split: prod.splits sum.splits)

lemma bindH_Inl_run:
  "bindH m f s = (Inl e, t) \<longleftrightarrow>
    m s = (Inl e, t) \<or> (\<exists>x s'. m s = (Inr x, s') \<and> f x s' = (Inl e, t))"
  by (auto simp: bindH_def split: prod.splits sum.splits)

lemma bindH_eval:
  "m s = (Inr x, s') \<Longrightarrow> bindH m f s = f x s'"
  "m s = (Inl e, s') \<Longrightarrow> bindH m f s = (Inl e, s')"
  by (simp_all add: bindH_def)

lemma transact_Inr_run [handler_simps]: "transact m s = (Inr x, t) \<longleftrightarrow> m s = (Inr x, t)"
  by (auto simp: transact_def split: prod.splits sum.splits)

lemma transact_Inl_run: "transact m s = (Inl e, t) \<longleftrightarrow> fst (m s) = Inl e \<and> t = s"
  by (auto simp: transact_def split: prod.splits sum.splits)

lemmas handler_defs =
  returnH_def raiseH_def liftH_def getH_def modifyH_def bindH_def raise_ifH_def whenH_def
  raise_if_def transact_def

section \<open>Evolution of the store\<close>

text \<open>
  A preorder on stores that every primitive write respects is respected by every handler
  built from them, on the normal and on the exceptional path. Clients prove it for their
  writes; the locale lifts it through the combinators.
\<close>

definition evolves :: "('s \<Rightarrow> 's \<Rightarrow> bool) \<Rightarrow> ('s, 'e, 'a) handler \<Rightarrow> bool" where
  "evolves R m \<longleftrightarrow> (\<forall>s. R s (snd (m s)))"

lemma evolvesD: "evolves R m \<Longrightarrow> m s = (r, t) \<Longrightarrow> R s t"
  by (metis evolves_def snd_conv)

text \<open>The same from one given store, for handlers whose argument is a row of that store.\<close>

definition keeps :: "('s \<Rightarrow> 's \<Rightarrow> bool) \<Rightarrow> 's \<Rightarrow> ('s, 'e, 'a) handler \<Rightarrow> bool" where
  "keeps R s m \<longleftrightarrow> R s (snd (m s))"

lemma evolves_keeps: "evolves R m \<Longrightarrow> keeps R s m"
  by (simp add: evolves_def keeps_def)

lemma keeps_evolves: "(\<And>s. keeps R s m) \<Longrightarrow> evolves R m"
  by (simp add: evolves_def keeps_def)

lemma keepsD: "keeps R s m \<Longrightarrow> m s = (r, t) \<Longrightarrow> R s t"
  by (metis keeps_def snd_conv)

locale store_preorder =
  fixes R :: "'s \<Rightarrow> 's \<Rightarrow> bool"
  assumes refl_R: "R s s"
    and trans_R: "R s t \<Longrightarrow> R t u \<Longrightarrow> R s u"
begin

lemma evolves_return: "evolves R (returnH x)"
  by (simp add: evolves_def returnH_def refl_R)

lemma evolves_raise: "evolves R (raiseH e)"
  by (simp add: evolves_def raiseH_def refl_R)

lemma evolves_lift: "evolves R (liftH r)"
  by (simp add: evolves_def liftH_def refl_R)

lemma evolves_get: "evolves R (getH f)"
  by (simp add: evolves_def getH_def refl_R)

lemma evolves_raise_if: "evolves R (raise_ifH b e)"
  by (simp add: raise_ifH_def evolves_lift)

lemma evolves_modify: "(\<And>s. R s (f s)) \<Longrightarrow> evolves R (modifyH f)"
  by (simp add: evolves_def modifyH_def)

lemma evolves_when: "(c \<Longrightarrow> evolves R m) \<Longrightarrow> evolves R (whenH c m)"
  by (simp add: whenH_def evolves_return)

lemma evolves_if: "(c \<Longrightarrow> evolves R m) \<Longrightarrow> (\<not> c \<Longrightarrow> evolves R n) \<Longrightarrow> evolves R (if c then m else n)"
  by simp

lemma evolves_case_option:
  "(x = None \<Longrightarrow> evolves R m) \<Longrightarrow> (\<And>y. x = Some y \<Longrightarrow> evolves R (n y)) \<Longrightarrow>
    evolves R (case x of None \<Rightarrow> m | Some y \<Rightarrow> n y)"
  by (cases x) simp_all

lemma evolves_bind:
  assumes "evolves R m" and "\<And>x. evolves R (f x)"
  shows "evolves R (bindH m f)"
proof -
  have "R s (snd (bindH m f s))" for s
  proof (cases "m s")
    case (Pair r s')
    from assms(1) Pair have step: "R s s'" by (rule evolvesD)
    show ?thesis
    proof (cases r)
      case (Inl e)
      then show ?thesis using Pair step by (simp add: bindH_def)
    next
      case (Inr x)
      have "R s' (snd (f x s'))" using assms(2) by (simp add: evolves_def)
      with Pair Inr step show ?thesis by (simp add: bindH_def trans_R [OF step])
    qed
  qed
  then show ?thesis by (simp add: evolves_def)
qed

lemma evolves_transact:
  assumes "evolves R m"
  shows "evolves R (transact m)"
proof -
  have "R s (snd (transact m s))" for s
  proof (cases "m s")
    case (Pair r s')
    from assms Pair have step: "R s s'" by (rule evolvesD)
    show ?thesis using Pair step by (cases r) (simp_all add: transact_def refl_R)
  qed
  then show ?thesis by (simp add: evolves_def)
qed

lemma evolves_catch:
  assumes "evolves R m" and "\<And>e. evolves R (h e)"
  shows "evolves R (catchH m h)"
proof -
  have "R s (snd (catchH m h s))" for s
  proof (cases "m s")
    case (Pair r t)
    from assms(1) Pair have step: "R s t" by (rule evolvesD)
    show ?thesis
    proof (cases r)
      case (Inl e)
      have "R t (snd (h e t))" using assms(2) by (simp add: evolves_def)
      with Pair Inl show ?thesis by (simp add: catchH_def trans_R [OF step])
    next
      case (Inr x)
      with Pair step show ?thesis by (simp add: catchH_def)
    qed
  qed
  then show ?thesis by (simp add: evolves_def)
qed

lemma keeps_return: "keeps R s (returnH x)"
  by (simp add: keeps_def returnH_def refl_R)

lemma keeps_raise: "keeps R s (raiseH e)"
  by (simp add: keeps_def raiseH_def refl_R)

lemma keeps_lift: "keeps R s (liftH r)"
  by (simp add: keeps_def liftH_def refl_R)

lemma keeps_lift_bind: "(\<And>x. r = Inr x \<Longrightarrow> keeps R s (f x)) \<Longrightarrow> keeps R s (bindH (liftH r) f)"
  by (cases r) (simp_all add: keeps_def bindH_def liftH_def refl_R)

lemma keeps_get_bind: "keeps R s (f (g s)) \<Longrightarrow> keeps R s (bindH (getH g) f)"
  by (simp add: keeps_def bindH_def getH_def)

lemma keeps_raise_if_bind: "(\<not> b \<Longrightarrow> keeps R s (f ())) \<Longrightarrow> keeps R s (bindH (raise_ifH b e) f)"
  unfolding raise_ifH_def by (rule keeps_lift_bind) (simp add: raise_if_Inr_iff)

lemma keeps_modify_bind:
  "R s (g s) \<Longrightarrow> keeps R (g s) (f ()) \<Longrightarrow> keeps R s (bindH (modifyH g) f)"
  by (simp add: keeps_def bindH_def modifyH_def trans_R [of s "g s"])

lemma keeps_bind:
  assumes "keeps R s m" and "\<And>x t. m s = (Inr x, t) \<Longrightarrow> keeps R t (f x)"
  shows "keeps R s (bindH m f)"
proof (cases "m s")
  case (Pair r t)
  from assms(1) Pair have step: "R s t" by (rule keepsD)
  show ?thesis
  proof (cases r)
    case (Inl e)
    with Pair step show ?thesis by (simp add: keeps_def bindH_def)
  next
    case (Inr x)
    with assms(2) Pair have "R t (snd (f x t))" by (simp add: keeps_def)
    with Pair Inr show ?thesis by (simp add: keeps_def bindH_def trans_R [OF step])
  qed
qed

text \<open>A guard that may write before it raises and leaves the store alone when it returns.\<close>

lemma keeps_guard_bind:
  assumes "keeps R s m" and "\<And>x t. m s = (Inr x, t) \<Longrightarrow> t = s"
    and "\<And>x. m s = (Inr x, s) \<Longrightarrow> keeps R s (f x)"
  shows "keeps R s (bindH m f)"
  using assms(1)
proof (rule keeps_bind)
  fix x t assume "m s = (Inr x, t)"
  with assms(2,3) show "keeps R t (f x)" by blast
qed

text \<open>A step after which only handlers follow that respect the relation anywhere.\<close>

lemma keeps_step_bind: "keeps R s m \<Longrightarrow> (\<And>x. evolves R (f x)) \<Longrightarrow> keeps R s (bindH m f)"
  by (rule keeps_bind) (simp_all add: evolves_keeps)

lemmas keeps_rules =
  keeps_return keeps_raise keeps_lift keeps_lift_bind keeps_get_bind keeps_raise_if_bind

lemmas evolves_rules =
  evolves_return evolves_raise evolves_lift evolves_get evolves_raise_if evolves_when
  evolves_if evolves_case_option evolves_bind evolves_transact

end

section \<open>Tables\<close>

definition row_get :: "('r \<Rightarrow> 'k) \<Rightarrow> 'k \<Rightarrow> 'r list \<Rightarrow> 'r option" where
  "row_get key k rows = find (\<lambda>r. key r = k) rows"

definition row_put :: "('r \<Rightarrow> 'k) \<Rightarrow> 'r \<Rightarrow> 'r list \<Rightarrow> 'r list" where
  "row_put key r rows = map (\<lambda>x. if key x = key r then r else x) rows"

definition row_add :: "'r \<Rightarrow> 'r list \<Rightarrow> 'r list" where
  "row_add r rows = rows @ [r]"

lemma find_map_same:
  "(\<And>x. P (f x) = P x) \<Longrightarrow> find P (map f xs) = map_option f (find P xs)"
  by (induction xs) auto

lemma find_append: "find P (xs @ ys) = (case find P xs of None \<Rightarrow> find P ys | Some x \<Rightarrow> Some x)"
  by (induction xs) auto

lemma find_cong_set: "(\<And>x. x \<in> set xs \<Longrightarrow> P x = Q x) \<Longrightarrow> find P xs = find Q xs"
  by (induction xs) auto

lemma find_SomeD: "find P xs = Some x \<Longrightarrow> x \<in> set xs \<and> P x"
  by (induction xs) (auto split: if_splits)

lemma find_None_conv: "find P xs = None \<longleftrightarrow> (\<forall>x \<in> set xs. \<not> P x)"
  by (induction xs) auto

lemma row_get_SomeD: "row_get key k rows = Some r \<Longrightarrow> r \<in> set rows \<and> key r = k"
  by (auto simp: row_get_def dest: find_SomeD)

lemma row_get_Some_key: "row_get key k rows = Some r \<Longrightarrow> key r = k"
  by (auto dest: row_get_SomeD)

lemma row_get_None_conv: "row_get key k rows = None \<longleftrightarrow> k \<notin> key ` set rows"
  by (auto simp: row_get_def find_None_conv)

lemma row_get_member: "distinct (map key rows) \<Longrightarrow> r \<in> set rows \<Longrightarrow> row_get key (key r) rows = Some r"
  by (induction rows) (auto simp: row_get_def image_iff)

lemma row_put_same: "distinct (map key rows) \<Longrightarrow> r \<in> set rows \<Longrightarrow> row_put key r rows = rows"
  by (auto simp: row_put_def distinct_map inj_on_def intro!: map_idI)

lemma row_get_put:
  "row_get key k (row_put key r rows) =
    (if k = key r then map_option (\<lambda>_. r) (row_get key k rows) else row_get key k rows)"
  by (induction rows) (auto simp: row_get_def row_put_def)

lemma row_get_add:
  "row_get key k (row_add r rows) =
    (case row_get key k rows of None \<Rightarrow> (if k = key r then Some r else None) | Some x \<Rightarrow> Some x)"
  by (auto simp: row_get_def row_add_def find_append split: option.splits)

lemma keys_row_put [simp]: "map key (row_put key r rows) = map key rows"
  by (simp add: row_put_def)

lemma keys_set_row_put [simp]: "key ` set (row_put key r rows) = key ` set rows"
  by (metis keys_row_put set_map)

lemma set_row_putD: "x \<in> set (row_put key r rows) \<Longrightarrow> x = r \<or> (x \<in> set rows \<and> key x \<noteq> key r)"
  by (auto simp: row_put_def split: if_splits)

lemma set_row_put_old: "x \<in> set rows \<Longrightarrow> key x \<noteq> key r \<Longrightarrow> x \<in> set (row_put key r rows)"
  by (force simp: row_put_def)

lemma set_row_put_new: "key r \<in> key ` set rows \<Longrightarrow> r \<in> set (row_put key r rows)"
  by (force simp: row_put_def)

lemma set_row_add [simp]: "set (row_add r rows) = insert r (set rows)"
  by (auto simp: row_add_def)

lemma length_row_put [simp]: "length (row_put key r rows) = length rows"
  by (simp add: row_put_def)

text \<open>The laws a client of a table relies on.\<close>

locale keyed_table =
  fixes key :: "'r \<Rightarrow> 'k"
    and get :: "'k \<Rightarrow> 'r list \<Rightarrow> 'r option"
    and put :: "'r \<Rightarrow> 'r list \<Rightarrow> 'r list"
    and add :: "'r \<Rightarrow> 'r list \<Rightarrow> 'r list"
  assumes get_key: "get k rows = Some r \<Longrightarrow> key r = k"
    and get_put: "get k (put r rows) = (if k = key r then map_option (\<lambda>_. r) (get k rows) else get k rows)"
    and get_add: "get k (add r rows) =
        (case get k rows of None \<Rightarrow> (if k = key r then Some r else None) | Some x \<Rightarrow> Some x)"
    and keys_put: "map key (put r rows) = map key rows"
    and keys_add: "map key (add r rows) = map key rows @ [key r]"
begin

lemma get_put_same: "get (key r) rows = Some old \<Longrightarrow> get (key r) (put r rows) = Some r"
  by (simp add: get_put)

lemma get_put_other: "k \<noteq> key r \<Longrightarrow> get k (put r rows) = get k rows"
  by (simp add: get_put)

lemma get_add_fresh: "get (key r) rows = None \<Longrightarrow> get (key r) (add r rows) = Some r"
  by (simp add: get_add)

lemma get_add_keep: "get k rows = Some x \<Longrightarrow> get k (add r rows) = Some x"
  by (simp add: get_add)

lemma put_put_commute_get:
  "key r \<noteq> key r' \<Longrightarrow> get k (put r (put r' rows)) = get k (put r' (put r rows))"
  by (simp add: get_put)

lemma distinct_put: "distinct (map key rows) \<Longrightarrow> distinct (map key (put r rows))"
  by (simp add: keys_put)

lemma distinct_add:
  "distinct (map key rows) \<Longrightarrow> key r \<notin> set (map key rows) \<Longrightarrow> distinct (map key (add r rows))"
  by (simp add: keys_add)

end

lemma keyed_table_rows: "keyed_table key (row_get key) (row_put key) row_add"
proof unfold_locales
  show "row_get key k rows = Some r \<Longrightarrow> key r = k" for k rows r
    by (rule row_get_Some_key)
  show "row_get key k (row_put key r rows) =
      (if k = key r then map_option (\<lambda>_. r) (row_get key k rows) else row_get key k rows)" for k r rows
    by (rule row_get_put)
  show "row_get key k (row_add r rows) =
      (case row_get key k rows of None \<Rightarrow> if k = key r then Some r else None | Some x \<Rightarrow> Some x)"
    for k r rows
    by (rule row_get_add)
  show "map key (row_put key r rows) = map key rows" for r rows
    by (rule keys_row_put)
  show "map key (row_add r rows) = map key rows @ [key r]" for r rows
    by (simp add: row_add_def)
qed

end
