(* ===== verification/Json.thy ===== *)
theory Json
  imports Prelude "HOL-Library.Multiset"
begin

text \<open>
  JSON values as Python's \<open>json\<close> module and the SQL JSON columns hold them, and the text
  \<open>json.dumps(value, sort_keys=True, separators=(",", ":"), ensure_ascii=False)\<close> that every
  hash of the program is taken over (\<open>services/approvals.py\<close>, \<open>services/preflight.py\<close>,
  \<open>services/executions.py\<close>, \<open>services/automation_policy.py\<close>).

  A \<open>float\<close> is represented by its \<open>repr\<close>, which determines it. The main result is that
  the text determines the value up to the order of object members, so that two records
  with the same digest are the same record or collide under SHA-256.
\<close>

datatype json =
    JNull
  | JBool bool
  | JInt int
  | JFloat string
  | JStr string
  | JList "json list"
  | JObj "(string \<times> json) list"

section \<open>Decimal integers\<close>

definition digit_char :: "nat \<Rightarrow> char" where
  "digit_char n = char_of (48 + n)"

definition char_digit :: "char \<Rightarrow> nat" where
  "char_digit c = of_char c - 48"

fun show_nat :: "nat \<Rightarrow> string" where
  "show_nat n = (if n < 10 then [digit_char n] else show_nat (n div 10) @ [digit_char (n mod 10)])"

declare show_nat.simps [simp del]

definition show_int :: "int \<Rightarrow> string" where
  "show_int i = (if i < 0 then ''-'' @ show_nat (nat (- i)) else show_nat (nat i))"

definition is_digit :: "char \<Rightarrow> bool" where
  "is_digit c \<longleftrightarrow> 48 \<le> (of_char c :: int) \<and> (of_char c :: int) \<le> 57"

definition read_nat :: "string \<Rightarrow> nat" where
  "read_nat s = foldl (\<lambda>a c. a * 10 + char_digit c) 0 s"

lemma of_char_digit: "n < 10 \<Longrightarrow> (of_char (digit_char n) :: nat) = 48 + n"
  by (simp add: digit_char_def)

lemma char_digit_digit_char: "n < 10 \<Longrightarrow> char_digit (digit_char n) = n"
  by (simp add: char_digit_def of_char_digit)

lemma of_char_digit_int: "n < 10 \<Longrightarrow> (of_char (digit_char n) :: int) = 48 + int n"
  by (metis of_char_digit of_nat_add of_nat_numeral of_nat_of_char)

lemma is_digit_digit_char: "n < 10 \<Longrightarrow> is_digit (digit_char n)"
  by (simp add: is_digit_def of_char_digit_int)

lemma read_show_nat: "read_nat (show_nat n) = n"
proof (induction n rule: show_nat.induct)
  case (1 n)
  show ?case
  proof (cases "n < 10")
    case True
    then show ?thesis by (simp add: show_nat.simps [of n] read_nat_def char_digit_digit_char)
  next
    case False
    have "read_nat (show_nat n) = read_nat (show_nat (n div 10)) * 10 + n mod 10"
      using False
      by (subst show_nat.simps) (simp add: read_nat_def char_digit_digit_char)
    with False 1 show ?thesis by simp
  qed
qed

lemma show_nat_digits: "\<forall>c \<in> set (show_nat n). is_digit c"
proof (induction n rule: show_nat.induct)
  case (1 n)
  show ?case
    using 1 by (cases "n < 10") (simp_all add: show_nat.simps [of n] is_digit_digit_char)
qed

lemma show_nat_nonempty [simp]: "show_nat n \<noteq> []"
  by (simp add: show_nat.simps)

lemma show_nat_inj: "show_nat m = show_nat n \<Longrightarrow> m = n"
  by (metis read_show_nat)

lemma minus_not_digit: "\<not> is_digit (CHR ''-'')"
  by (simp add: is_digit_def)

lemma show_nat_hd_digit: "is_digit (hd (show_nat n))"
  using show_nat_digits [of n] by (cases "show_nat n") auto

lemma show_nat_not_minus: "show_nat n \<noteq> CHR ''-'' # xs"
  using show_nat_hd_digit [of n] minus_not_digit by (metis list.sel(1))

lemma show_int_inj: "show_int i = show_int j \<Longrightarrow> i = j"
  by (auto simp: show_int_def show_nat_not_minus dest: show_nat_inj split: if_splits)
    (metis show_nat_not_minus)

definition read_int :: "string \<Rightarrow> int" where
  "read_int s = (if take 1 s = ''-'' then - int (read_nat (drop 1 s)) else int (read_nat s))"

lemma read_show_int: "read_int (show_int i) = i"
proof -
  have "take 1 (show_nat n) \<noteq> ''-''" for n
    using show_nat_not_minus [of n] by (cases "show_nat n") auto
  then show ?thesis by (simp add: read_int_def show_int_def read_show_nat)
qed

definition number_char :: "char \<Rightarrow> bool" where
  "number_char c \<longleftrightarrow> is_digit c \<or> c = CHR ''-''"

lemma show_int_chars: "\<forall>c \<in> set (show_int i). number_char c"
  using show_nat_digits by (auto simp: show_int_def number_char_def)

lemma show_int_nonempty [simp]: "show_int i \<noteq> []"
  by (simp add: show_int_def)

section \<open>String literals\<close>

definition hex_digit :: "nat \<Rightarrow> char" where
  "hex_digit n = (if n < 10 then char_of (48 + n) else char_of (87 + n))"

definition esc_char :: "char \<Rightarrow> string" where
  "esc_char c =
    (if c = CHR 0x22 then [CHR 0x5C, CHR 0x22]
     else if c = CHR 0x5C then [CHR 0x5C, CHR 0x5C]
     else if c = CHR 0x08 then [CHR 0x5C, CHR ''b'']
     else if c = CHR 0x0C then [CHR 0x5C, CHR ''f'']
     else if c = CHR 0x0A then [CHR 0x5C, CHR ''n'']
     else if c = CHR 0x0D then [CHR 0x5C, CHR ''r'']
     else if c = CHR 0x09 then [CHR 0x5C, CHR ''t'']
     else if (of_char c :: nat) < 32 then
       [CHR 0x5C, CHR ''u'', CHR ''0'', CHR ''0'',
        hex_digit (of_char c div 16), hex_digit (of_char c mod 16)]
     else [c])"

definition quote_str :: "string \<Rightarrow> string" where
  "quote_str s = CHR 0x22 # concat (map esc_char s) @ [CHR 0x22]"

lemma of_char_hex_digit: "n < 16 \<Longrightarrow> (of_char (hex_digit n) :: nat) = (if n < 10 then 48 + n else 87 + n)"
  by (simp add: hex_digit_def)

lemma hex_digit_inj: "m < 16 \<Longrightarrow> n < 16 \<Longrightarrow> hex_digit m = hex_digit n \<longleftrightarrow> m = n"
  by (auto simp: of_char_hex_digit split: if_splits dest!: arg_cong [where f = "of_char :: char \<Rightarrow> nat"])

lemma esc_char_quote_start: "esc_char c @ u \<noteq> CHR 0x22 # v"
  by (auto simp: esc_char_def)

lemma esc_char_split:
  assumes "esc_char c @ u = esc_char d @ v"
  shows "c = d \<and> u = v"
proof -
  have ctrl: "c' = d'"
    if "hex_digit (of_char c' div 16) = hex_digit (of_char d' div 16)"
      "hex_digit (of_char c' mod 16) = hex_digit (of_char d' mod 16)"
      "(of_char c' :: nat) < 32" "(of_char d' :: nat) < 32" for c' d' :: char
  proof -
    have "(of_char c' :: nat) div 16 = of_char d' div 16" "(of_char c' :: nat) mod 16 = of_char d' mod 16"
      using that by (simp_all add: hex_digit_inj)
    then have "(of_char c' :: nat) = of_char d'" by (metis div_mult_mod_eq)
    then show ?thesis by simp
  qed
  show ?thesis
    using assms by (auto simp: esc_char_def split: if_splits dest: ctrl)
qed

lemma esc_str_split:
  "concat (map esc_char s) @ CHR 0x22 # u = concat (map esc_char t) @ CHR 0x22 # v \<Longrightarrow> s = t \<and> u = v"
proof (induction s arbitrary: t)
  case Nil
  then show ?case
    using esc_char_quote_start by (cases t) (auto simp: eq_commute [of "CHR 0x22 # u"])
next
  case (Cons c s)
  show ?case
  proof (cases t)
    case Nil
    with Cons.prems esc_char_quote_start show ?thesis by auto
  next
    case (Cons d t')
    with Cons.prems have "esc_char c @ concat (map esc_char s) @ CHR 0x22 # u =
      esc_char d @ concat (map esc_char t') @ CHR 0x22 # v" by simp
    from esc_char_split [OF this] Cons.IH [of t'] Cons show ?thesis by auto
  qed
qed

lemma quote_str_split: "quote_str s @ u = quote_str t @ v \<Longrightarrow> s = t \<and> u = v"
  by (rule esc_str_split) (simp add: quote_str_def)

section \<open>Serialised text\<close>

fun join :: "string \<Rightarrow> string list \<Rightarrow> string" where
  "join sep [] = []"
| "join sep [x] = x"
| "join sep (x # y # zs) = x @ sep @ join sep (y # zs)"

definition member_text :: "string \<times> string \<Rightarrow> string" where
  "member_text kv = quote_str (fst kv) @ '':'' @ snd kv"

primrec emit :: "json \<Rightarrow> string" where
  "emit JNull = ''null''"
| "emit (JBool b) = (if b then ''true'' else ''false'')"
| "emit (JInt i) = show_int i"
| "emit (JFloat r) = r"
| "emit (JStr s) = quote_str s"
| "emit (JList xs) = ''['' @ join '','' (map emit xs) @ '']''"
| "emit (JObj kvs) = ''{'' @ join '','' (map member_text (map (map_prod id emit) kvs)) @ ''}''"

text \<open>Members in the order of their keys, at every level (\<open>sort_keys=True\<close>).\<close>

primrec canon :: "json \<Rightarrow> json" where
  "canon JNull = JNull"
| "canon (JBool b) = JBool b"
| "canon (JInt i) = JInt i"
| "canon (JFloat r) = JFloat r"
| "canon (JStr s) = JStr s"
| "canon (JList xs) = JList (map canon xs)"
| "canon (JObj kvs) = JObj (sort_key fst (map (map_prod id canon) kvs))"

definition dumps :: "json \<Rightarrow> string" where
  "dumps j = emit (canon j)"

text \<open>
  The texts of floats: \<open>repr\<close> of a finite float, or \<open>NaN\<close>, \<open>Infinity\<close>,
  \<open>-Infinity\<close>. Every one of them starts like a number or a name in upper case, holds a
  character an integer does not, and holds none of the characters that end a value.
\<close>

definition float_text :: "string \<Rightarrow> bool" where
  "float_text r \<longleftrightarrow> r \<noteq> [] \<and> (is_digit (hd r) \<or> hd r \<in> set ''-NI'')
    \<and> (\<exists>c \<in> set r. \<not> number_char c) \<and> (\<forall>c \<in> set r. c \<notin> set '',]}'')"

primrec json_wf :: "json \<Rightarrow> bool" where
  "json_wf JNull = True"
| "json_wf (JBool b) = True"
| "json_wf (JInt i) = True"
| "json_wf (JFloat r) = float_text r"
| "json_wf (JStr s) = True"
| "json_wf (JList xs) = list_all id (map json_wf xs)"
| "json_wf (JObj kvs) =
    (distinct (map fst kvs) \<and> list_all id (map snd (map (map_prod id json_wf) kvs)))"

section \<open>The text determines the value\<close>

definition ends_value :: "string \<Rightarrow> bool" where
  "ends_value r \<longleftrightarrow> r = [] \<or> hd r \<in> set '',]}''"

lemma ends_value_simps [simp]:
  "ends_value []"
  "ends_value (CHR '','' # r)"
  "ends_value (CHR '']'' # r)"
  "ends_value (CHR ''}'' # r)"
  by (simp_all add: ends_value_def)

definition self_delimiting :: "('a \<Rightarrow> string) \<Rightarrow> 'a \<Rightarrow> ('a \<Rightarrow> bool) \<Rightarrow> bool" where
  "self_delimiting e x ok \<longleftrightarrow> (\<forall>y r r'. ok y \<longrightarrow> e x @ r = e y @ r' \<longrightarrow> ends_value r \<longrightarrow> ends_value r'
    \<longrightarrow> x = y \<and> r = r')"

lemma self_delimitingD:
  "self_delimiting e x ok \<Longrightarrow> ok y \<Longrightarrow> e x @ r = e y @ r' \<Longrightarrow> ends_value r \<Longrightarrow> ends_value r'
    \<Longrightarrow> x = y \<and> r = r'"
  by (auto simp: self_delimiting_def)

lemma join_Cons: "join sep (x # xs) = x @ (if xs = [] then [] else sep @ join sep xs)"
  by (cases xs) simp_all

lemma join_map_split:
  assumes "\<forall>x \<in> set xs. self_delimiting e x ok" and "\<forall>y \<in> set ys. ok y"
    and start: "\<forall>z \<in> set xs \<union> set ys. e z \<noteq> [] \<and> hd (e z) \<notin> set '']}''"
    and c: "c \<in> set '']}''"
    and eq: "join '','' (map e xs) @ c # r = join '','' (map e ys) @ c # r'"
  shows "xs = ys \<and> r = r'"
  using assms(1,2) start eq
proof (induction xs arbitrary: ys)
  case Nil
  show ?case
  proof (cases ys)
    case Nil
    with Nil.prems show ?thesis by simp
  next
    case (Cons y ys')
    with Nil.prems(3) obtain z w where "e y = z # w" "z \<notin> set '']}''"
      by (cases "e y") auto
    with Nil.prems(4) Cons c show ?thesis
      by (auto simp: join_Cons split: if_splits)
  qed
next
  case (Cons x xs)
  show ?case
  proof (cases ys)
    case Nil
    with Cons.prems(3) obtain z w where "e x = z # w" "z \<notin> set '']}''"
      by (cases "e x") auto
    with Cons.prems(4) Nil c show ?thesis
      by (auto simp: join_Cons split: if_splits)
  next
    case (Cons y ys')
    let ?t = "\<lambda>zs q. (if zs = [] then [] else '','' @ join '','' (map e zs)) @ c # q"
    have split: "e x @ ?t xs r = e y @ ?t ys' r'"
      using Cons.prems(4) Cons by (simp add: join_Cons)
    have ends: "ends_value (?t zs q)" for zs q using c by auto
    have sd: "self_delimiting e x ok" and oky: "ok y" using Cons.prems(1,2) Cons by auto
    have same: "x = y" "?t xs r = ?t ys' r'"
      using self_delimitingD [OF sd oky split ends ends] by simp_all
    have "join '','' (map e xs) @ c # r = join '','' (map e ys') @ c # r'"
      using same(2) c by (auto split: if_splits)
    with Cons.IH [of ys'] Cons.prems(1,2,3) Cons same(1) show ?thesis by simp
  qed
qed

definition member_emit :: "string \<times> json \<Rightarrow> string" where
  "member_emit kv = member_text (map_prod id emit kv)"

lemma emit_JObj: "emit (JObj kvs) = ''{'' @ join '','' (map member_emit kvs) @ ''}''"
  by (simp add: member_emit_def [abs_def] comp_def)

lemma self_delimiting_member:
  "self_delimiting emit (snd kv) json_wf \<Longrightarrow> self_delimiting member_emit kv (json_wf \<circ> snd)"
  unfolding self_delimiting_def member_emit_def member_text_def
  by (cases kv) (auto dest!: quote_str_split)

lemma json_wf_members: "json_wf (JObj kvs) \<Longrightarrow> kv \<in> set kvs \<Longrightarrow> json_wf (snd kv)"
  by (auto simp: list_all_iff)

lemma json_wf_items: "json_wf (JList xs) \<Longrightarrow> x \<in> set xs \<Longrightarrow> json_wf x"
  by (auto simp: list_all_iff)

text \<open>The first character of a text tells the constructor, numbers apart.\<close>

lemma numeral_text_head:
  "is_digit (hd (show_int i)) \<or> hd (show_int i) = CHR ''-''"
  by (auto simp: show_int_def show_nat_hd_digit)

lemma not_digit_marks [simp]:
  "\<not> is_digit (CHR ''n'')" "\<not> is_digit (CHR ''t'')" "\<not> is_digit (CHR ''f'')"
  "\<not> is_digit (CHR 0x22)" "\<not> is_digit (CHR ''['')" "\<not> is_digit (CHR ''{'')"
  "\<not> is_digit (CHR '','')" "\<not> is_digit (CHR '']'')" "\<not> is_digit (CHR ''}'')"
  by (simp_all add: is_digit_def)

definition number_head :: "char \<Rightarrow> bool" where
  "number_head c \<longleftrightarrow> is_digit c \<or> c \<in> set ''-NI''"

fun number_like :: "json \<Rightarrow> bool" where
  "number_like (JInt i) = True"
| "number_like (JFloat r) = True"
| "number_like _ = False"

lemma number_like_emit:
  assumes "number_like j" and "json_wf j"
  shows "emit j \<noteq> []" and "number_head (hd (emit j))" and "\<forall>c \<in> set (emit j). c \<notin> set '',]}''"
proof -
  have int: "\<forall>c \<in> set (show_int i). c \<notin> set '',]}''" for i
    using show_int_chars [of i] by (auto simp: number_char_def)
  show "emit j \<noteq> []" "number_head (hd (emit j))" "\<forall>c \<in> set (emit j). c \<notin> set '',]}''"
    using assms numeral_text_head int
    by (cases j; force simp: number_head_def float_text_def)+
qed

lemma other_emit_head:
  "\<not> number_like j \<Longrightarrow> emit j \<noteq> [] \<and> \<not> number_head (hd (emit j))"
  by (cases j) (auto simp: number_head_def quote_str_def)

lemma takeWhile_value:
  "\<forall>c \<in> set u. c \<notin> set '',]}'' \<Longrightarrow> ends_value r \<Longrightarrow> takeWhile (\<lambda>c. c \<notin> set '',]}'') (u @ r) = u"
  by (induction u; cases r) (auto simp: ends_value_def)

lemma number_emit_inj:
  assumes "number_like j" "number_like k" "json_wf j" "json_wf k" "emit j = emit k"
  shows "j = k"
  using assms show_int_chars
  by (cases j; cases k) (auto simp: float_text_def dest: show_int_inj)

lemma self_delimiting_number:
  assumes "number_like j" and "json_wf j"
  shows "self_delimiting emit j json_wf"
  unfolding self_delimiting_def
proof (intro allI impI)
  fix k r r'
  assume k: "json_wf k" and eq: "emit j @ r = emit k @ r'" and r: "ends_value r" "ends_value r'"
  have "hd (emit k) = hd (emit j)"
    using eq number_like_emit(1) [OF assms] other_emit_head [of k] number_like_emit(1) [of k] k
    by (metis hd_append2)
  then have num: "number_like k"
    using other_emit_head [of k] number_like_emit(2) [OF assms] by auto
  have "emit j = emit k"
    using takeWhile_value [OF number_like_emit(3) [OF assms] r(1)]
      takeWhile_value [OF number_like_emit(3) [OF num k] r(2)] eq by simp
  with number_emit_inj [OF assms(1) num assms(2) k] eq show "j = k \<and> r = r'" by simp
qed

lemma emit_start: "json_wf j \<Longrightarrow> emit j \<noteq> [] \<and> hd (emit j) \<notin> set ''],}''"
  using number_like_emit(1,2) [of j] by (cases j) (auto simp: number_head_def quote_str_def)

lemma emit_same_head:
  "emit j @ r = emit k @ r' \<Longrightarrow> json_wf j \<Longrightarrow> json_wf k \<Longrightarrow> hd (emit k) = hd (emit j)"
  by (metis emit_start hd_append2)

lemma number_head_cases: "json_wf k \<Longrightarrow> \<not> number_head (hd (emit k)) \<Longrightarrow> \<not> number_like k"
  using number_like_emit(2) by blast

lemma hd_emit_bool: "hd (emit (JBool b)) = (if b then CHR ''t'' else CHR ''f'')"
  by simp

lemma self_delimiting_json: "json_wf j \<Longrightarrow> self_delimiting emit j json_wf"
proof (induction j)
  case JNull
  show ?case
    unfolding self_delimiting_def
  proof (intro allI impI)
    fix k r r'
    assume k: "json_wf k" "emit JNull @ r = emit k @ r'"
    then show "JNull = k \<and> r = r'"
      using emit_same_head [OF k(2) _ k(1)] number_head_cases [OF k(1)]
      by (cases k) (auto simp: quote_str_def number_head_def split: if_splits)
  qed
next
  case (JBool b)
  show ?case
    unfolding self_delimiting_def
  proof (intro allI impI)
    fix k r r'
    assume k: "json_wf k" "emit (JBool b) @ r = emit k @ r'"
    then show "JBool b = k \<and> r = r'"
      using emit_same_head [OF k(2) _ k(1)] number_head_cases [OF k(1)]
      by (cases k) (auto simp: quote_str_def number_head_def split: if_splits)
  qed
next
  case (JInt i)
  then show ?case by (intro self_delimiting_number) simp_all
next
  case (JFloat r)
  then show ?case by (intro self_delimiting_number) simp_all
next
  case (JStr s)
  show ?case
    unfolding self_delimiting_def
  proof (intro allI impI)
    fix k r r'
    assume k: "json_wf k" "emit (JStr s) @ r = emit k @ r'"
    show "JStr s = k \<and> r = r'"
    proof (cases "\<exists>t. k = JStr t")
      case True
      with k(2) quote_str_split [of s r] show ?thesis by auto
    next
      case False
      with k emit_same_head [OF k(2) _ k(1)] number_head_cases [OF k(1)] show ?thesis
        by (cases k) (auto simp: quote_str_def number_head_def split: if_splits)
    qed
  qed
next
  case (JList xs)
  show ?case
    unfolding self_delimiting_def
  proof (intro allI impI)
    fix k r r'
    assume k: "json_wf k" "emit (JList xs) @ r = emit k @ r'"
    show "JList xs = k \<and> r = r'"
    proof (cases "\<exists>ys. k = JList ys")
      case True
      then obtain ys where ys: "k = JList ys" by blast
      have items: "\<forall>x \<in> set xs. json_wf x" "\<forall>y \<in> set ys. json_wf y"
        using JList.prems k(1) json_wf_items ys by blast+
      have "xs = ys \<and> r = r'"
      proof (rule join_map_split [where e = emit and ok = json_wf and c = "CHR '']''"])
        show "\<forall>x \<in> set xs. self_delimiting emit x json_wf" using JList.IH items(1) by blast
        show "\<forall>z \<in> set xs \<union> set ys. emit z \<noteq> [] \<and> hd (emit z) \<notin> set '']}''"
          using items emit_start by auto
      qed (use items ys k(2) in auto)
      with ys show ?thesis by simp
    next
      case False
      with k emit_same_head [OF k(2) JList.prems k(1)] number_head_cases [OF k(1)] show ?thesis
        by (cases k) (auto simp: quote_str_def number_head_def split: if_splits)
    qed
  qed
next
  case (JObj xs)
  show ?case
    unfolding self_delimiting_def
  proof (intro allI impI)
    fix k r r'
    assume k: "json_wf k" "emit (JObj xs) @ r = emit k @ r'"
    show "JObj xs = k \<and> r = r'"
    proof (cases "\<exists>ys. k = JObj ys")
      case True
      then obtain ys where ys: "k = JObj ys" by blast
      have items: "\<forall>x \<in> set xs. json_wf (snd x)" "\<forall>y \<in> set ys. json_wf (snd y)"
        using JObj.prems k(1) json_wf_members ys by blast+
      have "xs = ys \<and> r = r'"
      proof (rule join_map_split [where e = member_emit and ok = "json_wf \<circ> snd" and c = "CHR ''}''"])
        show "\<forall>x \<in> set xs. self_delimiting member_emit x (json_wf \<circ> snd)"
          using JObj.IH items(1) by (metis self_delimiting_member snds.intros prod.collapse)
        show "\<forall>z \<in> set xs \<union> set ys. member_emit z \<noteq> [] \<and> hd (member_emit z) \<notin> set '']}''"
          by (simp add: member_emit_def member_text_def quote_str_def)
        show "join '','' (map member_emit xs) @ CHR ''}'' # r = join '','' (map member_emit ys) @ CHR ''}'' # r'"
          using k(2) unfolding ys emit_JObj by simp
      qed (use items in auto)
      with ys show ?thesis by simp
    next
      case False
      with k emit_same_head [OF k(2) JObj.prems k(1)] number_head_cases [OF k(1)] show ?thesis
        by (cases k) (auto simp: quote_str_def number_head_def split: if_splits)
    qed
  qed
qed

lemma emit_inj: "json_wf j \<Longrightarrow> json_wf k \<Longrightarrow> emit j = emit k \<Longrightarrow> j = k"
  using self_delimitingD [OF self_delimiting_json, of j k "[]" "[]"] by simp

section \<open>Canonical form\<close>

lemma fst_map_prod_id [simp]: "fst (map_prod id f kv) = fst kv"
  by (cases kv) simp

lemma map_fst_map_prod_id: "map fst (map (map_prod id f) kvs) = map fst kvs"
  by simp

lemma json_wf_canon: "json_wf j \<Longrightarrow> json_wf (canon j)"
proof (induction j)
  case (JObj kvs)
  have "mset (map fst (sort_key fst (map (map_prod id canon) kvs))) = mset (map fst kvs)"
    by (simp add: multiset.map_comp comp_def)
  then have "distinct (map fst (sort_key fst (map (map_prod id canon) kvs)))"
    using JObj.prems mset_eq_imp_distinct_iff by fastforce
  then show ?case
    using JObj by (fastforce simp: list_all_iff)
qed (auto simp: list_all_iff)

lemma dumps_inj: "json_wf j \<Longrightarrow> json_wf k \<Longrightarrow> dumps j = dumps k \<Longrightarrow> canon j = canon k"
  unfolding dumps_def by (rule emit_inj [OF json_wf_canon json_wf_canon])

definition obj_get :: "string \<Rightarrow> json \<Rightarrow> json option" where
  "obj_get k j = (case j of JObj kvs \<Rightarrow> map_of kvs k | _ \<Rightarrow> None)"

lemma map_of_sort_key: "distinct (map fst kvs) \<Longrightarrow> map_of (sort_key fst kvs) = map_of kvs"
proof -
  assume d: "distinct (map fst kvs)"
  have "mset (map fst (sort_key fst kvs)) = mset (map fst kvs)"
    by (simp flip: image_mset.compositionality)
  then have "distinct (map fst (sort_key fst kvs))"
    using d mset_eq_imp_distinct_iff by blast
  with d show ?thesis by (intro map_of_eqI ballI) (auto simp: map_of_eq_Some_iff)
qed

lemma map_of_map_prod: "map_of (map (map_prod id f) kvs) k = map_option f (map_of kvs k)"
  by (induction kvs) auto

lemma obj_get_canon: "json_wf j \<Longrightarrow> obj_get k (canon j) = map_option canon (obj_get k j)"
  by (cases j) (simp_all add: obj_get_def map_of_sort_key map_of_map_prod)

text \<open>Equal texts have the same members, each up to the order of its own members.\<close>

lemma dumps_members:
  "json_wf j \<Longrightarrow> json_wf k \<Longrightarrow> dumps j = dumps k \<Longrightarrow>
    map_option canon (obj_get m j) = map_option canon (obj_get m k)"
  by (metis dumps_inj obj_get_canon)

lemma dumps_canon_eq: "canon j = canon k \<Longrightarrow> dumps j = dumps k"
  by (simp add: dumps_def)

lemma canon_scalar_simps [simp]:
  "canon j = JNull \<longleftrightarrow> j = JNull"
  "canon j = JStr s \<longleftrightarrow> j = JStr s"
  "canon j = JInt i \<longleftrightarrow> j = JInt i"
  "canon j = JBool b \<longleftrightarrow> j = JBool b"
  by (cases j; simp)+

definition opt_json :: "('a \<Rightarrow> json) \<Rightarrow> 'a option \<Rightarrow> json" where
  "opt_json f x = (case x of None \<Rightarrow> JNull | Some y \<Rightarrow> f y)"

definition strs_json :: "string list \<Rightarrow> json" where
  "strs_json xs = JList (map JStr xs)"

lemma opt_json_wf [simp]: "json_wf (opt_json f x) \<longleftrightarrow> (\<forall>y. x = Some y \<longrightarrow> json_wf (f y))"
  by (cases x) (simp_all add: opt_json_def)

lemma strs_json_wf [simp]: "json_wf (strs_json xs)"
  by (auto simp: strs_json_def list_all_iff)

lemma json_eq_simps [simp]:
  "opt_json JStr a = opt_json JStr b \<longleftrightarrow> a = b"
  "opt_json JInt i = opt_json JInt k \<longleftrightarrow> i = k"
  "strs_json xs = strs_json ys \<longleftrightarrow> xs = ys"
  by (auto simp: opt_json_def split: option.splits) (simp_all add: strs_json_def inj_map_eq_map inj_def)

lemma canon_leaves [simp]:
  "canon (opt_json JStr a) = opt_json JStr a"
  "canon (opt_json JInt i) = opt_json JInt i"
  "canon (strs_json xs) = strs_json xs"
  by (auto simp: opt_json_def strs_json_def split: option.split)

text \<open>The text is executable: the standard example of a nested value with unsorted keys.\<close>

lemma dumps_example:
  "dumps (JObj [(''b'', JList [JInt 12, JNull]), (''a'', JStr [CHR 0x0A])]) =
    ''{'' @ quote_str ''a'' @ '':'' @ [CHR 0x22, CHR 0x5C, CHR ''n'', CHR 0x22]
      @ '','' @ quote_str ''b'' @ '':[12,null]}''"
  by code_simp

end
