(* ===== verification/Platform.thy ===== *)
theory Platform
  imports Json Complex_Main
begin

text \<open>
  What the program uses of the Python language and standard library: text, time, errors.

  A \<open>str\<close> is held as its UTF-8 bytes; \<open>chars\<close> splits it into characters, so lengths,
  slices and per-character tests count characters as Python does. Case folding,
  printability and word membership of a character outside ASCII come from the Unicode
  tables, a parameter; white space is written out.

  The record \<open>lib\<close> holds the parameters: the Unicode tables, the digests, the text form
  of a timestamp, the value of a float text, the rounding of float arithmetic (to the nearest
  double, and \<open>round(x, 4)\<close>) and the text of its result, the NFKC and NFC forms of a text
  outside ASCII, whether a character outside ASCII is a control or format character, and pydantic's lax conversions of inputs that
  are not already of the field's type, the checks of
  \<open>urlsplit\<close> on a host outside ASCII or in brackets, and the display texts, by a key.
\<close>

text \<open>
  A timestamp, in microseconds since the epoch: with a time zone (the instant), or naive
  (the wall clock, as a database without time zones returns it).
\<close>

datatype datetime = Aware int | Naive int

text \<open>\<open>_as_utc\<close> of the services: a naive timestamp is read as UTC.\<close>

primrec as_utc :: "datetime \<Rightarrow> int" where
  "as_utc (Aware t) = t"
| "as_utc (Naive t) = t"

definition seconds :: "int \<Rightarrow> int" where "seconds n = n * 1000000"
definition minutes :: "int \<Rightarrow> int" where "minutes n = seconds (n * 60)"

record lib =
  sha256_hex :: "string \<Rightarrow> string"
  sha1_hex :: "string \<Rightarrow> string"
  fold_char :: "string \<Rightarrow> string"
  lower_char :: "string \<Rightarrow> string"
  printable_char :: "string \<Rightarrow> bool"
  word_char :: "string \<Rightarrow> bool"
  float_val :: "string \<Rightarrow> rat"
  dt_text :: "datetime \<Rightarrow> string"
  iso_text :: "datetime \<Rightarrow> string"
  lax_int :: "json \<Rightarrow> int option"
  lax_float :: "json \<Rightarrow> string option"
  lax_bool :: "json \<Rightarrow> bool option"
  parse_dt :: "json \<Rightarrow> datetime option"
  netloc_valid :: "string \<Rightarrow> bool"
  text_of :: "string \<Rightarrow> string"
  upper_char :: "string \<Rightarrow> string"
  alnum_char :: "string \<Rightarrow> bool"
  nfkc_text :: "string \<Rightarrow> string"
  uni_digit :: "string \<Rightarrow> nat option"
  fl_round :: "rat \<Rightarrow> rat"
  fl_round4 :: "rat \<Rightarrow> rat"
  fl_text :: "rat \<Rightarrow> string"
  nfc_text :: "string \<Rightarrow> string"
  control_char :: "string \<Rightarrow> bool"

text \<open>A digest of the canonical text fixes the value, up to the order of members and a collision.\<close>

lemma sealed_canon:
  assumes "sha256_hex L (dumps j) = sha256_hex L (dumps k)" and "json_wf j" and "json_wf k"
    and "inj_on (sha256_hex L) {dumps j, dumps k}"
  shows "canon j = canon k"
  by (rule dumps_inj [OF assms(2,3) inj_onD [OF assms(4,1)]]) simp_all

section \<open>Characters\<close>

definition byte :: "char \<Rightarrow> int" where "byte c = of_char c"

definition lead_length :: "char \<Rightarrow> nat" where
  "lead_length c =
    (if byte c < 0xC0 then 1 else if byte c < 0xE0 then 2 else if byte c < 0xF0 then 3 else 4)"

function chars :: "string \<Rightarrow> string list" where
  "chars [] = []"
| "chars (c # s) = take (lead_length c) (c # s) # chars (drop (lead_length c) (c # s))"
  by pat_completeness auto
termination
  by (relation "measure length") (auto simp: lead_length_def)

lemma lead_length_pos: "0 < lead_length c"
  by (simp add: lead_length_def)

lemma concat_chars [simp]: "concat (chars s) = s"
proof (induction s rule: chars.induct)
  case (2 c s)
  then show ?case by (simp only: chars.simps concat.simps append_take_drop_id)
qed simp

lemma take_lead_nonempty: "take (lead_length c) (c # s) \<noteq> []"
  by (simp add: lead_length_def)

lemma chars_nonempty: "u \<in> set (chars s) \<Longrightarrow> u \<noteq> []"
proof (induction s rule: chars.induct)
  case (2 c s)
  from 2(2) have "u = take (lead_length c) (c # s) \<or> u \<in> set (chars (drop (lead_length c) (c # s)))"
    by (simp only: chars.simps list.set insert_iff)
  then show ?case
  proof
    assume "u = take (lead_length c) (c # s)"
    then show ?thesis using take_lead_nonempty [of c s] by (simp only: not_False_eq_True)
  next
    assume "u \<in> set (chars (drop (lead_length c) (c # s)))"
    then show ?thesis by (rule 2(1))
  qed
qed simp

lemma chars_eq_Nil [simp]: "chars s = [] \<longleftrightarrow> s = []"
  by (cases s) simp_all

lemma chars_ascii: "(\<And>c. c \<in> set s \<Longrightarrow> byte c < 0x80) \<Longrightarrow> chars s = map (\<lambda>c. [c]) s"
proof (induction s)
  case (Cons c s)
  have "byte c < 0x80" by (rule Cons.prems) simp
  then have "lead_length c = 1" by (simp add: lead_length_def)
  with Cons show ?case by simp
qed simp

definition py_len :: "string \<Rightarrow> nat" where "py_len s = length (chars s)"

definition ascii_char :: "string \<Rightarrow> bool" where
  "ascii_char u \<longleftrightarrow> (case u of [c] \<Rightarrow> byte c < 0x80 | _ \<Rightarrow> False)"

definition lower_ascii :: "char \<Rightarrow> char" where
  "lower_ascii c = (if 65 \<le> byte c \<and> byte c \<le> 90 then char_of (byte c + 32) else c)"

definition fold1 :: "lib \<Rightarrow> string \<Rightarrow> string" where
  "fold1 L u = (if ascii_char u then map lower_ascii u else fold_char L u)"

definition casefold :: "lib \<Rightarrow> string \<Rightarrow> string" where
  "casefold L s = concat (map (fold1 L) (chars s))"

definition lower :: "lib \<Rightarrow> string \<Rightarrow> string" where
  "lower L s = concat (map (\<lambda>u. if ascii_char u then map lower_ascii u else lower_char L u) (chars s))"

definition upper_ascii :: "char \<Rightarrow> char" where
  "upper_ascii c = (if 97 \<le> byte c \<and> byte c \<le> 122 then char_of (byte c - 32) else c)"

definition upper :: "lib \<Rightarrow> string \<Rightarrow> string" where
  "upper L s = concat (map (\<lambda>u. if ascii_char u then map upper_ascii u else upper_char L u) (chars s))"

definition ascii_text :: "string \<Rightarrow> bool" where
  "ascii_text s \<longleftrightarrow> list_all (\<lambda>c. byte c < 0x80) s"

text \<open>\<open>unicodedata.normalize\<close> to the forms NFC and NFKC, which leave ASCII text alone.\<close>

definition nfc :: "lib \<Rightarrow> string \<Rightarrow> string" where
  "nfc L s = (if ascii_text s then s else nfc_text L s)"

definition nfkc :: "lib \<Rightarrow> string \<Rightarrow> string" where
  "nfkc L s = (if ascii_text s then s else nfkc_text L s)"

text \<open>\<open>unicodedata.category(u) in {"Cc", "Cf"}\<close>: control and format characters.\<close>

definition control1 :: "lib \<Rightarrow> string \<Rightarrow> bool" where
  "control1 L u \<longleftrightarrow>
    (case u of [c] \<Rightarrow> if byte c < 0x80 then byte c < 32 \<or> byte c = 127 else control_char L u
     | _ \<Rightarrow> control_char L u)"

text \<open>The characters \<open>str.isspace\<close>, \<open>strip\<close>, \<open>split\<close> and the class \<open>\s\<close> take as white space.\<close>

definition space_char :: "string \<Rightarrow> bool" where
  "space_char u \<longleftrightarrow>
    (case map byte u of
       [b] \<Rightarrow> b \<in> {9, 10, 11, 12, 13, 28, 29, 30, 31, 32}
     | [b, c] \<Rightarrow> b = 0xC2 \<and> c \<in> {0x85, 0xA0}
     | [b, c, d] \<Rightarrow>
         (b = 0xE1 \<and> c = 0x9A \<and> d = 0x80)
         \<or> (b = 0xE2 \<and> c = 0x80 \<and> (0x80 \<le> d \<and> d \<le> 0x8A \<or> d \<in> {0xA8, 0xA9, 0xAF}))
         \<or> (b = 0xE2 \<and> c = 0x81 \<and> d = 0x9F)
         \<or> (b = 0xE3 \<and> c = 0x80 \<and> d = 0x80)
     | _ \<Rightarrow> False)"

definition printable1 :: "lib \<Rightarrow> string \<Rightarrow> bool" where
  "printable1 L u \<longleftrightarrow>
    (case u of [c] \<Rightarrow> if byte c < 0x80 then 32 \<le> byte c \<and> byte c < 127 else printable_char L u
     | _ \<Rightarrow> printable_char L u)"

definition isprintable :: "lib \<Rightarrow> string \<Rightarrow> bool" where
  "isprintable L s = list_all (printable1 L) (chars s)"

definition strip_chars :: "string list \<Rightarrow> string list" where
  "strip_chars us = rev (dropWhile space_char (rev (dropWhile space_char us)))"

definition strip :: "string \<Rightarrow> string" where
  "strip s = concat (strip_chars (chars s))"

text \<open>\<open>s.split()\<close>: the maximal runs of characters that are not white space.\<close>

fun split_runs :: "string list \<Rightarrow> string \<Rightarrow> string list" where
  "split_runs [] w = (if w = [] then [] else [w])"
| "split_runs (u # us) w =
    (if space_char u then (if w = [] then split_runs us [] else w # split_runs us [])
     else split_runs us (w @ u))"

definition split_space :: "string \<Rightarrow> string list" where
  "split_space s = split_runs (chars s) []"

definition take_chars :: "nat \<Rightarrow> string \<Rightarrow> string" where
  "take_chars n s = concat (take n (chars s))"

definition starts_with :: "string \<Rightarrow> string \<Rightarrow> bool" where
  "starts_with p s \<longleftrightarrow> take (length p) s = p"

text \<open>\<open>p in s\<close> for texts.\<close>

fun occurs :: "string \<Rightarrow> string \<Rightarrow> bool" where
  "occurs p [] = (p = [])"
| "occurs p (c # s) = (starts_with p (c # s) \<or> occurs p s)"

text \<open>\<open>dict.fromkeys\<close>: the first occurrence of each element, in order.\<close>

fun dedup :: "'a list \<Rightarrow> 'a list" where
  "dedup [] = []"
| "dedup (x # xs) = x # filter (\<lambda>y. y \<noteq> x) (dedup xs)"

lemma set_dedup [simp]: "set (dedup xs) = set xs"
  by (induction xs) auto

lemma distinct_dedup [simp]: "distinct (dedup xs)"
  by (induction xs) auto

lemma strip_empty [simp]: "strip [] = []"
  by (simp add: strip_def strip_chars_def)

lemma casefold_empty [simp]: "casefold L [] = []"
  by (simp add: casefold_def)

section \<open>Regular expressions on ASCII classes\<close>

definition lower_hex_char :: "char \<Rightarrow> bool" where
  "lower_hex_char c \<longleftrightarrow> is_digit c \<or> (97 \<le> byte c \<and> byte c \<le> 102)"

definition hex_char :: "char \<Rightarrow> bool" where
  "hex_char c \<longleftrightarrow> lower_hex_char c \<or> (65 \<le> byte c \<and> byte c \<le> 70)"

text \<open>\<open>[0-9a-f]{64}\<close>, \<open>[0-9a-fA-F]{n}\<close>.\<close>

definition hex64 :: "string \<Rightarrow> bool" where
  "hex64 s \<longleftrightarrow> length s = 64 \<and> list_all lower_hex_char s"

definition hexs :: "nat \<Rightarrow> string \<Rightarrow> bool" where
  "hexs n s \<longleftrightarrow> length s = n \<and> list_all hex_char s"

text \<open>
  \<open>[a-z]\<close> under \<open>re.IGNORECASE\<close> takes the ASCII letters and four characters that fold
  to one: U+0130, U+0131, U+017F and U+212A.
\<close>

definition extra_letter :: "string \<Rightarrow> bool" where
  "extra_letter u \<longleftrightarrow> map byte u \<in> set [[0xC4, 0xB0], [0xC4, 0xB1], [0xC5, 0xBF], [0xE2, 0x84, 0xAA]]"

definition ascii_letter :: "char \<Rightarrow> bool" where
  "ascii_letter c \<longleftrightarrow> (65 \<le> byte c \<and> byte c \<le> 90) \<or> (97 \<le> byte c \<and> byte c \<le> 122)"

definition letter_i :: "string \<Rightarrow> bool" where
  "letter_i u \<longleftrightarrow> (case u of [c] \<Rightarrow> ascii_letter c | _ \<Rightarrow> extra_letter u)"

definition alnum_i :: "string \<Rightarrow> bool" where
  "alnum_i u \<longleftrightarrow> letter_i u \<or> (case u of [c] \<Rightarrow> is_digit c | _ \<Rightarrow> False)"

definition isalnum1 :: "lib \<Rightarrow> string \<Rightarrow> bool" where
  "isalnum1 L u \<longleftrightarrow> (case u of [c] \<Rightarrow> ascii_letter c \<or> is_digit c | _ \<Rightarrow> alnum_char L u)"

section \<open>Float arithmetic\<close>

text \<open>A float operation is the exact one rounded; a literal is the double nearest to it.\<close>

definition fl_add :: "lib \<Rightarrow> rat \<Rightarrow> rat \<Rightarrow> rat" where "fl_add L a b = fl_round L (a + b)"
definition fl_sub :: "lib \<Rightarrow> rat \<Rightarrow> rat \<Rightarrow> rat" where "fl_sub L a b = fl_round L (a - b)"
definition fl_div :: "lib \<Rightarrow> rat \<Rightarrow> rat \<Rightarrow> rat" where "fl_div L a b = fl_round L (a / b)"

section \<open>Errors\<close>

text \<open>
  \<open>AppError\<close> of \<open>errors/__init__.py\<close> without its display message, and the other
  exceptions that modelled code lets escape.
\<close>

record app_error =
  error_code :: string
  status_code :: nat
  retryable :: bool
  err_details :: "(string \<times> json) list"

datatype exn =
    AppErr app_error
  | IntegrityErr string
  | PyTypeError
  | PyValueError
  | PyOSError
  | PyKeyError

definition app_err :: "string \<Rightarrow> nat \<Rightarrow> exn" where
  "app_err code status =
    AppErr \<lparr> error_code = code, status_code = status, retryable = False, err_details = [] \<rparr>"

definition app_err_retry :: "string \<Rightarrow> nat \<Rightarrow> exn" where
  "app_err_retry code status =
    AppErr \<lparr> error_code = code, status_code = status, retryable = True, err_details = [] \<rparr>"

definition app_err_details :: "string \<Rightarrow> nat \<Rightarrow> (string \<times> json) list \<Rightarrow> exn" where
  "app_err_details code status details =
    AppErr \<lparr> error_code = code, status_code = status, retryable = False, err_details = details \<rparr>"

lemma app_err_eq [simp]: "app_err c s = app_err c' s' \<longleftrightarrow> c = c' \<and> s = s'"
  by (simp add: app_err_def)

definition code_of :: "exn \<Rightarrow> string" where
  "code_of e = (case e of AppErr a \<Rightarrow> error_code a | _ \<Rightarrow> [])"

lemma code_of_app_err [simp]:
  "code_of (app_err c s) = c" "code_of (app_err_retry c s) = c" "code_of (app_err_details c s d) = c"
  by (simp_all add: code_of_def app_err_def app_err_retry_def app_err_details_def)

section \<open>A concrete instance of the parameters\<close>

text \<open>
  For evaluating the definitions: constant digests, no letters outside ASCII, timestamps
  written as their count of microseconds and read as the epoch, and no lax conversions.
\<close>

definition example_lib :: lib where
  "example_lib = \<lparr>
     sha256_hex = (\<lambda>_. replicate 64 (CHR ''0'')), sha1_hex = (\<lambda>_. replicate 40 (CHR ''0'')),
     fold_char = (\<lambda>u. u), lower_char = (\<lambda>u. u), printable_char = (\<lambda>_. True), word_char = (\<lambda>_. True),
     float_val = (\<lambda>r. if r = ''0.0'' then 0 else 1), dt_text = (\<lambda>t. show_int (as_utc t)),
     iso_text = (\<lambda>t. show_int (as_utc t)), lax_int = (\<lambda>_. None), lax_float = (\<lambda>_. None),
     lax_bool = (\<lambda>_. None), parse_dt = (\<lambda>_. Some (Aware 0)),
     netloc_valid = (\<lambda>_. True), text_of = (\<lambda>_. ''text''),
     upper_char = (\<lambda>u. u), alnum_char = (\<lambda>_. True), nfkc_text = (\<lambda>s. s), uni_digit = (\<lambda>_. None),
     fl_round = (\<lambda>x. x), fl_round4 = (\<lambda>x. x), fl_text = (\<lambda>x. if x = 0 then ''0.0'' else ''1.0''),
     nfc_text = (\<lambda>s. s), control_char = (\<lambda>_. False) \<rparr>"

end
