(* ===== verification/Episodes.thy ===== *)
theory Episodes
  imports Platform "HOL-Library.AList" "HOL-Library.Product_Lexorder"
begin

text \<open>
  \<open>core/episodes.py\<close>: episode numbers, codes and matrices as upstream services write them,
  and the list of missing episodes. Values are decoded JSON; a mapping with integer keys
  reads as the mapping with their decimal texts. \<open>U\<close> is the decimal value of a digit
  outside ASCII, which the class \<open>\d\<close> and \<open>int()\<close> take from the Unicode tables.
\<close>

type_synonym digits = "string \<Rightarrow> nat option"

type_synonym matrix = "(int \<times> int list) list"

section \<open>The patterns\<close>

definition digit_of :: "digits \<Rightarrow> string \<Rightarrow> nat option" where
  "digit_of U u =
    (case u of [c] \<Rightarrow> (if is_digit c then Some (char_digit c) else None) | _ \<Rightarrow> U u)"

definition digit_unit :: "digits \<Rightarrow> string \<Rightarrow> bool" where
  "digit_unit U u \<longleftrightarrow> digit_of U u \<noteq> None"

text \<open>\<open>int(group)\<close> of a group of digits.\<close>

definition int_of_units :: "digits \<Rightarrow> string list \<Rightarrow> int" where
  "int_of_units U us = foldl (\<lambda>n u. n * 10 + int (the (digit_of U u))) 0 us"

definition digit_group :: "digits \<Rightarrow> nat \<Rightarrow> nat \<Rightarrow> string list \<Rightarrow> bool" where
  "digit_group U lo hi us \<longleftrightarrow> lo \<le> length us \<and> length us \<le> hi \<and> list_all (digit_unit U) us"

text \<open>The letters \<open>S\<close> and \<open>E\<close> under \<open>(?i)\<close>; U+017F also folds to \<open>s\<close>.\<close>

definition letter_s :: "string \<Rightarrow> bool" where
  "letter_s u \<longleftrightarrow> u = ''S'' \<or> u = ''s'' \<or> map byte u = [0xC5, 0xBF]"

definition letter_e :: "string \<Rightarrow> bool" where
  "letter_e u \<longleftrightarrow> u = ''E'' \<or> u = ''e''"

text \<open>An optional letter and then one group: \<open>_SEASON_CODE\<close> and \<open>_EPISODE_NUMBER\<close>.\<close>

definition opt_letter_match ::
  "digits \<Rightarrow> (string \<Rightarrow> bool) \<Rightarrow> nat \<Rightarrow> string list \<Rightarrow> string list option" where
  "opt_letter_match U letter hi us =
    (let body = (case us of u # rest \<Rightarrow> if letter u then rest else us | [] \<Rightarrow> us)
     in if digit_group U 1 hi body then Some body else None)"

definition season_code :: "digits \<Rightarrow> string \<Rightarrow> string list option" where
  "season_code U s = opt_letter_match U letter_s 2 (chars s)"

definition episode_number_code :: "digits \<Rightarrow> string \<Rightarrow> string list option" where
  "episode_number_code U s = opt_letter_match U letter_e 3 (chars s)"

text \<open>\<open>_EPISODE_CODE\<close>: its two groups. No digit is an \<open>E\<close>, so the groups are determined.\<close>

definition episode_code :: "digits \<Rightarrow> string \<Rightarrow> (string \<times> string) option" where
  "episode_code U s =
    (case chars s of
       u # rest \<Rightarrow>
         let season = takeWhile (digit_unit U) rest;
             tail = dropWhile (digit_unit U) rest
         in (case tail of
               e # episode \<Rightarrow>
                 if letter_s u \<and> letter_e e \<and> digit_group U 1 2 season \<and> digit_group U 1 3 episode
                 then Some (concat season, concat episode) else None
             | [] \<Rightarrow> None)
     | [] \<Rightarrow> None)"

section \<open>Numbers and pairs\<close>

definition bounded_number ::
  "digits \<Rightarrow> (string \<Rightarrow> string list option) \<Rightarrow> int \<Rightarrow> json \<Rightarrow> exn + int" where
  "bounded_number U pat minimum v =
    bindR
      (case v of
         JInt n \<Rightarrow> Inr n
       | JStr s \<Rightarrow> (case pat (strip s) of Some g \<Rightarrow> Inr (int_of_units U g) | None \<Rightarrow> Inl PyValueError)
       | _ \<Rightarrow> Inl PyValueError) (\<lambda>n.
    bindR (raise_if (\<not> (minimum \<le> n \<and> n \<le> 999)) PyValueError) (\<lambda>_.
    Inr n))"

definition season_number :: "digits \<Rightarrow> json \<Rightarrow> exn + int" where
  "season_number U v =
    bindR (bounded_number U (season_code U) 0 v) (\<lambda>n.
    bindR (raise_if (n > 99) PyValueError) (\<lambda>_.
    Inr n))"

definition episode_number :: "digits \<Rightarrow> json \<Rightarrow> exn + int" where
  "episode_number U v = bounded_number U (episode_number_code U) 1 v"

text \<open>The first of the keys that is present, or the given value.\<close>

fun first_key :: "string list \<Rightarrow> json option \<Rightarrow> json \<Rightarrow> json option" where
  "first_key [] d j = d"
| "first_key (k # ks) d j = (case obj_get k j of Some v \<Rightarrow> Some v | None \<Rightarrow> first_key ks d j)"

definition season_keys :: "string list" where
  "season_keys = [''season'', ''season_number'', ''seasonNumber'']"

definition episode_keys :: "string list" where
  "episode_keys = [''episode'', ''episode_number'', ''episodeNumber'']"

definition is_none :: "json option \<Rightarrow> bool" where
  "is_none v \<longleftrightarrow> v = None \<or> v = Some JNull"

definition pair_of_object :: "digits \<Rightarrow> json \<Rightarrow> int option \<Rightarrow> exn + int \<times> int" where
  "pair_of_object U v hint =
    (let season = first_key season_keys (map_option JInt hint) v;
         episode = first_key episode_keys None v
     in bindR (raise_if (is_none season \<or> is_none episode) PyValueError) (\<lambda>_.
        bindR (season_number U (the season)) (\<lambda>s.
        bindR (episode_number U (the episode)) (\<lambda>e.
        Inr (s, e)))))"

definition pair_with_hint :: "digits \<Rightarrow> json \<Rightarrow> int option \<Rightarrow> exn + int \<times> int" where
  "pair_with_hint U v hint =
    (case hint of None \<Rightarrow> Inl PyValueError | Some s \<Rightarrow> bindR (episode_number U v) (\<lambda>e. Inr (s, e)))"

definition episode_pair :: "digits \<Rightarrow> json \<Rightarrow> int option \<Rightarrow> exn + int \<times> int" where
  "episode_pair U v hint =
    (case v of
       JStr s \<Rightarrow>
         (case episode_code U (strip s) of
            Some (gs, ge) \<Rightarrow>
              bindR (season_number U (JStr gs)) (\<lambda>season.
              bindR (episode_number U (JStr ge)) (\<lambda>episode.
              Inr (season, episode)))
          | None \<Rightarrow> pair_with_hint U v hint)
     | JObj kvs \<Rightarrow> pair_of_object U v hint
     | _ \<Rightarrow> pair_with_hint U v hint)"

section \<open>Matrices\<close>

definition add_pair :: "int \<Rightarrow> int \<Rightarrow> matrix \<Rightarrow> matrix" where
  "add_pair season episode acc = AList.map_default season [episode] (List.insert episode) acc"

text \<open>The inner \<open>add\<close>, and the loops around it.\<close>

definition add_item :: "digits \<Rightarrow> int option \<Rightarrow> json \<Rightarrow> matrix \<Rightarrow> exn + matrix" where
  "add_item U hint item acc = bindR (episode_pair U item hint) (\<lambda>(season, episode). Inr (add_pair season episode acc))"

fun add_items :: "digits \<Rightarrow> int option \<Rightarrow> json list \<Rightarrow> matrix \<Rightarrow> exn + matrix" where
  "add_items U hint [] acc = Inr acc"
| "add_items U hint (x # xs) acc = bindR (add_item U hint x acc) (add_items U hint xs)"

fun add_seasons :: "digits \<Rightarrow> (string \<times> json) list \<Rightarrow> matrix \<Rightarrow> exn + matrix" where
  "add_seasons U [] acc = Inr acc"
| "add_seasons U ((raw_season, raw_episodes) # rest) acc =
    bindR (season_number U (JStr raw_season)) (\<lambda>season.
    bindR
      (case raw_episodes of
         JList xs \<Rightarrow> add_items U (Some season) xs (AList.map_default season [] id acc)
       | _ \<Rightarrow> add_item U (Some season) raw_episodes (AList.map_default season [] id acc))
      (add_seasons U rest))"

text \<open>\<open>re.split(r"[\s,;|]+", text)\<close> without the empty tokens.\<close>

definition separator :: "string \<Rightarrow> bool" where
  "separator u \<longleftrightarrow> space_char u \<or> u = '','' \<or> u = '';'' \<or> u = ''|''"

fun tokens :: "string list \<Rightarrow> string \<Rightarrow> string list" where
  "tokens [] w = (if w = [] then [] else [w])"
| "tokens (u # us) w =
    (if separator u then (if w = [] then tokens us [] else w # tokens us []) else tokens us (w @ u))"

definition sorted_matrix :: "matrix \<Rightarrow> matrix" where
  "sorted_matrix acc = map (\<lambda>(season, episodes). (season, sort episodes)) (sort_key fst acc)"

definition normalize_episode_matrix :: "digits \<Rightarrow> json \<Rightarrow> exn + matrix option" where
  "normalize_episode_matrix U v =
    (if v = JNull then Inr None
     else bindR
       (case v of
          JObj kvs \<Rightarrow>
            if list_ex (\<lambda>k. k \<in> set (map fst kvs)) (season_keys @ episode_keys)
            then add_item U None v []
            else add_seasons U kvs []
        | JStr s \<Rightarrow> add_items U None (map JStr (tokens (chars (strip s)) [])) []
        | JList xs \<Rightarrow> add_items U None xs []
        | _ \<Rightarrow> Inl PyValueError) (\<lambda>acc.
       Inr (Some (sorted_matrix acc))))"

text \<open>A matrix in a JSON column: the seasons become the texts of their numbers.\<close>

definition season_json :: "int \<times> int list \<Rightarrow> string \<times> json" where
  "season_json row = (show_int (fst row), JList (map JInt (snd row)))"

definition matrix_json :: "matrix \<Rightarrow> json" where
  "matrix_json m = JObj (map season_json m)"

section \<open>Codes\<close>

definition pad2 :: "int \<Rightarrow> string" where
  "pad2 n = (if 0 \<le> n \<and> n < 10 then ''0'' @ show_int n else show_int n)"

definition code_text :: "int \<times> int \<Rightarrow> string" where
  "code_text p = ''S'' @ pad2 (fst p) @ ''E'' @ pad2 (snd p)"

definition normalize_episode_codes :: "digits \<Rightarrow> json \<Rightarrow> exn + string list option" where
  "normalize_episode_codes U v =
    (case v of
       JNull \<Rightarrow> Inr None
     | JList xs \<Rightarrow>
         bindR (mapR (\<lambda>x. episode_pair U x None) xs) (\<lambda>pairs.
         Inr (Some (map code_text (sort (remdups pairs)))))
     | _ \<Rightarrow> Inl PyValueError)"

definition matrix_pairs :: "matrix \<Rightarrow> (int \<times> int) list" where
  "matrix_pairs m = concat (map (\<lambda>(season, episodes). map (Pair season) episodes) m)"

text \<open>\<open>try\<close> with \<open>except ValueError\<close>.\<close>

definition on_value_error :: "exn + 'a \<Rightarrow> exn + 'a \<Rightarrow> exn + 'a" where
  "on_value_error r d = (case r of Inl PyValueError \<Rightarrow> d | _ \<Rightarrow> r)"

definition missing_pairs :: "matrix \<Rightarrow> matrix \<Rightarrow> (int \<times> int) list" where
  "missing_pairs local aired =
    sort (filter (\<lambda>p. p \<notin> set (matrix_pairs local)) (matrix_pairs aired))"

definition derive_missing_episode_codes ::
  "digits \<Rightarrow> json \<Rightarrow> json \<Rightarrow> json \<Rightarrow> exn + string list option" where
  "derive_missing_episode_codes U aired_matrix local_matrix upstream_missing =
    bindR (on_value_error (normalize_episode_codes U upstream_missing) (Inr None)) (\<lambda>fallback.
    on_value_error
      (bindR (normalize_episode_matrix U local_matrix) (\<lambda>local.
       bindR (normalize_episode_matrix U aired_matrix) (\<lambda>aired.
       case (local, aired) of
         (Some l, Some a) \<Rightarrow> Inr (Some (map code_text (missing_pairs l a)))
       | _ \<Rightarrow> Inr fallback)))
      (Inr fallback))"

text \<open>\<open>_required_episode_map\<close> of \<open>services/matching.py\<close>, on codes of the schema's pattern.\<close>

definition required_code :: "digits \<Rightarrow> string \<Rightarrow> (int \<times> int) option" where
  "required_code U s =
    (case chars s of
       u # rest \<Rightarrow>
         let season = takeWhile (digit_unit U) rest;
             tail = dropWhile (digit_unit U) rest
         in (case tail of
               e # episode \<Rightarrow>
                 if u = ''S'' \<and> e = ''E'' \<and> digit_group U 2 2 season \<and> digit_group U 2 3 episode
                 then Some (int_of_units U season, int_of_units U episode) else None
             | [] \<Rightarrow> None)
     | [] \<Rightarrow> None)"

definition required_episode_map :: "digits \<Rightarrow> string list \<Rightarrow> matrix" where
  "required_episode_map U vs =
    fold (\<lambda>v acc. case required_code U v of Some (s, e) \<Rightarrow> add_pair s e acc | None \<Rightarrow> acc) vs []"

end
