(* ===== verification/EpisodeLaws.thy ===== *)
theory EpisodeLaws
  imports Episodes
begin

text \<open>
  What \<open>core/episodes.py\<close> promises its callers: the shape of a normalised matrix, that a
  stored matrix and stored codes read back as themselves, and which episodes are missing.
\<close>

section \<open>Digits\<close>

lemma digit_byte: "is_digit c \<Longrightarrow> byte c < 0x80"
  by (simp add: is_digit_def byte_def)

lemma chars_digits: "list_all is_digit ds \<Longrightarrow> chars ds = map (\<lambda>c. [c]) ds"
  by (rule chars_ascii) (simp add: digit_byte list_all_iff)

lemma digit_not_space: "is_digit c \<Longrightarrow> \<not> space_char [c]"
  by (auto simp: space_char_def is_digit_def byte_def)

lemma strip_solid:
  assumes "chars s = us" and "us \<noteq> []" and "\<not> space_char (hd us)" and "\<not> space_char (last us)"
  shows "strip s = s"
proof -
  have "dropWhile space_char us = us" using assms by (cases us) simp_all
  moreover have "dropWhile space_char (rev us) = rev us"
    using assms by (cases us rule: rev_cases) simp_all
  ultimately have "strip_chars us = us" by (simp add: strip_chars_def)
  then have "strip s = concat us" by (simp add: strip_def assms(1))
  then show ?thesis using concat_chars [of s] by (simp add: assms(1))
qed

lemma strip_digits: "list_all is_digit ds \<Longrightarrow> strip ds = ds"
proof (cases "ds = []")
  case False
  assume digits: "list_all is_digit ds"
  have "\<not> space_char [hd ds]" "\<not> space_char [last ds]"
    using digits False by (simp_all add: list_all_iff digit_not_space)
  then show ?thesis
    using False by (intro strip_solid [OF chars_digits [OF digits]]) (simp_all add: hd_map last_map)
qed simp

lemma digit_of_digit [simp]: "is_digit c \<Longrightarrow> digit_of U [c] = Some (char_digit c)"
  by (simp add: digit_of_def)

lemma digit_units: "list_all is_digit ds \<Longrightarrow> list_all (digit_unit U) (map (\<lambda>c. [c]) ds)"
  by (simp add: list_all_iff digit_unit_def)

lemma int_of_digits: "list_all is_digit ds \<Longrightarrow> int_of_units U (map (\<lambda>c. [c]) ds) = int (read_nat ds)"
proof (induction ds rule: rev_induct)
  case (snoc d ds)
  then show ?case by (simp add: int_of_units_def read_nat_def)
qed (simp add: int_of_units_def read_nat_def)

lemma digit_no_letter:
  "is_digit c \<Longrightarrow> \<not> letter_s [c]" "is_digit c \<Longrightarrow> \<not> letter_e [c]"
  by (auto simp: letter_s_def letter_e_def is_digit_def)

lemma number_code_digits:
  assumes "list_all is_digit ds" and "ds \<noteq> []"
  shows "length ds \<le> 2 \<Longrightarrow> season_code U ds = Some (map (\<lambda>c. [c]) ds)"
    and "length ds \<le> 3 \<Longrightarrow> episode_number_code U ds = Some (map (\<lambda>c. [c]) ds)"
proof -
  obtain d rest where ds: "ds = d # rest" using assms(2) by (cases ds) auto
  have "is_digit d" using assms(1) by (simp add: ds)
  then have "opt_letter_match U letter_s 2 (map (\<lambda>c. [c]) ds)
      = (if length ds \<le> 2 then Some (map (\<lambda>c. [c]) ds) else None)"
    and "opt_letter_match U letter_e 3 (map (\<lambda>c. [c]) ds)
      = (if length ds \<le> 3 then Some (map (\<lambda>c. [c]) ds) else None)"
    using digit_units [OF assms(1), of U]
    by (simp_all add: opt_letter_match_def digit_group_def ds digit_no_letter)
  then show "length ds \<le> 2 \<Longrightarrow> season_code U ds = Some (map (\<lambda>c. [c]) ds)"
    and "length ds \<le> 3 \<Longrightarrow> episode_number_code U ds = Some (map (\<lambda>c. [c]) ds)"
    by (simp_all add: season_code_def episode_number_code_def chars_digits [OF assms(1)])
qed

lemma season_number_digits:
  assumes "list_all is_digit ds" and "ds \<noteq> []" and "length ds \<le> 2" and "int (read_nat ds) \<le> 99"
  shows "season_number U (JStr ds) = Inr (int (read_nat ds))"
  using assms
  by (simp add: season_number_def bounded_number_def strip_digits number_code_digits int_of_digits)

lemma episode_number_digits:
  assumes "list_all is_digit ds" and "ds \<noteq> []" and "length ds \<le> 3"
    and "1 \<le> int (read_nat ds)" and "int (read_nat ds) \<le> 999"
  shows "episode_number U (JStr ds) = Inr (int (read_nat ds))"
  using assms
  by (simp add: episode_number_def bounded_number_def strip_digits number_code_digits int_of_digits)

lemma show_nat_length:
  "n < 10 \<Longrightarrow> length (show_nat n) = 1"
  "10 \<le> n \<Longrightarrow> n < 100 \<Longrightarrow> length (show_nat n) = 2"
  "100 \<le> n \<Longrightarrow> n < 1000 \<Longrightarrow> length (show_nat n) = 3"
proof -
  show "n < 10 \<Longrightarrow> length (show_nat n) = 1" by (simp add: show_nat.simps [of n])
  show "10 \<le> n \<Longrightarrow> n < 100 \<Longrightarrow> length (show_nat n) = 2"
    by (simp add: show_nat.simps [of n] show_nat.simps [of "n div 10"])
  assume n: "100 \<le> n" "n < 1000"
  then have "\<not> n < 10" "\<not> n div 10 < 10" "n div 10 div 10 < 10" by arith+
  then show "length (show_nat n) = 3"
    by (simp add: show_nat.simps [of n] show_nat.simps [of "n div 10"] show_nat.simps [of "n div 10 div 10"]
        del: div_less)
qed

lemma show_int_digits:
  assumes "0 \<le> n"
  shows "show_int n = show_nat (nat n)" and "list_all is_digit (show_int n)" and "read_nat (show_int n) = nat n"
  using assms show_nat_digits [of "nat n"] by (auto simp: show_int_def list_all_iff read_show_nat)

lemma read_nat_zero: "read_nat (CHR ''0'' # ds) = read_nat ds"
  by (simp add: read_nat_def char_digit_def)

lemma pad2_digits:
  assumes "0 \<le> n" and "n \<le> 999"
  shows "list_all is_digit (pad2 n)" and "read_nat (pad2 n) = nat n"
    and "2 \<le> length (pad2 n)" and "length (pad2 n) \<le> 3" and "n \<le> 99 \<Longrightarrow> length (pad2 n) = 2"
proof -
  have zero: "is_digit (CHR ''0'')" by (simp add: is_digit_def)
  show "list_all is_digit (pad2 n)" using assms zero by (simp add: pad2_def show_int_digits(2))
  show "read_nat (pad2 n) = nat n" using assms by (simp add: pad2_def show_int_digits(3) read_nat_zero)
  have "nat n < 10 \<or> 10 \<le> nat n \<and> nat n < 100 \<or> 100 \<le> nat n \<and> nat n < 1000" using assms by linarith
  then show "2 \<le> length (pad2 n)" and "length (pad2 n) \<le> 3" and "n \<le> 99 \<Longrightarrow> length (pad2 n) = 2"
    using assms by (auto simp: pad2_def show_int_digits(1) show_nat_length)
qed

section \<open>Codes\<close>

definition episode_range :: "int \<times> int \<Rightarrow> bool" where
  "episode_range p \<longleftrightarrow> 0 \<le> fst p \<and> fst p \<le> 99 \<and> 1 \<le> snd p \<and> snd p \<le> 999"

lemma bounded_number_range: "bounded_number U pat lo v = Inr n \<Longrightarrow> lo \<le> n \<and> n \<le> 999"
  by (auto simp: bounded_number_def result_simps)

lemma season_number_range: "season_number U v = Inr n \<Longrightarrow> 0 \<le> n \<and> n \<le> 99"
  by (auto simp: season_number_def result_simps dest: bounded_number_range)

lemma episode_number_range: "episode_number U v = Inr n \<Longrightarrow> 1 \<le> n \<and> n \<le> 999"
  unfolding episode_number_def by (rule bounded_number_range)

lemma episode_pair_range:
  assumes "episode_pair U v hint = Inr p" and "\<And>s. hint = Some s \<Longrightarrow> 0 \<le> s \<and> s \<le> 99"
  shows "episode_range p"
  using assms
  by (auto simp: episode_pair_def pair_of_object_def pair_with_hint_def episode_range_def
      result_simps Let_def split: json.splits option.splits
      dest!: season_number_range episode_number_range)

text \<open>The code of a pair is split at its \<open>E\<close>, by the upstream pattern and by the matcher's.\<close>

lemma code_chars:
  assumes "list_all is_digit a" and "list_all is_digit b"
  shows "chars (CHR ''S'' # a @ CHR ''E'' # b)
      = [CHR ''S''] # map (\<lambda>c. [c]) a @ [CHR ''E''] # map (\<lambda>c. [c]) b"
proof -
  have "byte c < 0x80" if "c \<in> set (CHR ''S'' # a @ CHR ''E'' # b)" for c
    using that assms digit_byte by (auto simp: list_all_iff byte_def)
  then show ?thesis by (subst chars_ascii) simp_all
qed

lemma code_split:
  assumes "list_all is_digit a"
  shows "takeWhile (digit_unit U) (map (\<lambda>c. [c]) a @ [CHR ''E''] # t) = map (\<lambda>c. [c]) a"
    and "dropWhile (digit_unit U) (map (\<lambda>c. [c]) a @ [CHR ''E''] # t) = [CHR ''E''] # t"
proof -
  have letter: "\<not> digit_unit U [CHR ''E'']" by (simp add: digit_unit_def digit_of_def is_digit_def)
  have digits: "\<And>c. c \<in> set a \<Longrightarrow> digit_unit U [c]"
    using digit_units [OF assms, of U] by (auto simp: list_all_iff)
  then show "takeWhile (digit_unit U) (map (\<lambda>c. [c]) a @ [CHR ''E''] # t) = map (\<lambda>c. [c]) a"
    and "dropWhile (digit_unit U) (map (\<lambda>c. [c]) a @ [CHR ''E''] # t) = [CHR ''E''] # t"
    using letter by (induction a) simp_all
qed

lemma strip_code:
  assumes "list_all is_digit a" and "list_all is_digit b" and "b \<noteq> []"
  shows "strip (CHR ''S'' # a @ CHR ''E'' # b) = CHR ''S'' # a @ CHR ''E'' # b"
proof (rule strip_solid [OF code_chars [OF assms(1,2)]])
  have "is_digit (last b)" using assms(2,3) by (simp add: list_all_iff)
  then show "\<not> space_char (last ([CHR ''S''] # map (\<lambda>c. [c]) a @ [CHR ''E''] # map (\<lambda>c. [c]) b))"
    using assms(3) by (simp add: last_map digit_not_space)
  show "\<not> space_char (hd ([CHR ''S''] # map (\<lambda>c. [c]) a @ [CHR ''E''] # map (\<lambda>c. [c]) b))"
    by (simp add: space_char_def byte_def)
qed simp

lemma episode_code_text:
  assumes "list_all is_digit a" and "list_all is_digit b" and "a \<noteq> []" and "b \<noteq> []"
    and "length a \<le> 2" and "length b \<le> 3"
  shows "episode_code U (CHR ''S'' # a @ CHR ''E'' # b) = Some (a, b)"
proof -
  have "concat (map (\<lambda>c. [c]) a) = a" "concat (map (\<lambda>c. [c]) b) = b" by (simp_all add: concat_map_singleton)
  moreover have "1 \<le> length a" "1 \<le> length b" using assms(3,4) by (cases a; cases b; simp)+
  ultimately show ?thesis
    using assms(5,6) digit_units [OF assms(1), of U] digit_units [OF assms(2), of U]
    by (simp add: episode_code_def code_chars [OF assms(1,2)] code_split [OF assms(1)]
        letter_s_def letter_e_def digit_group_def del: chars.simps)
qed

lemma code_text_shape: "code_text p = CHR ''S'' # pad2 (fst p) @ CHR ''E'' # pad2 (snd p)"
  by (simp add: code_text_def)

lemma episode_pair_code:
  assumes "episode_range p"
  shows "episode_pair U (JStr (code_text p)) hint = Inr p"
proof -
  have s: "0 \<le> fst p" "fst p \<le> 999" "fst p \<le> 99" and e: "0 \<le> snd p" "snd p \<le> 999" "1 \<le> snd p"
    using assms by (simp_all add: episode_range_def)
  note sd = pad2_digits [OF s(1,2)] and ed = pad2_digits [OF e(1,2)]
  have ne: "pad2 (fst p) \<noteq> []" "pad2 (snd p) \<noteq> []" using sd(3) ed(3) by auto
  have "season_number U (JStr (pad2 (fst p))) = Inr (fst p)"
    using season_number_digits [OF sd(1) ne(1)] sd s by simp
  moreover have "episode_number U (JStr (pad2 (snd p))) = Inr (snd p)"
    using episode_number_digits [OF ed(1) ne(2)] ed e by simp
  moreover have "episode_code U (strip (code_text p)) = Some (pad2 (fst p), pad2 (snd p))"
    unfolding code_text_shape strip_code [OF sd(1) ed(1) ne(2)]
    using sd s ed ne by (intro episode_code_text) simp_all
  ultimately show ?thesis by (simp add: episode_pair_def)
qed

lemma required_code_text:
  assumes "episode_range p"
  shows "required_code U (code_text p) = Some p"
proof -
  have s: "0 \<le> fst p" "fst p \<le> 999" "fst p \<le> 99" and e: "0 \<le> snd p" "snd p \<le> 999" "1 \<le> snd p"
    using assms by (simp_all add: episode_range_def)
  note sd = pad2_digits [OF s(1,2)] and ed = pad2_digits [OF e(1,2)]
  have "int_of_units U (map (\<lambda>c. [c]) (pad2 (fst p))) = fst p"
    "int_of_units U (map (\<lambda>c. [c]) (pad2 (snd p))) = snd p"
    using sd ed s e by (simp_all add: int_of_digits)
  then show ?thesis
    using sd s ed digit_units [OF sd(1), of U] digit_units [OF ed(1), of U]
    by (simp add: required_code_def code_text_shape code_chars [OF sd(1) ed(1)] code_split [OF sd(1)]
        digit_group_def del: chars.simps)
qed

lemma mapR_all: "(\<And>x. x \<in> set xs \<Longrightarrow> f x = Inr (g x)) \<Longrightarrow> mapR f xs = Inr (map g xs)"
  by (induction xs) simp_all

lemma mapR_codes:
  assumes "list_all episode_range ps"
  shows "mapR (\<lambda>x. episode_pair U x hint) (map JStr (map code_text ps)) = Inr ps"
  using assms by (induction ps) (simp_all add: episode_pair_code)

section \<open>Matrices\<close>

text \<open>What an accumulator of the loops holds.\<close>

definition season_ok :: "int \<times> int list \<Rightarrow> bool" where
  "season_ok row \<longleftrightarrow> 0 \<le> fst row \<and> fst row \<le> 99
    \<and> distinct (snd row) \<and> list_all (\<lambda>e. 1 \<le> e \<and> e \<le> 999) (snd row)"

definition acc_ok :: "matrix \<Rightarrow> bool" where
  "acc_ok acc \<longleftrightarrow> distinct (map fst acc) \<and> list_all season_ok acc"

lemma map_default_rows:
  assumes "list_all P acc" and "P (k, v)" and "\<And>w. P (k, w) \<Longrightarrow> P (k, f w)"
  shows "list_all P (AList.map_default k v f acc)"
  using assms(1) by (induction acc) (auto simp: assms(2,3))

lemma acc_ok_Nil: "acc_ok []"
  by (simp add: acc_ok_def)

lemma acc_ok_pair: "acc_ok acc \<Longrightarrow> episode_range (s, e) \<Longrightarrow> acc_ok (add_pair s e acc)"
proof -
  assume acc: "acc_ok acc" and p: "episode_range (s, e)"
  have "list_all season_ok (add_pair s e acc)"
    unfolding add_pair_def
    using acc p by (intro map_default_rows) (auto simp: acc_ok_def episode_range_def season_ok_def list_all_iff)
  then show ?thesis using acc by (simp add: acc_ok_def add_pair_def distinct_map_default)
qed

lemma acc_ok_season: "acc_ok acc \<Longrightarrow> 0 \<le> s \<Longrightarrow> s \<le> 99 \<Longrightarrow> acc_ok (AList.map_default s [] id acc)"
proof -
  assume acc: "acc_ok acc" and s: "0 \<le> s" "s \<le> 99"
  have "list_all season_ok (AList.map_default s [] id acc)"
    using acc s by (intro map_default_rows) (auto simp: acc_ok_def season_ok_def)
  then show ?thesis using acc by (simp add: acc_ok_def distinct_map_default)
qed

lemma set_pairs_add: "set (matrix_pairs (add_pair s e acc)) = insert (s, e) (set (matrix_pairs acc))"
  unfolding add_pair_def by (induction acc) (auto simp: matrix_pairs_def)

text \<open>Every loop of the reader keeps the accumulator.\<close>

lemma add_item_ok:
  assumes "add_item U hint v acc = Inr acc'" and "\<And>s. hint = Some s \<Longrightarrow> 0 \<le> s \<and> s \<le> 99" and "acc_ok acc"
  shows "acc_ok acc'"
  using assms by (auto simp: add_item_def result_simps intro!: acc_ok_pair dest!: episode_pair_range)

lemma add_items_ok:
  "add_items U hint xs acc = Inr acc' \<Longrightarrow> (\<And>s. hint = Some s \<Longrightarrow> 0 \<le> s \<and> s \<le> 99) \<Longrightarrow> acc_ok acc \<Longrightarrow>
    acc_ok acc'"
  by (induction xs arbitrary: acc) (auto simp: result_simps dest!: add_item_ok)

lemma add_seasons_ok: "add_seasons U kvs acc = Inr acc' \<Longrightarrow> acc_ok acc \<Longrightarrow> acc_ok acc'"
proof (induction kvs arbitrary: acc)
  case (Cons kv kvs)
  obtain k v where kv: "kv = (k, v)" by (cases kv)
  from Cons.prems(1) obtain s mid where s: "season_number U (JStr k) = Inr s"
    and mid: "(case v of JList xs \<Rightarrow> add_items U (Some s) xs (AList.map_default s [] id acc)
        | _ \<Rightarrow> add_item U (Some s) v (AList.map_default s [] id acc)) = Inr mid"
    and rest: "add_seasons U kvs mid = Inr acc'"
    by (auto simp: kv result_simps)
  have hint: "\<And>h. Some s = Some h \<Longrightarrow> 0 \<le> h \<and> h \<le> 99" using season_number_range [OF s] by simp
  have start: "acc_ok (AList.map_default s [] id acc)"
    using Cons.prems(2) season_number_range [OF s] by (simp add: acc_ok_season)
  have "acc_ok mid"
    using mid by (cases v) (auto intro: add_items_ok [OF _ hint start] add_item_ok [OF _ hint start])
  then show ?case by (rule Cons.IH [OF rest])
qed simp

text \<open>The shape of a normalised matrix.\<close>

definition matrix_ok :: "matrix \<Rightarrow> bool" where
  "matrix_ok m \<longleftrightarrow> sorted_wrt (<) (map fst m)
    \<and> list_all (\<lambda>(s, es). 0 \<le> s \<and> s \<le> 99 \<and> sorted_wrt (<) es \<and> list_all (\<lambda>e. 1 \<le> e \<and> e \<le> 999) es) m"

lemma sorted_matrix_fst: "map fst (sorted_matrix acc) = sort (map fst acc)"
proof -
  have "map fst (sorted_matrix acc) = map fst (sort_key fst acc)"
    by (simp add: sorted_matrix_def case_prod_beta comp_def)
  also have "\<dots> = sort (map fst acc)"
    by (rule properties_for_sort [symmetric]) simp_all
  finally show ?thesis .
qed

lemma sorted_matrix_ok:
  assumes "acc_ok acc"
  shows "matrix_ok (sorted_matrix acc)"
proof -
  have "sorted_wrt (<) (map fst (sorted_matrix acc))"
    using assms by (simp add: sorted_matrix_fst strict_sorted_iff acc_ok_def)
  moreover have "list_all (\<lambda>(s, es). 0 \<le> s \<and> s \<le> 99 \<and> sorted_wrt (<) es \<and> list_all (\<lambda>e. 1 \<le> e \<and> e \<le> 999) es)
      (sorted_matrix acc)"
    using assms by (auto simp: acc_ok_def sorted_matrix_def list_all_iff season_ok_def strict_sorted_iff)
  ultimately show ?thesis by (simp add: matrix_ok_def)
qed

lemma sorted_matrix_pairs: "set (matrix_pairs (sorted_matrix acc)) = set (matrix_pairs acc)"
  by (force simp: matrix_pairs_def sorted_matrix_def)

lemma normalize_matrix_ok:
  assumes "normalize_episode_matrix U v = Inr (Some m)"
  shows "matrix_ok m"
proof -
  have none: "\<And>s. None = Some s \<Longrightarrow> 0 \<le> s \<and> s \<le> (99 :: int)" by simp
  from assms obtain acc where "acc_ok acc" and "m = sorted_matrix acc"
    by (cases v) (auto simp: normalize_episode_matrix_def result_simps split: if_splits
        dest: add_items_ok [OF _ none acc_ok_Nil] add_item_ok [OF _ none acc_ok_Nil] add_seasons_ok [OF _ acc_ok_Nil])
  then show ?thesis by (simp add: sorted_matrix_ok)
qed

section \<open>Reading back\<close>

lemma map_default_fresh: "k \<notin> set (map fst acc) \<Longrightarrow> AList.map_default k v f acc = acc @ [(k, v)]"
  by (induction acc) auto

lemma map_default_last: "k \<notin> set (map fst acc) \<Longrightarrow> AList.map_default k v f (acc @ [(k, w)]) = acc @ [(k, f w)]"
  by (induction acc) auto

lemma add_items_fresh:
  assumes "s \<notin> set (map fst acc)"
  shows "distinct es \<Longrightarrow> set es \<inter> set xs = {} \<Longrightarrow> list_all (\<lambda>e. 1 \<le> e \<and> e \<le> 999) es \<Longrightarrow>
    add_items U (Some s) (map JInt es) (acc @ [(s, xs)]) = Inr (acc @ [(s, rev es @ xs)])"
proof (induction es arbitrary: xs)
  case (Cons e es)
  have "add_item U (Some s) (JInt e) (acc @ [(s, xs)]) = Inr (acc @ [(s, e # xs)])"
    using Cons.prems assms
    by (simp add: add_item_def episode_pair_def pair_with_hint_def episode_number_def bounded_number_def
        add_pair_def map_default_last)
  then show ?case using Cons by simp
qed simp

lemma season_number_show: "0 \<le> s \<Longrightarrow> s \<le> 99 \<Longrightarrow> season_number U (JStr (show_int s)) = Inr s"
proof -
  assume s: "0 \<le> s" "s \<le> 99"
  note d = show_int_digits [OF s(1)]
  have "nat s < 10 \<or> 10 \<le> nat s \<and> nat s < 100" using s by linarith
  then have "length (show_int s) \<le> 2" by (auto simp: d(1) show_nat_length)
  then have "season_number U (JStr (show_int s)) = Inr (int (read_nat (show_int s)))"
    using s d(3) by (intro season_number_digits [OF d(2)]) simp_all
  then show ?thesis using s d(3) by simp
qed

lemma add_seasons_back:
  "matrix_ok m \<Longrightarrow> set (map fst m) \<inter> set (map fst acc) = {} \<Longrightarrow>
    add_seasons U (map season_json m) acc = Inr (acc @ map (map_prod id rev) m)"
proof (induction m arbitrary: acc)
  case (Cons row m)
  obtain s es where row: "row = (s, es)" by (cases row)
  have s: "0 \<le> s" "s \<le> 99" and es: "sorted_wrt (<) es" "list_all (\<lambda>e. 1 \<le> e \<and> e \<le> 999) es"
    and fresh: "s \<notin> set (map fst acc)" "s \<notin> set (map fst m)" and m: "matrix_ok m"
    using Cons.prems by (auto simp: matrix_ok_def row)
  have "add_items U (Some s) (map JInt es) (acc @ [(s, [])]) = Inr (acc @ [(s, rev es)])"
    using add_items_fresh [OF fresh(1), of es "[]" U] es by (simp add: strict_sorted_iff)
  moreover have "season_json row = (show_int s, JList (map JInt es))" by (simp add: row season_json_def)
  moreover have "set (map fst m) \<inter> set (map fst (acc @ [(s, rev es)])) = {}" using Cons.prems fresh by (auto simp: row)
  ultimately show ?case
    using Cons.IH [OF m, of "acc @ [(s, rev es)]"]
    by (simp add: row season_number_show [OF s] map_default_fresh [OF fresh(1)])
qed simp

lemma sorted_matrix_back:
  assumes "matrix_ok m"
  shows "sorted_matrix (map (map_prod id rev) m) = m"
proof -
  have "map fst (map (map_prod id rev) m) = map fst m" by simp
  then have keys: "sort_key fst (map (map_prod id rev) m) = map (map_prod id rev) m"
    using assms by (intro sort_key_id_if_sorted) (simp add: matrix_ok_def strict_sorted_iff)
  have "sort (rev es) = es" if "(s, es) \<in> set m" for s es
  proof -
    have "sorted es" using assms that by (auto simp: matrix_ok_def list_all_iff strict_sorted_iff)
    then show ?thesis by (intro properties_for_sort) simp_all
  qed
  then show ?thesis by (auto simp: sorted_matrix_def keys case_prod_beta intro!: map_idI)
qed

lemma season_key_text: "0 \<le> s \<Longrightarrow> show_int s \<notin> set (season_keys @ episode_keys)"
proof
  assume s: "0 \<le> s" and key: "show_int s \<in> set (season_keys @ episode_keys)"
  have "list_all is_digit (show_int s)" by (rule show_int_digits [OF s])
  with key show False by (auto simp: season_keys_def episode_keys_def is_digit_def)
qed

lemma normalize_matrix_back:
  assumes "matrix_ok m"
  shows "normalize_episode_matrix U (matrix_json m) = Inr (Some m)"
proof -
  have "\<not> list_ex (\<lambda>k. k \<in> set (map fst (map season_json m))) (season_keys @ episode_keys)"
    using assms season_key_text
    by (fastforce simp: list_ex_iff matrix_ok_def list_all_iff season_json_def)
  then show ?thesis
    using add_seasons_back [OF assms, of "[]" U] sorted_matrix_back [OF assms]
    by (simp add: normalize_episode_matrix_def matrix_json_def)
qed

lemma required_pairs:
  assumes "list_all episode_range ps"
  shows "set (matrix_pairs (fold (\<lambda>v acc. case required_code U v of Some (s, e) \<Rightarrow> add_pair s e acc | None \<Rightarrow> acc)
      (map code_text ps) acc)) = set ps \<union> set (matrix_pairs acc)"
  using assms
  by (induction ps arbitrary: acc) (auto simp: required_code_text set_pairs_add split: prod.split)

lemma strict_sort_remdups: "sorted_wrt (<) (sort (remdups (ps :: (int \<times> int) list)))"
  by (simp add: strict_sorted_iff)

lemma sort_strict: "sorted_wrt (<) ps \<Longrightarrow> sort (remdups ps) = (ps :: (int \<times> int) list)"
  by (simp add: strict_sorted_iff sorted_sort_id distinct_remdups_id)

lemma mapR_ranges:
  "mapR (\<lambda>x. episode_pair U x None) xs = Inr ps \<Longrightarrow> list_all episode_range ps"
  by (induction xs arbitrary: ps) (auto simp: result_simps dest: episode_pair_range)

lemma normalize_codes_ok:
  assumes "normalize_episode_codes U v = Inr (Some cs)"
  obtains ps where "cs = map code_text ps" and "sorted_wrt (<) ps" and "list_all episode_range ps"
proof -
  from assms obtain xs qs where qs: "mapR (\<lambda>x. episode_pair U x None) xs = Inr qs"
    and cs: "cs = map code_text (sort (remdups qs))"
    by (cases v) (auto simp: normalize_episode_codes_def result_simps)
  show ?thesis
    using mapR_ranges [OF qs] by (intro that [OF cs strict_sort_remdups]) (simp add: list_all_iff)
qed

text \<open>C36: what \<open>normalize_episode_matrix\<close> and \<open>normalize_episode_codes\<close> let into the database
  reads back unchanged. A matrix they return has strictly increasing seasons in 0..99, each
  with strictly increasing episodes in 1..999, and its JSON form normalises to itself; the
  codes are the texts of strictly increasing pairs in range, normalise to themselves, and the
  matcher's pattern (\<open>_required_episode_map\<close>) recovers exactly those pairs from them.
\<close>
theorem stored_episodes_read_back:
  assumes "normalize_episode_matrix U v = Inr (Some m)" and "normalize_episode_codes U w = Inr (Some cs)"
  shows "matrix_ok m \<and> normalize_episode_matrix U (matrix_json m) = Inr (Some m)
    \<and> normalize_episode_codes U (strs_json cs) = Inr (Some cs)
    \<and> (\<exists>ps. cs = map code_text ps \<and> sorted_wrt (<) ps \<and> list_all episode_range ps
        \<and> set (matrix_pairs (required_episode_map U cs)) = set ps)"
proof -
  have m: "matrix_ok m" by (rule normalize_matrix_ok [OF assms(1)])
  obtain ps where cs: "cs = map code_text ps" and ps: "sorted_wrt (<) ps" and range: "list_all episode_range ps"
    using assms(2) by (rule normalize_codes_ok)
  have "normalize_episode_codes U (strs_json cs) = Inr (Some cs)"
    unfolding cs normalize_episode_codes_def strs_json_def
    by (simp only: json.case mapR_codes [OF range] bindR_simps sort_strict [OF ps])
  moreover have "set (matrix_pairs (required_episode_map U cs)) = set ps"
    using required_pairs [OF range, of U "[]"] by (simp add: cs required_episode_map_def matrix_pairs_def)
  ultimately show ?thesis using m normalize_matrix_back [OF m] cs ps range by blast
qed

theorem stored_episodes_read_back_witness:
  "\<exists>m cs. normalize_episode_matrix (\<lambda>_. None) (JStr ''S02E03, s1e2;S02E01'') = Inr (Some m)
    \<and> normalize_episode_codes (\<lambda>_. None) (JList [JStr ''s1e2'', JStr ''S01E02'']) = Inr (Some cs)
    \<and> cs = [''S01E02''] \<and> m = [(1, [2]), (2, [1, 3])] \<and> matrix_ok m
    \<and> normalize_episode_codes (\<lambda>_. None) (strs_json cs) = Inr (Some cs)"
proof -
  have m: "normalize_episode_matrix (\<lambda>_. None) (JStr ''S02E03, s1e2;S02E01'') = Inr (Some [(1, [2]), (2, [1, 3])])"
    by code_simp
  have cs: "normalize_episode_codes (\<lambda>_. None) (JList [JStr ''s1e2'', JStr ''S01E02'']) = Inr (Some [''S01E02''])"
    by code_simp
  from stored_episodes_read_back [OF m cs] m cs show ?thesis by simp
qed

section \<open>Missing episodes\<close>

lemma matrix_pairs_Cons: "matrix_pairs ((s, es) # m) = map (Pair s) es @ matrix_pairs m"
  by (simp add: matrix_pairs_def)

lemma matrix_pairs_season: "p \<in> set (matrix_pairs m) \<Longrightarrow> fst p \<in> fst ` set m"
  by (force simp: matrix_pairs_def)

lemma matrix_pairs_distinct: "matrix_ok m \<Longrightarrow> distinct (matrix_pairs m) \<and> list_all episode_range (matrix_pairs m)"
proof (induction m)
  case (Cons row m)
  obtain s es where row: "row = (s, es)" by (cases row)
  have m: "matrix_ok m" and es: "sorted_wrt (<) es" and fresh: "s \<notin> fst ` set m"
    and range: "list_all episode_range (map (Pair s) es)"
    using Cons.prems by (auto simp: matrix_ok_def row list_all_iff episode_range_def)
  have "distinct (map (Pair s) es)" using es by (simp add: distinct_map inj_on_def strict_sorted_iff)
  moreover have "set (map (Pair s) es) \<inter> set (matrix_pairs m) = {}"
    using fresh matrix_pairs_season [of _ m] by fastforce
  ultimately show ?case using Cons.IH [OF m] range by (simp add: row matrix_pairs_Cons)
qed (simp add: matrix_pairs_def)

lemma missing_pairs_ok:
  assumes "matrix_ok a"
  shows "sorted_wrt (<) (missing_pairs l a)" and "list_all episode_range (missing_pairs l a)"
    and "set (missing_pairs l a) = set (matrix_pairs a) - set (matrix_pairs l)"
  using matrix_pairs_distinct [OF assms] by (auto simp: missing_pairs_def strict_sorted_iff list_all_iff)

text \<open>No other exception than \<open>ValueError\<close> leaves the readers.\<close>

definition value_errors :: "exn + 'a \<Rightarrow> bool" where
  "value_errors r \<longleftrightarrow> (case r of Inl e \<Rightarrow> e = PyValueError | Inr _ \<Rightarrow> True)"

lemma value_errors_simps [simp]: "value_errors (Inr x)" "value_errors (Inl PyValueError)"
  "value_errors (raise_if b PyValueError)"
  by (simp_all add: value_errors_def raise_if_def)

lemma value_errors_bind: "value_errors m \<Longrightarrow> (\<And>x. value_errors (f x)) \<Longrightarrow> value_errors (bindR m f)"
  by (cases m) (simp_all add: value_errors_def)

lemma value_errors_numbers: "value_errors (season_number U v)" "value_errors (episode_number U v)"
  unfolding season_number_def episode_number_def bounded_number_def
  by (auto intro!: value_errors_bind split: json.split option.split)

lemma value_errors_pair: "value_errors (episode_pair U v hint)"
  unfolding episode_pair_def pair_of_object_def pair_with_hint_def Let_def
  by (auto intro!: value_errors_bind value_errors_numbers split: json.split option.split)

lemma value_errors_item: "value_errors (add_item U hint v acc)"
  unfolding add_item_def by (auto intro!: value_errors_bind value_errors_pair)

lemma value_errors_items: "value_errors (add_items U hint xs acc)"
  by (induction xs arbitrary: acc) (auto intro!: value_errors_bind value_errors_item)

lemma value_errors_seasons: "value_errors (add_seasons U kvs acc)"
  by (induction kvs arbitrary: acc)
    (auto intro!: value_errors_bind value_errors_numbers value_errors_item value_errors_items split: json.split)

lemma value_errors_matrix: "value_errors (normalize_episode_matrix U v)"
  unfolding normalize_episode_matrix_def
  by (auto intro!: value_errors_bind value_errors_item value_errors_items value_errors_seasons split: json.split)

lemma value_errors_mapR: "(\<And>x. value_errors (f x)) \<Longrightarrow> value_errors (mapR f xs)"
  by (induction xs) (auto intro!: value_errors_bind)

lemma value_errors_codes: "value_errors (normalize_episode_codes U v)"
  unfolding normalize_episode_codes_def
  by (auto intro!: value_errors_bind value_errors_mapR value_errors_pair split: json.split)

lemma on_value_error_simps [simp]: "on_value_error (Inr x) d = Inr x" "on_value_error (Inl PyValueError) d = d"
  by (simp_all add: on_value_error_def)

lemma value_errors_cases:
  assumes "value_errors r"
  obtains (error) "r = Inl PyValueError" | (answer) x where "r = Inr x"
  using assms by (cases r) (auto simp: value_errors_def)

definition upstream_codes :: "digits \<Rightarrow> json \<Rightarrow> string list option" where
  "upstream_codes U v = (case normalize_episode_codes U v of Inr cs \<Rightarrow> cs | Inl _ \<Rightarrow> None)"

lemma fallback_codes:
  "on_value_error (normalize_episode_codes U v) (Inr None) = Inr (upstream_codes U v)"
  by (rule value_errors_cases [OF value_errors_codes [of U v]]) (simp_all add: upstream_codes_def)

lemma derive_missing_unfold:
  "derive_missing_episode_codes U aired local upstream =
    (case (normalize_episode_matrix U aired, normalize_episode_matrix U local) of
       (Inr (Some a), Inr (Some l)) \<Rightarrow> Inr (Some (map code_text (missing_pairs l a)))
     | _ \<Rightarrow> Inr (upstream_codes U upstream))"
  unfolding derive_missing_episode_codes_def fallback_codes
  by (rule value_errors_cases [OF value_errors_matrix [of U local]];
      rule value_errors_cases [OF value_errors_matrix [of U aired]])
    (auto split: option.split)

text \<open>\<open>derive_missing_episode_codes\<close> is the set difference. When both matrices can be read, the
  codes are those of the aired pairs that are not local, each once, in increasing order and in
  range, whatever the upstream list says; when one cannot be read, or is absent, the result is
  the upstream list as \<open>normalize_episode_codes\<close> reads it, or nothing. No input makes it raise.
\<close>
theorem derive_missing_is_the_difference:
  "case (normalize_episode_matrix U aired, normalize_episode_matrix U local) of
     (Inr (Some a), Inr (Some l)) \<Rightarrow>
       (\<exists>ps. derive_missing_episode_codes U aired local upstream = Inr (Some (map code_text ps))
         \<and> sorted_wrt (<) ps \<and> set ps = set (matrix_pairs a) - set (matrix_pairs l) \<and> list_all episode_range ps)
   | _ \<Rightarrow> derive_missing_episode_codes U aired local upstream = Inr (upstream_codes U upstream)"
proof (cases "\<exists>a l. normalize_episode_matrix U aired = Inr (Some a) \<and> normalize_episode_matrix U local = Inr (Some l)")
  case True
  then obtain a l where a: "normalize_episode_matrix U aired = Inr (Some a)"
    and l: "normalize_episode_matrix U local = Inr (Some l)" by blast
  have "derive_missing_episode_codes U aired local upstream = Inr (Some (map code_text (missing_pairs l a)))"
    by (simp add: derive_missing_unfold a l)
  with missing_pairs_ok [OF normalize_matrix_ok [OF a], of l] a l show ?thesis by auto
next
  case False
  then show ?thesis by (auto simp: derive_missing_unfold split: sum.split option.split)
qed

end
