(* ===== verification/SiteRules.thy ===== *)
theory SiteRules
  imports Platform
begin

text \<open>The site rules of \<open>core/pt_site_rules.py\<close>: which hit-and-run rule a candidate is under.\<close>

datatype hnr_source = SITE_DEFAULT | CANDIDATE_METADATA | HNR_SOURCE_UNKNOWN

primrec hnr_source_value :: "hnr_source \<Rightarrow> string" where
  "hnr_source_value SITE_DEFAULT = ''SITE_DEFAULT''"
| "hnr_source_value CANDIDATE_METADATA = ''CANDIDATE_METADATA''"
| "hnr_source_value HNR_SOURCE_UNKNOWN = ''UNKNOWN''"

record hnr_rule =
  applies :: "bool option"
  rule_source :: hnr_source
  minimum_seeding_days :: "int option"

definition AVISTAZ_DEFAULT_HNR_DAYS :: int where "AVISTAZ_DEFAULT_HNR_DAYS = 7"

definition rule_known :: "hnr_rule \<Rightarrow> bool" where
  "rule_known r \<longleftrightarrow> applies r \<noteq> None"

definition effective_hnr_rule :: "lib \<Rightarrow> string \<Rightarrow> bool option \<Rightarrow> hnr_rule" where
  "effective_hnr_rule L site_id hit_and_run =
    (if casefold L site_id = ''avistaz'' then
       \<lparr> applies = Some True, rule_source = SITE_DEFAULT,
         minimum_seeding_days = Some AVISTAZ_DEFAULT_HNR_DAYS \<rparr>
     else case hit_and_run of
       None \<Rightarrow> \<lparr> applies = None, rule_source = HNR_SOURCE_UNKNOWN, minimum_seeding_days = None \<rparr>
     | Some b \<Rightarrow> \<lparr> applies = Some b, rule_source = CANDIDATE_METADATA, minimum_seeding_days = None \<rparr>)"

definition hnr_acknowledgement_required :: "lib \<Rightarrow> string \<Rightarrow> bool" where
  "hnr_acknowledgement_required L site_id \<longleftrightarrow> casefold L site_id \<noteq> ''avistaz''"

lemma rule_known_iff:
  "rule_known (effective_hnr_rule L site h) \<longleftrightarrow> \<not> hnr_acknowledgement_required L site \<or> h \<noteq> None"
  by (auto simp: rule_known_def effective_hnr_rule_def hnr_acknowledgement_required_def split: option.splits)

text \<open>The rule stored in a snapshot gives the same rule again.\<close>

lemma effective_hnr_rule_idem:
  "effective_hnr_rule L site (applies (effective_hnr_rule L site h)) = effective_hnr_rule L site h"
  by (auto simp: effective_hnr_rule_def split: option.splits)

end
