(* ===== verification/TorrentValidation.thy ===== *)
theory TorrentValidation
  imports Platform
begin

text \<open>
  Validation of a torrent file before it may be submitted (\<open>services/torrent_validation.py\<close>).

  The bencode package is a parameter: \<open>bdecode\<close> gives the decoded value, or \<open>None\<close> for any
  of the exceptions the code catches, and \<open>bencode\<close> the canonical bytes of a value. The
  recursive closure \<open>walk\<close> over a v2 file tree threads its two nonlocal counters as state.
  The specification functions \<open>tree_leaves\<close> and \<open>tree_ok\<close> flatten the tree; the walker is
  shown to compute their sum and count, with the running limits equal to final ones.
\<close>

unbundle bit_operations_syntax

datatype bvalue =
    BInt int
  | BBytes string
  | BList "bvalue list"
  | BDict "(string \<times> bvalue) list"

record bencode_lib =
  bdecode :: "string \<Rightarrow> bvalue option"
  bencode :: "bvalue \<Rightarrow> string"

record validated_torrent =
  vt_name :: string
  vt_total_size_bytes :: int
  vt_file_count :: int
  vt_info_hash_v1 :: "string option"
  vt_info_hash_v2 :: "string option"
  vt_private :: "bool option"
  vt_meta_version :: int

definition MAX_PIECE_LENGTH :: int where "MAX_PIECE_LENGTH = 64 * 1024 * 1024"
definition MAX_TOTAL_SIZE :: int where "MAX_TOTAL_SIZE = 16 * 1024 ^ 5"

definition torrent_invalid :: exn where
  "torrent_invalid = app_err ''TORRENT_INVALID'' 502"

section \<open>Identity\<close>

definition truthy_hashes :: "string option list \<Rightarrow> string set" where
  "truthy_hashes xs = set (filter (\<lambda>h. h \<noteq> []) (concat (map (\<lambda>h. case h of None \<Rightarrow> [] | Some s \<Rightarrow> [s]) xs)))"

definition vt_identity_hashes :: "validated_torrent \<Rightarrow> string set" where
  "vt_identity_hashes t =
    truthy_hashes [vt_info_hash_v1 t, vt_info_hash_v2 t]
    \<union> (case vt_info_hash_v2 t of None \<Rightarrow> {} | Some h \<Rightarrow> {take 40 h})"

definition matches_hash :: "lib \<Rightarrow> validated_torrent \<Rightarrow> string \<Rightarrow> bool" where
  "matches_hash L t expected \<longleftrightarrow> casefold L expected \<in> vt_identity_hashes t"

section \<open>Fields\<close>

definition bget :: "string \<Rightarrow> (string \<times> bvalue) list \<Rightarrow> bvalue option" where
  "bget k d = map_of d k"

definition bhas :: "string \<Rightarrow> (string \<times> bvalue) list \<Rightarrow> bool" where
  "bhas k d \<longleftrightarrow> bget k d \<noteq> None"

definition positive_integer :: "bvalue option \<Rightarrow> int option \<Rightarrow> exn + int" where
  "positive_integer value dflt =
    (case (value, dflt) of
       (None, Some d) \<Rightarrow> Inr d
     | (Some (BInt n), _) \<Rightarrow> if n \<le> 0 then Inl torrent_invalid else Inr n
     | _ \<Rightarrow> Inl torrent_invalid)"

definition content_length :: "bvalue option \<Rightarrow> exn + int" where
  "content_length value =
    bindR (positive_integer value None) (\<lambda>n.
    bindR (raise_if (MAX_TOTAL_SIZE < n) torrent_invalid) (\<lambda>_. Inr n))"

definition validate_file_attributes :: "(string \<times> bvalue) list \<Rightarrow> exn + unit" where
  "validate_file_attributes value =
    (case bget ''attr'' value of
       None \<Rightarrow> raise_if (bhas ''symlink path'' value) torrent_invalid
     | Some (BBytes a) \<Rightarrow> raise_if (bhas ''symlink path'' value \<or> CHR ''l'' \<in> set a) torrent_invalid
     | Some _ \<Rightarrow> Inl torrent_invalid)"

text \<open>A list or a dictionary is not hashable, so the test for membership of \<open>{0, 1}\<close> raises.\<close>

definition private_flag :: "bvalue option \<Rightarrow> exn + bool option" where
  "private_flag value =
    (case value of
       None \<Rightarrow> Inr None
     | Some (BInt n) \<Rightarrow> if n = 0 \<or> n = 1 then Inr (Some (n = 1)) else Inl torrent_invalid
     | Some (BBytes _) \<Rightarrow> Inl torrent_invalid
     | Some _ \<Rightarrow> Inl PyTypeError)"

text \<open>Well-formed UTF-8, as \<open>bytes.decode("utf-8")\<close> accepts it.\<close>

definition cont :: "int \<Rightarrow> bool" where "cont b \<longleftrightarrow> 0x80 \<le> b \<and> b \<le> 0xBF"

fun utf8_ok :: "int list \<Rightarrow> bool" where
  "utf8_ok [] = True"
| "utf8_ok (a # r) =
    (if a < 0x80 then utf8_ok r
     else case r of
       [] \<Rightarrow> False
     | b # r2 \<Rightarrow>
       if 0xC2 \<le> a \<and> a \<le> 0xDF then cont b \<and> utf8_ok r2
       else case r2 of
         [] \<Rightarrow> False
       | c # r3 \<Rightarrow>
         if 0xE0 \<le> a \<and> a \<le> 0xEF then
           cont b \<and> cont c \<and> (a = 0xE0 \<longrightarrow> 0xA0 \<le> b) \<and> (a = 0xED \<longrightarrow> b \<le> 0x9F) \<and> utf8_ok r3
         else case r3 of
           [] \<Rightarrow> False
         | d # r4 \<Rightarrow>
           0xF0 \<le> a \<and> a \<le> 0xF4 \<and> cont b \<and> cont c \<and> cont d
           \<and> (a = 0xF0 \<longrightarrow> 0x90 \<le> b) \<and> (a = 0xF4 \<longrightarrow> b \<le> 0x8F) \<and> utf8_ok r4)"

definition decode_utf8 :: "string \<Rightarrow> string option" where
  "decode_utf8 s = (if utf8_ok (map byte s) then Some s else None)"

definition unsafe_component :: "string \<Rightarrow> bool" where
  "unsafe_component s \<longleftrightarrow>
    s = ''.'' \<or> s = ''..'' \<or> CHR ''/'' \<in> set s \<or> CHR 0x5C \<in> set s \<or> CHR 0x00 \<in> set s"

definition decode_component :: "bvalue option \<Rightarrow> exn + string" where
  "decode_component value =
    (case value of
       Some (BBytes s) \<Rightarrow>
         if s = [] then Inl torrent_invalid
         else bindR (option_or torrent_invalid (decode_utf8 s)) (\<lambda>d.
              bindR (raise_if (unsafe_component d) torrent_invalid) (\<lambda>_. Inr d))
     | _ \<Rightarrow> Inl torrent_invalid)"

section \<open>Version 1 files\<close>

definition first_of :: "'a option \<Rightarrow> 'a option \<Rightarrow> 'a option" where
  "first_of x y = (case x of None \<Rightarrow> y | Some v \<Rightarrow> Some v)"

definition v1_file :: "bvalue \<Rightarrow> int \<times> string list set \<Rightarrow> exn + int \<times> string list set" where
  "v1_file file_item st =
    (case file_item of
       BDict d \<Rightarrow>
         bindR (validate_file_attributes d) (\<lambda>_.
         bindR (content_length (bget ''length'' d)) (\<lambda>len.
         let total = fst st + len in
         bindR (raise_if (MAX_TOTAL_SIZE < total) torrent_invalid) (\<lambda>_.
         case first_of (bget ''path.utf-8'' d) (bget ''path'' d) of
           Some (BList path) \<Rightarrow>
             if path = [] then Inl torrent_invalid
             else bindR (mapR (\<lambda>c. decode_component (Some c)) path) (\<lambda>decoded.
                  bindR (raise_if (decoded \<in> snd st) torrent_invalid) (\<lambda>_.
                  Inr (total, insert decoded (snd st))))
         | _ \<Rightarrow> Inl torrent_invalid)))
     | _ \<Rightarrow> Inl torrent_invalid)"

fun v1_files :: "bvalue list \<Rightarrow> int \<times> string list set \<Rightarrow> exn + int \<times> string list set" where
  "v1_files [] st = Inr st"
| "v1_files (f # fs) st = bindR (v1_file f st) (v1_files fs)"

definition v1_content :: "(string \<times> bvalue) list \<Rightarrow> int \<Rightarrow> exn + int \<times> int" where
  "v1_content info max_files =
    (if bhas ''length'' info then
       bindR (validate_file_attributes info) (\<lambda>_.
       bindR (content_length (bget ''length'' info)) (\<lambda>n. Inr (n, 1)))
     else case bget ''files'' info of
       Some (BList files) \<Rightarrow>
         if files = [] \<or> max_files < int (length files) then Inl torrent_invalid
         else bindR (v1_files files (0, {})) (\<lambda>st. Inr (fst st, int (length files)))
     | _ \<Rightarrow> Inl torrent_invalid)"

definition validate_v1_files :: "(string \<times> bvalue) list \<Rightarrow> int \<Rightarrow> exn + int \<times> int" where
  "validate_v1_files info max_files =
    bindR (positive_integer (bget ''piece length'' info) None) (\<lambda>piece_length.
    bindR (raise_if (MAX_PIECE_LENGTH < piece_length) torrent_invalid) (\<lambda>_.
    case bget ''pieces'' info of
      Some (BBytes pieces) \<Rightarrow>
        if pieces = [] \<or> length pieces mod 20 \<noteq> 0 then Inl torrent_invalid
        else if bhas ''length'' info = bhas ''files'' info then Inl torrent_invalid
        else
          bindR (v1_content info max_files) (\<lambda>r.
          let expected_pieces = (fst r + piece_length - 1) div piece_length in
          bindR (raise_if (int (length pieces) \<noteq> expected_pieces * 20) torrent_invalid) (\<lambda>_. Inr r))
    | _ \<Rightarrow> Inl torrent_invalid))"

section \<open>Version 2 file tree\<close>

definition is_padding :: "(string \<times> bvalue) list \<Rightarrow> bool" where
  "is_padding d = (case bget ''attr'' d of Some (BBytes a) \<Rightarrow> CHR ''p'' \<in> set a | _ \<Rightarrow> False)"

definition pieces_root_ok :: "(string \<times> bvalue) list \<Rightarrow> bool" where
  "pieces_root_ok d = (case bget ''pieces root'' d of Some (BBytes r) \<Rightarrow> length r = 32 | _ \<Rightarrow> False)"

definition v2_leaf :: "int \<Rightarrow> bvalue \<Rightarrow> int \<times> int \<Rightarrow> exn + int \<times> int" where
  "v2_leaf max_files value st =
    (case value of
       BDict d \<Rightarrow>
         bindR (validate_file_attributes d) (\<lambda>_.
         bindR (content_length (bget ''length'' d)) (\<lambda>len.
         bindR (raise_if (\<not> is_padding d \<and> \<not> pieces_root_ok d) torrent_invalid) (\<lambda>_.
         let total = fst st + len; count = snd st + 1 in
         bindR (raise_if (MAX_TOTAL_SIZE < total) torrent_invalid) (\<lambda>_.
         bindR (raise_if (max_files < count) torrent_invalid) (\<lambda>_. Inr (total, count))))))
     | _ \<Rightarrow> Inl torrent_invalid)"

function walk :: "int \<Rightarrow> nat \<Rightarrow> (string \<times> bvalue) list \<Rightarrow> int \<times> int \<Rightarrow> exn + int \<times> int"
  and walk_items :: "int \<Rightarrow> nat \<Rightarrow> (string \<times> bvalue) list \<Rightarrow> int \<times> int \<Rightarrow> exn + int \<times> int" where
  "walk mf depth node st =
    (if 100 < depth then Inl torrent_invalid
     else if [] \<in> set (map fst node) \<and> length node \<noteq> 1 then Inl torrent_invalid
     else walk_items mf depth node st)"
| "walk_items mf depth [] st = Inr st"
| "walk_items mf depth ((raw_name, value) # rest) st =
    (if raw_name = [] then bindR (v2_leaf mf value st) (walk_items mf depth rest)
     else bindR (decode_component (Some (BBytes raw_name))) (\<lambda>_.
       case value of
         BDict child \<Rightarrow> bindR (walk mf (depth + 1) child st) (walk_items mf depth rest)
       | _ \<Rightarrow> Inl torrent_invalid))"
  by pat_completeness auto
termination
  by (relation "measure (\<lambda>x. case x of
        Inl (mf, d, node, st) \<Rightarrow> 2 * size_list (size_prod (\<lambda>_. 0) size) node + 1
      | Inr (mf, d, node, st) \<Rightarrow> 2 * size_list (size_prod (\<lambda>_. 0) size) node)")
    auto

definition validate_v2_files :: "(string \<times> bvalue) list \<Rightarrow> int \<Rightarrow> exn + int \<times> int" where
  "validate_v2_files info max_files =
    bindR (positive_integer (bget ''meta version'' info) None) (\<lambda>mv.
    bindR (raise_if (mv \<noteq> 2) torrent_invalid) (\<lambda>_.
    bindR (positive_integer (bget ''piece length'' info) None) (\<lambda>pl.
    bindR (raise_if (MAX_PIECE_LENGTH < pl \<or> pl AND (pl - 1) \<noteq> 0) torrent_invalid) (\<lambda>_.
    case bget ''file tree'' info of
      Some (BDict tree) \<Rightarrow>
        if tree = [] then Inl torrent_invalid else walk max_files 0 tree (0, 0)
    | _ \<Rightarrow> Inl torrent_invalid))))"

section \<open>The whole file\<close>

definition both_differ :: "int option \<Rightarrow> int option \<Rightarrow> bool" where
  "both_differ x y = (case (x, y) of (Some a, Some b) \<Rightarrow> a \<noteq> b | _ \<Rightarrow> False)"

definition has_v1_shape :: "(string \<times> bvalue) list \<Rightarrow> bool" where
  "has_v1_shape info \<longleftrightarrow> bhas ''length'' info \<or> bhas ''files'' info \<or> bhas ''pieces'' info"

definition has_v2_shape :: "(string \<times> bvalue) list \<Rightarrow> bool" where
  "has_v2_shape info \<longleftrightarrow> bhas ''file tree'' info"

definition when_shape :: "bool \<Rightarrow> (exn + 'a) \<Rightarrow> exn + 'a option" where
  "when_shape shape r = (if shape then bindR r (\<lambda>x. Inr (Some x)) else Inr None)"

definition agreed_content :: "(int \<times> int) option \<Rightarrow> (int \<times> int) option \<Rightarrow> exn + int \<times> int" where
  "agreed_content v1 v2 =
    bindR (raise_if (both_differ (map_option fst v1) (map_option fst v2)) torrent_invalid) (\<lambda>_.
    bindR (raise_if (both_differ (map_option snd v1) (map_option snd v2)) torrent_invalid) (\<lambda>_.
    bindR (option_or torrent_invalid (first_of v1 v2)) (\<lambda>c.
    bindR (raise_if (fst c \<le> 0 \<or> snd c \<le> 0) torrent_invalid) (\<lambda>_.
    bindR (raise_if (MAX_TOTAL_SIZE < fst c) torrent_invalid) (\<lambda>_. Inr c)))))"

definition validate_info ::
    "lib \<Rightarrow> bencode_lib \<Rightarrow> (string \<times> bvalue) list \<Rightarrow> int \<Rightarrow> exn + validated_torrent" where
  "validate_info L B info max_files =
    (let encoded_info = bencode B (BDict info) in
     bindR (positive_integer (bget ''meta version'' info) (Some 1)) (\<lambda>meta_version.
     bindR (raise_if (meta_version \<noteq> 1 \<and> meta_version \<noteq> 2) torrent_invalid) (\<lambda>_.
     bindR (decode_component (first_of (bget ''name.utf-8'' info) (bget ''name'' info))) (\<lambda>name.
     bindR (private_flag (bget ''private'' info)) (\<lambda>private.
     bindR (raise_if (\<not> has_v1_shape info \<and> \<not> has_v2_shape info) torrent_invalid) (\<lambda>_.
     bindR (when_shape (has_v1_shape info) (validate_v1_files info max_files)) (\<lambda>v1.
     bindR (when_shape (has_v2_shape info) (validate_v2_files info max_files)) (\<lambda>v2.
     bindR (agreed_content v1 v2) (\<lambda>content.
     Inr \<lparr> vt_name = name, vt_total_size_bytes = fst content, vt_file_count = snd content,
           vt_info_hash_v1 = (if has_v1_shape info then Some (sha1_hex L encoded_info) else None),
           vt_info_hash_v2 = (if meta_version = 2 then Some (sha256_hex L encoded_info) else None),
           vt_private = private, vt_meta_version = meta_version \<rparr>)))))))))"

definition check_expected_hash :: "lib \<Rightarrow> string option \<Rightarrow> validated_torrent \<Rightarrow> exn + validated_torrent" where
  "check_expected_hash L expected_info_hash result =
    (case expected_info_hash of
       None \<Rightarrow> Inr result
     | Some expected \<Rightarrow>
         bindR (raise_if (\<not> (hexs 40 expected \<or> hexs 64 expected) \<or> \<not> matches_hash L result expected)
           (app_err ''TORRENT_INFO_HASH_MISMATCH'' 409)) (\<lambda>_. Inr result))"

definition root_info :: "bvalue \<Rightarrow> exn + (string \<times> bvalue) list" where
  "root_info decoded =
    (case decoded of
       BDict entries \<Rightarrow>
         (case bget ''info'' entries of Some (BDict info) \<Rightarrow> Inr info | _ \<Rightarrow> Inl torrent_invalid)
     | _ \<Rightarrow> Inl torrent_invalid)"

definition validate_torrent ::
    "lib \<Rightarrow> bencode_lib \<Rightarrow> string \<Rightarrow> string option \<Rightarrow> int \<Rightarrow> int \<Rightarrow> exn + validated_torrent" where
  "validate_torrent L B payload expected_info_hash max_torrent_bytes max_files =
    bindR (raise_if (payload = []) torrent_invalid) (\<lambda>_.
    bindR (raise_if (max 1 max_torrent_bytes < int (length payload))
      (app_err ''TORRENT_FILE_TOO_LARGE'' 502)) (\<lambda>_.
    bindR (option_or torrent_invalid (bdecode B payload)) (\<lambda>root.
    bindR (raise_if (bencode B root \<noteq> payload) torrent_invalid) (\<lambda>_.
    bindR (root_info root) (\<lambda>info.
    bindR (validate_info L B info max_files) (\<lambda>result.
    check_expected_hash L expected_info_hash result))))))"

section \<open>Fields: what is accepted\<close>

declare walk.simps [simp del]

lemma positive_integer_Inr_iff:
  "positive_integer v dflt = Inr n \<longleftrightarrow> (v = Some (BInt n) \<and> 0 < n) \<or> (v = None \<and> dflt = Some n)"
  by (auto simp: positive_integer_def split: option.splits bvalue.splits if_splits)

lemma content_length_Inr_iff:
  "content_length v = Inr n \<longleftrightarrow> v = Some (BInt n) \<and> 0 < n \<and> n \<le> MAX_TOTAL_SIZE"
  by (auto simp: content_length_def result_simps positive_integer_Inr_iff)

definition safe_component :: "string \<Rightarrow> bool" where
  "safe_component s \<longleftrightarrow> s \<noteq> [] \<and> utf8_ok (map byte s) \<and> \<not> unsafe_component s"

lemma decode_component_Inr_iff:
  "decode_component v = Inr s \<longleftrightarrow> v = Some (BBytes s) \<and> safe_component s"
  by (auto simp: decode_component_def safe_component_def decode_utf8_def result_simps
      split: option.splits bvalue.splits if_splits)

definition attributes_ok :: "(string \<times> bvalue) list \<Rightarrow> bool" where
  "attributes_ok d \<longleftrightarrow> \<not> bhas ''symlink path'' d
    \<and> (case bget ''attr'' d of None \<Rightarrow> True | Some (BBytes a) \<Rightarrow> CHR ''l'' \<notin> set a | Some _ \<Rightarrow> False)"

lemma validate_file_attributes_Inr_iff: "validate_file_attributes d = Inr u \<longleftrightarrow> attributes_ok d"
  by (auto simp: validate_file_attributes_def attributes_ok_def result_simps
      split: option.splits bvalue.splits)

section \<open>The tree walker against its specification\<close>

fun tree_leaves :: "(string \<times> bvalue) list \<Rightarrow> (string \<times> bvalue) list list" where
  "tree_leaves [] = []"
| "tree_leaves ((name, value) # rest) =
    (case value of BDict d \<Rightarrow> if name = [] then [d] else tree_leaves d | _ \<Rightarrow> []) @ tree_leaves rest"

definition leaf_length :: "(string \<times> bvalue) list \<Rightarrow> int" where
  "leaf_length d = (case bget ''length'' d of Some (BInt n) \<Rightarrow> n | _ \<Rightarrow> 0)"

definition leaf_ok :: "(string \<times> bvalue) list \<Rightarrow> bool" where
  "leaf_ok d \<longleftrightarrow> attributes_ok d \<and> 0 < leaf_length d \<and> leaf_length d \<le> MAX_TOTAL_SIZE
    \<and> (is_padding d \<or> pieces_root_ok d)"

function tree_ok :: "nat \<Rightarrow> (string \<times> bvalue) list \<Rightarrow> bool"
  and items_ok :: "nat \<Rightarrow> (string \<times> bvalue) list \<Rightarrow> bool" where
  "tree_ok depth node \<longleftrightarrow>
    depth \<le> 100 \<and> ([] \<in> set (map fst node) \<longrightarrow> length node = 1) \<and> items_ok depth node"
| "items_ok depth [] \<longleftrightarrow> True"
| "items_ok depth ((name, value) # rest) \<longleftrightarrow>
    (case value of
       BDict d \<Rightarrow> if name = [] then leaf_ok d else safe_component name \<and> tree_ok (depth + 1) d
     | _ \<Rightarrow> False)
    \<and> items_ok depth rest"
  by pat_completeness auto
termination
  by (relation "measure (\<lambda>x. case x of
        Inl (d, node) \<Rightarrow> 2 * size_list (size_prod (\<lambda>_. 0) size) node + 1
      | Inr (d, node) \<Rightarrow> 2 * size_list (size_prod (\<lambda>_. 0) size) node)")
    auto

declare tree_ok.simps [simp del]

definition tree_size :: "(string \<times> bvalue) list \<Rightarrow> int" where
  "tree_size node = sum_list (map leaf_length (tree_leaves node))"

definition tree_count :: "(string \<times> bvalue) list \<Rightarrow> int" where
  "tree_count node = int (length (tree_leaves node))"

definition within_limits :: "int \<Rightarrow> int \<Rightarrow> int \<Rightarrow> bool" where
  "within_limits mf n k \<longleftrightarrow> n \<le> MAX_TOTAL_SIZE \<and> k \<le> mf"

lemma leaf_length_content:
  "content_length (bget ''length'' d) = Inr n \<longleftrightarrow>
    leaf_length d = n \<and> 0 < n \<and> n \<le> MAX_TOTAL_SIZE"
  by (auto simp: content_length_Inr_iff leaf_length_def split: option.splits bvalue.splits)

lemma v2_leaf_Inr_iff:
  "v2_leaf mf v st = Inr st' \<longleftrightarrow>
    (\<exists>d. v = BDict d \<and> leaf_ok d \<and> st' = (fst st + leaf_length d, snd st + 1)
      \<and> within_limits mf (fst st + leaf_length d) (snd st + 1))"
  by (cases v)
    (auto simp: v2_leaf_def bindR_Inr_iff raise_if_Inr_iff validate_file_attributes_Inr_iff
      leaf_length_content leaf_ok_def within_limits_def Let_def)

lemma leaves_positive:
  "(tree_ok depth node \<longrightarrow> (\<forall>d \<in> set (tree_leaves node). 0 < leaf_length d))"
  "(items_ok depth node \<longrightarrow> (\<forall>d \<in> set (tree_leaves node). 0 < leaf_length d))"
  by (induction depth node and depth node rule: tree_ok_items_ok.induct)
    (auto simp: tree_ok.simps leaf_ok_def split: bvalue.splits if_splits)

lemma tree_size_nonneg: "items_ok depth node \<Longrightarrow> 0 \<le> tree_size node"
  using leaves_positive(2) [of depth node] by (auto simp: tree_size_def less_imp_le intro!: sum_list_nonneg)

lemma tree_count_nonneg: "0 \<le> tree_count node"
  by (simp add: tree_count_def)

lemma tree_sums_Nil [simp]: "tree_size [] = 0" "tree_count [] = 0"
  by (simp_all add: tree_size_def tree_count_def)

lemma tree_sums_leaf:
  "tree_size (([], BDict d) # rest) = leaf_length d + tree_size rest"
  "tree_count (([], BDict d) # rest) = 1 + tree_count rest"
  by (simp_all add: tree_size_def tree_count_def)

lemma tree_sums_dir:
  "name \<noteq> [] \<Longrightarrow> tree_size ((name, BDict d) # rest) = tree_size d + tree_size rest"
  "name \<noteq> [] \<Longrightarrow> tree_count ((name, BDict d) # rest) = tree_count d + tree_count rest"
  by (simp_all add: tree_size_def tree_count_def)

lemma no_leaves_sums: "tree_leaves node = [] \<Longrightarrow> tree_size node = 0 \<and> tree_count node = 0"
  by (simp add: tree_size_def tree_count_def)

definition tree_result :: "int \<Rightarrow> (string \<times> bvalue) list \<Rightarrow> int \<times> int \<Rightarrow> int \<times> int \<Rightarrow> bool" where
  "tree_result mf node st st' \<longleftrightarrow> st' = (fst st + tree_size node, snd st + tree_count node)
    \<and> (tree_leaves node \<noteq> [] \<longrightarrow> within_limits mf (fst st') (snd st'))"

lemma tree_result_append_leaf:
  assumes "items_ok depth rest"
  shows "within_limits mf (fst st + leaf_length d) (snd st + 1)
      \<and> tree_result mf rest (fst st + leaf_length d, snd st + 1) st' \<longleftrightarrow>
    tree_result mf (([], BDict d) # rest) st st'"
  using tree_size_nonneg [OF assms] tree_count_nonneg [of rest] no_leaves_sums [of rest]
  by (auto simp: tree_result_def tree_sums_leaf within_limits_def)

lemma tree_result_append_dir:
  assumes "items_ok depth rest" and "name \<noteq> []"
  shows "tree_result mf d st mid \<and> tree_result mf rest mid st' \<longleftrightarrow>
    mid = (fst st + tree_size d, snd st + tree_count d) \<and> tree_result mf ((name, BDict d) # rest) st st'"
  using assms tree_size_nonneg [OF assms(1)] tree_count_nonneg [of rest] no_leaves_sums [of rest]
    no_leaves_sums [of d]
  by (auto simp: tree_result_def tree_sums_dir within_limits_def)

lemma walk_items_leaf:
  "bindR (v2_leaf mf value st) f = Inr r \<longleftrightarrow>
    (\<exists>d. value = BDict d \<and> leaf_ok d \<and> within_limits mf (fst st + leaf_length d) (snd st + 1)
      \<and> f (fst st + leaf_length d, snd st + 1) = Inr r)"
  by (auto simp: bindR_Inr_iff v2_leaf_Inr_iff)

lemma walk_spec:
  "(walk mf depth node st = Inr st' \<longleftrightarrow> tree_ok depth node \<and> tree_result mf node st st')"
  "(walk_items mf depth items st = Inr st' \<longleftrightarrow> items_ok depth items \<and> tree_result mf items st st')"
proof (induction mf depth node st and mf depth items st arbitrary: st' and st' rule: walk_walk_items.induct)
  case (1 mf depth node st)
  then show ?case by (auto simp: walk.simps [of mf depth] tree_ok.simps [of depth])
next
  case (2 mf depth st)
  then show ?case by (cases st) (auto simp: tree_result_def)
next
  case (3 mf depth name v rest st)
  show ?case
  proof (cases "name = []")
    case True
    have "walk_items mf depth ((name, v) # rest) st = Inr st' \<longleftrightarrow>
      (\<exists>d. v = BDict d \<and> leaf_ok d \<and> within_limits mf (fst st + leaf_length d) (snd st + 1)
        \<and> items_ok depth rest \<and> tree_result mf rest (fst st + leaf_length d, snd st + 1) st')"
      using True 3(1) by (simp add: walk_items_leaf)
    also have "\<dots> \<longleftrightarrow> items_ok depth ((name, v) # rest) \<and> tree_result mf ((name, v) # rest) st st'"
      using True tree_result_append_leaf [of depth rest mf st _ st']
      by (cases v) auto
    finally show ?thesis .
  next
    case False
    have "walk_items mf depth ((name, v) # rest) st = Inr st' \<longleftrightarrow>
      (\<exists>d mid. v = BDict d \<and> safe_component name \<and> tree_ok (depth + 1) d \<and> tree_result mf d st mid
        \<and> items_ok depth rest \<and> tree_result mf rest mid st')"
      using False 3(2,3)
      by (cases v) (auto simp: bindR_Inr_iff decode_component_Inr_iff)
    also have "\<dots> \<longleftrightarrow> items_ok depth ((name, v) # rest) \<and> tree_result mf ((name, v) # rest) st st'"
      using False tree_result_append_dir [of depth rest name mf _ st _ st']
      by (cases v) auto
    finally show ?thesis .
  qed
qed

lemma walk_iff:
  "walk mf 0 tree (0, 0) = Inr (n, k) \<longleftrightarrow>
    tree_ok 0 tree \<and> n = tree_size tree \<and> k = tree_count tree
      \<and> (tree_leaves tree \<noteq> [] \<longrightarrow> n \<le> MAX_TOTAL_SIZE \<and> k \<le> mf)"
  by (auto simp: walk_spec(1) tree_result_def within_limits_def)

section \<open>The version 1 file list against its specification\<close>

definition v1_entry :: "bvalue \<Rightarrow> int \<times> string list \<Rightarrow> bool" where
  "v1_entry f it \<longleftrightarrow> (\<exists>d. f = BDict d \<and> attributes_ok d
    \<and> leaf_length d = fst it \<and> 0 < fst it \<and> fst it \<le> MAX_TOTAL_SIZE
    \<and> first_of (bget ''path.utf-8'' d) (bget ''path'' d) = Some (BList (map BBytes (snd it)))
    \<and> snd it \<noteq> [] \<and> (\<forall>s \<in> set (snd it). safe_component s))"

definition items_size :: "(int \<times> string list) list \<Rightarrow> int" where
  "items_size items = sum_list (map fst items)"

lemma mapR_decode:
  "mapR (\<lambda>c. decode_component (Some c)) path = Inr decoded \<longleftrightarrow>
    path = map BBytes decoded \<and> (\<forall>s \<in> set decoded. safe_component s)"
  by (induction path arbitrary: decoded)
    (auto simp: bindR_Inr_iff decode_component_Inr_iff)

lemma first_of_list_eq:
  "(case x of Some (BList p) \<Rightarrow> f p | _ \<Rightarrow> Inl e) = Inr r \<longleftrightarrow> (\<exists>p. x = Some (BList p) \<and> f p = Inr r)"
  by (auto split: option.splits bvalue.splits)

lemma v1_file_Inr_iff:
  "v1_file f st = Inr st' \<longleftrightarrow>
    (\<exists>it. v1_entry f it \<and> fst st + fst it \<le> MAX_TOTAL_SIZE \<and> snd it \<notin> snd st
      \<and> st' = (fst st + fst it, insert (snd it) (snd st)))"
proof (cases f)
  case (BDict d)
  then show ?thesis
    by (auto simp: v1_file_def v1_entry_def Let_def bindR_Inr_iff raise_if_Inr_iff first_of_list_eq
        validate_file_attributes_Inr_iff leaf_length_content mapR_decode)
qed (auto simp: v1_file_def v1_entry_def)

lemma v1_entries_nonneg: "list_all2 v1_entry fs its \<Longrightarrow> 0 \<le> items_size its"
  by (induction rule: list_all2_induct) (auto simp: items_size_def v1_entry_def)

lemma v1_entries_pos: "list_all2 v1_entry fs its \<Longrightarrow> fs \<noteq> [] \<Longrightarrow> 0 < items_size its"
proof (cases fs)
  case (Cons f fs')
  assume "list_all2 v1_entry fs its"
  then obtain it its' where "its = it # its'" "v1_entry f it" "list_all2 v1_entry fs' its'"
    using Cons by (auto simp: list_all2_Cons1)
  then show ?thesis
    using v1_entries_nonneg [of fs' its'] by (auto simp: items_size_def v1_entry_def)
qed simp

lemma v1_files_Inr_iff:
  "v1_files fs (n0, seen) = Inr st' \<longleftrightarrow>
    (\<exists>items. list_all2 v1_entry fs items \<and> distinct (map snd items) \<and> set (map snd items) \<inter> seen = {}
      \<and> st' = (n0 + items_size items, seen \<union> set (map snd items))
      \<and> (fs \<noteq> [] \<longrightarrow> n0 + items_size items \<le> MAX_TOTAL_SIZE))"
  (is "?run fs n0 seen \<longleftrightarrow> ?spec fs n0 seen")
proof (induction fs arbitrary: n0 seen)
  case Nil
  then show ?case by (auto simp: items_size_def)
next
  case (Cons f fs)
  note nonneg = v1_entries_nonneg [of fs]
  have "?run (f # fs) n0 seen \<longleftrightarrow>
    (\<exists>it. v1_entry f it \<and> n0 + fst it \<le> MAX_TOTAL_SIZE \<and> snd it \<notin> seen
      \<and> ?run fs (n0 + fst it) (insert (snd it) seen))"
    unfolding v1_files.simps bindR_Inr_iff v1_file_Inr_iff fst_conv snd_conv by blast
  also have "\<dots> \<longleftrightarrow> (\<exists>it. v1_entry f it \<and> n0 + fst it \<le> MAX_TOTAL_SIZE \<and> snd it \<notin> seen
      \<and> ?spec fs (n0 + fst it) (insert (snd it) seen))"
    unfolding Cons.IH ..
  also have "\<dots> \<longleftrightarrow> ?spec (f # fs) n0 seen"
  proof
    assume "\<exists>it. v1_entry f it \<and> n0 + fst it \<le> MAX_TOTAL_SIZE \<and> snd it \<notin> seen
      \<and> ?spec fs (n0 + fst it) (insert (snd it) seen)"
    then obtain it its where "v1_entry f it" "n0 + fst it \<le> MAX_TOTAL_SIZE" "snd it \<notin> seen"
      "list_all2 v1_entry fs its" "distinct (map snd its)" "set (map snd its) \<inter> insert (snd it) seen = {}"
      "st' = (n0 + fst it + items_size its, insert (snd it) seen \<union> set (map snd its))"
      "fs \<noteq> [] \<longrightarrow> n0 + fst it + items_size its \<le> MAX_TOTAL_SIZE"
      by blast
    then show "?spec (f # fs) n0 seen"
      by (intro exI [of _ "it # its"]) (auto simp: items_size_def add.assoc)
  next
    assume "?spec (f # fs) n0 seen"
    then obtain it its where "v1_entry f it" "list_all2 v1_entry fs its"
      "distinct (snd it # map snd its)" "set (snd it # map snd its) \<inter> seen = {}"
      "st' = (n0 + fst it + items_size its, seen \<union> set (snd it # map snd its))"
      "n0 + fst it + items_size its \<le> MAX_TOTAL_SIZE"
      by (auto simp: list_all2_Cons1 items_size_def add.assoc)
    then show "\<exists>it. v1_entry f it \<and> n0 + fst it \<le> MAX_TOTAL_SIZE \<and> snd it \<notin> seen
      \<and> ?spec fs (n0 + fst it) (insert (snd it) seen)"
      using nonneg [of its] by (intro exI [of _ it] conjI exI [of _ its]) auto
  qed
  finally show ?case .
qed

definition v1_layout :: "(string \<times> bvalue) list \<Rightarrow> int \<Rightarrow> int \<Rightarrow> int \<Rightarrow> bool" where
  "v1_layout info mf n k \<longleftrightarrow>
    (if bhas ''length'' info then attributes_ok info \<and> leaf_length info = n \<and> k = 1
     else \<exists>files items. bget ''files'' info = Some (BList files) \<and> files \<noteq> []
       \<and> list_all2 v1_entry files items \<and> distinct (map snd items)
       \<and> n = items_size items \<and> k = int (length files) \<and> k \<le> mf)"

lemma v1_content_Inr_iff:
  "v1_content info mf = Inr (n, k) \<longleftrightarrow> v1_layout info mf n k \<and> 0 < n \<and> n \<le> MAX_TOTAL_SIZE"
proof (cases "bhas ''length'' info")
  case True
  then show ?thesis
    by (auto simp: v1_content_def v1_layout_def bindR_Inr_iff validate_file_attributes_Inr_iff
        leaf_length_content)
next
  case False
  from False show ?thesis
    by (auto simp: v1_content_def v1_layout_def bindR_Inr_iff v1_files_Inr_iff first_of_list_eq
        split: if_splits dest: v1_entries_pos)
qed

section \<open>Piece length of version 2: a power of two\<close>

lemma and_pred_even: "(2 * m) AND (2 * m - 1) = 2 * (m AND (m - 1))" for m :: int
proof -
  have "(2 * m - 1) div 2 = m - 1" by presburger
  then show ?thesis by (subst and_rec) simp
qed

lemma and_pred_odd: "(2 * m + 1) AND (2 * m) = 2 * m" for m :: int
  by (subst and_rec) simp

lemma and_pred_zero_iff:
  "0 < n \<Longrightarrow> n AND (n - 1) = 0 \<longleftrightarrow> (\<exists>e. n = 2 ^ e)" for n :: int
proof (induction "nat n" arbitrary: n rule: less_induct)
  case less
  show ?case
  proof (cases "even n")
    case True
    then obtain m where m: "n = 2 * m" by blast
    with less.prems have "0 < m" "nat m < nat n" by simp_all
    then have IH: "m AND (m - 1) = 0 \<longleftrightarrow> (\<exists>e. m = 2 ^ e)" using less.hyps by blast
    have "(\<exists>e. n = 2 ^ e) \<longleftrightarrow> (\<exists>e. m = 2 ^ e)"
    proof
      assume "\<exists>e. n = 2 ^ e"
      then obtain e where e: "2 * m = 2 ^ e" using m by auto
      then have "e \<noteq> 0" by (intro notI) (simp add: m, presburger)
      then obtain f where "e = Suc f" by (cases e) auto
      with e show "\<exists>e. m = 2 ^ e" by auto
    next
      assume "\<exists>e. m = 2 ^ e"
      then show "\<exists>e. n = 2 ^ e" using m by (metis power_Suc)
    qed
    with IH show ?thesis by (simp add: m and_pred_even)
  next
    case False
    then obtain m where m: "n = 2 * m + 1" by (elim oddE)
    have "(\<exists>e. n = 2 ^ e) \<longleftrightarrow> m = 0"
    proof
      assume "\<exists>e. n = 2 ^ e"
      then obtain e where e: "n = 2 ^ e" by blast
      with False have "e = 0" by (cases e) auto
      with e m show "m = 0" by simp
    next
      assume "m = 0"
      with m show "\<exists>e. n = 2 ^ e" by (intro exI [of _ 0]) simp
    qed
    then show ?thesis by (simp add: m and_pred_odd)
  qed
qed

section \<open>Which errors can escape\<close>

definition only_invalid :: "(exn + 'a) \<Rightarrow> bool" where
  "only_invalid r \<longleftrightarrow> (\<forall>e. r = Inl e \<longrightarrow> e = torrent_invalid)"

lemma only_invalid_simps [simp]:
  "only_invalid (Inr x)" "only_invalid (Inl torrent_invalid)"
  "only_invalid (raise_if b torrent_invalid)" "only_invalid (option_or torrent_invalid y)"
  by (auto simp: only_invalid_def raise_if_def option_or_def split: option.splits)

lemma only_invalid_bind [intro!]:
  "only_invalid m \<Longrightarrow> (\<And>x. m = Inr x \<Longrightarrow> only_invalid (f x)) \<Longrightarrow> only_invalid (bindR m f)"
  by (cases m) (auto simp: only_invalid_def)

lemma only_invalid_mapR: "(\<And>x. only_invalid (f x)) \<Longrightarrow> only_invalid (mapR f xs)"
  by (induction xs) auto

lemma only_invalid_fields [simp]:
  "only_invalid (positive_integer v d)"
  "only_invalid (validate_file_attributes attrs)"
  "only_invalid (decode_component v)"
  by (auto simp: positive_integer_def validate_file_attributes_def decode_component_def
      split: option.splits bvalue.splits)

lemma only_invalid_content_length [simp]: "only_invalid (content_length v)"
  by (auto simp: content_length_def)

lemma only_invalid_v1_file [simp]: "only_invalid (v1_file f st)"
  by (auto simp: v1_file_def Let_def intro!: only_invalid_bind only_invalid_mapR
      split: option.splits bvalue.splits)

lemma only_invalid_v1_files [simp]: "only_invalid (v1_files fs st)"
  by (induction fs arbitrary: st) auto

lemma only_invalid_v1 [simp]: "only_invalid (validate_v1_files info mf)"
  by (auto simp: validate_v1_files_def v1_content_def Let_def intro!: only_invalid_bind
      split: option.splits bvalue.splits)

lemma only_invalid_v2_leaf [simp]: "only_invalid (v2_leaf mf v st)"
  by (auto simp: v2_leaf_def Let_def intro!: only_invalid_bind split: bvalue.splits)

lemma only_invalid_walk: "only_invalid (walk mf d node st)" "only_invalid (walk_items mf d items st)"
  by (induction mf d node st and mf d items st rule: walk_walk_items.induct)
    (auto simp: walk.simps intro!: only_invalid_bind split: bvalue.splits)

lemma only_invalid_v2 [simp]: "only_invalid (validate_v2_files info mf)"
  by (auto simp: validate_v2_files_def only_invalid_walk intro!: only_invalid_bind
      split: option.splits bvalue.splits)

definition unhashable :: "bvalue option \<Rightarrow> bool" where
  "unhashable v = (case v of Some (BList _) \<Rightarrow> True | Some (BDict _) \<Rightarrow> True | _ \<Rightarrow> False)"

lemma private_flag_Inl:
  "private_flag v = Inl e \<Longrightarrow> e = torrent_invalid \<or> (e = PyTypeError \<and> unhashable v)"
  by (auto simp: private_flag_def unhashable_def split: option.splits bvalue.splits if_splits)

section \<open>Successful case analysis of bencode values\<close>

lemma case_dict_Inr:
  "(case v of BDict d \<Rightarrow> f d | _ \<Rightarrow> Inl e) = Inr r \<longleftrightarrow> (\<exists>d. v = BDict d \<and> f d = Inr r)"
  by (cases v) auto

lemma when_shape_Inr_iff:
  "when_shape shape r = Inr v \<longleftrightarrow> (if shape then \<exists>x. r = Inr x \<and> v = Some x else v = None)"
  by (auto simp: when_shape_def bindR_Inr_iff)

lemma agreed_content_Inr_iff:
  "agreed_content v1 v2 = Inr c \<longleftrightarrow>
    0 < fst c \<and> 0 < snd c \<and> fst c \<le> MAX_TOTAL_SIZE
    \<and> (v1 = None \<or> v1 = Some c) \<and> (v2 = None \<or> v2 = Some c) \<and> \<not> (v1 = None \<and> v2 = None)"
  by (cases v1; cases v2)
    (auto simp: agreed_content_def result_simps both_differ_def first_of_def prod_eq_iff)

lemma only_invalid_agreed [simp]: "only_invalid (agreed_content v1 v2)"
  by (auto simp: agreed_content_def)

lemma only_invalid_when_shape [simp]: "only_invalid r \<Longrightarrow> only_invalid (when_shape shape r)"
  by (auto simp: when_shape_def)

lemma root_info_Inr_iff:
  "root_info v = Inr info \<longleftrightarrow> (\<exists>d. v = BDict d \<and> bget ''info'' d = Some (BDict info))"
  by (auto simp: root_info_def split: bvalue.splits option.splits)

lemma check_expected_hash_Inr_iff:
  "check_expected_hash L ex t = Inr t' \<longleftrightarrow>
    t' = t \<and> (\<forall>h. ex = Some h \<longrightarrow> (hexs 40 h \<or> hexs 64 h) \<and> matches_hash L t h)"
  by (auto simp: check_expected_hash_def result_simps split: option.splits)

lemma case_some_dict_Inr:
  "(case v of Some (BDict d) \<Rightarrow> f d | _ \<Rightarrow> Inl e) = Inr r \<longleftrightarrow> (\<exists>d. v = Some (BDict d) \<and> f d = Inr r)"
  by (auto split: option.splits bvalue.splits)

lemma case_some_bytes_Inr:
  "(case v of Some (BBytes b) \<Rightarrow> f b | _ \<Rightarrow> Inl e) = Inr r \<longleftrightarrow> (\<exists>b. v = Some (BBytes b) \<and> f b = Inr r)"
  by (auto split: option.splits bvalue.splits)

lemma only_invalid_root_info [simp]: "only_invalid (root_info v)"
  by (auto simp: root_info_def split: bvalue.splits option.splits)

lemmas bvalue_case_Inr = case_dict_Inr case_some_dict_Inr case_some_bytes_Inr

section \<open>Properties\<close>

text \<open>A single-file v1 torrent of 25 bytes in two pieces of 16 bytes.\<close>

definition example_info :: "(string \<times> bvalue) list" where
  "example_info = [(''length'', BInt 25), (''name'', BBytes ''film.mkv''), (''piece length'', BInt 16),
    (''pieces'', BBytes (replicate 40 (CHR ''p'')))]"

definition example_codec :: "bvalue \<Rightarrow> bencode_lib" where
  "example_codec v = \<lparr> bdecode = (\<lambda>_. Some v), bencode = (\<lambda>_. ''d4:infod...ee'') \<rparr>"

text \<open>C31: \<open>_validate_v1_files\<close> accepts exactly the v1 layouts: a positive piece length within the
  limit, one of a single file or a file list of distinct safe paths, a total size within the
  limit, and a \<open>pieces\<close> string of twenty bytes for each piece of that size; it returns the
  sum of the file lengths and the number of files.\<close>
theorem validate_v1_files_iff:
  "validate_v1_files info mf = Inr (n, k) \<longleftrightarrow>
    (\<exists>pl pieces. bget ''piece length'' info = Some (BInt pl) \<and> 0 < pl \<and> pl \<le> MAX_PIECE_LENGTH
      \<and> bget ''pieces'' info = Some (BBytes pieces)
      \<and> bhas ''length'' info \<noteq> bhas ''files'' info
      \<and> v1_layout info mf n k \<and> 0 < n \<and> n \<le> MAX_TOTAL_SIZE
      \<and> int (length pieces) = 20 * ((n + pl - 1) div pl))"
    (is "?run \<longleftrightarrow> ?spec")
proof
  assume ?run
  then show ?spec
    by (auto simp: validate_v1_files_def Let_def bindR_Inr_iff raise_if_Inr_iff positive_integer_Inr_iff
        v1_content_Inr_iff mult.commute not_less case_some_bytes_Inr split: if_splits)
next
  assume ?spec
  then obtain pl pieces where
    f: "bget ''piece length'' info = Some (BInt pl)" "0 < pl" "pl \<le> MAX_PIECE_LENGTH"
      "bget ''pieces'' info = Some (BBytes pieces)" "bhas ''length'' info \<noteq> bhas ''files'' info"
      "v1_content info mf = Inr (n, k)" "0 < n"
    and len: "int (length pieces) = 20 * ((n + pl - 1) div pl)"
    by (auto simp: v1_content_Inr_iff)
  have "0 < (n + pl - 1) div pl" using f by (simp add: pos_imp_zdiv_pos_iff)
  then have "pieces \<noteq> []" using len by auto
  moreover have "int (length pieces mod 20) = 0" unfolding zmod_int len by simp
  then have "length pieces mod 20 = 0" by simp
  ultimately show ?run
    using f len by (simp add: validate_v1_files_def positive_integer_def Let_def)
qed

text \<open>C32: \<open>_validate_v2_files\<close> accepts exactly the v2 layouts: meta version 2, a piece length
  that is a power of two within the limit (the bit test \<open>n & (n - 1)\<close>), and a well-formed
  file tree of at most 101 levels. The recursive walker with its running counters returns the
  sum and the number of the leaves, and its running limits are limits on the final values.\<close>
theorem validate_v2_files_iff:
  "validate_v2_files info mf = Inr (n, k) \<longleftrightarrow>
    (\<exists>e tree. bget ''meta version'' info = Some (BInt 2)
      \<and> bget ''piece length'' info = Some (BInt (2 ^ e)) \<and> 2 ^ e \<le> MAX_PIECE_LENGTH
      \<and> bget ''file tree'' info = Some (BDict tree) \<and> tree \<noteq> [] \<and> tree_ok 0 tree
      \<and> n = tree_size tree \<and> k = tree_count tree
      \<and> (tree_leaves tree = [] \<or> n \<le> MAX_TOTAL_SIZE \<and> k \<le> mf))"
proof -
  have "validate_v2_files info mf = Inr (n, k) \<longleftrightarrow>
    (\<exists>pl tree. bget ''meta version'' info = Some (BInt 2)
      \<and> bget ''piece length'' info = Some (BInt pl) \<and> 0 < pl \<and> pl \<le> MAX_PIECE_LENGTH
      \<and> pl AND (pl - 1) = 0
      \<and> bget ''file tree'' info = Some (BDict tree) \<and> tree \<noteq> [] \<and> walk mf 0 tree (0, 0) = Inr (n, k))"
    by (auto simp: validate_v2_files_def bindR_Inr_iff raise_if_Inr_iff positive_integer_Inr_iff
        split: option.splits bvalue.splits if_splits)
  also have "\<dots> \<longleftrightarrow> (\<exists>e tree. bget ''meta version'' info = Some (BInt 2)
      \<and> bget ''piece length'' info = Some (BInt (2 ^ e)) \<and> 2 ^ e \<le> MAX_PIECE_LENGTH
      \<and> bget ''file tree'' info = Some (BDict tree) \<and> tree \<noteq> [] \<and> tree_ok 0 tree
      \<and> n = tree_size tree \<and> k = tree_count tree
      \<and> (tree_leaves tree = [] \<or> n \<le> MAX_TOTAL_SIZE \<and> k \<le> mf))"
    (is "?L \<longleftrightarrow> ?R")
  proof
    assume ?L
    then obtain pl tree where "bget ''piece length'' info = Some (BInt pl)" "0 < pl" "pl AND (pl - 1) = 0"
      "bget ''meta version'' info = Some (BInt 2)" "pl \<le> MAX_PIECE_LENGTH"
      "bget ''file tree'' info = Some (BDict tree)" "tree \<noteq> []" "walk mf 0 tree (0, 0) = Inr (n, k)"
      by blast
    moreover from this and_pred_zero_iff [of pl] obtain e where "pl = 2 ^ e" by blast
    ultimately show ?R by (auto simp: walk_iff)
  next
    assume ?R
    then obtain e tree where r: "bget ''piece length'' info = Some (BInt (2 ^ e))"
      "bget ''meta version'' info = Some (BInt 2)" "(2::int) ^ e \<le> MAX_PIECE_LENGTH"
      "bget ''file tree'' info = Some (BDict tree)" "tree \<noteq> []" "walk mf 0 tree (0, 0) = Inr (n, k)"
      by (auto simp: walk_iff)
    have "(2::int) ^ e AND (2 ^ e - 1) = 0" using and_pred_zero_iff [of "2 ^ e"] by auto
    with r show ?L by (intro exI [of _ "2 ^ e"] exI [of _ tree]) simp
  qed
  finally show ?thesis .
qed

text \<open>
  What the info dictionary of an accepted torrent must be and what is reported of it, field by
  field and without the code's intermediate values. A torrent with any of the three v1 fields
  has a valid v1 layout and its SHA-1 digest, a torrent with a file tree has a valid v2 layout,
  and a hybrid has both with the same total size and number of files.
\<close>

definition has_private :: "bvalue option \<Rightarrow> bool option \<Rightarrow> bool" where
  "has_private v p \<longleftrightarrow> (v, p) \<in> {(None, None), (Some (BInt 0), Some False), (Some (BInt 1), Some True)}"

definition describes_info ::
    "lib \<Rightarrow> bencode_lib \<Rightarrow> (string \<times> bvalue) list \<Rightarrow> int \<Rightarrow> validated_torrent \<Rightarrow> bool" where
  "describes_info L B info max_files t \<longleftrightarrow>
    (bget ''meta version'' info, vt_meta_version t) \<in> {(None, 1), (Some (BInt 1), 1), (Some (BInt 2), 2)}
    \<and> (if bget ''name.utf-8'' info = None then bget ''name'' info else bget ''name.utf-8'' info)
      = Some (BBytes (vt_name t))
    \<and> safe_component (vt_name t)
    \<and> has_private (bget ''private'' info) (vt_private t)
    \<and> 0 < vt_total_size_bytes t \<and> vt_total_size_bytes t \<le> MAX_TOTAL_SIZE \<and> 0 < vt_file_count t
    \<and> (if bget ''length'' info = None \<and> bget ''files'' info = None \<and> bget ''pieces'' info = None
       then bget ''file tree'' info \<noteq> None \<and> vt_info_hash_v1 t = None
       else validate_v1_files info max_files = Inr (vt_total_size_bytes t, vt_file_count t)
         \<and> vt_info_hash_v1 t = Some (sha1_hex L (bencode B (BDict info))))
    \<and> (if bget ''file tree'' info = None then True
       else validate_v2_files info max_files = Inr (vt_total_size_bytes t, vt_file_count t))
    \<and> vt_info_hash_v2 t
      = (if vt_meta_version t = 2 then Some (sha256_hex L (bencode B (BDict info))) else None)"

definition answers_request :: "lib \<Rightarrow> string option \<Rightarrow> validated_torrent \<Rightarrow> bool" where
  "answers_request L expected t \<longleftrightarrow>
    (case expected of None \<Rightarrow> True
     | Some h \<Rightarrow> (length h = 40 \<or> length h = 64) \<and> list_all hex_char h
         \<and> (casefold L h \<noteq> [] \<and> Some (casefold L h) \<in> {vt_info_hash_v1 t, vt_info_hash_v2 t}
            \<or> Some (casefold L h) = map_option (take 40) (vt_info_hash_v2 t)))"

lemma private_flag_Inr_iff: "private_flag v = Inr p \<longleftrightarrow> has_private v p"
  by (auto simp: private_flag_def has_private_def split: option.splits bvalue.splits if_splits)

lemma meta_version_Inr_iff:
  "(\<exists>u. positive_integer v (Some 1) = Inr m \<and> raise_if (m \<noteq> 1 \<and> m \<noteq> 2) torrent_invalid = Inr u)
    \<longleftrightarrow> (v, m) \<in> {(None, 1), (Some (BInt 1), 1), (Some (BInt 2), 2)}"
  by (auto simp: positive_integer_Inr_iff raise_if_Inr_iff)

lemma shapes_agree_iff:
  "(\<exists>v1 v2. \<not> (\<not> s1 \<and> \<not> s2) \<and> when_shape s1 r1 = Inr v1 \<and> when_shape s2 r2 = Inr v2
      \<and> agreed_content v1 v2 = Inr c)
    \<longleftrightarrow> 0 < fst c \<and> 0 < snd c \<and> fst c \<le> MAX_TOTAL_SIZE \<and> (s1 \<or> s2)
      \<and> (s1 \<longrightarrow> r1 = Inr c) \<and> (s2 \<longrightarrow> r2 = Inr c)"
  by (cases s1; cases s2; cases c) (auto simp: when_shape_Inr_iff agreed_content_Inr_iff)

lemma matches_hash_iff:
  "matches_hash L t h \<longleftrightarrow>
    casefold L h \<noteq> [] \<and> Some (casefold L h) \<in> {vt_info_hash_v1 t, vt_info_hash_v2 t}
    \<or> Some (casefold L h) = map_option (take 40) (vt_info_hash_v2 t)"
  by (auto simp: matches_hash_def vt_identity_hashes_def truthy_hashes_def split: option.splits)

lemma check_expected_hash_answers:
  "check_expected_hash L expected t = Inr t' \<longleftrightarrow> t' = t \<and> answers_request L expected t"
  by (cases expected)
    (auto simp: check_expected_hash_Inr_iff answers_request_def hexs_def matches_hash_iff)

lemma validate_info_Inr_iff: "validate_info L B info mf = Inr t \<longleftrightarrow> describes_info L B info mf t"
proof -
  let ?s1 = "has_v1_shape info" and ?s2 = "has_v2_shape info"
  have "validate_info L B info mf = Inr t \<longleftrightarrow>
    (\<exists>m name p c. (\<exists>u. positive_integer (bget ''meta version'' info) (Some 1) = Inr m
        \<and> raise_if (m \<noteq> 1 \<and> m \<noteq> 2) torrent_invalid = Inr u)
      \<and> decode_component (first_of (bget ''name.utf-8'' info) (bget ''name'' info)) = Inr name
      \<and> private_flag (bget ''private'' info) = Inr p
      \<and> (\<exists>v1 v2. \<not> (\<not> ?s1 \<and> \<not> ?s2) \<and> when_shape ?s1 (validate_v1_files info mf) = Inr v1
        \<and> when_shape ?s2 (validate_v2_files info mf) = Inr v2 \<and> agreed_content v1 v2 = Inr c)
      \<and> t = \<lparr> vt_name = name, vt_total_size_bytes = fst c, vt_file_count = snd c,
           vt_info_hash_v1 = (if ?s1 then Some (sha1_hex L (bencode B (BDict info))) else None),
           vt_info_hash_v2 = (if m = 2 then Some (sha256_hex L (bencode B (BDict info))) else None),
           vt_private = p, vt_meta_version = m \<rparr>)"
    unfolding validate_info_def Let_def bindR_Inr_iff raise_if_Inr_iff sum.inject by blast
  also have "\<dots> \<longleftrightarrow> describes_info L B info mf t"
    unfolding meta_version_Inr_iff decode_component_Inr_iff private_flag_Inr_iff shapes_agree_iff
      describes_info_def has_v1_shape_def has_v2_shape_def bhas_def first_of_def
    by (cases t) (auto split: option.splits)
  finally show ?thesis .
qed

text \<open>The same film as a hybrid: v2 fields beside the v1 ones, with the same file.\<close>

definition example_hybrid :: "(string \<times> bvalue) list" where
  "example_hybrid = (''meta version'', BInt 2)
    # (''file tree'', BDict [(''film.mkv'', BDict [([], BDict
        [(''length'', BInt 25), (''pieces root'', BBytes (replicate 32 (CHR ''r'')))])])]) # example_info"

text \<open>C33: \<open>validate_torrent\<close> accepts a payload and returns \<open>t\<close> exactly when the payload is a
  non-empty canonical bencoding within the size limit whose info dictionary \<open>t\<close> describes (a
  valid v1 layout and its SHA-1 digest whenever any v1 field is present, a valid v2 layout
  whenever a file tree is, both with the same size and count for a hybrid, a safe name, bounds,
  the SHA-256 digest exactly for meta version 2) and \<open>t\<close> is what the expected info hash, when
  given, asks for.\<close>
theorem validate_torrent_iff:
  "validate_torrent L B payload expected max_bytes mf = Inr t \<longleftrightarrow>
    payload \<noteq> [] \<and> int (length payload) \<le> max 1 max_bytes
    \<and> (\<exists>entries info. bdecode B payload = Some (BDict entries) \<and> bencode B (BDict entries) = payload
        \<and> bget ''info'' entries = Some (BDict info) \<and> describes_info L B info mf t)
    \<and> answers_request L expected t"
  unfolding validate_torrent_def bindR_Inr_iff raise_if_Inr_iff option_or_Inr_iff not_less
    root_info_Inr_iff validate_info_Inr_iff check_expected_hash_answers
  by auto

text \<open>The hybrid is accepted with both digests when asked for by its v1 digest.\<close>

lemma validate_torrent_iff_witness:
  "describes_info example_lib (example_codec (BDict [(''info'', BDict example_hybrid)])) example_hybrid 10
    \<lparr> vt_name = ''film.mkv'', vt_total_size_bytes = 25, vt_file_count = 1,
      vt_info_hash_v1 = Some (replicate 40 (CHR ''0'')), vt_info_hash_v2 = Some (replicate 64 (CHR ''0'')),
      vt_private = None, vt_meta_version = 2 \<rparr>" (is "describes_info _ _ _ _ ?t")
proof -
  have "validate_torrent example_lib (example_codec (BDict [(''info'', BDict example_hybrid)]))
      ''d4:infod...ee'' (Some (replicate 40 (CHR ''0''))) 100 10 = Inr ?t"
    by code_simp
  then obtain entries info where
    "bdecode (example_codec (BDict [(''info'', BDict example_hybrid)])) ''d4:infod...ee'' = Some (BDict entries)"
    "bget ''info'' entries = Some (BDict info)"
    "describes_info example_lib (example_codec (BDict [(''info'', BDict example_hybrid)])) info 10 ?t"
    unfolding validate_torrent_iff by blast
  then show ?thesis by (auto simp: example_codec_def bget_def)
qed

text \<open>The only errors of \<open>validate_torrent\<close> are the three documented ones, except that a
  \<open>private\<close> field holding a list or a dictionary escapes as a \<open>TypeError\<close>.\<close>
theorem validate_torrent_errors:
  assumes "validate_torrent L B payload expected max_bytes mf = Inl e"
  shows "e \<in> {app_err ''TORRENT_INVALID'' 502, app_err ''TORRENT_FILE_TOO_LARGE'' 502,
      app_err ''TORRENT_INFO_HASH_MISMATCH'' 409}
    \<or> (\<exists>entries info. e = PyTypeError \<and> bdecode B payload = Some (BDict entries)
        \<and> bget ''info'' entries = Some (BDict info) \<and> unhashable (bget ''private'' info))"
proof -
  have info: "e' = torrent_invalid \<or> (e' = PyTypeError \<and> unhashable (bget ''private'' info))"
    if "validate_info L B info mf = Inl e'" for info e'
  proof (cases "private_flag (bget ''private'' info)")
    case (Inl e'')
    with that private_flag_Inl [OF Inl] show ?thesis
      using only_invalid_fields(1,3)
      by (auto simp: validate_info_def Let_def bindR_Inl_iff raise_if_Inl_iff only_invalid_def)
  next
    case (Inr p)
    have "only_invalid (validate_info L B info mf)"
      unfolding validate_info_def Let_def Inr bindR_simps
      by (auto split: option.splits)
    with that show ?thesis by (auto simp: only_invalid_def)
  qed
  consider (early) "e = torrent_invalid \<or> e = app_err ''TORRENT_FILE_TOO_LARGE'' 502"
    | (late) root info where "bdecode B payload = Some root" "root_info root = Inr info"
        "validate_info L B info mf = Inl e"
    | (hash) t where "check_expected_hash L expected t = Inl e"
    using assms only_invalid_root_info
    unfolding validate_torrent_def bindR_Inl_iff raise_if_Inl_iff option_or_def only_invalid_def
    by (auto split: option.splits)
  then show ?thesis
  proof cases
    case early
    then show ?thesis by (auto simp: torrent_invalid_def)
  next
    case late
    then show ?thesis using info [OF late(3)] by (auto simp: torrent_invalid_def root_info_Inr_iff)
  next
    case hash
    then show ?thesis
      by (auto simp: check_expected_hash_def bindR_Inl_iff raise_if_Inl_iff split: option.splits)
  qed
qed

lemma validate_torrent_errors_witness:
  "PyTypeError \<in> {app_err ''TORRENT_INVALID'' 502, app_err ''TORRENT_FILE_TOO_LARGE'' 502,
      app_err ''TORRENT_INFO_HASH_MISMATCH'' 409}
    \<or> (\<exists>entries info. bget ''info'' entries = Some (BDict info) \<and> unhashable (bget ''private'' info))"
proof -
  have run: "validate_torrent example_lib
      (example_codec (BDict [(''info'', BDict ((''private'', BList []) # example_info))])) ''d4:infod...ee'' None 100 10
    = Inl PyTypeError"
    by code_simp
  from validate_torrent_errors [OF run] show ?thesis by blast
qed

end
