(* ===== verification/Enums.thy ===== *)
theory Enums
  imports Prelude
begin

text \<open>
  The string enumerations of \<open>models/enums.py\<close> that the modelled components use. A
  \<open>StrEnum\<close> member is its value wherever it is stored or serialised, so each type comes
  with its value and with the partial inverse that validation uses.
\<close>

datatype approval_status =
    AP_PENDING
  | AP_APPROVED
  | AP_EXECUTING
  | AP_REJECTED
  | AP_EXPIRED
  | AP_REVOKED
  | AP_CONSUMED

primrec approval_status_value :: "approval_status \<Rightarrow> string" where
  "approval_status_value AP_PENDING = ''PENDING''"
| "approval_status_value AP_APPROVED = ''APPROVED''"
| "approval_status_value AP_EXECUTING = ''EXECUTING''"
| "approval_status_value AP_REJECTED = ''REJECTED''"
| "approval_status_value AP_EXPIRED = ''EXPIRED''"
| "approval_status_value AP_REVOKED = ''REVOKED''"
| "approval_status_value AP_CONSUMED = ''CONSUMED''"

definition approval_status_of :: "string \<Rightarrow> approval_status option" where
  "approval_status_of s = find (\<lambda>x. approval_status_value x = s) [AP_PENDING, AP_APPROVED, AP_EXECUTING, AP_REJECTED, AP_EXPIRED, AP_REVOKED, AP_CONSUMED]"

lemma approval_status_of_value [simp]: "approval_status_of (approval_status_value x) = Some x"
  by (cases x) (simp_all add: approval_status_of_def)

lemma approval_status_value_eq [simp]: "approval_status_value x = approval_status_value y \<longleftrightarrow> x = y"
  by (metis approval_status_of_value option.inject)

datatype launch_mode =
    LM_ADD_PAUSED
  | LM_START_IMMEDIATELY

primrec launch_mode_value :: "launch_mode \<Rightarrow> string" where
  "launch_mode_value LM_ADD_PAUSED = ''ADD_PAUSED''"
| "launch_mode_value LM_START_IMMEDIATELY = ''START_IMMEDIATELY''"

definition launch_mode_of :: "string \<Rightarrow> launch_mode option" where
  "launch_mode_of s = find (\<lambda>x. launch_mode_value x = s) [LM_ADD_PAUSED, LM_START_IMMEDIATELY]"

lemma launch_mode_of_value [simp]: "launch_mode_of (launch_mode_value x) = Some x"
  by (cases x) (simp_all add: launch_mode_of_def)

lemma launch_mode_value_eq [simp]: "launch_mode_value x = launch_mode_value y \<longleftrightarrow> x = y"
  by (metis launch_mode_of_value option.inject)

datatype intent_status =
    EI_ACTIVE
  | EI_CONSUMED
  | EI_EXPIRED
  | EI_CANCELLED

primrec intent_status_value :: "intent_status \<Rightarrow> string" where
  "intent_status_value EI_ACTIVE = ''ACTIVE''"
| "intent_status_value EI_CONSUMED = ''CONSUMED''"
| "intent_status_value EI_EXPIRED = ''EXPIRED''"
| "intent_status_value EI_CANCELLED = ''CANCELLED''"

definition intent_status_of :: "string \<Rightarrow> intent_status option" where
  "intent_status_of s = find (\<lambda>x. intent_status_value x = s) [EI_ACTIVE, EI_CONSUMED, EI_EXPIRED, EI_CANCELLED]"

lemma intent_status_of_value [simp]: "intent_status_of (intent_status_value x) = Some x"
  by (cases x) (simp_all add: intent_status_of_def)

lemma intent_status_value_eq [simp]: "intent_status_value x = intent_status_value y \<longleftrightarrow> x = y"
  by (metis intent_status_of_value option.inject)

datatype execution_status =
    DE_PENDING
  | DE_RETRY_WAIT
  | DE_VALIDATING
  | DE_SUBMITTING
  | DE_SUBMITTED
  | DE_ALREADY_PRESENT
  | DE_OUTCOME_UNKNOWN
  | DE_RECONCILIATION_REQUIRED
  | DE_RECONCILIATION_PENDING
  | DE_FAILED
  | DE_CANCELLED

primrec execution_status_value :: "execution_status \<Rightarrow> string" where
  "execution_status_value DE_PENDING = ''PENDING''"
| "execution_status_value DE_RETRY_WAIT = ''RETRY_WAIT''"
| "execution_status_value DE_VALIDATING = ''VALIDATING''"
| "execution_status_value DE_SUBMITTING = ''SUBMITTING''"
| "execution_status_value DE_SUBMITTED = ''SUBMITTED''"
| "execution_status_value DE_ALREADY_PRESENT = ''ALREADY_PRESENT''"
| "execution_status_value DE_OUTCOME_UNKNOWN = ''OUTCOME_UNKNOWN''"
| "execution_status_value DE_RECONCILIATION_REQUIRED = ''RECONCILIATION_REQUIRED''"
| "execution_status_value DE_RECONCILIATION_PENDING = ''RECONCILIATION_PENDING''"
| "execution_status_value DE_FAILED = ''FAILED''"
| "execution_status_value DE_CANCELLED = ''CANCELLED''"

definition execution_status_of :: "string \<Rightarrow> execution_status option" where
  "execution_status_of s = find (\<lambda>x. execution_status_value x = s) [DE_PENDING, DE_RETRY_WAIT, DE_VALIDATING, DE_SUBMITTING, DE_SUBMITTED, DE_ALREADY_PRESENT, DE_OUTCOME_UNKNOWN, DE_RECONCILIATION_REQUIRED, DE_RECONCILIATION_PENDING, DE_FAILED, DE_CANCELLED]"

lemma execution_status_of_value [simp]: "execution_status_of (execution_status_value x) = Some x"
  by (cases x) (simp_all add: execution_status_of_def)

lemma execution_status_value_eq [simp]: "execution_status_value x = execution_status_value y \<longleftrightarrow> x = y"
  by (metis execution_status_of_value option.inject)

datatype job_status =
    DJ_QUEUED
  | DJ_DOWNLOADING
  | DJ_PAUSED
  | DJ_CHECKING
  | DJ_SEEDING
  | DJ_COMPLETED
  | DJ_MISSING
  | DJ_ERROR

primrec job_status_value :: "job_status \<Rightarrow> string" where
  "job_status_value DJ_QUEUED = ''QUEUED''"
| "job_status_value DJ_DOWNLOADING = ''DOWNLOADING''"
| "job_status_value DJ_PAUSED = ''PAUSED''"
| "job_status_value DJ_CHECKING = ''CHECKING''"
| "job_status_value DJ_SEEDING = ''SEEDING''"
| "job_status_value DJ_COMPLETED = ''COMPLETED''"
| "job_status_value DJ_MISSING = ''MISSING''"
| "job_status_value DJ_ERROR = ''ERROR''"

definition job_status_of :: "string \<Rightarrow> job_status option" where
  "job_status_of s = find (\<lambda>x. job_status_value x = s) [DJ_QUEUED, DJ_DOWNLOADING, DJ_PAUSED, DJ_CHECKING, DJ_SEEDING, DJ_COMPLETED, DJ_MISSING, DJ_ERROR]"

lemma job_status_of_value [simp]: "job_status_of (job_status_value x) = Some x"
  by (cases x) (simp_all add: job_status_of_def)

lemma job_status_value_eq [simp]: "job_status_value x = job_status_value y \<longleftrightarrow> x = y"
  by (metis job_status_of_value option.inject)

datatype hnr_status =
    HNR_UNKNOWN
  | HNR_AT_RISK
  | HNR_SATISFIED

primrec hnr_status_value :: "hnr_status \<Rightarrow> string" where
  "hnr_status_value HNR_UNKNOWN = ''UNKNOWN''"
| "hnr_status_value HNR_AT_RISK = ''AT_RISK''"
| "hnr_status_value HNR_SATISFIED = ''SATISFIED''"

definition hnr_status_of :: "string \<Rightarrow> hnr_status option" where
  "hnr_status_of s = find (\<lambda>x. hnr_status_value x = s) [HNR_UNKNOWN, HNR_AT_RISK, HNR_SATISFIED]"

lemma hnr_status_of_value [simp]: "hnr_status_of (hnr_status_value x) = Some x"
  by (cases x) (simp_all add: hnr_status_of_def)

lemma hnr_status_value_eq [simp]: "hnr_status_value x = hnr_status_value y \<longleftrightarrow> x = y"
  by (metis hnr_status_of_value option.inject)

datatype preflight_status =
    PF_PASS
  | PF_WARNING
  | PF_BLOCKED
  | PF_UNKNOWN

primrec preflight_status_value :: "preflight_status \<Rightarrow> string" where
  "preflight_status_value PF_PASS = ''PASS''"
| "preflight_status_value PF_WARNING = ''WARNING''"
| "preflight_status_value PF_BLOCKED = ''BLOCKED''"
| "preflight_status_value PF_UNKNOWN = ''UNKNOWN''"

definition preflight_status_of :: "string \<Rightarrow> preflight_status option" where
  "preflight_status_of s = find (\<lambda>x. preflight_status_value x = s) [PF_PASS, PF_WARNING, PF_BLOCKED, PF_UNKNOWN]"

lemma preflight_status_of_value [simp]: "preflight_status_of (preflight_status_value x) = Some x"
  by (cases x) (simp_all add: preflight_status_of_def)

lemma preflight_status_value_eq [simp]: "preflight_status_value x = preflight_status_value y \<longleftrightarrow> x = y"
  by (metis preflight_status_of_value option.inject)

datatype automation_mode =
    AM_DISABLED
  | AM_MANUAL
  | AM_AUTO_IF_ELIGIBLE

primrec automation_mode_value :: "automation_mode \<Rightarrow> string" where
  "automation_mode_value AM_DISABLED = ''DISABLED''"
| "automation_mode_value AM_MANUAL = ''MANUAL''"
| "automation_mode_value AM_AUTO_IF_ELIGIBLE = ''AUTO_IF_ELIGIBLE''"

definition automation_mode_of :: "string \<Rightarrow> automation_mode option" where
  "automation_mode_of s = find (\<lambda>x. automation_mode_value x = s) [AM_DISABLED, AM_MANUAL, AM_AUTO_IF_ELIGIBLE]"

lemma automation_mode_of_value [simp]: "automation_mode_of (automation_mode_value x) = Some x"
  by (cases x) (simp_all add: automation_mode_of_def)

lemma automation_mode_value_eq [simp]: "automation_mode_value x = automation_mode_value y \<longleftrightarrow> x = y"
  by (metis automation_mode_of_value option.inject)

datatype automation_stage =
    AS_IDENTITY
  | AS_TORRENT_SELECTION
  | AS_APPROVAL
  | AS_EXECUTION

primrec automation_stage_value :: "automation_stage \<Rightarrow> string" where
  "automation_stage_value AS_IDENTITY = ''IDENTITY''"
| "automation_stage_value AS_TORRENT_SELECTION = ''TORRENT_SELECTION''"
| "automation_stage_value AS_APPROVAL = ''APPROVAL''"
| "automation_stage_value AS_EXECUTION = ''EXECUTION''"

definition automation_stage_of :: "string \<Rightarrow> automation_stage option" where
  "automation_stage_of s = find (\<lambda>x. automation_stage_value x = s) [AS_IDENTITY, AS_TORRENT_SELECTION, AS_APPROVAL, AS_EXECUTION]"

lemma automation_stage_of_value [simp]: "automation_stage_of (automation_stage_value x) = Some x"
  by (cases x) (simp_all add: automation_stage_of_def)

lemma automation_stage_value_eq [simp]: "automation_stage_value x = automation_stage_value y \<longleftrightarrow> x = y"
  by (metis automation_stage_of_value option.inject)

datatype decision_outcome =
    DO_ACTION_CREATED
  | DO_MANUAL_REQUIRED
  | DO_DISABLED
  | DO_BLOCKED
  | DO_STALE
  | DO_NOOP

primrec decision_outcome_value :: "decision_outcome \<Rightarrow> string" where
  "decision_outcome_value DO_ACTION_CREATED = ''ACTION_CREATED''"
| "decision_outcome_value DO_MANUAL_REQUIRED = ''MANUAL_REQUIRED''"
| "decision_outcome_value DO_DISABLED = ''DISABLED''"
| "decision_outcome_value DO_BLOCKED = ''BLOCKED''"
| "decision_outcome_value DO_STALE = ''STALE''"
| "decision_outcome_value DO_NOOP = ''NOOP''"

definition decision_outcome_of :: "string \<Rightarrow> decision_outcome option" where
  "decision_outcome_of s = find (\<lambda>x. decision_outcome_value x = s) [DO_ACTION_CREATED, DO_MANUAL_REQUIRED, DO_DISABLED, DO_BLOCKED, DO_STALE, DO_NOOP]"

lemma decision_outcome_of_value [simp]: "decision_outcome_of (decision_outcome_value x) = Some x"
  by (cases x) (simp_all add: decision_outcome_of_def)

lemma decision_outcome_value_eq [simp]: "decision_outcome_value x = decision_outcome_value y \<longleftrightarrow> x = y"
  by (metis decision_outcome_of_value option.inject)

datatype origin =
    OR_MANUAL
  | OR_AUTOMATION

primrec origin_value :: "origin \<Rightarrow> string" where
  "origin_value OR_MANUAL = ''MANUAL''"
| "origin_value OR_AUTOMATION = ''AUTOMATION''"

definition origin_of :: "string \<Rightarrow> origin option" where
  "origin_of s = find (\<lambda>x. origin_value x = s) [OR_MANUAL, OR_AUTOMATION]"

lemma origin_of_value [simp]: "origin_of (origin_value x) = Some x"
  by (cases x) (simp_all add: origin_of_def)

lemma origin_value_eq [simp]: "origin_value x = origin_value y \<longleftrightarrow> x = y"
  by (metis origin_of_value option.inject)

datatype media_type =
    MT_MOVIE
  | MT_TV

primrec media_type_value :: "media_type \<Rightarrow> string" where
  "media_type_value MT_MOVIE = ''movie''"
| "media_type_value MT_TV = ''tv''"

definition media_type_of :: "string \<Rightarrow> media_type option" where
  "media_type_of s = find (\<lambda>x. media_type_value x = s) [MT_MOVIE, MT_TV]"

lemma media_type_of_value [simp]: "media_type_of (media_type_value x) = Some x"
  by (cases x) (simp_all add: media_type_of_def)

lemma media_type_value_eq [simp]: "media_type_value x = media_type_value y \<longleftrightarrow> x = y"
  by (metis media_type_of_value option.inject)

datatype auth_role =
    AR_VIEWER
  | AR_OPERATOR
  | AR_ADMIN

primrec auth_role_value :: "auth_role \<Rightarrow> string" where
  "auth_role_value AR_VIEWER = ''viewer''"
| "auth_role_value AR_OPERATOR = ''operator''"
| "auth_role_value AR_ADMIN = ''admin''"

definition auth_role_of :: "string \<Rightarrow> auth_role option" where
  "auth_role_of s = find (\<lambda>x. auth_role_value x = s) [AR_VIEWER, AR_OPERATOR, AR_ADMIN]"

lemma auth_role_of_value [simp]: "auth_role_of (auth_role_value x) = Some x"
  by (cases x) (simp_all add: auth_role_of_def)

lemma auth_role_value_eq [simp]: "auth_role_value x = auth_role_value y \<longleftrightarrow> x = y"
  by (metis auth_role_of_value option.inject)

datatype task_status =
    TK_PENDING
  | TK_RUNNING
  | TK_SUCCEEDED
  | TK_FAILED
  | TK_RETRY_WAIT
  | TK_CANCELLED

primrec task_status_value :: "task_status \<Rightarrow> string" where
  "task_status_value TK_PENDING = ''PENDING''"
| "task_status_value TK_RUNNING = ''RUNNING''"
| "task_status_value TK_SUCCEEDED = ''SUCCEEDED''"
| "task_status_value TK_FAILED = ''FAILED''"
| "task_status_value TK_RETRY_WAIT = ''RETRY_WAIT''"
| "task_status_value TK_CANCELLED = ''CANCELLED''"

definition task_status_of :: "string \<Rightarrow> task_status option" where
  "task_status_of s = find (\<lambda>x. task_status_value x = s) [TK_PENDING, TK_RUNNING, TK_SUCCEEDED, TK_FAILED, TK_RETRY_WAIT, TK_CANCELLED]"

lemma task_status_of_value [simp]: "task_status_of (task_status_value x) = Some x"
  by (cases x) (simp_all add: task_status_of_def)

lemma task_status_value_eq [simp]: "task_status_value x = task_status_value y \<longleftrightarrow> x = y"
  by (metis task_status_of_value option.inject)

datatype identity_confidence =
    IC_HIGH
  | IC_NEEDS_CONFIRMATION

primrec identity_confidence_value :: "identity_confidence \<Rightarrow> string" where
  "identity_confidence_value IC_HIGH = ''HIGH''"
| "identity_confidence_value IC_NEEDS_CONFIRMATION = ''NEEDS_CONFIRMATION''"

definition identity_confidence_of :: "string \<Rightarrow> identity_confidence option" where
  "identity_confidence_of s = find (\<lambda>x. identity_confidence_value x = s) [IC_HIGH, IC_NEEDS_CONFIRMATION]"

lemma identity_confidence_of_value [simp]: "identity_confidence_of (identity_confidence_value x) = Some x"
  by (cases x) (simp_all add: identity_confidence_of_def)

lemma identity_confidence_value_eq [simp]: "identity_confidence_value x = identity_confidence_value y \<longleftrightarrow> x = y"
  by (metis identity_confidence_of_value option.inject)

datatype metadata_status =
    MS_RESOLVED
  | MS_NEEDS_CONFIRMATION
  | MS_UNRESOLVED

primrec metadata_status_value :: "metadata_status \<Rightarrow> string" where
  "metadata_status_value MS_RESOLVED = ''RESOLVED''"
| "metadata_status_value MS_NEEDS_CONFIRMATION = ''NEEDS_CONFIRMATION''"
| "metadata_status_value MS_UNRESOLVED = ''UNRESOLVED''"

definition metadata_status_of :: "string \<Rightarrow> metadata_status option" where
  "metadata_status_of s = find (\<lambda>x. metadata_status_value x = s) [MS_RESOLVED, MS_NEEDS_CONFIRMATION, MS_UNRESOLVED]"

lemma metadata_status_of_value [simp]: "metadata_status_of (metadata_status_value x) = Some x"
  by (cases x) (simp_all add: metadata_status_of_def)

lemma metadata_status_value_eq [simp]: "metadata_status_value x = metadata_status_value y \<longleftrightarrow> x = y"
  by (metis metadata_status_of_value option.inject)

datatype workflow_status =
    WF_DISCOVERED
  | WF_METADATA_PENDING
  | WF_IDENTITY_REVIEW
  | WF_IDENTITY_CONFIRMED
  | WF_PT_SEARCH_PENDING
  | WF_PT_SEARCHING
  | WF_TORRENT_REVIEW
  | WF_NO_CANDIDATE
  | WF_SEARCH_FAILED

primrec workflow_status_value :: "workflow_status \<Rightarrow> string" where
  "workflow_status_value WF_DISCOVERED = ''DISCOVERED''"
| "workflow_status_value WF_METADATA_PENDING = ''METADATA_PENDING''"
| "workflow_status_value WF_IDENTITY_REVIEW = ''IDENTITY_REVIEW''"
| "workflow_status_value WF_IDENTITY_CONFIRMED = ''IDENTITY_CONFIRMED''"
| "workflow_status_value WF_PT_SEARCH_PENDING = ''PT_SEARCH_PENDING''"
| "workflow_status_value WF_PT_SEARCHING = ''PT_SEARCHING''"
| "workflow_status_value WF_TORRENT_REVIEW = ''TORRENT_REVIEW''"
| "workflow_status_value WF_NO_CANDIDATE = ''NO_CANDIDATE''"
| "workflow_status_value WF_SEARCH_FAILED = ''SEARCH_FAILED''"

definition workflow_status_of :: "string \<Rightarrow> workflow_status option" where
  "workflow_status_of s = find (\<lambda>x. workflow_status_value x = s) [WF_DISCOVERED, WF_METADATA_PENDING, WF_IDENTITY_REVIEW, WF_IDENTITY_CONFIRMED, WF_PT_SEARCH_PENDING, WF_PT_SEARCHING, WF_TORRENT_REVIEW, WF_NO_CANDIDATE, WF_SEARCH_FAILED]"

lemma workflow_status_of_value [simp]: "workflow_status_of (workflow_status_value x) = Some x"
  by (cases x) (simp_all add: workflow_status_of_def)

lemma workflow_status_value_eq [simp]: "workflow_status_value x = workflow_status_value y \<longleftrightarrow> x = y"
  by (metis workflow_status_of_value option.inject)

datatype import_status =
    MI_PREFLIGHT_REQUIRED
  | MI_REVIEW_REQUIRED
  | MI_APPROVED_PLAN_ONLY
  | MI_REJECTED
  | MI_REVOKED

primrec import_status_value :: "import_status \<Rightarrow> string" where
  "import_status_value MI_PREFLIGHT_REQUIRED = ''PREFLIGHT_REQUIRED''"
| "import_status_value MI_REVIEW_REQUIRED = ''REVIEW_REQUIRED''"
| "import_status_value MI_APPROVED_PLAN_ONLY = ''APPROVED_PLAN_ONLY''"
| "import_status_value MI_REJECTED = ''REJECTED''"
| "import_status_value MI_REVOKED = ''REVOKED''"

definition import_status_of :: "string \<Rightarrow> import_status option" where
  "import_status_of s = find (\<lambda>x. import_status_value x = s) [MI_PREFLIGHT_REQUIRED, MI_REVIEW_REQUIRED, MI_APPROVED_PLAN_ONLY, MI_REJECTED, MI_REVOKED]"

lemma import_status_of_value [simp]: "import_status_of (import_status_value x) = Some x"
  by (cases x) (simp_all add: import_status_of_def)

lemma import_status_value_eq [simp]: "import_status_value x = import_status_value y \<longleftrightarrow> x = y"
  by (metis import_status_of_value option.inject)

datatype import_operation =
    MO_HARDLINK
  | MO_COPY

primrec import_operation_value :: "import_operation \<Rightarrow> string" where
  "import_operation_value MO_HARDLINK = ''HARDLINK''"
| "import_operation_value MO_COPY = ''COPY''"

definition import_operation_of :: "string \<Rightarrow> import_operation option" where
  "import_operation_of s = find (\<lambda>x. import_operation_value x = s) [MO_HARDLINK, MO_COPY]"

lemma import_operation_of_value [simp]: "import_operation_of (import_operation_value x) = Some x"
  by (cases x) (simp_all add: import_operation_of_def)

lemma import_operation_value_eq [simp]: "import_operation_value x = import_operation_value y \<longleftrightarrow> x = y"
  by (metis import_operation_of_value option.inject)

end
