(* ===== verification/Schemas.thy ===== *)
theory Schemas
  imports Platform Enums "HOL-Library.Monad_Syntax"
begin

text \<open>
  The pydantic models of \<open>schemas/approvals.py\<close>, \<open>schemas/qbittorrent.py\<close> and the candidate
  of \<open>schemas/adapters.py\<close>, with their dump to JSON, their validators, and the parser that
  \<open>model_validate\<close> is on a JSON object: the declared fields with their constraints, no other
  key, then the field and model validators. A value that is not of the field's type already
  goes through the lax conversion of \<open>lib\<close>.
\<close>

section \<open>Parsers of field types\<close>

definition dec_str :: "json \<Rightarrow> string option" where
  "dec_str j = (case j of JStr s \<Rightarrow> Some s | _ \<Rightarrow> None)"

definition dec_int :: "lib \<Rightarrow> json \<Rightarrow> int option" where
  "dec_int L j = (case j of JInt i \<Rightarrow> Some i | _ \<Rightarrow> lax_int L j)"

definition dec_float :: "lib \<Rightarrow> json \<Rightarrow> string option" where
  "dec_float L j = (case j of JFloat r \<Rightarrow> Some r | _ \<Rightarrow> lax_float L j)"

definition dec_bool :: "lib \<Rightarrow> json \<Rightarrow> bool option" where
  "dec_bool L j = (case j of JBool b \<Rightarrow> Some b | _ \<Rightarrow> lax_bool L j)"

definition dec_opt :: "(json \<Rightarrow> 'a option) \<Rightarrow> json \<Rightarrow> 'a option option" where
  "dec_opt d j = (case j of JNull \<Rightarrow> Some None | _ \<Rightarrow> map_option Some (d j))"

definition dec_list :: "(json \<Rightarrow> 'a option) \<Rightarrow> json \<Rightarrow> 'a list option" where
  "dec_list d j = (case j of JList xs \<Rightarrow> those (map d xs) | _ \<Rightarrow> None)"

definition dec_obj :: "json \<Rightarrow> (string \<times> json) list option" where
  "dec_obj j = (case j of JObj kvs \<Rightarrow> Some kvs | _ \<Rightarrow> None)"

definition required :: "string \<Rightarrow> (json \<Rightarrow> 'a option) \<Rightarrow> (string \<times> json) list \<Rightarrow> 'a option" where
  "required k d kvs = (case map_of kvs k of None \<Rightarrow> None | Some j \<Rightarrow> d j)"

definition defaulted :: "string \<Rightarrow> 'a \<Rightarrow> (json \<Rightarrow> 'a option) \<Rightarrow> (string \<times> json) list \<Rightarrow> 'a option" where
  "defaulted k x d kvs = (case map_of kvs k of None \<Rightarrow> Some x | Some j \<Rightarrow> d j)"

definition only_keys :: "string list \<Rightarrow> (string \<times> json) list \<Rightarrow> unit option" where
  "only_keys ks kvs = (if list_all (\<lambda>kv. fst kv \<in> set ks) kvs then Some () else None)"

definition check :: "bool \<Rightarrow> unit option" where
  "check ok = (if ok then Some () else None)"

definition where_ok :: "('a \<Rightarrow> bool) \<Rightarrow> (json \<Rightarrow> 'a option) \<Rightarrow> json \<Rightarrow> 'a option" where
  "where_ok p d j = (case d j of Some x \<Rightarrow> if p x then Some x else None | None \<Rightarrow> None)"

definition opt_ok :: "('a \<Rightarrow> bool) \<Rightarrow> 'a option \<Rightarrow> bool" where
  "opt_ok p x = (case x of None \<Rightarrow> True | Some y \<Rightarrow> p y)"

lemma check_Some [simp]: "check ok = Some u \<longleftrightarrow> ok"
  by (simp add: check_def)

lemma check_True [simp]: "check True = Some ()"
  by (simp add: check_def)

lemma dec_simps [simp]:
  "dec_str (JStr s) = Some s" "dec_int L (JInt i) = Some i" "dec_float L (JFloat r) = Some r"
  "dec_bool L (JBool b) = Some b" "dec_obj (JObj kvs) = Some kvs"
  by (simp_all add: dec_str_def dec_int_def dec_float_def dec_bool_def dec_obj_def)

lemma dec_opt_not_null: "j \<noteq> JNull \<Longrightarrow> dec_opt d j = map_option Some (d j)"
  by (cases j) (simp_all add: dec_opt_def)

lemma dec_opt_json:
  "(\<And>x. d (f x) = Some x \<and> f x \<noteq> JNull) \<Longrightarrow> dec_opt d (opt_json f v) = Some v"
proof (cases v)
  case (Some x)
  assume "\<And>x. d (f x) = Some x \<and> f x \<noteq> JNull"
  with Some show ?thesis by (simp add: opt_json_def dec_opt_not_null)
qed (simp add: dec_opt_def opt_json_def)

lemma required_Cons [simp]:
  "required k d ((k', j) # kvs) = (if k' = k then d j else required k d kvs)"
  "defaulted k x d ((k', j) # kvs) = (if k' = k then d j else defaulted k x d kvs)"
  by (simp_all add: required_def defaulted_def)

lemma dec_opt_JNull [simp]: "dec_opt d JNull = Some None"
  by (simp add: dec_opt_def)

lemma dec_opt_simps [simp]:
  "dec_opt dec_str (opt_json JStr s) = Some s"
  "dec_opt (dec_int L) (opt_json JInt i) = Some i"
  "dec_opt (dec_float L) (opt_json JFloat r) = Some r"
  "dec_opt (dec_bool L) (opt_json JBool b) = Some b"
  by (rule dec_opt_json, simp)+

lemma those_map_Some: "(\<And>x. x \<in> set xs \<Longrightarrow> d (f x) = Some x) \<Longrightarrow> those (map d (map f xs)) = Some xs"
  by (induction xs) auto

lemma dec_list_map: "(\<And>x. x \<in> set xs \<Longrightarrow> d (f x) = Some x) \<Longrightarrow> dec_list d (JList (map f xs)) = Some xs"
  using those_map_Some [of xs d f] by (simp add: dec_list_def)

lemma dec_strs [simp]: "dec_list dec_str (strs_json xs) = Some xs"
  by (simp add: strs_json_def dec_list_map)

definition ints_json :: "int list \<Rightarrow> json" where
  "ints_json xs = JList (map JInt xs)"

lemma dec_ints [simp]: "dec_list (dec_int L) (ints_json xs) = Some xs"
  by (simp add: ints_json_def dec_list_map)

lemma ints_json_wf [simp]: "json_wf (ints_json xs)"
  by (auto simp: ints_json_def list_all_iff)

lemma dec_opt_lists [simp]:
  "dec_opt (dec_list dec_str) (opt_json strs_json v) = Some v"
  "dec_opt (dec_list (dec_int L)) (opt_json ints_json w) = Some w"
  by (rule dec_opt_json; simp; simp add: strs_json_def ints_json_def)+

text \<open>Comparisons of a float text; a NaN satisfies none.\<close>

definition finite_text :: "string \<Rightarrow> bool" where
  "finite_text r \<longleftrightarrow> r \<notin> {''NaN'', ''Infinity'', ''-Infinity''}"

definition float_at_least :: "lib \<Rightarrow> rat \<Rightarrow> string \<Rightarrow> bool" where
  "float_at_least L q r \<longleftrightarrow> r = ''Infinity'' \<or> (finite_text r \<and> q \<le> float_val L r)"

definition float_at_most :: "lib \<Rightarrow> rat \<Rightarrow> string \<Rightarrow> bool" where
  "float_at_most L q r \<longleftrightarrow> r = ''-Infinity'' \<or> (finite_text r \<and> float_val L r \<le> q)"

definition float_truthy :: "lib \<Rightarrow> string \<Rightarrow> bool" where
  "float_truthy L r \<longleftrightarrow> \<not> (finite_text r \<and> float_val L r = 0)"

section \<open>Internal torrent references\<close>

definition segment :: "(string \<Rightarrow> bool) \<Rightarrow> (string \<Rightarrow> bool) \<Rightarrow> nat \<Rightarrow> string list \<Rightarrow> bool" where
  "segment first rest n us \<longleftrightarrow>
    us \<noteq> [] \<and> length us \<le> n \<and> first (hd us) \<and> list_all rest (tl us)"

definition colon_parts :: "string \<Rightarrow> string list list" where
  "colon_parts s = foldr (\<lambda>u ws. if u = '':'' then [] # ws else case ws of [] \<Rightarrow> [[u]] | w # r \<Rightarrow> (u # w) # r)
    (chars s) [[]]"

definition one_of :: "string \<Rightarrow> string \<Rightarrow> bool" where
  "one_of cs u \<longleftrightarrow> (case u of [c] \<Rightarrow> c \<in> set cs | _ \<Rightarrow> False)"

text \<open>\<open>_INTERNAL_TORRENT_REF\<close>, a full match ignoring case.\<close>

definition internal_torrent_ref :: "string \<Rightarrow> bool" where
  "internal_torrent_ref s \<longleftrightarrow>
    (let id_char = (\<lambda>u. alnum_i u \<or> one_of ''_-'' u);
         name_char = (\<lambda>u. alnum_i u \<or> one_of ''._~-'' u)
     in case colon_parts s of
          [a, b, c] \<Rightarrow> segment alnum_i id_char 50 a \<and> segment alnum_i id_char 50 b
            \<and> segment name_char name_char 128 c
        | _ \<Rightarrow> False)"

definition validate_internal_torrent_ref :: "string \<Rightarrow> bool" where
  "validate_internal_torrent_ref s \<longleftrightarrow> py_len s \<le> 180 \<and> internal_torrent_ref s"

definition ref_matches_site :: "lib \<Rightarrow> string \<Rightarrow> string \<Rightarrow> bool" where
  "ref_matches_site L torrent_ref site_id \<longleftrightarrow>
    starts_with (casefold L site_id @ '':'') (casefold L torrent_ref)"

section \<open>The approval snapshot\<close>

record promotion_snapshot =
  ps_download_factor :: "string option"
  ps_upload_factor :: "string option"

record snapshot =
  sn_media_item_id :: string
  sn_media_title :: string
  sn_media_type :: media_type
  sn_tmdb_id :: "int option"
  sn_year :: "int option"
  sn_torrent_candidate_id :: string
  sn_site_id :: string
  sn_torrent_id :: string
  sn_torrent_ref :: string
  sn_release_title :: string
  sn_size_bytes :: "int option"
  sn_info_hash :: "string option"
  sn_season :: "int option"
  sn_episodes :: "int list option"
  sn_resolution :: "string option"
  sn_source :: "string option"
  sn_subtitles :: "string list option"
  sn_seeders :: "int option"
  sn_promotion :: promotion_snapshot
  sn_hit_and_run :: "bool option"
  sn_match_score :: string
  sn_match_reasons :: "string list"
  sn_warnings :: "string list"
  sn_requested_at :: datetime
  sn_expires_at :: datetime

definition promotion_json :: "promotion_snapshot \<Rightarrow> json" where
  "promotion_json p = JObj
    [(''download_factor'', opt_json JFloat (ps_download_factor p)),
     (''upload_factor'', opt_json JFloat (ps_upload_factor p))]"

definition snapshot_json :: "lib \<Rightarrow> snapshot \<Rightarrow> json" where
  "snapshot_json L s = JObj
    [(''media_item_id'', JStr (sn_media_item_id s)),
     (''media_title'', JStr (sn_media_title s)),
     (''media_type'', JStr (media_type_value (sn_media_type s))),
     (''tmdb_id'', opt_json JInt (sn_tmdb_id s)),
     (''year'', opt_json JInt (sn_year s)),
     (''torrent_candidate_id'', JStr (sn_torrent_candidate_id s)),
     (''site_id'', JStr (sn_site_id s)),
     (''torrent_id'', JStr (sn_torrent_id s)),
     (''torrent_ref'', JStr (sn_torrent_ref s)),
     (''release_title'', JStr (sn_release_title s)),
     (''size_bytes'', opt_json JInt (sn_size_bytes s)),
     (''info_hash'', opt_json JStr (sn_info_hash s)),
     (''season'', opt_json JInt (sn_season s)),
     (''episodes'', opt_json ints_json (sn_episodes s)),
     (''resolution'', opt_json JStr (sn_resolution s)),
     (''source'', opt_json JStr (sn_source s)),
     (''subtitles'', opt_json strs_json (sn_subtitles s)),
     (''seeders'', opt_json JInt (sn_seeders s)),
     (''promotion'', promotion_json (sn_promotion s)),
     (''hit_and_run'', opt_json JBool (sn_hit_and_run s)),
     (''match_score'', JFloat (sn_match_score s)),
     (''match_reasons'', strs_json (sn_match_reasons s)),
     (''warnings'', strs_json (sn_warnings s)),
     (''requested_at'', JStr (dt_text L (sn_requested_at s))),
     (''expires_at'', JStr (dt_text L (sn_expires_at s)))]"

definition snapshot_keys :: "string list" where
  "snapshot_keys =
    [''media_item_id'', ''media_title'', ''media_type'', ''tmdb_id'', ''year'', ''torrent_candidate_id'',
     ''site_id'', ''torrent_id'', ''torrent_ref'', ''release_title'', ''size_bytes'', ''info_hash'', ''season'',
     ''episodes'', ''resolution'', ''source'', ''subtitles'', ''seeders'', ''promotion'', ''hit_and_run'',
     ''match_score'', ''match_reasons'', ''warnings'', ''requested_at'', ''expires_at'']"

definition dec_promotion :: "lib \<Rightarrow> json \<Rightarrow> promotion_snapshot option" where
  "dec_promotion L j = do {
     kvs \<leftarrow> dec_obj j;
     only_keys [''download_factor'', ''upload_factor''] kvs;
     d \<leftarrow> defaulted ''download_factor'' None (dec_opt (dec_float L)) kvs;
     u \<leftarrow> defaulted ''upload_factor'' None (dec_opt (dec_float L)) kvs;
     check (opt_ok (float_at_least L 0) d \<and> opt_ok (float_at_least L 0) u);
     Some \<lparr> ps_download_factor = d, ps_upload_factor = u \<rparr> }"

text \<open>The declared fields of \<open>ApprovalCandidateSnapshot\<close> read from an object.\<close>

definition snapshot_fields :: "lib \<Rightarrow> json \<Rightarrow> snapshot option" where
  "snapshot_fields L j = do {
     kvs \<leftarrow> dec_obj j;
     only_keys snapshot_keys kvs;
     media_item_id \<leftarrow> required ''media_item_id'' dec_str kvs;
     media_title \<leftarrow> required ''media_title'' dec_str kvs;
     mtype \<leftarrow> required ''media_type'' dec_str kvs;
     media_type \<leftarrow> media_type_of mtype;
     tmdb_id \<leftarrow> required ''tmdb_id'' (dec_opt (dec_int L)) kvs;
     year \<leftarrow> required ''year'' (dec_opt (dec_int L)) kvs;
     cand \<leftarrow> required ''torrent_candidate_id'' dec_str kvs;
     site_id \<leftarrow> required ''site_id'' dec_str kvs;
     torrent_id \<leftarrow> required ''torrent_id'' dec_str kvs;
     torrent_ref \<leftarrow> required ''torrent_ref'' dec_str kvs;
     release_title \<leftarrow> required ''release_title'' dec_str kvs;
     size_bytes \<leftarrow> defaulted ''size_bytes'' None (dec_opt (dec_int L)) kvs;
     info_hash \<leftarrow> defaulted ''info_hash'' None (dec_opt dec_str) kvs;
     season \<leftarrow> defaulted ''season'' None (dec_opt (dec_int L)) kvs;
     episodes \<leftarrow> defaulted ''episodes'' None (dec_opt (dec_list (dec_int L))) kvs;
     resolution \<leftarrow> defaulted ''resolution'' None (dec_opt dec_str) kvs;
     src \<leftarrow> defaulted ''source'' None (dec_opt dec_str) kvs;
     subtitles \<leftarrow> defaulted ''subtitles'' None (dec_opt (dec_list dec_str)) kvs;
     seeders \<leftarrow> defaulted ''seeders'' None (dec_opt (dec_int L)) kvs;
     promotion \<leftarrow> required ''promotion'' (dec_promotion L) kvs;
     hit_and_run \<leftarrow> required ''hit_and_run'' (dec_opt (dec_bool L)) kvs;
     match_score \<leftarrow> required ''match_score'' (dec_float L) kvs;
     match_reasons \<leftarrow> required ''match_reasons'' (dec_list dec_str) kvs;
     warnings \<leftarrow> required ''warnings'' (dec_list dec_str) kvs;
     requested_at \<leftarrow> required ''requested_at'' (parse_dt L) kvs;
     expires_at \<leftarrow> required ''expires_at'' (parse_dt L) kvs;
     Some \<lparr> sn_media_item_id = media_item_id, sn_media_title = media_title, sn_media_type = media_type,
       sn_tmdb_id = tmdb_id, sn_year = year, sn_torrent_candidate_id = cand, sn_site_id = site_id,
       sn_torrent_id = torrent_id, sn_torrent_ref = torrent_ref, sn_release_title = release_title,
       sn_size_bytes = size_bytes, sn_info_hash = info_hash, sn_season = season, sn_episodes = episodes,
       sn_resolution = resolution, sn_source = src, sn_subtitles = subtitles, sn_seeders = seeders,
       sn_promotion = promotion, sn_hit_and_run = hit_and_run, sn_match_score = match_score,
       sn_match_reasons = match_reasons, sn_warnings = warnings, sn_requested_at = requested_at,
       sn_expires_at = expires_at \<rparr> }"

text \<open>The field constraints and the validators, which normalise the info hash to lower case.\<close>

definition valid_info_hash :: "string \<Rightarrow> bool" where
  "valid_info_hash h \<longleftrightarrow> hexs 40 h \<or> hexs 64 h"

definition snapshot_rules :: "lib \<Rightarrow> snapshot \<Rightarrow> snapshot option" where
  "snapshot_rules L s =
    (if opt_ok (\<lambda>n. 0 \<le> n) (sn_size_bytes s) \<and> opt_ok (\<lambda>n. 0 \<le> n) (sn_season s)
        \<and> opt_ok (\<lambda>n. 0 \<le> n) (sn_seeders s)
        \<and> opt_ok (float_at_least L 0) (ps_download_factor (sn_promotion s))
        \<and> opt_ok (float_at_least L 0) (ps_upload_factor (sn_promotion s))
        \<and> float_at_least L 0 (sn_match_score s) \<and> float_at_most L 1 (sn_match_score s)
        \<and> validate_internal_torrent_ref (sn_torrent_ref s)
        \<and> ref_matches_site L (sn_torrent_ref s) (sn_site_id s)
        \<and> opt_ok valid_info_hash (sn_info_hash s)
     then Some (s\<lparr> sn_info_hash := map_option (lower L) (sn_info_hash s) \<rparr>) else None)"

definition parse_snapshot :: "lib \<Rightarrow> json \<Rightarrow> snapshot option" where
  "parse_snapshot L j = Option.bind (snapshot_fields L j) (snapshot_rules L)"

section \<open>Preflight results\<close>

record preflight_check =
  pc_code :: string
  pc_status :: preflight_status
  pc_message :: string
  pc_details :: "(string \<times> json) list"

record preflight_result =
  pf_overall_status :: preflight_status
  pf_checks :: "preflight_check list"
  pf_checked_at :: datetime
  pf_policy_fingerprint :: string

definition check_json :: "preflight_check \<Rightarrow> json" where
  "check_json c = JObj
    [(''code'', JStr (pc_code c)), (''status'', JStr (preflight_status_value (pc_status c))),
     (''message'', JStr (pc_message c)), (''details'', JObj (pc_details c))]"

definition preflight_json :: "lib \<Rightarrow> preflight_result \<Rightarrow> json" where
  "preflight_json L r = JObj
    [(''overall_status'', JStr (preflight_status_value (pf_overall_status r))),
     (''checks'', JList (map check_json (pf_checks r))),
     (''checked_at'', JStr (dt_text L (pf_checked_at r))),
     (''policy_fingerprint'', JStr (pf_policy_fingerprint r))]"

text \<open>\<open>^[A-Z][A-Z0-9_]{1,79}$\<close>\<close>

definition upper_char :: "char \<Rightarrow> bool" where
  "upper_char c \<longleftrightarrow> 65 \<le> byte c \<and> byte c \<le> 90"

definition check_code_ok :: "string \<Rightarrow> bool" where
  "check_code_ok s \<longleftrightarrow> 2 \<le> length s \<and> length s \<le> 80 \<and> upper_char (hd s)
    \<and> list_all (\<lambda>c. upper_char c \<or> is_digit c \<or> c = CHR ''_'') (tl s)"

definition check_rules :: "preflight_check \<Rightarrow> bool" where
  "check_rules c \<longleftrightarrow> check_code_ok (pc_code c) \<and> 1 \<le> py_len (pc_message c) \<and> py_len (pc_message c) \<le> 500"

definition dec_check :: "json \<Rightarrow> preflight_check option" where
  "dec_check j = do {
     kvs \<leftarrow> dec_obj j;
     only_keys [''code'', ''status'', ''message'', ''details''] kvs;
     code \<leftarrow> required ''code'' dec_str kvs;
     st \<leftarrow> required ''status'' dec_str kvs;
     status \<leftarrow> preflight_status_of st;
     message \<leftarrow> required ''message'' dec_str kvs;
     details \<leftarrow> defaulted ''details'' [] dec_obj kvs;
     let c = \<lparr> pc_code = code, pc_status = status, pc_message = message, pc_details = details \<rparr>;
     check (check_rules c);
     Some c }"

text \<open>
  The severity order of \<open>validate_summary\<close> and of \<open>evaluate_preflight\<close>: the first of BLOCKED,
  UNKNOWN, WARNING, PASS that some check has. The search fails on an empty list only.
\<close>

definition severity_order :: "preflight_status list" where
  "severity_order = [PF_BLOCKED, PF_UNKNOWN, PF_WARNING, PF_PASS]"

definition worst_status :: "preflight_check list \<Rightarrow> preflight_status option" where
  "worst_status cs = find (\<lambda>st. st \<in> set (map pc_status cs)) severity_order"

definition aware :: "datetime \<Rightarrow> bool" where
  "aware t = (case t of Aware _ \<Rightarrow> True | Naive _ \<Rightarrow> False)"

definition preflight_rules :: "preflight_result \<Rightarrow> bool" where
  "preflight_rules r \<longleftrightarrow> hex64 (pf_policy_fingerprint r)
    \<and> pf_checks r \<noteq> [] \<and> distinct (map pc_code (pf_checks r))
    \<and> worst_status (pf_checks r) = Some (pf_overall_status r) \<and> aware (pf_checked_at r)"

definition parse_preflight :: "lib \<Rightarrow> json \<Rightarrow> preflight_result option" where
  "parse_preflight L j = do {
     kvs \<leftarrow> dec_obj j;
     only_keys [''overall_status'', ''checks'', ''checked_at'', ''policy_fingerprint''] kvs;
     st \<leftarrow> required ''overall_status'' dec_str kvs;
     overall \<leftarrow> preflight_status_of st;
     checks \<leftarrow> required ''checks'' (dec_list dec_check) kvs;
     checked_at \<leftarrow> required ''checked_at'' (parse_dt L) kvs;
     fp \<leftarrow> required ''policy_fingerprint'' dec_str kvs;
     let r = \<lparr> pf_overall_status = overall, pf_checks = checks, pf_checked_at = checked_at,
               pf_policy_fingerprint = fp \<rparr>;
     check (preflight_rules r);
     Some r }"

section \<open>The media destination\<close>

record destination =
  md_media_item_id :: string
  md_media_type :: media_type
  md_tmdb_id :: "int option"
  md_season :: "int option"
  md_episodes :: "int list option"

text \<open>The only literal of its \<open>mode\<close>.\<close>

definition plan_only_mode :: string where
  "plan_only_mode = ''PLAN_ONLY_NO_FILE_OPERATION''"

definition destination_json :: "destination \<Rightarrow> json" where
  "destination_json d = JObj
    [(''mode'', JStr plan_only_mode), (''media_item_id'', JStr (md_media_item_id d)),
     (''media_type'', JStr (media_type_value (md_media_type d))),
     (''tmdb_id'', opt_json JInt (md_tmdb_id d)), (''season'', opt_json JInt (md_season d)),
     (''episodes'', opt_json ints_json (md_episodes d))]"

definition parse_destination :: "lib \<Rightarrow> json \<Rightarrow> destination option" where
  "parse_destination L j = do {
     kvs \<leftarrow> dec_obj j;
     only_keys [''mode'', ''media_item_id'', ''media_type'', ''tmdb_id'', ''season'', ''episodes''] kvs;
     mode \<leftarrow> required ''mode'' dec_str kvs;
     check (mode = plan_only_mode);
     item \<leftarrow> required ''media_item_id'' dec_str kvs;
     mt \<leftarrow> required ''media_type'' dec_str kvs;
     mtype \<leftarrow> media_type_of mt;
     tmdb \<leftarrow> required ''tmdb_id'' (dec_opt (dec_int L)) kvs;
     season \<leftarrow> defaulted ''season'' None (dec_opt (dec_int L)) kvs;
     check (opt_ok (\<lambda>n. 0 \<le> n) season);
     episodes \<leftarrow> defaulted ''episodes'' None (dec_opt (dec_list (dec_int L))) kvs;
     Some \<lparr> md_media_item_id = item, md_media_type = mtype, md_tmdb_id = tmdb, md_season = season,
       md_episodes = episodes \<rparr> }"

section \<open>Round trips\<close>

text \<open>The documented behaviour of timestamps that dumping relies on: what is written reads back.\<close>

definition dt_roundtrip :: "lib \<Rightarrow> datetime \<Rightarrow> bool" where
  "dt_roundtrip L t \<longleftrightarrow> parse_dt L (JStr (dt_text L t)) = Some t"

lemma only_keys_Some [simp]: "only_keys ks kvs = Some u \<longleftrightarrow> list_all (\<lambda>kv. fst kv \<in> set ks) kvs"
  by (simp add: only_keys_def)

lemma dec_promotion_json:
  "opt_ok (float_at_least L 0) (ps_download_factor p) \<Longrightarrow> opt_ok (float_at_least L 0) (ps_upload_factor p) \<Longrightarrow>
    dec_promotion L (promotion_json p) = Some p"
  by (simp add: dec_promotion_def promotion_json_def only_keys_def)

lemma snapshot_rules_promotion:
  "snapshot_rules L s = Some s' \<Longrightarrow> sn_promotion s' = sn_promotion s
    \<and> opt_ok (float_at_least L 0) (ps_download_factor (sn_promotion s'))
    \<and> opt_ok (float_at_least L 0) (ps_upload_factor (sn_promotion s'))"
  by (auto simp: snapshot_rules_def split: if_splits)

lemma snapshot_fields_json:
  assumes "dt_roundtrip L (sn_requested_at s)" and "dt_roundtrip L (sn_expires_at s)"
    and "dec_promotion L (promotion_json (sn_promotion s)) = Some (sn_promotion s)"
  shows "snapshot_fields L (snapshot_json L s) = Some s"
  using assms
  by (simp add: snapshot_fields_def snapshot_json_def only_keys_def snapshot_keys_def dt_roundtrip_def)

lemma hex_byte: "hex_char c \<Longrightarrow> byte c < 0x80"
  by (auto simp: hex_char_def lower_hex_char_def is_digit_def byte_def)

lemma lower_ascii_string:
  assumes "\<And>c. c \<in> set s \<Longrightarrow> byte c < 0x80"
  shows "lower L s = map lower_ascii s"
proof -
  have "map (\<lambda>u. if ascii_char u then map lower_ascii u else lower_char L u) (chars s)
    = map (\<lambda>c. [lower_ascii c]) s"
    using assms by (simp add: chars_ascii ascii_char_def)
  then show ?thesis by (simp add: lower_def concat_map_singleton)
qed

lemma lower_ascii_props:
  "hex_char c \<Longrightarrow> lower_hex_char (lower_ascii c)" "lower_hex_char c \<Longrightarrow> lower_ascii c = c"
  by (auto simp: hex_char_def lower_hex_char_def lower_ascii_def is_digit_def byte_def)

lemma lower_hexs:
  assumes "hexs n h"
  shows "hexs n (lower L h)" and "list_all lower_hex_char (lower L h)" and "lower L (lower L h) = lower L h"
proof -
  have ascii: "\<And>c. c \<in> set h \<Longrightarrow> byte c < 0x80" and hex: "\<And>c. c \<in> set h \<Longrightarrow> hex_char c"
    using assms hex_byte by (auto simp: hexs_def list_all_iff)
  have low: "lower L h = map lower_ascii h" using ascii by (rule lower_ascii_string)
  show l: "list_all lower_hex_char (lower L h)"
    using hex lower_ascii_props(1) by (simp add: low list_all_iff)
  then show "hexs n (lower L h)"
    using assms by (auto simp: hexs_def low list_all_iff hex_char_def)
  have "\<And>c. c \<in> set (lower L h) \<Longrightarrow> byte c < 0x80"
    using l hex_byte by (auto simp: list_all_iff hex_char_def)
  then have "lower L (lower L h) = map lower_ascii (lower L h)" by (rule lower_ascii_string)
  also have "\<dots> = lower L h" using l by (auto simp: list_all_iff lower_ascii_props(2) intro: map_idI)
  finally show "lower L (lower L h) = lower L h" .
qed

lemma snapshot_rules_idem:
  assumes "snapshot_rules L s = Some s'"
  shows "snapshot_rules L s' = Some s'"
proof -
  from assms have s': "s' = s\<lparr> sn_info_hash := map_option (lower L) (sn_info_hash s) \<rparr>"
    and ok: "opt_ok valid_info_hash (sn_info_hash s)"
    by (auto simp: snapshot_rules_def split: if_splits)
  have "opt_ok valid_info_hash (map_option (lower L) (sn_info_hash s))"
    "map_option (lower L) (map_option (lower L) (sn_info_hash s)) = map_option (lower L) (sn_info_hash s)"
    using ok by (cases "sn_info_hash s"; auto simp: opt_ok_def valid_info_hash_def lower_hexs)+
  with assms show ?thesis by (simp add: snapshot_rules_def s' split: if_splits)
qed

text \<open>A snapshot that passed its validators is read back from its dump unchanged.\<close>

lemma parse_snapshot_json:
  assumes "snapshot_rules L s0 = Some s"
    and "dt_roundtrip L (sn_requested_at s)" and "dt_roundtrip L (sn_expires_at s)"
  shows "parse_snapshot L (snapshot_json L s) = Some s"
proof -
  have "snapshot_fields L (snapshot_json L s) = Some s"
    using snapshot_rules_promotion [OF assms(1)]
    by (intro snapshot_fields_json dec_promotion_json assms(2,3)) auto
  with snapshot_rules_idem [OF assms(1)] show ?thesis by (simp add: parse_snapshot_def)
qed

lemma dec_check_json: "check_rules c \<Longrightarrow> dec_check (check_json c) = Some c"
  by (cases c) (simp add: dec_check_def check_json_def only_keys_def Let_def)

lemma parse_preflight_json:
  assumes "preflight_rules r" and "list_all check_rules (pf_checks r)" and "dt_roundtrip L (pf_checked_at r)"
  shows "parse_preflight L (preflight_json L r) = Some r"
proof -
  have "dec_list dec_check (JList (map check_json (pf_checks r))) = Some (pf_checks r)"
    using assms(2) by (intro dec_list_map) (simp add: dec_check_json list_all_iff)
  with assms(1,3) show ?thesis
    by (cases r) (simp add: parse_preflight_def preflight_json_def only_keys_def dt_roundtrip_def Let_def)
qed

lemma parse_destination_json:
  "opt_ok (\<lambda>n. 0 \<le> n) (md_season d) \<Longrightarrow> parse_destination L (destination_json d) = Some d"
  by (simp add: parse_destination_def destination_json_def only_keys_def)

section \<open>What the parsers guarantee\<close>

lemma parse_preflight_rules: "parse_preflight L j = Some r \<Longrightarrow> preflight_rules r"
  by (auto simp: parse_preflight_def Let_def bind_eq_Some_conv)

lemma parse_snapshot_rules:
  "parse_snapshot L j = Some s \<Longrightarrow> snapshot_rules L s = Some s"
  by (auto simp: parse_snapshot_def bind_eq_Some_conv intro: snapshot_rules_idem)

lemma snapshot_rules_facts:
  assumes "snapshot_rules L s = Some s"
  shows "opt_ok (\<lambda>n. 0 \<le> n) (sn_season s)" "opt_ok (\<lambda>n. 0 \<le> n) (sn_size_bytes s)"
    "validate_internal_torrent_ref (sn_torrent_ref s)" "ref_matches_site L (sn_torrent_ref s) (sn_site_id s)"
  using assms by (auto simp: snapshot_rules_def split: if_splits)

lemma worst_status_Some: "cs \<noteq> [] \<Longrightarrow> \<exists>st. worst_status cs = Some st"
proof -
  assume "cs \<noteq> []"
  then have "hd cs \<in> set cs" by simp
  then have "pc_status (hd cs) \<in> set (map pc_status cs)" by simp
  moreover have "pc_status (hd cs) \<in> set severity_order"
    by (cases "pc_status (hd cs)") (simp_all add: severity_order_def)
  ultimately have "\<exists>st \<in> set severity_order. st \<in> set (map pc_status cs)" by blast
  then show ?thesis unfolding worst_status_def by (metis find_None_conv not_None_eq)
qed

lemma worst_status_PASS:
  assumes "worst_status cs = Some PF_PASS" and "c \<in> set cs"
  shows "pc_status c = PF_PASS"
proof -
  have "pc_status c \<in> set (map pc_status cs)" using assms(2) by simp
  with assms(1) show ?thesis
    by (cases "pc_status c") (simp_all add: worst_status_def severity_order_def split: if_splits)
qed

lemma worst_status_passable:
  assumes "worst_status cs = Some st" and "st \<in> {PF_PASS, PF_WARNING}" and "c \<in> set cs"
  shows "pc_status c \<in> {PF_PASS, PF_WARNING}"
proof -
  have "pc_status c \<in> set (map pc_status cs)" using assms(3) by simp
  with assms(1,2) show ?thesis
    by (cases "pc_status c") (auto simp del: set_map simp: worst_status_def severity_order_def split: if_splits)
qed

section \<open>The stored candidate\<close>

text \<open>\<open>TorrentCandidate\<close> of \<open>schemas/adapters.py\<close>, as a search run stored it.\<close>

record torrent_candidate =
  tc_site_id :: string
  tc_torrent_id :: string
  tc_release_title :: string
  tc_details_ref :: string
  tc_media_type :: media_type
  tc_tmdb_id :: "int option"
  tc_imdb_id :: "string option"
  tc_year :: "int option"
  tc_season :: "int option"
  tc_episodes :: "int list option"
  tc_collection_type :: "string option"
  tc_resolution :: "string option"
  tc_source :: "string option"
  tc_codec :: "string option"
  tc_hdr :: "string list option"
  tc_audio :: "string list option"
  tc_subtitles :: "string list option"
  tc_size_bytes :: "int option"
  tc_file_count :: "int option"
  tc_seeders :: "int option"
  tc_leechers :: "int option"
  tc_completed :: "int option"
  tc_download_factor :: "string option"
  tc_upload_factor :: "string option"
  tc_hit_and_run :: "bool option"
  tc_info_hash :: "string option"
  tc_published_at :: "datetime option"
  tc_match_score :: "string option"
  tc_match_reasons :: "string list"
  tc_warnings :: "string list"

definition candidate_keys :: "string list" where
  "candidate_keys =
    [''site_id'', ''torrent_id'', ''details_ref'', ''media_type'', ''tmdb_id'', ''imdb_id'', ''year'', ''season'',
     ''episodes'', ''collection_type'', ''resolution'', ''source'', ''codec'', ''hdr'', ''audio'', ''subtitles'',
     ''size_bytes'', ''file_count'', ''seeders'', ''leechers'', ''completed'', ''download_factor'',
     ''upload_factor'', ''hit_and_run'', ''info_hash'', ''published_at'', ''match_score'', ''match_reasons'',
     ''warnings'']"

text \<open>Patterns on characters of the lower-case ASCII classes; they take no other character.\<close>

definition lower_alnum :: "string \<Rightarrow> bool" where
  "lower_alnum u \<longleftrightarrow> (case u of [c] \<Rightarrow> is_digit c \<or> (97 \<le> byte c \<and> byte c \<le> 122) | _ \<Rightarrow> False)"

definition ascii_alnum :: "string \<Rightarrow> bool" where
  "ascii_alnum u \<longleftrightarrow> (case u of [c] \<Rightarrow> is_digit c \<or> ascii_letter c | _ \<Rightarrow> False)"

definition site_id_ok :: "string \<Rightarrow> bool" where
  "site_id_ok s \<longleftrightarrow>
    (let us = chars s in
     segment lower_alnum (\<lambda>u. lower_alnum u \<or> u = ''-'') 24 us \<and> lower_alnum (last us))"

definition torrent_id_chars :: "string list \<Rightarrow> bool" where
  "torrent_id_chars us \<longleftrightarrow> segment ascii_alnum (\<lambda>u. ascii_alnum u \<or> one_of ''._~-'' u) 128 us"

definition details_ref_ok :: "string \<Rightarrow> bool" where
  "details_ref_ok s \<longleftrightarrow> 5 \<le> py_len s \<and> py_len s \<le> 180 \<and>
    (case colon_parts s of
       [a, b, c] \<Rightarrow> segment lower_alnum (\<lambda>u. lower_alnum u \<or> u = ''-'') 24 a
         \<and> segment lower_alnum (\<lambda>u. lower_alnum u \<or> one_of ''_-'' u) 50 b
         \<and> torrent_id_chars c
     | _ \<Rightarrow> False)"

definition nonneg :: "int option \<Rightarrow> bool" where
  "nonneg x = opt_ok (\<lambda>n. 0 \<le> n) x"

definition candidate_rules :: "lib \<Rightarrow> torrent_candidate \<Rightarrow> bool" where
  "candidate_rules L c \<longleftrightarrow> site_id_ok (tc_site_id c) \<and> torrent_id_chars (chars (tc_torrent_id c))
    \<and> details_ref_ok (tc_details_ref c)
    \<and> opt_ok (\<lambda>n. 1870 \<le> n \<and> n \<le> 2200) (tc_year c)
    \<and> nonneg (tc_size_bytes c) \<and> nonneg (tc_file_count c) \<and> nonneg (tc_seeders c)
    \<and> nonneg (tc_leechers c) \<and> nonneg (tc_completed c)
    \<and> opt_ok (float_at_least L 0) (tc_download_factor c) \<and> opt_ok (float_at_least L 0) (tc_upload_factor c)
    \<and> opt_ok (\<lambda>r. float_at_least L 0 r \<and> float_at_most L 1 r) (tc_match_score c)
    \<and> starts_with (tc_site_id c @ '':'') (tc_details_ref c)"

text \<open>\<open>release_title\<close> may come under its alias \<open>title\<close>.\<close>

definition title_key :: "(string \<times> json) list \<Rightarrow> string" where
  "title_key kvs = (if map_of kvs ''release_title'' \<noteq> None then ''release_title'' else ''title'')"

definition parse_candidate :: "lib \<Rightarrow> json \<Rightarrow> torrent_candidate option" where
  "parse_candidate L j = do {
     kvs \<leftarrow> dec_obj j;
     only_keys (title_key kvs # candidate_keys) kvs;
     site \<leftarrow> required ''site_id'' dec_str kvs;
     tid \<leftarrow> required ''torrent_id'' dec_str kvs;
     title \<leftarrow> required (title_key kvs) dec_str kvs;
     dref \<leftarrow> required ''details_ref'' dec_str kvs;
     mt \<leftarrow> required ''media_type'' dec_str kvs;
     mtype \<leftarrow> media_type_of mt;
     tmdb \<leftarrow> defaulted ''tmdb_id'' None (dec_opt (dec_int L)) kvs;
     imdb \<leftarrow> defaulted ''imdb_id'' None (dec_opt dec_str) kvs;
     year \<leftarrow> defaulted ''year'' None (dec_opt (dec_int L)) kvs;
     season \<leftarrow> defaulted ''season'' None (dec_opt (dec_int L)) kvs;
     episodes \<leftarrow> defaulted ''episodes'' None (dec_opt (dec_list (dec_int L))) kvs;
     coll \<leftarrow> defaulted ''collection_type'' None (dec_opt dec_str) kvs;
     resolution \<leftarrow> defaulted ''resolution'' None (dec_opt dec_str) kvs;
     src \<leftarrow> defaulted ''source'' None (dec_opt dec_str) kvs;
     codec \<leftarrow> defaulted ''codec'' None (dec_opt dec_str) kvs;
     hdr \<leftarrow> defaulted ''hdr'' None (dec_opt (dec_list dec_str)) kvs;
     audio \<leftarrow> defaulted ''audio'' None (dec_opt (dec_list dec_str)) kvs;
     subtitles \<leftarrow> defaulted ''subtitles'' None (dec_opt (dec_list dec_str)) kvs;
     size_bytes \<leftarrow> defaulted ''size_bytes'' None (dec_opt (dec_int L)) kvs;
     file_count \<leftarrow> defaulted ''file_count'' None (dec_opt (dec_int L)) kvs;
     seeders \<leftarrow> defaulted ''seeders'' None (dec_opt (dec_int L)) kvs;
     leechers \<leftarrow> defaulted ''leechers'' None (dec_opt (dec_int L)) kvs;
     completed \<leftarrow> defaulted ''completed'' None (dec_opt (dec_int L)) kvs;
     df \<leftarrow> defaulted ''download_factor'' None (dec_opt (dec_float L)) kvs;
     uf \<leftarrow> defaulted ''upload_factor'' None (dec_opt (dec_float L)) kvs;
     hnr \<leftarrow> defaulted ''hit_and_run'' None (dec_opt (dec_bool L)) kvs;
     ih \<leftarrow> defaulted ''info_hash'' None (dec_opt dec_str) kvs;
     published \<leftarrow> defaulted ''published_at'' None (dec_opt (parse_dt L)) kvs;
     score \<leftarrow> defaulted ''match_score'' None (dec_opt (dec_float L)) kvs;
     reasons \<leftarrow> defaulted ''match_reasons'' [] (dec_list dec_str) kvs;
     warnings \<leftarrow> defaulted ''warnings'' [] (dec_list dec_str) kvs;
     let c = \<lparr> tc_site_id = site, tc_torrent_id = tid, tc_release_title = title, tc_details_ref = dref,
       tc_media_type = mtype, tc_tmdb_id = tmdb, tc_imdb_id = imdb, tc_year = year, tc_season = season,
       tc_episodes = episodes, tc_collection_type = coll, tc_resolution = resolution, tc_source = src,
       tc_codec = codec, tc_hdr = hdr, tc_audio = audio, tc_subtitles = subtitles, tc_size_bytes = size_bytes,
       tc_file_count = file_count, tc_seeders = seeders, tc_leechers = leechers, tc_completed = completed,
       tc_download_factor = df, tc_upload_factor = uf, tc_hit_and_run = hnr, tc_info_hash = ih,
       tc_published_at = published, tc_match_score = score, tc_match_reasons = reasons, tc_warnings = warnings \<rparr>;
     check (candidate_rules L c);
     Some c }"

section \<open>Torrents and categories of qBittorrent\<close>

record qb_torrent =
  qt_hash :: string
  qt_infohash_v1 :: "string option"
  qt_infohash_v2 :: "string option"
  qt_name :: string
  qt_size :: int
  qt_progress :: string
  qt_ratio :: string
  qt_state :: string
  qt_added_on :: int
  qt_completion_on :: int
  qt_seeding_time :: int
  qt_downloaded :: int
  qt_uploaded :: int
  qt_dlspeed :: int
  qt_upspeed :: int
  qt_category :: string
  qt_tags :: string
  qt_save_path :: string

record qb_category =
  qc_name :: string
  qc_save_path :: string

definition qt_identity_hashes :: "qb_torrent \<Rightarrow> string list" where
  "qt_identity_hashes t =
    filter (\<lambda>h. h \<noteq> []) ([qt_hash t] @ concat (map (\<lambda>h. case h of None \<Rightarrow> [] | Some s \<Rightarrow> [s])
      [qt_infohash_v1 t, qt_infohash_v2 t]))
    @ (case qt_infohash_v2 t of None \<Rightarrow> [] | Some h \<Rightarrow> [take 40 h])"

section \<open>Requests\<close>

record approve_body =
  acknowledges_hnr :: bool
  acknowledges_seeding :: bool
  acknowledges_plan_only :: bool

end
