(* ===== verification/PathUrl.thy ===== *)
theory PathUrl
  imports Platform
begin

text \<open>
  The parts of \<open>pathlib\<close>, \<open>urllib.parse\<close> and \<open>fnmatch\<close> that the preflight uses: pure paths
  with their anchor and components, the split of a URL into its parts, and shell patterns.
  All of them work on lists of characters.
\<close>

section \<open>Splitting\<close>

fun split_on :: "'a \<Rightarrow> 'a list \<Rightarrow> 'a list list" where
  "split_on s [] = [[]]"
| "split_on s (x # xs) =
    (if x = s then [] # split_on s xs
     else case split_on s xs of [] \<Rightarrow> [[x]] | w # ws \<Rightarrow> (x # w) # ws)"

definition before :: "('a \<Rightarrow> bool) \<Rightarrow> 'a list \<Rightarrow> 'a list" where
  "before p xs = takeWhile (\<lambda>x. \<not> p x) xs"

text \<open>\<open>partition\<close>: what stands before and after the first match, when there is one.\<close>

definition part :: "('a \<Rightarrow> bool) \<Rightarrow> 'a list \<Rightarrow> 'a list \<times> 'a list option" where
  "part p xs =
    (case dropWhile (\<lambda>x. \<not> p x) xs of [] \<Rightarrow> (xs, None) | _ # r \<Rightarrow> (before p xs, Some r))"

section \<open>Pure paths\<close>

record pure_path =
  drive :: string
  path_root :: string
  tail :: "string list"

definition path_components :: "string \<Rightarrow> string list \<Rightarrow> string list" where
  "path_components sep cs =
    filter (\<lambda>x. x \<noteq> [] \<and> x \<noteq> ''.'') (map concat (split_on sep cs))"

definition posix_path :: "string \<Rightarrow> pure_path" where
  "posix_path s =
    (let cs = chars s;
         rt = (case cs of
             (a # b # c # _) \<Rightarrow>
               if a \<noteq> ''/'' then [] else if b = ''/'' \<and> c \<noteq> ''/'' then ''//'' else ''/''
           | [a, b] \<Rightarrow> if a \<noteq> ''/'' then [] else if b = ''/'' then ''//'' else ''/''
           | [a] \<Rightarrow> if a = ''/'' then ''/'' else []
           | [] \<Rightarrow> [])
     in \<lparr> drive = [], path_root = rt, tail = path_components ''/'' cs \<rparr>)"

definition backslash :: string where "backslash = [CHR 0x5C]"

text \<open>\<open>ntpath.splitroot\<close> on a path whose slashes are already back slashes.\<close>

definition unc_split :: "string list \<Rightarrow> nat \<Rightarrow> string list \<times> string list \<times> string list" where
  "unc_split cs start =
    (case part (\<lambda>c. c = backslash) (drop start cs) of
       (_, None) \<Rightarrow> (cs, [], [])
     | (server, Some r) \<Rightarrow>
         (case part (\<lambda>c. c = backslash) r of
            (_, None) \<Rightarrow> (cs, [], [])
          | (share, Some r') \<Rightarrow> (take start cs @ server @ [backslash] @ share, [backslash], r')))"

definition device_prefix :: "string list \<Rightarrow> bool" where
  "device_prefix cs \<longleftrightarrow> map (map lower_ascii) (take 8 cs)
    = [backslash, backslash, ''?'', backslash, ''u'', ''n'', ''c'', backslash]"

definition nt_splitroot :: "string list \<Rightarrow> string list \<times> string list \<times> string list" where
  "nt_splitroot cs =
    (if take 1 cs = [backslash] then
       if take 1 (drop 1 cs) = [backslash] then unc_split cs (if device_prefix cs then 8 else 2)
       else ([], take 1 cs, drop 1 cs)
     else if take 1 (drop 1 cs) = ['':''] then
       if take 1 (drop 2 cs) = [backslash] then (take 2 cs, [backslash], drop 3 cs)
       else (take 2 cs, [], drop 2 cs)
     else ([], [], cs))"

definition nt_root :: "string list \<Rightarrow> string list \<Rightarrow> string list" where
  "nt_root drv rt =
    (if rt = [] \<and> take 1 drv = [backslash] \<and> last drv \<noteq> backslash then
       let parts = map concat (split_on backslash drv) in
       if (length parts = 4 \<and> parts ! 2 \<notin> {[], ''?'', ''.'', ''?.''}) \<or> length parts = 6 then [backslash] else rt
     else rt)"

definition windows_path :: "string \<Rightarrow> pure_path" where
  "windows_path s =
    (let cs = map (\<lambda>c. if c = ''/'' then backslash else c) (chars s);
         (drv, rt, rel) = nt_splitroot cs
     in \<lparr> drive = concat drv, path_root = concat (nt_root drv rt), tail = path_components backslash rel \<rparr>)"

definition path_parts :: "pure_path \<Rightarrow> string list" where
  "path_parts p = (if drive p = [] \<and> path_root p = [] then tail p else (drive p @ path_root p) # tail p)"

definition lower_path :: "lib \<Rightarrow> pure_path \<Rightarrow> pure_path" where
  "lower_path L p = \<lparr> drive = lower L (drive p), path_root = path_root p, tail = map (lower L) (tail p) \<rparr>"

text \<open>\<open>p == q or q in p.parents\<close>, for paths already folded to the case of their flavour.\<close>

definition path_within :: "pure_path \<Rightarrow> pure_path \<Rightarrow> bool" where
  "path_within p q \<longleftrightarrow> drive p = drive q \<and> path_root p = path_root q
    \<and> take (length (tail q)) (tail p) = tail q"

lemma path_within_refl: "path_within p p"
  by (simp add: path_within_def)

lemma take_prefix_trans:
  "take (length b) a = b \<Longrightarrow> take (length c) b = c \<Longrightarrow> take (length c) a = c"
  by (metis length_take min.absorb4 nat_le_linear take_all take_take)

lemma path_within_trans: "path_within p q \<Longrightarrow> path_within q r \<Longrightarrow> path_within p r"
  by (auto simp: path_within_def dest: take_prefix_trans)

text \<open>
  Lexical resolution, the reference meaning of a path: \<open>..\<close> removes the component before it.
\<close>

fun resolve :: "string list \<Rightarrow> string list \<Rightarrow> string list" where
  "resolve acc [] = rev acc"
| "resolve acc (c # cs) = (if c = ''..'' then resolve (drop 1 acc) cs else resolve (c # acc) cs)"

lemma resolve_plain: "''..'' \<notin> set cs \<Longrightarrow> resolve acc cs = rev acc @ cs"
  by (induction cs arbitrary: acc) auto

section \<open>URLs\<close>

record split_url =
  scheme :: string
  netloc :: string
  url_path :: string
  query :: string
  fragment :: string

definition scheme_char :: "string \<Rightarrow> bool" where
  "scheme_char u \<longleftrightarrow> (case u of [c] \<Rightarrow> ascii_letter c \<or> is_digit c \<or> c \<in> set ''+-.'' | _ \<Rightarrow> False)"

definition ascii_alpha :: "string \<Rightarrow> bool" where
  "ascii_alpha u \<longleftrightarrow> (case u of [c] \<Rightarrow> ascii_letter c | _ \<Rightarrow> False)"

definition control_or_space :: "string \<Rightarrow> bool" where
  "control_or_space u \<longleftrightarrow> (case u of [c] \<Rightarrow> byte c \<le> 32 | _ \<Rightarrow> False)"

definition cleaned_url :: "string \<Rightarrow> string list" where
  "cleaned_url s = filter (\<lambda>u. u \<notin> set [[CHR 0x09], [CHR 0x0A], [CHR 0x0D]])
    (dropWhile control_or_space (chars s))"

definition split_scheme :: "string list \<Rightarrow> string \<times> string list" where
  "split_scheme cs =
    (case part (\<lambda>c. c = '':'') cs of
       (sch, Some r) \<Rightarrow>
         if sch \<noteq> [] \<and> ascii_alpha (hd sch) \<and> list_all scheme_char sch
         then (concat (map (map lower_ascii) sch), r) else ([], cs)
     | (_, None) \<Rightarrow> ([], cs))"

definition split_netloc :: "string list \<Rightarrow> string list \<times> string list" where
  "split_netloc cs =
    (if take 2 cs = [''/'', ''/''] then
       (before (\<lambda>c. c \<in> {''/'', ''?'', ''#''}) (drop 2 cs),
        dropWhile (\<lambda>c. c \<notin> {''/'', ''?'', ''#''}) (drop 2 cs))
     else ([], cs))"

definition brackets_ok :: "string list \<Rightarrow> bool" where
  "brackets_ok nl \<longleftrightarrow> (''['' \<in> set nl) = ('']'' \<in> set nl)"

text \<open>\<open>None\<close> stands for the \<open>ValueError\<close> of an invalid network location.\<close>

definition urlsplit :: "lib \<Rightarrow> string \<Rightarrow> split_url option" where
  "urlsplit L s =
    (let (sch, r0) = split_scheme (cleaned_url s);
         (nl, r1) = split_netloc r0;
         (r2, frag) = part (\<lambda>c. c = ''#'') r1;
         (pth, qry) = part (\<lambda>c. c = ''?'') r2;
         text = (\<lambda>x. case x of None \<Rightarrow> [] | Some t \<Rightarrow> concat t)
     in if \<not> brackets_ok nl \<or> \<not> netloc_valid L (concat nl) then None
        else Some \<lparr> scheme = sch, netloc = concat nl, url_path = concat pth,
                    query = text qry, fragment = text frag \<rparr>)"

definition rpart_at :: "string list \<Rightarrow> string list option \<times> string list" where
  "rpart_at nl =
    (case part (\<lambda>c. c = ''@'') (rev nl) of
       (host, None) \<Rightarrow> (None, nl)
     | (host, Some user) \<Rightarrow> (Some (rev user), rev host))"

definition username :: "split_url \<Rightarrow> string option" where
  "username u = map_option (\<lambda>info. concat (fst (part (\<lambda>c. c = '':'') info))) (fst (rpart_at (chars (netloc u))))"

definition password :: "split_url \<Rightarrow> string option" where
  "password u =
    (case fst (rpart_at (chars (netloc u))) of
       None \<Rightarrow> None
     | Some info \<Rightarrow> map_option concat (snd (part (\<lambda>c. c = '':'') info)))"

definition hostinfo :: "split_url \<Rightarrow> string list \<times> string list" where
  "hostinfo u =
    (let hi = snd (rpart_at (chars (netloc u)));
         after_colon = (\<lambda>x. case snd (part (\<lambda>c. c = '':'') x) of None \<Rightarrow> [] | Some p \<Rightarrow> p)
     in case snd (part (\<lambda>c. c = ''['') hi) of
          Some bracketed \<Rightarrow>
            (case part (\<lambda>c. c = '']'') bracketed of
               (host, None) \<Rightarrow> (host, []) | (host, Some r) \<Rightarrow> (host, after_colon r))
        | None \<Rightarrow> (fst (part (\<lambda>c. c = '':'') hi), after_colon hi))"

definition hostname :: "lib \<Rightarrow> split_url \<Rightarrow> string" where
  "hostname L u =
    (let (h, zone) = part (\<lambda>c. c = ''%'') (fst (hostinfo u))
     in lower L (concat h) @ (case zone of None \<Rightarrow> [] | Some z \<Rightarrow> ''%'' @ concat z))"

text \<open>The port: \<open>Inl ()\<close> for the \<open>ValueError\<close> of a bad one.\<close>

definition port :: "split_url \<Rightarrow> unit + nat option" where
  "port u =
    (let p = concat (snd (hostinfo u)) in
     if p = [] then Inr None
     else if list_all is_digit p \<and> read_nat p \<le> 65535 then Inr (Some (read_nat p)) else Inl ())"

section \<open>Shell patterns\<close>

fun class_members :: "string list \<Rightarrow> (string \<times> string) list" where
  "class_members (a # b # c # r) =
    (if b = ''-'' then (a, c) # class_members r else (a, a) # class_members (b # c # r))"
| "class_members (a # r) = (a, a) # class_members r"
| "class_members [] = []"

definition in_class :: "string list \<Rightarrow> string \<Rightarrow> bool" where
  "in_class ms u \<longleftrightarrow> list_ex (\<lambda>(a, b). a \<le> u \<and> u \<le> b) (class_members ms)"

text \<open>
  The body of a bracket expression after the opening bracket, with what follows it: a leading
  \<open>!\<close>, then at least one character before the closing bracket.
\<close>

definition bracket :: "string list \<Rightarrow> (bool \<times> string list \<times> string list) option" where
  "bracket p =
    (let neg = (take 1 p = [''!'']);
         q = (if neg then drop 1 p else p)
     in case q of
          [] \<Rightarrow> None
        | x # r \<Rightarrow>
            (case part (\<lambda>c. c = '']'') r of (_, None) \<Rightarrow> None | (ms, Some r') \<Rightarrow> Some (neg, x # ms, r')))"

lemma part_Some_length: "part p xs = (a, Some b) \<Longrightarrow> length b < length xs"
proof -
  assume "part p xs = (a, Some b)"
  then obtain y where "dropWhile (\<lambda>x. \<not> p x) xs = y # b"
    by (auto simp: part_def split: list.splits)
  then show ?thesis using length_dropWhile_le [of "\<lambda>x. \<not> p x" xs] by simp
qed

lemma bracket_length: "bracket p = Some (neg, ms, r) \<Longrightarrow> length r < length p"
  by (cases p) (auto simp: bracket_def Let_def split: list.splits option.splits prod.splits if_splits
      dest!: part_Some_length)

function glob :: "string list \<Rightarrow> string list \<Rightarrow> bool" where
  "glob [] s = (s = [])"
| "glob (p # ps) s =
    (if p = ''*'' then glob ps s \<or> (if s = [] then False else glob (p # ps) (drop 1 s))
     else if s = [] then False
     else if p = ''?'' then glob ps (drop 1 s)
     else if p = ''['' then
       (case bracket ps of
          None \<Rightarrow> hd s = ''['' \<and> glob ps (drop 1 s)
        | Some (neg, ms, r) \<Rightarrow> (in_class ms (hd s) \<noteq> neg) \<and> glob r (drop 1 s))
     else hd s = p \<and> glob ps (drop 1 s))"
  by pat_completeness auto
termination
  by (relation "measure (\<lambda>(p, s). length p + length s)") (auto dest: bracket_length)

definition fnmatchcase :: "string \<Rightarrow> string \<Rightarrow> bool" where
  "fnmatchcase name pat = glob (chars pat) (chars name)"

lemma fnmatch_examples:
  "fnmatchcase ''4.6.1'' ''4.6.*''" "\<not> fnmatchcase ''4.5.1'' ''4.6.*''"
  "fnmatchcase ''5.0'' ''[45].?''" "\<not> fnmatchcase ''6.0'' ''[!5-7].0''"
  by code_simp+

lemma path_examples:
  "path_parts (windows_path ''C:/Media/./tv'') = [''C:'' @ backslash, ''Media'', ''tv'']"
  "path_parts (posix_path ''//srv/../x/'') = [''//'', ''srv'', ''..'', ''x'']"
  by code_simp+

lemma url_example:
  "map_option (\<lambda>u. (scheme u, hostname example_lib u, port u, url_path u, username u))
     (urlsplit example_lib ''HTTPS://User@QB.local:/web/?a=1'')
   = Some (''https'', ''qb.local'', Inr None, ''/web/'', Some ''User'')"
  by code_simp

end
