(* ===== verification/Preflight.thy ===== *)
theory Preflight
  imports Schemas SiteRules PathUrl
begin

text \<open>
  The settings the core reads (\<open>core/config.py\<close>) and the download preflight
  (\<open>services/preflight.py\<close>): the fingerprint of the policy configuration, the twelve checks
  and the summary. The read-only qBittorrent adapter is a parameter: the outcome of each of
  its calls, a value or an \<open>AppError\<close>.
\<close>

section \<open>Settings\<close>

record settings =
  st_qb_base_url_value :: "unit + string option"
  st_qb_allowed_hosts :: "string list"
  st_qb_allow_insecure_http :: bool
  st_qb_target_category :: "string option"
  st_qb_target_save_path :: "string option"
  st_qb_save_path_ref :: string
  st_qb_allowed_save_paths :: "string list"
  st_qb_plan_tags :: "string list"
  st_qb_target_instance_ref :: string
  st_avistaz_forbidden_qb_versions :: "string list"
  st_max_candidate_size_bytes :: "int option"
  st_approval_default_ttl_minutes :: int
  st_approval_max_ttl_minutes :: int
  st_approval_preflight_max_age_seconds :: int
  st_execution_intent_default_ttl_seconds :: int
  st_execution_intent_max_ttl_seconds :: int
  st_download_execution_lease_seconds :: int
  st_download_execution_retry_base_seconds :: int
  st_download_execution_retry_max_seconds :: int
  st_torrent_max_bytes :: int
  st_torrent_max_files :: int
  st_enable_control_plane :: bool
  st_enable_download_executor :: bool
  st_enable_torrent_fetch :: bool
  st_enable_qb_write :: bool
  st_enable_qb_read_only :: bool
  st_enable_download_monitor :: bool
  st_download_monitor_batch_size :: nat
  st_job_max_attempts :: int
  st_enable_automation_engine :: bool
  st_enable_avistaz_live_search :: bool
  st_preferred_resolutions :: "string list"
  st_preferred_sources :: "string list"
  st_preferred_audio :: "string list"
  st_preferred_subtitles :: "string list"
  st_preflight_ready_ttl_seconds :: int
  st_executor_ready_ttl_seconds :: int
  st_avistaz_base_url :: string
  st_avistaz_allowed_hosts :: "string list"
  st_avistaz_configured :: bool
  st_qb_configured :: bool
  st_pt_site_architecture :: string
  st_pt_site_runtime_supported :: bool
  st_pt_site_runtime_configured :: "bool option"
  st_job_lease_seconds :: int
  st_enable_tmdb_live :: bool
  st_tmdb_configured :: bool
  st_nextfind_configured :: bool
  st_enable_media_import_control_plane :: bool
  st_media_import_target_root_refs :: "string list"
  st_media_import_preflight_max_age_seconds :: int

definition download_executor_enabled :: "settings \<Rightarrow> bool" where
  "download_executor_enabled st \<longleftrightarrow> st_enable_download_executor st \<and> st_enable_torrent_fetch st
    \<and> st_enable_qb_write st"

section \<open>The policy fingerprint\<close>

definition target_unavailable :: exn where
  "target_unavailable = app_err ''PREFLIGHT_TARGET_CONFIG_UNAVAILABLE'' 409"

definition target_invalid :: exn where
  "target_invalid = app_err ''PREFLIGHT_TARGET_CONFIG_INVALID'' 409"

definition folded_hosts :: "lib \<Rightarrow> string list \<Rightarrow> string list" where
  "folded_hosts L hosts = map (\<lambda>h. casefold L (strip h)) (filter (\<lambda>h. strip h \<noteq> []) hosts)"

definition rstrip_slash :: "string \<Rightarrow> string" where
  "rstrip_slash s = rev (dropWhile (\<lambda>c. c = CHR ''/'') (rev s))"

definition has_control :: "string \<Rightarrow> bool" where
  "has_control s \<longleftrightarrow> list_ex (\<lambda>c. byte c < 33 \<or> byte c = 127) s"

definition normalized_qb_base_url_for_policy :: "lib \<Rightarrow> settings \<Rightarrow> exn + string" where
  "normalized_qb_base_url_for_policy L st =
    (case st_qb_base_url_value st of
       Inl _ \<Rightarrow> Inl target_unavailable
     | Inr None \<Rightarrow> Inl target_unavailable
     | Inr (Some configured_url) \<Rightarrow>
       if configured_url = [] then Inl target_unavailable
       else
         let raw_url = strip configured_url in
         case urlsplit L raw_url of
           None \<Rightarrow> Inl target_invalid
         | Some parsed \<Rightarrow>
           (case port parsed of
              Inl _ \<Rightarrow> Inl target_invalid
            | Inr prt \<Rightarrow>
              let sch = casefold L (scheme parsed);
                  host = casefold L (hostname L parsed);
                  allowed_hosts = folded_hosts L (st_qb_allowed_hosts st);
                  allowed_schemes = (if st_qb_allow_insecure_http st then [''https'', ''http''] else [''https''])
              in if configured_url \<noteq> raw_url \<or> has_control raw_url \<or> sch \<notin> set allowed_schemes
                    \<or> host = [] \<or> host \<notin> set allowed_hosts
                    \<or> username parsed \<noteq> None \<or> password parsed \<noteq> None
                    \<or> query parsed \<noteq> [] \<or> fragment parsed \<noteq> []
                 then Inl target_invalid
                 else
                   let default_port = (sch = ''https'' \<and> prt = Some 443) \<or> (sch = ''http'' \<and> prt = Some 80);
                       normalized_host = (if CHR '':'' \<in> set host then ''['' @ host @ '']'' else host);
                       normalized_port = (case prt of None \<Rightarrow> []
                         | Some p \<Rightarrow> if default_port then [] else '':'' @ show_nat p)
                   in Inr (sch @ ''://'' @ normalized_host @ normalized_port @ rstrip_slash (url_path parsed))))"

definition PREFLIGHT_RECENT_TORRENT_LIMIT :: int where
  "PREFLIGHT_RECENT_TORRENT_LIMIT = 200"

definition sorted_strs :: "string list \<Rightarrow> json" where
  "sorted_strs xs = strs_json (sort xs)"

definition preflight_policy :: "lib \<Rightarrow> settings \<Rightarrow> string \<Rightarrow> json" where
  "preflight_policy L st base_url = JObj
    [(''version'', JInt 5),
     (''downloader'', JStr ''qbittorrent''),
     (''base_url'', JStr base_url),
     (''target_instance_ref'', JStr (st_qb_target_instance_ref st)),
     (''allowed_hosts'', sorted_strs (dedup (folded_hosts L (st_qb_allowed_hosts st)))),
     (''allow_insecure_http'', JBool (st_qb_allow_insecure_http st)),
     (''target_category'', opt_json JStr (st_qb_target_category st)),
     (''target_save_path'', opt_json JStr (st_qb_target_save_path st)),
     (''allowed_save_paths'', sorted_strs (st_qb_allowed_save_paths st)),
     (''save_path_ref'', JStr (st_qb_save_path_ref st)),
     (''plan_tags'', strs_json (st_qb_plan_tags st)),
     (''max_candidate_size_bytes'', opt_json JInt (st_max_candidate_size_bytes st)),
     (''qb_query_policy'', JObj [(''duplicate_release_recent_limit'', JInt PREFLIGHT_RECENT_TORRENT_LIMIT)]),
     (''avistaz_forbidden_qb_versions'', sorted_strs (st_avistaz_forbidden_qb_versions st)),
     (''pt_site_hnr_policy'', JObj [(''avistaz'', JObj
        [(''applies'', JBool True), (''minimum_seeding_days'', JInt AVISTAZ_DEFAULT_HNR_DAYS)])]),
     (''preflight_max_age_seconds'', JInt (st_approval_preflight_max_age_seconds st))]"

definition preflight_policy_fingerprint :: "lib \<Rightarrow> settings \<Rightarrow> exn + string" where
  "preflight_policy_fingerprint L st =
    bindR (normalized_qb_base_url_for_policy L st) (\<lambda>url.
    Inr (sha256_hex L (dumps (preflight_policy L st url))))"

definition require_preflight_policy_current :: "lib \<Rightarrow> string \<Rightarrow> settings \<Rightarrow> exn + unit" where
  "require_preflight_policy_current L expected st =
    bindR (preflight_policy_fingerprint L st) (\<lambda>current.
    raise_if (expected \<noteq> current) (app_err ''PREFLIGHT_CONFIG_CHANGED'' 409))"

section \<open>The checks\<close>

definition PREFLIGHT_CHECK_CODES :: "string list" where
  "PREFLIGHT_CHECK_CODES =
    [''QB_CONNECTION'', ''QB_APP_VERSION'', ''QB_WEB_API_VERSION'', ''AVISTAZ_QB_VERSION_RULE'',
     ''TARGET_CATEGORY'', ''DUPLICATE_INFO_HASH'', ''POSSIBLE_DUPLICATE_RELEASE'', ''SAVE_PATH_ALLOWED'',
     ''SIZE_LIMIT'', ''ACTIVE_SEEDING'', ''CANDIDATE_SEEDERS'', ''HNR_KNOWN'']"

definition mk_check ::
    "lib \<Rightarrow> string \<Rightarrow> preflight_status \<Rightarrow> string \<Rightarrow> (string \<times> json) list \<Rightarrow> preflight_check" where
  "mk_check L code status text details =
    \<lparr> pc_code = code, pc_status = status, pc_message = text_of L text, pc_details = details \<rparr>"

definition error_details :: "string option \<Rightarrow> (string \<times> json) list" where
  "error_details e = (case e of None \<Rightarrow> [] | Some c \<Rightarrow> if c = [] then [] else [(''error_code'', JStr c)])"

definition removeprefix_v :: "string \<Rightarrow> string" where
  "removeprefix_v s = (case s of c # r \<Rightarrow> if c = CHR ''v'' then r else s | [] \<Rightarrow> [])"

definition avistaz_version_check :: "lib \<Rightarrow> string option \<Rightarrow> settings \<Rightarrow> preflight_check" where
  "avistaz_version_check L version st =
    (case version of
       None \<Rightarrow> mk_check L ''AVISTAZ_QB_VERSION_RULE'' PF_UNKNOWN ''version unknown'' []
     | Some v \<Rightarrow>
       let rules = st_avistaz_forbidden_qb_versions st;
           details = [(''version'', JStr v)];
           forbidden = list_ex (\<lambda>rule. fnmatchcase (removeprefix_v v) (removeprefix_v rule)) rules
       in if rules = [] then mk_check L ''AVISTAZ_QB_VERSION_RULE'' PF_UNKNOWN ''no version rules'' details
          else if forbidden then mk_check L ''AVISTAZ_QB_VERSION_RULE'' PF_BLOCKED ''version forbidden'' details
          else mk_check L ''AVISTAZ_QB_VERSION_RULE'' PF_PASS ''version allowed'' details)"

definition falsy_str :: "string option \<Rightarrow> bool" where
  "falsy_str s \<longleftrightarrow> s = None \<or> s = Some []"

definition category_check :: "lib \<Rightarrow> (string \<times> qb_category) list option \<Rightarrow> string option \<Rightarrow> preflight_check" where
  "category_check L categories target_category =
    (if falsy_str target_category then
       mk_check L ''TARGET_CATEGORY'' PF_UNKNOWN ''category not configured'' []
     else case categories of
       None \<Rightarrow> mk_check L ''TARGET_CATEGORY'' PF_UNKNOWN ''categories unreadable'' []
     | Some cats \<Rightarrow>
       if the target_category \<notin> set (map fst cats) then
         mk_check L ''TARGET_CATEGORY'' PF_WARNING ''category will be created''
           [(''category'', opt_json JStr target_category), (''will_create_on_submit'', JBool True)]
       else mk_check L ''TARGET_CATEGORY'' PF_PASS ''category present''
           [(''category'', opt_json JStr target_category)])"

definition info_hash_check ::
    "lib \<Rightarrow> qb_torrent list option \<Rightarrow> string option \<Rightarrow> string option \<Rightarrow> preflight_check" where
  "info_hash_check L torrents info_hash err =
    (if falsy_str info_hash then
       mk_check L ''DUPLICATE_INFO_HASH'' PF_WARNING ''hash deferred''
         [(''deferred_validation'', JStr ''TORRENT_FILE''), (''duplicate_check_deferred'', JBool True)]
     else case torrents of
       None \<Rightarrow> mk_check L ''DUPLICATE_INFO_HASH'' PF_UNKNOWN ''hash lookup failed'' (error_details err)
     | Some ts \<Rightarrow>
       if list_ex (\<lambda>t. casefold L (the info_hash) \<in> set (qt_identity_hashes t)) ts
       then mk_check L ''DUPLICATE_INFO_HASH'' PF_BLOCKED ''hash present'' []
       else mk_check L ''DUPLICATE_INFO_HASH'' PF_PASS ''hash absent'' [])"

definition same_release :: "lib \<Rightarrow> snapshot \<Rightarrow> qb_torrent \<Rightarrow> bool" where
  "same_release L sn t \<longleftrightarrow> strip (casefold L (qt_name t)) = strip (casefold L (sn_release_title sn))
    \<and> Some (qt_size t) = sn_size_bytes sn"

definition duplicate_release_check ::
    "lib \<Rightarrow> qb_torrent list option \<Rightarrow> snapshot \<Rightarrow> int \<Rightarrow> string option \<Rightarrow> preflight_check" where
  "duplicate_release_check L torrents sn sample_limit err =
    (if sn_size_bytes sn = None then
       mk_check L ''POSSIBLE_DUPLICATE_RELEASE'' PF_WARNING ''size deferred''
         [(''deferred_validation'', JStr ''TORRENT_FILE''), (''duplicate_check_deferred'', JBool True)]
     else case torrents of
       None \<Rightarrow> mk_check L ''POSSIBLE_DUPLICATE_RELEASE'' PF_UNKNOWN ''recent torrents unreadable'' (error_details err)
     | Some ts \<Rightarrow>
       let details = [(''sample_limit'', JInt sample_limit), (''sample_count'', JInt (int (length ts)))] in
       if list_ex (same_release L sn) ts
       then mk_check L ''POSSIBLE_DUPLICATE_RELEASE'' PF_WARNING ''suspected duplicate'' details
       else mk_check L ''POSSIBLE_DUPLICATE_RELEASE'' PF_WARNING ''sample without duplicate'' details)"

definition windows_style :: "string \<Rightarrow> bool" where
  "windows_style target \<longleftrightarrow>
    (case target of a # b # _ \<Rightarrow> ascii_letter a \<and> b = CHR '':'' | _ \<Rightarrow> False) \<or> CHR 0x5C \<in> set target"

definition flavoured_path :: "lib \<Rightarrow> bool \<Rightarrow> string \<Rightarrow> pure_path" where
  "flavoured_path L windows s = (if windows then windows_path s else posix_path s)"

definition fold_flavour :: "lib \<Rightarrow> bool \<Rightarrow> pure_path \<Rightarrow> pure_path" where
  "fold_flavour L windows p = (if windows then lower_path L p else p)"

definition absolute_path :: "bool \<Rightarrow> pure_path \<Rightarrow> bool" where
  "absolute_path windows p \<longleftrightarrow> path_root p \<noteq> [] \<and> (windows \<longrightarrow> drive p \<noteq> [])"

definition usable_path :: "bool \<Rightarrow> pure_path \<Rightarrow> bool" where
  "usable_path windows p \<longleftrightarrow> absolute_path windows p \<and> ''..'' \<notin> set (path_parts p)"

definition is_allowed_save_path :: "lib \<Rightarrow> string \<Rightarrow> string list \<Rightarrow> bool" where
  "is_allowed_save_path L target roots \<longleftrightarrow>
    (let windows = windows_style target; target_path = flavoured_path L windows target
     in usable_path windows target_path
      \<and> list_ex (\<lambda>rt. let root_path = flavoured_path L windows rt in
            usable_path windows root_path
            \<and> path_within (fold_flavour L windows target_path) (fold_flavour L windows root_path)) roots)"

definition save_path_check :: "lib \<Rightarrow> settings \<Rightarrow> preflight_check" where
  "save_path_check L st =
    (let details = [(''save_path_ref'', JStr (st_qb_save_path_ref st))] in
     if falsy_str (st_qb_target_save_path st) \<or> st_qb_allowed_save_paths st = [] then
       mk_check L ''SAVE_PATH_ALLOWED'' PF_UNKNOWN ''save path not configured'' []
     else if \<not> is_allowed_save_path L (the (st_qb_target_save_path st)) (st_qb_allowed_save_paths st) then
       mk_check L ''SAVE_PATH_ALLOWED'' PF_BLOCKED ''save path outside'' details
     else mk_check L ''SAVE_PATH_ALLOWED'' PF_PASS ''save path allowed'' details)"

definition size_limit_check :: "lib \<Rightarrow> int option \<Rightarrow> int option \<Rightarrow> preflight_check" where
  "size_limit_check L nbytes max_bytes =
    (case max_bytes of
       None \<Rightarrow> mk_check L ''SIZE_LIMIT'' PF_UNKNOWN ''no size limit'' []
     | Some l \<Rightarrow>
       (case nbytes of
          None \<Rightarrow> mk_check L ''SIZE_LIMIT'' PF_WARNING ''size unknown''
            [(''limit_bytes'', JInt l), (''deferred_validation'', JStr ''TORRENT_FILE'')]
        | Some n \<Rightarrow>
          let details = [(''size_bytes'', JInt n), (''limit_bytes'', JInt l)] in
          if l < n then mk_check L ''SIZE_LIMIT'' PF_BLOCKED ''size over the limit'' details
          else mk_check L ''SIZE_LIMIT'' PF_PASS ''size within the limit'' details))"

definition active_seeding_check :: "lib \<Rightarrow> bool option \<Rightarrow> string option \<Rightarrow> preflight_check" where
  "active_seeding_check L has_active_seeding err =
    (case has_active_seeding of
       None \<Rightarrow> mk_check L ''ACTIVE_SEEDING'' PF_UNKNOWN ''seeding unreadable'' (error_details err)
     | Some False \<Rightarrow> mk_check L ''ACTIVE_SEEDING'' PF_WARNING ''no active seeding'' [(''count'', JInt 0)]
     | Some True \<Rightarrow> mk_check L ''ACTIVE_SEEDING'' PF_PASS ''active seeding'' [(''count_at_least'', JInt 1)])"

definition candidate_seeders_check :: "lib \<Rightarrow> int option \<Rightarrow> preflight_check" where
  "candidate_seeders_check L seeders =
    (case seeders of
       None \<Rightarrow> mk_check L ''CANDIDATE_SEEDERS'' PF_WARNING ''seeders unknown''
         [(''deferred_validation'', JStr ''PT_RESEARCH'')]
     | Some n \<Rightarrow>
       if n = 0 then mk_check L ''CANDIDATE_SEEDERS'' PF_BLOCKED ''no seeders'' []
       else mk_check L ''CANDIDATE_SEEDERS'' PF_PASS ''seeders present'' [(''seeders'', JInt n)])"

definition hnr_check :: "lib \<Rightarrow> string \<Rightarrow> bool option \<Rightarrow> preflight_check" where
  "hnr_check L site_id hit_and_run =
    (let rule = effective_hnr_rule L site_id hit_and_run;
         details = [(''hit_and_run'', opt_json JBool (applies rule)),
           (''source'', JStr (hnr_source_value (rule_source rule)))]
     in if \<not> rule_known rule then mk_check L ''HNR_KNOWN'' PF_UNKNOWN ''rule unknown'' []
        else if rule_source rule = SITE_DEFAULT then mk_check L ''HNR_KNOWN'' PF_PASS ''site default rule''
          (details @ [(''minimum_seeding_days'', opt_json JInt (minimum_seeding_days rule))])
        else mk_check L ''HNR_KNOWN'' PF_PASS ''rule known'' details)"

section \<open>The evaluation\<close>

record qb_reader =
  qr_authenticate :: "app_error + unit"
  qr_get_version :: "app_error + string"
  qr_get_web_api_version :: "app_error + string"
  qr_find_torrents_by_hashes :: "string list \<Rightarrow> app_error + qb_torrent list"
  qr_list_recent_torrents :: "int \<Rightarrow> app_error + qb_torrent list"
  qr_has_active_seeding :: "app_error + bool"
  qr_get_categories :: "app_error + (string \<times> qb_category) list"

text \<open>What the connected branch has read: a value, or the code of the error.\<close>

record qb_facts =
  qf_version :: "string option"
  qf_hash_matches :: "qb_torrent list option"
  qf_hash_error :: "string option"
  qf_recent :: "qb_torrent list option"
  qf_recent_error :: "string option"
  qf_seeding :: "bool option"
  qf_seeding_error :: "string option"
  qf_categories :: "(string \<times> qb_category) list option"

definition no_facts :: qb_facts where
  "no_facts = \<lparr> qf_version = None, qf_hash_matches = None, qf_hash_error = None, qf_recent = None,
    qf_recent_error = None, qf_seeding = None, qf_seeding_error = None, qf_categories = None \<rparr>"

definition ok_part :: "app_error + 'a \<Rightarrow> 'a option" where
  "ok_part r = (case r of Inl _ \<Rightarrow> None | Inr x \<Rightarrow> Some x)"

definition err_part :: "app_error + 'a \<Rightarrow> string option" where
  "err_part r = (case r of Inl e \<Rightarrow> Some (error_code e) | Inr _ \<Rightarrow> None)"

definition version_check :: "lib \<Rightarrow> string \<Rightarrow> app_error + string \<Rightarrow> preflight_check" where
  "version_check L code r =
    (case r of
       Inr v \<Rightarrow> mk_check L code PF_PASS (code @ '' read'') [(''version'', JStr v)]
     | Inl e \<Rightarrow> mk_check L code PF_UNKNOWN (code @ '' unreadable'') [(''error_code'', JStr (error_code e))])"

definition connected_facts :: "qb_reader \<Rightarrow> snapshot \<Rightarrow> qb_facts" where
  "connected_facts Q sn =
    (let hashes = (if falsy_str (sn_info_hash sn) then None
           else Some (qr_find_torrents_by_hashes Q [the (sn_info_hash sn)]));
         recent = (if sn_size_bytes sn = None then None
           else Some (qr_list_recent_torrents Q PREFLIGHT_RECENT_TORRENT_LIMIT))
     in \<lparr> qf_version = ok_part (qr_get_version Q),
          qf_hash_matches = Option.bind hashes ok_part, qf_hash_error = Option.bind hashes err_part,
          qf_recent = Option.bind recent ok_part, qf_recent_error = Option.bind recent err_part,
          qf_seeding = ok_part (qr_has_active_seeding Q), qf_seeding_error = err_part (qr_has_active_seeding Q),
          qf_categories = ok_part (qr_get_categories Q) \<rparr>)"

definition connection_checks :: "lib \<Rightarrow> qb_reader \<Rightarrow> preflight_check list" where
  "connection_checks L Q =
    (case qr_authenticate Q of
       Inl e \<Rightarrow> [mk_check L ''QB_CONNECTION'' PF_BLOCKED ''connection failed''
         [(''error_code'', JStr (error_code e))]]
     | Inr _ \<Rightarrow>
       [mk_check L ''QB_CONNECTION'' PF_PASS ''connected'' [],
        version_check L ''QB_APP_VERSION'' (qr_get_version Q),
        version_check L ''QB_WEB_API_VERSION'' (qr_get_web_api_version Q)])"

definition policy_checks :: "lib \<Rightarrow> qb_facts \<Rightarrow> snapshot \<Rightarrow> settings \<Rightarrow> preflight_check list" where
  "policy_checks L f sn st =
    [avistaz_version_check L (qf_version f) st,
     category_check L (qf_categories f) (st_qb_target_category st),
     info_hash_check L (qf_hash_matches f) (sn_info_hash sn) (qf_hash_error f),
     duplicate_release_check L (qf_recent f) sn PREFLIGHT_RECENT_TORRENT_LIMIT (qf_recent_error f),
     save_path_check L st,
     size_limit_check L (sn_size_bytes sn) (st_max_candidate_size_bytes st),
     active_seeding_check L (qf_seeding f) (qf_seeding_error f),
     candidate_seeders_check L (sn_seeders sn),
     hnr_check L (sn_site_id sn) (sn_hit_and_run sn)]"

definition all_checks :: "lib \<Rightarrow> qb_reader \<Rightarrow> snapshot \<Rightarrow> settings \<Rightarrow> preflight_check list" where
  "all_checks L Q sn st =
    (let facts = (case qr_authenticate Q of Inl _ \<Rightarrow> no_facts | Inr _ \<Rightarrow> connected_facts Q sn)
     in connection_checks L Q @ policy_checks L facts sn st)"

text \<open>The result is built by the constructor of \<open>PreflightResult\<close>, whose validators run.\<close>

definition evaluate_preflight ::
    "lib \<Rightarrow> qb_reader \<Rightarrow> snapshot \<Rightarrow> settings \<Rightarrow> int \<Rightarrow> exn + preflight_result" where
  "evaluate_preflight L Q sn st now =
    bindR (preflight_policy_fingerprint L st) (\<lambda>fp.
    let checks = all_checks L Q sn st in
    bindR (option_or PyValueError (worst_status checks)) (\<lambda>overall.
    let r = \<lparr> pf_overall_status = overall, pf_checks = checks, pf_checked_at = Aware now,
              pf_policy_fingerprint = fp \<rparr>
    in bindR (raise_if (\<not> (preflight_rules r \<and> list_all check_rules checks)) PyValueError) (\<lambda>_. Inr r)))"

section \<open>Codes and severity\<close>

definition digest_ok :: "lib \<Rightarrow> bool" where
  "digest_ok L \<longleftrightarrow> (\<forall>s. hex64 (sha256_hex L s))"

definition texts_ok :: "lib \<Rightarrow> bool" where
  "texts_ok L \<longleftrightarrow> (\<forall>k. 1 \<le> py_len (text_of L k) \<and> py_len (text_of L k) \<le> 500)"

lemma mk_check_simps [simp]:
  "pc_code (mk_check L c s t d) = c" "pc_status (mk_check L c s t d) = s"
  "pc_message (mk_check L c s t d) = text_of L t"
  by (simp_all add: mk_check_def)

lemma check_codes [simp]:
  "pc_code (avistaz_version_check L v st) = ''AVISTAZ_QB_VERSION_RULE''"
  "pc_code (category_check L cats cat) = ''TARGET_CATEGORY''"
  "pc_code (info_hash_check L ts h e) = ''DUPLICATE_INFO_HASH''"
  "pc_code (duplicate_release_check L ts sn k e) = ''POSSIBLE_DUPLICATE_RELEASE''"
  "pc_code (save_path_check L st) = ''SAVE_PATH_ALLOWED''"
  "pc_code (size_limit_check L sz l) = ''SIZE_LIMIT''"
  "pc_code (active_seeding_check L b e) = ''ACTIVE_SEEDING''"
  "pc_code (candidate_seeders_check L n) = ''CANDIDATE_SEEDERS''"
  "pc_code (hnr_check L site hnr) = ''HNR_KNOWN''"
  "pc_code (version_check L c r) = c"
  by (simp_all add: avistaz_version_check_def category_check_def info_hash_check_def
      duplicate_release_check_def save_path_check_def size_limit_check_def active_seeding_check_def
      candidate_seeders_check_def hnr_check_def version_check_def Let_def
      split: option.split sum.split bool.split)

lemma all_checks_codes:
  "map pc_code (all_checks L Q sn st) =
    (case qr_authenticate Q of
       Inl _ \<Rightarrow> filter (\<lambda>c. c \<notin> {''QB_APP_VERSION'', ''QB_WEB_API_VERSION''}) PREFLIGHT_CHECK_CODES
     | Inr _ \<Rightarrow> PREFLIGHT_CHECK_CODES)"
  by (simp add: all_checks_def connection_checks_def policy_checks_def PREFLIGHT_CHECK_CODES_def Let_def
      split: sum.split)

lemma distinct_check_codes: "distinct PREFLIGHT_CHECK_CODES"
  by code_simp

lemma all_checks_distinct: "distinct (map pc_code (all_checks L Q sn st))"
  by (simp add: all_checks_codes distinct_check_codes split: sum.split)

lemma check_codes_ok: "list_all check_code_ok PREFLIGHT_CHECK_CODES"
  by code_simp

lemma check_rules_mk [intro]: "texts_ok L \<Longrightarrow> check_code_ok c \<Longrightarrow> check_rules (mk_check L c s t d)"
  by (simp add: check_rules_def texts_ok_def)

definition from_texts :: "lib \<Rightarrow> preflight_check \<Rightarrow> bool" where
  "from_texts L c \<longleftrightarrow> (\<exists>k. pc_message c = text_of L k)"

lemma from_texts_checks [simp]:
  "from_texts L (mk_check L c s t d)"
  "from_texts L (avistaz_version_check L v st)"
  "from_texts L (category_check L cats cat)"
  "from_texts L (info_hash_check L ts h e)"
  "from_texts L (duplicate_release_check L ts sn k e)"
  "from_texts L (save_path_check L st)"
  "from_texts L (size_limit_check L sz l)"
  "from_texts L (active_seeding_check L b e)"
  "from_texts L (candidate_seeders_check L n)"
  "from_texts L (hnr_check L site hnr)"
  "from_texts L (version_check L c r)"
proof -
  show mk [simp]: "from_texts L (mk_check L c s t d)" for c s t d
    by (auto simp: from_texts_def)
  show "from_texts L (avistaz_version_check L v st)"
    by (simp add: avistaz_version_check_def Let_def split: option.split)
  show "from_texts L (category_check L cats cat)"
    by (simp add: category_check_def split: option.split)
  show "from_texts L (info_hash_check L ts h e)"
    by (simp add: info_hash_check_def split: option.split)
  show "from_texts L (duplicate_release_check L ts sn k e)"
    by (simp add: duplicate_release_check_def Let_def split: option.split)
  show "from_texts L (save_path_check L st)"
    by (simp add: save_path_check_def Let_def)
  show "from_texts L (size_limit_check L sz l)"
    by (simp add: size_limit_check_def Let_def split: option.split)
  show "from_texts L (active_seeding_check L b e)"
    by (simp add: active_seeding_check_def split: option.split bool.split)
  show "from_texts L (candidate_seeders_check L n)"
    by (simp add: candidate_seeders_check_def split: option.split)
  show "from_texts L (hnr_check L site hnr)"
    by (simp add: hnr_check_def Let_def)
  show "from_texts L (version_check L c r)"
    by (simp add: version_check_def split: sum.split)
qed

lemma all_from_texts: "list_all (from_texts L) (all_checks L Q sn st)"
  by (simp add: all_checks_def connection_checks_def policy_checks_def Let_def split: sum.split)

lemma all_checks_rules:
  assumes "texts_ok L"
  shows "list_all check_rules (all_checks L Q sn st)"
proof -
  have "check_rules c" if c: "c \<in> set (all_checks L Q sn st)" for c
  proof -
    have "pc_code c \<in> set (map pc_code (all_checks L Q sn st))" using c by simp
    then have "pc_code c \<in> set PREFLIGHT_CHECK_CODES"
      unfolding all_checks_codes by (auto split: sum.splits)
    then have "check_code_ok (pc_code c)" using check_codes_ok by (auto simp: list_all_iff)
    moreover obtain k where "pc_message c = text_of L k"
      using all_from_texts [of L Q sn st] c by (auto simp: list_all_iff from_texts_def)
    ultimately show ?thesis using assms by (simp add: check_rules_def texts_ok_def)
  qed
  then show ?thesis by (simp add: list_all_iff)
qed

lemma all_checks_nonempty: "all_checks L Q sn st \<noteq> []"
  by (simp add: all_checks_def policy_checks_def Let_def)

lemma evaluate_preflight_Inr:
  assumes "evaluate_preflight L Q sn st now = Inr r"
  shows "preflight_rules r" "pf_checks r = all_checks L Q sn st" "pf_checked_at r = Aware now"
    "preflight_policy_fingerprint L st = Inr (pf_policy_fingerprint r)"
    "list_all check_rules (pf_checks r)" "worst_status (all_checks L Q sn st) = Some (pf_overall_status r)"
  using assms by (auto simp: evaluate_preflight_def Let_def result_simps)

lemma duplicate_release_never_pass: "pc_status (duplicate_release_check L ts sn n e) \<noteq> PF_PASS"
  by (simp add: duplicate_release_check_def Let_def split: option.split)

lemma all_checks_never_pass: "worst_status (all_checks L Q sn st) \<noteq> Some PF_PASS"
proof
  assume w: "worst_status (all_checks L Q sn st) = Some PF_PASS"
  define f where "f = (case qr_authenticate Q of Inl _ \<Rightarrow> no_facts | Inr _ \<Rightarrow> connected_facts Q sn)"
  have "duplicate_release_check L (qf_recent f) sn PREFLIGHT_RECENT_TORRENT_LIMIT (qf_recent_error f)
      \<in> set (all_checks L Q sn st)"
    by (simp add: all_checks_def policy_checks_def f_def Let_def)
  from worst_status_PASS [OF w this] show False using duplicate_release_never_pass by blast
qed

section \<open>What a passable result has seen\<close>

lemma passable_member:
  assumes "evaluate_preflight L Q sn st now = Inr r" and "pf_overall_status r \<in> {PF_PASS, PF_WARNING}"
    and "c \<in> set (all_checks L Q sn st)"
  shows "pc_status c \<in> {PF_PASS, PF_WARNING}"
  using worst_status_passable [OF evaluate_preflight_Inr(6) [OF assms(1)] assms(2,3)] .

lemma all_checks_connected:
  "qr_authenticate Q = Inr u \<Longrightarrow>
    set (all_checks L Q sn st) = set (connection_checks L Q) \<union> set (policy_checks L (connected_facts Q sn) sn st)"
  by (simp add: all_checks_def)

lemma passable_authenticated:
  assumes "evaluate_preflight L Q sn st now = Inr r" and "pf_overall_status r \<in> {PF_PASS, PF_WARNING}"
  shows "\<exists>u. qr_authenticate Q = Inr u"
proof (cases "qr_authenticate Q")
  case (Inl e)
  let ?c = "mk_check L ''QB_CONNECTION'' PF_BLOCKED ''connection failed'' [(''error_code'', JStr (error_code e))]"
  have "?c \<in> set (all_checks L Q sn st)"
    by (simp add: all_checks_def connection_checks_def Inl Let_def)
  from passable_member [OF assms this] show ?thesis by simp
qed simp

lemma ok_part_Some [simp]: "ok_part r = Some x \<longleftrightarrow> r = Inr x"
  by (cases r) (simp_all add: ok_part_def)

lemma passable_facts:
  assumes "evaluate_preflight L Q sn st now = Inr r" and "pf_overall_status r \<in> {PF_PASS, PF_WARNING}"
  defines "f \<equiv> connected_facts Q sn"
  shows "pc_status (avistaz_version_check L (qf_version f) st) \<in> {PF_PASS, PF_WARNING}"
    "pc_status (category_check L (qf_categories f) (st_qb_target_category st)) \<in> {PF_PASS, PF_WARNING}"
    "pc_status (info_hash_check L (qf_hash_matches f) (sn_info_hash sn) (qf_hash_error f)) \<in> {PF_PASS, PF_WARNING}"
    "pc_status (save_path_check L st) \<in> {PF_PASS, PF_WARNING}"
    "pc_status (size_limit_check L (sn_size_bytes sn) (st_max_candidate_size_bytes st)) \<in> {PF_PASS, PF_WARNING}"
    "pc_status (active_seeding_check L (qf_seeding f) (qf_seeding_error f)) \<in> {PF_PASS, PF_WARNING}"
    "pc_status (candidate_seeders_check L (sn_seeders sn)) \<in> {PF_PASS, PF_WARNING}"
    "pc_status (hnr_check L (sn_site_id sn) (sn_hit_and_run sn)) \<in> {PF_PASS, PF_WARNING}"
proof -
  from passable_authenticated [OF assms(1,2)] obtain u where "qr_authenticate Q = Inr u" ..
  then have "set (policy_checks L f sn st) \<subseteq> set (all_checks L Q sn st)"
    by (simp add: all_checks_connected f_def)
  then have *: "pc_status c \<in> {PF_PASS, PF_WARNING}" if "c \<in> set (policy_checks L f sn st)" for c
    using passable_member [OF assms(1,2)] that by blast
  show "pc_status (avistaz_version_check L (qf_version f) st) \<in> {PF_PASS, PF_WARNING}"
    "pc_status (category_check L (qf_categories f) (st_qb_target_category st)) \<in> {PF_PASS, PF_WARNING}"
    "pc_status (info_hash_check L (qf_hash_matches f) (sn_info_hash sn) (qf_hash_error f)) \<in> {PF_PASS, PF_WARNING}"
    "pc_status (save_path_check L st) \<in> {PF_PASS, PF_WARNING}"
    "pc_status (size_limit_check L (sn_size_bytes sn) (st_max_candidate_size_bytes st)) \<in> {PF_PASS, PF_WARNING}"
    "pc_status (active_seeding_check L (qf_seeding f) (qf_seeding_error f)) \<in> {PF_PASS, PF_WARNING}"
    "pc_status (candidate_seeders_check L (sn_seeders sn)) \<in> {PF_PASS, PF_WARNING}"
    "pc_status (hnr_check L (sn_site_id sn) (sn_hit_and_run sn)) \<in> {PF_PASS, PF_WARNING}"
    by (rule *, simp add: policy_checks_def)+
qed

lemma version_check_passable:
  "pc_status (avistaz_version_check L v st) \<in> {PF_PASS, PF_WARNING} \<Longrightarrow>
    \<exists>x. v = Some x \<and> st_avistaz_forbidden_qb_versions st \<noteq> []
      \<and> (\<forall>rule \<in> set (st_avistaz_forbidden_qb_versions st).
            \<not> fnmatchcase (removeprefix_v x) (removeprefix_v rule))"
  by (auto simp: avistaz_version_check_def Let_def list_ex_iff split: option.splits if_splits)

lemma category_check_passable:
  "pc_status (category_check L cats cat) \<in> {PF_PASS, PF_WARNING} \<Longrightarrow> \<not> falsy_str cat"
  by (auto simp: category_check_def split: if_splits)

lemma info_hash_check_passable:
  "pc_status (info_hash_check L ts h e) \<in> {PF_PASS, PF_WARNING} \<Longrightarrow>
    falsy_str h \<or> (\<exists>found. ts = Some found \<and> (\<forall>t \<in> set found. casefold L (the h) \<notin> set (qt_identity_hashes t)))"
  by (auto simp: info_hash_check_def list_ex_iff split: option.splits if_splits)

lemma save_path_check_passable:
  "pc_status (save_path_check L st) \<in> {PF_PASS, PF_WARNING} \<Longrightarrow>
    \<exists>p. st_qb_target_save_path st = Some p \<and> is_allowed_save_path L p (st_qb_allowed_save_paths st)"
  by (auto simp: save_path_check_def Let_def falsy_str_def split: if_splits)

lemma size_limit_check_passable:
  "pc_status (size_limit_check L n m) \<in> {PF_PASS, PF_WARNING} \<Longrightarrow>
    \<exists>l. m = Some l \<and> (n = None \<or> the n \<le> l)"
  by (auto simp: size_limit_check_def Let_def split: option.splits if_splits)

lemma seeding_check_passable:
  "pc_status (active_seeding_check L b e) \<in> {PF_PASS, PF_WARNING} \<Longrightarrow> \<exists>x. b = Some x"
  by (auto simp: active_seeding_check_def split: option.splits bool.splits)

lemma seeders_check_passable:
  "pc_status (candidate_seeders_check L n) \<in> {PF_PASS, PF_WARNING} \<Longrightarrow> n \<noteq> Some 0"
  by (auto simp: candidate_seeders_check_def split: option.splits if_splits)

lemma hnr_check_passable:
  "pc_status (hnr_check L site h) \<in> {PF_PASS, PF_WARNING} \<Longrightarrow> rule_known (effective_hnr_rule L site h)"
  by (auto simp: hnr_check_def Let_def split: if_splits)

section \<open>Save paths\<close>

lemma usable_tail: "usable_path w p \<Longrightarrow> ''..'' \<notin> set (tail p)"
  by (auto simp: usable_path_def path_parts_def split: if_splits)

lemma resolve_usable: "usable_path w p \<Longrightarrow> resolve [] (tail p) = tail p"
  using resolve_plain usable_tail by (metis append_Nil rev.simps(1))

section \<open>Policy configuration\<close>

lemma json_wf_policy: "json_wf (preflight_policy L st url)"
  by (simp add: preflight_policy_def sorted_strs_def)

lemma policy_members:
  "obj_get ''base_url'' (preflight_policy L st u) = Some (JStr u)"
  "obj_get ''target_instance_ref'' (preflight_policy L st u) = Some (JStr (st_qb_target_instance_ref st))"
  "obj_get ''target_category'' (preflight_policy L st u) = Some (opt_json JStr (st_qb_target_category st))"
  "obj_get ''target_save_path'' (preflight_policy L st u) = Some (opt_json JStr (st_qb_target_save_path st))"
  "obj_get ''save_path_ref'' (preflight_policy L st u) = Some (JStr (st_qb_save_path_ref st))"
  "obj_get ''plan_tags'' (preflight_policy L st u) = Some (strs_json (st_qb_plan_tags st))"
  "obj_get ''allowed_save_paths'' (preflight_policy L st u) = Some (strs_json (sort (st_qb_allowed_save_paths st)))"
  "obj_get ''max_candidate_size_bytes'' (preflight_policy L st u)
    = Some (opt_json JInt (st_max_candidate_size_bytes st))"
  "obj_get ''avistaz_forbidden_qb_versions'' (preflight_policy L st u)
    = Some (strs_json (sort (st_avistaz_forbidden_qb_versions st)))"
  "obj_get ''preflight_max_age_seconds'' (preflight_policy L st u)
    = Some (JInt (st_approval_preflight_max_age_seconds st))"
  by (simp_all add: preflight_policy_def obj_get_def sorted_strs_def)

section \<open>An example configuration\<close>

definition example_settings :: settings where
  "example_settings = \<lparr>
     st_qb_base_url_value = Inr (Some ''https://qb.local/''), st_qb_allowed_hosts = [''qb.local''],
     st_qb_allow_insecure_http = False, st_qb_target_category = Some ''tv'',
     st_qb_target_save_path = Some ''/media/tv'', st_qb_save_path_ref = ''main'',
     st_qb_allowed_save_paths = [''/media''], st_qb_plan_tags = [''unin''],
     st_qb_target_instance_ref = ''qb'', st_avistaz_forbidden_qb_versions = [''4.6.*''],
     st_max_candidate_size_bytes = Some 9, st_approval_default_ttl_minutes = 60,
     st_approval_max_ttl_minutes = 100, st_approval_preflight_max_age_seconds = 9,
     st_execution_intent_default_ttl_seconds = 300, st_execution_intent_max_ttl_seconds = 900,
     st_download_execution_lease_seconds = 300, st_download_execution_retry_base_seconds = 30,
     st_download_execution_retry_max_seconds = 900, st_torrent_max_bytes = 2000, st_torrent_max_files = 10,
     st_enable_control_plane = True, st_enable_download_executor = True, st_enable_torrent_fetch = True,
     st_enable_qb_write = True, st_enable_qb_read_only = True, st_enable_download_monitor = True,
     st_download_monitor_batch_size = 100, st_job_max_attempts = 3,
     st_enable_automation_engine = True, st_enable_avistaz_live_search = True,
     st_preferred_resolutions = [''1080p''], st_preferred_sources = [], st_preferred_audio = [],
     st_preferred_subtitles = [], st_preflight_ready_ttl_seconds = 60, st_executor_ready_ttl_seconds = 60,
     st_avistaz_base_url = ''https://site.example/'', st_avistaz_allowed_hosts = [''site.example''],
     st_avistaz_configured = True, st_qb_configured = True, st_pt_site_architecture = ''avistaz'',
     st_pt_site_runtime_supported = True, st_pt_site_runtime_configured = None, st_job_lease_seconds = 300,
     st_enable_tmdb_live = True, st_tmdb_configured = True, st_nextfind_configured = True,
     st_enable_media_import_control_plane = True, st_media_import_target_root_refs = [''library'', ''archive''],
     st_media_import_preflight_max_age_seconds = 300 \<rparr>"

definition example_snapshot :: snapshot where
  "example_snapshot = \<lparr> sn_media_item_id = ''m1'', sn_media_title = ''Film'', sn_media_type = MT_MOVIE,
     sn_tmdb_id = Some 7, sn_year = None, sn_torrent_candidate_id = ''c1'', sn_site_id = ''avistaz'',
     sn_torrent_id = ''t1'', sn_torrent_ref = ''avistaz:torrent:t1'', sn_release_title = ''Film 1080p'',
     sn_size_bytes = Some 8, sn_info_hash = None, sn_season = None, sn_episodes = None,
     sn_resolution = None, sn_source = None, sn_subtitles = None, sn_seeders = Some 2,
     sn_promotion = \<lparr> ps_download_factor = None, ps_upload_factor = None \<rparr>, sn_hit_and_run = Some True,
     sn_match_score = ''1.0'', sn_match_reasons = [], sn_warnings = [], sn_requested_at = Aware 0,
     sn_expires_at = Aware 0 \<rparr>"

definition example_reader :: qb_reader where
  "example_reader = \<lparr> qr_authenticate = Inr (), qr_get_version = Inr ''v5.0'',
     qr_get_web_api_version = Inr ''2.11'', qr_find_torrents_by_hashes = (\<lambda>_. Inr []),
     qr_list_recent_torrents = (\<lambda>_. Inr []), qr_has_active_seeding = Inr True, qr_get_categories = Inr [] \<rparr>"

lemma example_target:
  "normalized_qb_base_url_for_policy example_lib example_settings = Inr ''https://qb.local''"
  by code_simp

lemma example_fingerprint:
  "preflight_policy_fingerprint example_lib example_settings = Inr (replicate 64 (CHR ''0''))"
  by (simp add: preflight_policy_fingerprint_def example_target) (simp add: example_lib_def)

lemma example_laws: "digest_ok example_lib" "texts_ok example_lib" "dt_roundtrip example_lib (Aware 0)"
  by (simp add: digest_ok_def hex64_def list_all_iff lower_hex_char_def is_digit_def example_lib_def)
    (simp add: texts_ok_def example_lib_def py_len_def, code_simp, simp add: dt_roundtrip_def example_lib_def)

lemma example_save_path: "is_allowed_save_path example_lib ''/media/tv'' [''/media'']"
  by code_simp

section \<open>Properties\<close>

text \<open>C29: A preflight whose target is configured always produces a result: the severity fold and
  the validators of \<open>PreflightResult\<close> never reject it. It holds the twelve required checks,
  each once, or all but the two version checks when qBittorrent could not be reached, and
  what is stored of it is read back unchanged.\<close>
theorem evaluate_preflight_total:
  assumes "digest_ok L" and "texts_ok L" and "preflight_policy_fingerprint L st = Inr fp"
    and "dt_roundtrip L (Aware now)"
  shows "\<exists>r. evaluate_preflight L Q sn st now = Inr r \<and> pf_policy_fingerprint r = fp
    \<and> map pc_code (pf_checks r) = (case qr_authenticate Q of
         Inl _ \<Rightarrow> filter (\<lambda>c. c \<notin> {''QB_APP_VERSION'', ''QB_WEB_API_VERSION''}) PREFLIGHT_CHECK_CODES
       | Inr _ \<Rightarrow> PREFLIGHT_CHECK_CODES)
    \<and> parse_preflight L (preflight_json L r) = Some r"
proof -
  obtain overall where w: "worst_status (all_checks L Q sn st) = Some overall"
    using worst_status_Some [OF all_checks_nonempty] by blast
  obtain url where "fp = sha256_hex L (dumps (preflight_policy L st url))"
    using assms(3) by (auto simp: preflight_policy_fingerprint_def bindR_Inr_iff)
  then have "hex64 fp" using assms(1) by (simp add: digest_ok_def)
  then have rules: "preflight_rules \<lparr> pf_overall_status = overall, pf_checks = all_checks L Q sn st,
      pf_checked_at = Aware now, pf_policy_fingerprint = fp \<rparr>"
    using w all_checks_nonempty all_checks_distinct by (simp add: preflight_rules_def aware_def)
  then have "evaluate_preflight L Q sn st now = Inr \<lparr> pf_overall_status = overall,
      pf_checks = all_checks L Q sn st, pf_checked_at = Aware now, pf_policy_fingerprint = fp \<rparr>"
    using assms(2,3) w all_checks_rules by (simp add: evaluate_preflight_def Let_def)
  with rules show ?thesis
    using assms(2,4) all_checks_rules by (auto simp: all_checks_codes intro!: parse_preflight_json)
qed

lemma evaluate_preflight_total_witness:
  "\<exists>r. evaluate_preflight example_lib example_reader example_snapshot example_settings 0 = Inr r
    \<and> map pc_code (pf_checks r) = PREFLIGHT_CHECK_CODES"
  using evaluate_preflight_total [OF example_laws(1,2) example_fingerprint example_laws(3), of example_reader example_snapshot]
  by (auto simp: example_reader_def)

text \<open>No preflight is ever summarised as PASS: the duplicate release check answers WARNING for
  a sample without a duplicate too, so the summary is at best WARNING.\<close>
theorem evaluate_preflight_never_pass:
  assumes "evaluate_preflight L Q sn st now = Inr r"
  shows "pf_overall_status r \<noteq> PF_PASS"
  using all_checks_never_pass [of L Q sn st] evaluate_preflight_Inr(6) [OF assms] by auto

lemma evaluate_preflight_never_pass_witness:
  "\<exists>r. evaluate_preflight example_lib example_reader example_snapshot example_settings 0 = Inr r
    \<and> pf_overall_status r = PF_WARNING \<and> pf_overall_status r \<noteq> PF_PASS"
proof -
  have run: "evaluate_preflight example_lib example_reader example_snapshot example_settings 0 = Inr
    \<lparr> pf_overall_status = PF_WARNING,
      pf_checks = all_checks example_lib example_reader example_snapshot example_settings,
      pf_checked_at = Aware 0, pf_policy_fingerprint = replicate 64 (CHR ''0'') \<rparr>"
    by (simp add: evaluate_preflight_def example_fingerprint) code_simp
  from evaluate_preflight_never_pass [OF run] run show ?thesis by simp
qed

text \<open>C30: A preflight that is passable (PASS or WARNING) has really seen what it is asked to see:
  qBittorrent was reached, its version is known and matches no forbidden pattern, a target
  category is configured, no task has the candidate's info hash when that is known, the save
  path lies under an allowed root, the size is within a configured limit when it is known,
  the seeding state was readable, the candidate is not known to have no seeders, and the
  hit-and-run rule is known.\<close>
theorem preflight_passable_safe:
  assumes "evaluate_preflight L Q sn st now = Inr r" and "pf_overall_status r \<in> {PF_PASS, PF_WARNING}"
  shows "\<exists>u v p l b. qr_authenticate Q = Inr u \<and> qr_get_version Q = Inr v
    \<and> (\<forall>rule \<in> set (st_avistaz_forbidden_qb_versions st).
          \<not> fnmatchcase (removeprefix_v v) (removeprefix_v rule))
    \<and> \<not> falsy_str (st_qb_target_category st)
    \<and> (falsy_str (sn_info_hash sn) \<or> (\<exists>found. qr_find_torrents_by_hashes Q [the (sn_info_hash sn)] = Inr found
          \<and> (\<forall>t \<in> set found. casefold L (the (sn_info_hash sn)) \<notin> set (qt_identity_hashes t))))
    \<and> st_qb_target_save_path st = Some p \<and> is_allowed_save_path L p (st_qb_allowed_save_paths st)
    \<and> st_max_candidate_size_bytes st = Some l \<and> (sn_size_bytes sn = None \<or> the (sn_size_bytes sn) \<le> l)
    \<and> qr_has_active_seeding Q = Inr b \<and> sn_seeders sn \<noteq> Some 0
    \<and> rule_known (effective_hnr_rule L (sn_site_id sn) (sn_hit_and_run sn))"
proof -
  note f = passable_facts [OF assms]
  obtain u where "qr_authenticate Q = Inr u" using passable_authenticated [OF assms] ..
  moreover obtain v where "qr_get_version Q = Inr v"
    "\<forall>rule \<in> set (st_avistaz_forbidden_qb_versions st). \<not> fnmatchcase (removeprefix_v v) (removeprefix_v rule)"
    using version_check_passable [OF f(1)] by (auto simp: connected_facts_def Let_def)
  moreover have "falsy_str (sn_info_hash sn) \<or> (\<exists>found. qr_find_torrents_by_hashes Q [the (sn_info_hash sn)] = Inr found
          \<and> (\<forall>t \<in> set found. casefold L (the (sn_info_hash sn)) \<notin> set (qt_identity_hashes t)))"
    using info_hash_check_passable [OF f(3)]
    by (cases "falsy_str (sn_info_hash sn)") (auto simp: connected_facts_def Let_def)
  moreover obtain b where "qr_has_active_seeding Q = Inr b"
    using seeding_check_passable [OF f(6)] by (auto simp: connected_facts_def Let_def)
  ultimately show ?thesis
    using category_check_passable [OF f(2)] save_path_check_passable [OF f(4)]
      size_limit_check_passable [OF f(5)] seeders_check_passable [OF f(7)] hnr_check_passable [OF f(8)]
    by blast
qed

lemma preflight_passable_safe_witness:
  "\<exists>u v p l b. qr_authenticate example_reader = Inr u \<and> qr_get_version example_reader = Inr v
    \<and> st_qb_target_save_path example_settings = Some p
    \<and> is_allowed_save_path example_lib p (st_qb_allowed_save_paths example_settings)
    \<and> st_max_candidate_size_bytes example_settings = Some l \<and> qr_has_active_seeding example_reader = Inr b"
proof -
  have run: "evaluate_preflight example_lib example_reader example_snapshot example_settings 0 = Inr
    \<lparr> pf_overall_status = PF_WARNING,
      pf_checks = all_checks example_lib example_reader example_snapshot example_settings,
      pf_checked_at = Aware 0, pf_policy_fingerprint = replicate 64 (CHR ''0'') \<rparr>"
    by (simp add: evaluate_preflight_def example_fingerprint) code_simp
  show ?thesis using preflight_passable_safe [OF run] by auto
qed

text \<open>The save path test is a containment test: an allowed target is absolute, holds no
  parent component, and its lexical resolution starts with the resolution of one of the
  roots under the same drive and root.\<close>
theorem allowed_save_path_contained:
  assumes "is_allowed_save_path L target roots"
  shows "\<exists>rt \<in> set roots. \<exists>w p q. p = fold_flavour L w (flavoured_path L w target)
    \<and> q = fold_flavour L w (flavoured_path L w rt)
    \<and> absolute_path w (flavoured_path L w target) \<and> ''..'' \<notin> set (tail (flavoured_path L w target))
    \<and> resolve [] (tail (flavoured_path L w target)) = tail (flavoured_path L w target)
    \<and> resolve [] (tail (flavoured_path L w rt)) = tail (flavoured_path L w rt)
    \<and> drive p = drive q \<and> path_root p = path_root q \<and> take (length (tail q)) (tail p) = tail q"
proof -
  define w where "w = windows_style target"
  from assms obtain rt where rt: "rt \<in> set roots" "usable_path w (flavoured_path L w rt)"
    and t: "usable_path w (flavoured_path L w target)"
    and within: "path_within (fold_flavour L w (flavoured_path L w target)) (fold_flavour L w (flavoured_path L w rt))"
    by (auto simp: is_allowed_save_path_def Let_def list_ex_iff w_def)
  have "absolute_path w (flavoured_path L w target)" using t by (simp add: usable_path_def)
  with usable_tail [OF t] resolve_usable [OF t] resolve_usable [OF rt(2)] within rt(1) show ?thesis
    unfolding path_within_def by blast
qed

lemma allowed_save_path_contained_witness:
  "\<exists>rt \<in> {''/media''}. \<exists>w. absolute_path w (flavoured_path example_lib w ''/media/tv'')"
  using allowed_save_path_contained [OF example_save_path] by auto

text \<open>The policy fingerprint binds the configuration: when two settings have the same
  fingerprint and their canonical texts do not collide under SHA-256, they have the same
  normalised target, instance, category, save path, tags and limits, and the same allowed
  paths and forbidden versions up to order.\<close>
theorem policy_fingerprint_binds:
  assumes "normalized_qb_base_url_for_policy L st = Inr u" and "normalized_qb_base_url_for_policy L st' = Inr u'"
    and "preflight_policy_fingerprint L st = preflight_policy_fingerprint L st'"
    and "inj_on (sha256_hex L) {dumps (preflight_policy L st u), dumps (preflight_policy L st' u')}"
  shows "u = u' \<and> st_qb_target_instance_ref st = st_qb_target_instance_ref st'
    \<and> st_qb_target_category st = st_qb_target_category st'
    \<and> st_qb_target_save_path st = st_qb_target_save_path st' \<and> st_qb_save_path_ref st = st_qb_save_path_ref st'
    \<and> st_qb_plan_tags st = st_qb_plan_tags st'
    \<and> mset (st_qb_allowed_save_paths st) = mset (st_qb_allowed_save_paths st')
    \<and> st_max_candidate_size_bytes st = st_max_candidate_size_bytes st'
    \<and> mset (st_avistaz_forbidden_qb_versions st) = mset (st_avistaz_forbidden_qb_versions st')
    \<and> st_approval_preflight_max_age_seconds st = st_approval_preflight_max_age_seconds st'"
proof -
  have "sha256_hex L (dumps (preflight_policy L st u)) = sha256_hex L (dumps (preflight_policy L st' u'))"
    using assms(1-3) by (simp add: preflight_policy_fingerprint_def)
  then have "dumps (preflight_policy L st u) = dumps (preflight_policy L st' u')"
    by (rule inj_onD [OF assms(4)]) simp_all
  note m = dumps_members [OF json_wf_policy json_wf_policy this]
  have "sort (st_qb_allowed_save_paths st) = sort (st_qb_allowed_save_paths st')"
    using m [of "''allowed_save_paths''"] by (simp only: policy_members option.map canon_leaves option.inject json_eq_simps)
  then have paths: "mset (st_qb_allowed_save_paths st) = mset (st_qb_allowed_save_paths st')"
    by (metis mset_sort)
  have "sort (st_avistaz_forbidden_qb_versions st) = sort (st_avistaz_forbidden_qb_versions st')"
    using m [of "''avistaz_forbidden_qb_versions''"]
    by (simp only: policy_members option.map canon_leaves option.inject json_eq_simps)
  then have versions: "mset (st_avistaz_forbidden_qb_versions st) = mset (st_avistaz_forbidden_qb_versions st')"
    by (metis mset_sort)
  show ?thesis
    using m [of "''base_url''"] m [of "''target_instance_ref''"] m [of "''target_category''"]
      m [of "''target_save_path''"] m [of "''save_path_ref''"] m [of "''plan_tags''"]
      m [of "''max_candidate_size_bytes''"] m [of "''preflight_max_age_seconds''"] paths versions
    by (simp only: policy_members option.map canon_leaves canon.simps option.inject json_eq_simps json.inject)
qed

lemma policy_fingerprint_binds_witness:
  "st_qb_plan_tags example_settings
    = st_qb_plan_tags (example_settings\<lparr> st_qb_allowed_hosts := [''qb.local'', ''  QB.local ''] \<rparr>)"
proof -
  let ?L = "example_lib\<lparr> sha256_hex := (\<lambda>s. s) \<rparr>"
  let ?st = "example_settings\<lparr> st_qb_allowed_hosts := [''qb.local'', ''  QB.local ''] \<rparr>"
  have u: "normalized_qb_base_url_for_policy ?L example_settings = Inr ''https://qb.local''"
    "normalized_qb_base_url_for_policy ?L ?st = Inr ''https://qb.local''"
    by code_simp+
  have "dedup (folded_hosts ?L (st_qb_allowed_hosts ?st)) = dedup (folded_hosts ?L (st_qb_allowed_hosts example_settings))"
    by code_simp
  then have "preflight_policy ?L ?st ''https://qb.local'' = preflight_policy ?L example_settings ''https://qb.local''"
    by (simp add: preflight_policy_def)
  then have fp: "preflight_policy_fingerprint ?L example_settings = preflight_policy_fingerprint ?L ?st"
    using u by (simp add: preflight_policy_fingerprint_def)
  have inj: "inj_on (sha256_hex ?L) A" for A by (simp add: inj_on_def)
  show ?thesis using policy_fingerprint_binds [OF u fp inj] by blast
qed

end
