(* ===== verification/Redaction.thy ===== *)
theory Redaction
  imports Platform
begin

text \<open>
  Redaction of audit details and public texts (\<open>sanitize_details\<close> and \<open>sanitize_public_text\<close>
  of \<open>core/security.py\<close>). Each regular expression is a matcher: given the character before
  the position and the characters from it on, it gives the replacement and the number of
  characters matched. \<open>re_sub\<close> is \<open>re.sub\<close>: leftmost matches, scanned from left to right.
\<close>

section \<open>Matching\<close>

text \<open>The letter a character stands for under \<open>re.IGNORECASE\<close>.\<close>

definition ci_char :: "string \<Rightarrow> string" where
  "ci_char u =
    (if ascii_char u then map lower_ascii u
     else if map byte u \<in> set [[0xC4, 0xB0], [0xC4, 0xB1]] then ''i''
     else if map byte u = [0xC5, 0xBF] then ''s''
     else if map byte u = [0xE2, 0x84, 0xAA] then ''k''
     else u)"

definition ci_prefix :: "string \<Rightarrow> string list \<Rightarrow> bool" where
  "ci_prefix w us \<longleftrightarrow> map ci_char (take (length w) us) = map (\<lambda>c. [c]) w"

fun ci_search :: "string \<Rightarrow> string list \<Rightarrow> bool" where
  "ci_search w [] = (w = [])"
| "ci_search w (u # us) = (ci_prefix w (u # us) \<or> ci_search w us)"

definition sensitive_words :: "string list" where
  "sensitive_words =
    [''password'', ''passwd'', ''cookie'', ''authorization'', ''token'', ''pid'', ''passkey'',
     ''download_url'', ''tracker'', ''announce'']"

definition sensitive_key :: "string \<Rightarrow> bool" where
  "sensitive_key k \<longleftrightarrow> list_ex (\<lambda>w. ci_search w (chars k)) sensitive_words"

definition word1 :: "lib \<Rightarrow> string \<Rightarrow> bool" where
  "word1 L u \<longleftrightarrow>
    (case u of [c] \<Rightarrow> if byte c < 0x80 then ascii_letter c \<or> is_digit c \<or> c = CHR ''_'' else word_char L u
     | _ \<Rightarrow> word_char L u)"

type_synonym matcher = "string option \<Rightarrow> string list \<Rightarrow> (string list \<times> nat) option"

function re_sub :: "matcher \<Rightarrow> string option \<Rightarrow> string list \<Rightarrow> string list" where
  "re_sub m prev [] = []"
| "re_sub m prev (u # us) =
    (case m prev (u # us) of
       None \<Rightarrow> u # re_sub m (Some u) us
     | Some (repl, n) \<Rightarrow> repl @ re_sub m (Some ((u # us) ! (n - 1))) (drop (max 1 n) (u # us)))"
  by pat_completeness auto
termination
  by (relation "measure (\<lambda>(m, prev, us). length us)") auto

definition run :: "(string \<Rightarrow> bool) \<Rightarrow> string list \<Rightarrow> nat" where
  "run p us = length (takeWhile p us)"

section \<open>The five expressions\<close>

definition crlf :: "string \<Rightarrow> bool" where
  "crlf u \<longleftrightarrow> u = [CHR 0x0A] \<or> u = [CHR 0x0D]"

definition marker :: "string \<Rightarrow> string list" where
  "marker s = map (\<lambda>c. [c]) s"

text \<open>\<open>(?i)(passkey|token|pid)=([^&\s]+)\<close>\<close>

definition secret_at :: "string \<Rightarrow> string list \<Rightarrow> (string list \<times> nat) option" where
  "secret_at w us =
    (let n = length w; k = run (\<lambda>u. u \<noteq> ''&'' \<and> \<not> space_char u) (drop (n + 1) us)
     in if ci_prefix w us \<and> take 1 (drop n us) = [''=''] \<and> 0 < k
        then Some (take n us @ marker ''=[REDACTED]'', n + 1 + k) else None)"

definition match_secret :: matcher where
  "match_secret prev us =
    (case secret_at ''passkey'' us of
       Some r \<Rightarrow> Some r
     | None \<Rightarrow> (case secret_at ''token'' us of Some r \<Rightarrow> Some r | None \<Rightarrow> secret_at ''pid'' us))"

text \<open>
  \<open>(?i)(authorization|cookie):\s*[^\r\n]+\<close>: the white space is taken greedily, and given
  back down to its last character that does not end a line when nothing follows it.
\<close>

definition header_at :: "string \<Rightarrow> string list \<Rightarrow> (string list \<times> nat) option" where
  "header_at w us =
    (let n = length w; rest = drop (n + 1) us; k = run space_char rest; after = drop k rest;
         body = (if after \<noteq> [] then k + run (\<lambda>u. \<not> crlf u) after
           else length (dropWhile crlf (rev rest)))
     in if ci_prefix w us \<and> take 1 (drop n us) = ['':''] \<and> 0 < body
        then Some (take n us @ marker '': [REDACTED]'', n + 1 + body) else None)"

definition match_header :: matcher where
  "match_header prev us =
    (case header_at ''authorization'' us of Some r \<Rightarrow> Some r | None \<Rightarrow> header_at ''cookie'' us)"

text \<open>\<open>(?i)https?://[^\s<>'"]+\<close>\<close>

definition url_char :: "string \<Rightarrow> bool" where
  "url_char u \<longleftrightarrow> \<not> space_char u \<and> u \<notin> set [''<'', ''>'', [CHR 0x27], [CHR 0x22]]"

definition match_url :: matcher where
  "match_url prev us =
    (let n = (if ci_prefix ''https'' us then 5 else 4); k = run url_char (drop (n + 3) us)
     in if ci_prefix ''http'' us \<and> take 3 (drop n us) = marker ''://'' \<and> 0 < k
        then Some (marker ''[URL_REDACTED]'', n + 3 + k) else None)"

definition before_ok :: "(string \<Rightarrow> bool) \<Rightarrow> string option \<Rightarrow> bool" where
  "before_ok bad prev = (case prev of None \<Rightarrow> True | Some u \<Rightarrow> \<not> bad u)"

text \<open>\<open>(?i)(?<![\w])(?:[a-z]:[\\/]|\\\\)[^\r\n,;]+\<close>\<close>

definition windows_char :: "string \<Rightarrow> bool" where
  "windows_char u \<longleftrightarrow> \<not> crlf u \<and> u \<noteq> '','' \<and> u \<noteq> '';''"

definition bslash :: string where "bslash = [CHR 0x5C]"

definition windows_start :: "string list \<Rightarrow> nat option" where
  "windows_start us =
    (case us of
       a # b # c # _ \<Rightarrow>
         if letter_i a \<and> b = '':'' \<and> (c = bslash \<or> c = ''/'') then Some 3
         else if a = bslash \<and> b = bslash then Some 2 else None
     | [a, b] \<Rightarrow> if a = bslash \<and> b = bslash then Some 2 else None
     | _ \<Rightarrow> None)"

definition match_windows_path :: "lib \<Rightarrow> matcher" where
  "match_windows_path L prev us =
    (case windows_start us of
       None \<Rightarrow> None
     | Some n \<Rightarrow>
       let k = run windows_char (drop n us) in
       if before_ok (word1 L) prev \<and> 0 < k then Some (marker ''[PATH_REDACTED]'', n + k) else None)"

text \<open>\<open>(?<![\w:])/(?!/)[^/\s,;]+(?:/[^\s,;]+)*\<close>\<close>

definition path_char :: "string \<Rightarrow> bool" where
  "path_char u \<longleftrightarrow> \<not> space_char u \<and> u \<noteq> '','' \<and> u \<noteq> '';''"

definition match_posix_path :: "lib \<Rightarrow> matcher" where
  "match_posix_path L prev us =
    (let k = run (\<lambda>u. path_char u \<and> u \<noteq> ''/'') (drop 1 us);
         rest = drop (1 + k) us;
         more = (if take 1 rest = [''/''] \<and> 0 < run path_char (drop 1 rest) then 1 + run path_char (drop 1 rest) else 0)
     in if before_ok (\<lambda>u. word1 L u \<or> u = '':'') prev \<and> take 1 us = [''/''] \<and> 0 < k
        then Some (marker ''[PATH_REDACTED]'', 1 + k + more) else None)"

section \<open>Redaction\<close>

definition sanitize_public_text :: "lib \<Rightarrow> string \<Rightarrow> string" where
  "sanitize_public_text L s =
    concat (re_sub (match_posix_path L) None
      (re_sub (match_windows_path L) None
        (re_sub match_url None
          (re_sub match_header None
            (re_sub match_secret None (chars s))))))"

primrec sanitize_details :: "lib \<Rightarrow> json \<Rightarrow> json" where
  "sanitize_details L JNull = JNull"
| "sanitize_details L (JBool b) = JBool b"
| "sanitize_details L (JInt i) = JInt i"
| "sanitize_details L (JFloat r) = JFloat r"
| "sanitize_details L (JStr s) = JStr (sanitize_public_text L s)"
| "sanitize_details L (JList xs) = JList (map (sanitize_details L) xs)"
| "sanitize_details L (JObj kvs) = JObj
    (map (\<lambda>kv. if sensitive_key (fst kv) then (fst kv, JStr ''[REDACTED]'') else kv)
      (map (map_prod id (sanitize_details L)) kvs))"

lemma sanitize_examples:
  "sanitize_public_text example_lib ''get https://x.to/dl?pid=7 ok'' = ''get [URL_REDACTED] ok''"
  "sanitize_public_text example_lib ''Token=abc&x, (see /srv/media/a b)'' = ''Token=[REDACTED]&x, (see [PATH_REDACTED] b)''"
  "sanitize_public_text example_lib ''Cookie: a=1; b=2'' = ''Cookie: [REDACTED]''"
  by code_simp+

end
