(* ===== verification/RedactionLaws.thy ===== *)
theory RedactionLaws
  imports Redaction "HOL-Library.Sublist"
begin

text \<open>
  What redaction achieves. The specification names the secrets itself and reads a text from
  every position: nothing of it uses the five matchers. Each pass of \<open>re_sub\<close> is shown to clear
  what it looks for, and no later pass brings back what an earlier one has cleared.
\<close>

section \<open>What a redacted value shows\<close>

text \<open>The characters of \<open>us\<close> begin with the lower-case ASCII word \<open>w\<close>, in whatever case.\<close>

definition reads :: "string \<Rightarrow> string list \<Rightarrow> bool" where
  "reads w us \<longleftrightarrow> prefix (marker w) (map (map lower_ascii) us)"

definition names_secret :: "string \<Rightarrow> bool" where
  "names_secret k \<longleftrightarrow>
    list_ex (\<lambda>w. list_ex (reads w) (suffixes (chars k)))
      [''password'', ''passwd'', ''cookie'', ''authorization'', ''token'', ''pid'', ''passkey'',
       ''download_url'', ''tracker'', ''announce'']"

definition line_end :: "string \<Rightarrow> bool" where
  "line_end u \<longleftrightarrow> u \<in> {[CHR 0x0A], [CHR 0x0D]}"

definition shows_secret :: "string list \<Rightarrow> bool" where
  "shows_secret us \<longleftrightarrow>
    list_ex (\<lambda>w. reads w us
        \<and> takeWhile (\<lambda>u. u \<noteq> ''&'' \<and> \<not> space_char u) (drop (length w) us) \<notin> {[], marker ''[REDACTED]''})
      [''passkey='', ''token='', ''pid='']"

definition shows_header :: "string list \<Rightarrow> bool" where
  "shows_header us \<longleftrightarrow>
    list_ex (\<lambda>w. reads w us \<and> \<not> list_all line_end (drop (length w) us)
        \<and> takeWhile (\<lambda>u. \<not> line_end u) (drop (length w) us) \<noteq> marker '' [REDACTED]'')
      [''authorization:'', ''cookie:'']"

definition shows_url :: "string list \<Rightarrow> bool" where
  "shows_url us \<longleftrightarrow>
    list_ex (\<lambda>w. reads w us
        \<and> list_ex (\<lambda>u. \<not> space_char u \<and> u \<notin> {''<'', ''>'', [CHR 0x27], [CHR 0x22]}) (take 1 (drop (length w) us)))
      [''http://'', ''https://'']"

definition text_redacted :: "string \<Rightarrow> bool" where
  "text_redacted s \<longleftrightarrow>
    list_all (\<lambda>us. \<not> shows_secret us \<and> \<not> shows_header us \<and> \<not> shows_url us) (suffixes (chars s))"

primrec redacted :: "json \<Rightarrow> bool" where
  "redacted JNull = True"
| "redacted (JBool b) = True"
| "redacted (JInt i) = True"
| "redacted (JFloat r) = True"
| "redacted (JStr s) = text_redacted s"
| "redacted (JList xs) = list_all id (map redacted xs)"
| "redacted (JObj kvs) =
    (list_all (\<lambda>kv. snd kv = JStr ''[REDACTED]'') (filter (\<lambda>kv. names_secret (fst kv)) kvs)
     \<and> list_all id (map snd (map (map_prod id redacted) kvs)))"

section \<open>Words\<close>

lemma marker_simps [simp]:
  "marker [] = []" "marker (c # w) = [c] # marker w" "length (marker w) = length w"
  by (simp_all add: marker_def)

lemma marker_append: "marker (v @ w) = marker v @ marker w"
  by (simp add: marker_def)

lemma reads_Nil [simp]: "reads [] us"
  by (simp add: reads_def)

lemma reads_Cons: "reads (c # w) us \<longleftrightarrow> (\<exists>u vs. us = u # vs \<and> map lower_ascii u = [c] \<and> reads w vs)"
  by (cases us) (auto simp: reads_def)

lemma reads_take: "reads w us \<longleftrightarrow> map (map lower_ascii) (take (length w) us) = marker w"
  unfolding reads_def prefix_def
  by (metis append_eq_conv_conj append_take_drop_id take_map length_map marker_simps(3))

lemma reads_length: "reads w us \<Longrightarrow> length w \<le> length us"
  unfolding reads_def by (auto dest: prefix_length_le)

lemma reads_more: "reads w us \<Longrightarrow> reads w (us @ vs)"
  by (simp add: reads_def prefix_prefix)

text \<open>A word is not read across a character that it does not have.\<close>

lemma reads_before:
  assumes "reads w (us @ c # vs)" and "map lower_ascii c \<notin> set (marker w)"
  shows "reads w us"
  using assms
proof (induction w arbitrary: us)
  case (Cons d w)
  then show ?case by (cases us) (auto simp: reads_Cons)
qed simp

text \<open>A word with a separator at its end is read exactly up to the first separator.\<close>

lemma reads_separator:
  assumes "reads (w @ [c]) (us @ [c] # vs)" and "c \<notin> set w" and "[c] \<notin> set (map (map lower_ascii) us)"
    and "lower_ascii c = c"
  shows "length us = length w"
  using assms
proof (induction w arbitrary: us)
  case Nil
  then show ?case by (cases us) (auto simp: reads_Cons)
next
  case (Cons d w)
  then show ?case by (cases us) (auto simp: reads_Cons)
qed

lemma ci_prefix_Cons: "ci_prefix (c # w) us \<longleftrightarrow> (\<exists>u vs. us = u # vs \<and> ci_char u = [c] \<and> ci_prefix w vs)"
  by (cases us) (auto simp: ci_prefix_def)

lemma ci_prefix_Nil [simp]: "ci_prefix [] us"
  by (simp add: ci_prefix_def)

lemma lower_ascii_byte: "byte (lower_ascii c) = (if 65 \<le> byte c \<and> byte c \<le> 90 then byte c + 32 else byte c)"
  by (simp add: lower_ascii_def byte_def of_char_of)

lemma ci_char_lower:
  assumes "map lower_ascii u = [c]" and "byte c < 128"
  shows "ci_char u = [c]"
proof -
  from assms(1) obtain d where d: "u = [d]" "lower_ascii d = c" by auto
  then have "byte d < 128" using assms(2) lower_ascii_byte [of d] by (simp split: if_splits)
  then show ?thesis using d by (simp add: ci_char_def ascii_char_def)
qed

lemma reads_ci: "reads w us \<Longrightarrow> list_all (\<lambda>c. byte c < 128) w \<Longrightarrow> ci_prefix w us"
  by (induction w arbitrary: us) (auto simp: reads_Cons ci_prefix_Cons ci_char_lower)

section \<open>Keys\<close>

lemma ci_search_suffix: "suffix vs us \<Longrightarrow> ci_prefix w vs \<Longrightarrow> w \<noteq> [] \<Longrightarrow> ci_search w us"
proof (induction us)
  case Nil
  then show ?case by (cases w) (auto simp: ci_prefix_Cons)
next
  case (Cons u us)
  then show ?case by (auto simp: suffix_Cons)
qed

lemma names_secret_sensitive: "names_secret k \<Longrightarrow> sensitive_key k"
proof -
  assume "names_secret k"
  then obtain w vs where w: "w \<in> set sensitive_words" and vs: "suffix vs (chars k)" "reads w vs"
    unfolding names_secret_def sensitive_words_def [symmetric] list_ex_iff by auto
  have "list_all (\<lambda>w. w \<noteq> [] \<and> list_all (\<lambda>c. byte c < 128) w) sensitive_words" by code_simp
  with w have "w \<noteq> []" "list_all (\<lambda>c. byte c < 128) w" by (auto simp: list_all_iff)
  with vs have "ci_search w (chars k)" by (blast intro: ci_search_suffix reads_ci)
  with w show ?thesis by (auto simp: sensitive_key_def list_ex_iff)
qed

section \<open>Substitution\<close>

lemma suffix_append_cases:
  assumes "suffix t (xs @ ys)"
  obtains "suffix t ys" | t' where "t = t' @ ys" "suffix t' xs" "t' \<noteq> []"
proof -
  from assms consider "suffix t ys" | t' where "t = t' @ ys" "suffix t' xs" unfolding suffix_append by blast
  then show ?thesis
  proof cases
    case (2 t')
    then show ?thesis using that by (cases t') auto
  qed (rule that)
qed

lemma re_sub_shape:
  "re_sub m prev us = us
    \<or> (\<exists>a b p repl n q. us = a @ b \<and> b \<noteq> [] \<and> m p b = Some (repl, n)
        \<and> re_sub m prev us = a @ repl @ re_sub m q (drop (max 1 n) b))"
proof (induction m prev us rule: re_sub.induct)
  case (2 m prev u us)
  show ?case
  proof (cases "m prev (u # us)")
    case None
    then have step: "re_sub m prev (u # us) = u # re_sub m (Some u) us" by simp
    from 2(1) [OF None] show ?thesis
    proof
      assume "\<exists>a b p repl n q. us = a @ b \<and> b \<noteq> [] \<and> m p b = Some (repl, n)
        \<and> re_sub m (Some u) us = a @ repl @ re_sub m q (drop (max 1 n) b)"
      then obtain a b p repl n q where "us = a @ b" "b \<noteq> []" "m p b = Some (repl, n)"
        "re_sub m (Some u) us = a @ repl @ re_sub m q (drop (max 1 n) b)" by blast
      with step have "u # us = (u # a) @ b" "b \<noteq> []" "m p b = Some (repl, n)"
        "re_sub m prev (u # us) = (u # a) @ repl @ re_sub m q (drop (max 1 n) b)" by simp_all
      then show ?thesis by blast
    qed (simp only: step simp_thms)
  next
    case (Some r)
    obtain repl n where "r = (repl, n)" by (cases r)
    with Some have "u # us = [] @ (u # us)" "m prev (u # us) = Some (repl, n)"
      "re_sub m prev (u # us)
        = [] @ repl @ re_sub m (Some ((u # us) ! (n - 1))) (drop (max 1 n) (u # us))" by simp_all
    then show ?thesis by blast
  qed
qed simp

text \<open>
  A position of the result is one where nothing matched and the text went on as it was, or with
  a later match, or it is inside the replacement of a match.
\<close>

definition untouched :: "matcher \<Rightarrow> string list \<Rightarrow> string list \<Rightarrow> bool" where
  "untouched m us t \<longleftrightarrow> suffix t us \<and> (t = [] \<or> (\<exists>p. m p t = None))"

definition before_match :: "matcher \<Rightarrow> string list \<Rightarrow> string list \<Rightarrow> bool" where
  "before_match m us t \<longleftrightarrow> (\<exists>a b p p' repl n q. suffix (a @ b) us \<and> a \<noteq> [] \<and> b \<noteq> [] \<and> m p (a @ b) = None
    \<and> m p' b = Some (repl, n) \<and> t = a @ repl @ re_sub m q (drop (max 1 n) b))"

definition inside_match :: "matcher \<Rightarrow> string list \<Rightarrow> string list \<Rightarrow> bool" where
  "inside_match m us t \<longleftrightarrow> (\<exists>p b repl n q t'. suffix b us \<and> b \<noteq> [] \<and> m p b = Some (repl, n)
    \<and> t' \<noteq> [] \<and> suffix t' repl \<and> t = t' @ re_sub m q (drop (max 1 n) b))"

lemma positions_mono:
  assumes "suffix vs us"
  shows "untouched m vs t \<Longrightarrow> untouched m us t" and "before_match m vs t \<Longrightarrow> before_match m us t"
    and "inside_match m vs t \<Longrightarrow> inside_match m us t"
  using suffix_order.trans [OF _ assms]
  unfolding untouched_def before_match_def inside_match_def by blast+

lemma re_sub_positions:
  "suffix t (re_sub m prev us) \<Longrightarrow> untouched m us t \<or> before_match m us t \<or> inside_match m us t"
proof (induction m prev us rule: re_sub.induct)
  case (1 m prev)
  then show ?case by (simp add: untouched_def)
next
  case (2 m prev u us)
  show ?case
  proof (cases "m prev (u # us)")
    case None
    have tail: "suffix us (u # us)" by (simp add: suffix_def)
    from 2(3) None consider "t = u # re_sub m (Some u) us" | "suffix t (re_sub m (Some u) us)"
      by (auto simp: suffix_Cons)
    then show ?thesis
    proof cases
      case 1
      from re_sub_shape [of m "Some u" us] show ?thesis
      proof
        assume "re_sub m (Some u) us = us"
        with 1 None have "t = u # us \<and> m prev t = None" by simp
        then show ?thesis unfolding untouched_def by blast
      next
        assume "\<exists>a b p repl n q. us = a @ b \<and> b \<noteq> [] \<and> m p b = Some (repl, n)
          \<and> re_sub m (Some u) us = a @ repl @ re_sub m q (drop (max 1 n) b)"
        then obtain a b p repl n q where "us = a @ b" "b \<noteq> []" "m p b = Some (repl, n)"
          "re_sub m (Some u) us = a @ repl @ re_sub m q (drop (max 1 n) b)" by blast
        with 1 None have "suffix ((u # a) @ b) (u # us)" "u # a \<noteq> []" "b \<noteq> []" "m prev ((u # a) @ b) = None"
          "m p b = Some (repl, n)" "t = (u # a) @ repl @ re_sub m q (drop (max 1 n) b)" by simp_all
        then have "before_match m (u # us) t" unfolding before_match_def by blast
        then show ?thesis by blast
      qed
    next
      case 2
      note IH = "2.IH"(1) [OF None 2] and mono = positions_mono [OF tail, where m = m and t = t]
      from IH show ?thesis using mono by metis
    qed
  next
    case (Some r)
    obtain repl n where r: "r = (repl, n)" by (cases r)
    let ?R = "re_sub m (Some ((u # us) ! (n - 1))) (drop (max 1 n) (u # us))"
    from 2(3) Some r have "suffix t (repl @ ?R)" by simp
    then consider "suffix t ?R" | t' where "t = t' @ ?R" "suffix t' repl" "t' \<noteq> []"
      by (rule suffix_append_cases)
    then show ?thesis
    proof cases
      case 1
      have IH: "untouched m (drop (max 1 n) (u # us)) t \<or> before_match m (drop (max 1 n) (u # us)) t
          \<or> inside_match m (drop (max 1 n) (u # us)) t"
        by (rule "2.IH"(2) [OF Some r [symmetric] 1])
      note mono = positions_mono [OF suffix_drop [of "max 1 n" "u # us"], where m = m and t = t]
      from IH show ?thesis using mono by metis
    next
      case 2
      then have "inside_match m (u # us) t"
        unfolding inside_match_def using Some r by blast
      then show ?thesis by blast
    qed
  qed
qed

lemma re_sub_head: "us = [] \<or> m p us = None \<Longrightarrow> take 1 (re_sub m p us) = take 1 us"
  by (cases us) auto

section \<open>Where the expressions match\<close>

text \<open>Every match begins with a character that ends neither a value, nor a line, nor an address.\<close>

definition visible :: "string \<Rightarrow> bool" where
  "visible u \<longleftrightarrow> u \<noteq> ''&'' \<and> \<not> space_char u \<and> url_char u"

lemma visible_simps:
  "visible u \<Longrightarrow> u \<noteq> ''&''" "visible u \<Longrightarrow> \<not> space_char u" "visible u \<Longrightarrow> url_char u"
  by (simp_all add: visible_def)

lemma line_end_space: "line_end u \<Longrightarrow> space_char u"
  by (auto simp: line_end_def space_char_def byte_def)

lemma crlf_line_end: "crlf u = line_end u"
  by (simp add: crlf_def line_end_def)

lemma letter_visible:
  assumes "letter_i u"
  shows "visible u"
proof (cases "\<exists>c. u = [c] \<and> ascii_letter c")
  case True
  then obtain c where c: "u = [c]" "ascii_letter c" by blast
  then have "byte c \<notin> {9, 10, 11, 12, 13, 28, 29, 30, 31, 32, 38, 60, 62, 39, 34}" by (auto simp: ascii_letter_def)
  moreover have "byte (CHR ''&'') = 38" "byte (CHR ''<'') = 60" "byte (CHR ''>'') = 62"
    "byte (CHR 0x27) = 39" "byte (CHR 0x22) = 34" by code_simp+
  ultimately show ?thesis using c(1) by (auto simp: visible_def url_char_def space_char_def)
next
  case False
  with assms have "map byte u \<in> {[0xC4, 0xB0], [0xC4, 0xB1], [0xC5, 0xBF], [0xE2, 0x84, 0xAA]}"
    by (auto simp: letter_i_def extra_letter_def split: list.splits)
  moreover from this have "length u \<noteq> 1" by (cases u; cases "tl u") auto
  ultimately show ?thesis by (auto simp: visible_def url_char_def space_char_def)
qed

lemma ci_char_letter:
  assumes "ci_char u = [c]" and "ascii_letter c"
  shows "letter_i u"
proof (cases "ascii_char u")
  case True
  then obtain d where d: "u = [d]" "byte d < 128" by (auto simp: ascii_char_def split: list.splits)
  then have "lower_ascii d = c" using assms(1) by (simp add: ci_char_def ascii_char_def)
  then have "ascii_letter d" using assms(2) lower_ascii_byte [of d] by (auto simp: ascii_letter_def split: if_splits)
  then show ?thesis by (simp add: d letter_i_def)
next
  case False
  show ?thesis
  proof (cases "extra_letter u")
    case True
    then show ?thesis by (auto simp: letter_i_def extra_letter_def split: list.splits)
  next
    case False
    with \<open>\<not> ascii_char u\<close> have "ci_char u = u" by (auto simp: ci_char_def extra_letter_def)
    with assms have "u = [c]" by simp
    then show ?thesis using assms(2) by (simp add: letter_i_def)
  qed
qed

lemma ci_word_visible: "ci_prefix (c # w) us \<Longrightarrow> ascii_letter c \<Longrightarrow> us \<noteq> [] \<and> visible (hd us)"
  by (auto simp: ci_prefix_Cons dest!: ci_char_letter letter_visible)

lemma word_letters: "ascii_letter (CHR ''p'')" "ascii_letter (CHR ''t'')" "ascii_letter (CHR ''a'')"
  "ascii_letter (CHR ''c'')" "ascii_letter (CHR ''h'')"
  by code_simp+

lemma secret_at_Some:
  assumes "secret_at w us = Some (repl, n)"
  shows "ci_prefix w us \<and> take 1 (drop (length w) us) = [''='']
    \<and> 0 < run (\<lambda>u. u \<noteq> ''&'' \<and> \<not> space_char u) (drop (length w + 1) us)
    \<and> repl = take (length w) us @ marker ''=[REDACTED]''
    \<and> n = length w + 1 + run (\<lambda>u. u \<noteq> ''&'' \<and> \<not> space_char u) (drop (length w + 1) us)"
  using assms by (auto simp: secret_at_def Let_def split: if_splits)

lemma match_secret_at:
  "match_secret p us = Some r \<Longrightarrow> \<exists>w \<in> {''passkey'', ''token'', ''pid''}. secret_at w us = Some r"
  by (auto simp: match_secret_def split: option.splits)

lemma match_header_at:
  "match_header p us = Some r \<Longrightarrow> \<exists>w \<in> {''authorization'', ''cookie''}. header_at w us = Some r"
  by (auto simp: match_header_def split: option.splits)

lemma match_secret_visible: "match_secret p us = Some r \<Longrightarrow> us \<noteq> [] \<and> visible (hd us)"
  by (cases r) (auto dest!: match_secret_at secret_at_Some ci_word_visible simp: word_letters)

lemma header_at_prefix: "header_at w us = Some r \<Longrightarrow> ci_prefix w us"
  by (auto simp: header_at_def Let_def split: if_splits)

lemma match_header_visible: "match_header p us = Some r \<Longrightarrow> us \<noteq> [] \<and> visible (hd us)"
  by (auto dest!: match_header_at header_at_prefix ci_word_visible simp: word_letters)

lemma match_url_prefix: "match_url p us = Some r \<Longrightarrow> ci_prefix ''http'' us"
  by (auto simp: match_url_def Let_def split: if_splits)

lemma match_url_visible: "match_url p us = Some r \<Longrightarrow> us \<noteq> [] \<and> visible (hd us)"
  by (auto dest!: match_url_prefix ci_word_visible simp: word_letters)

lemma slash_visible: "visible ''/''" "visible bslash"
  by code_simp+

lemma windows_start_cases:
  assumes "windows_start us = Some k"
  obtains a b vs where "us = a # b # vs" "letter_i a \<and> b = '':'' \<or> a = bslash \<and> b = bslash"
  using assms by (auto simp: windows_start_def split: list.splits if_splits)

lemma match_windows_start: "match_windows_path L p us = Some r \<Longrightarrow> \<exists>k. windows_start us = Some k"
  by (auto simp: match_windows_path_def split: option.splits)

lemma match_windows_visible: "match_windows_path L p us = Some r \<Longrightarrow> us \<noteq> [] \<and> visible (hd us)"
  by (auto dest!: match_windows_start letter_visible elim!: windows_start_cases simp: slash_visible)

lemma match_posix_start: "match_posix_path L p us = Some r \<Longrightarrow> take 1 us = [''/'']"
  by (auto simp: match_posix_path_def Let_def split: if_splits)

lemma match_posix_visible: "match_posix_path L p us = Some r \<Longrightarrow> us \<noteq> [] \<and> visible (hd us)"
  by (cases us) (auto dest!: match_posix_start simp: slash_visible)

text \<open>No match begins inside the placeholder, whatever follows it.\<close>

lemma ci_prefix_zip: "ci_prefix w (us @ vs) \<Longrightarrow> list_all (\<lambda>(c, u). ci_char u = [c]) (zip w us)"
proof (induction w arbitrary: us)
  case (Cons c w)
  then show ?case by (cases us) (auto simp: ci_prefix_Cons)
qed simp

definition placeholder :: "string list" where "placeholder = marker '' [REDACTED]''"

lemma placeholder_words:
  "j < length placeholder \<Longrightarrow> w \<in> set [''passkey'', ''token'', ''pid'', ''authorization'', ''cookie'', ''http'']
    \<Longrightarrow> \<not> ci_prefix w (drop j placeholder @ vs)"
proof
  assume j: "j < length placeholder" and w: "w \<in> set [''passkey'', ''token'', ''pid'', ''authorization'', ''cookie'', ''http'']"
    and ci: "ci_prefix w (drop j placeholder @ vs)"
  have "list_all (\<lambda>j. list_all (\<lambda>w. \<not> list_all (\<lambda>(c, u). ci_char u = [c]) (zip w (drop j placeholder)))
      [''passkey'', ''token'', ''pid'', ''authorization'', ''cookie'', ''http'']) [0..<length placeholder]"
    by code_simp
  with j w ci_prefix_zip [OF ci] show False unfolding list_all_iff by auto
qed

definition spares_placeholder :: "matcher \<Rightarrow> bool" where
  "spares_placeholder m \<longleftrightarrow>
    (\<forall>p j vs. j < length placeholder \<longrightarrow> m p (drop j placeholder @ vs) = None)"

lemma words_spare:
  assumes "\<And>p us r. m p us = Some r \<Longrightarrow>
    \<exists>w \<in> set [''passkey'', ''token'', ''pid'', ''authorization'', ''cookie'', ''http'']. ci_prefix w us"
  shows "spares_placeholder m"
  unfolding spares_placeholder_def
proof (intro allI impI)
  fix p j and vs :: "string list"
  assume "j < length placeholder"
  then show "m p (drop j placeholder @ vs) = None"
    using assms [of p "drop j placeholder @ vs"] placeholder_words [of j _ vs]
    by (cases "m p (drop j placeholder @ vs)") blast+
qed

lemma header_spares: "spares_placeholder match_header"
  by (rule words_spare) (use match_header_at header_at_prefix in fastforce)

lemma url_spares: "spares_placeholder match_url"
  by (rule words_spare) (use match_url_prefix in fastforce)

lemma placeholder_pairs:
  "j < length placeholder \<Longrightarrow> \<exists>a vs'. drop j placeholder @ vs = a # vs' \<and> a \<noteq> ''/'' \<and> a \<noteq> bslash
    \<and> \<not> (letter_i a \<and> take 1 vs' = ['':''])"
proof -
  assume j: "j < length placeholder"
  have "list_all (\<lambda>j. case drop j placeholder of [] \<Rightarrow> False
      | [a] \<Rightarrow> a \<noteq> ''/'' \<and> a \<noteq> bslash \<and> \<not> letter_i a
      | a # b # _ \<Rightarrow> a \<noteq> ''/'' \<and> a \<noteq> bslash \<and> b \<noteq> '':'') [0..<length placeholder]"
    by code_simp
  with j have "case drop j placeholder of [] \<Rightarrow> False
      | [a] \<Rightarrow> a \<noteq> ''/'' \<and> a \<noteq> bslash \<and> \<not> letter_i a
      | a # b # _ \<Rightarrow> a \<noteq> ''/'' \<and> a \<noteq> bslash \<and> b \<noteq> '':''" unfolding list_all_iff by simp
  then show ?thesis
    by (cases "drop j placeholder"; cases "tl (drop j placeholder)") auto
qed

lemma windows_spares: "spares_placeholder (match_windows_path L)"
  unfolding spares_placeholder_def
proof (intro allI impI)
  fix p j and vs :: "string list"
  assume "j < length placeholder"
  from placeholder_pairs [OF this, of vs] obtain a vs' where a: "drop j placeholder @ vs = a # vs'"
    "a \<noteq> bslash" "\<not> (letter_i a \<and> take 1 vs' = ['':''])" by blast
  have "windows_start (a # vs') = None"
    using a(2,3) by (auto simp: windows_start_def split: list.splits)
  then show "match_windows_path L p (drop j placeholder @ vs) = None"
    unfolding a(1) by (simp add: match_windows_path_def)
qed

lemma posix_spares: "spares_placeholder (match_posix_path L)"
  unfolding spares_placeholder_def
proof (intro allI impI)
  fix p j and vs :: "string list"
  assume "j < length placeholder"
  from placeholder_pairs [OF this, of vs] obtain a vs' where "drop j placeholder @ vs = a # vs'" "a \<noteq> ''/''" by blast
  then show "match_posix_path L p (drop j placeholder @ vs) = None"
    using match_posix_start [of L p "drop j placeholder @ vs"] by (cases "match_posix_path L p (drop j placeholder @ vs)") auto
qed

section \<open>One pass after another\<close>

text \<open>A word of \<open>ws\<close> is read and what follows it is not as it should be.\<close>

definition betrays :: "string list \<Rightarrow> (string list \<Rightarrow> bool) \<Rightarrow> string list \<Rightarrow> bool" where
  "betrays ws fine us \<longleftrightarrow> (\<exists>w \<in> set ws. reads w us \<and> \<not> fine (drop (length w) us))"

definition clean :: "(string list \<Rightarrow> bool) \<Rightarrow> string list \<Rightarrow> bool" where
  "clean shown us \<longleftrightarrow> (\<forall>t. suffix t us \<longrightarrow> \<not> shown t)"

text \<open>A replacement \<open>mk\<close> that no word runs into, and inside which no word begins.\<close>

definition apart :: "string list \<Rightarrow> string list \<Rightarrow> bool" where
  "apart ws mk \<longleftrightarrow> mk \<noteq> [] \<and> (\<forall>w \<in> set ws. map lower_ascii (hd mk) \<notin> set (marker w)
    \<and> (\<forall>t vs. suffix t mk \<and> t \<noteq> [] \<longrightarrow> \<not> reads w (t @ vs)))"

lemma apartD:
  assumes "apart ws mk" and "w \<in> set ws"
  shows "reads w (us @ mk @ vs) \<Longrightarrow> reads w us" and "suffix t mk \<Longrightarrow> t \<noteq> [] \<Longrightarrow> \<not> reads w (t @ vs)"
proof -
  obtain c mk' where "mk = c # mk'" using assms(1) by (cases mk) (auto simp: apart_def)
  then show "reads w (us @ mk @ vs) \<Longrightarrow> reads w us"
    using assms reads_before [of w us c "mk' @ vs"] by (auto simp: apart_def)
qed (use assms in \<open>auto simp: apart_def\<close>)

lemma reads_zip: "reads w (us @ vs) \<Longrightarrow> list_all (\<lambda>(c, u). map lower_ascii u = [c]) (zip w us)"
proof (induction w arbitrary: us)
  case (Cons c w)
  then show ?case by (cases us) (auto simp: reads_Cons)
qed simp

lemma apartI:
  assumes "mk \<noteq> []" and "list_all (\<lambda>w. map lower_ascii (hd mk) \<notin> set (marker w)
    \<and> list_all (\<lambda>t. t = [] \<or> \<not> list_all (\<lambda>(c, u). map lower_ascii u = [c]) (zip w t)) (suffixes mk)) ws"
  shows "apart ws mk"
  unfolding apart_def
proof (intro conjI ballI allI impI notI)
  fix w t vs assume w: "w \<in> set ws" and t: "suffix t mk \<and> t \<noteq> []" and "reads w (t @ vs)"
  have "t \<in> set (suffixes mk)" using t by simp
  then have "\<not> list_all (\<lambda>(c, u). map lower_ascii u = [c]) (zip w t)"
    using assms(2) w t unfolding list_all_iff by blast
  with reads_zip [OF \<open>reads w (t @ vs)\<close>] show False by blast
qed (use assms in \<open>simp_all add: list_all_iff\<close>)

text \<open>A word that ends in \<open>c\<close> does not reach into a text without \<open>c\<close>.\<close>

lemma reads_without:
  assumes "reads w (us @ vs)" and "w \<noteq> []" and "[last w] \<notin> set (map (map lower_ascii) vs)"
  shows "reads w us"
  using assms
proof (induction w arbitrary: us vs)
  case (Cons c w)
  show ?case
  proof (cases us)
    case Nil
    with Cons.prems obtain u vs' where vs: "vs = u # vs'" "map lower_ascii u = [c]" "reads w vs'"
      by (auto simp: reads_Cons)
    show ?thesis
    proof (cases "w = []")
      case True
      with Cons.prems(3) vs show ?thesis by simp
    next
      case False
      have "reads w []"
        by (rule Cons.IH [of "[]" vs']) (use vs Cons.prems(3) False in simp_all)
      with False show ?thesis by (cases w) (auto simp: reads_Cons)
    qed
  next
    case (Cons u us')
    with Cons.prems Cons.IH [of us' vs] show ?thesis by (cases "w = []") (auto simp: reads_Cons)
  qed
qed simp

text \<open>A later pass brings nothing back.\<close>

lemma later_pass:
  assumes form: "\<And>p us repl n. m p us = Some (repl, n) \<Longrightarrow>
      \<exists>y mk. repl = y @ mk \<and> apart ws mk \<and> (\<forall>w \<in> set ws. [last w] \<notin> set (map (map lower_ascii) y))"
    and words: "\<And>w. w \<in> set ws \<Longrightarrow> w \<noteq> []"
    and fine: "\<And>p d b r vs. m p b = Some r \<Longrightarrow> b \<noteq> [] \<Longrightarrow> fine (d @ b) \<Longrightarrow> fine (d @ vs)"
    and clean: "clean (betrays ws fine) us"
  shows "clean (betrays ws fine) (re_sub m prev us)"
  unfolding clean_def
proof (intro allI impI notI)
  fix t assume "suffix t (re_sub m prev us)" and "betrays ws fine t"
  then obtain w where w: "w \<in> set ws" "reads w t" "\<not> fine (drop (length w) t)" by (auto simp: betrays_def)
  from re_sub_positions [OF \<open>suffix t _\<close>] consider "untouched m us t" | "before_match m us t" | "inside_match m us t"
    by blast
  then show False
  proof cases
    case 1
    then show False using clean \<open>betrays ws fine t\<close> by (auto simp: untouched_def clean_def)
  next
    case 2
    then obtain a b p' repl n q where ab: "suffix (a @ b) us" "b \<noteq> []" "m p' b = Some (repl, n)"
      and t: "t = a @ repl @ re_sub m q (drop (max 1 n) b)" unfolding before_match_def by blast
    from form [OF ab(3)] obtain y mk where y: "repl = y @ mk" "apart ws mk" "[last w] \<notin> set (map (map lower_ascii) y)"
      using w(1) by blast
    have "reads w (a @ y)" using w(1,2) apartD(1) [OF y(2), of w "a @ y"] by (simp add: t y(1))
    then have a: "reads w a" using reads_without words [OF w(1)] y(3) by blast
    then have "fine (drop (length w) (a @ b))"
      using clean ab(1) w(1) reads_more [of w a b] unfolding clean_def betrays_def by blast
    moreover have len: "length w \<le> length a" using a by (rule reads_length)
    ultimately have "fine (drop (length w) a @ vs)" for vs using fine [OF ab(3,2)] by simp
    with w(3) len show False by (simp add: t)
  next
    case 3
    then obtain p b repl n q t' where b: "m p b = Some (repl, n)" "t' \<noteq> []" "suffix t' repl"
      and t: "t = t' @ re_sub m q (drop (max 1 n) b)" unfolding inside_match_def by blast
    from form [OF b(1)] obtain y mk where y: "repl = y @ mk" "apart ws mk" "[last w] \<notin> set (map (map lower_ascii) y)"
      using w(1) by blast
    from b(3) [unfolded y(1)] show False
    proof (rule suffix_append_cases)
      assume "suffix t' mk"
      then show False using apartD(2) [OF y(2) w(1) _ b(2)] w(2) t by blast
    next
      fix y' assume y': "t' = y' @ mk" "suffix y' y" "y' \<noteq> []"
      have "reads w y'" using w(1,2) apartD(1) [OF y(2), of w y'] by (simp add: t y'(1))
      then have r: "reads w ([] @ y')" by simp
      obtain z where "y = z @ y'" using y'(2) by (auto simp: suffix_def)
      then have "[last w] \<notin> set (map (map lower_ascii) y')" using y(3) by (simp only: map_append set_append Un_iff) simp
      with r have "reads w []" using reads_without words [OF w(1)] by blast
      then show False using words [OF w(1)] by (cases w) (auto simp: reads_Cons)
    qed
  qed
qed

text \<open>
  A pass that keeps a word up to its separator \<open>c\<close> and replaces what follows clears its own
  words: where nothing matched there was nothing to replace, and after a match stands the
  placeholder, up to the character that ends the value.
\<close>

definition keeps :: "char \<Rightarrow> string list \<Rightarrow> (string \<Rightarrow> bool) \<Rightarrow> matcher \<Rightarrow> bool" where
  "keeps c mk stop m \<longleftrightarrow> (\<forall>p us repl n. m p us = Some (repl, n) \<longrightarrow>
    (\<exists>x v. us = x @ [[c]] @ v @ drop (max 1 n) us \<and> v \<noteq> [] \<and> repl = (x @ [[c]]) @ mk
      \<and> [c] \<notin> set (map (map lower_ascii) x)
      \<and> (drop (max 1 n) us = [] \<or> (stop (hd (drop (max 1 n) us)) \<and> (\<forall>q. m q (drop (max 1 n) us) = None)))))"

lemma drop_within: "k \<le> length us \<Longrightarrow> drop k (us @ vs) = drop k us @ vs"
  by simp

lemma rest_after_match:
  assumes "us = [] \<or> (stop (hd us) \<and> (\<forall>q. m q us = None))"
  shows "re_sub m q us = [] \<or> stop (hd (re_sub m q us))"
  using assms by (cases us) auto

lemma own_pass:
  assumes form: "keeps c mk stop m"
    and mk: "apart (map (\<lambda>w. w @ [c]) ws) mk"
    and c: "\<And>w. w \<in> set ws \<Longrightarrow> c \<notin> set w" "lower_ascii c = c"
    and placed: "\<And>vs. vs = [] \<or> stop (hd vs) \<Longrightarrow> fine (mk @ vs)"
    and none: "\<And>p us w vs. m p us = None \<Longrightarrow> w \<in> set ws \<Longrightarrow> reads (w @ [c]) us \<Longrightarrow> fine (drop (length w + 1) us)"
    and kept: "\<And>p a x b w vs. m p (a @ x @ [[c]] @ b) = None \<Longrightarrow> w \<in> set ws \<Longrightarrow> reads (w @ [c]) (a @ x @ [[c]] @ b)
      \<Longrightarrow> length w + 1 < length (a @ x @ [[c]]) \<Longrightarrow> fine (drop (length w + 1) (a @ x @ [[c]]) @ vs)"
  shows "clean (betrays (map (\<lambda>w. w @ [c]) ws) fine) (re_sub m prev us)"
  unfolding clean_def
proof (intro allI impI notI)
  fix t assume "suffix t (re_sub m prev us)" and "betrays (map (\<lambda>w. w @ [c]) ws) fine t"
  then obtain w where w: "w \<in> set ws" "reads (w @ [c]) t" "\<not> fine (drop (length w + 1) t)" by (auto simp: betrays_def)
  have word: "w @ [c] \<in> set (map (\<lambda>w. w @ [c]) ws)" using w(1) by simp
  from re_sub_positions [OF \<open>suffix t _\<close>] consider "untouched m us t" | "before_match m us t" | "inside_match m us t"
    by blast
  then show False
  proof cases
    case 1
    then have "t = [] \<or> (\<exists>p. m p t = None)" by (simp add: untouched_def)
    moreover have "t \<noteq> []" using w(2) by (cases w) (auto simp: reads_Cons)
    ultimately show False using none w by blast
  next
    case 2
    then obtain a b p p' repl n q where ab: "m p (a @ b) = None" "m p' b = Some (repl, n)"
      and t: "t = a @ repl @ re_sub m q (drop (max 1 n) b)" unfolding before_match_def by blast
    from form ab(2) obtain x v where x: "b = x @ [[c]] @ v @ drop (max 1 n) b" "repl = (x @ [[c]]) @ mk"
      and rest: "drop (max 1 n) b = [] \<or> (stop (hd (drop (max 1 n) b)) \<and> (\<forall>q. m q (drop (max 1 n) b) = None))"
      unfolding keeps_def by blast
    let ?k = "a @ x @ [[c]]"
    have t: "t = ?k @ mk @ re_sub m q (drop (max 1 n) b)" by (simp add: t x(2))
    have r: "reads (w @ [c]) ?k" using w(2) apartD(1) [OF mk word] unfolding t by blast
    then have len: "length w + 1 \<le> length ?k" using reads_length by fastforce
    have b: "a @ b = ?k @ v @ drop (max 1 n) b" using x(1) by simp
    show False
    proof (cases "length w + 1 = length ?k")
      case True
      then have "drop (length w + 1) t = mk @ re_sub m q (drop (max 1 n) b)" by (simp add: t)
      then show False using placed [OF rest_after_match [of _ stop m q, OF rest]] w(3) by simp
    next
      case False
      have "fine (drop (length w + 1) ?k @ mk @ re_sub m q (drop (max 1 n) b))"
        by (rule kept [where b = "v @ drop (max 1 n) b" and p = p])
          (use ab(1) [unfolded b] w(1) reads_more [OF r] len False in simp_all)
      moreover have "drop (length w + 1) t = drop (length w + 1) ?k @ mk @ re_sub m q (drop (max 1 n) b)"
        unfolding t by (rule drop_within [OF len])
      ultimately show False using w(3) by simp
    qed
  next
    case 3
    then obtain p b repl n q t' where b: "m p b = Some (repl, n)" "t' \<noteq> []" "suffix t' repl"
      and t: "t = t' @ re_sub m q (drop (max 1 n) b)" unfolding inside_match_def by blast
    from form b(1) obtain x where x: "repl = (x @ [[c]]) @ mk" "[c] \<notin> set (map (map lower_ascii) x)"
      and rest: "drop (max 1 n) b = [] \<or> (stop (hd (drop (max 1 n) b)) \<and> (\<forall>q. m q (drop (max 1 n) b) = None))"
      unfolding keeps_def by blast
    from b(3) [unfolded x(1)] show False
    proof (rule suffix_append_cases)
      assume "suffix t' mk"
      then show False using apartD(2) [OF mk word _ b(2)] w(2) t by blast
    next
      fix y assume y: "t' = y @ mk" "suffix y (x @ [[c]])" "y \<noteq> []"
      then obtain y' where y': "y = y' @ [[c]]" "suffix y' x" by (cases y rule: rev_cases) auto
      then obtain z where "x = z @ y'" by (auto simp: suffix_def)
      then have "[c] \<notin> set (map (map lower_ascii) y')" using x(2) by (simp only: map_append set_append Un_iff) simp
      moreover have "reads (w @ [c]) (y' @ [c] # mk @ re_sub m q (drop (max 1 n) b))" using w(2) by (simp add: t y(1) y'(1))
      ultimately have "length y' = length w" using reads_separator c w(1) by blast
      then have "drop (length w + 1) t = mk @ re_sub m q (drop (max 1 n) b)" by (simp add: t y(1) y'(1))
      then show False using placed [OF rest_after_match [of _ stop m q, OF rest]] w(3) by simp
    qed
  qed
qed

section \<open>Secrets and headers\<close>

definition separator :: "char \<Rightarrow> bool" where
  "separator c \<longleftrightarrow> c = CHR ''='' \<or> c = CHR '':'' \<or> c = CHR ''/''"

lemma separator_byte: "separator c \<Longrightarrow> byte c < 65"
  by (auto simp: separator_def byte_def)

lemma separator_lower: "separator c \<Longrightarrow> lower_ascii c = c"
  using separator_byte [of c] by (simp add: lower_ascii_def)

lemma byte_inject: "byte c = byte d \<Longrightarrow> c = d"
  by (simp add: byte_def)

lemma lower_separator: "map lower_ascii u = [c] \<Longrightarrow> separator c \<Longrightarrow> u = [c]"
proof -
  assume "map lower_ascii u = [c]" and c: "separator c"
  then obtain d where d: "u = [d]" "lower_ascii d = c" by auto
  then have "byte d = byte c" using separator_byte [OF c] lower_ascii_byte [of d] by (simp split: if_splits)
  then show ?thesis using d(1) byte_inject by blast
qed

lemma reads_last:
  assumes "reads (w @ [c]) us" and "separator c"
  shows "reads w us \<and> take 1 (drop (length w) us) = [[c]]"
  using assms(1)
proof (induction w arbitrary: us)
  case Nil
  then obtain u vs where "us = u # vs" "map lower_ascii u = [c]" by (auto simp: reads_Cons)
  then show ?case using lower_separator [OF _ assms(2), of u] by (simp del: map_eq_Cons_conv)
next
  case (Cons d w)
  then show ?case by (auto simp: reads_Cons)
qed

lemma kept_word:
  assumes "ci_prefix w us" and "c \<notin> set w" and "separator c"
  shows "[c] \<notin> set (map (map lower_ascii) (take (length w) us))"
proof
  assume "[c] \<in> set (map (map lower_ascii) (take (length w) us))"
  then obtain u where u: "u \<in> set (take (length w) us)" "map lower_ascii u = [c]" by auto
  have "ci_char u = [c]" using ci_char_lower [OF u(2)] separator_byte [OF assms(3)] by simp
  moreover have "ci_char u \<in> set (map (\<lambda>c. [c]) w)"
    using u(1) assms(1) unfolding ci_prefix_def by (metis imageI list.set_map)
  ultimately show False using assms(2) by auto
qed

lemma drop_take_one: "take 1 (drop k us) = [u] \<Longrightarrow> us = take k us @ [u] @ drop (k + 1) us"
proof -
  assume one: "take 1 (drop k us) = [u]"
  have "us = take k us @ take 1 (drop k us) @ drop 1 (drop k us)" by (metis append_take_drop_id)
  then show ?thesis unfolding one by simp
qed

lemma drop_run: "drop (run p us) us = dropWhile p us"
  by (simp add: run_def dropWhile_eq_drop)

lemma dropWhile_end: "dropWhile p us = [] \<or> \<not> p (hd (dropWhile p us))"
  using hd_dropWhile [of p us] by blast

definition value_end :: "string \<Rightarrow> bool" where
  "value_end u \<longleftrightarrow> u = ''&'' \<or> space_char u"

lemma value_end_run: "(\<lambda>u. u \<noteq> ''&'' \<and> \<not> space_char u) = (\<lambda>u. \<not> value_end u)"
  by (auto simp: value_end_def fun_eq_iff)

lemma visible_ends: "visible u \<Longrightarrow> \<not> value_end u" "visible u \<Longrightarrow> \<not> line_end u"
  using line_end_space by (auto simp: visible_def value_end_def)

lemma secret_keeps: "keeps (CHR ''='') (marker ''[REDACTED]'') value_end match_secret"
  unfolding keeps_def
proof (intro allI impI)
  fix p us repl n assume run: "match_secret p us = Some (repl, n)"
  from match_secret_at [OF this] obtain w where w: "w \<in> {''passkey'', ''token'', ''pid''}" "secret_at w us = Some (repl, n)"
    by blast
  let ?v = "drop (length w + 1) us"
  note at = secret_at_Some [OF w(2), unfolded value_end_run]
  have us: "us = take (length w) us @ [''=''] @ ?v" by (rule drop_take_one) (use at in simp)
  have n: "drop (max 1 n) us = dropWhile (\<lambda>u. \<not> value_end u) ?v"
    using at by (simp add: drop_run [symmetric] add.commute)
  have "us = take (length w) us @ [''=''] @ takeWhile (\<lambda>u. \<not> value_end u) ?v @ drop (max 1 n) us"
    unfolding n takeWhile_dropWhile_id by (rule us)
  moreover have "takeWhile (\<lambda>u. \<not> value_end u) ?v \<noteq> []" using at by (simp add: run_def)
  moreover have "repl = (take (length w) us @ [''='']) @ marker ''[REDACTED]''" using at by simp
  moreover have "[CHR ''=''] \<notin> set (map (map lower_ascii) (take (length w) us))"
    by (rule kept_word) (use at w(1) in \<open>auto simp: separator_def\<close>)
  moreover have "drop (max 1 n) us = []
    \<or> (value_end (hd (drop (max 1 n) us)) \<and> (\<forall>q. match_secret q (drop (max 1 n) us) = None))"
    using dropWhile_end [of "\<lambda>u. \<not> value_end u" ?v] match_secret_visible visible_ends(1)
    unfolding n by (metis not_None_eq)
  ultimately show "\<exists>x v. us = x @ [''=''] @ v @ drop (max 1 n) us \<and> v \<noteq> []
    \<and> repl = (x @ [''='']) @ marker ''[REDACTED]'' \<and> ''='' \<notin> set (map (map lower_ascii) x)
    \<and> (drop (max 1 n) us = []
      \<or> (value_end (hd (drop (max 1 n) us)) \<and> (\<forall>q. match_secret q (drop (max 1 n) us) = None)))"
    by blast
qed

lemma header_at_Some:
  assumes "header_at w us = Some (repl, n)"
  shows "ci_prefix w us \<and> take 1 (drop (length w) us) = ['':''] \<and> repl = take (length w) us @ marker '': [REDACTED]''
    \<and> (\<exists>v. drop (length w + 1) us = v @ drop n us \<and> v \<noteq> [] \<and> 0 < n \<and> (drop n us = [] \<or> line_end (hd (drop n us))))"
proof -
  define rest where "rest = drop (length w + 1) us"
  define after where "after = drop (run space_char rest) rest"
  define body where "body = (if after \<noteq> [] then run space_char rest + run (\<lambda>u. \<not> crlf u) after
    else length (dropWhile crlf (rev rest)))"
  have m: "ci_prefix w us" "take 1 (drop (length w) us) = ['':'']" "0 < body"
    "repl = take (length w) us @ marker '': [REDACTED]''" "n = length w + 1 + body"
    using assms unfolding header_at_def Let_def rest_def [symmetric] after_def [symmetric] body_def [symmetric]
    by (auto split: if_splits)
  have n: "drop n us = drop body rest" by (simp add: m(5) rest_def add.commute)
  have body: "body \<le> length rest \<and> (drop body rest = [] \<or> line_end (hd (drop body rest)))"
  proof (cases "after = []")
    case True
    have rest: "rest = rev (dropWhile crlf (rev rest)) @ rev (takeWhile crlf (rev rest))"
      by (simp flip: rev_append)
    then have "drop body rest = rev (takeWhile crlf (rev rest))"
      using True by (simp add: body_def) (metis append_eq_conv_conj length_rev)
    moreover have "\<forall>u \<in> set (takeWhile crlf (rev rest)). line_end u"
      by (auto simp: crlf_line_end dest: set_takeWhileD)
    then have "rev (takeWhile crlf (rev rest)) = [] \<or> line_end (hd (rev (takeWhile crlf (rev rest))))"
      by (metis hd_in_set set_rev)
    ultimately show ?thesis
      using True length_dropWhile_le [of crlf "rev rest"] by (simp add: body_def)
  next
    case False
    have "drop body rest = dropWhile (\<lambda>u. \<not> crlf u) after"
      using False by (simp add: body_def drop_run [symmetric] after_def add.commute)
    moreover have "body \<le> length rest"
      using False length_takeWhile_le [of "\<lambda>u. \<not> crlf u" after] by (simp add: body_def run_def after_def)
    ultimately show ?thesis using dropWhile_end [of "\<lambda>u. \<not> crlf u" after] by (simp add: crlf_line_end)
  qed
  have "drop (length w + 1) us = take body rest @ drop n us"
    unfolding n rest_def [symmetric] by simp
  moreover have "take body rest \<noteq> []" using body m(3) by auto
  moreover have "0 < n" "drop n us = [] \<or> line_end (hd (drop n us))" using m(5) body unfolding n by simp_all
  ultimately show ?thesis using m(1,2,4) by blast
qed

lemma header_keeps: "keeps (CHR '':'') placeholder line_end match_header"
  unfolding keeps_def
proof (intro allI impI)
  fix p us repl n assume "match_header p us = Some (repl, n)"
  from match_header_at [OF this] obtain w where w: "w \<in> {''authorization'', ''cookie''}" "header_at w us = Some (repl, n)"
    by blast
  note at = header_at_Some [OF w(2)]
  then obtain v where v: "drop (length w + 1) us = v @ drop n us" "v \<noteq> []" "0 < n"
    "drop n us = [] \<or> line_end (hd (drop n us))" by blast
  have n: "max 1 n = n" using v(3) by simp
  have "us = take (length w) us @ ['':''] @ drop (length w + 1) us"
    by (rule drop_take_one) (use at in simp)
  then have "us = take (length w) us @ ['':''] @ v @ drop n us" unfolding v(1) .
  moreover have "repl = (take (length w) us @ ['':'']) @ placeholder" using at by (simp add: placeholder_def)
  moreover have "[CHR '':''] \<notin> set (map (map lower_ascii) (take (length w) us))"
    by (rule kept_word) (use at w(1) in \<open>auto simp: separator_def\<close>)
  moreover have "drop n us = [] \<or> (line_end (hd (drop n us)) \<and> (\<forall>q. match_header q (drop n us) = None))"
    using v(4) match_header_visible visible_ends(2) by (metis not_None_eq)
  ultimately show "\<exists>x v. us = x @ ['':''] @ v @ drop (max 1 n) us \<and> v \<noteq> []
    \<and> repl = (x @ ['':'']) @ placeholder \<and> '':'' \<notin> set (map (map lower_ascii) x)
    \<and> (drop (max 1 n) us = []
      \<or> (line_end (hd (drop (max 1 n) us)) \<and> (\<forall>q. match_header q (drop (max 1 n) us) = None)))"
    unfolding n using v(2) by blast
qed

text \<open>What the first two passes clear.\<close>

definition secret_words :: "string list" where
  "secret_words = map (\<lambda>w. w @ ''='') [''passkey'', ''token'', ''pid'']"

definition header_words :: "string list" where
  "header_words = map (\<lambda>w. w @ '':'') [''authorization'', ''cookie'']"

definition url_words :: "string list" where
  "url_words = [''http://'', ''https://'']"

definition secret_fine :: "string list \<Rightarrow> bool" where
  "secret_fine us \<longleftrightarrow> takeWhile (\<lambda>u. \<not> value_end u) us \<in> {[], marker ''[REDACTED]''}"

definition header_fine :: "string list \<Rightarrow> bool" where
  "header_fine us \<longleftrightarrow> list_all line_end us \<or> takeWhile (\<lambda>u. \<not> line_end u) us = placeholder"

definition url_fine :: "string list \<Rightarrow> bool" where
  "url_fine us \<longleftrightarrow> us = [] \<or> \<not> url_char (hd us)"

lemma shows_betrays:
  "shows_secret us = betrays secret_words secret_fine us"
  "shows_header us = betrays header_words header_fine us"
  "shows_url us = betrays url_words url_fine us"
proof -
  show "shows_secret us = betrays secret_words secret_fine us"
    unfolding shows_secret_def betrays_def secret_words_def secret_fine_def value_end_run list_ex_iff by simp
  show "shows_header us = betrays header_words header_fine us"
    unfolding shows_header_def betrays_def header_words_def header_fine_def placeholder_def list_ex_iff by simp
  have "list_ex (\<lambda>u. \<not> space_char u \<and> u \<notin> {''<'', ''>'', [CHR 0x27], [CHR 0x22]}) (take 1 vs) \<longleftrightarrow> \<not> url_fine vs" for vs
    by (cases vs) (simp_all add: url_fine_def url_char_def)
  then show "shows_url us = betrays url_words url_fine us"
    unfolding shows_url_def betrays_def url_words_def list_ex_iff by simp
qed

lemma replacements_apart:
  "list_all (\<lambda>ws. list_all (\<lambda>mk. mk \<noteq> [] \<and> list_all (\<lambda>w. map lower_ascii (hd mk) \<notin> set (marker w)
      \<and> list_all (\<lambda>t. t = [] \<or> \<not> list_all (\<lambda>(c, u). map lower_ascii u = [c]) (zip w t)) (suffixes mk)) ws)
      (placeholder # map marker [''[REDACTED]'', ''[URL_REDACTED]'', ''[PATH_REDACTED]'']))
    [secret_words, header_words, url_words]"
  by code_simp

lemma apart_words:
  assumes "ws \<in> set [secret_words, header_words, url_words]"
    and "mk \<in> set (placeholder # map marker [''[REDACTED]'', ''[URL_REDACTED]'', ''[PATH_REDACTED]''])"
  shows "apart ws mk"
proof -
  have "mk \<noteq> [] \<and> list_all (\<lambda>w. map lower_ascii (hd mk) \<notin> set (marker w)
      \<and> list_all (\<lambda>t. t = [] \<or> \<not> list_all (\<lambda>(c, u). map lower_ascii u = [c]) (zip w t)) (suffixes mk)) ws"
    using replacements_apart assms unfolding list_all_iff by blast
  then show ?thesis by (intro apartI) auto
qed

lemma words_ascii: "list_all (\<lambda>w. w \<noteq> [] \<and> list_all (\<lambda>c. byte c < 128) w) (secret_words @ header_words @ url_words)"
  by code_simp

lemma secret_none:
  assumes "match_secret p us = None" and "w \<in> set [''passkey'', ''token'', ''pid'']" and "reads (w @ ''='') us"
  shows "takeWhile (\<lambda>u. \<not> value_end u) (drop (length w + 1) us) = []"
proof -
  have "list_all (\<lambda>w. list_all (\<lambda>c. byte c < 128) w) [''passkey'', ''token'', ''pid'']" by code_simp
  then have ascii: "list_all (\<lambda>c. byte c < 128) w" using assms(2) unfolding list_all_iff by blast
  have "secret_at w us = None" using assms(1,2) by (auto simp: match_secret_def split: option.splits)
  moreover have "ci_prefix w us" "take 1 (drop (length w) us) = [''='']"
    using reads_last [OF assms(3)] reads_ci [OF _ ascii] by (simp_all add: separator_def)
  ultimately show ?thesis
    unfolding secret_at_def value_end_run Let_def by (simp add: run_def split: if_splits)
qed

lemma header_none:
  assumes "match_header p us = None" and "w \<in> set [''authorization'', ''cookie'']" and "reads (w @ '':'') us"
  shows "list_all line_end (drop (length w + 1) us)"
proof -
  have "list_all (\<lambda>w. list_all (\<lambda>c. byte c < 128) w) [''authorization'', ''cookie'']" by code_simp
  then have ascii: "list_all (\<lambda>c. byte c < 128) w" using assms(2) unfolding list_all_iff by blast
  have "header_at w us = None" using assms(1,2) by (auto simp: match_header_def split: option.splits)
  moreover have "ci_prefix w us" "take 1 (drop (length w) us) = ['':'']"
    using reads_last [OF assms(3)] reads_ci [OF _ ascii] by (simp_all add: separator_def)
  ultimately have at: "header_at w us = None" "ci_prefix w us" "take 1 (drop (length w) us) = ['':'']" by simp_all
  define rest where "rest = drop (length w + 1) us"
  define after where "after = drop (run space_char rest) rest"
  have none: "(if after \<noteq> [] then run space_char rest + run (\<lambda>u. \<not> crlf u) after
    else length (dropWhile crlf (rev rest))) = 0"
    using at unfolding header_at_def Let_def rest_def [symmetric] after_def [symmetric] by (auto split: if_splits)
  show ?thesis
  proof (cases "after = []")
    case True
    with none have "dropWhile crlf (rev rest) = []" by simp
    then show ?thesis by (simp add: dropWhile_eq_Nil_conv list_all_iff crlf_line_end rest_def)
  next
    case False
    have "\<not> space_char (hd after)"
      using False dropWhile_end [of space_char rest] unfolding after_def drop_run by blast
    then have "0 < run (\<lambda>u. \<not> crlf u) after"
      using False line_end_space by (cases after) (auto simp: run_def crlf_line_end)
    with False none show ?thesis by simp
  qed
qed

lemma marker_ends:
  "list_all (\<lambda>u. \<not> value_end u) (marker ''[REDACTED]'')" "list_all (\<lambda>u. \<not> line_end u) placeholder"
  by code_simp+

lemma takeWhile_placed:
  "list_all (\<lambda>u. \<not> stop u) mk \<Longrightarrow> vs = [] \<or> stop (hd vs) \<Longrightarrow> takeWhile (\<lambda>u. \<not> stop u) (mk @ vs) = mk"
  by (cases vs) (auto simp: list_all_iff)

lemma takeWhile_head: "us \<noteq> [] \<Longrightarrow> takeWhile p (us @ vs) = [] \<longleftrightarrow> \<not> p (hd us)"
  by (cases us) auto

lemma secret_pass: "clean shows_secret (re_sub match_secret prev us)"
  unfolding shows_betrays(1) secret_words_def
proof (rule own_pass [OF secret_keeps])
  show "apart (map (\<lambda>w. w @ ''='') [''passkey'', ''token'', ''pid'']) (marker ''[REDACTED]'')"
    unfolding secret_words_def [symmetric] by (rule apart_words) simp_all
  have "list_all (\<lambda>w. CHR ''='' \<notin> set w) [''passkey'', ''token'', ''pid'']" by code_simp
  then show "CHR ''='' \<notin> set w" if "w \<in> set [''passkey'', ''token'', ''pid'']" for w
    using that unfolding list_all_iff by blast
  show "lower_ascii (CHR ''='') = CHR ''=''" by (rule separator_lower) (simp add: separator_def)
  show "secret_fine (marker ''[REDACTED]'' @ vs)" if "vs = [] \<or> value_end (hd vs)" for vs
    using takeWhile_placed [OF marker_ends(1) that] by (simp add: secret_fine_def del: marker_simps)
next
  fix p us w assume "match_secret p us = None" "w \<in> set [''passkey'', ''token'', ''pid'']" "reads (w @ ''='') us"
  from secret_none [OF this] show "secret_fine (drop (length w + 1) us)" by (simp add: secret_fine_def)
next
  fix p a x b w vs
  assume run: "match_secret p (a @ x @ [''=''] @ b) = None" "w \<in> set [''passkey'', ''token'', ''pid'']"
      "reads (w @ ''='') (a @ x @ [''=''] @ b)"
    and len: "length w + 1 < length (a @ x @ [''=''])"
  define k where "k = a @ x @ [''='']"
  have k: "length w + 1 < length k" "drop (length w + 1) k \<noteq> []" using len by (simp_all add: k_def)
  have "takeWhile (\<lambda>u. \<not> value_end u) (drop (length w + 1) (k @ b)) = []"
    using secret_none [OF run(1,2,3)] by (simp add: k_def)
  then have "takeWhile (\<lambda>u. \<not> value_end u) (drop (length w + 1) k @ vs) = []"
    using k by (simp add: takeWhile_head)
  then show "secret_fine (drop (length w + 1) (a @ x @ [''='']) @ vs)"
    unfolding k_def [symmetric] by (simp add: secret_fine_def)
qed

lemma header_pass: "clean shows_header (re_sub match_header prev us)"
  unfolding shows_betrays(2) header_words_def
proof (rule own_pass [OF header_keeps])
  show "apart (map (\<lambda>w. w @ '':'') [''authorization'', ''cookie'']) placeholder"
    unfolding header_words_def [symmetric] by (rule apart_words) simp_all
  have "list_all (\<lambda>w. CHR '':'' \<notin> set w) [''authorization'', ''cookie'']" by code_simp
  then show "CHR '':'' \<notin> set w" if "w \<in> set [''authorization'', ''cookie'']" for w
    using that unfolding list_all_iff by blast
  show "lower_ascii (CHR '':'') = CHR '':''" by (rule separator_lower) (simp add: separator_def)
  show "header_fine (placeholder @ vs)" if "vs = [] \<or> line_end (hd vs)" for vs
    using takeWhile_placed [OF marker_ends(2) that] by (simp add: header_fine_def)
next
  fix p us w assume "match_header p us = None" "w \<in> set [''authorization'', ''cookie'']" "reads (w @ '':'') us"
  from header_none [OF this] show "header_fine (drop (length w + 1) us)" by (simp add: header_fine_def)
next
  fix p a x b w vs
  assume run: "match_header p (a @ x @ ['':''] @ b) = None" "w \<in> set [''authorization'', ''cookie'']"
      "reads (w @ '':'') (a @ x @ ['':''] @ b)"
    and len: "length w + 1 < length (a @ x @ ['':''])"
  define k where "k = a @ x @ ['':'']"
  have k: "length w + 1 < length k" "last k = '':''" using len by (simp_all add: k_def)
  have "list_all line_end (drop (length w + 1) (k @ b))" using header_none [OF run(1,2,3)] by (simp add: k_def)
  then have "list_all line_end (drop (length w + 1) k)" using k(1) by simp
  moreover have "last (drop (length w + 1) k) = '':''" using k by simp
  ultimately have "line_end '':''" using k(1) by (metis drop_eq_Nil last_in_set leD list_all_iff)
  then have False by (simp add: line_end_def)
  then show "header_fine (drop (length w + 1) (a @ x @ ['':'']) @ vs)" ..
qed

section \<open>The later passes\<close>

lemma sparesD:
  assumes "spares_placeholder m" and "suffix s placeholder" and "s \<noteq> []"
  shows "m p (s @ vs) = None"
proof -
  obtain z where z: "placeholder = z @ s" using assms(2) by (auto simp: suffix_def)
  have "drop (length z) placeholder = s" unfolding z by simp
  moreover have "length z < length placeholder" unfolding z using assms(3) by simp
  ultimately show ?thesis using assms(1) unfolding spares_placeholder_def by metis
qed

lemma run_stays:
  assumes spares: "spares_placeholder m" and run: "m p b = Some r" "b \<noteq> []" "\<not> stop (hd b)"
    and m: "takeWhile (\<lambda>u. \<not> stop u) (d @ b) = mk" "suffix mk placeholder"
  shows "takeWhile (\<lambda>u. \<not> stop u) (d @ vs) = mk"
proof (cases "\<forall>u \<in> set d. \<not> stop u")
  case True
  let ?run = "takeWhile (\<lambda>u. \<not> stop u) b"
  have "mk = d @ ?run" using m(1) True by (simp add: takeWhile_append)
  then have "suffix ?run placeholder" using m(2) by (metis suffix_appendD suffixI suffix_order.trans)
  moreover have "?run \<noteq> []" using run(2,3) by (cases b) auto
  ultimately have "m p (?run @ dropWhile (\<lambda>u. \<not> stop u) b) = None" using sparesD [OF spares] by blast
  then show ?thesis using run(1) by simp
next
  case False
  then show ?thesis using m(1) by (auto simp: takeWhile_append)
qed

lemma placeholders: "suffix [] placeholder" "suffix (marker ''[REDACTED]'') placeholder" "suffix placeholder placeholder"
  by (simp_all add: placeholder_def suffix_def exI [of _ "['' '']"])

lemma secret_stays:
  assumes "spares_placeholder m" and "m p b = Some r" and "b \<noteq> []" and "visible (hd b)" and "secret_fine (d @ b)"
  shows "secret_fine (d @ vs)"
  using run_stays [where stop = value_end and vs = vs, OF assms(1,2,3) visible_ends(1) [OF assms(4)]] assms(5) placeholders
  unfolding secret_fine_def by blast

lemma header_stays:
  assumes "spares_placeholder m" and "m p b = Some r" and "b \<noteq> []" and "visible (hd b)" and "header_fine (d @ b)"
  shows "header_fine (d @ vs)"
proof -
  have "\<not> list_all line_end (d @ b)" using assms(3) visible_ends(2) [OF assms(4)] by (cases b) auto
  then show ?thesis
    using run_stays [where stop = line_end and vs = vs, OF assms(1,2,3) visible_ends(2) [OF assms(4)]] assms(5) placeholders
    unfolding header_fine_def by blast
qed

lemma url_stays:
  assumes "b \<noteq> []" and "visible (hd b)" and "url_fine (d @ b)"
  shows "url_fine (d @ vs)"
  using assms visible_simps(3) by (cases d) (auto simp: url_fine_def)

lemma plain_replacements:
  "match_url p us = Some (repl, n) \<Longrightarrow> repl = marker ''[URL_REDACTED]''"
  "match_windows_path L p us = Some (repl, n) \<Longrightarrow> repl = marker ''[PATH_REDACTED]''"
  "match_posix_path L p us = Some (repl, n) \<Longrightarrow> repl = marker ''[PATH_REDACTED]''"
  by (auto simp: match_url_def match_windows_path_def match_posix_path_def Let_def split: option.splits if_splits)

lemma words_nonempty:
  "w \<in> set ws \<Longrightarrow> ws \<in> set [secret_words, header_words, url_words] \<Longrightarrow> w \<noteq> []"
  using words_ascii unfolding list_all_iff by auto

definition plain_marks :: "string list list" where
  "plain_marks = map marker [''[URL_REDACTED]'', ''[PATH_REDACTED]'']"

lemma plain_apart: "ws \<in> set [secret_words, header_words, url_words] \<Longrightarrow> mk \<in> set plain_marks \<Longrightarrow> apart ws mk"
  by (rule apart_words) (auto simp: plain_marks_def)

text \<open>A pass that puts a fixed text in the place of a match.\<close>

lemma plain_pass:
  assumes "\<And>p us repl n. m p us = Some (repl, n) \<Longrightarrow> repl \<in> set plain_marks"
    and "ws \<in> set [secret_words, header_words, url_words]"
    and "\<And>p d b r vs. m p b = Some r \<Longrightarrow> b \<noteq> [] \<Longrightarrow> fine (d @ b) \<Longrightarrow> fine (d @ vs)"
    and "clean (betrays ws fine) us"
  shows "clean (betrays ws fine) (re_sub m prev us)"
proof (rule later_pass [OF _ _ assms(3,4)])
  fix p us repl n assume "m p us = Some (repl, n)"
  then have "apart ws repl" using assms(1) plain_apart [OF assms(2)] by blast
  then show "\<exists>y mk. repl = y @ mk \<and> apart ws mk \<and> (\<forall>w \<in> set ws. [last w] \<notin> set (map (map lower_ascii) y))"
    by (intro exI [of _ "[]"] exI [of _ repl]) simp
qed (use words_nonempty assms(2) in blast)+

lemma plain_keeps_clean:
  assumes "\<And>p us repl n. m p us = Some (repl, n) \<Longrightarrow> repl \<in> set plain_marks"
    and visible: "\<And>p us r. m p us = Some r \<Longrightarrow> us \<noteq> [] \<and> visible (hd us)" and spares: "spares_placeholder m"
  shows "clean shows_secret us \<Longrightarrow> clean shows_secret (re_sub m prev us)"
    and "clean shows_header us \<Longrightarrow> clean shows_header (re_sub m prev us)"
    and "clean shows_url us \<Longrightarrow> clean shows_url (re_sub m prev us)"
  unfolding shows_betrays
proof -
  show "clean (betrays secret_words secret_fine) (re_sub m prev us)" if "clean (betrays secret_words secret_fine) us"
    by (rule plain_pass [OF assms(1) _ _ that]) (assumption, simp, use secret_stays [OF spares] visible in blast)
  show "clean (betrays header_words header_fine) (re_sub m prev us)" if "clean (betrays header_words header_fine) us"
    by (rule plain_pass [OF assms(1) _ _ that]) (assumption, simp, use header_stays [OF spares] visible in blast)
  show "clean (betrays url_words url_fine) (re_sub m prev us)" if "clean (betrays url_words url_fine) us"
    by (rule plain_pass [OF assms(1) _ _ that]) (assumption, simp, use url_stays visible in blast)
qed

text \<open>The headers keep the secrets clean: what they leave in front of their colon has no \<open>=\<close>.\<close>

lemma header_after_secret:
  assumes "clean shows_secret us"
  shows "clean shows_secret (re_sub match_header prev us)"
  unfolding shows_betrays(1)
proof (rule later_pass)
  fix p us repl n assume run: "match_header p us = Some (repl, n)"
  then obtain x where x: "repl = (x @ ['':'']) @ placeholder" using header_keeps unfolding keeps_def by blast
  from match_header_at [OF run] obtain w where w: "w \<in> {''authorization'', ''cookie''}" "header_at w us = Some (repl, n)"
    by blast
  then have "repl = (take (length w) us @ ['':'']) @ placeholder"
    using header_at_Some [OF w(2)] by (simp add: placeholder_def)
  then have "x = take (length w) us" using x by simp
  moreover have "CHR ''='' \<notin> set w" using w(1) by auto
  moreover have "separator (CHR ''='')" by (simp add: separator_def)
  ultimately have "[CHR ''=''] \<notin> set (map (map lower_ascii) x)"
    using kept_word [OF header_at_prefix [OF w(2)]] by blast
  then have "[CHR ''=''] \<notin> set (map (map lower_ascii) (x @ ['':'']))" by (simp add: lower_ascii_def byte_def)
  moreover have "\<forall>w \<in> set secret_words. last w = CHR ''=''" by (simp add: secret_words_def)
  ultimately show "\<exists>y mk. repl = y @ mk \<and> apart secret_words mk
      \<and> (\<forall>w \<in> set secret_words. [last w] \<notin> set (map (map lower_ascii) y))"
    using x apart_words [of secret_words placeholder] by (intro exI [of _ "x @ ['':'']"] exI [of _ placeholder]) auto
next
  show "w \<noteq> []" if "w \<in> set secret_words" for w using words_nonempty [OF that] by simp
next
  fix p d b r vs assume "match_header p b = Some r" "b \<noteq> []" "secret_fine (d @ b)"
  then show "secret_fine (d @ vs)" using secret_stays [OF header_spares] match_header_visible by blast
next
  show "clean (betrays secret_words secret_fine) us" using assms unfolding shows_betrays(1) .
qed

text \<open>The pass over addresses clears its own.\<close>

lemma reads_separator_Cons: "separator c \<Longrightarrow> reads (c # w) us \<Longrightarrow> \<exists>vs. us = [c] # vs \<and> reads w vs"
  unfolding reads_Cons by (metis lower_separator)

lemma reads_slashes: "reads ''://'' us \<Longrightarrow> take 3 us = marker ''://''"
proof -
  assume r: "reads ''://'' us"
  have "separator (CHR '':'')" "separator (CHR ''/'')" by (simp_all add: separator_def)
  note cons = reads_separator_Cons [OF this(1)] reads_separator_Cons [OF this(2)]
  from cons(1) [OF r] obtain vs where vs: "us = '':'' # vs" "reads ''//'' vs" by blast
  from cons(2) [OF vs(2)] obtain vs2 where vs2: "vs = ''/'' # vs2" "reads ''/'' vs2" by blast
  from cons(2) [OF vs2(2)] obtain vs3 where "vs2 = ''/'' # vs3" by blast
  then show ?thesis by (simp add: vs(1) vs2(1))
qed

lemma url_none:
  assumes "match_url p us = None" and "w \<in> set url_words" and "reads w us"
  shows "url_fine (drop (length w) us)"
proof -
  define n where "n = (if ci_prefix ''https'' us then 5 else 4 :: nat)"
  have ci: "ci_prefix w us"
    using words_ascii assms(2) reads_ci [OF assms(3)] by (auto simp: list_all_iff)
  have w: "length w = n + 3 \<and> ci_prefix ''http'' us \<and> take 3 (drop n us) = marker ''://''"
  proof (cases "w = ''http://''")
    case True
    then have "\<not> ci_prefix ''https'' us" "ci_prefix ''http'' us" using ci by (auto simp: ci_prefix_Cons)
    moreover have "reads ''://'' (drop 4 us)" using assms(3) unfolding True by (auto simp: reads_Cons)
    ultimately show ?thesis using reads_slashes by (simp add: n_def True)
  next
    case False
    then have w: "w = ''https://''" using assms(2) by (simp add: url_words_def)
    then have "ci_prefix ''https'' us" "ci_prefix ''http'' us" using ci by (auto simp: ci_prefix_Cons)
    moreover have "reads ''://'' (drop 5 us)" using assms(3) unfolding w by (auto simp: reads_Cons)
    ultimately show ?thesis using reads_slashes by (simp add: n_def w)
  qed
  then have "run url_char (drop (n + 3) us) = 0"
    using assms(1) unfolding match_url_def n_def [symmetric] Let_def by (simp split: if_splits)
  then show ?thesis using w by (cases "drop (length w) us") (auto simp: url_fine_def run_def split: if_splits)
qed

lemma url_pass: "clean shows_url (re_sub match_url prev us)"
  unfolding clean_def shows_betrays(3)
proof (intro allI impI notI)
  fix t assume "suffix t (re_sub match_url prev us)" and "betrays url_words url_fine t"
  then obtain w where w: "w \<in> set url_words" "reads w t" "\<not> url_fine (drop (length w) t)" by (auto simp: betrays_def)
  have mk: "apart url_words (marker ''[URL_REDACTED]'')" by (rule plain_apart) (simp_all add: plain_marks_def)
  from re_sub_positions [OF \<open>suffix t _\<close>]
  consider "untouched match_url us t" | "before_match match_url us t" | "inside_match match_url us t" by blast
  then show False
  proof cases
    case 1
    moreover have "0 < length w" using words_nonempty [OF w(1)] by simp
    then have "t \<noteq> []" using reads_length [OF w(2)] by auto
    ultimately show False using url_none w unfolding untouched_def by blast
  next
    case 2
    then obtain a b p p' repl n q where ab: "match_url p (a @ b) = None" "match_url p' b = Some (repl, n)"
      and t: "t = a @ repl @ re_sub match_url q (drop (max 1 n) b)" unfolding before_match_def by blast
    have a: "reads w a"
      using w(2) apartD(1) [OF mk w(1), of a] unfolding t plain_replacements(1) [OF ab(2)] by blast
    then have len: "length w \<le> length a" by (rule reads_length)
    have "url_fine (drop (length w) (a @ b))" by (rule url_none [OF ab(1) w(1) reads_more [OF a]])
    then have "url_fine (drop (length w) a @ b)" using len by simp
    then have "url_fine (drop (length w) a @ vs)" for vs
      using url_stays match_url_visible [OF ab(2)] by blast
    with w(3) len show False by (simp add: t)
  next
    case 3
    then obtain p b repl n q t' where b: "match_url p b = Some (repl, n)" "t' \<noteq> []" "suffix t' repl"
      and t: "t = t' @ re_sub match_url q (drop (max 1 n) b)" unfolding inside_match_def by blast
    show False
      using apartD(2) [OF mk w(1) b(3) [unfolded plain_replacements(1) [OF b(1)]] b(2)] w(2) unfolding t by blast
  qed
qed

lemma plain_pass_facts:
  "match_url p us = Some (repl, n) \<Longrightarrow> repl \<in> set plain_marks"
  "match_windows_path L p us = Some (repl, n) \<Longrightarrow> repl \<in> set plain_marks"
  "match_posix_path L p us = Some (repl, n) \<Longrightarrow> repl \<in> set plain_marks"
  using plain_replacements by (simp_all add: plain_marks_def del: marker_simps)

lemmas url_keeps_clean = plain_keeps_clean [OF plain_pass_facts(1) match_url_visible url_spares]
lemmas windows_keeps_clean = plain_keeps_clean [OF plain_pass_facts(2) match_windows_visible windows_spares]
lemmas posix_keeps_clean = plain_keeps_clean [OF plain_pass_facts(3) match_posix_visible posix_spares]

section \<open>The characters of the result\<close>

text \<open>Every character but the last is complete, so the result splits into the characters it was built from.\<close>

definition complete_char :: "string \<Rightarrow> bool" where
  "complete_char u \<longleftrightarrow> u \<noteq> [] \<and> length u = lead_length (hd u)"

fun splits_as :: "string list \<Rightarrow> bool" where
  "splits_as [] = True"
| "splits_as [u] = (u \<noteq> [] \<and> length u \<le> lead_length (hd u))"
| "splits_as (u # v # us) = (complete_char u \<and> splits_as (v # us))"

lemma splits_as_Cons: "complete_char u \<Longrightarrow> splits_as us \<Longrightarrow> splits_as (u # us)"
  by (cases us) (auto simp: complete_char_def)

lemma splits_as_append: "list_all complete_char us \<Longrightarrow> splits_as vs \<Longrightarrow> splits_as (us @ vs)"
  by (induction us) (auto intro: splits_as_Cons)

lemma splits_as_split: "splits_as (us @ vs) \<Longrightarrow> splits_as vs \<and> (vs \<noteq> [] \<longrightarrow> list_all complete_char us)"
proof (induction us)
  case (Cons u us)
  then show ?case by (cases "us @ vs") auto
qed simp

lemma chars_concat: "splits_as us \<Longrightarrow> chars (concat us) = us"
proof (induction us rule: splits_as.induct)
  case (2 u)
  then show ?case by (cases u) auto
next
  case (3 u v us)
  then obtain c s where u: "u = c # s" "length u = lead_length c" by (cases u) (auto simp: complete_char_def)
  have "take (length u) (u @ concat (v # us)) = u" "drop (length u) (u @ concat (v # us)) = concat (v # us)"
    by simp_all
  then have "take (lead_length c) (u @ concat (v # us)) = u" "drop (lead_length c) (u @ concat (v # us)) = concat (v # us)"
    unfolding u(2) .
  moreover have "chars (concat (v # us)) = v # us" using 3 by simp
  ultimately show ?case by (simp add: u(1))
qed simp

lemma chars_splits_as: "splits_as (chars s)"
proof (induction s rule: chars.induct)
  case (2 c s)
  let ?u = "take (lead_length c) (c # s)"
  have u: "?u \<noteq> []" "hd ?u = c" "length ?u \<le> lead_length c" using lead_length_pos [of c] by (simp_all add: take_Cons')
  show ?case
  proof (cases "drop (lead_length c) (c # s) = []")
    case True
    then have "chars (c # s) = [?u]" by (simp only: chars.simps)
    then show ?thesis using u by simp
  next
    case False
    then have "length ?u = lead_length c" by simp
    then have "complete_char ?u" using u by (simp add: complete_char_def)
    then show ?thesis unfolding chars.simps by (rule splits_as_Cons) (rule 2)
  qed
qed simp

definition builds :: "matcher \<Rightarrow> bool" where
  "builds m \<longleftrightarrow> (\<forall>p us repl n. us \<noteq> [] \<longrightarrow> m p us = Some (repl, n) \<longrightarrow>
    (\<exists>x v mk. us = x @ v \<and> v \<noteq> [] \<and> repl = x @ mk \<and> list_all complete_char mk))"

lemma re_sub_splits: "builds m \<Longrightarrow> splits_as us \<Longrightarrow> splits_as (re_sub m prev us)"
proof (induction m prev us rule: re_sub.induct)
  case (2 m prev u us)
  show ?case
  proof (cases "m prev (u # us)")
    case None
    have "splits_as us" using splits_as_split [of "[u]" us] 2(4) by simp
    then have IH: "splits_as (re_sub m (Some u) us)" using 2(1) [OF None] 2(3) by blast
    have "re_sub m prev (u # us) = u # re_sub m (Some u) us" using None by simp
    moreover have "splits_as (u # re_sub m (Some u) us)"
    proof (cases us)
      case Nil
      then show ?thesis using 2(4) by simp
    next
      case (Cons v vs)
      then have "complete_char u" using 2(4) by simp
      then show ?thesis using IH by (rule splits_as_Cons)
    qed
    ultimately show ?thesis by simp
  next
    case (Some r)
    obtain repl n where r: "r = (repl, n)" by (cases r)
    let ?R = "re_sub m (Some ((u # us) ! (n - 1))) (drop (max 1 n) (u # us))"
    obtain x v mk where x: "u # us = x @ v" "v \<noteq> []" "repl = x @ mk" "list_all complete_char mk"
      using 2(3) Some unfolding builds_def r by blast
    have "list_all complete_char x" using splits_as_split [of x v] 2(4) x(1,2) by simp
    moreover have "splits_as (drop (max 1 n) (u # us))"
      using splits_as_split [of "take (max 1 n) (u # us)" "drop (max 1 n) (u # us)"] 2(4) by simp
    then have "splits_as ?R" using 2(2) [OF Some r [symmetric]] 2(3) by blast
    ultimately have "splits_as (repl @ ?R)" using x(3,4) by (auto intro: splits_as_append)
    then show ?thesis using Some r by simp
  qed
qed simp

lemma marks_complete: "list_all (list_all complete_char) (placeholder # marker ''[REDACTED]'' # plain_marks)"
  by code_simp

lemma keeps_builds: "keeps c mk stop m \<Longrightarrow> list_all complete_char mk \<Longrightarrow> builds m"
  unfolding builds_def keeps_def
proof (intro allI impI)
  fix p us repl n
  assume "\<forall>p us repl n. m p us = Some (repl, n) \<longrightarrow>
    (\<exists>x v. us = x @ [[c]] @ v @ drop (max 1 n) us \<and> v \<noteq> [] \<and> repl = (x @ [[c]]) @ mk
      \<and> [c] \<notin> set (map (map lower_ascii) x)
      \<and> (drop (max 1 n) us = [] \<or> (stop (hd (drop (max 1 n) us)) \<and> (\<forall>q. m q (drop (max 1 n) us) = None))))"
    and mk: "list_all complete_char mk" and "m p us = Some (repl, n)"
  then obtain x v where "us = x @ [[c]] @ v @ drop (max 1 n) us" "v \<noteq> []" "repl = (x @ [[c]]) @ mk" by blast
  then have "us = (x @ [[c]]) @ v @ drop (max 1 n) us" "v @ drop (max 1 n) us \<noteq> []" "repl = (x @ [[c]]) @ mk" by simp_all
  with mk show "\<exists>x v mk. us = x @ v \<and> v \<noteq> [] \<and> repl = x @ mk \<and> list_all complete_char mk" by blast
qed

lemma plain_builds:
  assumes "\<And>p us repl n. m p us = Some (repl, n) \<Longrightarrow> repl \<in> set plain_marks"
  shows "builds m"
  unfolding builds_def
proof (intro allI impI)
  fix p us repl n assume "us \<noteq> []" "m p us = Some (repl, n)"
  then have "us = [] @ us" "us \<noteq> []" "repl = [] @ repl" "list_all complete_char repl"
    using assms marks_complete by (auto simp: list_all_iff)
  then show "\<exists>x v mk. us = x @ v \<and> v \<noteq> [] \<and> repl = x @ mk \<and> list_all complete_char mk" by blast
qed

lemma passes_build:
  "builds match_secret" "builds match_header" "builds match_url" "builds (match_windows_path L)" "builds (match_posix_path L)"
  using keeps_builds [OF secret_keeps] keeps_builds [OF header_keeps] marks_complete plain_builds plain_pass_facts
  by (simp_all del: marker_simps)

lemma public_text_chars:
  "chars (sanitize_public_text L s) = re_sub (match_posix_path L) None (re_sub (match_windows_path L) None
    (re_sub match_url None (re_sub match_header None (re_sub match_secret None (chars s)))))"
  unfolding sanitize_public_text_def by (intro chars_concat re_sub_splits passes_build chars_splits_as)

section \<open>Properties\<close>

lemma public_text_redacted: "text_redacted (sanitize_public_text L s)"
proof -
  let ?us = "chars (sanitize_public_text L s)"
  have "clean shows_secret ?us"
    unfolding public_text_chars
    by (intro posix_keeps_clean(1) windows_keeps_clean(1) url_keeps_clean(1) header_after_secret secret_pass)
  moreover have "clean shows_header ?us"
    unfolding public_text_chars
    by (intro posix_keeps_clean(2) windows_keeps_clean(2) url_keeps_clean(2) header_pass)
  moreover have "clean shows_url ?us"
    unfolding public_text_chars by (intro posix_keeps_clean(3) windows_keeps_clean(3) url_pass)
  ultimately show ?thesis by (simp add: text_redacted_def clean_def list_all_iff)
qed

lemma placeholder_redacted: "text_redacted ''[REDACTED]''"
  by code_simp

text \<open>The specification tells a redacted text from one that is not.\<close>

lemma text_redacted_examples:
  "text_redacted ''TOKEN=[REDACTED]&x, [URL_REDACTED]''" "\<not> text_redacted ''a Token=abc&x''"
  "\<not> text_redacted ''Cookie: a=1''" "\<not> text_redacted ''see HTTPS://x.to''"
  "names_secret ''qb_Password''" "names_secret ''X-Tracker-Url''" "\<not> names_secret ''title''"
  by code_simp+

text \<open>C34: Nothing of a secret is left in what \<open>sanitize_details\<close> returns, at any depth. A member whose key
  contains, in whatever case, one of the ten names of secrets holds the placeholder; and in every other text no
  \<open>passkey=\<close>, \<open>token=\<close> or \<open>pid=\<close> is followed by a value other than the placeholder, no
  \<open>authorization:\<close> or \<open>cookie:\<close> by anything else on its line, and no address with \<open>http://\<close> or
  \<open>https://\<close> is left, in whatever case. The last two passes, over paths, bring none of it back; which paths they
  remove is not stated.\<close>
theorem sanitize_details_redacts: "redacted (sanitize_details L j)"
proof (induction j)
  case (JObj kvs)
  have "redacted (sanitize_details L v)" if "(k, v) \<in> set kvs" for k v
    using JObj [OF that, of v] by simp
  then show ?case using names_secret_sensitive placeholder_redacted by (auto simp: list_all_iff)
qed (auto simp: list_all_iff public_text_redacted)

end
