(* ===== verification/Entities.thy ===== *)
theory Entities
  imports Schemas Redaction "HOL-Library.Sublist"
begin

text \<open>
  The tables of \<open>models/entities.py\<close> that the core reads and writes: a record for the columns of
  each, the constraints the database enforces, and the store of all tables. An insert that
  violates a unique index or a check raises \<open>IntegrityErr\<close>. Surrogate keys of append-only
  event rows and the bookkeeping timestamps are left out: a table is a list in the order of
  insertion. Every handler works on the store of one session.
\<close>

section \<open>Rows\<close>

record media_row =
  me_id :: string
  me_source :: string
  me_source_item_id :: string
  me_media_type :: media_type
  me_tmdb_id :: "int option"
  me_title :: string
  me_original_title :: "string option"
  me_year :: "int option"
  me_country_codes :: "string list option"
  me_poster_path :: "string option"
  me_raw_type :: "string option"
  me_local_episodes :: "int option"
  me_local_episode_matrix :: json
  me_total_episodes :: "int option"
  me_aired_episodes :: "int option"
  me_missing_episodes :: "string list option"
  me_discovery_status :: string
  me_identity_confidence :: identity_confidence
  me_metadata_status :: metadata_status
  me_workflow_status :: workflow_status
  me_discovered_at :: datetime
  me_updated_at :: datetime

record discovery_run =
  dr_id :: string
  dr_source :: string
  dr_status :: task_status
  dr_started_at :: "datetime option"
  dr_finished_at :: "datetime option"
  dr_discovered_count :: int
  dr_created_count :: int
  dr_updated_count :: int
  dr_error_code :: "string option"
  dr_error_message :: "string option"

record task =
  tk_id :: string
  tk_job_type :: string
  tk_status :: task_status
  tk_payload :: "(string \<times> json) list"
  tk_run_id :: "string option"
  tk_attempts :: int
  tk_max_attempts :: int
  tk_next_retry_at :: "datetime option"
  tk_locked_at :: "datetime option"
  tk_locked_by :: "string option"
  tk_lease_token :: "string option"
  tk_error_code :: "string option"
  tk_error_message :: "string option"
  tk_created_at :: datetime

record audit_event =
  au_event_type :: string
  au_entity_type :: string
  au_entity_id :: string
  au_sanitized_details :: json

record heartbeat =
  wh_worker_id :: string
  wh_last_seen_at :: datetime

record match_row =
  mm_id :: string
  mm_media_id :: string
  mm_resolution_job_id :: "string option"
  mm_tmdb_id :: int
  mm_rank :: int
  mm_score :: string
  mm_match_reasons :: "string list"
  mm_conflicts :: "string list"
  mm_candidate_snapshot :: json

record review =
  iv_id :: string
  iv_media_id :: string
  iv_metadata_match_id :: string
  iv_status :: string
  iv_confirmed_by :: string
  iv_candidate_snapshot :: json
  iv_created_at :: datetime

record search_run_row =
  ru_id :: string
  ru_media_id :: string
  ru_site_id :: string
  ru_status :: workflow_status
  ru_strategy_log :: json
  ru_sanitized_request :: json
  ru_candidate_count :: int
  ru_error_code :: "string option"
  ru_error_message :: "string option"
  ru_started_at :: "datetime option"
  ru_finished_at :: "datetime option"

record candidate_row =
  cr_id :: string
  cr_search_run_id :: string
  cr_site_id :: string
  cr_torrent_id :: string
  cr_candidate_snapshot :: json
  cr_match_score :: string
  cr_match_reasons :: "string list"
  cr_warnings :: "string list"

record approval =
  ar_id :: string
  ar_media_item_id :: string
  ar_torrent_candidate_id :: string
  ar_status :: approval_status
  ar_candidate_snapshot :: json
  ar_snapshot_hash :: string
  ar_requested_by :: string
  ar_requested_at :: datetime
  ar_expires_at :: datetime
  ar_decided_at :: "datetime option"
  ar_preflight_result :: "json option"
  ar_preflight_checked_at :: "datetime option"

record approval_event =
  ae_approval_request_id :: string
  ae_event_type :: string
  ae_from_status :: "string option"
  ae_to_status :: string
  ae_actor :: string
  ae_reason :: "string option"
  ae_snapshot_hash :: string
  ae_sanitized_details :: json

record plan =
  dp_id :: string
  dp_approval_id :: string
  dp_approval_snapshot_hash :: string
  dp_preflight_policy_fingerprint :: string
  dp_plan_hash :: string
  dp_site_id :: string
  dp_torrent_ref :: string
  dp_expected_info_hash :: "string option"
  dp_release_title :: string
  dp_save_path_ref :: string
  dp_category :: string
  dp_tags :: "json list"
  dp_estimated_size_bytes :: "int option"
  dp_media_destination_plan :: json
  dp_preflight_result :: json
  dp_warnings :: "json list"

record intent =
  ei_id :: string
  ei_approval_id :: string
  ei_nonce_sha256 :: string
  ei_approval_snapshot_hash :: string
  ei_plan_hash :: string
  ei_qb_target_fingerprint :: string
  ei_launch_mode :: launch_mode
  ei_origin :: origin
  ei_automation_policy_revision_id :: "string option"
  ei_automation_decision_id :: "string option"
  ei_status :: intent_status
  ei_created_by :: string
  ei_expires_at :: datetime
  ei_consumed_at :: "datetime option"
  ei_consumed_by :: "string option"

record execution =
  de_id :: string
  de_approval_id :: string
  de_intent_id :: string
  de_idempotency_key_sha256 :: string
  de_request_hash :: string
  de_approval_snapshot_hash :: string
  de_plan_hash :: string
  de_qb_target_fingerprint :: string
  de_launch_mode :: launch_mode
  de_origin :: origin
  de_automation_policy_revision_id :: "string option"
  de_automation_decision_id :: "string option"
  de_status :: execution_status
  de_attempts :: int
  de_max_attempts :: int
  de_next_retry_at :: "datetime option"
  de_locked_at :: "datetime option"
  de_locked_by :: "string option"
  de_lease_token :: "string option"
  de_actual_info_hash :: "string option"
  de_actual_info_hash_v1 :: "string option"
  de_actual_info_hash_v2 :: "string option"
  de_actual_size_bytes :: "int option"
  de_actual_file_count :: "int option"
  de_validated_at :: "datetime option"
  de_submitted_at :: "datetime option"
  de_verified_at :: "datetime option"
  de_error_code :: "string option"
  de_error_message :: "string option"
  de_requested_by :: string
  de_requested_at :: datetime
  de_reconciliation_requested_by :: "string option"
  de_reconciliation_requested_at :: "datetime option"
  de_reconciliation_reason :: "string option"

record execution_event =
  ev_download_execution_id :: string
  ev_event_type :: string
  ev_from_status :: "string option"
  ev_to_status :: string
  ev_actor :: string
  ev_sanitized_details :: json

record job =
  dj_id :: string
  dj_execution_id :: string
  dj_approval_id :: string
  dj_media_item_id :: string
  dj_status :: job_status
  dj_release_title :: string
  dj_info_hash_v1 :: "string option"
  dj_info_hash_v2 :: "string option"
  dj_save_path_ref :: string
  dj_category :: string
  dj_size_bytes :: int
  dj_file_count :: int
  dj_progress :: string
  dj_download_speed_bps :: int
  dj_upload_speed_bps :: int
  dj_downloaded_bytes :: int
  dj_uploaded_bytes :: int
  dj_ratio :: string
  dj_hnr_status :: hnr_status
  dj_started_at :: datetime
  dj_completed_at :: "datetime option"
  dj_last_seen_at :: "datetime option"
  dj_error_code :: "string option"
  dj_error_message :: "string option"
  dj_created_at :: datetime

record job_event =
  je_download_job_id :: string
  je_event_type :: string
  je_from_status :: "string option"
  je_to_status :: string
  je_actor :: string
  je_sanitized_details :: json

record revision =
  pr_id :: string
  pr_revision_no :: int
  pr_identity_mode :: automation_mode
  pr_torrent_selection_mode :: automation_mode
  pr_approval_mode :: automation_mode
  pr_execution_mode :: automation_mode
  pr_eligibility_rules :: json
  pr_acknowledgements :: json
  pr_policy_hash :: string
  pr_previous_policy_hash :: "string option"
  pr_effective_from :: datetime
  pr_created_by :: string

record policy_head =
  ph_scope :: string
  ph_current_revision_id :: string
  ph_version :: int

record decision =
  ad_id :: string
  ad_policy_revision_id :: string
  ad_stage :: automation_stage
  ad_action :: string
  ad_outcome :: decision_outcome
  ad_media_item_id :: string
  ad_metadata_match_id :: "string option"
  ad_torrent_candidate_id :: "string option"
  ad_approval_request_id :: "string option"
  ad_download_execution_id :: "string option"
  ad_reason_codes :: "string list"
  ad_evidence_snapshot :: json
  ad_evidence_hash :: string
  ad_dedupe_key :: string
  ad_actor :: string

record import_request =
  im_id :: string
  im_download_job_id :: string
  im_media_item_id :: string
  im_execution_id :: string
  im_status :: import_status
  im_requested_by :: string
  im_requested_at :: datetime
  im_approved_by :: "string option"
  im_approved_at :: "datetime option"
  im_rejected_by :: "string option"
  im_rejected_at :: "datetime option"
  im_rejection_reason :: "string option"
  im_revoked_by :: "string option"
  im_revoked_at :: "datetime option"
  im_revocation_reason :: "string option"
  im_decision_acknowledgements :: "json option"
  im_created_at :: datetime
  im_updated_at :: datetime

record import_plan =
  ip_id :: string
  ip_request_id :: string
  ip_download_job_id :: string
  ip_media_item_id :: string
  ip_execution_id :: string
  ip_mode :: string
  ip_proposed_operation :: import_operation
  ip_source_manifest :: json
  ip_source_manifest_hash :: string
  ip_target_mapping :: json
  ip_target_mapping_hash :: string
  ip_job_summary_snapshot :: json
  ip_summary_snapshot_hash :: string
  ip_config_fingerprint :: string
  ip_plan_hash :: string
  ip_source_retention :: bool
  ip_overwrite_allowed :: bool
  ip_created_by :: string
  ip_created_at :: datetime

record import_preflight =
  ic_id :: string
  ic_request_id :: string
  ic_plan_id :: string
  ic_overall_status :: preflight_status
  ic_inspection_snapshot :: json
  ic_inspection_hash :: string
  ic_result :: json
  ic_result_hash :: string
  ic_preflight_hash :: string
  ic_config_fingerprint :: string
  ic_checked_by :: string
  ic_checked_at :: datetime
  ic_created_at :: datetime

record import_event =
  ie_request_id :: string
  ie_event_type :: string
  ie_from_status :: "string option"
  ie_to_status :: string
  ie_actor :: string
  ie_sanitized_details :: json

section \<open>The store\<close>

record db =
  db_media :: "media_row list"
  db_runs :: "search_run_row list"
  db_candidates :: "candidate_row list"
  db_approvals :: "approval list"
  db_approval_events :: "approval_event list"
  db_plans :: "plan list"
  db_intents :: "intent list"
  db_executions :: "execution list"
  db_execution_events :: "execution_event list"
  db_jobs :: "job list"
  db_job_events :: "job_event list"
  db_revisions :: "revision list"
  db_heads :: "policy_head list"
  db_decisions :: "decision list"
  db_discovery_runs :: "discovery_run list"
  db_tasks :: "task list"
  db_audit_events :: "audit_event list"
  db_heartbeats :: "heartbeat list"
  db_matches :: "match_row list"
  db_reviews :: "review list"
  db_import_requests :: "import_request list"
  db_import_plans :: "import_plan list"
  db_import_preflights :: "import_preflight list"
  db_import_events :: "import_event list"

type_synonym 'a session = "(db, exn, 'a) handler"

definition empty_db :: db where
  "empty_db = \<lparr> db_media = [], db_runs = [], db_candidates = [], db_approvals = [], db_approval_events = [],
    db_plans = [], db_intents = [], db_executions = [], db_execution_events = [], db_jobs = [],
    db_job_events = [], db_revisions = [], db_heads = [], db_decisions = [],
    db_discovery_runs = [], db_tasks = [], db_audit_events = [], db_heartbeats = [], db_matches = [],
    db_reviews = [], db_import_requests = [], db_import_plans = [], db_import_preflights = [],
    db_import_events = [] \<rparr>"

interpretation approvals: keyed_table ar_id "row_get ar_id" "row_put ar_id" row_add
  by (rule keyed_table_rows)

interpretation intents: keyed_table ei_id "row_get ei_id" "row_put ei_id" row_add
  by (rule keyed_table_rows)

interpretation executions: keyed_table de_id "row_get de_id" "row_put de_id" row_add
  by (rule keyed_table_rows)

interpretation jobs: keyed_table dj_id "row_get dj_id" "row_put dj_id" row_add
  by (rule keyed_table_rows)

interpretation revisions: keyed_table pr_id "row_get pr_id" "row_put pr_id" row_add
  by (rule keyed_table_rows)

interpretation heads: keyed_table ph_scope "row_get ph_scope" "row_put ph_scope" row_add
  by (rule keyed_table_rows)

interpretation tasks: keyed_table tk_id "row_get tk_id" "row_put tk_id" row_add
  by (rule keyed_table_rows)

interpretation media_items: keyed_table me_id "row_get me_id" "row_put me_id" row_add
  by (rule keyed_table_rows)

interpretation import_requests: keyed_table im_id "row_get im_id" "row_put im_id" row_add
  by (rule keyed_table_rows)

section \<open>Constraints of the database\<close>

text \<open>\<open>portable_hex_check\<close>: null, or lower-case hexadecimal of one of the lengths.\<close>

definition portable_hex_check :: "string option \<Rightarrow> nat list \<Rightarrow> bool" where
  "portable_hex_check col lengths \<longleftrightarrow>
    (case col of None \<Rightarrow> True | Some h \<Rightarrow> length h \<in> set lengths \<and> list_all lower_hex_char h)"

definition origin_check :: "origin \<Rightarrow> string option \<Rightarrow> string option \<Rightarrow> launch_mode \<Rightarrow> bool" where
  "origin_check og rv dec lm \<longleftrightarrow>
    (og = OR_MANUAL \<and> rv = None \<and> dec = None)
    \<or> (og = OR_AUTOMATION \<and> rv \<noteq> None \<and> dec \<noteq> None \<and> lm = LM_ADD_PAUSED)"

definition active_approval :: "approval \<Rightarrow> bool" where
  "active_approval a \<longleftrightarrow> ar_status a \<in> {AP_PENDING, AP_APPROVED, AP_EXECUTING}"

definition intent_check :: "intent \<Rightarrow> bool" where
  "intent_check i \<longleftrightarrow>
    (if ei_status i = EI_CONSUMED then ei_consumed_at i \<noteq> None \<and> ei_consumed_by i \<noteq> None
     else ei_consumed_at i = None \<and> ei_consumed_by i = None)
    \<and> origin_check (ei_origin i) (ei_automation_policy_revision_id i) (ei_automation_decision_id i)
        (ei_launch_mode i)"

definition submission_statuses :: "execution_status list" where
  "submission_statuses = [DE_SUBMITTING, DE_SUBMITTED, DE_ALREADY_PRESENT, DE_OUTCOME_UNKNOWN,
    DE_RECONCILIATION_REQUIRED, DE_RECONCILIATION_PENDING]"

definition leased_statuses :: "execution_status list" where
  "leased_statuses = [DE_VALIDATING, DE_SUBMITTING]"

definition verified_statuses :: "execution_status list" where
  "verified_statuses = [DE_SUBMITTED, DE_ALREADY_PRESENT]"

text \<open>A check that compares a null is unknown, and SQL accepts a row whose check is unknown.\<close>

definition positive :: "int option \<Rightarrow> bool" where
  "positive x = (case x of None \<Rightarrow> True | Some n \<Rightarrow> 0 < n)"

definition hash_binding_check :: "execution \<Rightarrow> bool" where
  "hash_binding_check e \<longleftrightarrow>
    (case de_actual_info_hash e of
       None \<Rightarrow> True
     | Some h \<Rightarrow> de_actual_info_hash_v1 e = Some h
         \<or> (case de_actual_info_hash_v2 e of None \<Rightarrow> False | Some v2 \<Rightarrow> h = v2 \<or> h = take 40 v2))"

definition lease_check :: "execution \<Rightarrow> bool" where
  "lease_check e \<longleftrightarrow>
    (de_locked_at e = None) = (de_locked_by e = None) \<and> (de_locked_at e = None) = (de_lease_token e = None)
    \<and> (de_status e \<in> set leased_statuses) = (de_locked_at e \<noteq> None)"

definition bundle_check :: "execution \<Rightarrow> bool" where
  "bundle_check e \<longleftrightarrow>
    (if de_actual_info_hash e = None
     then de_actual_info_hash_v1 e = None \<and> de_actual_info_hash_v2 e = None
       \<and> de_actual_size_bytes e = None \<and> de_actual_file_count e = None
       \<and> de_validated_at e = None \<and> de_submitted_at e = None
     else (de_actual_info_hash_v1 e \<noteq> None \<or> de_actual_info_hash_v2 e \<noteq> None)
       \<and> positive (de_actual_size_bytes e) \<and> positive (de_actual_file_count e)
       \<and> de_validated_at e \<noteq> None \<and> de_submitted_at e \<noteq> None)"

definition status_check :: "execution \<Rightarrow> bool" where
  "status_check e \<longleftrightarrow>
    (de_status e = DE_CANCELLED
      \<or> (de_status e \<in> set submission_statuses) = (de_actual_info_hash e \<noteq> None))
    \<and> (de_status e \<in> set verified_statuses) = (de_verified_at e \<noteq> None)"

definition reconciliation_check :: "execution \<Rightarrow> bool" where
  "reconciliation_check e \<longleftrightarrow>
    (de_reconciliation_requested_by e = None) = (de_reconciliation_requested_at e = None)
    \<and> (de_status e = DE_RECONCILIATION_PENDING \<or> de_reconciliation_reason e \<noteq> None \<longrightarrow>
        de_reconciliation_requested_by e \<noteq> None)"

definition execution_check :: "execution \<Rightarrow> bool" where
  "execution_check e \<longleftrightarrow>
    0 \<le> de_attempts e \<and> 1 \<le> de_max_attempts e \<and> de_attempts e \<le> de_max_attempts e
    \<and> portable_hex_check (de_actual_info_hash e) [40, 64]
    \<and> portable_hex_check (de_actual_info_hash_v1 e) [40]
    \<and> portable_hex_check (de_actual_info_hash_v2 e) [64]
    \<and> hash_binding_check e \<and> lease_check e \<and> bundle_check e \<and> status_check e \<and> reconciliation_check e
    \<and> origin_check (de_origin e) (de_automation_policy_revision_id e) (de_automation_decision_id e)
        (de_launch_mode e)"

definition job_check :: "lib \<Rightarrow> job \<Rightarrow> bool" where
  "job_check L j \<longleftrightarrow>
    (dj_info_hash_v1 j \<noteq> None \<or> dj_info_hash_v2 j \<noteq> None)
    \<and> portable_hex_check (dj_info_hash_v1 j) [40] \<and> portable_hex_check (dj_info_hash_v2 j) [64]
    \<and> 0 < dj_size_bytes j \<and> 0 < dj_file_count j
    \<and> float_at_least L 0 (dj_progress j) \<and> float_at_most L 1 (dj_progress j)
    \<and> 0 \<le> dj_download_speed_bps j \<and> 0 \<le> dj_upload_speed_bps j \<and> 0 \<le> dj_downloaded_bytes j
    \<and> 0 \<le> dj_uploaded_bytes j \<and> float_at_least L (-1) (dj_ratio j)
    \<and> (dj_status j = DJ_COMPLETED \<longrightarrow> dj_completed_at j \<noteq> None)"

section \<open>Immutable columns\<close>

text \<open>
  The \<open>before_update\<close> listeners: columns that never change once the row is stored, and columns of
  an execution that are written at most once.
\<close>

definition intent_update_ok :: "intent \<Rightarrow> intent \<Rightarrow> bool" where
  "intent_update_ok i j \<longleftrightarrow> ei_approval_id i = ei_approval_id j \<and> ei_nonce_sha256 i = ei_nonce_sha256 j
    \<and> ei_approval_snapshot_hash i = ei_approval_snapshot_hash j \<and> ei_plan_hash i = ei_plan_hash j
    \<and> ei_qb_target_fingerprint i = ei_qb_target_fingerprint j \<and> ei_launch_mode i = ei_launch_mode j
    \<and> ei_origin i = ei_origin j
    \<and> ei_automation_policy_revision_id i = ei_automation_policy_revision_id j
    \<and> ei_automation_decision_id i = ei_automation_decision_id j
    \<and> ei_created_by i = ei_created_by j \<and> ei_expires_at i = ei_expires_at j"

definition write_once :: "'a option \<Rightarrow> 'a option \<Rightarrow> bool" where
  "write_once x y \<longleftrightarrow> x = None \<or> y = x"

definition execution_identity_ok :: "execution \<Rightarrow> execution \<Rightarrow> bool" where
  "execution_identity_ok d e \<longleftrightarrow> de_approval_id d = de_approval_id e \<and> de_intent_id d = de_intent_id e
    \<and> de_idempotency_key_sha256 d = de_idempotency_key_sha256 e \<and> de_request_hash d = de_request_hash e
    \<and> de_approval_snapshot_hash d = de_approval_snapshot_hash e \<and> de_plan_hash d = de_plan_hash e
    \<and> de_qb_target_fingerprint d = de_qb_target_fingerprint e \<and> de_launch_mode d = de_launch_mode e
    \<and> de_origin d = de_origin e
    \<and> de_automation_policy_revision_id d = de_automation_policy_revision_id e
    \<and> de_automation_decision_id d = de_automation_decision_id e
    \<and> de_requested_by d = de_requested_by e \<and> de_requested_at d = de_requested_at e"

definition execution_bundle_ok :: "execution \<Rightarrow> execution \<Rightarrow> bool" where
  "execution_bundle_ok d e \<longleftrightarrow> write_once (de_actual_info_hash d) (de_actual_info_hash e)
    \<and> write_once (de_actual_info_hash_v1 d) (de_actual_info_hash_v1 e)
    \<and> write_once (de_actual_info_hash_v2 d) (de_actual_info_hash_v2 e)
    \<and> write_once (de_actual_size_bytes d) (de_actual_size_bytes e)
    \<and> write_once (de_actual_file_count d) (de_actual_file_count e)
    \<and> write_once (de_validated_at d) (de_validated_at e)
    \<and> write_once (de_submitted_at d) (de_submitted_at e)
    \<and> write_once (de_verified_at d) (de_verified_at e)"

definition execution_update_ok :: "execution \<Rightarrow> execution \<Rightarrow> bool" where
  "execution_update_ok d e \<longleftrightarrow> execution_identity_ok d e \<and> execution_bundle_ok d e"

definition job_update_ok :: "job \<Rightarrow> job \<Rightarrow> bool" where
  "job_update_ok i j \<longleftrightarrow> dj_execution_id i = dj_execution_id j \<and> dj_approval_id i = dj_approval_id j
    \<and> dj_media_item_id i = dj_media_item_id j \<and> dj_release_title i = dj_release_title j
    \<and> dj_info_hash_v1 i = dj_info_hash_v1 j \<and> dj_info_hash_v2 i = dj_info_hash_v2 j
    \<and> dj_save_path_ref i = dj_save_path_ref j \<and> dj_category i = dj_category j
    \<and> dj_size_bytes i = dj_size_bytes j \<and> dj_file_count i = dj_file_count j
    \<and> dj_started_at i = dj_started_at j \<and> dj_created_at i = dj_created_at j"

lemma write_once_refl [simp]: "write_once x x"
  by (simp add: write_once_def)

lemma write_once_None [simp]: "write_once None x"
  by (simp add: write_once_def)

lemma write_once_trans: "write_once x y \<Longrightarrow> write_once y z \<Longrightarrow> write_once x z"
  by (auto simp: write_once_def)

lemma update_ok_refl [simp]:
  "intent_update_ok i i" "execution_update_ok d d" "job_update_ok j j"
  by (simp_all add: intent_update_ok_def execution_update_ok_def execution_identity_ok_def
      execution_bundle_ok_def job_update_ok_def)

lemma intent_update_ok_trans: "intent_update_ok i j \<Longrightarrow> intent_update_ok j k \<Longrightarrow> intent_update_ok i k"
  by (simp add: intent_update_ok_def)

lemma job_update_ok_trans: "job_update_ok i j \<Longrightarrow> job_update_ok j k \<Longrightarrow> job_update_ok i k"
  by (simp add: job_update_ok_def)

lemma execution_update_ok_trans:
  "execution_update_ok c d \<Longrightarrow> execution_update_ok d e \<Longrightarrow> execution_update_ok c e"
  unfolding execution_update_ok_def execution_identity_ok_def execution_bundle_ok_def
  by (intro conjI; elim conjE; (erule (1) write_once_trans | simp))

text \<open>The guard of an update: the listener sees the stored row and the new one.\<close>

definition guarded :: "('r \<Rightarrow> 'r \<Rightarrow> bool) \<Rightarrow> 'r option \<Rightarrow> 'r \<Rightarrow> unit session" where
  "guarded ok old new = raise_ifH (case old of None \<Rightarrow> False | Some x \<Rightarrow> \<not> ok x new) PyValueError"

section \<open>Writes\<close>

text \<open>Rows that have just been changed or added, flushed against the constraints.\<close>

definition save_approval :: "approval \<Rightarrow> unit session" where
  "save_approval a = modifyH (\<lambda>s. s\<lparr> db_approvals := row_put ar_id a (db_approvals s) \<rparr>)"

definition insert_approval :: "approval \<Rightarrow> unit session" where
  "insert_approval a = bindH (getH db_approvals) (\<lambda>rows.
    bindH (raise_ifH (ar_id a \<in> set (map ar_id rows)
        \<or> (active_approval a \<and> list_ex (\<lambda>b. active_approval b
              \<and> ar_torrent_candidate_id b = ar_torrent_candidate_id a) rows))
      (IntegrityErr ''approval_requests'')) (\<lambda>_.
    modifyH (\<lambda>s. s\<lparr> db_approvals := row_add a (db_approvals s) \<rparr>)))"

definition insert_approval_event :: "approval_event \<Rightarrow> unit session" where
  "insert_approval_event e = modifyH (\<lambda>s. s\<lparr> db_approval_events := row_add e (db_approval_events s) \<rparr>)"

definition insert_plan :: "plan \<Rightarrow> unit session" where
  "insert_plan p = bindH (getH db_plans) (\<lambda>rows.
    bindH (raise_ifH (dp_id p \<in> set (map dp_id rows) \<or> dp_approval_id p \<in> set (map dp_approval_id rows))
      (IntegrityErr ''download_plans'')) (\<lambda>_.
    modifyH (\<lambda>s. s\<lparr> db_plans := row_add p (db_plans s) \<rparr>)))"

definition save_intent :: "intent \<Rightarrow> unit session" where
  "save_intent i = bindH (getH (\<lambda>s. row_get ei_id (ei_id i) (db_intents s))) (\<lambda>old.
    bindH (guarded intent_update_ok old i) (\<lambda>_.
    bindH (raise_ifH (\<not> intent_check i) (IntegrityErr ''execution_intents'')) (\<lambda>_.
    modifyH (\<lambda>s. s\<lparr> db_intents := row_put ei_id i (db_intents s) \<rparr>))))"

definition insert_intent :: "intent \<Rightarrow> unit session" where
  "insert_intent i = bindH (getH db_intents) (\<lambda>rows.
    bindH (raise_ifH (\<not> intent_check i \<or> ei_id i \<in> set (map ei_id rows)
        \<or> ei_nonce_sha256 i \<in> set (map ei_nonce_sha256 rows)
        \<or> (ei_status i = EI_ACTIVE \<and> list_ex (\<lambda>j. ei_status j = EI_ACTIVE
              \<and> ei_approval_id j = ei_approval_id i) rows))
      (IntegrityErr ''execution_intents'')) (\<lambda>_.
    modifyH (\<lambda>s. s\<lparr> db_intents := row_add i (db_intents s) \<rparr>)))"

definition save_execution :: "execution \<Rightarrow> unit session" where
  "save_execution e = bindH (getH (\<lambda>s. row_get de_id (de_id e) (db_executions s))) (\<lambda>old.
    bindH (guarded execution_update_ok old e) (\<lambda>_.
    bindH (raise_ifH (\<not> execution_check e) (IntegrityErr ''download_executions'')) (\<lambda>_.
    modifyH (\<lambda>s. s\<lparr> db_executions := row_put de_id e (db_executions s) \<rparr>))))"

definition insert_execution :: "execution \<Rightarrow> unit session" where
  "insert_execution e = bindH (getH db_executions) (\<lambda>rows.
    bindH (raise_ifH (\<not> execution_check e \<or> de_id e \<in> set (map de_id rows)
        \<or> de_approval_id e \<in> set (map de_approval_id rows)
        \<or> de_intent_id e \<in> set (map de_intent_id rows)
        \<or> de_idempotency_key_sha256 e \<in> set (map de_idempotency_key_sha256 rows))
      (IntegrityErr ''download_executions'')) (\<lambda>_.
    modifyH (\<lambda>s. s\<lparr> db_executions := row_add e (db_executions s) \<rparr>)))"

definition insert_execution_event :: "execution_event \<Rightarrow> unit session" where
  "insert_execution_event e = modifyH (\<lambda>s. s\<lparr> db_execution_events := row_add e (db_execution_events s) \<rparr>)"

definition save_job :: "lib \<Rightarrow> job \<Rightarrow> unit session" where
  "save_job L j = bindH (getH (\<lambda>s. row_get dj_id (dj_id j) (db_jobs s))) (\<lambda>old.
    bindH (guarded job_update_ok old j) (\<lambda>_.
    bindH (raise_ifH (\<not> job_check L j) (IntegrityErr ''download_jobs'')) (\<lambda>_.
    modifyH (\<lambda>s. s\<lparr> db_jobs := row_put dj_id j (db_jobs s) \<rparr>))))"

definition insert_job :: "lib \<Rightarrow> job \<Rightarrow> unit session" where
  "insert_job L j = bindH (getH db_jobs) (\<lambda>rows.
    bindH (raise_ifH (\<not> job_check L j \<or> dj_id j \<in> set (map dj_id rows)
        \<or> dj_execution_id j \<in> set (map dj_execution_id rows))
      (IntegrityErr ''download_jobs'')) (\<lambda>_.
    modifyH (\<lambda>s. s\<lparr> db_jobs := row_add j (db_jobs s) \<rparr>)))"

definition insert_job_event :: "job_event \<Rightarrow> unit session" where
  "insert_job_event e = modifyH (\<lambda>s. s\<lparr> db_job_events := row_add e (db_job_events s) \<rparr>)"

lemmas write_defs =
  save_approval_def insert_approval_def insert_approval_event_def insert_plan_def save_intent_def
  insert_intent_def save_execution_def insert_execution_def insert_execution_event_def save_job_def
  insert_job_def insert_job_event_def guarded_def

section \<open>Append-only tables\<close>

text \<open>
  What the listeners of \<open>models/entities.py\<close> forbid for audit records: events, plans, policy
  revisions and decisions are only ever appended, and no approval, intent, execution or job is
  deleted. It is a preorder on stores, so the handlers inherit it from their writes.
\<close>

definition audit_grows :: "db \<Rightarrow> db \<Rightarrow> bool" where
  "audit_grows s t \<longleftrightarrow>
    prefix (db_approval_events s) (db_approval_events t) \<and> prefix (db_plans s) (db_plans t)
    \<and> prefix (db_execution_events s) (db_execution_events t)
    \<and> prefix (db_job_events s) (db_job_events t)
    \<and> prefix (db_revisions s) (db_revisions t) \<and> prefix (db_decisions s) (db_decisions t)
    \<and> prefix (map ar_id (db_approvals s)) (map ar_id (db_approvals t))
    \<and> prefix (map ei_id (db_intents s)) (map ei_id (db_intents t))
    \<and> prefix (map de_id (db_executions s)) (map de_id (db_executions t))
    \<and> prefix (map dj_id (db_jobs s)) (map dj_id (db_jobs t))"

interpretation audit: store_preorder audit_grows
proof
  show "audit_grows s s" for s by (simp add: audit_grows_def)
  show "audit_grows s t \<Longrightarrow> audit_grows t u \<Longrightarrow> audit_grows s u" for s t u
    unfolding audit_grows_def by (meson prefix_order.trans)
qed

lemma audit_modify:
  "evolves audit_grows (modifyH (\<lambda>s. s\<lparr> db_approvals := row_put ar_id a (db_approvals s) \<rparr>))"
  "evolves audit_grows (modifyH (\<lambda>s. s\<lparr> db_approvals := row_add a (db_approvals s) \<rparr>))"
  "evolves audit_grows (modifyH (\<lambda>s. s\<lparr> db_approval_events := row_add e (db_approval_events s) \<rparr>))"
  "evolves audit_grows (modifyH (\<lambda>s. s\<lparr> db_plans := row_add p (db_plans s) \<rparr>))"
  "evolves audit_grows (modifyH (\<lambda>s. s\<lparr> db_intents := row_put ei_id i (db_intents s) \<rparr>))"
  "evolves audit_grows (modifyH (\<lambda>s. s\<lparr> db_intents := row_add i (db_intents s) \<rparr>))"
  "evolves audit_grows (modifyH (\<lambda>s. s\<lparr> db_executions := row_put de_id x (db_executions s) \<rparr>))"
  "evolves audit_grows (modifyH (\<lambda>s. s\<lparr> db_executions := row_add x (db_executions s) \<rparr>))"
  "evolves audit_grows (modifyH (\<lambda>s. s\<lparr> db_execution_events := row_add f (db_execution_events s) \<rparr>))"
  "evolves audit_grows (modifyH (\<lambda>s. s\<lparr> db_jobs := row_put dj_id j (db_jobs s) \<rparr>))"
  "evolves audit_grows (modifyH (\<lambda>s. s\<lparr> db_jobs := row_add j (db_jobs s) \<rparr>))"
  "evolves audit_grows (modifyH (\<lambda>s. s\<lparr> db_job_events := row_add g (db_job_events s) \<rparr>))"
  by (rule audit.evolves_modify; simp add: audit_grows_def; simp add: row_add_def)+

lemma audit_writes [evolves_intros]:
  "evolves audit_grows (save_approval a)" "evolves audit_grows (insert_approval a)"
  "evolves audit_grows (insert_approval_event e)" "evolves audit_grows (insert_plan p)"
  "evolves audit_grows (save_intent i)" "evolves audit_grows (insert_intent i)"
  "evolves audit_grows (save_execution x)" "evolves audit_grows (insert_execution x)"
  "evolves audit_grows (insert_execution_event f)" "evolves audit_grows (save_job L j)"
  "evolves audit_grows (insert_job L j)" "evolves audit_grows (insert_job_event g)"
  unfolding write_defs
  by (intro audit.evolves_bind audit.evolves_get audit.evolves_raise_if audit_modify)+

section \<open>Rows under the guards\<close>

text \<open>
  Every row of an intent, an execution or a job that was stored is still stored, with an update
  the listeners accept. The guards make it a preorder every handler respects.
\<close>

definition rows_kept :: "('r \<Rightarrow> 'k) \<Rightarrow> ('r \<Rightarrow> 'r \<Rightarrow> bool) \<Rightarrow> 'r list \<Rightarrow> 'r list \<Rightarrow> bool" where
  "rows_kept key ok rows rows' \<longleftrightarrow>
    (\<forall>k r. row_get key k rows = Some r \<longrightarrow> (\<exists>r'. row_get key k rows' = Some r' \<and> ok r r'))"

lemma rows_kept_refl: "(\<And>r. ok r r) \<Longrightarrow> rows_kept key ok rows rows"
  by (auto simp: rows_kept_def)

lemma rows_kept_trans:
  assumes "rows_kept key ok a b" and "rows_kept key ok b c"
    and "\<And>x y z. ok x y \<Longrightarrow> ok y z \<Longrightarrow> ok x z"
  shows "rows_kept key ok a c"
  using assms unfolding rows_kept_def by meson

lemma rows_kept_add: "(\<And>r. ok r r) \<Longrightarrow> rows_kept key ok rows (row_add x rows)"
  by (auto simp: rows_kept_def row_get_add)

lemma rows_kept_put:
  "(\<And>r. ok r r) \<Longrightarrow> (\<And>old. row_get key (key x) rows = Some old \<Longrightarrow> ok old x) \<Longrightarrow>
    rows_kept key ok rows (row_put key x rows)"
  by (auto simp: rows_kept_def row_get_put)

definition guards_respected :: "db \<Rightarrow> db \<Rightarrow> bool" where
  "guards_respected s t \<longleftrightarrow>
    rows_kept ei_id intent_update_ok (db_intents s) (db_intents t)
    \<and> rows_kept de_id execution_update_ok (db_executions s) (db_executions t)
    \<and> rows_kept dj_id job_update_ok (db_jobs s) (db_jobs t)"

interpretation guards: store_preorder guards_respected
proof
  show "guards_respected s s" for s
    by (simp add: guards_respected_def rows_kept_refl)
  show "guards_respected s t \<Longrightarrow> guards_respected t u \<Longrightarrow> guards_respected s u" for s t u
    unfolding guards_respected_def
    by (blast intro: rows_kept_trans intent_update_ok_trans execution_update_ok_trans job_update_ok_trans)
qed

lemma guards_unchanged:
  "db_intents t = db_intents s \<Longrightarrow> db_executions t = db_executions s \<Longrightarrow> db_jobs t = db_jobs s \<Longrightarrow>
    guards_respected s t"
  using guards.refl_R [of s] by (simp add: guards_respected_def)

text \<open>A guarded write puts a row only over one the guard accepts.\<close>

lemma evolves_guarded_put:
  assumes "\<And>s. (\<And>old. get s = Some old \<Longrightarrow> ok old r) \<Longrightarrow> guards_respected s (f s)"
  shows "evolves guards_respected (bindH (getH get) (\<lambda>old. bindH (guarded ok old r) (\<lambda>_.
    bindH (raise_ifH b e) (\<lambda>_. modifyH f))))"
proof (rule keeps_evolves)
  fix s
  show "keeps guards_respected s (bindH (getH get) (\<lambda>old. bindH (guarded ok old r) (\<lambda>_.
    bindH (raise_ifH b e) (\<lambda>_. modifyH f))))"
    unfolding guarded_def
  proof (intro guards.keeps_get_bind guards.keeps_raise_if_bind)
    assume "\<not> (case get s of None \<Rightarrow> False | Some x \<Rightarrow> \<not> ok x r)"
    then have "guards_respected s (f s)" by (intro assms) (auto split: option.splits)
    then show "keeps guards_respected s (modifyH f)" by (simp add: keeps_def modifyH_def)
  qed
qed

lemma guards_saves [evolves_intros]:
  "evolves guards_respected (save_intent i)" "evolves guards_respected (save_execution x)"
  "evolves guards_respected (save_job L j)"
  unfolding save_intent_def save_execution_def save_job_def
  by (rule evolves_guarded_put; simp add: guards_respected_def rows_kept_refl rows_kept_put)+

lemma guards_writes [evolves_intros]:
  "evolves guards_respected (save_approval a)" "evolves guards_respected (insert_approval a)"
  "evolves guards_respected (insert_approval_event e)" "evolves guards_respected (insert_plan p)"
  "evolves guards_respected (insert_intent i)" "evolves guards_respected (insert_execution x)"
  "evolves guards_respected (insert_execution_event f)" "evolves guards_respected (insert_job L j)"
  "evolves guards_respected (insert_job_event g)"
  unfolding save_approval_def insert_approval_def insert_approval_event_def insert_plan_def insert_intent_def
    insert_execution_def insert_execution_event_def insert_job_def insert_job_event_def
  by (intro guards.evolves_bind guards.evolves_get guards.evolves_raise_if guards.evolves_modify;
      simp add: guards_respected_def rows_kept_refl rows_kept_add)+

end
