(* ===== verification/Approvals.thy ===== *)
theory Approvals
  imports Entities Preflight
begin

text \<open>
  The approval service (\<open>services/approvals.py\<close>): plan tags, the hashes that seal a snapshot and
  a plan, and the life of an approval from its request to its consumption. A handler that takes
  the \<open>ApprovalRequest\<close> object takes its row and returns the row as the code leaves it; clocks
  and new identifiers are arguments. Display texts are given by key.
\<close>

section \<open>Plan tags\<close>

definition QB_TAG_MAX_COUNT :: nat where "QB_TAG_MAX_COUNT = 20"
definition QB_TAG_MAX_LENGTH :: nat where "QB_TAG_MAX_LENGTH = 100"

text \<open>The full-width comma U+FF0C.\<close>

definition fullwidth_comma :: string where
  "fullwidth_comma = [CHR 0xEF, CHR 0xBC, CHR 0x8C]"

definition media_title_qb_tag :: "lib \<Rightarrow> string \<Rightarrow> exn + string" where
  "media_title_qb_tag L media_title =
    (let cleaned = concat (map (\<lambda>u. if u = '','' then fullwidth_comma
           else if printable1 L u then u else '' '') (chars media_title));
         normalized = strip (take_chars QB_TAG_MAX_LENGTH (join '' '' (split_space cleaned)))
     in if normalized = [] then Inl (app_err ''QB_MEDIA_TITLE_TAG_INVALID'' 409) else Inr normalized)"

definition plan_tags_invalid :: exn where
  "plan_tags_invalid = app_err ''QB_PLAN_TAGS_INVALID'' 409"

text \<open>The loop over the configured tags: the tags kept so far and the folded keys seen.\<close>

fun configured_plan_tags ::
    "lib \<Rightarrow> string list \<Rightarrow> string list \<Rightarrow> string list \<Rightarrow> exn + (string list \<times> string list)" where
  "configured_plan_tags L [] tags seen = Inr (tags, seen)"
| "configured_plan_tags L (raw_tag # rest) tags seen =
    (let tag = strip raw_tag; key = casefold L tag in
     if tag = [] \<or> \<not> isprintable L tag \<or> CHR '','' \<in> set tag \<or> QB_TAG_MAX_LENGTH < py_len tag
     then Inl plan_tags_invalid
     else if key \<in> set seen then configured_plan_tags L rest tags seen
     else configured_plan_tags L rest (tags @ [tag]) (key # seen))"

definition build_qb_plan_tags :: "lib \<Rightarrow> string list \<Rightarrow> string \<Rightarrow> exn + string list" where
  "build_qb_plan_tags L configured_tags media_title =
    bindR (configured_plan_tags L configured_tags [] []) (\<lambda>r.
    bindR (media_title_qb_tag L media_title) (\<lambda>media_tag.
    let tags = (if casefold L media_tag \<in> set (snd r) then fst r else fst r @ [media_tag]) in
    bindR (raise_if (QB_TAG_MAX_COUNT < length tags) plan_tags_invalid) (\<lambda>_. Inr tags)))"

section \<open>Seals\<close>

definition snapshot_hash :: "lib \<Rightarrow> json \<Rightarrow> string" where
  "snapshot_hash L j = sha256_hex L (dumps j)"

definition snapshot_bound :: "snapshot \<Rightarrow> approval \<Rightarrow> bool" where
  "snapshot_bound sn a \<longleftrightarrow>
    sn_media_item_id sn = ar_media_item_id a \<and> sn_torrent_candidate_id sn = ar_torrent_candidate_id a
    \<and> as_utc (sn_requested_at sn) = as_utc (ar_requested_at a)
    \<and> as_utc (sn_expires_at sn) = as_utc (ar_expires_at a)"

definition verify_snapshot :: "lib \<Rightarrow> approval \<Rightarrow> exn + snapshot" where
  "verify_snapshot L a =
    bindR (raise_if (snapshot_hash L (ar_candidate_snapshot a) \<noteq> ar_snapshot_hash a)
      (app_err ''APPROVAL_SNAPSHOT_TAMPERED'' 409)) (\<lambda>_.
    bindR (option_or (app_err ''APPROVAL_SNAPSHOT_INVALID'' 409)
      (parse_snapshot L (ar_candidate_snapshot a))) (\<lambda>sn.
    bindR (raise_if (\<not> snapshot_bound sn a) (app_err ''APPROVAL_SNAPSHOT_BINDING_INVALID'' 409)) (\<lambda>_.
    Inr sn)))"

definition validate_preflight_result :: "lib \<Rightarrow> json \<Rightarrow> exn + preflight_result" where
  "validate_preflight_result L j =
    option_or (app_err ''PREFLIGHT_RESULT_INVALID'' 409) (parse_preflight L j)"

definition plan_payload :: "plan \<Rightarrow> json" where
  "plan_payload p = JObj
    [(''approval_id'', JStr (dp_approval_id p)),
     (''approval_snapshot_hash'', JStr (dp_approval_snapshot_hash p)),
     (''preflight_policy_fingerprint'', JStr (dp_preflight_policy_fingerprint p)),
     (''site_id'', JStr (dp_site_id p)),
     (''torrent_ref'', JStr (dp_torrent_ref p)),
     (''expected_info_hash'', opt_json JStr (dp_expected_info_hash p)),
     (''release_title'', JStr (dp_release_title p)),
     (''save_path_ref'', JStr (dp_save_path_ref p)),
     (''category'', JStr (dp_category p)),
     (''tags'', JList (dp_tags p)),
     (''estimated_size_bytes'', opt_json JInt (dp_estimated_size_bytes p)),
     (''media_destination_plan'', dp_media_destination_plan p),
     (''preflight_result'', dp_preflight_result p),
     (''warnings'', JList (dp_warnings p))]"

definition download_plan_hash :: "lib \<Rightarrow> plan \<Rightarrow> string" where
  "download_plan_hash L p = snapshot_hash L (plan_payload p)"

definition tag_matches :: "lib \<Rightarrow> string \<Rightarrow> json \<Rightarrow> bool" where
  "tag_matches L folded tag = (case tag of JStr s \<Rightarrow> casefold L s = folded | _ \<Rightarrow> False)"

definition plan_binding_invalid :: exn where
  "plan_binding_invalid = app_err ''DOWNLOAD_PLAN_BINDING_INVALID'' 409"

text \<open>Two dumps are compared as Python dictionaries: the order of members does not matter.\<close>

definition verify_download_plan :: "lib \<Rightarrow> plan \<Rightarrow> approval \<Rightarrow> exn + plan" where
  "verify_download_plan L p a =
    bindR (verify_snapshot L a) (\<lambda>sn.
    bindR (raise_if (dp_plan_hash p \<noteq> download_plan_hash L p) (app_err ''DOWNLOAD_PLAN_TAMPERED'' 409)) (\<lambda>_.
    bindR (raise_if (dp_approval_id p \<noteq> ar_id a \<or> dp_approval_snapshot_hash p \<noteq> ar_snapshot_hash a)
      plan_binding_invalid) (\<lambda>_.
    bindR (raise_if (\<not> validate_internal_torrent_ref (dp_torrent_ref p)
        \<or> \<not> ref_matches_site L (dp_torrent_ref p) (dp_site_id p)
        \<or> parse_destination L (dp_media_destination_plan p) = None)
      (app_err ''DOWNLOAD_PLAN_CONTENT_INVALID'' 409)) (\<lambda>_.
    bindR (validate_preflight_result L (dp_preflight_result p)) (\<lambda>preflight.
    bindR (option_or plan_binding_invalid (ar_preflight_result a)) (\<lambda>stored.
    bindR (validate_preflight_result L stored) (\<lambda>approval_preflight.
    bindR (raise_if (pf_policy_fingerprint preflight \<noteq> dp_preflight_policy_fingerprint p
        \<or> canon (preflight_json L preflight) \<noteq> canon (preflight_json L approval_preflight))
      plan_binding_invalid) (\<lambda>_.
    bindR (media_title_qb_tag L (sn_media_title sn)) (\<lambda>tag.
    bindR (raise_if (\<not> list_ex (tag_matches L (casefold L tag)) (dp_tags p)) plan_binding_invalid) (\<lambda>_.
    Inr p))))))))))"

section \<open>Events and transitions\<close>

definition add_event ::
    "lib \<Rightarrow> approval \<Rightarrow> string \<Rightarrow> approval_status option \<Rightarrow> approval_status \<Rightarrow> string \<Rightarrow> string option
      \<Rightarrow> (string \<times> json) list \<Rightarrow> unit session" where
  "add_event L a event_type from_status to_status actor reason details =
    insert_approval_event \<lparr>
      ae_approval_request_id = ar_id a, ae_event_type = event_type,
      ae_from_status = map_option approval_status_value from_status,
      ae_to_status = approval_status_value to_status, ae_actor = actor, ae_reason = reason,
      ae_snapshot_hash = ar_snapshot_hash a,
      ae_sanitized_details = sanitize_details L (JObj details) \<rparr>"

definition decided :: "approval \<Rightarrow> approval_status \<Rightarrow> datetime \<Rightarrow> approval" where
  "decided a to_status now =
    (if to_status = AP_PENDING then a\<lparr> ar_status := to_status \<rparr>
     else a\<lparr> ar_status := to_status, ar_decided_at := Some now \<rparr>)"

definition transition ::
    "lib \<Rightarrow> approval \<Rightarrow> approval_status \<Rightarrow> string \<Rightarrow> string \<Rightarrow> string option \<Rightarrow> datetime
      \<Rightarrow> (string \<times> json) list \<Rightarrow> approval session" where
  "transition L a to_status actor event_type reason now details =
    (let a' = decided a to_status now in
     bindH (save_approval a') (\<lambda>_.
     bindH (add_event L a' event_type (Some (ar_status a)) to_status actor reason details) (\<lambda>_.
     returnH a')))"

definition is_expired :: "approval \<Rightarrow> datetime \<Rightarrow> bool" where
  "is_expired a now \<longleftrightarrow> as_utc (ar_expires_at a) \<le> as_utc now"

definition expire :: "lib \<Rightarrow> approval \<Rightarrow> datetime \<Rightarrow> approval session" where
  "expire L a now =
    transition L a AP_EXPIRED ''system'' ''EXPIRED'' (Some (text_of L ''approval validity ended'')) now []"

definition stage_expiration_if_needed :: "lib \<Rightarrow> approval \<Rightarrow> datetime \<Rightarrow> (bool \<times> approval) session" where
  "stage_expiration_if_needed L a now =
    (if ar_status a \<notin> {AP_PENDING, AP_APPROVED} then returnH (False, a)
     else if \<not> is_expired a now then returnH (False, a)
     else bindH (expire L a now) (\<lambda>a'. returnH (True, a')))"

definition approval_expired :: exn where
  "approval_expired = app_err ''APPROVAL_EXPIRED'' 409"

text \<open>The expiry test shared by the handlers: an expired status is not looked at again.\<close>

definition reject_expired :: "lib \<Rightarrow> approval \<Rightarrow> datetime \<Rightarrow> approval session" where
  "reject_expired L a now =
    (if ar_status a = AP_EXPIRED then raiseH approval_expired
     else bindH (stage_expiration_if_needed L a now) (\<lambda>r.
       bindH (raise_ifH (fst r) approval_expired) (\<lambda>_. returnH (snd r))))"

definition expire_or_require_pending :: "lib \<Rightarrow> approval \<Rightarrow> datetime \<Rightarrow> snapshot session" where
  "expire_or_require_pending L a now =
    bindH (liftH (verify_snapshot L a)) (\<lambda>sn.
    bindH (reject_expired L a now) (\<lambda>_.
    bindH (raise_ifH (ar_status a \<noteq> AP_PENDING) (app_err ''APPROVAL_NOT_PENDING'' 409)) (\<lambda>_.
    returnH sn)))"

definition require_pending_approval :: "lib \<Rightarrow> approval \<Rightarrow> datetime \<Rightarrow> snapshot session" where
  "require_pending_approval L a now = expire_or_require_pending L a now"

definition effective_status :: "approval \<Rightarrow> datetime \<Rightarrow> approval_status" where
  "effective_status a now =
    (if ar_status a \<in> {AP_PENDING, AP_APPROVED} \<and> is_expired a now then AP_EXPIRED else ar_status a)"

section \<open>Creating a request\<close>

definition active_for_candidate :: "string \<Rightarrow> db \<Rightarrow> approval option" where
  "active_for_candidate candidate_id s =
    find (\<lambda>a. ar_torrent_candidate_id a = candidate_id \<and> active_approval a) (db_approvals s)"

definition candidate_not_found :: exn where
  "candidate_not_found = app_err ''TORRENT_CANDIDATE_NOT_FOUND'' 404"

definition snapshot_of :: "lib \<Rightarrow> media_row \<Rightarrow> candidate_row \<Rightarrow> torrent_candidate \<Rightarrow> datetime \<Rightarrow> datetime \<Rightarrow> snapshot" where
  "snapshot_of L media rec c now expires_at =
    (let rule = effective_hnr_rule L (tc_site_id c) (tc_hit_and_run c);
         warnings = (if rule_known rule then filter (\<lambda>w. w \<noteq> ''HNR_UNKNOWN'') (cr_warnings rec)
           else cr_warnings rec);
         score = (case tc_match_score c of None \<Rightarrow> cr_match_score rec
           | Some r \<Rightarrow> if float_truthy L r then r else cr_match_score rec)
     in \<lparr> sn_media_item_id = me_id media, sn_media_title = me_title media,
          sn_media_type = me_media_type media, sn_tmdb_id = me_tmdb_id media, sn_year = me_year media,
          sn_torrent_candidate_id = cr_id rec, sn_site_id = tc_site_id c, sn_torrent_id = tc_torrent_id c,
          sn_torrent_ref = tc_details_ref c, sn_release_title = tc_release_title c,
          sn_size_bytes = tc_size_bytes c, sn_info_hash = tc_info_hash c, sn_season = tc_season c,
          sn_episodes = tc_episodes c, sn_resolution = tc_resolution c, sn_source = tc_source c,
          sn_subtitles = tc_subtitles c, sn_seeders = tc_seeders c,
          sn_promotion = \<lparr> ps_download_factor = tc_download_factor c, ps_upload_factor = tc_upload_factor c \<rparr>,
          sn_hit_and_run = applies rule, sn_match_score = score, sn_match_reasons = cr_match_reasons rec,
          sn_warnings = warnings, sn_requested_at = now, sn_expires_at = expires_at \<rparr>)"

text \<open>\<open>request.expires_in_minutes or settings.approval_default_ttl_minutes\<close>\<close>

definition or_default :: "int option \<Rightarrow> int \<Rightarrow> int" where
  "or_default x d = (case x of None \<Rightarrow> d | Some n \<Rightarrow> if n = 0 then d else n)"

definition clear_active_for_candidate :: "lib \<Rightarrow> string \<Rightarrow> datetime \<Rightarrow> unit session" where
  "clear_active_for_candidate L candidate_id now =
    bindH (getH (active_for_candidate candidate_id)) (\<lambda>existing.
    case existing of
      None \<Rightarrow> returnH ()
    | Some a \<Rightarrow>
        bindH (raise_ifH (ar_status a = AP_EXECUTING) (app_err ''APPROVAL_EXECUTION_IN_PROGRESS'' 409)) (\<lambda>_.
        if is_expired a now then bindH (expire L a now) (\<lambda>_. returnH ())
        else raiseH (app_err ''APPROVAL_REQUEST_DUPLICATE'' 409)))"

definition candidate_context :: "string \<Rightarrow> db \<Rightarrow> (candidate_row \<times> media_row) option" where
  "candidate_context candidate_id s =
    Option.bind (row_get cr_id candidate_id (db_candidates s)) (\<lambda>rec.
    Option.bind (row_get ru_id (cr_search_run_id rec) (db_runs s)) (\<lambda>ru.
    Option.bind (row_get me_id (ru_media_id ru) (db_media s)) (\<lambda>media. Some (rec, media))))"

definition create_approval_request ::
    "lib \<Rightarrow> string \<Rightarrow> int option \<Rightarrow> settings \<Rightarrow> string \<Rightarrow> int \<Rightarrow> string \<Rightarrow> approval session" where
  "create_approval_request L candidate_id expires_in_minutes st actor now new_id =
    bindH (getH (candidate_context candidate_id)) (\<lambda>ctx.
    bindH (liftH (option_or candidate_not_found ctx)) (\<lambda>rm.
    bindH (clear_active_for_candidate L candidate_id (Aware now)) (\<lambda>_.
    let ttl = or_default expires_in_minutes (st_approval_default_ttl_minutes st) in
    bindH (raise_ifH (st_approval_max_ttl_minutes st < ttl) (app_err ''APPROVAL_TTL_TOO_LONG'' 422)) (\<lambda>_.
    let expires_at = Aware (now + minutes ttl) in
    bindH (liftH (option_or PyValueError (parse_candidate L (cr_candidate_snapshot (fst rm))))) (\<lambda>c.
    bindH (liftH (option_or PyValueError
      (snapshot_rules L (snapshot_of L (snd rm) (fst rm) c (Aware now) expires_at)))) (\<lambda>immutable.
    let data = snapshot_json L immutable;
        a = \<lparr> ar_id = new_id, ar_media_item_id = me_id (snd rm), ar_torrent_candidate_id = cr_id (fst rm),
              ar_status = AP_PENDING, ar_candidate_snapshot = data, ar_snapshot_hash = snapshot_hash L data,
              ar_requested_by = actor, ar_requested_at = Aware now, ar_expires_at = expires_at,
              ar_decided_at = None, ar_preflight_result = None, ar_preflight_checked_at = None \<rparr> in
    bindH (insert_approval a) (\<lambda>_.
    bindH (add_event L a ''REQUESTED'' None AP_PENDING actor None
      [(''expires_at'', JStr (iso_text L expires_at))]) (\<lambda>_.
    returnH a))))))))"

definition request_compatible :: "approval \<Rightarrow> int option \<Rightarrow> exn + unit" where
  "request_compatible a expires_in_minutes =
    (case expires_in_minutes of
       None \<Rightarrow> Inr ()
     | Some n \<Rightarrow> raise_if (as_utc (ar_expires_at a) - as_utc (ar_requested_at a) \<noteq> minutes n)
         (app_err ''APPROVAL_REQUEST_INCOMPATIBLE'' 409))"

definition pending_approval_is_reusable ::
    "lib \<Rightarrow> approval option \<Rightarrow> int option \<Rightarrow> datetime \<Rightarrow> exn + bool" where
  "pending_approval_is_reusable L x expires_in_minutes now =
    (case x of
       None \<Rightarrow> Inr False
     | Some a \<Rightarrow>
         if ar_status a \<noteq> AP_PENDING \<or> is_expired a now then Inr False
         else bindR (verify_snapshot L a) (\<lambda>_.
              bindR (request_compatible a expires_in_minutes) (\<lambda>_. Inr True)))"

definition get_or_create_pending_approval_request ::
    "lib \<Rightarrow> string \<Rightarrow> int option \<Rightarrow> settings \<Rightarrow> string \<Rightarrow> int \<Rightarrow> int \<Rightarrow> int \<Rightarrow> string \<Rightarrow> (approval \<times> bool) session" where
  "get_or_create_pending_approval_request L candidate_id ttl st actor now1 now2 now3 new_id =
    bindH (getH (active_for_candidate candidate_id)) (\<lambda>existing.
    bindH (liftH (pending_approval_is_reusable L existing ttl (Aware now1))) (\<lambda>reusable.
    if reusable then returnH (the existing, False)
    else catchH
      (bindH (create_approval_request L candidate_id ttl st actor now2 new_id) (\<lambda>a. returnH (a, True)))
      (\<lambda>e. if code_of e \<noteq> ''APPROVAL_REQUEST_DUPLICATE'' then raiseH e
        else bindH (getH (\<lambda>s. find (\<lambda>a. ar_torrent_candidate_id a = candidate_id \<and> ar_status a = AP_PENDING)
               (db_approvals s))) (\<lambda>winner.
             bindH (liftH (pending_approval_is_reusable L winner ttl (Aware now3))) (\<lambda>ok.
             if ok then returnH (the winner, False) else raiseH e)))))"

section \<open>Preflight and decisions\<close>

definition get_approval_or_404 :: "lib \<Rightarrow> string \<Rightarrow> approval session" where
  "get_approval_or_404 L approval_id =
    bindH (getH (\<lambda>s. row_get ar_id approval_id (db_approvals s))) (\<lambda>x.
    bindH (liftH (option_or (app_err ''APPROVAL_REQUEST_NOT_FOUND'' 404) x)) (\<lambda>a.
    bindH (liftH (verify_snapshot L a)) (\<lambda>_. returnH a)))"

definition save_preflight_result ::
    "lib \<Rightarrow> approval \<Rightarrow> preflight_result \<Rightarrow> string \<Rightarrow> int \<Rightarrow> approval session" where
  "save_preflight_result L a result actor now =
    bindH (require_pending_approval L a (Aware now)) (\<lambda>_.
    let a' = a\<lparr> ar_preflight_result := Some (preflight_json L result),
                ar_preflight_checked_at := Some (pf_checked_at result) \<rparr> in
    bindH (save_approval a') (\<lambda>_.
    bindH (add_event L a' ''PREFLIGHT_COMPLETED'' (Some (ar_status a')) (ar_status a') (strip actor) None
      [(''overall_status'', JStr (preflight_status_value (pf_overall_status result))),
       (''check_count'', JInt (int (length (pf_checks result))))]) (\<lambda>_.
    returnH a')))"

definition validate_manual_approval_acknowledgements :: "lib \<Rightarrow> snapshot \<Rightarrow> approve_body \<Rightarrow> exn + unit" where
  "validate_manual_approval_acknowledgements L sn req =
    raise_if (\<not> (acknowledges_seeding req \<and> acknowledges_plan_only req
        \<and> (acknowledges_hnr req \<or> \<not> hnr_acknowledgement_required L (sn_site_id sn))))
      (app_err ''APPROVAL_ACKNOWLEDGEMENTS_REQUIRED'' 422)"

definition preflight_is_manually_passable :: "preflight_result \<Rightarrow> bool" where
  "preflight_is_manually_passable r \<longleftrightarrow> pf_overall_status r \<in> {PF_PASS, PF_WARNING}"

text \<open>The guards of \<open>approve_request\<close> between the pending test and the first write.\<close>

definition approval_preflight ::
    "lib \<Rightarrow> approval \<Rightarrow> settings \<Rightarrow> datetime \<Rightarrow> exn + preflight_result" where
  "approval_preflight L a st now =
    (case (ar_preflight_result a, ar_preflight_checked_at a) of
       (Some stored, Some checked) \<Rightarrow>
         bindR (validate_preflight_result L stored) (\<lambda>preflight.
         let codes = map pc_code (pf_checks preflight) in
         bindR (raise_if (length codes \<noteq> length PREFLIGHT_CHECK_CODES
             \<or> set codes \<noteq> set PREFLIGHT_CHECK_CODES) (app_err ''PREFLIGHT_CHECKS_INCOMPLETE'' 409)) (\<lambda>_.
         bindR (raise_if (as_utc checked \<noteq> as_utc (pf_checked_at preflight) \<or> as_utc now < as_utc checked)
           (app_err ''PREFLIGHT_TIMESTAMP_INVALID'' 409)) (\<lambda>_.
         bindR (raise_if (seconds (st_approval_preflight_max_age_seconds st) < as_utc now - as_utc checked)
           (app_err ''PREFLIGHT_STALE'' 409)) (\<lambda>_.
         bindR (preflight_policy_fingerprint L st) (\<lambda>fp.
         bindR (raise_if (pf_policy_fingerprint preflight \<noteq> fp)
           (app_err ''PREFLIGHT_CONFIG_CHANGED'' 409)) (\<lambda>_.
         bindR (raise_if (\<not> preflight_is_manually_passable preflight)
           (app_err_details ''PREFLIGHT_NOT_PASSABLE'' 409
             [(''overall_status'', JStr (preflight_status_value (pf_overall_status preflight)))])) (\<lambda>_.
         bindR (raise_if (falsy_str (st_qb_target_category st))
           (app_err ''DOWNLOAD_PLAN_CONFIG_MISSING'' 409)) (\<lambda>_.
         Inr preflight))))))))
     | _ \<Rightarrow> Inl (app_err ''PREFLIGHT_REQUIRED'' 409))"

definition destination_of :: "snapshot \<Rightarrow> destination" where
  "destination_of sn = \<lparr> md_media_item_id = sn_media_item_id sn, md_media_type = sn_media_type sn,
     md_tmdb_id = sn_tmdb_id sn, md_season = sn_season sn, md_episodes = sn_episodes sn \<rparr>"

definition plan_warnings :: "hnr_rule \<Rightarrow> snapshot \<Rightarrow> preflight_result \<Rightarrow> string list" where
  "plan_warnings rule sn preflight =
    dedup (filter (\<lambda>w. \<not> (rule_known rule \<and> w = ''HNR_UNKNOWN'')) (sn_warnings sn)
      @ map pc_code (filter (\<lambda>c. pc_status c = PF_WARNING) (pf_checks preflight)))"

definition plan_of ::
    "lib \<Rightarrow> approval \<Rightarrow> snapshot \<Rightarrow> preflight_result \<Rightarrow> settings \<Rightarrow> string list \<Rightarrow> string \<Rightarrow> plan" where
  "plan_of L a sn preflight st tags new_id =
    (let rule = effective_hnr_rule L (sn_site_id sn) (sn_hit_and_run sn);
         p = \<lparr> dp_id = new_id, dp_approval_id = ar_id a, dp_approval_snapshot_hash = ar_snapshot_hash a,
               dp_preflight_policy_fingerprint = pf_policy_fingerprint preflight, dp_plan_hash = [],
               dp_site_id = sn_site_id sn, dp_torrent_ref = sn_torrent_ref sn,
               dp_expected_info_hash = sn_info_hash sn, dp_release_title = sn_release_title sn,
               dp_save_path_ref = st_qb_save_path_ref st,
               dp_category = (case st_qb_target_category st of None \<Rightarrow> [] | Some c \<Rightarrow> c),
               dp_tags = map JStr tags, dp_estimated_size_bytes = sn_size_bytes sn,
               dp_media_destination_plan = destination_json (destination_of sn),
               dp_preflight_result = preflight_json L preflight,
               dp_warnings = map JStr (plan_warnings rule sn preflight) \<rparr>
     in p\<lparr> dp_plan_hash := download_plan_hash L p \<rparr>)"

definition approval_details :: "lib \<Rightarrow> snapshot \<Rightarrow> approve_body \<Rightarrow> (string \<times> json) list" where
  "approval_details L sn req =
    (let rule = effective_hnr_rule L (sn_site_id sn) (sn_hit_and_run sn) in
     [(''acknowledges_hnr'', JBool (acknowledges_hnr req)),
      (''hnr_policy_source'', JStr (hnr_source_value (rule_source rule))),
      (''hnr_minimum_seeding_days'', opt_json JInt (minimum_seeding_days rule)),
      (''acknowledges_seeding'', JBool True), (''acknowledges_plan_only'', JBool True)])"

definition approve_request ::
    "lib \<Rightarrow> approval \<Rightarrow> approve_body \<Rightarrow> settings \<Rightarrow> string \<Rightarrow> int \<Rightarrow> string \<Rightarrow> (approval \<times> plan) session" where
  "approve_request L a req st actor now new_id =
    bindH (require_pending_approval L a (Aware now)) (\<lambda>sn.
    bindH (liftH (validate_manual_approval_acknowledgements L sn req)) (\<lambda>_.
    bindH (liftH (approval_preflight L a st (Aware now))) (\<lambda>preflight.
    bindH (raise_ifH (\<not> opt_ok (\<lambda>n. 0 \<le> n) (sn_season sn)) PyValueError) (\<lambda>_.
    bindH (transition L a AP_APPROVED actor ''APPROVED'' None (Aware now) (approval_details L sn req)) (\<lambda>a'.
    bindH (liftH (build_qb_plan_tags L (st_qb_plan_tags st) (sn_media_title sn))) (\<lambda>tags.
    let p = plan_of L a' sn preflight st tags new_id in
    bindH (insert_plan p) (\<lambda>_.
    bindH (add_event L a' ''DOWNLOAD_PLAN_CREATED'' (Some AP_APPROVED) AP_APPROVED actor None
      [(''plan_hash'', JStr (dp_plan_hash p)),
       (''policy_fingerprint'', JStr (dp_preflight_policy_fingerprint p))]) (\<lambda>_.
    returnH (a', p)))))))))"

definition approve_request_automatically ::
    "lib \<Rightarrow> approval \<Rightarrow> settings \<Rightarrow> string \<Rightarrow> string \<Rightarrow> string \<Rightarrow> int \<Rightarrow> int \<Rightarrow> string \<Rightarrow> (approval \<times> plan) session" where
  "approve_request_automatically L a st actor policy_revision_id decision_id now1 now2 new_id =
    bindH (require_pending_approval L a (Aware now1)) (\<lambda>sn.
    bindH (raise_ifH (\<not> rule_known (effective_hnr_rule L (sn_site_id sn) (sn_hit_and_run sn)))
      (app_err ''HNR_UNKNOWN'' 409)) (\<lambda>_.
    bindH (liftH (option_or (app_err ''PREFLIGHT_REQUIRED'' 409) (ar_preflight_result a))) (\<lambda>stored.
    bindH (liftH (validate_preflight_result L stored)) (\<lambda>preflight.
    bindH (raise_ifH (pf_overall_status preflight \<noteq> PF_PASS)
      (app_err_details ''AUTOMATION_PREFLIGHT_NOT_PASS'' 409
        [(''overall_status'', JStr (preflight_status_value (pf_overall_status preflight)))])) (\<lambda>_.
    bindH (approve_request L a
      \<lparr> acknowledges_hnr = hnr_acknowledgement_required L (sn_site_id sn),
         acknowledges_seeding = True, acknowledges_plan_only = True \<rparr> st actor now2 new_id) (\<lambda>r.
    bindH (add_event L (fst r) ''AUTOMATION_POLICY_BOUND'' (Some AP_APPROVED) AP_APPROVED actor None
      [(''automation_policy_revision_id'', JStr policy_revision_id),
       (''automation_decision_id'', JStr decision_id),
       (''preflight_requirement'', JStr ''PASS_ONLY'')]) (\<lambda>_.
    returnH r)))))))"

text \<open>\<open>request.reason.strip() if request.reason else None\<close>\<close>

definition stripped_reason :: "string option \<Rightarrow> string option" where
  "stripped_reason r = (case r of None \<Rightarrow> None | Some t \<Rightarrow> if t = [] then None else Some (strip t))"

definition reject_request :: "lib \<Rightarrow> approval \<Rightarrow> string option \<Rightarrow> string \<Rightarrow> int \<Rightarrow> approval session" where
  "reject_request L a reason actor now =
    bindH (require_pending_approval L a (Aware now)) (\<lambda>_.
    transition L a AP_REJECTED actor ''REJECTED'' (stripped_reason reason) (Aware now) [])"

definition revoke_request :: "lib \<Rightarrow> approval \<Rightarrow> string option \<Rightarrow> string \<Rightarrow> int \<Rightarrow> approval session" where
  "revoke_request L a reason actor now =
    bindH (liftH (verify_snapshot L a)) (\<lambda>_.
    bindH (reject_expired L a (Aware now)) (\<lambda>_.
    bindH (raise_ifH (ar_status a = AP_EXECUTING) (app_err ''APPROVAL_EXECUTION_IN_PROGRESS'' 409)) (\<lambda>_.
    bindH (raise_ifH (ar_status a \<noteq> AP_APPROVED) (app_err ''APPROVAL_NOT_REVOCABLE'' 409)) (\<lambda>_.
    transition L a AP_REVOKED actor ''REVOKED'' (stripped_reason reason) (Aware now) []))))"

definition plan_for_approval :: "string \<Rightarrow> db \<Rightarrow> plan option" where
  "plan_for_approval approval_id s = find (\<lambda>p. dp_approval_id p = approval_id) (db_plans s)"

definition consume_approval :: "lib \<Rightarrow> string \<Rightarrow> string \<Rightarrow> int \<Rightarrow> approval session" where
  "consume_approval L approval_id actor now =
    bindH (getH (\<lambda>s. row_get ar_id approval_id (db_approvals s))) (\<lambda>x.
    bindH (liftH (option_or (app_err ''APPROVAL_REQUEST_NOT_FOUND'' 404) x)) (\<lambda>a.
    bindH (liftH (verify_snapshot L a)) (\<lambda>_.
    bindH (raise_ifH (ar_status a = AP_CONSUMED) (app_err ''APPROVAL_ALREADY_CONSUMED'' 409)) (\<lambda>_.
    bindH (reject_expired L a (Aware now)) (\<lambda>_.
    bindH (raise_ifH (ar_status a \<noteq> AP_EXECUTING) (app_err ''APPROVAL_NOT_CONSUMABLE'' 409)) (\<lambda>_.
    bindH (getH (plan_for_approval (ar_id a))) (\<lambda>pl.
    bindH (liftH (option_or (app_err ''DOWNLOAD_PLAN_NOT_FOUND'' 409) pl)) (\<lambda>p.
    bindH (liftH (verify_download_plan L p a)) (\<lambda>_.
    transition L a AP_CONSUMED (strip actor) ''CONSUMED'' None (Aware now) [])))))))))"

definition get_download_plan :: "lib \<Rightarrow> string \<Rightarrow> plan session" where
  "get_download_plan L approval_id =
    bindH (getH (\<lambda>s. row_get ar_id approval_id (db_approvals s))) (\<lambda>x.
    bindH (liftH (option_or (app_err ''APPROVAL_REQUEST_NOT_FOUND'' 404) x)) (\<lambda>a.
    bindH (getH (plan_for_approval approval_id)) (\<lambda>pl.
    bindH (liftH (option_or (app_err ''DOWNLOAD_PLAN_NOT_FOUND'' 404) pl)) (\<lambda>p.
    liftH (verify_download_plan L p a)))))"

section \<open>The audit trail of the handlers\<close>

lemmas approval_handler_defs =
  expire_def transition_def add_event_def Let_def

lemma audit_add_event [evolves_intros]: "evolves audit_grows (add_event L a ty fs ts actor reason details)"
  unfolding add_event_def by (rule audit_writes)

lemma audit_transition [evolves_intros]: "evolves audit_grows (transition L a ts actor ty reason now details)"
  unfolding transition_def Let_def
  by (intro audit.evolves_rules evolves_intros)

lemma audit_expire [evolves_intros]: "evolves audit_grows (expire L a now)"
  unfolding expire_def by (rule audit_transition)

lemma audit_stage_expiration [evolves_intros]: "evolves audit_grows (stage_expiration_if_needed L a now)"
  unfolding stage_expiration_if_needed_def by (intro audit.evolves_rules evolves_intros)

lemma audit_reject_expired [evolves_intros]: "evolves audit_grows (reject_expired L a now)"
  unfolding reject_expired_def by (intro audit.evolves_rules evolves_intros)

lemma audit_require_pending [evolves_intros]: "evolves audit_grows (require_pending_approval L a now)"
  unfolding require_pending_approval_def expire_or_require_pending_def
  by (intro audit.evolves_rules evolves_intros)

lemma audit_clear_active [evolves_intros]: "evolves audit_grows (clear_active_for_candidate L c now)"
  unfolding clear_active_for_candidate_def by (intro audit.evolves_rules evolves_intros)

lemma audit_create [evolves_intros]: "evolves audit_grows (create_approval_request L c ttl st actor now nid)"
  unfolding create_approval_request_def Let_def by (intro audit.evolves_rules evolves_intros)

lemma audit_get_or_create [evolves_intros]:
  "evolves audit_grows (get_or_create_pending_approval_request L c ttl st actor n1 n2 n3 nid)"
  unfolding get_or_create_pending_approval_request_def
  by (intro audit.evolves_rules audit.evolves_catch evolves_intros)

lemma audit_get_approval [evolves_intros]: "evolves audit_grows (get_approval_or_404 L i)"
  unfolding get_approval_or_404_def by (intro audit.evolves_rules evolves_intros)

lemma audit_save_preflight [evolves_intros]: "evolves audit_grows (save_preflight_result L a r actor now)"
  unfolding save_preflight_result_def Let_def by (intro audit.evolves_rules evolves_intros)

lemma audit_approve [evolves_intros]: "evolves audit_grows (approve_request L a req st actor now nid)"
  unfolding approve_request_def Let_def by (intro audit.evolves_rules evolves_intros)

lemma audit_approve_auto [evolves_intros]:
  "evolves audit_grows (approve_request_automatically L a st actor rv dc n1 n2 nid)"
  unfolding approve_request_automatically_def by (intro audit.evolves_rules evolves_intros)

lemma audit_reject [evolves_intros]: "evolves audit_grows (reject_request L a reason actor now)"
  unfolding reject_request_def by (intro audit.evolves_rules evolves_intros)

lemma audit_revoke [evolves_intros]: "evolves audit_grows (revoke_request L a reason actor now)"
  unfolding revoke_request_def by (intro audit.evolves_rules evolves_intros)

lemma audit_consume [evolves_intros]: "evolves audit_grows (consume_approval L i actor now)"
  unfolding consume_approval_def by (intro audit.evolves_rules evolves_intros)

section \<open>The life of an approval\<close>

text \<open>The statuses an approval can still reach from a status, itself included.\<close>

definition approval_reach :: "approval_status \<Rightarrow> approval_status list" where
  "approval_reach st =
    (case st of
       AP_PENDING \<Rightarrow> [AP_PENDING, AP_APPROVED, AP_EXECUTING, AP_REJECTED, AP_EXPIRED, AP_REVOKED, AP_CONSUMED]
     | AP_APPROVED \<Rightarrow> [AP_APPROVED, AP_EXECUTING, AP_EXPIRED, AP_REVOKED, AP_CONSUMED]
     | AP_EXECUTING \<Rightarrow> [AP_EXECUTING, AP_CONSUMED, AP_REVOKED]
     | _ \<Rightarrow> [st])"

lemma approval_reach_refl: "st \<in> set (approval_reach st)"
  by (cases st) (simp_all add: approval_reach_def)

lemma approval_reach_trans:
  "b \<in> set (approval_reach a) \<Longrightarrow> c \<in> set (approval_reach b) \<Longrightarrow> c \<in> set (approval_reach a)"
  by (cases a; cases b) (auto simp: approval_reach_def)

text \<open>The columns of \<open>_APPROVAL_IMMUTABLE_FIELDS\<close>.\<close>

definition same_approval :: "approval \<Rightarrow> approval \<Rightarrow> bool" where
  "same_approval a b \<longleftrightarrow> ar_id a = ar_id b \<and> ar_media_item_id a = ar_media_item_id b
    \<and> ar_torrent_candidate_id a = ar_torrent_candidate_id b
    \<and> ar_candidate_snapshot a = ar_candidate_snapshot b \<and> ar_snapshot_hash a = ar_snapshot_hash b
    \<and> ar_requested_by a = ar_requested_by b \<and> ar_requested_at a = ar_requested_at b
    \<and> ar_expires_at a = ar_expires_at b"

definition lifecycle :: "db \<Rightarrow> db \<Rightarrow> bool" where
  "lifecycle s t \<longleftrightarrow> (\<forall>k a. row_get ar_id k (db_approvals s) = Some a \<longrightarrow>
    (\<exists>b. row_get ar_id k (db_approvals t) = Some b \<and> same_approval a b
      \<and> ar_status b \<in> set (approval_reach (ar_status a))))"

lemma same_approval_refl [simp]: "same_approval a a"
  by (simp add: same_approval_def)

lemma same_approval_trans: "same_approval a b \<Longrightarrow> same_approval b c \<Longrightarrow> same_approval a c"
  by (simp add: same_approval_def)

interpretation lifecycle: store_preorder lifecycle
proof
  show "lifecycle s s" for s
    by (auto simp: lifecycle_def approval_reach_refl)
  show "lifecycle s t \<Longrightarrow> lifecycle t u \<Longrightarrow> lifecycle s u" for s t u
    unfolding lifecycle_def by (meson approval_reach_trans same_approval_trans)
qed

definition current :: "db \<Rightarrow> approval \<Rightarrow> bool" where
  "current s a \<longleftrightarrow> row_get ar_id (ar_id a) (db_approvals s) = Some a"

lemma lifecycle_unchanged: "db_approvals t = db_approvals s \<Longrightarrow> lifecycle s t"
  using lifecycle.refl_R [of s] by (simp add: lifecycle_def)

lemma lifecycle_put:
  assumes "current s a" and "same_approval a b" and "ar_status b \<in> set (approval_reach (ar_status a))"
  shows "lifecycle s (s\<lparr> db_approvals := row_put ar_id b (db_approvals s) \<rparr>)"
  using assms
  by (auto simp: lifecycle_def current_def row_get_put approval_reach_refl same_approval_def)

lemma lifecycle_add: "lifecycle s (s\<lparr> db_approvals := row_add a (db_approvals s) \<rparr>)"
  by (auto simp: lifecycle_def row_get_add approval_reach_refl)

lemma current_put: "current s a \<Longrightarrow> ar_id b = ar_id a \<Longrightarrow>
    current (s\<lparr> db_approvals := row_put ar_id b (db_approvals s) \<rparr>) b"
  by (simp add: current_def row_get_put)

lemma lifecycle_other_writes [evolves_intros]:
  "evolves lifecycle (insert_approval a)" "evolves lifecycle (insert_approval_event e)"
  "evolves lifecycle (insert_plan p)" "evolves lifecycle (save_intent i)" "evolves lifecycle (insert_intent i)"
  "evolves lifecycle (save_execution x)" "evolves lifecycle (insert_execution x)"
  "evolves lifecycle (insert_execution_event f)" "evolves lifecycle (save_job L j)"
  "evolves lifecycle (insert_job L j)" "evolves lifecycle (insert_job_event g)"
  "evolves lifecycle (add_event L a ty fs ts actor reason details)"
  unfolding write_defs add_event_def
  by (intro lifecycle.evolves_bind lifecycle.evolves_get lifecycle.evolves_raise_if lifecycle.evolves_modify
      lifecycle_add lifecycle_unchanged; simp)+

text \<open>A transition, with the row it leaves and the event it appends.\<close>

definition approval_event_of ::
    "lib \<Rightarrow> approval \<Rightarrow> string \<Rightarrow> approval_status option \<Rightarrow> approval_status \<Rightarrow> string \<Rightarrow> string option
      \<Rightarrow> (string \<times> json) list \<Rightarrow> approval_event" where
  "approval_event_of L a event_type from_status to_status actor reason details = \<lparr>
      ae_approval_request_id = ar_id a, ae_event_type = event_type,
      ae_from_status = map_option approval_status_value from_status,
      ae_to_status = approval_status_value to_status, ae_actor = actor, ae_reason = reason,
      ae_snapshot_hash = ar_snapshot_hash a,
      ae_sanitized_details = sanitize_details L (JObj details) \<rparr>"

lemma add_event_run:
  "add_event L a ty fs ts actor reason details s =
    (Inr (), s\<lparr> db_approval_events :=
      db_approval_events s @ [approval_event_of L a ty fs ts actor reason details] \<rparr>)"
  by (simp add: add_event_def insert_approval_event_def modifyH_def row_add_def approval_event_of_def)

lemma transition_run:
  "transition L a ts actor ty reason now details s =
    (Inr (decided a ts now), s\<lparr> db_approvals := row_put ar_id (decided a ts now) (db_approvals s),
      db_approval_events := db_approval_events s
        @ [approval_event_of L (decided a ts now) ty (Some (ar_status a)) ts actor reason details] \<rparr>)"
  by (simp add: transition_def Let_def save_approval_def modifyH_def bindH_def add_event_run returnH_def)

lemma decided_simps [simp]:
  "ar_id (decided a ts now) = ar_id a" "ar_status (decided a ts now) = ts"
  "same_approval a (decided a ts now)" "ar_snapshot_hash (decided a ts now) = ar_snapshot_hash a"
  "ar_preflight_result (decided a ts now) = ar_preflight_result a"
  "ar_candidate_snapshot (decided a ts now) = ar_candidate_snapshot a"
  by (simp_all add: decided_def same_approval_def)

lemma keeps_transition:
  assumes "current s a" and "ts \<in> set (approval_reach (ar_status a))"
  shows "keeps lifecycle s (transition L a ts actor ty reason now details)"
  using lifecycle_put [OF assms(1), of "decided a ts now"] assms(2)
  by (simp add: keeps_def transition_run lifecycle_def)

lemma current_transition:
  "current s a \<Longrightarrow> transition L a ts actor ty reason now details s = (Inr b, t) \<Longrightarrow> current t b"
  by (auto simp: transition_run current_def row_get_put)

end
