(* ===== verification/ApprovalLaws.thy ===== *)
theory ApprovalLaws
  imports Approvals
begin

text \<open>
  The properties of the approval service: what the seals of a snapshot and of a plan detect,
  what a created and an approved request guarantee, which approval can never succeed, and the
  statuses a handler can lead to.
\<close>

section \<open>Plan tags\<close>

lemma configured_plan_tags_Cons:
  "configured_plan_tags L (raw # rest) tags seen = Inr r \<longleftrightarrow>
    strip raw \<noteq> [] \<and> isprintable L (strip raw) \<and> CHR '','' \<notin> set (strip raw) \<and> py_len (strip raw) \<le> QB_TAG_MAX_LENGTH
    \<and> (if casefold L (strip raw) \<in> set seen then configured_plan_tags L rest tags seen = Inr r
       else configured_plan_tags L rest (tags @ [strip raw]) (casefold L (strip raw) # seen) = Inr r)"
  by (cases "strip raw = []"; cases "isprintable L (strip raw)"; cases "CHR '','' \<in> set (strip raw)";
      cases "QB_TAG_MAX_LENGTH < py_len (strip raw)") (simp_all add: Let_def not_less)

lemma configured_plan_tags_facts:
  assumes "configured_plan_tags L raw tags seen = Inr (tags', seen')"
    and "set seen = casefold L ` set tags" and "distinct (map (casefold L) tags)"
  shows "set seen' = casefold L ` set tags' \<and> distinct (map (casefold L) tags')
    \<and> set seen' = set seen \<union> casefold L ` strip ` set raw
    \<and> set tags' \<subseteq> set tags \<union> {t \<in> strip ` set raw. t \<noteq> [] \<and> isprintable L t \<and> CHR '','' \<notin> set t
        \<and> py_len t \<le> QB_TAG_MAX_LENGTH}"
  using assms
proof (induction raw arbitrary: tags seen)
  case Nil
  then show ?case by simp
next
  case (Cons raw rest)
  note c = Cons.prems(1) [unfolded configured_plan_tags_Cons]
  show ?case
  proof (cases "casefold L (strip raw) \<in> set seen")
    case True
    with c have "configured_plan_tags L rest tags seen = Inr (tags', seen')" by simp
    from Cons.IH [OF this Cons.prems(2,3)] True show ?thesis by auto
  next
    case False
    with c have "configured_plan_tags L rest (tags @ [strip raw]) (casefold L (strip raw) # seen) = Inr (tags', seen')"
      by simp
    moreover have "set (casefold L (strip raw) # seen) = casefold L ` set (tags @ [strip raw])"
      "distinct (map (casefold L) (tags @ [strip raw]))"
      using Cons.prems(2,3) False by auto
    ultimately have ih: "set seen' = casefold L ` set tags' \<and> distinct (map (casefold L) tags')
      \<and> set seen' = set (casefold L (strip raw) # seen) \<union> casefold L ` strip ` set rest
      \<and> set tags' \<subseteq> set (tags @ [strip raw]) \<union> {t \<in> strip ` set rest. t \<noteq> [] \<and> isprintable L t
          \<and> CHR '','' \<notin> set t \<and> py_len t \<le> QB_TAG_MAX_LENGTH}"
      by (rule Cons.IH)
    with c show ?thesis by auto
  qed
qed

lemma build_qb_plan_tags_Inr:
  assumes "build_qb_plan_tags L cfg title = Inr tags"
  obtains base seen tag where "configured_plan_tags L cfg [] [] = Inr (base, seen)"
    "media_title_qb_tag L title = Inr tag" "length tags \<le> QB_TAG_MAX_COUNT"
    "tags = (if casefold L tag \<in> set seen then base else base @ [tag])"
proof -
  obtain r tag where r: "configured_plan_tags L cfg [] [] = Inr r" "media_title_qb_tag L title = Inr tag"
    "length tags \<le> QB_TAG_MAX_COUNT" "tags = (if casefold L tag \<in> set (snd r) then fst r else fst r @ [tag])"
    using assms unfolding build_qb_plan_tags_def bindR_Inr_iff raise_if_Inr_iff Let_def not_less
    by (elim exE conjE) simp
  show thesis using r that [of "fst r" "snd r"] by simp
qed

lemma build_qb_plan_tags_media:
  assumes "build_qb_plan_tags L cfg title = Inr tags" and "media_title_qb_tag L title = Inr tag"
  shows "list_ex (tag_matches L (casefold L tag)) (map JStr tags)"
proof -
  obtain base seen where b: "configured_plan_tags L cfg [] [] = Inr (base, seen)"
    "tags = (if casefold L tag \<in> set seen then base else base @ [tag])"
    using build_qb_plan_tags_Inr [OF assms(1)] assms(2) by (metis Inr_inject)
  have "set seen = casefold L ` set base" using configured_plan_tags_facts [OF b(1)] by simp
  then show ?thesis using b(2) by (auto simp: list_ex_iff tag_matches_def)
qed

text \<open>The tags of a plan: at most twenty, no two of them equal under case folding, one for
  every configured tag and one for the media title, and every tag that is not the media tag is
  a trimmed configured tag that is printable, not empty, free of commas and not too long.\<close>
theorem build_qb_plan_tags_sound:
  assumes "build_qb_plan_tags L cfg title = Inr tags"
  shows "\<exists>tag. media_title_qb_tag L title = Inr tag \<and> tag \<noteq> [] \<and> length tags \<le> QB_TAG_MAX_COUNT
    \<and> distinct (map (casefold L) tags)
    \<and> casefold L ` set tags = insert (casefold L tag) (casefold L ` strip ` set cfg)
    \<and> (\<forall>t \<in> set tags. t = tag \<or> (t \<in> strip ` set cfg \<and> t \<noteq> [] \<and> isprintable L t
          \<and> CHR '','' \<notin> set t \<and> py_len t \<le> QB_TAG_MAX_LENGTH))"
proof -
  obtain base seen tag where b: "configured_plan_tags L cfg [] [] = Inr (base, seen)"
    and tag: "media_title_qb_tag L title = Inr tag" and len: "length tags \<le> QB_TAG_MAX_COUNT"
    and tags: "tags = (if casefold L tag \<in> set seen then base else base @ [tag])"
    by (rule build_qb_plan_tags_Inr [OF assms])
  note f = configured_plan_tags_facts [OF b, unfolded list.set(1) image_empty list.map(1) distinct.simps(1)
      Un_empty_left, OF refl TrueI]
  have "tag \<noteq> []" using tag by (auto simp: media_title_qb_tag_def Let_def split: if_splits)
  moreover have "distinct (map (casefold L) tags)" using f by (auto simp: tags)
  moreover have "casefold L ` set tags = insert (casefold L tag) (casefold L ` strip ` set cfg)"
  proof -
    have "casefold L ` set base = casefold L ` strip ` set cfg" "set seen = casefold L ` set base"
      using f by (elim conjE, metis)+
    then show ?thesis by (auto simp: tags)
  qed
  moreover have "\<forall>t \<in> set tags. t = tag \<or> (t \<in> strip ` set cfg \<and> t \<noteq> [] \<and> isprintable L t
          \<and> CHR '','' \<notin> set t \<and> py_len t \<le> QB_TAG_MAX_LENGTH)"
    using f by (auto simp: tags split: if_splits)
  ultimately show ?thesis using tag len by blast
qed

lemma build_qb_plan_tags_sound_witness:
  "build_qb_plan_tags example_lib ['' UHD '', ''uhd'', ''unin''] ''A, B'' = Inr [''UHD'', ''unin'', ''A'' @ fullwidth_comma @ '' B'']
    \<and> casefold example_lib ` set [''UHD'', ''unin'', ''A'' @ fullwidth_comma @ '' B'']
        = insert (casefold example_lib (''A'' @ fullwidth_comma @ '' B''))
            (casefold example_lib ` strip ` set ['' UHD '', ''uhd'', ''unin''])"
proof -
  have run: "build_qb_plan_tags example_lib ['' UHD '', ''uhd'', ''unin''] ''A, B''
      = Inr [''UHD'', ''unin'', ''A'' @ fullwidth_comma @ '' B'']"
    "media_title_qb_tag example_lib ''A, B'' = Inr (''A'' @ fullwidth_comma @ '' B'')"
    by code_simp+
  show ?thesis using build_qb_plan_tags_sound [OF run(1)] run by (metis Inr_inject)
qed

section \<open>Seals\<close>

lemma verify_snapshot_Inr:
  "verify_snapshot L a = Inr sn \<longleftrightarrow> snapshot_hash L (ar_candidate_snapshot a) = ar_snapshot_hash a
    \<and> parse_snapshot L (ar_candidate_snapshot a) = Some sn \<and> snapshot_bound sn a"
  by (auto simp: verify_snapshot_def bindR_Inr_iff raise_if_Inr_iff option_or_Inr_iff)

lemma verify_snapshot_same: "same_approval a b \<Longrightarrow> verify_snapshot L a = verify_snapshot L b"
  by (simp add: verify_snapshot_def same_approval_def snapshot_bound_def)

lemma sealed_eq:
  assumes "snapshot_hash L j = snapshot_hash L k" and "json_wf j" and "json_wf k"
    and "inj_on (sha256_hex L) {dumps j, dumps k}"
  shows "canon j = canon k"
  using assms by (intro sealed_canon [of L]) (simp_all add: snapshot_hash_def)

text \<open>An approval for a snapshot that is valid until 9, and parameters that read timestamps back.\<close>

definition clock_lib :: lib where
  "clock_lib = example_lib\<lparr> sha256_hex := (\<lambda>s. s),
     parse_dt := (\<lambda>j. case j of JStr s \<Rightarrow> Some (Aware (int (read_nat s))) | _ \<Rightarrow> None) \<rparr>"

definition open_snapshot :: snapshot where
  "open_snapshot = example_snapshot\<lparr> sn_expires_at := Aware 9 \<rparr>"

definition example_approval :: "lib \<Rightarrow> approval" where
  "example_approval L = \<lparr> ar_id = ''a1'', ar_media_item_id = ''m1'', ar_torrent_candidate_id = ''c1'',
     ar_status = AP_PENDING, ar_candidate_snapshot = snapshot_json L open_snapshot,
     ar_snapshot_hash = snapshot_hash L (snapshot_json L open_snapshot), ar_requested_by = ''admin'',
     ar_requested_at = Aware 0, ar_expires_at = Aware 9, ar_decided_at = None, ar_preflight_result = None,
     ar_preflight_checked_at = None \<rparr>"

lemma clock_roundtrip: "0 \<le> t \<Longrightarrow> dt_roundtrip clock_lib (Aware t)"
  by (simp add: dt_roundtrip_def clock_lib_def example_lib_def show_int_def read_show_nat)

lemma open_snapshot_parse:
  "parse_snapshot clock_lib (snapshot_json clock_lib open_snapshot) = Some open_snapshot"
proof (rule parse_snapshot_json)
  show "snapshot_rules clock_lib open_snapshot = Some open_snapshot" by code_simp
  show "dt_roundtrip clock_lib (sn_requested_at open_snapshot)"
    "dt_roundtrip clock_lib (sn_expires_at open_snapshot)"
    by (simp_all add: clock_roundtrip open_snapshot_def example_snapshot_def)
qed

lemma example_approval_simps [simp]:
  "ar_id (example_approval L) = ''a1''" "ar_status (example_approval L) = AP_PENDING"
  "ar_candidate_snapshot (example_approval L) = snapshot_json L open_snapshot"
  "ar_snapshot_hash (example_approval L) = snapshot_hash L (snapshot_json L open_snapshot)"
  "ar_expires_at (example_approval L) = Aware 9" "ar_preflight_result (example_approval L) = None"
  "ar_torrent_candidate_id (example_approval L) = ''c1''"
  "snapshot_bound open_snapshot (example_approval L)"
  by (simp_all add: example_approval_def snapshot_bound_def open_snapshot_def example_snapshot_def)

lemma example_verified: "verify_snapshot clock_lib (example_approval clock_lib) = Inr open_snapshot"
  by (simp add: verify_snapshot_Inr open_snapshot_parse)

text \<open>The seal of a snapshot. Take a row that verifies and any other row with the same stored
  hash, no collision between the two canonical texts assumed: when the stored JSON differs by
  more than member order, the verification raises APPROVAL_SNAPSHOT_TAMPERED; when the JSON is
  the same, it succeeds with the same snapshot, unless the row's media item, candidate or dates
  were changed, which raises APPROVAL_SNAPSHOT_BINDING_INVALID.\<close>
theorem snapshot_seal_detects:
  assumes "verify_snapshot L a = Inr sn" and "ar_snapshot_hash b = ar_snapshot_hash a"
    and "json_wf (ar_candidate_snapshot a)" and "json_wf (ar_candidate_snapshot b)"
    and "inj_on (sha256_hex L) {dumps (ar_candidate_snapshot b), dumps (ar_candidate_snapshot a)}"
  shows "(canon (ar_candidate_snapshot b) \<noteq> canon (ar_candidate_snapshot a) \<longrightarrow>
      verify_snapshot L b = Inl (app_err ''APPROVAL_SNAPSHOT_TAMPERED'' 409))
    \<and> (ar_candidate_snapshot b = ar_candidate_snapshot a \<longrightarrow>
      verify_snapshot L b =
        (if ar_media_item_id b = ar_media_item_id a \<and> ar_torrent_candidate_id b = ar_torrent_candidate_id a
            \<and> as_utc (ar_requested_at b) = as_utc (ar_requested_at a)
            \<and> as_utc (ar_expires_at b) = as_utc (ar_expires_at a)
         then Inr sn else Inl (app_err ''APPROVAL_SNAPSHOT_BINDING_INVALID'' 409)))"
proof (intro conjI impI)
  note a = assms(1) [unfolded verify_snapshot_Inr]
  assume "canon (ar_candidate_snapshot b) \<noteq> canon (ar_candidate_snapshot a)"
  then have "snapshot_hash L (ar_candidate_snapshot b) \<noteq> snapshot_hash L (ar_candidate_snapshot a)"
    using sealed_eq [OF _ assms(4,3,5)] by blast
  then have "snapshot_hash L (ar_candidate_snapshot b) \<noteq> ar_snapshot_hash b" using a assms(2) by simp
  then show "verify_snapshot L b = Inl (app_err ''APPROVAL_SNAPSHOT_TAMPERED'' 409)"
    by (simp add: verify_snapshot_def)
next
  note a = assms(1) [unfolded verify_snapshot_Inr]
  assume same: "ar_candidate_snapshot b = ar_candidate_snapshot a"
  have "snapshot_bound sn b \<longleftrightarrow> ar_media_item_id b = ar_media_item_id a
      \<and> ar_torrent_candidate_id b = ar_torrent_candidate_id a
      \<and> as_utc (ar_requested_at b) = as_utc (ar_requested_at a)
      \<and> as_utc (ar_expires_at b) = as_utc (ar_expires_at a)"
    using a by (auto simp: snapshot_bound_def)
  then show "verify_snapshot L b = (if ar_media_item_id b = ar_media_item_id a
      \<and> ar_torrent_candidate_id b = ar_torrent_candidate_id a
      \<and> as_utc (ar_requested_at b) = as_utc (ar_requested_at a)
      \<and> as_utc (ar_expires_at b) = as_utc (ar_expires_at a)
    then Inr sn else Inl (app_err ''APPROVAL_SNAPSHOT_BINDING_INVALID'' 409))"
    using a assms(2) same by (simp add: verify_snapshot_def)
qed

lemma snapshot_seal_detects_witness:
  "verify_snapshot clock_lib ((example_approval clock_lib)\<lparr> ar_media_item_id := ''m2'' \<rparr>)
      = Inl (app_err ''APPROVAL_SNAPSHOT_BINDING_INVALID'' 409)
    \<and> verify_snapshot clock_lib ((example_approval clock_lib)\<lparr> ar_candidate_snapshot := JNull \<rparr>)
      = Inl (app_err ''APPROVAL_SNAPSHOT_TAMPERED'' 409)"
proof
  let ?a = "example_approval clock_lib"
  have inj: "inj_on (sha256_hex clock_lib) A" for A by (simp add: inj_on_def clock_lib_def)
  have wf: "json_wf (ar_candidate_snapshot ?a)" by code_simp
  show "verify_snapshot clock_lib (?a\<lparr> ar_media_item_id := ''m2'' \<rparr>)
      = Inl (app_err ''APPROVAL_SNAPSHOT_BINDING_INVALID'' 409)"
    using snapshot_seal_detects [OF example_verified _ wf _ inj, of "?a\<lparr> ar_media_item_id := ''m2'' \<rparr>"] wf
    by simp (simp add: example_approval_def)
  show "verify_snapshot clock_lib (?a\<lparr> ar_candidate_snapshot := JNull \<rparr>)
      = Inl (app_err ''APPROVAL_SNAPSHOT_TAMPERED'' 409)"
    using snapshot_seal_detects [OF example_verified _ wf _ inj, of "?a\<lparr> ar_candidate_snapshot := JNull \<rparr>"]
    by simp (simp add: example_approval_def snapshot_json_def)
qed

lemma verify_download_plan_run:
  assumes "verify_download_plan L p a = Inr q"
  obtains sn pre stored pre' tag where "q = p" "verify_snapshot L a = Inr sn"
    "dp_plan_hash p = download_plan_hash L p"
    "dp_approval_id p = ar_id a" "dp_approval_snapshot_hash p = ar_snapshot_hash a"
    "validate_internal_torrent_ref (dp_torrent_ref p)" "ref_matches_site L (dp_torrent_ref p) (dp_site_id p)"
    "parse_destination L (dp_media_destination_plan p) \<noteq> None"
    "parse_preflight L (dp_preflight_result p) = Some pre" "ar_preflight_result a = Some stored"
    "parse_preflight L stored = Some pre'"
    "pf_policy_fingerprint pre = dp_preflight_policy_fingerprint p"
    "canon (preflight_json L pre) = canon (preflight_json L pre')"
    "media_title_qb_tag L (sn_media_title sn) = Inr tag"
    "list_ex (tag_matches L (casefold L tag)) (dp_tags p)"
  using assms
  unfolding verify_download_plan_def bindR_Inr_iff raise_if_Inr_iff option_or_Inr_iff
    validate_preflight_result_def de_Morgan_disj not_not
  by (elim exE conjE) simp

lemma verify_download_plan_ok:
  assumes "verify_snapshot L a = Inr sn" "dp_plan_hash p = download_plan_hash L p"
    "dp_approval_id p = ar_id a" "dp_approval_snapshot_hash p = ar_snapshot_hash a"
    "validate_internal_torrent_ref (dp_torrent_ref p)" "ref_matches_site L (dp_torrent_ref p) (dp_site_id p)"
    "parse_destination L (dp_media_destination_plan p) \<noteq> None"
    "parse_preflight L (dp_preflight_result p) = Some pre" "ar_preflight_result a = Some stored"
    "parse_preflight L stored = Some pre"
    "pf_policy_fingerprint pre = dp_preflight_policy_fingerprint p"
    "media_title_qb_tag L (sn_media_title sn) = Inr tag"
    "list_ex (tag_matches L (casefold L tag)) (dp_tags p)"
  shows "verify_download_plan L p a = Inr p"
  using assms(7) unfolding verify_download_plan_def validate_preflight_result_def
  by (elim not_None_eq [THEN iffD1, THEN exE]) (simp add: assms(1-6,8-13))

lemma verify_download_plan_binds:
  assumes "verify_download_plan L p a = Inr q"
  shows "q = p" "dp_plan_hash p = download_plan_hash L p" "dp_approval_id p = ar_id a"
    "dp_approval_snapshot_hash p = ar_snapshot_hash a"
  by (rule verify_download_plan_run [OF assms]; assumption)+

lemma plan_members:
  "obj_get ''approval_id'' (plan_payload p) = Some (JStr (dp_approval_id p))"
  "obj_get ''approval_snapshot_hash'' (plan_payload p) = Some (JStr (dp_approval_snapshot_hash p))"
  "obj_get ''preflight_policy_fingerprint'' (plan_payload p) = Some (JStr (dp_preflight_policy_fingerprint p))"
  "obj_get ''site_id'' (plan_payload p) = Some (JStr (dp_site_id p))"
  "obj_get ''torrent_ref'' (plan_payload p) = Some (JStr (dp_torrent_ref p))"
  "obj_get ''expected_info_hash'' (plan_payload p) = Some (opt_json JStr (dp_expected_info_hash p))"
  "obj_get ''release_title'' (plan_payload p) = Some (JStr (dp_release_title p))"
  "obj_get ''save_path_ref'' (plan_payload p) = Some (JStr (dp_save_path_ref p))"
  "obj_get ''category'' (plan_payload p) = Some (JStr (dp_category p))"
  "obj_get ''tags'' (plan_payload p) = Some (JList (dp_tags p))"
  "obj_get ''estimated_size_bytes'' (plan_payload p) = Some (opt_json JInt (dp_estimated_size_bytes p))"
  "obj_get ''media_destination_plan'' (plan_payload p) = Some (dp_media_destination_plan p)"
  "obj_get ''preflight_result'' (plan_payload p) = Some (dp_preflight_result p)"
  "obj_get ''warnings'' (plan_payload p) = Some (JList (dp_warnings p))"
  by (simp_all add: plan_payload_def obj_get_def)

text \<open>The seal of a plan. Two plans that verify, each against its approval, and carry the same
  plan hash are the same plan of the same approval: every field the hash covers agrees, the
  JSON fields up to the order of members, unless the two canonical texts collide.\<close>
theorem download_plan_seal_binds:
  assumes "verify_download_plan L p a = Inr p'" and "verify_download_plan L q b = Inr q'"
    and "dp_plan_hash p = dp_plan_hash q"
    and "json_wf (plan_payload p)" and "json_wf (plan_payload q)"
    and "inj_on (sha256_hex L) {dumps (plan_payload p), dumps (plan_payload q)}"
  shows "ar_id a = ar_id b \<and> ar_snapshot_hash a = ar_snapshot_hash b
    \<and> dp_preflight_policy_fingerprint p = dp_preflight_policy_fingerprint q
    \<and> dp_site_id p = dp_site_id q \<and> dp_torrent_ref p = dp_torrent_ref q
    \<and> dp_expected_info_hash p = dp_expected_info_hash q \<and> dp_release_title p = dp_release_title q
    \<and> dp_save_path_ref p = dp_save_path_ref q \<and> dp_category p = dp_category q
    \<and> map canon (dp_tags p) = map canon (dp_tags q)
    \<and> dp_estimated_size_bytes p = dp_estimated_size_bytes q
    \<and> canon (dp_media_destination_plan p) = canon (dp_media_destination_plan q)
    \<and> canon (dp_preflight_result p) = canon (dp_preflight_result q)
    \<and> map canon (dp_warnings p) = map canon (dp_warnings q)"
proof -
  have v: "dp_plan_hash p = download_plan_hash L p" "dp_approval_id p = ar_id a"
    "dp_approval_snapshot_hash p = ar_snapshot_hash a" "dp_plan_hash q = download_plan_hash L q"
    "dp_approval_id q = ar_id b" "dp_approval_snapshot_hash q = ar_snapshot_hash b"
    by (fact verify_download_plan_binds [OF assms(1)] verify_download_plan_binds [OF assms(2)])+
  then have "snapshot_hash L (plan_payload p) = snapshot_hash L (plan_payload q)"
    using assms(3) by (simp add: download_plan_hash_def)
  then have "canon (plan_payload p) = canon (plan_payload q)"
    using assms(4-6) by (rule sealed_eq)
  note m = dumps_members [OF assms(4,5) dumps_canon_eq [OF this]]
  show ?thesis
    using v m [of "''approval_id''"] m [of "''approval_snapshot_hash''"]
      m [of "''preflight_policy_fingerprint''"] m [of "''site_id''"] m [of "''torrent_ref''"]
      m [of "''expected_info_hash''"] m [of "''release_title''"] m [of "''save_path_ref''"]
      m [of "''category''"] m [of "''tags''"] m [of "''estimated_size_bytes''"]
      m [of "''media_destination_plan''"] m [of "''preflight_result''"] m [of "''warnings''"]
    by (simp only: plan_members option.map canon_leaves canon.simps option.inject json_eq_simps json.inject simp_thms)
qed

section \<open>Creating a request\<close>

lemma clear_active_run:
  assumes "clear_active_for_candidate L c now s = (Inr u, t)"
  shows "(active_for_candidate c s = None \<and> t = s)
    \<or> (\<exists>a. active_for_candidate c s = Some a \<and> ar_status a \<noteq> AP_EXECUTING \<and> is_expired a now
        \<and> expire L a now s = (Inr (decided a AP_EXPIRED now), t))"
  using assms
  by (auto simp: clear_active_for_candidate_def handler_simps expire_def transition_run returnH_def raiseH_def
      bindH_def getH_def raise_ifH_def liftH_def raise_if_def
      split: option.splits if_splits)

lemma create_approval_request_run:
  assumes "create_approval_request L c ttl st actor now nid s = (Inr a, t)"
  obtains rec media cand sn s1 where "candidate_context c s = Some (rec, media)"
    "clear_active_for_candidate L c (Aware now) s = (Inr (), s1)"
    "or_default ttl (st_approval_default_ttl_minutes st) \<le> st_approval_max_ttl_minutes st"
    "snapshot_rules L (snapshot_of L media rec cand (Aware now)
        (Aware (now + minutes (or_default ttl (st_approval_default_ttl_minutes st))))) = Some sn"
    "a = \<lparr> ar_id = nid, ar_media_item_id = me_id media, ar_torrent_candidate_id = cr_id rec,
        ar_status = AP_PENDING, ar_candidate_snapshot = snapshot_json L sn,
        ar_snapshot_hash = snapshot_hash L (snapshot_json L sn), ar_requested_by = actor,
        ar_requested_at = Aware now,
        ar_expires_at = Aware (now + minutes (or_default ttl (st_approval_default_ttl_minutes st))),
        ar_decided_at = None, ar_preflight_result = None, ar_preflight_checked_at = None \<rparr>"
    "nid \<notin> set (map ar_id (db_approvals s1))"
    "\<forall>b \<in> set (db_approvals s1). active_approval b \<longrightarrow> ar_torrent_candidate_id b \<noteq> cr_id rec"
    "t = s1\<lparr> db_approvals := db_approvals s1 @ [a],
        db_approval_events := db_approval_events s1 @ [approval_event_of L a ''REQUESTED'' None AP_PENDING actor None
          [(''expires_at'', JStr (iso_text L (ar_expires_at a)))]] \<rparr>"
proof -
  show thesis
    using assms that
    unfolding create_approval_request_def Let_def handler_simps insert_approval_def option_or_Inr_iff
      add_event_run row_add_def
    by (force simp: list_ex_iff active_approval_def)
qed

lemma active_for_candidate_None:
  "active_for_candidate c s = None \<longleftrightarrow> (\<forall>b \<in> set (db_approvals s). active_approval b \<longrightarrow> ar_torrent_candidate_id b \<noteq> c)"
  by (auto simp: active_for_candidate_def find_None_conv)

lemma candidate_context_id: "candidate_context c s = Some (rec, media) \<Longrightarrow> cr_id rec = c"
  by (auto simp: candidate_context_def bind_eq_Some_conv dest: row_get_Some_key)

text \<open>C10: A created request. It is pending, carries a snapshot that verifies, lives as long as asked
  and no longer than the configured maximum, is the only active approval of its candidate (an
  expired predecessor was moved to EXPIRED first), and its REQUESTED event is the last of the
  audit trail, sealed with the same snapshot hash.\<close>
theorem create_approval_request_sound:
  assumes "create_approval_request L c ttl st actor now nid s = (Inr a, t)"
    and "dt_roundtrip L (Aware now)" and "dt_roundtrip L (ar_expires_at a)"
  shows "(\<exists>sn. verify_snapshot L a = Inr sn \<and> sn_torrent_candidate_id sn = c)
    \<and> current t a \<and> ar_status a = AP_PENDING
    \<and> (\<exists>n \<le> st_approval_max_ttl_minutes st. as_utc (ar_expires_at a) - as_utc (ar_requested_at a) = minutes n)
    \<and> (\<forall>b \<in> set (db_approvals t). active_approval b \<and> ar_torrent_candidate_id b = c \<longrightarrow> b = a)
    \<and> (\<exists>es e. db_approval_events t = es @ [e] \<and> ae_event_type e = ''REQUESTED''
        \<and> ae_approval_request_id e = ar_id a \<and> ae_snapshot_hash e = ar_snapshot_hash a)"
proof -
  obtain rec media cand sn s1 where ctx: "candidate_context c s = Some (rec, media)"
    and ttl: "or_default ttl (st_approval_default_ttl_minutes st) \<le> st_approval_max_ttl_minutes st"
    and sn: "snapshot_rules L (snapshot_of L media rec cand (Aware now)
        (Aware (now + minutes (or_default ttl (st_approval_default_ttl_minutes st))))) = Some sn"
    and a: "a = \<lparr> ar_id = nid, ar_media_item_id = me_id media, ar_torrent_candidate_id = cr_id rec,
        ar_status = AP_PENDING, ar_candidate_snapshot = snapshot_json L sn,
        ar_snapshot_hash = snapshot_hash L (snapshot_json L sn), ar_requested_by = actor,
        ar_requested_at = Aware now,
        ar_expires_at = Aware (now + minutes (or_default ttl (st_approval_default_ttl_minutes st))),
        ar_decided_at = None, ar_preflight_result = None, ar_preflight_checked_at = None \<rparr>"
    and fresh: "nid \<notin> set (map ar_id (db_approvals s1))"
    and only: "\<forall>b \<in> set (db_approvals s1). active_approval b \<longrightarrow> ar_torrent_candidate_id b \<noteq> cr_id rec"
    and t: "t = s1\<lparr> db_approvals := db_approvals s1 @ [a],
        db_approval_events := db_approval_events s1 @ [approval_event_of L a ''REQUESTED'' None AP_PENDING actor None
          [(''expires_at'', JStr (iso_text L (ar_expires_at a)))]] \<rparr>"
    by (rule create_approval_request_run [OF assms(1)])
  have c: "cr_id rec = c" by (rule candidate_context_id [OF ctx])
  have f: "sn_media_item_id sn = me_id media" "sn_torrent_candidate_id sn = c"
    "sn_requested_at sn = Aware now" "sn_expires_at sn = ar_expires_at a"
    using sn c by (auto simp: snapshot_rules_def snapshot_of_def Let_def a split: if_splits)
  have "parse_snapshot L (snapshot_json L sn) = Some sn"
    using sn assms(2,3) by (intro parse_snapshot_json [OF sn]) (simp_all add: f)
  then have "verify_snapshot L a = Inr sn"
    using f c by (simp add: verify_snapshot_Inr snapshot_bound_def a)
  moreover have "current t a"
    using fresh by (simp add: current_def t row_get_add [unfolded row_add_def] row_get_None_conv a split: option.split)
      (metis image_eqI row_get_SomeD)
  moreover have "\<exists>n \<le> st_approval_max_ttl_minutes st. as_utc (ar_expires_at a) - as_utc (ar_requested_at a) = minutes n"
    using ttl by (intro exI [of _ "or_default ttl (st_approval_default_ttl_minutes st)"]) (simp add: a)
  moreover have "\<forall>b \<in> set (db_approvals t). active_approval b \<and> ar_torrent_candidate_id b = c \<longrightarrow> b = a"
    using only by (auto simp: t c)
  moreover have "ar_status a = AP_PENDING" by (simp add: a)
  moreover have "\<exists>es e. db_approval_events t = es @ [e] \<and> ae_event_type e = ''REQUESTED''
        \<and> ae_approval_request_id e = ar_id a \<and> ae_snapshot_hash e = ar_snapshot_hash a"
    by (simp add: t approval_event_of_def)
  ultimately show ?thesis using f(2) by blast
qed

text \<open>A store with one candidate of one search.\<close>

definition example_candidate :: json where
  "example_candidate = JObj [(''site_id'', JStr ''avistaz''), (''torrent_id'', JStr ''t1''),
     (''release_title'', JStr ''Film 1080p''), (''details_ref'', JStr ''avistaz:torrent:t1''),
     (''media_type'', JStr ''movie''), (''size_bytes'', JInt 8), (''seeders'', JInt 2),
     (''hit_and_run'', JBool True)]"

definition example_db :: db where
  "example_db = empty_db\<lparr>
     db_media := [\<lparr> me_id = ''m1'', me_source = ''nextfind'', me_source_item_id = ''i1'', me_media_type = MT_MOVIE,
       me_tmdb_id = Some 7, me_title = ''Film'', me_original_title = None, me_year = None, me_country_codes = None,
       me_poster_path = None, me_raw_type = None, me_local_episodes = None, me_local_episode_matrix = JNull,
       me_total_episodes = None, me_aired_episodes = None, me_missing_episodes = None,
       me_discovery_status = ''MISSING'', me_identity_confidence = IC_HIGH, me_metadata_status = MS_RESOLVED,
       me_workflow_status = WF_TORRENT_REVIEW, me_discovered_at = Aware 0, me_updated_at = Aware 0 \<rparr>],
     db_runs := [\<lparr> ru_id = ''r1'', ru_media_id = ''m1'', ru_site_id = ''avistaz'', ru_status = WF_TORRENT_REVIEW,
       ru_strategy_log = JList [], ru_sanitized_request = JObj [], ru_candidate_count = 1, ru_error_code = None,
       ru_error_message = None, ru_started_at = None, ru_finished_at = None \<rparr>],
     db_candidates := [\<lparr> cr_id = ''c1'', cr_search_run_id = ''r1'', cr_site_id = ''avistaz'', cr_torrent_id = ''t1'',
       cr_candidate_snapshot = example_candidate, cr_match_score = ''1.0'', cr_match_reasons = [],
       cr_warnings = [] \<rparr>] \<rparr>"

definition example_context :: "candidate_row \<times> media_row" where
  "example_context = (hd (db_candidates example_db), hd (db_media example_db))"

lemma example_create_parts:
  "candidate_context ''c1'' example_db = Some example_context"
  "active_for_candidate ''c1'' example_db = None" "db_approvals example_db = []"
  "\<exists>c sn. parse_candidate clock_lib (cr_candidate_snapshot (fst example_context)) = Some c
    \<and> snapshot_rules clock_lib (snapshot_of clock_lib (snd example_context) (fst example_context) c
          (Aware 0) (Aware (0 + minutes (or_default (Some 1) 60)))) = Some sn"
proof -
  show "candidate_context ''c1'' example_db = Some example_context" by code_simp
  show "active_for_candidate ''c1'' example_db = None" by code_simp
  show "db_approvals example_db = []" by (simp add: example_db_def empty_db_def)
  define oc where "oc = parse_candidate clock_lib (cr_candidate_snapshot (fst example_context))"
  have p: "oc \<noteq> None" unfolding oc_def by code_simp
  have r: "snapshot_rules clock_lib (snapshot_of clock_lib (snd example_context) (fst example_context)
      (the (parse_candidate clock_lib (cr_candidate_snapshot (fst example_context))))
      (Aware 0) (Aware (0 + minutes (or_default (Some 1) 60)))) \<noteq> None"
    by code_simp
  from p r show "\<exists>c sn. parse_candidate clock_lib (cr_candidate_snapshot (fst example_context)) = Some c
    \<and> snapshot_rules clock_lib (snapshot_of clock_lib (snd example_context) (fst example_context) c
          (Aware 0) (Aware (0 + minutes (or_default (Some 1) 60)))) = Some sn"
    by (auto simp: oc_def)
qed

lemma example_create_run:
  "\<exists>a t. create_approval_request clock_lib ''c1'' (Some 1) example_settings ''admin'' 0 ''a1'' example_db = (Inr a, t)
    \<and> ar_expires_at a = Aware 60000000"
proof -
  obtain c sn where "parse_candidate clock_lib (cr_candidate_snapshot (fst example_context)) = Some c"
    "snapshot_rules clock_lib (snapshot_of clock_lib (snd example_context) (fst example_context) c
          (Aware 0) (Aware (0 + minutes (or_default (Some 1) 60)))) = Some sn"
    using example_create_parts(4) by blast
  then show ?thesis
    by (simp add: create_approval_request_def clear_active_for_candidate_def handler_defs insert_approval_def Let_def
        add_event_run example_create_parts(1-3) or_default_def example_settings_def minutes_def seconds_def)
qed

lemma create_approval_request_sound_witness:
  "\<exists>a t sn. create_approval_request clock_lib ''c1'' (Some 1) example_settings ''admin'' 0 ''a1'' example_db = (Inr a, t)
    \<and> verify_snapshot clock_lib a = Inr sn \<and> sn_torrent_candidate_id sn = ''c1''"
proof -
  obtain a t where run: "create_approval_request clock_lib ''c1'' (Some 1) example_settings ''admin'' 0 ''a1'' example_db
      = (Inr a, t)" and e: "ar_expires_at a = Aware 60000000"
    using example_create_run by blast
  have "dt_roundtrip clock_lib (ar_expires_at a)" unfolding e by (simp add: clock_roundtrip)
  from create_approval_request_sound [OF run clock_roundtrip [OF order_refl] this] run show ?thesis by blast
qed

section \<open>Approving a request\<close>

lemma require_pending_run:
  "require_pending_approval L a now s = (Inr sn, t) \<longleftrightarrow>
    verify_snapshot L a = Inr sn \<and> ar_status a = AP_PENDING \<and> \<not> is_expired a now \<and> t = s"
proof (cases "verify_snapshot L a")
  case (Inl e)
  then show ?thesis
    by (simp add: require_pending_approval_def expire_or_require_pending_def handler_defs)
next
  case (Inr sn')
  then show ?thesis
    by (cases "ar_status a"; cases "is_expired a now")
      (auto simp: require_pending_approval_def expire_or_require_pending_def handler_defs reject_expired_def
        stage_expiration_if_needed_def expire_def transition_run)
qed

lemma approval_preflight_Inr:
  assumes "approval_preflight L a st now = Inr r"
  obtains stored checked where "ar_preflight_result a = Some stored" "ar_preflight_checked_at a = Some checked"
    "parse_preflight L stored = Some r" "length (pf_checks r) = length PREFLIGHT_CHECK_CODES"
    "set (map pc_code (pf_checks r)) = set PREFLIGHT_CHECK_CODES"
    "as_utc checked = as_utc (pf_checked_at r)" "as_utc checked \<le> as_utc now"
    "as_utc now - as_utc checked \<le> seconds (st_approval_preflight_max_age_seconds st)"
    "preflight_policy_fingerprint L st = Inr (pf_policy_fingerprint r)"
    "pf_overall_status r \<in> {PF_PASS, PF_WARNING}" "\<not> falsy_str (st_qb_target_category st)"
proof -
  obtain stored checked where opt: "ar_preflight_result a = Some stored" "ar_preflight_checked_at a = Some checked"
    using assms by (auto simp: approval_preflight_def split: option.splits)
  from assms [unfolded approval_preflight_def opt prod.case option.case Let_def bindR_Inr_iff raise_if_Inr_iff
      validate_preflight_result_def option_or_Inr_iff de_Morgan_disj not_not not_less preflight_is_manually_passable_def]
  show thesis
    by (elim exE conjE) (rule that [OF opt]; simp)
qed

lemma those_Some_member: "those xs = Some ys \<Longrightarrow> y \<in> set ys \<Longrightarrow> Some y \<in> set xs"
  by (induction xs arbitrary: ys) (auto split: option.splits simp: map_option_case)

lemma dec_check_rules: "dec_check j = Some c \<Longrightarrow> check_rules c"
  by (auto simp: dec_check_def bind_eq_Some_conv Let_def)

lemma dec_list_checks: "dec_list dec_check j = Some cs \<Longrightarrow> list_all check_rules cs"
  by (cases j) (auto simp: dec_list_def list_all_iff dest!: those_Some_member intro: dec_check_rules [OF sym])

lemma required_Some: "required k d kvs = Some x \<Longrightarrow> \<exists>j. d j = Some x"
  by (auto simp: required_def split: option.splits)

lemma parse_preflight_checks: "parse_preflight L j = Some r \<Longrightarrow> list_all check_rules (pf_checks r)"
  by (auto simp: parse_preflight_def bind_eq_Some_conv Let_def dest!: required_Some [of "''checks''"] dec_list_checks)

text \<open>Documented behaviour of pydantic: a timestamp it has parsed is dumped to a text it reads back.\<close>

definition dt_stable :: "lib \<Rightarrow> bool" where
  "dt_stable L \<longleftrightarrow> (\<forall>j d. parse_dt L j = Some d \<longrightarrow> dt_roundtrip L d)"

lemma parse_preflight_stable:
  assumes "dt_stable L" and "parse_preflight L j = Some r"
  shows "parse_preflight L (preflight_json L r) = Some r"
proof (rule parse_preflight_json)
  show "preflight_rules r" by (rule parse_preflight_rules [OF assms(2)])
  show "list_all check_rules (pf_checks r)" by (rule parse_preflight_checks [OF assms(2)])
  obtain k where "parse_dt L k = Some (pf_checked_at r)"
    using assms(2) by (auto simp: parse_preflight_def bind_eq_Some_conv Let_def dest!: required_Some [of "''checked_at''"])
  then show "dt_roundtrip L (pf_checked_at r)" using assms(1) by (simp add: dt_stable_def)
qed

lemma approve_request_run:
  assumes "approve_request L a req st actor now nid s = (Inr (b, p), t)"
  obtains sn pre tags where "verify_snapshot L a = Inr sn" "ar_status a = AP_PENDING"
    "\<not> is_expired a (Aware now)"
    "validate_manual_approval_acknowledgements L sn req = Inr ()"
    "approval_preflight L a st (Aware now) = Inr pre"
    "build_qb_plan_tags L (st_qb_plan_tags st) (sn_media_title sn) = Inr tags"
    "b = decided a AP_APPROVED (Aware now)" "p = plan_of L b sn pre st tags nid"
    "\<forall>q \<in> set (db_plans s). dp_approval_id q \<noteq> ar_id a \<and> dp_id q \<noteq> nid"
    "t = s\<lparr> db_approvals := row_put ar_id b (db_approvals s), db_plans := db_plans s @ [p],
      db_approval_events := db_approval_events s
        @ [approval_event_of L b ''APPROVED'' (Some (ar_status a)) AP_APPROVED actor None (approval_details L sn req),
           approval_event_of L b ''DOWNLOAD_PLAN_CREATED'' (Some AP_APPROVED) AP_APPROVED actor None
             [(''plan_hash'', JStr (dp_plan_hash p)),
              (''policy_fingerprint'', JStr (dp_preflight_policy_fingerprint p))]] \<rparr>"
proof -
  have ids: "dp_id (plan_of L x sn pre st tags nid) = nid" "dp_approval_id (plan_of L x sn pre st tags nid) = ar_id x"
    for x sn pre tags by (simp_all add: plan_of_def Let_def)
  show thesis
    using assms
    unfolding approve_request_def Let_def handler_simps require_pending_run transition_run add_event_run
      insert_plan_def row_add_def
    by (elim exE conjE) (rule that; (simp add: ids image_iff)?; (force simp: ids)?)
qed

lemma plan_of_simps [simp]:
  "dp_approval_id (plan_of L a sn pre st tags nid) = ar_id a"
  "dp_approval_snapshot_hash (plan_of L a sn pre st tags nid) = ar_snapshot_hash a"
  "dp_torrent_ref (plan_of L a sn pre st tags nid) = sn_torrent_ref sn"
  "dp_site_id (plan_of L a sn pre st tags nid) = sn_site_id sn"
  "dp_media_destination_plan (plan_of L a sn pre st tags nid) = destination_json (destination_of sn)"
  "dp_preflight_result (plan_of L a sn pre st tags nid) = preflight_json L pre"
  "dp_preflight_policy_fingerprint (plan_of L a sn pre st tags nid) = pf_policy_fingerprint pre"
  "dp_tags (plan_of L a sn pre st tags nid) = map JStr tags"
  "dp_save_path_ref (plan_of L a sn pre st tags nid) = st_qb_save_path_ref st"
  "dp_id (plan_of L a sn pre st tags nid) = nid"
  "dp_expected_info_hash (plan_of L a sn pre st tags nid) = sn_info_hash sn"
  "dp_estimated_size_bytes (plan_of L a sn pre st tags nid) = sn_size_bytes sn"
  by (simp_all add: plan_of_def Let_def)

lemma plan_of_sealed: "dp_plan_hash (plan_of L a sn pre st tags nid) = download_plan_hash L (plan_of L a sn pre st tags nid)"
  by (simp add: plan_of_def Let_def download_plan_hash_def plan_payload_def)

lemma approved_plan_verifies:
  assumes "verify_snapshot L a = Inr sn" and "ar_preflight_result a = Some stored"
    and "parse_preflight L stored = Some pre"
    and "build_qb_plan_tags L (st_qb_plan_tags st) (sn_media_title sn) = Inr tags"
    and "same_approval a b" and "ar_preflight_result b = ar_preflight_result a" and "dt_stable L"
  shows "verify_download_plan L (plan_of L b sn pre st tags nid) b = Inr (plan_of L b sn pre st tags nid)"
proof -
  have sb: "verify_snapshot L b = Inr sn"
    using assms(1) verify_snapshot_same [OF assms(5), of L] by simp
  have "snapshot_rules L sn = Some sn"
    using assms(1) by (auto simp: verify_snapshot_Inr intro: parse_snapshot_rules)
  note sf = snapshot_rules_facts [OF this]
  obtain tag where tag: "media_title_qb_tag L (sn_media_title sn) = Inr tag"
    using build_qb_plan_tags_Inr [OF assms(4)] .
  show ?thesis
  proof (rule verify_download_plan_ok [OF sb plan_of_sealed])
    show "parse_destination L (dp_media_destination_plan (plan_of L b sn pre st tags nid)) \<noteq> None"
      using parse_destination_json [of "destination_of sn" L] sf(1) by (simp add: destination_of_def)
    show "parse_preflight L (dp_preflight_result (plan_of L b sn pre st tags nid)) = Some pre"
      using parse_preflight_stable [OF assms(7,3)] by simp
    show "ar_preflight_result b = Some stored" using assms(2,6) by simp
    show "parse_preflight L stored = Some pre" by (rule assms(3))
    show "media_title_qb_tag L (sn_media_title sn) = Inr tag" by (rule tag)
    show "list_ex (tag_matches L (casefold L tag)) (dp_tags (plan_of L b sn pre st tags nid))"
      using build_qb_plan_tags_media [OF assms(4) tag] by simp
  qed (simp_all add: sf)
qed

text \<open>C17: An approved request. Approval is granted only to a pending, unexpired request whose
  snapshot verifies, with the acknowledgements given, on a stored preflight that holds each of
  the required checks once, is not older than allowed, was made under the policy that is in
  force now and is passable. It leaves the request APPROVED with exactly one plan, and that plan
  passes every check of \<open>verify_download_plan\<close>, which execution and consumption rely on.\<close>
theorem approve_request_sound:
  assumes "approve_request L a req st actor now nid s = (Inr (b, p), t)"
    and "current s a" and "dt_stable L"
  shows "(\<exists>sn stored pre. verify_snapshot L a = Inr sn \<and> ar_status a = AP_PENDING
      \<and> as_utc (Aware now) < as_utc (ar_expires_at a)
      \<and> acknowledges_seeding req \<and> acknowledges_plan_only req
      \<and> (hnr_acknowledgement_required L (sn_site_id sn) \<longrightarrow> acknowledges_hnr req)
      \<and> ar_preflight_result a = Some stored \<and> parse_preflight L stored = Some pre
      \<and> distinct (map pc_code (pf_checks pre)) \<and> set (map pc_code (pf_checks pre)) = set PREFLIGHT_CHECK_CODES
      \<and> as_utc (pf_checked_at pre) \<le> now
      \<and> now - as_utc (pf_checked_at pre) \<le> seconds (st_approval_preflight_max_age_seconds st)
      \<and> preflight_policy_fingerprint L st = Inr (pf_policy_fingerprint pre)
      \<and> (\<forall>c \<in> set (pf_checks pre). pc_status c \<in> {PF_PASS, PF_WARNING}))
    \<and> current t b \<and> same_approval a b \<and> ar_status b = AP_APPROVED
    \<and> filter (\<lambda>q. dp_approval_id q = ar_id a) (db_plans t) = [p]
    \<and> verify_download_plan L p b = Inr p"
proof -
  obtain sn pre tags where v: "verify_snapshot L a = Inr sn" "ar_status a = AP_PENDING"
    "\<not> is_expired a (Aware now)" and ack: "validate_manual_approval_acknowledgements L sn req = Inr ()"
    and pre: "approval_preflight L a st (Aware now) = Inr pre"
    and tags: "build_qb_plan_tags L (st_qb_plan_tags st) (sn_media_title sn) = Inr tags"
    and b: "b = decided a AP_APPROVED (Aware now)" and p: "p = plan_of L b sn pre st tags nid"
    and fresh: "\<forall>q \<in> set (db_plans s). dp_approval_id q \<noteq> ar_id a \<and> dp_id q \<noteq> nid"
    and t: "t = s\<lparr> db_approvals := row_put ar_id b (db_approvals s), db_plans := db_plans s @ [p],
      db_approval_events := db_approval_events s
        @ [approval_event_of L b ''APPROVED'' (Some (ar_status a)) AP_APPROVED actor None (approval_details L sn req),
           approval_event_of L b ''DOWNLOAD_PLAN_CREATED'' (Some AP_APPROVED) AP_APPROVED actor None
             [(''plan_hash'', JStr (dp_plan_hash p)),
              (''policy_fingerprint'', JStr (dp_preflight_policy_fingerprint p))]] \<rparr>"
    by (rule approve_request_run [OF assms(1)])
  obtain stored checked where pf: "ar_preflight_result a = Some stored" "parse_preflight L stored = Some pre"
    "set (map pc_code (pf_checks pre)) = set PREFLIGHT_CHECK_CODES"
    "as_utc checked = as_utc (pf_checked_at pre)" "as_utc checked \<le> as_utc (Aware now)"
    "as_utc (Aware now) - as_utc checked \<le> seconds (st_approval_preflight_max_age_seconds st)"
    "preflight_policy_fingerprint L st = Inr (pf_policy_fingerprint pre)"
    "pf_overall_status pre \<in> {PF_PASS, PF_WARNING}"
    by (rule approval_preflight_Inr [OF pre])
  note rules = parse_preflight_rules [OF pf(2), unfolded preflight_rules_def]
  have checks: "\<forall>c \<in> set (pf_checks pre). pc_status c \<in> {PF_PASS, PF_WARNING}"
    using worst_status_passable rules pf(8) by blast
  have acks: "acknowledges_seeding req \<and> acknowledges_plan_only req
      \<and> (hnr_acknowledgement_required L (sn_site_id sn) \<longrightarrow> acknowledges_hnr req)"
    using ack by (auto simp: validate_manual_approval_acknowledgements_def raise_if_Inr_iff)
  have plan: "verify_download_plan L p b = Inr p"
    unfolding p by (rule approved_plan_verifies [OF v(1) pf(1,2) tags _ _ assms(3)]) (simp_all add: b)
  have "current t b"
    using current_put [OF assms(2), of b] by (simp add: t b current_def)
  moreover have "filter (\<lambda>q. dp_approval_id q = ar_id a) (db_plans t) = [p]"
    using fresh by (simp add: t p b filter_empty_conv)
  ultimately show ?thesis
    using v pf(1-7) rules checks acks plan
    by (intro conjI exI [of _ sn] exI [of _ stored] exI [of _ pre])
      (simp_all add: b is_expired_def not_le)
qed

text \<open>A request ready for approval: its preflight is that of \<open>example_reader\<close>, made at 0.\<close>

definition sealed_lib :: lib where
  "sealed_lib = example_lib\<lparr>
     parse_dt := (\<lambda>j. case j of JStr s \<Rightarrow> Some (Aware (read_int s)) | _ \<Rightarrow> None) \<rparr>"

definition example_preflight :: preflight_result where
  "example_preflight = \<lparr> pf_overall_status = PF_WARNING,
     pf_checks = all_checks sealed_lib example_reader open_snapshot example_settings,
     pf_checked_at = Aware 0, pf_policy_fingerprint = replicate 64 (CHR ''0'') \<rparr>"

definition ready_approval :: approval where
  "ready_approval = (example_approval sealed_lib)\<lparr>
     ar_preflight_result := Some (preflight_json sealed_lib example_preflight),
     ar_preflight_checked_at := Some (Aware 0) \<rparr>"

definition ready_db :: db where
  "ready_db = example_db\<lparr> db_approvals := [ready_approval] \<rparr>"

definition full_acknowledgement :: approve_body where
  "full_acknowledgement = \<lparr> acknowledges_hnr = True, acknowledges_seeding = True, acknowledges_plan_only = True \<rparr>"

lemma sealed_roundtrip: "dt_roundtrip sealed_lib (Aware t)"
  by (simp add: dt_roundtrip_def sealed_lib_def example_lib_def read_show_int)

lemma sealed_lib_stable: "dt_stable sealed_lib"
proof -
  have "\<exists>t. d = Aware t" if "parse_dt sealed_lib j = Some d" for j d
    using that by (cases j) (auto simp: sealed_lib_def)
  then show ?thesis using sealed_roundtrip unfolding dt_stable_def by blast
qed

lemma sealed_lib_laws: "dt_roundtrip sealed_lib (Aware 0)" "texts_ok sealed_lib"
  "preflight_policy_fingerprint sealed_lib example_settings = Inr (replicate 64 (CHR ''0''))"
proof -
  show "dt_roundtrip sealed_lib (Aware 0)"
    by (rule sealed_roundtrip)
  show "texts_ok sealed_lib" using example_laws(2) by (simp add: texts_ok_def sealed_lib_def)
  have "normalized_qb_base_url_for_policy sealed_lib example_settings = Inr ''https://qb.local''"
    by code_simp
  then show "preflight_policy_fingerprint sealed_lib example_settings = Inr (replicate 64 (CHR ''0''))"
    by (simp add: preflight_policy_fingerprint_def) (simp add: sealed_lib_def example_lib_def)
qed

lemma example_preflight_run:
  "evaluate_preflight sealed_lib example_reader open_snapshot example_settings 0 = Inr example_preflight"
  unfolding example_preflight_def
  by (simp add: evaluate_preflight_def sealed_lib_laws(3)) code_simp

lemma example_preflight_parse:
  "parse_preflight sealed_lib (preflight_json sealed_lib example_preflight) = Some example_preflight"
  by (rule parse_preflight_json [OF evaluate_preflight_Inr(1) [OF example_preflight_run]
        evaluate_preflight_Inr(5) [OF example_preflight_run]])
    (simp add: evaluate_preflight_Inr(3) [OF example_preflight_run] sealed_lib_laws(1))

lemma ready_verified: "verify_snapshot sealed_lib ready_approval = Inr open_snapshot"
proof -
  have "parse_snapshot sealed_lib (snapshot_json sealed_lib open_snapshot) = Some open_snapshot"
  proof (rule parse_snapshot_json)
    show "snapshot_rules sealed_lib open_snapshot = Some open_snapshot" by code_simp
    show "dt_roundtrip sealed_lib (sn_requested_at open_snapshot)"
      "dt_roundtrip sealed_lib (sn_expires_at open_snapshot)"
      by (simp_all add: sealed_roundtrip open_snapshot_def example_snapshot_def)
  qed
  moreover have "snapshot_bound open_snapshot ready_approval"
    by (simp add: ready_approval_def snapshot_bound_def open_snapshot_def example_snapshot_def example_approval_def)
  ultimately show ?thesis by (simp add: verify_snapshot_Inr ready_approval_def)
qed

lemma ready_tags:
  "build_qb_plan_tags sealed_lib (st_qb_plan_tags example_settings) (sn_media_title open_snapshot) = Inr [''unin'', ''Film'']"
  by code_simp

lemma ready_current: "current ready_db ready_approval"
  by (simp add: current_def ready_db_def row_get_def)

lemma ready_preflight: "approval_preflight sealed_lib ready_approval example_settings (Aware 0) = Inr example_preflight"
proof -
  have codes: "map pc_code (pf_checks example_preflight) = PREFLIGHT_CHECK_CODES"
    by (simp add: example_preflight_def all_checks_codes example_reader_def)
  have "length (pf_checks example_preflight) = length PREFLIGHT_CHECK_CODES"
    "pc_code ` set (pf_checks example_preflight) = set PREFLIGHT_CHECK_CODES"
    by (simp_all only: codes [symmetric] length_map set_map)
  moreover have "\<not> falsy_str (st_qb_target_category example_settings)"
    "preflight_is_manually_passable example_preflight" "pf_checked_at example_preflight = Aware 0"
    "pf_policy_fingerprint example_preflight = replicate 64 (CHR ''0'')"
    "st_approval_preflight_max_age_seconds example_settings = 9"
    by (simp_all add: example_settings_def falsy_str_def example_preflight_def preflight_is_manually_passable_def)
  ultimately show ?thesis
    by (simp add: approval_preflight_def ready_approval_def validate_preflight_result_def example_preflight_parse
        sealed_lib_laws(3) Let_def seconds_def)
qed

lemma ready_approve_run:
  "\<exists>b t. b = decided ready_approval AP_APPROVED (Aware 0)
    \<and> approve_request sealed_lib ready_approval full_acknowledgement example_settings ''admin'' 0 ''p1'' ready_db
      = (Inr (b, plan_of sealed_lib b open_snapshot example_preflight example_settings [''unin'', ''Film''] ''p1''), t)"
proof -
  have "require_pending_approval sealed_lib ready_approval (Aware 0) ready_db = (Inr open_snapshot, ready_db)"
    using ready_verified by (simp add: require_pending_run ready_approval_def is_expired_def)
  moreover have "validate_manual_approval_acknowledgements sealed_lib open_snapshot full_acknowledgement = Inr ()"
    by (simp add: validate_manual_approval_acknowledgements_def full_acknowledgement_def)
  moreover have "sn_season open_snapshot = None" by (simp add: open_snapshot_def example_snapshot_def)
  moreover have "db_plans ready_db = []" by (simp add: ready_db_def example_db_def empty_db_def)
  ultimately show ?thesis
    by (simp add: approve_request_def bindH_eval(1) liftH_def raise_ifH_def opt_ok_def transition_run ready_preflight
        ready_tags Let_def insert_plan_def getH_def modifyH_def add_event_run returnH_def)
qed

lemma approve_request_sound_witness:
  "\<exists>b p t. approve_request sealed_lib ready_approval full_acknowledgement example_settings ''admin'' 0 ''p1'' ready_db
      = (Inr (b, p), t) \<and> ar_status b = AP_APPROVED \<and> verify_download_plan sealed_lib p b = Inr p"
  using ready_approve_run approve_request_sound [OF _ ready_current sealed_lib_stable] by blast

definition ready_plan :: plan where
  "ready_plan = plan_of sealed_lib ready_approval open_snapshot example_preflight example_settings [''unin'', ''Film''] ''p1''"

lemma ready_plan_verifies: "verify_download_plan sealed_lib ready_plan ready_approval = Inr ready_plan"
  unfolding ready_plan_def
  by (rule approved_plan_verifies [OF ready_verified _ example_preflight_parse ready_tags _ _ sealed_lib_stable])
    (simp_all add: ready_approval_def)

lemma preflight_json_wf:
  "list_all (\<lambda>c. json_wf (JObj (pc_details c))) (pf_checks r) \<Longrightarrow> json_wf (preflight_json L r)"
  by (simp add: preflight_json_def check_json_def list_all_iff)

lemma destination_json_wf: "json_wf (destination_json d)"
  by (simp add: destination_json_def)

lemma ready_plan_wf: "json_wf (plan_payload ready_plan)"
proof -
  have "list_all (\<lambda>c. json_wf (JObj (pc_details c))) (pf_checks example_preflight)"
    unfolding example_preflight_def preflight_result.simps by code_simp
  then have "json_wf (preflight_json sealed_lib example_preflight)" by (rule preflight_json_wf)
  then show ?thesis
    by (simp add: ready_plan_def plan_payload_def plan_of_def Let_def destination_json_wf list_all_iff)
qed

lemma verify_download_plan_id:
  "verify_download_plan L (p\<lparr> dp_id := k \<rparr>) a
    = bindR (verify_download_plan L p a) (\<lambda>_. Inr (p\<lparr> dp_id := k \<rparr>))"
proof -
  have "download_plan_hash L (p\<lparr> dp_id := k \<rparr>) = download_plan_hash L p"
    by (simp add: download_plan_hash_def plan_payload_def)
  then show ?thesis by (simp add: verify_download_plan_def bindR_assoc)
qed

text \<open>The row of the plan may be copied under another key: the hash covers its content.\<close>

lemma download_plan_seal_binds_witness:
  "ready_plan\<lparr> dp_id := ''p2'' \<rparr> \<noteq> ready_plan
    \<and> dp_torrent_ref ready_plan = dp_torrent_ref (ready_plan\<lparr> dp_id := ''p2'' \<rparr>)"
proof
  let ?q = "ready_plan\<lparr> dp_id := ''p2'' \<rparr>"
  have same: "plan_payload ?q = plan_payload ready_plan" by (simp add: plan_payload_def)
  have q: "verify_download_plan sealed_lib ?q ready_approval = Inr ?q"
    by (simp add: verify_download_plan_id ready_plan_verifies)
  have "dp_plan_hash ready_plan = dp_plan_hash ?q" by simp
  from download_plan_seal_binds [OF ready_plan_verifies q this ready_plan_wf]
  show "dp_torrent_ref ready_plan = dp_torrent_ref ?q"
    by (simp add: same ready_plan_wf)
  show "?q \<noteq> ready_plan"
  proof
    assume "?q = ready_plan"
    then have "dp_id ?q = dp_id ready_plan" by (rule arg_cong)
    then show False by (simp add: ready_plan_def)
  qed
qed

section \<open>Automatic approval\<close>

lemma stored_preflight_parse:
  assumes "evaluate_preflight L Q sn st now = Inr r" and "dt_roundtrip L (Aware now)"
  shows "parse_preflight L (preflight_json L r) = Some r"
  using evaluate_preflight_Inr [OF assms(1)] assms(2) by (intro parse_preflight_json) simp_all

text \<open>C18: Automatic approval cannot succeed on a preflight the program has made. It asks for a
  summary of PASS, which no result of \<open>evaluate_preflight\<close> has, so on a request whose stored
  result is such a result the handler always raises; when the request is pending, valid and of
  known hit-and-run rule the exception is AUTOMATION_PREFLIGHT_NOT_PASS and nothing is changed.\<close>
theorem automatic_approval_never_succeeds:
  assumes "evaluate_preflight L Q sn' st' checked = Inr r" and "dt_roundtrip L (Aware checked)"
    and "ar_preflight_result a = Some (preflight_json L r)"
  shows "fst (approve_request_automatically L a st actor rv dc now1 now2 nid s) \<noteq> Inr x
    \<and> (\<forall>sn. verify_snapshot L a = Inr sn \<and> ar_status a = AP_PENDING \<and> \<not> is_expired a (Aware now1)
        \<and> rule_known (effective_hnr_rule L (sn_site_id sn) (sn_hit_and_run sn)) \<longrightarrow>
        approve_request_automatically L a st actor rv dc now1 now2 nid s
          = (Inl (app_err_details ''AUTOMATION_PREFLIGHT_NOT_PASS'' 409
              [(''overall_status'', JStr (preflight_status_value (pf_overall_status r)))]), s))"
proof
  have not_pass: "pf_overall_status r \<noteq> PF_PASS"
    using all_checks_never_pass [of L Q sn' st'] evaluate_preflight_Inr(6) [OF assms(1)] by auto
  have val: "validate_preflight_result L (preflight_json L r) = Inr r"
    by (simp add: validate_preflight_result_def stored_preflight_parse [OF assms(1,2)])
  show "fst (approve_request_automatically L a st actor rv dc now1 now2 nid s) \<noteq> Inr x"
  proof
    assume "fst (approve_request_automatically L a st actor rv dc now1 now2 nid s) = Inr x"
    then obtain t where "approve_request_automatically L a st actor rv dc now1 now2 nid s = (Inr x, t)"
      by (metis prod.collapse)
    then show False
      unfolding approve_request_automatically_def assms(3) handler_simps option_or_Inr_iff
      using val not_pass by auto
  qed
  show "\<forall>sn. verify_snapshot L a = Inr sn \<and> ar_status a = AP_PENDING \<and> \<not> is_expired a (Aware now1)
        \<and> rule_known (effective_hnr_rule L (sn_site_id sn) (sn_hit_and_run sn)) \<longrightarrow>
        approve_request_automatically L a st actor rv dc now1 now2 nid s
          = (Inl (app_err_details ''AUTOMATION_PREFLIGHT_NOT_PASS'' 409
              [(''overall_status'', JStr (preflight_status_value (pf_overall_status r)))]), s)"
  proof (intro allI impI)
    fix sn assume h: "verify_snapshot L a = Inr sn \<and> ar_status a = AP_PENDING \<and> \<not> is_expired a (Aware now1)
        \<and> rule_known (effective_hnr_rule L (sn_site_id sn) (sn_hit_and_run sn))"
    then have "require_pending_approval L a (Aware now1) s = (Inr sn, s)" by (simp add: require_pending_run)
    then show "approve_request_automatically L a st actor rv dc now1 now2 nid s
          = (Inl (app_err_details ''AUTOMATION_PREFLIGHT_NOT_PASS'' 409
              [(''overall_status'', JStr (preflight_status_value (pf_overall_status r)))]), s)"
      using h not_pass
      by (simp add: approve_request_automatically_def bindH_eval(1) assms(3) val liftH_def raise_ifH_def bindH_def)
  qed
qed

lemma automatic_approval_never_succeeds_witness:
  "approve_request_automatically sealed_lib ready_approval example_settings ''auto'' ''r'' ''d'' 0 0 ''p1'' ready_db
    = (Inl (app_err_details ''AUTOMATION_PREFLIGHT_NOT_PASS'' 409 [(''overall_status'', JStr ''WARNING'')]), ready_db)"
proof -
  have "ar_preflight_result ready_approval = Some (preflight_json sealed_lib example_preflight)"
    by (simp add: ready_approval_def)
  note never = automatic_approval_never_succeeds [OF example_preflight_run sealed_lib_laws(1) this, THEN conjunct2, rule_format]
  have "rule_known (effective_hnr_rule sealed_lib (sn_site_id open_snapshot) (sn_hit_and_run open_snapshot))"
    by code_simp
  moreover have "pf_overall_status example_preflight = PF_WARNING" by (simp add: example_preflight_def)
  ultimately show ?thesis
    using never [of open_snapshot 0 example_settings "''auto''" "''r''" "''d''" 0 "''p1''" ready_db] ready_verified
    by (simp add: ready_approval_def is_expired_def)
qed

section \<open>The life of an approval\<close>

lemma reject_expired_run: "reject_expired L a now s = (Inr x, t) \<Longrightarrow> x = a \<and> t = s"
  by (auto simp: reject_expired_def stage_expiration_if_needed_def handler_simps split: if_splits)

lemma keeps_expire:
  "current s a \<Longrightarrow> ar_status a \<in> {AP_PENDING, AP_APPROVED} \<Longrightarrow> keeps lifecycle s (expire L a now)"
  unfolding expire_def by (rule keeps_transition) (auto simp: approval_reach_def)

lemma keeps_reject_expired:
  assumes "current s a"
  shows "keeps lifecycle s (reject_expired L a now)"
proof (cases "ar_status a \<in> {AP_PENDING, AP_APPROVED} \<and> is_expired a now")
  case True
  have "evolves lifecycle (bindH (returnH (True, a')) (\<lambda>r. bindH (raise_ifH (fst r) approval_expired) (\<lambda>_. returnH (snd r))))" for a'
    by (intro lifecycle.evolves_rules)
  with True show ?thesis
    using keeps_expire [OF assms, of L now]
    by (auto simp: reject_expired_def stage_expiration_if_needed_def expire_def keeps_def transition_run
        bindH_def returnH_def raise_ifH_def liftH_def)
next
  case False
  then show ?thesis
    by (auto simp: reject_expired_def stage_expiration_if_needed_def keeps_def handler_defs lifecycle.refl_R)
qed

lemma keeps_require_pending:
  assumes "current s a"
  shows "keeps lifecycle s (require_pending_approval L a now)"
  unfolding require_pending_approval_def expire_or_require_pending_def
  by (intro lifecycle.keeps_lift_bind lifecycle.keeps_bind keeps_reject_expired assms evolves_keeps
      lifecycle.evolves_bind lifecycle.evolves_raise_if lifecycle.evolves_return)

lemma keeps_approve:
  assumes "current s a"
  shows "keeps lifecycle s (approve_request L a req st actor now nid)"
  unfolding approve_request_def Let_def
proof (intro lifecycle.keeps_guard_bind [OF keeps_require_pending [OF assms]] lifecycle.keeps_lift_bind
    lifecycle.keeps_raise_if_bind, goal_cases)
  case (1 sn t)
  then show ?case by (simp add: require_pending_run)
next
  case (2 sn u pre)
  then have "keeps lifecycle s (transition L a AP_APPROVED actor ''APPROVED'' None (Aware now) (approval_details L sn req))"
    by (intro keeps_transition [OF assms]) (simp add: require_pending_run approval_reach_def)
  then show ?case
    by (rule lifecycle.keeps_step_bind) (intro lifecycle.evolves_rules lifecycle_other_writes)
qed

lemma keeps_approve_auto:
  assumes "current s a"
  shows "keeps lifecycle s (approve_request_automatically L a st actor rv dc n1 n2 nid)"
  unfolding approve_request_automatically_def
  by (intro lifecycle.keeps_guard_bind [OF keeps_require_pending [OF assms]] lifecycle.keeps_lift_bind
      lifecycle.keeps_raise_if_bind lifecycle.keeps_step_bind [OF keeps_approve [OF assms]]
      lifecycle.evolves_rules lifecycle_other_writes)
    (simp add: require_pending_run)

lemma keeps_save_preflight:
  assumes "current s a"
  shows "keeps lifecycle s (save_preflight_result L a r actor now)"
  unfolding save_preflight_result_def Let_def
proof (rule lifecycle.keeps_guard_bind [OF keeps_require_pending [OF assms]], goal_cases)
  case (1 sn t)
  then show ?case by (simp add: require_pending_run)
next
  case (2 sn)
  have "keeps lifecycle s (save_approval (a\<lparr> ar_preflight_result := Some (preflight_json L r),
      ar_preflight_checked_at := Some (pf_checked_at r) \<rparr>))"
    using lifecycle_put [OF assms, of "a\<lparr> ar_preflight_result := Some (preflight_json L r),
      ar_preflight_checked_at := Some (pf_checked_at r) \<rparr>"]
    by (simp add: keeps_def save_approval_def modifyH_def same_approval_def approval_reach_refl)
  then show ?case
    by (rule lifecycle.keeps_step_bind) (intro lifecycle.evolves_rules lifecycle_other_writes)
qed

lemma keeps_reject:
  assumes "current s a"
  shows "keeps lifecycle s (reject_request L a reason actor now)"
  unfolding reject_request_def
  by (rule lifecycle.keeps_guard_bind [OF keeps_require_pending [OF assms]])
    (auto simp: require_pending_run approval_reach_def intro: keeps_transition [OF assms])

lemma keeps_revoke:
  assumes "current s a"
  shows "keeps lifecycle s (revoke_request L a reason actor now)"
  unfolding revoke_request_def
  by (intro lifecycle.keeps_lift_bind lifecycle.keeps_guard_bind [OF keeps_reject_expired [OF assms]]
      lifecycle.keeps_raise_if_bind keeps_transition [OF assms])
    (auto simp: approval_reach_def dest: reject_expired_run)

lemma current_get: "row_get ar_id k (db_approvals s) = Some a \<Longrightarrow> current s a"
  by (auto simp: current_def dest: row_get_Some_key)

lemma evolves_consume: "evolves lifecycle (consume_approval L k actor now)"
proof (rule keeps_evolves)
  fix s
  show "keeps lifecycle s (consume_approval L k actor now)"
    unfolding consume_approval_def
  proof (intro lifecycle.keeps_get_bind lifecycle.keeps_lift_bind, goal_cases)
    case (1 a u)
    then have cur: "current s a" by (simp add: option_or_Inr_iff current_get)
    then show ?case
      by (intro lifecycle.keeps_guard_bind [OF keeps_reject_expired] lifecycle.keeps_raise_if_bind
          lifecycle.keeps_get_bind lifecycle.keeps_lift_bind keeps_transition)
        (auto simp: approval_reach_def dest: reject_expired_run)
  qed
qed

lemma current_member:
  "distinct (map ar_id (db_approvals s)) \<Longrightarrow> a \<in> set (db_approvals s) \<Longrightarrow> current s a"
  by (simp add: current_def row_get_member)

lemma active_for_candidate_Some:
  "active_for_candidate c s = Some a \<Longrightarrow> a \<in> set (db_approvals s) \<and> active_approval a \<and> ar_torrent_candidate_id a = c"
  by (auto simp: active_for_candidate_def dest: find_SomeD)

lemma keeps_clear_active:
  assumes "distinct (map ar_id (db_approvals s))"
  shows "keeps lifecycle s (clear_active_for_candidate L c now)"
  unfolding clear_active_for_candidate_def
proof (rule lifecycle.keeps_get_bind)
  show "keeps lifecycle s (case active_for_candidate c s of
      None \<Rightarrow> returnH ()
    | Some a \<Rightarrow> bindH (raise_ifH (ar_status a = AP_EXECUTING) (app_err ''APPROVAL_EXECUTION_IN_PROGRESS'' 409)) (\<lambda>_.
        if is_expired a now then bindH (expire L a now) (\<lambda>_. returnH ())
        else raiseH (app_err ''APPROVAL_REQUEST_DUPLICATE'' 409)))"
  proof (cases "active_for_candidate c s")
    case None
    then show ?thesis by (simp add: lifecycle.keeps_return)
  next
    case (Some a)
    note active_for_candidate_Some [OF Some]
    then have a: "current s a" "active_approval a" using current_member [OF assms] by blast+
    then have "ar_status a \<noteq> AP_EXECUTING \<Longrightarrow> keeps lifecycle s (expire L a now)"
      by (intro keeps_expire) (auto simp: active_approval_def)
    then show ?thesis using Some
      by (auto intro!: lifecycle.keeps_raise_if_bind lifecycle.keeps_step_bind lifecycle.evolves_return
          lifecycle.keeps_raise)
  qed
qed

lemma keeps_create:
  assumes "distinct (map ar_id (db_approvals s))"
  shows "keeps lifecycle s (create_approval_request L c ttl st actor now nid)"
  unfolding create_approval_request_def Let_def
  by (intro lifecycle.keeps_get_bind lifecycle.keeps_lift_bind
      lifecycle.keeps_step_bind [OF keeps_clear_active [OF assms]] lifecycle.evolves_rules lifecycle_other_writes)

text \<open>The life of an approval. Whatever a handler of the service does, on success or on an
  exception, every approval of the store is still there with its candidate, snapshot, seal,
  requester and dates, and its status has only moved forward: PENDING to APPROVED, REJECTED or
  EXPIRED; APPROVED to EXECUTING, REVOKED or EXPIRED; EXECUTING to CONSUMED or, by the fence of
  the worker, REVOKED; never out of a final one. The store has one row per identifier; the row handed to a handler is the stored one.\<close>
theorem approval_handlers_keep_lifecycle:
  assumes "current s a" and "distinct (map ar_id (db_approvals s))"
  shows "keeps lifecycle s (create_approval_request L c ttl st actor now nid)
    \<and> keeps lifecycle s (save_preflight_result L a r actor now)
    \<and> keeps lifecycle s (approve_request L a req st actor now nid)
    \<and> keeps lifecycle s (approve_request_automatically L a st actor rv dc now now2 nid)
    \<and> keeps lifecycle s (reject_request L a reason actor now)
    \<and> keeps lifecycle s (revoke_request L a reason actor now)
    \<and> keeps lifecycle s (consume_approval L (ar_id a) actor now)"
  using assms
  by (intro conjI keeps_create keeps_save_preflight keeps_approve keeps_approve_auto keeps_reject keeps_revoke
      evolves_keeps evolves_consume)

lemma approval_handlers_keep_lifecycle_witness:
  "keeps lifecycle ready_db (reject_request sealed_lib ready_approval None ''admin'' 0)
    \<and> ar_status (decided ready_approval AP_REJECTED (Aware 0)) = AP_REJECTED"
proof -
  have "distinct (map ar_id (db_approvals ready_db))" by (simp add: ready_db_def)
  from approval_handlers_keep_lifecycle [OF ready_current this] show ?thesis by simp
qed

end
