(* ===== verification/AutomationPolicy.thy ===== *)
theory AutomationPolicy
  imports Entities
begin

text \<open>
  The automation policy (\<open>services/automation_policy.py\<close>): an append-only chain of revisions,
  each sealed by a hash that covers the hash of its predecessor, and one head row that points
  at the current revision and only moves forward by one; and the decision records of the
  automation engine (\<open>build_automation_decision\<close> and \<open>add_decision_once\<close> of
  \<open>services/automation.py\<close>), sealed by the hash of their evidence and by a key of what they
  decide on. The new identifiers and the clock are arguments.
\<close>

section \<open>Revisions and their hashes\<close>

definition DEFAULT_ELIGIBILITY_RULES :: json where
  "DEFAULT_ELIGIBILITY_RULES = JObj
    [(''identity_min_score'', JFloat ''0.5''), (''identity_min_margin'', JFloat ''0.1''),
     (''torrent_min_score'', JFloat ''0.75''), (''torrent_min_margin'', JFloat ''0.1''),
     (''torrent_min_seeders'', JInt 1)]"

definition DEFAULT_ACKNOWLEDGEMENTS :: json where
  "DEFAULT_ACKNOWLEDGEMENTS = JObj
    [(''acknowledges_hnr'', JBool False), (''acknowledges_seeding'', JBool False),
     (''acknowledges_plan_only'', JBool False), (''acknowledges_add_paused_only'', JBool False)]"

definition policy_hash_payload :: "revision \<Rightarrow> json" where
  "policy_hash_payload r = JObj
    [(''revision_no'', JInt (pr_revision_no r)),
     (''identity_mode'', JStr (automation_mode_value (pr_identity_mode r))),
     (''torrent_selection_mode'', JStr (automation_mode_value (pr_torrent_selection_mode r))),
     (''approval_mode'', JStr (automation_mode_value (pr_approval_mode r))),
     (''execution_mode'', JStr (automation_mode_value (pr_execution_mode r))),
     (''eligibility_rules'', pr_eligibility_rules r),
     (''acknowledgements'', pr_acknowledgements r),
     (''previous_policy_hash'', opt_json JStr (pr_previous_policy_hash r))]"

definition canonical_hash :: "lib \<Rightarrow> json \<Rightarrow> string" where
  "canonical_hash L j = sha256_hex L (dumps j)"

definition calculate_policy_hash :: "lib \<Rightarrow> revision \<Rightarrow> string" where
  "calculate_policy_hash L r = canonical_hash L (policy_hash_payload r)"

definition chain_invalid :: exn where
  "chain_invalid = app_err ''AUTOMATION_POLICY_CHAIN_INVALID'' 409"

definition previous_revision :: "revision list \<Rightarrow> revision \<Rightarrow> revision option" where
  "previous_revision revs r = find (\<lambda>p. pr_revision_no p = pr_revision_no r - 1) revs"

text \<open>The loop of \<open>verify_policy_revision\<close>: the revision it is at and the identifiers it has seen.\<close>

function verify_chain :: "lib \<Rightarrow> revision list \<Rightarrow> revision \<Rightarrow> string list \<Rightarrow> exn + unit" where
  "verify_chain L revs current seen =
    (if pr_id current \<in> set seen then Inl chain_invalid
     else if calculate_policy_hash L current \<noteq> pr_policy_hash current
       then Inl (app_err ''AUTOMATION_POLICY_TAMPERED'' 409)
     else if pr_revision_no current = 1
       then (if pr_previous_policy_hash current \<noteq> None then Inl chain_invalid else Inr ())
     else case previous_revision revs current of
       None \<Rightarrow> Inl chain_invalid
     | Some previous \<Rightarrow>
         if pr_previous_policy_hash current \<noteq> Some (pr_policy_hash previous) then Inl chain_invalid
         else verify_chain L revs previous (pr_id current # seen))"
  by pat_completeness auto

text \<open>Each round adds an identifier of the table, or of the revision it started with, to the seen ones.\<close>

termination
proof (relation "measure (\<lambda>(L, revs, current, seen). card (insert (pr_id current) (pr_id ` set revs) - set seen))")
  fix L revs current seen previous
  assume new: "pr_id current \<notin> set seen" and "previous_revision revs current = Some previous"
  then have prev: "previous \<in> set revs" by (auto simp: previous_revision_def dest: find_SomeD)
  have "insert (pr_id previous) (pr_id ` set revs) - set (pr_id current # seen)
      \<subset> insert (pr_id current) (pr_id ` set revs) - set seen"
    using new prev by auto
  then have "card (insert (pr_id previous) (pr_id ` set revs) - set (pr_id current # seen))
      < card (insert (pr_id current) (pr_id ` set revs) - set seen)"
    by (intro psubset_card_mono) simp_all
  then show "((L, revs, previous, pr_id current # seen), (L, revs, current, seen))
      \<in> measure (\<lambda>(L, revs, current, seen). card (insert (pr_id current) (pr_id ` set revs) - set seen))"
    by simp
qed simp

declare verify_chain.simps [simp del]

definition verify_policy_revision :: "lib \<Rightarrow> revision list \<Rightarrow> revision \<Rightarrow> exn + unit" where
  "verify_policy_revision L revs r = verify_chain L revs r []"

section \<open>Writes of the policy tables\<close>

definition revision_check :: "revision \<Rightarrow> bool" where
  "revision_check r \<longleftrightarrow> 1 \<le> pr_revision_no r
    \<and> portable_hex_check (Some (pr_policy_hash r)) [64] \<and> portable_hex_check (pr_previous_policy_hash r) [64]
    \<and> (if pr_revision_no r = 1 then pr_previous_policy_hash r = None else pr_previous_policy_hash r \<noteq> None)"

definition insert_revision :: "revision \<Rightarrow> unit session" where
  "insert_revision r = bindH (getH db_revisions) (\<lambda>rows.
    bindH (raise_ifH (\<not> revision_check r \<or> pr_id r \<in> set (map pr_id rows)
        \<or> pr_revision_no r \<in> set (map pr_revision_no rows)
        \<or> pr_policy_hash r \<in> set (map pr_policy_hash rows))
      (IntegrityErr ''automation_policy_revisions'')) (\<lambda>_.
    modifyH (\<lambda>s. s\<lparr> db_revisions := row_add r (db_revisions s) \<rparr>)))"

definition head_check :: "policy_head \<Rightarrow> bool" where
  "head_check h \<longleftrightarrow> ph_scope h = ''global'' \<and> 1 \<le> ph_version h"

definition insert_head :: "policy_head \<Rightarrow> unit session" where
  "insert_head h = bindH (getH db_heads) (\<lambda>rows.
    bindH (raise_ifH (\<not> head_check h \<or> ph_scope h \<in> set (map ph_scope rows)
        \<or> ph_current_revision_id h \<in> set (map ph_current_revision_id rows))
      (IntegrityErr ''automation_policy_heads'')) (\<lambda>_.
    modifyH (\<lambda>s. s\<lparr> db_heads := row_add h (db_heads s) \<rparr>)))"

text \<open>The listener \<open>guard_automation_policy_head_update\<close>, for a head of unchanged scope.\<close>

definition guard_automation_policy_head_update :: "db \<Rightarrow> policy_head \<Rightarrow> policy_head \<Rightarrow> exn + unit" where
  "guard_automation_policy_head_update s old new =
    raise_if (ph_version new = ph_version old \<or> ph_current_revision_id new = ph_current_revision_id old
      \<or> ph_version new \<noteq> ph_version old + 1
      \<or> (case (row_get pr_id (ph_current_revision_id old) (db_revisions s),
              row_get pr_id (ph_current_revision_id new) (db_revisions s)) of
           (Some previous, Some current) \<Rightarrow>
             \<not> (pr_revision_no current = ph_version new
               \<and> pr_previous_policy_hash current = Some (pr_policy_hash previous))
         | _ \<Rightarrow> True)) PyValueError"

definition save_head :: "policy_head \<Rightarrow> policy_head \<Rightarrow> unit session" where
  "save_head old new = bindH (getH (\<lambda>s. guard_automation_policy_head_update s old new)) (\<lambda>g.
    bindH (liftH g) (\<lambda>_.
    bindH (raise_ifH (\<not> head_check new) (IntegrityErr ''automation_policy_heads'')) (\<lambda>_.
    modifyH (\<lambda>s. s\<lparr> db_heads := row_put ph_scope new (db_heads s) \<rparr>))))"

section \<open>The current policy\<close>

definition sealed_revision :: "lib \<Rightarrow> revision \<Rightarrow> revision" where
  "sealed_revision L r = r\<lparr> pr_policy_hash := calculate_policy_hash L r \<rparr>"

definition new_default_revision :: "lib \<Rightarrow> int \<Rightarrow> string \<Rightarrow> revision" where
  "new_default_revision L now nid = sealed_revision L \<lparr>
     pr_id = nid, pr_revision_no = 1, pr_identity_mode = AM_MANUAL, pr_torrent_selection_mode = AM_MANUAL,
     pr_approval_mode = AM_MANUAL, pr_execution_mode = AM_MANUAL,
     pr_eligibility_rules = DEFAULT_ELIGIBILITY_RULES, pr_acknowledgements = DEFAULT_ACKNOWLEDGEMENTS,
     pr_policy_hash = [], pr_previous_policy_hash = None, pr_effective_from = Aware now,
     pr_created_by = ''system:bootstrap'' \<rparr>"

definition new_default_head :: "string \<Rightarrow> policy_head" where
  "new_default_head nid = \<lparr> ph_scope = ''global'', ph_current_revision_id = nid, ph_version = 1 \<rparr>"

definition global_head :: "db \<Rightarrow> policy_head option" where
  "global_head s = row_get ph_scope ''global'' (db_heads s)"

text \<open>The nested transaction that creates the default policy: both rows or none.\<close>

definition create_default_policy :: "lib \<Rightarrow> int \<Rightarrow> string \<Rightarrow> (policy_head \<times> revision) session" where
  "create_default_policy L now nid = transact
    (bindH (insert_revision (new_default_revision L now nid)) (\<lambda>_.
     bindH (insert_head (new_default_head nid)) (\<lambda>_.
     returnH (new_default_head nid, new_default_revision L now nid))))"

definition head_invalid :: exn where
  "head_invalid = app_err ''AUTOMATION_POLICY_HEAD_INVALID'' 409"

definition policy_at_head :: "lib \<Rightarrow> policy_head \<Rightarrow> (policy_head \<times> revision) session" where
  "policy_at_head L h =
    bindH (getH (\<lambda>s. row_get pr_id (ph_current_revision_id h) (db_revisions s))) (\<lambda>x.
    bindH (liftH (option_or head_invalid x)) (\<lambda>r.
    bindH (getH (\<lambda>s. verify_policy_revision L (db_revisions s) r)) (\<lambda>v.
    bindH (liftH v) (\<lambda>_.
    bindH (raise_ifH (ph_version h \<noteq> pr_revision_no r) head_invalid) (\<lambda>_.
    returnH (h, r))))))"

definition get_current_policy :: "lib \<Rightarrow> int \<Rightarrow> string \<Rightarrow> (policy_head \<times> revision) session" where
  "get_current_policy L now nid =
    bindH (getH global_head) (\<lambda>x.
    case x of
      Some h \<Rightarrow> policy_at_head L h
    | None \<Rightarrow> catchH (create_default_policy L now nid) (\<lambda>e. case e of
        IntegrityErr _ \<Rightarrow> bindH (getH global_head) (\<lambda>y.
          bindH (liftH (option_or (app_err ''AUTOMATION_POLICY_NOT_INITIALIZED'' 503) y)) (policy_at_head L))
      | _ \<Rightarrow> raiseH e))"

section \<open>Publishing\<close>

record policy_request =
  rq_base_revision_no :: int
  rq_identity_mode :: automation_mode
  rq_torrent_selection_mode :: automation_mode
  rq_approval_mode :: automation_mode
  rq_execution_mode :: automation_mode
  rq_identity_min_score :: string
  rq_identity_min_margin :: string
  rq_torrent_min_score :: string
  rq_torrent_min_margin :: string
  rq_torrent_min_seeders :: int
  rq_acknowledges_hnr :: bool
  rq_acknowledges_seeding :: bool
  rq_acknowledges_plan_only :: bool
  rq_acknowledges_add_paused_only :: bool

definition missing_acknowledgements :: "policy_request \<Rightarrow> string list" where
  "missing_acknowledgements q =
    (let hnr = (''acknowledges_hnr'', rq_acknowledges_hnr q);
         seeding = (''acknowledges_seeding'', rq_acknowledges_seeding q);
         plan = (''acknowledges_plan_only'', rq_acknowledges_plan_only q);
         paused = (''acknowledges_add_paused_only'', rq_acknowledges_add_paused_only q);
         of_approval = (if rq_approval_mode q = AM_AUTO_IF_ELIGIBLE
           then map fst (filter (\<lambda>a. \<not> snd a) [hnr, seeding, plan]) else []);
         of_execution = (if rq_execution_mode q = AM_AUTO_IF_ELIGIBLE
           then map fst (filter (\<lambda>a. \<not> snd a) [hnr, seeding, paused]) else [])
     in of_approval @ filter (\<lambda>n. n \<notin> set of_approval) of_execution)"

definition validate_acknowledgements :: "policy_request \<Rightarrow> exn + unit" where
  "validate_acknowledgements q =
    raise_if (missing_acknowledgements q \<noteq> [])
      (app_err_details ''AUTOMATION_ACKNOWLEDGEMENTS_REQUIRED'' 409
        [(''missing'', strs_json (missing_acknowledgements q))])"

definition next_revision :: "lib \<Rightarrow> revision \<Rightarrow> policy_request \<Rightarrow> string \<Rightarrow> int \<Rightarrow> string \<Rightarrow> revision" where
  "next_revision L current q actor now nid = sealed_revision L \<lparr>
     pr_id = nid, pr_revision_no = pr_revision_no current + 1, pr_identity_mode = rq_identity_mode q,
     pr_torrent_selection_mode = rq_torrent_selection_mode q, pr_approval_mode = rq_approval_mode q,
     pr_execution_mode = rq_execution_mode q,
     pr_eligibility_rules = JObj
       [(''identity_min_score'', JFloat (rq_identity_min_score q)),
        (''identity_min_margin'', JFloat (rq_identity_min_margin q)),
        (''torrent_min_score'', JFloat (rq_torrent_min_score q)),
        (''torrent_min_margin'', JFloat (rq_torrent_min_margin q)),
        (''torrent_min_seeders'', JInt (rq_torrent_min_seeders q))],
     pr_acknowledgements = JObj
       [(''acknowledges_hnr'', JBool (rq_acknowledges_hnr q)),
        (''acknowledges_seeding'', JBool (rq_acknowledges_seeding q)),
        (''acknowledges_plan_only'', JBool (rq_acknowledges_plan_only q)),
        (''acknowledges_add_paused_only'', JBool (rq_acknowledges_add_paused_only q))],
     pr_policy_hash = [], pr_previous_policy_hash = Some (pr_policy_hash current),
     pr_effective_from = Aware now, pr_created_by = actor \<rparr>"

definition publish_policy_revision ::
    "lib \<Rightarrow> policy_request \<Rightarrow> string \<Rightarrow> int \<Rightarrow> string \<Rightarrow> int \<Rightarrow> string \<Rightarrow> (policy_head \<times> revision) session" where
  "publish_policy_revision L q actor now1 nid1 now2 nid2 =
    bindH (get_current_policy L now1 nid1) (\<lambda>hr.
    bindH (raise_ifH (rq_base_revision_no q \<noteq> pr_revision_no (snd hr))
      (app_err_details ''AUTOMATION_POLICY_REVISION_CONFLICT'' 409
        [(''current_revision_no'', JInt (pr_revision_no (snd hr)))])) (\<lambda>_.
    bindH (liftH (validate_acknowledgements q)) (\<lambda>_.
    let r = next_revision L (snd hr) q actor now2 nid2;
        h = (fst hr)\<lparr> ph_current_revision_id := pr_id r, ph_version := ph_version (fst hr) + 1 \<rparr> in
    bindH (insert_revision r) (\<lambda>_.
    bindH (save_head (fst hr) h) (\<lambda>_.
    returnH (h, r))))))"

section \<open>Decisions\<close>

definition calculate_decision_evidence_hash :: "lib \<Rightarrow> json \<Rightarrow> string" where
  "calculate_decision_evidence_hash L evidence = canonical_hash L (sanitize_details L evidence)"

definition dedupe_payload :: "decision \<Rightarrow> json" where
  "dedupe_payload d = JObj
    [(''version'', JInt 2), (''policy_revision_id'', JStr (ad_policy_revision_id d)),
     (''stage'', JStr (automation_stage_value (ad_stage d))), (''action'', JStr (ad_action d)),
     (''outcome'', JStr (decision_outcome_value (ad_outcome d))),
     (''media_item_id'', JStr (ad_media_item_id d)),
     (''metadata_match_id'', opt_json JStr (ad_metadata_match_id d)),
     (''torrent_candidate_id'', opt_json JStr (ad_torrent_candidate_id d)),
     (''approval_request_id'', opt_json JStr (ad_approval_request_id d))]"

definition calculate_decision_dedupe_key :: "lib \<Rightarrow> decision \<Rightarrow> string" where
  "calculate_decision_dedupe_key L d = canonical_hash L (dedupe_payload d)"

definition verify_automation_decision :: "lib \<Rightarrow> decision \<Rightarrow> exn + unit" where
  "verify_automation_decision L d =
    bindR (raise_if (calculate_decision_evidence_hash L (ad_evidence_snapshot d) \<noteq> ad_evidence_hash d)
      (app_err ''AUTOMATION_DECISION_TAMPERED'' 409)) (\<lambda>_.
    raise_if (calculate_decision_dedupe_key L d \<noteq> ad_dedupe_key d)
      (app_err ''AUTOMATION_DECISION_BINDING_INVALID'' 409))"

text \<open>\<open>_REASON_CODE\<close> is the pattern of a preflight check code.\<close>

definition reason_code_ok :: "string \<Rightarrow> bool" where
  "reason_code_ok s = check_code_ok s"

definition build_automation_decision ::
    "lib \<Rightarrow> revision \<Rightarrow> automation_stage \<Rightarrow> string \<Rightarrow> decision_outcome \<Rightarrow> string \<Rightarrow> string list
      \<Rightarrow> (string \<times> json) list \<Rightarrow> string option \<Rightarrow> string option \<Rightarrow> string option \<Rightarrow> string option
      \<Rightarrow> string \<Rightarrow> exn + decision" where
  "build_automation_decision L r stage action outcome media reasons evidence match_id candidate approval_id execution_id nid =
    (let safe = sanitize_details L (JObj evidence); unique = dedup reasons;
         d = \<lparr> ad_id = nid, ad_policy_revision_id = pr_id r, ad_stage = stage, ad_action = action,
           ad_outcome = outcome, ad_media_item_id = media, ad_metadata_match_id = match_id,
           ad_torrent_candidate_id = candidate, ad_approval_request_id = approval_id,
           ad_download_execution_id = execution_id, ad_reason_codes = unique, ad_evidence_snapshot = safe,
           ad_evidence_hash = canonical_hash L safe, ad_dedupe_key = [], ad_actor = ''system:automation'' \<rparr>
     in if unique = [] \<or> \<not> list_all reason_code_ok unique then Inl PyValueError
        else Inr (d\<lparr> ad_dedupe_key := calculate_decision_dedupe_key L d \<rparr>))"

definition insert_decision :: "decision \<Rightarrow> unit session" where
  "insert_decision d = bindH (getH db_decisions) (\<lambda>rows.
    bindH (raise_ifH (ad_id d \<in> set (map ad_id rows) \<or> ad_dedupe_key d \<in> set (map ad_dedupe_key rows)
        \<or> \<not> portable_hex_check (Some (ad_evidence_hash d)) [64]
        \<or> \<not> portable_hex_check (Some (ad_dedupe_key d)) [64]) (IntegrityErr ''automation_decisions'')) (\<lambda>_.
    modifyH (\<lambda>s. s\<lparr> db_decisions := row_add d (db_decisions s) \<rparr>)))"

definition decision_by_key :: "string \<Rightarrow> db \<Rightarrow> decision option" where
  "decision_by_key key s = find (\<lambda>x. ad_dedupe_key x = key) (db_decisions s)"

definition add_decision_once :: "decision \<Rightarrow> (decision \<times> bool) session" where
  "add_decision_once d =
    bindH (getH (decision_by_key (ad_dedupe_key d))) (\<lambda>existing.
    case existing of
      Some x \<Rightarrow> returnH (x, False)
    | None \<Rightarrow> catchH (transact (bindH (insert_decision d) (\<lambda>_. returnH (d, True)))) (\<lambda>e. case e of
        IntegrityErr _ \<Rightarrow> bindH (getH (decision_by_key (ad_dedupe_key d))) (\<lambda>again.
          case again of Some x \<Rightarrow> returnH (x, False) | None \<Rightarrow> raiseH e)
      | _ \<Rightarrow> raiseH e))"

end
