(* ===== verification/AutomationLaws.thy ===== *)
theory AutomationLaws
  imports AutomationPolicy
begin

text \<open>
  The properties of the policy chain and of the decision records: what the verification loop
  accepts, what one hash fixes of the whole history, what a publication does and how it
  excludes a concurrent one, and how a decision is recorded once.
\<close>

section \<open>The chain\<close>

text \<open>The abstract specification of \<open>verify_policy_revision\<close>: a hash chain down to revision one.\<close>

inductive policy_chain :: "lib \<Rightarrow> revision list \<Rightarrow> revision \<Rightarrow> bool" for L revs where
  genesis: "\<lbrakk> calculate_policy_hash L r = pr_policy_hash r; pr_revision_no r = 1;
      pr_previous_policy_hash r = None \<rbrakk> \<Longrightarrow> policy_chain L revs r"
| successor: "\<lbrakk> calculate_policy_hash L r = pr_policy_hash r; pr_revision_no r \<noteq> 1;
      previous_revision revs r = Some p; pr_previous_policy_hash r = Some (pr_policy_hash p);
      policy_chain L revs p \<rbrakk> \<Longrightarrow> policy_chain L revs r"

inductive_cases policy_chainE: "policy_chain L revs r"

lemma previous_revision_SomeD:
  "previous_revision revs r = Some p \<Longrightarrow> p \<in> set revs \<and> pr_revision_no p = pr_revision_no r - 1"
  by (auto simp: previous_revision_def dest: find_SomeD)

lemma policy_chain_positive: "policy_chain L revs r \<Longrightarrow> 1 \<le> pr_revision_no r"
  by (induction rule: policy_chain.induct) (auto dest: previous_revision_SomeD)

lemma policy_chain_sealed: "policy_chain L revs r \<Longrightarrow> calculate_policy_hash L r = pr_policy_hash r"
  by (erule policy_chainE) simp_all

lemma verify_chain_sound: "verify_chain L revs r seen = Inr () \<Longrightarrow> policy_chain L revs r"
proof (induction L revs r seen rule: verify_chain.induct)
  case (1 L revs r seen)
  note run = "1.prems" [unfolded verify_chain.simps [of L revs r seen]]
  have g: "pr_id r \<notin> set seen" "calculate_policy_hash L r = pr_policy_hash r"
    using run by (auto split: if_splits)
  show ?case
  proof (cases "pr_revision_no r = 1")
    case True
    with run g show ?thesis by (auto intro: genesis split: if_splits)
  next
    case False
    with run g obtain p where p: "previous_revision revs r = Some p"
      "pr_previous_policy_hash r = Some (pr_policy_hash p)" "verify_chain L revs p (pr_id r # seen) = Inr ()"
      by (auto split: option.splits if_splits)
    have "policy_chain L revs p"
      using "1.IH" g False p by blast
    with g False p show ?thesis by (auto intro: successor)
  qed
qed

lemma verify_chain_complete:
  assumes "policy_chain L revs r" and "distinct (map pr_id revs)" and "r \<in> set revs"
    and "\<forall>i \<in> set seen. \<exists>q \<in> set revs. pr_id q = i \<and> pr_revision_no r < pr_revision_no q"
  shows "verify_chain L revs r seen = Inr ()"
  using assms
proof (induction arbitrary: seen rule: policy_chain.induct)
  case (genesis r)
  have "pr_id r \<notin> set seen"
    using genesis.prems by (metis (no_types) less_irrefl row_get_member option.inject)
  with genesis show ?case by (simp add: verify_chain.simps [of L revs r seen])
next
  case (successor r p)
  have new: "pr_id r \<notin> set seen"
    using successor.prems by (metis (no_types) less_irrefl row_get_member option.inject)
  note p = previous_revision_SomeD [OF successor.hyps(3)]
  have "\<forall>i \<in> set (pr_id r # seen). \<exists>q \<in> set revs. pr_id q = i \<and> pr_revision_no p < pr_revision_no q"
    using successor.prems p by fastforce
  then have "verify_chain L revs p (pr_id r # seen) = Inr ()"
    using successor.IH successor.prems(1) p by blast
  with new successor.hyps show ?case by (simp add: verify_chain.simps [of L revs r seen])
qed

text \<open>The verification of a policy revision always ends, and in a table with one row per
  identifier it accepts exactly the revisions that head a complete hash chain down to revision
  one: the check for a repeated identifier never rejects a valid chain, and no chain that skips,
  misses or alters a revision is accepted.\<close>
theorem verify_policy_revision_iff:
  assumes "distinct (map pr_id revs)" and "r \<in> set revs"
  shows "verify_policy_revision L revs r = Inr () \<longleftrightarrow> policy_chain L revs r"
  using verify_chain_sound [of L revs r "[]"] verify_chain_complete [OF _ assms, of L "[]"]
  by (auto simp: verify_policy_revision_def)

definition example_revisions :: "lib \<Rightarrow> revision list" where
  "example_revisions L = [new_default_revision L 0 ''r1'']"

lemma example_chain: "policy_chain L (example_revisions L) (new_default_revision L 0 ''r1'')"
  by (rule genesis) (simp_all add: new_default_revision_def sealed_revision_def calculate_policy_hash_def
      policy_hash_payload_def)

lemma verify_policy_revision_iff_witness:
  "verify_policy_revision example_lib (example_revisions example_lib) (new_default_revision example_lib 0 ''r1'') = Inr ()"
  using verify_policy_revision_iff [of "example_revisions example_lib" "new_default_revision example_lib 0 ''r1''" example_lib]
    example_chain [of example_lib]
  by (simp add: example_revisions_def)

section \<open>What a hash fixes\<close>

definition same_policy :: "revision \<Rightarrow> revision \<Rightarrow> bool" where
  "same_policy a b \<longleftrightarrow> pr_revision_no a = pr_revision_no b \<and> pr_policy_hash a = pr_policy_hash b
    \<and> pr_identity_mode a = pr_identity_mode b \<and> pr_torrent_selection_mode a = pr_torrent_selection_mode b
    \<and> pr_approval_mode a = pr_approval_mode b \<and> pr_execution_mode a = pr_execution_mode b
    \<and> canon (pr_eligibility_rules a) = canon (pr_eligibility_rules b)
    \<and> canon (pr_acknowledgements a) = canon (pr_acknowledgements b)
    \<and> pr_previous_policy_hash a = pr_previous_policy_hash b"

lemma policy_payload_members:
  "obj_get ''revision_no'' (policy_hash_payload r) = Some (JInt (pr_revision_no r))"
  "obj_get ''identity_mode'' (policy_hash_payload r) = Some (JStr (automation_mode_value (pr_identity_mode r)))"
  "obj_get ''torrent_selection_mode'' (policy_hash_payload r)
    = Some (JStr (automation_mode_value (pr_torrent_selection_mode r)))"
  "obj_get ''approval_mode'' (policy_hash_payload r) = Some (JStr (automation_mode_value (pr_approval_mode r)))"
  "obj_get ''execution_mode'' (policy_hash_payload r) = Some (JStr (automation_mode_value (pr_execution_mode r)))"
  "obj_get ''eligibility_rules'' (policy_hash_payload r) = Some (pr_eligibility_rules r)"
  "obj_get ''acknowledgements'' (policy_hash_payload r) = Some (pr_acknowledgements r)"
  "obj_get ''previous_policy_hash'' (policy_hash_payload r) = Some (opt_json JStr (pr_previous_policy_hash r))"
  by (simp_all add: policy_hash_payload_def obj_get_def)

lemma policy_hash_payload_wf [simp]:
  "json_wf (policy_hash_payload r) \<longleftrightarrow> json_wf (pr_eligibility_rules r) \<and> json_wf (pr_acknowledgements r)"
  by (simp add: policy_hash_payload_def)

lemma same_policy_of_hash:
  assumes "calculate_policy_hash L a = pr_policy_hash a" and "calculate_policy_hash L b = pr_policy_hash b"
    and "pr_policy_hash a = pr_policy_hash b"
    and "json_wf (policy_hash_payload a)" and "json_wf (policy_hash_payload b)"
    and "inj_on (sha256_hex L) {dumps (policy_hash_payload a), dumps (policy_hash_payload b)}"
  shows "same_policy a b"
proof -
  have "sha256_hex L (dumps (policy_hash_payload a)) = sha256_hex L (dumps (policy_hash_payload b))"
    using assms(1-3) by (simp add: calculate_policy_hash_def canonical_hash_def)
  then have "canon (policy_hash_payload a) = canon (policy_hash_payload b)"
    by (rule sealed_canon [OF _ assms(4,5,6)])
  note m = dumps_members [OF assms(4,5) dumps_canon_eq [OF this]]
  show ?thesis
    unfolding same_policy_def
    using m [of "''revision_no''"] m [of "''identity_mode''"] m [of "''torrent_selection_mode''"]
      m [of "''approval_mode''"] m [of "''execution_mode''"] m [of "''eligibility_rules''"]
      m [of "''acknowledgements''"] m [of "''previous_policy_hash''"] assms(3)
    by (simp only: policy_payload_members option.map canon_leaves canon.simps option.inject json_eq_simps
        json.inject automation_mode_value_eq simp_thms)
qed

text \<open>One policy hash fixes the whole history. When two tables each hold a verified chain and
  the two heads carry the same policy hash, the chains are equally long and agree at every
  revision number in modes, rules, acknowledgements and predecessor hash, unless two of the
  canonical texts collide under SHA-256. Rewriting any past revision changes the head's hash.\<close>
theorem policy_hash_fixes_history:
  assumes "policy_chain L revs r" and "policy_chain L revs' r'" and "pr_policy_hash r = pr_policy_hash r'"
    and "r \<in> set revs" and "r' \<in> set revs'"
    and "\<forall>x \<in> set revs \<union> set revs'. json_wf (policy_hash_payload x)"
    and "inj_on (sha256_hex L) ((\<lambda>x. dumps (policy_hash_payload x)) ` (set revs \<union> set revs'))"
  shows "pr_revision_no r = pr_revision_no r'
    \<and> (\<forall>k. 1 \<le> k \<and> k \<le> pr_revision_no r \<longrightarrow> (\<exists>p \<in> set revs. \<exists>p' \<in> set revs'.
          pr_revision_no p = k \<and> policy_chain L revs p \<and> policy_chain L revs' p' \<and> same_policy p p'))"
  using assms(1-5)
proof (induction arbitrary: r' rule: policy_chain.induct)
  case (genesis r)
  have "policy_chain L revs r" using genesis.hyps by (rule policy_chain.genesis)
  moreover have "same_policy r r'"
  proof (rule same_policy_of_hash [of L])
    show "calculate_policy_hash L r' = pr_policy_hash r'" by (rule policy_chain_sealed [OF genesis.prems(1)])
    show "inj_on (sha256_hex L) {dumps (policy_hash_payload r), dumps (policy_hash_payload r')}"
      by (rule inj_on_subset [OF assms(7)]) (use genesis.prems in auto)
  qed (use genesis assms(6) in simp_all)
  ultimately show ?case
    using genesis.hyps genesis.prems by (intro conjI allI impI bexI [of _ r] bexI [of _ r'])
      (auto simp: same_policy_def)
next
  case (successor r p)
  have "policy_chain L revs r" using successor.hyps(1-5) by (rule policy_chain.successor)
  have same: "same_policy r r'"
  proof (rule same_policy_of_hash [of L])
    show "calculate_policy_hash L r' = pr_policy_hash r'" by (rule policy_chain_sealed [OF successor.prems(1)])
    show "inj_on (sha256_hex L) {dumps (policy_hash_payload r), dumps (policy_hash_payload r')}"
      by (rule inj_on_subset [OF assms(7)]) (use successor.prems in auto)
  qed (use successor assms(6) in simp_all)
  have no: "pr_revision_no r' = pr_revision_no r" "pr_previous_policy_hash r' = Some (pr_policy_hash p)"
    using same successor.hyps(4) by (simp_all add: same_policy_def)
  obtain p' where p': "previous_revision revs' r' = Some p'" "pr_policy_hash p = pr_policy_hash p'"
    "policy_chain L revs' p'"
    using successor.prems(1) no successor.hyps(2) by (auto elim: policy_chainE)
  note m = previous_revision_SomeD [OF successor.hyps(3)] previous_revision_SomeD [OF p'(1)]
  have ih: "pr_revision_no p = pr_revision_no p' \<and> (\<forall>k. 1 \<le> k \<and> k \<le> pr_revision_no p \<longrightarrow>
      (\<exists>q \<in> set revs. \<exists>q' \<in> set revs'.
        pr_revision_no q = k \<and> policy_chain L revs q \<and> policy_chain L revs' q' \<and> same_policy q q'))"
    using m by (intro successor.IH p'(2,3)) simp_all
  show ?case
  proof (intro conjI allI impI)
    show "pr_revision_no r = pr_revision_no r'" using no by simp
    fix k assume k: "1 \<le> k \<and> k \<le> pr_revision_no r"
    show "\<exists>q \<in> set revs. \<exists>q' \<in> set revs'.
        pr_revision_no q = k \<and> policy_chain L revs q \<and> policy_chain L revs' q' \<and> same_policy q q'"
    proof (cases "k = pr_revision_no r")
      case True
      then show ?thesis using same \<open>policy_chain L revs r\<close> successor.prems by blast
    next
      case False
      then have "k \<le> pr_revision_no p" using k m by simp
      then show ?thesis using ih k by blast
    qed
  qed
qed

lemma policy_hash_fixes_history_witness:
  "\<exists>p \<in> set (example_revisions example_lib). \<exists>p' \<in> set (example_revisions example_lib). same_policy p p'"
proof -
  let ?r = "new_default_revision example_lib 0 ''r1''"
  have "json_wf (policy_hash_payload ?r)"
    by (simp add: new_default_revision_def sealed_revision_def) code_simp
  then show ?thesis
    using policy_hash_fixes_history [OF example_chain example_chain refl, THEN conjunct2, rule_format, where k = 1]
    by (auto simp: example_revisions_def) (simp add: new_default_revision_def sealed_revision_def)
qed

section \<open>Publishing\<close>

text \<open>The policy tables of a store: one head, at the last revision of a verified chain.\<close>

definition policy_store :: "lib \<Rightarrow> db \<Rightarrow> policy_head \<Rightarrow> revision \<Rightarrow> bool" where
  "policy_store L s h r \<longleftrightarrow> global_head s = Some h
    \<and> distinct (map pr_id (db_revisions s)) \<and> distinct (map pr_revision_no (db_revisions s))
    \<and> row_get pr_id (ph_current_revision_id h) (db_revisions s) = Some r
    \<and> ph_version h = pr_revision_no r \<and> policy_chain L (db_revisions s) r"

lemma policy_store_row: "policy_store L s h r \<Longrightarrow> r \<in> set (db_revisions s) \<and> pr_id r = ph_current_revision_id h"
  by (auto simp: policy_store_def dest: row_get_SomeD)

lemma get_current_policy_ok:
  assumes "policy_store L s h r"
  shows "get_current_policy L now nid s = (Inr (h, r), s)"
proof -
  have "verify_policy_revision L (db_revisions s) r = Inr ()"
    unfolding verify_policy_revision_def
    using assms policy_store_row [OF assms] by (intro verify_chain_complete) (simp_all add: policy_store_def)
  with assms show ?thesis
    by (simp add: policy_store_def get_current_policy_def policy_at_head_def handler_defs)
qed

lemma previous_revision_append:
  "previous_revision revs x = Some p \<Longrightarrow> previous_revision (revs @ [r]) x = Some p"
  by (simp add: previous_revision_def find_append)

lemma policy_chain_append: "policy_chain L revs x \<Longrightarrow> policy_chain L (revs @ [r]) x"
  by (induction rule: policy_chain.induct) (auto intro: policy_chain.intros previous_revision_append)

lemma next_revision_simps [simp]:
  "pr_id (next_revision L c q actor now nid) = nid"
  "pr_revision_no (next_revision L c q actor now nid) = pr_revision_no c + 1"
  "pr_previous_policy_hash (next_revision L c q actor now nid) = Some (pr_policy_hash c)"
  "calculate_policy_hash L (next_revision L c q actor now nid) = pr_policy_hash (next_revision L c q actor now nid)"
  by (simp_all add: next_revision_def sealed_revision_def calculate_policy_hash_def policy_hash_payload_def)

lemma find_distinct: "distinct (map f xs) \<Longrightarrow> x \<in> set xs \<Longrightarrow> find (\<lambda>y. f y = f x) xs = Some x"
  using row_get_member [of f xs x] by (simp add: row_get_def)

lemma policy_chain_next:
  assumes "policy_chain L revs c" and "c \<in> set revs" and "distinct (map pr_revision_no revs)"
  shows "policy_chain L (revs @ [next_revision L c q actor now nid]) (next_revision L c q actor now nid)"
proof (rule successor)
  show "pr_revision_no (next_revision L c q actor now nid) \<noteq> 1"
    using policy_chain_positive [OF assms(1)] by simp
  have "previous_revision revs (next_revision L c q actor now nid) = Some c"
    using find_distinct [OF assms(3,2)] by (simp add: previous_revision_def)
  then show "previous_revision (revs @ [next_revision L c q actor now nid]) (next_revision L c q actor now nid) = Some c"
    by (rule previous_revision_append)
  show "policy_chain L (revs @ [next_revision L c q actor now nid]) c"
    by (rule policy_chain_append [OF assms(1)])
qed simp_all

definition advanced_head :: "policy_head \<Rightarrow> revision \<Rightarrow> policy_head" where
  "advanced_head h r = h\<lparr> ph_current_revision_id := pr_id r, ph_version := ph_version h + 1 \<rparr>"

definition revision_conflict :: "int \<Rightarrow> exn" where
  "revision_conflict no = app_err_details ''AUTOMATION_POLICY_REVISION_CONFLICT'' 409 [(''current_revision_no'', JInt no)]"

definition insertable :: "db \<Rightarrow> revision \<Rightarrow> bool" where
  "insertable s r \<longleftrightarrow> revision_check r \<and> pr_id r \<notin> set (map pr_id (db_revisions s))
    \<and> pr_revision_no r \<notin> set (map pr_revision_no (db_revisions s))
    \<and> pr_policy_hash r \<notin> set (map pr_policy_hash (db_revisions s))"

lemma publish_run:
  assumes "policy_store L s h r" and r'_def: "r' = next_revision L r q actor n2 i2"
  shows "publish_policy_revision L q actor n1 i1 n2 i2 s =
    (if rq_base_revision_no q \<noteq> pr_revision_no r then (Inl (revision_conflict (pr_revision_no r)), s)
     else if missing_acknowledgements q \<noteq> []
       then (Inl (app_err_details ''AUTOMATION_ACKNOWLEDGEMENTS_REQUIRED'' 409
              [(''missing'', strs_json (missing_acknowledgements q))]), s)
     else if \<not> insertable s r' then (Inl (IntegrityErr ''automation_policy_revisions''), s)
     else (Inr (advanced_head h r', r'), s\<lparr> db_revisions := db_revisions s @ [r'],
            db_heads := row_put ph_scope (advanced_head h r') (db_heads s) \<rparr>))"
proof -
  note st = assms(1) [unfolded policy_store_def]
  have guard: "guard_automation_policy_head_update (s\<lparr> db_revisions := db_revisions s @ [r'] \<rparr>) h (advanced_head h r')
      = Inr ()" if "insertable s r'"
  proof -
    have fresh: "row_get pr_id i2 (db_revisions s) = None"
      using that by (simp add: insertable_def r'_def row_get_None_conv)
    then have "row_get pr_id i2 (db_revisions s @ [r']) = Some r'"
      "row_get pr_id (ph_current_revision_id h) (db_revisions s @ [r']) = Some r"
      using st by (simp_all add: row_get_add [unfolded row_add_def] r'_def)
    moreover have "i2 \<noteq> ph_current_revision_id h" using fresh st by auto
    ultimately show ?thesis
      using st by (simp add: guard_automation_policy_head_update_def advanced_head_def r'_def)
  qed
  have check: "head_check (advanced_head h r')"
    using st policy_chain_positive [of L "db_revisions s" r]
    by (auto simp: head_check_def advanced_head_def global_head_def dest: row_get_SomeD)
  show ?thesis
    using guard check
    by (simp add: publish_policy_revision_def get_current_policy_ok [OF assms(1)] Let_def
        validate_acknowledgements_def insert_revision_def save_head_def handler_defs revision_conflict_def
        insertable_def row_add_def r'_def advanced_head_def)
qed

text \<open>C28: Publishing is a compare-and-swap on the revision number. From a store at revision n a
  publication succeeds only when it names n as its base and holds the acknowledgements its
  automatic modes call for; it appends exactly one revision, numbered n + 1 and chained to n,
  and moves the head to it, so that the store is again at the last revision of a verified
  chain. A second publication prepared on the same base then always fails with
  AUTOMATION_POLICY_REVISION_CONFLICT and changes nothing: no update is lost.\<close>
theorem publish_policy_revision_cas:
  assumes "policy_store L s h r" and "publish_policy_revision L q actor n1 i1 n2 i2 s = (Inr (h', r'), t)"
    and "rq_base_revision_no q2 = rq_base_revision_no q"
  shows "rq_base_revision_no q = pr_revision_no r \<and> missing_acknowledgements q = []
    \<and> pr_revision_no r' = pr_revision_no r + 1 \<and> pr_previous_policy_hash r' = Some (pr_policy_hash r)
    \<and> db_revisions t = db_revisions s @ [r'] \<and> policy_store L t h' r'
    \<and> publish_policy_revision L q2 actor2 n3 i3 n4 i4 t
        = (Inl (revision_conflict (pr_revision_no r')), t)"
proof -
  note run = assms(2) [unfolded publish_run [OF assms(1) refl]]
  note st = assms(1) [unfolded policy_store_def]
  have g: "rq_base_revision_no q = pr_revision_no r" "missing_acknowledgements q = []"
    "r' = next_revision L r q actor n2 i2" "insertable s r'" "h' = advanced_head h r'"
    "t = s\<lparr> db_revisions := db_revisions s @ [r'], db_heads := row_put ph_scope h' (db_heads s) \<rparr>"
    using run by (auto split: if_splits)
  have head: "global_head t = Some h'"
    using st by (auto simp: g(5,6) global_head_def row_get_put advanced_head_def dest: row_get_Some_key)
  have new: "row_get pr_id (pr_id r') (db_revisions s @ [r']) = Some r'"
    using g(4) by (simp add: insertable_def row_get_add [unfolded row_add_def] row_get_None_conv split: option.split)
      (metis imageI row_get_SomeD)
  have "policy_chain L (db_revisions s @ [r']) r'"
    unfolding g(3) using st policy_store_row [OF assms(1)] by (intro policy_chain_next) simp_all
  then have store: "policy_store L t h' r'"
    using st head new g(4) by (simp add: policy_store_def g(5,6) advanced_head_def insertable_def) (simp add: g(3))
  have "rq_base_revision_no q2 \<noteq> pr_revision_no r'" using assms(3) g(1) by (simp add: g(3))
  then have "publish_policy_revision L q2 actor2 n3 i3 n4 i4 t = (Inl (revision_conflict (pr_revision_no r')), t)"
    by (simp add: publish_run [OF store refl])
  then show ?thesis using g(1,2) store by (simp add: g(6)) (simp add: g(3))
qed

text \<open>An example store, with a digest that tells the first two revisions apart.\<close>

definition policy_lib :: lib where
  "policy_lib = example_lib\<lparr> sha256_hex := (\<lambda>s. replicate 64
     (if s = dumps (policy_hash_payload (new_default_revision example_lib 0 ''r1'')) then CHR ''0'' else CHR ''1'')) \<rparr>"

definition example_policy_request :: policy_request where
  "example_policy_request = \<lparr> rq_base_revision_no = 1, rq_identity_mode = AM_AUTO_IF_ELIGIBLE,
     rq_torrent_selection_mode = AM_MANUAL, rq_approval_mode = AM_AUTO_IF_ELIGIBLE,
     rq_execution_mode = AM_DISABLED, rq_identity_min_score = ''0.5'', rq_identity_min_margin = ''0.1'',
     rq_torrent_min_score = ''0.75'', rq_torrent_min_margin = ''0.1'', rq_torrent_min_seeders = 1,
     rq_acknowledges_hnr = True, rq_acknowledges_seeding = True, rq_acknowledges_plan_only = True,
     rq_acknowledges_add_paused_only = False \<rparr>"

definition policy_db :: db where
  "policy_db = empty_db\<lparr> db_revisions := example_revisions policy_lib, db_heads := [new_default_head ''r1''] \<rparr>"

lemma policy_db_store: "policy_store policy_lib policy_db (new_default_head ''r1'') (new_default_revision policy_lib 0 ''r1'')"
proof -
  have "pr_id (new_default_revision policy_lib 0 ''r1'') = ''r1''"
    "pr_revision_no (new_default_revision policy_lib 0 ''r1'') = 1"
    by (simp_all add: new_default_revision_def sealed_revision_def)
  then show ?thesis
    using example_chain [of policy_lib]
    by (simp add: policy_store_def policy_db_def global_head_def row_get_def new_default_head_def example_revisions_def)
qed

lemma policy_lib_hex:
  "portable_hex_check (Some (replicate 64 (CHR ''0''))) [64]" "portable_hex_check (Some (replicate 64 (CHR ''1''))) [64]"
  by (simp_all add: portable_hex_check_def list_all_iff lower_hex_char_def is_digit_def)

lemma default_payload_same:
  "policy_hash_payload (new_default_revision L now nid) = policy_hash_payload (new_default_revision L' now nid)"
  by (simp add: policy_hash_payload_def new_default_revision_def sealed_revision_def)

lemma policy_db_insertable:
  "insertable policy_db (next_revision policy_lib (new_default_revision policy_lib 0 ''r1'')
    example_policy_request ''admin'' 5 ''r2'')"
proof -
  let ?r = "new_default_revision policy_lib 0 ''r1''"
  let ?n = "next_revision policy_lib ?r example_policy_request ''admin'' 5 ''r2''"
  have r: "pr_id ?r = ''r1''" "pr_revision_no ?r = 1" "pr_policy_hash ?r = calculate_policy_hash policy_lib ?r"
    by (simp_all add: new_default_revision_def sealed_revision_def calculate_policy_hash_def policy_hash_payload_def)
  have n: "pr_policy_hash ?n = calculate_policy_hash policy_lib ?n" by simp
  have wf: "json_wf (policy_hash_payload ?r)" "json_wf (policy_hash_payload ?n)"
    by (simp add: new_default_revision_def sealed_revision_def, code_simp)
      (simp add: next_revision_def sealed_revision_def, code_simp)
  have "dumps (policy_hash_payload ?n) \<noteq> dumps (policy_hash_payload ?r)"
  proof
    assume "dumps (policy_hash_payload ?n) = dumps (policy_hash_payload ?r)"
    from dumps_members [OF wf(2,1) this, of "''revision_no''"] show False
      using r by (simp add: policy_payload_members)
  qed
  then have "pr_policy_hash ?n = replicate 64 (CHR ''1'')" "pr_policy_hash ?r = replicate 64 (CHR ''0'')"
    using default_payload_same [of policy_lib 0 "''r1''" example_lib]
    by (simp_all only: n r(3) calculate_policy_hash_def canonical_hash_def) (simp_all add: policy_lib_def)
  moreover have "pr_policy_hash ?n = sha256_hex policy_lib (dumps (policy_hash_payload ?n))"
    "pr_policy_hash ?r = sha256_hex policy_lib (dumps (policy_hash_payload ?r))"
    using n r(3) by (simp_all add: calculate_policy_hash_def canonical_hash_def)
  ultimately show ?thesis
    using policy_lib_hex r
    by (simp add: insertable_def revision_check_def policy_db_def example_revisions_def)
qed

lemma publish_policy_revision_cas_witness:
  "\<exists>h r t. publish_policy_revision policy_lib example_policy_request ''admin'' 0 ''x'' 5 ''r2'' policy_db = (Inr (h, r), t)
    \<and> pr_revision_no r = 2
    \<and> publish_policy_revision policy_lib example_policy_request ''other'' 0 ''x'' 6 ''r3'' t = (Inl (revision_conflict 2), t)"
proof -
  have no: "pr_revision_no (new_default_revision policy_lib 0 ''r1'') = 1"
    by (simp add: new_default_revision_def sealed_revision_def)
  have "rq_base_revision_no example_policy_request = 1" "missing_acknowledgements example_policy_request = []"
    by code_simp+
  then obtain h r t where run:
    "publish_policy_revision policy_lib example_policy_request ''admin'' 0 ''x'' 5 ''r2'' policy_db = (Inr (h, r), t)"
    by (simp add: publish_run [OF policy_db_store refl] policy_db_insertable no)
  have "pr_revision_no r = 2"
    using publish_policy_revision_cas [OF policy_db_store run refl] no by simp
  moreover have "publish_policy_revision policy_lib example_policy_request ''other'' 0 ''x'' 6 ''r3'' t
      = (Inl (revision_conflict (pr_revision_no r)), t)"
    using publish_policy_revision_cas [OF policy_db_store run refl] by blast
  ultimately show ?thesis using run by auto
qed

text \<open>The first reading of the policy creates it: on a store without policy rows the current
  policy becomes a revision one in which every mode is MANUAL, no acknowledgement is given,
  its hash verifies and the head points at it; a later reading returns the same and writes
  nothing. The digest is taken to have the shape of a SHA-256 text.\<close>
theorem default_policy_is_manual:
  assumes "db_heads s = []" and "db_revisions s = []" and "\<And>x. hex64 (sha256_hex L x)"
  shows "\<exists>h r t. get_current_policy L now nid s = (Inr (h, r), t) \<and> policy_store L t h r
    \<and> {pr_identity_mode r, pr_torrent_selection_mode r, pr_approval_mode r, pr_execution_mode r} = {AM_MANUAL}
    \<and> pr_acknowledgements r = DEFAULT_ACKNOWLEDGEMENTS
    \<and> get_current_policy L now2 nid2 t = (Inr (h, r), t)"
proof -
  let ?h = "new_default_head nid" and ?r = "new_default_revision L now nid"
  let ?t = "s\<lparr> db_revisions := [?r], db_heads := [?h] \<rparr>"
  have r: "pr_id ?r = nid" "pr_revision_no ?r = 1" "pr_previous_policy_hash ?r = None"
    "calculate_policy_hash L ?r = pr_policy_hash ?r"
    by (simp_all add: new_default_revision_def sealed_revision_def calculate_policy_hash_def policy_hash_payload_def)
  have "hex64 (pr_policy_hash ?r)"
    unfolding r(4) [symmetric] by (simp add: calculate_policy_hash_def canonical_hash_def assms(3))
  then have "revision_check ?r"
    using r by (auto simp: revision_check_def portable_hex_check_def hex64_def)
  then have run: "get_current_policy L now nid s = (Inr (?h, ?r), ?t)"
    using assms(1,2)
    by (simp add: get_current_policy_def global_head_def row_get_def create_default_policy_def insert_revision_def
        insert_head_def handler_defs catchH_def row_add_def head_check_def new_default_head_def)
  have store: "policy_store L ?t ?h ?r"
    using r by (simp add: policy_store_def global_head_def row_get_def new_default_head_def policy_chain.genesis)
  have "{pr_identity_mode ?r, pr_torrent_selection_mode ?r, pr_approval_mode ?r, pr_execution_mode ?r} = {AM_MANUAL}"
    "pr_acknowledgements ?r = DEFAULT_ACKNOWLEDGEMENTS"
    by (simp_all add: new_default_revision_def sealed_revision_def)
  with run store get_current_policy_ok [OF store] show ?thesis by blast
qed

lemma default_policy_is_manual_witness:
  "\<exists>h r t. get_current_policy example_lib 0 ''r1'' empty_db = (Inr (h, r), t) \<and> pr_approval_mode r = AM_MANUAL"
proof -
  have "hex64 (sha256_hex example_lib x)" for x
    by (simp add: example_lib_def hex64_def list_all_iff lower_hex_char_def is_digit_def)
  moreover have "db_heads empty_db = []" "db_revisions empty_db = []" by (simp_all add: empty_db_def)
  ultimately show ?thesis
    using default_policy_is_manual [of empty_db example_lib 0 "''r1''"] by blast
qed

section \<open>Decisions\<close>

lemma build_automation_decision_Inr:
  assumes "build_automation_decision L r stage action outcome media reasons evidence mi ca ap ex nid = Inr d"
  shows "ad_evidence_snapshot d = sanitize_details L (JObj evidence)"
    "ad_evidence_hash d = canonical_hash L (sanitize_details L (JObj evidence))"
    "calculate_decision_dedupe_key L d = ad_dedupe_key d" "ad_reason_codes d = dedup reasons"
  using assms
  by (auto simp: build_automation_decision_def Let_def calculate_decision_dedupe_key_def dedupe_payload_def split: if_splits)

text \<open>A decision record and its verification do not agree on every evidence. The record is
  sealed with the hash of its sanitised evidence; the verification sanitises the stored,
  already sanitised evidence once more. Redaction is not idempotent: from \<open>//a\<close> it makes
  \<open>/[PATH_REDACTED]\<close>, and from that \<open>[PATH_REDACTED]\<close>. So a record just built verifies when
  sanitising again changes nothing, and one built on such a text is rejected as
  AUTOMATION_DECISION_TAMPERED although nobody touched it, unless the two texts collide.\<close>
theorem fresh_decision_verification:
  assumes "build_automation_decision L r stage action outcome media reasons evidence mi ca ap ex nid = Inr d"
  shows "(verify_automation_decision L d = Inr () \<longleftrightarrow>
      canonical_hash L (sanitize_details L (sanitize_details L (JObj evidence)))
        = canonical_hash L (sanitize_details L (JObj evidence)))
    \<and> (evidence = [(''title'', JStr ''//a'')]
        \<and> inj_on (sha256_hex L) {dumps (JObj [(''title'', JStr ''/[PATH_REDACTED]'')]),
            dumps (JObj [(''title'', JStr ''[PATH_REDACTED]'')])} \<longrightarrow>
      verify_automation_decision L d = Inl (app_err ''AUTOMATION_DECISION_TAMPERED'' 409))"
proof -
  note b = build_automation_decision_Inr [OF assms]
  have iff: "verify_automation_decision L d = (if canonical_hash L (sanitize_details L (sanitize_details L (JObj evidence)))
        = canonical_hash L (sanitize_details L (JObj evidence)) then Inr ()
      else Inl (app_err ''AUTOMATION_DECISION_TAMPERED'' 409))"
    by (simp add: verify_automation_decision_def calculate_decision_evidence_hash_def b)
  have once: "sanitize_details L (JObj [(''title'', JStr ''//a'')]) = JObj [(''title'', JStr ''/[PATH_REDACTED]'')]"
    "sanitize_details L (JObj [(''title'', JStr ''/[PATH_REDACTED]'')]) = JObj [(''title'', JStr ''[PATH_REDACTED]'')]"
    by code_simp+
  have differ: "dumps (JObj [(''title'', JStr ''[PATH_REDACTED]'')]) \<noteq> dumps (JObj [(''title'', JStr ''/[PATH_REDACTED]'')])"
    by code_simp
  have ne: "canonical_hash L (sanitize_details L (sanitize_details L (JObj evidence)))
      \<noteq> canonical_hash L (sanitize_details L (JObj evidence))"
    if "evidence = [(''title'', JStr ''//a'')]" and inj: "inj_on (sha256_hex L) {dumps (JObj [(''title'', JStr ''/[PATH_REDACTED]'')]),
            dumps (JObj [(''title'', JStr ''[PATH_REDACTED]'')])}"
    unfolding that(1) once canonical_hash_def using inj_onD [OF inj] differ by blast
  show ?thesis
  proof (intro conjI impI)
    show "verify_automation_decision L d = Inr () \<longleftrightarrow>
      canonical_hash L (sanitize_details L (sanitize_details L (JObj evidence)))
        = canonical_hash L (sanitize_details L (JObj evidence))"
      unfolding iff by simp
  next
    assume "evidence = [(''title'', JStr ''//a'')]
        \<and> inj_on (sha256_hex L) {dumps (JObj [(''title'', JStr ''/[PATH_REDACTED]'')]),
            dumps (JObj [(''title'', JStr ''[PATH_REDACTED]'')])}"
    then have "canonical_hash L (sanitize_details L (sanitize_details L (JObj evidence)))
      \<noteq> canonical_hash L (sanitize_details L (JObj evidence))"
      by (intro ne) blast+
    then show "verify_automation_decision L d = Inl (app_err ''AUTOMATION_DECISION_TAMPERED'' 409)"
      unfolding iff by (simp only: if_False)
  qed
qed

lemma fresh_decision_verification_witness:
  "\<exists>d. build_automation_decision (example_lib\<lparr> sha256_hex := (\<lambda>s. s) \<rparr>) (new_default_revision example_lib 0 ''r1'')
        AS_APPROVAL ''APPROVE'' DO_BLOCKED ''m1'' [''LOW_SCORE''] [(''title'', JStr ''//a'')] None None None None ''d1''
      = Inr d
    \<and> verify_automation_decision (example_lib\<lparr> sha256_hex := (\<lambda>s. s) \<rparr>) d
      = Inl (app_err ''AUTOMATION_DECISION_TAMPERED'' 409)"
proof -
  let ?L = "example_lib\<lparr> sha256_hex := (\<lambda>s. s) \<rparr>" and ?r = "new_default_revision example_lib 0 ''r1''"
  have "list_all reason_code_ok [''LOW_SCORE'']" by code_simp
  then obtain d where run: "build_automation_decision ?L ?r AS_APPROVAL ''APPROVE'' DO_BLOCKED ''m1'' [''LOW_SCORE'']
      [(''title'', JStr ''//a'')] None None None None ''d1'' = Inr d"
    by (auto simp: build_automation_decision_def Let_def)
  have "inj_on (sha256_hex ?L) A" for A by (simp add: inj_on_def)
  with fresh_decision_verification [OF run] run show ?thesis by blast
qed

text \<open>A decision is recorded once. Adding a decision either returns the row that already has
  its key and writes nothing, or appends it; from then on every further decision with that key
  gets that row back, marked as not new, and the table does not change.\<close>
theorem add_decision_once_idempotent:
  assumes "add_decision_once d s = (Inr (x, new), t)" and "ad_dedupe_key d2 = ad_dedupe_key d"
  shows "ad_dedupe_key x = ad_dedupe_key d
    \<and> (if new then x = d \<and> db_decisions t = db_decisions s @ [d] \<and> decision_by_key (ad_dedupe_key d) s = None
       else t = s \<and> x \<in> set (db_decisions s))
    \<and> add_decision_once d2 t = (Inr (x, False), t)"
proof (cases "decision_by_key (ad_dedupe_key d) s")
  case (Some y)
  then have "y \<in> set (db_decisions s) \<and> ad_dedupe_key y = ad_dedupe_key d"
    by (auto simp: decision_by_key_def dest: find_SomeD)
  moreover have "x = y" "\<not> new" "t = s"
    using assms(1) Some by (auto simp: add_decision_once_def handler_defs)
  ultimately show ?thesis using Some assms(2) by (simp add: add_decision_once_def handler_defs)
next
  case None
  have step: "new \<and> x = d \<and> t = s\<lparr> db_decisions := db_decisions s @ [d] \<rparr>"
    using assms(1) None
    by (auto simp: add_decision_once_def handler_defs catchH_def insert_decision_def row_add_def
        split: if_splits)
  then have "decision_by_key (ad_dedupe_key d) t = Some d"
    using None by (simp add: decision_by_key_def find_append)
  with step None assms(2) show ?thesis by (simp add: add_decision_once_def handler_defs)
qed

lemma add_decision_once_idempotent_witness:
  "\<exists>d t. add_decision_once d empty_db = (Inr (d, True), t) \<and> add_decision_once d t = (Inr (d, False), t)"
proof -
  let ?r = "new_default_revision example_lib 0 ''r1''"
  have "list_all reason_code_ok [''LOW_SCORE'']" by code_simp
  then obtain d where b: "build_automation_decision example_lib ?r AS_APPROVAL ''APPROVE'' DO_BLOCKED ''m1'' [''LOW_SCORE'']
      [(''title'', JStr ''a'')] None None None None ''d1'' = Inr d"
    by (auto simp: build_automation_decision_def Let_def)
  have hex: "portable_hex_check (Some (sha256_hex example_lib x)) [64]" for x
    using policy_lib_hex(1) by (simp add: example_lib_def)
  have "portable_hex_check (Some (ad_evidence_hash d)) [64]" "portable_hex_check (Some (ad_dedupe_key d)) [64]"
    unfolding build_automation_decision_Inr(2) [OF b] build_automation_decision_Inr(3) [OF b, symmetric]
    by (simp_all only: canonical_hash_def calculate_decision_dedupe_key_def hex)
  then obtain t where run: "add_decision_once d empty_db = (Inr (d, True), t)"
    by (simp add: add_decision_once_def handler_defs catchH_def insert_decision_def decision_by_key_def empty_db_def)
  from add_decision_once_idempotent [OF run refl] run show ?thesis by auto
qed

end
