(* ===== verification/Executions.thy ===== *)
theory Executions
  imports Approvals AutomationPolicy TorrentValidation
begin

text \<open>
  The execution service (\<open>services/executions.py\<close>): the single-use intent, the idempotent
  creation of an execution, its verification, the reservation of a submission, the uncertain
  outcomes, the finalization with its job, and the observations of the monitor. The clock of
  the process is an integer argument, the clock of the database a \<open>datetime\<close> one; new
  identifiers and the nonce are arguments. Display texts are given by key.
\<close>

section \<open>Digests\<close>

definition hash_secret :: "lib \<Rightarrow> string \<Rightarrow> string" where
  "hash_secret L v = sha256_hex L v"

definition idempotency_char :: "char \<Rightarrow> bool" where
  "idempotency_char c \<longleftrightarrow> ascii_letter c \<or> is_digit c \<or> c \<in> {CHR ''.'', CHR ''_'', CHR ''~'', CHR ''-''}"

definition idempotency_key_ok :: "string \<Rightarrow> bool" where
  "idempotency_key_ok v \<longleftrightarrow>
    (case v of
       [] \<Rightarrow> False
     | c # r \<Rightarrow> (ascii_letter c \<or> is_digit c) \<and> list_all idempotency_char r
         \<and> 15 \<le> length r \<and> length r \<le> 199)"

definition idempotency_key_digest :: "lib \<Rightarrow> string \<Rightarrow> exn + string" where
  "idempotency_key_digest L v =
    bindR (raise_if (\<not> idempotency_key_ok v) (app_err ''IDEMPOTENCY_KEY_INVALID'' 422)) (\<lambda>_.
    Inr (hash_secret L v))"

text \<open>The arguments that identify an execution request.\<close>

record binding =
  bd_origin :: origin
  bd_automation_policy_revision_id :: "string option"
  bd_automation_decision_id :: "string option"

definition manual_binding :: binding where
  "manual_binding = \<lparr> bd_origin = OR_MANUAL, bd_automation_policy_revision_id = None,
     bd_automation_decision_id = None \<rparr>"

definition request_payload :: "string \<Rightarrow> string \<Rightarrow> string \<Rightarrow> string \<Rightarrow> binding \<Rightarrow> json" where
  "request_payload approval_id intent_id nonce_sha256 key_sha256 b =
    (let automated = (bd_origin b = OR_AUTOMATION) in JObj
      ([(''operation'', JStr (if automated then ''CREATE_DOWNLOAD_EXECUTION_V2''
          else ''CREATE_DOWNLOAD_EXECUTION_V1'')),
        (''approval_id'', JStr approval_id), (''intent_id'', JStr intent_id),
        (''nonce_sha256'', JStr nonce_sha256), (''idempotency_key_sha256'', JStr key_sha256)]
       @ (if automated then
            [(''origin'', JStr (origin_value (bd_origin b))),
             (''automation_policy_revision_id'', opt_json JStr (bd_automation_policy_revision_id b)),
             (''automation_decision_id'', opt_json JStr (bd_automation_decision_id b))]
          else [])))"

definition execution_request_hash :: "lib \<Rightarrow> string \<Rightarrow> string \<Rightarrow> string \<Rightarrow> string \<Rightarrow> binding \<Rightarrow> string" where
  "execution_request_hash L approval_id intent_id nonce_sha256 key_sha256 b =
    canonical_hash L (request_payload approval_id intent_id nonce_sha256 key_sha256 b)"

text \<open>\<open>_require_origin_binding\<close>; an absent launch mode is not the paused one.\<close>

definition require_origin_binding :: "binding \<Rightarrow> launch_mode option \<Rightarrow> exn + unit" where
  "require_origin_binding b lm =
    (if bd_origin b = OR_MANUAL then
       raise_if (bd_automation_policy_revision_id b \<noteq> None \<or> bd_automation_decision_id b \<noteq> None)
         (app_err ''EXECUTION_ORIGIN_BINDING_INVALID'' 409)
     else raise_if (lm \<noteq> Some LM_ADD_PAUSED \<or> falsy_str (bd_automation_policy_revision_id b)
         \<or> falsy_str (bd_automation_decision_id b))
       (app_err ''AUTOMATION_EXECUTION_BINDING_INVALID'' 409))"

definition intent_binding :: "intent \<Rightarrow> binding" where
  "intent_binding i = \<lparr> bd_origin = ei_origin i,
     bd_automation_policy_revision_id = ei_automation_policy_revision_id i,
     bd_automation_decision_id = ei_automation_decision_id i \<rparr>"

definition execution_binding :: "execution \<Rightarrow> binding" where
  "execution_binding e = \<lparr> bd_origin = de_origin e,
     bd_automation_policy_revision_id = de_automation_policy_revision_id e,
     bd_automation_decision_id = de_automation_decision_id e \<rparr>"

section \<open>The target of the downloader\<close>

definition target_value_bad :: "string \<Rightarrow> bool" where
  "target_value_bad v \<longleftrightarrow> strip v = [] \<or> CHR 0x00 \<in> set v \<or> CHR 0x0D \<in> set v \<or> CHR 0x0A \<in> set v"

definition target_descriptor ::
    "settings \<Rightarrow> string \<Rightarrow> string \<Rightarrow> plan \<Rightarrow> launch_mode \<Rightarrow> json" where
  "target_descriptor st base_url save_path p lm = JObj
    [(''downloader'', JStr ''qbittorrent''),
     (''target_instance_ref'', JStr (st_qb_target_instance_ref st)),
     (''base_url'', JStr base_url),
     (''allowed_hosts'', sorted_strs (st_qb_allowed_hosts st)),
     (''allow_insecure_http'', JBool (st_qb_allow_insecure_http st)),
     (''save_path'', JStr save_path),
     (''save_path_ref'', JStr (dp_save_path_ref p)),
     (''category'', JStr (dp_category p)),
     (''tags'', JList (dp_tags p)),
     (''launch_mode'', JStr (launch_mode_value lm))]"

definition target_not_configured :: exn where
  "target_not_configured = app_err ''EXECUTION_TARGET_NOT_CONFIGURED'' 409"

definition execution_url_bad :: "lib \<Rightarrow> settings \<Rightarrow> split_url \<Rightarrow> bool" where
  "execution_url_bad L st parsed \<longleftrightarrow>
    (let host = casefold L (hostname L parsed);
         allowed_schemes = (if st_qb_allow_insecure_http st then [''https'', ''http''] else [''https''])
     in scheme parsed \<notin> set allowed_schemes \<or> host = [] \<or> host \<notin> set (st_qb_allowed_hosts st)
        \<or> \<not> falsy_str (username parsed) \<or> \<not> falsy_str (password parsed)
        \<or> query parsed \<noteq> [] \<or> fragment parsed \<noteq> [])"

definition qb_target_fingerprint ::
    "lib \<Rightarrow> settings \<Rightarrow> plan \<Rightarrow> launch_mode \<Rightarrow> string \<Rightarrow> exn + string" where
  "qb_target_fingerprint L st p lm media_title =
    bindR (case st_qb_base_url_value st of Inl _ \<Rightarrow> Inl target_not_configured | Inr u \<Rightarrow> Inr u) (\<lambda>base_url.
    bindR (raise_if (falsy_str base_url \<or> falsy_str (st_qb_target_save_path st)
        \<or> falsy_str (st_qb_target_category st) \<or> st_qb_allowed_hosts st = []) target_not_configured) (\<lambda>_.
    bindR (build_qb_plan_tags L (st_qb_plan_tags st) media_title) (\<lambda>expected_tags.
    let save_path = the (st_qb_target_save_path st); category = the (st_qb_target_category st);
        normalized_base_url = rstrip_slash (the base_url) in
    bindR (raise_if (dp_save_path_ref p \<noteq> st_qb_save_path_ref st \<or> dp_category p \<noteq> category
        \<or> dp_tags p \<noteq> map JStr expected_tags) (app_err ''EXECUTION_TARGET_CONFIG_CHANGED'' 409)) (\<lambda>_.
    bindR (raise_if (list_ex target_value_bad
          ([save_path, category, st_qb_target_instance_ref st] @ expected_tags)
        \<or> 20 < length expected_tags
        \<or> list_ex (\<lambda>t. CHR '','' \<in> set t \<or> 100 < py_len t) expected_tags)
      (app_err ''EXECUTION_TARGET_INVALID'' 409)) (\<lambda>_.
    bindR (option_or PyValueError (urlsplit L normalized_base_url)) (\<lambda>parsed.
    bindR (raise_if (execution_url_bad L st parsed) (app_err ''QB_URL_NOT_ALLOWED'' 400)) (\<lambda>_.
    Inr (canonical_hash L (target_descriptor st normalized_base_url save_path p lm)))))))))"

section \<open>Events\<close>

definition add_approval_event ::
    "lib \<Rightarrow> approval \<Rightarrow> string \<Rightarrow> string \<Rightarrow> (string \<times> json) list \<Rightarrow> approval_status option \<Rightarrow> unit session" where
  "add_approval_event L a event_type actor details from_status =
    insert_approval_event \<lparr>
      ae_approval_request_id = ar_id a, ae_event_type = event_type,
      ae_from_status = Some (approval_status_value
        (case from_status of None \<Rightarrow> ar_status a | Some f \<Rightarrow> f)),
      ae_to_status = approval_status_value (ar_status a), ae_actor = strip actor, ae_reason = None,
      ae_snapshot_hash = ar_snapshot_hash a,
      ae_sanitized_details = sanitize_details L (JObj details) \<rparr>"

definition add_execution_event ::
    "lib \<Rightarrow> execution \<Rightarrow> string \<Rightarrow> string \<Rightarrow> execution_status option \<Rightarrow> execution_status
      \<Rightarrow> (string \<times> json) list \<Rightarrow> unit session" where
  "add_execution_event L e event_type actor from_status to_status details =
    insert_execution_event \<lparr>
      ev_download_execution_id = de_id e, ev_event_type = event_type,
      ev_from_status = map_option execution_status_value from_status,
      ev_to_status = execution_status_value to_status, ev_actor = strip actor,
      ev_sanitized_details = sanitize_details L (JObj details) \<rparr>"

definition add_job_event ::
    "lib \<Rightarrow> job \<Rightarrow> string \<Rightarrow> string \<Rightarrow> job_status option \<Rightarrow> job_status
      \<Rightarrow> (string \<times> json) list \<Rightarrow> unit session" where
  "add_job_event L j event_type actor from_status to_status details =
    insert_job_event \<lparr>
      je_download_job_id = dj_id j, je_event_type = event_type,
      je_from_status = map_option job_status_value from_status,
      je_to_status = job_status_value to_status, je_actor = strip actor,
      je_sanitized_details = sanitize_details L (JObj details) \<rparr>"

section \<open>Guards shared by the handlers\<close>

definition require_execution_control_plane_enabled :: "settings \<Rightarrow> exn + unit" where
  "require_execution_control_plane_enabled st =
    raise_if (\<not> st_enable_control_plane st) (app_err ''DOWNLOAD_EXECUTION_CONTROL_PLANE_DISABLED'' 409)"

definition approval_by_id :: "string \<Rightarrow> db \<Rightarrow> approval option" where
  "approval_by_id i s = row_get ar_id i (db_approvals s)"

definition get_locked_approval :: "lib \<Rightarrow> string \<Rightarrow> approval session" where
  "get_locked_approval L approval_id =
    bindH (getH (approval_by_id approval_id)) (\<lambda>x.
    bindH (liftH (option_or (app_err ''APPROVAL_REQUEST_NOT_FOUND'' 404) x)) (\<lambda>a.
    bindH (liftH (verify_snapshot L a)) (\<lambda>_. returnH a)))"

text \<open>The expiry of an approved approval, as \<open>_require_approved\<close> and the reservation stage it.\<close>

definition stage_approval_expiry :: "lib \<Rightarrow> approval \<Rightarrow> int \<Rightarrow> approval session" where
  "stage_approval_expiry L a now =
    (let a' = a\<lparr> ar_status := AP_EXPIRED, ar_decided_at := Some (Aware now) \<rparr> in
     bindH (save_approval a') (\<lambda>_.
     bindH (add_approval_event L a' ''EXPIRED'' ''system''
       [(''reason'', JStr (text_of L ''approval validity ended''))] (Some (ar_status a))) (\<lambda>_.
     returnH a')))"

definition require_approved :: "lib \<Rightarrow> approval \<Rightarrow> int \<Rightarrow> unit session" where
  "require_approved L a now =
    (if ar_status a = AP_APPROVED \<and> is_expired a (Aware now) then
       bindH (stage_approval_expiry L a now) (\<lambda>_. raiseH approval_expired)
     else if ar_status a = AP_EXPIRED then raiseH approval_expired
     else raise_ifH (ar_status a \<noteq> AP_APPROVED) (app_err ''APPROVAL_NOT_EXECUTABLE'' 409))"

definition get_verified_plan :: "lib \<Rightarrow> approval \<Rightarrow> plan session" where
  "get_verified_plan L a =
    bindH (getH (plan_for_approval (ar_id a))) (\<lambda>x.
    bindH (liftH (option_or (app_err ''DOWNLOAD_PLAN_NOT_FOUND'' 409) x)) (\<lambda>p.
    liftH (verify_download_plan L p a)))"

definition lease_lost :: exn where
  "lease_lost = app_err ''DOWNLOAD_EXECUTION_LEASE_LOST'' 409"

definition lease_held :: "execution \<Rightarrow> string \<Rightarrow> int \<Rightarrow> datetime \<Rightarrow> bool" where
  "lease_held e token lease_seconds now \<longleftrightarrow>
    0 < lease_seconds \<and> token \<noteq> [] \<and> de_lease_token e = Some token \<and> de_locked_by e \<noteq> None
    \<and> (case de_locked_at e of None \<Rightarrow> False
        | Some t \<Rightarrow> as_utc now < as_utc t + seconds lease_seconds)"

definition require_execution_lease :: "execution \<Rightarrow> string \<Rightarrow> int \<Rightarrow> datetime \<Rightarrow> exn + unit" where
  "require_execution_lease e token lease_seconds now =
    raise_if (\<not> lease_held e token lease_seconds now) lease_lost"

section \<open>Execution intents\<close>

definition active_intent :: "string \<Rightarrow> db \<Rightarrow> intent option" where
  "active_intent approval_id s =
    find (\<lambda>i. ei_approval_id i = approval_id \<and> ei_status i = EI_ACTIVE) (db_intents s)"

definition execution_for_approval :: "string \<Rightarrow> db \<Rightarrow> execution option" where
  "execution_for_approval approval_id s = find (\<lambda>e. de_approval_id e = approval_id) (db_executions s)"

definition execution_for_intent :: "string \<Rightarrow> db \<Rightarrow> execution option" where
  "execution_for_intent intent_id s = find (\<lambda>e. de_intent_id e = intent_id) (db_executions s)"

definition execution_for_key :: "string \<Rightarrow> db \<Rightarrow> execution option" where
  "execution_for_key digest s = find (\<lambda>e. de_idempotency_key_sha256 e = digest) (db_executions s)"

definition expire_intent :: "lib \<Rightarrow> approval \<Rightarrow> intent \<Rightarrow> unit session" where
  "expire_intent L a i =
    bindH (save_intent (i\<lparr> ei_status := EI_EXPIRED \<rparr>)) (\<lambda>_.
    add_approval_event L a ''EXECUTION_INTENT_EXPIRED'' ''system'' [(''intent_id'', JStr (ei_id i))] None)"

definition intent_expired :: "intent \<Rightarrow> int \<Rightarrow> bool" where
  "intent_expired i now \<longleftrightarrow> as_utc (ei_expires_at i) \<le> now"

definition clear_active_intent :: "lib \<Rightarrow> approval \<Rightarrow> int \<Rightarrow> unit session" where
  "clear_active_intent L a now =
    bindH (getH (active_intent (ar_id a))) (\<lambda>x.
    case x of
      None \<Rightarrow> returnH ()
    | Some i \<Rightarrow>
        if intent_expired i now then expire_intent L a i
        else raiseH (app_err ''EXECUTION_INTENT_ALREADY_ACTIVE'' 409))"

definition intent_details :: "lib \<Rightarrow> intent \<Rightarrow> (string \<times> json) list" where
  "intent_details L i =
    [(''intent_id'', JStr (ei_id i)), (''plan_hash'', JStr (ei_plan_hash i)),
     (''qb_target_fingerprint'', JStr (ei_qb_target_fingerprint i)),
     (''launch_mode'', JStr (launch_mode_value (ei_launch_mode i))),
     (''origin'', JStr (origin_value (ei_origin i))),
     (''automation_policy_revision_id'', opt_json JStr (ei_automation_policy_revision_id i)),
     (''automation_decision_id'', opt_json JStr (ei_automation_decision_id i)),
     (''expires_at'', JStr (iso_text L (ei_expires_at i)))]"

definition execution_exists :: exn where
  "execution_exists = app_err ''DOWNLOAD_EXECUTION_ALREADY_EXISTS'' 409"

text \<open>What both creations check of the approval before they write: its row, snapshot and plan.\<close>

definition approved_context :: "lib \<Rightarrow> approval \<Rightarrow> settings \<Rightarrow> int \<Rightarrow> (snapshot \<times> plan) session" where
  "approved_context L a st now =
    bindH (require_approved L a now) (\<lambda>_.
    bindH (liftH (verify_snapshot L a)) (\<lambda>sn.
    bindH (get_verified_plan L a) (\<lambda>p.
    bindH (liftH (require_preflight_policy_current L (dp_preflight_policy_fingerprint p) st)) (\<lambda>_.
    returnH (sn, p)))))"

definition create_execution_intent ::
    "lib \<Rightarrow> string \<Rightarrow> launch_mode \<Rightarrow> int option \<Rightarrow> settings \<Rightarrow> string \<Rightarrow> binding \<Rightarrow> int \<Rightarrow> string \<Rightarrow> string
      \<Rightarrow> (intent \<times> string) session" where
  "create_execution_intent L approval_id lm expires_in_seconds st actor b now new_id nonce =
    bindH (liftH (require_execution_control_plane_enabled st)) (\<lambda>_.
    bindH (liftH (require_origin_binding b (Some lm))) (\<lambda>_.
    bindH (get_locked_approval L approval_id) (\<lambda>a.
    bindH (approved_context L a st now) (\<lambda>(sn, p).
    bindH (liftH (qb_target_fingerprint L st p lm (sn_media_title sn))) (\<lambda>target.
    bindH (getH (execution_for_approval (ar_id a))) (\<lambda>existing.
    bindH (raise_ifH (existing \<noteq> None) execution_exists) (\<lambda>_.
    bindH (clear_active_intent L a now) (\<lambda>_.
    let ttl = or_default expires_in_seconds (st_execution_intent_default_ttl_seconds st) in
    bindH (raise_ifH (st_execution_intent_max_ttl_seconds st < ttl)
      (app_err ''EXECUTION_INTENT_TTL_TOO_LONG'' 422)) (\<lambda>_.
    let i = \<lparr> ei_id = new_id, ei_approval_id = ar_id a, ei_nonce_sha256 = hash_secret L nonce,
              ei_approval_snapshot_hash = ar_snapshot_hash a, ei_plan_hash = dp_plan_hash p,
              ei_qb_target_fingerprint = target, ei_launch_mode = lm, ei_origin = bd_origin b,
              ei_automation_policy_revision_id = bd_automation_policy_revision_id b,
              ei_automation_decision_id = bd_automation_decision_id b, ei_status = EI_ACTIVE,
              ei_created_by = strip actor, ei_expires_at = Aware (now + seconds ttl),
              ei_consumed_at = None, ei_consumed_by = None \<rparr> in
    bindH (insert_intent i) (\<lambda>_.
    bindH (add_approval_event L a ''EXECUTION_INTENT_CREATED'' actor (intent_details L i) None) (\<lambda>_.
    returnH (i, nonce))))))))))))"

section \<open>Verification of an execution\<close>

definition binding_invalid :: exn where
  "binding_invalid = app_err ''DOWNLOAD_EXECUTION_BINDING_INVALID'' 409"

text \<open>\<open>_INFO_HASH\<close>\<close>

definition info_hash_ok :: "string \<Rightarrow> bool" where
  "info_hash_ok h \<longleftrightarrow> (length h = 40 \<or> length h = 64) \<and> list_all lower_hex_char h"

definition digests_ok :: "execution \<Rightarrow> bool" where
  "digests_ok e \<longleftrightarrow> list_all hex64
    [de_idempotency_key_sha256 e, de_request_hash e, de_approval_snapshot_hash e, de_plan_hash e,
     de_qb_target_fingerprint e]"

definition bound_hashes :: "lib \<Rightarrow> execution \<Rightarrow> string set" where
  "bound_hashes L e =
    (case de_actual_info_hash_v1 e of None \<Rightarrow> {} | Some v1 \<Rightarrow> {casefold L v1})
    \<union> (case de_actual_info_hash_v2 e of None \<Rightarrow> {} | Some v2 \<Rightarrow> {casefold L v2, casefold L (take 40 v2)})"

definition actual_hash_ok :: "lib \<Rightarrow> execution \<Rightarrow> bool" where
  "actual_hash_ok L e \<longleftrightarrow>
    (case de_actual_info_hash e of None \<Rightarrow> True
     | Some h \<Rightarrow> info_hash_ok h \<and> casefold L h \<in> bound_hashes L e)"

definition submission_bundle :: "execution \<Rightarrow> bool" where
  "submission_bundle e \<longleftrightarrow> de_actual_info_hash e \<noteq> None
    \<and> (case de_actual_size_bytes e of None \<Rightarrow> False | Some n \<Rightarrow> 0 < n)
    \<and> (case de_actual_file_count e of None \<Rightarrow> False | Some n \<Rightarrow> 0 < n)
    \<and> de_validated_at e \<noteq> None \<and> de_submitted_at e \<noteq> None
    \<and> (de_actual_info_hash_v1 e \<noteq> None \<or> de_actual_info_hash_v2 e \<noteq> None)"

definition bindings_agree :: "lib \<Rightarrow> execution \<Rightarrow> approval \<Rightarrow> intent \<Rightarrow> plan \<Rightarrow> bool" where
  "bindings_agree L e a i p \<longleftrightarrow>
    de_approval_snapshot_hash e = ar_snapshot_hash a
    \<and> de_approval_snapshot_hash e = ei_approval_snapshot_hash i
    \<and> de_plan_hash e = dp_plan_hash p \<and> de_plan_hash e = ei_plan_hash i
    \<and> de_qb_target_fingerprint e = ei_qb_target_fingerprint i
    \<and> de_launch_mode e = ei_launch_mode i \<and> execution_binding e = intent_binding i
    \<and> de_request_hash e = execution_request_hash L (de_approval_id e) (de_intent_id e)
        (ei_nonce_sha256 i) (de_idempotency_key_sha256 e) (execution_binding e)"

definition decision_by_id :: "string option \<Rightarrow> db \<Rightarrow> decision option" where
  "decision_by_id x s = Option.bind x (\<lambda>i. find (\<lambda>d. ad_id d = i) (db_decisions s))"

definition revision_by_id :: "string option \<Rightarrow> db \<Rightarrow> revision option" where
  "revision_by_id x s = Option.bind x (\<lambda>i. row_get pr_id i (db_revisions s))"

definition decision_creates :: "decision \<Rightarrow> revision \<Rightarrow> execution \<Rightarrow> approval \<Rightarrow> bool" where
  "decision_creates d r e a \<longleftrightarrow>
    ad_policy_revision_id d = pr_id r \<and> ad_stage d = AS_EXECUTION
    \<and> ad_action d = ''CREATE_DOWNLOAD_EXECUTION'' \<and> ad_outcome d = DO_ACTION_CREATED
    \<and> ad_media_item_id d = ar_media_item_id a \<and> ad_approval_request_id d = Some (ar_id a)
    \<and> ad_download_execution_id d = Some (de_id e)"

definition verify_automation_binding :: "lib \<Rightarrow> db \<Rightarrow> execution \<Rightarrow> approval \<Rightarrow> exn + unit" where
  "verify_automation_binding L s e a =
    (if de_origin e \<noteq> OR_AUTOMATION then Inr ()
     else case (revision_by_id (de_automation_policy_revision_id e) s,
                decision_by_id (de_automation_decision_id e) s) of
       (Some r, Some d) \<Rightarrow>
         bindR (verify_policy_revision L (db_revisions s) r) (\<lambda>_.
         bindR (verify_automation_decision L d) (\<lambda>_.
         raise_if (\<not> decision_creates d r e a) binding_invalid))
     | _ \<Rightarrow> Inl binding_invalid)"

definition verify_download_execution :: "lib \<Rightarrow> db \<Rightarrow> execution \<Rightarrow> exn + execution" where
  "verify_download_execution L s e =
    bindR (raise_if (\<not> digests_ok e) binding_invalid) (\<lambda>_.
    bindR (raise_if (\<not> actual_hash_ok L e) binding_invalid) (\<lambda>_.
    bindR (raise_if (de_status e \<in> set submission_statuses \<and> \<not> submission_bundle e) binding_invalid) (\<lambda>_.
    case (approval_by_id (de_approval_id e) s, row_get ei_id (de_intent_id e) (db_intents s),
          plan_for_approval (de_approval_id e) s) of
      (Some a, Some i, Some p) \<Rightarrow>
        bindR (verify_snapshot L a) (\<lambda>_.
        bindR (verify_download_plan L p a) (\<lambda>_.
        bindR (require_origin_binding (execution_binding e) (Some (de_launch_mode e))) (\<lambda>_.
        bindR (require_origin_binding (intent_binding i) (Some (ei_launch_mode i))) (\<lambda>_.
        bindR (raise_if (\<not> bindings_agree L e a i p) binding_invalid) (\<lambda>_.
        bindR (verify_automation_binding L s e a) (\<lambda>_.
        Inr e))))))
    | _ \<Rightarrow> Inl binding_invalid)))"

definition verifiedH :: "lib \<Rightarrow> execution \<Rightarrow> execution session" where
  "verifiedH L e = (\<lambda>s. (verify_download_execution L s e, s))"

section \<open>Creation of an execution\<close>

definition key_reused :: exn where
  "key_reused = app_err ''IDEMPOTENCY_KEY_REUSED'' 409"

definition require_same_idempotent_request ::
    "lib \<Rightarrow> execution \<Rightarrow> string \<Rightarrow> string \<Rightarrow> string \<Rightarrow> execution session" where
  "require_same_idempotent_request L e approval_id intent_id request_hash =
    bindH (raise_ifH (de_approval_id e \<noteq> approval_id \<or> de_intent_id e \<noteq> intent_id
        \<or> de_request_hash e \<noteq> request_hash) key_reused) (\<lambda>_.
    verifiedH L e)"

definition require_usable_intent :: "lib \<Rightarrow> approval \<Rightarrow> intent \<Rightarrow> string \<Rightarrow> binding \<Rightarrow> int \<Rightarrow> unit session" where
  "require_usable_intent L a i nonce_digest b now =
    (if ei_status i = EI_ACTIVE \<and> intent_expired i now then
       bindH (expire_intent L a i) (\<lambda>_. raiseH (app_err ''EXECUTION_INTENT_EXPIRED'' 409))
     else
       bindH (raise_ifH (ei_status i \<noteq> EI_ACTIVE) (app_err ''EXECUTION_INTENT_NOT_ACTIVE'' 409)) (\<lambda>_.
       bindH (raise_ifH (ei_nonce_sha256 i \<noteq> nonce_digest) (app_err ''EXECUTION_NONCE_INVALID'' 403)) (\<lambda>_.
       raise_ifH (intent_binding i \<noteq> b) (app_err ''EXECUTION_AUTOMATION_BINDING_MISMATCH'' 409))))"

definition new_execution ::
    "string \<Rightarrow> approval \<Rightarrow> intent \<Rightarrow> plan \<Rightarrow> string \<Rightarrow> string \<Rightarrow> string \<Rightarrow> binding \<Rightarrow> settings \<Rightarrow> string \<Rightarrow> int
      \<Rightarrow> execution" where
  "new_execution nid a i p key_digest request_hash target b st actor now = \<lparr>
     de_id = nid, de_approval_id = ar_id a, de_intent_id = ei_id i,
     de_idempotency_key_sha256 = key_digest, de_request_hash = request_hash,
     de_approval_snapshot_hash = ar_snapshot_hash a, de_plan_hash = dp_plan_hash p,
     de_qb_target_fingerprint = target, de_launch_mode = ei_launch_mode i,
     de_origin = bd_origin b, de_automation_policy_revision_id = bd_automation_policy_revision_id b,
     de_automation_decision_id = bd_automation_decision_id b, de_status = DE_PENDING,
     de_attempts = 0, de_max_attempts = st_job_max_attempts st, de_next_retry_at = None,
     de_locked_at = None, de_locked_by = None, de_lease_token = None,
     de_actual_info_hash = None, de_actual_info_hash_v1 = None, de_actual_info_hash_v2 = None,
     de_actual_size_bytes = None, de_actual_file_count = None, de_validated_at = None,
     de_submitted_at = None, de_verified_at = None, de_error_code = None, de_error_message = None,
     de_requested_by = strip actor, de_requested_at = Aware now,
     de_reconciliation_requested_by = None, de_reconciliation_requested_at = None,
     de_reconciliation_reason = None \<rparr>"

definition consumed_intent :: "intent \<Rightarrow> string \<Rightarrow> int \<Rightarrow> intent" where
  "consumed_intent i actor now =
    i\<lparr> ei_status := EI_CONSUMED, ei_consumed_at := Some (Aware now), ei_consumed_by := Some (strip actor) \<rparr>"

definition execution_details :: "execution \<Rightarrow> (string \<times> json) list" where
  "execution_details e =
    [(''approval_snapshot_hash'', JStr (de_approval_snapshot_hash e)),
     (''plan_hash'', JStr (de_plan_hash e)),
     (''qb_target_fingerprint'', JStr (de_qb_target_fingerprint e)),
     (''launch_mode'', JStr (launch_mode_value (de_launch_mode e))),
     (''origin'', JStr (origin_value (de_origin e))),
     (''automation_policy_revision_id'', opt_json JStr (de_automation_policy_revision_id e)),
     (''automation_decision_id'', opt_json JStr (de_automation_decision_id e)),
     (''control_plane_only'', JBool True)]"

text \<open>The part of \<open>execute_approved_plan\<close> after the intent has been found: its checks and the writes.\<close>

definition consume_intent ::
    "lib \<Rightarrow> approval \<Rightarrow> snapshot \<Rightarrow> plan \<Rightarrow> intent \<Rightarrow> string \<Rightarrow> string \<Rightarrow> string \<Rightarrow> binding \<Rightarrow> settings
      \<Rightarrow> string \<Rightarrow> int \<Rightarrow> string \<Rightarrow> execution session" where
  "consume_intent L a sn p i nonce_digest key_digest request_hash b st actor now nid =
    bindH (require_usable_intent L a i nonce_digest b now) (\<lambda>_.
    bindH (liftH (qb_target_fingerprint L st p (ei_launch_mode i) (sn_media_title sn))) (\<lambda>target.
    bindH (raise_ifH (ei_approval_snapshot_hash i \<noteq> ar_snapshot_hash a \<or> ei_plan_hash i \<noteq> dp_plan_hash p
        \<or> ei_qb_target_fingerprint i \<noteq> target) (app_err ''EXECUTION_INTENT_BINDING_MISMATCH'' 409)) (\<lambda>_.
    let e = new_execution nid a i p key_digest request_hash target b st actor now in
    bindH (save_intent (consumed_intent i actor now)) (\<lambda>_.
    bindH (insert_execution e) (\<lambda>_.
    bindH (add_execution_event L e ''EXECUTION_REQUESTED'' actor None DE_PENDING (execution_details e)) (\<lambda>_.
    bindH (add_approval_event L a ''DOWNLOAD_EXECUTION_REQUESTED'' actor
      [(''download_execution_id'', JStr (de_id e)), (''intent_id'', JStr (ei_id i)),
       (''status'', JStr (execution_status_value (de_status e))), (''control_plane_only'', JBool True)] None) (\<lambda>_.
    returnH e)))))))"

definition start_execution ::
    "lib \<Rightarrow> approval \<Rightarrow> string \<Rightarrow> string \<Rightarrow> string \<Rightarrow> string \<Rightarrow> binding \<Rightarrow> settings \<Rightarrow> string \<Rightarrow> int \<Rightarrow> string
      \<Rightarrow> execution session" where
  "start_execution L a intent_id nonce_digest key_digest request_hash b st actor now nid =
    bindH (approved_context L a st now) (\<lambda>(sn, p).
    bindH (getH (execution_for_approval (ar_id a))) (\<lambda>other.
    bindH (raise_ifH (other \<noteq> None) execution_exists) (\<lambda>_.
    bindH (getH (\<lambda>s. row_get ei_id intent_id (db_intents s))) (\<lambda>x.
    bindH (raise_ifH (case x of None \<Rightarrow> True | Some i \<Rightarrow> ei_approval_id i \<noteq> ar_id a)
      (app_err ''EXECUTION_INTENT_NOT_FOUND'' 404)) (\<lambda>_.
    bindH (getH (execution_for_intent (ei_id (the x)))) (\<lambda>used.
    bindH (raise_ifH (used \<noteq> None) (app_err ''EXECUTION_INTENT_ALREADY_USED'' 409)) (\<lambda>_.
    consume_intent L a sn p (the x) nonce_digest key_digest request_hash b st actor now nid)))))))"

definition execute_approved_plan ::
    "lib \<Rightarrow> string \<Rightarrow> string \<Rightarrow> string \<Rightarrow> string \<Rightarrow> settings \<Rightarrow> string \<Rightarrow> binding \<Rightarrow> int \<Rightarrow> string
      \<Rightarrow> (execution \<times> bool) session" where
  "execute_approved_plan L approval_id intent_id nonce key st actor b now nid =
    bindH (liftH (require_origin_binding b
      (if bd_origin b = OR_AUTOMATION then Some LM_ADD_PAUSED else None))) (\<lambda>_.
    bindH (liftH (idempotency_key_digest L key)) (\<lambda>key_digest.
    let nonce_digest = hash_secret L nonce;
        request_hash = execution_request_hash L approval_id intent_id nonce_digest key_digest b;
        replay = (\<lambda>e. bindH (require_same_idempotent_request L e approval_id intent_id request_hash)
          (\<lambda>_. returnH (e, False))) in
    bindH (getH (execution_for_key key_digest)) (\<lambda>existing.
    case existing of
      Some e \<Rightarrow> replay e
    | None \<Rightarrow>
        bindH (liftH (require_execution_control_plane_enabled st)) (\<lambda>_.
        bindH (get_locked_approval L approval_id) (\<lambda>a.
        bindH (getH (execution_for_key key_digest)) (\<lambda>again.
        case again of
          Some e \<Rightarrow> replay e
        | None \<Rightarrow>
            bindH (start_execution L a intent_id nonce_digest key_digest request_hash b st actor now nid)
              (\<lambda>e. returnH (e, True))))))))"

definition recover_idempotent_execution :: "lib \<Rightarrow> string \<Rightarrow> string \<Rightarrow> string \<Rightarrow> string \<Rightarrow> execution session" where
  "recover_idempotent_execution L approval_id intent_id nonce key =
    bindH (liftH (idempotency_key_digest L key)) (\<lambda>key_digest.
    bindH (getH (execution_for_key key_digest)) (\<lambda>existing.
    case existing of
      Some e \<Rightarrow> bindH (require_same_idempotent_request L e approval_id intent_id
        (execution_request_hash L approval_id intent_id (hash_secret L nonce) key_digest manual_binding))
        (\<lambda>_. returnH e)
    | None \<Rightarrow>
        bindH (getH (execution_for_approval approval_id)) (\<lambda>x.
        bindH (raise_ifH (x \<noteq> None) execution_exists) (\<lambda>_.
        bindH (getH (execution_for_intent intent_id)) (\<lambda>y.
        bindH (raise_ifH (y \<noteq> None) (app_err ''EXECUTION_INTENT_ALREADY_USED'' 409)) (\<lambda>_.
        raiseH (app_err ''DOWNLOAD_EXECUTION_CONFLICT'' 409)))))))"

definition find_idempotent_candidate_execution ::
    "lib \<Rightarrow> string \<Rightarrow> string \<Rightarrow> launch_mode \<Rightarrow> execution option session" where
  "find_idempotent_candidate_execution L candidate_id key lm =
    bindH (liftH (idempotency_key_digest L key)) (\<lambda>key_digest.
    bindH (getH (execution_for_key key_digest)) (\<lambda>existing.
    case existing of
      None \<Rightarrow> returnH None
    | Some e \<Rightarrow>
        bindH (getH (approval_by_id (de_approval_id e))) (\<lambda>x.
        bindH (raise_ifH ((case x of None \<Rightarrow> True | Some a \<Rightarrow> ar_torrent_candidate_id a \<noteq> candidate_id)
            \<or> de_launch_mode e \<noteq> lm) key_reused) (\<lambda>_.
        bindH (verifiedH L e) (\<lambda>v. returnH (Some v))))))"

section \<open>Reading an execution\<close>

definition execution_not_found :: exn where
  "execution_not_found = app_err ''DOWNLOAD_EXECUTION_NOT_FOUND'' 404"

definition get_execution_for_approval :: "lib \<Rightarrow> string \<Rightarrow> execution session" where
  "get_execution_for_approval L approval_id =
    bindH (getH (approval_by_id approval_id)) (\<lambda>x.
    bindH (liftH (option_or (app_err ''APPROVAL_REQUEST_NOT_FOUND'' 404) x)) (\<lambda>_.
    bindH (getH (execution_for_approval approval_id)) (\<lambda>y.
    bindH (liftH (option_or execution_not_found y)) (verifiedH L))))"

definition get_download_execution :: "lib \<Rightarrow> string \<Rightarrow> execution session" where
  "get_download_execution L execution_id =
    bindH (getH (\<lambda>s. row_get de_id execution_id (db_executions s))) (\<lambda>x.
    bindH (liftH (option_or execution_not_found x)) (verifiedH L))"

definition requires_reconciliation :: "execution \<Rightarrow> bool" where
  "requires_reconciliation e \<longleftrightarrow>
    de_status e \<in> {DE_OUTCOME_UNKNOWN, DE_RECONCILIATION_REQUIRED, DE_RECONCILIATION_PENDING}"

section \<open>Uncertain outcomes\<close>

definition transition_invalid :: exn where
  "transition_invalid = app_err ''DOWNLOAD_EXECUTION_TRANSITION_INVALID'' 409"

text \<open>The columns every end of a lease clears.\<close>

definition released :: "execution \<Rightarrow> execution" where
  "released e = e\<lparr> de_next_retry_at := None, de_locked_at := None, de_locked_by := None,
     de_lease_token := None \<rparr>"

definition failed_as :: "execution \<Rightarrow> execution_status \<Rightarrow> string \<Rightarrow> string \<Rightarrow> execution" where
  "failed_as e status code message =
    (released e)\<lparr> de_status := status, de_error_code := Some code, de_error_message := Some message \<rparr>"

definition request_reconciliation ::
    "lib \<Rightarrow> string \<Rightarrow> string option \<Rightarrow> string \<Rightarrow> int \<Rightarrow> execution session" where
  "request_reconciliation L execution_id reason actor now =
    bindH (get_download_execution L execution_id) (\<lambda>e.
    if de_status e = DE_RECONCILIATION_PENDING then returnH e
    else
      bindH (raise_ifH (de_status e \<notin> {DE_OUTCOME_UNKNOWN, DE_RECONCILIATION_REQUIRED})
        (app_err ''DOWNLOAD_EXECUTION_NOT_RECONCILABLE'' 409)) (\<lambda>_.
      let e' = e\<lparr> de_status := DE_RECONCILIATION_PENDING,
                  de_reconciliation_requested_by := Some (strip actor),
                  de_reconciliation_requested_at := Some (Aware now),
                  de_reconciliation_reason := stripped_reason reason \<rparr> in
      bindH (save_execution e') (\<lambda>_.
      bindH (add_execution_event L e' ''RECONCILIATION_REQUESTED'' actor (Some (de_status e))
        DE_RECONCILIATION_PENDING
        [(''reason'', opt_json JStr (de_reconciliation_reason e')),
         (''external_request_performed'', JBool False)]) (\<lambda>_.
      returnH e'))))"

definition mark_reconciliation_required ::
    "lib \<Rightarrow> string \<Rightarrow> string \<Rightarrow> string option \<Rightarrow> int \<Rightarrow> string \<Rightarrow> string \<Rightarrow> datetime \<Rightarrow> execution session" where
  "mark_reconciliation_required L execution_id actor token lease_seconds code message db_now =
    bindH (get_download_execution L execution_id) (\<lambda>e.
    if de_status e = DE_RECONCILIATION_REQUIRED then returnH e
    else
      bindH (raise_ifH (de_status e \<notin> {DE_SUBMITTING, DE_OUTCOME_UNKNOWN}) transition_invalid) (\<lambda>_.
      bindH (liftH (if de_status e = DE_SUBMITTING
        then require_execution_lease e (case token of None \<Rightarrow> [] | Some t \<Rightarrow> t) lease_seconds db_now
        else Inr ())) (\<lambda>_.
      let e' = failed_as e DE_RECONCILIATION_REQUIRED code message in
      bindH (save_execution e') (\<lambda>_.
      bindH (add_execution_event L e' ''RECONCILIATION_REQUIRED'' actor (Some (de_status e))
        DE_RECONCILIATION_REQUIRED
        [(''error_code'', JStr code), (''automatic_retry_allowed'', JBool False)]) (\<lambda>_.
      returnH e')))))"

definition mark_outcome_unknown ::
    "lib \<Rightarrow> string \<Rightarrow> string \<Rightarrow> string \<Rightarrow> int \<Rightarrow> string \<Rightarrow> string \<Rightarrow> datetime \<Rightarrow> execution session" where
  "mark_outcome_unknown L execution_id actor token lease_seconds code message db_now =
    bindH (get_download_execution L execution_id) (\<lambda>e.
    if de_status e = DE_OUTCOME_UNKNOWN then returnH e
    else
      bindH (raise_ifH (de_status e \<noteq> DE_SUBMITTING) transition_invalid) (\<lambda>_.
      bindH (liftH (require_execution_lease e token lease_seconds db_now)) (\<lambda>_.
      bindH (raise_ifH (de_actual_info_hash e = None)
        (app_err ''DOWNLOAD_EXECUTION_INFO_HASH_REQUIRED'' 409)) (\<lambda>_.
      let e' = failed_as e DE_OUTCOME_UNKNOWN code message in
      bindH (save_execution e') (\<lambda>_.
      bindH (add_execution_event L e' ''OUTCOME_UNKNOWN'' actor (Some (de_status e)) DE_OUTCOME_UNKNOWN
        [(''error_code'', JStr code), (''automatic_retry_allowed'', JBool False)]) (\<lambda>_.
      returnH e'))))))"

definition cancel_invalidated_execution :: "lib \<Rightarrow> execution \<Rightarrow> string \<Rightarrow> string \<Rightarrow> execution session" where
  "cancel_invalidated_execution L e actor code =
    (let e' = failed_as e DE_CANCELLED ''APPROVAL_INVALIDATED'' (text_of L ''approval invalidated'') in
     bindH (save_execution e') (\<lambda>_.
     bindH (add_execution_event L e' ''APPROVAL_INVALIDATED'' actor (Some (de_status e)) DE_CANCELLED
       [(''approval_error_code'', JStr code), (''automatic_retry_allowed'', JBool False),
        (''external_request_performed'', JBool False)]) (\<lambda>_.
     returnH e')))"

section \<open>Reservation of the submission\<close>

text \<open>\<open>metadata.info_hash_v1 or metadata.info_hash_v2\<close>\<close>

definition first_hash :: "validated_torrent \<Rightarrow> string option" where
  "first_hash m = (if falsy_str (vt_info_hash_v1 m) then vt_info_hash_v2 m else vt_info_hash_v1 m)"

definition same_reservation :: "execution \<Rightarrow> validated_torrent \<Rightarrow> bool" where
  "same_reservation e m \<longleftrightarrow> de_actual_info_hash e = first_hash m
    \<and> de_actual_info_hash_v1 e = vt_info_hash_v1 m \<and> de_actual_info_hash_v2 e = vt_info_hash_v2 m
    \<and> de_actual_size_bytes e = Some (vt_total_size_bytes m)
    \<and> de_actual_file_count e = Some (vt_file_count m)"

definition reserved :: "execution \<Rightarrow> validated_torrent \<Rightarrow> string \<Rightarrow> int \<Rightarrow> execution" where
  "reserved e m h now =
    e\<lparr> de_actual_info_hash := Some h, de_actual_info_hash_v1 := vt_info_hash_v1 m,
       de_actual_info_hash_v2 := vt_info_hash_v2 m, de_actual_size_bytes := Some (vt_total_size_bytes m),
       de_actual_file_count := Some (vt_file_count m), de_validated_at := Some (Aware now),
       de_submitted_at := Some (Aware now), de_status := DE_SUBMITTING, de_next_retry_at := None \<rparr>"

text \<open>The hash that is persisted: the one the plan expects, where it names one.\<close>

definition selected_hash :: "lib \<Rightarrow> validated_torrent \<Rightarrow> plan \<Rightarrow> exn + string" where
  "selected_hash L m p =
    (if falsy_str (dp_expected_info_hash p) then Inr (the (first_hash m))
     else let expected = casefold L (the (dp_expected_info_hash p)) in
       bindR (raise_if (\<not> matches_hash L m expected) (app_err ''TORRENT_INFO_HASH_MISMATCH'' 409)) (\<lambda>_.
       Inr expected))"

definition reserve ::
    "lib \<Rightarrow> execution \<Rightarrow> approval \<Rightarrow> validated_torrent \<Rightarrow> string \<Rightarrow> int \<Rightarrow> execution session" where
  "reserve L e a m actor now =
    bindH (get_verified_plan L a) (\<lambda>p.
    bindH (liftH (selected_hash L m p)) (\<lambda>h.
    let a' = a\<lparr> ar_status := AP_EXECUTING \<rparr>; e' = reserved e m h now;
        hashes = [(''actual_info_hash_v1'', opt_json JStr (vt_info_hash_v1 m)),
                  (''actual_info_hash_v2'', opt_json JStr (vt_info_hash_v2 m))] in
    bindH (save_approval a') (\<lambda>_.
    bindH (save_execution e') (\<lambda>_.
    bindH (add_approval_event L a' ''EXECUTION_RESERVED'' actor
      ((''download_execution_id'', JStr (de_id e)) # hashes) (Some (ar_status a))) (\<lambda>_.
    bindH (add_execution_event L e' ''SUBMISSION_STAGED'' actor (Some (de_status e)) DE_SUBMITTING
      (hashes @ [(''actual_size_bytes'', JInt (vt_total_size_bytes m)),
        (''actual_file_count'', JInt (vt_file_count m)),
        (''external_request_performed'', JBool False)])) (\<lambda>_.
    returnH e'))))))"

definition approval_error_code :: "approval \<Rightarrow> string" where
  "approval_error_code a = ''APPROVAL_'' @ approval_status_value (ar_status a)"

definition persist_info_hash_before_submission ::
    "lib \<Rightarrow> string \<Rightarrow> validated_torrent \<Rightarrow> string \<Rightarrow> string \<Rightarrow> int \<Rightarrow> datetime \<Rightarrow> int \<Rightarrow> execution session" where
  "persist_info_hash_before_submission L execution_id m actor token lease_seconds db_now now =
    bindH (raise_ifH (first_hash m = None) (app_err ''DOWNLOAD_EXECUTION_INFO_HASH_INVALID'' 409)) (\<lambda>_.
    bindH (get_download_execution L execution_id) (\<lambda>e.
    bindH (liftH (require_execution_lease e token lease_seconds db_now)) (\<lambda>_.
    if de_status e = DE_SUBMITTING then
      if same_reservation e m then returnH e
      else raiseH (app_err ''DOWNLOAD_EXECUTION_INFO_HASH_MISMATCH'' 409)
    else
      bindH (raise_ifH (de_status e \<noteq> DE_VALIDATING) transition_invalid) (\<lambda>_.
      bindH (getH (approval_by_id (de_approval_id e))) (\<lambda>x.
      case x of
        None \<Rightarrow> cancel_invalidated_execution L e actor ''APPROVAL_REQUEST_NOT_FOUND''
      | Some a \<Rightarrow>
          bindH (liftH (verify_snapshot L a)) (\<lambda>_.
          bindH (if ar_status a = AP_APPROVED \<and> is_expired a (Aware now)
            then stage_approval_expiry L a now else returnH a) (\<lambda>a'.
          if ar_status a' \<noteq> AP_APPROVED
          then cancel_invalidated_execution L e actor (approval_error_code a')
          else reserve L e a' m actor now)))))))"

section \<open>The torrent as the downloader shows it\<close>

definition hash_set :: "lib \<Rightarrow> string option list \<Rightarrow> string option \<Rightarrow> string set" where
  "hash_set L hs v2 =
    casefold L ` truthy_hashes hs \<union> (case v2 of None \<Rightarrow> {} | Some h \<Rightarrow> {casefold L (take 40 h)})"

definition execution_identity_hashes :: "lib \<Rightarrow> execution \<Rightarrow> string set" where
  "execution_identity_hashes L e =
    hash_set L [de_actual_info_hash e, de_actual_info_hash_v1 e, de_actual_info_hash_v2 e]
      (de_actual_info_hash_v2 e)"

definition job_identity_hashes :: "lib \<Rightarrow> job \<Rightarrow> string set" where
  "job_identity_hashes L j = hash_set L [dj_info_hash_v1 j, dj_info_hash_v2 j] (dj_info_hash_v2 j)"

text \<open>
  \<open>_same_qb_save_path\<close>: the loop drops one final slash or backslash as long as two characters
  are left. It looks at bytes here: a text of one character that is a slash is one byte, and
  no other final slash leaves an empty text.
\<close>

function strip_separators :: "string \<Rightarrow> string" where
  "strip_separators s =
    (if 1 < length s \<and> last s \<in> {CHR ''/'', CHR 0x5C} then strip_separators (butlast s) else s)"
  by pat_completeness auto
termination
  by (relation "measure length") auto

declare strip_separators.simps [simp del]

definition same_qb_save_path :: "string \<Rightarrow> string \<Rightarrow> bool" where
  "same_qb_save_path actual expected \<longleftrightarrow>
    strip_separators (strip actual) = strip_separators (strip expected)"

definition paused_states :: "string list" where
  "paused_states = [''pauseddl'', ''pausedup'', ''stoppeddl'', ''stoppedup'']"

definition download_job_status :: "lib \<Rightarrow> qb_torrent \<Rightarrow> job_status" where
  "download_job_status L q =
    (let state = casefold L (qt_state q) in
     if state \<in> set [''error'', ''missingfiles'', ''unknown''] then DJ_ERROR
     else if state \<in> set [''checkingdl'', ''checkingup'', ''checkingresumedata'', ''moving''] then DJ_CHECKING
     else if state \<in> set paused_states then DJ_PAUSED
     else if state \<in> set [''queueddl'', ''queuedup'', ''allocating''] then DJ_QUEUED
     else if state \<in> set [''downloading'', ''forceddl'', ''stalleddl'', ''metadl''] then DJ_DOWNLOADING
     else if state \<in> set [''uploading'', ''forcedup'', ''stalledup''] then DJ_SEEDING
     else if state = ''completed'' \<or> float_at_least L 1 (qt_progress q) then DJ_COMPLETED
     else DJ_ERROR)"

text \<open>\<open>datetime.fromtimestamp\<close> ends with the year 9999.\<close>

definition qb_timestamp :: "int \<Rightarrow> datetime option" where
  "qb_timestamp v = (if v \<le> 0 \<or> 253402300799 < v then None else Some (Aware (seconds v)))"

definition completion_time :: "lib \<Rightarrow> qb_torrent \<Rightarrow> datetime \<Rightarrow> datetime option" where
  "completion_time L q now =
    (case qb_timestamp (qt_completion_on q) of
       Some t \<Rightarrow> Some t
     | None \<Rightarrow> if float_at_least L 1 (qt_progress q) then Some now else None)"

section \<open>Finalization\<close>

text \<open>
  \<open>_require_final_automation_submission_cas\<close>: reading the policy creates the default one when
  there is none, with the given clock and identifier.
\<close>

definition policy_changed_after_write :: exn where
  "policy_changed_after_write = app_err ''AUTOMATION_POLICY_CHANGED_AFTER_WRITE'' 409"

definition automation_gates :: "execution \<Rightarrow> settings \<Rightarrow> bool option \<Rightarrow> bool" where
  "automation_gates e st hit_and_run \<longleftrightarrow> de_launch_mode e = LM_ADD_PAUSED \<and> st_enable_automation_engine st
    \<and> st_enable_control_plane st \<and> download_executor_enabled st \<and> st_enable_avistaz_live_search st
    \<and> hit_and_run \<noteq> None"

definition require_final_automation_submission_cas ::
    "lib \<Rightarrow> execution \<Rightarrow> bool option \<Rightarrow> settings \<Rightarrow> int \<Rightarrow> string \<Rightarrow> unit session" where
  "require_final_automation_submission_cas L e hit_and_run st now nid =
    (if de_origin e \<noteq> OR_AUTOMATION then returnH ()
     else bindH (get_current_policy L now nid) (\<lambda>hr.
       raise_ifH (\<not> automation_gates e st hit_and_run
           \<or> de_automation_policy_revision_id e \<noteq> Some (pr_id (snd hr))
           \<or> pr_execution_mode (snd hr) \<noteq> AM_AUTO_IF_ELIGIBLE) policy_changed_after_write))"

text \<open>What the observation has to show before a submission counts as verified.\<close>

definition check_observation ::
    "lib \<Rightarrow> execution \<Rightarrow> plan \<Rightarrow> qb_torrent \<Rightarrow> execution_status \<Rightarrow> settings \<Rightarrow> exn + unit" where
  "check_observation L e p q outcome st =
    bindR (raise_if (case st_qb_target_save_path st of None \<Rightarrow> True
        | Some sp \<Rightarrow> \<not> same_qb_save_path (qt_save_path q) sp \<or> qt_category q \<noteq> dp_category p)
      (app_err ''QB_SUBMISSION_TARGET_MISMATCH'' 409)) (\<lambda>_.
    bindR (raise_if (outcome = DE_SUBMITTED \<and> de_launch_mode e = LM_ADD_PAUSED
        \<and> casefold L (qt_state q) \<notin> set paused_states)
      (app_err ''QB_ADD_PAUSED_NOT_OBSERVED'' 409)) (\<lambda>_.
    bindR (raise_if (execution_identity_hashes L e \<inter> set (qt_identity_hashes q) = {})
      (app_err ''QB_SUBMISSION_INFO_HASH_MISMATCH'' 409)) (\<lambda>_.
    bindR (raise_if (de_actual_size_bytes e \<noteq> Some (qt_size q))
      (app_err ''QB_SUBMISSION_SIZE_MISMATCH'' 409)) (\<lambda>_.
    raise_if (de_actual_file_count e = None) binding_invalid))))"

definition new_job ::
    "lib \<Rightarrow> string \<Rightarrow> execution \<Rightarrow> approval \<Rightarrow> plan \<Rightarrow> qb_torrent \<Rightarrow> int \<Rightarrow> job" where
  "new_job L nid e a p q now = \<lparr>
     dj_id = nid, dj_execution_id = de_id e, dj_approval_id = ar_id a,
     dj_media_item_id = ar_media_item_id a, dj_status = download_job_status L q,
     dj_release_title = dp_release_title p, dj_info_hash_v1 = de_actual_info_hash_v1 e,
     dj_info_hash_v2 = de_actual_info_hash_v2 e, dj_save_path_ref = dp_save_path_ref p,
     dj_category = dp_category p, dj_size_bytes = the (de_actual_size_bytes e),
     dj_file_count = the (de_actual_file_count e), dj_progress = qt_progress q,
     dj_download_speed_bps = qt_dlspeed q, dj_upload_speed_bps = qt_upspeed q,
     dj_downloaded_bytes = qt_downloaded q, dj_uploaded_bytes = qt_uploaded q, dj_ratio = qt_ratio q,
     dj_hnr_status = HNR_UNKNOWN,
     dj_started_at = (case qb_timestamp (qt_added_on q) of Some t \<Rightarrow> t
       | None \<Rightarrow> (case de_submitted_at e of Some t \<Rightarrow> t | None \<Rightarrow> Aware now)),
     dj_completed_at = completion_time L q (Aware now), dj_last_seen_at = Some (Aware now),
     dj_error_code = None, dj_error_message = None, dj_created_at = Aware now \<rparr>"

definition verified_submission :: "execution \<Rightarrow> execution_status \<Rightarrow> int \<Rightarrow> execution" where
  "verified_submission e outcome now =
    (released e)\<lparr> de_status := outcome, de_verified_at := Some (Aware now),
      de_error_code := None, de_error_message := None \<rparr>"

definition record_submission ::
    "lib \<Rightarrow> execution \<Rightarrow> approval \<Rightarrow> plan \<Rightarrow> qb_torrent \<Rightarrow> execution_status \<Rightarrow> string \<Rightarrow> int \<Rightarrow> int \<Rightarrow> string
      \<Rightarrow> job session" where
  "record_submission L e a p q outcome actor now now2 nid =
    (let j = new_job L nid e a p q now; e' = verified_submission e outcome now in
     bindH (insert_job L j) (\<lambda>_.
     bindH (consume_approval L (ar_id a) actor now2) (\<lambda>a'.
     bindH (save_execution e') (\<lambda>_.
     bindH (add_execution_event L e' ''SUBMISSION_VERIFIED'' actor (Some (de_status e)) outcome
       [(''download_job_id'', JStr (dj_id j)), (''outcome'', JStr (execution_status_value outcome)),
        (''observed_state'', JStr (qt_state q)),
        (''actual_info_hash_v1'', opt_json JStr (de_actual_info_hash_v1 e)),
        (''actual_info_hash_v2'', opt_json JStr (de_actual_info_hash_v2 e)),
        (''external_request_performed'', JBool False)]) (\<lambda>_.
     bindH (add_approval_event L a' ''DOWNLOAD_JOB_CREATED'' actor
       [(''download_execution_id'', JStr (de_id e)), (''download_job_id'', JStr (dj_id j)),
        (''outcome'', JStr (execution_status_value outcome))] None) (\<lambda>_.
     bindH (add_job_event L j ''CREATED'' actor None (dj_status j)
       [(''execution_id'', JStr (de_id e)), (''observed_state'', JStr (qt_state q)),
        (''progress'', JFloat (qt_progress q))]) (\<lambda>_.
     returnH j)))))))"

definition finalization_invalid :: exn where
  "finalization_invalid = app_err ''DOWNLOAD_EXECUTION_FINALIZATION_INVALID'' 409"

definition job_for_execution :: "string \<Rightarrow> db \<Rightarrow> job option" where
  "job_for_execution execution_id s = find (\<lambda>j. dj_execution_id j = execution_id) (db_jobs s)"

text \<open>The last part of \<open>finalize_download_submission\<close>, under the lease and on an execution that is submitting.\<close>

definition finalize_submitting ::
    "lib \<Rightarrow> execution \<Rightarrow> qb_torrent \<Rightarrow> execution_status \<Rightarrow> settings \<Rightarrow> string \<Rightarrow> int \<Rightarrow> int \<Rightarrow> string \<Rightarrow> string
      \<Rightarrow> job session" where
  "finalize_submitting L e q outcome st actor now now2 nid policy_id =
    bindH (getH (approval_by_id (de_approval_id e))) (\<lambda>x.
    bindH (raise_ifH (case x of None \<Rightarrow> True | Some a \<Rightarrow> ar_status a \<noteq> AP_EXECUTING)
      (app_err ''DOWNLOAD_EXECUTION_APPROVAL_INVALIDATED'' 409)) (\<lambda>_.
    let a = the x in
    bindH (liftH (verify_snapshot L a)) (\<lambda>sn.
    bindH (require_final_automation_submission_cas L e
      (applies (effective_hnr_rule L (sn_site_id sn) (sn_hit_and_run sn))) st now policy_id) (\<lambda>_.
    bindH (get_verified_plan L a) (\<lambda>p.
    bindH (liftH (qb_target_fingerprint L st p (de_launch_mode e) (sn_media_title sn))) (\<lambda>target.
    bindH (raise_ifH (target \<noteq> de_qb_target_fingerprint e)
      (app_err ''EXECUTION_TARGET_CONFIG_CHANGED'' 409)) (\<lambda>_.
    bindH (liftH (check_observation L e p q outcome st)) (\<lambda>_.
    record_submission L e a p q outcome actor now now2 nid))))))))"

definition finalize_download_submission ::
    "lib \<Rightarrow> string \<Rightarrow> qb_torrent \<Rightarrow> execution_status \<Rightarrow> settings \<Rightarrow> string \<Rightarrow> string \<Rightarrow> datetime \<Rightarrow> int \<Rightarrow> int
      \<Rightarrow> string \<Rightarrow> string \<Rightarrow> job session" where
  "finalize_download_submission L execution_id q outcome st actor token db_now now now2 nid policy_id =
    bindH (raise_ifH (outcome \<notin> set verified_statuses)
      (app_err ''DOWNLOAD_EXECUTION_OUTCOME_INVALID'' 409)) (\<lambda>_.
    bindH (get_download_execution L execution_id) (\<lambda>e.
    bindH (getH (job_for_execution (de_id e))) (\<lambda>existing.
    if de_status e \<in> set verified_statuses then
      bindH (raise_ifH (existing = None \<or> de_status e \<noteq> outcome) finalization_invalid) (\<lambda>_.
      returnH (the existing))
    else
      bindH (raise_ifH (existing \<noteq> None) finalization_invalid) (\<lambda>_.
      bindH (raise_ifH (de_status e \<noteq> DE_SUBMITTING) transition_invalid) (\<lambda>_.
      bindH (liftH (require_execution_lease e token (st_download_execution_lease_seconds st) db_now)) (\<lambda>_.
      finalize_submitting L e q outcome st actor now now2 nid policy_id))))))"

section \<open>Observations of the monitor\<close>

definition observed_counters :: "job \<Rightarrow> qb_torrent \<Rightarrow> datetime \<Rightarrow> job" where
  "observed_counters j q now =
    j\<lparr> dj_progress := qt_progress q, dj_download_speed_bps := qt_dlspeed q,
       dj_upload_speed_bps := qt_upspeed q, dj_downloaded_bytes := qt_downloaded q,
       dj_uploaded_bytes := qt_uploaded q, dj_ratio := qt_ratio q, dj_last_seen_at := Some now \<rparr>"

definition observed_status :: "lib \<Rightarrow> job \<Rightarrow> qb_torrent \<Rightarrow> string \<Rightarrow> job" where
  "observed_status L j q expected_save_path =
    (if \<not> same_qb_save_path (qt_save_path q) expected_save_path \<or> qt_category q \<noteq> dj_category j
        \<or> qt_size q \<noteq> dj_size_bytes j
     then j\<lparr> dj_status := DJ_ERROR, dj_error_code := Some ''QB_TORRENT_BINDING_DRIFT'',
             dj_error_message := Some (text_of L ''torrent binding drift'') \<rparr>
     else if download_job_status L q = DJ_ERROR
     then j\<lparr> dj_status := DJ_ERROR, dj_error_code := Some ''QB_TORRENT_STATE_ERROR'',
             dj_error_message := Some (text_of L ''torrent state error'') \<rparr>
     else j\<lparr> dj_status := download_job_status L q, dj_error_code := None, dj_error_message := None \<rparr>)"

definition observed_job :: "lib \<Rightarrow> job \<Rightarrow> qb_torrent \<Rightarrow> string \<Rightarrow> datetime \<Rightarrow> job" where
  "observed_job L j q expected_save_path now =
    (let j' = observed_status L (observed_counters j q now) q expected_save_path in
     if dj_completed_at j' = None then j'\<lparr> dj_completed_at := completion_time L q now \<rparr> else j')"

definition missing_job :: "lib \<Rightarrow> job \<Rightarrow> job" where
  "missing_job L j = j\<lparr> dj_status := DJ_MISSING, dj_error_code := Some ''QB_TORRENT_MISSING'',
     dj_error_message := Some (text_of L ''torrent missing'') \<rparr>"

definition job_not_found :: exn where
  "job_not_found = app_err ''DOWNLOAD_JOB_NOT_FOUND'' 404"

definition update_download_job_observation ::
    "lib \<Rightarrow> string \<Rightarrow> qb_torrent option \<Rightarrow> string \<Rightarrow> string \<Rightarrow> datetime \<Rightarrow> job session" where
  "update_download_job_observation L job_id observed expected_save_path actor now =
    bindH (raise_ifH (target_value_bad expected_save_path)
      (app_err ''DOWNLOAD_MONITOR_TARGET_INVALID'' 409)) (\<lambda>_.
    bindH (getH (\<lambda>s. row_get dj_id job_id (db_jobs s))) (\<lambda>x.
    bindH (liftH (option_or job_not_found x)) (\<lambda>j.
    bindH (raise_ifH (case observed of None \<Rightarrow> False
        | Some q \<Rightarrow> job_identity_hashes L j \<inter> set (qt_identity_hashes q) = {})
      (app_err ''DOWNLOAD_JOB_INFO_HASH_MISMATCH'' 409)) (\<lambda>_.
    let j' = (case observed of None \<Rightarrow> missing_job L j
          | Some q \<Rightarrow> observed_job L j q expected_save_path now) in
    bindH (save_job L j') (\<lambda>_.
    bindH (whenH (dj_status j' \<noteq> dj_status j)
      (add_job_event L j' ''STATUS_CHANGED'' actor (Some (dj_status j)) (dj_status j')
        [(''observed_state'', opt_json (\<lambda>q. JStr (qt_state q)) observed),
         (''progress'', JFloat (dj_progress j')),
         (''error_code'', opt_json JStr (dj_error_code j'))])) (\<lambda>_.
    returnH j'))))))"

definition record_download_job_monitor_error ::
    "lib \<Rightarrow> string \<Rightarrow> string \<Rightarrow> string \<Rightarrow> string \<Rightarrow> (string \<times> json) list \<Rightarrow> job session" where
  "record_download_job_monitor_error L job_id code message actor details =
    bindH (getH (\<lambda>s. row_get dj_id job_id (db_jobs s))) (\<lambda>x.
    bindH (liftH (option_or job_not_found x)) (\<lambda>j.
    let j' = j\<lparr> dj_status := DJ_ERROR, dj_error_code := Some code,
                dj_error_message := Some (sanitize_public_text L message) \<rparr> in
    bindH (save_job L j') (\<lambda>_.
    bindH (whenH (\<not> (dj_status j = DJ_ERROR \<and> dj_error_code j = Some code))
      (add_job_event L j' ''MONITOR_ERROR'' actor (Some (dj_status j)) DJ_ERROR
        (filter (\<lambda>m. fst m \<noteq> ''error_code'') details @ [(''error_code'', JStr code)]))) (\<lambda>_.
    returnH j'))))"

end
