(* ===== verification/DownloadExecutor.thy ===== *)
theory DownloadExecutor
  imports Executions
begin

text \<open>
  The download worker (\<open>workers/download_executor.py\<close>). Every method that opens a session is one
  transaction here: it commits, or it raises and the store is as it was. The executor is given
  by its settings and its identifier; the clock of the database, the new lease token and the
  identifier of a policy that may have to be created are arguments. The monitor adds its
  cursor and the outcomes of its read-only adapter.
\<close>

section \<open>Leases\<close>

record claim =
  cl_execution_id :: string
  cl_lease_token :: string

definition owns_lease :: "string \<Rightarrow> execution \<Rightarrow> claim \<Rightarrow> bool" where
  "owns_lease w e c \<longleftrightarrow> de_lease_token e = Some (cl_lease_token c) \<and> de_locked_by e = Some w
    \<and> de_locked_at e \<noteq> None"

definition require_matching_lease :: "string \<Rightarrow> execution \<Rightarrow> claim \<Rightarrow> exn + unit" where
  "require_matching_lease w e c = raise_if (\<not> owns_lease w e c) lease_lost"

definition lease_fresh :: "settings \<Rightarrow> execution \<Rightarrow> execution_status option \<Rightarrow> datetime \<Rightarrow> bool" where
  "lease_fresh st e expected now \<longleftrightarrow>
    (expected = None \<or> expected = Some (de_status e)) \<and> de_status e \<in> set leased_statuses
    \<and> (case de_locked_at e of None \<Rightarrow> False
        | Some t \<Rightarrow> as_utc now < as_utc t + seconds (st_download_execution_lease_seconds st))"

definition require_fresh_matching_lease ::
    "settings \<Rightarrow> string \<Rightarrow> execution \<Rightarrow> claim \<Rightarrow> execution_status option \<Rightarrow> datetime \<Rightarrow> exn + unit" where
  "require_fresh_matching_lease st w e c expected now =
    bindR (require_matching_lease w e c) (\<lambda>_. raise_if (\<not> lease_fresh st e expected now) lease_lost)"

definition add_worker_event ::
    "lib \<Rightarrow> string \<Rightarrow> execution \<Rightarrow> string \<Rightarrow> execution_status \<Rightarrow> execution_status \<Rightarrow> (string \<times> json) list
      \<Rightarrow> unit session" where
  "add_worker_event L w e event_type from_status to_status details =
    insert_execution_event \<lparr>
      ev_download_execution_id = de_id e, ev_event_type = event_type,
      ev_from_status = Some (execution_status_value from_status),
      ev_to_status = execution_status_value to_status, ev_actor = w,
      ev_sanitized_details = sanitize_details L (JObj details) \<rparr>"

text \<open>\<open>now + timedelta(seconds=n)\<close>\<close>

primrec later :: "datetime \<Rightarrow> int \<Rightarrow> datetime" where
  "later (Aware t) n = Aware (t + seconds n)"
| "later (Naive t) n = Naive (t + seconds n)"

definition execution_by_id :: "string \<Rightarrow> db \<Rightarrow> execution option" where
  "execution_by_id i s = row_get de_id i (db_executions s)"

section \<open>Claiming\<close>

definition eligible :: "datetime \<Rightarrow> execution \<Rightarrow> bool" where
  "eligible now e \<longleftrightarrow>
    (de_status e = DE_PENDING
     \<or> (de_status e = DE_RETRY_WAIT
        \<and> (case de_next_retry_at e of None \<Rightarrow> True | Some t \<Rightarrow> as_utc t \<le> as_utc now)))
    \<and> de_attempts e < de_max_attempts e"

text \<open>An execution is created at the time it is requested; equal times are ordered by identifier.\<close>

definition next_eligible :: "datetime \<Rightarrow> db \<Rightarrow> execution option" where
  "next_eligible now s =
    (case sort_key (\<lambda>e. as_utc (de_requested_at e)) (sort_key de_id (filter (eligible now) (db_executions s))) of
       [] \<Rightarrow> None | e # _ \<Rightarrow> Some e)"

definition claimed :: "execution \<Rightarrow> string \<Rightarrow> string \<Rightarrow> datetime \<Rightarrow> execution" where
  "claimed e w token now =
    e\<lparr> de_status := DE_VALIDATING, de_attempts := de_attempts e + 1, de_next_retry_at := None,
       de_locked_at := Some now, de_locked_by := Some w, de_lease_token := Some token,
       de_error_code := None, de_error_message := None \<rparr>"

definition claim_next_execution :: "lib \<Rightarrow> string \<Rightarrow> datetime \<Rightarrow> string \<Rightarrow> claim option session" where
  "claim_next_execution L w now token = transact
    (bindH (getH (next_eligible now)) (\<lambda>x.
     case x of
       None \<Rightarrow> returnH None
     | Some e \<Rightarrow>
         let e' = claimed e w token now in
         bindH (save_execution e') (\<lambda>_.
         bindH (add_worker_event L w e' ''VALIDATION_CLAIMED'' (de_status e) DE_VALIDATING
           [(''attempt'', JInt (de_attempts e'))]) (\<lambda>_.
         returnH (Some \<lparr> cl_execution_id = de_id e, cl_lease_token = token \<rparr>)))))"

definition renew_lease :: "settings \<Rightarrow> string \<Rightarrow> claim \<Rightarrow> datetime \<Rightarrow> bool session" where
  "renew_lease st w c now = transact
    (bindH (getH (execution_by_id (cl_execution_id c))) (\<lambda>x.
     case x of
       None \<Rightarrow> returnH False
     | Some e \<Rightarrow>
         (case require_fresh_matching_lease st w e c None now of
            Inl _ \<Rightarrow> returnH False
          | Inr _ \<Rightarrow> bindH (save_execution (e\<lparr> de_locked_at := Some now \<rparr>)) (\<lambda>_. returnH True))))"

section \<open>Recovery of stale leases\<close>

definition retry_delay :: "settings \<Rightarrow> int \<Rightarrow> int" where
  "retry_delay st attempts =
    min (st_download_execution_retry_base_seconds st * 2 ^ nat (max (attempts - 1) 0))
      (st_download_execution_retry_max_seconds st)"

definition stale :: "datetime \<Rightarrow> settings \<Rightarrow> execution \<Rightarrow> bool" where
  "stale now st e \<longleftrightarrow> de_status e \<in> set leased_statuses
    \<and> (case de_locked_at e of None \<Rightarrow> False
        | Some t \<Rightarrow> as_utc t < as_utc now - seconds (st_download_execution_lease_seconds st))"

definition locked_time :: "execution \<Rightarrow> int" where
  "locked_time e = (case de_locked_at e of None \<Rightarrow> 0 | Some t \<Rightarrow> as_utc t)"

definition stale_executions :: "datetime \<Rightarrow> settings \<Rightarrow> db \<Rightarrow> execution list" where
  "stale_executions now st s =
    take 50 (sort_key locked_time (sort_key de_id (filter (stale now st) (db_executions s))))"

definition retry_status :: "bool \<Rightarrow> execution_status" where
  "retry_status retry = (if retry then DE_RETRY_WAIT else DE_FAILED)"

definition retry_time :: "settings \<Rightarrow> execution \<Rightarrow> datetime \<Rightarrow> bool \<Rightarrow> datetime option" where
  "retry_time st e now retry = (if retry then Some (later now (retry_delay st (de_attempts e))) else None)"

definition recovered :: "lib \<Rightarrow> settings \<Rightarrow> execution \<Rightarrow> datetime \<Rightarrow> execution" where
  "recovered L st e now =
    (if de_status e = DE_SUBMITTING then
       failed_as e DE_RECONCILIATION_REQUIRED ''EXECUTOR_STALE_AFTER_RESERVATION''
         (text_of L ''stale after reservation'')
     else let retry = (de_attempts e < de_max_attempts e) in
       (failed_as e (retry_status retry) ''EXECUTOR_VALIDATION_LEASE_EXPIRED''
         (text_of L ''validation lease expired''))\<lparr> de_next_retry_at := retry_time st e now retry \<rparr>)"

definition recover_execution :: "lib \<Rightarrow> settings \<Rightarrow> string \<Rightarrow> datetime \<Rightarrow> execution \<Rightarrow> unit session" where
  "recover_execution L st w now e =
    (let e' = recovered L st e now in
     bindH (save_execution e') (\<lambda>_.
     add_worker_event L w e'
       (if de_status e = DE_SUBMITTING then ''STALE_SUBMISSION_REQUIRES_RECONCILIATION''
        else ''STALE_VALIDATION_RECOVERED'') (de_status e) (de_status e')
       [(''attempt'', JInt (de_attempts e)),
        (''automatic_retry_allowed'', JBool (de_status e' = DE_RETRY_WAIT))]))"

fun recover_each :: "lib \<Rightarrow> settings \<Rightarrow> string \<Rightarrow> datetime \<Rightarrow> execution list \<Rightarrow> unit session" where
  "recover_each L st w now [] = returnH ()"
| "recover_each L st w now (e # es) =
    bindH (recover_execution L st w now e) (\<lambda>_. recover_each L st w now es)"

definition recover_stale_executions :: "lib \<Rightarrow> settings \<Rightarrow> string \<Rightarrow> datetime \<Rightarrow> nat session" where
  "recover_stale_executions L st w now = transact
    (bindH (getH (stale_executions now st)) (\<lambda>es.
     bindH (recover_each L st w now es) (\<lambda>_. returnH (length es))))"

section \<open>The fence before an external request\<close>

definition stage_mode :: "revision \<Rightarrow> automation_stage \<Rightarrow> automation_mode" where
  "stage_mode r stage =
    (case stage of
       AS_IDENTITY \<Rightarrow> pr_identity_mode r | AS_TORRENT_SELECTION \<Rightarrow> pr_torrent_selection_mode r
     | AS_APPROVAL \<Rightarrow> pr_approval_mode r | AS_EXECUTION \<Rightarrow> pr_execution_mode r)"

definition automation_fence_error ::
    "lib \<Rightarrow> settings \<Rightarrow> execution \<Rightarrow> approval option \<Rightarrow> int \<Rightarrow> string \<Rightarrow> string option session" where
  "automation_fence_error L st e x now nid =
    (if de_origin e \<noteq> OR_AUTOMATION then returnH None
     else if de_launch_mode e \<noteq> LM_ADD_PAUSED \<or> \<not> st_enable_automation_engine st
         \<or> \<not> st_enable_control_plane st \<or> \<not> download_executor_enabled st
       then returnH (Some ''AUTOMATION_EXECUTION_GATE_DISABLED'')
     else case x of
       None \<Rightarrow> returnH (Some ''AUTOMATION_APPROVAL_MISSING'')
     | Some a \<Rightarrow>
         bindH (liftH (verify_snapshot L a)) (\<lambda>sn.
         if \<not> rule_known (effective_hnr_rule L (sn_site_id sn) (sn_hit_and_run sn))
         then returnH (Some ''HNR_UNKNOWN'')
         else bindH (get_current_policy L now nid) (\<lambda>hr.
           returnH (if de_automation_policy_revision_id e \<noteq> Some (pr_id (snd hr))
               then Some ''AUTOMATION_POLICY_REVISION_CHANGED''
             else if stage_mode (snd hr) AS_EXECUTION \<noteq> AM_AUTO_IF_ELIGIBLE
               then Some ''AUTOMATION_EXECUTION_MODE_CHANGED''
             else None))))"

definition revoke_by_fence :: "lib \<Rightarrow> string \<Rightarrow> approval option \<Rightarrow> string \<Rightarrow> datetime \<Rightarrow> unit session" where
  "revoke_by_fence L w x code now =
    (case x of
       None \<Rightarrow> returnH ()
     | Some a \<Rightarrow>
         if ar_status a \<notin> {AP_APPROVED, AP_EXECUTING} then returnH ()
         else let a' = a\<lparr> ar_status := AP_REVOKED, ar_decided_at := Some now \<rparr> in
           bindH (save_approval a') (\<lambda>_.
           insert_approval_event \<lparr>
             ae_approval_request_id = ar_id a, ae_event_type = ''AUTOMATION_EXECUTION_CANCELLED'',
             ae_from_status = Some (approval_status_value (ar_status a)),
             ae_to_status = approval_status_value AP_REVOKED, ae_actor = w,
             ae_reason = Some (text_of L ''automation fence''), ae_snapshot_hash = ar_snapshot_hash a,
             ae_sanitized_details = JObj [(''error_code'', JStr code)] \<rparr>))"

definition cancel_by_automation_fence ::
    "lib \<Rightarrow> string \<Rightarrow> execution \<Rightarrow> approval option \<Rightarrow> string \<Rightarrow> datetime \<Rightarrow> unit session" where
  "cancel_by_automation_fence L w e x code now =
    (let e' = failed_as e DE_CANCELLED code (text_of L ''automation fence cancelled'') in
     bindH (save_execution e') (\<lambda>_.
     bindH (revoke_by_fence L w x code now) (\<lambda>_.
     add_worker_event L w e' ''AUTOMATION_FENCE_CANCELLED'' (de_status e) DE_CANCELLED
       [(''error_code'', JStr code), (''automatic_retry_allowed'', JBool False),
        (''external_write_performed'', JBool False)])))"

definition fence_expire :: "lib \<Rightarrow> approval \<Rightarrow> datetime \<Rightarrow> approval session" where
  "fence_expire L a now =
    (if ar_status a = AP_APPROVED \<and> is_expired a now then
       let a' = a\<lparr> ar_status := AP_EXPIRED, ar_decided_at := Some now \<rparr> in
       bindH (save_approval a') (\<lambda>_.
       bindH (insert_approval_event \<lparr>
         ae_approval_request_id = ar_id a, ae_event_type = ''EXPIRED'',
         ae_from_status = Some (approval_status_value (ar_status a)),
         ae_to_status = approval_status_value AP_EXPIRED, ae_actor = ''system'',
         ae_reason = Some (text_of L ''approval validity ended''), ae_snapshot_hash = ar_snapshot_hash a,
         ae_sanitized_details = JObj [] \<rparr>) (\<lambda>_.
       returnH a'))
     else returnH a)"

definition fence_cancel :: "lib \<Rightarrow> string \<Rightarrow> execution \<Rightarrow> approval option \<Rightarrow> unit session" where
  "fence_cancel L w e x =
    (let e' = failed_as e DE_CANCELLED ''APPROVAL_INVALIDATED'' (text_of L ''approval invalidated'') in
     bindH (save_execution e') (\<lambda>_.
     add_worker_event L w e' ''APPROVAL_INVALIDATED'' (de_status e) DE_CANCELLED
       [(''approval_status'', JStr (case x of None \<Rightarrow> ''NOT_FOUND''
          | Some a \<Rightarrow> approval_status_value (ar_status a))),
        (''automatic_retry_allowed'', JBool False), (''external_request_performed'', JBool False)]))"

definition touch_lease :: "execution \<Rightarrow> datetime \<Rightarrow> bool session" where
  "touch_lease e now =
    bindH (save_execution (e\<lparr> de_locked_at := Some now \<rparr>)) (\<lambda>_. returnH True)"

text \<open>The fence by the phase: the approval must be approved while validating, executing afterwards.\<close>

definition fence_approval ::
    "lib \<Rightarrow> string \<Rightarrow> execution \<Rightarrow> approval option \<Rightarrow> execution_status \<Rightarrow> datetime \<Rightarrow> bool session" where
  "fence_approval L w e x expected now =
    (if expected = DE_VALIDATING then
       (case x of
          None \<Rightarrow> bindH (fence_cancel L w e None) (\<lambda>_. returnH False)
        | Some a \<Rightarrow>
            bindH (liftH (verify_snapshot L a)) (\<lambda>_.
            bindH (fence_expire L a now) (\<lambda>a'.
            if ar_status a' \<noteq> AP_APPROVED then bindH (fence_cancel L w e (Some a')) (\<lambda>_. returnH False)
            else touch_lease e now)))
     else
       bindH (raise_ifH (case x of None \<Rightarrow> True | Some a \<Rightarrow> ar_status a \<noteq> AP_EXECUTING)
         (app_err ''DOWNLOAD_EXECUTION_APPROVAL_INVALIDATED'' 409)) (\<lambda>_.
       touch_lease e now))"

definition verify_fence_plan :: "lib \<Rightarrow> plan \<Rightarrow> approval option \<Rightarrow> exn + unit" where
  "verify_fence_plan L p x =
    (case x of None \<Rightarrow> Inr () | Some a \<Rightarrow> bindR (verify_download_plan L p a) (\<lambda>_. Inr ()))"

definition ensure_external_action_allowed ::
    "lib \<Rightarrow> settings \<Rightarrow> string \<Rightarrow> claim \<Rightarrow> execution_status \<Rightarrow> bool \<Rightarrow> datetime \<Rightarrow> int \<Rightarrow> string \<Rightarrow> bool session" where
  "ensure_external_action_allowed L st w c expected written now clock nid = transact
    (bindH (getH (execution_by_id (cl_execution_id c))) (\<lambda>x.
     bindH (liftH (option_or lease_lost x)) (\<lambda>e.
     bindH (liftH (require_fresh_matching_lease st w e c (Some expected) now)) (\<lambda>_.
     bindH (getH (approval_by_id (de_approval_id e))) (\<lambda>y.
     bindH (getH (plan_for_approval (de_approval_id e))) (\<lambda>z.
     bindH (liftH (option_or (app_err ''DOWNLOAD_PLAN_NOT_FOUND'' 409) z)) (\<lambda>p.
     bindH (liftH (verify_fence_plan L p y)) (\<lambda>_.
     bindH (liftH (require_preflight_policy_current L (dp_preflight_policy_fingerprint p) st)) (\<lambda>_.
     bindH (automation_fence_error L st e y clock nid) (\<lambda>err.
     case err of
       Some code \<Rightarrow>
         bindH (raise_ifH written policy_changed_after_write) (\<lambda>_.
         bindH (cancel_by_automation_fence L w e y code now) (\<lambda>_. returnH False))
     | None \<Rightarrow> fence_approval L w e y expected now))))))))))"

section \<open>Binding and reservation\<close>

record execution_binding_view =
  eb_execution_id :: string
  eb_approval_id :: string
  eb_plan :: plan
  eb_snapshot :: snapshot
  eb_launch_mode :: launch_mode
  eb_origin :: origin

definition approval_invalidated :: exn where
  "approval_invalidated = app_err ''DOWNLOAD_EXECUTION_APPROVAL_INVALIDATED'' 409"

definition load_binding ::
    "lib \<Rightarrow> settings \<Rightarrow> string \<Rightarrow> claim \<Rightarrow> execution_binding_view session" where
  "load_binding L st w c =
    bindH (getH (execution_by_id (cl_execution_id c))) (\<lambda>x.
    bindH (liftH (option_or execution_not_found x)) (\<lambda>e.
    bindH (liftH (require_matching_lease w e c)) (\<lambda>_.
    bindH (verifiedH L e) (\<lambda>_.
    bindH (getH (approval_by_id (de_approval_id e))) (\<lambda>y.
    bindH (liftH (option_or (app_err ''APPROVAL_REQUEST_NOT_FOUND'' 404) y)) (\<lambda>a.
    bindH (liftH (verify_snapshot L a)) (\<lambda>sn.
    bindH (raise_ifH (ar_status a \<noteq> AP_APPROVED) approval_invalidated) (\<lambda>_.
    bindH (getH (plan_for_approval (ar_id a))) (\<lambda>z.
    bindH (liftH (option_or (app_err ''DOWNLOAD_PLAN_NOT_FOUND'' 409) z)) (\<lambda>p.
    bindH (liftH (verify_download_plan L p a)) (\<lambda>_.
    bindH (liftH (require_preflight_policy_current L (dp_preflight_policy_fingerprint p) st)) (\<lambda>_.
    bindH (liftH (qb_target_fingerprint L st p (de_launch_mode e) (sn_media_title sn))) (\<lambda>target.
    bindH (raise_ifH (target \<noteq> de_qb_target_fingerprint e)
      (app_err ''EXECUTION_TARGET_CONFIG_CHANGED'' 409)) (\<lambda>_.
    bindH (raise_ifH (dp_site_id p \<noteq> sn_site_id sn \<or> dp_torrent_ref p \<noteq> sn_torrent_ref sn)
      plan_binding_invalid) (\<lambda>_.
    returnH \<lparr> eb_execution_id = de_id e, eb_approval_id = ar_id a, eb_plan = p, eb_snapshot = sn,
      eb_launch_mode = de_launch_mode e, eb_origin = de_origin e \<rparr>)))))))))))))))"

definition reserve_submission ::
    "lib \<Rightarrow> settings \<Rightarrow> string \<Rightarrow> claim \<Rightarrow> validated_torrent \<Rightarrow> datetime \<Rightarrow> int \<Rightarrow> execution_status session" where
  "reserve_submission L st w c m db_now now = transact
    (bindH (getH (execution_by_id (cl_execution_id c))) (\<lambda>x.
     bindH (liftH (option_or execution_not_found x)) (\<lambda>e.
     bindH (liftH (require_fresh_matching_lease st w e c (Some DE_VALIDATING) db_now)) (\<lambda>_.
     bindH (persist_info_hash_before_submission L (cl_execution_id c) m w (cl_lease_token c)
       (st_download_execution_lease_seconds st) db_now now) (\<lambda>staged.
     returnH (de_status staged))))))"

section \<open>Failures\<close>

text \<open>\<open>^[A-Z][A-Z0-9_]{0,79}$\<close>\<close>

definition error_code_ok :: "string \<Rightarrow> bool" where
  "error_code_ok s \<longleftrightarrow> 1 \<le> length s \<and> length s \<le> 80 \<and> upper_char (hd s)
    \<and> list_all (\<lambda>c. upper_char c \<or> is_digit c \<or> c = CHR ''_'') (tl s)"

definition safe_error_code :: "app_error \<Rightarrow> string" where
  "safe_error_code err =
    (if error_code_ok (error_code err) then error_code err else ''DOWNLOAD_EXECUTOR_INTERNAL_ERROR'')"

definition safe_upstream_status_code :: "app_error \<Rightarrow> int option" where
  "safe_upstream_status_code err =
    (case map_of (err_details err) ''upstream_status_code'' of
       Some (JInt n) \<Rightarrow> if 400 \<le> n \<and> n \<le> 599 then Some n else None
     | _ \<Rightarrow> None)"

definition validation_error_message :: "lib \<Rightarrow> app_error \<Rightarrow> int \<Rightarrow> int \<Rightarrow> bool \<Rightarrow> string" where
  "validation_error_message L err attempt max_attempts retry =
    (if safe_upstream_status_code err = Some 403
        \<and> error_code err \<in> {''AVISTAZ_TORRENT_FETCH_FAILED'', ''AVISTAZ_TORRENT_FETCH_FORBIDDEN''}
     then text_of L (''HTTP 403, retry '' @ (if retry then ''yes '' else ''no '')
       @ show_int attempt @ ''/'' @ show_int max_attempts)
     else text_of L ''failed before the write'')"

definition failed_validation :: "lib \<Rightarrow> settings \<Rightarrow> execution \<Rightarrow> app_error \<Rightarrow> datetime \<Rightarrow> execution" where
  "failed_validation L st e err now =
    (let retry = retryable err \<and> de_attempts e < de_max_attempts e in
     (failed_as e (retry_status retry) (safe_error_code err)
       (validation_error_message L err (de_attempts e) (de_max_attempts e) retry))
       \<lparr> de_next_retry_at := retry_time st e now retry \<rparr>)"

definition failure_details :: "execution \<Rightarrow> app_error \<Rightarrow> bool \<Rightarrow> bool \<Rightarrow> (string \<times> json) list" where
  "failure_details e err retry category_write =
    [(''error_code'', JStr (safe_error_code err)), (''attempt'', JInt (de_attempts e)),
     (''automatic_retry_allowed'', JBool retry), (''external_write_performed'', JBool False)]
    @ (case safe_upstream_status_code err of None \<Rightarrow> [] | Some n \<Rightarrow> [(''upstream_status_code'', JInt n)])
    @ (if category_write then [(''category_write_may_have_occurred'', JBool True)] else [])"

definition mark_validation_failure ::
    "lib \<Rightarrow> settings \<Rightarrow> string \<Rightarrow> claim \<Rightarrow> app_error \<Rightarrow> bool \<Rightarrow> datetime \<Rightarrow> unit session" where
  "mark_validation_failure L st w c err category_write now = transact
    (bindH (getH (execution_by_id (cl_execution_id c))) (\<lambda>x.
     case x of
       None \<Rightarrow> returnH ()
     | Some e \<Rightarrow>
         if \<not> owns_lease w e c \<or> de_status e \<noteq> DE_VALIDATING then returnH ()
         else
           let e' = failed_validation L st e err now; retry = (de_status e' = DE_RETRY_WAIT) in
           bindH (save_execution e') (\<lambda>_.
           add_worker_event L w e' (if retry then ''VALIDATION_RETRY_SCHEDULED'' else ''VALIDATION_FAILED'')
             (de_status e) (de_status e') (failure_details e err retry category_write))))"

definition mark_reserved_failure ::
    "lib \<Rightarrow> settings \<Rightarrow> string \<Rightarrow> claim \<Rightarrow> app_error \<Rightarrow> bool \<Rightarrow> datetime \<Rightarrow> unit session" where
  "mark_reserved_failure L st w c err torrent_added now = transact
    (bindH (getH (execution_by_id (cl_execution_id c))) (\<lambda>x.
     case x of
       None \<Rightarrow> returnH ()
     | Some e \<Rightarrow>
         if \<not> owns_lease w e c \<or> de_status e \<noteq> DE_SUBMITTING then returnH ()
         else if torrent_added then
           bindH (mark_outcome_unknown L (cl_execution_id c) w (cl_lease_token c)
             (st_download_execution_lease_seconds st) (safe_error_code err)
             (text_of L ''write may have happened'') now) (\<lambda>_. returnH ())
         else
           bindH (mark_reconciliation_required L (cl_execution_id c) w (Some (cl_lease_token c))
             (st_download_execution_lease_seconds st) (safe_error_code err)
             (text_of L ''reserved without verification'') now) (\<lambda>_. returnH ())))"

section \<open>Rebinding the approved candidate\<close>

definition normalized_title :: "lib \<Rightarrow> string \<Rightarrow> string" where
  "normalized_title L v = join '' '' (split_space (casefold L v))"

definition pt_error_code :: "string \<Rightarrow> string \<Rightarrow> string \<Rightarrow> string" where
  "pt_error_code site_id avistaz generic = (if site_id = ''avistaz'' then avistaz else generic)"

datatype search_mode = SM_TMDB_ID | SM_IMDB_ID | SM_TEXT

text \<open>The fields of a \<open>TorrentSearchRequest\<close> that the executor sets; the limit is always 100.\<close>

record search_request =
  sr_tmdb :: "int option"
  sr_search :: "string option"
  sr_type :: media_type
  sr_limit :: int

definition search_requests :: "execution_binding_view \<Rightarrow> search_mode list \<Rightarrow> exn + search_request list" where
  "search_requests b modes =
    (let blank = \<lparr> sr_tmdb = None, sr_search = None, sr_type = sn_media_type (eb_snapshot b), sr_limit = 100 \<rparr>;
         by_tmdb = (if SM_TMDB_ID \<in> set modes \<and> sn_tmdb_id (eb_snapshot b) \<noteq> None
           then [blank\<lparr> sr_tmdb := sn_tmdb_id (eb_snapshot b) \<rparr>] else []);
         by_text = (if SM_TEXT \<in> set modes
           then [blank\<lparr> sr_search := Some (dp_release_title (eb_plan b)) \<rparr>] else [])
     in if by_tmdb @ by_text = [] then Inl (app_err ''PT_SITE_EXECUTION_SEARCH_UNSUPPORTED'' 409)
        else Inr (by_tmdb @ by_text))"

definition matching_candidates :: "execution_binding_view \<Rightarrow> torrent_candidate list \<Rightarrow> torrent_candidate list" where
  "matching_candidates b cs = filter (\<lambda>c. tc_site_id c = dp_site_id (eb_plan b)
     \<and> tc_torrent_id c = sn_torrent_id (eb_snapshot b)) cs"

definition tmdb_mismatch :: "execution_binding_view \<Rightarrow> torrent_candidate \<Rightarrow> bool" where
  "tmdb_mismatch b c \<longleftrightarrow>
    (let mine = sn_tmdb_id (eb_snapshot b); its = tc_tmdb_id c in
     if eb_origin b = OR_AUTOMATION then its = None \<or> mine = None \<or> its \<noteq> mine
     else its \<noteq> None \<and> mine \<noteq> None \<and> its \<noteq> mine)"

definition hnr_mismatch :: "lib \<Rightarrow> execution_binding_view \<Rightarrow> torrent_candidate \<Rightarrow> bool" where
  "hnr_mismatch L b c \<longleftrightarrow>
    (let theirs = effective_hnr_rule L (tc_site_id c) (tc_hit_and_run c);
         mine = effective_hnr_rule L (sn_site_id (eb_snapshot b)) (sn_hit_and_run (eb_snapshot b))
     in eb_origin b = OR_AUTOMATION
        \<and> (\<not> rule_known theirs \<or> \<not> rule_known mine \<or> applies theirs \<noteq> applies mine))"

definition pt_error :: "execution_binding_view \<Rightarrow> string \<Rightarrow> string \<Rightarrow> exn" where
  "pt_error b avistaz generic = app_err (pt_error_code (dp_site_id (eb_plan b)) avistaz generic) 409"

definition require_exact_candidate ::
    "lib \<Rightarrow> execution_binding_view \<Rightarrow> torrent_candidate list \<Rightarrow> exn + torrent_candidate" where
  "require_exact_candidate L b cs =
    (case matching_candidates b cs of
       [c] \<Rightarrow>
         bindR (raise_if (normalized_title L (tc_release_title c) \<noteq> normalized_title L (dp_release_title (eb_plan b))
             \<or> tmdb_mismatch b c)
           (pt_error b ''AVISTAZ_CANDIDATE_BINDING_DRIFT'' ''PT_SITE_CANDIDATE_BINDING_DRIFT'')) (\<lambda>_.
         bindR (raise_if (hnr_mismatch L b c)
           (pt_error b ''AVISTAZ_HNR_BINDING_DRIFT'' ''PT_SITE_HNR_BINDING_DRIFT'')) (\<lambda>_.
         Inr c))
     | _ \<Rightarrow> Inl (pt_error b ''AVISTAZ_TORRENT_ID_NOT_UNIQUE'' ''PT_SITE_TORRENT_ID_NOT_UNIQUE''))"

definition require_torrent_candidate_consistency ::
    "lib \<Rightarrow> execution_binding_view \<Rightarrow> torrent_candidate \<Rightarrow> validated_torrent \<Rightarrow> exn + unit" where
  "require_torrent_candidate_consistency L b c m =
    bindR (raise_if (case tc_info_hash c of None \<Rightarrow> False | Some h \<Rightarrow> \<not> matches_hash L m h)
      (pt_error b ''AVISTAZ_CANDIDATE_INFO_HASH_DRIFT'' ''PT_SITE_CANDIDATE_INFO_HASH_DRIFT'')) (\<lambda>_.
    raise_if (\<not> opt_ok (\<lambda>n. n = vt_total_size_bytes m) (dp_estimated_size_bytes (eb_plan b))
        \<or> \<not> opt_ok (\<lambda>n. n = vt_total_size_bytes m) (tc_size_bytes c))
      (pt_error b ''AVISTAZ_CANDIDATE_SIZE_DRIFT'' ''PT_SITE_CANDIDATE_SIZE_DRIFT''))"

definition selected_info_hash :: "lib \<Rightarrow> plan \<Rightarrow> validated_torrent \<Rightarrow> exn + string" where
  "selected_info_hash L p m =
    (case (if falsy_str (dp_expected_info_hash p) then first_hash m else dp_expected_info_hash p) of
       None \<Rightarrow> Inl (app_err ''DOWNLOAD_EXECUTION_INFO_HASH_INVALID'' 409)
     | Some h \<Rightarrow> Inr (casefold L h))"

definition find_unique_observation :: "validated_torrent \<Rightarrow> qb_torrent list \<Rightarrow> exn + qb_torrent option" where
  "find_unique_observation m qs =
    (case filter (\<lambda>q. vt_identity_hashes m \<inter> set (qt_identity_hashes q) \<noteq> {}) qs of
       [] \<Rightarrow> Inr None
     | [q] \<Rightarrow> Inr (Some q)
     | _ \<Rightarrow> Inl (app_err ''QB_INFO_HASH_AMBIGUOUS'' 502))"

section \<open>The switches\<close>

definition missing_flags :: "settings \<Rightarrow> string list" where
  "missing_flags st = map fst (filter (\<lambda>f. \<not> snd f)
    [(''ENABLE_DOWNLOAD_EXECUTOR'', st_enable_download_executor st),
     (''ENABLE_AVISTAZ_TORRENT_FETCH'', st_enable_torrent_fetch st),
     (''ENABLE_QB_WRITE'', st_enable_qb_write st)])"

definition require_download_executor_enabled :: "settings \<Rightarrow> exn + unit" where
  "require_download_executor_enabled st =
    raise_if (missing_flags st \<noteq> [])
      (app_err_details ''DOWNLOAD_EXECUTOR_DISABLED'' 403 [(''missing_flags'', strs_json (missing_flags st))])"

definition monitor_target_missing :: exn where
  "monitor_target_missing = app_err ''DOWNLOAD_MONITOR_TARGET_NOT_CONFIGURED'' 409"

definition require_download_monitor_enabled :: "lib \<Rightarrow> settings \<Rightarrow> exn + unit" where
  "require_download_monitor_enabled L st =
    bindR (raise_if (\<not> st_enable_download_monitor st \<or> \<not> st_enable_qb_read_only st)
      (app_err ''DOWNLOAD_MONITOR_DISABLED'' 403)) (\<lambda>_.
    bindR (option_or monitor_target_missing (st_qb_target_save_path st)) (\<lambda>save_path.
    bindR (raise_if (target_value_bad save_path) monitor_target_missing) (\<lambda>_.
    raise_if (st_qb_allowed_save_paths st = []
        \<or> \<not> is_allowed_save_path L save_path (st_qb_allowed_save_paths st))
      (app_err ''DOWNLOAD_MONITOR_TARGET_NOT_ALLOWED'' 409))))"

section \<open>The monitor\<close>

definition monitored_hashes :: "job \<Rightarrow> string list" where
  "monitored_hashes j =
    filter (\<lambda>h. h \<noteq> []) (concat (map (\<lambda>h. case h of None \<Rightarrow> [] | Some s \<Rightarrow> [s])
      [dj_info_hash_v1 j, dj_info_hash_v2 j]))
    @ (case dj_info_hash_v2 j of None \<Rightarrow> [] | Some h \<Rightarrow> [take 40 h])"

definition job_observation :: "job \<Rightarrow> qb_torrent list \<Rightarrow> exn + qb_torrent option" where
  "job_observation j qs =
    (let matches = filter (\<lambda>q. set (monitored_hashes j) \<inter> set (qt_identity_hashes q) \<noteq> {}) qs in
     case matches of
       [] \<Rightarrow> Inr None
     | [q] \<Rightarrow> Inr (Some q)
     | _ \<Rightarrow> Inl (AppErr \<lparr> error_code = ''QB_INFO_HASH_AMBIGUOUS'', status_code = 502, retryable = False,
         err_details = [(''match_count'', JInt (int (length matches)))] \<rparr>))"

text \<open>The state of a monitor is its cursor, beside the store.\<close>

type_synonym cursor = "(datetime \<times> string) option"
type_synonym 'a monitoring = "(cursor \<times> db, exn, 'a) handler"

definition on_store :: "'a session \<Rightarrow> 'a monitoring" where
  "on_store m = (\<lambda>(cur, s). case transact m s of (r, t) \<Rightarrow> (r, (cur, t)))"

definition after_cursor :: "cursor \<Rightarrow> job \<Rightarrow> bool" where
  "after_cursor cur j \<longleftrightarrow>
    (case cur of
       None \<Rightarrow> True
     | Some (t, i) \<Rightarrow> as_utc t < as_utc (dj_created_at j)
         \<or> (as_utc (dj_created_at j) = as_utc t \<and> i < dj_id j))"

definition next_jobs :: "settings \<Rightarrow> cursor \<times> db \<Rightarrow> job list" where
  "next_jobs st cs =
    take (st_download_monitor_batch_size st)
      (sort_key (\<lambda>j. as_utc (dj_created_at j)) (sort_key dj_id
        (filter (after_cursor (fst cs)) (db_jobs (snd cs)))))"

record monitor_adapter =
  qm_authenticate :: "exn + unit"
  qm_find_torrents_by_hashes :: "string list \<Rightarrow> exn + qb_torrent list"

text \<open>One job of the batch: the observation, or the record of an ambiguous one, in a transaction of its own.\<close>

definition monitor_job ::
    "lib \<Rightarrow> string \<Rightarrow> string \<Rightarrow> qb_torrent list \<Rightarrow> datetime \<Rightarrow> job \<Rightarrow> unit session" where
  "monitor_job L w save_path qs now j =
    (case job_observation j qs of
       Inl (AppErr err) \<Rightarrow>
         bindH (record_download_job_monitor_error L (dj_id j)
           (if error_code_ok (error_code err) then error_code err else ''DOWNLOAD_MONITOR_INTERNAL_ERROR'')
           (text_of L (error_code err)) w (err_details err)) (\<lambda>_. returnH ())
     | Inl e \<Rightarrow> raiseH e
     | Inr observed \<Rightarrow>
         bindH (update_download_job_observation L (dj_id j) observed save_path w now) (\<lambda>_. returnH ()))"

fun monitor_each ::
    "lib \<Rightarrow> string \<Rightarrow> string \<Rightarrow> qb_torrent list \<Rightarrow> (string \<Rightarrow> datetime) \<Rightarrow> job list \<Rightarrow> unit monitoring" where
  "monitor_each L w save_path qs clock [] = returnH ()"
| "monitor_each L w save_path qs clock (j # js) =
    bindH (on_store (monitor_job L w save_path qs (clock (dj_id j)) j)) (\<lambda>_.
    monitor_each L w save_path qs clock js)"

definition job_batch :: "settings \<Rightarrow> job list monitoring" where
  "job_batch st =
    bindH (getH (next_jobs st)) (\<lambda>js.
    if js \<noteq> [] then returnH js
    else bindH (modifyH (\<lambda>cs. (None, snd cs))) (\<lambda>_. getH (next_jobs st)))"

definition batch_hashes :: "job list \<Rightarrow> string list" where
  "batch_hashes js = sort (dedup (concat (map monitored_hashes js)))"

definition monitor_run_once ::
    "lib \<Rightarrow> settings \<Rightarrow> string \<Rightarrow> monitor_adapter \<Rightarrow> (string \<Rightarrow> datetime) \<Rightarrow> nat monitoring" where
  "monitor_run_once L st w A clock =
    bindH (liftH (require_download_monitor_enabled L st)) (\<lambda>_.
    bindH (liftH (option_or monitor_target_missing (st_qb_target_save_path st))) (\<lambda>save_path.
    bindH (job_batch st) (\<lambda>js.
    if js = [] then returnH 0
    else
      bindH (liftH (qm_authenticate A)) (\<lambda>_.
      bindH (liftH (if batch_hashes js = [] then Inr [] else qm_find_torrents_by_hashes A (batch_hashes js))) (\<lambda>qs.
      bindH (monitor_each L w save_path qs clock js) (\<lambda>_.
      bindH (modifyH (\<lambda>cs. (Some (dj_created_at (last js), dj_id (last js)), snd cs))) (\<lambda>_.
      returnH (length js))))))))"

end
