(* ===== verification/Lawful.thy ===== *)
theory Lawful
  imports DownloadExecutor ApprovalLaws AutomationLaws
begin

text \<open>
  What every handler of the core keeps of the store: the constraints and unique indexes of the
  database (\<open>integrity\<close>), the append-only tables, the immutable columns, and the direction in which
  approvals, intents and executions move. Together they are one preorder, \<open>lawful\<close>; its rules for the
  writes are proved here and each handler inherits it.
\<close>

section \<open>Rules for stores\<close>

context store_preorder
begin

lemma keeps_transact: "keeps R s m \<Longrightarrow> keeps R s (transact m)"
  by (cases "m s"; cases "fst (m s)") (auto simp: keeps_def transact_def refl_R)

lemma keeps_if: "(c \<Longrightarrow> keeps R s m) \<Longrightarrow> (\<not> c \<Longrightarrow> keeps R s n) \<Longrightarrow> keeps R s (if c then m else n)"
  by simp

lemma keeps_case_option:
  "(x = None \<Longrightarrow> keeps R s m) \<Longrightarrow> (\<And>y. x = Some y \<Longrightarrow> keeps R s (n y)) \<Longrightarrow>
    keeps R s (case x of None \<Rightarrow> m | Some y \<Rightarrow> n y)"
  by (cases x) simp_all

text \<open>A step that leaves a part of the store as it was: what was read of it still holds.\<close>

lemma keeps_leaves_bind:
  assumes "keeps R s m" and "evolves (\<lambda>s t. F t = F s) m"
    and "\<And>x t. m s = (Inr x, t) \<Longrightarrow> F t = F s \<Longrightarrow> keeps R t (f x)"
  shows "keeps R s (bindH m f)"
proof (rule keeps_bind [OF assms(1)])
  fix x t assume run: "m s = (Inr x, t)"
  have "F t = F s" by (rule evolvesD [OF assms(2) run])
  with run show "keeps R t (f x)" by (rule assms(3))
qed

end

interpretation leaves: store_preorder "\<lambda>s t. F t = F s" for F :: "'s \<Rightarrow> 'a"
  by unfold_locales simp_all

definition reads :: "('s, 'e, 'a) handler \<Rightarrow> bool" where
  "reads m \<longleftrightarrow> evolves (\<lambda>s t. t = s) m"

context store_preorder
begin

lemma keeps_reads_bind:
  assumes "reads m" and "\<And>x. m s = (Inr x, s) \<Longrightarrow> keeps R s (f x)"
  shows "keeps R s (bindH m f)"
proof (cases "m s")
  case (Pair r t)
  have "t = s" by (rule evolvesD [OF assms(1) [unfolded reads_def] Pair])
  with Pair assms(2) show ?thesis
    by (cases r) (simp_all add: keeps_def bindH_def refl_R)
qed

lemma evolves_reads: "reads m \<Longrightarrow> evolves R m"
  by (auto simp: reads_def evolves_def refl_R)

lemma keeps_reads: "reads m \<Longrightarrow> keeps R s m"
  by (rule evolves_keeps [OF evolves_reads])

end

section \<open>The direction of intents and executions\<close>

definition intent_moves :: "intent \<Rightarrow> intent \<Rightarrow> bool" where
  "intent_moves i j \<longleftrightarrow> ei_status i = EI_ACTIVE \<or> j = i"

text \<open>
  The statuses an execution can still reach from a status, itself included. Only the fence of the
  worker cancels an execution that is submitting, before the torrent is sent; the strict relation
  leaves that out.
\<close>

definition execution_reach :: "bool \<Rightarrow> execution_status \<Rightarrow> execution_status list" where
  "execution_reach strict st =
    (let reconciling = [DE_OUTCOME_UNKNOWN, DE_RECONCILIATION_REQUIRED, DE_RECONCILIATION_PENDING];
         submitting = [DE_SUBMITTING, DE_SUBMITTED, DE_ALREADY_PRESENT] @ reconciling
           @ (if strict then [] else [DE_CANCELLED]);
         open = [DE_VALIDATING, DE_RETRY_WAIT, DE_FAILED, DE_CANCELLED] @ submitting in
     case st of
       DE_PENDING \<Rightarrow> DE_PENDING # open
     | DE_RETRY_WAIT \<Rightarrow> open
     | DE_VALIDATING \<Rightarrow> open
     | DE_SUBMITTING \<Rightarrow> submitting
     | DE_OUTCOME_UNKNOWN \<Rightarrow> reconciling
     | DE_RECONCILIATION_REQUIRED \<Rightarrow> [DE_RECONCILIATION_REQUIRED, DE_RECONCILIATION_PENDING]
     | _ \<Rightarrow> [st])"

lemma execution_reach_refl [simp]: "st \<in> set (execution_reach strict st)"
  by (cases st) (simp_all add: execution_reach_def)

lemma execution_reach_trans:
  "b \<in> set (execution_reach strict a) \<Longrightarrow> c \<in> set (execution_reach strict b) \<Longrightarrow> c \<in> set (execution_reach strict a)"
  by (cases a; cases b) (auto simp: execution_reach_def split: if_splits)

definition retryable_again :: "execution \<Rightarrow> bool" where
  "retryable_again e \<longleftrightarrow> de_status e \<in> {DE_PENDING, DE_RETRY_WAIT, DE_VALIDATING}"

text \<open>Statuses move forward, attempts are only counted up, and only while a claim is still possible.\<close>

definition execution_moves :: "bool \<Rightarrow> execution \<Rightarrow> execution \<Rightarrow> bool" where
  "execution_moves strict d e \<longleftrightarrow> de_status e \<in> set (execution_reach strict (de_status d))
    \<and> de_max_attempts e = de_max_attempts d \<and> de_attempts d \<le> de_attempts e
    \<and> (retryable_again d \<or> de_attempts e = de_attempts d)"

lemma execution_moves_refl [simp]: "execution_moves strict d d"
  by (simp add: execution_moves_def)

lemma execution_moves_trans: "execution_moves strict c d \<Longrightarrow> execution_moves strict d e \<Longrightarrow> execution_moves strict c e"
proof -
  assume c: "execution_moves strict c d" and d: "execution_moves strict d e"
  then have "de_status e \<in> set (execution_reach strict (de_status c))"
    unfolding execution_moves_def by (blast intro: execution_reach_trans)
  moreover have "retryable_again d \<Longrightarrow> retryable_again c"
    using c by (cases "de_status c") (auto simp: execution_moves_def retryable_again_def execution_reach_def split: if_splits)
  ultimately show ?thesis using c d by (auto simp: execution_moves_def)
qed

lemma intent_moves_refl [simp]: "intent_moves i i"
  by (simp add: intent_moves_def)

lemma intent_moves_trans: "intent_moves i j \<Longrightarrow> intent_moves j k \<Longrightarrow> intent_moves i k"
  by (auto simp: intent_moves_def)

definition life :: "bool \<Rightarrow> db \<Rightarrow> db \<Rightarrow> bool" where
  "life strict s t \<longleftrightarrow> lifecycle s t
    \<and> rows_kept ei_id intent_moves (db_intents s) (db_intents t)
    \<and> rows_kept de_id (execution_moves strict) (db_executions s) (db_executions t)"

interpretation life: store_preorder "life strict" for strict
proof
  show "life strict s s" for s
    by (simp add: life_def lifecycle.refl_R rows_kept_refl)
  show "life strict s t \<Longrightarrow> life strict t u \<Longrightarrow> life strict s u" for s t u
    unfolding life_def
    by (blast intro: lifecycle.trans_R rows_kept_trans intent_moves_trans execution_moves_trans)
qed

section \<open>Integrity\<close>

definition approvals_ok :: "approval list \<Rightarrow> bool" where
  "approvals_ok rows \<longleftrightarrow> distinct (map ar_id rows)"

definition plans_ok :: "plan list \<Rightarrow> bool" where
  "plans_ok rows \<longleftrightarrow> distinct (map dp_id rows) \<and> distinct (map dp_approval_id rows)"

definition intents_ok :: "intent list \<Rightarrow> bool" where
  "intents_ok rows \<longleftrightarrow> distinct (map ei_id rows) \<and> distinct (map ei_nonce_sha256 rows) \<and> list_all intent_check rows"

definition executions_ok :: "execution list \<Rightarrow> bool" where
  "executions_ok rows \<longleftrightarrow> distinct (map de_id rows) \<and> distinct (map de_approval_id rows)
    \<and> distinct (map de_intent_id rows) \<and> distinct (map de_idempotency_key_sha256 rows)
    \<and> list_all execution_check rows"

definition jobs_ok :: "lib \<Rightarrow> job list \<Rightarrow> bool" where
  "jobs_ok L rows \<longleftrightarrow> distinct (map dj_id rows) \<and> distinct (map dj_execution_id rows) \<and> list_all (job_check L) rows"

definition integrity :: "lib \<Rightarrow> db \<Rightarrow> bool" where
  "integrity L s \<longleftrightarrow> approvals_ok (db_approvals s) \<and> plans_ok (db_plans s) \<and> intents_ok (db_intents s)
    \<and> executions_ok (db_executions s) \<and> jobs_ok L (db_jobs s)"

lemma map_row_put:
  assumes "distinct (map key rows)" and "row_get key (key r) rows = Some old" and "f r = f old"
  shows "map f (row_put key r rows) = map f rows"
proof -
  have "f (if key x = key r then r else x) = f x" if "x \<in> set rows" for x
    using row_get_member [OF assms(1) that] assms(2,3) by auto
  then show ?thesis by (simp add: row_put_def)
qed

lemma row_put_absent: "row_get key (key r) rows = None \<Longrightarrow> row_put key r rows = rows"
  unfolding row_put_def row_get_def by (rule map_idI) (auto simp: find_None_iff)

lemma list_all_row_put: "list_all P rows \<Longrightarrow> P r \<Longrightarrow> list_all P (row_put key r rows)"
  by (auto simp: row_put_def list_all_iff)

lemma list_all_row_add [simp]: "list_all P (row_add r rows) \<longleftrightarrow> list_all P rows \<and> P r"
  by (auto simp: row_add_def)

lemma map_row_add [simp]: "map f (row_add r rows) = map f rows @ [f r]"
  by (simp add: row_add_def)

lemma intents_ok_put:
  assumes "intents_ok rows" and "row_get ei_id (ei_id j) rows = Some i" and "intent_update_ok i j" and "intent_check j"
  shows "intents_ok (row_put ei_id j rows)"
proof -
  have "map ei_nonce_sha256 (row_put ei_id j rows) = map ei_nonce_sha256 rows"
    using assms(1,3) by (intro map_row_put [OF _ assms(2)]) (simp_all add: intents_ok_def intent_update_ok_def)
  then show ?thesis using assms by (simp add: intents_ok_def list_all_row_put)
qed

lemma executions_ok_put:
  assumes "executions_ok rows" and "row_get de_id (de_id e) rows = Some d" and "execution_update_ok d e"
    and "execution_check e"
  shows "executions_ok (row_put de_id e rows)"
proof -
  have "f e = f d \<Longrightarrow> map f (row_put de_id e rows) = map f rows" for f :: "execution \<Rightarrow> string"
    using assms(1) by (intro map_row_put [OF _ assms(2)]) (simp_all add: executions_ok_def)
  then have "map de_approval_id (row_put de_id e rows) = map de_approval_id rows"
    "map de_intent_id (row_put de_id e rows) = map de_intent_id rows"
    "map de_idempotency_key_sha256 (row_put de_id e rows) = map de_idempotency_key_sha256 rows"
    using assms(3) by (simp_all add: execution_update_ok_def execution_identity_ok_def)
  then show ?thesis using assms by (simp add: executions_ok_def list_all_row_put)
qed

lemma jobs_ok_put:
  assumes "jobs_ok L rows" and "row_get dj_id (dj_id j) rows = Some i" and "job_update_ok i j" and "job_check L j"
  shows "jobs_ok L (row_put dj_id j rows)"
proof -
  have "map dj_execution_id (row_put dj_id j rows) = map dj_execution_id rows"
    using assms(1,3) by (intro map_row_put [OF _ assms(2)]) (simp_all add: jobs_ok_def job_update_ok_def)
  then show ?thesis using assms by (simp add: jobs_ok_def list_all_row_put)
qed

section \<open>The preorder\<close>

definition lawful :: "bool \<Rightarrow> lib \<Rightarrow> db \<Rightarrow> db \<Rightarrow> bool" where
  "lawful strict L s t \<longleftrightarrow>
    (integrity L s \<longrightarrow> integrity L t \<and> audit_grows s t \<and> guards_respected s t \<and> life strict s t)"

interpretation lawful: store_preorder "lawful strict L" for strict L
proof
  show "lawful strict L s s" for s
    by (simp add: lawful_def audit.refl_R guards.refl_R life.refl_R)
  show "lawful strict L s t \<Longrightarrow> lawful strict L t u \<Longrightarrow> lawful strict L s u" for s t u
    unfolding lawful_def by (blast intro: audit.trans_R guards.trans_R life.trans_R)
qed

text \<open>Audit growth and the guards hold for any store, so only integrity and life are left to show.\<close>

lemma keeps_lawful:
  assumes "evolves audit_grows m" and "evolves guards_respected m"
    and "integrity L s \<Longrightarrow> integrity L (snd (m s)) \<and> life strict s (snd (m s))"
  shows "keeps (lawful strict L) s m"
  using assms by (simp add: keeps_def lawful_def evolves_def)

text \<open>The tables that the constraints and the directions speak about.\<close>

definition rows_of :: "db \<Rightarrow> approval list \<times> plan list \<times> intent list \<times> execution list \<times> job list" where
  "rows_of s = (db_approvals s, db_plans s, db_intents s, db_executions s, db_jobs s)"

lemma integrity_rows: "rows_of t = rows_of s \<Longrightarrow> integrity L t = integrity L s"
  by (simp add: rows_of_def integrity_def)

lemma life_rows: "rows_of t = rows_of s \<Longrightarrow> life strict s t"
  by (simp add: rows_of_def life_def lifecycle_unchanged rows_kept_refl)

lemma evolves_lawful_rows:
  assumes "evolves audit_grows m" and "evolves guards_respected m" and "evolves (\<lambda>s t. rows_of t = rows_of s) m"
  shows "evolves (lawful strict L) m"
proof (rule keeps_evolves)
  fix s
  have same: "rows_of (snd (m s)) = rows_of s"
    by (rule evolvesD [OF assms(3), of s "fst (m s)"]) simp
  show "keeps (lawful strict L) s m"
  proof (rule keeps_lawful [OF assms(1,2)])
    assume "integrity L s"
    with integrity_rows [OF same] life_rows [OF same]
    show "integrity L (snd (m s)) \<and> life strict s (snd (m s))" by blast
  qed
qed

section \<open>Writes\<close>

lemma rows_modify:
  "(\<And>s. rows_of (f s) = rows_of s) \<Longrightarrow> evolves (\<lambda>s t. rows_of t = rows_of s) (modifyH f)"
  by (simp add: evolves_def modifyH_def)

lemma event_writes_rows:
  "evolves (\<lambda>s t. rows_of t = rows_of s) (insert_approval_event e)"
  "evolves (\<lambda>s t. rows_of t = rows_of s) (insert_execution_event f)"
  "evolves (\<lambda>s t. rows_of t = rows_of s) (insert_job_event g)"
  unfolding insert_approval_event_def insert_execution_event_def insert_job_event_def
  by (rule rows_modify; simp add: rows_of_def)+

lemma policy_writes_audit:
  "evolves audit_grows (insert_revision r)" "evolves audit_grows (insert_head h)"
  "evolves audit_grows (save_head h h')" "evolves audit_grows (insert_decision d)"
  unfolding insert_revision_def insert_head_def save_head_def insert_decision_def
  by (intro audit.evolves_bind audit.evolves_get audit.evolves_raise_if audit.evolves_lift audit.evolves_modify;
      simp add: audit_grows_def; simp add: row_add_def)+

lemma policy_writes_guards:
  "evolves guards_respected (insert_revision r)" "evolves guards_respected (insert_head h)"
  "evolves guards_respected (save_head h h')" "evolves guards_respected (insert_decision d)"
  unfolding insert_revision_def insert_head_def save_head_def insert_decision_def
  by (intro guards.evolves_bind guards.evolves_get guards.evolves_raise_if guards.evolves_lift guards.evolves_modify
      guards_unchanged; simp)+

lemma policy_writes_rows:
  "evolves (\<lambda>s t. rows_of t = rows_of s) (insert_revision r)"
  "evolves (\<lambda>s t. rows_of t = rows_of s) (insert_head h)"
  "evolves (\<lambda>s t. rows_of t = rows_of s) (save_head h h')"
  "evolves (\<lambda>s t. rows_of t = rows_of s) (insert_decision d)"
  unfolding insert_revision_def insert_head_def save_head_def insert_decision_def
  by (intro leaves.evolves_bind leaves.evolves_get leaves.evolves_raise_if leaves.evolves_lift rows_modify;
      simp add: rows_of_def)+

lemma lawful_log_writes [evolves_intros]:
  "evolves (lawful strict L) (insert_approval_event e)" "evolves (lawful strict L) (insert_execution_event f)"
  "evolves (lawful strict L) (insert_job_event g)" "evolves (lawful strict L) (insert_revision r)"
  "evolves (lawful strict L) (insert_head h)" "evolves (lawful strict L) (save_head h h')"
  "evolves (lawful strict L) (insert_decision d)"
  by (intro evolves_lawful_rows audit_writes guards_writes event_writes_rows policy_writes_audit
      policy_writes_guards policy_writes_rows)+

text \<open>A write under a guard: either it raises and leaves the store, or it updates it.\<close>

lemma snd_guarded_insert:
  "snd (bindH (getH g) (\<lambda>rows. bindH (raise_ifH (b rows) e) (\<lambda>_. modifyH f)) s)
    = (if b (g s) then s else f s)"
  by (simp add: handler_defs)

lemma snd_guarded_put:
  "snd (bindH (getH g) (\<lambda>old. bindH (guarded ok old r) (\<lambda>_. bindH (raise_ifH b e) (\<lambda>_. modifyH f))) s)
    = (if (case g s of None \<Rightarrow> False | Some x \<Rightarrow> \<not> ok x r) \<or> b then s else f s)"
  by (simp add: handler_defs guarded_def)

lemma rows_kept_same: "rows_kept ei_id intent_moves rows rows" "rows_kept de_id (execution_moves strict) rs rs"
  by (simp_all add: rows_kept_refl)

lemma lawful_inserts [evolves_intros]:
  "evolves (lawful strict L) (insert_approval a)" "evolves (lawful strict L) (insert_plan p)"
  "evolves (lawful strict L) (insert_intent i)" "evolves (lawful strict L) (insert_execution e)"
  "evolves (lawful strict L) (insert_job L j)"
proof -
  show "evolves (lawful strict L) (insert_approval a)"
    by (rule keeps_evolves, intro keeps_lawful audit_writes guards_writes)
      (auto simp: insert_approval_def snd_guarded_insert integrity_def approvals_ok_def life_def lifecycle_add
        rows_kept_same lifecycle.refl_R)
  show "evolves (lawful strict L) (insert_plan p)"
    by (rule keeps_evolves, intro keeps_lawful audit_writes guards_writes)
      (auto simp: insert_plan_def snd_guarded_insert integrity_def plans_ok_def life_def lifecycle_unchanged
        rows_kept_same)
  show "evolves (lawful strict L) (insert_intent i)"
    by (rule keeps_evolves, intro keeps_lawful audit_writes guards_writes)
      (auto simp: insert_intent_def snd_guarded_insert integrity_def intents_ok_def life_def lifecycle_unchanged
        rows_kept_same rows_kept_add)
  show "evolves (lawful strict L) (insert_execution e)"
    by (rule keeps_evolves, intro keeps_lawful audit_writes guards_writes)
      (auto simp: insert_execution_def snd_guarded_insert integrity_def executions_ok_def life_def
        lifecycle_unchanged rows_kept_same rows_kept_add)
  show "evolves (lawful strict L) (insert_job L j)"
    by (rule keeps_evolves, intro keeps_lawful audit_writes guards_writes)
      (auto simp: insert_job_def snd_guarded_insert integrity_def jobs_ok_def life_def lifecycle_unchanged
        rows_kept_same)
qed

lemma lawful_save_job [evolves_intros]: "evolves (lawful strict L) (save_job L j)"
proof (rule keeps_evolves, rule keeps_lawful [OF audit_writes(10) guards_saves(3)])
  fix s assume ok: "integrity L s"
  show "integrity L (snd (save_job L j s)) \<and> life strict s (snd (save_job L j s))"
  proof (cases "row_get dj_id (dj_id j) (db_jobs s)")
    case None
    then show ?thesis using ok
      by (simp add: save_job_def snd_guarded_put row_put_absent life.refl_R)
  next
    case (Some i)
    with ok show ?thesis
      by (auto simp: save_job_def snd_guarded_put integrity_def jobs_ok_put life_def lifecycle_unchanged
          rows_kept_same lifecycle.refl_R)
  qed
qed

lemma keeps_save_approval [evolves_intros]:
  assumes "current s a" and "same_approval a b" and "ar_status b \<in> set (approval_reach (ar_status a))"
  shows "keeps (lawful strict L) s (save_approval b)"
proof (intro keeps_lawful audit_writes guards_writes)
  assume ok: "integrity L s"
  have "life strict s (s\<lparr> db_approvals := row_put ar_id b (db_approvals s) \<rparr>)"
    using lifecycle_put [OF assms] by (simp add: life_def rows_kept_same)
  with ok show "integrity L (snd (save_approval b s)) \<and> life strict s (snd (save_approval b s))"
    by (simp add: save_approval_def modifyH_def integrity_def approvals_ok_def)
qed

lemma keeps_save_intent:
  assumes "row_get ei_id (ei_id j) (db_intents s) = Some i" and "intent_moves i j"
  shows "keeps (lawful strict L) s (save_intent j)"
proof (intro keeps_lawful audit_writes guards_saves)
  assume ok: "integrity L s"
  have "rows_kept ei_id intent_moves (db_intents s) (row_put ei_id j (db_intents s))"
    using assms by (intro rows_kept_put) simp_all
  then show "integrity L (snd (save_intent j s)) \<and> life strict s (snd (save_intent j s))"
    using ok assms(1)
    by (auto simp: save_intent_def snd_guarded_put integrity_def intents_ok_put life_def lifecycle_unchanged
        rows_kept_same lifecycle.refl_R)
qed

lemma keeps_save_execution:
  assumes "row_get de_id (de_id e) (db_executions s) = Some d" and "execution_moves strict d e"
  shows "keeps (lawful strict L) s (save_execution e)"
proof (intro keeps_lawful audit_writes guards_saves)
  assume ok: "integrity L s"
  have "rows_kept de_id (execution_moves strict) (db_executions s) (row_put de_id e (db_executions s))"
    using assms by (intro rows_kept_put) simp_all
  then show "integrity L (snd (save_execution e s)) \<and> life strict s (snd (save_execution e s))"
    using ok assms(1)
    by (auto simp: save_execution_def snd_guarded_put integrity_def executions_ok_put life_def
        lifecycle_unchanged rows_kept_same lifecycle.refl_R)
qed

text \<open>Which tables a write leaves alone.\<close>

lemma leaves_modify: "(\<And>s. F (f s) = F s) \<Longrightarrow> evolves (\<lambda>s t. F t = F s) (modifyH f)"
  by (simp add: evolves_def modifyH_def)

lemma writes_leave_executions [evolves_intros]:
  "evolves (\<lambda>s t. db_executions t = db_executions s) (save_approval a)"
  "evolves (\<lambda>s t. db_executions t = db_executions s) (insert_approval a)"
  "evolves (\<lambda>s t. db_executions t = db_executions s) (insert_approval_event e)"
  "evolves (\<lambda>s t. db_executions t = db_executions s) (insert_plan p)"
  "evolves (\<lambda>s t. db_executions t = db_executions s) (save_intent i)"
  "evolves (\<lambda>s t. db_executions t = db_executions s) (insert_intent i)"
  "evolves (\<lambda>s t. db_executions t = db_executions s) (insert_execution_event f)"
  "evolves (\<lambda>s t. db_executions t = db_executions s) (save_job L j)"
  "evolves (\<lambda>s t. db_executions t = db_executions s) (insert_job L j)"
  "evolves (\<lambda>s t. db_executions t = db_executions s) (insert_job_event g)"
  unfolding write_defs
  by (intro leaves.evolves_bind leaves.evolves_get leaves.evolves_raise_if leaves_modify; simp)+

lemma writes_leave_approvals [evolves_intros]:
  "evolves (\<lambda>s t. db_approvals t = db_approvals s) (insert_approval_event e)"
  "evolves (\<lambda>s t. db_approvals t = db_approvals s) (insert_plan p)"
  "evolves (\<lambda>s t. db_approvals t = db_approvals s) (save_intent i)"
  "evolves (\<lambda>s t. db_approvals t = db_approvals s) (insert_intent i)"
  "evolves (\<lambda>s t. db_approvals t = db_approvals s) (save_execution x)"
  "evolves (\<lambda>s t. db_approvals t = db_approvals s) (insert_execution x)"
  "evolves (\<lambda>s t. db_approvals t = db_approvals s) (insert_execution_event f)"
  "evolves (\<lambda>s t. db_approvals t = db_approvals s) (save_job L j)"
  "evolves (\<lambda>s t. db_approvals t = db_approvals s) (insert_job L j)"
  "evolves (\<lambda>s t. db_approvals t = db_approvals s) (insert_job_event g)"
  unfolding write_defs
  by (intro leaves.evolves_bind leaves.evolves_get leaves.evolves_raise_if leaves_modify; simp)+

end
