(* ===== verification/HandlerLaws.thy ===== *)
theory HandlerLaws
  imports Lawful
begin

text \<open>
  Every handler of the approval service, the policy service, the execution service and the
  worker respects \<open>lawful\<close>. A handler that is given a row relies on its being the stored one; the
  others read the rows they change.
\<close>

section \<open>The approval service\<close>

text \<open>Its writes touch no intent, execution or job and keep the keys of approvals and plans unique.\<close>

definition approval_side :: "db \<Rightarrow> db \<Rightarrow> bool" where
  "approval_side s t \<longleftrightarrow> (approvals_ok (db_approvals s) \<longrightarrow> approvals_ok (db_approvals t))
    \<and> (plans_ok (db_plans s) \<longrightarrow> plans_ok (db_plans t))
    \<and> db_intents t = db_intents s \<and> db_executions t = db_executions s \<and> db_jobs t = db_jobs s"

interpretation side: store_preorder approval_side
  by unfold_locales (simp_all add: approval_side_def)

lemma side_writes [evolves_intros]:
  "evolves approval_side (save_approval a)" "evolves approval_side (insert_approval a)"
  "evolves approval_side (insert_approval_event e)" "evolves approval_side (insert_plan p)"
proof -
  show "evolves approval_side (save_approval a)"
    unfolding save_approval_def by (rule side.evolves_modify) (simp add: approval_side_def approvals_ok_def)
  show "evolves approval_side (insert_approval_event e)"
    unfolding insert_approval_event_def by (rule side.evolves_modify) (simp add: approval_side_def)
  show "evolves approval_side (insert_approval a)"
    by (rule keeps_evolves)
      (auto simp: insert_approval_def keeps_def snd_guarded_insert approval_side_def approvals_ok_def)
  show "evolves approval_side (insert_plan p)"
    by (rule keeps_evolves) (auto simp: insert_plan_def keeps_def snd_guarded_insert approval_side_def plans_ok_def)
qed

lemma side_handlers [evolves_intros]:
  "evolves approval_side (add_event L a ty fs ts actor reason details)"
  "evolves approval_side (transition L a ts actor ty reason now details)"
  "evolves approval_side (expire L a now)"
  "evolves approval_side (stage_expiration_if_needed L a now)"
  "evolves approval_side (reject_expired L a now)"
  "evolves approval_side (require_pending_approval L a now)"
  unfolding add_event_def transition_def expire_def stage_expiration_if_needed_def reject_expired_def
    require_pending_approval_def expire_or_require_pending_def Let_def
  by (intro side.evolves_rules side_writes)+

lemma side_service [evolves_intros]:
  "evolves approval_side (create_approval_request L c ttl st actor now nid)"
  "evolves approval_side (save_preflight_result L a r actor now)"
  "evolves approval_side (approve_request L a req st actor now nid)"
  "evolves approval_side (approve_request_automatically L a st actor rv dc now now2 nid)"
  "evolves approval_side (reject_request L a reason actor now)"
  "evolves approval_side (revoke_request L a reason actor now)"
  "evolves approval_side (consume_approval L k actor now)"
  unfolding create_approval_request_def clear_active_for_candidate_def save_preflight_result_def
    approve_request_def approve_request_automatically_def reject_request_def revoke_request_def
    consume_approval_def Let_def
  by (intro side.evolves_rules side_writes side_handlers)+

lemma keeps_lawful_side:
  assumes "evolves audit_grows m" and "evolves approval_side m" and "keeps lifecycle s m"
  shows "keeps (lawful strict L) s m"
proof -
  have side: "approval_side s (snd (m s))" using assms(2) by (simp add: evolves_def)
  then have "guards_respected s (snd (m s))" by (simp add: approval_side_def guards_unchanged)
  moreover from side have "integrity L s \<Longrightarrow> integrity L (snd (m s))" by (simp add: approval_side_def integrity_def)
  moreover from side assms(3) have "life strict s (snd (m s))"
    by (simp add: approval_side_def life_def keeps_def rows_kept_same)
  ultimately show ?thesis using assms(1) by (simp add: keeps_def lawful_def evolves_def)
qed

lemma lawful_approvals:
  assumes "current s a"
  shows "keeps (lawful strict L) s (save_preflight_result L a r actor now)"
    "keeps (lawful strict L) s (approve_request L a req st actor now nid)"
    "keeps (lawful strict L) s (approve_request_automatically L a st actor rv dc now now2 nid)"
    "keeps (lawful strict L) s (reject_request L a reason actor now)"
    "keeps (lawful strict L) s (revoke_request L a reason actor now)"
  by (rule keeps_lawful_side [OF audit_save_preflight side_service(2) keeps_save_preflight [OF assms]]
      keeps_lawful_side [OF audit_approve side_service(3) keeps_approve [OF assms]]
      keeps_lawful_side [OF audit_approve_auto side_service(4) keeps_approve_auto [OF assms]]
      keeps_lawful_side [OF audit_reject side_service(5) keeps_reject [OF assms]]
      keeps_lawful_side [OF audit_revoke side_service(6) keeps_revoke [OF assms]])+

lemma lawful_consume [evolves_intros]: "evolves (lawful strict L) (consume_approval L k actor now)"
  by (rule keeps_evolves) (rule keeps_lawful_side [OF audit_consume side_service(7) evolves_keeps [OF evolves_consume]])

lemma lawful_create [evolves_intros]: "evolves (lawful strict L) (create_approval_request L c ttl st actor now nid)"
proof (rule keeps_evolves)
  fix s
  show "keeps (lawful strict L) s (create_approval_request L c ttl st actor now nid)"
  proof (cases "approvals_ok (db_approvals s)")
    case True
    then show ?thesis
      by (intro keeps_lawful_side audit_create side_service keeps_create) (simp add: approvals_ok_def)
  next
    case False
    then show ?thesis by (simp add: keeps_def lawful_def integrity_def)
  qed
qed

section \<open>The policy service\<close>

lemma lawful_current_policy [evolves_intros]: "evolves (lawful strict L) (get_current_policy K now nid)"
  unfolding get_current_policy_def policy_at_head_def create_default_policy_def
  by (intro lawful.evolves_rules lawful.evolves_catch lawful_log_writes)
    (auto split: exn.splits intro!: lawful.evolves_rules)

lemma lawful_publish [evolves_intros]: "evolves (lawful strict L) (publish_policy_revision K q actor n1 i1 n2 i2)"
  unfolding publish_policy_revision_def Let_def
  by (intro lawful.evolves_rules lawful_current_policy lawful_log_writes)

lemma lawful_add_decision [evolves_intros]: "evolves (lawful strict L) (add_decision_once d)"
  unfolding add_decision_once_def
  by (intro lawful.evolves_rules lawful.evolves_catch lawful_log_writes)
    (auto split: exn.splits option.splits intro!: lawful.evolves_rules)

lemma current_policy_leaves_executions:
  "evolves (\<lambda>s t. db_executions t = db_executions s) (get_current_policy K now nid)"
  "evolves (\<lambda>s t. db_approvals t = db_approvals s) (get_current_policy K now nid)"
proof -
  have rows: "evolves (\<lambda>s t. rows_of t = rows_of s) (get_current_policy K now nid)"
    unfolding get_current_policy_def policy_at_head_def create_default_policy_def
    by (intro leaves.evolves_rules leaves.evolves_catch policy_writes_rows)
      (auto split: exn.splits intro!: leaves.evolves_rules)
  show "evolves (\<lambda>s t. db_executions t = db_executions s) (get_current_policy K now nid)"
    "evolves (\<lambda>s t. db_approvals t = db_approvals s) (get_current_policy K now nid)"
    using rows by (simp_all add: evolves_def rows_of_def)
qed

section \<open>The execution service\<close>

lemma reads_verified: "reads (verifiedH L e)"
  by (simp add: reads_def evolves_def verifiedH_def)

lemma reads_handlers:
  "reads (get_locked_approval L k)" "reads (get_verified_plan L a)" "reads (get_download_execution L k)"
  "reads (require_same_idempotent_request L e k i h)" "reads (recover_idempotent_execution L k i n key)"
  "reads (find_idempotent_candidate_execution L c key lm)" "reads (get_execution_for_approval L k)"
  using reads_verified
  unfolding reads_def get_locked_approval_def get_verified_plan_def get_download_execution_def
    require_same_idempotent_request_def recover_idempotent_execution_def find_idempotent_candidate_execution_def
    get_execution_for_approval_def
  by (intro leaves.evolves_rules; simp)+

text \<open>What the readers return.\<close>

lemma verify_download_execution_same: "verify_download_execution L s e = Inr x \<Longrightarrow> x = e"
  by (auto simp: verify_download_execution_def bindR_Inr_iff split: option.splits)

lemma get_download_execution_run:
  assumes "get_download_execution L k s = (Inr e, t)"
  shows "t = s \<and> row_get de_id k (db_executions s) = Some e \<and> verify_download_execution L s e = Inr e \<and> de_id e = k"
proof -
  have "row_get de_id k (db_executions s) = Some e \<and> verify_download_execution L s e = Inr e \<and> t = s"
    using assms by (auto simp: get_download_execution_def handler_simps verifiedH_def option_or_Inr_iff
        dest: verify_download_execution_same)
  then show ?thesis by (auto dest: row_get_Some_key)
qed

lemma get_locked_approval_run:
  "get_locked_approval L k s = (Inr a, t) \<Longrightarrow> t = s \<and> row_get ar_id k (db_approvals s) = Some a
    \<and> current s a \<and> ar_id a = k \<and> (\<exists>sn. verify_snapshot L a = Inr sn)"
  by (auto simp: get_locked_approval_def handler_simps approval_by_id_def option_or_Inr_iff
      dest: row_get_Some_key current_get)

lemma lawful_events [evolves_intros]:
  "evolves (lawful strict K) (add_approval_event L a ty actor details fs)"
  "evolves (lawful strict K) (add_execution_event L e ty actor fs' ts details)"
  "evolves (lawful strict K) (add_job_event L j ty actor fs'' ts'' details)"
  "evolves (lawful strict K) (add_worker_event L w e ty from tos details)"
  unfolding add_approval_event_def add_execution_event_def add_job_event_def add_worker_event_def
  by (rule lawful_log_writes)+

lemma events_leave:
  "evolves (\<lambda>s t. rows_of t = rows_of s) (add_approval_event L a ty actor details fs)"
  "evolves (\<lambda>s t. rows_of t = rows_of s) (add_execution_event L e ty actor fs' ts details)"
  unfolding add_approval_event_def add_execution_event_def by (rule event_writes_rows)+

lemma keeps_stage_expiry:
  assumes "current s a" and "ar_status a = AP_APPROVED"
  shows "keeps (lawful strict K) s (stage_approval_expiry L a now)"
  unfolding stage_approval_expiry_def Let_def
  by (rule lawful.keeps_step_bind [OF keeps_save_approval [OF assms(1)]])
    (auto simp: same_approval_def assms(2) approval_reach_def intro!: lawful.evolves_rules lawful_events)

lemma keeps_require_approved:
  assumes "current s a"
  shows "keeps (lawful strict K) s (require_approved L a now)"
  unfolding require_approved_def
  by (intro lawful.keeps_if lawful.keeps_step_bind [OF keeps_stage_expiry [OF assms]] lawful.evolves_raise
      lawful.keeps_raise evolves_keeps [OF lawful.evolves_raise_if]) simp

lemma require_approved_run:
  "require_approved L a now s = (Inr u, t) \<longleftrightarrow>
    t = s \<and> ar_status a = AP_APPROVED \<and> \<not> is_expired a (Aware now)"
  by (auto simp: require_approved_def handler_simps)

lemma verify_download_plan_same: "verify_download_plan L p a = Inr q \<Longrightarrow> q = p"
  by (auto simp: verify_download_plan_def bindR_Inr_iff)

lemma get_verified_plan_run:
  "get_verified_plan L a s = (Inr p, t) \<longleftrightarrow>
    t = s \<and> plan_for_approval (ar_id a) s = Some p \<and> verify_download_plan L p a = Inr p"
  by (auto simp: get_verified_plan_def handler_simps option_or_Inr_iff dest: verify_download_plan_same)

lemma approved_context_run:
  "approved_context L a st now s = (Inr (sn, p), t) \<longleftrightarrow>
    t = s \<and> ar_status a = AP_APPROVED \<and> \<not> is_expired a (Aware now) \<and> verify_snapshot L a = Inr sn
    \<and> plan_for_approval (ar_id a) s = Some p \<and> verify_download_plan L p a = Inr p
    \<and> require_preflight_policy_current L (dp_preflight_policy_fingerprint p) st = Inr ()"
  by (auto simp: approved_context_def handler_simps require_approved_run get_verified_plan_run)

lemma keeps_approved_context:
  assumes "current s a"
  shows "keeps (lawful strict K) s (approved_context L a st now)"
  unfolding approved_context_def
  by (intro lawful.keeps_guard_bind [OF keeps_require_approved [OF assms]] lawful.keeps_lift_bind
      lawful.keeps_reads_bind reads_handlers lawful.keeps_return) (simp add: require_approved_run)

lemma keeps_context_bind:
  assumes "current s a" and "\<And>sn p. approved_context L a st now s = (Inr (sn, p), s) \<Longrightarrow> keeps (lawful strict K) s (f (sn, p))"
  shows "keeps (lawful strict K) s (bindH (approved_context L a st now) f)"
proof (rule lawful.keeps_guard_bind [OF keeps_approved_context [OF assms(1)]])
  show "approved_context L a st now s = (Inr x, t) \<Longrightarrow> t = s" for x t
    by (cases x) (simp add: approved_context_run)
  show "approved_context L a st now s = (Inr x, s) \<Longrightarrow> keeps (lawful strict K) s (f x)" for x
    using assms(2) by (cases x) simp
qed

lemma keeps_expire_intent:
  assumes "row_get ei_id (ei_id i) (db_intents s) = Some i" and "ei_status i = EI_ACTIVE"
  shows "keeps (lawful strict K) s (expire_intent L a i)"
  unfolding expire_intent_def
  by (rule lawful.keeps_step_bind [OF keeps_save_intent [of _ _ i] lawful_events(1)])
    (simp_all add: assms intent_moves_def)

lemma active_intent_Some:
  "active_intent k s = Some i \<Longrightarrow> i \<in> set (db_intents s) \<and> ei_approval_id i = k \<and> ei_status i = EI_ACTIVE"
  by (auto simp: active_intent_def dest: find_SomeD)

text \<open>Outside a store with integrity nothing is claimed.\<close>

lemma keeps_lawfulI: "(integrity L s \<Longrightarrow> keeps (lawful strict L) s m) \<Longrightarrow> keeps (lawful strict L) s m"
  by (simp add: keeps_def lawful_def)

lemma keeps_clear_active_intent: "keeps (lawful strict K) s (clear_active_intent L a now)"
proof (rule keeps_lawfulI)
  assume ok: "integrity K s"
  show ?thesis
    unfolding clear_active_intent_def
  proof (intro lawful.keeps_get_bind lawful.keeps_case_option lawful.keeps_return lawful.keeps_if lawful.keeps_raise)
    fix i assume "active_intent (ar_id a) s = Some i"
    with ok have "row_get ei_id (ei_id i) (db_intents s) = Some i" "ei_status i = EI_ACTIVE"
      by (auto dest!: active_intent_Some intro: row_get_member simp: integrity_def intents_ok_def)
    then show "keeps (lawful strict K) s (expire_intent L a i)" by (rule keeps_expire_intent)
  qed
qed

lemma evolves_clear_active_intent [evolves_intros]: "evolves (lawful strict K) (clear_active_intent L a now)"
  by (rule keeps_evolves) (rule keeps_clear_active_intent)

lemma lawful_create_intent [evolves_intros]:
  "evolves (lawful strict K) (create_execution_intent L k lm ttl st actor b now nid nonce)"
proof (rule keeps_evolves)
  fix s
  show "keeps (lawful strict K) s (create_execution_intent L k lm ttl st actor b now nid nonce)"
    unfolding create_execution_intent_def Let_def
  proof (intro lawful.keeps_lift_bind lawful.keeps_reads_bind [OF reads_handlers(1)], goal_cases)
    case (1 u v a)
    then have "current s a" by (simp add: get_locked_approval_run)
    then show ?case
      by (rule keeps_context_bind)
        (auto intro!: evolves_keeps lawful.evolves_rules lawful_events lawful_inserts evolves_clear_active_intent)
  qed
qed

text \<open>Creation: the intent is the stored one and active when it is consumed.\<close>

lemma require_usable_intent_run:
  "require_usable_intent L a i nd b now s = (Inr u, t) \<longleftrightarrow>
    t = s \<and> ei_status i = EI_ACTIVE \<and> \<not> intent_expired i now \<and> ei_nonce_sha256 i = nd \<and> intent_binding i = b"
  by (auto simp: require_usable_intent_def handler_simps)

lemma keeps_usable_intent:
  assumes "row_get ei_id (ei_id i) (db_intents s) = Some i"
  shows "keeps (lawful strict K) s (require_usable_intent L a i nd b now)"
  unfolding require_usable_intent_def
  by (intro lawful.keeps_if lawful.keeps_step_bind [OF keeps_expire_intent [OF assms]] lawful.evolves_raise
      lawful.keeps_raise_if_bind evolves_keeps [OF lawful.evolves_raise_if]) simp

lemma keeps_consume_intent:
  assumes "row_get ei_id (ei_id i) (db_intents s) = Some i"
  shows "keeps (lawful strict K) s (consume_intent L a sn p i nd kd rh b st actor now nid)"
  unfolding consume_intent_def Let_def
proof (rule lawful.keeps_guard_bind [OF keeps_usable_intent [OF assms]], goal_cases)
  case (1 x t)
  then show ?case by (simp add: require_usable_intent_run)
next
  case (2 x)
  then have "keeps (lawful strict K) s (save_intent (consumed_intent i actor now))"
    using assms by (intro keeps_save_intent [of _ _ i])
      (simp_all add: consumed_intent_def intent_moves_def require_usable_intent_run)
  from this show ?case
    by (intro lawful.keeps_lift_bind lawful.keeps_raise_if_bind)
      (erule lawful.keeps_step_bind, intro lawful.evolves_rules lawful_events lawful_inserts)
qed

lemma keeps_start_execution:
  assumes "current s a"
  shows "keeps (lawful strict K) s (start_execution L a i nd kd rh b st actor now nid)"
  unfolding start_execution_def
proof (rule keeps_context_bind [OF assms], simp only: prod.case,
    intro lawful.keeps_get_bind lawful.keeps_raise_if_bind, goal_cases)
  case (1 sn p)
  then obtain x where x: "row_get ei_id i (db_intents s) = Some x" by (auto split: option.splits)
  then have "ei_id x = i" by (rule row_get_Some_key)
  with x show ?case by (intro keeps_consume_intent) simp
qed

lemma lawful_execute [evolves_intros]:
  "evolves (lawful strict K) (execute_approved_plan L k i nonce key st actor b now nid)"
proof (rule keeps_evolves)
  fix s
  have replay: "evolves (lawful strict K) (bindH (require_same_idempotent_request L e k i h) (\<lambda>_. returnH (e, False)))" for e h
    by (intro lawful.evolves_bind lawful.evolves_reads reads_handlers lawful.evolves_return)
  show "keeps (lawful strict K) s (execute_approved_plan L k i nonce key st actor b now nid)"
    unfolding execute_approved_plan_def Let_def
  proof (intro lawful.keeps_lift_bind lawful.keeps_get_bind lawful.keeps_case_option
      evolves_keeps [OF replay] lawful.keeps_reads_bind [OF reads_handlers(1)], goal_cases)
    case (1 u kd v a)
    then have "current s a" by (simp add: get_locked_approval_run)
    from keeps_start_execution [OF this] show ?case
      by (rule lawful.keeps_step_bind) (rule lawful.evolves_return)
  qed
qed

lemma lawful_observe [evolves_intros]:
  "evolves (lawful strict K) (update_download_job_observation K j q sp actor now)"
  "evolves (lawful strict K) (record_download_job_monitor_error K j code msg actor details)"
  unfolding update_download_job_observation_def record_download_job_monitor_error_def Let_def
  by (intro lawful.evolves_rules lawful_save_job lawful_events)+

text \<open>Updates of an execution that was read under its identifier.\<close>

lemma released_moves [simp]:
  "de_status (released e) = de_status e" "de_attempts (released e) = de_attempts e"
  "de_max_attempts (released e) = de_max_attempts e" "de_id (released e) = de_id e"
  by (simp_all add: released_def)

lemma failed_as_simps [simp]:
  "de_id (failed_as e status code msg) = de_id e" "de_status (failed_as e status code msg) = status"
  "de_attempts (failed_as e status code msg) = de_attempts e"
  "de_max_attempts (failed_as e status code msg) = de_max_attempts e"
  by (simp_all add: failed_as_def)

lemma keeps_save_moved:
  assumes "row_get de_id (de_id d) (db_executions s) = Some d" and "de_id e = de_id d"
    and "de_attempts e = de_attempts d" and "de_max_attempts e = de_max_attempts d"
    and "de_status e \<in> set (execution_reach strict (de_status d))"
  shows "keeps (lawful strict K) s (save_execution e)"
  using assms by (intro keeps_save_execution [of _ _ d]) (simp_all add: execution_moves_def)

lemma keeps_save_failed:
  assumes "row_get de_id (de_id e) (db_executions s) = Some e"
    and "status \<in> set (execution_reach strict (de_status e))"
  shows "keeps (lawful strict K) s (save_execution (failed_as e status code msg))"
  using assms by (intro keeps_save_moved [of e]) simp_all

lemmas lawful_ends = lawful.evolves_rules lawful_events

lemma lawful_request_reconciliation [evolves_intros]:
  "evolves (lawful strict K) (request_reconciliation L k reason actor now)"
proof (rule keeps_evolves)
  fix s
  show "keeps (lawful strict K) s (request_reconciliation L k reason actor now)"
    unfolding request_reconciliation_def Let_def
  proof (intro lawful.keeps_reads_bind [OF reads_handlers(3)] lawful.keeps_if lawful.keeps_return
      lawful.keeps_raise_if_bind, goal_cases)
    case (1 e)
    then have "row_get de_id (de_id e) (db_executions s) = Some e" by (auto dest: get_download_execution_run)
    with 1 show ?case
      by (intro lawful.keeps_step_bind [OF keeps_save_moved [of e]] lawful_ends)
        (auto simp: execution_reach_def)
  qed
qed

lemma lawful_mark_reconciliation [evolves_intros]:
  "evolves (lawful strict K) (mark_reconciliation_required L k actor tok secs code msg now)"
proof (rule keeps_evolves)
  fix s
  show "keeps (lawful strict K) s (mark_reconciliation_required L k actor tok secs code msg now)"
    unfolding mark_reconciliation_required_def Let_def
  proof (intro lawful.keeps_reads_bind [OF reads_handlers(3)] lawful.keeps_if lawful.keeps_return
      lawful.keeps_raise_if_bind lawful.keeps_lift_bind, goal_cases)
    case (1 e)
    then have "row_get de_id (de_id e) (db_executions s) = Some e" by (auto dest: get_download_execution_run)
    with 1 show ?case
      by (intro lawful.keeps_step_bind [OF keeps_save_failed] lawful_ends) (auto simp: execution_reach_def)
  qed
qed

lemma lawful_mark_unknown [evolves_intros]:
  "evolves (lawful strict K) (mark_outcome_unknown L k actor tok secs code msg now)"
proof (rule keeps_evolves)
  fix s
  show "keeps (lawful strict K) s (mark_outcome_unknown L k actor tok secs code msg now)"
    unfolding mark_outcome_unknown_def Let_def
  proof (intro lawful.keeps_reads_bind [OF reads_handlers(3)] lawful.keeps_if lawful.keeps_return
      lawful.keeps_raise_if_bind lawful.keeps_lift_bind, goal_cases)
    case (1 e)
    then have "row_get de_id (de_id e) (db_executions s) = Some e" by (auto dest: get_download_execution_run)
    with 1 show ?case
      by (intro lawful.keeps_step_bind [OF keeps_save_failed] lawful_ends) (auto simp: execution_reach_def)
  qed
qed

lemma keeps_cancel_invalidated:
  assumes "row_get de_id (de_id e) (db_executions s) = Some e" and "de_status e = DE_VALIDATING"
  shows "keeps (lawful strict K) s (cancel_invalidated_execution L e actor code)"
  using assms unfolding cancel_invalidated_execution_def Let_def
  by (intro lawful.keeps_step_bind [OF keeps_save_failed] lawful_ends)
    (auto simp: execution_reach_def)

text \<open>A step on the approval first, then one on the execution.\<close>

lemma keeps_then_execution:
  assumes "keeps (lawful strict K) s m" and "evolves (\<lambda>s t. db_executions t = db_executions s) m"
    and "row_get de_id (de_id e) (db_executions s) = Some e"
    and "\<And>x t. m s = (Inr x, t) \<Longrightarrow> row_get de_id (de_id e) (db_executions t) = Some e \<Longrightarrow> keeps (lawful strict K) t (f x)"
  shows "keeps (lawful strict K) s (bindH m f)"
  by (rule lawful.keeps_leaves_bind [where F = db_executions, OF assms(1,2)]) (simp add: assms(3,4))

lemma keeps_reserve:
  assumes "current s a" and "ar_status a = AP_APPROVED"
    and "row_get de_id (de_id e) (db_executions s) = Some e" and "de_status e = DE_VALIDATING"
  shows "keeps (lawful strict K) s (reserve L e a m actor now)"
  unfolding reserve_def Let_def
proof (intro lawful.keeps_reads_bind [OF reads_handlers(2)] lawful.keeps_lift_bind, goal_cases)
  case (1 p h)
  show ?case
  proof (rule keeps_then_execution [OF keeps_save_approval [OF assms(1)] writes_leave_executions(1) assms(3)],
      goal_cases)
    case (3 x t)
    then show ?case
      by (intro lawful.keeps_step_bind [OF keeps_save_moved [of e]] lawful_ends)
        (simp_all add: reserved_def assms(4) execution_reach_def)
  qed (simp_all add: same_approval_def assms(2) approval_reach_def)
qed

lemma keeps_maybe_expire:
  assumes "current s a"
  shows "keeps (lawful strict K) s (if ar_status a = AP_APPROVED \<and> is_expired a (Aware now)
    then stage_approval_expiry L a now else returnH a)"
  using keeps_stage_expiry [OF assms] by (simp add: lawful.keeps_return)

lemma stage_expiry_leaves: "evolves (\<lambda>s t. db_executions t = db_executions s) (stage_approval_expiry L a now)"
  unfolding stage_approval_expiry_def add_approval_event_def Let_def
  by (intro leaves.evolves_rules writes_leave_executions)

lemma maybe_expire_run:
  "(if ar_status a = AP_APPROVED \<and> is_expired a (Aware now) then stage_approval_expiry L a now
      else returnH a) s = (Inr b, t) \<Longrightarrow> ar_status b = AP_APPROVED \<Longrightarrow> b = a \<and> t = s"
  by (auto simp: stage_approval_expiry_def Let_def handler_simps split: if_splits)

lemma lawful_persist [evolves_intros]:
  "evolves (lawful strict K) (persist_info_hash_before_submission L k m actor tok secs db_now now)"
proof (rule keeps_evolves)
  fix s
  show "keeps (lawful strict K) s (persist_info_hash_before_submission L k m actor tok secs db_now now)"
    unfolding persist_info_hash_before_submission_def
  proof (intro lawful.keeps_raise_if_bind lawful.keeps_reads_bind [OF reads_handlers(3)] lawful.keeps_lift_bind
      lawful.keeps_if lawful.keeps_return lawful.keeps_raise lawful.keeps_get_bind lawful.keeps_case_option,
      goal_cases)
    case (1 e)
    then have "row_get de_id (de_id e) (db_executions s) = Some e" by (auto dest: get_download_execution_run)
    then show ?case using 1 by (intro keeps_cancel_invalidated) simp_all
  next
    case (2 e u a sn)
    then have e: "row_get de_id (de_id e) (db_executions s) = Some e" and a: "current s a"
      by (auto simp: approval_by_id_def dest: get_download_execution_run intro: current_get)
    show ?case
    proof (rule keeps_then_execution [OF keeps_maybe_expire [OF a] _ e], goal_cases)
      case 1
      show ?case using stage_expiry_leaves by (simp add: leaves.evolves_return)
    next
      case (2 b t)
      then show ?case using \<open>\<not> de_status e \<noteq> DE_VALIDATING\<close> a
        by (auto intro!: lawful.keeps_if keeps_cancel_invalidated keeps_reserve
            dest!: maybe_expire_run)
    qed
  qed
qed

text \<open>Finalization: the approval is consumed between the reading of the execution and its update.\<close>

lemma transition_leaves: "evolves (\<lambda>s t. db_executions t = db_executions s) (transition L a ts actor ty reason now details)"
  unfolding transition_def add_event_def Let_def
  by (intro leaves.evolves_rules writes_leave_executions)

lemma consume_leaves: "evolves (\<lambda>s t. db_executions t = db_executions s) (consume_approval L k actor now)"
  unfolding consume_approval_def reject_expired_def stage_expiration_if_needed_def expire_def
  by (intro leaves.evolves_rules transition_leaves)

lemma verified_submission_simps [simp]:
  "de_id (verified_submission e outcome now) = de_id e" "de_status (verified_submission e outcome now) = outcome"
  "de_attempts (verified_submission e outcome now) = de_attempts e"
  "de_max_attempts (verified_submission e outcome now) = de_max_attempts e"
  by (simp_all add: verified_submission_def)

lemma keeps_record_submission:
  assumes "row_get de_id (de_id e) (db_executions s) = Some e" and "de_status e = DE_SUBMITTING"
    and "outcome \<in> set verified_statuses"
  shows "keeps (lawful strict K) s (record_submission K e a p q outcome actor now now2 nid)"
  unfolding record_submission_def Let_def
proof (rule keeps_then_execution [OF evolves_keeps [OF lawful_inserts(5)] writes_leave_executions(9) assms(1)],
    goal_cases)
  case (1 x t)
  show ?case
  proof (rule keeps_then_execution [OF evolves_keeps [OF lawful_consume] consume_leaves 1(2)], goal_cases)
    case (1 b u)
    with assms(2,3) show ?case
      by (intro lawful.keeps_step_bind [OF keeps_save_moved [of e]] lawful_ends)
        (auto simp: execution_reach_def verified_statuses_def)
  qed
qed

lemma lawful_finalize [evolves_intros]:
  "evolves (lawful strict K) (finalize_download_submission K k q outcome st actor tok db_now now now2 nid pid)"
proof (rule keeps_evolves)
  fix s
  show "keeps (lawful strict K) s (finalize_download_submission K k q outcome st actor tok db_now now now2 nid pid)"
    unfolding finalize_download_submission_def
  proof (intro lawful.keeps_raise_if_bind lawful.keeps_reads_bind [OF reads_handlers(3)] lawful.keeps_get_bind
      lawful.keeps_if lawful.keeps_return lawful.keeps_lift_bind, goal_cases)
    case (1 e)
    then have e: "row_get de_id (de_id e) (db_executions s) = Some e" by (auto dest: get_download_execution_run)
    show ?case
      unfolding finalize_submitting_def Let_def
    proof (intro lawful.keeps_get_bind lawful.keeps_raise_if_bind lawful.keeps_lift_bind, goal_cases)
      case (1 sn)
      show ?case
      proof (rule keeps_then_execution [OF evolves_keeps _ e], goal_cases)
        case 1
        show ?case unfolding require_final_automation_submission_cas_def
          by (intro lawful.evolves_rules lawful_current_policy)
      next
        case 2
        show ?case unfolding require_final_automation_submission_cas_def
          by (intro leaves.evolves_rules current_policy_leaves_executions)
      next
        case (3 x t)
        with \<open>\<not> de_status e \<noteq> DE_SUBMITTING\<close> \<open>\<not> outcome \<notin> set verified_statuses\<close> show ?case
          by (intro lawful.keeps_reads_bind [OF reads_handlers(2)] lawful.keeps_lift_bind
              lawful.keeps_raise_if_bind keeps_record_submission) simp_all
      qed
    qed
  qed
qed

section \<open>The worker\<close>

lemma execution_by_id_Some: "execution_by_id k s = Some e \<Longrightarrow> row_get de_id (de_id e) (db_executions s) = Some e"
  by (auto simp: execution_by_id_def dest: row_get_Some_key)

lemma execution_member:
  "integrity K s \<Longrightarrow> e \<in> set (db_executions s) \<Longrightarrow> row_get de_id (de_id e) (db_executions s) = Some e"
  by (rule row_get_member) (simp_all add: integrity_def executions_ok_def)

lemma first_Some: "(case xs of [] \<Rightarrow> None | x # _ \<Rightarrow> Some x) = Some y \<Longrightarrow> y \<in> set xs"
  by (cases xs) simp_all

lemma next_eligible_Some: "next_eligible now s = Some e \<Longrightarrow> e \<in> set (db_executions s) \<and> eligible now e"
  unfolding next_eligible_def by (drule first_Some) simp

lemma lawful_claim [evolves_intros]: "evolves (lawful strict K) (claim_next_execution L w now tok)"
proof (rule keeps_evolves, rule keeps_lawfulI)
  fix s assume ok: "integrity K s"
  show "keeps (lawful strict K) s (claim_next_execution L w now tok)"
    unfolding claim_next_execution_def Let_def
  proof (intro lawful.keeps_transact lawful.keeps_get_bind lawful.keeps_case_option lawful.keeps_return, goal_cases)
    case (1 e)
    then have "e \<in> set (db_executions s)" "eligible now e" by (auto dest: next_eligible_Some)
    with execution_member [OF ok] show ?case
      by (intro lawful.keeps_step_bind [OF keeps_save_execution [of _ _ e]] lawful_ends)
        (auto simp: claimed_def execution_moves_def retryable_again_def execution_reach_def eligible_def)
  qed
qed

lemma keeps_touch:
  "row_get de_id (de_id e) (db_executions s) = Some e \<Longrightarrow> keeps (lawful strict K) s (touch_lease e now)"
  unfolding touch_lease_def
  by (intro lawful.keeps_step_bind [OF keeps_save_moved [of e]] lawful_ends) simp_all

lemma lawful_renew [evolves_intros]: "evolves (lawful strict K) (renew_lease st w c now)"
proof (rule keeps_evolves)
  fix s
  show "keeps (lawful strict K) s (renew_lease st w c now)"
    unfolding renew_lease_def touch_lease_def [symmetric]
    by (auto intro!: lawful.keeps_transact lawful.keeps_get_bind lawful.keeps_case_option lawful.keeps_return
        keeps_touch dest: execution_by_id_Some split: sum.splits)
qed

lemma recovered_simps [simp]:
  "de_id (recovered L st e now) = de_id e" "de_attempts (recovered L st e now) = de_attempts e"
  "de_max_attempts (recovered L st e now) = de_max_attempts e"
  by (simp_all add: recovered_def Let_def)

lemma recovered_status:
  "de_status (recovered L st e now) = (if de_status e = DE_SUBMITTING then DE_RECONCILIATION_REQUIRED
    else if de_attempts e < de_max_attempts e then DE_RETRY_WAIT else DE_FAILED)"
  by (simp add: recovered_def Let_def retry_status_def)

lemma keeps_recover:
  assumes "row_get de_id (de_id e) (db_executions s) = Some e" and "de_status e \<in> set leased_statuses"
  shows "keeps (lawful strict K) s (recover_execution L st w now e)"
  using assms unfolding recover_execution_def Let_def
  by (intro lawful.keeps_step_bind [OF keeps_save_moved [of e]] lawful_ends)
    (auto simp: recovered_status execution_reach_def leased_statuses_def)

lemma recover_others:
  "recover_execution L st w now e s = (r, t) \<Longrightarrow> k \<noteq> de_id e \<Longrightarrow>
    row_get de_id k (db_executions t) = row_get de_id k (db_executions s)"
  by (auto simp: recover_execution_def Let_def save_execution_def guarded_def add_worker_event_def
      insert_execution_event_def handler_defs executions.get_put split: if_splits)

lemma keeps_recover_each:
  assumes "distinct (map de_id es)" and "\<forall>e\<in>set es. de_status e \<in> set leased_statuses"
    and "\<forall>e\<in>set es. row_get de_id (de_id e) (db_executions s) = Some e"
  shows "keeps (lawful strict K) s (recover_each L st w now es)"
  using assms
proof (induction es arbitrary: s)
  case Nil
  show ?case by (simp add: lawful.keeps_return)
next
  case (Cons e es)
  show ?case
    unfolding recover_each.simps
  proof (rule lawful.keeps_bind [OF keeps_recover])
    fix x t assume run: "recover_execution L st w now e s = (Inr x, t)"
    have "row_get de_id (de_id f) (db_executions t) = Some f" if "f \<in> set es" for f
      using that Cons.prems recover_others [OF run, of "de_id f"] by (auto simp: image_iff)
    with Cons show "keeps (lawful strict K) t (recover_each L st w now es)" by simp
  qed (use Cons.prems in simp_all)
qed

lemma set_stale_executions: "e \<in> set (stale_executions now st s) \<Longrightarrow> e \<in> set (db_executions s) \<and> stale now st e"
  unfolding stale_executions_def by (drule in_set_takeD) simp

lemma distinct_stale_executions:
  "distinct (map de_id (db_executions s)) \<Longrightarrow> distinct (map de_id (stale_executions now st s))"
  unfolding stale_executions_def take_map [symmetric]
  by (rule distinct_take) (simp add: distinct_map inj_on_def)

lemma lawful_recover [evolves_intros]: "evolves (lawful strict K) (recover_stale_executions L st w now)"
proof (rule keeps_evolves, rule keeps_lawfulI)
  fix s assume ok: "integrity K s"
  then have "distinct (map de_id (db_executions s))" by (simp add: integrity_def executions_ok_def)
  then have "keeps (lawful strict K) s (recover_each L st w now (stale_executions now st s))"
    by (intro keeps_recover_each distinct_stale_executions)
      (auto dest!: set_stale_executions simp: stale_def execution_member [OF ok])
  then show "keeps (lawful strict K) s (recover_stale_executions L st w now)"
    unfolding recover_stale_executions_def
    by (intro lawful.keeps_transact lawful.keeps_get_bind lawful.keeps_step_bind lawful.evolves_return)
qed

text \<open>The fence: the execution is written first, then the approval, each as it was read.\<close>

lemma keeps_revoke_by_fence:
  assumes "\<And>a. x = Some a \<Longrightarrow> current s a"
  shows "keeps (lawful strict K) s (revoke_by_fence L w x code now)"
  unfolding revoke_by_fence_def Let_def
  by (intro lawful.keeps_case_option lawful.keeps_if lawful.keeps_return
      lawful.keeps_step_bind [OF keeps_save_approval [OF assms]] lawful_log_writes)
    (auto simp: same_approval_def approval_reach_def)

lemma current_leaves:
  "(\<And>a. x = Some a \<Longrightarrow> current s a) \<Longrightarrow> db_approvals t = db_approvals s \<Longrightarrow> x = Some a \<Longrightarrow> current t a"
  by (simp add: current_def)

lemma keeps_cancel_by_fence:
  assumes "row_get de_id (de_id e) (db_executions s) = Some e"
    and "DE_CANCELLED \<in> set (execution_reach strict (de_status e))"
    and "\<And>a. x = Some a \<Longrightarrow> current s a"
  shows "keeps (lawful strict K) s (cancel_by_automation_fence L w e x code now)"
  unfolding cancel_by_automation_fence_def Let_def
proof (rule lawful.keeps_leaves_bind [where F = db_approvals, OF keeps_save_failed [OF assms(1)]
      writes_leave_approvals(5)], goal_cases)
  case 1
  show ?case by (rule assms(2))
next
  case (2 u t)
  show ?case
    by (intro lawful.keeps_step_bind [OF keeps_revoke_by_fence] lawful_events current_leaves [OF assms(3) 2(2)])
qed

lemma fence_expire_leaves: "evolves (\<lambda>s t. db_executions t = db_executions s) (fence_expire L a now)"
  unfolding fence_expire_def Let_def by (intro leaves.evolves_rules writes_leave_executions)

lemma keeps_fence_expire:
  assumes "current s a"
  shows "keeps (lawful strict K) s (fence_expire L a now)"
  unfolding fence_expire_def Let_def
  by (intro lawful.keeps_if lawful.keeps_return lawful.keeps_step_bind [OF keeps_save_approval [OF assms]]
      lawful.evolves_rules lawful_log_writes) (auto simp: same_approval_def approval_reach_def)

lemma keeps_fence_cancel:
  assumes "row_get de_id (de_id e) (db_executions s) = Some e" and "de_status e = DE_VALIDATING"
  shows "keeps (lawful strict K) s (fence_cancel L w e x)"
  using assms unfolding fence_cancel_def Let_def
  by (intro lawful.keeps_step_bind [OF keeps_save_failed] lawful_ends)
    (auto simp: execution_reach_def)

lemma keeps_fence_approval:
  assumes e: "row_get de_id (de_id e) (db_executions s) = Some e" and st: "de_status e = expected"
    and cur: "\<And>a. x = Some a \<Longrightarrow> current s a"
  shows "keeps (lawful strict K) s (fence_approval L w e x expected now)"
  unfolding fence_approval_def
proof (intro lawful.keeps_if lawful.keeps_case_option lawful.keeps_raise_if_bind lawful.keeps_lift_bind
    keeps_touch [OF e] lawful.keeps_step_bind [OF keeps_fence_cancel [OF e]] lawful.evolves_return, goal_cases)
  case 1
  then show ?case by (simp add: st)
next
  case (2 a sn)
  note validating = st [unfolded 2(1)]
  show ?case
  proof (rule keeps_then_execution [OF keeps_fence_expire [OF cur [OF 2(2)]] fence_expire_leaves e], goal_cases)
    case (1 b t)
    then show ?case
      by (intro lawful.keeps_if keeps_touch lawful.keeps_step_bind [OF keeps_fence_cancel [OF _ validating]]
          lawful.evolves_return)
  qed
qed

lemma fence_error_leaves:
  "evolves (\<lambda>s t. db_executions t = db_executions s \<and> db_approvals t = db_approvals s)
    (automation_fence_error L st e x now nid)"
proof -
  have "evolves (\<lambda>s t. (db_executions t, db_approvals t) = (db_executions s, db_approvals s)) (get_current_policy L now nid)"
    using current_policy_leaves_executions [of L now nid] by (simp add: evolves_def)
  then have "evolves (\<lambda>s t. (db_executions t, db_approvals t) = (db_executions s, db_approvals s))
      (automation_fence_error L st e x now nid)"
    unfolding automation_fence_error_def
    by (intro leaves.evolves_rules [where F = "\<lambda>s. (db_executions s, db_approvals s)"])
  then show ?thesis by (simp add: evolves_def)
qed

lemma lawful_fence_error: "evolves (lawful strict K) (automation_fence_error L st e x now nid)"
  unfolding automation_fence_error_def by (intro lawful.evolves_rules lawful_current_policy)

lemma require_fresh_run:
  "require_fresh_matching_lease st w e c expected now = Inr u \<longleftrightarrow>
    owns_lease w e c \<and> lease_fresh st e expected now"
  by (simp add: require_fresh_matching_lease_def require_matching_lease_def bindR_Inr_iff raise_if_Inr_iff)

lemma lawful_ensure:
  assumes allowed: "strict \<Longrightarrow> written \<or> expected = DE_VALIDATING"
  shows "evolves (lawful strict K) (ensure_external_action_allowed L st w c expected written now clock nid)"
proof (rule keeps_evolves)
  fix s
  show "keeps (lawful strict K) s (ensure_external_action_allowed L st w c expected written now clock nid)"
    unfolding ensure_external_action_allowed_def
  proof (intro lawful.keeps_transact lawful.keeps_get_bind lawful.keeps_lift_bind, goal_cases)
    case (1 e u p)
    then have e: "row_get de_id (de_id e) (db_executions s) = Some e"
      and st: "de_status e = expected" "de_status e \<in> set leased_statuses"
      by (auto simp: option_or_Inr_iff require_fresh_run lease_fresh_def dest: execution_by_id_Some)
    have cur: "approval_by_id (de_approval_id e) s = Some a \<Longrightarrow> current s a" for a
      by (auto simp: approval_by_id_def intro: current_get)
    show ?case
    proof (rule lawful.keeps_leaves_bind [where F = "\<lambda>s. (db_executions s, db_approvals s)",
          OF evolves_keeps [OF lawful_fence_error]], goal_cases)
      case 1
      show ?case using fence_error_leaves by (simp add: evolves_def)
    next
      case (2 err t)
      then have "row_get de_id (de_id e) (db_executions t) = Some e"
        "\<And>a. approval_by_id (de_approval_id e) s = Some a \<Longrightarrow> current t a"
        using e cur by (simp_all add: current_def)
      moreover have "\<not> written \<Longrightarrow> DE_CANCELLED \<in> set (execution_reach strict (de_status e))"
        using st allowed by (auto simp: execution_reach_def leased_statuses_def)
      ultimately show ?case using st(1)
        by (auto intro!: lawful.keeps_case_option lawful.keeps_raise_if_bind keeps_fence_approval
            lawful.keeps_step_bind [OF keeps_cancel_by_fence] lawful.evolves_return)
    qed
  qed
qed

lemma reads_load_binding: "reads (load_binding L st w c)"
  using reads_verified unfolding reads_def load_binding_def
  by (intro leaves.evolves_rules; simp)

lemma lawful_reserve [evolves_intros]: "evolves (lawful strict K) (reserve_submission L st w c m db_now now)"
  unfolding reserve_submission_def by (intro lawful.evolves_rules lawful_persist)

lemma failed_validation_simps [simp]:
  "de_id (failed_validation L st e err now) = de_id e"
  "de_attempts (failed_validation L st e err now) = de_attempts e"
  "de_max_attempts (failed_validation L st e err now) = de_max_attempts e"
  by (simp_all add: failed_validation_def Let_def)

lemma failed_validation_status:
  "de_status (failed_validation L st e err now) =
    (if retryable err \<and> de_attempts e < de_max_attempts e then DE_RETRY_WAIT else DE_FAILED)"
  by (simp add: failed_validation_def Let_def retry_status_def)

lemma lawful_validation_failure [evolves_intros]: "evolves (lawful strict K) (mark_validation_failure L st w c err cat now)"
proof (rule keeps_evolves)
  fix s
  show "keeps (lawful strict K) s (mark_validation_failure L st w c err cat now)"
    unfolding mark_validation_failure_def Let_def
  proof (intro lawful.keeps_transact lawful.keeps_get_bind lawful.keeps_case_option lawful.keeps_if
      lawful.keeps_return, goal_cases)
    case (1 e)
    from execution_by_id_Some [OF 1(1)] 1(2) show ?case
      by (intro lawful.keeps_step_bind [OF keeps_save_moved [of e]] lawful_events)
        (auto simp: failed_validation_status execution_reach_def)
  qed
qed

lemma lawful_reserved_failure [evolves_intros]: "evolves (lawful strict K) (mark_reserved_failure L st w c err added now)"
  unfolding mark_reserved_failure_def
  by (intro lawful.evolves_rules lawful_mark_unknown lawful_mark_reconciliation)

lemma lawful_monitor_job [evolves_intros]: "evolves (lawful strict K) (monitor_job K w sp qs now j)"
  unfolding monitor_job_def
  by (auto split: sum.splits exn.splits intro!: lawful.evolves_rules lawful_observe)

end
