(* ===== verification/WorkflowStore.thy ===== *)
theory WorkflowStore
  imports Entities
begin

text \<open>
  Reads and writes of the tables of the identity and search workflow: the worker's jobs, media
  items, metadata matches, identity reviews, search runs, their candidates, discovery runs,
  heartbeats and audit events (\<open>models/entities.py\<close>), with their unique indexes.
\<close>

section \<open>Unique indexes\<close>

definition active_task_statuses :: "task_status list" where
  "active_task_statuses = [TK_PENDING, TK_RUNNING, TK_RETRY_WAIT]"

definition active_task :: "task \<Rightarrow> bool" where
  "active_task t \<longleftrightarrow> tk_status t \<in> set active_task_statuses"

text \<open>\<open>uq_jobs_active_type\<close>, and the unique \<open>run_id\<close>.\<close>

definition tasks_clash :: "task \<Rightarrow> task \<Rightarrow> bool" where
  "tasks_clash a b \<longleftrightarrow> tk_id a \<noteq> tk_id b
    \<and> (active_task a \<and> active_task b \<and> tk_job_type a = tk_job_type b
      \<or> tk_run_id a \<noteq> None \<and> tk_run_id a = tk_run_id b)"

text \<open>\<open>uq_media_source_type_tmdb\<close> and \<open>uq_media_source_type_fallback\<close>.\<close>

definition media_clash :: "media_row \<Rightarrow> media_row \<Rightarrow> bool" where
  "media_clash a b \<longleftrightarrow> me_id a \<noteq> me_id b \<and> me_source a = me_source b \<and> me_media_type a = me_media_type b
    \<and> me_tmdb_id a = me_tmdb_id b
    \<and> (me_tmdb_id a \<noteq> None \<or> me_source_item_id a = me_source_item_id b)"

definition active_search_statuses :: "workflow_status list" where
  "active_search_statuses = [WF_PT_SEARCH_PENDING, WF_PT_SEARCHING]"

definition active_search :: "search_run_row \<Rightarrow> bool" where
  "active_search r \<longleftrightarrow> ru_status r \<in> set active_search_statuses"

text \<open>\<open>uq_torrent_search_active_media_site\<close>.\<close>

definition runs_clash :: "search_run_row \<Rightarrow> search_run_row \<Rightarrow> bool" where
  "runs_clash a b \<longleftrightarrow> ru_id a \<noteq> ru_id b \<and> active_search a \<and> active_search b
    \<and> ru_media_id a = ru_media_id b \<and> ru_site_id a = ru_site_id b"

text \<open>\<open>uq_identity_reviews_confirmed_media\<close>.\<close>

definition confirmed_for :: "string \<Rightarrow> review \<Rightarrow> bool" where
  "confirmed_for mid r \<longleftrightarrow> iv_media_id r = mid \<and> iv_status r = ''CONFIRMED''"

text \<open>\<open>uq_torrent_candidate_search_site_torrent\<close>.\<close>

definition candidates_clash :: "candidate_row \<Rightarrow> candidate_row \<Rightarrow> bool" where
  "candidates_clash a b \<longleftrightarrow> cr_search_run_id a = cr_search_run_id b \<and> cr_site_id a = cr_site_id b
    \<and> cr_torrent_id a = cr_torrent_id b"

section \<open>Writes\<close>

definition save_task :: "task \<Rightarrow> unit session" where
  "save_task t = bindH (getH db_tasks) (\<lambda>rows.
    bindH (raise_ifH (list_ex (tasks_clash t) rows) (IntegrityErr ''jobs'')) (\<lambda>_.
    modifyH (\<lambda>s. s\<lparr> db_tasks := row_put tk_id t (db_tasks s) \<rparr>)))"

definition insert_task :: "task \<Rightarrow> unit session" where
  "insert_task t = bindH (getH db_tasks) (\<lambda>rows.
    bindH (raise_ifH (tk_id t \<in> set (map tk_id rows) \<or> list_ex (tasks_clash t) rows) (IntegrityErr ''jobs'')) (\<lambda>_.
    modifyH (\<lambda>s. s\<lparr> db_tasks := row_add t (db_tasks s) \<rparr>)))"

definition save_media :: "media_row \<Rightarrow> unit session" where
  "save_media m = bindH (getH db_media) (\<lambda>rows.
    bindH (raise_ifH (list_ex (media_clash m) rows) (IntegrityErr ''media_items'')) (\<lambda>_.
    modifyH (\<lambda>s. s\<lparr> db_media := row_put me_id m (db_media s) \<rparr>)))"

definition insert_media :: "media_row \<Rightarrow> unit session" where
  "insert_media m = bindH (getH db_media) (\<lambda>rows.
    bindH (raise_ifH (me_id m \<in> set (map me_id rows) \<or> list_ex (media_clash m) rows)
      (IntegrityErr ''media_items'')) (\<lambda>_.
    modifyH (\<lambda>s. s\<lparr> db_media := row_add m (db_media s) \<rparr>)))"

definition save_run :: "search_run_row \<Rightarrow> unit session" where
  "save_run r = bindH (getH db_runs) (\<lambda>rows.
    bindH (raise_ifH (list_ex (runs_clash r) rows) (IntegrityErr ''torrent_search_runs'')) (\<lambda>_.
    modifyH (\<lambda>s. s\<lparr> db_runs := row_put ru_id r (db_runs s) \<rparr>)))"

definition insert_run :: "search_run_row \<Rightarrow> unit session" where
  "insert_run r = bindH (getH db_runs) (\<lambda>rows.
    bindH (raise_ifH (ru_id r \<in> set (map ru_id rows) \<or> list_ex (runs_clash r) rows)
      (IntegrityErr ''torrent_search_runs'')) (\<lambda>_.
    modifyH (\<lambda>s. s\<lparr> db_runs := row_add r (db_runs s) \<rparr>)))"

definition insert_review :: "review \<Rightarrow> unit session" where
  "insert_review r = bindH (getH db_reviews) (\<lambda>rows.
    bindH (raise_ifH (iv_id r \<in> set (map iv_id rows)
        \<or> (iv_status r = ''CONFIRMED'' \<and> list_ex (confirmed_for (iv_media_id r)) rows))
      (IntegrityErr ''identity_reviews'')) (\<lambda>_.
    modifyH (\<lambda>s. s\<lparr> db_reviews := row_add r (db_reviews s) \<rparr>)))"

definition insert_match :: "match_row \<Rightarrow> unit session" where
  "insert_match m = bindH (getH db_matches) (\<lambda>rows.
    bindH (raise_ifH (mm_id m \<in> set (map mm_id rows)) (IntegrityErr ''metadata_matches'')) (\<lambda>_.
    modifyH (\<lambda>s. s\<lparr> db_matches := row_add m (db_matches s) \<rparr>)))"

definition insert_candidate :: "candidate_row \<Rightarrow> unit session" where
  "insert_candidate c = bindH (getH db_candidates) (\<lambda>rows.
    bindH (raise_ifH (cr_id c \<in> set (map cr_id rows) \<or> list_ex (candidates_clash c) rows)
      (IntegrityErr ''torrent_candidates'')) (\<lambda>_.
    modifyH (\<lambda>s. s\<lparr> db_candidates := row_add c (db_candidates s) \<rparr>)))"

definition insert_audit_event :: "string \<Rightarrow> string \<Rightarrow> string \<Rightarrow> json \<Rightarrow> unit session" where
  "insert_audit_event event_type entity_type entity_id details =
    modifyH (\<lambda>s. s\<lparr> db_audit_events := row_add \<lparr> au_event_type = event_type, au_entity_type = entity_type,
      au_entity_id = entity_id, au_sanitized_details = details \<rparr> (db_audit_events s) \<rparr>)"

definition save_discovery_run :: "discovery_run \<Rightarrow> unit session" where
  "save_discovery_run r = modifyH (\<lambda>s. s\<lparr> db_discovery_runs := row_put dr_id r (db_discovery_runs s) \<rparr>)"

text \<open>The heartbeat of a worker: its row is created or refreshed.\<close>

definition put_heartbeat :: "string \<Rightarrow> datetime \<Rightarrow> unit session" where
  "put_heartbeat worker now =
    (let h = \<lparr> wh_worker_id = worker, wh_last_seen_at = now \<rparr> in
     bindH (getH (\<lambda>s. row_get wh_worker_id worker (db_heartbeats s))) (\<lambda>old.
     case old of
       None \<Rightarrow> modifyH (\<lambda>s. s\<lparr> db_heartbeats := row_add h (db_heartbeats s) \<rparr>)
     | Some _ \<Rightarrow> modifyH (\<lambda>s. s\<lparr> db_heartbeats := row_put wh_worker_id h (db_heartbeats s) \<rparr>)))"

lemmas workflow_write_defs =
  save_task_def insert_task_def save_media_def insert_media_def save_run_def insert_run_def insert_review_def
  insert_match_def insert_candidate_def insert_audit_event_def save_discovery_run_def put_heartbeat_def Let_def

section \<open>Reads\<close>

definition media_by_id :: "string \<Rightarrow> db \<Rightarrow> media_row option" where
  "media_by_id mid s = row_get me_id mid (db_media s)"

definition task_by_id :: "string \<Rightarrow> db \<Rightarrow> task option" where
  "task_by_id tid s = row_get tk_id tid (db_tasks s)"

definition run_by_id :: "string \<Rightarrow> db \<Rightarrow> search_run_row option" where
  "run_by_id rid s = row_get ru_id rid (db_runs s)"

definition match_by_id :: "string \<Rightarrow> db \<Rightarrow> match_row option" where
  "match_by_id i s = row_get mm_id i (db_matches s)"

definition discovery_run_by_id :: "string option \<Rightarrow> db \<Rightarrow> discovery_run option" where
  "discovery_run_by_id rid s = (case rid of None \<Rightarrow> None | Some i \<Rightarrow> row_get dr_id i (db_discovery_runs s))"

definition confirmed_review :: "string \<Rightarrow> db \<Rightarrow> review option" where
  "confirmed_review mid s = find (confirmed_for mid) (db_reviews s)"

definition payload_get :: "string \<Rightarrow> task \<Rightarrow> json" where
  "payload_get k t = (case map_of (tk_payload t) k of None \<Rightarrow> JNull | Some v \<Rightarrow> v)"

end
