(* ===== verification/Matching.thy ===== *)
theory Matching
  imports Episodes Schemas SiteRules
begin

text \<open>
  The metadata record of \<open>schemas/adapters.py\<close> and the scoring of \<open>services/matching.py\<close>. A
  score is a float: every addition is rounded by \<open>fl_add\<close>, and the literals are the doubles
  nearest to them.
\<close>

section \<open>Country codes\<close>

definition country_text :: "json \<Rightarrow> string option" where
  "country_text item =
    (case item of
       JObj kvs \<Rightarrow> (case map_of kvs ''iso_3166_1'' of Some (JStr s) \<Rightarrow> Some s | _ \<Rightarrow> None)
     | JStr s \<Rightarrow> Some s
     | _ \<Rightarrow> None)"

definition country_code :: "lib \<Rightarrow> json \<Rightarrow> string option" where
  "country_code L item =
    (case country_text item of
       None \<Rightarrow> None
     | Some s \<Rightarrow>
         let code = upper L (strip s)
         in if py_len code \<noteq> 2 \<or> \<not> ascii_text code \<or> \<not> list_all ascii_letter code then None else Some code)"

definition normalize_country_codes :: "lib \<Rightarrow> json \<Rightarrow> string list option" where
  "normalize_country_codes L v =
    (case v of
       JNull \<Rightarrow> None
     | _ \<Rightarrow>
         let values = (case v of JList xs \<Rightarrow> xs | _ \<Rightarrow> [v]);
             codes = dedup (List.map_filter (country_code L) values)
         in if codes = [] then None else Some codes)"

section \<open>The metadata record\<close>

record metadata =
  md_tmdb_id :: int
  md_imdb_id :: "string option"
  md_media_type :: media_type
  md_title :: string
  md_chinese_title :: "string option"
  md_english_title :: "string option"
  md_original_title :: "string option"
  md_original_language :: "string option"
  md_country_codes :: "string list option"
  md_aliases :: "string list"
  md_year :: "int option"
  md_number_of_seasons :: "int option"
  md_number_of_episodes :: "int option"
  md_episode_matrix :: "matrix option"
  md_poster_path :: "string option"
  md_backdrop_path :: "string option"
  md_status :: "string option"
  md_confidence :: json
  md_external_ids :: "(string \<times> string) list"

definition metadata_json :: "metadata \<Rightarrow> json" where
  "metadata_json m = JObj
    [(''tmdb_id'', JInt (md_tmdb_id m)), (''imdb_id'', opt_json JStr (md_imdb_id m)),
     (''media_type'', JStr (media_type_value (md_media_type m))), (''title'', JStr (md_title m)),
     (''chinese_title'', opt_json JStr (md_chinese_title m)),
     (''english_title'', opt_json JStr (md_english_title m)),
     (''original_title'', opt_json JStr (md_original_title m)),
     (''original_language'', opt_json JStr (md_original_language m)),
     (''country_codes'', opt_json strs_json (md_country_codes m)), (''aliases'', strs_json (md_aliases m)),
     (''year'', opt_json JInt (md_year m)),
     (''number_of_seasons'', opt_json JInt (md_number_of_seasons m)),
     (''number_of_episodes'', opt_json JInt (md_number_of_episodes m)),
     (''episode_matrix'', opt_json matrix_json (md_episode_matrix m)),
     (''poster_path'', opt_json JStr (md_poster_path m)), (''backdrop_path'', opt_json JStr (md_backdrop_path m)),
     (''status'', opt_json JStr (md_status m)), (''confidence'', md_confidence m),
     (''external_ids'', JObj (map (map_prod id JStr) (md_external_ids m)))]"

definition dec_matrix :: "lib \<Rightarrow> json \<Rightarrow> matrix option option" where
  "dec_matrix L j = (case normalize_episode_matrix (uni_digit L) j of Inl _ \<Rightarrow> None | Inr m \<Rightarrow> Some m)"

definition dec_texts :: "json \<Rightarrow> (string \<times> string) list option" where
  "dec_texts j = (case j of
      JObj kvs \<Rightarrow> those (map (\<lambda>kv. map_option (Pair (fst kv)) (dec_str (snd kv))) kvs)
    | _ \<Rightarrow> None)"

text \<open>The default of \<open>confidence\<close> is the integer 0, which is not validated.\<close>

definition parse_metadata :: "lib \<Rightarrow> json \<Rightarrow> metadata option" where
  "parse_metadata L j = do {
     kvs \<leftarrow> dec_obj j;
     tmdb \<leftarrow> required ''tmdb_id'' (dec_int L) kvs;
     imdb \<leftarrow> defaulted ''imdb_id'' None (dec_opt dec_str) kvs;
     mt \<leftarrow> required ''media_type'' dec_str kvs;
     mtype \<leftarrow> media_type_of mt;
     title \<leftarrow> required ''title'' dec_str kvs;
     chinese \<leftarrow> defaulted ''chinese_title'' None (dec_opt dec_str) kvs;
     english \<leftarrow> defaulted ''english_title'' None (dec_opt dec_str) kvs;
     original \<leftarrow> defaulted ''original_title'' None (dec_opt dec_str) kvs;
     language \<leftarrow> defaulted ''original_language'' None (dec_opt dec_str) kvs;
     countries \<leftarrow> defaulted ''country_codes'' None (\<lambda>v. Some (normalize_country_codes L v)) kvs;
     aliases \<leftarrow> defaulted ''aliases'' [] (dec_list dec_str) kvs;
     year \<leftarrow> defaulted ''year'' None (dec_opt (dec_int L)) kvs;
     seasons \<leftarrow> defaulted ''number_of_seasons'' None (dec_opt (dec_int L)) kvs;
     episodes \<leftarrow> defaulted ''number_of_episodes'' None (dec_opt (dec_int L)) kvs;
     matrix \<leftarrow> defaulted ''episode_matrix'' None (dec_matrix L) kvs;
     poster \<leftarrow> defaulted ''poster_path'' None (dec_opt dec_str) kvs;
     backdrop \<leftarrow> defaulted ''backdrop_path'' None (dec_opt dec_str) kvs;
     status \<leftarrow> defaulted ''status'' None (dec_opt dec_str) kvs;
     confidence \<leftarrow> defaulted ''confidence'' (JInt 0)
       (\<lambda>v. map_option JFloat (where_ok (\<lambda>r. float_at_least L 0 r \<and> float_at_most L 1 r) (dec_float L) v)) kvs;
     ids \<leftarrow> defaulted ''external_ids'' [] dec_texts kvs;
     check (nonneg seasons \<and> nonneg episodes);
     Some \<lparr> md_tmdb_id = tmdb, md_imdb_id = imdb, md_media_type = mtype, md_title = title,
       md_chinese_title = chinese, md_english_title = english, md_original_title = original,
       md_original_language = language, md_country_codes = countries, md_aliases = aliases, md_year = year,
       md_number_of_seasons = seasons, md_number_of_episodes = episodes, md_episode_matrix = matrix,
       md_poster_path = poster, md_backdrop_path = backdrop, md_status = status, md_confidence = confidence,
       md_external_ids = ids \<rparr> }"

section \<open>The candidate in a JSON column\<close>

definition candidate_json :: "lib \<Rightarrow> torrent_candidate \<Rightarrow> json" where
  "candidate_json L c = JObj
    [(''site_id'', JStr (tc_site_id c)), (''torrent_id'', JStr (tc_torrent_id c)),
     (''release_title'', JStr (tc_release_title c)), (''details_ref'', JStr (tc_details_ref c)),
     (''media_type'', JStr (media_type_value (tc_media_type c))), (''tmdb_id'', opt_json JInt (tc_tmdb_id c)),
     (''imdb_id'', opt_json JStr (tc_imdb_id c)), (''year'', opt_json JInt (tc_year c)),
     (''season'', opt_json JInt (tc_season c)), (''episodes'', opt_json ints_json (tc_episodes c)),
     (''collection_type'', opt_json JStr (tc_collection_type c)),
     (''resolution'', opt_json JStr (tc_resolution c)), (''source'', opt_json JStr (tc_source c)),
     (''codec'', opt_json JStr (tc_codec c)), (''hdr'', opt_json strs_json (tc_hdr c)),
     (''audio'', opt_json strs_json (tc_audio c)), (''subtitles'', opt_json strs_json (tc_subtitles c)),
     (''size_bytes'', opt_json JInt (tc_size_bytes c)), (''file_count'', opt_json JInt (tc_file_count c)),
     (''seeders'', opt_json JInt (tc_seeders c)), (''leechers'', opt_json JInt (tc_leechers c)),
     (''completed'', opt_json JInt (tc_completed c)),
     (''download_factor'', opt_json JFloat (tc_download_factor c)),
     (''upload_factor'', opt_json JFloat (tc_upload_factor c)),
     (''hit_and_run'', opt_json JBool (tc_hit_and_run c)), (''info_hash'', opt_json JStr (tc_info_hash c)),
     (''published_at'', opt_json (\<lambda>t. JStr (dt_text L t)) (tc_published_at c)),
     (''match_score'', opt_json JFloat (tc_match_score c)), (''match_reasons'', strs_json (tc_match_reasons c)),
     (''warnings'', strs_json (tc_warnings c))]"

section \<open>Titles\<close>

definition title_key :: "lib \<Rightarrow> string option \<Rightarrow> string" where
  "title_key L v =
    (case v of
       None \<Rightarrow> []
     | Some s \<Rightarrow> if s = [] then [] else concat (filter (isalnum1 L) (chars (casefold L (nfkc L s)))))"

text \<open>The titles of a source item and of a record, normalised, without the empty ones.\<close>

definition record_titles :: "lib \<Rightarrow> metadata \<Rightarrow> string list" where
  "record_titles L m = filter (\<lambda>t. t \<noteq> [])
    (map (title_key L)
      ([Some (md_title m), md_chinese_title m, md_english_title m, md_original_title m] @ map Some (md_aliases m)))"

definition source_titles :: "lib \<Rightarrow> string \<Rightarrow> string option \<Rightarrow> string list" where
  "source_titles L title original =
    filter (\<lambda>t. t \<noteq> []) [title_key L (Some title), title_key L original]"

section \<open>The score of a metadata record\<close>

record tally =
  ty_score :: rat
  ty_reasons :: "string list"
  ty_warnings :: "string list"

definition reward :: "lib \<Rightarrow> rat \<Rightarrow> string \<Rightarrow> tally \<Rightarrow> tally" where
  "reward L points reason t =
    t\<lparr> ty_score := fl_add L (ty_score t) (fl_round L points), ty_reasons := ty_reasons t @ [reason] \<rparr>"

definition warn :: "string \<Rightarrow> tally \<Rightarrow> tally" where
  "warn w t = t\<lparr> ty_warnings := ty_warnings t @ [w] \<rparr>"

definition no_tally :: tally where
  "no_tally = \<lparr> ty_score = 0, ty_reasons = [], ty_warnings = [] \<rparr>"

definition both :: "'a option \<Rightarrow> 'b option \<Rightarrow> ('a \<times> 'b) option" where
  "both x y = (case (x, y) of (Some a, Some b) \<Rightarrow> Some (a, b) | _ \<Rightarrow> None)"

text \<open>The conflicts of a metadata score are kept as the warnings of the tally.\<close>

definition score_metadata_match ::
    "lib \<Rightarrow> media_type \<Rightarrow> string \<Rightarrow> int option \<Rightarrow> metadata \<Rightarrow> int option \<Rightarrow> tally" where
  "score_metadata_match L media_type title year candidate expected_tmdb_id =
    (let t1 = (if expected_tmdb_id = Some (md_tmdb_id candidate) then reward L (5 / 10) ''TMDB_ID_EXACT'' no_tally
               else no_tally);
         t2 = (if md_media_type candidate = media_type then reward L (2 / 10) ''MEDIA_TYPE_MATCH'' t1
               else warn ''MEDIA_TYPE_CONFLICT'' t1);
         t3 = (case both year (md_year candidate) of
                 None \<Rightarrow> t2
               | Some (a, b) \<Rightarrow> if a = b then reward L (15 / 100) ''YEAR_MATCH'' t2 else warn ''YEAR_CONFLICT'' t2);
         source = title_key L (Some title);
         titles = map (title_key L)
           ([md_chinese_title candidate, md_english_title candidate, md_original_title candidate]
             @ map Some (md_aliases candidate));
         t4 = (if source \<noteq> [] \<and> source \<in> set titles then reward L (15 / 100) ''TITLE_EXACT'' t3 else t3)
     in t4\<lparr> ty_score := min 1 (ty_score t4) \<rparr>)"

section \<open>The score of a torrent candidate\<close>

record preferences =
  pf_resolutions :: "string list"
  pf_sources :: "string list"
  pf_audio :: "string list"
  pf_subtitles :: "string list"
  pf_max_size_bytes :: "int option"
  pf_possible_duplicate :: bool

definition preferred :: "lib \<Rightarrow> string option \<Rightarrow> string list \<Rightarrow> bool" where
  "preferred L v options =
    (case v of
       None \<Rightarrow> False
     | Some s \<Rightarrow> s \<noteq> [] \<and> list_ex (\<lambda>x. occurs (casefold L x) (casefold L s)) options)"

definition list_preferred :: "lib \<Rightarrow> string list option \<Rightarrow> string list \<Rightarrow> bool" where
  "list_preferred L values options =
    (case values of None \<Rightarrow> False | Some vs \<Rightarrow> list_ex (\<lambda>v. preferred L (Some v) options) vs)"

definition nonempty :: "string option \<Rightarrow> bool" where
  "nonempty x = (case x of None \<Rightarrow> False | Some s \<Rightarrow> s \<noteq> [])"

definition score_identity :: "lib \<Rightarrow> metadata \<Rightarrow> torrent_candidate \<Rightarrow> tally \<Rightarrow> tally" where
  "score_identity L m c t =
    (case tc_tmdb_id c of
       Some i \<Rightarrow> if i = md_tmdb_id m then reward L (32 / 100) ''TMDB_ID_EXACT'' t else warn ''ID_MISMATCH'' t
     | None \<Rightarrow>
         if nonempty (tc_imdb_id c) \<and> nonempty (md_imdb_id m) then
           (if casefold L (the (tc_imdb_id c)) = casefold L (the (md_imdb_id m))
            then reward L (28 / 100) ''IMDB_ID_EXACT'' t else warn ''ID_MISMATCH'' t)
         else t)"

definition score_coverage :: "lib \<Rightarrow> int list \<Rightarrow> torrent_candidate \<Rightarrow> tally \<Rightarrow> tally" where
  "score_coverage L needed c t =
    (case tc_episodes c of
       None \<Rightarrow>
         if tc_collection_type c = Some ''season''
         then warn ''EPISODE_COVERAGE_UNKNOWN'' (reward L (4 / 100) ''SEASON_PACK_COVERS_TARGET_SEASON'' t)
         else t
     | Some offered \<Rightarrow>
         if offered = [] then t
         else if set offered = set needed then reward L (9 / 100) ''EPISODE_COVERAGE_EXACT'' t
         else if set needed \<subseteq> set offered
           then warn ''EPISODE_OVERLAP'' (reward L (7 / 100) ''EPISODE_COVERAGE_COMPLETE'' t)
         else let t1 = warn ''PARTIAL_PACK'' t
              in if set offered \<inter> set needed \<noteq> {} then warn ''EPISODE_OVERLAP'' t1 else t1)"

definition score_season :: "lib \<Rightarrow> matrix \<Rightarrow> torrent_candidate \<Rightarrow> tally \<Rightarrow> tally" where
  "score_season L needed c t =
    (case tc_season c of
       None \<Rightarrow> warn ''PARTIAL_PACK'' t
     | Some s \<Rightarrow>
         (case map_of needed s of
            None \<Rightarrow> warn ''PARTIAL_PACK'' t
          | Some es \<Rightarrow> score_coverage L es c (reward L (7 / 100) ''SEASON_EXACT'' t)))"

definition score_year :: "lib \<Rightarrow> metadata \<Rightarrow> torrent_candidate \<Rightarrow> tally \<Rightarrow> tally" where
  "score_year L m c t =
    (case both (tc_year c) (md_year m) of
       None \<Rightarrow> t
     | Some (a, b) \<Rightarrow> if a = b then reward L (1 / 10) ''YEAR_MATCH'' t else warn ''YEAR_MISMATCH'' t)"

definition score_preferences :: "lib \<Rightarrow> preferences \<Rightarrow> torrent_candidate \<Rightarrow> tally \<Rightarrow> tally" where
  "score_preferences L p c t =
    (let t1 = (if preferred L (tc_resolution c) (pf_resolutions p) then reward L (7 / 100) ''PREFERRED_RESOLUTION'' t else t);
         t2 = (if preferred L (tc_source c) (pf_sources p) then reward L (4 / 100) ''PREFERRED_SOURCE'' t1 else t1);
         t3 = (if list_preferred L (tc_audio c) (pf_audio p) then reward L (3 / 100) ''PREFERRED_AUDIO'' t2 else t2)
     in if list_preferred L (tc_subtitles c) (pf_subtitles p) then reward L (4 / 100) ''PREFERRED_SUBTITLE'' t3 else t3)"

text \<open>\<open>min(0.04, 0.01 + seeders / 1000)\<close>.\<close>

definition seeder_points :: "lib \<Rightarrow> int \<Rightarrow> rat" where
  "seeder_points L n = min (fl_round L (4 / 100)) (fl_add L (fl_round L (1 / 100)) (fl_div L (of_int n) 1000))"

definition score_availability :: "lib \<Rightarrow> torrent_candidate \<Rightarrow> tally \<Rightarrow> tally" where
  "score_availability L c t =
    (let t1 = (case tc_seeders c of
           None \<Rightarrow> warn ''NO_SEEDERS'' t
         | Some n \<Rightarrow> if n > 0
             then t\<lparr> ty_score := fl_add L (ty_score t) (seeder_points L n),
                 ty_reasons := ty_reasons t @ [''ACTIVE_SEEDERS''] \<rparr>
             else warn ''NO_SEEDERS'' t)
     in case tc_download_factor c of
          None \<Rightarrow> t1
        | Some r \<Rightarrow> if finite_text r \<and> float_val L r < 1 then reward L (3 / 100) ''PROMOTION_ACTIVE'' t1 else t1)"

definition score_safety :: "lib \<Rightarrow> preferences \<Rightarrow> torrent_candidate \<Rightarrow> tally \<Rightarrow> tally" where
  "score_safety L p c t =
    (let t1 = (case both (pf_max_size_bytes p) (tc_size_bytes c) of
           None \<Rightarrow> t
         | Some (bound, n) \<Rightarrow> if n > bound then warn ''OVERSIZED'' t else reward L (2 / 100) ''SIZE_WITHIN_LIMIT'' t);
         t2 = (if \<not> rule_known (effective_hnr_rule L (tc_site_id c) (tc_hit_and_run c)) then warn ''HNR_UNKNOWN'' t1
               else t1)
     in if pf_possible_duplicate p then warn ''POSSIBLE_DUPLICATE'' t2 else t2)"

definition torrent_tally ::
    "lib \<Rightarrow> metadata \<Rightarrow> string list option \<Rightarrow> preferences \<Rightarrow> torrent_candidate \<Rightarrow> tally" where
  "torrent_tally L m missing p c =
    (let t1 = score_identity L m c no_tally;
         t2 = (if tc_media_type c = md_media_type m then reward L (14 / 100) ''MEDIA_TYPE_MATCH'' t1
               else warn ''ID_MISMATCH'' t1);
         needed = required_episode_map (uni_digit L) (case missing of None \<Rightarrow> [] | Some codes \<Rightarrow> codes);
         t3 = (if md_media_type m = MT_TV \<and> needed \<noteq> [] then score_season L needed c t2 else t2)
     in score_safety L p c (score_availability L c (score_preferences L p c (score_year L m c t3))))"

definition score_torrent_candidate ::
    "lib \<Rightarrow> metadata \<Rightarrow> torrent_candidate \<Rightarrow> string list option \<Rightarrow> preferences \<Rightarrow> torrent_candidate" where
  "score_torrent_candidate L m c missing p =
    (let t = torrent_tally L m missing p c
     in c\<lparr> tc_match_score := Some (fl_text L (min 1 (fl_round4 L (ty_score t)))),
          tc_match_reasons := dedup (ty_reasons t), tc_warnings := dedup (ty_warnings t) \<rparr>)"

end
