(* ===== verification/Eligibility.thy ===== *)
theory Eligibility
  imports AutomationPolicy WorkflowStore Matching DownloadExecutor
begin

text \<open>
  The decisions of \<open>services/automation.py\<close>: whether the best match of an identity, or the best
  candidate of a search, may be acted on without a person. The evaluation collects every reason
  against it; it is eligible when there is none. The rules are the numbers of a verified
  revision; a rule that is not a finite number raises.
\<close>

section \<open>Results\<close>

record eligibility =
  el_eligible :: bool
  el_reason_codes :: "string list"
  el_evidence :: "(string \<times> json) list"
  el_selected_id :: "string option"

definition reason_when :: "bool \<Rightarrow> string \<Rightarrow> string list" where
  "reason_when c r = (if c then [r] else [])"

definition not_eligible :: "string list \<Rightarrow> (string \<times> json) list \<Rightarrow> string option \<Rightarrow> eligibility" where
  "not_eligible reasons evidence selected =
    \<lparr> el_eligible = False, el_reason_codes = reasons, el_evidence = evidence, el_selected_id = selected \<rparr>"

definition judged :: "string list \<Rightarrow> (string \<times> json) list \<Rightarrow> string \<Rightarrow> eligibility" where
  "judged reasons evidence selected =
    \<lparr> el_eligible = (reasons = []), el_reason_codes = dedup reasons, el_evidence = evidence,
       el_selected_id = Some selected \<rparr>"

section \<open>Rules\<close>

definition rule_value :: "json \<Rightarrow> string \<Rightarrow> exn + json" where
  "rule_value rules k = (case rules of
      JObj kvs \<Rightarrow> option_or PyKeyError (map_of kvs k)
    | _ \<Rightarrow> Inl PyTypeError)"

definition rule_float :: "lib \<Rightarrow> json \<Rightarrow> string \<Rightarrow> exn + rat" where
  "rule_float L rules k =
    bindR (rule_value rules k) (\<lambda>v.
    case v of
      JFloat r \<Rightarrow> if finite_text r then Inr (float_val L r) else Inl PyValueError
    | JInt n \<Rightarrow> Inr (fl_round L (of_int n))
    | JBool b \<Rightarrow> Inr (if b then 1 else 0)
    | JStr _ \<Rightarrow> Inl PyValueError
    | _ \<Rightarrow> Inl PyTypeError)"

definition truncated :: "rat \<Rightarrow> int" where
  "truncated x = (if x < 0 then \<lceil>x\<rceil> else \<lfloor>x\<rfloor>)"

definition rule_int :: "lib \<Rightarrow> json \<Rightarrow> string \<Rightarrow> exn + int" where
  "rule_int L rules k =
    bindR (rule_value rules k) (\<lambda>v.
    case v of
      JInt n \<Rightarrow> Inr n
    | JFloat r \<Rightarrow> if finite_text r then Inr (truncated (float_val L r)) else Inl PyValueError
    | JBool b \<Rightarrow> Inr (if b then 1 else 0)
    | JStr _ \<Rightarrow> Inl PyValueError
    | _ \<Rightarrow> Inl PyTypeError)"

section \<open>The identity\<close>

definition ranked_matches :: "match_row list \<Rightarrow> match_row list" where
  "ranked_matches ms = sort_key (\<lambda>x. (mm_rank x, mm_id x)) ms"

definition metadata_title_exact :: "lib \<Rightarrow> media_row \<Rightarrow> metadata \<Rightarrow> bool" where
  "metadata_title_exact L m c \<longleftrightarrow>
    list_ex (\<lambda>t. t \<in> set (record_titles L c)) (source_titles L (me_title m) (me_original_title m))"

definition second_score :: "('a \<Rightarrow> string) \<Rightarrow> 'a list \<Rightarrow> string" where
  "second_score score rest = (case rest of [] \<Rightarrow> ''0.0'' | x # _ \<Rightarrow> score x)"

definition zero_or :: "lib \<Rightarrow> ('a \<Rightarrow> string) \<Rightarrow> 'a list \<Rightarrow> rat" where
  "zero_or L score rest = (case rest of [] \<Rightarrow> 0 | x # _ \<Rightarrow> float_val L (score x))"

definition identity_required :: "media_row \<Rightarrow> string list" where
  "identity_required m =
    ''MEDIA_TYPE_MATCH'' # (if me_tmdb_id m \<noteq> None then [''TMDB_ID_EXACT''] else [''TITLE_EXACT'', ''YEAR_MATCH''])"

definition identity_candidate_reasons :: "lib \<Rightarrow> media_row \<Rightarrow> match_row \<Rightarrow> metadata \<Rightarrow> string list" where
  "identity_candidate_reasons L m best c =
    reason_when (md_media_type c \<noteq> me_media_type m) ''IDENTITY_MEDIA_TYPE_MISMATCH''
    @ (if me_tmdb_id m \<noteq> None then
         reason_when (Some (md_tmdb_id c) \<noteq> me_tmdb_id m) ''IDENTITY_TMDB_ID_MISMATCH''
       else
         reason_when (''TITLE_EXACT'' \<in> set (mm_match_reasons best) \<and> \<not> metadata_title_exact L m c)
           ''IDENTITY_TITLE_EVIDENCE_MISMATCH''
         @ reason_when (\<not> metadata_title_exact L m c) ''IDENTITY_TITLE_NOT_EXACT''
         @ (case both (me_year m) (md_year c) of
              None \<Rightarrow> [''IDENTITY_YEAR_UNKNOWN'']
            | Some (a, b) \<Rightarrow> reason_when (a \<noteq> b) ''IDENTITY_YEAR_MISMATCH''))
    @ reason_when (\<not> set (identity_required m) \<subseteq> set (mm_match_reasons best)) ''IDENTITY_REQUIRED_EVIDENCE_MISSING''"

definition title_evidence :: "lib \<Rightarrow> media_row \<Rightarrow> metadata \<Rightarrow> (string \<times> json) list" where
  "title_evidence L m c =
    (if me_tmdb_id m \<noteq> None then [] else [(''title_exact_verified'', JBool (metadata_title_exact L m c))])"

definition evaluate_identity_candidates ::
    "lib \<Rightarrow> media_row \<Rightarrow> match_row list \<Rightarrow> revision \<Rightarrow> string \<Rightarrow> bool \<Rightarrow> exn + eligibility" where
  "evaluate_identity_candidates L m ms r job_id input_matches =
    (let ranked = ranked_matches ms;
         evidence = [(''resolution_job_id'', JStr job_id), (''candidate_count'', JInt (int (length ranked))),
           (''input_fingerprint_matches'', JBool input_matches),
           (''source_has_tmdb_id'', JBool (me_tmdb_id m \<noteq> None))];
         stale = reason_when (\<not> input_matches) ''IDENTITY_INPUT_STALE''
     in case ranked of
       [] \<Rightarrow> Inr (not_eligible (stale @ [''IDENTITY_CANDIDATES_EMPTY'']) evidence None)
     | best # rest \<Rightarrow>
         let runner = second_score mm_score rest;
             margin = fl_sub L (float_val L (mm_score best)) (zero_or L mm_score rest);
             evidence = evidence @ [(''selected_metadata_match_id'', JStr (mm_id best)),
               (''top_score'', JFloat (mm_score best)), (''runner_score'', JFloat runner),
               (''score_margin'', JFloat (fl_text L margin)), (''match_reasons'', strs_json (mm_match_reasons best)),
               (''conflicts'', strs_json (mm_conflicts best))]
         in bindR (rule_float L (pr_eligibility_rules r) ''identity_min_score'') (\<lambda>min_score.
            bindR (rule_float L (pr_eligibility_rules r) ''identity_min_margin'') (\<lambda>min_margin.
            let reasons = stale
                @ reason_when (list_ex (\<lambda>x. mm_resolution_job_id x \<noteq> Some job_id) ranked) ''IDENTITY_RESOLUTION_JOB_MISMATCH''
                @ reason_when (float_val L (mm_score best) < min_score) ''IDENTITY_SCORE_TOO_LOW''
                @ reason_when (margin < min_margin) ''IDENTITY_MARGIN_TOO_SMALL''
                @ reason_when (mm_conflicts best \<noteq> []) ''IDENTITY_CONFLICTS_PRESENT''
            in case parse_metadata L (mm_candidate_snapshot best) of
                 None \<Rightarrow> Inr (not_eligible (dedup (reasons @ [''IDENTITY_CANDIDATE_INVALID''])) evidence (Some (mm_id best)))
               | Some c \<Rightarrow> Inr (judged (reasons @ identity_candidate_reasons L m best c)
                   (evidence @ title_evidence L m c) (mm_id best)))))"

section \<open>The torrent\<close>

definition ranked_candidates :: "lib \<Rightarrow> candidate_row list \<Rightarrow> candidate_row list" where
  "ranked_candidates L cs = sort_key (\<lambda>c. (- float_val L (cr_match_score c), cr_id c)) cs"

definition avistaz :: "lib \<Rightarrow> string \<Rightarrow> bool" where
  "avistaz L site \<longleftrightarrow> casefold L site = ''avistaz''"

definition blocking_warnings :: "lib \<Rightarrow> candidate_row \<Rightarrow> string list" where
  "blocking_warnings L best = filter (\<lambda>w. \<not> (avistaz L (cr_site_id best) \<and> w = ''HNR_UNKNOWN'')) (cr_warnings best)"

definition tmdb_exact :: "media_row \<Rightarrow> torrent_candidate \<Rightarrow> bool" where
  "tmdb_exact m c \<longleftrightarrow> me_tmdb_id m \<noteq> None \<and> tc_tmdb_id c = me_tmdb_id m"

definition imdb_exact :: "lib \<Rightarrow> metadata option \<Rightarrow> torrent_candidate \<Rightarrow> bool" where
  "imdb_exact L confirmed c \<longleftrightarrow>
    (case confirmed of
       None \<Rightarrow> False
     | Some d \<Rightarrow> nonempty (md_imdb_id d) \<and> nonempty (tc_imdb_id c)
         \<and> casefold L (the (tc_imdb_id c)) = casefold L (the (md_imdb_id d)))"

definition identity_reasons :: "lib \<Rightarrow> media_row \<Rightarrow> candidate_row \<Rightarrow> metadata option \<Rightarrow> torrent_candidate \<Rightarrow> string list" where
  "identity_reasons L m best confirmed c =
    (let by_tmdb = ''TMDB_ID_EXACT'' \<in> set (cr_match_reasons best);
         by_imdb = ''IMDB_ID_EXACT'' \<in> set (cr_match_reasons best)
     in reason_when (by_tmdb \<and> \<not> tmdb_exact m c \<or> by_imdb \<and> \<not> imdb_exact L confirmed c)
          ''TORRENT_EXTERNAL_ID_EVIDENCE_MISMATCH''
        @ reason_when (by_imdb \<and> \<not> by_tmdb) ''TORRENT_IMDB_ONLY_REQUIRES_MANUAL''
        @ reason_when (\<not> (by_tmdb \<and> tmdb_exact m c)) ''TORRENT_EXTERNAL_ID_NOT_EXACT'')"

text \<open>\<open>_INFO_HASH\<close>, and the tests of the size.\<close>

definition info_hash_known :: "torrent_candidate \<Rightarrow> bool" where
  "info_hash_known c = (case tc_info_hash c of None \<Rightarrow> False | Some h \<Rightarrow> hexs 40 h \<or> hexs 64 h)"

definition size_reasons :: "int option \<Rightarrow> torrent_candidate \<Rightarrow> string list" where
  "size_reasons max_size c =
    (case tc_size_bytes c of
       None \<Rightarrow> [''TORRENT_SIZE_UNKNOWN'']
     | Some n \<Rightarrow>
         if n \<le> 0 then [''TORRENT_SIZE_UNKNOWN'']
         else reason_when (case max_size of None \<Rightarrow> False | Some b \<Rightarrow> n > b) ''TORRENT_SIZE_LIMIT_EXCEEDED'')"

definition coverage_reasons :: "media_row \<Rightarrow> candidate_row \<Rightarrow> string list" where
  "coverage_reasons m best =
    (if me_media_type m \<noteq> MT_TV then []
     else if me_missing_episodes m \<in> {None, Some []} then [''TV_MISSING_EPISODES_UNKNOWN'']
     else reason_when (''EPISODE_COVERAGE_EXACT'' \<notin> set (cr_match_reasons best)
         \<and> ''EPISODE_COVERAGE_COMPLETE'' \<notin> set (cr_match_reasons best)) ''TV_EPISODE_COVERAGE_UNSAFE'')"

definition torrent_candidate_reasons ::
    "lib \<Rightarrow> media_row \<Rightarrow> candidate_row \<Rightarrow> string \<Rightarrow> int option \<Rightarrow> metadata option \<Rightarrow> int \<Rightarrow> torrent_candidate \<Rightarrow> string list" where
  "torrent_candidate_reasons L m best site max_size confirmed min_seeders c =
    reason_when (\<not> avistaz L (tc_site_id c) \<or> tc_site_id c \<noteq> site) ''TORRENT_SITE_BINDING_MISMATCH''
    @ reason_when (tc_media_type c \<noteq> me_media_type m) ''TORRENT_MEDIA_TYPE_MISMATCH''
    @ identity_reasons L m best confirmed c
    @ reason_when (me_year m \<noteq> None \<and> tc_year c \<noteq> me_year m) ''TORRENT_YEAR_NOT_EXACT''
    @ reason_when (\<not> rule_known (effective_hnr_rule L (tc_site_id c) (tc_hit_and_run c))) ''HNR_UNKNOWN''
    @ reason_when (\<not> info_hash_known c) ''TORRENT_INFO_HASH_UNKNOWN''
    @ size_reasons max_size c
    @ reason_when (case tc_seeders c of None \<Rightarrow> True | Some n \<Rightarrow> n < min_seeders) ''TORRENT_SEEDERS_INSUFFICIENT''
    @ coverage_reasons m best"

definition evaluate_torrent_candidates ::
    "lib \<Rightarrow> media_row \<Rightarrow> candidate_row list \<Rightarrow> revision \<Rightarrow> string \<Rightarrow> string \<Rightarrow> int option \<Rightarrow> metadata option
      \<Rightarrow> exn + eligibility" where
  "evaluate_torrent_candidates L m cs r job_id site max_size confirmed =
    (let ranked = ranked_candidates L cs;
         evidence = [(''search_job_id'', JStr job_id), (''site_id'', JStr site),
           (''candidate_count'', JInt (int (length ranked))),
           (''confirmed_identity_present'', JBool (confirmed \<noteq> None))];
         foreign = reason_when (\<not> avistaz L site) ''TORRENT_SITE_NOT_AUTOMATABLE''
     in case ranked of
       [] \<Rightarrow> Inr (not_eligible (foreign @ [''TORRENT_CANDIDATES_EMPTY'']) evidence None)
     | best # rest \<Rightarrow>
         let runner = second_score cr_match_score rest;
             margin = fl_sub L (float_val L (cr_match_score best)) (zero_or L cr_match_score rest);
             evidence = evidence @ [(''selected_torrent_candidate_id'', JStr (cr_id best)),
               (''top_score'', JFloat (cr_match_score best)), (''runner_score'', JFloat runner),
               (''score_margin'', JFloat (fl_text L margin)), (''match_reasons'', strs_json (cr_match_reasons best)),
               (''warnings'', strs_json (cr_warnings best))]
         in bindR (rule_float L (pr_eligibility_rules r) ''torrent_min_score'') (\<lambda>min_score.
            bindR (rule_float L (pr_eligibility_rules r) ''torrent_min_margin'') (\<lambda>min_margin.
            let reasons = foreign
                @ reason_when (float_val L (cr_match_score best) < min_score) ''TORRENT_SCORE_TOO_LOW''
                @ reason_when (margin < min_margin) ''TORRENT_MARGIN_TOO_SMALL''
                @ reason_when (blocking_warnings L best \<noteq> []) ''TORRENT_WARNINGS_PRESENT''
            in case parse_candidate L (cr_candidate_snapshot best) of
                 None \<Rightarrow> Inr (not_eligible (dedup (reasons @ [''TORRENT_CANDIDATE_INVALID''])) evidence (Some (cr_id best)))
               | Some c \<Rightarrow>
                   bindR (rule_int L (pr_eligibility_rules r) ''torrent_min_seeders'') (\<lambda>min_seeders.
                   Inr (judged (reasons @ torrent_candidate_reasons L m best site max_size confirmed min_seeders c)
                     (evidence @ [(''tmdb_id_exact_verified'', JBool (tmdb_exact m c)),
                       (''imdb_id_exact_verified'', JBool (imdb_exact L confirmed c))]) (cr_id best))))))"

section \<open>The mode of a stage\<close>

definition subject_is_new_for_revision :: "datetime \<Rightarrow> revision \<Rightarrow> bool" where
  "subject_is_new_for_revision created r \<longleftrightarrow> as_utc (pr_effective_from r) \<le> as_utc created"

definition mode_outcome ::
    "revision \<Rightarrow> automation_stage \<Rightarrow> datetime \<Rightarrow> bool \<Rightarrow> (decision_outcome \<times> string list) option" where
  "mode_outcome r stage created engine_enabled =
    (if \<not> subject_is_new_for_revision created r then Some (DO_STALE, [''SUBJECT_PREDATES_POLICY''])
     else if stage_mode r stage = AM_DISABLED then Some (DO_DISABLED, [''POLICY_STAGE_DISABLED''])
     else if stage_mode r stage = AM_MANUAL then Some (DO_MANUAL_REQUIRED, [''POLICY_REQUIRES_MANUAL_ACTION''])
     else if \<not> engine_enabled then Some (DO_BLOCKED, [''AUTOMATION_ENGINE_DISABLED''])
     else None)"

definition automation_actor :: "revision \<Rightarrow> string" where
  "automation_actor r = ''system:automation:r'' @ show_int (pr_revision_no r)"

end
