(* ===== verification/Workflow.thy ===== *)
theory Workflow
  imports WorkflowStore Matching Preflight
begin

text \<open>
  \<open>services/workflow.py\<close>: the identity of a media item is resolved by a job, confirmed once, and
  then searched for on a site by another job. The handlers work on the rows of one session; a
  media item is named by its identifier, since the source locks and reads its row again. New
  identifiers and the clock are arguments.
\<close>

section \<open>Fingerprints of the input of a job\<close>

definition metadata_resolution_input_fingerprint :: "lib \<Rightarrow> media_row \<Rightarrow> string" where
  "metadata_resolution_input_fingerprint L m = sha256_hex L (dumps (JObj
    [(''source'', JStr (me_source m)), (''source_item_id'', JStr (me_source_item_id m)),
     (''media_type'', JStr (media_type_value (me_media_type m))), (''tmdb_id'', opt_json JInt (me_tmdb_id m)),
     (''title'', JStr (me_title m)), (''original_title'', opt_json JStr (me_original_title m)),
     (''year'', opt_json JInt (me_year m))]))"

text \<open>\<open>TorrentSearchCreateRequest\<close> of \<open>schemas/entities.py\<close>.\<close>

record search_create_request =
  sq_site_id :: string
  sq_preferred_resolutions :: "string list"
  sq_preferred_sources :: "string list"
  sq_preferred_audio :: "string list"
  sq_preferred_subtitles :: "string list"
  sq_max_size_bytes :: "int option"

definition search_request_json :: "search_create_request \<Rightarrow> json" where
  "search_request_json q = JObj
    [(''site_id'', JStr (sq_site_id q)), (''preferred_resolutions'', strs_json (sq_preferred_resolutions q)),
     (''preferred_sources'', strs_json (sq_preferred_sources q)),
     (''preferred_audio'', strs_json (sq_preferred_audio q)),
     (''preferred_subtitles'', strs_json (sq_preferred_subtitles q)),
     (''max_size_bytes'', opt_json JInt (sq_max_size_bytes q))]"

definition dec_preferences :: "json \<Rightarrow> string list option" where
  "dec_preferences = where_ok (\<lambda>xs. length xs \<le> 10) (dec_list dec_str)"

definition parse_search_request :: "lib \<Rightarrow> json \<Rightarrow> search_create_request option" where
  "parse_search_request L j = do {
     kvs \<leftarrow> dec_obj j;
     only_keys [''site_id'', ''preferred_resolutions'', ''preferred_sources'', ''preferred_audio'',
       ''preferred_subtitles'', ''max_size_bytes''] kvs;
     site \<leftarrow> required ''site_id'' (where_ok site_id_ok dec_str) kvs;
     resolutions \<leftarrow> defaulted ''preferred_resolutions'' [] dec_preferences kvs;
     sources \<leftarrow> defaulted ''preferred_sources'' [] dec_preferences kvs;
     audio \<leftarrow> defaulted ''preferred_audio'' [] dec_preferences kvs;
     subtitles \<leftarrow> defaulted ''preferred_subtitles'' [] dec_preferences kvs;
     bound \<leftarrow> defaulted ''max_size_bytes'' None (dec_opt (where_ok (\<lambda>n. 1 \<le> n) (dec_int L))) kvs;
     Some \<lparr> sq_site_id = site, sq_preferred_resolutions = resolutions, sq_preferred_sources = sources,
       sq_preferred_audio = audio, sq_preferred_subtitles = subtitles, sq_max_size_bytes = bound \<rparr> }"

text \<open>\<open>x or y\<close> for lists, and for a bound.\<close>

definition list_or :: "'a list \<Rightarrow> 'a list \<Rightarrow> 'a list" where
  "list_or xs ys = (if xs = [] then ys else xs)"

definition bound_or :: "int option \<Rightarrow> int option \<Rightarrow> int option" where
  "bound_or x y = (case x of None \<Rightarrow> y | Some n \<Rightarrow> if n = 0 then y else x)"

definition torrent_search_input_fingerprint ::
    "lib \<Rightarrow> media_row \<Rightarrow> review \<Rightarrow> search_create_request \<Rightarrow> settings \<Rightarrow> string" where
  "torrent_search_input_fingerprint L m r q st = sha256_hex L (dumps (JObj
    [(''media'', JObj
       [(''media_type'', JStr (media_type_value (me_media_type m))), (''tmdb_id'', opt_json JInt (me_tmdb_id m)),
        (''title'', JStr (me_title m)), (''year'', opt_json JInt (me_year m)),
        (''missing_episodes'', opt_json strs_json (me_missing_episodes m))]),
     (''identity_review_id'', JStr (iv_id r)), (''identity_snapshot'', iv_candidate_snapshot r),
     (''request'', search_request_json q),
     (''effective_preferences'', JObj
       [(''resolutions'', strs_json (list_or (sq_preferred_resolutions q) (st_preferred_resolutions st))),
        (''sources'', strs_json (list_or (sq_preferred_sources q) (st_preferred_sources st))),
        (''audio'', strs_json (list_or (sq_preferred_audio q) (st_preferred_audio st))),
        (''subtitles'', strs_json (list_or (sq_preferred_subtitles q) (st_preferred_subtitles st))),
        (''max_size_bytes'', opt_json JInt (bound_or (sq_max_size_bytes q) (st_max_candidate_size_bytes st)))])]))"

section \<open>The status of a media item\<close>

definition media_not_found :: exn where
  "media_not_found = app_err ''MEDIA_NOT_FOUND'' 404"

definition lock_media :: "string \<Rightarrow> media_row session" where
  "lock_media mid = bindH (getH (media_by_id mid)) (\<lambda>m. liftH (option_or media_not_found m))"

definition SEARCH_STATUS_PRECEDENCE :: "workflow_status list" where
  "SEARCH_STATUS_PRECEDENCE =
    [WF_TORRENT_REVIEW, WF_PT_SEARCHING, WF_PT_SEARCH_PENDING, WF_NO_CANDIDATE, WF_SEARCH_FAILED]"

definition search_statuses :: "string \<Rightarrow> db \<Rightarrow> workflow_status list" where
  "search_statuses mid s = map ru_status (filter (\<lambda>r. ru_media_id r = mid) (db_runs s))"

definition refresh_media_search_workflow_status :: "string \<Rightarrow> workflow_status session" where
  "refresh_media_search_workflow_status mid =
    bindH (lock_media mid) (\<lambda>m.
    bindH (getH (search_statuses mid)) (\<lambda>statuses.
    case find (\<lambda>x. x \<in> set statuses) SEARCH_STATUS_PRECEDENCE of
      Some x \<Rightarrow> bindH (save_media (m\<lparr> me_workflow_status := x \<rparr>)) (\<lambda>_. returnH x)
    | None \<Rightarrow> returnH (me_workflow_status m)))"

definition identity_finalization_evidence :: "media_row \<Rightarrow> db \<Rightarrow> string option" where
  "identity_finalization_evidence m s =
    (if list_ex (confirmed_for (me_id m)) (db_reviews s) then Some ''CONFIRMED_IDENTITY_REVIEW''
     else if list_ex (\<lambda>r. ru_media_id r = me_id m) (db_runs s) then Some ''TORRENT_SEARCH_HISTORY''
     else if me_workflow_status m = WF_IDENTITY_CONFIRMED then Some ''IDENTITY_CONFIRMED_STATUS''
     else None)"

section \<open>The job that resolves an identity\<close>

definition resolve_type :: "string \<Rightarrow> string" where
  "resolve_type mid = ''RESOLVE_METADATA:'' @ mid"

definition active_of_type :: "string list \<Rightarrow> db \<Rightarrow> task option" where
  "active_of_type types s = find (\<lambda>t. tk_job_type t \<in> set types \<and> active_task t) (db_tasks s)"

definition new_task :: "string \<Rightarrow> string \<Rightarrow> (string \<times> json) list \<Rightarrow> int \<Rightarrow> int \<Rightarrow> task" where
  "new_task nid job_type payload max_attempts now = \<lparr>
     tk_id = nid, tk_job_type = job_type, tk_status = TK_PENDING, tk_payload = payload, tk_run_id = None,
     tk_attempts = 0, tk_max_attempts = max_attempts, tk_next_retry_at = None, tk_locked_at = None,
     tk_locked_by = None, tk_lease_token = None, tk_error_code = None, tk_error_message = None,
     tk_created_at = Aware now \<rparr>"

definition enqueue_metadata_resolution :: "lib \<Rightarrow> string \<Rightarrow> int \<Rightarrow> string \<Rightarrow> int \<Rightarrow> (task \<times> bool) session" where
  "enqueue_metadata_resolution L mid max_attempts nid now =
    bindH (lock_media mid) (\<lambda>m.
    bindH (getH (identity_finalization_evidence m)) (\<lambda>evidence.
    bindH (raise_ifH (evidence \<noteq> None) (app_err ''IDENTITY_ALREADY_CONFIRMED'' 409)) (\<lambda>_.
    bindH (getH (active_of_type [resolve_type mid])) (\<lambda>existing.
    case existing of
      Some t \<Rightarrow> returnH (t, True)
    | None \<Rightarrow>
        let t = new_task nid (resolve_type mid)
          [(''media_id'', JStr mid), (''input_fingerprint'', JStr (metadata_resolution_input_fingerprint L m)),
           (''read_only'', JBool True)] max_attempts now in
        bindH (save_media (m\<lparr> me_workflow_status := WF_METADATA_PENDING, me_metadata_status := MS_UNRESOLVED \<rparr>)) (\<lambda>_.
        bindH (insert_task t) (\<lambda>_.
        bindH (insert_audit_event ''METADATA_RESOLUTION_QUEUED'' ''media_item'' mid
          (JObj [(''has_tmdb_id'', JBool (me_tmdb_id m \<noteq> None))])) (\<lambda>_.
        returnH (t, False))))))))"

definition SUPERSEDED_ERROR_CODE :: string where
  "SUPERSEDED_ERROR_CODE = ''METADATA_RESOLUTION_SUPERSEDED''"

definition cancel_metadata_resolution_job :: "lib \<Rightarrow> task \<Rightarrow> string \<Rightarrow> string \<Rightarrow> bool session" where
  "cancel_metadata_resolution_job L t mid evidence =
    (if \<not> active_task t then returnH False
     else
       bindH (save_task (t\<lparr> tk_status := TK_CANCELLED, tk_error_code := Some SUPERSEDED_ERROR_CODE,
         tk_error_message := Some (text_of L ''metadata resolution superseded''), tk_next_retry_at := None,
         tk_locked_at := None, tk_locked_by := None, tk_lease_token := None \<rparr>)) (\<lambda>_.
       bindH (insert_audit_event ''METADATA_RESOLUTION_CANCELLED'' ''job'' (tk_id t)
         (JObj [(''media_id'', JStr mid), (''from_status'', JStr (task_status_value (tk_status t))),
           (''error_code'', JStr SUPERSEDED_ERROR_CODE), (''evidence'', JStr evidence)])) (\<lambda>_.
       returnH True)))"

fun cancel_jobs :: "lib \<Rightarrow> string \<Rightarrow> string \<Rightarrow> task list \<Rightarrow> nat session" where
  "cancel_jobs L mid evidence [] = returnH 0"
| "cancel_jobs L mid evidence (t # ts) =
    bindH (cancel_metadata_resolution_job L t mid evidence) (\<lambda>done.
    bindH (cancel_jobs L mid evidence ts) (\<lambda>n.
    returnH ((if done then 1 else 0) + n)))"

definition active_resolutions :: "string \<Rightarrow> db \<Rightarrow> task list" where
  "active_resolutions mid s = sort_key (\<lambda>t. (as_utc (tk_created_at t), tk_id t))
    (filter (\<lambda>t. tk_job_type t = resolve_type mid \<and> active_task t) (db_tasks s))"

definition cancel_active_metadata_resolution_jobs :: "lib \<Rightarrow> string \<Rightarrow> string \<Rightarrow> nat session" where
  "cancel_active_metadata_resolution_jobs L mid evidence =
    bindH (getH (active_resolutions mid)) (cancel_jobs L mid evidence)"

section \<open>Confirming an identity\<close>

definition STRICT_IDENTITY_CONFIRMATION_ACTOR :: string where
  "STRICT_IDENTITY_CONFIRMATION_ACTOR = ''system:strict-identity''"

definition STRICT_IDENTITY_REQUIRED_REASONS :: "string list" where
  "STRICT_IDENTITY_REQUIRED_REASONS = [''TMDB_ID_EXACT'', ''MEDIA_TYPE_MATCH'', ''YEAR_MATCH'', ''TITLE_EXACT'']"

definition media_source_titles :: "lib \<Rightarrow> media_row \<Rightarrow> string list" where
  "media_source_titles L m = source_titles L (me_title m) (me_original_title m)"

definition strict_candidate_ok :: "lib \<Rightarrow> media_row \<Rightarrow> match_row \<Rightarrow> metadata \<Rightarrow> bool" where
  "strict_candidate_ok L m x c \<longleftrightarrow>
    me_tmdb_id m = Some (mm_tmdb_id x) \<and> me_tmdb_id m = Some (md_tmdb_id c)
    \<and> md_media_type c = me_media_type m \<and> md_year c \<noteq> None \<and> md_year c = me_year m
    \<and> media_source_titles L m \<noteq> []
    \<and> set (media_source_titles L m) \<subseteq> set (record_titles L c)"

definition strict_identity_auto_confirmation_match ::
    "lib \<Rightarrow> media_row \<Rightarrow> match_row list \<Rightarrow> string \<Rightarrow> match_row option" where
  "strict_identity_auto_confirmation_match L m matches job_id =
    (if me_tmdb_id m = None \<or> me_identity_confidence m \<noteq> IC_HIGH \<or> me_year m = None \<or> strip (me_title m) = []
     then None
     else case matches of
       [x] \<Rightarrow>
         if mm_resolution_job_id x \<noteq> Some job_id \<or> mm_rank x \<noteq> 1 \<or> mm_conflicts x \<noteq> []
           \<or> \<not> set STRICT_IDENTITY_REQUIRED_REASONS \<subseteq> set (mm_match_reasons x) then None
         else (case parse_metadata L (mm_candidate_snapshot x) of
           None \<Rightarrow> None
         | Some c \<Rightarrow> if strict_candidate_ok L m x c then Some x else None)
     | _ \<Rightarrow> None)"

definition tmdb_conflict :: "media_row \<Rightarrow> metadata \<Rightarrow> media_row \<Rightarrow> bool" where
  "tmdb_conflict m c x \<longleftrightarrow> me_id x \<noteq> me_id m \<and> me_source x = me_source m \<and> me_media_type x = md_media_type c
    \<and> me_tmdb_id x = Some (md_tmdb_id c)"

definition new_review :: "string \<Rightarrow> media_row \<Rightarrow> match_row \<Rightarrow> string \<Rightarrow> metadata \<Rightarrow> int \<Rightarrow> review" where
  "new_review nid m x actor c now = \<lparr> iv_id = nid, iv_media_id = me_id m, iv_metadata_match_id = mm_id x,
     iv_status = ''CONFIRMED'', iv_confirmed_by = actor, iv_candidate_snapshot = metadata_json c,
     iv_created_at = Aware now \<rparr>"

definition matrix_value :: "matrix option \<Rightarrow> json" where
  "matrix_value x = opt_json matrix_json x"

definition confirmed_media :: "media_row \<Rightarrow> metadata \<Rightarrow> string list option \<Rightarrow> media_row" where
  "confirmed_media m c missing = m\<lparr>
     me_tmdb_id := Some (md_tmdb_id c), me_media_type := md_media_type c,
     me_country_codes :=
       (if me_tmdb_id m \<noteq> Some (md_tmdb_id c) \<or> me_media_type m \<noteq> md_media_type c \<or> me_country_codes m = None
        then md_country_codes c else me_country_codes m),
     me_missing_episodes := missing, me_identity_confidence := IC_HIGH, me_metadata_status := MS_RESOLVED,
     me_workflow_status := WF_IDENTITY_CONFIRMED \<rparr>"

definition derived_missing :: "lib \<Rightarrow> media_row \<Rightarrow> metadata \<Rightarrow> exn + string list option" where
  "derived_missing L m c =
    (if md_media_type c = MT_TV
     then derive_missing_episode_codes (uni_digit L) (matrix_value (md_episode_matrix c))
       (me_local_episode_matrix m) (opt_json strs_json (me_missing_episodes m))
     else Inr None)"

definition confirm_identity :: "lib \<Rightarrow> string \<Rightarrow> string \<Rightarrow> string \<Rightarrow> string \<Rightarrow> string \<Rightarrow> int \<Rightarrow> review session" where
  "confirm_identity L mid match_id actor audit_event_type nid now =
    bindH (lock_media mid) (\<lambda>m.
    bindH (getH (identity_finalization_evidence m)) (\<lambda>evidence.
    bindH (raise_ifH (evidence \<noteq> None) (app_err ''IDENTITY_CONFIRMATION_DUPLICATE'' 409)) (\<lambda>_.
    bindH (getH (match_by_id match_id)) (\<lambda>y.
    bindH (liftH (option_or (app_err ''METADATA_MATCH_NOT_FOUND'' 404) y)) (\<lambda>x.
    bindH (raise_ifH (mm_media_id x \<noteq> mid) (app_err ''METADATA_MATCH_NOT_FOUND'' 404)) (\<lambda>_.
    bindH (liftH (option_or PyValueError (parse_metadata L (mm_candidate_snapshot x)))) (\<lambda>c.
    bindH (getH (\<lambda>s. list_ex (tmdb_conflict m c) (db_media s))) (\<lambda>conflict.
    bindH (raise_ifH conflict (app_err ''IDENTITY_UNIQUE_CONFLICT'' 409)) (\<lambda>_.
    bindH (cancel_active_metadata_resolution_jobs L mid ''IDENTITY_CONFIRMATION_COMMITTED'') (\<lambda>_.
    bindH (liftH (derived_missing L m c)) (\<lambda>missing.
    let r = new_review nid m x actor c now in
    bindH (save_media (confirmed_media m c missing)) (\<lambda>_.
    bindH (insert_review r) (\<lambda>_.
    bindH (insert_audit_event audit_event_type ''media_item'' mid
      (sanitize_details L (JObj [(''metadata_match_id'', JStr (mm_id x)), (''tmdb_id'', JInt (md_tmdb_id c)),
        (''operator'', JStr actor), (''candidate_snapshot'', metadata_json c)]))) (\<lambda>_.
    returnH r))))))))))))))"

definition auto_confirm_strict_identity ::
    "lib \<Rightarrow> media_row \<Rightarrow> match_row list \<Rightarrow> string \<Rightarrow> string \<Rightarrow> int \<Rightarrow> review option session" where
  "auto_confirm_strict_identity L m matches job_id nid now =
    (case strict_identity_auto_confirmation_match L m matches job_id of
       None \<Rightarrow> returnH None
     | Some x \<Rightarrow> bindH (confirm_identity L (me_id m) (mm_id x) STRICT_IDENTITY_CONFIRMATION_ACTOR
         ''IDENTITY_CONFIRMED_AUTOMATICALLY'' nid now) (\<lambda>r. returnH (Some r)))"

section \<open>The job that searches a site\<close>

definition search_type :: "string \<Rightarrow> string \<Rightarrow> string" where
  "search_type site mid = ''TORRENT_SEARCH:'' @ site @ '':'' @ mid"

definition legacy_search_type :: "string \<Rightarrow> string" where
  "legacy_search_type mid = ''TORRENT_SEARCH:'' @ mid"

definition new_run :: "string \<Rightarrow> string \<Rightarrow> search_create_request \<Rightarrow> search_run_row" where
  "new_run nid mid q = \<lparr> ru_id = nid, ru_media_id = mid, ru_site_id = sq_site_id q,
     ru_status = WF_PT_SEARCH_PENDING, ru_strategy_log = JList [], ru_sanitized_request = search_request_json q,
     ru_candidate_count = 0, ru_error_code = None, ru_error_message = None, ru_started_at = None,
     ru_finished_at = None \<rparr>"

text \<open>What \<open>enqueue_torrent_search\<close> answers without queueing again: the active run and its active job.\<close>

definition running_search :: "string \<Rightarrow> string \<Rightarrow> db \<Rightarrow> (search_run_row \<times> task) option" where
  "running_search mid site s =
    both (find (\<lambda>r. ru_media_id r = mid \<and> ru_site_id r = site \<and> active_search r) (db_runs s))
      (active_of_type (if site = ''avistaz'' then [search_type site mid, legacy_search_type mid]
        else [search_type site mid]) s)"

definition enqueue_torrent_search ::
    "lib \<Rightarrow> string \<Rightarrow> search_create_request \<Rightarrow> int \<Rightarrow> settings \<Rightarrow> string \<Rightarrow> string \<Rightarrow> int
      \<Rightarrow> (search_run_row \<times> task \<times> bool) session" where
  "enqueue_torrent_search L mid q max_attempts st run_nid job_nid now =
    bindH (lock_media mid) (\<lambda>m.
    bindH (getH (confirmed_review mid)) (\<lambda>y.
    bindH (liftH (option_or (app_err ''IDENTITY_CONFIRMATION_REQUIRED'' 409) y)) (\<lambda>r.
    bindH (getH (running_search mid (sq_site_id q))) (\<lambda>existing.
    case existing of
      Some (sr, t) \<Rightarrow> returnH (sr, t, True)
    | None \<Rightarrow>
        let sr = new_run run_nid mid q;
            t = new_task job_nid (search_type (sq_site_id q) mid)
              [(''media_id'', JStr mid), (''search_run_id'', JStr run_nid), (''site_id'', JStr (sq_site_id q)),
               (''input_fingerprint'', JStr (torrent_search_input_fingerprint L m r q st)),
               (''read_only'', JBool True)] max_attempts now in
        bindH (insert_run sr) (\<lambda>_.
        bindH (insert_task t) (\<lambda>_.
        bindH (insert_audit_event ''TORRENT_SEARCH_QUEUED'' ''torrent_search_run'' run_nid
          (JObj [(''media_id'', JStr mid), (''site_id'', JStr (sq_site_id q))])) (\<lambda>_.
        bindH (refresh_media_search_workflow_status mid) (\<lambda>_.
        returnH (sr, t, False)))))))))"

end
