(* ===== verification/Capability.thy ===== *)
theory Capability
  imports WorkflowStore Preflight
begin

text \<open>
  \<open>services/automation_capability.py\<close> and \<open>services/execution_capability.py\<close>: a worker that is
  configured for a capability publishes a heartbeat whose identifier carries the fingerprint of
  that configuration; another process takes the capability as ready while such a heartbeat of
  its own fingerprint is fresh.
\<close>

section \<open>The configuration of the target\<close>

definition target_policy_ok :: "lib \<Rightarrow> settings \<Rightarrow> bool" where
  "target_policy_ok L st \<longleftrightarrow> \<not> falsy_str (st_qb_target_category st) \<and> \<not> falsy_str (st_qb_target_save_path st)
    \<and> st_qb_allowed_save_paths st \<noteq> []
    \<and> is_allowed_save_path L (the (st_qb_target_save_path st)) (st_qb_allowed_save_paths st)"

text \<open>\<open>settings.qb_base_url_value()\<close> and \<open>urlparse\<close> of it, whose exceptions escape.\<close>

definition configured_url :: "settings \<Rightarrow> exn + string" where
  "configured_url st = (case st_qb_base_url_value st of
      Inl _ \<Rightarrow> Inl PyOSError | Inr None \<Rightarrow> Inr [] | Inr (Some u) \<Rightarrow> Inr u)"

definition qb_url_ok :: "lib \<Rightarrow> settings \<Rightarrow> split_url \<Rightarrow> bool" where
  "qb_url_ok L st parsed \<longleftrightarrow>
    scheme parsed \<in> set (if st_qb_allow_insecure_http st then [''https'', ''http''] else [''https''])
    \<and> casefold L (hostname L parsed) \<in> set (st_qb_allowed_hosts st)
    \<and> falsy_str (username parsed) \<and> falsy_str (password parsed) \<and> query parsed = [] \<and> fragment parsed = []"

definition require_qb_url :: "lib \<Rightarrow> settings \<Rightarrow> exn \<Rightarrow> exn + unit" where
  "require_qb_url L st e =
    bindR (configured_url st) (\<lambda>u.
    bindR (option_or PyValueError (urlsplit L u)) (\<lambda>parsed.
    raise_if (\<not> qb_url_ok L st parsed) e))"

definition disabled_flags :: "(string \<times> bool) list \<Rightarrow> string list" where
  "disabled_flags flags = map fst (filter (\<lambda>f. \<not> snd f) flags)"

definition require_flags :: "string \<Rightarrow> (string \<times> bool) list \<Rightarrow> exn + unit" where
  "require_flags code flags = raise_if (disabled_flags flags \<noteq> [])
    (app_err_details code 409 [(''missing_flags'', strs_json (disabled_flags flags))])"

section \<open>The preflight of the automation worker\<close>

definition preflight_not_ready :: exn where
  "preflight_not_ready = app_err ''AUTOMATION_PREFLIGHT_NOT_READY'' 409"

definition require_automation_preflight_ready_configuration :: "lib \<Rightarrow> settings \<Rightarrow> exn + unit" where
  "require_automation_preflight_ready_configuration L st =
    bindR (require_flags ''AUTOMATION_PREFLIGHT_NOT_READY''
      [(''ENABLE_AUTOMATION_ENGINE'', st_enable_automation_engine st),
       (''ENABLE_QB_READ_ONLY'', st_enable_qb_read_only st)]) (\<lambda>_.
    bindR (raise_if (\<not> st_qb_configured st) preflight_not_ready) (\<lambda>_.
    bindR (raise_if (\<not> target_policy_ok L st) preflight_not_ready) (\<lambda>_.
    require_qb_url L st preflight_not_ready)))"

definition PREFLIGHT_CAPABILITY_PREFIX :: string where
  "PREFLIGHT_CAPABILITY_PREFIX = ''automation-preflight-ready:''"

definition automation_preflight_capability_fingerprint :: "lib \<Rightarrow> settings \<Rightarrow> exn + string" where
  "automation_preflight_capability_fingerprint L st =
    bindR (preflight_policy_fingerprint L st) (\<lambda>policy.
    Inr (sha256_hex L (dumps (JObj
      [(''version'', JInt 1), (''preflight_policy_fingerprint'', JStr policy),
       (''qb_target_instance_ref'', JStr (st_qb_target_instance_ref st))]))))"

definition automation_preflight_ready_worker_id :: "lib \<Rightarrow> settings \<Rightarrow> string \<Rightarrow> exn + string" where
  "automation_preflight_ready_worker_id L st instance_id =
    (let normalized = strip instance_id in
     bindR (raise_if (normalized = []) PyValueError) (\<lambda>_.
     bindR (automation_preflight_capability_fingerprint L st) (\<lambda>fp.
     Inr (take_chars 180 (PREFLIGHT_CAPABILITY_PREFIX @ fp @ '':'' @ normalized)))))"

definition publish_automation_preflight_ready :: "lib \<Rightarrow> settings \<Rightarrow> string \<Rightarrow> int \<Rightarrow> unit session" where
  "publish_automation_preflight_ready L st instance_id now =
    bindH (liftH (require_automation_preflight_ready_configuration L st)) (\<lambda>_.
    bindH (liftH (automation_preflight_ready_worker_id L st instance_id)) (\<lambda>worker.
    put_heartbeat worker (Aware now)))"

text \<open>The query for a fresh heartbeat; the prefix holds no wildcard of \<open>LIKE\<close>.\<close>

definition fresh_heartbeat :: "string \<Rightarrow> int \<Rightarrow> db \<Rightarrow> bool" where
  "fresh_heartbeat prf cutoff s =
    list_ex (\<lambda>h. starts_with prf (wh_worker_id h) \<and> cutoff \<le> as_utc (wh_last_seen_at h)) (db_heartbeats s)"

definition automation_preflight_is_ready :: "lib \<Rightarrow> settings \<Rightarrow> int \<Rightarrow> bool session" where
  "automation_preflight_is_ready L st now =
    bindH (liftH (automation_preflight_capability_fingerprint L st)) (\<lambda>fp.
    getH (fresh_heartbeat (PREFLIGHT_CAPABILITY_PREFIX @ fp @ '':'') (now - seconds (st_preflight_ready_ttl_seconds st))))"

section \<open>The download executor\<close>

definition executor_not_ready :: exn where
  "executor_not_ready = app_err ''DOWNLOAD_EXECUTOR_NOT_READY'' 409"

text \<open>\<open>validate_external_url\<close> of \<open>core/security.py\<close>.\<close>

definition validate_external_url :: "lib \<Rightarrow> string \<Rightarrow> string list \<Rightarrow> exn + string" where
  "validate_external_url L u allowed_hosts =
    bindR (option_or PyValueError (urlsplit L u)) (\<lambda>parsed.
    let host = lower L (hostname L parsed) in
    bindR (raise_if (scheme parsed \<noteq> ''https'' \<or> host = [] \<or> host \<notin> set allowed_hosts)
      (app_err ''EXTERNAL_HOST_NOT_ALLOWED'' 400)) (\<lambda>_.
    bindR (raise_if (\<not> falsy_str (username parsed) \<or> \<not> falsy_str (password parsed))
      (app_err ''INVALID_EXTERNAL_URL'' 400)) (\<lambda>_.
    Inr u)))"

definition require_download_executor_ready_configuration :: "lib \<Rightarrow> settings \<Rightarrow> exn + unit" where
  "require_download_executor_ready_configuration L st =
    bindR (require_flags ''DOWNLOAD_EXECUTOR_NOT_READY''
      [(''ENABLE_DOWNLOAD_EXECUTION_CONTROL_PLANE'', st_enable_control_plane st),
       (''ENABLE_DOWNLOAD_EXECUTOR'', st_enable_download_executor st),
       (''ENABLE_AVISTAZ_TORRENT_FETCH'', st_enable_torrent_fetch st),
       (''ENABLE_QB_WRITE'', st_enable_qb_write st),
       (''ENABLE_AVISTAZ_LIVE_SEARCH'', st_enable_avistaz_live_search st)]) (\<lambda>_.
    bindR (raise_if (\<not> st_avistaz_configured st \<or> \<not> st_qb_configured st) executor_not_ready) (\<lambda>_.
    bindR (raise_if (\<not> target_policy_ok L st) executor_not_ready) (\<lambda>_.
    bindR (raise_if (st_pt_site_architecture st \<noteq> ''avistaz'') executor_not_ready) (\<lambda>_.
    bindR (validate_external_url L (st_avistaz_base_url st) (st_avistaz_allowed_hosts st)) (\<lambda>_.
    require_qb_url L st executor_not_ready)))))"

definition EXECUTOR_CAPABILITY_PREFIX :: string where
  "EXECUTOR_CAPABILITY_PREFIX = ''download-executor-ready:''"

definition executor_descriptor :: "settings \<Rightarrow> string \<Rightarrow> json" where
  "executor_descriptor st base_url = JObj
    [(''version'', JInt 1), (''avistaz_base_url'', JStr (rstrip_slash (st_avistaz_base_url st))),
     (''avistaz_allowed_hosts'', sorted_strs (st_avistaz_allowed_hosts st)),
     (''qb_base_url'', JStr (rstrip_slash base_url)), (''qb_allowed_hosts'', sorted_strs (st_qb_allowed_hosts st)),
     (''qb_allow_insecure_http'', JBool (st_qb_allow_insecure_http st)),
     (''qb_target_category'', opt_json JStr (st_qb_target_category st)),
     (''qb_target_save_path'', opt_json JStr (st_qb_target_save_path st)),
     (''qb_save_path_ref'', JStr (st_qb_save_path_ref st)),
     (''qb_allowed_save_paths'', sorted_strs (st_qb_allowed_save_paths st)),
     (''qb_plan_tags'', strs_json (st_qb_plan_tags st)),
     (''qb_target_instance_ref'', JStr (st_qb_target_instance_ref st)),
     (''torrent_max_bytes'', JInt (st_torrent_max_bytes st)), (''torrent_max_files'', JInt (st_torrent_max_files st))]"

definition download_executor_capability_fingerprint :: "lib \<Rightarrow> settings \<Rightarrow> exn + string" where
  "download_executor_capability_fingerprint L st =
    bindR (configured_url st) (\<lambda>u. Inr (sha256_hex L (dumps (executor_descriptor st u))))"

definition download_executor_ready_worker_id :: "lib \<Rightarrow> settings \<Rightarrow> string \<Rightarrow> exn + string" where
  "download_executor_ready_worker_id L st instance_id =
    bindR (download_executor_capability_fingerprint L st) (\<lambda>fp.
    Inr (take_chars 180 (EXECUTOR_CAPABILITY_PREFIX @ fp @ '':'' @ strip instance_id)))"

definition publish_download_executor_ready :: "lib \<Rightarrow> settings \<Rightarrow> string \<Rightarrow> int \<Rightarrow> unit session" where
  "publish_download_executor_ready L st instance_id now =
    bindH (liftH (require_download_executor_ready_configuration L st)) (\<lambda>_.
    bindH (liftH (download_executor_ready_worker_id L st instance_id)) (\<lambda>worker.
    put_heartbeat worker (Aware now)))"

definition download_executor_is_ready :: "lib \<Rightarrow> settings \<Rightarrow> int \<Rightarrow> bool session" where
  "download_executor_is_ready L st now =
    bindH (liftH (download_executor_capability_fingerprint L st)) (\<lambda>fp.
    getH (fresh_heartbeat (EXECUTOR_CAPABILITY_PREFIX @ fp @ '':'') (now - seconds (st_executor_ready_ttl_seconds st))))"

end
