(* ===== verification/Catalog.thy ===== *)
theory Catalog
  imports DownloadExecutor
begin

text \<open>
  \<open>adapters/pt_sites/catalog.py\<close>: the declarations of the sites that can be searched or fetched
  from, the catalog they form and its lookups, and the one declaration of production. Display
  texts are left out; the declaration built from a NexusPHP profile is not modelled.
\<close>

record site_declaration =
  ds_site_id :: string
  ds_search_modes :: "search_mode list"
  ds_media_types :: "media_type list"
  ds_search_enabled :: bool
  ds_runtime_ready :: bool
  ds_manual_only :: bool
  ds_promotion_metadata :: bool
  ds_hit_and_run_metadata :: bool
  ds_torrent_fetch_enabled :: bool
  ds_disabled_error_code :: string
  ds_not_ready_error_code :: string

definition declaration_ok :: "site_declaration \<Rightarrow> bool" where
  "declaration_ok d \<longleftrightarrow> site_id_ok (ds_site_id d) \<and> ds_search_modes d \<noteq> [] \<and> ds_media_types d \<noteq> []
    \<and> distinct (ds_search_modes d) \<and> distinct (ds_media_types d)"

definition available_for_search :: "site_declaration \<Rightarrow> bool" where
  "available_for_search d \<longleftrightarrow> ds_search_enabled d \<and> ds_runtime_ready d"

definition unavailable_reason :: "site_declaration \<Rightarrow> string option" where
  "unavailable_reason d =
    (if \<not> ds_search_enabled d then Some (ds_disabled_error_code d)
     else if \<not> ds_runtime_ready d then Some (ds_not_ready_error_code d)
     else None)"

record catalog_entry =
  ce_site_id :: string
  ce_available_for_search :: bool
  ce_unavailable_reason_code :: "string option"
  ce_mode :: string
  ce_search_modes :: "search_mode list"
  ce_media_types :: "media_type list"
  ce_manual_only :: bool
  ce_promotion_metadata :: bool
  ce_hit_and_run_metadata :: bool
  ce_torrent_fetch_enabled :: bool

definition public_entry :: "site_declaration \<Rightarrow> catalog_entry" where
  "public_entry d = \<lparr> ce_site_id = ds_site_id d, ce_available_for_search = available_for_search d,
     ce_unavailable_reason_code = unavailable_reason d,
     ce_mode = (if available_for_search d then ''LIVE_READ_ONLY_SEARCH'' else ''DISABLED_BY_DEFAULT''),
     ce_search_modes = ds_search_modes d, ce_media_types = ds_media_types d, ce_manual_only = ds_manual_only d,
     ce_promotion_metadata = ds_promotion_metadata d, ce_hit_and_run_metadata = ds_hit_and_run_metadata d,
     ce_torrent_fetch_enabled = ds_torrent_fetch_enabled d \<rparr>"

text \<open>A catalog: its declarations in order, and the default site.\<close>

record catalog =
  ct_entries :: "site_declaration list"
  ct_default_site_id :: "string option"

definition validate_site_id :: "string \<Rightarrow> exn + string" where
  "validate_site_id s = (if site_id_ok s then Inr s else Inl (app_err ''PT_SITE_ID_INVALID'' 400))"

definition make_catalog :: "site_declaration list \<Rightarrow> string option \<Rightarrow> exn + catalog" where
  "make_catalog ds default_site =
    bindR (raise_if (\<not> distinct (map ds_site_id ds)) PyValueError) (\<lambda>_.
    case default_site of
      None \<Rightarrow> Inr \<lparr> ct_entries = ds, ct_default_site_id = None \<rparr>
    | Some s \<Rightarrow>
        bindR (validate_site_id s) (\<lambda>v.
        bindR (raise_if (v \<notin> set (map ds_site_id ds)) PyValueError) (\<lambda>_.
        Inr \<lparr> ct_entries = ds, ct_default_site_id = Some v \<rparr>)))"

definition registered_site_ids :: "catalog \<Rightarrow> string list" where
  "registered_site_ids c = map ds_site_id (ct_entries c)"

definition catalog_entry_of :: "catalog \<Rightarrow> string \<Rightarrow> site_declaration option" where
  "catalog_entry_of c s = find (\<lambda>d. ds_site_id d = s) (ct_entries c)"

definition catalog_get :: "catalog \<Rightarrow> string \<Rightarrow> exn + site_declaration option" where
  "catalog_get c s = bindR (validate_site_id s) (\<lambda>v. Inr (catalog_entry_of c v))"

definition list_public :: "catalog \<Rightarrow> catalog_entry list" where
  "list_public c = map public_entry (ct_entries c)"

definition require_searchable :: "catalog \<Rightarrow> string \<Rightarrow> media_type option \<Rightarrow> exn + site_declaration" where
  "require_searchable c s mt =
    bindR (validate_site_id s) (\<lambda>v.
    bindR (option_or (app_err ''PT_SITE_NOT_REGISTERED'' 409) (catalog_entry_of c v)) (\<lambda>d.
    bindR (raise_if (\<not> ds_search_enabled d) (app_err (ds_disabled_error_code d) 409)) (\<lambda>_.
    bindR (raise_if (\<not> ds_runtime_ready d) (app_err (ds_not_ready_error_code d) 409)) (\<lambda>_.
    bindR (raise_if (case mt of None \<Rightarrow> False | Some t \<Rightarrow> t \<notin> set (ds_media_types d))
      (app_err ''PT_SITE_MEDIA_TYPE_UNSUPPORTED'' 409)) (\<lambda>_.
    Inr d)))))"

definition require_fetchable :: "catalog \<Rightarrow> string \<Rightarrow> media_type option \<Rightarrow> exn + site_declaration" where
  "require_fetchable c s mt =
    bindR (require_searchable c s mt) (\<lambda>d.
    bindR (raise_if (\<not> ds_torrent_fetch_enabled d) (app_err ''PT_SITE_TORRENT_FETCH_UNSUPPORTED'' 409)) (\<lambda>_.
    Inr d))"

definition avistaz_site_declaration :: "bool \<Rightarrow> bool \<Rightarrow> bool \<Rightarrow> site_declaration" where
  "avistaz_site_declaration search_enabled runtime_ready fetch_enabled = \<lparr>
     ds_site_id = ''avistaz'', ds_search_modes = [SM_TMDB_ID, SM_IMDB_ID, SM_TEXT],
     ds_media_types = [MT_MOVIE, MT_TV], ds_search_enabled = search_enabled, ds_runtime_ready = runtime_ready,
     ds_manual_only = False, ds_promotion_metadata = True, ds_hit_and_run_metadata = True,
     ds_torrent_fetch_enabled = fetch_enabled, ds_disabled_error_code = ''AVISTAZ_LIVE_DISABLED'',
     ds_not_ready_error_code = ''AVISTAZ_NOT_CONFIGURED'' \<rparr>"

text \<open>\<open>Settings.pt_site_configured\<close>.\<close>

definition pt_site_configured :: "settings \<Rightarrow> bool" where
  "pt_site_configured st = (case st_pt_site_runtime_configured st of
      Some b \<Rightarrow> b
    | None \<Rightarrow> st_pt_site_architecture st = ''avistaz'' \<and> st_avistaz_configured st)"

definition build_pt_site_catalog :: "settings \<Rightarrow> exn + catalog" where
  "build_pt_site_catalog st =
    (let avistaz = st_pt_site_architecture st = ''avistaz'' in
     make_catalog
       [avistaz_site_declaration (avistaz \<and> st_enable_avistaz_live_search st)
          (avistaz \<and> st_pt_site_runtime_supported st \<and> pt_site_configured st)
          (avistaz \<and> st_enable_torrent_fetch st)]
       (Some ''avistaz''))"

end
