(* ===== verification/Automation.thy ===== *)
theory Automation
  imports Eligibility Workflow Capability Catalog Executions
begin

text \<open>
  The automation engine (\<open>services/automation.py\<close>): the handler of each stage, from a resolved
  identity to a download execution. Every handler reads the current policy, records a decision
  on every branch, and acts only when the stage is automatic, the subject is newer than the
  revision, the engine is enabled and its own evaluation passes.

  \<open>F\<close> gives the new identifiers and secrets a request draws, \<open>T\<close> the clock readings it takes,
  both by what they are for. A row passed to a handler is the row the session holds.
\<close>

type_synonym fresh = "string \<Rightarrow> string"

type_synonym readings = "string \<Rightarrow> int"

section \<open>Recording a decision\<close>

record subject =
  sj_media_item_id :: string
  sj_metadata_match_id :: "string option"
  sj_torrent_candidate_id :: "string option"
  sj_approval_request_id :: "string option"
  sj_download_execution_id :: "string option"

definition about_media :: "string \<Rightarrow> subject" where
  "about_media mid = \<lparr> sj_media_item_id = mid, sj_metadata_match_id = None, sj_torrent_candidate_id = None,
     sj_approval_request_id = None, sj_download_execution_id = None \<rparr>"

definition about_approval :: "approval \<Rightarrow> subject" where
  "about_approval a = (about_media (ar_media_item_id a))\<lparr> sj_approval_request_id := Some (ar_id a) \<rparr>"

definition decision_on ::
    "lib \<Rightarrow> revision \<Rightarrow> automation_stage \<Rightarrow> string \<Rightarrow> decision_outcome \<Rightarrow> subject \<Rightarrow> string list
      \<Rightarrow> (string \<times> json) list \<Rightarrow> string \<Rightarrow> exn + decision" where
  "decision_on L r stage action outcome sj reasons evidence nid =
    build_automation_decision L r stage action outcome (sj_media_item_id sj) reasons evidence
      (sj_metadata_match_id sj) (sj_torrent_candidate_id sj) (sj_approval_request_id sj)
      (sj_download_execution_id sj) nid"

definition record_stage_decision ::
    "lib \<Rightarrow> revision \<Rightarrow> automation_stage \<Rightarrow> string \<Rightarrow> decision_outcome \<Rightarrow> subject \<Rightarrow> string list
      \<Rightarrow> (string \<times> json) list \<Rightarrow> string \<Rightarrow> decision session" where
  "record_stage_decision L r stage action outcome sj reasons evidence nid =
    bindH (liftH (decision_on L r stage action outcome sj reasons evidence nid)) (\<lambda>d.
    bindH (add_decision_once d) (\<lambda>p. returnH (fst p)))"

section \<open>The search that follows an identity\<close>

definition automatic_search_request :: "string \<Rightarrow> search_create_request" where
  "automatic_search_request site = \<lparr> sq_site_id = site, sq_preferred_resolutions = [], sq_preferred_sources = [],
     sq_preferred_audio = [], sq_preferred_subtitles = [], sq_max_size_bytes = None \<rparr>"

definition searchable_site :: "catalog \<Rightarrow> media_type \<Rightarrow> string option" where
  "searchable_site c mt =
    map_option ds_site_id (find (\<lambda>d. available_for_search d \<and> mt \<in> set (ds_media_types d)) (ct_entries c))"

definition without_binding :: "(string \<times> json) list \<Rightarrow> (string \<times> json) list" where
  "without_binding payload =
    filter (\<lambda>kv. fst kv \<notin> {''automation_policy_revision_id'', ''automation_decision_id''}) payload"

definition maybe_automate_torrent_search_after_identity ::
    "lib \<Rightarrow> settings \<Rightarrow> string \<Rightarrow> fresh \<Rightarrow> readings \<Rightarrow> task option session" where
  "maybe_automate_torrent_search_after_identity L st mid F T =
    bindH (get_current_policy L (T ''policy'') (F ''policy'')) (\<lambda>hr.
    if stage_mode (snd hr) AS_TORRENT_SELECTION = AM_DISABLED then returnH None
    else
      bindH (liftH (build_pt_site_catalog st)) (\<lambda>c.
      bindH (lock_media mid) (\<lambda>m.
      case searchable_site c (me_media_type m) of
        None \<Rightarrow> returnH None
      | Some site \<Rightarrow>
          bindH (enqueue_torrent_search L mid (automatic_search_request site) (st_job_max_attempts st) st
            (F ''search run'') (F ''search job'') (T ''search job'')) (\<lambda>(sr, t, again).
          let t' = t\<lparr> tk_payload := without_binding (tk_payload t) \<rparr> in
          bindH (save_task t') (\<lambda>_. returnH (Some t'))))))"

section \<open>The identity stage\<close>

definition matches_of :: "string \<Rightarrow> string \<Rightarrow> db \<Rightarrow> match_row list" where
  "matches_of mid job_id s =
    ranked_matches (filter (\<lambda>x. mm_media_id x = mid \<and> mm_resolution_job_id x = Some job_id) (db_matches s))"

definition is_text :: "json \<Rightarrow> bool" where
  "is_text j \<longleftrightarrow> (case j of JStr _ \<Rightarrow> True | _ \<Rightarrow> False)"

definition act_on_identity ::
    "lib \<Rightarrow> settings \<Rightarrow> media_row \<Rightarrow> revision \<Rightarrow> eligibility \<Rightarrow> string \<Rightarrow> fresh \<Rightarrow> readings \<Rightarrow> review option session" where
  "act_on_identity L st m r el match_id F T =
    bindH (liftH (decision_on L r AS_IDENTITY ''CONFIRM_IDENTITY'' DO_ACTION_CREATED
      ((about_media (me_id m))\<lparr> sj_metadata_match_id := Some match_id \<rparr>) [''IDENTITY_ELIGIBLE''] (el_evidence el)
      (F ''identity decision''))) (\<lambda>d.
    bindH (add_decision_once d) (\<lambda>(stored, created).
    if \<not> created then returnH None
    else
      bindH (confirm_identity L (me_id m) match_id (automation_actor r) ''IDENTITY_CONFIRMED_AUTOMATICALLY''
        (F ''review'') (T ''review'')) (\<lambda>review.
      bindH (maybe_automate_torrent_search_after_identity L st (me_id m) F T) (\<lambda>_.
      returnH (Some review)))))"

definition maybe_automate_identity ::
    "lib \<Rightarrow> settings \<Rightarrow> task \<Rightarrow> media_row \<Rightarrow> fresh \<Rightarrow> readings \<Rightarrow> review option session" where
  "maybe_automate_identity L st t m F T =
    bindH (get_current_policy L (T ''policy'') (F ''policy'')) (\<lambda>hr.
    let r = snd hr in
    bindH (getH (matches_of (me_id m) (tk_id t))) (\<lambda>ms.
    case mode_outcome r AS_IDENTITY (tk_created_at t) (st_enable_automation_engine st) of
      Some (outcome, reasons) \<Rightarrow>
        bindH (record_stage_decision L r AS_IDENTITY ''CONFIRM_IDENTITY'' outcome (about_media (me_id m)) reasons
          [(''resolution_job_id'', JStr (tk_id t)), (''candidate_count'', JInt (int (length ms))),
           (''input_fingerprint_present'', JBool (is_text (payload_get ''input_fingerprint'' t)))]
          (F ''identity decision'')) (\<lambda>_. returnH None)
    | None \<Rightarrow>
        bindH (liftH (evaluate_identity_candidates L m ms r (tk_id t)
          (payload_get ''input_fingerprint'' t = JStr (metadata_resolution_input_fingerprint L m)))) (\<lambda>el.
        case (el_eligible el, el_selected_id el) of
          (True, Some match_id) \<Rightarrow> act_on_identity L st m r el match_id F T
        | _ \<Rightarrow>
            bindH (record_stage_decision L r AS_IDENTITY ''CONFIRM_IDENTITY'' DO_MANUAL_REQUIRED
              ((about_media (me_id m))\<lparr> sj_metadata_match_id := el_selected_id el \<rparr>) (el_reason_codes el)
              (el_evidence el) (F ''identity decision'')) (\<lambda>_. returnH None))))"

section \<open>The preflight of the approval stage\<close>

definition preflight_type :: "approval \<Rightarrow> string" where
  "preflight_type a = ''AUTOMATION_PREFLIGHT:'' @ ar_id a"

definition approval_evidence :: "approval \<Rightarrow> (string \<times> json) list" where
  "approval_evidence a =
    [(''approval_request_id'', JStr (ar_id a)), (''approval_snapshot_hash'', JStr (ar_snapshot_hash a))]"

definition note_preflight ::
    "lib \<Rightarrow> revision \<Rightarrow> approval \<Rightarrow> (string \<times> json) list \<Rightarrow> fresh \<Rightarrow> decision_outcome \<Rightarrow> string list \<Rightarrow> 'a \<Rightarrow> 'a session" where
  "note_preflight L r a evidence F outcome reasons result =
    bindH (record_stage_decision L r AS_APPROVAL ''QUEUE_PREFLIGHT'' outcome (about_approval a) reasons evidence
      (F ''preflight decision'')) (\<lambda>_. returnH result)"

definition preflight_task :: "settings \<Rightarrow> revision \<Rightarrow> approval \<Rightarrow> string \<Rightarrow> int \<Rightarrow> task" where
  "preflight_task st r a nid now = new_task nid (preflight_type a)
    [(''approval_id'', JStr (ar_id a)), (''media_id'', JStr (ar_media_item_id a)),
     (''approval_snapshot_hash'', JStr (ar_snapshot_hash a)),
     (''automation_policy_revision_id'', JStr (pr_id r)), (''read_only'', JBool True)] (st_job_max_attempts st) now"

definition queue_preflight ::
    "lib \<Rightarrow> settings \<Rightarrow> revision \<Rightarrow> approval \<Rightarrow> (string \<times> json) list \<Rightarrow> fresh \<Rightarrow> readings \<Rightarrow> task option session" where
  "queue_preflight L st r a evidence F T =
    (let t = preflight_task st r a (F ''preflight job'') (T ''preflight job'');
         already = (\<lambda>x. note_preflight L r a evidence F DO_NOOP [''AUTOMATION_PREFLIGHT_ALREADY_ACTIVE''] (Some x)) in
     bindH (catchH (transact (bindH (insert_task t) (\<lambda>_. returnH None))) (\<lambda>e. case e of
         IntegrityErr _ \<Rightarrow> bindH (getH (active_of_type [preflight_type a])) (\<lambda>again.
           case again of None \<Rightarrow> raiseH e | Some x \<Rightarrow> returnH (Some x))
       | _ \<Rightarrow> raiseH e)) (\<lambda>other.
     case other of
       Some x \<Rightarrow> already x
     | None \<Rightarrow>
         bindH (record_stage_decision L r AS_APPROVAL ''QUEUE_PREFLIGHT'' DO_ACTION_CREATED (about_approval a)
           [''APPROVAL_ELIGIBLE_FOR_PREFLIGHT''] (evidence @ [(''job_id'', JStr (tk_id t))])
           (F ''preflight decision'')) (\<lambda>stored.
         let t' = t\<lparr> tk_payload := tk_payload t @ [(''automation_decision_id'', JStr (ad_id stored))] \<rparr> in
         bindH (save_task t') (\<lambda>_. returnH (Some t')))))"

definition maybe_enqueue_automatic_preflight ::
    "lib \<Rightarrow> settings \<Rightarrow> approval \<Rightarrow> fresh \<Rightarrow> readings \<Rightarrow> task option session" where
  "maybe_enqueue_automatic_preflight L st a F T =
    bindH (get_current_policy L (T ''policy'') (F ''policy'')) (\<lambda>hr.
    let r = snd hr; evidence = approval_evidence a; note = note_preflight L r a in
    case mode_outcome r AS_APPROVAL (ar_requested_at a) (st_enable_automation_engine st) of
      Some (outcome, reasons) \<Rightarrow> note evidence F outcome reasons None
    | None \<Rightarrow>
        if ar_status a \<noteq> AP_PENDING then note evidence F DO_NOOP [''APPROVAL_NOT_PENDING''] None
        else
          bindH (liftH (verify_snapshot L a)) (\<lambda>sn.
          if \<not> rule_known (effective_hnr_rule L (sn_site_id sn) (sn_hit_and_run sn))
          then note evidence F DO_MANUAL_REQUIRED [''HNR_UNKNOWN''] None
          else
            bindH (automation_preflight_is_ready L st (T ''ready'')) (\<lambda>ready.
            bindH (liftH (automation_preflight_capability_fingerprint L st)) (\<lambda>fp.
            let evidence = evidence @ [(''preflight_capability_fingerprint'', JStr fp),
              (''preflight_worker_ready'', JBool ready)] in
            if \<not> ready then note evidence F DO_BLOCKED [''AUTOMATION_PREFLIGHT_WORKER_NOT_READY''] None
            else
              bindH (getH (active_of_type [preflight_type a])) (\<lambda>existing.
              case existing of
                Some x \<Rightarrow> note evidence F DO_NOOP [''AUTOMATION_PREFLIGHT_ALREADY_ACTIVE''] (Some x)
              | None \<Rightarrow> queue_preflight L st r a evidence F T)))))"

section \<open>The torrent selection stage\<close>

definition candidates_of :: "lib \<Rightarrow> string \<Rightarrow> db \<Rightarrow> candidate_row list" where
  "candidates_of L run_id s = ranked_candidates L (filter (\<lambda>c. cr_search_run_id c = run_id) (db_candidates s))"

definition confirmed_metadata :: "lib \<Rightarrow> string \<Rightarrow> db \<Rightarrow> metadata option" where
  "confirmed_metadata L mid s =
    (case confirmed_review mid s of None \<Rightarrow> None | Some r \<Rightarrow> parse_metadata L (iv_candidate_snapshot r))"

definition note_selection ::
    "lib \<Rightarrow> revision \<Rightarrow> subject \<Rightarrow> fresh \<Rightarrow> decision_outcome \<Rightarrow> string list \<Rightarrow> (string \<times> json) list \<Rightarrow> unit session" where
  "note_selection L r sj F outcome reasons evidence =
    bindH (record_stage_decision L r AS_TORRENT_SELECTION ''CREATE_APPROVAL_REQUEST'' outcome sj reasons evidence
      (F ''selection decision'')) (\<lambda>_. returnH ())"

definition duplicate_approval :: "exn \<Rightarrow> bool" where
  "duplicate_approval e \<longleftrightarrow>
    (case e of
       IntegrityErr _ \<Rightarrow> True
     | AppErr x \<Rightarrow> error_code x \<in> {''APPROVAL_REQUEST_DUPLICATE'', ''APPROVAL_EXECUTION_IN_PROGRESS''}
     | _ \<Rightarrow> False)"

text \<open>The approval that is created, or the active one that stands in its way and that it is not.\<close>

definition create_or_find_approval ::
    "lib \<Rightarrow> settings \<Rightarrow> string \<Rightarrow> string \<Rightarrow> fresh \<Rightarrow> readings \<Rightarrow> (approval \<times> bool) session" where
  "create_or_find_approval L st candidate_id actor F T =
    catchH (bindH (transact (create_approval_request L candidate_id None st actor (T ''approval'') (F ''approval'')))
        (\<lambda>a. returnH (a, True)))
      (\<lambda>e. if duplicate_approval e then
          bindH (getH (active_for_candidate candidate_id)) (\<lambda>x.
          case x of None \<Rightarrow> raiseH e | Some a \<Rightarrow> returnH (a, False))
        else raiseH e)"

definition act_on_selection ::
    "lib \<Rightarrow> settings \<Rightarrow> media_row \<Rightarrow> revision \<Rightarrow> eligibility \<Rightarrow> string \<Rightarrow> fresh \<Rightarrow> readings \<Rightarrow> approval session" where
  "act_on_selection L st m r el candidate_id F T =
    bindH (create_or_find_approval L st candidate_id (automation_actor r) F T) (\<lambda>(a, created).
    bindH (note_selection L r
      ((about_media (me_id m))\<lparr> sj_torrent_candidate_id := Some candidate_id, sj_approval_request_id := Some (ar_id a) \<rparr>) F
      (if created then DO_ACTION_CREATED else DO_NOOP)
      [if created then ''TORRENT_CANDIDATE_ELIGIBLE'' else ''ACTIVE_APPROVAL_EXISTS''] (el_evidence el)) (\<lambda>_.
    bindH (if created \<or> ar_status a = AP_PENDING then maybe_enqueue_automatic_preflight L st a F T
           else returnH None) (\<lambda>_.
    returnH a)))"

definition maybe_automate_torrent_selection ::
    "lib \<Rightarrow> settings \<Rightarrow> task \<Rightarrow> search_run_row \<Rightarrow> media_row \<Rightarrow> fresh \<Rightarrow> readings \<Rightarrow> approval option session" where
  "maybe_automate_torrent_selection L st t sr m F T =
    bindH (get_current_policy L (T ''policy'') (F ''policy'')) (\<lambda>hr.
    let r = snd hr in
    bindH (getH (candidates_of L (ru_id sr))) (\<lambda>cs.
    case mode_outcome r AS_TORRENT_SELECTION (tk_created_at t) (st_enable_automation_engine st) of
      Some (outcome, reasons) \<Rightarrow>
        bindH (note_selection L r (about_media (me_id m)) F outcome reasons
          [(''search_job_id'', JStr (tk_id t)), (''search_run_id'', JStr (ru_id sr)),
           (''site_id'', JStr (ru_site_id sr)), (''candidate_count'', JInt (int (length cs)))]) (\<lambda>_. returnH None)
    | None \<Rightarrow>
        bindH (getH (confirmed_metadata L (me_id m))) (\<lambda>confirmed.
        bindH (liftH (evaluate_torrent_candidates L m cs r (tk_id t) (ru_site_id sr)
          (st_max_candidate_size_bytes st) confirmed)) (\<lambda>el.
        case (el_eligible el, el_selected_id el) of
          (True, Some candidate_id) \<Rightarrow>
            bindH (act_on_selection L st m r el candidate_id F T) (\<lambda>a. returnH (Some a))
        | _ \<Rightarrow>
            bindH (note_selection L r ((about_media (me_id m))\<lparr> sj_torrent_candidate_id := el_selected_id el \<rparr>) F
              DO_MANUAL_REQUIRED (el_reason_codes el) (el_evidence el)) (\<lambda>_. returnH None)))))"

section \<open>The fence of an automatic search\<close>

definition search_binding_invalid :: exn where
  "search_binding_invalid = app_err ''AUTOMATION_TORRENT_SEARCH_BINDING_INVALID'' 409"

definition search_decision_ok :: "revision \<Rightarrow> decision \<Rightarrow> json \<Rightarrow> json \<Rightarrow> json \<Rightarrow> bool" where
  "search_decision_ok r d media_id search_run_id site_id \<longleftrightarrow>
    ad_policy_revision_id d = pr_id r \<and> ad_stage d = AS_TORRENT_SELECTION \<and> ad_action d = ''QUEUE_TORRENT_SEARCH''
    \<and> ad_outcome d = DO_ACTION_CREATED \<and> JStr (ad_media_item_id d) = media_id
    \<and> obj_get ''search_run_id'' (ad_evidence_snapshot d) = Some search_run_id
    \<and> obj_get ''site_id'' (ad_evidence_snapshot d) = Some site_id"

definition require_automatic_torrent_search_current ::
    "lib \<Rightarrow> settings \<Rightarrow> task \<Rightarrow> fresh \<Rightarrow> readings \<Rightarrow> unit session" where
  "require_automatic_torrent_search_current L st t F T =
    (let rid = payload_get ''automation_policy_revision_id'' t; did = payload_get ''automation_decision_id'' t;
         mid = payload_get ''media_id'' t; run_id = payload_get ''search_run_id'' t; site = payload_get ''site_id'' t in
     if rid = JNull \<and> did = JNull then returnH ()
     else
       bindH (raise_ifH (\<not> list_all is_text [rid, did, mid, run_id, site]) search_binding_invalid) (\<lambda>_.
       bindH (raise_ifH (\<not> st_enable_automation_engine st) (app_err ''AUTOMATION_ENGINE_DISABLED'' 409)) (\<lambda>_.
       bindH (get_current_policy L (T ''policy'') (F ''policy'')) (\<lambda>hr.
       let r = snd hr in
       bindH (raise_ifH (JStr (pr_id r) \<noteq> rid) (app_err ''AUTOMATION_POLICY_REVISION_CHANGED'' 409)) (\<lambda>_.
       bindH (raise_ifH (stage_mode r AS_TORRENT_SELECTION \<noteq> AM_AUTO_IF_ELIGIBLE)
         (app_err ''AUTOMATION_TORRENT_SELECTION_MODE_CHANGED'' 409)) (\<lambda>_.
       bindH (getH (\<lambda>s. find (\<lambda>d. JStr (ad_id d) = did) (db_decisions s))) (\<lambda>x.
       bindH (liftH (option_or (app_err ''AUTOMATION_DECISION_NOT_FOUND'' 409) x)) (\<lambda>d.
       bindH (liftH (verify_automation_decision L d)) (\<lambda>_.
       raise_ifH (\<not> search_decision_ok r d mid run_id site) search_binding_invalid)))))))))"

section \<open>The execution stage\<close>

definition note_execution ::
    "lib \<Rightarrow> revision \<Rightarrow> subject \<Rightarrow> fresh \<Rightarrow> (string \<times> json) list \<Rightarrow> decision_outcome \<Rightarrow> string list \<Rightarrow> 'a \<Rightarrow> 'a session" where
  "note_execution L r sj F evidence outcome reasons result =
    bindH (record_stage_decision L r AS_EXECUTION ''CREATE_DOWNLOAD_EXECUTION'' outcome sj reasons evidence
      (F ''execution decision'')) (\<lambda>_. returnH result)"

definition execution_acknowledged :: "lib \<Rightarrow> revision \<Rightarrow> snapshot \<Rightarrow> bool" where
  "execution_acknowledged L r sn \<longleftrightarrow>
    list_all (\<lambda>k. obj_get k (pr_acknowledgements r) = Some (JBool True))
      ([''acknowledges_seeding'', ''acknowledges_add_paused_only'']
        @ (if hnr_acknowledgement_required L (sn_site_id sn) then [''acknowledges_hnr''] else []))"

definition execution_flags_ready :: "settings \<Rightarrow> bool" where
  "execution_flags_ready st \<longleftrightarrow> st_enable_control_plane st \<and> download_executor_enabled st
    \<and> st_enable_avistaz_live_search st \<and> st_qb_configured st"

definition automation_binding :: "revision \<Rightarrow> decision \<Rightarrow> binding" where
  "automation_binding r d = \<lparr> bd_origin = OR_AUTOMATION, bd_automation_policy_revision_id = Some (pr_id r),
     bd_automation_decision_id = Some (ad_id d) \<rparr>"

definition start_automatic_execution ::
    "lib \<Rightarrow> settings \<Rightarrow> revision \<Rightarrow> approval \<Rightarrow> decision \<Rightarrow> fresh \<Rightarrow> readings \<Rightarrow> execution session" where
  "start_automatic_execution L st r a d F T =
    bindH (create_execution_intent L (ar_id a) LM_ADD_PAUSED None st (automation_actor r) (automation_binding r d)
      (T ''intent'') (F ''intent'') (F ''nonce'')) (\<lambda>(i, nonce).
    bindH (execute_approved_plan L (ar_id a) (ei_id i) nonce (''auto_'' @ F ''idempotency key'') st
      (automation_actor r) (automation_binding r d) (T ''execution'') (F ''execution'')) (\<lambda>p.
    returnH (fst p)))"

definition act_on_execution ::
    "lib \<Rightarrow> settings \<Rightarrow> revision \<Rightarrow> approval \<Rightarrow> (string \<times> json) list \<Rightarrow> fresh \<Rightarrow> readings \<Rightarrow> execution session" where
  "act_on_execution L st r a evidence F T =
    bindH (liftH (decision_on L r AS_EXECUTION ''CREATE_DOWNLOAD_EXECUTION'' DO_ACTION_CREATED
      ((about_approval a)\<lparr> sj_download_execution_id := Some (F ''execution'') \<rparr>) [''APPROVED_PLAN_ELIGIBLE''] evidence
      (F ''execution decision''))) (\<lambda>d.
    bindH (add_decision_once d) (\<lambda>(stored, created).
    if created then start_automatic_execution L st r a stored F T
    else
      bindH (getH (execution_for_approval (ar_id a))) (\<lambda>x.
      bindH (liftH (option_or (app_err ''AUTOMATION_DECISION_ACTION_INCONSISTENT'' 409) x)) (\<lambda>e.
      verifiedH L e))))"

definition execution_evidence :: "lib \<Rightarrow> approval \<Rightarrow> snapshot \<Rightarrow> (string \<times> json) list" where
  "execution_evidence L a sn = approval_evidence a @
    [(''launch_mode'', JStr (launch_mode_value LM_ADD_PAUSED)),
     (''hnr_known'', JBool (rule_known (effective_hnr_rule L (sn_site_id sn) (sn_hit_and_run sn))))]"

definition maybe_create_automatic_execution ::
    "lib \<Rightarrow> settings \<Rightarrow> approval \<Rightarrow> fresh \<Rightarrow> readings \<Rightarrow> execution option session" where
  "maybe_create_automatic_execution L st a F T =
    bindH (get_current_policy L (T ''policy'') (F ''policy'')) (\<lambda>hr.
    let r = snd hr; trigger = (case ar_decided_at a of None \<Rightarrow> ar_requested_at a | Some t \<Rightarrow> t) in
    bindH (liftH (verify_snapshot L a)) (\<lambda>sn.
    let evidence = execution_evidence L a sn; note = note_execution L r (about_approval a) F in
    case mode_outcome r AS_EXECUTION trigger (st_enable_automation_engine st) of
      Some (outcome, reasons) \<Rightarrow> note evidence outcome reasons None
    | None \<Rightarrow>
        if \<not> rule_known (effective_hnr_rule L (sn_site_id sn) (sn_hit_and_run sn))
        then note evidence DO_MANUAL_REQUIRED [''HNR_UNKNOWN''] None
        else if \<not> execution_acknowledged L r sn
        then note evidence DO_BLOCKED [''AUTOMATION_EXECUTION_ACKNOWLEDGEMENTS_MISSING''] None
        else
          bindH (getH (execution_for_approval (ar_id a))) (\<lambda>existing.
          case existing of
            Some e \<Rightarrow>
              bindH (verifiedH L e) (\<lambda>_.
              note_execution L r ((about_approval a)\<lparr> sj_download_execution_id := Some (de_id e) \<rparr>) F evidence DO_NOOP
                [''DOWNLOAD_EXECUTION_ALREADY_EXISTS''] (Some e))
          | None \<Rightarrow>
              bindH (if execution_flags_ready st then download_executor_is_ready L st (T ''executor ready'')
                     else returnH False) (\<lambda>ready.
              let evidence = evidence @ [(''download_executor_ready'', JBool ready)] in
              if \<not> ready then note evidence DO_BLOCKED [''DOWNLOAD_EXECUTOR_NOT_READY''] None
              else bindH (act_on_execution L st r a evidence F T) (\<lambda>e. returnH (Some e))))))"

section \<open>The end of the approval stage\<close>

definition note_approval ::
    "lib \<Rightarrow> revision \<Rightarrow> approval \<Rightarrow> fresh \<Rightarrow> (string \<times> json) list \<Rightarrow> decision_outcome \<Rightarrow> string list \<Rightarrow> 'a \<Rightarrow> 'a session" where
  "note_approval L r a F evidence outcome reasons result =
    bindH (record_stage_decision L r AS_APPROVAL ''APPROVE_REQUEST'' outcome (about_approval a) reasons evidence
      (F ''approval decision'')) (\<lambda>_. returnH result)"

definition act_on_approval ::
    "lib \<Rightarrow> settings \<Rightarrow> revision \<Rightarrow> approval \<Rightarrow> (string \<times> json) list \<Rightarrow> fresh \<Rightarrow> readings \<Rightarrow> plan session" where
  "act_on_approval L st r a evidence F T =
    bindH (liftH (decision_on L r AS_APPROVAL ''APPROVE_REQUEST'' DO_ACTION_CREATED (about_approval a)
      [''AUTOMATION_PREFLIGHT_PASS''] evidence (F ''approval decision''))) (\<lambda>d.
    bindH (add_decision_once d) (\<lambda>(stored, created).
    if created then
      bindH (approve_request_automatically L a st (automation_actor r) (pr_id r) (ad_id stored)
        (T ''pending'') (T ''approve'') (F ''plan'')) (\<lambda>(a', p).
      bindH (maybe_create_automatic_execution L st a' F T) (\<lambda>_. returnH p))
    else
      bindH (getH (plan_for_approval (ar_id a))) (\<lambda>x.
      liftH (option_or (app_err ''AUTOMATION_DECISION_ACTION_INCONSISTENT'' 409) x))))"

definition preflight_evidence :: "lib \<Rightarrow> preflight_result \<Rightarrow> (string \<times> json) list" where
  "preflight_evidence L p =
    [(''preflight_checked_at'', JStr (iso_text L (pf_checked_at p))),
     (''preflight_policy_fingerprint'', JStr (pf_policy_fingerprint p)),
     (''preflight_status'', JStr (preflight_status_value (pf_overall_status p)))]"

definition finalize_pending ::
    "lib \<Rightarrow> settings \<Rightarrow> revision \<Rightarrow> approval \<Rightarrow> (string \<times> json) list \<Rightarrow> fresh \<Rightarrow> readings \<Rightarrow> plan option session" where
  "finalize_pending L st r a evidence F T =
    (let note = note_approval L r a F in
     bindH (liftH (verify_snapshot L a)) (\<lambda>sn.
     if \<not> rule_known (effective_hnr_rule L (sn_site_id sn) (sn_hit_and_run sn))
     then note evidence DO_MANUAL_REQUIRED [''HNR_UNKNOWN''] None
     else case both (ar_preflight_result a) (ar_preflight_checked_at a) of
       None \<Rightarrow> note evidence DO_MANUAL_REQUIRED [''PREFLIGHT_REQUIRED''] None
     | Some (stored, _) \<Rightarrow>
         bindH (liftH (validate_preflight_result L stored)) (\<lambda>p.
         let evidence = evidence @ preflight_evidence L p in
         if pf_overall_status p \<noteq> PF_PASS
         then note evidence DO_MANUAL_REQUIRED [''AUTOMATION_PREFLIGHT_NOT_PASS''] None
         else bindH (act_on_approval L st r a evidence F T) (\<lambda>p. returnH (Some p)))))"

definition maybe_finalize_automatic_approval ::
    "lib \<Rightarrow> settings \<Rightarrow> approval \<Rightarrow> string option \<Rightarrow> string option \<Rightarrow> string option \<Rightarrow> fresh \<Rightarrow> readings
      \<Rightarrow> plan option session" where
  "maybe_finalize_automatic_approval L st a expected_revision expected_hash trigger_job F T =
    bindH (get_current_policy L (T ''policy'') (F ''policy'')) (\<lambda>hr.
    let r = snd hr; note = note_approval L r a F;
        evidence = approval_evidence a @
          [(''expected_policy_revision_id'', opt_json JStr expected_revision),
           (''trigger_job_id'', opt_json JStr trigger_job)] in
    if expected_revision \<noteq> None \<and> expected_revision \<noteq> Some (pr_id r)
    then note evidence DO_STALE [''POLICY_REVISION_CHANGED''] None
    else case mode_outcome r AS_APPROVAL (ar_requested_at a) (st_enable_automation_engine st) of
      Some (outcome, reasons) \<Rightarrow> note evidence outcome reasons None
    | None \<Rightarrow>
        if expected_hash \<noteq> None \<and> expected_hash \<noteq> Some (ar_snapshot_hash a)
        then note evidence DO_STALE [''APPROVAL_SNAPSHOT_CHANGED''] None
        else if ar_status a \<noteq> AP_PENDING then
          bindH (getH (plan_for_approval (ar_id a))) (\<lambda>existing.
          note (evidence @ [(''approval_status'', JStr (approval_status_value (ar_status a)))]) DO_NOOP
            [''APPROVAL_NOT_PENDING''] existing)
        else finalize_pending L st r a evidence F T)"

end
