(* ===== verification/EngineLaws.thy ===== *)
theory EngineLaws
  imports HandlerLaws Automation
begin

text \<open>
  The laws of the store hold for the workflow service and the automation engine. The workflow
  tables carry none of them: what leaves the core tables alone keeps the laws. A handler of the
  engine adds decisions and calls the services; the one that ends the approval stage relies on
  the approval it is given being the stored one.
\<close>

section \<open>The workflow service leaves the core alone\<close>

definition core_of where
  "core_of s = (rows_of s, db_approval_events s, db_execution_events s, db_job_events s, db_revisions s, db_decisions s)"

lemma core_audit: "core_of t = core_of s \<Longrightarrow> audit_grows s t"
  by (simp add: core_of_def rows_of_def audit_grows_def)

lemma core_guards: "core_of t = core_of s \<Longrightarrow> guards_respected s t"
  by (simp add: core_of_def rows_of_def guards_unchanged)

lemma core_rows: "core_of t = core_of s \<Longrightarrow> rows_of t = rows_of s"
  by (simp add: core_of_def)

lemma core_lawful: "evolves (\<lambda>s t. core_of t = core_of s) m \<Longrightarrow> evolves (lawful strict L) m"
  by (rule evolves_lawful_rows) (auto simp: evolves_def intro: core_audit core_guards core_rows)

lemma workflow_writes_core [evolves_intros]:
  "evolves (\<lambda>s t. core_of t = core_of s) (save_task t)"
  "evolves (\<lambda>s t. core_of t = core_of s) (insert_task t)"
  "evolves (\<lambda>s t. core_of t = core_of s) (save_media m)"
  "evolves (\<lambda>s t. core_of t = core_of s) (insert_media m)"
  "evolves (\<lambda>s t. core_of t = core_of s) (save_run r)"
  "evolves (\<lambda>s t. core_of t = core_of s) (insert_run r)"
  "evolves (\<lambda>s t. core_of t = core_of s) (insert_review v)"
  "evolves (\<lambda>s t. core_of t = core_of s) (insert_match x)"
  "evolves (\<lambda>s t. core_of t = core_of s) (insert_candidate c)"
  "evolves (\<lambda>s t. core_of t = core_of s) (insert_audit_event a1 a2 a3 a4)"
  "evolves (\<lambda>s t. core_of t = core_of s) (save_discovery_run d)"
  "evolves (\<lambda>s t. core_of t = core_of s) (put_heartbeat w n)"
  unfolding workflow_write_defs
  by (intro leaves.evolves_rules leaves_modify; simp add: core_of_def rows_of_def)+

lemma core_lock_media [evolves_intros]: "evolves (\<lambda>s t. core_of t = core_of s) (lock_media mid)"
  unfolding lock_media_def by (intro leaves.evolves_rules)

lemma core_cancel_jobs [evolves_intros]: "evolves (\<lambda>s t. core_of t = core_of s) (cancel_jobs L mid evidence ts)"
  by (induction ts)
    (auto simp: cancel_metadata_resolution_job_def intro!: leaves.evolves_rules workflow_writes_core)

lemma core_handlers [evolves_intros]:
  "evolves (\<lambda>s t. core_of t = core_of s) (refresh_media_search_workflow_status mid)"
  "evolves (\<lambda>s t. core_of t = core_of s) (enqueue_metadata_resolution L mid n nid now)"
  "evolves (\<lambda>s t. core_of t = core_of s) (cancel_active_metadata_resolution_jobs L mid evidence)"
  unfolding refresh_media_search_workflow_status_def enqueue_metadata_resolution_def
    cancel_active_metadata_resolution_jobs_def Let_def
  by (intro leaves.evolves_rules workflow_writes_core core_lock_media core_cancel_jobs)+

lemma core_confirm_identity [evolves_intros]:
  "evolves (\<lambda>s t. core_of t = core_of s) (confirm_identity L mid match_id actor ty nid now)"
  unfolding confirm_identity_def Let_def
  by (intro leaves.evolves_rules workflow_writes_core core_lock_media core_handlers)

lemma core_workflow [evolves_intros]:
  "evolves (\<lambda>s t. core_of t = core_of s) (auto_confirm_strict_identity L m ms job nid now)"
  "evolves (\<lambda>s t. core_of t = core_of s) (enqueue_torrent_search L mid q n st i1 i2 now)"
  unfolding auto_confirm_strict_identity_def enqueue_torrent_search_def Let_def
  by (auto split: option.split prod.split
      intro!: leaves.evolves_rules workflow_writes_core core_lock_media core_handlers core_confirm_identity)

lemma core_capabilities [evolves_intros]:
  "evolves (\<lambda>s t. core_of t = core_of s) (publish_automation_preflight_ready L st i now)"
  "evolves (\<lambda>s t. core_of t = core_of s) (automation_preflight_is_ready L st now)"
  "evolves (\<lambda>s t. core_of t = core_of s) (publish_download_executor_ready L st i now)"
  "evolves (\<lambda>s t. core_of t = core_of s) (download_executor_is_ready L st now)"
  unfolding publish_automation_preflight_ready_def automation_preflight_is_ready_def
    publish_download_executor_ready_def download_executor_is_ready_def
  by (intro leaves.evolves_rules workflow_writes_core)+

lemmas lawful_core = core_lawful [OF core_confirm_identity] core_lawful [OF core_lock_media]
  core_lawful [OF core_handlers(1)] core_lawful [OF core_handlers(2)] core_lawful [OF core_handlers(3)]
  core_lawful [OF core_workflow(1)] core_lawful [OF core_workflow(2)] core_lawful [OF core_capabilities(2)]
  core_lawful [OF core_capabilities(4)] core_lawful [OF workflow_writes_core(1)] core_lawful [OF workflow_writes_core(2)]

section \<open>The engine\<close>

lemma lawful_record [evolves_intros]:
  "evolves (lawful strict K) (record_stage_decision L r stage action outcome sj reasons evidence nid)"
  unfolding record_stage_decision_def by (intro lawful.evolves_rules lawful_add_decision)

lemma lawful_notes [evolves_intros]:
  "evolves (lawful strict K) (note_preflight L r a evidence F outcome reasons x)"
  "evolves (lawful strict K) (note_selection L r sj F outcome reasons evidence)"
  "evolves (lawful strict K) (note_execution L r sj F evidence outcome reasons y)"
  "evolves (lawful strict K) (note_approval L r a F evidence outcome reasons z)"
  unfolding note_preflight_def note_selection_def note_execution_def note_approval_def
  by (intro lawful.evolves_rules lawful_record)+

lemma lawful_search_after_identity [evolves_intros]:
  "evolves (lawful strict K) (maybe_automate_torrent_search_after_identity L st mid F T)"
  unfolding maybe_automate_torrent_search_after_identity_def Let_def
  by (auto split: option.split prod.split intro!: lawful.evolves_rules lawful_current_policy lawful_core)

lemma lawful_maybe_identity [evolves_intros]:
  "evolves (lawful strict K) (maybe_automate_identity L st t m F T)"
  unfolding maybe_automate_identity_def act_on_identity_def Let_def
  by (auto split: option.split prod.split bool.split
      intro!: lawful.evolves_rules lawful_current_policy lawful_core lawful_record lawful_add_decision
        lawful_search_after_identity)

lemma lawful_queue_preflight: "evolves (lawful strict K) (queue_preflight L st r a evidence F T)"
  unfolding queue_preflight_def Let_def
  by (auto split: option.split exn.split
      intro!: lawful.evolves_rules lawful.evolves_catch lawful_core lawful_record lawful_notes)

lemma lawful_maybe_preflight [evolves_intros]:
  "evolves (lawful strict K) (maybe_enqueue_automatic_preflight L st a F T)"
  unfolding maybe_enqueue_automatic_preflight_def Let_def
  by (auto split: option.split
      intro!: lawful.evolves_rules lawful_current_policy lawful_core lawful_notes lawful_queue_preflight)

lemma lawful_maybe_selection [evolves_intros]:
  "evolves (lawful strict L) (maybe_automate_torrent_selection L st t sr m F T)"
  unfolding maybe_automate_torrent_selection_def act_on_selection_def create_or_find_approval_def Let_def
  by (auto split: option.split prod.split bool.split
      intro!: lawful.evolves_rules lawful.evolves_catch lawful_current_policy lawful_notes lawful_create
        lawful_maybe_preflight)

lemma lawful_search_current [evolves_intros]:
  "evolves (lawful strict K) (require_automatic_torrent_search_current L st t F T)"
  unfolding require_automatic_torrent_search_current_def Let_def
  by (auto intro!: lawful.evolves_rules lawful_current_policy)

lemma lawful_maybe_execution [evolves_intros]:
  "evolves (lawful strict K) (maybe_create_automatic_execution L st a F T)"
  unfolding maybe_create_automatic_execution_def act_on_execution_def start_automatic_execution_def Let_def
  by (auto split: option.split prod.split
      intro!: lawful.evolves_rules lawful_current_policy lawful_core lawful_notes lawful_add_decision
        lawful_create_intent lawful_execute lawful.evolves_reads [OF reads_verified])

section \<open>A pending approval and its result\<close>

lemma keeps_lawful_pending:
  assumes "current s a"
  shows "keeps (lawful strict L) s (require_pending_approval L a now)"
  by (rule keeps_lawful_side [OF audit_require_pending side_handlers(6) keeps_require_pending [OF assms]])

lemma save_preflight_current:
  assumes "current s a" and "save_preflight_result L a r actor now s = (Inr b, t)"
  shows "current t b"
  using assms
  by (auto simp: save_preflight_result_def Let_def handler_simps require_pending_run save_approval_def add_event_run
      current_def row_get_put)

section \<open>The end of the approval stage\<close>

lemma add_decision_leaves_approvals: "evolves (\<lambda>s t. db_approvals t = db_approvals s) (add_decision_once d)"
  unfolding add_decision_once_def insert_decision_def
  by (auto split: exn.splits option.splits intro!: leaves.evolves_rules leaves.evolves_catch leaves_modify)

lemma current_same_approvals: "db_approvals t = db_approvals s \<Longrightarrow> current s a \<Longrightarrow> current t a"
  by (simp add: current_def)

lemma keeps_act_on_approval:
  assumes "current s a"
  shows "keeps (lawful strict L) s (act_on_approval L st r a evidence F T)"
  unfolding act_on_approval_def
proof (intro lawful.keeps_lift_bind, rule lawful.keeps_leaves_bind [OF evolves_keeps [OF lawful_add_decision]
      add_decision_leaves_approvals], goal_cases)
  case (1 d p t)
  obtain stored created where p: "p = (stored, created)" by (cases p)
  from current_same_approvals [OF 1(3) assms] have "current t a" .
  from lawful_approvals(3) [OF this] show ?case
    unfolding p prod.case
    by (intro lawful.keeps_if, intro lawful.keeps_step_bind; auto split: prod.split
        intro!: evolves_keeps lawful.evolves_rules lawful_maybe_execution)
qed

lemma keeps_finalize_pending:
  assumes "current s a"
  shows "keeps (lawful strict L) s (finalize_pending L st r a evidence F T)"
proof -
  have "keeps (lawful strict L) s (bindH (act_on_approval L st r a e F T) (\<lambda>p. returnH (Some p)))" for e
    by (rule lawful.keeps_step_bind [OF keeps_act_on_approval [OF assms]]) (rule lawful.evolves_return)
  then show ?thesis
    unfolding finalize_pending_def Let_def
    by (auto split: option.split intro!: lawful.keeps_lift_bind evolves_keeps [OF lawful_notes(4)])
qed

lemma keeps_maybe_finalize:
  assumes "current s a"
  shows "keeps (lawful strict L) s (maybe_finalize_automatic_approval L st a policy_id seal job F T)"
  unfolding maybe_finalize_automatic_approval_def Let_def
proof (rule lawful.keeps_leaves_bind [OF evolves_keeps [OF lawful_current_policy] current_policy_leaves_executions(2)],
    goal_cases)
  case (1 hr t)
  from current_same_approvals [OF 1(2) assms] have "current t a" .
  from keeps_finalize_pending [OF this] show ?case
    by (auto split: option.split intro!: evolves_keeps lawful.evolves_rules lawful_notes)
qed

end
