(* ===== verification/Routes.thy ===== *)
theory Routes
  imports EngineLaws
begin

text \<open>
  The transactions of the routes over approvals and executions (\<open>api/routes/approvals.py\<close> and
  \<open>api/routes/executions.py\<close>): which store a request leaves behind. A handler that returns is
  committed; one that raises is rolled back, except for the audited expiries, and a conflict in
  the database is answered by looking the idempotent execution up again. Responses and
  authentication are left out. The preflight result comes from outside the transactions.
\<close>

section \<open>Transactions\<close>

text \<open>\<open>_commit_safe_state_on_error\<close>, and the expiry that \<open>_commit_expiration_on_error\<close> commits.\<close>

definition commit_safe :: "exn \<Rightarrow> bool" where
  "commit_safe e \<longleftrightarrow> code_of e \<in> {''APPROVAL_EXPIRED'', ''EXECUTION_INTENT_EXPIRED''}"

definition is_integrity :: "exn \<Rightarrow> bool" where
  "is_integrity e \<longleftrightarrow> (case e of IntegrityErr _ \<Rightarrow> True | _ \<Rightarrow> False)"

definition committing :: "'a session \<Rightarrow> 'a session" where
  "committing m = (\<lambda>s. case m s of
     (Inr x, t) \<Rightarrow> (Inr x, t)
   | (Inl e, t) \<Rightarrow> (Inl e, if commit_safe e then t else s))"

text \<open>
  A request that first prepares and then tries: an exception of a kind raised by the second part is
  answered after a rollback to the start of the request.
\<close>

definition trying ::
    "'p session \<Rightarrow> (exn \<Rightarrow> bool) \<Rightarrow> ('p \<Rightarrow> 'a session) \<Rightarrow> (exn \<Rightarrow> 'a session) \<Rightarrow> 'a session" where
  "trying prepare bad m h = (\<lambda>s. case prepare s of
     (Inl e, t) \<Rightarrow> (Inl e, t)
   | (Inr x, t) \<Rightarrow> (case m x t of
       (Inl e, u) \<Rightarrow> (if bad e then h e s else (Inl e, u))
     | (Inr y, u) \<Rightarrow> (Inr y, u)))"

context store_preorder
begin

lemma evolves_tries:
  assumes "evolves R prepare" and "\<And>x. evolves R (m x)" and "\<And>e. evolves R (h e)"
  shows "evolves R (\<lambda>s. case prepare s of
     (Inl e, t) \<Rightarrow> (Inl e, t)
   | (Inr x, t) \<Rightarrow> (case m x t of
       (Inl e, u) \<Rightarrow> (if bad e then h e s else (Inl e, u))
     | (Inr y, u) \<Rightarrow> (Inr y, u)))"
  unfolding evolves_def
proof
  fix s
  have step: "R s (snd (prepare s))" "R t (snd (m x t))" "R s (snd (h e s))" for x t e
    using assms by (simp_all add: evolves_def)
  show "R s (snd (case prepare s of
     (Inl e, t) \<Rightarrow> (Inl e, t)
   | (Inr x, t) \<Rightarrow> (case m x t of
       (Inl e, u) \<Rightarrow> (if bad e then h e s else (Inl e, u))
     | (Inr y, u) \<Rightarrow> (Inr y, u))))"
  proof (cases "prepare s")
    case (Pair r t)
    show ?thesis
    proof (cases r)
      case (Inl e)
      with Pair step(1) show ?thesis by simp
    next
      case (Inr x)
      from Pair step(1) step(2) [of t x] have "R s (snd (m x t))" by (auto intro: trans_R)
      with Pair Inr step(3) show ?thesis by (cases "m x t"; cases "fst (m x t)") auto
    qed
  qed
qed

end

lemma evolves_trying:
  "evolves (lawful strict L) prepare \<Longrightarrow> (\<And>x. evolves (lawful strict L) (m x)) \<Longrightarrow>
    (\<And>e. evolves (lawful strict L) (h e)) \<Longrightarrow> evolves (lawful strict L) (trying prepare bad m h)"
  unfolding trying_def by (rule lawful.evolves_tries)

lemma evolves_committing: "evolves (lawful strict L) m \<Longrightarrow> evolves (lawful strict L) (committing m)"
proof -
  assume m: "evolves (lawful strict L) m"
  have "lawful strict L s (snd (committing m s))" for s
    using m lawful.refl_R [of strict L s]
    by (cases "m s"; cases "fst (m s)") (auto simp: committing_def evolves_def dest!: spec [of _ s])
  then show ?thesis by (simp add: evolves_def)
qed

section \<open>Execution routes\<close>

definition require_stage_not_disabled :: "lib \<Rightarrow> automation_stage \<Rightarrow> int \<Rightarrow> string \<Rightarrow> revision session" where
  "require_stage_not_disabled L stage now nid =
    bindH (get_current_policy L now nid) (\<lambda>hr.
    bindH (raise_ifH (stage_mode (snd hr) stage = AM_DISABLED)
      (app_err_details ''AUTOMATION_STAGE_DISABLED'' 409
        [(''stage'', JStr (automation_stage_value stage)),
         (''revision_no'', JInt (pr_revision_no (snd hr)))])) (\<lambda>_.
    returnH (snd hr)))"

definition create_approval_execution_intent ::
    "lib \<Rightarrow> string \<Rightarrow> launch_mode \<Rightarrow> int option \<Rightarrow> settings \<Rightarrow> string \<Rightarrow> int \<Rightarrow> string \<Rightarrow> string \<Rightarrow> string
      \<Rightarrow> (intent \<times> string) session" where
  "create_approval_execution_intent L approval_id lm ttl st actor now policy_id nid nonce = committing
    (trying (require_stage_not_disabled L AS_EXECUTION now policy_id) is_integrity
       (\<lambda>_. create_execution_intent L approval_id lm ttl st actor manual_binding now nid nonce)
       (\<lambda>_. raiseH (app_err ''EXECUTION_INTENT_CONFLICT'' 409)))"

definition execute_approval_download_plan ::
    "lib \<Rightarrow> string \<Rightarrow> string \<Rightarrow> string \<Rightarrow> string \<Rightarrow> settings \<Rightarrow> string \<Rightarrow> int \<Rightarrow> string \<Rightarrow> string
      \<Rightarrow> (execution \<times> bool) session" where
  "execute_approval_download_plan L approval_id intent_id nonce key st actor now policy_id nid = committing
    (trying (require_stage_not_disabled L AS_EXECUTION now policy_id) is_integrity
      (\<lambda>_. execute_approved_plan L approval_id intent_id nonce key st actor manual_binding now nid)
      (\<lambda>_. bindH (recover_idempotent_execution L approval_id intent_id nonce key) (\<lambda>e. returnH (e, False))))"

definition reconcile_download_execution :: "lib \<Rightarrow> string \<Rightarrow> string option \<Rightarrow> string \<Rightarrow> int \<Rightarrow> execution session" where
  "reconcile_download_execution L execution_id reason actor now =
    transact (request_reconciliation L execution_id reason actor now)"

section \<open>Approval routes\<close>

definition reject_approval_request :: "lib \<Rightarrow> string \<Rightarrow> string option \<Rightarrow> string \<Rightarrow> int \<Rightarrow> approval session" where
  "reject_approval_request L approval_id reason actor now = committing
    (bindH (get_approval_or_404 L approval_id) (\<lambda>a. reject_request L a reason actor now))"

definition revoke_approval_request :: "lib \<Rightarrow> string \<Rightarrow> string option \<Rightarrow> string \<Rightarrow> int \<Rightarrow> approval session" where
  "revoke_approval_request L approval_id reason actor now = committing
    (bindH (get_approval_or_404 L approval_id) (\<lambda>a. revoke_request L a reason actor now))"

definition create_candidate_approval ::
    "lib \<Rightarrow> string \<Rightarrow> int option \<Rightarrow> settings \<Rightarrow> string \<Rightarrow> fresh \<Rightarrow> readings \<Rightarrow> approval session" where
  "create_candidate_approval L candidate_id ttl st actor F T = transact
    (trying (require_stage_not_disabled L AS_TORRENT_SELECTION (T ''policy'') (F ''policy'')) is_integrity
      (\<lambda>_. bindH (create_approval_request L candidate_id ttl st actor (T ''approval'') (F ''approval'')) (\<lambda>a.
        bindH (maybe_enqueue_automatic_preflight L st a F T) (\<lambda>_. returnH a)))
      (\<lambda>_. raiseH (app_err ''APPROVAL_REQUEST_CONFLICT'' 409)))"

text \<open>
  The approve and the preflight route read qBittorrent between two transactions. The first locks a
  pending approval and hands its snapshot and seal on; the second checks both again, stores the
  result and goes on with it. The stored approval of the second is the one it locked.
\<close>

definition approve_open ::
    "lib \<Rightarrow> string \<Rightarrow> approve_body \<Rightarrow> readings \<Rightarrow> fresh \<Rightarrow> (snapshot \<times> string) session" where
  "approve_open L approval_id req T F = committing
    (bindH (require_stage_not_disabled L AS_APPROVAL (T ''policy'') (F ''policy'')) (\<lambda>_.
     bindH (get_approval_or_404 L approval_id) (\<lambda>a.
     bindH (require_pending_approval L a (Aware (T ''pending''))) (\<lambda>sn.
     bindH (liftH (validate_manual_approval_acknowledgements L sn req)) (\<lambda>_.
     returnH (sn, ar_snapshot_hash a))))))"

definition require_same_pending :: "lib \<Rightarrow> approval \<Rightarrow> string \<Rightarrow> int \<Rightarrow> snapshot session" where
  "require_same_pending L a seal now =
    bindH (require_pending_approval L a (Aware now)) (\<lambda>sn.
    bindH (raise_ifH (ar_snapshot_hash a \<noteq> seal) (app_err ''APPROVAL_SNAPSHOT_CHANGED'' 409)) (\<lambda>_.
    returnH sn))"

definition approve_close ::
    "lib \<Rightarrow> string \<Rightarrow> string \<Rightarrow> approve_body \<Rightarrow> preflight_result \<Rightarrow> settings \<Rightarrow> string \<Rightarrow> fresh \<Rightarrow> readings
      \<Rightarrow> approval session" where
  "approve_close L approval_id seal req result st actor F T = committing
    (bindH (require_stage_not_disabled L AS_APPROVAL (T ''policy'') (F ''policy'')) (\<lambda>_.
     bindH (liftH (require_preflight_policy_current L (pf_policy_fingerprint result) st)) (\<lambda>_.
     bindH (get_approval_or_404 L approval_id) (\<lambda>a.
     bindH (require_same_pending L a seal (T ''pending'')) (\<lambda>_.
     bindH (save_preflight_result L a result actor (T ''preflight saved'')) (\<lambda>b.
     if \<not> preflight_is_manually_passable result then returnH b
     else
       bindH (approve_request L b req st actor (T ''approve'') (F ''plan'')) (\<lambda>(c, p).
       bindH (maybe_create_automatic_execution L st c F T) (\<lambda>_. returnH c))))))))"

definition preflight_open :: "lib \<Rightarrow> string \<Rightarrow> readings \<Rightarrow> fresh \<Rightarrow> (snapshot \<times> string) session" where
  "preflight_open L approval_id T F = committing
    (bindH (require_stage_not_disabled L AS_APPROVAL (T ''policy'') (F ''policy'')) (\<lambda>_.
     bindH (get_approval_or_404 L approval_id) (\<lambda>a.
     bindH (require_pending_approval L a (Aware (T ''pending''))) (\<lambda>sn.
     returnH (sn, ar_snapshot_hash a)))))"

definition preflight_close ::
    "lib \<Rightarrow> string \<Rightarrow> string \<Rightarrow> preflight_result \<Rightarrow> settings \<Rightarrow> string \<Rightarrow> fresh \<Rightarrow> readings \<Rightarrow> unit session" where
  "preflight_close L approval_id seal result st actor F T = committing
    (bindH (get_approval_or_404 L approval_id) (\<lambda>a.
     bindH (require_same_pending L a seal (T ''pending'')) (\<lambda>_.
     bindH (save_preflight_result L a result actor (T ''preflight saved'')) (\<lambda>b.
     bindH (maybe_finalize_automatic_approval L st b None (Some seal) None F T) (\<lambda>_.
     returnH ())))))"

text \<open>
  The first transaction of \<open>confirm_candidate_download\<close>: the execution of a replayed request, or the
  pending approval to decide on and whether it is new.
\<close>

definition replay_confirmation ::
    "lib \<Rightarrow> execution \<Rightarrow> int option \<Rightarrow> approve_body \<Rightarrow> execution session" where
  "replay_confirmation L e ttl req =
    bindH (get_approval_or_404 L (de_approval_id e)) (\<lambda>a.
    bindH (liftH (verify_snapshot L a)) (\<lambda>sn.
    bindH (liftH (validate_manual_approval_acknowledgements L sn req)) (\<lambda>_.
    bindH (liftH (case request_compatible a ttl of Inl _ \<Rightarrow> Inl key_reused | Inr u \<Rightarrow> Inr u)) (\<lambda>_.
    returnH e))))"

fun require_stages :: "lib \<Rightarrow> automation_stage list \<Rightarrow> int \<Rightarrow> string \<Rightarrow> unit session" where
  "require_stages L [] now nid = returnH ()"
| "require_stages L (st # sts) now nid =
    bindH (require_stage_not_disabled L st now nid) (\<lambda>_. require_stages L sts now nid)"

definition confirm_pending ::
    "lib \<Rightarrow> string \<Rightarrow> int option \<Rightarrow> approve_body \<Rightarrow> settings \<Rightarrow> string \<Rightarrow> int \<Rightarrow> string
      \<Rightarrow> (execution + approval \<times> bool) session" where
  "confirm_pending L candidate_id ttl req st actor now nid =
    bindH (get_or_create_pending_approval_request L candidate_id ttl st actor now now now nid) (\<lambda>ab.
    bindH (require_pending_approval L (fst ab) (Aware now)) (\<lambda>sn.
    bindH (liftH (validate_manual_approval_acknowledgements L sn req)) (\<lambda>_.
    returnH (Inr ab))))"

definition confirm_open ::
    "lib \<Rightarrow> string \<Rightarrow> string \<Rightarrow> launch_mode \<Rightarrow> int option \<Rightarrow> approve_body \<Rightarrow> settings \<Rightarrow> string \<Rightarrow> int \<Rightarrow> string
      \<Rightarrow> string \<Rightarrow> (execution + approval \<times> bool) session" where
  "confirm_open L candidate_id key lm ttl req st actor now policy_id nid = committing
    (bindH (find_idempotent_candidate_execution L candidate_id key lm) (\<lambda>found.
     case found of
       Some e \<Rightarrow> bindH (replay_confirmation L e ttl req) (\<lambda>x. returnH (Inl x))
     | None \<Rightarrow>
         trying
           (bindH (require_stages L [AS_TORRENT_SELECTION, AS_APPROVAL, AS_EXECUTION] now policy_id) (\<lambda>_.
            liftH (require_execution_control_plane_enabled st)))
           is_integrity
           (\<lambda>_. confirm_pending L candidate_id ttl req st actor now nid)
           (\<lambda>_. raiseH (app_err ''APPROVAL_REQUEST_CONFLICT'' 409))))"

text \<open>
  Its second one, after the preflight: store the result, and if it can be passed approve, create
  the intent and consume it, all or nothing. \<open>None\<close> is the outcome \<open>PREFLIGHT_BLOCKED\<close>.
\<close>

record confirm_inputs =
  ci_plan :: string
  ci_intent :: string
  ci_nonce :: string
  ci_execution :: string
  ci_saved_at :: int
  ci_approved_at :: int
  ci_intent_at :: int
  ci_executed_at :: int

definition confirm_decide ::
    "lib \<Rightarrow> approval \<Rightarrow> approve_body \<Rightarrow> preflight_result \<Rightarrow> launch_mode \<Rightarrow> string \<Rightarrow> settings \<Rightarrow> string
      \<Rightarrow> confirm_inputs \<Rightarrow> execution option session" where
  "confirm_decide L a req result lm key st actor ci =
    bindH (save_preflight_result L a result actor (ci_saved_at ci)) (\<lambda>b.
    if \<not> preflight_is_manually_passable result then returnH None
    else
      bindH (approve_request L b req st actor (ci_approved_at ci) (ci_plan ci)) (\<lambda>_.
      bindH (create_execution_intent L (ar_id a) lm None st actor manual_binding (ci_intent_at ci) (ci_intent ci)
        (ci_nonce ci)) (\<lambda>i.
      bindH (execute_approved_plan L (ar_id a) (ei_id (fst i)) (snd i) key st actor manual_binding
        (ci_executed_at ci) (ci_execution ci)) (\<lambda>e.
      returnH (Some (fst e))))))"

definition confirm_locked ::
    "lib \<Rightarrow> approval \<Rightarrow> string \<Rightarrow> approve_body \<Rightarrow> preflight_result \<Rightarrow> launch_mode \<Rightarrow> string \<Rightarrow> settings
      \<Rightarrow> string \<Rightarrow> int \<Rightarrow> confirm_inputs \<Rightarrow> execution option session" where
  "confirm_locked L a seal req result lm key st actor now ci =
    bindH (require_pending_approval L a (Aware now)) (\<lambda>_.
    bindH (raise_ifH (ar_snapshot_hash a \<noteq> seal) (app_err ''APPROVAL_SNAPSHOT_CHANGED'' 409)) (\<lambda>_.
    confirm_decide L a req result lm key st actor ci))"

definition confirm_prepare ::
    "lib \<Rightarrow> string \<Rightarrow> preflight_result \<Rightarrow> settings \<Rightarrow> int \<Rightarrow> string \<Rightarrow> approval session" where
  "confirm_prepare L approval_id result st now policy_id =
    bindH (require_stages L [AS_APPROVAL, AS_EXECUTION] now policy_id) (\<lambda>_.
    bindH (liftH (require_execution_control_plane_enabled st)) (\<lambda>_.
    bindH (liftH (require_preflight_policy_current L (pf_policy_fingerprint result) st)) (\<lambda>_.
    get_approval_or_404 L approval_id)))"

definition confirm_close ::
    "lib \<Rightarrow> string \<Rightarrow> string \<Rightarrow> string \<Rightarrow> approve_body \<Rightarrow> preflight_result \<Rightarrow> launch_mode \<Rightarrow> string \<Rightarrow> settings
      \<Rightarrow> string \<Rightarrow> int \<Rightarrow> string \<Rightarrow> confirm_inputs \<Rightarrow> execution option session" where
  "confirm_close L candidate_id approval_id seal req result lm key st actor now policy_id ci = committing
    (trying (confirm_prepare L approval_id result st now policy_id)
      (\<lambda>e. is_integrity e \<or> code_of e = ''APPROVAL_NOT_PENDING'')
      (\<lambda>a. confirm_locked L a seal req result lm key st actor now ci)
      (\<lambda>e. bindH (find_idempotent_candidate_execution L candidate_id key lm) (\<lambda>found.
        case found of
          None \<Rightarrow> raiseH (if is_integrity e then app_err ''CONFIRM_DOWNLOAD_CONFLICT'' 409 else e)
        | Some x \<Rightarrow> returnH (Some x))))"

section \<open>The routes keep the laws\<close>

lemma reads_get_approval:
  assumes "get_approval_or_404 L k s = (Inr a, t)"
  shows "t = s \<and> current s a \<and> ar_id a = k"
  using assms by (auto simp: get_approval_or_404_def handler_simps option_or_Inr_iff
      dest: row_get_Some_key current_get)

lemma reads_approval: "reads (get_approval_or_404 L k)"
  unfolding reads_def get_approval_or_404_def by (intro leaves.evolves_rules)

lemma lawful_stage [evolves_intros]: "evolves (lawful strict K) (require_stage_not_disabled L stage now nid)"
  unfolding require_stage_not_disabled_def by (intro lawful.evolves_rules lawful_current_policy)

lemma lawful_execution_routes [evolves_intros]:
  "evolves (lawful strict K) (create_approval_execution_intent L k lm ttl st actor now pid nid nonce)"
  "evolves (lawful strict K) (execute_approval_download_plan L k i nonce key st actor now pid nid)"
  "evolves (lawful strict K) (reconcile_download_execution L x reason actor now)"
  unfolding create_approval_execution_intent_def execute_approval_download_plan_def reconcile_download_execution_def
  by (intro evolves_committing evolves_trying lawful.evolves_rules lawful_stage lawful_create_intent
      lawful_execute lawful_request_reconciliation lawful.evolves_reads [OF reads_handlers(5)])+

lemma lawful_approval_routes [evolves_intros]:
  "evolves (lawful strict L) (reject_approval_request L k reason actor now)"
  "evolves (lawful strict L) (revoke_approval_request L k reason actor now)"
  unfolding reject_approval_request_def revoke_approval_request_def
  by ((rule evolves_committing, rule keeps_evolves, rule lawful.keeps_reads_bind [OF reads_approval],
      rule lawful_approvals, drule reads_get_approval, blast)+)

lemma lawful_create_candidate [evolves_intros]:
  "evolves (lawful strict L) (create_candidate_approval L c ttl st actor F T)"
  unfolding create_candidate_approval_def
  by (intro lawful.evolves_rules evolves_trying lawful_stage lawful_create lawful_maybe_preflight)

lemma lawful_get_or_create:
  "evolves (lawful strict L) (get_or_create_pending_approval_request L c ttl st actor n1 n2 n3 nid)"
  unfolding get_or_create_pending_approval_request_def
  by (intro lawful.evolves_rules lawful.evolves_catch lawful_create)

text \<open>The approval that is got or created is the stored one.\<close>

lemma create_approval_current:
  assumes "create_approval_request L c ttl st actor now nid s = (Inr a, t)"
  shows "current t a"
proof (rule create_approval_request_run [OF assms], goal_cases)
  case (1 rec media cand sn u)
  then have id: "ar_id a \<notin> ar_id ` set (db_approvals u)" and rows: "db_approvals t = row_add a (db_approvals u)"
    by (simp_all add: row_add_def)
  from id have "row_get ar_id (ar_id a) (db_approvals u) = None"
    by (auto simp: row_get_def find_None_iff image_iff)
  then show ?case by (simp add: current_def rows approvals.get_add_fresh)
qed

lemma current_found:
  "integrity L s \<Longrightarrow> find P (db_approvals s) = Some a \<Longrightarrow> current s a"
  by (auto simp: integrity_def approvals_ok_def dest!: find_SomeD intro: current_member)

lemma reusable_Some: "pending_approval_is_reusable L x ttl now = Inr True \<Longrightarrow> \<exists>a. x = Some a"
  by (cases x) (simp_all add: pending_approval_is_reusable_def)

lemma get_or_create_current:
  assumes ok: "integrity L s"
    and run: "get_or_create_pending_approval_request L c ttl st actor n1 n2 n3 nid s = (Inr (a, new), t)"
  shows "current t a"
proof -
  let ?create = "create_approval_request L c ttl st actor n2 nid"
  let ?first = "active_for_candidate c s"
  obtain reusable where first: "pending_approval_is_reusable L ?first ttl (Aware n1) = Inr reusable"
    using run by (cases "pending_approval_is_reusable L ?first ttl (Aware n1)")
      (simp_all add: get_or_create_pending_approval_request_def handler_defs)
  show ?thesis
  proof (cases reusable)
    case True
    with first have "pending_approval_is_reusable L ?first ttl (Aware n1) = Inr True" by simp
    from reusable_Some [OF this] obtain b where b: "?first = Some b" by blast
    with run first True have "a = b \<and> t = s"
      by (simp add: get_or_create_pending_approval_request_def handler_defs)
    with b ok show ?thesis by (auto simp: active_for_candidate_def intro: current_found)
  next
    case False
    show ?thesis
    proof (cases "?create s")
      case (Pair r u)
      show ?thesis
      proof (cases r)
        case (Inr b)
        with Pair run first False have "a = b \<and> t = u"
          by (simp add: get_or_create_pending_approval_request_def catchH_def handler_defs)
        with Pair Inr show ?thesis by (simp add: create_approval_current)
      next
        case (Inl e)
        let ?winner = "find (\<lambda>a. ar_torrent_candidate_id a = c \<and> ar_status a = AP_PENDING) (db_approvals u)"
        from ok Pair lawful_create have ok': "integrity L u"
          by (metis evolvesD lawful_def)
        from Pair Inl run first False
        have "code_of e = ''APPROVAL_REQUEST_DUPLICATE''
          \<and> pending_approval_is_reusable L ?winner ttl (Aware n3) = Inr True \<and> a = the ?winner \<and> t = u"
          by (cases "pending_approval_is_reusable L ?winner ttl (Aware n3)")
            (auto simp: get_or_create_pending_approval_request_def catchH_def handler_defs split: if_splits)
        with ok' show ?thesis using reusable_Some [of L ?winner ttl "Aware n3"]
          by (auto intro: current_found)
      qed
    qed
  qed
qed

lemma reads_replay: "reads (replay_confirmation L e ttl req)"
  unfolding reads_def replay_confirmation_def
  by (intro leaves.evolves_rules reads_approval [unfolded reads_def])

lemma lawful_stages: "evolves (lawful strict K) (require_stages L sts now nid)"
  by (induction sts) (simp_all add: lawful.evolves_return lawful.evolves_bind lawful_stage)

lemma lawful_confirm_pending: "evolves (lawful strict L) (confirm_pending L c ttl req st actor now nid)"
  unfolding confirm_pending_def
proof (rule keeps_evolves, rule keeps_lawfulI, rule lawful.keeps_bind [OF evolves_keeps [OF lawful_get_or_create]])
  fix s t and ab :: "approval \<times> bool"
  assume "integrity L s" and "get_or_create_pending_approval_request L c ttl st actor now now now nid s = (Inr ab, t)"
  then have "current t (fst ab)" by (cases ab) (auto intro: get_or_create_current)
  from keeps_lawful_pending [OF this]
  show "keeps (lawful strict L) t (bindH (require_pending_approval L (fst ab) (Aware now)) (\<lambda>sn.
          bindH (liftH (validate_manual_approval_acknowledgements L sn req)) (\<lambda>_.
          returnH (Inr ab))))"
    by (rule lawful.keeps_step_bind) (intro lawful.evolves_rules)
qed

lemma lawful_confirm_open [evolves_intros]:
  "evolves (lawful strict L) (confirm_open L c key lm ttl req st actor now pid nid)"
  unfolding confirm_open_def
  by (intro evolves_committing evolves_trying lawful.evolves_rules lawful_stages lawful_confirm_pending
      lawful.evolves_reads [OF reads_handlers(6)] lawful.evolves_reads [OF reads_replay])

lemma keeps_confirm_decide:
  assumes "current s a"
  shows "keeps (lawful strict L) s (confirm_decide L a req r lm key st actor ci)"
  unfolding confirm_decide_def
proof (rule lawful.keeps_bind [OF lawful_approvals(1) [OF assms]], goal_cases)
  case (1 b t)
  from save_preflight_current [OF assms 1] show ?case
    by (intro lawful.keeps_if lawful.keeps_return lawful.keeps_step_bind [OF lawful_approvals(2)]
        lawful.evolves_rules lawful_create_intent lawful_execute)
qed

lemma keeps_confirm_locked:
  assumes "current s a"
  shows "keeps (lawful strict L) s (confirm_locked L a seal req r lm key st actor now ci)"
  unfolding confirm_locked_def
  by (intro lawful.keeps_guard_bind [OF keeps_lawful_pending [OF assms]] lawful.keeps_raise_if_bind
      keeps_confirm_decide [OF assms]) (simp add: require_pending_run)

lemma keeps_trying:
  assumes "keeps (lawful strict L) s prepare"
    and "\<And>x t. prepare s = (Inr x, t) \<Longrightarrow> keeps (lawful strict L) t (m x)"
    and "\<And>e. keeps (lawful strict L) s (h e)"
  shows "keeps (lawful strict L) s (trying prepare bad m h)"
proof (cases "prepare s")
  case (Pair r t)
  show ?thesis
  proof (cases r)
    case (Inl e)
    with Pair assms(1) show ?thesis by (simp add: trying_def keeps_def)
  next
    case (Inr x)
    with Pair assms(1,2) have "lawful strict L s (snd (m x t))"
      by (fastforce simp: keeps_def intro: lawful.trans_R)
    with Pair Inr assms(3) show ?thesis
      by (cases "m x t"; cases "fst (m x t)") (auto simp: trying_def keeps_def)
  qed
qed

lemma confirm_prepare_run:
  "confirm_prepare L k r st now pid s = (Inr a, t) \<Longrightarrow> current t a"
  by (auto simp: confirm_prepare_def handler_simps dest: reads_get_approval)

lemma lawful_confirm_prepare: "evolves (lawful strict L) (confirm_prepare L k r st now pid)"
  unfolding confirm_prepare_def
  by (intro lawful.evolves_rules lawful_stages lawful.evolves_reads [OF reads_approval])

lemma lawful_confirm_close [evolves_intros]:
  "evolves (lawful strict L) (confirm_close L c k seal req r lm key st actor now pid ci)"
  unfolding confirm_close_def
proof (rule evolves_committing, rule keeps_evolves, rule keeps_trying)
  show "keeps (lawful strict L) s (confirm_prepare L k r st now pid)" for s
    by (rule evolves_keeps [OF lawful_confirm_prepare])
  show "keeps (lawful strict L) t (confirm_locked L x seal req r lm key st actor now ci)"
    if "confirm_prepare L k r st now pid s = (Inr x, t)" for s x t
    by (rule keeps_confirm_locked [OF confirm_prepare_run [OF that]])
  show "keeps (lawful strict L) s (bindH (find_idempotent_candidate_execution L c key lm) (\<lambda>found.
      case found of
        None \<Rightarrow> raiseH (if is_integrity e then app_err ''CONFIRM_DOWNLOAD_CONFLICT'' 409 else e)
      | Some x \<Rightarrow> returnH (Some x)))" for s e
    by (rule evolves_keeps) (intro lawful.evolves_rules lawful.evolves_reads [OF reads_handlers(6)])
qed

text \<open>The routes around a preflight.\<close>

lemma keeps_same_pending:
  assumes "current s a"
  shows "keeps (lawful strict L) s (require_same_pending L a seal now)"
  unfolding require_same_pending_def
  by (rule lawful.keeps_guard_bind [OF keeps_lawful_pending [OF assms]])
    (auto simp: require_pending_run intro!: lawful.keeps_raise_if_bind lawful.keeps_return)

lemma require_same_pending_run:
  "require_same_pending L a seal now s = (Inr sn, t) \<Longrightarrow> t = s"
  by (auto simp: require_same_pending_def handler_simps require_pending_run)

lemma lawful_opens [evolves_intros]:
  "evolves (lawful strict L) (approve_open L k req T F)"
  "evolves (lawful strict L) (preflight_open L k T F)"
  unfolding approve_open_def preflight_open_def
  by ((rule evolves_committing, rule lawful.evolves_bind [OF lawful_stage], rule keeps_evolves,
      rule lawful.keeps_reads_bind [OF reads_approval], rule lawful.keeps_step_bind,
      rule keeps_lawful_pending, drule reads_get_approval, blast, intro lawful.evolves_rules)+)

lemma keeps_saved_result:
  assumes "current s a" and "\<And>b t. current t b \<Longrightarrow> keeps (lawful strict L) t (f b)"
  shows "keeps (lawful strict L) s (bindH (require_same_pending L a seal now) (\<lambda>_.
    bindH (save_preflight_result L a result actor now2) f))"
proof (rule lawful.keeps_guard_bind [OF keeps_same_pending [OF assms(1)]])
  show "require_same_pending L a seal now s = (Inr x, t) \<Longrightarrow> t = s" for x t
    by (rule require_same_pending_run)
  show "keeps (lawful strict L) s (bindH (save_preflight_result L a result actor now2) f)"
    by (rule lawful.keeps_bind [OF lawful_approvals(1) [OF assms(1)]])
      (auto intro: assms(2) save_preflight_current [OF assms(1)])
qed

lemma lawful_approve_close [evolves_intros]:
  "evolves (lawful strict L) (approve_close L k seal req result st actor F T)"
  unfolding approve_close_def
proof (rule evolves_committing, rule lawful.evolves_bind [OF lawful_stage],
    rule lawful.evolves_bind [OF lawful.evolves_lift], rule keeps_evolves,
    rule lawful.keeps_reads_bind [OF reads_approval], rule keeps_saved_result, goal_cases)
  case (1 u v s a)
  then show ?case by (auto dest: reads_get_approval)
next
  case (2 u v s a b t)
  show ?case
    by (intro lawful.keeps_if lawful.keeps_return lawful.keeps_step_bind [OF lawful_approvals(2) [OF 2(2)]])
      (auto split: prod.split intro!: lawful.evolves_rules lawful_maybe_execution)
qed

lemma lawful_preflight_close [evolves_intros]:
  "evolves (lawful strict L) (preflight_close L k seal result st actor F T)"
  unfolding preflight_close_def
proof (rule evolves_committing, rule keeps_evolves, rule lawful.keeps_reads_bind [OF reads_approval],
    rule keeps_saved_result, goal_cases)
  case (1 s a)
  then show ?case by (auto dest: reads_get_approval)
next
  case (2 s a b t)
  show ?case
    by (rule lawful.keeps_step_bind [OF keeps_maybe_finalize [OF 2(2)]]) (rule lawful.evolves_return)
qed

end
