(* ===== verification/JobQueue.thy ===== *)
theory JobQueue
  imports WorkflowStore Preflight
begin

text \<open>
  The queue in the table \<open>jobs\<close>, as the two workers over it use it (\<open>workers/processor.py\<close> and
  \<open>workers/automation.py\<close>): which job may be claimed, what a claim and an end write, and how long a
  retry waits. A worker owns a job by the lease token of its claim.
\<close>

section \<open>Claims\<close>

definition claimable :: "int \<Rightarrow> int \<Rightarrow> task \<Rightarrow> bool" where
  "claimable lease now t \<longleftrightarrow>
    tk_status t = TK_PENDING
    \<or> (tk_status t = TK_RETRY_WAIT
       \<and> (case tk_next_retry_at t of None \<Rightarrow> True | Some r \<Rightarrow> as_utc r \<le> now))
    \<or> (tk_status t = TK_RUNNING
       \<and> (case tk_locked_at t of None \<Rightarrow> False | Some l \<Rightarrow> as_utc l < now - seconds lease))"

definition may_claim :: "int \<Rightarrow> int \<Rightarrow> task \<Rightarrow> bool" where
  "may_claim lease now t \<longleftrightarrow> claimable lease now t \<and> tk_attempts t < tk_max_attempts t"

definition taken :: "string \<Rightarrow> string \<Rightarrow> int \<Rightarrow> task \<Rightarrow> task" where
  "taken w token now t = t\<lparr> tk_status := TK_RUNNING, tk_attempts := tk_attempts t + 1,
     tk_next_retry_at := None, tk_locked_at := Some (Aware now), tk_locked_by := Some w,
     tk_lease_token := Some token \<rparr>"

text \<open>A member of the payload that is a text.\<close>

definition payload_text :: "string \<Rightarrow> task \<Rightarrow> string option" where
  "payload_text k t = (case payload_get k t of JStr x \<Rightarrow> Some x | _ \<Rightarrow> None)"

definition first_row :: "'a list \<Rightarrow> 'a option" where
  "first_row xs = (case xs of [] \<Rightarrow> None | x # _ \<Rightarrow> Some x)"

text \<open>An owner: the job runs under this worker and this token.\<close>

definition holds_lease :: "string \<Rightarrow> string \<Rightarrow> task \<Rightarrow> bool" where
  "holds_lease w token t \<longleftrightarrow> token \<noteq> [] \<and> tk_status t = TK_RUNNING \<and> tk_locked_by t = Some w
    \<and> tk_lease_token t = Some token"

definition released_task :: "task \<Rightarrow> task" where
  "released_task t = t\<lparr> tk_locked_at := None, tk_locked_by := None, tk_lease_token := None \<rparr>"

definition succeeded :: "task \<Rightarrow> task" where
  "succeeded t = (released_task t)\<lparr> tk_status := TK_SUCCEEDED, tk_error_code := None, tk_error_message := None \<rparr>"

section \<open>Retries\<close>

definition may_retry :: "app_error \<Rightarrow> task \<Rightarrow> bool" where
  "may_retry e t \<longleftrightarrow> retryable e \<and> tk_attempts t < tk_max_attempts t"

definition fallback_delay :: "int \<Rightarrow> rat" where
  "fallback_delay attempts = of_int (min 3600 (2 ^ nat attempts))"

text \<open>
  The seconds before the next attempt: doubled at each attempt, or what the site asked for, never
  less and at most an hour.
\<close>

definition retry_delay_seconds :: "lib \<Rightarrow> app_error \<Rightarrow> int \<Rightarrow> rat" where
  "retry_delay_seconds L e attempts =
    (let fallback = fallback_delay attempts; bounded = (\<lambda>x. max fallback (min 3600 (max 0 x))) in
     case map_of (err_details e) ''retry_after_seconds'' of
       Some (JInt n) \<Rightarrow> bounded (fl_round L (of_int n))
     | Some (JFloat r) \<Rightarrow> if finite_text r then bounded (float_val L r) else fallback
     | _ \<Rightarrow> fallback)"

definition round_half_even :: "rat \<Rightarrow> int" where
  "round_half_even x =
    (let below = \<lfloor>x\<rfloor>; rest = x - of_int below in
     if rest < 1 / 2 then below else if 1 / 2 < rest then below + 1
     else if even below then below else below + 1)"

text \<open>\<open>timedelta(seconds=x)\<close>, in microseconds.\<close>

definition delay_micros :: "lib \<Rightarrow> rat \<Rightarrow> int" where
  "delay_micros L x =
    1000000 * \<lfloor>x\<rfloor> + round_half_even (fl_round L (1000000 * (x - of_int \<lfloor>x\<rfloor>)))"

text \<open>
  The end of a failed attempt. The message of an error is a display text that stands under the
  code of the error.
\<close>

definition failed_task :: "lib \<Rightarrow> app_error \<Rightarrow> int \<Rightarrow> task \<Rightarrow> task" where
  "failed_task L e now t =
    (released_task t)\<lparr> tk_status := (if may_retry e t then TK_RETRY_WAIT else TK_FAILED),
      tk_error_code := Some (error_code e), tk_error_message := Some (text_of L (error_code e)),
      tk_next_retry_at := (if may_retry e t
        then Some (Aware (now + delay_micros L (retry_delay_seconds L e (tk_attempts t)))) else None) \<rparr>"

text \<open>The error a worker records when something else than an \<open>AppError\<close> was raised.\<close>

definition recorded_error :: "string \<Rightarrow> exn \<Rightarrow> app_error" where
  "recorded_error internal e = (case e of AppErr a \<Rightarrow> a
    | _ \<Rightarrow> \<lparr> error_code = internal, status_code = 500, retryable = False, err_details = [] \<rparr>)"

end
