(* ===== verification/PreflightWorker.thy ===== *)
theory PreflightWorker
  imports JobQueue Automation
begin

text \<open>
  The worker of the automatic preflight (\<open>workers/automation.py\<close>). It claims a job of its kind, checks
  what the job is bound to, reads qBittorrent with the same check before each request, and stores
  the result in one transaction that checks once more. Every method that opens a session is one
  transaction here; one that does not commit leaves the store.

  \<open>w\<close> is the identifier of the worker, \<open>T\<close> its clock readings and \<open>F\<close> new identifiers by what they are
  for, as in the engine.
\<close>

section \<open>The claim\<close>

definition is_preflight_job :: "task \<Rightarrow> bool" where
  "is_preflight_job t \<longleftrightarrow> starts_with ''AUTOMATION_PREFLIGHT:'' (tk_job_type t)"

definition next_preflight :: "settings \<Rightarrow> int \<Rightarrow> db \<Rightarrow> task option" where
  "next_preflight st now s = first_row (sort_key (\<lambda>t. as_utc (tk_created_at t)) (sort_key tk_id
    (filter (\<lambda>t. may_claim (st_job_lease_seconds st) now t \<and> is_preflight_job t) (db_tasks s))))"

definition claim_preflight :: "settings \<Rightarrow> string \<Rightarrow> string \<Rightarrow> int \<Rightarrow> task option session" where
  "claim_preflight st w token now = transact
    (bindH (getH (next_preflight st now)) (\<lambda>x.
     case x of
       None \<Rightarrow> returnH None
     | Some t \<Rightarrow>
         let t' = (taken w token now t)\<lparr> tk_error_code := None, tk_error_message := None \<rparr> in
         bindH (save_task t') (\<lambda>_. returnH (Some t'))))"

text \<open>\<open>_owns_job\<close>: besides the token, the lease has not run out.\<close>

definition owns_job :: "settings \<Rightarrow> string \<Rightarrow> string \<Rightarrow> int \<Rightarrow> task \<Rightarrow> bool" where
  "owns_job st w token now t \<longleftrightarrow> tk_status t = TK_RUNNING \<and> tk_locked_by t = Some w \<and> tk_lease_token t = Some token
    \<and> (case tk_locked_at t of None \<Rightarrow> False
        | Some l \<Rightarrow> now < as_utc l + seconds (st_job_lease_seconds st))"

definition owned_job :: "settings \<Rightarrow> string \<Rightarrow> string \<Rightarrow> string \<Rightarrow> int \<Rightarrow> db \<Rightarrow> task option" where
  "owned_job st w job_id token now s =
    (case task_by_id job_id s of None \<Rightarrow> None | Some t \<Rightarrow> if owns_job st w token now t then Some t else None)"

definition require_job_lease :: "settings \<Rightarrow> string \<Rightarrow> string \<Rightarrow> string \<Rightarrow> int \<Rightarrow> task session" where
  "require_job_lease st w job_id token now =
    bindH (getH (owned_job st w job_id token now)) (\<lambda>x.
    liftH (option_or (app_err ''AUTOMATION_PREFLIGHT_LEASE_LOST'' 409) x))"

definition renew_preflight :: "settings \<Rightarrow> string \<Rightarrow> string \<Rightarrow> string \<Rightarrow> int \<Rightarrow> int \<Rightarrow> bool session" where
  "renew_preflight st w job_id token now now2 = transact
    (bindH (getH (owned_job st w job_id token now)) (\<lambda>x.
     case x of
       None \<Rightarrow> returnH False
     | Some t \<Rightarrow> bindH (save_task (t\<lparr> tk_locked_at := Some (Aware now2) \<rparr>)) (\<lambda>_. returnH True)))"

section \<open>The binding\<close>

record preflight_binding =
  pb_job_id :: string
  pb_lease_token :: string
  pb_approval_id :: string
  pb_media_item_id :: string
  pb_snapshot_hash :: string
  pb_policy_revision_id :: string
  pb_queue_decision_id :: string
  pb_preflight_state_hash :: string
  pb_snapshot :: snapshot

definition preflight_state_hash :: "lib \<Rightarrow> approval \<Rightarrow> string" where
  "preflight_state_hash L a = canonical_hash L (JObj
    [(''preflight_result'', (case ar_preflight_result a of None \<Rightarrow> JNull | Some j \<Rightarrow> j)),
     (''preflight_checked_at'', opt_json (\<lambda>t. JStr (iso_text L t)) (ar_preflight_checked_at a))])"

definition payload_invalid :: exn where
  "payload_invalid = app_err ''AUTOMATION_PREFLIGHT_PAYLOAD_INVALID'' 409"

text \<open>Approval, media item, snapshot hash, policy revision and decision.\<close>

definition validated_payload :: "task \<Rightarrow> exn + (string \<times> string \<times> string \<times> string \<times> string)" where
  "validated_payload t = option_or payload_invalid (do {
     approval_id \<leftarrow> payload_text ''approval_id'' t;
     media_id \<leftarrow> payload_text ''media_id'' t;
     seal \<leftarrow> payload_text ''approval_snapshot_hash'' t;
     revision_id \<leftarrow> payload_text ''automation_policy_revision_id'' t;
     decision_id \<leftarrow> payload_text ''automation_decision_id'' t;
     if tk_job_type t = ''AUTOMATION_PREFLIGHT:'' @ approval_id \<and> py_len seal = 64
     then Some (approval_id, media_id, seal, revision_id, decision_id) else None })"

definition queue_decision_ok :: "task \<Rightarrow> approval \<Rightarrow> string \<Rightarrow> decision \<Rightarrow> bool" where
  "queue_decision_ok t a revision_id d \<longleftrightarrow>
    ad_policy_revision_id d = revision_id \<and> ad_stage d = AS_APPROVAL \<and> ad_action d = ''QUEUE_PREFLIGHT''
    \<and> ad_outcome d = DO_ACTION_CREATED \<and> ad_media_item_id d = ar_media_item_id a
    \<and> ad_approval_request_id d = Some (ar_id a)
    \<and> payload_get ''media_id'' t = JStr (ar_media_item_id a) \<and> payload_get ''read_only'' t = JBool True
    \<and> obj_get ''job_id'' (ad_evidence_snapshot d) = Some (JStr (tk_id t))
    \<and> obj_get ''approval_snapshot_hash'' (ad_evidence_snapshot d) = Some (JStr (ar_snapshot_hash a))"

definition validate_binding ::
    "lib \<Rightarrow> settings \<Rightarrow> task \<Rightarrow> approval \<Rightarrow> revision \<Rightarrow> string \<Rightarrow> string \<Rightarrow> string \<Rightarrow> string \<Rightarrow> int \<Rightarrow> snapshot session" where
  "validate_binding L st t a r seal revision_id decision_id state_hash now =
    bindH (raise_ifH (\<not> st_enable_automation_engine st) (app_err ''AUTOMATION_ENGINE_DISABLED'' 409)) (\<lambda>_.
    bindH (raise_ifH (pr_id r \<noteq> revision_id) (app_err ''AUTOMATION_POLICY_REVISION_CHANGED'' 409)) (\<lambda>_.
    bindH (raise_ifH (stage_mode r AS_APPROVAL \<noteq> AM_AUTO_IF_ELIGIBLE)
      (app_err ''AUTOMATION_APPROVAL_MODE_CHANGED'' 409)) (\<lambda>_.
    bindH (raise_ifH (\<not> subject_is_new_for_revision (ar_requested_at a) r)
      (app_err ''AUTOMATION_SUBJECT_STALE'' 409)) (\<lambda>_.
    bindH (require_pending_approval L a (Aware now)) (\<lambda>sn.
    bindH (raise_ifH (ar_snapshot_hash a \<noteq> seal) (app_err ''APPROVAL_SNAPSHOT_CHANGED'' 409)) (\<lambda>_.
    bindH (raise_ifH (preflight_state_hash L a \<noteq> state_hash)
      (app_err ''AUTOMATION_PREFLIGHT_CONCURRENT_UPDATE'' 409)) (\<lambda>_.
    bindH (raise_ifH (\<not> rule_known (effective_hnr_rule L (sn_site_id sn) (sn_hit_and_run sn)))
      (app_err ''HNR_UNKNOWN'' 409)) (\<lambda>_.
    bindH (getH (\<lambda>s. find (\<lambda>d. ad_id d = decision_id) (db_decisions s))) (\<lambda>x.
    bindH (liftH (option_or (app_err ''AUTOMATION_DECISION_NOT_FOUND'' 409) x)) (\<lambda>d.
    bindH (liftH (verify_automation_decision L d)) (\<lambda>_.
    bindH (raise_ifH (\<not> queue_decision_ok t a revision_id d)
      (app_err ''AUTOMATION_PREFLIGHT_BINDING_INVALID'' 409)) (\<lambda>_.
    returnH sn))))))))))))"

definition bound_approval :: "string \<Rightarrow> approval session" where
  "bound_approval approval_id =
    bindH (getH (approval_by_id approval_id)) (\<lambda>x.
    liftH (option_or (app_err ''APPROVAL_REQUEST_NOT_FOUND'' 404) x))"

text \<open>A method that ends without a commit: its result, with the store as it was.\<close>

definition looking :: "'a session \<Rightarrow> 'a session" where
  "looking m = (\<lambda>s. (fst (m s), s))"

definition prepare_preflight ::
    "lib \<Rightarrow> settings \<Rightarrow> string \<Rightarrow> string \<Rightarrow> string \<Rightarrow> fresh \<Rightarrow> readings \<Rightarrow> preflight_binding session" where
  "prepare_preflight L st w job_id token F T = looking
    (bindH (require_job_lease st w job_id token (T ''lease'')) (\<lambda>t.
     bindH (liftH (validated_payload t)) (\<lambda>(approval_id, media_id, seal, revision_id, decision_id).
     bindH (bound_approval approval_id) (\<lambda>a.
     bindH (get_current_policy L (T ''policy'') (F ''policy'')) (\<lambda>hr.
     bindH (validate_binding L st t a (snd hr) seal revision_id decision_id (preflight_state_hash L a)
       (T ''pending'')) (\<lambda>sn.
     returnH \<lparr> pb_job_id = tk_id t, pb_lease_token = token, pb_approval_id = ar_id a,
       pb_media_item_id = media_id, pb_snapshot_hash = seal, pb_policy_revision_id = revision_id,
       pb_queue_decision_id = decision_id, pb_preflight_state_hash = preflight_state_hash L a,
       pb_snapshot = sn \<rparr>))))))"

definition validate_again ::
    "lib \<Rightarrow> settings \<Rightarrow> string \<Rightarrow> preflight_binding \<Rightarrow> fresh \<Rightarrow> readings \<Rightarrow> (task \<times> approval) session" where
  "validate_again L st w b F T =
    bindH (require_job_lease st w (pb_job_id b) (pb_lease_token b) (T ''lease'')) (\<lambda>t.
    bindH (bound_approval (pb_approval_id b)) (\<lambda>a.
    bindH (get_current_policy L (T ''policy'') (F ''policy'')) (\<lambda>hr.
    bindH (validate_binding L st t a (snd hr) (pb_snapshot_hash b) (pb_policy_revision_id b)
      (pb_queue_decision_id b) (pb_preflight_state_hash b) (T ''pending'')) (\<lambda>_.
    returnH (t, a)))))"

definition guard_external_read ::
    "lib \<Rightarrow> settings \<Rightarrow> string \<Rightarrow> preflight_binding \<Rightarrow> fresh \<Rightarrow> readings \<Rightarrow> unit session" where
  "guard_external_read L st w b F T = looking (bindH (validate_again L st w b F T) (\<lambda>_. returnH ()))"

section \<open>The guarded reads\<close>

text \<open>
  \<open>GuardedReadOnlyDownloader\<close>: the guard of a call runs first, and its error is the call's. \<open>G\<close> gives the
  outcome of the guard before each call, on the store of that moment.
\<close>

type_synonym guards = "string \<Rightarrow> exn + unit"

definition guarded_read :: "guards \<Rightarrow> string \<Rightarrow> app_error + 'a \<Rightarrow> app_error + 'a" where
  "guarded_read G call r = (case G call of Inl (AppErr e) \<Rightarrow> Inl e | _ \<Rightarrow> r)"

definition guarded_reader :: "guards \<Rightarrow> qb_reader \<Rightarrow> qb_reader" where
  "guarded_reader G Q = \<lparr>
     qr_authenticate = guarded_read G ''authenticate'' (qr_authenticate Q),
     qr_get_version = guarded_read G ''get_version'' (qr_get_version Q),
     qr_get_web_api_version = guarded_read G ''get_web_api_version'' (qr_get_web_api_version Q),
     qr_find_torrents_by_hashes =
       (\<lambda>hs. guarded_read G ''find_torrents_by_hashes'' (qr_find_torrents_by_hashes Q hs)),
     qr_list_recent_torrents = (\<lambda>n. guarded_read G ''list_recent_torrents'' (qr_list_recent_torrents Q n)),
     qr_has_active_seeding = guarded_read G ''has_active_seeding'' (qr_has_active_seeding Q),
     qr_get_categories = guarded_read G ''get_categories'' (qr_get_categories Q) \<rparr>"

text \<open>The calls of \<open>evaluate_preflight\<close>, in order.\<close>

definition preflight_calls :: "qb_reader \<Rightarrow> snapshot \<Rightarrow> string list" where
  "preflight_calls Q sn = ''authenticate'' #
    (case qr_authenticate Q of
       Inl _ \<Rightarrow> []
     | Inr _ \<Rightarrow> [''get_version'', ''get_web_api_version'']
         @ (if falsy_str (sn_info_hash sn) then [] else [''find_torrents_by_hashes''])
         @ (if sn_size_bytes sn = None then [] else [''list_recent_torrents''])
         @ [''has_active_seeding'', ''get_categories''])"

definition error_of :: "app_error + 'a \<Rightarrow> app_error option" where
  "error_of r = (case r of Inl e \<Rightarrow> Some e | Inr _ \<Rightarrow> None)"

definition call_error :: "qb_reader \<Rightarrow> snapshot \<Rightarrow> string \<Rightarrow> app_error option" where
  "call_error Q sn call =
    (if call = ''authenticate'' then error_of (qr_authenticate Q)
     else if call = ''get_version'' then error_of (qr_get_version Q)
     else if call = ''get_web_api_version'' then error_of (qr_get_web_api_version Q)
     else if call = ''find_torrents_by_hashes''
       then error_of (qr_find_torrents_by_hashes Q [the (sn_info_hash sn)])
     else if call = ''list_recent_torrents''
       then error_of (qr_list_recent_torrents Q PREFLIGHT_RECENT_TORRENT_LIMIT)
     else if call = ''has_active_seeding'' then error_of (qr_has_active_seeding Q)
     else error_of (qr_get_categories Q))"

text \<open>An error of a guard that is not an \<open>AppError\<close> escapes the evaluation.\<close>

definition escaping :: "guards \<Rightarrow> string \<Rightarrow> exn option" where
  "escaping G call = (case G call of Inl (AppErr _) \<Rightarrow> None | Inl e \<Rightarrow> Some e | Inr _ \<Rightarrow> None)"

definition remembered :: "guards \<Rightarrow> qb_reader \<Rightarrow> snapshot \<Rightarrow> string \<Rightarrow> app_error option" where
  "remembered G Q sn call = (case G call of
      Inl _ \<Rightarrow> None
    | Inr _ \<Rightarrow> (case call_error Q sn call of
        None \<Rightarrow> None | Some e \<Rightarrow> if retryable e then Some e else None))"

text \<open>
  \<open>evaluate_preflight\<close> over the guarded reader, and the first retryable error of the adapter, which the
  worker raises afterwards.
\<close>

definition guarded_preflight ::
    "lib \<Rightarrow> guards \<Rightarrow> qb_reader \<Rightarrow> snapshot \<Rightarrow> settings \<Rightarrow> int \<Rightarrow> exn + preflight_result" where
  "guarded_preflight L G Q sn st now =
    bindR (preflight_policy_fingerprint L st) (\<lambda>_.
    let Q' = guarded_reader G Q; calls = preflight_calls Q' sn in
    case first_row (List.map_filter (escaping G) calls) of
      Some e \<Rightarrow> Inl e
    | None \<Rightarrow>
        bindR (evaluate_preflight L Q' sn st now) (\<lambda>r.
        case first_row (List.map_filter (remembered G Q sn) calls) of
          Some e \<Rightarrow> Inl (AppErr e)
        | None \<Rightarrow> Inr r))"

section \<open>The outcome\<close>

definition finalize_preflight ::
    "lib \<Rightarrow> settings \<Rightarrow> string \<Rightarrow> preflight_binding \<Rightarrow> preflight_result \<Rightarrow> fresh \<Rightarrow> readings \<Rightarrow> unit session" where
  "finalize_preflight L st w b result F T = transact
    (bindH (validate_again L st w b F T) (\<lambda>(t, a).
     bindH (save_preflight_result L a result w (T ''preflight saved'')) (\<lambda>a'.
     bindH (maybe_finalize_automatic_approval L st a' (Some (pb_policy_revision_id b)) (Some (pb_snapshot_hash b))
       (Some (pb_job_id b)) F T) (\<lambda>_.
     save_task ((succeeded t)\<lparr> tk_next_retry_at := None \<rparr>)))))"

definition failure_outcome :: "string \<Rightarrow> decision_outcome" where
  "failure_outcome code =
    (if code \<in> {''AUTOMATION_POLICY_REVISION_CHANGED'', ''AUTOMATION_SUBJECT_STALE'',
         ''APPROVAL_SNAPSHOT_CHANGED'', ''AUTOMATION_PREFLIGHT_CONCURRENT_UPDATE''} then DO_STALE
     else if code \<in> {''AUTOMATION_APPROVAL_MODE_CHANGED'', ''APPROVAL_NOT_PENDING''} then DO_MANUAL_REQUIRED
     else DO_BLOCKED)"

definition record_failure_decision :: "lib \<Rightarrow> task \<Rightarrow> app_error \<Rightarrow> fresh \<Rightarrow> readings \<Rightarrow> unit session" where
  "record_failure_decision L t e F T =
    (case both (payload_text ''approval_id'' t) (payload_text ''media_id'' t) of
       None \<Rightarrow> returnH ()
     | Some (approval_id, media_id) \<Rightarrow>
         bindH (getH (approval_by_id approval_id)) (\<lambda>x.
         case x of
           None \<Rightarrow> returnH ()
         | Some a \<Rightarrow>
             if ar_media_item_id a \<noteq> media_id then returnH ()
             else
               bindH (get_current_policy L (T ''policy'') (F ''policy'')) (\<lambda>hr.
               bindH (record_stage_decision L (snd hr) AS_APPROVAL ''RUN_PREFLIGHT''
                 (failure_outcome (error_code e)) (about_approval a) [error_code e]
                 [(''job_id'', JStr (tk_id t)), (''approval_snapshot_hash'', JStr (ar_snapshot_hash a)),
                  (''job_policy_revision_id'', payload_get ''automation_policy_revision_id'' t)]
                 (F ''failure decision'')) (\<lambda>_.
               returnH ()))))"

definition fail_preflight ::
    "lib \<Rightarrow> settings \<Rightarrow> string \<Rightarrow> string \<Rightarrow> string \<Rightarrow> app_error \<Rightarrow> fresh \<Rightarrow> readings \<Rightarrow> unit session" where
  "fail_preflight L st w job_id token e F T = transact
    (bindH (getH (owned_job st w job_id token (T ''lease''))) (\<lambda>x.
     case x of
       None \<Rightarrow> returnH ()
     | Some t \<Rightarrow>
         let t' = failed_task L e (T ''retry'') t in
         bindH (if may_retry e t then returnH () else record_failure_decision L t e F T) (\<lambda>_.
         save_task t')))"

section \<open>One run\<close>

definition require_automation_preflight_enabled :: "settings \<Rightarrow> exn + unit" where
  "require_automation_preflight_enabled st =
    bindR (raise_if (\<not> st_enable_automation_engine st) (app_err ''AUTOMATION_ENGINE_DISABLED'' 403)) (\<lambda>_.
    raise_if (\<not> st_enable_qb_read_only st \<or> \<not> st_qb_configured st) (app_err ''QB_READ_ONLY_NOT_ENABLED'' 409))"

definition preflight_heartbeat :: "string \<Rightarrow> int \<Rightarrow> unit session" where
  "preflight_heartbeat w now = transact (put_heartbeat w (Aware now))"

text \<open>
  What \<open>run_once\<close> does with a claimed job when no other transaction comes between its own, over the
  outcomes of the guards and of the adapter; \<open>None\<close> for an adapter that takes no guard.
\<close>

definition run_claimed_preflight ::
    "lib \<Rightarrow> settings \<Rightarrow> string \<Rightarrow> task \<Rightarrow> string \<Rightarrow> (guards \<times> qb_reader) option \<Rightarrow> fresh \<Rightarrow> readings \<Rightarrow> unit session" where
  "run_claimed_preflight L st w t token reader F T =
    catchH
      (bindH (prepare_preflight L st w (tk_id t) token F T) (\<lambda>b.
       bindH (liftH (option_or (app_err ''AUTOMATION_REQUEST_GUARD_UNAVAILABLE'' 409) reader)) (\<lambda>(G, Q).
       bindH (liftH (guarded_preflight L G Q (pb_snapshot b) st (T ''checked''))) (\<lambda>result.
       finalize_preflight L st w b result F T))))
      (\<lambda>e. fail_preflight L st w (tk_id t) token (recorded_error ''AUTOMATION_PREFLIGHT_INTERNAL_ERROR'' e) F T)"

end
