(* ===== verification/Processor.thy ===== *)
theory Processor
  imports JobQueue Automation
begin

text \<open>
  The worker of discoveries, metadata resolutions and torrent searches (\<open>workers/processor.py\<close>): its
  claim, its lease, the end of a failed attempt, and the resolution of metadata. Every method that
  opens a session is one transaction; one that does not commit leaves the store. \<open>w\<close> is the
  identifier of the worker, \<open>lease\<close> its lease in seconds.
\<close>

section \<open>The claim\<close>

definition worker_heartbeat :: "string \<Rightarrow> int \<Rightarrow> unit session" where
  "worker_heartbeat w now = transact (put_heartbeat w (Aware now))"

definition is_resolution :: "task \<Rightarrow> bool" where
  "is_resolution t \<longleftrightarrow> starts_with ''RESOLVE_METADATA:'' (tk_job_type t)"

definition is_search :: "task \<Rightarrow> bool" where
  "is_search t \<longleftrightarrow> starts_with ''TORRENT_SEARCH:'' (tk_job_type t)"

text \<open>Jobs are taken in the order of their creation; of equal times the first row.\<close>

definition next_job :: "int \<Rightarrow> int \<Rightarrow> db \<Rightarrow> task option" where
  "next_job lease now s = first_row (sort_key (\<lambda>t. as_utc (tk_created_at t))
    (filter (\<lambda>t. may_claim lease now t \<and> \<not> starts_with ''AUTOMATION_PREFLIGHT:'' (tk_job_type t)) (db_tasks s)))"

text \<open>\<open>session.get\<close> by a value of the payload that may be missing.\<close>

definition get_if :: "(string \<Rightarrow> db \<Rightarrow> 'r option) \<Rightarrow> string option \<Rightarrow> 'r option session" where
  "get_if get k = (case k of None \<Rightarrow> returnH None | Some i \<Rightarrow> getH (get i))"

definition start_discovery :: "string \<Rightarrow> task \<Rightarrow> int \<Rightarrow> unit session" where
  "start_discovery w t now =
    bindH (getH (discovery_run_by_id (tk_run_id t))) (\<lambda>x.
    case x of
      None \<Rightarrow> returnH ()
    | Some r \<Rightarrow>
        bindH (save_discovery_run (r\<lparr> dr_status := TK_RUNNING,
          dr_started_at := (case dr_started_at r of None \<Rightarrow> Some (Aware now) | Some u \<Rightarrow> Some u),
          dr_error_code := None, dr_error_message := None \<rparr>)) (\<lambda>_.
        insert_audit_event ''DISCOVERY_RUN_STARTED'' ''discovery_run'' (dr_id r)
          (JObj [(''attempt'', JInt (tk_attempts t)), (''worker'', JStr w)])))"

definition start_search :: "task \<Rightarrow> int \<Rightarrow> unit session" where
  "start_search t now =
    bindH (get_if media_by_id (if is_search t then payload_text ''media_id'' t else None)) (\<lambda>m.
    bindH (get_if run_by_id (payload_text ''search_run_id'' t)) (\<lambda>x.
    case x of
      None \<Rightarrow> returnH ()
    | Some r \<Rightarrow>
        bindH (save_run (r\<lparr> ru_status := WF_PT_SEARCHING,
          ru_started_at := (case ru_started_at r of None \<Rightarrow> Some (Aware now) | Some u \<Rightarrow> Some u) \<rparr>)) (\<lambda>_.
        case m of
          None \<Rightarrow> returnH ()
        | Some m' \<Rightarrow> bindH (refresh_media_search_workflow_status (me_id m')) (\<lambda>_. returnH ()))))"

definition claim_job :: "int \<Rightarrow> string \<Rightarrow> string \<Rightarrow> int \<Rightarrow> task option session" where
  "claim_job lease w token now = transact
    (bindH (getH (next_job lease now)) (\<lambda>x.
     case x of
       None \<Rightarrow> returnH None
     | Some t \<Rightarrow>
         let t' = taken w token now t in
         bindH (save_task t') (\<lambda>_.
         bindH (start_discovery w t' now) (\<lambda>_.
         bindH (start_search t' now) (\<lambda>_.
         returnH (Some t'))))))"

definition held_task :: "string \<Rightarrow> string \<Rightarrow> string \<Rightarrow> db \<Rightarrow> task option" where
  "held_task w job_id token s =
    (case task_by_id job_id s of None \<Rightarrow> None | Some t \<Rightarrow> if holds_lease w token t then Some t else None)"

definition renew_job_lease :: "string \<Rightarrow> string \<Rightarrow> string \<Rightarrow> int \<Rightarrow> bool session" where
  "renew_job_lease w job_id token now = transact
    (bindH (getH (held_task w job_id token)) (\<lambda>x.
     case x of
       None \<Rightarrow> returnH False
     | Some t \<Rightarrow> bindH (save_task (t\<lparr> tk_locked_at := Some (Aware now) \<rparr>)) (\<lambda>_. returnH True)))"

section \<open>A failed attempt\<close>

definition failure_details :: "lib \<Rightarrow> app_error \<Rightarrow> bool \<Rightarrow> (string \<times> json) list" where
  "failure_details L e retry = [(''error_code'', JStr (error_code e)),
    (''message'', JStr (text_of L (error_code e))), (''retryable'', JBool retry)]"

definition fail_discovery :: "lib \<Rightarrow> task \<Rightarrow> app_error \<Rightarrow> bool \<Rightarrow> int \<Rightarrow> unit session" where
  "fail_discovery L t e retry now =
    bindH (getH (discovery_run_by_id (tk_run_id t))) (\<lambda>x.
    case x of
      None \<Rightarrow> returnH ()
    | Some r \<Rightarrow>
        bindH (save_discovery_run (r\<lparr> dr_status := (if retry then TK_RETRY_WAIT else TK_FAILED),
          dr_error_code := Some (error_code e), dr_error_message := Some (text_of L (error_code e)),
          dr_finished_at := (if retry then None else Some (Aware now)) \<rparr>)) (\<lambda>_.
        insert_audit_event (if retry then ''DISCOVERY_RUN_RETRY_SCHEDULED'' else ''DISCOVERY_RUN_FAILED'')
          ''discovery_run'' (dr_id r)
          (sanitize_details L (JObj (failure_details L e retry @ [(''attempt'', JInt (tk_attempts t))])))))"

definition fail_resolution :: "lib \<Rightarrow> media_row \<Rightarrow> app_error \<Rightarrow> bool \<Rightarrow> unit session" where
  "fail_resolution L m e retry =
    bindH (if retry then returnH () else
      save_media (m\<lparr> me_workflow_status := WF_IDENTITY_REVIEW, me_metadata_status := MS_UNRESOLVED \<rparr>)) (\<lambda>_.
    insert_audit_event (if retry then ''METADATA_RESOLUTION_RETRY_SCHEDULED'' else ''METADATA_RESOLUTION_FAILED'')
      ''media_item'' (me_id m) (JObj (failure_details L e retry)))"

definition fail_search :: "lib \<Rightarrow> search_run_row \<Rightarrow> media_row option \<Rightarrow> app_error \<Rightarrow> bool \<Rightarrow> int \<Rightarrow> unit session" where
  "fail_search L r m e retry now =
    (let r1 = r\<lparr> ru_error_code := Some (error_code e), ru_error_message := Some (text_of L (error_code e)) \<rparr>;
         r2 = (if retry then r1 else r1\<lparr> ru_status := WF_SEARCH_FAILED, ru_finished_at := Some (Aware now) \<rparr>) in
     bindH (save_run r2) (\<lambda>_.
     bindH (case m of None \<Rightarrow> returnH ()
       | Some x \<Rightarrow> bindH (refresh_media_search_workflow_status (me_id x)) (\<lambda>_. returnH ())) (\<lambda>_.
     insert_audit_event (if retry then ''TORRENT_SEARCH_RETRY_SCHEDULED'' else ''TORRENT_SEARCH_FAILED'')
       ''torrent_search_run'' (ru_id r)
       (JObj (failure_details L e retry @ [(''site_id'', JStr (ru_site_id r))])))))"

definition record_failure :: "lib \<Rightarrow> task \<Rightarrow> app_error \<Rightarrow> readings \<Rightarrow> unit session" where
  "record_failure L t e T =
    (let retry = may_retry e t in
     bindH (save_task (failed_task L e (T ''retry'') t)) (\<lambda>_.
     bindH (fail_discovery L t e retry (T ''finished'')) (\<lambda>_.
     bindH (get_if media_by_id (payload_text ''media_id'' t)) (\<lambda>m.
     bindH (get_if run_by_id (payload_text ''search_run_id'' t)) (\<lambda>r.
     bindH (case m of None \<Rightarrow> returnH ()
       | Some x \<Rightarrow> if is_resolution t then fail_resolution L x e retry else returnH ()) (\<lambda>_.
     case r of None \<Rightarrow> returnH ()
       | Some x \<Rightarrow> if is_search t then fail_search L x m e retry (T ''finished'') else returnH ()))))))"

text \<open>A resolution whose identity was settled meanwhile is cancelled and not failed.\<close>

definition settled_by :: "task \<Rightarrow> db \<Rightarrow> (string \<times> string) option" where
  "settled_by t s =
    (if is_resolution t then
       (case payload_text ''media_id'' t of
          None \<Rightarrow> None
        | Some mid \<Rightarrow> (case media_by_id mid s of
            None \<Rightarrow> None
          | Some m \<Rightarrow> map_option (Pair (me_id m)) (identity_finalization_evidence m s)))
     else None)"

definition fail_job :: "lib \<Rightarrow> string \<Rightarrow> string \<Rightarrow> string \<Rightarrow> app_error \<Rightarrow> readings \<Rightarrow> unit session" where
  "fail_job L w job_id token e T = transact
    (bindH (getH (held_task w job_id token)) (\<lambda>x.
     case x of
       None \<Rightarrow> returnH ()
     | Some t \<Rightarrow>
         bindH (getH (settled_by t)) (\<lambda>settled.
         case settled of
           Some (mid, evidence) \<Rightarrow>
             bindH (cancel_metadata_resolution_job L t mid evidence) (\<lambda>_. returnH ())
         | None \<Rightarrow> record_failure L t e T)))"

section \<open>The resolution of metadata\<close>

record resolution_input =
  ri_media_id :: string
  ri_media_type :: media_type
  ri_tmdb_id :: "int option"
  ri_title :: string
  ri_year :: "int option"

definition input_of :: "media_row \<Rightarrow> resolution_input" where
  "input_of m = \<lparr> ri_media_id = me_id m, ri_media_type = me_media_type m, ri_tmdb_id = me_tmdb_id m,
     ri_title = me_title m, ri_year = me_year m \<rparr>"

definition prepare_metadata_resolution ::
    "lib \<Rightarrow> string \<Rightarrow> string \<Rightarrow> string \<Rightarrow> string \<Rightarrow> resolution_input option session" where
  "prepare_metadata_resolution L w job_id mid token = transact
    (bindH (lock_media mid) (\<lambda>m.
     bindH (getH (held_task w job_id token)) (\<lambda>x.
     case x of
       None \<Rightarrow> returnH None
     | Some t \<Rightarrow>
         bindH (getH (identity_finalization_evidence m)) (\<lambda>evidence.
         case evidence of
           Some ev \<Rightarrow> bindH (cancel_metadata_resolution_job L t (me_id m) ev) (\<lambda>_. returnH None)
         | None \<Rightarrow> returnH (Some (input_of m))))))"

text \<open>The metadata provider, by the outcome of each call.\<close>

record provider =
  mp_get_by_tmdb_id :: "media_type \<Rightarrow> int \<Rightarrow> exn + metadata"
  mp_search :: "media_type \<Rightarrow> string \<Rightarrow> int option \<Rightarrow> exn + metadata list"
  mp_get_country_codes :: "media_type \<Rightarrow> int \<Rightarrow> exn + string list option"

definition other_type :: "media_type \<Rightarrow> media_type" where
  "other_type mt = (if mt = MT_MOVIE then MT_TV else MT_MOVIE)"

definition resolution_candidates :: "provider \<Rightarrow> resolution_input \<Rightarrow> exn + metadata list" where
  "resolution_candidates P i =
    (case ri_tmdb_id i of
       None \<Rightarrow> mp_search P (ri_media_type i) (ri_title i) (ri_year i)
     | Some k \<Rightarrow>
         (case mp_get_by_tmdb_id P (ri_media_type i) k of
            Inr c \<Rightarrow> Inr [c]
          | Inl e \<Rightarrow>
              if code_of e \<noteq> ''TMDB_NOT_FOUND'' then Inl e
              else (case mp_get_by_tmdb_id P (other_type (ri_media_type i)) k of
                  Inr c \<Rightarrow> Inr [c]
                | Inl e' \<Rightarrow> if code_of e' = ''TMDB_NOT_FOUND'' then Inl e else Inl e')))"

text \<open>The last record of each TMDB identifier, at the place of the first.\<close>

definition unique_candidates :: "metadata list \<Rightarrow> metadata list" where
  "unique_candidates cs = map snd (fold (\<lambda>c m. AList.update (md_tmdb_id c) c m) cs [])"

definition score_for :: "lib \<Rightarrow> media_row \<Rightarrow> metadata \<Rightarrow> tally" where
  "score_for L m c = score_metadata_match L (me_media_type m) (me_title m) (me_year m) c (me_tmdb_id m)"

definition ranked_records :: "lib \<Rightarrow> media_row \<Rightarrow> metadata list \<Rightarrow> (metadata \<times> tally) list" where
  "ranked_records L m cs = take 5 (sort_key (\<lambda>p. - ty_score (snd p))
    (map (\<lambda>c. (c, score_for L m c)) (unique_candidates cs)))"

definition exact_tv_candidate :: "media_row \<Rightarrow> (metadata \<times> tally) list \<Rightarrow> metadata option" where
  "exact_tv_candidate m ranked = map_option fst (find (\<lambda>(c, t).
     me_tmdb_id m = Some (md_tmdb_id c) \<and> me_media_type m = MT_TV \<and> md_media_type c = MT_TV
     \<and> ty_warnings t = []) ranked)"

definition match_row_of :: "lib \<Rightarrow> media_row \<Rightarrow> string \<Rightarrow> fresh \<Rightarrow> nat \<Rightarrow> metadata \<times> tally \<Rightarrow> match_row" where
  "match_row_of L m job_id F i p = \<lparr>
     mm_id = F (''match '' @ show_nat (i + 1)), mm_media_id = me_id m, mm_resolution_job_id = Some job_id,
     mm_tmdb_id = md_tmdb_id (fst p), mm_rank = int (i + 1), mm_score = fl_text L (ty_score (snd p)),
     mm_match_reasons = ty_reasons (snd p), mm_conflicts = ty_warnings (snd p),
     mm_candidate_snapshot = metadata_json (fst p) \<rparr>"

definition match_rows :: "lib \<Rightarrow> media_row \<Rightarrow> string \<Rightarrow> fresh \<Rightarrow> (metadata \<times> tally) list \<Rightarrow> match_row list" where
  "match_rows L m job_id F ranked =
    map (\<lambda>(i, p). match_row_of L m job_id F i p) (List.enumerate 0 ranked)"

fun for_each :: "('a \<Rightarrow> unit session) \<Rightarrow> 'a list \<Rightarrow> unit session" where
  "for_each f [] = returnH ()"
| "for_each f (x # xs) = bindH (f x) (\<lambda>_. for_each f xs)"

definition reviewed_media :: "lib \<Rightarrow> media_row \<Rightarrow> (metadata \<times> tally) list \<Rightarrow> exn + media_row" where
  "reviewed_media L m ranked =
    bindR (case exact_tv_candidate m ranked of
        None \<Rightarrow> Inr (me_missing_episodes m)
      | Some c \<Rightarrow> derive_missing_episode_codes (uni_digit L) (matrix_value (md_episode_matrix c))
          (me_local_episode_matrix m) (opt_json strs_json (me_missing_episodes m))) (\<lambda>missing.
    Inr (m\<lparr> me_missing_episodes := missing, me_workflow_status := WF_IDENTITY_REVIEW,
      me_metadata_status := MS_NEEDS_CONFIRMATION \<rparr>))"

text \<open>The identity is confirmed by the strict rule, or else by the policy; the search follows either.\<close>

definition settle_identity ::
    "lib \<Rightarrow> settings \<Rightarrow> task \<Rightarrow> media_row \<Rightarrow> match_row list \<Rightarrow> fresh \<Rightarrow> readings
      \<Rightarrow> (review option \<times> review option) session" where
  "settle_identity L st t m rows F T =
    bindH (auto_confirm_strict_identity L m rows (tk_id t) (F ''review'') (T ''review'')) (\<lambda>strict.
    case strict of
      Some r \<Rightarrow>
        bindH (maybe_automate_torrent_search_after_identity L st (me_id m) F T) (\<lambda>_. returnH (strict, strict))
    | None \<Rightarrow> bindH (maybe_automate_identity L st t m F T) (\<lambda>r. returnH (strict, r)))"

definition store_resolution ::
    "lib \<Rightarrow> settings \<Rightarrow> task \<Rightarrow> media_row \<Rightarrow> metadata list \<Rightarrow> fresh \<Rightarrow> readings \<Rightarrow> unit session" where
  "store_resolution L st t m candidates F T =
    (let ranked = ranked_records L m candidates; rows = match_rows L m (tk_id t) F ranked; t' = succeeded t in
     bindH (liftH (reviewed_media L m ranked)) (\<lambda>m'.
     bindH (for_each insert_match rows) (\<lambda>_.
     bindH (save_task t') (\<lambda>_.
     bindH (save_media m') (\<lambda>_.
     bindH (settle_identity L st t' m' rows F T) (\<lambda>(strict, review).
     bindH (getH (media_by_id (me_id m))) (\<lambda>final.
     insert_audit_event ''METADATA_CANDIDATES_READY'' ''media_item'' (me_id m)
       (JObj [(''candidate_count'', JInt (int (length ranked))),
         (''used_exact_tmdb_id'', JBool (case final of None \<Rightarrow> False | Some x \<Rightarrow> me_tmdb_id x \<noteq> None)),
         (''manual_confirmation_required'', JBool (review = None)),
         (''strict_auto_confirmed'', JBool (strict \<noteq> None))]))))))))"

definition stale_input :: "lib \<Rightarrow> task \<Rightarrow> media_row \<Rightarrow> bool" where
  "stale_input L t m \<longleftrightarrow> (case payload_text ''input_fingerprint'' t of
     None \<Rightarrow> False | Some x \<Rightarrow> x \<noteq> metadata_resolution_input_fingerprint L m)"

definition complete_metadata_resolution ::
    "lib \<Rightarrow> settings \<Rightarrow> string \<Rightarrow> string \<Rightarrow> string \<Rightarrow> metadata list \<Rightarrow> string \<Rightarrow> fresh \<Rightarrow> readings \<Rightarrow> unit session" where
  "complete_metadata_resolution L st w job_id mid candidates token F T = transact
    (bindH (getH (\<lambda>s. both (media_by_id mid s) (held_task w job_id token s))) (\<lambda>x.
     case x of
       None \<Rightarrow> returnH ()
     | Some (m, t) \<Rightarrow>
         bindH (getH (identity_finalization_evidence m)) (\<lambda>evidence.
         case evidence of
           Some ev \<Rightarrow> bindH (cancel_metadata_resolution_job L t (me_id m) ev) (\<lambda>_. returnH ())
         | None \<Rightarrow>
             bindH (raise_ifH (stale_input L t m) (app_err ''METADATA_INPUT_CHANGED'' 400)) (\<lambda>_.
             store_resolution L st t m candidates F T))))"

text \<open>
  \<open>_run_metadata_resolution\<close> on a claimed job, with the provider or none, when no other transaction
  comes between its own.
\<close>

definition run_metadata_resolution ::
    "lib \<Rightarrow> settings \<Rightarrow> string \<Rightarrow> task \<Rightarrow> string \<Rightarrow> (exn + provider) option \<Rightarrow> fresh \<Rightarrow> readings \<Rightarrow> unit session" where
  "run_metadata_resolution L st w t token P F T =
    catchH
      (bindH (liftH (option_or (app_err ''INVALID_JOB_PAYLOAD'' 400) (payload_text ''media_id'' t))) (\<lambda>mid.
       bindH (prepare_metadata_resolution L w (tk_id t) mid token) (\<lambda>x.
       case x of
         None \<Rightarrow> returnH ()
       | Some i \<Rightarrow>
           bindH (liftH (case P of None \<Rightarrow> Inl (app_err ''TMDB_LIVE_DISABLED'' 400) | Some made \<Rightarrow> made)) (\<lambda>p.
           bindH (liftH (resolution_candidates p i)) (\<lambda>candidates.
           complete_metadata_resolution L st w (tk_id t) (ri_media_id i) candidates token F T)))))
      (\<lambda>e. fail_job L w (tk_id t) token (recorded_error ''INTERNAL_WORKER_ERROR'' e) T)"

end
