(* ===== verification/SearchWorker.thy ===== *)
theory SearchWorker
  imports Processor
begin

text \<open>
  The torrent search of \<open>workers/processor.py\<close>: what a search job is bound to, the strategies it tries
  in turn, the scores of what it finds, and the transaction that stores the candidates.
\<close>

section \<open>The binding of a search\<close>

record search_context =
  sx_media :: media_row
  sx_site_id :: string
  sx_metadata :: metadata
  sx_request :: search_create_request
  sx_prior_titles :: "string list"
  sx_declaration :: site_declaration

text \<open>\<open>_torrent_search_request_from_snapshot\<close>: an old snapshot of the first site has no site identifier.\<close>

definition request_from_snapshot :: "lib \<Rightarrow> json \<Rightarrow> bool \<Rightarrow> exn + search_create_request" where
  "request_from_snapshot L j legacy =
    (let payload = (case j of
        JObj kvs \<Rightarrow> if legacy \<and> map_of kvs ''site_id'' = None then JObj (kvs @ [(''site_id'', JStr ''avistaz'')]) else j
      | _ \<Rightarrow> j)
     in option_or (app_err ''PT_SEARCH_REQUEST_SNAPSHOT_INVALID'' 409) (parse_search_request L payload))"

definition release_key :: "lib \<Rightarrow> string \<Rightarrow> string" where
  "release_key L title = strip (casefold L title)"

text \<open>The titles found before on the site; every stored candidate has its title as a text.\<close>

definition prior_candidate_titles :: "lib \<Rightarrow> string \<Rightarrow> string \<Rightarrow> db \<Rightarrow> string list" where
  "prior_candidate_titles L mid site s =
    (let ids = map ru_id (filter (\<lambda>r. ru_media_id r = mid \<and> ru_site_id r = site) (db_runs s)) in
     List.map_filter (\<lambda>c. case obj_get ''release_title'' (cr_candidate_snapshot c) of
         Some (JStr title) \<Rightarrow> if title = [] then None else Some (release_key L title)
       | _ \<Rightarrow> None)
       (filter (\<lambda>c. cr_search_run_id c \<in> set ids) (db_candidates s)))"

definition site_mismatch :: exn where
  "site_mismatch = app_err ''PT_SITE_BINDING_MISMATCH'' 409"

text \<open>The site of the job and whether it had to be derived.\<close>

definition bound_site :: "task \<Rightarrow> string \<Rightarrow> search_run_row \<Rightarrow> exn + string \<times> bool" where
  "bound_site t mid r =
    (case payload_text ''site_id'' t of
       None \<Rightarrow>
         if tk_job_type t \<noteq> legacy_search_type mid \<or> ru_site_id r \<noteq> ''avistaz'' then Inl site_mismatch
         else Inr (''avistaz'', True)
     | Some site \<Rightarrow>
         if ru_site_id r \<noteq> site
           \<or> tk_job_type t \<notin> set (search_type site mid # (if site = ''avistaz'' then [legacy_search_type mid] else []))
         then Inl site_mismatch else Inr (site, False))"

definition search_payload :: "task \<Rightarrow> exn + string \<times> string" where
  "search_payload t =
    (let site = payload_get ''site_id'' t in
     case both (payload_text ''media_id'' t) (payload_text ''search_run_id'' t) of
       Some ids \<Rightarrow> if site = JNull \<or> is_text site then Inr ids else Inl (app_err ''INVALID_JOB_PAYLOAD'' 400)
     | None \<Rightarrow> Inl (app_err ''INVALID_JOB_PAYLOAD'' 400))"

definition search_context_of :: "lib \<Rightarrow> catalog \<Rightarrow> task \<Rightarrow> search_context session" where
  "search_context_of L c t =
    bindH (liftH (search_payload t)) (\<lambda>(mid, run_id).
    bindH (getH (\<lambda>s. both (media_by_id mid s) (run_by_id run_id s))) (\<lambda>x.
    bindH (liftH (option_or (app_err ''SEARCH_RUN_NOT_FOUND'' 404) x)) (\<lambda>(m, r).
    bindH (raise_ifH (ru_media_id r \<noteq> mid) (app_err ''PT_MEDIA_BINDING_MISMATCH'' 409)) (\<lambda>_.
    bindH (liftH (bound_site t mid r)) (\<lambda>(site, legacy).
    bindH (getH (confirmed_review mid)) (\<lambda>y.
    bindH (liftH (option_or (app_err ''IDENTITY_CONFIRMATION_REQUIRED'' 409) y)) (\<lambda>review.
    bindH (liftH (option_or PyValueError (parse_metadata L (iv_candidate_snapshot review)))) (\<lambda>metadata.
    bindH (liftH (request_from_snapshot L (ru_sanitized_request r) legacy)) (\<lambda>q.
    bindH (raise_ifH (sq_site_id q \<noteq> site) site_mismatch) (\<lambda>_.
    bindH (getH (prior_candidate_titles L mid site)) (\<lambda>titles.
    bindH (liftH (require_searchable c site (Some (me_media_type m)))) (\<lambda>d.
    returnH \<lparr> sx_media = m, sx_site_id = site, sx_metadata = metadata, sx_request = q,
      sx_prior_titles = titles, sx_declaration = d \<rparr>))))))))))))"

section \<open>The strategies\<close>

record site_query =
  qy_tmdb :: "int option"
  qy_imdb :: "string option"
  qy_search :: "string option"
  qy_type :: media_type
  qy_page :: int
  qy_limit :: int
  qy_video_quality :: "string list"
  qy_subtitle :: "string list"

definition common_query :: "metadata \<Rightarrow> search_create_request \<Rightarrow> site_query" where
  "common_query md q = \<lparr> qy_tmdb = None, qy_imdb = None, qy_search = None, qy_type = md_media_type md,
     qy_page = 1, qy_limit = 50, qy_video_quality = sq_preferred_resolutions q,
     qy_subtitle = sq_preferred_subtitles q \<rparr>"

definition text_values :: "metadata \<Rightarrow> (string \<times> string option) list" where
  "text_values md =
    [(''ENGLISH_TITLE'', md_english_title md), (''ORIGINAL_TITLE'', md_original_title md),
     (''CHINESE_OR_ALIAS'',
       if falsy_str (md_chinese_title md) then first_row (md_aliases md) else md_chinese_title md),
     (''CANONICAL_TITLE'', Some (md_title md))]"

definition title_queries :: "metadata \<Rightarrow> string \<Rightarrow> string \<Rightarrow> (string \<times> string) list" where
  "title_queries md name v =
    (case md_year md of
       None \<Rightarrow> []
     | Some y \<Rightarrow> if y = 0 then [] else [(name @ ''_YEAR'', v @ '' '' @ show_int y)])
    @ [(name, v)]"

definition text_queries :: "metadata \<Rightarrow> (string \<times> string) list" where
  "text_queries md = concat (map (\<lambda>(name, v). case v of
      None \<Rightarrow> [] | Some x \<Rightarrow> if x = [] then [] else title_queries md name x) (text_values md))"

text \<open>A query that differs from an earlier one only in case is not asked again.\<close>

fun unseen :: "lib \<Rightarrow> string list \<Rightarrow> (string \<times> string) list \<Rightarrow> (string \<times> string) list" where
  "unseen L seen [] = []"
| "unseen L seen ((name, qu) # rest) =
    (if casefold L qu \<in> set seen then unseen L seen rest
     else (name, qu) # unseen L (casefold L qu # seen) rest)"

definition search_strategies ::
    "lib \<Rightarrow> metadata \<Rightarrow> search_create_request \<Rightarrow> search_mode list \<Rightarrow> (string \<times> site_query) list" where
  "search_strategies L md q modes =
    (let common = common_query md q in
     (if SM_TMDB_ID \<in> set modes then [(''TMDB_ID'', common\<lparr> qy_tmdb := Some (md_tmdb_id md) \<rparr>)] else [])
     @ (if SM_IMDB_ID \<in> set modes \<and> \<not> falsy_str (md_imdb_id md)
        then [(''IMDB_ID'', common\<lparr> qy_imdb := md_imdb_id md \<rparr>)] else [])
     @ (if SM_TEXT \<in> set modes
        then map (\<lambda>(name, qu). (name, common\<lparr> qy_search := Some qu \<rparr>)) (unseen L [] (text_queries md))
        else []))"

definition strategy_entry :: "string \<Rightarrow> torrent_candidate list \<Rightarrow> json" where
  "strategy_entry name results = JObj
    [(''strategy'', JStr name), (''candidate_count'', JInt (int (length results)))]"

text \<open>
  The strategies in turn until one finds something. \<open>G\<close> is the outcome of the guard before each
  request, by the name of its strategy, and \<open>S\<close> what the site answers.
\<close>

fun search_with_fallbacks ::
    "(string \<Rightarrow> exn + unit) \<Rightarrow> (site_query \<Rightarrow> exn + torrent_candidate list) \<Rightarrow> (string \<times> site_query) list
      \<Rightarrow> json list \<Rightarrow> exn + torrent_candidate list \<times> json list" where
  "search_with_fallbacks G S [] steps = Inr ([], steps)"
| "search_with_fallbacks G S ((name, qu) # rest) steps =
    bindR (G name) (\<lambda>_.
    bindR (S qu) (\<lambda>results.
    if results \<noteq> [] then Inr (results, steps @ [strategy_entry name results])
    else search_with_fallbacks G S rest (steps @ [strategy_entry name results])))"

section \<open>The fence of an automatic search\<close>

definition automatic_job :: "task \<Rightarrow> bool" where
  "automatic_job t \<longleftrightarrow> is_text (payload_get ''automation_policy_revision_id'' t)"

definition guard_automatic_torrent_search ::
    "lib \<Rightarrow> settings \<Rightarrow> string \<Rightarrow> string \<Rightarrow> string \<Rightarrow> fresh \<Rightarrow> readings \<Rightarrow> unit session" where
  "guard_automatic_torrent_search L st w job_id token F T =
    (\<lambda>s. (fst (bindH (getH (held_task w job_id token)) (\<lambda>x.
      bindH (liftH (option_or (app_err ''AUTOMATION_TORRENT_SEARCH_LEASE_LOST'' 409) x)) (\<lambda>t.
      require_automatic_torrent_search_current L st t F T)) s), s))"

section \<open>Scores\<close>

definition search_preferences :: "settings \<Rightarrow> search_create_request \<Rightarrow> preferences" where
  "search_preferences st q = \<lparr>
     pf_resolutions = list_or (sq_preferred_resolutions q) (st_preferred_resolutions st),
     pf_sources = list_or (sq_preferred_sources q) (st_preferred_sources st),
     pf_audio = list_or (sq_preferred_audio q) (st_preferred_audio st),
     pf_subtitles = list_or (sq_preferred_subtitles q) (st_preferred_subtitles st),
     pf_max_size_bytes = bound_or (sq_max_size_bytes q) (st_max_candidate_size_bytes st),
     pf_possible_duplicate = False \<rparr>"

text \<open>A candidate whose title was seen before, now or in an earlier search, may be a duplicate.\<close>

fun score_candidates ::
    "lib \<Rightarrow> metadata \<Rightarrow> string list option \<Rightarrow> preferences \<Rightarrow> string list \<Rightarrow> torrent_candidate list
      \<Rightarrow> torrent_candidate list" where
  "score_candidates L md missing p seen [] = []"
| "score_candidates L md missing p seen (c # cs) =
    (let key = release_key L (tc_release_title c) in
     score_torrent_candidate L md c missing (p\<lparr> pf_possible_duplicate := key \<in> set seen \<rparr>)
       # score_candidates L md missing p (key # seen) cs)"

section \<open>The end of a search\<close>

definition candidate_row_of :: "lib \<Rightarrow> string \<Rightarrow> fresh \<Rightarrow> nat \<times> torrent_candidate \<Rightarrow> candidate_row" where
  "candidate_row_of L run_id F p =
    (let c = snd p in \<lparr>
     cr_id = F (''candidate '' @ show_nat (fst p)), cr_search_run_id = run_id, cr_site_id = tc_site_id c,
     cr_torrent_id = tc_torrent_id c, cr_candidate_snapshot = candidate_json L c,
     cr_match_score = (case tc_match_score c of None \<Rightarrow> fl_text L 0 | Some x \<Rightarrow> x),
     cr_match_reasons = tc_match_reasons c, cr_warnings = tc_warnings c \<rparr>)"

definition search_stale :: exn where
  "search_stale = app_err ''TORRENT_SEARCH_INPUT_STALE'' 409"

definition finished_run :: "search_run_row \<Rightarrow> torrent_candidate list \<Rightarrow> json list \<Rightarrow> int \<Rightarrow> search_run_row" where
  "finished_run r cs steps now = r\<lparr>
     ru_status := (if cs = [] then WF_NO_CANDIDATE else WF_TORRENT_REVIEW), ru_strategy_log := JList steps,
     ru_candidate_count := int (length cs), ru_finished_at := Some (Aware now),
     ru_error_code := None, ru_error_message := None \<rparr>"

definition store_candidates ::
    "lib \<Rightarrow> task \<Rightarrow> search_run_row \<Rightarrow> string \<Rightarrow> torrent_candidate list \<Rightarrow> json list \<Rightarrow> fresh \<Rightarrow> readings \<Rightarrow> unit session" where
  "store_candidates L t r mid cs steps F T =
    bindH (for_each (\<lambda>p. insert_candidate (candidate_row_of L (ru_id r) F p)) (List.enumerate 0 cs)) (\<lambda>_.
    bindH (save_run (finished_run r cs steps (T ''finished''))) (\<lambda>_.
    bindH (refresh_media_search_workflow_status mid) (\<lambda>_.
    bindH (save_task (succeeded t)) (\<lambda>_.
    insert_audit_event (if cs = [] then ''TORRENT_SEARCH_NO_CANDIDATE'' else ''TORRENT_CANDIDATES_READY'')
      ''torrent_search_run'' (ru_id r)
      (JObj [(''candidate_count'', JInt (int (length cs))), (''site_id'', JStr (ru_site_id r)),
        (''strategies'', JList steps), (''read_only'', JBool True)])))))"

text \<open>What the transaction checks again before it stores anything.\<close>

definition require_search_unchanged ::
    "lib \<Rightarrow> settings \<Rightarrow> task \<Rightarrow> search_run_row \<Rightarrow> media_row \<Rightarrow> unit session" where
  "require_search_unchanged L st t r m =
    bindH (raise_ifH (ru_media_id r \<noteq> me_id m \<or> payload_get ''media_id'' t \<noteq> JStr (me_id m)
        \<or> payload_get ''search_run_id'' t \<noteq> JStr (ru_id r))
      (app_err ''PT_MEDIA_BINDING_MISMATCH'' 409)) (\<lambda>_.
    bindH (getH (confirmed_review (me_id m))) (\<lambda>y.
    bindH (liftH (option_or search_stale y)) (\<lambda>review.
    let site = payload_get ''site_id'' t;
        legacy = (site = JNull \<and> tk_job_type t = legacy_search_type (me_id m) \<and> ru_site_id r = ''avistaz'');
        expected = payload_get ''input_fingerprint'' t in
    bindH (liftH (request_from_snapshot L (ru_sanitized_request r) legacy)) (\<lambda>q.
    bindH (raise_ifH (sq_site_id q \<noteq> ru_site_id r \<or> (is_text site \<and> site \<noteq> JStr (ru_site_id r)))
      site_mismatch) (\<lambda>_.
    raise_ifH ((automatic_job t \<and> \<not> is_text expected)
        \<or> (is_text expected \<and> expected \<noteq> JStr (torrent_search_input_fingerprint L m review q st)))
      search_stale)))))"

definition complete_torrent_search ::
    "lib \<Rightarrow> settings \<Rightarrow> string \<Rightarrow> string \<Rightarrow> string \<Rightarrow> string \<Rightarrow> torrent_candidate list \<Rightarrow> json list \<Rightarrow> string
      \<Rightarrow> fresh \<Rightarrow> readings \<Rightarrow> unit session" where
  "complete_torrent_search L st w job_id run_id mid cs steps token F T = transact
    (bindH (getH (\<lambda>s. both (held_task w job_id token s) (both (run_by_id run_id s) (media_by_id mid s)))) (\<lambda>x.
     case x of
       None \<Rightarrow> returnH ()
     | Some (t, r, m) \<Rightarrow>
         bindH (require_search_unchanged L st t r m) (\<lambda>_.
         store_candidates L t r mid cs steps F T)))"

section \<open>One search\<close>

text \<open>
  The registry gives the adapter of a site or raises. An adapter answers queries; \<open>sa_guards\<close> is the
  outcome of the fence before each request, or none when it takes no guard.
\<close>

record site_adapter =
  sa_search :: "site_query \<Rightarrow> exn + torrent_candidate list"
  sa_guards :: "(string \<Rightarrow> exn + unit) option"

definition search_guards :: "task \<Rightarrow> site_adapter \<Rightarrow> exn + (string \<Rightarrow> exn + unit)" where
  "search_guards t A =
    (if \<not> automatic_job t then Inr (\<lambda>_. Inr ())
     else bindR (option_or (app_err ''AUTOMATION_REQUEST_GUARD_UNAVAILABLE'' 409) (sa_guards A)) (\<lambda>G.
       bindR (G ''start'') (\<lambda>_. Inr G)))"

definition find_candidates ::
    "lib \<Rightarrow> settings \<Rightarrow> task \<Rightarrow> search_context \<Rightarrow> (string \<Rightarrow> exn + site_adapter)
      \<Rightarrow> exn + torrent_candidate list \<times> json list" where
  "find_candidates L st t x registry =
    bindR (registry (sx_site_id x)) (\<lambda>A.
    bindR (search_guards t A) (\<lambda>G.
    bindR (search_with_fallbacks G (sa_search A)
      (search_strategies L (sx_metadata x) (sx_request x) (ds_search_modes (sx_declaration x))) []) (\<lambda>(cs, steps).
    bindR (raise_if (list_ex (\<lambda>c. tc_site_id c \<noteq> sx_site_id x) cs)
      (app_err ''PT_SITE_CANDIDATE_MISMATCH'' 502)) (\<lambda>_.
    Inr (score_candidates L (sx_metadata x) (me_missing_episodes (sx_media x))
      (search_preferences st (sx_request x)) (sx_prior_titles x) cs, steps)))))"

definition run_torrent_search ::
    "lib \<Rightarrow> settings \<Rightarrow> catalog \<Rightarrow> string \<Rightarrow> task \<Rightarrow> string \<Rightarrow> (string \<Rightarrow> exn + site_adapter) \<Rightarrow> fresh \<Rightarrow> readings
      \<Rightarrow> unit session" where
  "run_torrent_search L st c w t token registry F T =
    catchH
      (bindH (search_context_of L c t) (\<lambda>x.
       bindH (liftH (find_candidates L st t x registry)) (\<lambda>(cs, steps).
       bindH (liftH (search_payload t)) (\<lambda>(mid, run_id).
       complete_torrent_search L st w (tk_id t) run_id mid cs steps token F T))))
      (\<lambda>e. fail_job L w (tk_id t) token (recorded_error ''INTERNAL_WORKER_ERROR'' e) T)"

end
