(* ===== verification/DiscoveryWorker.thy ===== *)
theory DiscoveryWorker
  imports SearchWorker
begin

text \<open>
  The discovery of \<open>workers/processor.py\<close>: the items of the media source, completed with the details
  of the library and the countries of the metadata provider, and the transaction that merges them
  into the media table and queues the resolutions of what is new or has changed. A JSON column that
  is null and one that holds the JSON null are one value here.
\<close>

section \<open>Items\<close>

record found_item =
  fi_source :: string
  fi_source_item_id :: string
  fi_media_type :: media_type
  fi_tmdb_id :: "int option"
  fi_title :: string
  fi_original_title :: "string option"
  fi_country_codes :: "string list option"
  fi_year :: "int option"
  fi_poster_path :: "string option"
  fi_raw_type :: "string option"
  fi_local_episodes :: "int option"
  fi_local_episode_matrix :: "matrix option"
  fi_total_episodes :: "int option"
  fi_aired_episodes :: "int option"
  fi_missing_episodes :: "string list option"
  fi_identity_confidence :: identity_confidence
  fi_metadata_status :: metadata_status
  fi_discovered_at :: datetime
  fi_updated_at :: datetime

record library_details =
  ld_local_episodes :: "int option"
  ld_local_episode_matrix :: "matrix option"
  ld_total_episodes :: "int option"
  ld_aired_episodes :: "int option"
  ld_missing_episodes :: "string list option"

text \<open>A warning, by its code.\<close>

type_synonym warnings = "string list"

section \<open>The details of the library\<close>

definition needs_details :: "found_item \<Rightarrow> bool" where
  "needs_details i \<longleftrightarrow> fi_media_type i = MT_TV \<and> fi_tmdb_id i \<noteq> None
    \<and> fi_local_episodes i = None \<and> fi_total_episodes i = None \<and> fi_aired_episodes i = None"

definition known_or :: "'a option \<Rightarrow> 'a option \<Rightarrow> 'a option" where
  "known_or x y = (case x of None \<Rightarrow> y | Some _ \<Rightarrow> x)"

definition with_details :: "found_item \<Rightarrow> library_details \<Rightarrow> found_item" where
  "with_details i d = i\<lparr>
     fi_local_episodes := known_or (ld_local_episodes d) (fi_local_episodes i),
     fi_local_episode_matrix := known_or (ld_local_episode_matrix d) (fi_local_episode_matrix i),
     fi_total_episodes := known_or (ld_total_episodes d) (fi_total_episodes i),
     fi_aired_episodes := known_or (ld_aired_episodes d) (fi_aired_episodes i),
     fi_missing_episodes := known_or (ld_missing_episodes d) (fi_missing_episodes i) \<rparr>"

text \<open>An error of one item is set aside, unless it concerns the access or can pass.\<close>

definition library_update ::
    "(media_type \<Rightarrow> int \<Rightarrow> exn + library_details) \<Rightarrow> found_item \<Rightarrow> exn + found_item \<times> warnings" where
  "library_update D i =
    (case (needs_details i, fi_tmdb_id i) of
       (True, Some k) \<Rightarrow>
         (case D (fi_media_type i) k of
            Inr d \<Rightarrow> Inr (with_details i d, [])
          | Inl e \<Rightarrow>
              (case e of
                 AppErr a \<Rightarrow>
                   if retryable a \<or> error_code a \<in> {''AUTH_EXPIRED'', ''AUTH_FORBIDDEN'', ''AUTH_FAILED''} then Inl e
                   else Inr (i, [''LIBRARY_DETAILS_ISOLATED''])
               | PyValueError \<Rightarrow> Inr (i, [''LIBRARY_DETAILS_ISOLATED''])
               | _ \<Rightarrow> Inl e))
     | _ \<Rightarrow> Inr (i, []))"

fun enrich_library_details ::
    "(media_type \<Rightarrow> int \<Rightarrow> exn + library_details) \<Rightarrow> found_item list \<Rightarrow> warnings \<Rightarrow> exn + found_item list \<times> warnings" where
  "enrich_library_details D [] ws = Inr ([], ws)"
| "enrich_library_details D (i # items) ws =
    bindR (library_update D i) (\<lambda>(i', isolated).
    bindR (enrich_library_details D items (ws @ isolated)) (\<lambda>(items', ws').
    Inr (i' # items', ws')))"

section \<open>Countries\<close>

type_synonym country_values = "((media_type \<times> int) \<times> string list) list"

definition country_key :: "found_item \<Rightarrow> (media_type \<times> int) option" where
  "country_key i = (if fi_country_codes i = None then map_option (Pair (fi_media_type i)) (fi_tmdb_id i) else None)"

definition pending_keys :: "found_item list \<Rightarrow> (media_type \<times> int) list" where
  "pending_keys items = dedup (List.map_filter country_key items)"

definition fill_countries :: "country_values \<Rightarrow> media_row \<Rightarrow> media_row" where
  "fill_countries vs m =
    (case (me_country_codes m, me_tmdb_id m) of
       (None, Some k) \<Rightarrow> m\<lparr> me_country_codes := map_of vs (me_media_type m, k) \<rparr>
     | _ \<Rightarrow> m)"

definition checkpoint_country_codes :: "string \<Rightarrow> string \<Rightarrow> string \<Rightarrow> country_values \<Rightarrow> unit session" where
  "checkpoint_country_codes w job_id token vs =
    (if vs = [] then returnH ()
     else transact
       (bindH (getH (held_task w job_id token)) (\<lambda>x.
        bindH (liftH (option_or (app_err_retry ''JOB_LEASE_LOST'' 409) x)) (\<lambda>_.
        modifyH (\<lambda>s. s\<lparr> db_media := map (fill_countries vs) (db_media s) \<rparr>)))))"

definition country_outcome :: "provider \<Rightarrow> media_type \<times> int \<Rightarrow> exn + string list option \<times> warnings" where
  "country_outcome P k =
    (case mp_get_country_codes P (fst k) (snd k) of
       Inr codes \<Rightarrow> Inr (codes, [])
     | Inl e \<Rightarrow>
         (case e of
            AppErr a \<Rightarrow> if error_code a = ''TMDB_NOT_FOUND'' then Inr (None, [''COUNTRY_METADATA_ISOLATED'']) else Inl e
          | PyValueError \<Rightarrow> Inl (app_err ''TMDB_VALIDATION_ERROR'' 502)
          | _ \<Rightarrow> Inl e))"

text \<open>
  The keys in turn, from the given index on; what is known is written back after each full batch
  and once more at the end.
\<close>

fun ask_countries ::
    "provider \<Rightarrow> nat \<Rightarrow> (country_values \<Rightarrow> unit session) \<Rightarrow> nat \<Rightarrow> (media_type \<times> int) list
      \<Rightarrow> country_values \<Rightarrow> country_values \<Rightarrow> warnings \<Rightarrow> (country_values \<times> warnings) session" where
  "ask_countries P batch save i [] known fresh_values ws =
    bindH (if fresh_values = [] then returnH () else save fresh_values) (\<lambda>_. returnH (known, ws))"
| "ask_countries P batch save i (k # ks) known fresh_values ws =
    bindH (liftH (country_outcome P k)) (\<lambda>(codes, isolated).
    let new = (case codes of None \<Rightarrow> [] | Some x \<Rightarrow> [(k, x)]); pending = fresh_values @ new in
    if i mod batch = 0 \<and> pending \<noteq> []
    then bindH (save pending) (\<lambda>_.
      ask_countries P batch save (i + 1) ks (known @ new) [] (ws @ isolated))
    else ask_countries P batch save (i + 1) ks (known @ new) pending (ws @ isolated))"

definition with_countries :: "country_values \<Rightarrow> found_item \<Rightarrow> found_item" where
  "with_countries vs i =
    (case country_key i of None \<Rightarrow> i | Some k \<Rightarrow> i\<lparr> fi_country_codes := map_of vs k \<rparr>)"

definition provider_missing :: "exn \<Rightarrow> bool" where
  "provider_missing e \<longleftrightarrow> code_of e \<in> {''TMDB_LIVE_DISABLED'', ''TMDB_NOT_CONFIGURED''}"

definition enrich_country_codes ::
    "(exn + provider) option \<Rightarrow> nat \<Rightarrow> (country_values \<Rightarrow> unit session) \<Rightarrow> found_item list \<Rightarrow> warnings
      \<Rightarrow> (found_item list \<times> warnings) session" where
  "enrich_country_codes made batch save items ws =
    (let keys = pending_keys items; unavailable = returnH (items, ws @ [''COUNTRY_METADATA_UNAVAILABLE'']) in
     if keys = [] then returnH (items, ws)
     else case made of
       None \<Rightarrow> unavailable
     | Some (Inl e) \<Rightarrow> if provider_missing e then unavailable else raiseH e
     | Some (Inr P) \<Rightarrow>
         bindH (ask_countries P batch save 1 keys [] [] ws) (\<lambda>(vs, ws').
         returnH (map (with_countries vs) items, ws')))"

text \<open>The countries of an item that is already stored, by its identity in the source.\<close>

type_synonym item_key = "string \<times> media_type \<times> (int + string)"

definition item_identity :: "int option \<Rightarrow> string \<Rightarrow> int + string" where
  "item_identity tmdb source_item = (case tmdb of Some k \<Rightarrow> Inl k | None \<Rightarrow> Inr source_item)"

definition item_key :: "found_item \<Rightarrow> item_key" where
  "item_key i = (fi_source i, fi_media_type i, item_identity (fi_tmdb_id i) (fi_source_item_id i))"

definition row_key :: "media_row \<Rightarrow> item_key" where
  "row_key m = (me_source m, me_media_type m, item_identity (me_tmdb_id m) (me_source_item_id m))"

definition persisted_countries :: "found_item list \<Rightarrow> media_row list \<Rightarrow> (item_key \<times> string list) list" where
  "persisted_countries items rows =
    (let unresolved = filter (\<lambda>i. fi_country_codes i = None) items;
         tmdb_ids = List.map_filter fi_tmdb_id unresolved;
         source_ids = map fi_source_item_id (filter (\<lambda>i. fi_tmdb_id i = None) unresolved);
         wanted = (\<lambda>m. (case me_tmdb_id m of None \<Rightarrow> False | Some k \<Rightarrow> k \<in> set tmdb_ids)
           \<or> me_source_item_id m \<in> set source_ids)
     in rev (List.map_filter (\<lambda>m. map_option (Pair (row_key m)) (me_country_codes m)) (filter wanted rows)))"

definition reuse_persisted_country_codes :: "found_item list \<Rightarrow> found_item list session" where
  "reuse_persisted_country_codes items =
    bindH (getH (\<lambda>s. persisted_countries items (db_media s))) (\<lambda>known.
    returnH (map (\<lambda>i. if fi_country_codes i = None
      then i\<lparr> fi_country_codes := map_of known (item_key i) \<rparr> else i) items))"

section \<open>The merge\<close>

definition unique_items :: "found_item list \<Rightarrow> found_item list" where
  "unique_items items = map snd (fold (\<lambda>i m. AList.update (item_key i) i m) items [])"

definition same_item :: "found_item \<Rightarrow> media_row \<Rightarrow> bool" where
  "same_item i m \<longleftrightarrow> me_source m = fi_source i \<and> me_media_type m = fi_media_type i
    \<and> me_tmdb_id m = fi_tmdb_id i \<and> (fi_tmdb_id i = None \<longrightarrow> me_source_item_id m = fi_source_item_id i)"

definition merged_media :: "found_item \<Rightarrow> media_row \<Rightarrow> media_row" where
  "merged_media i m = m\<lparr>
     me_source := fi_source i, me_source_item_id := fi_source_item_id i, me_media_type := fi_media_type i,
     me_tmdb_id := fi_tmdb_id i, me_title := fi_title i, me_original_title := fi_original_title i,
     me_year := fi_year i, me_country_codes := known_or (fi_country_codes i) (me_country_codes m),
     me_poster_path := fi_poster_path i, me_raw_type := fi_raw_type i,
     me_local_episodes := fi_local_episodes i,
     me_local_episode_matrix := matrix_value (fi_local_episode_matrix i),
     me_total_episodes := fi_total_episodes i, me_aired_episodes := fi_aired_episodes i,
     me_missing_episodes := fi_missing_episodes i, me_identity_confidence := fi_identity_confidence i,
     me_metadata_status := fi_metadata_status i, me_updated_at := fi_updated_at i \<rparr>"

text \<open>A new row has the defaults of the columns an item does not set.\<close>

definition new_media :: "string \<Rightarrow> found_item \<Rightarrow> media_row" where
  "new_media nid i = merged_media i \<lparr> me_id = nid, me_source = fi_source i,
     me_source_item_id = fi_source_item_id i, me_media_type = fi_media_type i, me_tmdb_id = fi_tmdb_id i,
     me_title = fi_title i, me_original_title = None, me_year = None, me_country_codes = None,
     me_poster_path = None, me_raw_type = None, me_local_episodes = None, me_local_episode_matrix = JNull,
     me_total_episodes = None, me_aired_episodes = None, me_missing_episodes = None,
     me_discovery_status = ''MISSING'', me_identity_confidence = fi_identity_confidence i,
     me_metadata_status = fi_metadata_status i, me_workflow_status = WF_DISCOVERED,
     me_discovered_at = fi_discovered_at i, me_updated_at = fi_updated_at i \<rparr>"

record merge_state =
  mg_created :: nat
  mg_updated :: nat
  mg_candidates :: "(string \<times> bool) list"

definition merge_item :: "lib \<Rightarrow> string \<Rightarrow> found_item \<Rightarrow> merge_state \<Rightarrow> merge_state session" where
  "merge_item L nid i g =
    bindH (getH (\<lambda>s. find (same_item i) (db_media s))) (\<lambda>x.
    case x of
      None \<Rightarrow>
        bindH (insert_media (new_media nid i)) (\<lambda>_.
        returnH (g\<lparr> mg_created := mg_created g + 1, mg_candidates := mg_candidates g @ [(nid, False)] \<rparr>))
    | Some m \<Rightarrow>
        let m' = merged_media i m;
            changed = metadata_resolution_input_fingerprint L m \<noteq> metadata_resolution_input_fingerprint L m' in
        bindH (save_media m') (\<lambda>_.
        returnH (g\<lparr> mg_updated := mg_updated g + 1,
          mg_candidates := mg_candidates g @ (if changed then [(me_id m, True)] else []) \<rparr>)))"

fun merge_items :: "lib \<Rightarrow> fresh \<Rightarrow> (nat \<times> found_item) list \<Rightarrow> merge_state \<Rightarrow> merge_state session" where
  "merge_items L F [] g = returnH g"
| "merge_items L F ((n, i) # rest) g =
    bindH (merge_item L (F (''media '' @ show_nat n)) i g) (merge_items L F rest)"

text \<open>The resolution of one candidate: queued, already queued, or not wanted.\<close>

definition queue_resolution ::
    "lib \<Rightarrow> string \<times> bool \<Rightarrow> int \<Rightarrow> fresh \<Rightarrow> readings \<Rightarrow> bool option session" where
  "queue_resolution L c max_attempts F T =
    bindH (getH (media_by_id (fst c))) (\<lambda>x.
    case x of
      None \<Rightarrow> returnH None
    | Some m \<Rightarrow>
        bindH (getH (identity_finalization_evidence m)) (\<lambda>evidence.
        if casefold L (me_discovery_status m) \<noteq> ''missing'' \<or> evidence \<noteq> None then returnH None
        else
          bindH (if snd c then cancel_active_metadata_resolution_jobs L (me_id m) ''DISCOVERY_IDENTITY_INPUT_CHANGED''
                 else returnH 0) (\<lambda>_.
          bindH (enqueue_metadata_resolution L (me_id m) max_attempts (F (''resolution '' @ me_id m))
            (T ''resolution job'')) (\<lambda>(t, again).
          returnH (Some again)))))"

fun queue_resolutions ::
    "lib \<Rightarrow> (string \<times> bool) list \<Rightarrow> int \<Rightarrow> fresh \<Rightarrow> readings \<Rightarrow> bool list session" where
  "queue_resolutions L [] n F T = returnH []"
| "queue_resolutions L (c # cs) n F T =
    bindH (queue_resolution L c n F T) (\<lambda>x.
    bindH (queue_resolutions L cs n F T) (\<lambda>xs.
    returnH (case x of None \<Rightarrow> xs | Some again \<Rightarrow> again # xs)))"

definition finished_discovery :: "discovery_run \<Rightarrow> nat \<Rightarrow> merge_state \<Rightarrow> int \<Rightarrow> discovery_run" where
  "finished_discovery r n g now = r\<lparr> dr_status := TK_SUCCEEDED, dr_finished_at := Some (Aware now),
     dr_discovered_count := int n, dr_created_count := int (mg_created g), dr_updated_count := int (mg_updated g),
     dr_error_code := None, dr_error_message := None \<rparr>"

definition complete_discovery ::
    "lib \<Rightarrow> bool \<Rightarrow> string \<Rightarrow> string \<Rightarrow> string \<Rightarrow> found_item list \<Rightarrow> warnings \<Rightarrow> string \<Rightarrow> fresh \<Rightarrow> readings
      \<Rightarrow> unit session" where
  "complete_discovery L auto_enqueue w job_id run_id items ws token F T = transact
    (let uniq = unique_items items in
     bindH (getH (\<lambda>s. both (held_task w job_id token s) (discovery_run_by_id (Some run_id) s))) (\<lambda>x.
     case x of
       None \<Rightarrow> returnH ()
     | Some (t, r) \<Rightarrow>
         bindH (merge_items L F (List.enumerate 1 uniq) \<lparr> mg_created = 0, mg_updated = 0, mg_candidates = [] \<rparr>) (\<lambda>g.
         bindH (if auto_enqueue then queue_resolutions L (mg_candidates g) (tk_max_attempts t) F T
                else returnH []) (\<lambda>queued.
         bindH (save_task (succeeded t)) (\<lambda>_.
         bindH (save_discovery_run (finished_discovery r (length uniq) g (T ''finished''))) (\<lambda>_.
         insert_audit_event ''DISCOVERY_RUN_SUCCEEDED'' ''discovery_run'' (dr_id r)
           (JObj [(''discovered_count'', JInt (int (length uniq))),
             (''created_count'', JInt (int (mg_created g))), (''updated_count'', JInt (int (mg_updated g))),
             (''isolated_warning_count'', JInt (int (length ws))),
             (''metadata_resolution_queued_count'', JInt (int (length (filter Not queued)))),
             (''metadata_resolution_deduplicated_count'', JInt (int (length (filter id queued))))])))))))"

section \<open>One discovery\<close>

text \<open>The adapter of the media source, by the outcome of each call.\<close>

record media_source =
  ms_authenticate :: "exn + unit"
  ms_list_missing_media :: "exn + found_item list \<times> warnings"
  ms_get_library_details :: "media_type \<Rightarrow> int \<Rightarrow> exn + library_details"

definition run_discovery ::
    "lib \<Rightarrow> bool \<Rightarrow> nat \<Rightarrow> string \<Rightarrow> task \<Rightarrow> string \<Rightarrow> string \<Rightarrow> exn + media_source \<Rightarrow> (exn + provider) option
      \<Rightarrow> fresh \<Rightarrow> readings \<Rightarrow> unit session" where
  "run_discovery L auto_enqueue batch w t run_id token made provider_made F T =
    catchH
      (bindH (liftH made) (\<lambda>A.
       bindH (liftH (ms_authenticate A)) (\<lambda>_.
       bindH (liftH (ms_list_missing_media A)) (\<lambda>(items, ws).
       bindH (liftH (enrich_library_details (ms_get_library_details A) items ws)) (\<lambda>(items1, ws1).
       bindH (reuse_persisted_country_codes items1) (\<lambda>items2.
       bindH (enrich_country_codes provider_made batch (checkpoint_country_codes w (tk_id t) token) items2 ws1)
         (\<lambda>(items3, ws2).
       complete_discovery L auto_enqueue w (tk_id t) run_id items3 ws2 token F T)))))))
      (\<lambda>e. fail_job L w (tk_id t) token (recorded_error ''INTERNAL_WORKER_ERROR'' e) T)"

text \<open>\<open>_run_claimed_job\<close>: the kind of a job is the head of its type.\<close>

datatype job_kind = JK_DISCOVERY string | JK_RESOLUTION | JK_SEARCH | JK_UNKNOWN

definition kind_of_job :: "task \<Rightarrow> job_kind" where
  "kind_of_job t =
    (if tk_job_type t = ''DISCOVER_NEXTFIND'' \<and> \<not> falsy_str (tk_run_id t) then JK_DISCOVERY (the (tk_run_id t))
     else if is_resolution t then JK_RESOLUTION
     else if is_search t then JK_SEARCH
     else JK_UNKNOWN)"

record worker_world =
  ww_source :: "exn + media_source"
  ww_provider :: "(exn + provider) option"
  ww_registry :: "string \<Rightarrow> exn + site_adapter"
  ww_catalog :: catalog
  ww_auto_enqueue :: bool
  ww_batch :: nat

definition run_claimed_job ::
    "lib \<Rightarrow> settings \<Rightarrow> worker_world \<Rightarrow> string \<Rightarrow> task \<Rightarrow> string \<Rightarrow> fresh \<Rightarrow> readings \<Rightarrow> unit session" where
  "run_claimed_job L st W w t token F T =
    (case kind_of_job t of
       JK_DISCOVERY run_id \<Rightarrow>
         run_discovery L (ww_auto_enqueue W) (ww_batch W) w t run_id token (ww_source W) (ww_provider W) F T
     | JK_RESOLUTION \<Rightarrow> run_metadata_resolution L st w t token (ww_provider W) F T
     | JK_SEARCH \<Rightarrow> run_torrent_search L st (ww_catalog W) w t token (ww_registry W) F T
     | JK_UNKNOWN \<Rightarrow> fail_job L w (tk_id t) token (recorded_error [] (app_err ''UNKNOWN_JOB_TYPE'' 400)) T)"

end
