(* ===== verification/WorkerLaws.thy ===== *)
theory WorkerLaws
  imports EngineLaws PreflightWorker DiscoveryWorker
begin

text \<open>
  The laws of the store hold for the transactions of the two workers over the job queue. Most of
  them leave the core tables alone; the end of a resolution runs the engine, and the worker of the
  preflight ends the approval stage on the approval it has read.
\<close>

section \<open>Transactions that leave the core alone\<close>

lemma core_for_each:
  "(\<And>x. evolves (\<lambda>s t. core_of t = core_of s) (f x)) \<Longrightarrow> evolves (\<lambda>s t. core_of t = core_of s) (for_each f xs)"
  by (induction xs) (auto intro!: leaves.evolves_rules)

lemma core_get_if: "evolves (\<lambda>s t. core_of t = core_of s) (get_if get k)"
  by (cases k) (simp_all add: get_if_def leaves.evolves_return leaves.evolves_get)

lemma core_cancel: "evolves (\<lambda>s t. core_of t = core_of s) (cancel_metadata_resolution_job L t mid ev)"
  unfolding cancel_metadata_resolution_job_def by (intro leaves.evolves_rules workflow_writes_core)

lemmas core_steps = leaves.evolves_rules workflow_writes_core core_lock_media core_handlers core_for_each
  core_get_if core_cancel core_workflow core_confirm_identity

lemma core_claims [evolves_intros]:
  "evolves (\<lambda>s t. core_of t = core_of s) (claim_job lease w token now)"
  "evolves (\<lambda>s t. core_of t = core_of s) (claim_preflight st w token now)"
  "evolves (\<lambda>s t. core_of t = core_of s) (renew_job_lease w job_id token now)"
  "evolves (\<lambda>s t. core_of t = core_of s) (renew_preflight st w job_id token now now2)"
  "evolves (\<lambda>s t. core_of t = core_of s) (worker_heartbeat w now)"
  "evolves (\<lambda>s t. core_of t = core_of s) (preflight_heartbeat w now)"
  unfolding claim_job_def claim_preflight_def renew_job_lease_def renew_preflight_def worker_heartbeat_def
    preflight_heartbeat_def start_discovery_def start_search_def Let_def
  by (intro core_steps)+

lemma core_record_failure: "evolves (\<lambda>s t. core_of t = core_of s) (record_failure L t e T)"
  unfolding record_failure_def fail_discovery_def fail_resolution_def fail_search_def Let_def
  by (intro core_steps)

lemma core_fail_job [evolves_intros]:
  "evolves (\<lambda>s t. core_of t = core_of s) (fail_job L w job_id token e T)"
  "evolves (\<lambda>s t. core_of t = core_of s) (prepare_metadata_resolution L w job_id mid token)"
  unfolding fail_job_def prepare_metadata_resolution_def
  by (auto split: option.split prod.split intro!: core_steps core_record_failure)

lemma core_complete_search [evolves_intros]:
  "evolves (\<lambda>s t. core_of t = core_of s) (complete_torrent_search L st w job_id run_id mid cs steps token F T)"
  unfolding complete_torrent_search_def require_search_unchanged_def store_candidates_def Let_def
  by (auto split: option.split prod.split intro!: core_steps)

lemma core_checkpoint [evolves_intros]:
  "evolves (\<lambda>s t. core_of t = core_of s) (checkpoint_country_codes w job_id token vs)"
  unfolding checkpoint_country_codes_def
  by (intro core_steps leaves_modify) (simp add: core_of_def rows_of_def)

lemma core_merge: "evolves (\<lambda>s t. core_of t = core_of s) (merge_items L F items g)"
  by (induction L F items g rule: merge_items.induct)
    (auto simp: merge_item_def Let_def split: option.split intro!: core_steps)

lemma core_queue: "evolves (\<lambda>s t. core_of t = core_of s) (queue_resolutions L cs n F T)"
  by (induction cs)
    (auto simp: queue_resolution_def split: option.split intro!: core_steps)

lemma core_complete_discovery [evolves_intros]:
  "evolves (\<lambda>s t. core_of t = core_of s) (complete_discovery L auto w job_id run_id items ws token F T)"
  unfolding complete_discovery_def Let_def
  by (auto split: option.split prod.split intro!: core_steps core_merge core_queue)

section \<open>The end of a resolution\<close>

lemma lawful_for_each:
  "(\<And>x. evolves (lawful strict K) (f x)) \<Longrightarrow> evolves (lawful strict K) (for_each f xs)"
  by (induction xs) (auto intro!: lawful.evolves_rules)

lemma lawful_settle: "evolves (lawful strict K) (settle_identity L st t m rows F T)"
  unfolding settle_identity_def
  by (auto split: option.split intro!: lawful.evolves_rules lawful_core lawful_search_after_identity
      lawful_maybe_identity)

lemma lawful_complete_resolution [evolves_intros]:
  "evolves (lawful strict K) (complete_metadata_resolution L st w job_id mid cs token F T)"
  unfolding complete_metadata_resolution_def store_resolution_def Let_def
  by (auto split: option.split prod.split
      intro!: lawful.evolves_rules lawful_for_each lawful_settle core_lawful [OF core_cancel]
        core_lawful [OF workflow_writes_core(8)] core_lawful [OF workflow_writes_core(1)]
        core_lawful [OF workflow_writes_core(3)] core_lawful [OF workflow_writes_core(10)])

section \<open>The preflight worker\<close>

lemma lawful_looking: "evolves (lawful strict K) (looking m)"
  by (simp add: evolves_def looking_def lawful.refl_R)

lemma lawful_prepare_preflight [evolves_intros]:
  "evolves (lawful strict K) (prepare_preflight L st w job_id token F T)"
  "evolves (lawful strict K) (guard_external_read L st w b F T)"
  unfolding prepare_preflight_def guard_external_read_def by (rule lawful_looking)+

lemma lawful_fail_preflight [evolves_intros]:
  "evolves (lawful strict K) (fail_preflight L st w job_id token e F T)"
  unfolding fail_preflight_def record_failure_decision_def Let_def
  by (auto split: option.split prod.split
      intro!: lawful.evolves_rules lawful_record lawful_current_policy core_lawful [OF workflow_writes_core(1)])

lemma reads_lease: "reads (require_job_lease st w job_id token now)"
  unfolding reads_def require_job_lease_def by (intro leaves.evolves_rules)

lemma reads_bound: "reads (bound_approval k)"
  unfolding reads_def bound_approval_def by (intro leaves.evolves_rules)

lemma bound_approval_run: "bound_approval k s = (Inr a, t) \<Longrightarrow> t = s \<and> current s a"
  by (auto simp: bound_approval_def handler_simps approval_by_id_def option_or_Inr_iff
      dest: row_get_Some_key current_get)

lemma keeps_validate_binding:
  assumes "current s a"
  shows "keeps (lawful strict L) s (validate_binding L st t a r seal rid did state now)"
  unfolding validate_binding_def
  by (intro lawful.keeps_raise_if_bind lawful.keeps_guard_bind [OF keeps_lawful_pending [OF assms]]
      evolves_keeps lawful.evolves_rules) (simp add: require_pending_run)

lemma validate_binding_run:
  "validate_binding L st t a r seal rid did state now s = (Inr sn, u) \<Longrightarrow> u = s"
  by (auto simp: validate_binding_def handler_simps require_pending_run)

lemma keeps_validate_again: "keeps (lawful strict L) s (validate_again L st w b F T)"
  unfolding validate_again_def
proof (rule lawful.keeps_reads_bind [OF reads_lease], rule lawful.keeps_reads_bind [OF reads_bound],
    rule lawful.keeps_leaves_bind [OF evolves_keeps [OF lawful_current_policy] current_policy_leaves_executions(2)],
    goal_cases)
  case (1 t a hr u)
  then have "current s a" by (auto dest: bound_approval_run)
  from current_same_approvals [OF 1(4) this] show ?case
    by (intro lawful.keeps_step_bind [OF keeps_validate_binding] lawful.evolves_return)
qed

lemma validate_again_current:
  assumes run: "validate_again L st w b F T s = (Inr (t, a), u)"
  shows "current u a"
proof -
  from run obtain hr v where a: "current s a" and policy: "get_current_policy L (T ''policy'') (F ''policy'') s = (Inr hr, v)"
    and u: "u = v"
    by (auto simp: validate_again_def handler_simps require_job_lease_def dest!: bound_approval_run validate_binding_run)
  have "db_approvals v = db_approvals s"
    by (rule evolvesD [OF current_policy_leaves_executions(2) policy])
  from current_same_approvals [OF this a] u show ?thesis by simp
qed

lemma lawful_finalize_preflight [evolves_intros]:
  "evolves (lawful strict L) (finalize_preflight L st w b result F T)"
  unfolding finalize_preflight_def
proof (rule lawful.evolves_transact, rule keeps_evolves, rule lawful.keeps_bind [OF keeps_validate_again], goal_cases)
  case (1 s x u)
  obtain t a where x: "x = (t, a)" by (cases x)
  with 1 have a: "current u a" by (auto intro: validate_again_current)
  show ?case
    unfolding x prod.case
  proof (rule lawful.keeps_bind [OF lawful_approvals(1) [OF a]], goal_cases)
    case (1 a' v)
    from save_preflight_current [OF a 1] show ?case
      by (intro lawful.keeps_step_bind [OF keeps_maybe_finalize] core_lawful [OF workflow_writes_core(1)])
  qed
qed

end
