(* ===== verification/ExecutorProtocol.thy ===== *)
theory ExecutorProtocol
  imports Routes WorkerLaws
begin

text \<open>
  The executor as a state machine: the shared store, the claims that workers are processing, and
  the log of the requests that add a torrent to the downloader. Every transaction of a route,
  of the automation or of a worker is one step, and steps of different workers interleave in any
  order; a worker that crashes just takes no further step.

  A claim in progress carries the local variables of \<open>_process_claim\<close>:
  \<open>reservation_committed\<close> and \<open>torrent_add_may_have_occurred\<close>, and whether the request itself was
  sent after its write guard passed.
\<close>

section \<open>Steps\<close>

text \<open>
  The transactions that do not belong to one claim in progress: the routes, the handlers of the
  automation engine, and the workers over the job queue. What only changes tables the core does not
  rest on, such as a discovery, a search or a claim of a job, may happen at any time.
\<close>

inductive service_step :: "lib \<Rightarrow> db \<Rightarrow> db \<Rightarrow> bool" for L :: lib where
  create_candidate: "service_step L s (snd (create_candidate_approval L c ttl st actor F T s))"
| confirm_open: "service_step L s (snd (confirm_open L c key lm ttl req st actor now pid nid s))"
| confirm_close: "service_step L s (snd (confirm_close L c k seal req r lm key st actor now pid ids s))"
| approve_open: "service_step L s (snd (approve_open L k req T F s))"
| approve_close: "service_step L s (snd (approve_close L k seal req r st actor F T s))"
| preflight_open: "service_step L s (snd (preflight_open L k T F s))"
| preflight_close: "service_step L s (snd (preflight_close L k seal r st actor F T s))"
| reject: "service_step L s (snd (reject_approval_request L k reason actor now s))"
| revoke: "service_step L s (snd (revoke_approval_request L k reason actor now s))"
| intent: "service_step L s (snd (create_approval_execution_intent L k lm ttl st actor now pid nid nonce s))"
| execute: "service_step L s (snd (execute_approval_download_plan L k i nonce key st actor now pid nid s))"
| reconcile: "service_step L s (snd (reconcile_download_execution L x reason actor now s))"
| automatic_identity: "service_step L s (snd (transact (maybe_automate_identity L st job m F T) s))"
| automatic_search: "service_step L s (snd (transact (maybe_automate_torrent_search_after_identity L st mid F T) s))"
| automatic_selection: "service_step L s (snd (transact (maybe_automate_torrent_selection L st job sr m F T) s))"
| automatic_preflight: "service_step L s (snd (transact (maybe_enqueue_automatic_preflight L st a F T) s))"
| automatic_execution: "service_step L s (snd (transact (maybe_create_automatic_execution L st a F T) s))"
| automatic_intent: "service_step L s (snd (transact (create_execution_intent L k lm ttl st actor b now nid nonce) s))"
| automatic: "service_step L s (snd (transact (execute_approved_plan L k i nonce key st actor b now nid) s))"
| complete_resolution: "service_step L s (snd (complete_metadata_resolution L st w job_id mid cs token F T s))"
| finalize_preflight: "service_step L s (snd (finalize_preflight L st w pb result F T s))"
| fail_preflight: "service_step L s (snd (fail_preflight L st w job_id token e F T s))"
| publish: "service_step L s (snd (transact (publish_policy_revision L q actor n1 i1 n2 i2) s))"
| decide: "service_step L s (snd (transact (add_decision_once d) s))"
| recover: "service_step L s (snd (recover_stale_executions L st w now s))"
| observe: "service_step L s (snd (transact (monitor_job L w sp qs now j) s))"
| elsewhere: "core_of t = core_of s \<Longrightarrow> service_step L s t"

lemma keeps_committing: "keeps (lawful strict L) s m \<Longrightarrow> keeps (lawful strict L) s (committing m)"
  by (cases "m s"; cases "fst (m s)") (auto simp: keeps_def committing_def lawful.refl_R)

lemma keeps_snd: "keeps R s m \<Longrightarrow> R s (snd (m s))"
  by (simp add: keeps_def)

lemma lawful_elsewhere: "core_of t = core_of s \<Longrightarrow> lawful strict L s t"
  using integrity_rows [OF core_rows, of t s L] life_rows [OF core_rows, of t s strict]
  by (simp add: lawful_def core_audit core_guards)

lemma service_step_lawful: "service_step L s t \<Longrightarrow> lawful strict L s t"
proof (induction rule: service_step.induct)
qed ((rule lawful_elsewhere, assumption)
    | (rule evolvesD [OF _ prod.collapse [symmetric]],
    intro evolves_intros lawful.evolves_transact lawful_create_candidate lawful_confirm_open lawful_confirm_close
      lawful_opens lawful_approve_close lawful_preflight_close lawful_maybe_identity lawful_search_after_identity
      lawful_maybe_selection lawful_maybe_preflight lawful_maybe_execution lawful_complete_resolution
      lawful_finalize_preflight lawful_fail_preflight
      lawful_approval_routes lawful_execution_routes lawful_create_intent lawful_execute lawful_publish lawful_add_decision
      lawful_recover lawful_monitor_job))+

record proc =
  pr_claim :: claim
  pr_worker :: string
  pr_reserved :: bool
  pr_added :: bool
  pr_sent :: bool

record world =
  w_db :: db
  w_procs :: "proc list"
  w_adds :: "string list"

definition start_proc :: "claim \<Rightarrow> string \<Rightarrow> proc" where
  "start_proc c w = \<lparr> pr_claim = c, pr_worker = w, pr_reserved = False, pr_added = False, pr_sent = False \<rparr>"

definition proc_execution :: "proc \<Rightarrow> string" where
  "proc_execution p = cl_execution_id (pr_claim p)"

definition expected_status :: "proc \<Rightarrow> execution_status" where
  "expected_status p = (if pr_reserved p then DE_SUBMITTING else DE_VALIDATING)"

definition set_proc :: "nat \<Rightarrow> proc \<Rightarrow> world \<Rightarrow> world" where
  "set_proc i p v = v\<lparr> w_procs := (w_procs v)[i := p] \<rparr>"

text \<open>
  The steps of a claim follow \<open>_process_claim\<close>: every external request is preceded by the fence with
  the status the phase expects; the reservation comes once; the write guard of the torrent comes
  after it and sets the flag just before the request is sent; the outcome is finalized as
  \<open>SUBMITTED\<close> only when the request was sent; a failure is recorded by the phase.
\<close>

inductive world_step :: "lib \<Rightarrow> world \<Rightarrow> world \<Rightarrow> bool" for L :: lib where
  service: "service_step L (w_db v) t \<Longrightarrow> world_step L v (v\<lparr> w_db := t \<rparr>)"
| claim: "claim_next_execution L w now tok (w_db v) = (Inr (Some c), t) \<Longrightarrow>
    world_step L v (v\<lparr> w_db := t, w_procs := w_procs v @ [start_proc c w] \<rparr>)"
| heartbeat: "i < length (w_procs v) \<Longrightarrow> p = w_procs v ! i \<Longrightarrow>
    renew_lease st (pr_worker p) (pr_claim p) now (w_db v) = (r, t) \<Longrightarrow> world_step L v (v\<lparr> w_db := t \<rparr>)"
| fence: "i < length (w_procs v) \<Longrightarrow> p = w_procs v ! i \<Longrightarrow>
    ensure_external_action_allowed L st (pr_worker p) (pr_claim p) (expected_status p) (pr_added p) now clock nid
      (w_db v) = (r, t) \<Longrightarrow> world_step L v (v\<lparr> w_db := t \<rparr>)"
| reserve: "i < length (w_procs v) \<Longrightarrow> p = w_procs v ! i \<Longrightarrow> \<not> pr_reserved p \<Longrightarrow>
    reserve_submission L st (pr_worker p) (pr_claim p) m db_now now (w_db v) = (Inr DE_SUBMITTING, t) \<Longrightarrow>
    world_step L v (set_proc i (p\<lparr> pr_reserved := True \<rparr>) (v\<lparr> w_db := t \<rparr>))"
| reserve_refused: "i < length (w_procs v) \<Longrightarrow> p = w_procs v ! i \<Longrightarrow> \<not> pr_reserved p \<Longrightarrow>
    reserve_submission L st (pr_worker p) (pr_claim p) m db_now now (w_db v) = (r, t) \<Longrightarrow>
    r \<noteq> Inr DE_SUBMITTING \<Longrightarrow> world_step L v (v\<lparr> w_db := t \<rparr>)"
| write_guard: "i < length (w_procs v) \<Longrightarrow> p = w_procs v ! i \<Longrightarrow> pr_reserved p \<Longrightarrow> \<not> pr_added p \<Longrightarrow>
    ensure_external_action_allowed L st (pr_worker p) (pr_claim p) DE_SUBMITTING False now clock nid (w_db v)
      = (Inr True, t) \<Longrightarrow>
    world_step L v (set_proc i (p\<lparr> pr_added := True \<rparr>) (v\<lparr> w_db := t \<rparr>))"
| send: "i < length (w_procs v) \<Longrightarrow> p = w_procs v ! i \<Longrightarrow> pr_added p \<Longrightarrow> \<not> pr_sent p \<Longrightarrow>
    world_step L v (set_proc i (p\<lparr> pr_sent := True \<rparr>) (v\<lparr> w_adds := w_adds v @ [proc_execution p] \<rparr>))"
| finalize: "i < length (w_procs v) \<Longrightarrow> p = w_procs v ! i \<Longrightarrow> pr_reserved p \<Longrightarrow>
    outcome = DE_ALREADY_PRESENT \<or> (outcome = DE_SUBMITTED \<and> pr_sent p) \<Longrightarrow>
    transact (finalize_download_submission L (proc_execution p) q outcome st (pr_worker p)
      (cl_lease_token (pr_claim p)) db_now now now2 nid pid) (w_db v) = (r, t) \<Longrightarrow>
    world_step L v (v\<lparr> w_db := t \<rparr>)"
| fail_validation: "i < length (w_procs v) \<Longrightarrow> p = w_procs v ! i \<Longrightarrow> \<not> pr_reserved p \<Longrightarrow>
    mark_validation_failure L st (pr_worker p) (pr_claim p) err category_write now (w_db v) = (r, t) \<Longrightarrow>
    world_step L v (v\<lparr> w_db := t \<rparr>)"
| fail_reserved: "i < length (w_procs v) \<Longrightarrow> p = w_procs v ! i \<Longrightarrow> pr_reserved p \<Longrightarrow>
    mark_reserved_failure L st (pr_worker p) (pr_claim p) err (pr_added p) now (w_db v) = (r, t) \<Longrightarrow>
    world_step L v (v\<lparr> w_db := t \<rparr>)"

text \<open>A start: any store with integrity that holds no execution yet.\<close>

definition initial_world :: "db \<Rightarrow> world" where
  "initial_world s = \<lparr> w_db = s, w_procs = [], w_adds = [] \<rparr>"

inductive reachable :: "lib \<Rightarrow> world \<Rightarrow> bool" for L :: lib where
  init: "integrity L s \<Longrightarrow> db_executions s = [] \<Longrightarrow> reachable L (initial_world s)"
| step: "reachable L v \<Longrightarrow> world_step L v v' \<Longrightarrow> reachable L v'"

section \<open>What single transactions do to the claimed execution\<close>

definition execution_row :: "db \<Rightarrow> string \<Rightarrow> execution option" where
  "execution_row s k = row_get de_id k (db_executions s)"

lemma transact_ok: "transact m s = (Inr x, t) \<Longrightarrow> m s = (Inr x, t)"
  by (simp add: transact_Inr_run)

lemma guarded_run: "guarded ok old r s = (Inr u, t) \<longleftrightarrow> t = s \<and> (case old of None \<Rightarrow> True | Some x \<Rightarrow> ok x r)"
  by (cases old) (auto simp: guarded_def handler_simps)

lemma save_execution_row:
  assumes "save_execution e s = (Inr u, t)" and "execution_row s (de_id e) = Some d"
  shows "execution_row t (de_id e) = Some e"
  using assms by (auto simp: save_execution_def handler_simps guarded_run execution_row_def executions.get_put)

lemma event_rows:
  "add_worker_event L w e ty from tos details s = (r, t) \<Longrightarrow> execution_row t = execution_row s"
  "add_execution_event L e ty actor fs ts details s = (r', t) \<Longrightarrow> execution_row t = execution_row s"
  "add_approval_event L a ty actor details fs' s = (r', t) \<Longrightarrow> execution_row t = execution_row s"
  by (auto simp: add_worker_event_def add_execution_event_def add_approval_event_def insert_execution_event_def
      insert_approval_event_def modifyH_def execution_row_def)

lemma claim_run:
  assumes ok: "integrity L s" and run: "claim_next_execution K w now tok s = (Inr (Some c), t)"
  obtains e where "execution_row s (cl_execution_id c) = Some e" "eligible now e"
    "execution_row t (cl_execution_id c) = Some (claimed e w tok now)" "cl_lease_token c = tok"
proof -
  obtain e where e: "next_eligible now s = Some e" and c: "c = \<lparr> cl_execution_id = de_id e, cl_lease_token = tok \<rparr>"
    and rest: "\<exists>u. save_execution (claimed e w tok now) s = (Inr (), u) \<and>
      add_worker_event K w (claimed e w tok now) ''VALIDATION_CLAIMED'' (de_status e) DE_VALIDATING
        [(''attempt'', JInt (de_attempts (claimed e w tok now)))] u = (Inr (), t)"
    using transact_ok [OF run [unfolded claim_next_execution_def]]
    by (auto simp: handler_simps Let_def split: option.splits)
  from next_eligible_Some [OF e] have row: "execution_row s (de_id e) = Some e" and el: "eligible now e"
    by (simp_all add: execution_row_def execution_member [OF ok])
  have id: "de_id (claimed e w tok now) = de_id e" by (simp add: claimed_def)
  from rest obtain u where "save_execution (claimed e w tok now) s = (Inr (), u)"
    and ev: "execution_row t = execution_row u"
    by (auto dest: event_rows(1))
  with save_execution_row [of "claimed e w tok now" s "()" u e] row id
  have "execution_row t (de_id e) = Some (claimed e w tok now)" by (simp add: ev)
  with row el c that show thesis by simp
qed

lemma reserve_row:
  assumes "reserve L e a m actor now s = (Inr e', t)" and "execution_row s (de_id e) = Some e"
  shows "execution_row t (de_id e) = Some e' \<and> de_status e' = DE_SUBMITTING"
proof -
  from assms(1) obtain h u v x y where a: "save_approval x s = (Inr (), u)" and sv: "save_execution e' u = (Inr (), v)"
    and e': "e' = reserved e m h now" and ev: "execution_row t = execution_row v"
    by (auto simp: reserve_def Let_def handler_simps get_verified_plan_run dest!: event_rows(2,3))
  from a assms(2) have "execution_row u (de_id e') = Some e"
    by (auto simp: save_approval_def handler_simps execution_row_def e' reserved_def)
  from save_execution_row [OF sv this] show ?thesis by (simp add: ev e' reserved_def)
qed

lemma persist_reserved:
  assumes run: "persist_info_hash_before_submission L k m actor tok secs db_now now s = (Inr e', t)"
    and st: "de_status e' = DE_SUBMITTING"
    and row: "execution_row s k = Some e" and val: "de_status e = DE_VALIDATING"
  shows "execution_row t k = Some e'"
proof -
  from row have id: "de_id e = k" by (auto simp: execution_row_def dest: row_get_Some_key)
  obtain f u where got: "get_download_execution L k s = (Inr f, u)"
    and rest: "(if de_status f = DE_SUBMITTING then
        if same_reservation f m then returnH f
        else raiseH (app_err ''DOWNLOAD_EXECUTION_INFO_HASH_MISMATCH'' 409)
      else
        bindH (raise_ifH (de_status f \<noteq> DE_VALIDATING) transition_invalid) (\<lambda>_.
        bindH (getH (approval_by_id (de_approval_id f))) (\<lambda>x.
        case x of
          None \<Rightarrow> cancel_invalidated_execution L f actor ''APPROVAL_REQUEST_NOT_FOUND''
        | Some a \<Rightarrow>
            bindH (liftH (verify_snapshot L a)) (\<lambda>_.
            bindH (if ar_status a = AP_APPROVED \<and> is_expired a (Aware now)
              then stage_approval_expiry L a now else returnH a) (\<lambda>a'.
            if ar_status a' \<noteq> AP_APPROVED
            then cancel_invalidated_execution L f actor (approval_error_code a')
            else reserve L f a' m actor now))))) u = (Inr e', t)"
    using run unfolding persist_info_hash_before_submission_def bindH_Inr_run raise_ifH_Inr_run liftH_run by blast
  from get_download_execution_run [OF got] row have f: "f = e" "u = s" by (simp_all add: execution_row_def)
  have cancelled: "\<not> cancel_invalidated_execution L e actor code w = (Inr e', v)" for code w v
    using st by (auto simp: cancel_invalidated_execution_def Let_def handler_simps)
  show ?thesis
  proof (cases "approval_by_id (de_approval_id e) s")
    case None
    with rest f val cancelled show ?thesis by (simp add: handler_defs)
  next
    case (Some a)
    obtain a' v where ex: "(if ar_status a = AP_APPROVED \<and> is_expired a (Aware now)
          then stage_approval_expiry L a now else returnH a) s = (Inr a', v)"
      and last: "(if ar_status a' \<noteq> AP_APPROVED
            then cancel_invalidated_execution L e actor (approval_error_code a')
            else reserve L e a' m actor now) v = (Inr e', t)"
      using rest unfolding f by (simp add: val Some bindH_Inr_run getH_run raise_ifH_Inr_run liftH_run) blast
    from last cancelled have ap: "ar_status a' = AP_APPROVED" by (auto split: if_splits)
    with maybe_expire_run [OF ex] have "v = s" by simp
    with last ap reserve_row [of L e a' m actor now s e' t] row id show ?thesis by simp
  qed
qed

lemma reserve_submission_run:
  assumes run: "reserve_submission L st w c m db_now now s = (Inr DE_SUBMITTING, t)"
  obtains e e' where "execution_row s (cl_execution_id c) = Some e" "de_status e = DE_VALIDATING"
    "execution_row t (cl_execution_id c) = Some e'" "de_status e' = DE_SUBMITTING"
proof -
  obtain e e' where x: "execution_by_id (cl_execution_id c) s = Some e"
    and fresh: "require_fresh_matching_lease st w e c (Some DE_VALIDATING) db_now = Inr ()"
    and p: "persist_info_hash_before_submission L (cl_execution_id c) m w (cl_lease_token c)
       (st_download_execution_lease_seconds st) db_now now s = (Inr e', t)"
    and st: "de_status e' = DE_SUBMITTING"
    using transact_ok [OF run [unfolded reserve_submission_def]] by (auto simp: handler_simps option_or_Inr_iff)
  have val: "de_status e = DE_VALIDATING" using fresh by (simp add: require_fresh_run lease_fresh_def)
  have row: "execution_row s (cl_execution_id c) = Some e" using x by (simp add: execution_by_id_def execution_row_def)
  from that [OF row val persist_reserved [OF p st row val] st] show thesis .
qed

lemma touch_run:
  assumes "touch_lease e now s = (Inr b, t)" and "execution_row s (de_id e) = Some e"
  shows "execution_row t (de_id e) = Some (e\<lparr> de_locked_at := Some now \<rparr>)"
proof -
  from assms(1) obtain u where "save_execution (e\<lparr> de_locked_at := Some now \<rparr>) s = (Inr (), u)" "t = u"
    by (auto simp: touch_lease_def handler_simps)
  with save_execution_row [of "e\<lparr> de_locked_at := Some now \<rparr>" s "()" u e] assms(2) show ?thesis by simp
qed

lemma ensure_True_run:
  assumes "ensure_external_action_allowed L st w c DE_SUBMITTING written now clock nid s = (Inr True, t)"
  obtains e where "execution_row t (cl_execution_id c) = Some e" "de_status e = DE_SUBMITTING"
proof -
  obtain e y err u u0 where x: "execution_by_id (cl_execution_id c) s = Some e"
    and fresh: "require_fresh_matching_lease st w e c (Some DE_SUBMITTING) now = Inr u0"
    and fence: "automation_fence_error L st e y clock nid s = (Inr err, u)"
    and last: "(case err of
       Some code \<Rightarrow>
         bindH (raise_ifH written policy_changed_after_write) (\<lambda>_.
         bindH (cancel_by_automation_fence L w e y code now) (\<lambda>_. returnH False))
     | None \<Rightarrow> fence_approval L w e y DE_SUBMITTING now) u = (Inr True, t)"
    using transact_ok [OF assms [unfolded ensure_external_action_allowed_def]]
    unfolding bindH_Inr_run getH_run liftH_run option_or_Inr_iff sum.inject by blast
  have "err = None" using last by (cases err) (auto simp: handler_simps)
  with last have touched: "touch_lease e now u = (Inr True, t)"
    by (auto simp: fence_approval_def handler_simps)
  have "db_executions u = db_executions s"
    using evolvesD [OF fence_error_leaves fence] by simp
  moreover have "execution_row s (de_id e) = Some e" using execution_by_id_Some [OF x] by (simp add: execution_row_def)
  moreover have "de_id e = cl_execution_id c" using x by (auto simp: execution_by_id_def dest: row_get_Some_key)
  ultimately have "execution_row t (cl_execution_id c) = Some (e\<lparr> de_locked_at := Some now \<rparr>)"
    using touch_run [OF touched] by (simp add: execution_row_def)
  moreover have "de_status e = DE_SUBMITTING" using fresh by (simp add: require_fresh_run lease_fresh_def)
  ultimately show thesis using that by simp
qed

text \<open>The fence of a claim touches no other execution.\<close>

definition other_rows :: "string \<Rightarrow> db \<Rightarrow> string \<Rightarrow> execution option" where
  "other_rows k s = (\<lambda>i. if i = k then None else execution_row s i)"

lemma evolves_mono: "(\<And>s t. R s t \<Longrightarrow> Q s t) \<Longrightarrow> evolves R m \<Longrightarrow> evolves Q m"
  by (simp add: evolves_def)

lemma other_rows_cong: "db_executions t = db_executions s \<Longrightarrow> other_rows k t = other_rows k s"
  by (simp add: other_rows_def execution_row_def fun_eq_iff)

lemma other_save: "de_id e = k \<Longrightarrow> evolves (\<lambda>s t. other_rows k t = other_rows k s) (save_execution e)"
  unfolding save_execution_def guarded_def
  by (intro leaves.evolves_rules leaves_modify)
    (auto simp: other_rows_def execution_row_def executions.get_put fun_eq_iff)

lemma other_writes:
  "evolves (\<lambda>s t. other_rows k t = other_rows k s) (save_approval a)"
  "evolves (\<lambda>s t. other_rows k t = other_rows k s) (insert_approval_event e)"
  "evolves (\<lambda>s t. other_rows k t = other_rows k s) (add_worker_event L w x ty from tos details)"
  unfolding save_approval_def insert_approval_event_def add_worker_event_def insert_execution_event_def
  by (rule leaves_modify, rule other_rows_cong, simp)+

lemma other_fence_error: "evolves (\<lambda>s t. other_rows k t = other_rows k s) (automation_fence_error L st e x now nid)"
  by (rule evolves_mono [OF _ fence_error_leaves]) (elim conjE, erule other_rows_cong)

lemma ensure_frame:
  "evolves (\<lambda>s t. other_rows (cl_execution_id c) t = other_rows (cl_execution_id c) s)
    (ensure_external_action_allowed L st w c expected written now clock nid)"
proof (rule keeps_evolves)
  fix s
  let ?R = "\<lambda>s t. other_rows (cl_execution_id c) t = other_rows (cl_execution_id c) s"
  show "keeps ?R s (ensure_external_action_allowed L st w c expected written now clock nid)"
    unfolding ensure_external_action_allowed_def
  proof (intro leaves.keeps_transact leaves.keeps_get_bind leaves.keeps_lift_bind, goal_cases)
    case (1 e u p)
    then have id: "de_id e = cl_execution_id c"
      by (auto simp: option_or_Inr_iff execution_by_id_def dest: row_get_Some_key)
    show ?case
      unfolding cancel_by_automation_fence_def revoke_by_fence_def fence_approval_def fence_expire_def
        fence_cancel_def touch_lease_def Let_def
      by (intro evolves_keeps leaves.evolves_rules other_fence_error other_writes other_save)
        (simp_all add: id)
  qed
qed

section \<open>The invariant\<close>

text \<open>
  What holds in every reachable world: at most one claim of an execution has reserved its
  submission; an execution that is reserved is never claimed again; once the write guard has
  passed, the execution stays in a status that keeps the reserved torrent; and the log of the
  requests is that of the claims that sent one.
\<close>

definition reserved_once :: "proc list \<Rightarrow> bool" where
  "reserved_once ps \<longleftrightarrow> (\<forall>i < length ps. \<forall>j < length ps. i \<noteq> j \<longrightarrow> pr_reserved (ps ! i) \<longrightarrow> pr_reserved (ps ! j) \<longrightarrow>
    proc_execution (ps ! i) \<noteq> proc_execution (ps ! j))"

definition proc_ok :: "db \<Rightarrow> proc \<Rightarrow> bool" where
  "proc_ok s p \<longleftrightarrow> (pr_sent p \<longrightarrow> pr_added p) \<and> (pr_added p \<longrightarrow> pr_reserved p)
    \<and> (\<exists>e. execution_row s (proc_execution p) = Some e
        \<and> (pr_reserved p \<longrightarrow> \<not> retryable_again e)
        \<and> (pr_added p \<longrightarrow> de_status e \<in> set submission_statuses))"

definition claims_of :: "string \<Rightarrow> proc list \<Rightarrow> proc list" where
  "claims_of k ps = filter (\<lambda>p. proc_execution p = k) ps"

definition world_ok :: "lib \<Rightarrow> world \<Rightarrow> bool" where
  "world_ok L v \<longleftrightarrow> integrity L (w_db v) \<and> reserved_once (w_procs v)
    \<and> list_all (proc_ok (w_db v)) (w_procs v)
    \<and> distinct (w_adds v)
    \<and> set (w_adds v) = proc_execution ` {p \<in> set (w_procs v). pr_sent p}
    \<and> (\<forall>k e. execution_row (w_db v) k = Some e \<longrightarrow> int (length (claims_of k (w_procs v))) \<le> de_attempts e)"

lemma row_moves:
  assumes "lawful strict L s t" and "integrity L s" and "execution_row s k = Some e"
  obtains e' where "execution_row t k = Some e'" "execution_moves strict e e'"
  using assms that unfolding lawful_def life_def rows_kept_def execution_row_def by blast

lemma moves_not_retryable: "execution_moves strict e e' \<Longrightarrow> \<not> retryable_again e \<Longrightarrow> \<not> retryable_again e'"
  by (cases "de_status e") (auto simp: execution_moves_def retryable_again_def execution_reach_def split: if_splits)

lemma moves_submission:
  "execution_moves True e e' \<Longrightarrow> de_status e \<in> set submission_statuses \<Longrightarrow> de_status e' \<in> set submission_statuses"
  by (cases "de_status e") (auto simp: execution_moves_def submission_statuses_def execution_reach_def)

lemma proc_ok_step:
  assumes "lawful strict L s t" and "integrity L s" and "proc_ok s p"
    and "pr_added p \<Longrightarrow> strict \<or> execution_row t (proc_execution p) = execution_row s (proc_execution p)"
  shows "proc_ok t p"
proof -
  from assms(3) obtain e where e: "execution_row s (proc_execution p) = Some e"
    and p: "pr_sent p \<longrightarrow> pr_added p" "pr_added p \<longrightarrow> pr_reserved p" "pr_reserved p \<longrightarrow> \<not> retryable_again e"
      "pr_added p \<longrightarrow> de_status e \<in> set submission_statuses"
    by (auto simp: proc_ok_def)
  from row_moves [OF assms(1,2) e] obtain e' where e': "execution_row t (proc_execution p) = Some e'"
    and mv: "execution_moves strict e e'" .
  have "pr_added p \<Longrightarrow> de_status e' \<in> set submission_statuses"
    using assms(4) mv p(4) moves_submission e e' by (cases strict) auto
  with p e' mv moves_not_retryable show ?thesis by (auto simp: proc_ok_def)
qed

text \<open>A step of the store alone, that is strict or leaves the executions whose write guard has passed.\<close>

lemma world_ok_db:
  assumes ok: "world_ok L v" and law: "lawful strict L (w_db v) t"
    and frame: "\<And>p. p \<in> set (w_procs v) \<Longrightarrow> pr_added p \<Longrightarrow>
      strict \<or> execution_row t (proc_execution p) = execution_row (w_db v) (proc_execution p)"
  shows "world_ok L (v\<lparr> w_db := t \<rparr>)"
proof -
  have int: "integrity L (w_db v)" and int': "integrity L t" using ok law by (auto simp: world_ok_def lawful_def)
  have procs: "list_all (proc_ok t) (w_procs v)"
    using ok frame proc_ok_step [OF law int] by (auto simp: world_ok_def list_all_iff)
  have claims: "int (length (claims_of k (w_procs v))) \<le> de_attempts e" if new: "execution_row t k = Some e" for k e
  proof (cases "execution_row (w_db v) k")
    case None
    have "e \<in> set (db_executions t)"
      using new by (auto simp: execution_row_def row_get_def dest: find_SomeD)
    with int' have "0 \<le> de_attempts e" by (auto simp: integrity_def executions_ok_def list_all_iff execution_check_def)
    moreover have "claims_of k (w_procs v) = []"
      using ok None by (auto simp: claims_of_def filter_empty_conv world_ok_def list_all_iff proc_ok_def)
    ultimately show ?thesis by simp
  next
    case (Some d)
    from row_moves [OF law int Some] new have "de_attempts d \<le> de_attempts e"
      by (auto simp: execution_moves_def)
    moreover from ok Some have "int (length (claims_of k (w_procs v))) \<le> de_attempts d" by (simp add: world_ok_def)
    ultimately show ?thesis by simp
  qed
  from ok int' procs claims show ?thesis by (simp add: world_ok_def)
qed

lemma map_update_same: "f x = f (xs ! i) \<Longrightarrow> map f (xs[i := x]) = map f xs"
  by (metis list_update_id map_update)

lemma length_claims: "length (claims_of k ps) = length (filter (\<lambda>e. e = k) (map proc_execution ps))"
  by (simp add: claims_of_def filter_map comp_def)

lemma sent_ids: "proc_execution ` {q \<in> set ps. pr_sent q} = fst ` {x \<in> set (map (\<lambda>q. (proc_execution q, pr_sent q)) ps). snd x}"
  by (force simp: image_iff)

text \<open>A claim changes its own flags.\<close>

lemma world_ok_flags:
  assumes ok: "world_ok L v" and i: "i < length (w_procs v)" and same: "proc_execution p = proc_execution (w_procs v ! i)"
    and p: "proc_ok (w_db v) p" and sent: "pr_sent p = pr_sent (w_procs v ! i)"
    and once: "pr_reserved p \<Longrightarrow> \<not> pr_reserved (w_procs v ! i) \<Longrightarrow>
      (\<forall>q\<in>set (w_procs v). proc_execution q = proc_execution p \<longrightarrow> \<not> pr_reserved q)"
  shows "world_ok L (set_proc i p v)"
proof -
  let ?ps = "w_procs v" and ?qs = "(w_procs v)[i := p]"
  have claims: "length (claims_of k ?qs) = length (claims_of k ?ps)" for k
    unfolding length_claims map_update_same [of proc_execution, OF same] by (rule refl)
  have procs: "list_all (proc_ok (w_db v)) ?qs"
    using ok p set_update_subset_insert [of ?ps i p] by (auto simp: world_ok_def list_all_iff)
  have sents: "proc_execution ` {q \<in> set ?qs. pr_sent q} = proc_execution ` {q \<in> set ?ps. pr_sent q}"
    unfolding sent_ids using map_update_same [of "\<lambda>q. (proc_execution q, pr_sent q)" p ?ps i] same sent by simp
  have "reserved_once ?qs"
    unfolding reserved_once_def
  proof (intro allI impI)
    fix a b assume ab: "a < length ?qs" "b < length ?qs" "a \<noteq> b" "pr_reserved (?qs ! a)" "pr_reserved (?qs ! b)"
    have old: "a < length ?ps" "b < length ?ps" using ab by simp_all
    have ro: "pr_reserved (?ps ! a) \<Longrightarrow> pr_reserved (?ps ! b) \<Longrightarrow> proc_execution (?ps ! a) \<noteq> proc_execution (?ps ! b)"
      using ok old ab(3) by (simp add: world_ok_def reserved_once_def)
    have new: "pr_reserved p \<Longrightarrow> pr_reserved (?ps ! j) \<Longrightarrow> j < length ?ps \<Longrightarrow> \<not> pr_reserved (?ps ! i) \<Longrightarrow>
        proc_execution (?ps ! j) \<noteq> proc_execution p" for j
      using once nth_mem by blast
    show "proc_execution (?qs ! a) \<noteq> proc_execution (?qs ! b)"
      using ab old ro new [of a] new [of b] same
      by (cases "pr_reserved (?ps ! i)"; cases "a = i"; cases "b = i") (auto simp: nth_list_update)
  qed
  with ok procs sents claims show ?thesis by (simp add: world_ok_def set_proc_def)
qed

lemma other_proc:
  assumes "world_ok L v" and "i < length (w_procs v)" and "pr_reserved (w_procs v ! i)" and "\<not> P (w_procs v ! i)"
    and "q \<in> set (w_procs v)" and "P q" and "pr_reserved q"
  shows "proc_execution q \<noteq> proc_execution (w_procs v ! i)"
proof -
  from assms(5) obtain j where "j < length (w_procs v)" "q = w_procs v ! j" by (auto simp: in_set_conv_nth)
  with assms show ?thesis by (cases "i = j") (auto simp: world_ok_def reserved_once_def)
qed

lemma world_ok_proc: "world_ok L v \<Longrightarrow> q \<in> set (w_procs v) \<Longrightarrow> proc_ok (w_db v) q"
  by (simp add: world_ok_def list_all_iff)

lemma lawful_run: "evolves (lawful strict L) m \<Longrightarrow> m s = (r, t) \<Longrightarrow> lawful strict L s t"
  by (rule evolvesD)

lemma world_ok_strict: "world_ok L v \<Longrightarrow> lawful True L (w_db v) t \<Longrightarrow> world_ok L (v\<lparr> w_db := t \<rparr>)"
  by (rule world_ok_db [of _ _ True]) simp_all

text \<open>The fence of a claim that has not passed its write guard.\<close>

lemma world_ok_fence:
  assumes ok: "world_ok L v" and i: "i < length (w_procs v)" and p: "p = w_procs v ! i"
    and run: "ensure_external_action_allowed L st (pr_worker p) (pr_claim p) (expected_status p) (pr_added p) now clock nid
      (w_db v) = (r, t)"
  shows "world_ok L (v\<lparr> w_db := t \<rparr>)"
proof (cases "pr_added p \<or> \<not> pr_reserved p")
  case True
  then have "lawful True L (w_db v) t"
    by (intro lawful_run [OF lawful_ensure run]) (auto simp: expected_status_def)
  with ok show ?thesis by (rule world_ok_strict)
next
  case False
  have law: "lawful False L (w_db v) t" by (rule lawful_run [OF lawful_ensure run]) simp
  have frame: "other_rows (proc_execution p) t = other_rows (proc_execution p) (w_db v)"
    unfolding proc_execution_def by (rule evolvesD [OF ensure_frame run])
  from ok law show ?thesis
  proof (rule world_ok_db)
    fix q assume q: "q \<in> set (w_procs v)" "pr_added q"
    with world_ok_proc [OF ok] have "pr_reserved q" by (auto simp: proc_ok_def)
    with False q have "proc_execution q \<noteq> proc_execution p"
      using other_proc [OF ok i, of pr_added q] p by auto
    with fun_cong [OF frame, of "proc_execution q"]
    show "False \<or> execution_row t (proc_execution q) = execution_row (w_db v) (proc_execution q)"
      by (simp add: other_rows_def)
  qed
qed

lemma world_ok_claim:
  assumes ok: "world_ok L v" and run: "claim_next_execution L w now tok (w_db v) = (Inr (Some c), t)"
  shows "world_ok L (v\<lparr> w_db := t, w_procs := w_procs v @ [start_proc c w] \<rparr>)"
proof -
  let ?k = "cl_execution_id c"
  have int: "integrity L (w_db v)" using ok by (simp add: world_ok_def)
  obtain e where e: "execution_row (w_db v) ?k = Some e" and e': "execution_row t ?k = Some (claimed e w tok now)"
    by (rule claim_run [OF int run])
  have "lawful True L (w_db v) t" by (rule lawful_run [OF lawful_claim run])
  with ok have ok': "world_ok L (v\<lparr> w_db := t \<rparr>)" by (rule world_ok_strict)
  have id: "proc_execution (start_proc c w) = ?k" by (simp add: start_proc_def proc_execution_def)
  have "reserved_once (w_procs v @ [start_proc c w])"
    using ok by (auto simp: world_ok_def reserved_once_def nth_append start_proc_def less_Suc_eq)
  moreover have "proc_ok t (start_proc c w)"
    using e' by (simp add: proc_ok_def id) (simp add: start_proc_def)
  moreover have "int (length (claims_of k (w_procs v @ [start_proc c w]))) \<le> de_attempts f"
    if f: "execution_row t k = Some f" for k f
  proof (cases "k = ?k")
    case True
    have "int (length (claims_of ?k (w_procs v))) \<le> de_attempts e" using ok e by (simp add: world_ok_def)
    moreover have "de_attempts f = de_attempts e + 1" using True f e' by (auto simp: claimed_def)
    ultimately show ?thesis using True by (simp add: claims_of_def id)
  next
    case False
    with ok' f show ?thesis by (simp add: world_ok_def claims_of_def id)
  qed
  moreover have "{p \<in> set (w_procs v @ [start_proc c w]). pr_sent p} = {p \<in> set (w_procs v). pr_sent p}"
    by (auto simp: start_proc_def)
  ultimately show ?thesis using ok' by (simp add: world_ok_def)
qed

lemma world_ok_reserve:
  assumes ok: "world_ok L v" and i: "i < length (w_procs v)" and p: "p = w_procs v ! i" and unreserved: "\<not> pr_reserved p"
    and run: "reserve_submission L st (pr_worker p) (pr_claim p) m db_now now (w_db v) = (Inr DE_SUBMITTING, t)"
  shows "world_ok L (set_proc i (p\<lparr> pr_reserved := True \<rparr>) (v\<lparr> w_db := t \<rparr>))"
proof -
  obtain e e' where e: "execution_row (w_db v) (proc_execution p) = Some e" "de_status e = DE_VALIDATING"
    and e': "execution_row t (proc_execution p) = Some e'" "de_status e' = DE_SUBMITTING"
    unfolding proc_execution_def by (rule reserve_submission_run [OF run])
  have "lawful True L (w_db v) t" by (rule lawful_run [OF lawful_reserve run])
  with ok have ok': "world_ok L (v\<lparr> w_db := t \<rparr>)" by (rule world_ok_strict)
  have mem: "p \<in> set (w_procs v)" using i p by simp
  have free: "\<not> pr_reserved q" if "q \<in> set (w_procs v)" "proc_execution q = proc_execution p" for q
    using world_ok_proc [OF ok that(1)] that(2) e by (auto simp: proc_ok_def retryable_again_def)
  show ?thesis
  proof (rule world_ok_flags [OF ok'])
    show "proc_ok (w_db (v\<lparr>w_db := t\<rparr>)) (p\<lparr>pr_reserved := True\<rparr>)"
      using world_ok_proc [OF ok mem] unreserved e'
      by (auto simp: proc_ok_def proc_execution_def retryable_again_def)
    show "\<forall>q\<in>set (w_procs (v\<lparr>w_db := t\<rparr>)).
       proc_execution q = proc_execution (p\<lparr>pr_reserved := True\<rparr>) \<longrightarrow> \<not> pr_reserved q"
      using free by (auto simp: proc_execution_def)
  qed (use i p in \<open>simp_all add: proc_execution_def\<close>)
qed

lemma world_ok_guard:
  assumes ok: "world_ok L v" and i: "i < length (w_procs v)" and p: "p = w_procs v ! i"
    and flags: "pr_reserved p" "\<not> pr_added p"
    and run: "ensure_external_action_allowed L st (pr_worker p) (pr_claim p) DE_SUBMITTING False now clock nid (w_db v)
      = (Inr True, t)"
  shows "world_ok L (set_proc i (p\<lparr> pr_added := True \<rparr>) (v\<lparr> w_db := t \<rparr>))"
proof -
  obtain e where e: "execution_row t (proc_execution p) = Some e" "de_status e = DE_SUBMITTING"
    unfolding proc_execution_def by (rule ensure_True_run [OF run])
  have "world_ok L (v\<lparr> w_db := t \<rparr>)"
    using world_ok_fence [OF ok i p] run flags by (simp add: expected_status_def)
  then show ?thesis
  proof (rule world_ok_flags)
    have "proc_ok (w_db v) p" using ok i p by (simp add: world_ok_def list_all_iff)
    then show "proc_ok (w_db (v\<lparr>w_db := t\<rparr>)) (p\<lparr>pr_added := True\<rparr>)"
      using flags e by (auto simp: proc_ok_def proc_execution_def retryable_again_def submission_statuses_def)
  qed (use i p flags in \<open>simp_all add: proc_execution_def\<close>)
qed

lemma world_ok_send:
  assumes ok: "world_ok L v" and i: "i < length (w_procs v)" and p: "p = w_procs v ! i"
    and flags: "pr_added p" "\<not> pr_sent p"
  shows "world_ok L (set_proc i (p\<lparr> pr_sent := True \<rparr>) (v\<lparr> w_adds := w_adds v @ [proc_execution p] \<rparr>))"
proof -
  let ?p = "p\<lparr> pr_sent := True \<rparr>" and ?k = "proc_execution p"
  have mem: "p \<in> set (w_procs v)" using i p by simp
  have pok: "proc_ok (w_db v) p" by (rule world_ok_proc [OF ok mem])
  then have res: "pr_reserved p" using flags by (simp add: proc_ok_def)
  have fresh: "?k \<notin> set (w_adds v)"
  proof
    assume "?k \<in> set (w_adds v)"
    then obtain q where q: "q \<in> set (w_procs v)" "pr_sent q" "proc_execution q = ?k"
      using ok by (auto simp: world_ok_def)
    with world_ok_proc [OF ok q(1)] have "pr_reserved q" by (simp add: proc_ok_def)
    with other_proc [OF ok i, of pr_sent q] q res flags(2) p show False by simp
  qed
  have same: "map (\<lambda>q. (proc_execution q, pr_reserved q)) ((w_procs v)[i := ?p])
      = map (\<lambda>q. (proc_execution q, pr_reserved q)) (w_procs v)"
    using p by (intro map_update_same) (simp add: proc_execution_def)
  have nth_same: "proc_execution ((w_procs v)[i := ?p] ! j) = proc_execution (w_procs v ! j)
      \<and> pr_reserved ((w_procs v)[i := ?p] ! j) = pr_reserved (w_procs v ! j)" if "j < length (w_procs v)" for j
    using arg_cong [OF same, of "\<lambda>xs. xs ! j"] that by simp
  have once: "reserved_once ((w_procs v)[i := ?p])"
    using ok nth_same by (simp add: world_ok_def reserved_once_def)
  have procs: "list_all (proc_ok (w_db v)) ((w_procs v)[i := ?p])"
    using ok pok flags set_update_subset_insert [of "w_procs v" i ?p]
    by (auto simp: world_ok_def list_all_iff proc_ok_def proc_execution_def)
  have sent: "proc_execution ` {q \<in> set ((w_procs v)[i := ?p]). pr_sent q} = insert ?k (set (w_adds v))"
  proof -
    have up: "set ((w_procs v)[i := ?p]) \<subseteq> insert ?p (set (w_procs v))" by (rule set_update_subset_insert)
    have at: "?p \<in> set ((w_procs v)[i := ?p])" using i by (simp add: set_update_memI)
    have others: "q \<in> set ((w_procs v)[i := ?p])" if "q \<in> set (w_procs v)" "pr_sent q" for q
    proof -
      from that(1) obtain j where "j < length (w_procs v)" "q = w_procs v ! j" by (auto simp: in_set_conv_nth)
      with that(2) flags(2) p show ?thesis by (metis length_list_update nth_list_update_neq nth_mem)
    qed
    have "{q \<in> set ((w_procs v)[i := ?p]). pr_sent q} = insert ?p {q \<in> set (w_procs v). pr_sent q}"
      using up at others by auto
    moreover have "proc_execution ?p = ?k" by (simp add: proc_execution_def)
    moreover have "set (w_adds v) = proc_execution ` {q \<in> set (w_procs v). pr_sent q}" using ok by (simp add: world_ok_def)
    ultimately show ?thesis by (simp only: image_insert)
  qed
  have claims: "length (claims_of k ((w_procs v)[i := ?p])) = length (claims_of k (w_procs v))" for k
    unfolding length_claims using map_update_same [of proc_execution ?p "w_procs v" i] p
    by (simp add: proc_execution_def)
  have "integrity L (w_db v)" "distinct (w_adds v)"
    "\<forall>k e. execution_row (w_db v) k = Some e \<longrightarrow> int (length (claims_of k (w_procs v))) \<le> de_attempts e"
    using ok by (simp_all add: world_ok_def)
  with once procs sent fresh claims show ?thesis by (simp add: world_ok_def set_proc_def)
qed

lemma world_step_ok:
  assumes "world_step L v v'" and "world_ok L v"
  shows "world_ok L v'"
  using assms
proof (induction rule: world_step.induct)
  case (service v t)
  then show ?case by (intro world_ok_strict) (simp_all add: service_step_lawful)
next
  case (claim w now tok v c t)
  then show ?case by (intro world_ok_claim)
next
  case (heartbeat i v p st now r t)
  then show ?case by (intro world_ok_strict) (simp_all add: lawful_run [OF lawful_renew])
next
  case (fence i v p st now clock nid r t)
  then show ?case by (intro world_ok_fence [of L v i p])
next
  case (reserve i v p st m db_now now t)
  then show ?case by (intro world_ok_reserve)
next
  case (reserve_refused i v p st m db_now now r t)
  then show ?case by (intro world_ok_strict) (simp_all add: lawful_run [OF lawful_reserve])
next
  case (write_guard i v p st now clock nid t)
  then show ?case by (intro world_ok_guard)
next
  case (send i v p)
  then show ?case by (intro world_ok_send)
next
  case (finalize i v p outcome q st db_now now now2 nid pid r t)
  then show ?case
    by (intro world_ok_strict lawful_run [OF lawful.evolves_transact [OF lawful_finalize]])
next
  case (fail_validation i v p st err category_write now r t)
  then show ?case by (intro world_ok_strict) (simp_all add: lawful_run [OF lawful_validation_failure])
next
  case (fail_reserved i v p st err now r t)
  then show ?case by (intro world_ok_strict) (simp_all add: lawful_run [OF lawful_reserved_failure])
qed

lemma reachable_ok: "reachable L v \<Longrightarrow> world_ok L v"
proof (induction rule: reachable.induct)
  case (init s)
  then show ?case
    by (simp add: world_ok_def initial_world_def reserved_once_def execution_row_def row_get_def)
next
  case (step v v')
  then show ?case by (blast intro: world_step_ok)
qed

end
