(* ===== verification/ExampleRun.thy ===== *)
theory ExampleRun
  imports ExecutorProtocol
begin

text \<open>
  One complete run of the system up to the request that adds the torrent, evaluated on a concrete
  store: the intent, the execution, the claim, the reservation, the write guard and the request.
  It shows that the state machine of the executor reaches its last phase, so that what is proved
  of its reachable states is not vacuous.
\<close>

definition run_approval :: approval where
  "run_approval = decided ready_approval AP_APPROVED (Aware 0)"

abbreviation zeros :: string where
  "zeros \<equiv> replicate 64 (CHR ''0'')"

lemma run_approval_simps [simp]:
  "ar_id run_approval = ''a1''" "ar_status run_approval = AP_APPROVED" "ar_expires_at run_approval = Aware 9"
  by (simp_all add: run_approval_def ready_approval_def decided_def)

lemma run_approval_same: "same_approval ready_approval run_approval"
  by (simp add: run_approval_def decided_def same_approval_def)

lemma run_verified: "verify_snapshot sealed_lib run_approval = Inr open_snapshot"
  using ready_verified verify_snapshot_same [OF run_approval_same, of sealed_lib] by simp

lemma same_verifies:
  assumes same: "same_approval ready_approval a" and pre: "ar_preflight_result a = ar_preflight_result ready_approval"
  shows "verify_download_plan sealed_lib ready_plan a = Inr ready_plan"
proof -
  have plan: "ready_plan = plan_of sealed_lib a open_snapshot example_preflight example_settings [''unin'', ''Film''] ''p1''"
    using same by (simp add: ready_plan_def plan_of_def Let_def same_approval_def)
  show ?thesis
    unfolding plan
    by (rule approved_plan_verifies [OF ready_verified _ example_preflight_parse ready_tags same pre sealed_lib_stable])
      (simp add: ready_approval_def)
qed

lemma run_plan_verifies: "verify_download_plan sealed_lib ready_plan run_approval = Inr ready_plan"
  by (rule same_verifies [OF run_approval_same]) (simp add: run_approval_def decided_def)

lemma sealed_digest [simp]: "sha256_hex sealed_lib x = zeros" "canonical_hash sealed_lib j = zeros"
  by (simp_all add: sealed_lib_def example_lib_def canonical_hash_def)

lemma run_url: "\<exists>u. urlsplit sealed_lib (rstrip_slash ''https://qb.local/'') = Some u \<and> \<not> execution_url_bad sealed_lib example_settings u"
proof -
  have "(case urlsplit sealed_lib (rstrip_slash ''https://qb.local/'') of None \<Rightarrow> False
    | Some u \<Rightarrow> \<not> execution_url_bad sealed_lib example_settings u)" by code_simp
  then show ?thesis by (simp split: option.splits)
qed

lemma run_target_parts:
  "st_qb_base_url_value example_settings = Inr (Some ''https://qb.local/'')"
  "st_qb_target_save_path example_settings = Some ''/media/tv''" "st_qb_target_category example_settings = Some ''tv''"
  "st_qb_allowed_hosts example_settings = [''qb.local'']"
  "st_qb_save_path_ref example_settings = ''main''" "st_qb_target_instance_ref example_settings = ''qb''"
  by (simp_all add: example_settings_def)

lemma run_plan_parts:
  "dp_save_path_ref ready_plan = ''main''" "dp_category ready_plan = ''tv''"
  "dp_tags ready_plan = map JStr [''unin'', ''Film'']" "dp_approval_id ready_plan = ''a1''"
  "dp_preflight_policy_fingerprint ready_plan = zeros" "dp_plan_hash ready_plan = zeros"
  "dp_expected_info_hash ready_plan = None"
  by (simp_all add: ready_plan_def plan_of_def Let_def run_target_parts example_preflight_def ready_approval_def
      download_plan_hash_def snapshot_hash_def open_snapshot_def example_snapshot_def)

lemma run_target: "qb_target_fingerprint sealed_lib example_settings ready_plan lm (sn_media_title open_snapshot) = Inr zeros"
proof -
  obtain u where u: "urlsplit sealed_lib (rstrip_slash ''https://qb.local/'') = Some u"
    "\<not> execution_url_bad sealed_lib example_settings u" using run_url by blast
  have "\<not> list_ex target_value_bad ([''/media/tv'', ''tv'', ''qb''] @ [''unin'', ''Film''])"
    "\<not> list_ex (\<lambda>t. CHR '','' \<in> set t \<or> 100 < py_len t) [''unin'', ''Film'']" by code_simp+
  with u show ?thesis
    by (simp add: qb_target_fingerprint_def Let_def ready_tags run_target_parts run_plan_parts falsy_str_def)
qed

section \<open>The stores of the run\<close>

definition run_db :: "approval \<Rightarrow> intent list \<Rightarrow> execution list \<Rightarrow> approval_event list \<Rightarrow> execution_event list \<Rightarrow> db" where
  "run_db a is es aev xev = ready_db\<lparr> db_approvals := [a], db_plans := [ready_plan], db_intents := is,
     db_executions := es, db_approval_events := aev, db_execution_events := xev \<rparr>"

lemma run_db_simps [simp]:
  "db_approvals (run_db a is es aev xev) = [a]" "db_plans (run_db a is es aev xev) = [ready_plan]"
  "db_intents (run_db a is es aev xev) = is" "db_executions (run_db a is es aev xev) = es"
  "db_jobs (run_db a is es aev xev) = []"
  "db_approval_events (run_db a is es aev xev) = aev" "db_execution_events (run_db a is es aev xev) = xev"
  "(run_db a is es aev xev)\<lparr> db_approvals := [a'] \<rparr> = run_db a' is es aev xev"
  "(run_db a is es aev xev)\<lparr> db_intents := is' \<rparr> = run_db a is' es aev xev"
  "(run_db a is es aev xev)\<lparr> db_executions := es' \<rparr> = run_db a is es' aev xev"
  "(run_db a is es aev xev)\<lparr> db_approval_events := aev' \<rparr> = run_db a is es aev' xev"
  "(run_db a is es aev xev)\<lparr> db_execution_events := xev' \<rparr> = run_db a is es aev xev'"
  by (simp_all add: run_db_def ready_db_def example_db_def empty_db_def)

definition run_intent :: intent where
  "run_intent = \<lparr> ei_id = ''i1'', ei_approval_id = ''a1'', ei_nonce_sha256 = zeros,
     ei_approval_snapshot_hash = zeros, ei_plan_hash = zeros, ei_qb_target_fingerprint = zeros,
     ei_launch_mode = LM_ADD_PAUSED, ei_origin = OR_MANUAL, ei_automation_policy_revision_id = None,
     ei_automation_decision_id = None, ei_status = EI_ACTIVE, ei_created_by = ''admin'',
     ei_expires_at = Aware (0 + seconds 300), ei_consumed_at = None, ei_consumed_by = None \<rparr>"

lemma run_snapshot_hash [simp]: "ar_snapshot_hash run_approval = zeros"
  using run_approval_same by (simp add: same_approval_def ready_approval_def snapshot_hash_def)

lemma run_settings:
  "st_enable_control_plane example_settings" "st_execution_intent_default_ttl_seconds example_settings = 300"
  "st_execution_intent_max_ttl_seconds example_settings = 900" "st_job_max_attempts example_settings = 3"
  "st_download_execution_lease_seconds example_settings = 300"
  by (simp_all add: example_settings_def)

lemmas run_handlers = bindH_eval(1) liftH_def raise_ifH_def raise_if_def getH_def modifyH_def returnH_def
  write_defs row_get_def row_put_def row_add_def

lemma run_context:
  "approved_context sealed_lib run_approval example_settings 0 (run_db run_approval is es aev xev)
    = (Inr (open_snapshot, ready_plan), run_db run_approval is es aev xev)"
  by (simp add: approved_context_def require_approved_def get_verified_plan_def run_handlers is_expired_def
      run_verified run_plan_verifies require_preflight_policy_current_def sealed_lib_laws(3) plan_for_approval_def
      run_plan_parts option_or_def)

lemma run_actor: "strip ''admin'' = ''admin''"
  by code_simp

lemma run_create_intent:
  "\<exists>ev. create_execution_intent sealed_lib ''a1'' LM_ADD_PAUSED None example_settings ''admin'' manual_binding 0 ''i1'' ''n''
      (run_db run_approval [] [] aev xev) = (Inr (run_intent, ''n''), run_db run_approval [run_intent] [] (aev @ [ev]) xev)"
  by (simp add: create_execution_intent_def require_execution_control_plane_enabled_def run_handlers
      require_origin_binding_def manual_binding_def get_locked_approval_def approval_by_id_def option_or_def run_verified
      run_context run_target execution_for_approval_def clear_active_intent_def active_intent_def Let_def or_default_def run_settings
      run_intent_def hash_secret_def run_actor intent_check_def origin_check_def add_approval_event_def run_plan_parts) blast

definition run_execution :: execution where
  "run_execution = new_execution ''e1'' run_approval run_intent ready_plan zeros zeros zeros manual_binding
     example_settings ''admin'' 0"

definition run_spent :: intent where
  "run_spent = consumed_intent run_intent ''admin'' 0"

lemma run_intent_simps [simp]:
  "ei_id run_intent = ''i1''" "ei_approval_id run_intent = ''a1''" "ei_status run_intent = EI_ACTIVE"
  "ei_nonce_sha256 run_intent = zeros" "ei_launch_mode run_intent = LM_ADD_PAUSED"
  "ei_approval_snapshot_hash run_intent = zeros" "ei_plan_hash run_intent = zeros"
  "ei_qb_target_fingerprint run_intent = zeros" "intent_binding run_intent = manual_binding"
  "\<not> intent_expired run_intent 0" "intent_update_ok run_intent run_spent" "intent_check run_spent"
  "ei_id run_spent = ''i1''"
  by (simp_all add: run_intent_def run_spent_def consumed_intent_def intent_binding_def manual_binding_def intent_expired_def
      seconds_def intent_update_ok_def intent_check_def origin_check_def)

lemma run_execution_simps [simp]:
  "de_id run_execution = ''e1''" "de_approval_id run_execution = ''a1''" "de_intent_id run_execution = ''i1''"
  "de_status run_execution = DE_PENDING" "execution_check run_execution"
  by (simp_all add: run_execution_def new_execution_def execution_check_def run_settings portable_hex_check_def
      hash_binding_check_def lease_check_def bundle_check_def status_check_def reconciliation_check_def origin_check_def
      manual_binding_def leased_statuses_def submission_statuses_def verified_statuses_def)

lemma run_key: "idempotency_key_digest sealed_lib ''key-0123456789abcdef'' = Inr zeros"
proof -
  have "idempotency_key_ok ''key-0123456789abcdef''" by code_simp
  then show ?thesis by (simp add: idempotency_key_digest_def hash_secret_def)
qed

lemma manual_simps [simp]:
  "bd_origin manual_binding = OR_MANUAL" "bd_automation_policy_revision_id manual_binding = None"
  "bd_automation_decision_id manual_binding = None"
  by (simp_all add: manual_binding_def)

lemma run_execute:
  "\<exists>ev xe. execute_approved_plan sealed_lib ''a1'' ''i1'' ''n'' ''key-0123456789abcdef'' example_settings ''admin'' manual_binding 0 ''e1''
      (run_db run_approval [run_intent] [] aev xev)
    = (Inr (run_execution, True), run_db run_approval [run_spent] [run_execution] (aev @ [ev]) (xev @ [xe]))"
  by (simp add: execute_approved_plan_def run_handlers require_origin_binding_def run_key Let_def hash_secret_def
      execution_request_hash_def execution_for_key_def require_execution_control_plane_enabled_def run_settings
      get_locked_approval_def approval_by_id_def option_or_def run_verified start_execution_def run_context
      execution_for_approval_def execution_for_intent_def consume_intent_def require_usable_intent_def run_target
      run_plan_parts run_execution_def [symmetric] run_spent_def [symmetric] add_execution_event_def add_approval_event_def) blast

section \<open>The worker\<close>

definition run_claimed :: execution where
  "run_claimed = claimed run_execution ''w'' ''tok'' (Aware 0)"

definition run_claim :: claim where
  "run_claim = \<lparr> cl_execution_id = ''e1'', cl_lease_token = ''tok'' \<rparr>"

definition run_hash :: string where
  "run_hash = replicate 40 (CHR ''0'')"

lemma run_hash_nonempty: "run_hash \<noteq> []"
  by (simp add: run_hash_def)

definition run_torrent :: validated_torrent where
  "run_torrent = \<lparr> vt_name = ''Film'', vt_total_size_bytes = 8, vt_file_count = 1,
     vt_info_hash_v1 = Some (run_hash), vt_info_hash_v2 = None, vt_private = Some True,
     vt_meta_version = 1 \<rparr>"

definition run_reserved :: execution where
  "run_reserved = reserved run_claimed run_torrent (run_hash) 0"

definition run_executing :: approval where
  "run_executing = run_approval\<lparr> ar_status := AP_EXECUTING \<rparr>"

definition run_touched :: execution where
  "run_touched = run_reserved\<lparr> de_locked_at := Some (Aware 0) \<rparr>"

lemmas run_checks = execution_check_def run_settings portable_hex_check_def hash_binding_check_def lease_check_def
  bundle_check_def status_check_def reconciliation_check_def origin_check_def leased_statuses_def
  submission_statuses_def verified_statuses_def positive_def

lemma run_claimed_simps [simp]:
  "de_id run_claimed = ''e1''" "de_approval_id run_claimed = ''a1''" "de_intent_id run_claimed = ''i1''"
  "de_status run_claimed = DE_VALIDATING" "execution_check run_claimed"
  "execution_update_ok run_execution run_claimed"
  by (simp_all add: run_claimed_def claimed_def)
    (simp_all add: run_execution_def new_execution_def run_checks execution_update_ok_def execution_identity_ok_def
      execution_bundle_ok_def)

lemma run_claim_step:
  "\<exists>xe. claim_next_execution sealed_lib ''w'' (Aware 0) ''tok'' (run_db run_approval [run_spent] [run_execution] aev xev)
    = (Inr (Some run_claim), run_db run_approval [run_spent] [run_claimed] aev (xev @ [xe]))"
proof -
  have el: "eligible (Aware 0) run_execution"
    by (simp add: eligible_def) (simp add: run_execution_def new_execution_def run_settings)
  then have nx: "next_eligible (Aware 0) (run_db run_approval [run_spent] [run_execution] aev xev) = Some run_execution"
    by (simp add: next_eligible_def)
  then show ?thesis
    by (simp add: claim_next_execution_def transact_def run_handlers Let_def run_claimed_def [symmetric]
        add_worker_event_def run_claim_def) blast
qed

lemma hex_zeros: "list_all lower_hex_char (replicate n (CHR ''0''))"
  by (simp add: list_all_iff lower_hex_char_def is_digit_def)

lemma run_fields:
  "digests_ok run_claimed" "actual_hash_ok sealed_lib run_claimed"
  "execution_binding run_claimed = manual_binding" "intent_binding run_spent = manual_binding"
  "de_launch_mode run_claimed = LM_ADD_PAUSED" "ei_launch_mode run_spent = LM_ADD_PAUSED"
  "de_origin run_claimed = OR_MANUAL"
  "bindings_agree sealed_lib run_claimed run_approval run_spent ready_plan"
  "owns_lease ''w'' run_claimed run_claim" "lease_held run_claimed ''tok'' 300 (Aware 0)"
proof -
  note row = run_claimed_def claimed_def run_execution_def new_execution_def
  show "digests_ok run_claimed"
    by (simp add: digests_ok_def hex64_def hex_zeros row run_plan_parts)
  show "actual_hash_ok sealed_lib run_claimed" by (simp add: actual_hash_ok_def row)
  show "execution_binding run_claimed = manual_binding" by (simp add: execution_binding_def row manual_binding_def)
  show "intent_binding run_spent = manual_binding" "ei_launch_mode run_spent = LM_ADD_PAUSED"
    by (simp_all add: intent_binding_def run_spent_def consumed_intent_def run_intent_def manual_binding_def)
  show "de_launch_mode run_claimed = LM_ADD_PAUSED" "de_origin run_claimed = OR_MANUAL" by (simp_all add: row)
  show "bindings_agree sealed_lib run_claimed run_approval run_spent ready_plan"
    by (simp add: bindings_agree_def row run_plan_parts execution_request_hash_def intent_binding_def execution_binding_def
        run_spent_def consumed_intent_def run_intent_def)
  show "owns_lease ''w'' run_claimed run_claim" "lease_held run_claimed ''tok'' 300 (Aware 0)"
    by (simp_all add: owns_lease_def lease_held_def run_claim_def row seconds_def)
qed

lemma run_execution_verifies:
  "verify_download_execution sealed_lib (run_db run_approval [run_spent] [run_claimed] aev xev) run_claimed = Inr run_claimed"
  by (simp add: verify_download_execution_def run_fields submission_statuses_def approval_by_id_def row_get_def
      plan_for_approval_def run_verified run_plan_verifies require_origin_binding_def verify_automation_binding_def
      run_plan_parts)

lemma run_reserved_simps [simp]:
  "de_id run_reserved = ''e1''" "de_approval_id run_reserved = ''a1''"
  "de_status run_reserved = DE_SUBMITTING" "execution_check run_reserved"
  "execution_update_ok run_claimed run_reserved"
  by (simp_all add: run_reserved_def reserved_def run_torrent_def)
    (simp_all add: run_claimed_def claimed_def run_execution_def new_execution_def run_checks execution_update_ok_def execution_identity_ok_def
      execution_bundle_ok_def hex_zeros run_hash_def)

lemma run_reserve:
  "\<exists>ev xe. reserve sealed_lib run_claimed run_approval run_torrent ''w'' 0 (run_db run_approval [run_spent] [run_claimed] aev xev)
    = (Inr run_reserved, run_db run_executing [run_spent] [run_reserved] (aev @ [ev]) (xev @ [xe]))"
proof -
  have plan: "get_verified_plan sealed_lib run_approval (run_db run_approval [run_spent] [run_claimed] aev xev)
      = (Inr ready_plan, run_db run_approval [run_spent] [run_claimed] aev xev)"
    by (simp add: get_verified_plan_def run_handlers plan_for_approval_def run_plan_parts option_or_def run_plan_verifies)
  have hash: "selected_hash sealed_lib run_torrent ready_plan = Inr (run_hash)"
    using run_hash_nonempty by (simp add: first_hash_def selected_hash_def run_torrent_def run_plan_parts falsy_str_def)
  have id: "ar_id run_executing = ''a1''" by (simp add: run_executing_def)
  show ?thesis
    unfolding reserve_def Let_def run_reserved_def [symmetric] run_executing_def [symmetric]
    by (simp add: plan run_handlers hash run_reserved_def [symmetric] add_execution_event_def add_approval_event_def id) blast
qed

lemma run_reserve_step:
  "\<exists>ev xe. reserve_submission sealed_lib example_settings ''w'' run_claim run_torrent (Aware 0) 0
      (run_db run_approval [run_spent] [run_claimed] aev xev)
    = (Inr DE_SUBMITTING, run_db run_executing [run_spent] [run_reserved] (aev @ [ev]) (xev @ [xe]))"
proof -
  have el: "cl_execution_id run_claim = ''e1''" "cl_lease_token run_claim = ''tok''" by (simp_all add: run_claim_def)
  have fresh: "require_fresh_matching_lease example_settings ''w'' run_claimed run_claim (Some DE_VALIDATING) (Aware 0) = Inr ()"
    by (simp add: require_fresh_matching_lease_def require_matching_lease_def run_fields lease_fresh_def leased_statuses_def)
      (simp add: run_claimed_def claimed_def run_settings seconds_def)
  have hash: "first_hash run_torrent \<noteq> None"
    using run_hash_nonempty by (simp add: first_hash_def run_torrent_def falsy_str_def)
  obtain ev xe where r: "reserve sealed_lib run_claimed run_approval run_torrent ''w'' 0 (run_db run_approval [run_spent] [run_claimed] aev xev)
    = (Inr run_reserved, run_db run_executing [run_spent] [run_reserved] (aev @ [ev]) (xev @ [xe]))"
    using run_reserve by blast
  have "persist_info_hash_before_submission sealed_lib ''e1'' run_torrent ''w'' ''tok'' 300 (Aware 0) 0
      (run_db run_approval [run_spent] [run_claimed] aev xev)
    = (Inr run_reserved, run_db run_executing [run_spent] [run_reserved] (aev @ [ev]) (xev @ [xe]))"
    by (simp add: persist_info_hash_before_submission_def run_handlers option_or_def hash get_download_execution_def
        verifiedH_def run_execution_verifies require_execution_lease_def run_fields approval_by_id_def run_verified is_expired_def r)
  then show ?thesis
    by (simp add: reserve_submission_def transact_def run_handlers execution_by_id_def option_or_def el fresh run_settings) blast
qed

lemma run_write_guard:
  "ensure_external_action_allowed sealed_lib example_settings ''w'' run_claim DE_SUBMITTING False (Aware 0) 0 ''r1''
      (run_db run_executing [run_spent] [run_reserved] aev xev)
    = (Inr True, run_db run_executing [run_spent] [run_touched] aev xev)"
proof -
  have row: "de_locked_at run_reserved = Some (Aware 0)" "de_locked_by run_reserved = Some ''w''"
    "de_lease_token run_reserved = Some ''tok''" "de_origin run_reserved = OR_MANUAL"
    by (simp_all add: run_reserved_def reserved_def run_claimed_def claimed_def run_execution_def new_execution_def)
  then have same: "run_touched = run_reserved" by (simp add: run_touched_def)
  have fresh: "require_fresh_matching_lease example_settings ''w'' run_reserved run_claim (Some DE_SUBMITTING) (Aware 0) = Inr ()"
    by (simp add: require_fresh_matching_lease_def require_matching_lease_def lease_fresh_def leased_statuses_def owns_lease_def
        row run_claim_def run_settings seconds_def)
  have el: "cl_execution_id run_claim = ''e1''" by (simp add: run_claim_def)
  have a: "ar_id run_executing = ''a1''" "ar_status run_executing = AP_EXECUTING" by (simp_all add: run_executing_def)
  have plan: "verify_download_plan sealed_lib ready_plan run_executing = Inr ready_plan"
    using run_approval_same
    by (intro same_verifies) (simp_all add: run_executing_def same_approval_def run_approval_def decided_def)
  show ?thesis
    by (simp add: ensure_external_action_allowed_def transact_def run_handlers execution_by_id_def option_or_def fresh
        approval_by_id_def a plan_for_approval_def run_plan_parts verify_fence_plan_def plan
        require_preflight_policy_current_def sealed_lib_laws(3) automation_fence_error_def row fence_approval_def
        touch_lease_def el run_touched_def [symmetric] same)
qed

section \<open>The run\<close>

definition run_proc :: proc where
  "run_proc = \<lparr> pr_claim = run_claim, pr_worker = ''w'', pr_reserved = True, pr_added = True, pr_sent = False \<rparr>"

text \<open>The state after the claim: the worker is about to process it.\<close>

lemma run_after_claim:
  "\<exists>aev xev. reachable sealed_lib
    \<lparr> w_db = run_db run_approval [run_spent] [run_claimed] aev xev, w_procs = [start_proc run_claim ''w''], w_adds = [] \<rparr>"
proof -
  note go = reachable.step
  have "integrity sealed_lib (run_db run_approval [] [] [] [])"
    by (simp add: integrity_def approvals_ok_def plans_ok_def intents_ok_def executions_ok_def jobs_ok_def)
  then have 0: "reachable sealed_lib \<lparr> w_db = run_db run_approval [] [] [] [], w_procs = [], w_adds = [] \<rparr>"
    using reachable.init [of sealed_lib "run_db run_approval [] [] [] []"] by (simp add: initial_world_def)
  obtain ev where "create_execution_intent sealed_lib ''a1'' LM_ADD_PAUSED None example_settings ''admin'' manual_binding 0 ''i1'' ''n''
      (run_db run_approval [] [] [] []) = (Inr (run_intent, ''n''), run_db run_approval [run_intent] [] ([] @ [ev]) [])"
    using run_create_intent [of "[]" "[]"] by blast
  then have "service_step sealed_lib (run_db run_approval [] [] [] []) (run_db run_approval [run_intent] [] [ev] [])"
    using service_step.automatic_intent [of sealed_lib "run_db run_approval [] [] [] []" "''a1''" LM_ADD_PAUSED None
        example_settings "''admin''" manual_binding 0 "''i1''" "''n''"] by (simp add: transact_def)
  from go [OF 0 world_step.service] this
  have 1: "reachable sealed_lib \<lparr> w_db = run_db run_approval [run_intent] [] [ev] [], w_procs = [], w_adds = [] \<rparr>"
    by simp
  obtain ev2 xe where "execute_approved_plan sealed_lib ''a1'' ''i1'' ''n'' ''key-0123456789abcdef'' example_settings ''admin''
      manual_binding 0 ''e1'' (run_db run_approval [run_intent] [] [ev] [])
    = (Inr (run_execution, True), run_db run_approval [run_spent] [run_execution] ([ev] @ [ev2]) ([] @ [xe]))"
    using run_execute [of "[ev]" "[]"] by blast
  then have "service_step sealed_lib (run_db run_approval [run_intent] [] [ev] [])
      (run_db run_approval [run_spent] [run_execution] [ev, ev2] [xe])"
    using service_step.automatic [of sealed_lib "run_db run_approval [run_intent] [] [ev] []" "''a1''" "''i1''" "''n''"
        "''key-0123456789abcdef''" example_settings "''admin''" manual_binding 0 "''e1''"] by (simp add: transact_def)
  from go [OF 1 world_step.service] this
  have 2: "reachable sealed_lib \<lparr> w_db = run_db run_approval [run_spent] [run_execution] [ev, ev2] [xe], w_procs = [], w_adds = [] \<rparr>"
    by simp
  obtain xe2 where "claim_next_execution sealed_lib ''w'' (Aware 0) ''tok'' (run_db run_approval [run_spent] [run_execution] [ev, ev2] [xe])
    = (Inr (Some run_claim), run_db run_approval [run_spent] [run_claimed] [ev, ev2] ([xe] @ [xe2]))"
    using run_claim_step by blast
  from go [OF 2 world_step.claim] this
  have 3: "reachable sealed_lib \<lparr> w_db = run_db run_approval [run_spent] [run_claimed] [ev, ev2] [xe, xe2],
      w_procs = [start_proc run_claim ''w''], w_adds = [] \<rparr>"
    by simp
  then show ?thesis by blast
qed

text \<open>The state before the request, with everything the step that sends it needs.\<close>

lemma run_before_send:
  "\<exists>aev xev. reachable sealed_lib
    \<lparr> w_db = run_db run_executing [run_spent] [run_touched] aev xev, w_procs = [run_proc], w_adds = [] \<rparr>"
proof -
  note go = reachable.step
  obtain aev xev where 3: "reachable sealed_lib \<lparr> w_db = run_db run_approval [run_spent] [run_claimed] aev xev,
      w_procs = [start_proc run_claim ''w''], w_adds = [] \<rparr>"
    using run_after_claim by blast
  obtain ev3 xe3 where "reserve_submission sealed_lib example_settings ''w'' run_claim run_torrent (Aware 0) 0
      (run_db run_approval [run_spent] [run_claimed] aev xev)
    = (Inr DE_SUBMITTING, run_db run_executing [run_spent] [run_reserved] (aev @ [ev3]) (xev @ [xe3]))"
    using run_reserve_step by blast
  from go [OF 3 world_step.reserve [where i = 0 and st = example_settings]] this
  have 4: "reachable sealed_lib \<lparr> w_db = run_db run_executing [run_spent] [run_reserved] (aev @ [ev3]) (xev @ [xe3]),
      w_procs = [(start_proc run_claim ''w'')\<lparr> pr_reserved := True \<rparr>], w_adds = [] \<rparr>"
    by (simp add: set_proc_def start_proc_def)
  from go [OF 4 world_step.write_guard [where i = 0 and st = example_settings]] run_write_guard
  have "reachable sealed_lib \<lparr> w_db = run_db run_executing [run_spent] [run_touched] (aev @ [ev3]) (xev @ [xe3]),
      w_procs = [run_proc], w_adds = [] \<rparr>"
    by (simp add: set_proc_def start_proc_def run_proc_def) blast
  then show ?thesis by blast
qed

text \<open>The request itself: the torrent of the execution is added once.\<close>

lemma run_send:
  "\<exists>v v'. reachable sealed_lib v \<and> world_step sealed_lib v v' \<and> w_adds v = [] \<and> w_adds v' = [''e1'']
    \<and> execution_row (w_db v') ''e1'' = Some run_touched \<and> length (claims_of ''e1'' (w_procs v')) = 1"
proof -
  obtain aev xev where "reachable sealed_lib
      \<lparr> w_db = run_db run_executing [run_spent] [run_touched] aev xev, w_procs = [run_proc], w_adds = [] \<rparr>"
    using run_before_send by blast
  then obtain v where r: "reachable sealed_lib v" and v: "w_adds v = []" "w_procs v = [run_proc]"
    "execution_row (w_db v) ''e1'' = Some run_touched"
    by (rule that) (simp_all add: execution_row_def row_get_def run_touched_def)
  have id: "proc_execution run_proc = ''e1''" by (simp add: proc_execution_def run_proc_def run_claim_def)
  define v' where "v' = set_proc 0 (run_proc\<lparr> pr_sent := True \<rparr>) (v\<lparr> w_adds := w_adds v @ [proc_execution run_proc] \<rparr>)"
  have "world_step sealed_lib v v'"
    unfolding v'_def by (rule world_step.send) (simp_all add: v, simp_all add: run_proc_def)
  moreover have "w_adds v' = [''e1'']" "execution_row (w_db v') ''e1'' = Some run_touched"
    "length (claims_of ''e1'' (w_procs v')) = 1"
    unfolding v'_def by (simp_all add: id v set_proc_def claims_of_def)
      (simp add: proc_execution_def run_proc_def run_claim_def)
  ultimately show ?thesis using r v(1) by (intro exI [of _ v] exI [of _ v'] conjI)
qed

end
