(* ===== verification/ExecutorLaws.thy ===== *)
theory ExecutorLaws
  imports ExampleRun
begin

text \<open>
  The laws of the executor in every reachable state: its contract as an abstract machine and the
  refinement, the single request per torrent, the bound of the attempts, and what every step keeps.
\<close>

section \<open>The contract of the executor\<close>

text \<open>
  What the executor promises about the downloader, as an abstract machine: a submission is reserved
  at most once per execution, and a torrent is added at most once, after its reservation.
\<close>

record submissions =
  sb_reserved :: "string set"
  sb_adds :: "string list"

inductive submission_step :: "submissions \<Rightarrow> submissions \<Rightarrow> bool" where
  stutter: "submission_step x x"
| reserves: "k \<notin> sb_reserved x \<Longrightarrow> submission_step x (x\<lparr> sb_reserved := insert k (sb_reserved x) \<rparr>)"
| adds: "k \<in> sb_reserved x \<Longrightarrow> k \<notin> set (sb_adds x) \<Longrightarrow> submission_step x (x\<lparr> sb_adds := sb_adds x @ [k] \<rparr>)"

definition submissions_of :: "world \<Rightarrow> submissions" where
  "submissions_of v = \<lparr> sb_reserved = proc_execution ` {p \<in> set (w_procs v). pr_reserved p}, sb_adds = w_adds v \<rparr>"

lemma reserved_ids:
  "proc_execution ` {q \<in> set ps. pr_reserved q} = fst ` {x \<in> set (map (\<lambda>q. (proc_execution q, pr_reserved q)) ps). snd x}"
  by (force simp: image_iff)

lemma submissions_of_db: "submissions_of (v\<lparr> w_db := t \<rparr>) = submissions_of v"
  by (simp add: submissions_of_def)

lemma submissions_of_flags:
  assumes "proc_execution p = proc_execution (w_procs v ! i)" and "pr_reserved p = pr_reserved (w_procs v ! i)"
  shows "submissions_of (set_proc i p v) = submissions_of v"
  unfolding submissions_of_def set_proc_def reserved_ids
  using map_update_same [of "\<lambda>q. (proc_execution q, pr_reserved q)" p "w_procs v" i] assms by simp

lemma set_update_reserved:
  assumes i: "i < length ps" and p: "p = ps ! i" and un: "\<not> pr_reserved p"
  shows "{q \<in> set (ps[i := p\<lparr> pr_reserved := True \<rparr>]). pr_reserved q}
    = insert (p\<lparr> pr_reserved := True \<rparr>) {q \<in> set ps. pr_reserved q}"
proof -
  let ?p = "p\<lparr> pr_reserved := True \<rparr>"
  have up: "set (ps[i := ?p]) \<subseteq> insert ?p (set ps)" by (rule set_update_subset_insert)
  have self: "?p \<in> set (ps[i := ?p])" using i by (simp add: set_update_memI)
  have "q \<in> set (ps[i := ?p])" if "q \<in> set ps" "pr_reserved q" for q
  proof -
    from that(1) obtain j where "j < length ps" "q = ps ! j" by (auto simp: in_set_conv_nth)
    with that(2) un p show ?thesis by (metis length_list_update nth_list_update_neq nth_mem)
  qed
  with up self show ?thesis by auto
qed

text \<open>C1: The executor refines its contract. Every step of the concrete machine, with its store,
  leases, fences, rollbacks and interleaved workers, is a step of the abstract one or leaves it
  unchanged: a submission is reserved at most once per execution, and the request that adds the
  torrent is sent at most once per execution and only after the reservation.\<close>
theorem executor_refines_submissions:
  assumes "reachable L v" and "world_step L v v'"
  shows "submission_step (submissions_of v) (submissions_of v')"
proof -
  have ok: "world_ok L v" by (rule reachable_ok [OF assms(1)])
  from assms(2) show ?thesis
  proof (cases rule: world_step.cases)
    case (claim w now tok c t)
    have "{p \<in> set (w_procs v @ [start_proc c w]). pr_reserved p} = {p \<in> set (w_procs v). pr_reserved p}"
      by (auto simp: start_proc_def)
    with claim show ?thesis by (simp add: submissions_of_def submission_step.stutter)
  next
    case (reserve i p st m db_now now t)
    obtain e where e: "execution_row (w_db v) (proc_execution p) = Some e" "de_status e = DE_VALIDATING"
      unfolding proc_execution_def by (rule reserve_submission_run [OF reserve(5)])
    have "proc_execution p \<notin> sb_reserved (submissions_of v)"
    proof
      assume "proc_execution p \<in> sb_reserved (submissions_of v)"
      then obtain q where q: "q \<in> set (w_procs v)" "pr_reserved q" "proc_execution q = proc_execution p"
        by (auto simp: submissions_of_def)
      with world_ok_proc [OF ok q(1)] e show False by (auto simp: proc_ok_def retryable_again_def)
    qed
    moreover have "submissions_of v' = (submissions_of v)
        \<lparr> sb_reserved := insert (proc_execution p) (sb_reserved (submissions_of v)) \<rparr>"
      using reserve(1) set_update_reserved [OF reserve(2,3,4)]
      by (simp add: submissions_of_def set_proc_def) (simp add: proc_execution_def)
    ultimately show ?thesis by (simp add: submission_step.reserves)
  next
    case (send i p)
    have pok: "proc_ok (w_db v) p" using ok send(2,3) by (simp add: world_ok_def list_all_iff)
    have "world_ok L v'" by (rule world_step_ok [OF assms(2) ok])
    then have "proc_execution p \<notin> set (sb_adds (submissions_of v))"
      using send(1) by (simp add: world_ok_def set_proc_def submissions_of_def)
    moreover have "proc_execution p \<in> sb_reserved (submissions_of v)"
      using pok send by (auto simp: submissions_of_def proc_ok_def)
    moreover have "submissions_of v' = (submissions_of v)\<lparr> sb_adds := sb_adds (submissions_of v) @ [proc_execution p] \<rparr>"
      using submissions_of_flags [of "p\<lparr> pr_sent := True \<rparr>" "v\<lparr> w_adds := w_adds v @ [proc_execution p] \<rparr>" i] send(1,3)
      by (simp add: submissions_of_def proc_execution_def)
    ultimately show ?thesis by (simp add: submission_step.adds)
  next
    case (write_guard i p st now clock nid t)
    then show ?thesis
      using submissions_of_flags [of "p\<lparr> pr_added := True \<rparr>" "v\<lparr> w_db := t \<rparr>" i]
      by (simp add: submissions_of_db proc_execution_def submission_step.stutter)
  qed (simp_all add: submissions_of_db submission_step.stutter)
qed

text \<open>C2: At most one torrent add. In every reachable state, whatever the workers, routes and the
  automation interleaved and whichever worker crashed, the log of the requests that add a torrent
  names each execution at most once; and an execution whose request may have been sent keeps its
  reserved info hash and is in a submission status: it is never failed, cancelled, retried or
  claimed again.\<close>
theorem torrent_added_at_most_once:
  assumes "reachable L v"
  shows "distinct (w_adds v) \<and>
    (\<forall>k \<in> set (w_adds v). \<exists>e. execution_row (w_db v) k = Some e \<and> de_actual_info_hash e \<noteq> None
      \<and> de_status e \<in> set submission_statuses)"
proof -
  have ok: "world_ok L v" by (rule reachable_ok [OF assms])
  have "\<exists>e. execution_row (w_db v) k = Some e \<and> de_actual_info_hash e \<noteq> None \<and> de_status e \<in> set submission_statuses"
    if k: "k \<in> set (w_adds v)" for k
  proof -
    from ok k obtain p where p: "p \<in> set (w_procs v)" "pr_sent p" "k = proc_execution p"
      by (auto simp: world_ok_def)
    with world_ok_proc [OF ok p(1)] obtain e where e: "execution_row (w_db v) k = Some e"
      "de_status e \<in> set submission_statuses" by (auto simp: proc_ok_def)
    then have "e \<in> set (db_executions (w_db v))" by (auto simp: execution_row_def row_get_def dest: find_SomeD)
    with ok have "status_check e"
      by (auto simp: world_ok_def integrity_def executions_ok_def list_all_iff execution_check_def)
    with e show ?thesis by (auto simp: status_check_def submission_statuses_def)
  qed
  with ok show ?thesis by (simp add: world_ok_def)
qed

text \<open>C27: The attempts are bounded. Each time a worker claims an execution counts as an attempt, and
  the claims of an execution never exceed its attempts, nor its attempts the maximum it was created
  with: no execution is claimed more often than that.\<close>
theorem claims_bounded:
  assumes "reachable L v" and "execution_row (w_db v) k = Some e"
  shows "int (length (claims_of k (w_procs v))) \<le> de_attempts e \<and> de_attempts e \<le> de_max_attempts e"
proof -
  have ok: "world_ok L v" by (rule reachable_ok [OF assms(1)])
  have "e \<in> set (db_executions (w_db v))"
    using assms(2) by (auto simp: execution_row_def row_get_def dest: find_SomeD)
  with ok have "execution_check e" by (auto simp: world_ok_def integrity_def executions_ok_def list_all_iff)
  with ok assms(2) show ?thesis by (simp add: world_ok_def execution_check_def)
qed

lemma world_step_lawful:
  assumes "world_step L v v'"
  shows "lawful False L (w_db v) (w_db v')"
  using assms
proof (induction rule: world_step.induct)
  case (finalize i v p outcome q st db_now now now2 nid pid r t)
  then show ?case by (simp add: lawful_run [OF lawful.evolves_transact [OF lawful_finalize]])
qed (auto simp: set_proc_def lawful.refl_R service_step_lawful
    intro: lawful_run [OF lawful_claim] lawful_run [OF lawful_renew] lawful_run [OF lawful_ensure]
      lawful_run [OF lawful_reserve] lawful_run [OF lawful_validation_failure] lawful_run [OF lawful_reserved_failure])

text \<open>C5: Nothing is forgotten or rewritten. Every step of the whole system keeps the constraints and
  unique indexes of the store (one execution per approval, per intent and per idempotency key; a
  lease exactly while an execution is validating or submitting; a reserved hash in every submission
  status), only appends to the event tables, plans, policy revisions and decisions, changes no
  column the listeners protect, and moves approvals, intents and executions only forward.\<close>
theorem system_keeps_the_laws:
  assumes "reachable L v" and "world_step L v v'"
  shows "integrity L (w_db v') \<and> audit_grows (w_db v) (w_db v') \<and> guards_respected (w_db v) (w_db v')
    \<and> life False (w_db v) (w_db v')"
proof -
  have "integrity L (w_db v)" using reachable_ok [OF assms(1)] by (simp add: world_ok_def)
  with world_step_lawful [OF assms(2)] show ?thesis by (simp add: lawful_def)
qed

section \<open>The laws on a run\<close>

lemma executor_refines_submissions_witness:
  "\<exists>v v'. world_step sealed_lib v v' \<and> submission_step (submissions_of v) (submissions_of v')
    \<and> sb_adds (submissions_of v) = [] \<and> sb_adds (submissions_of v') = [''e1'']"
proof -
  obtain v v' where "reachable sealed_lib v" "world_step sealed_lib v v'" "w_adds v = []" "w_adds v' = [''e1'']"
    using run_send by blast
  with executor_refines_submissions [OF this(1,2)] show ?thesis
    by (intro exI [of _ v] exI [of _ v'] conjI) (simp_all add: submissions_of_def)
qed

lemma torrent_added_at_most_once_witness:
  "\<exists>v::world. w_adds v = [''e1''] \<and> distinct (w_adds v)
    \<and> (\<exists>e. execution_row (w_db v) ''e1'' = Some e \<and> de_status e \<in> set submission_statuses)"
proof -
  obtain v v' where v: "reachable sealed_lib v" "world_step sealed_lib v v'" "w_adds v' = [''e1'']"
    using run_send by blast
  from torrent_added_at_most_once [OF reachable.step [OF v(1,2)]] v(3) show ?thesis
    by (intro exI [of _ v']) auto
qed

lemma claims_bounded_witness:
  "\<exists>v::world. length (claims_of ''e1'' (w_procs v)) = 1 \<and> 1 \<le> de_attempts run_touched
    \<and> de_attempts run_touched \<le> de_max_attempts run_touched"
proof -
  obtain v v' where v: "reachable sealed_lib v" "world_step sealed_lib v v'"
    "execution_row (w_db v') ''e1'' = Some run_touched" "length (claims_of ''e1'' (w_procs v')) = 1"
    using run_send by blast
  from claims_bounded [OF reachable.step [OF v(1,2)] v(3)] v(4) show ?thesis
    by (intro exI [of _ v']) auto
qed

lemma system_keeps_the_laws_witness:
  "\<exists>v v'. world_step sealed_lib v v' \<and> integrity sealed_lib (w_db v') \<and> guards_respected (w_db v) (w_db v')"
proof -
  obtain v v' where "reachable sealed_lib v" "world_step sealed_lib v v'" using run_send by blast
  with system_keeps_the_laws [OF this] show ?thesis by blast
qed

end
