(* ===== verification/QbClient.thy ===== *)
theory QbClient
  imports Preflight TorrentValidation
begin

text \<open>
  The qBittorrent clients (\<open>adapters/downloaders/qbittorrent_readonly.py\<close>): the session, the one
  function that sends a request, the queries and their pagination, and the validation of the
  torrents (\<open>schemas/qbittorrent.py\<close>). The HTTP transport is a parameter: the outcome of the n-th
  request. The state of a client keeps the log of the requests it sent, and around it a world on
  which the guards of the caller run before a request is sent.
\<close>

section \<open>Requests and answers\<close>

datatype http_method = GET | POST

record http_request =
  rq_method :: http_method
  rq_path :: string
  rq_params :: "(string \<times> string) list"
  rq_data :: "(string \<times> string) list"
  rq_file :: "string option"

text \<open>
  An answer with its body: the bytes, and the views httpx gives of them, the text, the JSON value
  and whether a cookie \<open>SID\<close> was set.
\<close>

record http_response =
  rs_status :: int
  rs_content_type :: string
  rs_content :: string
  rs_text :: string
  rs_json :: "json option"
  rs_sid :: bool

datatype http_outcome = HttpTimeout | HttpError | HttpAnswer http_response

record qb_conf =
  qc_executor :: bool
  qc_enable_write :: bool
  qc_username :: string
  qc_password :: string
  qc_max_response_bytes :: nat
  qc_http :: "nat \<Rightarrow> http_request \<Rightarrow> http_outcome"
  qc_invalid_fields :: "json \<Rightarrow> json list"

record 'w qb =
  qb_auth :: bool
  qb_field :: "string option"
  qb_sent :: "http_request list"
  qb_world :: 'w

type_synonym ('w, 'a) qbm = "('w qb, exn, 'a) handler"
type_synonym 'w guard = "('w, exn, unit) handler option"

definition on_world :: "('w, exn, 'a) handler \<Rightarrow> ('w, 'a) qbm" where
  "on_world m = (\<lambda>s. case m (qb_world s) of (r, w) \<Rightarrow> (r, s\<lparr> qb_world := w \<rparr>))"

definition qb_new :: "'w \<Rightarrow> 'w qb" where
  "qb_new w = \<lparr> qb_auth = False, qb_field = None, qb_sent = [], qb_world = w \<rparr>"

definition path_login :: string where "path_login = ''/api/v2/auth/login''"
definition path_info :: string where "path_info = ''/api/v2/torrents/info''"
definition path_files :: string where "path_files = ''/api/v2/torrents/files''"
definition path_categories :: string where "path_categories = ''/api/v2/torrents/categories''"
definition path_version :: string where "path_version = ''/api/v2/app/version''"
definition path_web_api :: string where "path_web_api = ''/api/v2/app/webapiVersion''"
definition path_add :: string where "path_add = ''/api/v2/torrents/add''"
definition path_create_category :: string where "path_create_category = ''/api/v2/torrents/createCategory''"

definition read_requests :: "(http_method \<times> string) list" where
  "read_requests = [(POST, path_login), (GET, path_version), (GET, path_web_api), (GET, path_info),
     (GET, path_files), (GET, path_categories)]"

definition write_requests :: "(http_method \<times> string) list" where
  "write_requests = [(POST, path_add), (POST, path_create_category)]"

definition request_key :: "http_request \<Rightarrow> http_method \<times> string" where
  "request_key rq = (rq_method rq, rq_path rq)"

definition get_request :: "string \<Rightarrow> (string \<times> string) list \<Rightarrow> http_request" where
  "get_request path params =
    \<lparr> rq_method = GET, rq_path = path, rq_params = params, rq_data = [], rq_file = None \<rparr>"

section \<open>Sending\<close>

definition clear_session :: "('w, unit) qbm" where
  "clear_session = modifyH (\<lambda>s. s\<lparr> qb_auth := False, qb_field := None \<rparr>)"

text \<open>\<open>{**details, key: value}\<close>\<close>

definition put_detail :: "string \<Rightarrow> json \<Rightarrow> (string \<times> json) list \<Rightarrow> (string \<times> json) list" where
  "put_detail k j kvs =
    (if k \<in> fst ` set kvs then map (\<lambda>kv. if fst kv = k then (k, j) else kv) kvs else kvs @ [(k, j)])"

definition unsent :: "exn \<Rightarrow> exn" where
  "unsent e =
    (case e of
       AppErr a \<Rightarrow> AppErr (a\<lparr> err_details := put_detail ''external_request_performed'' (JBool False) (err_details a) \<rparr>)
     | _ \<Rightarrow> app_err_details ''QB_REQUEST_GUARD_FAILED'' 409 [(''external_request_performed'', JBool False)])"

definition run_before_send_guard :: "'w guard \<Rightarrow> ('w, unit) qbm" where
  "run_before_send_guard g =
    (case g of None \<Rightarrow> returnH () | Some m \<Rightarrow> catchH (on_world m) (\<lambda>e. raiseH (unsent e)))"

definition send :: "qb_conf \<Rightarrow> http_request \<Rightarrow> ('w, http_response) qbm" where
  "send C rq = (\<lambda>s.
    let s' = s\<lparr> qb_sent := qb_sent s @ [rq] \<rparr> in
    case qc_http C (length (qb_sent s)) rq of
      HttpTimeout \<Rightarrow> (Inl (app_err_retry ''QB_TIMEOUT'' 504), s')
    | HttpError \<Rightarrow> (Inl (app_err_retry ''QB_NETWORK_ERROR'' 502), s')
    | HttpAnswer r \<Rightarrow>
        if max 1 (qc_max_response_bytes C) < length (rs_content r)
        then (Inl (app_err ''QB_RESPONSE_TOO_LARGE'' 502), s') else (Inr r, s'))"

definition check_status :: "http_response \<Rightarrow> ('w, http_response) qbm" where
  "check_status r =
    (if rs_status r \<in> {401, 403} then bindH clear_session (\<lambda>_. raiseH (app_err ''QB_AUTH_FAILED'' 401))
     else bindH (raise_ifH (\<not> (200 \<le> rs_status r \<and> rs_status r < 300))
       (app_err_details ''QB_HTTP_ERROR'' 502 [(''status_code'', JInt (rs_status r))])) (\<lambda>_.
       returnH r))"

definition not_authenticated :: exn where
  "not_authenticated = app_err ''QB_NOT_AUTHENTICATED'' 401"

definition write_disabled :: exn where
  "write_disabled = app_err ''QB_WRITE_DISABLED'' 403"

definition request :: "qb_conf \<Rightarrow> 'w guard \<Rightarrow> http_request \<Rightarrow> bool \<Rightarrow> 'w guard \<Rightarrow> ('w, http_response) qbm" where
  "request C G rq require_auth before_send =
    bindH (raise_ifH (qc_executor C \<and> request_key rq \<in> set write_requests \<and> \<not> qc_enable_write C)
      write_disabled) (\<lambda>_.
    bindH (raise_ifH (request_key rq \<notin> set (read_requests @ (if qc_executor C then write_requests else [])))
      (app_err ''QB_REQUEST_NOT_ALLOWED'' 405)) (\<lambda>_.
    bindH (getH qb_auth) (\<lambda>auth.
    bindH (raise_ifH (require_auth \<and> \<not> auth) not_authenticated) (\<lambda>_.
    bindH (run_before_send_guard G) (\<lambda>_.
    bindH (run_before_send_guard before_send) (\<lambda>_.
    bindH (send C rq) check_status))))))"

definition read_request :: "qb_conf \<Rightarrow> 'w guard \<Rightarrow> string \<Rightarrow> (string \<times> string) list \<Rightarrow> ('w, http_response) qbm" where
  "read_request C G path params = request C G (get_request path params) True None"

section \<open>Reading an answer\<close>

definition response_invalid :: exn where
  "response_invalid = app_err ''QB_RESPONSE_INVALID'' 502"

definition byte_space :: "char \<Rightarrow> bool" where
  "byte_space c \<longleftrightarrow> byte c \<in> {9, 10, 11, 12, 13, 32}"

definition looks_like_html :: "lib \<Rightarrow> http_response \<Rightarrow> bool" where
  "looks_like_html L r \<longleftrightarrow>
    (let prefix = map lower_ascii (take 32 (dropWhile byte_space (rs_content r))) in
     occurs ''text/html'' (casefold L (rs_content_type r))
     \<or> starts_with ''<!doctype html'' prefix \<or> starts_with ''<html'' prefix)"

definition text_value :: "lib \<Rightarrow> http_response \<Rightarrow> exn + string" where
  "text_value L r =
    bindR (raise_if (looks_like_html L r) response_invalid) (\<lambda>_.
    let v = strip (rs_text r) in
    bindR (raise_if (v = [] \<or> 64 < py_len v \<or> list_ex (\<lambda>c. c \<in> {CHR ''<'', CHR ''>'', CHR 0x0D, CHR 0x0A}) v)
      response_invalid) (\<lambda>_.
    Inr v))"

definition json_value :: "lib \<Rightarrow> http_response \<Rightarrow> exn + json" where
  "json_value L r =
    bindR (raise_if (looks_like_html L r) response_invalid) (\<lambda>_. option_or response_invalid (rs_json r))"

definition json_list :: "lib \<Rightarrow> http_response \<Rightarrow> exn + json list" where
  "json_list L r =
    bindR (json_value L r) (\<lambda>j. case j of JList xs \<Rightarrow> Inr xs | _ \<Rightarrow> Inl response_invalid)"

definition json_dict :: "lib \<Rightarrow> http_response \<Rightarrow> exn + (string \<times> json) list" where
  "json_dict L r =
    bindR (json_value L r) (\<lambda>j. case j of JObj kvs \<Rightarrow> Inr kvs | _ \<Rightarrow> Inl response_invalid)"

definition validation_error :: "qb_conf \<Rightarrow> json \<Rightarrow> exn" where
  "validation_error C j =
    app_err_details ''QB_RESPONSE_INVALID'' 502 [(''invalid_fields'', JList (take 20 (qc_invalid_fields C j)))]"

section \<open>Torrents, files and categories\<close>

definition MAX_INT64 :: int where "MAX_INT64 = 9223372036854775807"
definition MAX_TIMESTAMP :: int where "MAX_TIMESTAMP = 253402300799"

definition count_ok :: "int \<Rightarrow> bool" where "count_ok n \<longleftrightarrow> 0 \<le> n \<and> n \<le> MAX_INT64"
definition stamp_ok :: "int \<Rightarrow> bool" where "stamp_ok n \<longleftrightarrow> - 1 \<le> n \<and> n \<le> MAX_TIMESTAMP"

text \<open>The optional hashes: an empty text is null before the field is validated.\<close>

definition dec_hash :: "nat \<Rightarrow> json \<Rightarrow> string option option" where
  "dec_hash n j = (if j = JStr [] then Some None else dec_opt (where_ok (hexs n) dec_str) j)"

definition parse_qb_torrent :: "lib \<Rightarrow> json \<Rightarrow> qb_torrent option" where
  "parse_qb_torrent L j = do {
     kvs \<leftarrow> dec_obj j;
     h \<leftarrow> required ''hash'' (where_ok valid_info_hash dec_str) kvs;
     v1 \<leftarrow> defaulted ''infohash_v1'' None (dec_hash 40) kvs;
     v2 \<leftarrow> defaulted ''infohash_v2'' None (dec_hash 64) kvs;
     name \<leftarrow> required ''name'' (where_ok (\<lambda>s. 1 \<le> py_len s \<and> py_len s \<le> 1000) dec_str) kvs;
     sz \<leftarrow> required ''size'' (where_ok count_ok (dec_int L)) kvs;
     progress \<leftarrow> required ''progress'' (where_ok (\<lambda>r. finite_text r \<and> float_at_least L 0 r \<and> float_at_most L 1 r)
       (dec_float L)) kvs;
     ratio \<leftarrow> required ''ratio'' (where_ok (\<lambda>r. finite_text r \<and> float_at_least L (-1) r) (dec_float L)) kvs;
     st \<leftarrow> required ''state'' (where_ok (\<lambda>s. 1 \<le> py_len s \<and> py_len s \<le> 100) dec_str) kvs;
     added_on \<leftarrow> defaulted ''added_on'' 0 (where_ok stamp_ok (dec_int L)) kvs;
     completion_on \<leftarrow> defaulted ''completion_on'' 0 (where_ok stamp_ok (dec_int L)) kvs;
     seeding_time \<leftarrow> defaulted ''seeding_time'' 0 (where_ok count_ok (dec_int L)) kvs;
     downloaded \<leftarrow> defaulted ''downloaded'' 0 (where_ok count_ok (dec_int L)) kvs;
     uploaded \<leftarrow> defaulted ''uploaded'' 0 (where_ok count_ok (dec_int L)) kvs;
     dlspeed \<leftarrow> defaulted ''dlspeed'' 0 (where_ok count_ok (dec_int L)) kvs;
     upspeed \<leftarrow> defaulted ''upspeed'' 0 (where_ok count_ok (dec_int L)) kvs;
     category \<leftarrow> defaulted ''category'' [] (where_ok (\<lambda>s. py_len s \<le> 300) dec_str) kvs;
     tags \<leftarrow> defaulted ''tags'' [] (where_ok (\<lambda>s. py_len s \<le> 2000) dec_str) kvs;
     save_path \<leftarrow> defaulted ''save_path'' [] (where_ok (\<lambda>s. py_len s \<le> 4096) dec_str) kvs;
     Some \<lparr> qt_hash = lower L h, qt_infohash_v1 = map_option (lower L) v1,
       qt_infohash_v2 = map_option (lower L) v2, qt_name = name, qt_size = sz, qt_progress = progress,
       qt_ratio = ratio, qt_state = st, qt_added_on = added_on, qt_completion_on = completion_on,
       qt_seeding_time = seeding_time, qt_downloaded = downloaded, qt_uploaded = uploaded,
       qt_dlspeed = dlspeed, qt_upspeed = upspeed, qt_category = category, qt_tags = tags,
       qt_save_path = save_path \<rparr> }"

record qb_file =
  qf_index :: int
  qf_name :: string
  qf_size :: int
  qf_progress :: string
  qf_priority :: int

definition parse_qb_file :: "lib \<Rightarrow> json \<Rightarrow> qb_file option" where
  "parse_qb_file L j = do {
     kvs \<leftarrow> dec_obj j;
     index \<leftarrow> required ''index'' (where_ok (\<lambda>n. 0 \<le> n \<and> n \<le> 2147483647) (dec_int L)) kvs;
     name \<leftarrow> required ''name'' (where_ok (\<lambda>s. 1 \<le> py_len s \<and> py_len s \<le> 4096) dec_str) kvs;
     sz \<leftarrow> required ''size'' (where_ok count_ok (dec_int L)) kvs;
     progress \<leftarrow> required ''progress'' (where_ok (\<lambda>r. finite_text r \<and> float_at_least L 0 r \<and> float_at_most L 1 r)
       (dec_float L)) kvs;
     priority \<leftarrow> required ''priority'' (where_ok (\<lambda>n. 0 \<le> n \<and> n \<le> 7) (dec_int L)) kvs;
     Some \<lparr> qf_index = index, qf_name = name, qf_size = sz, qf_progress = progress, qf_priority = priority \<rparr> }"

text \<open>\<open>{"name": name, **value}\<close>, with \<open>savePath\<close> read before \<open>save_path\<close>.\<close>

definition parse_qb_category :: "string \<Rightarrow> (string \<times> json) list \<Rightarrow> qb_category option" where
  "parse_qb_category key kvs = do {
     name \<leftarrow> defaulted ''name'' key (where_ok (\<lambda>s. py_len s \<le> 300) dec_str) kvs;
     check (py_len name \<le> 300);
     path \<leftarrow> (case map_of kvs ''savePath'' of
         Some j \<Rightarrow> where_ok (\<lambda>s. py_len s \<le> 4096) dec_str j
       | None \<Rightarrow> defaulted ''save_path'' [] (where_ok (\<lambda>s. py_len s \<le> 4096) dec_str) kvs);
     Some \<lparr> qc_name = name, qc_save_path = path \<rparr> }"

definition validated :: "qb_conf \<Rightarrow> (json \<Rightarrow> 'a option) \<Rightarrow> json \<Rightarrow> exn + 'a" where
  "validated C parse j = option_or (validation_error C j) (parse j)"

definition parse_torrents :: "lib \<Rightarrow> qb_conf \<Rightarrow> json list \<Rightarrow> exn + qb_torrent list" where
  "parse_torrents L C payload = mapR (validated C (parse_qb_torrent L)) payload"

section \<open>The session and the simple reads\<close>

definition login_request :: "qb_conf \<Rightarrow> http_request" where
  "login_request C = \<lparr> rq_method = POST, rq_path = path_login, rq_params = [],
     rq_data = [(''username'', qc_username C), (''password'', qc_password C)], rq_file = None \<rparr>"

definition check_login :: "lib \<Rightarrow> http_response \<Rightarrow> exn + unit" where
  "check_login L r =
    bindR (raise_if (looks_like_html L r) response_invalid) (\<lambda>_.
    bindR (raise_if (strip (rs_text r) \<noteq> ''Ok.'') (app_err ''QB_AUTH_FAILED'' 401)) (\<lambda>_.
    raise_if (\<not> rs_sid r) response_invalid))"

definition authenticate :: "lib \<Rightarrow> qb_conf \<Rightarrow> 'w guard \<Rightarrow> ('w, unit) qbm" where
  "authenticate L C G =
    bindH clear_session (\<lambda>_.
    catchH
      (bindH (request C G (login_request C) False None) (\<lambda>r.
       bindH (liftH (check_login L r)) (\<lambda>_.
       modifyH (\<lambda>s. s\<lparr> qb_auth := True \<rparr>))))
      (\<lambda>e. bindH clear_session (\<lambda>_. raiseH e)))"

definition get_version :: "lib \<Rightarrow> qb_conf \<Rightarrow> 'w guard \<Rightarrow> ('w, string) qbm" where
  "get_version L C G = bindH (read_request C G path_version []) (\<lambda>r. liftH (text_value L r))"

definition get_web_api_version :: "lib \<Rightarrow> qb_conf \<Rightarrow> 'w guard \<Rightarrow> ('w, string) qbm" where
  "get_web_api_version L C G = bindH (read_request C G path_web_api []) (\<lambda>r. liftH (text_value L r))"

definition normalize_hash :: "lib \<Rightarrow> string \<Rightarrow> exn + string" where
  "normalize_hash L h =
    (if valid_info_hash h then Inr (lower L h) else Inl (app_err ''QB_INFO_HASH_INVALID'' 422))"

definition get_torrent_files :: "lib \<Rightarrow> qb_conf \<Rightarrow> 'w guard \<Rightarrow> string \<Rightarrow> ('w, qb_file list) qbm" where
  "get_torrent_files L C G h =
    bindH (liftH (normalize_hash L h)) (\<lambda>normalized.
    bindH (read_request C G path_files [(''hash'', normalized)]) (\<lambda>r.
    bindH (liftH (json_list L r)) (\<lambda>payload.
    liftH (mapR (validated C (parse_qb_file L)) payload))))"

definition category_entries :: "(string \<times> json) list \<Rightarrow> (string \<times> (string \<times> json) list) list" where
  "category_entries kvs = concat (map (\<lambda>(k, j). case j of JObj v \<Rightarrow> [(k, v)] | _ \<Rightarrow> []) kvs)"

definition get_categories :: "lib \<Rightarrow> qb_conf \<Rightarrow> 'w guard \<Rightarrow> ('w, (string \<times> qb_category) list) qbm" where
  "get_categories L C G =
    bindH (read_request C G path_categories []) (\<lambda>r.
    bindH (liftH (json_dict L r)) (\<lambda>payload.
    liftH (mapR (\<lambda>(k, v). bindR (option_or (validation_error C (JObj v)) (parse_qb_category k v)) (\<lambda>c. Inr (k, c)))
      (category_entries payload))))"

end
