(* ===== verification/QbQueries.thy ===== *)
theory QbQueries
  imports QbClient
begin

text \<open>
  The queries over the torrents of qBittorrent: by info hash in bounded batches that are halved
  when an answer is too large, the most recent ones, the whole list by overlapping pages, and the
  search for an active seeding. Each loop is a recursion with its termination proof.
\<close>

section \<open>By info hash\<close>

definition HASH_QUERY_BATCH_SIZE :: nat where "HASH_QUERY_BATCH_SIZE = 75"

function chunks :: "nat \<Rightarrow> 'a list \<Rightarrow> 'a list list" where
  "chunks n [] = []"
| "chunks n (x # xs) = (x # take (n - 1) xs) # chunks n (drop (n - 1) xs)"
  by pat_completeness auto
termination
  by (relation "measure (\<lambda>(n, xs). length xs)") auto

definition query_hashes :: "lib \<Rightarrow> string list \<Rightarrow> exn + string list" where
  "query_hashes L hs =
    bindR (mapR (normalize_hash L) hs) (\<lambda>ns.
    Inr (sort (dedup (concat (map (\<lambda>h. if length h = 64 then [h, take 40 h] else [h]) ns)))))"

definition hash_params :: "string list \<Rightarrow> (string \<times> string) list" where
  "hash_params hs = [(''hashes'', join ''|'' hs), (''limit'', show_nat (length hs + 1))]"

definition too_large :: "exn \<Rightarrow> bool" where
  "too_large e \<longleftrightarrow> code_of e = ''QB_RESPONSE_TOO_LARGE''"

definition check_batch :: "string list \<Rightarrow> qb_torrent list \<Rightarrow> exn + qb_torrent list" where
  "check_batch hs page =
    bindR (raise_if (length hs < length page
        \<or> list_ex (\<lambda>t. set hs \<inter> set (qt_identity_hashes t) = {}) page)
      (app_err ''QB_TORRENT_HASH_QUERY_INVALID'' 502)) (\<lambda>_.
    Inr page)"

text \<open>The answer to one batch, or the error of its \<open>try\<close>; batches are never empty.\<close>

definition batch_answer :: "lib \<Rightarrow> qb_conf \<Rightarrow> 'w guard \<Rightarrow> string list \<Rightarrow> ('w, exn + json list) qbm" where
  "batch_answer L C G hs =
    catchH
      (bindH (read_request C G path_info (hash_params hs)) (\<lambda>r.
       bindH (liftH (json_list L r)) (\<lambda>payload. returnH (Inr payload))))
      (\<lambda>e. returnH (Inl e))"

function find_torrents_by_hash_batch ::
    "lib \<Rightarrow> qb_conf \<Rightarrow> 'w guard \<Rightarrow> string list \<Rightarrow> ('w, qb_torrent list) qbm" where
  "find_torrents_by_hash_batch L C G hs =
    bindH (batch_answer L C G hs) (\<lambda>answer.
    case answer of
      Inl e \<Rightarrow>
        if \<not> too_large e \<or> length hs \<le> 1 then raiseH e
        else
          bindH (find_torrents_by_hash_batch L C G (take (length hs div 2) hs)) (\<lambda>xs.
          bindH (find_torrents_by_hash_batch L C G (drop (length hs div 2) hs)) (\<lambda>ys.
          returnH (xs @ ys)))
    | Inr payload \<Rightarrow>
        bindH (liftH (parse_torrents L C payload)) (\<lambda>page. liftH (check_batch hs page)))"
  by pat_completeness auto
termination
  by (relation "measure (\<lambda>(L, C, G, hs). length hs)") auto

declare find_torrents_by_hash_batch.simps [simp del]

text \<open>\<open>torrents[torrent.hash] = torrent\<close>: a dictionary keeps the place of the first occurrence.\<close>

definition put_torrent :: "qb_torrent \<Rightarrow> qb_torrent list \<Rightarrow> qb_torrent list" where
  "put_torrent t ts =
    (if qt_hash t \<in> qt_hash ` set ts then map (\<lambda>x. if qt_hash x = qt_hash t then t else x) ts else ts @ [t])"

fun find_batches ::
    "lib \<Rightarrow> qb_conf \<Rightarrow> 'w guard \<Rightarrow> string list list \<Rightarrow> qb_torrent list \<Rightarrow> ('w, qb_torrent list) qbm" where
  "find_batches L C G [] found = returnH found"
| "find_batches L C G (b # bs) found =
    bindH (find_torrents_by_hash_batch L C G b) (\<lambda>page.
    find_batches L C G bs (fold put_torrent page found))"

definition find_torrents_by_hashes :: "lib \<Rightarrow> qb_conf \<Rightarrow> 'w guard \<Rightarrow> string list \<Rightarrow> ('w, qb_torrent list) qbm" where
  "find_torrents_by_hashes L C G hs =
    bindH (liftH (query_hashes L hs)) (\<lambda>ordered.
    if ordered = [] then returnH []
    else find_batches L C G (chunks HASH_QUERY_BATCH_SIZE ordered) [])"

section \<open>The most recent torrents\<close>

definition RECENT_TORRENT_MAX_ITEMS :: int where "RECENT_TORRENT_MAX_ITEMS = 500"

definition recent_invalid :: exn where
  "recent_invalid = app_err ''QB_TORRENT_RECENT_QUERY_INVALID'' 502"

fun adjacent :: "('a \<Rightarrow> 'a \<Rightarrow> bool) \<Rightarrow> 'a list \<Rightarrow> bool" where
  "adjacent P (x # y # zs) = (P x y \<and> adjacent P (y # zs))"
| "adjacent P _ = True"

definition list_recent_torrents :: "lib \<Rightarrow> qb_conf \<Rightarrow> 'w guard \<Rightarrow> int \<Rightarrow> ('w, qb_torrent list) qbm" where
  "list_recent_torrents L C G n =
    bindH (raise_ifH (\<not> (1 \<le> n \<and> n \<le> RECENT_TORRENT_MAX_ITEMS)) (app_err ''QB_TORRENT_LIMIT_INVALID'' 422)) (\<lambda>_.
    bindH (read_request C G path_info
      [(''sort'', ''added_on''), (''reverse'', ''true''), (''limit'', show_int n), (''offset'', ''0'')]) (\<lambda>r.
    bindH (liftH (json_list L r)) (\<lambda>payload.
    bindH (raise_ifH (n < int (length payload)) recent_invalid) (\<lambda>_.
    bindH (liftH (parse_torrents L C payload)) (\<lambda>page.
    bindH (raise_ifH (\<not> adjacent (\<lambda>x y. qt_added_on y \<le> qt_added_on x) page) recent_invalid) (\<lambda>_.
    returnH page))))))"

section \<open>Active seeding\<close>

definition FORCED_UP_PAGE_SIZE :: nat where "FORCED_UP_PAGE_SIZE = 100"
definition FORCED_UP_MAX_ITEMS :: nat where "FORCED_UP_MAX_ITEMS = 500"

definition seeding_invalid :: exn where
  "seeding_invalid = app_err ''QB_ACTIVE_SEEDING_QUERY_INVALID'' 502"

definition seeding_changed :: exn where
  "seeding_changed = app_err_retry ''QB_ACTIVE_SEEDING_QUERY_CHANGED'' 409"

definition float_is :: "lib \<Rightarrow> rat \<Rightarrow> string \<Rightarrow> bool" where
  "float_is L q r \<longleftrightarrow> finite_text r \<and> float_val L r = q"

definition is_active_seeding :: "lib \<Rightarrow> qb_torrent \<Rightarrow> bool" where
  "is_active_seeding L t \<longleftrightarrow> float_is L 1 (qt_progress t)
    \<and> (0 < qt_upspeed t \<or> casefold L (qt_state t) \<in> {''uploading'', ''forcedup''})"

definition seeding_params :: "string \<Rightarrow> string \<Rightarrow> nat \<Rightarrow> nat \<Rightarrow> (string \<times> string) list" where
  "seeding_params sort_by reverse n offset =
    [(''filter'', ''seeding''), (''sort'', sort_by), (''reverse'', reverse), (''limit'', show_nat n),
     (''offset'', show_nat offset)]"

definition torrent_probe :: "lib \<Rightarrow> qb_conf \<Rightarrow> 'w guard \<Rightarrow> string \<Rightarrow> ('w, qb_torrent option) qbm" where
  "torrent_probe L C G sort_by =
    bindH (read_request C G path_info (seeding_params sort_by ''true'' 1 0)) (\<lambda>r.
    bindH (liftH (json_list L r)) (\<lambda>payload.
    bindH (raise_ifH (1 < length payload) seeding_invalid) (\<lambda>_.
    bindH (liftH (parse_torrents L C payload)) (\<lambda>page.
    case page of
      [] \<Rightarrow> returnH None
    | t # _ \<Rightarrow> bindH (raise_ifH (\<not> float_is L 1 (qt_progress t)) seeding_invalid) (\<lambda>_. returnH (Some t))))))"

text \<open>The scan of a page: a verdict, or none with the last state seen.\<close>

fun scan_states :: "lib \<Rightarrow> string option \<Rightarrow> qb_torrent list \<Rightarrow> exn + bool option \<times> string option" where
  "scan_states L previous [] = Inr (None, previous)"
| "scan_states L previous (t # ts) =
    (let st = casefold L (qt_state t) in
     if (case previous of None \<Rightarrow> False | Some p \<Rightarrow> st < p) then Inl seeding_invalid
     else if \<not> float_is L 1 (qt_progress t) then Inl seeding_invalid
     else if is_active_seeding L t then Inr (Some True, previous)
     else if ''forcedup'' < st then Inr (Some False, previous)
     else scan_states L (Some st) ts)"

definition overlap :: "string option \<Rightarrow> nat" where
  "overlap boundary = (case boundary of None \<Rightarrow> 0 | Some _ \<Rightarrow> 1)"

text \<open>The page after the torrent it has to repeat is checked and dropped.\<close>

definition after_boundary :: "exn \<Rightarrow> string option \<Rightarrow> qb_torrent list \<Rightarrow> exn + qb_torrent list" where
  "after_boundary e boundary page =
    (case boundary of
       None \<Rightarrow> Inr page
     | Some h \<Rightarrow> (case page of [] \<Rightarrow> Inl e | t # ts \<Rightarrow> if qt_hash t = h then Inr ts else Inl e))"

definition forced_up_page ::
    "lib \<Rightarrow> qb_conf \<Rightarrow> 'w guard \<Rightarrow> nat \<Rightarrow> string option \<Rightarrow> nat \<Rightarrow> ('w, nat \<times> qb_torrent list) qbm" where
  "forced_up_page L C G inspected boundary request_limit =
    bindH (read_request C G path_info
      (seeding_params ''state'' ''false'' request_limit (inspected - overlap boundary))) (\<lambda>r.
    bindH (liftH (json_list L r)) (\<lambda>payload.
    bindH (raise_ifH (request_limit < length payload) seeding_invalid) (\<lambda>_.
    bindH (liftH (parse_torrents L C payload)) (\<lambda>page.
    bindH (liftH (after_boundary seeding_changed boundary page)) (\<lambda>fresh.
    returnH (length payload, fresh))))))"

function has_forced_up_seeding ::
    "lib \<Rightarrow> qb_conf \<Rightarrow> 'w guard \<Rightarrow> nat \<Rightarrow> string option \<Rightarrow> string option \<Rightarrow> ('w, bool) qbm" where
  "has_forced_up_seeding L C G inspected boundary previous =
    (if FORCED_UP_MAX_ITEMS \<le> inspected then raiseH (app_err ''QB_ACTIVE_SEEDING_QUERY_LIMIT'' 502)
     else
       let request_limit = min FORCED_UP_PAGE_SIZE (FORCED_UP_MAX_ITEMS - inspected + overlap boundary) in
       bindH (forced_up_page L C G inspected boundary request_limit) (\<lambda>(n, ts).
       bindH (liftH (scan_states L previous ts)) (\<lambda>(verdict, previous').
       case verdict of
         Some b \<Rightarrow> returnH b
       | None \<Rightarrow>
           if n < request_limit then returnH False
           else if ts = [] then raiseH seeding_changed
           else has_forced_up_seeding L C G (inspected + length ts) (Some (qt_hash (last ts))) previous')))"
  by pat_completeness auto
termination
  by (relation "measure (\<lambda>(L, C, G, inspected, boundary, previous). FORCED_UP_MAX_ITEMS - inspected)")
    (simp, clarsimp simp: not_le intro!: diff_less_mono2)

declare has_forced_up_seeding.simps [simp del]

definition has_active_seeding :: "lib \<Rightarrow> qb_conf \<Rightarrow> 'w guard \<Rightarrow> ('w, bool) qbm" where
  "has_active_seeding L C G =
    bindH (torrent_probe L C G ''upspeed'') (\<lambda>fastest.
    if \<not> opt_ok (\<lambda>t. \<not> is_active_seeding L t) fastest then returnH True
    else
      bindH (torrent_probe L C G ''state'') (\<lambda>last_state.
      if \<not> opt_ok (\<lambda>t. \<not> is_active_seeding L t) last_state then returnH True
      else has_forced_up_seeding L C G 0 None None))"

section \<open>The whole list\<close>

definition TORRENT_PAGE_SIZE :: nat where "TORRENT_PAGE_SIZE = 500"
definition TORRENT_MIN_PAGE_SIZE :: nat where "TORRENT_MIN_PAGE_SIZE = 2"
definition TORRENT_MAX_ITEMS :: nat where "TORRENT_MAX_ITEMS = 100000"

definition unstable_torrent_list :: exn where
  "unstable_torrent_list = app_err_retry ''QB_TORRENT_LIST_CHANGED'' 409"

definition list_page :: "lib \<Rightarrow> qb_conf \<Rightarrow> 'w guard \<Rightarrow> nat \<Rightarrow> nat \<Rightarrow> ('w, json list) qbm" where
  "list_page L C G page_size offset =
    bindH (read_request C G path_info
      [(''sort'', ''hash''), (''reverse'', ''false''), (''limit'', show_nat page_size), (''offset'', show_nat offset)])
      (\<lambda>r.
    bindH (liftH (json_list L r)) (\<lambda>payload.
    bindH (raise_ifH (page_size < length payload) (app_err ''QB_TORRENT_PAGINATION_INVALID'' 502)) (\<lambda>_.
    returnH payload)))"

text \<open>One page: validated, in order, continuing the list; the list it extends.\<close>

definition extend_list ::
    "lib \<Rightarrow> qb_conf \<Rightarrow> qb_torrent list \<Rightarrow> string option \<Rightarrow> json list \<Rightarrow> exn + qb_torrent list" where
  "extend_list L C torrents boundary payload =
    bindR (parse_torrents L C payload) (\<lambda>page.
    bindR (raise_if (\<not> adjacent (\<lambda>x y. x < y) (map qt_hash page)) unstable_torrent_list) (\<lambda>_.
    bindR (after_boundary unstable_torrent_list boundary page) (\<lambda>fresh.
    bindR (raise_if (fresh \<noteq> [] \<and> torrents \<noteq> [] \<and> qt_hash (hd fresh) \<le> qt_hash (last torrents))
      unstable_torrent_list) (\<lambda>_.
    bindR (raise_if (TORRENT_MAX_ITEMS < length torrents + length fresh)
      (app_err ''QB_TORRENT_LIST_LIMIT_EXCEEDED'' 502)) (\<lambda>_.
    Inr (torrents @ fresh))))))"

lemma parse_torrents_length: "parse_torrents L C payload = Inr page \<Longrightarrow> length page = length payload"
  by (auto simp: parse_torrents_def mapR_Inr_iff dest: list_all2_lengthD)

lemma after_boundary_length:
  "after_boundary e boundary page = Inr fresh \<Longrightarrow> length page \<le> length fresh + overlap boundary"
  by (auto simp: after_boundary_def overlap_def split: option.splits list.splits if_splits)

lemma overlap_le: "overlap boundary \<le> 1"
  by (simp add: overlap_def split: option.split)

lemma extend_list_Inr:
  assumes "extend_list L C torrents boundary payload = Inr all"
  obtains fresh where "all = torrents @ fresh" "length payload \<le> length fresh + 1"
    "length all \<le> TORRENT_MAX_ITEMS"
proof -
  from assms obtain page fresh where *: "parse_torrents L C payload = Inr page"
    "after_boundary unstable_torrent_list boundary page = Inr fresh"
    "all = torrents @ fresh" "length torrents + length fresh \<le> TORRENT_MAX_ITEMS"
    by (auto simp: extend_list_def result_simps not_less)
  with parse_torrents_length [OF *(1)] after_boundary_length [OF *(2)] overlap_le [of boundary]
  show thesis by (intro that [of fresh]) auto
qed

text \<open>The page size is at least \<open>TORRENT_MIN_PAGE_SIZE\<close>: it is given by what it has above that.\<close>

function list_torrents_paginated ::
    "lib \<Rightarrow> qb_conf \<Rightarrow> 'w guard \<Rightarrow> nat \<Rightarrow> qb_torrent list \<Rightarrow> string option \<Rightarrow> ('w, qb_torrent list) qbm" where
  "list_torrents_paginated L C G extra torrents boundary =
    bindH (list_page L C G (TORRENT_MIN_PAGE_SIZE + extra) (length torrents - 1)) (\<lambda>payload.
    case extend_list L C torrents boundary payload of
      Inl e \<Rightarrow> raiseH e
    | Inr all \<Rightarrow>
        if length payload < TORRENT_MIN_PAGE_SIZE + extra then returnH all
        else if all = [] then raiseH unstable_torrent_list
        else list_torrents_paginated L C G extra all (Some (qt_hash (last all))))"
  by pat_completeness auto
termination
proof (relation "measure (\<lambda>(L, C, G, extra, torrents, boundary). Suc TORRENT_MAX_ITEMS - length torrents)",
    goal_cases)
  case (2 L C G extra torrents boundary payload all)
  then show ?case
    by (auto elim!: extend_list_Inr simp: TORRENT_MIN_PAGE_SIZE_def)
qed simp

declare list_torrents_paginated.simps [simp del]

function list_torrents_from :: "lib \<Rightarrow> qb_conf \<Rightarrow> 'w guard \<Rightarrow> nat \<Rightarrow> ('w, qb_torrent list) qbm" where
  "list_torrents_from L C G page_size =
    catchH (list_torrents_paginated L C G (page_size - TORRENT_MIN_PAGE_SIZE) [] None) (\<lambda>e.
      if \<not> too_large e \<or> page_size \<le> TORRENT_MIN_PAGE_SIZE then raiseH e
      else list_torrents_from L C G (max TORRENT_MIN_PAGE_SIZE (page_size div 2)))"
  by pat_completeness auto
termination
  by (relation "measure (\<lambda>(L, C, G, page_size). page_size)") (auto simp: TORRENT_MIN_PAGE_SIZE_def)

declare list_torrents_from.simps [simp del]

definition list_torrents :: "lib \<Rightarrow> qb_conf \<Rightarrow> 'w guard \<Rightarrow> ('w, qb_torrent list) qbm" where
  "list_torrents L C G = list_torrents_from L C G TORRENT_PAGE_SIZE"

end
