(* ===== verification/QbAdapter.thy ===== *)
theory QbAdapter
  imports QbQueries
begin

text \<open>
  The writing client of qBittorrent (\<open>adapters/downloaders/qbittorrent.py\<close>): a torrent is added
  after the searches for its identity and the category is created when it is missing. What was
  sent is in the log of the client; the laws say which requests an addition may send, and what its
  result then says of them.
\<close>

section \<open>The operations\<close>

datatype qb_add_outcome = AO_SUBMITTED | AO_ALREADY_PRESENT

record qb_add_result =
  qa_info_hash :: string
  qa_outcome :: qb_add_outcome

definition unknown_outcome :: exn where
  "unknown_outcome = app_err_details ''QB_ADD_OUTCOME_UNKNOWN'' 502
     [(''external_write_may_have_occurred'', JBool True)]"

definition add_target_invalid :: exn where
  "add_target_invalid = app_err ''QB_TARGET_INVALID'' 409"

definition bad_target_text :: "string \<Rightarrow> bool" where
  "bad_target_text v \<longleftrightarrow> strip v = [] \<or> list_ex (\<lambda>c. c \<in> {CHR 0x00, CHR 0x0D, CHR 0x0A}) v"

definition validate_target :: "string \<Rightarrow> string \<Rightarrow> string list \<Rightarrow> exn + unit" where
  "validate_target save_path category tags =
    bindR (raise_if (list_ex bad_target_text ([save_path, category] @ tags)) add_target_invalid) (\<lambda>_.
    raise_if (20 < length tags \<or> list_ex (\<lambda>t. CHR '','' \<in> set t \<or> 100 < py_len t) tags) add_target_invalid)"

definition version_part :: "string \<Rightarrow> bool" where
  "version_part s \<longleftrightarrow> s = ''0'' \<or> (s \<noteq> [] \<and> list_all is_digit s \<and> hd s \<noteq> CHR ''0'')"

definition match_version :: "string \<Rightarrow> (nat \<times> nat \<times> nat) option" where
  "match_version s =
    (case split_on (CHR ''.'') s of
       [a, b, c] \<Rightarrow> if version_part a \<and> version_part b \<and> version_part c
         then Some (read_nat a, read_nat b, read_nat c) else None
     | _ \<Rightarrow> None)"

definition STOPPED_ADD_PARAMETER_SINCE :: "nat \<times> nat \<times> nat" where
  "STOPPED_ADD_PARAMETER_SINCE = (2, 11, 0)"

fun version_le :: "nat \<times> nat \<times> nat \<Rightarrow> nat \<times> nat \<times> nat \<Rightarrow> bool" where
  "version_le (a, b, c) (a', b', c') \<longleftrightarrow> a < a' \<or> (a = a' \<and> (b < b' \<or> (b = b' \<and> c \<le> c')))"

definition add_state_field :: "string \<Rightarrow> exn + string" where
  "add_state_field raw =
    (case match_version raw of
       None \<Rightarrow> Inl (app_err ''QB_WEB_API_VERSION_INVALID'' 502)
     | Some v \<Rightarrow>
         if fst v \<noteq> 2 then Inl (app_err ''QB_WEB_API_VERSION_UNSUPPORTED'' 409)
         else Inr (if version_le STOPPED_ADD_PARAMETER_SINCE v then ''stopped'' else ''paused''))"

definition get_add_state_field :: "lib \<Rightarrow> qb_conf \<Rightarrow> 'w guard \<Rightarrow> ('w, string) qbm" where
  "get_add_state_field L C G =
    bindH (getH qb_field) (\<lambda>known.
    case known of
      Some f \<Rightarrow> returnH f
    | None \<Rightarrow>
        bindH (get_web_api_version L C G) (\<lambda>raw.
        bindH (liftH (add_state_field raw)) (\<lambda>f.
        bindH (modifyH (\<lambda>s. s\<lparr> qb_field := Some f \<rparr>)) (\<lambda>_.
        returnH f))))"

definition require_writable :: "qb_conf \<Rightarrow> ('w, unit) qbm" where
  "require_writable C =
    bindH (raise_ifH (\<not> qc_enable_write C) write_disabled) (\<lambda>_.
    bindH (getH qb_auth) (\<lambda>auth. raise_ifH (\<not> auth) not_authenticated))"

definition post_request :: "string \<Rightarrow> (string \<times> string) list \<Rightarrow> string option \<Rightarrow> http_request" where
  "post_request path form file =
    \<lparr> rq_method = POST, rq_path = path, rq_params = [], rq_data = form, rq_file = file \<rparr>"

definition not_performed :: "app_error \<Rightarrow> bool" where
  "not_performed a \<longleftrightarrow> map_of (err_details a) ''external_request_performed'' = Some (JBool False)"

definition answer_refused :: "lib \<Rightarrow> http_response \<Rightarrow> bool" where
  "answer_refused L r \<longleftrightarrow> looks_like_html L r \<or> strip (rs_text r) \<noteq> ''Ok.''"

text \<open>The creation of the category: the error it is left with, which the second look may heal.\<close>

definition create_category ::
    "lib \<Rightarrow> qb_conf \<Rightarrow> 'w guard \<Rightarrow> string \<Rightarrow> string \<Rightarrow> 'w guard \<Rightarrow> ('w, app_error option) qbm" where
  "create_category L C G category save_path write_guard =
    catchH
      (bindH (request C G (post_request path_create_category
          [(''category'', category), (''savePath'', save_path)] None) True write_guard) (\<lambda>r.
       returnH (if answer_refused L r
         then Some \<lparr> error_code = ''QB_RESPONSE_INVALID'', status_code = 502, retryable = False, err_details = [] \<rparr>
         else None)))
      (\<lambda>e. case e of
         AppErr a \<Rightarrow> if not_performed a \<or> error_code a = ''QB_AUTH_FAILED'' then raiseH e else returnH (Some a)
       | _ \<Rightarrow> raiseH e)"

definition category_unknown :: "string \<Rightarrow> exn" where
  "category_unknown category = AppErr \<lparr> error_code = ''QB_CATEGORY_CREATE_OUTCOME_UNKNOWN'', status_code = 502,
     retryable = True, err_details = [(''category'', JStr category), (''category_write_may_have_occurred'', JBool True)] \<rparr>"

definition category_failed :: "string \<Rightarrow> app_error option \<Rightarrow> exn" where
  "category_failed category cause = AppErr \<lparr> error_code = ''QB_CATEGORY_CREATE_FAILED'', status_code = 502,
     retryable = True, err_details = (''category'', JStr category)
       # (case cause of None \<Rightarrow> [] | Some a \<Rightarrow> [(''cause_error_code'', JStr (error_code a))]) \<rparr>"

definition ensure_category_body ::
    "lib \<Rightarrow> qb_conf \<Rightarrow> 'w guard \<Rightarrow> string \<Rightarrow> string \<Rightarrow> 'w guard \<Rightarrow> ('w, unit) qbm" where
  "ensure_category_body L C G category save_path write_guard =
    bindH (get_categories L C G) (\<lambda>before.
    if category \<in> fst ` set before then returnH ()
    else
      bindH (create_category L C G category save_path write_guard) (\<lambda>cause.
      bindH (catchH (get_categories L C G)
        (\<lambda>e. case e of AppErr _ \<Rightarrow> raiseH (category_unknown category) | _ \<Rightarrow> raiseH e)) (\<lambda>after.
      raise_ifH (category \<notin> fst ` set after) (category_failed category cause))))"

definition ensure_category ::
    "lib \<Rightarrow> qb_conf \<Rightarrow> 'w guard \<Rightarrow> string \<Rightarrow> string \<Rightarrow> 'w guard \<Rightarrow> ('w, unit) qbm" where
  "ensure_category L C G category save_path write_guard =
    bindH (require_writable C) (\<lambda>_.
    bindH (liftH (validate_target save_path category [])) (\<lambda>_.
    ensure_category_body L C G category save_path write_guard))"

record add_order =
  ao_torrent :: string
  ao_expected_info_hash :: string
  ao_save_path :: string
  ao_category :: string
  ao_tags :: "string list"
  ao_start_immediately :: bool
  ao_category_prepared :: bool

definition add_form :: "add_order \<Rightarrow> string \<Rightarrow> http_request" where
  "add_form od field = post_request path_add
    [(''savepath'', ao_save_path od), (''category'', ao_category od), (''tags'', join '','' (ao_tags od)),
     (field, if ao_start_immediately od then ''false'' else ''true'')] (Some (ao_torrent od))"

text \<open>The request itself: only an error that says that nothing was sent is passed on.\<close>

definition send_torrent :: "lib \<Rightarrow> qb_conf \<Rightarrow> 'w guard \<Rightarrow> http_request \<Rightarrow> 'w guard \<Rightarrow> ('w, unit) qbm" where
  "send_torrent L C G rq write_guard =
    bindH (catchH (request C G rq True write_guard)
      (\<lambda>e. case e of AppErr a \<Rightarrow> raiseH (if not_performed a then e else unknown_outcome) | _ \<Rightarrow> raiseH e)) (\<lambda>r.
    raise_ifH (answer_refused L r) unknown_outcome)"

definition identity_list :: "validated_torrent \<Rightarrow> string list" where
  "identity_list m = sorted_list_of_set (vt_identity_hashes m)"

definition check_order :: "lib \<Rightarrow> bencode_lib \<Rightarrow> add_order \<Rightarrow> exn + validated_torrent" where
  "check_order L B od =
    bindR (raise_if (\<not> valid_info_hash (ao_expected_info_hash od))
      (app_err ''QB_EXPECTED_INFO_HASH_REQUIRED'' 409)) (\<lambda>_.
    bindR (validate_target (ao_save_path od) (ao_category od) (ao_tags od)) (\<lambda>_.
    validate_torrent L B (ao_torrent od) (Some (ao_expected_info_hash od)) (10 * 1024 * 1024) 20000))"

definition already_there :: "validated_torrent \<Rightarrow> qb_torrent list \<Rightarrow> bool" where
  "already_there m qs \<longleftrightarrow> list_ex (\<lambda>q. vt_identity_hashes m \<inter> set (qt_identity_hashes q) \<noteq> {}) qs"

definition add_torrent ::
    "lib \<Rightarrow> bencode_lib \<Rightarrow> qb_conf \<Rightarrow> 'w guard \<Rightarrow> add_order \<Rightarrow> 'w guard \<Rightarrow> 'w guard \<Rightarrow> ('w, qb_add_result) qbm" where
  "add_torrent L B C G od category_guard write_guard =
    bindH (require_writable C) (\<lambda>_.
    bindH (liftH (check_order L B od)) (\<lambda>m.
    let selected = casefold L (ao_expected_info_hash od) in
    bindH (find_torrents_by_hashes L C G (identity_list m)) (\<lambda>existing.
    if already_there m existing
    then returnH \<lparr> qa_info_hash = selected, qa_outcome = AO_ALREADY_PRESENT \<rparr>
    else
      bindH (get_add_state_field L C G) (\<lambda>field.
      bindH (whenH (\<not> ao_category_prepared od)
        (ensure_category L C G (ao_category od) (ao_save_path od)
          (case category_guard of None \<Rightarrow> write_guard | Some g \<Rightarrow> Some g))) (\<lambda>_.
      bindH (send_torrent L C G (add_form od field) write_guard) (\<lambda>_.
      returnH \<lparr> qa_info_hash = selected, qa_outcome = AO_SUBMITTED \<rparr>))))))"

end
