(* ===== verification/QbLaws.thy ===== *)
theory QbLaws
  imports QbAdapter
begin

text \<open>
  The laws of the qBittorrent clients. The locale states what a relation on the states of a client
  needs so that every operation keeps it: a session and the requests of a kind may be recorded.
  Interpreted on the log of the requests it says which requests an operation may send; the worker
  interprets it on its own state.
\<close>

section \<open>The contract of a client\<close>

definition guard_keeps :: "('w qb \<Rightarrow> 'w qb \<Rightarrow> bool) \<Rightarrow> 'w guard \<Rightarrow> bool" where
  "guard_keeps R G \<longleftrightarrow> (case G of None \<Rightarrow> True | Some g \<Rightarrow> evolves R (on_world g))"

lemma evolves_case_sum:
  "(\<And>e. x = Inl e \<Longrightarrow> evolves R (m e)) \<Longrightarrow> (\<And>y. x = Inr y \<Longrightarrow> evolves R (n y)) \<Longrightarrow>
    evolves R (case x of Inl e \<Rightarrow> m e | Inr y \<Rightarrow> n y)"
  by (cases x) simp_all

lemma evolves_case_exn:
  "(\<And>a. evolves R (m a)) \<Longrightarrow> evolves R n \<Longrightarrow> evolves R (case e of AppErr a \<Rightarrow> m a | _ \<Rightarrow> n)"
  by (cases e) simp_all

locale qb_contract = store_preorder R
  for R :: "'w qb \<Rightarrow> 'w qb \<Rightarrow> bool" +
  fixes sendable :: "http_request \<Rightarrow> bool"
  assumes session: "R s (s\<lparr> qb_auth := a, qb_field := f \<rparr>)"
    and sending: "sendable rq \<Longrightarrow> R s (s\<lparr> qb_sent := qb_sent s @ [rq] \<rparr>)"
    and reads_sendable: "request_key rq \<in> set read_requests \<Longrightarrow> sendable rq"
begin

lemma keeps_session: "evolves R clear_session" "evolves R (modifyH (\<lambda>s. s\<lparr> qb_auth := b \<rparr>))"
  "evolves R (modifyH (\<lambda>s. s\<lparr> qb_field := x \<rparr>))"
proof -
  show "evolves R clear_session" unfolding clear_session_def by (rule evolves_modify) (rule session)
  show "evolves R (modifyH (\<lambda>s. s\<lparr> qb_auth := b \<rparr>))"
    by (rule evolves_modify) (use session [where a = b] in \<open>metis qb.surjective qb.update_convs(1,2)\<close>)
  show "evolves R (modifyH (\<lambda>s. s\<lparr> qb_field := x \<rparr>))"
    by (rule evolves_modify) (use session [where f = x] in \<open>metis qb.surjective qb.update_convs(1,2)\<close>)
qed

lemma keeps_guard: "guard_keeps R G \<Longrightarrow> evolves R (run_before_send_guard G)"
  unfolding run_before_send_guard_def guard_keeps_def
  by (cases G) (auto intro!: evolves_return evolves_catch evolves_raise)

lemma keeps_send:
  assumes "sendable rq"
  shows "evolves R (send C rq)"
  unfolding evolves_def
proof
  fix s :: "'w qb"
  have "snd (send C rq s) = s\<lparr> qb_sent := qb_sent s @ [rq] \<rparr>"
    by (simp add: send_def Let_def split: http_outcome.split)
  with sending [OF assms] show "R s (snd (send C rq s))" by simp
qed

lemma keeps_status: "evolves R (check_status r)"
  unfolding check_status_def by (intro evolves_rules keeps_session)

lemma keeps_request:
  assumes "sendable rq" "guard_keeps R G" "guard_keeps R g"
  shows "evolves R (request C G rq b g)"
  unfolding request_def by (intro evolves_rules keeps_guard keeps_send keeps_status assms)

lemma keeps_read: "path \<in> set [path_version, path_web_api, path_info, path_files, path_categories] \<Longrightarrow>
    guard_keeps R G \<Longrightarrow> evolves R (read_request C G path ps)"
  unfolding read_request_def
  by (intro keeps_request reads_sendable)
    (auto simp: request_key_def get_request_def read_requests_def guard_keeps_def)

lemma keeps_authenticate:
  assumes "guard_keeps R G"
  shows "evolves R (authenticate L C G)"
  unfolding authenticate_def
  by (intro evolves_rules evolves_catch keeps_session keeps_request reads_sendable assms)
    (simp_all add: login_request_def request_key_def read_requests_def guard_keeps_def)

lemma keeps_batch:
  assumes "guard_keeps R G"
  shows "evolves R (find_torrents_by_hash_batch L C G hs)"
  using assms
proof (induction L C G hs rule: find_torrents_by_hash_batch.induct)
  case (1 L C G hs)
  have answer: "evolves R (batch_answer L C G hs)"
    unfolding batch_answer_def by (intro evolves_rules evolves_catch keeps_read 1(3)) simp_all
  show ?case
    unfolding find_torrents_by_hash_batch.simps [of L C G hs]
    by (intro evolves_rules evolves_case_sum answer 1(1,2) 1(3)) assumption+
qed

lemma keeps_batches: "guard_keeps R G \<Longrightarrow> evolves R (find_batches L C G bs found)"
  by (induction bs arbitrary: found) (auto intro!: evolves_return evolves_bind keeps_batch)

lemma keeps_find: "guard_keeps R G \<Longrightarrow> evolves R (find_torrents_by_hashes L C G hs)"
  unfolding find_torrents_by_hashes_def by (intro evolves_rules keeps_batches)

lemma keeps_categories: "guard_keeps R G \<Longrightarrow> evolves R (get_categories L C G)"
  unfolding get_categories_def by (intro evolves_rules keeps_read) simp_all

lemma keeps_field: "guard_keeps R G \<Longrightarrow> evolves R (get_add_state_field L C G)"
  unfolding get_add_state_field_def get_web_api_version_def
  by (intro evolves_rules keeps_session keeps_read) simp_all

lemma keeps_writable: "evolves R (require_writable C)"
  unfolding require_writable_def by (intro evolves_rules)

lemma keeps_category:
  assumes "\<And>form. sendable (post_request path_create_category form None)" "guard_keeps R G" "guard_keeps R g"
  shows "evolves R (ensure_category L C G category save_path g)"
  unfolding ensure_category_def ensure_category_body_def create_category_def
  by (intro evolves_rules evolves_catch evolves_case_exn keeps_writable keeps_categories keeps_request assms)

end

section \<open>The log of the requests\<close>

definition is_add :: "http_request \<Rightarrow> bool" where
  "is_add rq \<longleftrightarrow> request_key rq = (POST, path_add)"

definition appends :: "(http_request \<Rightarrow> bool) \<Rightarrow> 'w qb \<Rightarrow> 'w qb \<Rightarrow> bool" where
  "appends P s t \<longleftrightarrow> (\<exists>rs. qb_sent t = qb_sent s @ rs \<and> list_all P rs)"

lemma add_is_no_read: "request_key rq \<in> set read_requests \<Longrightarrow> \<not> is_add rq"
  by (auto simp: is_add_def read_requests_def path_add_def path_login_def)

interpretation log: qb_contract "appends (\<lambda>rq. \<not> is_add rq)" "\<lambda>rq. \<not> is_add rq"
proof unfold_locales
  show "appends P s s" for P and s :: "'w qb" by (simp add: appends_def)
  show "appends P s t \<Longrightarrow> appends P t u \<Longrightarrow> appends P s u" for P and s t u :: "'w qb"
    by (auto simp: appends_def)
qed (auto simp: appends_def add_is_no_read)

lemma guard_keeps_log: "(\<And>s a. R s (s\<lparr> qb_world := a \<rparr>)) \<Longrightarrow> guard_keeps R G"
  by (auto simp: guard_keeps_def evolves_def on_world_def split: option.split prod.split)

lemma log_guard: "guard_keeps (appends P) G"
  by (rule guard_keeps_log) (simp add: appends_def)

lemma guard_leaves_log: "run_before_send_guard G s = (r, t) \<Longrightarrow> qb_sent t = qb_sent s"
  by (auto simp: run_before_send_guard_def handler_defs catchH_def on_world_def
      split: option.splits prod.splits sum.splits)

lemma sent_error:
  assumes "bindH (send C rq) check_status s = (r, t)"
  shows "qb_sent t = qb_sent s @ [rq] \<and> (\<forall>e. r = Inl e \<longrightarrow> (\<exists>a. e = AppErr a \<and> \<not> not_performed a))"
  using assms
  by (auto simp: send_def Let_def check_status_def clear_session_def handler_defs not_performed_def
      app_err_def app_err_retry_def app_err_details_def split: http_outcome.splits if_splits)

lemma request_log:
  assumes "request C G rq b g s = (r, t)"
  shows "(qb_sent t = qb_sent s \<and> (\<exists>e. r = Inl e))
    \<or> (qb_sent t = qb_sent s @ [rq] \<and> (\<forall>e. r = Inl e \<longrightarrow> (\<exists>a. e = AppErr a \<and> \<not> not_performed a)))"
proof -
  have "(\<exists>e. r = Inl e) \<and> qb_sent t = qb_sent s
      \<or> (\<exists>u. qb_sent u = qb_sent s \<and> bindH (send C rq) check_status u = (r, t))"
    using assms unfolding request_def
    by (cases r)
      (fastforce simp: bindH_Inr_run bindH_Inl_run getH_run raise_ifH_Inr_run raise_ifH_Inl_run
        dest: guard_leaves_log)+
  with sent_error show ?thesis by fastforce
qed

lemma send_torrent_log:
  assumes "send_torrent L C G rq g s = (r, t)"
  shows "(qb_sent t = qb_sent s \<and> (\<exists>e. r = Inl e))
    \<or> (qb_sent t = qb_sent s @ [rq] \<and> (r = Inr () \<or> r = Inl unknown_outcome))"
proof (cases "request C G rq True g s")
  case (Pair q u)
  with request_log [OF Pair] assms show ?thesis
    by (cases q) (auto simp: send_torrent_def handler_defs catchH_def split: exn.splits prod.splits if_splits)
qed

section \<open>What an addition sends\<close>

text \<open>What the result of an addition says of the requests it sent.\<close>

definition add_report :: "add_order \<Rightarrow> exn + qb_add_result \<Rightarrow> http_request list \<Rightarrow> bool" where
  "add_report od r adds \<longleftrightarrow>
    (adds = [] \<or> (\<exists>f. adds = [add_form od f])) \<and>
    (case r of
       Inr res \<Rightarrow> qa_outcome res = AO_SUBMITTED \<longleftrightarrow> adds \<noteq> []
     | Inl e \<Rightarrow> adds \<noteq> [] \<longrightarrow> e = unknown_outcome)"

definition add_spec :: "add_order \<Rightarrow> 'w qb \<Rightarrow> (exn + qb_add_result) \<times> 'w qb \<Rightarrow> bool" where
  "add_spec od s rt \<longleftrightarrow> (\<exists>rs. qb_sent (snd rt) = qb_sent s @ rs \<and> add_report od (fst rt) (filter is_add rs))"

lemma no_adds: "list_all (\<lambda>rq. \<not> is_add rq) rs \<Longrightarrow> filter is_add rs = []"
  by (simp add: filter_empty_conv list_all_iff)

lemma add_spec_bind:
  assumes m: "evolves (appends (\<lambda>rq. \<not> is_add rq)) m"
    and f: "\<And>x u. m s = (Inr x, u) \<Longrightarrow> add_spec od u (f x u)"
  shows "add_spec od s (bindH m f s)"
proof (cases "m s")
  case (Pair r u)
  from evolvesD [OF m Pair] obtain rs where rs: "qb_sent u = qb_sent s @ rs" "filter is_add rs = []"
    by (auto simp: appends_def dest: no_adds)
  show ?thesis
  proof (cases r)
    case (Inl e)
    with Pair rs show ?thesis by (auto simp: add_spec_def add_report_def bindH_def)
  next
    case (Inr x)
    with f [of x u] Pair obtain rs' where "qb_sent (snd (f x u)) = qb_sent u @ rs'"
      "add_report od (fst (f x u)) (filter is_add rs')" by (auto simp: add_spec_def)
    with Pair Inr rs show ?thesis by (auto simp: add_spec_def bindH_def intro!: exI [of _ "rs @ rs'"])
  qed
qed

lemma add_spec_present: "qa_outcome res = AO_ALREADY_PRESENT \<Longrightarrow> add_spec od s (returnH res s)"
  by (simp add: add_spec_def add_report_def returnH_def)

lemma add_spec_send:
  "qa_outcome res = AO_SUBMITTED \<Longrightarrow>
    add_spec od s (bindH (send_torrent L C G (add_form od f) g) (\<lambda>_. returnH res) s)"
proof (cases "send_torrent L C G (add_form od f) g s")
  case (Pair r u)
  assume res: "qa_outcome res = AO_SUBMITTED"
  have "is_add (add_form od f)" by (simp add: is_add_def request_key_def add_form_def post_request_def)
  with send_torrent_log [OF Pair] res Pair show ?thesis
    by (auto simp: add_spec_def add_report_def handler_defs)
qed

lemma category_is_no_add: "\<not> is_add (post_request path_create_category form None)"
  by (simp add: is_add_def request_key_def post_request_def path_add_def path_create_category_def)

text \<open>C4: A torrent is added at most once per call, and the result tells. A call of the writing client
  sends at most one request that adds a torrent, the one of the order; it sent it exactly when it
  returns \<open>SUBMITTED\<close>, and when it raises after sending it the error is \<open>QB_ADD_OUTCOME_UNKNOWN\<close>:
  a timeout, a refused or unreadable answer is never reported as a clean failure.\<close>
theorem add_torrent_reports_what_it_sent:
  "\<exists>rs. qb_sent (snd (add_torrent L B C G od cg wg s)) = qb_sent s @ rs
    \<and> add_report od (fst (add_torrent L B C G od cg wg s)) (filter is_add rs)"
proof -
  have "add_spec od s (add_torrent L B C G od cg wg s)"
    unfolding add_torrent_def Let_def
  proof (intro add_spec_bind log.evolves_rules log.keeps_writable log.keeps_find log.keeps_field
      log.keeps_category log_guard category_is_no_add, goal_cases)
    case (1 _ _ m _ qs u)
    show ?case
      by (auto intro!: add_spec_present add_spec_bind log.evolves_rules log.keeps_field log.keeps_category
          log_guard category_is_no_add add_spec_send)
  qed
  then show ?thesis by (simp add: add_spec_def)
qed

section \<open>The whole list is sorted and bounded\<close>

definition hashes_increase :: "qb_torrent list \<Rightarrow> bool" where
  "hashes_increase ts \<longleftrightarrow> sorted_wrt (<) (map qt_hash ts)"

lemma adjacent_sorted: "transp P \<Longrightarrow> adjacent P xs \<longleftrightarrow> sorted_wrt P xs"
proof (induction P xs rule: adjacent.induct)
  case (1 P x y zs)
  then show ?case by (auto dest: transpD)
qed simp_all

lemma adjacent_hashes: "adjacent (\<lambda>x y. x < y) (map qt_hash page) \<longleftrightarrow> hashes_increase page"
  unfolding hashes_increase_def by (rule adjacent_sorted) (simp add: transp_def)

lemma hashes_increase_append:
  assumes "hashes_increase xs" "hashes_increase ys" "xs \<noteq> [] \<Longrightarrow> ys \<noteq> [] \<Longrightarrow> qt_hash (last xs) < qt_hash (hd ys)"
  shows "hashes_increase (xs @ ys)"
proof -
  have "qt_hash x < qt_hash y" if "x \<in> set xs" "y \<in> set ys" for x y
  proof -
    from that have ne: "xs \<noteq> []" "ys \<noteq> []" by auto
    have "qt_hash x \<le> qt_hash (last xs)"
      using assms(1) that(1) ne(1)
      by (cases xs rule: rev_cases) (auto simp: hashes_increase_def sorted_wrt_append less_imp_le)
    moreover have "qt_hash (hd ys) \<le> qt_hash y"
      using assms(2) that(2) ne(2) by (cases ys) (auto simp: hashes_increase_def less_imp_le)
    ultimately show ?thesis using assms(3) [OF ne] by simp
  qed
  with assms show ?thesis by (auto simp: hashes_increase_def sorted_wrt_append)
qed

lemma extend_list_sorted:
  assumes run: "extend_list L C torrents boundary payload = Inr all" and srt: "hashes_increase torrents"
  shows "hashes_increase all \<and> length all \<le> TORRENT_MAX_ITEMS"
proof -
  obtain page fresh where page: "adjacent (\<lambda>x y. x < y) (map qt_hash page)"
    and fresh: "after_boundary unstable_torrent_list boundary page = Inr fresh"
    and cont: "\<not> (fresh \<noteq> [] \<and> torrents \<noteq> [] \<and> qt_hash (hd fresh) \<le> qt_hash (last torrents))"
    and all: "all = torrents @ fresh"
    using run unfolding extend_list_def bindR_Inr_iff raise_if_Inr_iff sum.inject by blast
  have "hashes_increase page" using page by (simp only: adjacent_hashes)
  then have "hashes_increase fresh"
    using fresh by (auto simp: after_boundary_def hashes_increase_def split: option.splits list.splits if_splits)
  moreover have "length all \<le> TORRENT_MAX_ITEMS" by (rule extend_list_Inr [OF run])
  ultimately show ?thesis unfolding all using srt cont by (auto intro: hashes_increase_append)
qed

lemma list_torrents_paginated_sorted:
  "list_torrents_paginated L C G extra torrents boundary s = (Inr ts, t) \<Longrightarrow> hashes_increase torrents \<Longrightarrow>
    hashes_increase ts \<and> length ts \<le> TORRENT_MAX_ITEMS"
proof (induction L C G extra torrents boundary arbitrary: s rule: list_torrents_paginated.induct)
  case (1 L C G extra torrents boundary)
  obtain payload u where page: "(case extend_list L C torrents boundary payload of
        Inl e \<Rightarrow> raiseH e
      | Inr all \<Rightarrow>
          if length payload < TORRENT_MIN_PAGE_SIZE + extra then returnH all
          else if all = [] then raiseH unstable_torrent_list
          else list_torrents_paginated L C G extra all (Some (qt_hash (last all)))) u = (Inr ts, t)"
    using 1(2) unfolding list_torrents_paginated.simps [of L C G extra torrents boundary] bindH_Inr_run by blast
  then obtain all where ext: "extend_list L C torrents boundary payload = Inr all"
    by (cases "extend_list L C torrents boundary payload") (simp_all add: raiseH_def)
  with page have rest: "(if length payload < TORRENT_MIN_PAGE_SIZE + extra then returnH all
        else if all = [] then raiseH unstable_torrent_list
        else list_torrents_paginated L C G extra all (Some (qt_hash (last all)))) u = (Inr ts, t)"
    by simp
  from extend_list_sorted [OF ext 1(3)] have all: "hashes_increase all" "length all \<le> TORRENT_MAX_ITEMS"
    by simp_all
  show ?case
  proof (cases "length payload < TORRENT_MIN_PAGE_SIZE + extra")
    case True
    with rest all show ?thesis by (simp add: returnH_def)
  next
    case False
    with rest have ne: "all \<noteq> []" by (auto simp: raiseH_def)
    with False rest have "list_torrents_paginated L C G extra all (Some (qt_hash (last all))) u = (Inr ts, t)"
      by simp
    from 1(1) [OF ext False ne this all(1)] show ?thesis .
  qed
qed

lemma list_torrents_from_sorted:
  "list_torrents_from L C G page_size s = (Inr ts, t) \<Longrightarrow>
    hashes_increase ts \<and> length ts \<le> TORRENT_MAX_ITEMS"
proof (induction L C G page_size arbitrary: s rule: list_torrents_from.induct)
  case (1 L C G page_size)
  let ?m = "list_torrents_paginated L C G (page_size - TORRENT_MIN_PAGE_SIZE) [] None"
  obtain r u where run: "?m s = (r, u)" by (cases "?m s")
  show ?case
  proof (cases r)
    case (Inl e)
    with 1(2) run have big: "\<not> (\<not> too_large e \<or> page_size \<le> TORRENT_MIN_PAGE_SIZE)"
      and again: "list_torrents_from L C G (max TORRENT_MIN_PAGE_SIZE (page_size div 2)) u = (Inr ts, t)"
      by (simp_all add: list_torrents_from.simps [of L C G page_size] catchH_def raiseH_def split: if_splits)
    show ?thesis by (rule 1(1) [OF big again])
  next
    case (Inr xs)
    with 1 run have "?m s = (Inr ts, t)"
      by (simp add: list_torrents_from.simps [of L C G page_size] catchH_def)
    from list_torrents_paginated_sorted [OF this] show ?thesis by (simp add: hashes_increase_def)
  qed
qed

text \<open>The list of the torrents is consistent. When the paginated query returns, its result is in
  strictly increasing order of info hash, so no torrent is listed twice although the pages overlap
  and qBittorrent may change between them, and it has at most 100000 torrents: a list that moved
  between two pages is an error, never a wrong answer.\<close>
theorem list_torrents_sorted:
  assumes "list_torrents L C G s = (Inr ts, t)"
  shows "sorted_wrt (<) (map qt_hash ts) \<and> distinct (map qt_hash ts) \<and> length ts \<le> 100000"
proof -
  from list_torrents_from_sorted [OF assms [unfolded list_torrents_def]]
  have "sorted_wrt (<) (map qt_hash ts)" "length ts \<le> 100000"
    by (simp_all add: hashes_increase_def TORRENT_MAX_ITEMS_def)
  then show ?thesis by (simp add: strict_sorted_iff)
qed

section \<open>What a search by hash returns and costs\<close>

definition found_ok :: "string list \<Rightarrow> qb_torrent list \<Rightarrow> bool" where
  "found_ok hs ts \<longleftrightarrow> distinct (map qt_hash ts)
    \<and> list_all (\<lambda>t. set hs \<inter> set (qt_identity_hashes t) \<noteq> {}) ts"

lemma put_torrent_ok:
  assumes "found_ok hs ts" and "set hs \<inter> set (qt_identity_hashes t) \<noteq> {}"
  shows "found_ok hs (put_torrent t ts)"
proof -
  have same: "map qt_hash (map (\<lambda>x. if qt_hash x = qt_hash t then t else x) ts) = map qt_hash ts"
    by simp
  show ?thesis
  proof (cases "qt_hash t \<in> qt_hash ` set ts")
    case True
    with assms show ?thesis
      unfolding found_ok_def put_torrent_def if_P [OF True] same by (auto simp: list_all_iff)
  next
    case False
    with assms show ?thesis by (simp add: found_ok_def put_torrent_def)
  qed
qed

lemma fold_put_ok:
  "found_ok hs ts \<Longrightarrow> list_all (\<lambda>t. set hs \<inter> set (qt_identity_hashes t) \<noteq> {}) page \<Longrightarrow>
    found_ok hs (fold put_torrent page ts)"
  by (induction page arbitrary: ts) (simp_all add: put_torrent_ok)

lemma batch_found:
  "find_torrents_by_hash_batch L C G hs s = (Inr page, t) \<Longrightarrow>
    list_all (\<lambda>t. set hs \<inter> set (qt_identity_hashes t) \<noteq> {}) page"
proof (induction L C G hs arbitrary: s t page rule: find_torrents_by_hash_batch.induct)
  case (1 L C G hs)
  obtain answer u where run: "(case answer of
      Inl e \<Rightarrow>
        if \<not> too_large e \<or> length hs \<le> 1 then raiseH e
        else
          bindH (find_torrents_by_hash_batch L C G (take (length hs div 2) hs)) (\<lambda>xs.
          bindH (find_torrents_by_hash_batch L C G (drop (length hs div 2) hs)) (\<lambda>ys.
          returnH (xs @ ys)))
    | Inr payload \<Rightarrow>
        bindH (liftH (parse_torrents L C payload)) (\<lambda>page. liftH (check_batch hs page))) u = (Inr page, t)"
    using 1(3) unfolding find_torrents_by_hash_batch.simps [of L C G hs] bindH_Inr_run by blast
  show ?case
  proof (cases answer)
    case (Inl e)
    show ?thesis
    proof (cases "\<not> too_large e \<or> length hs \<le> 1")
      case True
      with run Inl show ?thesis by (simp add: raiseH_def)
    next
      case False
      with run Inl obtain xs ys u' where
        xs: "find_torrents_by_hash_batch L C G (take (length hs div 2) hs) u = (Inr xs, u')"
        and ys: "find_torrents_by_hash_batch L C G (drop (length hs div 2) hs) u' = (Inr ys, t)"
        and page: "page = xs @ ys"
        by (auto simp: bindH_Inr_run returnH_def)
      have "set (take n hs) \<subseteq> set hs" "set (drop n hs) \<subseteq> set hs" for n
        by (simp_all add: set_take_subset set_drop_subset)
      with 1(1) [OF False xs] 1(2) [OF False ys] page show ?thesis
        by (fastforce simp: list_all_iff)
    qed
  next
    case (Inr payload)
    with run show ?thesis
      by (auto simp: bindH_Inr_run liftH_run check_batch_def result_simps list_all_iff list_ex_iff)
  qed
qed

lemma chunks_subset: "b \<in> set (chunks n xs) \<Longrightarrow> set b \<subseteq> set xs"
proof (induction n xs rule: chunks.induct)
  case (2 n x xs)
  have "set (take m xs) \<subseteq> set xs" "set (drop m xs) \<subseteq> set xs" for m
    by (simp_all add: set_take_subset set_drop_subset)
  with 2 show ?case by fastforce
qed simp

lemma batches_found:
  "find_batches L C G bs found s = (Inr ts, t) \<Longrightarrow> found_ok hs found \<Longrightarrow> \<forall>b \<in> set bs. set b \<subseteq> set hs \<Longrightarrow>
    found_ok hs ts"
proof (induction bs arbitrary: found s)
  case Nil
  then show ?case by (simp add: returnH_def)
next
  case (Cons b bs)
  then obtain page u where page: "find_torrents_by_hash_batch L C G b s = (Inr page, u)"
    and rest: "find_batches L C G bs (fold put_torrent page found) u = (Inr ts, t)"
    by (auto simp: bindH_Inr_run)
  from Cons.prems(3) have "set b \<subseteq> set hs" by simp
  with batch_found [OF page] have "list_all (\<lambda>t. set hs \<inter> set (qt_identity_hashes t) \<noteq> {}) page"
    by (fastforce simp: list_all_iff)
  from Cons.IH [OF rest fold_put_ok [OF Cons.prems(2) this]] Cons.prems(3) show ?case by simp
qed

text \<open>A search by info hash returns what was asked. The result names no info hash twice, and every
  torrent in it shares a v1, v2 or truncated v2 identity with one of the hashes that were queried;
  an answer with any other torrent is an error. This holds although the hashes are queried in
  batches that are halved, recursively, while an answer is too large.\<close>
theorem find_torrents_by_hashes_correct:
  assumes "find_torrents_by_hashes L C G hs s = (Inr ts, t)"
  shows "\<exists>queried. query_hashes L hs = Inr queried \<and> distinct (map qt_hash ts)
    \<and> (\<forall>x \<in> set ts. set queried \<inter> set (qt_identity_hashes x) \<noteq> {})"
proof -
  from assms obtain queried where q: "query_hashes L hs = Inr queried"
    and run: "(if queried = [] then returnH [] else find_batches L C G (chunks HASH_QUERY_BATCH_SIZE queried) []) s
      = (Inr ts, t)"
    by (auto simp: find_torrents_by_hashes_def bindH_Inr_run liftH_run)
  have "found_ok queried ts"
  proof (cases "queried = []")
    case True
    with run show ?thesis by (simp add: returnH_def found_ok_def)
  next
    case False
    with run have "find_batches L C G (chunks HASH_QUERY_BATCH_SIZE queried) [] s = (Inr ts, t)" by simp
    then show ?thesis by (rule batches_found) (simp_all add: found_ok_def chunks_subset)
  qed
  with q show ?thesis by (auto simp: found_ok_def list_all_iff)
qed

text \<open>The number of requests an operation may send.\<close>

definition sends_at_most :: "nat \<Rightarrow> ('w, 'a) qbm \<Rightarrow> bool" where
  "sends_at_most n m \<longleftrightarrow> (\<forall>s. length (qb_sent (snd (m s))) \<le> length (qb_sent s) + n)"

lemma sends_bind:
  assumes "sends_at_most m p" "\<And>x. sends_at_most n (f x)" "m + n \<le> k"
  shows "sends_at_most k (bindH p f)"
  unfolding sends_at_most_def
proof
  fix s :: "'a qb"
  obtain r u where run: "p s = (r, u)" by (cases "p s")
  have p: "length (qb_sent u) \<le> length (qb_sent s) + m"
    using assms(1) run by (auto simp: sends_at_most_def dest: spec [of _ s])
  show "length (qb_sent (snd (bindH p f s))) \<le> length (qb_sent s) + k"
  proof (cases r)
    case (Inl e)
    with run p assms(3) show ?thesis by (simp add: bindH_def)
  next
    case (Inr x)
    have "length (qb_sent (snd (f x u))) \<le> length (qb_sent u) + n"
      using assms(2) by (simp add: sends_at_most_def)
    with run p Inr assms(3) show ?thesis by (simp add: bindH_def)
  qed
qed

lemma sends_pure: "sends_at_most n (liftH r)" "sends_at_most n (returnH x)" "sends_at_most n (raiseH e)"
  by (simp_all add: sends_at_most_def liftH_def returnH_def raiseH_def)

lemma sends_read: "sends_at_most 1 (read_request C G path ps)"
proof -
  have "length (qb_sent (snd (read_request C G path ps s))) \<le> length (qb_sent s) + 1" for s :: "'a qb"
    using request_log [of C G "get_request path ps" True None s, OF prod.collapse [symmetric]]
    by (auto simp: read_request_def)
  then show ?thesis by (simp add: sends_at_most_def)
qed

lemma sends_answer: "sends_at_most 1 (batch_answer L C G hs)"
proof -
  have inner: "sends_at_most 1 (bindH (read_request C G path_info (hash_params hs)) (\<lambda>r.
      bindH (liftH (json_list L r)) (\<lambda>payload. returnH (Inr payload :: exn + json list))))"
    by (rule sends_bind [OF sends_read, of 0]) (auto intro: sends_bind sends_pure)
  show ?thesis
    unfolding batch_answer_def sends_at_most_def catchH_def
    using inner by (auto simp: sends_at_most_def returnH_def split: prod.split sum.split) (metis snd_conv)+
qed

lemma sends_batch: "hs \<noteq> [] \<Longrightarrow> sends_at_most (2 * length hs - 1) (find_torrents_by_hash_batch L C G hs)"
proof (induction L C G hs rule: find_torrents_by_hash_batch.induct)
  case (1 L C G hs)
  let ?a = "take (length hs div 2) hs" and ?b = "drop (length hs div 2) hs"
  have rest: "sends_at_most (2 * length hs - 2) (case answer of
      Inl e \<Rightarrow>
        if \<not> too_large e \<or> length hs \<le> 1 then raiseH e
        else bindH (find_torrents_by_hash_batch L C G ?a) (\<lambda>xs.
          bindH (find_torrents_by_hash_batch L C G ?b) (\<lambda>ys. returnH (xs @ ys)))
    | Inr payload \<Rightarrow> bindH (liftH (parse_torrents L C payload)) (\<lambda>page. liftH (check_batch hs page)))" for answer
  proof (cases answer)
    case (Inl e)
    show ?thesis
    proof (cases "\<not> too_large e \<or> length hs \<le> 1")
      case False
      then have two: "2 \<le> length hs" by simp
      then have a: "?a \<noteq> []" "2 * length ?a - 1 + (2 * length ?b - 1) = 2 * length hs - 2" and b: "?b \<noteq> []"
        by auto
      have "sends_at_most (2 * length ?b - 1) (bindH (find_torrents_by_hash_batch L C G ?b) (\<lambda>ys. returnH (xs @ ys)))"
        for xs by (rule sends_bind [OF 1(2) [OF False b] sends_pure(2) [of 0]]) simp
      from sends_bind [OF 1(1) [OF False a(1)] this] a(2) False Inl show ?thesis by simp
    qed (simp add: Inl sends_pure)
  next
    case (Inr payload)
    show ?thesis unfolding Inr sum.case by (rule sends_bind [OF sends_pure(1) [of 0] sends_pure(1) [of 0]]) simp
  qed
  have "1 + (2 * length hs - 2) \<le> 2 * length hs - 1" using 1(3) by (cases hs) auto
  from sends_bind [OF sends_answer rest this] show ?case
    by (simp only: find_torrents_by_hash_batch.simps [of L C G hs])
qed

lemma chunks_cover: "0 < n \<Longrightarrow> concat (chunks n xs) = xs" "b \<in> set (chunks n xs) \<Longrightarrow> b \<noteq> []"
  by (induction n xs rule: chunks.induct) (auto split: if_splits)

lemma sends_batches:
  "\<forall>b \<in> set bs. b \<noteq> [] \<Longrightarrow> sends_at_most (2 * length (concat bs)) (find_batches L C G bs found)"
proof (induction bs arbitrary: found)
  case (Cons b bs)
  have "sends_at_most (2 * length b - 1) (find_torrents_by_hash_batch L C G b)"
    using Cons.prems by (intro sends_batch) simp
  then show ?case unfolding find_batches.simps
    by (rule sends_bind [where n = "2 * length (concat bs)"]) (use Cons in auto)
qed (simp add: sends_pure)

lemma length_dedup: "length (dedup xs) \<le> length xs"
  by (induction xs rule: dedup.induct) (auto intro: order_trans [OF length_filter_le])

lemma query_hashes_length: "query_hashes L hs = Inr qs \<Longrightarrow> length qs \<le> 2 * length hs"
proof -
  assume "query_hashes L hs = Inr qs"
  then obtain ns where ns: "mapR (normalize_hash L) hs = Inr ns"
    and qs: "qs = sort (dedup (concat (map (\<lambda>h. if length h = 64 then [h, take 40 h] else [h]) ns)))"
    by (auto simp: query_hashes_def result_simps)
  have "length (concat (map (\<lambda>h. if length h = 64 then [h, take 40 h] else [h]) ns)) \<le> 2 * length ns"
    by (induction ns) auto
  moreover from ns have "length ns = length hs" by (auto simp: mapR_Inr_iff dest: list_all2_lengthD)
  ultimately show ?thesis unfolding qs using length_dedup order_trans by (simp, blast)
qed

text \<open>C35: A search by info hash is bounded. However qBittorrent answers, timeouts and answers that
  are too large included, a search for n hashes returns after at most 4 n requests: at most two
  identities are queried per hash, and halving the batches costs less than one request more per
  identity.\<close>
theorem find_torrents_by_hashes_bounded:
  "length (qb_sent (snd (find_torrents_by_hashes L C G hs s))) \<le> length (qb_sent s) + 4 * length hs"
proof (cases "query_hashes L hs")
  case (Inl e)
  then show ?thesis by (simp add: find_torrents_by_hashes_def handler_defs)
next
  case (Inr qs)
  have "sends_at_most (2 * length qs) (find_batches L C G (chunks HASH_QUERY_BATCH_SIZE qs) [])"
    using sends_batches [of "chunks HASH_QUERY_BATCH_SIZE qs" L C G "[]"]
      chunks_cover(1) [of HASH_QUERY_BATCH_SIZE qs] chunks_cover(2) [of _ HASH_QUERY_BATCH_SIZE qs]
    by (simp add: HASH_QUERY_BATCH_SIZE_def)
  then have "length (qb_sent (snd (find_torrents_by_hashes L C G hs s))) \<le> length (qb_sent s) + 2 * length qs"
    using Inr by (simp add: find_torrents_by_hashes_def handler_defs sends_at_most_def)
  with query_hashes_length [OF Inr] show ?thesis by simp
qed

section \<open>A concrete server\<close>

definition hash_a :: string where "hash_a = replicate 40 (CHR ''a'')"
definition hash_b :: string where "hash_b = replicate 40 (CHR ''b'')"

definition example_torrent :: "string \<Rightarrow> json" where
  "example_torrent h = JObj [(''hash'', JStr h), (''name'', JStr ''n''), (''size'', JInt 1),
     (''progress'', JFloat ''1.0''), (''ratio'', JFloat ''0.0''), (''state'', JStr ''uploading'')]"

definition example_answer :: http_response where
  "example_answer = \<lparr> rs_status = 200, rs_content_type = ''application/json'', rs_content = ''[]'', rs_text = ''[]'',
     rs_json = Some (JList [example_torrent hash_a, example_torrent hash_b]), rs_sid = False \<rparr>"

definition example_conf :: qb_conf where
  "example_conf = \<lparr> qc_executor = False, qc_enable_write = False, qc_username = ''u'', qc_password = ''p'',
     qc_max_response_bytes = 100, qc_http = (\<lambda>_ _. HttpAnswer example_answer), qc_invalid_fields = (\<lambda>_. []) \<rparr>"

definition example_qb :: "unit qb" where
  "example_qb = (qb_new ())\<lparr> qb_auth := True \<rparr>"

lemma example_torrents: "\<exists>a b. parse_torrents example_lib example_conf [example_torrent hash_a, example_torrent hash_b]
    = Inr [a, b] \<and> qt_hash a = hash_a \<and> qt_hash b = hash_b"
proof -
  have "case parse_torrents example_lib example_conf [example_torrent hash_a, example_torrent hash_b] of
      Inr [a, b] \<Rightarrow> qt_hash a = hash_a \<and> qt_hash b = hash_b | _ \<Rightarrow> False" by code_simp
  then show ?thesis by (auto split: sum.splits list.splits)
qed

lemma hash_order: "hash_a < hash_b" by code_simp

lemma example_page: "\<exists>ts. extend_list example_lib example_conf [] None [example_torrent hash_a, example_torrent hash_b] = Inr ts \<and> map qt_hash ts = [hash_a, hash_b]"
proof -
  obtain a b where "parse_torrents example_lib example_conf [example_torrent hash_a, example_torrent hash_b]
    = Inr [a, b]" "qt_hash a = hash_a" "qt_hash b = hash_b" using example_torrents by (elim exE conjE)
  with hash_order show ?thesis
    by (simp add: extend_list_def after_boundary_def TORRENT_MAX_ITEMS_def)
qed

lemma example_no_html: "\<not> looks_like_html example_lib example_answer"
  by code_simp

lemma example_fields: "rs_status example_answer = 200" "rs_json example_answer = Some (JList [example_torrent hash_a, example_torrent hash_b])"
  "length (rs_content example_answer) = 2"
  by (simp_all add: example_answer_def)

lemma example_conf_fields: "qc_executor example_conf = False" "qc_max_response_bytes example_conf = 100" "qc_http example_conf n rq = HttpAnswer example_answer"
  by (simp_all add: example_conf_def)

lemma info_is_read: "request_key (get_request path_info ps) \<in> set read_requests"
  by (simp add: request_key_def get_request_def read_requests_def)

lemma example_read: "qb_auth s \<Longrightarrow> \<exists>t. read_request example_conf None path_info ps s = (Inr example_answer, t)"
  by (simp add: read_request_def request_def handler_defs info_is_read run_before_send_guard_def send_def Let_def
      check_status_def example_fields example_conf_fields)

lemma example_list_page: "\<exists>t. list_page example_lib example_conf None 500 0 example_qb
    = (Inr [example_torrent hash_a, example_torrent hash_b], t)"
proof -
  obtain t where "read_request example_conf None path_info
      [(''sort'', ''hash''), (''reverse'', ''false''), (''limit'', show_nat 500), (''offset'', show_nat 0)] example_qb = (Inr example_answer, t)"
    using example_read [of example_qb] by (auto simp: example_qb_def)
  then show ?thesis
    unfolding list_page_def
    by (simp add: bindH_def [of "read_request _ _ _ _"])
      (simp add: handler_defs json_list_def json_value_def example_no_html example_fields)
qed

lemma example_list: "\<exists>ts t. list_torrents example_lib example_conf None example_qb = (Inr ts, t)
  \<and> map qt_hash ts = [hash_a, hash_b]"
proof -
  obtain ts where ts: "extend_list example_lib example_conf [] None [example_torrent hash_a, example_torrent hash_b] = Inr ts" "map qt_hash ts = [hash_a, hash_b]" using example_page by (elim exE conjE)
  obtain t where "list_page example_lib example_conf None 500 0 example_qb
      = (Inr [example_torrent hash_a, example_torrent hash_b], t)" using example_list_page by (elim exE)
  then have "list_torrents_paginated example_lib example_conf None 498 [] None example_qb = (Inr ts, t)"
    using ts(1)
    by (subst list_torrents_paginated.simps) (simp add: TORRENT_MIN_PAGE_SIZE_def bindH_def returnH_def)
  with ts(2) show ?thesis
    unfolding list_torrents_def
    by (subst list_torrents_from.simps) (simp add: TORRENT_PAGE_SIZE_def TORRENT_MIN_PAGE_SIZE_def catchH_def)
qed

lemma list_torrents_sorted_witness:
  "\<exists>ts :: qb_torrent list. map qt_hash ts = [hash_a, hash_b] \<and> sorted_wrt (<) (map qt_hash ts) \<and> length ts \<le> 100000"
proof -
  obtain ts t where "list_torrents example_lib example_conf None example_qb = (Inr ts, t)"
    "map qt_hash ts = [hash_a, hash_b]" using example_list by (elim exE conjE)
  with list_torrents_sorted [OF this(1)] show ?thesis by - (rule exI [of _ ts], simp)
qed

lemma example_find: "\<exists>ts t. find_torrents_by_hashes example_lib example_conf None [hash_a, hash_b] example_qb = (Inr ts, t)
  \<and> map qt_hash ts = [hash_a, hash_b]"
proof -
  have "case fst (find_torrents_by_hashes example_lib example_conf None [hash_a, hash_b] example_qb) of
      Inl _ \<Rightarrow> False | Inr ts \<Rightarrow> map qt_hash ts = [hash_a, hash_b]" by code_simp
  then show ?thesis
    by (cases "find_torrents_by_hashes example_lib example_conf None [hash_a, hash_b] example_qb")
      (auto split: sum.splits)
qed

lemma find_torrents_by_hashes_correct_witness:
  "\<exists>ts queried. map qt_hash ts = [hash_a, hash_b] \<and> query_hashes example_lib [hash_a, hash_b] = Inr queried
    \<and> (\<forall>x \<in> set ts. set queried \<inter> set (qt_identity_hashes x) \<noteq> {})"
proof -
  obtain ts t where run: "find_torrents_by_hashes example_lib example_conf None [hash_a, hash_b] example_qb = (Inr ts, t)"
    and ts: "map qt_hash ts = [hash_a, hash_b]" using example_find by (elim exE conjE)
  from find_torrents_by_hashes_correct [OF run] obtain queried where
    "query_hashes example_lib [hash_a, hash_b] = Inr queried"
    "\<forall>x \<in> set ts. set queried \<inter> set (qt_identity_hashes x) \<noteq> {}" by (elim exE conjE)
  with ts show ?thesis by - (intro exI [of _ ts] exI [of _ queried] conjI)
qed

end
