(* ===== verification/ProcessClaim.thy ===== *)
theory ProcessClaim
  imports ExecutorProtocol QbLaws
begin

text \<open>
  One claim of the executor, from its claim to its outcome (\<open>_process_claim\<close> and \<open>run_once\<close> of
  \<open>workers/download_executor.py\<close>), over the writing client of qBittorrent. The adapters of the PT
  sites, an interface of the code with one implementation per site, are a parameter. Between two
  transactions of the worker the environment may change the store: other workers, routes, the
  automation and the heartbeat of this claim.

  The state is that of the client: around it the store and the local flags of the function,
  \<open>reservation_committed\<close>, \<open>category_write_may_have_occurred\<close> and \<open>torrent_add_may_have_occurred\<close>.
\<close>

section \<open>The executor and its environment\<close>

record claim_run =
  cr_db :: db
  cr_tick :: nat
  cr_reserved :: bool
  cr_category :: bool
  cr_added :: bool

text \<open>What the environment does and what the clocks and generators give, at each transaction.\<close>

record environment =
  en_interfere :: "nat \<Rightarrow> db \<Rightarrow> db"
  en_db_now :: "nat \<Rightarrow> datetime"
  en_clock :: "nat \<Rightarrow> int"
  en_new_id :: "nat \<Rightarrow> string"

text \<open>
  An operation of a PT adapter sends requests, each preceded by the guard, and then answers or
  raises; the error of a guard may be wrapped.
\<close>

record pt_adapter =
  pa_search_modes :: "exn + search_mode list"
  pa_create :: "exn + unit"
  pa_search :: "nat \<Rightarrow> search_request \<Rightarrow> nat \<times> (exn + torrent_candidate list)"
  pa_fetch_torrent :: "nat \<Rightarrow> string \<Rightarrow> nat \<times> (exn + string)"
  pa_guard_error :: "exn \<Rightarrow> exn"

record executor =
  ex_lib :: lib
  ex_bencode :: bencode_lib
  ex_settings :: settings
  ex_worker_id :: string
  ex_pt :: "string \<Rightarrow> media_type \<Rightarrow> pt_adapter"
  ex_qb :: "exn + qb_conf"
  ex_env :: environment

type_synonym 'a claim_handler = "(claim_run, exn, 'a) handler"

text \<open>Why the body of the \<open>try\<close> ends before its end: an early return or an exception.\<close>

datatype stop = Returned | Raised exn

type_synonym 'a processing = "(claim_run qb, stop, 'a) handler"

definition try_body :: "(claim_run, 'a) qbm \<Rightarrow> 'a processing" where
  "try_body m = (\<lambda>s. case m s of (Inl e, t) \<Rightarrow> (Inl (Raised e), t) | (Inr x, t) \<Rightarrow> (Inr x, t))"

definition txn :: "executor \<Rightarrow> (environment \<Rightarrow> nat \<Rightarrow> 'a session) \<Rightarrow> 'a claim_handler" where
  "txn X m = (\<lambda>s. let n = cr_tick s in
    case m (ex_env X) n (en_interfere (ex_env X) n (cr_db s)) of
      (r, t) \<Rightarrow> (r, s\<lparr> cr_db := t, cr_tick := n + 1 \<rparr>))"

text \<open>A session that is closed without a commit.\<close>

definition reading :: "'a session \<Rightarrow> 'a session" where
  "reading m = (\<lambda>s. (fst (m s), s))"

section \<open>Guards\<close>

definition allowed :: "executor \<Rightarrow> claim \<Rightarrow> execution_status \<Rightarrow> bool \<Rightarrow> bool claim_handler" where
  "allowed X c expected written = txn X (\<lambda>E n.
    ensure_external_action_allowed (ex_lib X) (ex_settings X) (ex_worker_id X) c expected written
      (en_db_now E n) (en_clock E n) (en_new_id E n))"

definition fence_guard :: "executor \<Rightarrow> claim \<Rightarrow> execution_status \<Rightarrow> bool \<Rightarrow> unit claim_handler" where
  "fence_guard X c expected written =
    bindH (allowed X c expected written) (\<lambda>ok. raise_ifH (\<not> ok) lease_lost)"

definition pt_request_guard :: "executor \<Rightarrow> claim \<Rightarrow> unit claim_handler" where
  "pt_request_guard X c = fence_guard X c DE_VALIDATING False"

definition qb_expected_status :: "claim_run \<Rightarrow> execution_status" where
  "qb_expected_status s = (if cr_reserved s then DE_SUBMITTING else DE_VALIDATING)"

definition qb_request_guard :: "executor \<Rightarrow> claim \<Rightarrow> unit claim_handler" where
  "qb_request_guard X c =
    bindH (getH qb_expected_status) (\<lambda>expected.
    bindH (getH cr_added) (\<lambda>written.
    fence_guard X c expected written))"

definition category_write_guard :: "executor \<Rightarrow> claim \<Rightarrow> unit claim_handler" where
  "category_write_guard X c =
    bindH (fence_guard X c DE_VALIDATING False) (\<lambda>_.
    modifyH (\<lambda>s. s\<lparr> cr_category := True \<rparr>))"

definition write_guard :: "executor \<Rightarrow> claim \<Rightarrow> unit claim_handler" where
  "write_guard X c = fence_guard X c DE_SUBMITTING False"

definition torrent_add_write_guard :: "executor \<Rightarrow> claim \<Rightarrow> unit claim_handler" where
  "torrent_add_write_guard X c =
    bindH (write_guard X c) (\<lambda>_.
    modifyH (\<lambda>s. s\<lparr> cr_added := True \<rparr>))"

text \<open>\<open>if not await self._ensure_external_action_allowed(...): return\<close>\<close>

definition require_allowed :: "executor \<Rightarrow> claim \<Rightarrow> execution_status \<Rightarrow> bool \<Rightarrow> unit processing" where
  "require_allowed X c expected written =
    bindH (try_body (on_world (allowed X c expected written))) (\<lambda>ok. raise_ifH (\<not> ok) Returned)"

section \<open>The candidate and its torrent\<close>

fun guarded_requests :: "pt_adapter \<Rightarrow> unit claim_handler \<Rightarrow> nat \<Rightarrow> unit claim_handler" where
  "guarded_requests A g 0 = returnH ()"
| "guarded_requests A g (Suc k) =
    bindH (catchH g (\<lambda>e. raiseH (pa_guard_error A e))) (\<lambda>_. guarded_requests A g k)"

definition pt_call :: "pt_adapter \<Rightarrow> unit claim_handler \<Rightarrow> (nat \<Rightarrow> nat \<times> (exn + 'a)) \<Rightarrow> 'a processing" where
  "pt_call A g answer = try_body (on_world
    (bindH (getH cr_tick) (\<lambda>n.
     bindH (guarded_requests A g (fst (answer n))) (\<lambda>_. liftH (snd (answer n))))))"

fun search_each ::
    "executor \<Rightarrow> claim \<Rightarrow> execution_binding_view \<Rightarrow> pt_adapter \<Rightarrow> search_request list \<Rightarrow> torrent_candidate list
      \<Rightarrow> torrent_candidate processing" where
  "search_each X c b A [] seen = liftH (map_sum Raised id (require_exact_candidate (ex_lib X) b seen))"
| "search_each X c b A (rq # rqs) seen =
    bindH (require_allowed X c DE_VALIDATING False) (\<lambda>_.
    bindH (pt_call A (pt_request_guard X c) (\<lambda>n. pa_search A n rq)) (\<lambda>results.
    if matching_candidates b results \<noteq> []
    then liftH (map_sum Raised id (require_exact_candidate (ex_lib X) b results))
    else search_each X c b A rqs (seen @ results)))"

definition find_candidate ::
    "executor \<Rightarrow> claim \<Rightarrow> execution_binding_view \<Rightarrow> pt_adapter \<Rightarrow> torrent_candidate processing" where
  "find_candidate X c b A =
    bindH (try_body (liftH (pa_search_modes A))) (\<lambda>modes.
    bindH (try_body (liftH (search_requests b modes))) (\<lambda>requests.
    bindH (try_body (liftH (pa_create A))) (\<lambda>_.
    search_each X c b A requests [])))"

definition fetch_validated ::
    "executor \<Rightarrow> claim \<Rightarrow> execution_binding_view \<Rightarrow> pt_adapter \<Rightarrow> torrent_candidate
      \<Rightarrow> (string \<times> validated_torrent) processing" where
  "fetch_validated X c b A candidate =
    bindH (require_allowed X c DE_VALIDATING False) (\<lambda>_.
    bindH (pt_call A (pt_request_guard X c) (\<lambda>n. pa_fetch_torrent A n (tc_torrent_id candidate))) (\<lambda>payload.
    bindH (try_body (liftH (validate_torrent (ex_lib X) (ex_bencode X) payload
      (dp_expected_info_hash (eb_plan b)) (st_torrent_max_bytes (ex_settings X))
      (st_torrent_max_files (ex_settings X))))) (\<lambda>m.
    bindH (try_body (liftH (require_torrent_candidate_consistency (ex_lib X) b candidate m))) (\<lambda>_.
    returnH (payload, m)))))"

section \<open>The submission\<close>

definition required_save_path :: "settings \<Rightarrow> exn + string" where
  "required_save_path st =
    (case st_qb_target_save_path st of
       None \<Rightarrow> Inl (app_err ''EXECUTION_TARGET_NOT_CONFIGURED'' 409)
     | Some p \<Rightarrow> if strip p = [] then Inl (app_err ''EXECUTION_TARGET_NOT_CONFIGURED'' 409) else Inr p)"

definition observe ::
    "executor \<Rightarrow> claim \<Rightarrow> qb_conf \<Rightarrow> validated_torrent \<Rightarrow> qb_torrent option processing" where
  "observe X c C m =
    bindH (try_body (find_torrents_by_hashes (ex_lib X) C (Some (qb_request_guard X c)) (identity_list m))) (\<lambda>qs.
    try_body (liftH (find_unique_observation m qs)))"

definition prepare_category ::
    "executor \<Rightarrow> claim \<Rightarrow> qb_conf \<Rightarrow> execution_binding_view \<Rightarrow> qb_torrent option \<Rightarrow> unit processing" where
  "prepare_category X c C b existing =
    (case existing of
       Some _ \<Rightarrow> returnH ()
     | None \<Rightarrow>
         bindH (require_allowed X c DE_VALIDATING False) (\<lambda>_.
         bindH (try_body (liftH (required_save_path (ex_settings X)))) (\<lambda>save_path.
         try_body (ensure_category (ex_lib X) C (Some (qb_request_guard X c)) (dp_category (eb_plan b)) save_path
           (Some (category_write_guard X c))))))"

definition reserve_once :: "executor \<Rightarrow> claim \<Rightarrow> validated_torrent \<Rightarrow> unit processing" where
  "reserve_once X c m =
    bindH (try_body (on_world (txn X (\<lambda>E n.
      reserve_submission (ex_lib X) (ex_settings X) (ex_worker_id X) c m (en_db_now E n) (en_clock E n))))) (\<lambda>st.
    bindH (raise_ifH (st = DE_CANCELLED) Returned) (\<lambda>_.
    bindH (raise_ifH (st \<noteq> DE_SUBMITTING) (Raised transition_invalid)) (\<lambda>_.
    try_body (on_world (modifyH (\<lambda>s. s\<lparr> cr_reserved := True \<rparr>))))))"

definition plan_tags :: "plan \<Rightarrow> exn + string list" where
  "plan_tags p = mapR (\<lambda>j. case j of JStr s \<Rightarrow> Inr s | _ \<Rightarrow> Inl PyTypeError) (dp_tags p)"

definition plan_order ::
    "executor \<Rightarrow> execution_binding_view \<Rightarrow> string \<Rightarrow> validated_torrent \<Rightarrow> exn + add_order" where
  "plan_order X b payload m =
    bindR (selected_info_hash (ex_lib X) (eb_plan b) m) (\<lambda>h.
    bindR (required_save_path (ex_settings X)) (\<lambda>save_path.
    bindR (plan_tags (eb_plan b)) (\<lambda>tags.
    Inr \<lparr> ao_torrent = payload, ao_expected_info_hash = h, ao_save_path = save_path,
      ao_category = dp_category (eb_plan b), ao_tags = tags,
      ao_start_immediately = (eb_launch_mode b = LM_START_IMMEDIATELY), ao_category_prepared = True \<rparr>)))"

primrec outcome_status :: "qb_add_outcome \<Rightarrow> execution_status" where
  "outcome_status AO_SUBMITTED = DE_SUBMITTED"
| "outcome_status AO_ALREADY_PRESENT = DE_ALREADY_PRESENT"

definition submit ::
    "executor \<Rightarrow> claim \<Rightarrow> qb_conf \<Rightarrow> execution_binding_view \<Rightarrow> string \<Rightarrow> validated_torrent \<Rightarrow> qb_torrent option
      \<Rightarrow> execution_status processing" where
  "submit X c C b payload m existing =
    (case existing of
       Some _ \<Rightarrow> returnH DE_ALREADY_PRESENT
     | None \<Rightarrow>
         bindH (try_body (liftH (plan_order X b payload m))) (\<lambda>od.
         bindH (try_body (add_torrent (ex_lib X) (ex_bencode X) C (Some (qb_request_guard X c)) od None
           (Some (torrent_add_write_guard X c)))) (\<lambda>res.
         bindH (raise_ifH (casefold (ex_lib X) (qa_info_hash res) \<notin> vt_identity_hashes m)
           (Raised (app_err ''QB_ADD_INFO_HASH_MISMATCH'' 502))) (\<lambda>_.
         returnH (outcome_status (qa_outcome res))))))"

definition require_allowed_submitting :: "executor \<Rightarrow> claim \<Rightarrow> unit processing" where
  "require_allowed_submitting X c =
    bindH (getH (\<lambda>s. cr_added (qb_world s))) (\<lambda>written. require_allowed X c DE_SUBMITTING written)"

definition PAUSED_STATES :: "string list" where
  "PAUSED_STATES = [''pauseddl'', ''pausedup'', ''stoppeddl'', ''stoppedup'']"

definition check_observed ::
    "lib \<Rightarrow> execution_binding_view \<Rightarrow> execution_status \<Rightarrow> qb_torrent option \<Rightarrow> exn + qb_torrent" where
  "check_observed L b outcome observed =
    bindR (option_or (app_err ''QB_SUBMISSION_NOT_OBSERVED'' 502) observed) (\<lambda>q.
    bindR (raise_if (outcome = DE_SUBMITTED \<and> eb_launch_mode b = LM_ADD_PAUSED
        \<and> casefold L (qt_state q) \<notin> set PAUSED_STATES)
      (app_err ''QB_ADD_PAUSED_NOT_OBSERVED'' 502)) (\<lambda>_.
    Inr q))"

definition finalize_observed ::
    "executor \<Rightarrow> claim \<Rightarrow> execution_status \<Rightarrow> qb_torrent \<Rightarrow> unit processing" where
  "finalize_observed X c outcome q =
    bindH (try_body (on_world (txn X (\<lambda>E n. transact
      (finalize_download_submission (ex_lib X) (cl_execution_id c) q outcome (ex_settings X) (ex_worker_id X)
        (cl_lease_token c) (en_db_now E n) (en_clock E n) (en_clock E n) (en_new_id E n) (en_new_id E n)))))) (\<lambda>_.
    returnH ())"

section \<open>The claim\<close>

definition submit_and_verify ::
    "executor \<Rightarrow> claim \<Rightarrow> qb_conf \<Rightarrow> execution_binding_view \<Rightarrow> string \<Rightarrow> validated_torrent \<Rightarrow> qb_torrent option
      \<Rightarrow> unit processing" where
  "submit_and_verify X c C b payload m existing =
    bindH (submit X c C b payload m existing) (\<lambda>outcome.
    bindH (require_allowed_submitting X c) (\<lambda>_.
    bindH (observe X c C m) (\<lambda>observed.
    bindH (try_body (liftH (check_observed (ex_lib X) b outcome observed))) (\<lambda>q.
    bindH (require_allowed_submitting X c) (\<lambda>_.
    finalize_observed X c outcome q)))))"

definition open_client :: "executor \<Rightarrow> claim \<Rightarrow> qb_conf processing" where
  "open_client X c =
    bindH (try_body (liftH (ex_qb X))) (\<lambda>C.
    bindH (modifyH (\<lambda>s. s\<lparr> qb_auth := False, qb_field := None \<rparr>)) (\<lambda>_.
    bindH (require_allowed X c DE_VALIDATING False) (\<lambda>_.
    bindH (try_body (authenticate (ex_lib X) C (Some (qb_request_guard X c)))) (\<lambda>_.
    returnH C))))"

definition claim_body :: "executor \<Rightarrow> claim \<Rightarrow> unit processing" where
  "claim_body X c =
    bindH (require_allowed X c DE_VALIDATING False) (\<lambda>_.
    bindH (try_body (on_world (txn X (\<lambda>E n.
      reading (load_binding (ex_lib X) (ex_settings X) (ex_worker_id X) c))))) (\<lambda>b.
    let A = ex_pt X (dp_site_id (eb_plan b)) (sn_media_type (eb_snapshot b)) in
    bindH (find_candidate X c b A) (\<lambda>candidate.
    bindH (fetch_validated X c b A candidate) (\<lambda>(payload, m).
    bindH (open_client X c) (\<lambda>C.
    bindH (require_allowed X c DE_VALIDATING False) (\<lambda>_.
    bindH (observe X c C m) (\<lambda>existing.
    bindH (prepare_category X c C b existing) (\<lambda>_.
    bindH (reserve_once X c m) (\<lambda>_.
    submit_and_verify X c C b payload m existing)))))))))"

definition internal_error :: app_error where
  "internal_error = \<lparr> error_code = ''DOWNLOAD_EXECUTOR_INTERNAL_ERROR'', status_code = 500, retryable = False,
     err_details = [] \<rparr>"

definition record_failure :: "executor \<Rightarrow> claim \<Rightarrow> app_error \<Rightarrow> unit claim_handler" where
  "record_failure X c err =
    bindH (getH id) (\<lambda>s.
    if cr_reserved s
    then txn X (\<lambda>E n. mark_reserved_failure (ex_lib X) (ex_settings X) (ex_worker_id X) c err (cr_added s) (en_db_now E n))
    else txn X (\<lambda>E n. mark_validation_failure (ex_lib X) (ex_settings X) (ex_worker_id X) c err (cr_category s)
      (en_db_now E n)))"

definition handle_stop :: "executor \<Rightarrow> claim \<Rightarrow> stop \<Rightarrow> unit claim_handler" where
  "handle_stop X c e =
    (case e of
       Returned \<Rightarrow> returnH ()
     | Raised (AppErr err) \<Rightarrow>
         if error_code err = ''DOWNLOAD_EXECUTION_LEASE_LOST'' then returnH () else record_failure X c err
     | Raised _ \<Rightarrow> record_failure X c internal_error)"

definition process_claim :: "executor \<Rightarrow> claim \<Rightarrow> (claim_run, unit) qbm" where
  "process_claim X c = (\<lambda>s.
    case claim_body X c s of
      (Inr _, t) \<Rightarrow> clear_session t
    | (Inl e, t) \<Rightarrow>
        (case on_world (handle_stop X c e) t of
           (Inl f, u) \<Rightarrow> (Inl f, snd (clear_session u))
         | (Inr _, u) \<Rightarrow> clear_session u))"

definition start_run :: "claim_run \<Rightarrow> claim_run" where
  "start_run s = s\<lparr> cr_reserved := False, cr_category := False, cr_added := False \<rparr>"

definition run_once :: "executor \<Rightarrow> (claim_run, bool) qbm" where
  "run_once X =
    bindH (liftH (require_download_executor_enabled (ex_settings X))) (\<lambda>_.
    bindH (on_world (txn X (\<lambda>E n.
      recover_stale_executions (ex_lib X) (ex_settings X) (ex_worker_id X) (en_db_now E n)))) (\<lambda>recovered.
    bindH (on_world (txn X (\<lambda>E n.
      claim_next_execution (ex_lib X) (ex_worker_id X) (en_db_now E n) (en_new_id E n)))) (\<lambda>claim.
    case claim of
      None \<Rightarrow> returnH (0 < recovered)
    | Some c \<Rightarrow>
        bindH (on_world (modifyH start_run)) (\<lambda>_.
        bindH (process_claim X c) (\<lambda>_. returnH True)))))"

end
