(* ===== verification/ClaimLaws.thy ===== *)
theory ClaimLaws
  imports ProcessClaim ExecutorLaws
begin

text \<open>
  The refinement of the state machine of the executor by the code of one claim: every run of
  \<open>process_claim\<close>, whatever the adapters answer and the environment does, is a sequence of steps of
  the machine, so its laws hold of the code. The run is split in phases, by the two flags and by
  whether the torrent was sent.
\<close>

section \<open>The relation\<close>

definition added_count :: "claim_run qb \<Rightarrow> nat" where
  "added_count s = length (filter is_add (qb_sent s))"

definition proc_of :: "claim \<Rightarrow> string \<Rightarrow> claim_run qb \<Rightarrow> proc" where
  "proc_of c w s = \<lparr> pr_claim = c, pr_worker = w, pr_reserved = cr_reserved (qb_world s),
     pr_added = cr_added (qb_world s), pr_sent = (0 < added_count s) \<rparr>"

text \<open>The claim is the i-th of the world, the store is shared, and at most one torrent was sent.\<close>

definition tracks :: "lib \<Rightarrow> nat \<Rightarrow> claim \<Rightarrow> string \<Rightarrow> world \<Rightarrow> claim_run qb \<Rightarrow> bool" where
  "tracks L i c w v s \<longleftrightarrow> reachable L v \<and> w_db v = cr_db (qb_world s) \<and> i < length (w_procs v)
    \<and> w_procs v ! i = proc_of c w s \<and> added_count s \<le> 1"

definition follows :: "lib \<Rightarrow> nat \<Rightarrow> claim \<Rightarrow> string \<Rightarrow> claim_run qb \<Rightarrow> claim_run qb \<Rightarrow> bool" where
  "follows L i c w s t \<longleftrightarrow>
    (\<forall>v. tracks L i c w v s \<longrightarrow> (\<exists>v'. (world_step L)\<^sup>*\<^sup>* v v' \<and> tracks L i c w v' t))"

lemma follows_refl: "follows L i c w s s"
  by (auto simp: follows_def)

lemma follows_trans: "follows L i c w s t \<Longrightarrow> follows L i c w t u \<Longrightarrow> follows L i c w s u"
  unfolding follows_def by (meson rtranclp_trans)

type_synonym phase = "bool \<times> bool \<times> bool"

definition phase_of :: "claim_run qb \<Rightarrow> phase" where
  "phase_of s = (cr_reserved (qb_world s), cr_added (qb_world s), 0 < added_count s)"

definition validating :: phase where "validating = (False, False, False)"
definition reserved_phase :: phase where "reserved_phase = (True, False, False)"
definition guarded_phase :: phase where "guarded_phase = (True, True, False)"
definition sent_phase :: phase where "sent_phase = (True, True, True)"

lemmas phase_defs = validating_def reserved_phase_def guarded_phase_def sent_phase_def

text \<open>The environment is made of steps that leave this claim alone.\<close>

definition environment_ok :: "lib \<Rightarrow> nat \<Rightarrow> environment \<Rightarrow> bool" where
  "environment_ok L i E \<longleftrightarrow> (\<forall>n v. reachable L v \<longrightarrow> i < length (w_procs v) \<longrightarrow>
    (\<exists>v'. (world_step L)\<^sup>*\<^sup>* v v' \<and> w_db v' = en_interfere E n (w_db v) \<and> i < length (w_procs v')
      \<and> w_procs v' ! i = w_procs v ! i))"

lemma reachable_steps: "(world_step L)\<^sup>*\<^sup>* v v' \<Longrightarrow> reachable L v \<Longrightarrow> reachable L v'"
  by (induction rule: rtranclp_induct) (auto intro: reachable.step)

section \<open>Triples\<close>

text \<open>From a phase, the run follows the machine, and a normal result satisfies its postcondition.\<close>

definition triple ::
    "lib \<Rightarrow> nat \<Rightarrow> claim \<Rightarrow> string \<Rightarrow> phase \<Rightarrow> (claim_run qb, 'e, 'a) handler \<Rightarrow> ('a \<Rightarrow> phase \<Rightarrow> bool) \<Rightarrow> bool" where
  "triple L i c w p m Q \<longleftrightarrow> (\<forall>s r t. phase_of s = p \<longrightarrow> m s = (r, t) \<longrightarrow>
    follows L i c w s t \<and> (\<forall>x. r = Inr x \<longrightarrow> Q x (phase_of t)))"

lemma triple_follows: "triple L i c w p m Q \<Longrightarrow> m s = (r, t) \<Longrightarrow> phase_of s = p \<Longrightarrow> follows L i c w s t"
  by (simp add: triple_def)

lemma triple_bind:
  assumes m: "triple L i c w p m Q" and f: "\<And>x q. Q x q \<Longrightarrow> triple L i c w q (f x) R"
  shows "triple L i c w p (bindH m f) R"
  unfolding triple_def
proof (intro allI impI)
  fix s r t assume s: "phase_of s = p" and run: "bindH m f s = (r, t)"
  obtain q u where mu: "m s = (q, u)" by (cases "m s")
  with m s have fu: "follows L i c w s u" and Q: "\<forall>x. q = Inr x \<longrightarrow> Q x (phase_of u)"
    by (auto simp: triple_def)
  show "follows L i c w s t \<and> (\<forall>x. r = Inr x \<longrightarrow> R x (phase_of t))"
  proof (cases q)
    case (Inl e)
    with run mu fu show ?thesis by (auto simp: bindH_def)
  next
    case (Inr x)
    with run mu have fx: "f x u = (r, t)" by (simp add: bindH_def)
    from f [of x "phase_of u"] Q Inr have "triple L i c w (phase_of u) (f x) R" by simp
    with fx have "follows L i c w u t \<and> (\<forall>x. r = Inr x \<longrightarrow> R x (phase_of t))" by (simp add: triple_def)
    with fu show ?thesis by (auto intro: follows_trans)
  qed
qed

lemma triple_pure:
  "triple L i c w p (liftH r) (\<lambda>_ q. q = p)" "triple L i c w p (returnH x) (\<lambda>y q. y = x \<and> q = p)"
  "triple L i c w p (raiseH e) Q" "triple L i c w p (raise_ifH b e) (\<lambda>_ q. \<not> b \<and> q = p)"
  "triple L i c w p (getH f) (\<lambda>_ q. q = p)"
  by (auto simp: triple_def handler_defs follows_refl)

lemma triple_try: "triple L i c w p m Q \<Longrightarrow> triple L i c w p (try_body m) Q"
  unfolding triple_def try_body_def by (fastforce split: prod.splits sum.splits)

lemma triple_post: "triple L i c w p m Q \<Longrightarrow> (\<And>x q. Q x q \<Longrightarrow> R x q) \<Longrightarrow> triple L i c w p m R"
  by (auto simp: triple_def)

lemma triple_get: "(\<And>s. phase_of s = p \<Longrightarrow> triple L i c w p (f (g s)) Q) \<Longrightarrow> triple L i c w p (bindH (getH g) f) Q"
  by (auto simp: triple_def bindH_def getH_def)

section \<open>Transactions\<close>

lemma txn_run:
  assumes env: "environment_ok L i (ex_env X)" and run: "on_world (txn X m) s = (r, s')"
    and tr: "tracks L i c w v s"
  obtains v' t where "(world_step L)\<^sup>*\<^sup>* v v'" "reachable L v'" "i < length (w_procs v')"
    "w_procs v' ! i = proc_of c w s" "m (ex_env X) (cr_tick (qb_world s)) (w_db v') = (r, t)"
    "s' = s\<lparr> qb_world := (qb_world s)\<lparr> cr_db := t, cr_tick := cr_tick (qb_world s) + 1 \<rparr> \<rparr>"
proof -
  let ?E = "ex_env X" and ?n = "cr_tick (qb_world s)"
  from tr have v: "reachable L v" "w_db v = cr_db (qb_world s)" "i < length (w_procs v)" "w_procs v ! i = proc_of c w s"
    by (simp_all add: tracks_def)
  with env obtain v' where v': "(world_step L)\<^sup>*\<^sup>* v v'" "w_db v' = en_interfere ?E ?n (w_db v)"
    "i < length (w_procs v')" "w_procs v' ! i = w_procs v ! i"
    unfolding environment_ok_def by blast
  obtain q t where mt: "m ?E ?n (en_interfere ?E ?n (cr_db (qb_world s))) = (q, t)"
    by (cases "m ?E ?n (en_interfere ?E ?n (cr_db (qb_world s)))")
  have "q = r" "s' = s\<lparr> qb_world := (qb_world s)\<lparr> cr_db := t, cr_tick := ?n + 1 \<rparr> \<rparr>"
    using run mt by (simp_all add: on_world_def txn_def Let_def)
  with that [OF v'(1) reachable_steps [OF v'(1) v(1)] v'(3), of t] v v' mt show thesis by simp
qed

lemma same_run:
  "proc_of c w (s\<lparr> qb_world := (qb_world s)\<lparr> cr_db := t, cr_tick := n \<rparr> \<rparr>) = proc_of c w s"
  "phase_of (s\<lparr> qb_world := (qb_world s)\<lparr> cr_db := t, cr_tick := n \<rparr> \<rparr>) = phase_of s"
  "added_count (s\<lparr> qb_world := W \<rparr>) = added_count s"
  by (simp_all add: proc_of_def phase_of_def added_count_def)

text \<open>A transaction that is a step of the machine and leaves the claims.\<close>

definition db_step :: "lib \<Rightarrow> nat \<Rightarrow> proc \<Rightarrow> 'a session \<Rightarrow> bool" where
  "db_step L i p m \<longleftrightarrow> (\<forall>v r t. i < length (w_procs v) \<longrightarrow> w_procs v ! i = p \<longrightarrow> m (w_db v) = (r, t) \<longrightarrow>
    (world_step L)\<^sup>*\<^sup>* v (v\<lparr> w_db := t \<rparr>))"

lemma db_stepI:
  "(\<And>v r t. i < length (w_procs v) \<Longrightarrow> p = w_procs v ! i \<Longrightarrow> m (w_db v) = (r, t) \<Longrightarrow> world_step L v (v\<lparr> w_db := t \<rparr>)) \<Longrightarrow>
    db_step L i p m"
  unfolding db_step_def by blast

lemma txn_follows':
  assumes env: "environment_ok L i (ex_env X)" and run: "on_world (txn X m) s = (r, s')"
    and step: "\<And>v n d. i < length (w_procs v) \<Longrightarrow> w_procs v ! i = proc_of c w s \<Longrightarrow>
      m (ex_env X) n (w_db v) = (r, d) \<Longrightarrow> (world_step L)\<^sup>*\<^sup>* v (v\<lparr> w_db := d \<rparr>)"
  shows "follows L i c w s s' \<and> phase_of s' = phase_of s"
proof
  show "follows L i c w s s'"
    unfolding follows_def
  proof (intro allI impI)
    fix v assume tr: "tracks L i c w v s"
    obtain v' t where v': "(world_step L)\<^sup>*\<^sup>* v v'" "reachable L v'" "i < length (w_procs v')"
      "w_procs v' ! i = proc_of c w s" "m (ex_env X) (cr_tick (qb_world s)) (w_db v') = (r, t)"
      and s': "s' = s\<lparr> qb_world := (qb_world s)\<lparr> cr_db := t, cr_tick := cr_tick (qb_world s) + 1 \<rparr> \<rparr>"
      by (rule txn_run [OF env run tr])
    from step [OF v'(3,4,5)] have "(world_step L)\<^sup>*\<^sup>* v' (v'\<lparr> w_db := t \<rparr>)" .
    moreover from this v'(2) have "reachable L (v'\<lparr> w_db := t \<rparr>)" by (rule reachable_steps)
    ultimately show "\<exists>v'. (world_step L)\<^sup>*\<^sup>* v v' \<and> tracks L i c w v' s'"
      using v' tr by (intro exI [of _ "v'\<lparr> w_db := t \<rparr>"])
        (simp add: tracks_def s' same_run)
  qed
  obtain d q where "s' = s\<lparr> qb_world := (qb_world s)\<lparr> cr_db := d, cr_tick := q \<rparr> \<rparr>"
    using run by (auto simp: on_world_def txn_def Let_def split: prod.splits)
  then show "phase_of s' = phase_of s" by (simp add: same_run)
qed

lemma txn_follows:
  assumes "environment_ok L i (ex_env X)" and "on_world (txn X m) s = (r, s')"
    and "\<And>n. db_step L i (proc_of c w s) (m (ex_env X) n)"
  shows "follows L i c w s s' \<and> phase_of s' = phase_of s"
  using assms(3) by (intro txn_follows' [OF assms(1,2)]) (simp add: db_step_def)

lemma step_reading: "db_step L i p (reading m)"
  by (auto simp: db_step_def reading_def)

lemma step_fence:
  assumes "pr_worker p = w" "pr_claim p = c" "expected = expected_status p" "written = pr_added p"
  shows "db_step L i p (ensure_external_action_allowed L st w c expected written now clock nid)"
  by (rule db_stepI, rule world_step.fence [where st = st and now = now and clock = clock and nid = nid and p = p]) (use assms in auto)

lemma step_finalize:
  assumes "pr_worker p = w" "pr_claim p = c" "pr_reserved p"
    "outcome = DE_ALREADY_PRESENT \<or> (outcome = DE_SUBMITTED \<and> pr_sent p)"
  shows "db_step L i p (transact (finalize_download_submission L (cl_execution_id c) q outcome st w
    (cl_lease_token c) db_now now now2 nid pid))"
  by (rule db_stepI, rule world_step.finalize [where p = p and outcome = outcome and q = q and st = st and db_now = db_now
      and now = now and ?now2.0 = now2 and nid = nid and pid = pid])
    (use assms in \<open>auto simp: proc_execution_def\<close>)

lemma step_failures:
  assumes "pr_worker p = w" "pr_claim p = c"
  shows "pr_reserved p \<Longrightarrow> written = pr_added p \<Longrightarrow> db_step L i p (mark_reserved_failure L st w c err written now)"
    and "\<not> pr_reserved p \<Longrightarrow> db_step L i p (mark_validation_failure L st w c err category now)"
proof -
  show "pr_reserved p \<Longrightarrow> written = pr_added p \<Longrightarrow> db_step L i p (mark_reserved_failure L st w c err written now)"
    by (rule db_stepI, rule world_step.fail_reserved [where p = p and st = st and err = err and now = now]) (use assms in auto)
  show "\<not> pr_reserved p \<Longrightarrow> db_step L i p (mark_validation_failure L st w c err category now)"
    by (rule db_stepI, rule world_step.fail_validation [where p = p and st = st and err = err and category_write = category and now = now]) (use assms in auto)
qed

section \<open>Operations that stay in a phase\<close>

definition stays :: "lib \<Rightarrow> nat \<Rightarrow> claim \<Rightarrow> string \<Rightarrow> phase \<Rightarrow> claim_run qb \<Rightarrow> claim_run qb \<Rightarrow> bool" where
  "stays L i c w p s t \<longleftrightarrow> (phase_of s = p \<longrightarrow> follows L i c w s t \<and> phase_of t = p)"

lemma follows_same:
  assumes "qb_world t = qb_world s" and "added_count t = added_count s"
  shows "follows L i c w s t"
  unfolding follows_def
proof (intro allI impI)
  fix v assume "tracks L i c w v s"
  with assms show "\<exists>v'. (world_step L)\<^sup>*\<^sup>* v v' \<and> tracks L i c w v' t"
    by (intro exI [of _ v]) (simp add: tracks_def proc_of_def)
qed

lemma stays_same:
  "qb_world t = qb_world s \<Longrightarrow> added_count t = added_count s \<Longrightarrow> stays L i c w p s t"
  by (simp add: stays_def follows_same phase_of_def)

interpretation stay: qb_contract "stays L i c w p" "\<lambda>rq. \<not> is_add rq"
proof unfold_locales
  show "stays L i c w p s s" for s by (rule stays_same) simp_all
  show "stays L i c w p s t \<Longrightarrow> stays L i c w p t u \<Longrightarrow> stays L i c w p s u" for s t u
    unfolding stays_def using follows_trans by blast
  show "stays L i c w p s (s\<lparr> qb_auth := a, qb_field := f \<rparr>)" for s a f
    by (rule stays_same) (simp_all add: added_count_def)
  show "\<not> is_add rq \<Longrightarrow> stays L i c w p s (s\<lparr> qb_sent := qb_sent s @ [rq] \<rparr>)" for rq s
    by (rule stays_same) (simp_all add: added_count_def)
qed (rule add_is_no_read)

lemma on_world_simps:
  "on_world (returnH x) = returnH x" "on_world (raiseH e) = raiseH e" "on_world (raise_ifH b e) = raise_ifH b e"
  "on_world (liftH r) = liftH r" "on_world (getH f) = getH (\<lambda>s. f (qb_world s))"
  "on_world (bindH m k) = bindH (on_world m) (\<lambda>x. on_world (k x))"
  "on_world (catchH m h) = catchH (on_world m) (\<lambda>e. on_world (h e))"
  by (auto simp: fun_eq_iff on_world_def handler_defs catchH_def split: prod.splits sum.splits)

lemma bind_getH: "bindH (getH f) k s = k (f s) s"
  by (simp add: bindH_def getH_def)

lemma stays_triple: "evolves (stays L i c w p) m \<Longrightarrow> triple L i c w p m (\<lambda>_ q. q = p)"
  unfolding triple_def by (auto simp: stays_def dest: evolvesD)

lemma stays_txn:
  assumes env: "environment_ok L i (ex_env X)"
    and step: "\<And>s n. phase_of s = p \<Longrightarrow> db_step L i (proc_of c w s) (m (ex_env X) n)"
  shows "evolves (stays L i c w p) (on_world (txn X m))"
  unfolding evolves_def
proof
  fix s
  obtain r t where run: "on_world (txn X m) s = (r, t)" by (cases "on_world (txn X m) s")
  show "stays L i c w p s (snd (on_world (txn X m) s))"
    unfolding stays_def run using txn_follows [OF env run step] by auto
qed

text \<open>The fence of a claim, in the phase it expects.\<close>

definition fence_fits :: "phase \<Rightarrow> execution_status \<Rightarrow> bool \<Rightarrow> bool" where
  "fence_fits p expected written \<longleftrightarrow>
    expected = (if fst p then DE_SUBMITTING else DE_VALIDATING) \<and> written = fst (snd p)"

lemma stays_allowed:
  assumes "environment_ok (ex_lib X) i (ex_env X)" and "fence_fits p expected written"
  shows "evolves (stays (ex_lib X) i c (ex_worker_id X) p) (on_world (allowed X c expected written))"
  unfolding allowed_def
  by (rule stays_txn [OF assms(1)], rule step_fence)
    (use assms(2) in \<open>auto simp: proc_of_def fence_fits_def phase_of_def expected_status_def\<close>)

lemma stays_fence:
  assumes "environment_ok (ex_lib X) i (ex_env X)" and "fence_fits p expected written"
  shows "evolves (stays (ex_lib X) i c (ex_worker_id X) p) (on_world (fence_guard X c expected written))"
  unfolding fence_guard_def on_world_simps
  by (intro stay.evolves_rules stays_allowed assms)

text \<open>The guard of the client reads its phase from the flags.\<close>

lemma stays_qb_guard:
  assumes env: "environment_ok (ex_lib X) i (ex_env X)"
  shows "guard_keeps (stays (ex_lib X) i c (ex_worker_id X) p) (Some (qb_request_guard X c))"
proof -
  have "stays (ex_lib X) i c (ex_worker_id X) p s (snd (on_world (qb_request_guard X c) s))" for s
  proof (cases "phase_of s = p")
    case True
    then have "fence_fits p (qb_expected_status (qb_world s)) (cr_added (qb_world s))"
      by (auto simp: fence_fits_def phase_of_def qb_expected_status_def)
    from stays_fence [OF env this, of c]
    have "stays (ex_lib X) i c (ex_worker_id X) p s
      (snd (on_world (fence_guard X c (qb_expected_status (qb_world s)) (cr_added (qb_world s))) s))"
      by (simp add: evolves_def)
    then show ?thesis
      unfolding qb_request_guard_def on_world_simps by (simp add: bind_getH)
  qed (simp add: stays_def)
  then show ?thesis by (simp add: guard_keeps_def evolves_def)
qed

lemma stays_category_guard:
  assumes "environment_ok (ex_lib X) i (ex_env X)"
  shows "guard_keeps (stays (ex_lib X) i c (ex_worker_id X) validating) (Some (category_write_guard X c))"
proof -
  have "evolves (stays (ex_lib X) i c (ex_worker_id X) validating) (on_world (modifyH (\<lambda>s. s\<lparr> cr_category := True \<rparr>)))"
    by (auto simp: evolves_def on_world_def modifyH_def stays_def follows_def tracks_def proc_of_def phase_of_def
        added_count_def)
  with assms show ?thesis
    unfolding guard_keeps_def option.case category_write_guard_def on_world_simps
    by (intro stay.evolves_rules stays_fence) (simp_all add: fence_fits_def phase_defs)
qed

lemma triple_require:
  assumes "environment_ok (ex_lib X) i (ex_env X)" "fence_fits p expected written"
  shows "triple (ex_lib X) i c (ex_worker_id X) p (require_allowed X c expected written) (\<lambda>_ q. q = p)"
  unfolding require_allowed_def
  by (rule triple_bind [OF triple_try [OF stays_triple [OF stays_allowed [OF assms]]]])
    (auto intro: triple_post [OF triple_pure(4)])

lemma triple_require_submitting:
  assumes "environment_ok (ex_lib X) i (ex_env X)" "fst p"
  shows "triple (ex_lib X) i c (ex_worker_id X) p (require_allowed_submitting X c) (\<lambda>_ q. q = p)"
  unfolding require_allowed_submitting_def
  by (rule triple_get, rule triple_require [OF assms(1)])
    (use assms(2) in \<open>auto simp: fence_fits_def phase_of_def\<close>)

section \<open>Operations that change the phase\<close>

lemma set_proc_simps: "w_db (set_proc i p v) = w_db v" "i < length (w_procs v) \<Longrightarrow> w_procs (set_proc i p v) ! i = p"
  "length (w_procs (set_proc i p v)) = length (w_procs v)"
  by (simp_all add: set_proc_def)

text \<open>A transaction, the flag it is followed by, and the step that does both.\<close>

lemma txn_flag_follows:
  assumes env: "environment_ok L i (ex_env X)" and run: "on_world (txn X m) s = (r, s')"
    and step: "\<And>v n d. reachable L v \<Longrightarrow> i < length (w_procs v) \<Longrightarrow> w_procs v ! i = proc_of c w s \<Longrightarrow>
      m (ex_env X) n (w_db v) = (r, d) \<Longrightarrow> world_step L v (set_proc i (f (proc_of c w s)) (v\<lparr> w_db := d \<rparr>))"
    and flag: "\<And>u. added_count u = added_count s \<Longrightarrow> cr_reserved (qb_world u) = cr_reserved (qb_world s) \<Longrightarrow>
      cr_added (qb_world u) = cr_added (qb_world s) \<Longrightarrow> added_count (g u) = added_count s
      \<and> cr_db (qb_world (g u)) = cr_db (qb_world u) \<and> proc_of c w (g u) = f (proc_of c w s)"
  shows "follows L i c w s (g s')"
  unfolding follows_def
proof (intro allI impI)
  fix v assume tr: "tracks L i c w v s"
  obtain v' d where v': "(world_step L)\<^sup>*\<^sup>* v v'" "reachable L v'" "i < length (w_procs v')"
    "w_procs v' ! i = proc_of c w s" "m (ex_env X) (cr_tick (qb_world s)) (w_db v') = (r, d)"
    and s': "s' = s\<lparr> qb_world := (qb_world s)\<lparr> cr_db := d, cr_tick := cr_tick (qb_world s) + 1 \<rparr> \<rparr>"
    by (rule txn_run [OF env run tr])
  let ?v = "set_proc i (f (proc_of c w s)) (v'\<lparr> w_db := d \<rparr>)"
  have one: "world_step L v' ?v" by (rule step [OF v'(2,3,4,5)])
  have g: "added_count (g s') = added_count s" "cr_db (qb_world (g s')) = d" "proc_of c w (g s') = f (proc_of c w s)"
    using flag [of s'] by (simp_all add: s' same_run)
  have "tracks L i c w ?v (g s')"
    using reachable.step [OF v'(2) one] v'(3) g tr by (simp add: tracks_def set_proc_simps)
  with v'(1) one show "\<exists>v'. (world_step L)\<^sup>*\<^sup>* v v' \<and> tracks L i c w v' (g s')"
    by (meson rtranclp.rtrancl_into_rtrancl)
qed

definition set_reserved :: "claim_run qb \<Rightarrow> claim_run qb" where
  "set_reserved s = s\<lparr> qb_world := (qb_world s)\<lparr> cr_reserved := True \<rparr> \<rparr>"

definition set_added :: "claim_run qb \<Rightarrow> claim_run qb" where
  "set_added s = s\<lparr> qb_world := (qb_world s)\<lparr> cr_added := True \<rparr> \<rparr>"

lemma on_world_flags:
  "on_world (modifyH (\<lambda>s. s\<lparr> cr_reserved := True \<rparr>)) u = (Inr (), set_reserved u)"
  "on_world (modifyH (\<lambda>s. s\<lparr> cr_added := True \<rparr>)) u = (Inr (), set_added u)"
  by (simp_all add: on_world_def modifyH_def set_reserved_def set_added_def)

lemma added_guard:
  assumes env: "environment_ok (ex_lib X) i (ex_env X)" and s: "phase_of s = reserved_phase"
    and run: "on_world (torrent_add_write_guard X c) s = (r, t)"
  shows "follows (ex_lib X) i c (ex_worker_id X) s t \<and> (\<forall>x. r = Inr x \<longrightarrow> phase_of t = guarded_phase)"
proof -
  obtain q u where au: "on_world (allowed X c DE_SUBMITTING False) s = (q, u)"
    by (cases "on_world (allowed X c DE_SUBMITTING False) s")
  have "stays (ex_lib X) i c (ex_worker_id X) reserved_phase s u"
    by (rule evolvesD [OF stays_allowed [OF env] au]) (simp add: fence_fits_def phase_defs)
  with s have fu: "follows (ex_lib X) i c (ex_worker_id X) s u" and pu: "phase_of u = reserved_phase"
    by (simp_all add: stays_def)
  have rt: "(r, t) = (case q of Inl e \<Rightarrow> (Inl e, u)
      | Inr True \<Rightarrow> (Inr (), set_added u) | Inr False \<Rightarrow> (Inl lease_lost, u))"
    using run au unfolding torrent_add_write_guard_def write_guard_def fence_guard_def on_world_simps
    by (auto simp: bindH_def raise_ifH_def liftH_def on_world_flags split: sum.splits bool.splits)
  show ?thesis
  proof (cases "q = Inr True")
    case True
    with rt have r: "r = Inr ()" "t = set_added u" by simp_all
    have "follows (ex_lib X) i c (ex_worker_id X) s (set_added u)"
    proof (rule txn_flag_follows [OF env au [unfolded allowed_def], where f = "\<lambda>p. p\<lparr> pr_added := True \<rparr>"])
      fix v :: world and n d assume v: "i < length (w_procs v)" "w_procs v ! i = proc_of c (ex_worker_id X) s"
        and m: "ensure_external_action_allowed (ex_lib X) (ex_settings X) (ex_worker_id X) c DE_SUBMITTING False
          (en_db_now (ex_env X) n) (en_clock (ex_env X) n) (en_new_id (ex_env X) n) (w_db v) = (q, d)"
      show "world_step (ex_lib X) v (set_proc i ((proc_of c (ex_worker_id X) s)\<lparr> pr_added := True \<rparr>) (v\<lparr> w_db := d \<rparr>))"
        by (rule world_step.write_guard [where st = "ex_settings X" and now = "en_db_now (ex_env X) n"
            and clock = "en_clock (ex_env X) n" and nid = "en_new_id (ex_env X) n"])
          (use v m True s in \<open>auto simp: proc_of_def phase_of_def phase_defs\<close>)
    qed (simp add: set_added_def added_count_def proc_of_def)
    with r pu show ?thesis by (simp add: set_added_def phase_of_def phase_defs added_count_def)
  next
    case False
    with rt have "t = u" "\<exists>e. r = Inl e" by (auto split: sum.splits bool.splits)
    with fu show ?thesis by auto
  qed
qed

lemma triple_reserve:
  assumes env: "environment_ok (ex_lib X) i (ex_env X)"
  shows "triple (ex_lib X) i c (ex_worker_id X) validating (reserve_once X c m) (\<lambda>_ q. q = reserved_phase)"
  unfolding triple_def
proof (intro allI impI)
  fix s r t assume s: "phase_of s = validating" and run: "reserve_once X c m s = (r, t)"
  let ?m = "\<lambda>E n. reserve_submission (ex_lib X) (ex_settings X) (ex_worker_id X) c m (en_db_now E n) (en_clock E n)"
  obtain q u where au: "on_world (txn X ?m) s = (q, u)" by (cases "on_world (txn X ?m) s")
  have rt: "(q = Inr DE_SUBMITTING \<and> t = set_reserved u) \<or> (q \<noteq> Inr DE_SUBMITTING \<and> (\<exists>e. r = Inl e) \<and> t = u)"
    using run au unfolding reserve_once_def
    by (auto simp: try_body_def handler_defs on_world_flags [unfolded handler_defs] split: sum.splits if_splits)
  have step: "world_step (ex_lib X) v (set_proc i ((proc_of c (ex_worker_id X) s)\<lparr> pr_reserved := True \<rparr>) (v\<lparr> w_db := d \<rparr>))"
    if "i < length (w_procs v)" "w_procs v ! i = proc_of c (ex_worker_id X) s" "?m (ex_env X) n (w_db v) = (q, d)"
      "q = Inr DE_SUBMITTING" for v n d
    by (rule world_step.reserve [where st = "ex_settings X" and m = m and db_now = "en_db_now (ex_env X) n"
        and now = "en_clock (ex_env X) n"]) (use that s in \<open>auto simp: proc_of_def phase_of_def phase_defs\<close>)
  show "follows (ex_lib X) i c (ex_worker_id X) s t \<and> (\<forall>x. r = Inr x \<longrightarrow> phase_of t = reserved_phase)"
  proof (cases "q = Inr DE_SUBMITTING")
    case True
    have "follows (ex_lib X) i c (ex_worker_id X) s (set_reserved u)"
      by (rule txn_flag_follows [OF env au, where f = "\<lambda>p. p\<lparr> pr_reserved := True \<rparr>"])
        (use True step in \<open>auto simp: set_reserved_def added_count_def proc_of_def\<close>)
    moreover have "phase_of u = phase_of s" using au by (auto simp: on_world_def txn_def Let_def same_run split: prod.splits)
    ultimately show ?thesis using True rt s by (auto simp: set_reserved_def phase_of_def phase_defs added_count_def)
  next
    case False
    have "world_step (ex_lib X) v (v\<lparr> w_db := d \<rparr>)" if "i < length (w_procs v)"
      "w_procs v ! i = proc_of c (ex_worker_id X) s" "?m (ex_env X) n (w_db v) = (q, d)" for v n d
      by (rule world_step.reserve_refused [where st = "ex_settings X" and m = m and db_now = "en_db_now (ex_env X) n"
          and now = "en_clock (ex_env X) n" and p = "proc_of c (ex_worker_id X) s" and r = q])
        (use that s False in \<open>auto simp: proc_of_def phase_of_def phase_defs\<close>)
    then have "follows (ex_lib X) i c (ex_worker_id X) s u"
      by (intro conjunct1 [OF txn_follows' [OF env au]]) blast
    with False rt show ?thesis by auto
  qed
qed

section \<open>The request that adds the torrent\<close>

lemma triple_send:
  assumes "is_add rq"
  shows "triple L i c w guarded_phase (send C rq) (\<lambda>_ q. q = sent_phase)"
  unfolding triple_def
proof (intro allI impI)
  fix s r t assume s: "phase_of s = guarded_phase" and run: "send C rq s = (r, t)"
  from run have t: "t = s\<lparr> qb_sent := qb_sent s @ [rq] \<rparr>"
    by (auto simp: send_def Let_def split: http_outcome.splits if_splits)
  have c: "added_count t = added_count s + 1" using assms by (simp add: t added_count_def)
  have c0: "added_count s = 0" using s by (simp add: phase_of_def phase_defs)
  have "\<exists>v'. (world_step L)\<^sup>*\<^sup>* v v' \<and> tracks L i c w v' t" if tr: "tracks L i c w v s" for v
  proof -
    let ?p = "proc_of c w s"
    let ?v = "set_proc i (?p\<lparr> pr_sent := True \<rparr>) (v\<lparr> w_adds := w_adds v @ [proc_execution ?p] \<rparr>)"
    have one: "world_step L v ?v"
      by (rule world_step.send) (use tr s in \<open>auto simp: tracks_def proc_of_def phase_of_def phase_defs\<close>)
    moreover have "tracks L i c w ?v t"
      using tr reachable.step [OF _ one] c c0 by (simp add: tracks_def set_proc_simps t proc_of_def)
    ultimately show ?thesis by blast
  qed
  with c s show "follows L i c w s t \<and> (\<forall>x. r = Inr x \<longrightarrow> phase_of t = sent_phase)"
    by (simp add: follows_def phase_of_def phase_defs t)
qed

lemma triple_catch: "triple L i c w p m Q \<Longrightarrow> triple L i c w p (catchH m (\<lambda>e. raiseH (f e))) Q"
  unfolding triple_def catchH_def raiseH_def by (fastforce split: prod.splits sum.splits)

lemma same_bind:
  "triple L i c w p m (\<lambda>_ q. q = p) \<Longrightarrow> (\<And>x. triple L i c w p (f x) Q) \<Longrightarrow> triple L i c w p (bindH m f) Q"
  by (rule triple_bind [where Q = "\<lambda>_ q. q = p"]) auto

lemma triple_raise_if: "(\<not> b \<Longrightarrow> triple L i c w p (f ()) Q) \<Longrightarrow> triple L i c w p (bindH (raise_ifH b e) f) Q"
  by (rule triple_bind [OF triple_pure(4)]) auto

lemma triple_lift: "(\<And>x. r = Inr x \<Longrightarrow> triple L i c w p (f x) Q) \<Longrightarrow> triple L i c w p (bindH (liftH r) f) Q"
  by (cases r) (auto simp: triple_def bindH_def liftH_def follows_refl)

lemma triple_return: "Q x p \<Longrightarrow> triple L i c w p (returnH x) Q"
  by (auto simp: triple_def returnH_def follows_refl)

lemma triple_request_add:
  assumes env: "environment_ok (ex_lib X) i (ex_env X)" and rq: "is_add rq"
  shows "triple (ex_lib X) i c (ex_worker_id X) reserved_phase
    (request C (Some (qb_request_guard X c)) rq True (Some (torrent_add_write_guard X c))) (\<lambda>_ q. q = sent_phase)"
proof -
  have G: "triple (ex_lib X) i c (ex_worker_id X) reserved_phase
      (run_before_send_guard (Some (qb_request_guard X c))) (\<lambda>_ q. q = reserved_phase)"
    by (rule stays_triple [OF stay.keeps_guard [OF stays_qb_guard [OF env]]])
  have g: "triple (ex_lib X) i c (ex_worker_id X) reserved_phase
      (run_before_send_guard (Some (torrent_add_write_guard X c))) (\<lambda>_ q. q = guarded_phase)"
    unfolding run_before_send_guard_def option.case
    by (rule triple_catch) (simp add: triple_def added_guard [OF env])
  have out: "triple (ex_lib X) i c (ex_worker_id X) guarded_phase (bindH (send C rq) check_status)
      (\<lambda>_ q. q = sent_phase)"
    by (rule triple_bind [OF triple_send [OF rq]]) (simp add: stays_triple [OF stay.keeps_status])
  show ?thesis
    unfolding request_def
    by (intro triple_raise_if triple_get same_bind [OF G] triple_bind [OF g]) (simp add: out)
qed

lemma triple_add:
  assumes env: "environment_ok (ex_lib X) i (ex_env X)" and prepared: "ao_category_prepared od"
  shows "triple (ex_lib X) i c (ex_worker_id X) reserved_phase
    (add_torrent L B C (Some (qb_request_guard X c)) od cg (Some (torrent_add_write_guard X c)))
    (\<lambda>res q. q = (if qa_outcome res = AO_SUBMITTED then sent_phase else reserved_phase))"
proof -
  note guard = stays_qb_guard [OF env, of c reserved_phase]
  have rq: "is_add (add_form od f)" for f by (simp add: is_add_def request_key_def add_form_def post_request_def)
  have mail: "triple (ex_lib X) i c (ex_worker_id X) reserved_phase
      (send_torrent L C (Some (qb_request_guard X c)) (add_form od f) (Some (torrent_add_write_guard X c)))
      (\<lambda>_ q. q = sent_phase)" for f
  proof -
    have handler: "(case e of AppErr a \<Rightarrow> raiseH (if not_performed a then e else unknown_outcome) | _ \<Rightarrow> raiseH e)
      = raiseH (case e of AppErr a \<Rightarrow> if not_performed a then e else unknown_outcome | _ \<Rightarrow> e)" for e
      by (simp split: exn.split)
    show ?thesis
      unfolding send_torrent_def handler
      by (rule triple_bind [OF triple_catch [OF triple_request_add [OF env rq]]])
        (auto intro: triple_post [OF triple_pure(4)])
  qed
  show ?thesis
    unfolding add_torrent_def Let_def
  proof (intro same_bind [OF stays_triple [OF stay.keeps_writable]] triple_lift
      same_bind [OF stays_triple [OF stay.keeps_find [OF guard]]], goal_cases)
    case (1 u m qs)
    have whole: "triple (ex_lib X) i c (ex_worker_id X) reserved_phase
      (bindH (get_add_state_field L C (Some (qb_request_guard X c))) (\<lambda>field.
       bindH (whenH False m') (\<lambda>_.
       bindH (send_torrent L C (Some (qb_request_guard X c)) (add_form od field)
         (Some (torrent_add_write_guard X c))) (\<lambda>_.
       returnH \<lparr> qa_info_hash = h, qa_outcome = AO_SUBMITTED \<rparr>))))
      (\<lambda>res q. q = (if qa_outcome res = AO_SUBMITTED then sent_phase else reserved_phase))" for m' h
      unfolding whenH_def if_False
      by (intro same_bind [OF stays_triple [OF stay.keeps_field [OF guard]]] same_bind [OF triple_post [OF triple_pure(2)]]
          triple_bind [OF mail] triple_return) auto
    show ?case using whole prepared by (auto intro: triple_return)
  qed
qed

section \<open>The whole claim\<close>

lemma stays_requests:
  "evolves (stays L i c w p) (on_world g) \<Longrightarrow> evolves (stays L i c w p) (on_world (guarded_requests A g k))"
proof (induction k)
  case (Suc k)
  then show ?case
    unfolding guarded_requests.simps on_world_simps
    by (intro stay.evolves_rules stay.evolves_catch)
qed (simp add: on_world_simps stay.evolves_return)

lemma triple_pt_call:
  assumes "environment_ok (ex_lib X) i (ex_env X)"
  shows "triple (ex_lib X) i c (ex_worker_id X) validating (pt_call A (pt_request_guard X c) answer)
    (\<lambda>_ q. q = validating)"
proof -
  have "evolves (stays (ex_lib X) i c (ex_worker_id X) validating) (on_world (pt_request_guard X c))"
    unfolding pt_request_guard_def by (rule stays_fence [OF assms]) (simp add: fence_fits_def phase_defs)
  then show ?thesis
    unfolding pt_call_def on_world_simps
    by (intro triple_try stays_triple stay.evolves_rules stays_requests)
qed

lemma triple_validating:
  assumes "environment_ok (ex_lib X) i (ex_env X)"
  shows "triple (ex_lib X) i c (ex_worker_id X) validating (require_allowed X c DE_VALIDATING False) (\<lambda>_ q. q = validating)"
  by (rule triple_require [OF assms]) (simp add: fence_fits_def phase_defs)

lemma triple_try_lift: "(\<And>x. r = Inr x \<Longrightarrow> triple L i c w p (f x) Q) \<Longrightarrow> triple L i c w p (bindH (try_body (liftH r)) f) Q"
  by (cases r) (auto simp: triple_def bindH_def liftH_def try_body_def follows_refl)

lemma triple_search:
  assumes env: "environment_ok (ex_lib X) i (ex_env X)"
  shows "triple (ex_lib X) i c (ex_worker_id X) validating (search_each X c b A rqs seen) (\<lambda>_ q. q = validating)"
proof (induction rqs arbitrary: seen)
  case Nil
  show ?case unfolding search_each.simps by (rule triple_pure)
next
  case (Cons rq rqs)
  show ?case
    unfolding search_each.simps
    by (intro same_bind [OF triple_validating [OF env]] same_bind [OF triple_pt_call [OF env]])
      (simp add: Cons triple_pure)
qed

lemma triple_candidate:
  assumes env: "environment_ok (ex_lib X) i (ex_env X)"
  shows "triple (ex_lib X) i c (ex_worker_id X) validating (find_candidate X c b A) (\<lambda>_ q. q = validating)"
    and "triple (ex_lib X) i c (ex_worker_id X) validating (fetch_validated X c b A candidate) (\<lambda>_ q. q = validating)"
  unfolding find_candidate_def fetch_validated_def
  by (intro triple_try_lift triple_search [OF env] same_bind [OF triple_validating [OF env]]
      same_bind [OF triple_pt_call [OF env]] triple_return refl)+

lemma triple_client:
  assumes env: "environment_ok (ex_lib X) i (ex_env X)"
  shows "triple (ex_lib X) i c (ex_worker_id X) validating (open_client X c) (\<lambda>_ q. q = validating)"
proof -
  have fresh: "triple (ex_lib X) i c (ex_worker_id X) validating (modifyH (\<lambda>s. s\<lparr> qb_auth := False, qb_field := None \<rparr>))
      (\<lambda>_ q. q = validating)"
    by (rule stays_triple, rule stay.evolves_modify) (rule stay.session)
  show ?thesis
    unfolding open_client_def
    by (intro triple_try_lift same_bind [OF fresh] same_bind [OF triple_validating [OF env]]
        same_bind [OF triple_try [OF stays_triple [OF stay.keeps_authenticate [OF stays_qb_guard [OF env]]]]]
        triple_return refl)
qed

lemma triple_observe:
  assumes env: "environment_ok (ex_lib X) i (ex_env X)"
  shows "triple (ex_lib X) i c (ex_worker_id X) p (observe X c C m) (\<lambda>_ q. q = p)"
  unfolding observe_def
  by (intro same_bind [OF triple_try [OF stays_triple [OF stay.keeps_find [OF stays_qb_guard [OF env]]]]]
      triple_try triple_pure)

lemma triple_category:
  assumes env: "environment_ok (ex_lib X) i (ex_env X)"
  shows "triple (ex_lib X) i c (ex_worker_id X) validating (prepare_category X c C b existing) (\<lambda>_ q. q = validating)"
proof (cases existing)
  case None
  show ?thesis
    unfolding prepare_category_def None option.case
    by (intro same_bind [OF triple_validating [OF env]] triple_try_lift triple_try stays_triple
        stay.keeps_category category_is_no_add stays_qb_guard stays_category_guard env)
qed (simp add: prepare_category_def triple_return)

definition outcome_fits :: "execution_status \<Rightarrow> phase \<Rightarrow> bool" where
  "outcome_fits outcome q \<longleftrightarrow>
    (outcome = DE_ALREADY_PRESENT \<and> q = reserved_phase) \<or> (outcome = DE_SUBMITTED \<and> q = sent_phase)"

lemma triple_submit:
  assumes env: "environment_ok (ex_lib X) i (ex_env X)"
  shows "triple (ex_lib X) i c (ex_worker_id X) reserved_phase (submit X c C b payload m existing) outcome_fits"
proof (cases existing)
  case None
  have prepared: "plan_order X b payload m = Inr od \<Longrightarrow> ao_category_prepared od" for od
    by (auto simp: plan_order_def result_simps)
  have last: "triple (ex_lib X) i c (ex_worker_id X) q (bindH (raise_ifH bad e) (\<lambda>_. returnH (outcome_status (qa_outcome res))))
      outcome_fits" if "q = (if qa_outcome res = AO_SUBMITTED then sent_phase else reserved_phase)" for q bad e res
    by (rule triple_raise_if, rule triple_return) (use that in \<open>cases "qa_outcome res"; auto simp: outcome_fits_def\<close>)
  show ?thesis
    unfolding submit_def None option.case
    by (intro triple_try_lift triple_bind [OF triple_try [OF triple_add [OF env prepared]]] last)
qed (simp add: submit_def triple_return outcome_fits_def)

lemma triple_finalize:
  assumes env: "environment_ok (ex_lib X) i (ex_env X)" and fits: "outcome_fits outcome p"
  shows "triple (ex_lib X) i c (ex_worker_id X) p (finalize_observed X c outcome q) (\<lambda>_ _. True)"
  unfolding finalize_observed_def
  by (intro same_bind triple_try stays_triple stays_txn [OF env] step_finalize triple_return)
    (use fits in \<open>auto simp: outcome_fits_def phase_of_def phase_defs proc_of_def\<close>)

lemma triple_verify:
  assumes env: "environment_ok (ex_lib X) i (ex_env X)"
  shows "triple (ex_lib X) i c (ex_worker_id X) reserved_phase (submit_and_verify X c C b payload m existing) (\<lambda>_ _. True)"
  unfolding submit_and_verify_def
proof (rule triple_bind [OF triple_submit [OF env]])
  fix outcome p assume fits: "outcome_fits outcome p"
  then have "fst p" by (auto simp: outcome_fits_def phase_defs)
  then show "triple (ex_lib X) i c (ex_worker_id X) p
    (bindH (require_allowed_submitting X c) (\<lambda>_.
     bindH (observe X c C m) (\<lambda>observed.
     bindH (try_body (liftH (check_observed (ex_lib X) b outcome observed))) (\<lambda>q.
     bindH (require_allowed_submitting X c) (\<lambda>_.
     finalize_observed X c outcome q))))) (\<lambda>_ _. True)"
    by (intro same_bind [OF triple_require_submitting [OF env]] same_bind [OF triple_observe [OF env]]
        triple_try_lift triple_finalize [OF env fits])
qed

lemma triple_body:
  assumes env: "environment_ok (ex_lib X) i (ex_env X)"
  shows "triple (ex_lib X) i c (ex_worker_id X) validating (claim_body X c) (\<lambda>_ _. True)"
proof -
  have binding: "triple (ex_lib X) i c (ex_worker_id X) validating
      (try_body (on_world (txn X (\<lambda>E n. reading (load_binding (ex_lib X) (ex_settings X) (ex_worker_id X) c)))))
      (\<lambda>_ q. q = validating)"
    by (intro triple_try stays_triple stays_txn [OF env] step_reading)
  show ?thesis
    unfolding claim_body_def Let_def split_def
    by (intro same_bind [OF triple_validating [OF env]] same_bind [OF binding] same_bind [OF triple_candidate(1) [OF env]]
        same_bind [OF triple_candidate(2) [OF env]] same_bind [OF triple_client [OF env]]
        same_bind [OF triple_observe [OF env]] same_bind [OF triple_category [OF env]]
        triple_bind [OF triple_reserve [OF env]])
      (simp add: triple_verify [OF env])
qed

lemma failure_follows:
  assumes env: "environment_ok (ex_lib X) i (ex_env X)" and run: "on_world (handle_stop X c e) s = (r, t)"
  shows "follows (ex_lib X) i c (ex_worker_id X) s t"
proof -
  have split: "on_world (record_failure X c err) s =
      (if cr_reserved (qb_world s)
       then on_world (txn X (\<lambda>E n. mark_reserved_failure (ex_lib X) (ex_settings X) (ex_worker_id X) c err
        (cr_added (qb_world s)) (en_db_now E n))) s
       else on_world (txn X (\<lambda>E n. mark_validation_failure (ex_lib X) (ex_settings X) (ex_worker_id X) c err
        (cr_category (qb_world s)) (en_db_now E n))) s)" for err
    unfolding record_failure_def on_world_simps bind_getH id_apply by (rule if_distrib [of "\<lambda>m. on_world m s"])
  have rec: "follows (ex_lib X) i c (ex_worker_id X) s t" if "on_world (record_failure X c err) s = (r, t)" for err
  proof (cases "cr_reserved (qb_world s)")
    case True
    have "on_world (txn X (\<lambda>E n. mark_reserved_failure (ex_lib X) (ex_settings X) (ex_worker_id X) c err
        (cr_added (qb_world s)) (en_db_now E n))) s = (r, t)"
      using that unfolding split if_P [OF True] .
    from txn_follows [OF env this] show ?thesis
      by (rule conjunct1) (rule step_failures(1); simp add: proc_of_def True)
  next
    case False
    have "on_world (txn X (\<lambda>E n. mark_validation_failure (ex_lib X) (ex_settings X) (ex_worker_id X) c err
        (cr_category (qb_world s)) (en_db_now E n))) s = (r, t)"
      using that unfolding split if_not_P [OF False] .
    from txn_follows [OF env this] show ?thesis
      by (rule conjunct1) (rule step_failures(2); simp add: proc_of_def False)
  qed
  show ?thesis
    using run rec
    by (auto simp: handle_stop_def on_world_simps returnH_run follows_refl split: stop.splits exn.splits if_splits)
qed

lemma clear_follows: "clear_session s = (r, t) \<Longrightarrow> follows L i c w s t"
  by (rule follows_same) (auto simp: clear_session_def modifyH_def added_count_def)

lemma process_follows:
  assumes env: "environment_ok (ex_lib X) i (ex_env X)" and s: "phase_of s = validating"
    and run: "process_claim X c s = (r, t)"
  shows "follows (ex_lib X) i c (ex_worker_id X) s t"
proof -
  obtain q u where body: "claim_body X c s = (q, u)" by (cases "claim_body X c s")
  from triple_body [OF env] body s have su: "follows (ex_lib X) i c (ex_worker_id X) s u" by (simp add: triple_def)
  show ?thesis
  proof (cases q)
    case (Inl e)
    obtain h u' where stp: "on_world (handle_stop X c e) u = (h, u')" by (cases "on_world (handle_stop X c e) u")
    have "snd (process_claim X c s) = snd (clear_session u')"
      by (cases h) (simp_all add: process_claim_def body Inl stp)
    with run have "clear_session u' = (fst (clear_session u'), t)" by (metis prod.collapse snd_conv)
    then have "follows (ex_lib X) i c (ex_worker_id X) u' t" by (rule clear_follows)
    with failure_follows [OF env stp] su show ?thesis by (blast intro: follows_trans)
  next
    case (Inr x)
    with run body have "clear_session u = (r, t)" by (simp add: process_claim_def)
    with su clear_follows show ?thesis by (blast intro: follows_trans)
  qed
qed

text \<open>The state in which a claimed execution is processed: flags unset and a client that sent nothing.\<close>

definition claim_start :: "db \<Rightarrow> nat \<Rightarrow> claim_run qb" where
  "claim_start d n = qb_new \<lparr> cr_db = d, cr_tick = n, cr_reserved = False, cr_category = False, cr_added = False \<rparr>"

lemma claim_start_tracks:
  assumes "reachable L v" "i < length (w_procs v)" "w_procs v ! i = start_proc c w"
  shows "tracks L i c w v (claim_start (w_db v) n)" and "phase_of (claim_start d n) = validating"
  using assms by (simp_all add: tracks_def claim_start_def qb_new_def proc_of_def start_proc_def added_count_def
      phase_of_def phase_defs)

text \<open>C3: The code of the executor refines its state machine. From any reachable state in which worker
  w has just claimed an execution, every run of \<open>_process_claim\<close>, whatever the PT site and
  qBittorrent answer and whatever the other workers, routes and the automation do in between, is a
  sequence of steps of the machine, so all its laws hold of the code: it sends at most one request
  that adds a torrent, and when it sent one, the execution is in the machine's log, which names each
  execution once.\<close>
theorem process_claim_refines_executor:
  assumes "reachable (ex_lib X) v" and "i < length (w_procs v)"
    and "w_procs v ! i = start_proc c (ex_worker_id X)"
    and "environment_ok (ex_lib X) i (ex_env X)"
    and "process_claim X c (claim_start (w_db v) n) = (r, t)"
  shows "\<exists>v'. (world_step (ex_lib X))\<^sup>*\<^sup>* v v' \<and> w_db v' = cr_db (qb_world t) \<and> distinct (w_adds v')
    \<and> length (filter is_add (qb_sent t)) \<le> 1
    \<and> (filter is_add (qb_sent t) \<noteq> [] \<longrightarrow> cl_execution_id c \<in> set (w_adds v'))"
proof -
  note start = claim_start_tracks [OF assms(1-3)]
  from process_follows [OF assms(4) start(2) assms(5)] start(1)
  obtain v' where steps: "(world_step (ex_lib X))\<^sup>*\<^sup>* v v'" and tr: "tracks (ex_lib X) i c (ex_worker_id X) v' t"
    unfolding follows_def by blast
  have ok: "world_ok (ex_lib X) v'" using tr by (simp add: tracks_def reachable_ok)
  have p: "proc_of c (ex_worker_id X) t \<in> set (w_procs v')" using tr by (metis tracks_def nth_mem)
  have "cl_execution_id c \<in> set (w_adds v')" if "filter is_add (qb_sent t) \<noteq> []"
  proof -
    have "pr_sent (proc_of c (ex_worker_id X) t)" using that by (simp add: proc_of_def added_count_def)
    with p have "proc_execution (proc_of c (ex_worker_id X) t) \<in> proc_execution ` {p \<in> set (w_procs v'). pr_sent p}"
      by blast
    with ok show ?thesis by (simp add: world_ok_def proc_execution_def proc_of_def)
  qed
  with steps tr ok show ?thesis
    by (intro exI [of _ v']) (simp add: tracks_def added_count_def world_ok_def)
qed

section \<open>A concrete executor\<close>

text \<open>Nothing interferes and no PT site can be opened: the claim ends as a failed validation.\<close>

definition example_executor :: executor where
  "example_executor = \<lparr> ex_lib = sealed_lib, ex_bencode = \<lparr> bdecode = (\<lambda>_. None), bencode = (\<lambda>_. []) \<rparr>,
     ex_settings = example_settings, ex_worker_id = ''w'',
     ex_pt = (\<lambda>_ _. \<lparr> pa_search_modes = Inr [SM_TEXT], pa_create = Inl (app_err ''PT_SITE_EXECUTOR_UNSUPPORTED'' 409),
       pa_search = (\<lambda>_ _. (1, Inr [])), pa_fetch_torrent = (\<lambda>_ _. (1, Inr [])), pa_guard_error = unsent \<rparr>),
     ex_qb = Inr example_conf,
     ex_env = \<lparr> en_interfere = (\<lambda>_ s. s), en_db_now = (\<lambda>_. Aware 0), en_clock = (\<lambda>_. 0), en_new_id = (\<lambda>_. ''n1'') \<rparr> \<rparr>"

lemma example_environment: "environment_ok (ex_lib example_executor) i (ex_env example_executor)"
  by (auto simp: environment_ok_def example_executor_def)

lemma process_claim_refines_executor_witness:
  "\<exists>v t. reachable sealed_lib v \<and> snd (process_claim example_executor run_claim (claim_start (w_db v) 0)) = t
    \<and> length (filter is_add (qb_sent t)) \<le> 1
    \<and> (\<exists>v'. (world_step sealed_lib)\<^sup>*\<^sup>* v v' \<and> w_db v' = cr_db (qb_world t))"
proof -
  obtain aev xev where r: "reachable sealed_lib \<lparr> w_db = run_db run_approval [run_spent] [run_claimed] aev xev,
      w_procs = [start_proc run_claim ''w''], w_adds = [] \<rparr>"
    using run_after_claim by blast
  define v where "v = \<lparr> w_db = run_db run_approval [run_spent] [run_claimed] aev xev,
      w_procs = [start_proc run_claim ''w''], w_adds = [] \<rparr>"
  have lib: "ex_lib example_executor = sealed_lib" "ex_worker_id example_executor = ''w''"
    by (simp_all add: example_executor_def)
  obtain q t where run: "process_claim example_executor run_claim (claim_start (w_db v) 0) = (q, t)"
    by (cases "process_claim example_executor run_claim (claim_start (w_db v) 0)")
  have "reachable (ex_lib example_executor) v" "0 < length (w_procs v)"
    "w_procs v ! 0 = start_proc run_claim (ex_worker_id example_executor)"
    using r by (simp_all add: v_def lib)
  from process_claim_refines_executor [OF this example_environment run]
  obtain v' where "(world_step sealed_lib)\<^sup>*\<^sup>* v v'" "w_db v' = cr_db (qb_world t)"
    "length (filter is_add (qb_sent t)) \<le> 1" unfolding lib by blast
  moreover have "reachable sealed_lib v" "snd (process_claim example_executor run_claim (claim_start (w_db v) 0)) = t"
    using r run by (simp_all add: v_def)
  ultimately show ?thesis by - (intro exI [of _ v] exI [of _ t] exI [of _ v'] conjI)
qed

end
