(* ===== verification/QueueLaws.thy ===== *)
theory QueueLaws
  imports WorkerLaws Routes
begin

text \<open>
  The job queue as a state machine: a job moves forward from its creation to one end, is claimed
  at most as often as it allows, and only one job of a type is active. A worker that has lost its
  lease can change nothing. The transactions of both workers and of the services that queue jobs
  are its steps.
\<close>

section \<open>What leaves the queue alone\<close>

lemma queue_core_writes [evolves_intros]:
  "evolves (\<lambda>s t. db_tasks t = db_tasks s) (save_approval a)"
  "evolves (\<lambda>s t. db_tasks t = db_tasks s) (insert_approval a)"
  "evolves (\<lambda>s t. db_tasks t = db_tasks s) (insert_approval_event e)"
  "evolves (\<lambda>s t. db_tasks t = db_tasks s) (insert_plan p)"
  "evolves (\<lambda>s t. db_tasks t = db_tasks s) (save_intent i)"
  "evolves (\<lambda>s t. db_tasks t = db_tasks s) (insert_intent i)"
  "evolves (\<lambda>s t. db_tasks t = db_tasks s) (insert_execution x)"
  "evolves (\<lambda>s t. db_tasks t = db_tasks s) (insert_execution_event f)"
  unfolding write_defs
  by (intro leaves.evolves_bind leaves.evolves_get leaves.evolves_raise_if leaves_modify; simp)+

lemma queue_policy_writes [evolves_intros]:
  "evolves (\<lambda>s t. db_tasks t = db_tasks s) (insert_revision r)"
  "evolves (\<lambda>s t. db_tasks t = db_tasks s) (insert_head h)"
  "evolves (\<lambda>s t. db_tasks t = db_tasks s) (insert_decision d)"
  unfolding insert_revision_def insert_head_def insert_decision_def
  by (intro leaves.evolves_bind leaves.evolves_get leaves.evolves_raise_if leaves_modify; simp)+

lemma queue_workflow_writes [evolves_intros]:
  "evolves (\<lambda>s t. db_tasks t = db_tasks s) (save_media m)"
  "evolves (\<lambda>s t. db_tasks t = db_tasks s) (insert_media m)"
  "evolves (\<lambda>s t. db_tasks t = db_tasks s) (save_run r)"
  "evolves (\<lambda>s t. db_tasks t = db_tasks s) (insert_run r)"
  "evolves (\<lambda>s t. db_tasks t = db_tasks s) (insert_review v)"
  "evolves (\<lambda>s t. db_tasks t = db_tasks s) (insert_match x)"
  "evolves (\<lambda>s t. db_tasks t = db_tasks s) (insert_candidate c)"
  "evolves (\<lambda>s t. db_tasks t = db_tasks s) (insert_audit_event a1 a2 a3 a4)"
  "evolves (\<lambda>s t. db_tasks t = db_tasks s) (save_discovery_run d)"
  unfolding workflow_write_defs by (intro leaves.evolves_rules leaves_modify; simp)+

lemma queue_policy [evolves_intros]:
  "evolves (\<lambda>s t. db_tasks t = db_tasks s) (get_current_policy L now nid)"
  "evolves (\<lambda>s t. db_tasks t = db_tasks s) (add_decision_once d)"
  unfolding get_current_policy_def policy_at_head_def create_default_policy_def add_decision_once_def
  by (intro leaves.evolves_rules leaves.evolves_catch queue_policy_writes;
      auto split: exn.splits option.splits intro!: leaves.evolves_rules)+

lemma queue_notes [evolves_intros]:
  "evolves (\<lambda>s t. db_tasks t = db_tasks s) (record_stage_decision L r stage action outcome sj reasons evidence nid)"
  "evolves (\<lambda>s t. db_tasks t = db_tasks s) (note_preflight L r a evidence F outcome reasons x)"
  "evolves (\<lambda>s t. db_tasks t = db_tasks s) (note_selection L r sj F outcome reasons evidence)"
  "evolves (\<lambda>s t. db_tasks t = db_tasks s) (note_execution L r sj F evidence outcome reasons y)"
  "evolves (\<lambda>s t. db_tasks t = db_tasks s) (note_approval L r a F evidence outcome reasons z)"
  unfolding note_preflight_def note_selection_def note_execution_def note_approval_def record_stage_decision_def
  by (intro leaves.evolves_rules queue_policy)+

lemma queue_approval_steps [evolves_intros]:
  "evolves (\<lambda>s t. db_tasks t = db_tasks s) (add_event L a ty fs ts actor reason details)"
  "evolves (\<lambda>s t. db_tasks t = db_tasks s) (transition L a ts actor ty reason now details)"
  "evolves (\<lambda>s t. db_tasks t = db_tasks s) (expire L a now)"
  "evolves (\<lambda>s t. db_tasks t = db_tasks s) (stage_expiration_if_needed L a now)"
  "evolves (\<lambda>s t. db_tasks t = db_tasks s) (reject_expired L a now)"
  "evolves (\<lambda>s t. db_tasks t = db_tasks s) (require_pending_approval L a now)"
  unfolding add_event_def transition_def expire_def stage_expiration_if_needed_def reject_expired_def
    require_pending_approval_def expire_or_require_pending_def Let_def
  by (intro leaves.evolves_rules queue_core_writes)+

lemma queue_approvals [evolves_intros]:
  "evolves (\<lambda>s t. db_tasks t = db_tasks s) (create_approval_request L c ttl st actor now nid)"
  "evolves (\<lambda>s t. db_tasks t = db_tasks s) (save_preflight_result L a r actor now)"
  "evolves (\<lambda>s t. db_tasks t = db_tasks s) (approve_request L a req st actor now nid)"
  "evolves (\<lambda>s t. db_tasks t = db_tasks s) (approve_request_automatically L a st actor rv dc now now2 nid)"
  unfolding create_approval_request_def clear_active_for_candidate_def save_preflight_result_def
    approve_request_def approve_request_automatically_def Let_def
  by (intro leaves.evolves_rules queue_core_writes queue_approval_steps)+

lemma queue_reads: "reads m \<Longrightarrow> evolves (\<lambda>s t. db_tasks t = db_tasks s) m"
  by (auto simp: reads_def evolves_def)

lemma queue_execution_events [evolves_intros]:
  "evolves (\<lambda>s t. db_tasks t = db_tasks s) (add_approval_event L a ty actor details fs)"
  "evolves (\<lambda>s t. db_tasks t = db_tasks s) (add_execution_event L e ty actor fs' ts details)"
  unfolding add_approval_event_def add_execution_event_def by (rule queue_core_writes)+

lemma queue_execution_steps:
  "evolves (\<lambda>s t. db_tasks t = db_tasks s) (approved_context L a st now)"
  "evolves (\<lambda>s t. db_tasks t = db_tasks s) (clear_active_intent L a now)"
  "evolves (\<lambda>s t. db_tasks t = db_tasks s) (consume_intent L a sn p i nd kd rh b st actor now nid)"
  unfolding approved_context_def require_approved_def stage_approval_expiry_def clear_active_intent_def expire_intent_def
    consume_intent_def require_usable_intent_def Let_def
  by (intro leaves.evolves_rules queue_core_writes queue_execution_events queue_reads [OF reads_handlers(1)]
      queue_reads [OF reads_handlers(2)])+

lemmas queue_read_handlers = queue_reads [OF reads_handlers(1)] queue_reads [OF reads_handlers(2)]
  queue_reads [OF reads_handlers(3)] queue_reads [OF reads_handlers(4)] queue_reads [OF reads_handlers(5)]
  queue_reads [OF reads_handlers(6)] queue_reads [OF reads_handlers(7)] queue_reads [OF reads_verified]

lemma queue_executions [evolves_intros]:
  "evolves (\<lambda>s t. db_tasks t = db_tasks s) (create_execution_intent L k lm ttl st actor b now nid nonce)"
  "evolves (\<lambda>s t. db_tasks t = db_tasks s) (execute_approved_plan L k i nonce key st actor b now nid)"
  unfolding create_execution_intent_def execute_approved_plan_def start_execution_def Let_def
  by (auto split: prod.split intro!: leaves.evolves_rules queue_core_writes queue_execution_events
      queue_execution_steps queue_read_handlers)

lemma queue_engine [evolves_intros]:
  "evolves (\<lambda>s t. db_tasks t = db_tasks s) (maybe_create_automatic_execution L st a F T)"
  unfolding maybe_create_automatic_execution_def act_on_execution_def start_automatic_execution_def
    download_executor_is_ready_def Let_def
  by (auto split: option.split prod.split
      intro!: leaves.evolves_rules queue_policy queue_notes queue_executions queue_read_handlers)

lemma queue_finalize [evolves_intros]:
  "evolves (\<lambda>s t. db_tasks t = db_tasks s) (maybe_finalize_automatic_approval L st a policy_id seal job F T)"
  unfolding maybe_finalize_automatic_approval_def finalize_pending_def act_on_approval_def Let_def
  by (auto split: option.split prod.split
      intro!: leaves.evolves_rules queue_policy queue_notes queue_approvals queue_engine)

end
