(* ===== verification/QueueMachine.thy ===== *)
theory QueueMachine
  imports QueueLaws
begin

text \<open>
  The invariant of the job queue and the moves of its jobs. A job is running exactly when it has a
  lease, its attempts are counted up to their maximum and never down, one job of a type is active,
  and a job that has ended stays as it is. Every transaction of the workers, of the workflow service
  and of the engine keeps this; \<open>queue_step\<close> is one of them, or a transaction elsewhere.
\<close>

section \<open>Jobs and their moves\<close>

definition task_check :: "task \<Rightarrow> bool" where
  "task_check t \<longleftrightarrow> 0 \<le> tk_attempts t \<and> tk_attempts t \<le> max 0 (tk_max_attempts t)
    \<and> (tk_lease_token t \<noteq> None \<longleftrightarrow> tk_status t = TK_RUNNING)
    \<and> (tk_locked_by t \<noteq> None \<longleftrightarrow> tk_status t = TK_RUNNING)
    \<and> (tk_locked_at t \<noteq> None \<longleftrightarrow> tk_status t = TK_RUNNING)
    \<and> (tk_next_retry_at t \<noteq> None \<longleftrightarrow> tk_status t = TK_RETRY_WAIT)"

definition task_moves :: "task \<Rightarrow> task \<Rightarrow> bool" where
  "task_moves t u \<longleftrightarrow> tk_job_type u = tk_job_type t \<and> tk_run_id u = tk_run_id t
    \<and> tk_max_attempts u = tk_max_attempts t \<and> tk_created_at u = tk_created_at t
    \<and> tk_attempts t \<le> tk_attempts u
    \<and> (tk_status u = TK_PENDING \<longrightarrow> tk_status t = TK_PENDING)
    \<and> (\<not> active_task t \<longrightarrow> u = t)"

lemma task_moves_refl [simp]: "task_moves t t"
  by (simp add: task_moves_def)

lemma task_moves_trans: "task_moves a b \<Longrightarrow> task_moves b c \<Longrightarrow> task_moves a c"
  by (auto simp: task_moves_def)

definition tasks_ok :: "task list \<Rightarrow> bool" where
  "tasks_ok rows \<longleftrightarrow> distinct (map tk_id rows) \<and> list_all task_check rows
    \<and> (\<forall>a \<in> set rows. \<forall>b \<in> set rows. \<not> tasks_clash a b)"

definition queue_moves :: "db \<Rightarrow> db \<Rightarrow> bool" where
  "queue_moves s u \<longleftrightarrow> tasks_ok (db_tasks s) \<longrightarrow>
    tasks_ok (db_tasks u) \<and> rows_kept tk_id task_moves (db_tasks s) (db_tasks u)"

interpretation queue: store_preorder queue_moves
proof
  show "queue_moves s s" for s
    by (simp add: queue_moves_def rows_kept_refl)
  show "queue_moves s t \<Longrightarrow> queue_moves t u \<Longrightarrow> queue_moves s u" for s t u
    unfolding queue_moves_def by (blast intro: rows_kept_trans task_moves_trans)
qed

text \<open>The row of a job as the store has it.\<close>

definition stored_task :: "db \<Rightarrow> task \<Rightarrow> bool" where
  "stored_task s t \<longleftrightarrow> task_by_id (tk_id t) s = Some t"

lemma stored_task_member: "tasks_ok (db_tasks s) \<Longrightarrow> t \<in> set (db_tasks s) \<Longrightarrow> stored_task s t"
  by (simp add: stored_task_def task_by_id_def tasks_ok_def row_get_member)

lemma stored_task_in: "stored_task s t \<Longrightarrow> t \<in> set (db_tasks s)"
  by (auto simp: stored_task_def task_by_id_def dest: row_get_SomeD)

lemma stored_task_check: "tasks_ok (db_tasks s) \<Longrightarrow> stored_task s t \<Longrightarrow> task_check t"
  by (auto simp: tasks_ok_def list_all_iff dest: stored_task_in)

lemma stored_same_tasks: "db_tasks u = db_tasks s \<Longrightarrow> stored_task u t = stored_task s t"
  by (simp add: stored_task_def task_by_id_def)

lemma clash_sym: "tasks_clash a b = tasks_clash b a"
  by (auto simp: tasks_clash_def)

lemma no_clash_self [simp]: "\<not> tasks_clash t t"
  by (simp add: tasks_clash_def)

lemma tasks_ok_put:
  assumes "tasks_ok rows" and "task_check u" and "\<not> list_ex (tasks_clash u) rows"
  shows "tasks_ok (row_put tk_id u rows)"
proof -
  have "\<not> tasks_clash a b" if "a \<in> set (row_put tk_id u rows)" and "b \<in> set (row_put tk_id u rows)" for a b
    using set_row_putD [OF that(1)] set_row_putD [OF that(2)] assms
    by (auto simp: tasks_ok_def list_ex_iff clash_sym [of _ u])
  then show ?thesis using assms by (auto simp: tasks_ok_def list_all_row_put)
qed

lemma tasks_ok_add:
  assumes "tasks_ok rows" and "task_check u" and "tk_id u \<notin> set (map tk_id rows)" and "\<not> list_ex (tasks_clash u) rows"
  shows "tasks_ok (row_add u rows)"
  using assms by (auto simp: tasks_ok_def list_ex_iff clash_sym [of _ u])

lemma keeps_save_task:
  assumes "tasks_ok (db_tasks s) \<Longrightarrow> stored_task s t \<and> tk_id u = tk_id t \<and> task_moves t u \<and> task_check u"
  shows "keeps queue_moves s (save_task u)"
proof (cases "tasks_ok (db_tasks s) \<and> \<not> list_ex (tasks_clash u) (db_tasks s)")
  case True
  with assms have "rows_kept tk_id task_moves (db_tasks s) (row_put tk_id u (db_tasks s))"
    by (intro rows_kept_put) (auto simp: stored_task_def task_by_id_def)
  with True assms tasks_ok_put [of "db_tasks s" u] show ?thesis
    by (auto simp: keeps_def save_task_def handler_defs queue_moves_def)
next
  case False
  then show ?thesis
    by (auto simp: keeps_def save_task_def handler_defs queue_moves_def rows_kept_refl)
qed

lemma evolves_insert_task:
  assumes "task_check u"
  shows "evolves queue_moves (insert_task u)"
  using tasks_ok_add [OF _ assms]
  by (auto simp: evolves_def insert_task_def handler_defs queue_moves_def rows_kept_refl rows_kept_add)

lemma evolves_leaves_queue: "evolves (\<lambda>s t. db_tasks t = db_tasks s) m \<Longrightarrow> evolves queue_moves m"
  by (auto simp: evolves_def queue_moves_def rows_kept_refl)

text \<open>A step before a save: it leaves the queue alone.\<close>

lemma keeps_queue_bind:
  assumes "evolves (\<lambda>s t. db_tasks t = db_tasks s) m"
    and "\<And>x t. m s = (Inr x, t) \<Longrightarrow> db_tasks t = db_tasks s \<Longrightarrow> keeps queue_moves t (f x)"
  shows "keeps queue_moves s (bindH m f)"
  by (rule queue.keeps_leaves_bind [OF evolves_keeps [OF evolves_leaves_queue [OF assms(1)]] assms])

lemma keeps_when_ok: "(tasks_ok (db_tasks s) \<Longrightarrow> keeps queue_moves s m) \<Longrightarrow> keeps queue_moves s m"
  by (auto simp: keeps_def queue_moves_def)

section \<open>The moves of one job\<close>

lemma task_check_new: "task_check (new_task i ty p n now)"
  by (simp add: task_check_def new_task_def)

lemma claim_moves:
  assumes "task_check t" and "may_claim lease now t"
  shows "task_moves t (taken w token n t)" and "task_check (taken w token n t)"
  using assms
  by (auto simp: task_moves_def task_check_def taken_def may_claim_def claimable_def active_task_def
      active_task_statuses_def)

lemma renew_moves:
  assumes "task_check t" and "tk_status t = TK_RUNNING"
  shows "task_moves t (t\<lparr> tk_locked_at := Some n \<rparr>)" and "task_check (t\<lparr> tk_locked_at := Some n \<rparr>)"
  using assms by (auto simp: task_moves_def task_check_def active_task_def active_task_statuses_def)

lemma failed_moves:
  assumes "task_check t" and "tk_status t = TK_RUNNING"
  shows "task_moves t (failed_task L e n t)" and "task_check (failed_task L e n t)"
  using assms
  by (auto simp: task_moves_def task_check_def active_task_def active_task_statuses_def failed_task_def released_task_def)

lemma succeeded_moves:
  assumes "task_check t" and "tk_status t = TK_RUNNING"
  shows "task_moves t (succeeded t)" and "task_check (succeeded t)"
    and "task_moves t ((succeeded t)\<lparr> tk_next_retry_at := None \<rparr>)"
    and "task_check ((succeeded t)\<lparr> tk_next_retry_at := None \<rparr>)"
  using assms
  by (auto simp: task_moves_def task_check_def active_task_def active_task_statuses_def succeeded_def released_task_def)

lemma clear_error_moves:
  assumes "task_moves t u" and "task_check u" and "active_task t"
  shows "task_moves t (u\<lparr> tk_error_code := None, tk_error_message := None \<rparr>)"
    and "task_check (u\<lparr> tk_error_code := None, tk_error_message := None \<rparr>)"
  using assms by (auto simp: task_moves_def task_check_def)

lemma may_claim_active: "may_claim lease now t \<Longrightarrow> active_task t"
  by (auto simp: may_claim_def claimable_def active_task_def active_task_statuses_def)

lemma payload_moves:
  assumes "task_check t" and "active_task t"
  shows "task_moves t (t\<lparr> tk_payload := p \<rparr>)" and "task_check (t\<lparr> tk_payload := p \<rparr>)"
  using assms by (auto simp: task_moves_def task_check_def)

section \<open>What the services do to the queue\<close>

lemma queue_lock_media: "evolves (\<lambda>s t. db_tasks t = db_tasks s) (lock_media mid)"
  unfolding lock_media_def by (intro leaves.evolves_rules)

lemma queue_refresh [evolves_intros]:
  "evolves (\<lambda>s t. db_tasks t = db_tasks s) (refresh_media_search_workflow_status mid)"
  unfolding refresh_media_search_workflow_status_def
  by (auto split: option.split intro!: leaves.evolves_rules queue_workflow_writes queue_lock_media)

lemmas queue_quiet =
  queue_core_writes queue_policy_writes queue_workflow_writes queue_policy queue_notes queue_lock_media queue_refresh
lemmas quiet_moves = queue_quiet [THEN evolves_leaves_queue]

lemma queue_enqueue_resolution [evolves_intros]:
  "evolves queue_moves (enqueue_metadata_resolution L mid n nid now)"
  unfolding enqueue_metadata_resolution_def Let_def
  by (auto split: option.split intro!: queue.evolves_rules quiet_moves evolves_insert_task task_check_new)

lemma queue_enqueue_search [evolves_intros]:
  "evolves queue_moves (enqueue_torrent_search L mid q n st i1 i2 now)"
  unfolding enqueue_torrent_search_def Let_def
  by (auto split: option.split prod.split intro!: queue.evolves_rules quiet_moves evolves_insert_task task_check_new)

text \<open>The row of a job after an insertion, and after what leaves the queue.\<close>

lemma insert_task_run: "insert_task u s = (Inr x, v) \<Longrightarrow> db_tasks v = row_add u (db_tasks s) \<and> tk_id u \<notin> tk_id ` set (db_tasks s)"
  by (auto simp: insert_task_def handler_simps)

lemma stored_after_insert: "insert_task u s = (Inr x, v) \<Longrightarrow> stored_task v u"
  by (drule insert_task_run)
    (auto simp: stored_task_def task_by_id_def row_get_add image_iff split: option.split dest!: row_get_SomeD)

lemma active_of_type_stored:
  assumes "tasks_ok (db_tasks s)" and "active_of_type types s = Some t"
  shows "stored_task s t" and "active_task t"
proof -
  from find_SomeD [OF assms(2) [unfolded active_of_type_def]] have "t \<in> set (db_tasks s)" and "active_task t" by auto
  with assms(1) show "stored_task s t" and "active_task t" by (auto intro: stored_task_member)
qed

lemma quiet_runs:
  "insert_audit_event a1 a2 a3 a4 s = (r, u) \<Longrightarrow> db_tasks u = db_tasks s"
  "refresh_media_search_workflow_status mid s = (r', u) \<Longrightarrow> db_tasks u = db_tasks s"
  "lock_media mid s = (r'', u) \<Longrightarrow> db_tasks u = db_tasks s"
  by (erule evolvesD [OF queue_workflow_writes(8)], erule evolvesD [OF queue_refresh], erule evolvesD [OF queue_lock_media])

lemma new_task_active: "active_task (new_task i ty p n now)"
  by (simp add: active_task_def active_task_statuses_def new_task_def)

lemma enqueue_search_stored:
  assumes "tasks_ok (db_tasks s)" and "enqueue_torrent_search L mid q n st i1 i2 now s = (Inr (sr, t, again), u)"
  shows "stored_task u t \<and> active_task t \<and> task_check t"
  using assms(2)
proof (cases "running_search mid (sq_site_id q) s")
  case (Some p)
  obtain sr' t' where p: "p = (sr', t')" by (cases p)
  with Some have found: "\<exists>types. active_of_type types s = Some t'"
    by (auto simp: running_search_def both_def split: option.splits)
  from assms(2) Some p have "t = t'" and "u = s"
    by (auto simp: enqueue_torrent_search_def handler_simps lock_media_def)
  with found active_of_type_stored [OF assms(1)] stored_task_check [OF assms(1)] show ?thesis by blast
next
  case None
  from assms(2) obtain v w where "insert_task t v = (Inr (), w)" and "db_tasks u = db_tasks w"
    and "t = new_task i2 (search_type (sq_site_id q) mid) (tk_payload t) n now"
    unfolding enqueue_torrent_search_def Let_def
    by (elim bindH_Inr_run [THEN iffD1, elim_format] exE conjE)
      (auto simp: None handler_simps lock_media_def new_task_def dest!: quiet_runs(1,2))
  then show ?thesis
    by (metis stored_after_insert stored_same_tasks new_task_active task_check_new)
qed

section \<open>Cancelled resolutions\<close>

lemma cancelled_moves:
  assumes "task_check t" and "active_task t"
  shows "task_moves t (t\<lparr> tk_status := TK_CANCELLED, tk_error_code := e, tk_error_message := msg,
      tk_next_retry_at := None, tk_locked_at := None, tk_locked_by := None, tk_lease_token := None \<rparr>)"
    and "task_check (t\<lparr> tk_status := TK_CANCELLED, tk_error_code := e, tk_error_message := msg,
      tk_next_retry_at := None, tk_locked_at := None, tk_locked_by := None, tk_lease_token := None \<rparr>)"
  using assms by (auto simp: task_moves_def task_check_def)

lemma keeps_cancel:
  assumes "tasks_ok (db_tasks s) \<Longrightarrow> stored_task s t"
  shows "keeps queue_moves s (cancel_metadata_resolution_job L t mid evidence)"
  unfolding cancel_metadata_resolution_job_def
  using assms cancelled_moves [of t] stored_task_check [of s t]
  by (auto intro!: queue.keeps_if queue.keeps_step_bind keeps_save_task [where t = t] queue.evolves_rules quiet_moves
      queue.keeps_return)

lemma cancel_leaves_others:
  assumes "cancel_metadata_resolution_job L t mid evidence s = (r, u)" and "tk_id x \<noteq> tk_id t"
  shows "stored_task u x = stored_task s x"
proof -
  have "evolves (\<lambda>s u. task_by_id (tk_id x) u = task_by_id (tk_id x) s) (cancel_metadata_resolution_job L t mid evidence)"
    unfolding cancel_metadata_resolution_job_def workflow_write_defs
    using assms(2)
    by (intro leaves.evolves_rules leaves_modify) (simp_all add: task_by_id_def row_get_put)
  from evolvesD [OF this assms(1)] show ?thesis by (simp add: stored_task_def)
qed

lemma keeps_cancel_jobs:
  "distinct (map tk_id ts) \<Longrightarrow> (tasks_ok (db_tasks s) \<Longrightarrow> \<forall>t \<in> set ts. stored_task s t) \<Longrightarrow>
    keeps queue_moves s (cancel_jobs L mid evidence ts)"
proof (induction ts arbitrary: s)
  case Nil
  show ?case by (simp add: queue.keeps_return)
next
  case (Cons t ts)
  show ?case
    unfolding cancel_jobs.simps
  proof (rule keeps_when_ok, rule queue.keeps_bind [OF keeps_cancel])
    show "stored_task s t" if "tasks_ok (db_tasks s)" using Cons.prems(2) [OF that] by simp
  next
    fix x u assume ok: "tasks_ok (db_tasks s)" and run: "cancel_metadata_resolution_job L t mid evidence s = (Inr x, u)"
    have "stored_task u y" if "y \<in> set ts" for y
    proof -
      from that Cons.prems(1) have "tk_id y \<noteq> tk_id t" by (auto simp: image_iff)
      from cancel_leaves_others [OF run this] Cons.prems(2) [OF ok] that show ?thesis by simp
    qed
    with Cons.prems(1) Cons.IH [of u]
    show "keeps queue_moves u (bindH (cancel_jobs L mid evidence ts) (\<lambda>n. returnH ((if x then 1 else 0) + n)))"
      by (intro queue.keeps_step_bind queue.evolves_rules) auto
  qed
qed

lemma queue_cancel_active [evolves_intros]:
  "evolves queue_moves (cancel_active_metadata_resolution_jobs L mid evidence)"
  unfolding cancel_active_metadata_resolution_jobs_def
proof (rule keeps_evolves, rule queue.keeps_get_bind, rule keeps_when_ok, rule keeps_cancel_jobs)
  fix s :: db assume ok: "tasks_ok (db_tasks s)"
  show "distinct (map tk_id (active_resolutions mid s))"
    using ok by (auto simp: active_resolutions_def tasks_ok_def distinct_map inj_on_def distinct_sort)
  show "\<forall>t \<in> set (active_resolutions mid s). stored_task s t"
    using ok by (auto simp: active_resolutions_def intro: stored_task_member)
qed

lemma queue_confirm [evolves_intros]:
  "evolves queue_moves (confirm_identity L mid match_id actor ty nid now)"
  "evolves queue_moves (auto_confirm_strict_identity L m ms job_id nid now)"
proof -
  show confirm: "evolves queue_moves (confirm_identity L mid match_id actor ty nid now)" for mid match_id actor ty nid now
    unfolding confirm_identity_def Let_def
    by (intro queue.evolves_rules quiet_moves queue_cancel_active)
  show "evolves queue_moves (auto_confirm_strict_identity L m ms job_id nid now)"
    unfolding auto_confirm_strict_identity_def
    by (auto split: option.split intro!: queue.evolves_rules confirm)
qed

section \<open>What the engine does to the queue\<close>

lemma queue_search_after_identity [evolves_intros]:
  "evolves queue_moves (maybe_automate_torrent_search_after_identity L st mid F T)"
proof (rule keeps_evolves)
  fix s
  have searched: "keeps queue_moves v (bindH (enqueue_torrent_search L mid q n st i1 i2 now) (\<lambda>(sr, t, again).
      bindH (save_task (t\<lparr> tk_payload := without_binding (tk_payload t) \<rparr>)) (\<lambda>_.
      returnH (Some (t\<lparr> tk_payload := without_binding (tk_payload t) \<rparr>)))))" for v q n i1 i2 now
  proof (rule keeps_when_ok, rule queue.keeps_bind [OF evolves_keeps [OF queue_enqueue_search]], clarify)
    fix sr t again u assume "tasks_ok (db_tasks v)"
      and "enqueue_torrent_search L mid q n st i1 i2 now v = (Inr (sr, t, again), u)"
    from enqueue_search_stored [OF this]
    show "keeps queue_moves u (bindH (save_task (t\<lparr> tk_payload := without_binding (tk_payload t) \<rparr>)) (\<lambda>_.
        returnH (Some (t\<lparr> tk_payload := without_binding (tk_payload t) \<rparr>))))"
      by (intro queue.keeps_step_bind keeps_save_task [where t = t] queue.evolves_rules) (auto simp: payload_moves)
  qed
  show "keeps queue_moves s (maybe_automate_torrent_search_after_identity L st mid F T)"
    unfolding maybe_automate_torrent_search_after_identity_def Let_def
    by (rule keeps_queue_bind [OF queue_policy(1)], rule queue.keeps_if, rule queue.keeps_return,
        rule queue.keeps_lift_bind, rule keeps_queue_bind [OF queue_lock_media], rule queue.keeps_case_option,
        rule queue.keeps_return, rule searched)
qed

lemma queue_maybe_identity [evolves_intros]: "evolves queue_moves (maybe_automate_identity L st t m F T)"
  unfolding maybe_automate_identity_def act_on_identity_def Let_def
  by (auto split: option.split prod.split bool.split
      intro!: queue.evolves_rules quiet_moves queue_confirm queue_search_after_identity)

text \<open>The insertion of a preflight job, or the active one it clashed with.\<close>

lemma insert_or_find:
  assumes "catchH (transact (bindH (insert_task t) (\<lambda>_. returnH None))) (\<lambda>e. case e of
      IntegrityErr x \<Rightarrow> bindH (getH (active_of_type types)) (\<lambda>again.
        case again of None \<Rightarrow> raiseH e | Some y \<Rightarrow> returnH (Some y))
    | _ \<Rightarrow> raiseH e) s = (Inr None, u)"
  shows "stored_task u t"
  using assms stored_after_insert [of t s]
  by (auto simp: catchH_def transact_def bindH_def returnH_def raiseH_def getH_def
      split: prod.splits sum.splits exn.splits option.splits)

lemma keeps_save_payload:
  assumes "stored_task s t" and "active_task t"
  shows "keeps queue_moves s (save_task (t\<lparr> tk_payload := p \<rparr>))"
proof (rule keeps_save_task [where t = t])
  assume "tasks_ok (db_tasks s)"
  from payload_moves [OF stored_task_check [OF this assms(1)] assms(2)] assms(1)
  show "stored_task s t \<and> tk_id (t\<lparr> tk_payload := p \<rparr>) = tk_id t \<and> task_moves t (t\<lparr> tk_payload := p \<rparr>)
    \<and> task_check (t\<lparr> tk_payload := p \<rparr>)" by simp
qed

lemma queue_moves_preflight: "evolves queue_moves (queue_preflight L st r a evidence F T)"
proof (rule keeps_evolves)
  fix s
  let ?t = "preflight_task st r a (F ''preflight job'') (T ''preflight job'')"
  have new: "task_check ?t" "active_task ?t"
    using new_task_active by (simp_all add: preflight_task_def task_check_new active_task_def)
  have insert: "evolves queue_moves (catchH (transact (bindH (insert_task ?t) (\<lambda>_. returnH None))) (\<lambda>e. case e of
      IntegrityErr x \<Rightarrow> bindH (getH (active_of_type [preflight_type a])) (\<lambda>again.
        case again of None \<Rightarrow> raiseH e | Some y \<Rightarrow> returnH (Some y))
    | _ \<Rightarrow> raiseH e))"
    by (auto split: exn.split option.split
        intro!: queue.evolves_rules queue.evolves_catch evolves_insert_task new)
  show "keeps queue_moves s (queue_preflight L st r a evidence F T)"
    unfolding queue_preflight_def Let_def
  proof (rule queue.keeps_bind [OF evolves_keeps [OF insert]], rule queue.keeps_case_option, goal_cases)
    case (1 other u)
    from insert_or_find [OF 1(1) [unfolded 1(2)]] have stored: "stored_task u ?t" .
    show ?case
    proof (rule keeps_queue_bind [OF queue_notes(1)], rule queue.keeps_step_bind)
      fix d and v :: db assume "db_tasks v = db_tasks u"
      from this stored have "stored_task v ?t" by (rule stored_same_tasks [THEN iffD2])
      then show "keeps queue_moves v
          (save_task (?t\<lparr> tk_payload := tk_payload ?t @ [(''automation_decision_id'', JStr (ad_id d))] \<rparr>))"
        by (rule keeps_save_payload [OF _ new(2)])
    qed (rule queue.evolves_return)
  next
    case (2 other u y)
    show ?case by (intro evolves_keeps quiet_moves)
  qed
qed

lemma queue_maybe_preflight [evolves_intros]:
  "evolves queue_moves (maybe_enqueue_automatic_preflight L st a F T)"
  unfolding maybe_enqueue_automatic_preflight_def automation_preflight_is_ready_def Let_def
  by (auto split: option.split intro!: queue.evolves_rules quiet_moves queue_moves_preflight)

section \<open>What the workers do to the queue\<close>

lemma first_row_sorted: "first_row (sort_key k xs) = Some t \<Longrightarrow> t \<in> set xs \<and> (\<forall>x \<in> set xs. k t \<le> k x)"
proof -
  assume "first_row (sort_key k xs) = Some t"
  then obtain ys where ys: "sort_key k xs = t # ys" by (auto simp: first_row_def split: list.splits)
  have "set xs = insert t (set ys)" using arg_cong [OF ys, of set] by simp
  moreover have "sorted (map k (t # ys))" using ys sorted_sort_key by metis
  ultimately show ?thesis by auto
qed

lemma next_job_stored:
  assumes "tasks_ok (db_tasks s)" and "next_job lease now s = Some t"
  shows "stored_task s t" and "may_claim lease now t"
  using first_row_sorted [OF assms(2) [unfolded next_job_def]] assms(1) by (auto intro: stored_task_member)

lemma next_preflight_stored:
  assumes "tasks_ok (db_tasks s)" and "next_preflight st now s = Some t"
  shows "stored_task s t" and "may_claim (st_job_lease_seconds st) now t"
  using first_row_sorted [OF assms(2) [unfolded next_preflight_def]] assms(1) by (auto intro: stored_task_member)

lemma queue_get_if: "evolves (\<lambda>s t. db_tasks t = db_tasks s) (get_if get k)"
  by (cases k) (simp_all add: get_if_def leaves.evolves_return leaves.evolves_get)

lemma queue_start [evolves_intros]:
  "evolves (\<lambda>s t. db_tasks t = db_tasks s) (start_discovery w t now)"
  "evolves (\<lambda>s t. db_tasks t = db_tasks s) (start_search t now)"
  unfolding start_discovery_def start_search_def
  by (auto split: option.split intro!: leaves.evolves_rules queue_workflow_writes queue_get_if queue_refresh)

lemma queue_claims [evolves_intros]:
  "evolves queue_moves (claim_job lease w token now)"
  "evolves queue_moves (claim_preflight st w token now)"
proof -
  show "evolves queue_moves (claim_job lease w token now)"
  proof (rule keeps_evolves)
    fix s :: db
    show "keeps queue_moves s (claim_job lease w token now)"
      unfolding claim_job_def Let_def
    proof (rule queue.keeps_transact, rule queue.keeps_get_bind, rule queue.keeps_case_option, goal_cases)
      case 1
      show ?case by (rule queue.keeps_return)
    next
      case (2 t)
      have "keeps queue_moves s (save_task (taken w token now t))"
        using next_job_stored [OF _ 2] claim_moves [of t] stored_task_check [of s t]
        by (intro keeps_save_task [where t = t]) (auto simp: taken_def)
      then show ?case
        by (rule queue.keeps_step_bind) (intro queue.evolves_rules queue_start [THEN evolves_leaves_queue])
    qed
  qed
  show "evolves queue_moves (claim_preflight st w token now)"
  proof (rule keeps_evolves)
    fix s :: db
    show "keeps queue_moves s (claim_preflight st w token now)"
      unfolding claim_preflight_def Let_def
    proof (rule queue.keeps_transact, rule queue.keeps_get_bind, rule queue.keeps_case_option, goal_cases)
      case 1
      show ?case by (rule queue.keeps_return)
    next
      case (2 t)
      have "keeps queue_moves s (save_task ((taken w token now t)\<lparr> tk_error_code := None, tk_error_message := None \<rparr>))"
      proof (rule keeps_save_task [where t = t])
        assume "tasks_ok (db_tasks s)"
        from next_preflight_stored [OF this 2] stored_task_check [OF this]
        show "stored_task s t \<and> tk_id ((taken w token now t)\<lparr> tk_error_code := None, tk_error_message := None \<rparr>) = tk_id t
          \<and> task_moves t ((taken w token now t)\<lparr> tk_error_code := None, tk_error_message := None \<rparr>)
          \<and> task_check ((taken w token now t)\<lparr> tk_error_code := None, tk_error_message := None \<rparr>)"
          using claim_moves [of t] clear_error_moves [of t "taken w token now t"] may_claim_active by (auto simp: taken_def)
      qed
      then show ?case
        by (rule queue.keeps_step_bind) (rule queue.evolves_return)
    qed
  qed
qed

text \<open>A job a worker holds.\<close>

lemma held_task_stored: "held_task w job_id token s = Some t \<Longrightarrow> stored_task s t \<and> tk_status t = TK_RUNNING \<and> tk_id t = job_id"
  by (auto simp: held_task_def stored_task_def task_by_id_def holds_lease_def split: option.splits if_splits
      dest: row_get_Some_key)

lemma owned_job_stored: "owned_job st w job_id token now s = Some t \<Longrightarrow> stored_task s t \<and> tk_status t = TK_RUNNING"
  by (auto simp: owned_job_def stored_task_def task_by_id_def owns_job_def split: option.splits if_splits
      dest: row_get_Some_key)

lemma running_active: "tk_status t = TK_RUNNING \<Longrightarrow> active_task t"
  by (simp add: active_task_def active_task_statuses_def)

lemma same_id: "tk_id (failed_task L e n t) = tk_id t" "tk_id (succeeded t) = tk_id t"
  by (simp_all add: failed_task_def succeeded_def released_task_def)

text \<open>The saves of a worker, on the row it holds.\<close>

lemma keeps_save_running:
  assumes "stored_task s t" and "tk_status t = TK_RUNNING"
  shows "keeps queue_moves s (save_task (t\<lparr> tk_locked_at := Some n \<rparr>))"
    and "keeps queue_moves s (save_task (failed_task L e m t))"
    and "keeps queue_moves s (save_task (succeeded t))"
    and "keeps queue_moves s (save_task ((succeeded t)\<lparr> tk_next_retry_at := None \<rparr>))"
  using assms renew_moves [OF stored_task_check] failed_moves [OF stored_task_check]
    succeeded_moves [OF stored_task_check]
  by (intro keeps_save_task [where t = t]; simp add: same_id; blast)+

lemma queue_renew [evolves_intros]:
  "evolves queue_moves (renew_job_lease w job_id token now)"
  "evolves queue_moves (renew_preflight st w job_id token now now2)"
  unfolding renew_job_lease_def renew_preflight_def
  by (rule keeps_evolves, rule queue.keeps_transact, rule queue.keeps_get_bind, rule queue.keeps_case_option,
      rule queue.keeps_return, rule queue.keeps_step_bind, rule keeps_save_running(1);
      auto dest: held_task_stored owned_job_stored intro!: queue.evolves_rules)+

lemma queue_failures:
  "evolves (\<lambda>s t. db_tasks t = db_tasks s) (fail_discovery L t e retry now)"
  "evolves (\<lambda>s t. db_tasks t = db_tasks s) (fail_resolution L m e retry)"
  "evolves (\<lambda>s t. db_tasks t = db_tasks s) (fail_search L r m' e retry now)"
  unfolding fail_discovery_def fail_resolution_def fail_search_def Let_def
  by (auto split: option.split intro!: leaves.evolves_rules queue_workflow_writes queue_refresh)

lemma keeps_record_failure:
  assumes "stored_task s t" and "tk_status t = TK_RUNNING"
  shows "keeps queue_moves s (record_failure L t e T)"
  unfolding record_failure_def Let_def
  by (rule queue.keeps_step_bind [OF keeps_save_running(2) [OF assms]])
    (auto split: option.split intro!: queue.evolves_rules queue_failures [THEN evolves_leaves_queue]
      queue_get_if [THEN evolves_leaves_queue])

lemma queue_fail_job [evolves_intros]: "evolves queue_moves (fail_job L w job_id token e T)"
  unfolding fail_job_def
  by (rule keeps_evolves, rule queue.keeps_transact, rule queue.keeps_get_bind, rule queue.keeps_case_option,
      rule queue.keeps_return, rule queue.keeps_get_bind)
    (auto split: option.split dest!: held_task_stored
      intro!: keeps_record_failure queue.keeps_step_bind keeps_cancel queue.evolves_return)

lemma queue_prepare_resolution [evolves_intros]:
  "evolves queue_moves (prepare_metadata_resolution L w job_id mid token)"
  unfolding prepare_metadata_resolution_def
proof (rule keeps_evolves, rule queue.keeps_transact, rule keeps_queue_bind [OF queue_lock_media],
    rule queue.keeps_get_bind, rule queue.keeps_case_option, goal_cases)
  case (1 s m u)
  show ?case by (rule queue.keeps_return)
next
  case (2 s m u t)
  then have "stored_task u t" by (auto dest: held_task_stored)
  then show ?case
    by (auto split: option.split intro!: queue.keeps_get_bind queue.keeps_step_bind keeps_cancel queue.evolves_return
        queue.keeps_return)
qed

lemma for_each_evolves: "(\<And>x. evolves (\<lambda>s t. F t = F s) (f x)) \<Longrightarrow> evolves (\<lambda>s t. F t = F s) (for_each f xs)"
  by (induction xs) (auto intro!: leaves.evolves_rules)

lemma queue_store_candidates:
  assumes "stored_task s t" and "tk_status t = TK_RUNNING"
  shows "keeps queue_moves s (store_candidates L t r mid cs steps F T)"
  unfolding store_candidates_def
proof (rule keeps_queue_bind [OF for_each_evolves [OF queue_workflow_writes(7)]],
    rule keeps_queue_bind [OF queue_workflow_writes(3)], rule keeps_queue_bind [OF queue_refresh],
    rule queue.keeps_step_bind, goal_cases)
  case (1 x1 s1 x2 s2 x3 s3)
  with assms(1) have "stored_task s3 t" by (metis stored_same_tasks)
  from this assms(2) show ?case by (rule keeps_save_running(3))
next
  case (2 x1 s1 x2 s2 x3 s3 x4)
  show ?case by (rule evolves_leaves_queue [OF queue_workflow_writes(8)])
qed

lemma reads_search_unchanged: "reads (require_search_unchanged L st t r m)"
  unfolding reads_def require_search_unchanged_def Let_def by (intro leaves.evolves_rules)

lemma both_Some: "both x y = Some (a, b) \<longleftrightarrow> x = Some a \<and> y = Some b"
  by (auto simp: both_def split: option.splits)

lemma queue_complete_search [evolves_intros]:
  "evolves queue_moves (complete_torrent_search L st w job_id run_id mid cs steps token F T)"
  unfolding complete_torrent_search_def
proof (rule keeps_evolves, rule queue.keeps_transact, rule queue.keeps_get_bind, rule queue.keeps_case_option, goal_cases)
  case (1 s)
  show ?case by (rule queue.keeps_return)
next
  case (2 s x)
  obtain t r m where x: "x = (t, r, m)" by (cases x)
  with 2 have "stored_task s t" and "tk_status t = TK_RUNNING" by (auto simp: both_Some dest: held_task_stored)
  from queue_store_candidates [OF this] show ?case
    unfolding x prod.case by (rule queue.keeps_reads_bind [OF reads_search_unchanged])
qed

lemma queue_settle [evolves_intros]: "evolves queue_moves (settle_identity L st t m rows F T)"
  unfolding settle_identity_def
  by (auto split: option.split intro!: queue.evolves_rules queue_confirm queue_search_after_identity queue_maybe_identity)

lemma queue_store_resolution:
  assumes "stored_task s t" and "tk_status t = TK_RUNNING"
  shows "keeps queue_moves s (store_resolution L st t m cs F T)"
  unfolding store_resolution_def Let_def
proof (rule queue.keeps_lift_bind, rule keeps_queue_bind [OF for_each_evolves [OF queue_workflow_writes(6)]],
    rule queue.keeps_step_bind, goal_cases)
  case (1 m' x s1)
  from 1(3) assms(1) have "stored_task s1 t" by (rule stored_same_tasks [THEN iffD2])
  from this assms(2) show ?case by (rule keeps_save_running(3))
next
  case (2 m' x s1 y)
  show ?case by (auto split: prod.split intro!: queue.evolves_rules quiet_moves queue_settle)
qed

lemma queue_complete_resolution [evolves_intros]:
  "evolves queue_moves (complete_metadata_resolution L st w job_id mid cs token F T)"
  unfolding complete_metadata_resolution_def
proof (rule keeps_evolves, rule queue.keeps_transact, rule queue.keeps_get_bind, rule queue.keeps_case_option, goal_cases)
  case (1 s)
  show ?case by (rule queue.keeps_return)
next
  case (2 s x)
  obtain m t where x: "x = (m, t)" by (cases x)
  with 2 have held: "stored_task s t" "tk_status t = TK_RUNNING" by (auto simp: both_Some dest: held_task_stored)
  then show ?case
    unfolding x prod.case
    by (auto split: option.split intro!: queue.keeps_get_bind queue.keeps_step_bind keeps_cancel queue.evolves_return
        queue.keeps_raise_if_bind queue_store_resolution)
qed

text \<open>
  A discovery queues and cancels resolutions before it saves its own job, which is none of them.
\<close>

definition untouched :: "task \<Rightarrow> db \<Rightarrow> db \<Rightarrow> bool" where
  "untouched t s u \<longleftrightarrow> stored_task s t \<longrightarrow> stored_task u t"

interpretation untouched: store_preorder "untouched t" for t
  by unfold_locales (auto simp: untouched_def)

lemma untouched_quiet: "evolves (\<lambda>s t. db_tasks t = db_tasks s) m \<Longrightarrow> evolves (untouched t) m"
  by (auto simp: evolves_def untouched_def stored_task_def task_by_id_def)

lemma untouched_insert: "evolves (untouched t) (insert_task u)"
  by (auto simp: evolves_def untouched_def stored_task_def task_by_id_def insert_task_def handler_defs row_get_add)

lemma untouched_save: "tk_id u \<noteq> tk_id t \<Longrightarrow> evolves (untouched t) (save_task u)"
  by (auto simp: evolves_def untouched_def stored_task_def task_by_id_def save_task_def handler_defs row_get_put)

lemmas quiet_untouched = queue_quiet [THEN untouched_quiet]

lemma untouched_enqueue: "evolves (untouched t) (enqueue_metadata_resolution L mid n nid now)"
  unfolding enqueue_metadata_resolution_def Let_def
  by (auto split: option.split intro!: untouched.evolves_rules quiet_untouched untouched_insert)

lemma untouched_cancel_jobs: "tk_id t \<notin> tk_id ` set ts \<Longrightarrow> evolves (untouched t) (cancel_jobs L mid evidence ts)"
  by (induction ts)
    (auto simp: cancel_metadata_resolution_job_def intro!: untouched.evolves_rules quiet_untouched untouched_save)

definition undisturbed :: "task \<Rightarrow> db \<Rightarrow> db \<Rightarrow> bool" where
  "undisturbed t s u \<longleftrightarrow> queue_moves s u \<and> (tasks_ok (db_tasks s) \<longrightarrow> untouched t s u)"

interpretation undisturbed: store_preorder "undisturbed t" for t
proof
  show "undisturbed t s s" for s
    by (simp add: undisturbed_def queue.refl_R untouched.refl_R)
  show "undisturbed t s u \<Longrightarrow> undisturbed t u v \<Longrightarrow> undisturbed t s v" for s u v
    unfolding undisturbed_def by (meson queue.trans_R untouched.trans_R queue_moves_def)
qed

lemma undisturbedI: "evolves queue_moves m \<Longrightarrow> evolves (untouched t) m \<Longrightarrow> evolves (undisturbed t) m"
  by (auto simp: evolves_def undisturbed_def)

lemma undisturbed_quiet: "evolves (\<lambda>s t. db_tasks t = db_tasks s) m \<Longrightarrow> evolves (undisturbed t) m"
  by (rule undisturbedI [OF evolves_leaves_queue untouched_quiet])

lemma undisturbed_cancel_active:
  assumes "tk_job_type t \<noteq> resolve_type mid"
  shows "evolves (undisturbed t) (cancel_active_metadata_resolution_jobs L mid evidence)"
proof -
  have "untouched t s u"
    if ok: "tasks_ok (db_tasks s)" and run: "cancel_active_metadata_resolution_jobs L mid evidence s = (r, u)" for s r u
  proof (cases "stored_task s t")
    case True
    have "tk_id t \<noteq> tk_id y" if "y \<in> set (active_resolutions mid s)" for y
    proof
      assume same: "tk_id t = tk_id y"
      from that have "y \<in> set (db_tasks s)" and type: "tk_job_type y = resolve_type mid"
        by (auto simp: active_resolutions_def)
      from stored_task_member [OF ok this(1)] True same have "y = t" by (simp add: stored_task_def)
      with type assms show False by simp
    qed
    then have "evolves (untouched t) (cancel_jobs L mid evidence (active_resolutions mid s))"
      by (intro untouched_cancel_jobs) auto
    from evolvesD [OF this] run show ?thesis
      by (auto simp: cancel_active_metadata_resolution_jobs_def bindH_def getH_def)
  next
    case False
    then show ?thesis by (simp add: untouched_def)
  qed
  with queue_cancel_active show ?thesis
    unfolding evolves_def undisturbed_def by (metis prod.collapse)
qed

lemma undisturbed_resolution:
  assumes "\<not> is_resolution t"
  shows "evolves (undisturbed t) (queue_resolution L c n F T)"
proof -
  have type: "tk_job_type t \<noteq> resolve_type mid" for mid
    using assms by (auto simp: is_resolution_def resolve_type_def starts_with_def)
  show ?thesis
    unfolding queue_resolution_def
    by (auto split: option.split intro!: undisturbed.evolves_rules undisturbed_cancel_active [OF type]
        undisturbedI [OF queue_enqueue_resolution untouched_enqueue])
qed

lemma undisturbed_resolutions:
  "\<not> is_resolution t \<Longrightarrow> evolves (undisturbed t) (queue_resolutions L cs n F T)"
  by (induction cs) (auto split: option.split intro!: undisturbed.evolves_rules undisturbed_resolution)

lemma queue_merge: "evolves (\<lambda>s t. db_tasks t = db_tasks s) (merge_items L F items g)"
  by (induction L F items g rule: merge_items.induct)
    (auto simp: merge_item_def Let_def split: option.split intro!: leaves.evolves_rules queue_workflow_writes)

lemma undisturbed_moves: "evolves (undisturbed t) m \<Longrightarrow> evolves queue_moves m"
  by (simp add: evolves_def undisturbed_def)

lemma keeps_complete_discovery:
  assumes "\<And>t. held_task w job_id token s = Some t \<Longrightarrow> \<not> is_resolution t"
  shows "keeps queue_moves s (complete_discovery L auto w job_id run_id items ws token F T)"
  unfolding complete_discovery_def Let_def
proof (rule queue.keeps_transact, rule queue.keeps_get_bind, rule queue.keeps_case_option, goal_cases)
  case 1
  show ?case by (rule queue.keeps_return)
next
  case (2 x)
  obtain t r where x: "x = (t, r)" by (cases x)
  with 2 have held: "held_task w job_id token s = Some t" by (simp add: both_Some)
  from held have stored: "stored_task s t" and running: "tk_status t = TK_RUNNING" by (auto dest: held_task_stored)
  have queueing: "evolves (undisturbed t) (if auto then queue_resolutions L cs n F T else returnH [])" for cs n
    by (intro undisturbed.evolves_rules undisturbed_resolutions assms [OF held])
  show ?case
    unfolding x prod.case
  proof (rule keeps_queue_bind [OF queue_merge], rule keeps_when_ok,
      rule queue.keeps_bind [OF evolves_keeps [OF undisturbed_moves [OF queueing]]], rule queue.keeps_step_bind, goal_cases)
    case (1 g v queued u)
    from 1(2) stored have "stored_task v t" by (rule stored_same_tasks [THEN iffD2])
    with 1(3) evolvesD [OF queueing 1(4)] have "stored_task u t" by (simp add: undisturbed_def untouched_def)
    from this running show ?case by (rule keeps_save_running(3))
  next
    case (2 g v queued u y)
    show ?case by (intro queue.evolves_rules quiet_moves)
  qed
qed

section \<open>The preflight worker\<close>

lemma looking_leaves: "snd (looking m s) = s"
  by (simp add: looking_def)

lemma queue_looking [evolves_intros]:
  "evolves queue_moves (prepare_preflight L st w job_id token F T)"
  "evolves queue_moves (guard_external_read L st w b F T)"
  "evolves queue_moves (guard_automatic_torrent_search L st w job_id token F T)"
  by (simp_all add: evolves_def prepare_preflight_def guard_external_read_def guard_automatic_torrent_search_def
      looking_def queue.refl_R)

lemma queue_record_failure [evolves_intros]:
  "evolves (\<lambda>s t. db_tasks t = db_tasks s) (record_failure_decision L t e F T)"
  unfolding record_failure_decision_def Let_def
  by (auto split: option.split prod.split intro!: leaves.evolves_rules queue_policy queue_notes)

lemma queue_fail_preflight [evolves_intros]:
  "evolves queue_moves (fail_preflight L st w job_id token e F T)"
  unfolding fail_preflight_def Let_def
proof (rule keeps_evolves, rule queue.keeps_transact, rule queue.keeps_get_bind, rule queue.keeps_case_option, goal_cases)
  case (1 s)
  show ?case by (rule queue.keeps_return)
next
  case (2 s t)
  then have held: "stored_task s t" "tk_status t = TK_RUNNING" by (auto dest: owned_job_stored)
  have quiet: "evolves (\<lambda>s t. db_tasks t = db_tasks s)
      (if may_retry e t then returnH () else record_failure_decision L t e F T)"
    by (intro leaves.evolves_rules queue_record_failure)
  show ?case
  proof (rule keeps_queue_bind [OF quiet])
    fix x and u :: db assume "db_tasks u = db_tasks s"
    from this held(1) have "stored_task u t" by (rule stored_same_tasks [THEN iffD2])
    from this held(2) show "keeps queue_moves u (save_task (failed_task L e (T ''retry'') t))"
      by (rule keeps_save_running(2))
  qed
qed

lemma queue_validate: "evolves (\<lambda>s t. db_tasks t = db_tasks s) (validate_binding L st t a r seal rid did state now)"
  unfolding validate_binding_def by (intro leaves.evolves_rules queue_approval_steps)

lemma queue_validate_again: "evolves (\<lambda>s t. db_tasks t = db_tasks s) (validate_again L st w b F T)"
  unfolding validate_again_def require_job_lease_def bound_approval_def
  by (intro leaves.evolves_rules queue_policy queue_validate)

lemma validate_again_task:
  assumes "validate_again L st w b F T s = (Inr (t, a), u)"
  shows "stored_task s t \<and> tk_status t = TK_RUNNING"
  using assms
  by (auto simp: validate_again_def handler_simps require_job_lease_def option_or_Inr_iff dest!: owned_job_stored)

lemma queue_finalize_preflight [evolves_intros]:
  "evolves queue_moves (finalize_preflight L st w b result F T)"
  unfolding finalize_preflight_def
proof (rule keeps_evolves, rule queue.keeps_transact, rule keeps_queue_bind [OF queue_validate_again], clarify)
  fix s u :: db and t a
  assume run: "validate_again L st w b F T s = (Inr (t, a), u)" and same: "db_tasks u = db_tasks s"
  from validate_again_task [OF run] have stored: "stored_task s t" and running: "tk_status t = TK_RUNNING" by auto
  show "keeps queue_moves u (bindH (save_preflight_result L a result w (T ''preflight saved'')) (\<lambda>a'.
      bindH (maybe_finalize_automatic_approval L st a' (Some (pb_policy_revision_id b)) (Some (pb_snapshot_hash b))
        (Some (pb_job_id b)) F T) (\<lambda>_. save_task ((succeeded t)\<lparr> tk_next_retry_at := None \<rparr>))))"
  proof (rule keeps_queue_bind [OF queue_approvals(2)], rule keeps_queue_bind [OF queue_finalize])
    fix x1 x2 and s1 s2 :: db assume "db_tasks s1 = db_tasks u" and "db_tasks s2 = db_tasks s1"
    with same have "db_tasks s2 = db_tasks s" by simp
    from this stored have "stored_task s2 t" by (rule stored_same_tasks [THEN iffD2])
    from this running show "keeps queue_moves s2 (save_task ((succeeded t)\<lparr> tk_next_retry_at := None \<rparr>))"
      by (rule keeps_save_running(4))
  qed
qed

end
