(* ===== verification/Discovery.thy ===== *)
theory Discovery
  imports WorkflowStore Redaction
begin

text \<open>
  The start of a discovery (\<open>services/discovery.py\<close>, \<open>repositories/discovery.py\<close>): a source has at
  most one active run; asking again answers it, also when another request was faster.
\<close>

definition discovery_type :: "lib \<Rightarrow> string \<Rightarrow> string" where
  "discovery_type L source = ''DISCOVER_'' @ upper L source"

definition runs_discovery :: "lib \<Rightarrow> string \<Rightarrow> discovery_run \<Rightarrow> task \<Rightarrow> bool" where
  "runs_discovery L source r t \<longleftrightarrow>
    tk_run_id t = Some (dr_id r) \<and> tk_job_type t = discovery_type L source \<and> active_task t"

text \<open>At most one active job has the type, so the order of the query does not matter.\<close>

definition find_active_discovery_run :: "lib \<Rightarrow> string \<Rightarrow> db \<Rightarrow> discovery_run option" where
  "find_active_discovery_run L source s =
    find (\<lambda>r. dr_source r = source \<and> list_ex (runs_discovery L source r) (db_tasks s)) (db_discovery_runs s)"

definition new_discovery_run :: "string \<Rightarrow> string \<Rightarrow> discovery_run" where
  "new_discovery_run nid source = \<lparr> dr_id = nid, dr_source = source, dr_status = TK_PENDING, dr_started_at = None,
     dr_finished_at = None, dr_discovered_count = 0, dr_created_count = 0, dr_updated_count = 0,
     dr_error_code = None, dr_error_message = None \<rparr>"

definition insert_discovery_run :: "discovery_run \<Rightarrow> unit session" where
  "insert_discovery_run r = bindH (getH db_discovery_runs) (\<lambda>rows.
    bindH (raise_ifH (dr_id r \<in> set (map dr_id rows)) (IntegrityErr ''discovery_runs'')) (\<lambda>_.
    modifyH (\<lambda>s. s\<lparr> db_discovery_runs := row_add r (db_discovery_runs s) \<rparr>)))"

definition discovery_payload :: "string \<Rightarrow> (string \<times> json) list" where
  "discovery_payload source = [(''source'', JStr source), (''read_only'', JBool True)]"

definition discovery_task :: "lib \<Rightarrow> string \<Rightarrow> string \<Rightarrow> string \<Rightarrow> int \<Rightarrow> int \<Rightarrow> task" where
  "discovery_task L source run_id nid max_attempts now = \<lparr>
     tk_id = nid, tk_job_type = discovery_type L source, tk_status = TK_PENDING,
     tk_payload = discovery_payload source, tk_run_id = Some run_id,
     tk_attempts = 0, tk_max_attempts = max_attempts, tk_next_retry_at = None, tk_locked_at = None,
     tk_locked_by = None, tk_lease_token = None, tk_error_code = None, tk_error_message = None,
     tk_created_at = Aware now \<rparr>"

text \<open>
  The run is flushed before its job. A clash of the job rolls the session back, which holds
  nothing else; one of the run is raised, and the session of the request ends without a commit.
\<close>

definition create_discovery_run ::
    "lib \<Rightarrow> string \<Rightarrow> int \<Rightarrow> string \<Rightarrow> string \<Rightarrow> int \<Rightarrow> (discovery_run \<times> bool) session" where
  "create_discovery_run L source max_attempts run_nid job_nid now =
    (let r = new_discovery_run run_nid source;
         again = bindH (getH (find_active_discovery_run L source)) (\<lambda>x. case x of
             Some y \<Rightarrow> returnH (y, True)
           | None \<Rightarrow> raiseH (IntegrityErr ''jobs'')) in
     bindH (getH (find_active_discovery_run L source)) (\<lambda>existing.
     case existing of
       Some y \<Rightarrow> returnH (y, True)
     | None \<Rightarrow> transact (catchH (transact
         (bindH (insert_discovery_run r) (\<lambda>_.
          bindH (insert_task (discovery_task L source run_nid job_nid max_attempts now)) (\<lambda>_.
          bindH (insert_audit_event ''DISCOVERY_RUN_CREATED'' ''discovery_run'' run_nid
            (sanitize_details L (JObj (discovery_payload source)))) (\<lambda>_.
          returnH (r, False))))))
         (\<lambda>e. if e = IntegrityErr ''jobs'' then again else raiseH e))))"

end
