(* ===== verification/WorkflowRoutes.thy ===== *)
theory WorkflowRoutes
  imports Discovery Routes
begin

text \<open>
  The requests of an operator that start or settle work (\<open>api/routes/discovery.py\<close>,
  \<open>api/routes/workflow.py\<close>): the session commits once at the end, and not when something is raised.
\<close>

definition start_discovery_route ::
    "lib \<Rightarrow> settings \<Rightarrow> fresh \<Rightarrow> readings \<Rightarrow> (discovery_run \<times> bool) session" where
  "start_discovery_route L st F T =
    bindH (raise_ifH (\<not> st_nextfind_configured st) (app_err ''NEXTFIND_NOT_CONFIGURED'' 409)) (\<lambda>_.
    create_discovery_run L ''nextfind'' (st_job_max_attempts st) (F ''run'') (F ''job'') (T ''job''))"

definition resolve_media ::
    "lib \<Rightarrow> settings \<Rightarrow> string \<Rightarrow> fresh \<Rightarrow> readings \<Rightarrow> (task \<times> bool) session" where
  "resolve_media L st mid F T = transact
    (bindH (require_stage_not_disabled L AS_IDENTITY (T ''policy'') (F ''policy'')) (\<lambda>_.
     bindH (raise_ifH (\<not> st_enable_tmdb_live st) (app_err ''TMDB_LIVE_DISABLED'' 409)) (\<lambda>_.
     bindH (raise_ifH (\<not> st_tmdb_configured st) (app_err ''TMDB_NOT_CONFIGURED'' 409)) (\<lambda>_.
     bindH (lock_media mid) (\<lambda>_.
     enqueue_metadata_resolution L mid (st_job_max_attempts st) (F ''job'') (T ''job''))))))"

definition get_metadata_resolution_job :: "string \<Rightarrow> string \<Rightarrow> task session" where
  "get_metadata_resolution_job mid job_id =
    bindH (lock_media mid) (\<lambda>_.
    bindH (getH (task_by_id job_id)) (\<lambda>x.
    bindH (liftH (option_or (app_err ''METADATA_RESOLUTION_JOB_NOT_FOUND'' 404) x)) (\<lambda>t.
    bindH (raise_ifH (tk_job_type t \<noteq> resolve_type mid) (app_err ''METADATA_RESOLUTION_JOB_NOT_FOUND'' 404)) (\<lambda>_.
    bindH (raise_ifH (payload_get ''media_id'' t \<noteq> JStr mid)
      (app_err ''METADATA_RESOLUTION_JOB_BINDING_INVALID'' 409)) (\<lambda>_.
    returnH t)))))"

definition create_identity_confirmation ::
    "lib \<Rightarrow> settings \<Rightarrow> string \<Rightarrow> string \<Rightarrow> string \<Rightarrow> fresh \<Rightarrow> readings \<Rightarrow> review session" where
  "create_identity_confirmation L st mid match_id operator F T = transact
    (bindH (require_stage_not_disabled L AS_IDENTITY (T ''policy'') (F ''policy'')) (\<lambda>_.
     bindH (lock_media mid) (\<lambda>_.
     bindH (confirm_identity L mid match_id operator ''IDENTITY_CONFIRMED_MANUALLY'' (F ''review'') (T ''review'')) (\<lambda>r.
     bindH (maybe_automate_torrent_search_after_identity L st mid F T) (\<lambda>_.
     returnH r)))))"

definition create_torrent_search ::
    "lib \<Rightarrow> settings \<Rightarrow> catalog \<Rightarrow> string \<Rightarrow> search_create_request \<Rightarrow> fresh \<Rightarrow> readings
      \<Rightarrow> (search_run_row \<times> task \<times> bool) session" where
  "create_torrent_search L st c mid q F T = transact
    (bindH (liftH (require_searchable c (sq_site_id q) None)) (\<lambda>_.
     bindH (require_stage_not_disabled L AS_TORRENT_SELECTION (T ''policy'') (F ''policy'')) (\<lambda>_.
     bindH (lock_media mid) (\<lambda>m.
     bindH (liftH (require_searchable c (sq_site_id q) (Some (me_media_type m)))) (\<lambda>_.
     enqueue_torrent_search L mid q (st_job_max_attempts st) st (F ''search run'') (F ''search job'')
       (T ''search job''))))))"

end
