(* ===== verification/QueueProperties.thy ===== *)
theory QueueProperties
  imports QueueMachine WorkflowRoutes
begin

text \<open>
  The job queue as a state machine over the transactions of its workers and of the services that
  fill it, and what follows: jobs move forward, a worker that lost its lease changes nothing, a
  lost job is claimed again while it has attempts left, and not after.
\<close>

section \<open>The requests of an operator\<close>

lemma task_check_discovery: "task_check (discovery_task L source r nid n now)"
  by (simp add: task_check_def discovery_task_def)

lemma queue_insert_discovery: "evolves (\<lambda>s t. db_tasks t = db_tasks s) (insert_discovery_run r)"
  unfolding insert_discovery_run_def by (intro leaves.evolves_rules leaves_modify) simp

lemma queue_create_discovery [evolves_intros]:
  "evolves queue_moves (create_discovery_run L source n i1 i2 now)"
  unfolding create_discovery_run_def Let_def
  by (auto split: option.split
      intro!: queue.evolves_rules queue.evolves_catch evolves_leaves_queue [OF queue_insert_discovery]
        evolves_insert_task task_check_discovery quiet_moves)

lemma queue_stage: "evolves (\<lambda>s t. db_tasks t = db_tasks s) (require_stage_not_disabled L stage now nid)"
  unfolding require_stage_not_disabled_def by (intro leaves.evolves_rules queue_policy)

lemma queue_routes [evolves_intros]:
  "evolves queue_moves (start_discovery_route L st F T)"
  "evolves queue_moves (resolve_media L st mid F T)"
  "evolves queue_moves (create_identity_confirmation L st mid match_id operator F T)"
  "evolves queue_moves (create_torrent_search L st c mid q F T)"
  unfolding start_discovery_route_def resolve_media_def create_identity_confirmation_def create_torrent_search_def
  by (intro queue.evolves_rules quiet_moves queue_stage [THEN evolves_leaves_queue] queue_create_discovery
      queue_enqueue_resolution queue_enqueue_search queue_confirm queue_search_after_identity)+

section \<open>The state machine\<close>

text \<open>
  A transaction of a worker, of a request, or of the engine. Each constructor runs one whole
  transaction; \<open>elsewhere\<close> stands for those that do not touch the table of jobs. A discovery is
  completed for a job of its kind, as \<open>run_claimed_job\<close> does.
\<close>

inductive queue_step :: "lib \<Rightarrow> settings \<Rightarrow> db \<Rightarrow> db \<Rightarrow> bool" for L st where
  claimed: "claim_job lease w token now s = (x, u) \<Longrightarrow> queue_step L st s u"
| claimed_preflight: "claim_preflight st w token now s = (x, u) \<Longrightarrow> queue_step L st s u"
| renewed: "renew_job_lease w i token now s = (x, u) \<Longrightarrow> queue_step L st s u"
| renewed_preflight: "renew_preflight st w i token now now2 s = (x, u) \<Longrightarrow> queue_step L st s u"
| attempt_failed: "fail_job L w i token e T s = (x, u) \<Longrightarrow> queue_step L st s u"
| preflight_failed: "fail_preflight L st w i token e F T s = (x, u) \<Longrightarrow> queue_step L st s u"
| preflight_done: "finalize_preflight L st w b r F T s = (x, u) \<Longrightarrow> queue_step L st s u"
| resolution_prepared: "prepare_metadata_resolution L w i mid token s = (x, u) \<Longrightarrow> queue_step L st s u"
| resolution_done: "complete_metadata_resolution L st w i mid cs token F T s = (x, u) \<Longrightarrow> queue_step L st s u"
| search_done: "complete_torrent_search L st w i rid mid ts js token F T s = (x, u) \<Longrightarrow> queue_step L st s u"
| discovery_done: "complete_discovery L auto w i rid items ws token F T s = (x, u) \<Longrightarrow>
    (\<And>t. held_task w i token s = Some t \<Longrightarrow> \<exists>r. kind_of_job t = JK_DISCOVERY r) \<Longrightarrow> queue_step L st s u"
| discovery_asked: "start_discovery_route L st F T s = (y, u) \<Longrightarrow> queue_step L st s u"
| resolution_asked: "resolve_media L st mid F T s = (y', u) \<Longrightarrow> queue_step L st s u"
| identity_confirmed: "create_identity_confirmation L st mid match_id operator F T s = (y'', u) \<Longrightarrow> queue_step L st s u"
| search_asked: "create_torrent_search L st c mid q F T s = (z, u) \<Longrightarrow> queue_step L st s u"
| preflight_queued: "maybe_enqueue_automatic_preflight L st a F T s = (z', u) \<Longrightarrow> queue_step L st s u"
| elsewhere: "db_tasks u = db_tasks s \<Longrightarrow> queue_step L st s u"

lemma discovery_kind: "kind_of_job t = JK_DISCOVERY r \<Longrightarrow> \<not> is_resolution t"
  by (auto simp: kind_of_job_def is_resolution_def starts_with_def split: if_splits)

lemma queue_step_moves: "queue_step L st s u \<Longrightarrow> queue_moves s u"
proof (induction rule: queue_step.induct)
  case (discovery_done auto w i rid items ws token F T s x u)
  have "\<not> is_resolution t" if "held_task w i token s = Some t" for t
    using discovery_done(2) [OF that] by (auto dest: discovery_kind)
  from keepsD [OF keeps_complete_discovery [OF this] discovery_done(1)] show ?case .
next
  case (elsewhere u s)
  then show ?case by (simp add: queue_moves_def rows_kept_refl)
qed (erule evolvesD [rotated], rule evolves_intros)+

section \<open>A store with one lost resolution\<close>

definition lost_job :: task where
  "lost_job = (new_task ''j1'' (resolve_type ''m1'') [(''media_id'', JStr ''m1'')] 3 0)\<lparr>
     tk_status := TK_RUNNING, tk_attempts := 1, tk_locked_at := Some (Aware 0), tk_locked_by := Some ''w1'',
     tk_lease_token := Some ''t1'' \<rparr>"

definition lost_db :: db where
  "lost_db = empty_db\<lparr> db_tasks := [lost_job] \<rparr>"

abbreviation reclaimed :: "task option session" where
  "reclaimed \<equiv> claim_job 300 ''w2'' ''t2'' (seconds 301)"

lemma lost_tasks_ok: "tasks_ok (db_tasks lost_db)"
  by (simp add: lost_db_def lost_job_def tasks_ok_def task_check_def new_task_def)

lemma lost_reclaimed: "fst (reclaimed lost_db) = Inr (Some (taken ''w2'' ''t2'' (seconds 301) lost_job))"
  by code_simp

section \<open>Jobs move forward\<close>

text \<open>C8: In every run of transactions of the workers, of the requests and of the engine the table of jobs keeps its invariant and its jobs move forward: a job is running exactly when it has a lease, its attempts are counted up and never pass their maximum, at most one job of a type is active, an ended job stays as it is, and no job is lost or becomes pending again.\<close>
theorem jobs_move_forward:
  assumes "tasks_ok (db_tasks s)" and "(queue_step L st)\<^sup>*\<^sup>* s u"
  shows "tasks_ok (db_tasks u) \<and> rows_kept tk_id task_moves (db_tasks s) (db_tasks u)"
proof -
  from assms(2) have "queue_moves s u"
    by (induction rule: rtranclp_induct) (auto intro: queue.refl_R queue.trans_R queue_step_moves)
  with assms(1) show ?thesis by (simp add: queue_moves_def)
qed

lemma jobs_move_forward_witness:
  "tasks_ok (db_tasks (snd (reclaimed lost_db)))
    \<and> rows_kept tk_id task_moves (db_tasks lost_db) (db_tasks (snd (reclaimed lost_db)))
    \<and> fst (reclaimed lost_db) = Inr (Some (taken ''w2'' ''t2'' (seconds 301) lost_job))"
proof -
  have "queue_step example_lib example_settings lost_db (snd (reclaimed lost_db))"
    by (rule queue_step.claimed [where x = "fst (reclaimed lost_db)"]) simp
  then have "(queue_step example_lib example_settings)\<^sup>*\<^sup>* lost_db (snd (reclaimed lost_db))"
    by (rule r_into_rtranclp)
  from jobs_move_forward [OF lost_tasks_ok this] lost_reclaimed show ?thesis by blast
qed

section \<open>A superseded worker\<close>

lemma claim_job_stored:
  assumes "claim_job lease w token now s = (Inr (Some t), u)"
  shows "task_by_id (tk_id t) u = Some t \<and> tk_lease_token t = Some token"
proof -
  obtain n v where n: "next_job lease now s = Some n" and t: "t = taken w token now n"
    and saved: "save_task t s = (Inr (), v)" and same: "db_tasks u = db_tasks v"
    using assms
    by (auto simp: claim_job_def Let_def handler_simps split: option.splits dest!: queue_start [THEN evolvesD])
  have "n \<in> set (db_tasks s)" using first_row_sorted [OF n [unfolded next_job_def]] by auto
  moreover have "tk_id t = tk_id n" and "tk_lease_token t = Some token" by (simp_all add: t taken_def)
  moreover from saved have "db_tasks v = row_put tk_id t (db_tasks s)" by (auto simp: save_task_def handler_simps)
  ultimately show ?thesis
    using same by (cases "row_get tk_id (tk_id n) (db_tasks s)")
      (auto simp: task_by_id_def row_get_put row_get_None_conv)
qed

lemma lost_lease_not_held:
  "task_by_id i s = Some t \<Longrightarrow> tk_lease_token t \<noteq> Some token \<Longrightarrow> held_task w i token s = None"
  by (auto simp: held_task_def holds_lease_def)

lemmas not_held_defs = renew_job_lease_def fail_job_def complete_metadata_resolution_def complete_torrent_search_def
  complete_discovery_def prepare_metadata_resolution_def checkpoint_country_codes_def both_def

text \<open>C9: A worker whose job another worker has claimed changes nothing: its renewal fails, its end of the job (success of each kind, or failure) is dropped, and a checkpoint of its discovery is refused.\<close>
theorem superseded_worker_changes_nothing:
  assumes claim: "claim_job lease w' token' now s = (Inr (Some t), u)" and other: "token \<noteq> token'"
  shows "renew_job_lease w (tk_id t) token n u = (Inr False, u)
    \<and> fail_job L w (tk_id t) token e T u = (Inr (), u)
    \<and> complete_metadata_resolution L st w (tk_id t) mid cs token F T u = (Inr (), u)
    \<and> complete_torrent_search L st w (tk_id t) rid mid ts js token F T u = (Inr (), u)
    \<and> complete_discovery L auto w (tk_id t) rid items ws token F T u = (Inr (), u)
    \<and> snd (prepare_metadata_resolution L w (tk_id t) mid token u) = u
    \<and> checkpoint_country_codes w (tk_id t) token (c # vs) u = (Inl (app_err_retry ''JOB_LEASE_LOST'' 409), u)"
proof -
  from claim_job_stored [OF claim] other have lost: "held_task w (tk_id t) token u = None"
    by (auto intro: lost_lease_not_held)
  have "snd (prepare_metadata_resolution L w (tk_id t) mid token u) = u"
    by (auto simp: not_held_defs lost handler_defs lock_media_def option_or_def split: option.splits)
  with lost show ?thesis
    by (simp add: not_held_defs handler_defs Let_def split: option.splits)
qed

definition worker_error :: app_error where
  "worker_error = \<lparr> error_code = ''TMDB_TIMEOUT'', status_code = 504, retryable = True, err_details = [] \<rparr>"

lemma superseded_worker_changes_nothing_witness:
  "fst (reclaimed lost_db) = Inr (Some (taken ''w2'' ''t2'' (seconds 301) lost_job))
    \<and> fail_job example_lib ''w1'' ''j1'' ''t1'' worker_error (\<lambda>_. 0) (snd (reclaimed lost_db)) = (Inr (), snd (reclaimed lost_db))
    \<and> renew_job_lease ''w1'' ''j1'' ''t1'' (seconds 302) (snd (reclaimed lost_db)) = (Inr False, snd (reclaimed lost_db))"
proof -
  have "reclaimed lost_db = (Inr (Some (taken ''w2'' ''t2'' (seconds 301) lost_job)), snd (reclaimed lost_db))"
    using lost_reclaimed by (metis prod.collapse)
  from superseded_worker_changes_nothing [OF this, of "''t1''" "''w1''" "seconds 302" example_lib worker_error "\<lambda>_. 0"]
  have "fail_job example_lib ''w1'' (tk_id (taken ''w2'' ''t2'' (seconds 301) lost_job)) ''t1'' worker_error (\<lambda>_. 0)
        (snd (reclaimed lost_db)) = (Inr (), snd (reclaimed lost_db))
      \<and> renew_job_lease ''w1'' (tk_id (taken ''w2'' ''t2'' (seconds 301) lost_job)) ''t1'' (seconds 302)
        (snd (reclaimed lost_db)) = (Inr False, snd (reclaimed lost_db))"
    by simp
  moreover have "tk_id (taken ''w2'' ''t2'' (seconds 301) lost_job) = ''j1''"
    by (simp add: taken_def lost_job_def new_task_def)
  ultimately show ?thesis using lost_reclaimed by metis
qed

section \<open>Lost jobs\<close>

lemma claim_saves:
  assumes "tasks_ok (db_tasks s)" and "stored_task s n" and "active_task n" and "active_task n'"
    and "tk_id n' = tk_id n" and "tk_job_type n' = tk_job_type n" and "tk_run_id n' = tk_run_id n"
  shows "fst (save_task n' s) = Inr ()"
proof -
  have "\<not> tasks_clash n b" if "b \<in> set (db_tasks s)" for b
    using assms(1) stored_task_in [OF assms(2)] that by (auto simp: tasks_ok_def)
  then have "\<not> list_ex (tasks_clash n') (db_tasks s)"
    using assms(3-7) by (auto simp: list_ex_iff tasks_clash_def)
  then show ?thesis by (simp add: save_task_def handler_defs)
qed

lemma taken_active: "active_task (taken w token now t)"
  by (simp add: active_task_def active_task_statuses_def taken_def)

lemma first_row_None: "first_row xs = None \<longleftrightarrow> xs = []"
  by (cases xs) (simp_all add: first_row_def)

lemma sort_key_Nil_iff: "sort_key k xs = [] \<longleftrightarrow> xs = []"
  by (metis set_empty set_sort)

lemma next_preflight_oldest:
  assumes "next_preflight st now s = Some n" and "t \<in> set (db_tasks s)" and "is_preflight_job t"
    and "may_claim (st_job_lease_seconds st) now t"
  shows "as_utc (tk_created_at n) \<le> as_utc (tk_created_at t)"
  using first_row_sorted [OF assms(1) [unfolded next_preflight_def]] assms(2-4) by simp

text \<open>C37: While a preflight job can be claimed - it waits, or its worker has been silent for the lease - and has attempts left, a claim gives one, the oldest, under the new lease; the queue of the other worker answers that there is nothing to do exactly when nothing can be claimed.\<close>
theorem claimable_jobs_are_claimed:
  assumes ok: "tasks_ok (db_tasks s)" and t: "t \<in> set (db_tasks s)" and kind: "is_preflight_job t"
    and claimable: "may_claim (st_job_lease_seconds st) now t"
  shows "(\<exists>n. fst (claim_preflight st w token now s) = Inr (Some n) \<and> tk_status n = TK_RUNNING
      \<and> tk_lease_token n = Some token \<and> as_utc (tk_created_at n) \<le> as_utc (tk_created_at t))
    \<and> (fst (claim_job lease w token now s) = Inr None \<longleftrightarrow>
      list_all (\<lambda>x. is_preflight_job x \<or> \<not> may_claim lease now x) (db_tasks s))"
proof
  have "next_preflight st now s \<noteq> None"
    using t kind claimable by (auto simp: next_preflight_def first_row_None sort_key_Nil_iff filter_empty_conv)
  then obtain n where n: "next_preflight st now s = Some n" by auto
  let ?n = "(taken w token now n)\<lparr> tk_error_code := None, tk_error_message := None \<rparr>"
  from next_preflight_stored [OF ok n] have stored: "stored_task s n" and may: "may_claim (st_job_lease_seconds st) now n"
    by auto
  have "fst (save_task ?n s) = Inr ()"
    by (rule claim_saves [OF ok stored may_claim_active [OF may]]) (simp_all add: taken_def active_task_def active_task_statuses_def)
  then have "fst (claim_preflight st w token now s) = Inr (Some ?n)"
    by (auto simp: claim_preflight_def handler_defs n Let_def split: prod.splits sum.splits)
  moreover have "as_utc (tk_created_at ?n) \<le> as_utc (tk_created_at t)"
    using next_preflight_oldest [OF n t kind claimable] by (simp add: taken_def)
  ultimately show "\<exists>n. fst (claim_preflight st w token now s) = Inr (Some n) \<and> tk_status n = TK_RUNNING
      \<and> tk_lease_token n = Some token \<and> as_utc (tk_created_at n) \<le> as_utc (tk_created_at t)"
    by (intro exI [of _ ?n]) (simp add: taken_def)
next
  have "fst (claim_job lease w token now s) = Inr None \<longleftrightarrow> next_job lease now s = None"
    by (cases "next_job lease now s")
      (auto simp: claim_job_def handler_defs Let_def split: prod.splits sum.splits)
  also have "\<dots> \<longleftrightarrow> list_all (\<lambda>x. is_preflight_job x \<or> \<not> may_claim lease now x) (db_tasks s)"
    by (auto simp: next_job_def first_row_None sort_key_Nil_iff filter_empty_conv list_all_iff is_preflight_job_def)
  finally show "fst (claim_job lease w token now s) = Inr None \<longleftrightarrow>
      list_all (\<lambda>x. is_preflight_job x \<or> \<not> may_claim lease now x) (db_tasks s)" .
qed

definition waiting_preflight :: task where
  "waiting_preflight = new_task ''p1'' ''AUTOMATION_PREFLIGHT:a1'' [] 3 0"

lemma claimable_jobs_are_claimed_witness:
  "may_claim 300 5 waiting_preflight \<and>
    (\<exists>n. fst (claim_preflight example_settings ''w1'' ''t1'' 5 (empty_db\<lparr> db_tasks := [waiting_preflight] \<rparr>)) = Inr (Some n)
      \<and> tk_status n = TK_RUNNING)"
proof -
  have may: "may_claim 300 5 waiting_preflight" by code_simp
  have "is_preflight_job waiting_preflight" by code_simp
  moreover have "tasks_ok (db_tasks (empty_db\<lparr> db_tasks := [waiting_preflight] \<rparr>))"
    by (simp add: tasks_ok_def waiting_preflight_def task_check_new)
  moreover have "may_claim (st_job_lease_seconds example_settings) 5 waiting_preflight"
    using may by (simp add: example_settings_def)
  ultimately show ?thesis
    using claimable_jobs_are_claimed [of "empty_db\<lparr> db_tasks := [waiting_preflight] \<rparr>" waiting_preflight example_settings 5] may
    by fastforce
qed

section \<open>Jobs without attempts left\<close>

text \<open>C38: A search job without attempts left - its worker was lost on the last one - stays active: neither worker ever claims it again, whatever the time, and while its run stands a new search of the media item on the site is answered with it and not queued.\<close>
theorem exhausted_search_is_stuck:
  assumes ok: "tasks_ok (db_tasks s)" and t: "t \<in> set (db_tasks s)" "active_task t"
    and kind: "tk_job_type t = search_type (sq_site_id q) mid" and spent: "tk_max_attempts t \<le> tk_attempts t"
    and run: "list_ex (\<lambda>r. ru_media_id r = mid \<and> ru_site_id r = sq_site_id q \<and> active_search r) (db_runs s)"
    and media: "media_by_id mid s \<noteq> None" and review: "confirmed_review mid s \<noteq> None"
  shows "(\<forall>lease w token now x u. claim_job lease w token now s = (Inr (Some x), u) \<longrightarrow> tk_id x \<noteq> tk_id t)
    \<and> (\<forall>w token now x u. claim_preflight st w token now s = (Inr (Some x), u) \<longrightarrow> tk_id x \<noteq> tk_id t)
    \<and> (\<exists>r x. enqueue_torrent_search L mid q n st i1 i2 now s = (Inr (r, x, True), s) \<and> active_task x)"
proof (intro conjI allI impI)
  have same: "y = t" if "y \<in> set (db_tasks s)" and "tk_id y = tk_id t" for y
    using stored_task_member [OF ok that(1)] stored_task_member [OF ok t(1)] that(2) by (simp add: stored_task_def)
  have not_claimed: "\<not> may_claim lease now t" for lease now using spent by (simp add: may_claim_def)
  show "tk_id x \<noteq> tk_id t" if claim: "claim_job lease w token now s = (Inr (Some x), u)" for lease w token now x u
  proof -
    obtain y where y: "next_job lease now s = Some y" and x: "x = taken w token now y"
      using claim by (auto simp: claim_job_def Let_def handler_simps split: option.splits)
    from first_row_sorted [OF y [unfolded next_job_def]] have "y \<in> set (db_tasks s)" and "may_claim lease now y" by auto
    with same not_claimed have "tk_id y \<noteq> tk_id t" by blast
    then show ?thesis by (simp add: x taken_def)
  qed
  show "tk_id x \<noteq> tk_id t" if claim: "claim_preflight st w token now s = (Inr (Some x), u)" for w token now x u
  proof -
    obtain y where y: "next_preflight st now s = Some y" and x: "tk_id x = tk_id y"
      using claim by (auto simp: claim_preflight_def taken_def Let_def handler_simps split: option.splits)
    from first_row_sorted [OF y [unfolded next_preflight_def]]
    have "y \<in> set (db_tasks s)" and "may_claim (st_job_lease_seconds st) now y" by auto
    with same not_claimed x show ?thesis by metis
  qed
  obtain r where r: "find (\<lambda>r. ru_media_id r = mid \<and> ru_site_id r = sq_site_id q \<and> active_search r) (db_runs s) = Some r"
  proof -
    have "find (\<lambda>r. ru_media_id r = mid \<and> ru_site_id r = sq_site_id q \<and> active_search r) (db_runs s) \<noteq> None"
      using run by (auto simp: list_ex_iff find_None_iff)
    then show thesis using that by auto
  qed
  obtain x where x: "active_of_type (if sq_site_id q = ''avistaz'' then [search_type (sq_site_id q) mid, legacy_search_type mid]
      else [search_type (sq_site_id q) mid]) s = Some x" (is "active_of_type ?types s = _")
  proof -
    have "active_of_type ?types s \<noteq> None" using t kind by (auto simp: active_of_type_def find_None_iff)
    then show thesis using that by auto
  qed
  from x have "active_task x" by (rule active_of_type_stored(2) [OF ok])
  moreover have "running_search mid (sq_site_id q) s = Some (r, x)" using r x by (simp add: running_search_def both_def)
  then have "enqueue_torrent_search L mid q n st i1 i2 now s = (Inr (r, x, True), s)"
    using media review by (auto simp: enqueue_torrent_search_def lock_media_def handler_defs)
  ultimately show "\<exists>r x. enqueue_torrent_search L mid q n st i1 i2 now s = (Inr (r, x, True), s) \<and> active_task x"
    by blast
qed

definition spent_job :: task where
  "spent_job = (new_task ''j1'' (search_type ''avistaz'' ''m1'') [] 3 0)\<lparr>
     tk_status := TK_RUNNING, tk_attempts := 3, tk_locked_at := Some (Aware 0), tk_locked_by := Some ''w1'',
     tk_lease_token := Some ''t1'' \<rparr>"

definition spent_db :: db where
  "spent_db = example_db\<lparr> db_tasks := [spent_job],
     db_runs := [(new_run ''r1'' ''m1'' (automatic_search_request ''avistaz''))\<lparr> ru_status := WF_PT_SEARCHING \<rparr>],
     db_reviews := [\<lparr> iv_id = ''v1'', iv_media_id = ''m1'', iv_metadata_match_id = ''x1'', iv_status = ''CONFIRMED'',
       iv_confirmed_by = ''admin'', iv_candidate_snapshot = JNull, iv_created_at = Aware 0 \<rparr>] \<rparr>"

lemma exhausted_search_is_stuck_witness:
  "tasks_ok (db_tasks spent_db)
    \<and> (\<exists>r x. enqueue_torrent_search example_lib ''m1'' (automatic_search_request ''avistaz'') 3 example_settings ''r2'' ''j2'' 9
        spent_db = (Inr (r, x, True), spent_db) \<and> active_task x)"
proof -
  have ok: "tasks_ok (db_tasks spent_db)" by (simp add: spent_db_def spent_job_def tasks_ok_def task_check_def new_task_def)
  have "spent_job \<in> set (db_tasks spent_db)" by (simp add: spent_db_def)
  moreover have "active_task spent_job" by code_simp
  moreover have "tk_job_type spent_job = search_type (sq_site_id (automatic_search_request ''avistaz'')) ''m1''"
    by (simp add: spent_job_def new_task_def automatic_search_request_def)
  moreover have "tk_max_attempts spent_job \<le> tk_attempts spent_job" by code_simp
  moreover have "list_ex (\<lambda>r. ru_media_id r = ''m1'' \<and> ru_site_id r = sq_site_id (automatic_search_request ''avistaz'')
      \<and> active_search r) (db_runs spent_db)" by code_simp
  moreover have "media_by_id ''m1'' spent_db \<noteq> None" and "confirmed_review ''m1'' spent_db \<noteq> None"
    by (simp_all add: spent_db_def example_db_def media_by_id_def row_get_def confirmed_review_def confirmed_for_def)
  ultimately show ?thesis using exhausted_search_is_stuck [OF ok] ok by blast
qed

section \<open>Retries\<close>

text \<open>The delay before a retry is at least one second and at most an hour, doubles with the attempts up to there, and a site that asks for a delay can only lengthen it.\<close>
theorem retry_delay_bounded:
  "1 \<le> fallback_delay attempts \<and> fallback_delay attempts \<le> retry_delay_seconds L e attempts
    \<and> retry_delay_seconds L e attempts \<le> 3600
    \<and> fallback_delay (\<bar>attempts\<bar> + 1) = min 3600 (2 * fallback_delay \<bar>attempts\<bar>)"
proof -
  have low: "1 \<le> fallback_delay attempts" and high: "fallback_delay attempts \<le> 3600"
    unfolding fallback_delay_def by simp_all
  have double: "fallback_delay (\<bar>attempts\<bar> + 1) = min 3600 (2 * fallback_delay \<bar>attempts\<bar>)"
    by (simp add: fallback_delay_def nat_add_distrib min_def)
  have "fallback_delay attempts \<le> retry_delay_seconds L e attempts \<and> retry_delay_seconds L e attempts \<le> 3600"
    using high by (auto simp: retry_delay_seconds_def Let_def split: option.split json.split)
  with low double show ?thesis by blast
qed

end
