(* ===== verification/EngineProperties.thy ===== *)
theory EngineProperties
  imports EngineLaws
begin

text \<open>
  When the automation engine acts. An identity is eligible exactly when its best match satisfies
  the declared conditions, and an execution is created only under a policy, a configuration and
  acknowledgements that allow it.
\<close>

section \<open>The eligible identity\<close>

lemma reason_when_Nil [simp]: "reason_when c r = [] \<longleftrightarrow> \<not> c"
  by (simp add: reason_when_def)

text \<open>What the source media item has in common with the record of an eligible match.\<close>

definition identity_agrees :: "lib \<Rightarrow> media_row \<Rightarrow> metadata \<Rightarrow> bool" where
  "identity_agrees L m c \<longleftrightarrow> md_media_type c = me_media_type m
    \<and> (case me_tmdb_id m of
         Some k \<Rightarrow> md_tmdb_id c = k
       | None \<Rightarrow> metadata_title_exact L m c \<and> me_year m \<noteq> None \<and> md_year c = me_year m)"

definition eligible_match ::
    "lib \<Rightarrow> media_row \<Rightarrow> match_row list \<Rightarrow> string \<Rightarrow> rat \<Rightarrow> rat \<Rightarrow> match_row \<Rightarrow> bool" where
  "eligible_match L m rest job_id min_score min_margin best \<longleftrightarrow>
    list_all (\<lambda>x. mm_resolution_job_id x = Some job_id) (best # rest)
    \<and> min_score \<le> float_val L (mm_score best)
    \<and> min_margin \<le> fl_sub L (float_val L (mm_score best)) (zero_or L mm_score rest)
    \<and> mm_conflicts best = [] \<and> set (identity_required m) \<subseteq> set (mm_match_reasons best)
    \<and> (case parse_metadata L (mm_candidate_snapshot best) of None \<Rightarrow> False | Some c \<Rightarrow> identity_agrees L m c)"

lemma identity_candidate_reasons_Nil:
  "identity_candidate_reasons L m best c = [] \<longleftrightarrow>
    identity_agrees L m c \<and> set (identity_required m) \<subseteq> set (mm_match_reasons best)"
  by (auto simp: identity_candidate_reasons_def identity_agrees_def both_def split: option.splits)

lemma dedup_Nil: "dedup xs = [] \<longleftrightarrow> xs = []"
  by (cases xs) simp_all

text \<open>C19: The evaluation of an identity is eligible exactly when the input is unchanged, and the best match belongs to the job, reaches the score and the margin of the policy, has no conflict and all the required evidence, and names the same medium: the same type, and the TMDB identifier of the source, or else its exact title and year. It then selects that match.\<close>
theorem identity_eligible_iff:
  assumes rules: "rule_float L (pr_eligibility_rules r) ''identity_min_score'' = Inr min_score"
      "rule_float L (pr_eligibility_rules r) ''identity_min_margin'' = Inr min_margin"
  shows "\<exists>el. evaluate_identity_candidates L m ms r job_id input_matches = Inr el
    \<and> (el_eligible el \<longleftrightarrow> input_matches \<and> (case ranked_matches ms of [] \<Rightarrow> False
        | best # rest \<Rightarrow> eligible_match L m rest job_id min_score min_margin best))
    \<and> el_selected_id el = (case ranked_matches ms of [] \<Rightarrow> None | best # _ \<Rightarrow> Some (mm_id best))
    \<and> (el_eligible el \<longleftrightarrow> el_reason_codes el = [])"
proof (cases "ranked_matches ms")
  case Nil
  then show ?thesis by (simp add: evaluate_identity_candidates_def not_eligible_def Let_def)
next
  case (Cons best rest)
  show ?thesis
  proof (cases "parse_metadata L (mm_candidate_snapshot best)")
    case None
    with Cons rules show ?thesis
      by (simp add: evaluate_identity_candidates_def not_eligible_def eligible_match_def dedup_Nil Let_def)
  next
    case (Some c)
    with Cons rules show ?thesis
      by (auto simp: evaluate_identity_candidates_def judged_def eligible_match_def dedup_Nil Let_def
          identity_candidate_reasons_Nil list_ex_iff list_all_iff not_less)
  qed
qed

text \<open>A film with one match that agrees with it.\<close>

definition example_film :: media_row where
  "example_film = snd example_context"

definition example_match :: match_row where
  "example_match = \<lparr> mm_id = ''x1'', mm_media_id = ''m1'', mm_resolution_job_id = Some ''j1'', mm_tmdb_id = 7, mm_rank = 1,
     mm_score = ''1.0'', mm_match_reasons = [''TMDB_ID_EXACT'', ''MEDIA_TYPE_MATCH''], mm_conflicts = [],
     mm_candidate_snapshot = JObj [(''tmdb_id'', JInt 7), (''media_type'', JStr ''movie''), (''title'', JStr ''Film'')] \<rparr>"

lemma identity_eligible_iff_witness:
  "\<exists>el. evaluate_identity_candidates example_lib example_film [example_match] (new_default_revision example_lib 0 ''r1'')
      ''j1'' True = Inr el \<and> el_eligible el"
proof -
  have rules: "rule_float example_lib (pr_eligibility_rules (new_default_revision example_lib 0 ''r1'')) ''identity_min_score'' = Inr 1"
    "rule_float example_lib (pr_eligibility_rules (new_default_revision example_lib 0 ''r1'')) ''identity_min_margin'' = Inr 1"
    by (simp_all add: new_default_revision_def sealed_revision_def rule_float_def rule_value_def
        DEFAULT_ELIGIBILITY_RULES_def example_lib_def finite_text_def)
  have "ranked_matches [example_match] = [example_match]" by (simp add: ranked_matches_def)
  moreover have "eligible_match example_lib example_film [] ''j1'' 1 1 example_match" by code_simp
  ultimately show ?thesis
    using identity_eligible_iff [OF rules, of example_film "[example_match]" "''j1''" True] by auto
qed

section \<open>The automatic execution\<close>

lemma mode_outcome_None: "mode_outcome r stage created engine = None \<longleftrightarrow>
    subject_is_new_for_revision created r \<and> stage_mode r stage = AM_AUTO_IF_ELIGIBLE \<and> engine"
  by (cases "stage_mode r stage") (auto simp: mode_outcome_def)

lemma decisions_leave_executions:
  "evolves (\<lambda>s t. db_executions t = db_executions s) (add_decision_once d)"
  "evolves (\<lambda>s t. db_executions t = db_executions s) (record_stage_decision L r stage action outcome sj reasons evidence nid)"
  "evolves (\<lambda>s t. db_executions t = db_executions s) (note_execution L r sj F evidence outcome reasons y)"
proof -
  show once: "evolves (\<lambda>s t. db_executions t = db_executions s) (add_decision_once d)" for d
    unfolding add_decision_once_def insert_decision_def
    by (auto split: exn.splits option.splits intro!: leaves.evolves_rules leaves.evolves_catch leaves_modify)
  show recorded: "evolves (\<lambda>s t. db_executions t = db_executions s)
      (record_stage_decision L r stage action outcome sj reasons evidence nid)" for r stage action outcome sj reasons evidence nid
    unfolding record_stage_decision_def by (intro leaves.evolves_rules once)
  show "evolves (\<lambda>s t. db_executions t = db_executions s) (note_execution L r sj F evidence outcome reasons y)"
    unfolding note_execution_def by (intro leaves.evolves_rules recorded)
qed

definition execution_trigger :: "approval \<Rightarrow> datetime" where
  "execution_trigger a = (case ar_decided_at a of None \<Rightarrow> ar_requested_at a | Some t \<Rightarrow> t)"

definition execution_allowed :: "lib \<Rightarrow> settings \<Rightarrow> revision \<Rightarrow> approval \<Rightarrow> snapshot \<Rightarrow> bool" where
  "execution_allowed L st r a sn \<longleftrightarrow> stage_mode r AS_EXECUTION = AM_AUTO_IF_ELIGIBLE
    \<and> st_enable_automation_engine st \<and> subject_is_new_for_revision (execution_trigger a) r
    \<and> rule_known (effective_hnr_rule L (sn_site_id sn) (sn_hit_and_run sn))
    \<and> execution_acknowledged L r sn \<and> execution_flags_ready st"

text \<open>C20: The engine touches the executions only when the current policy makes the stage automatic and is not younger than the decision on the approval, the engine and every part of the executor are enabled and a worker is ready, the hit-and-run rule of the sealed snapshot is known, the risks are acknowledged, and the approval has no execution yet.\<close>
theorem automatic_execution_only_when_allowed:
  "db_executions (snd (maybe_create_automatic_execution L st a F T s)) = db_executions s
    \<or> (\<exists>h r u sn. get_current_policy L (T ''policy'') (F ''policy'') s = (Inr (h, r), u) \<and> verify_snapshot L a = Inr sn
    \<and> execution_allowed L st r a sn \<and> execution_for_approval (ar_id a) u = None
    \<and> (\<exists>v. download_executor_is_ready L st (T ''executor ready'') u = (Inr True, v)))"
  (is "?same \<or> ?allowed")
proof (rule disjCI)
  assume never: "\<not> ?allowed"
  have "keeps (\<lambda>s t. db_executions t = db_executions s) s (maybe_create_automatic_execution L st a F T)"
    unfolding maybe_create_automatic_execution_def Let_def
  proof (rule leaves.keeps_bind [OF evolves_keeps [OF current_policy_leaves_executions(1)]], rule leaves.keeps_lift_bind,
      rule leaves.keeps_case_option [rotated], goal_cases)
    case (1 hr u sn y)
    show ?case by (auto split: prod.split intro: evolves_keeps [OF decisions_leave_executions(3)])
  next
    case (2 hr u sn)
    note policy = 2(1) and sealed = 2(2) and mode = 2(3)
    show ?case
    proof (intro leaves.keeps_if leaves.keeps_get_bind leaves.keeps_case_option, goal_cases)
      case (4 e)
      show ?case
        by (intro evolves_keeps leaves.evolves_bind leaves.evolves_reads [OF reads_verified] decisions_leave_executions(3))
    next
      case 3
      note conditions = 3
      show ?case
      proof (rule leaves.keeps_reads_bind, goal_cases)
        case 1
        show ?case by (auto simp: reads_def download_executor_is_ready_def intro!: leaves.evolves_rules)
      next
        case (2 ready)
        have "\<not> ready"
        proof
          assume ready
          with 2 have "execution_flags_ready st"
            and "download_executor_is_ready L st (T ''executor ready'') u = (Inr True, u)"
            by (auto simp: handler_simps split: if_splits)
          moreover have "execution_allowed L st (snd hr) a sn"
            using mode conditions calculation(1)
            by (simp add: execution_allowed_def mode_outcome_None execution_trigger_def)
          ultimately show False using never policy sealed conditions by (cases hr) auto
        qed
        then show ?case by (simp add: evolves_keeps [OF decisions_leave_executions(3)])
      qed
    qed (rule evolves_keeps [OF decisions_leave_executions(3)])+
  qed
  then show ?same by (simp add: keeps_def)
qed

end
