(* ===== verification/ImportSchemas.thy ===== *)
theory ImportSchemas
  imports Entities AutomationPolicy PathUrl
begin

text \<open>
  The documents of a media import (\<open>schemas/media_imports.py\<close>): relative paths, the manifest of the
  source files, their mapping to targets, the summary of the download, the inspection of both sides
  and the result of its checks. A \<open>parse_\<close> function is \<open>model_validate\<close>, None its validation error;
  a \<open>_json\<close> function is \<open>model_dump(mode="json")\<close>, and an \<open>_ok\<close> predicate says what the validators of a
  model require.
\<close>

section \<open>Paths\<close>

definition MAX_MEDIA_IMPORT_FILES :: nat where "MAX_MEDIA_IMPORT_FILES = 20000"
definition MAX_MEDIA_IMPORT_PATH_LENGTH :: nat where "MAX_MEDIA_IMPORT_PATH_LENGTH = 4096"
definition MAX_MEDIA_IMPORT_AGGREGATE_PATH_BYTES :: nat where
  "MAX_MEDIA_IMPORT_AGGREGATE_PATH_BYTES = 4 * 1024 * 1024"
definition MAX_MEDIA_IMPORT_REASON_LENGTH :: nat where "MAX_MEDIA_IMPORT_REASON_LENGTH = 500"
definition MEDIA_IMPORT_PLAN_MODE :: string where "MEDIA_IMPORT_PLAN_MODE = ''PLAN_ONLY_NO_FILE_OPERATION''"

text \<open>\<open>_ROOT_REF\<close>, a full match.\<close>

definition validate_internal_root_ref :: "string \<Rightarrow> bool" where
  "validate_internal_root_ref s \<longleftrightarrow> s \<noteq> [] \<and> length s \<le> 180 \<and> (ascii_letter (hd s) \<or> is_digit (hd s))
    \<and> list_all (\<lambda>c. ascii_letter c \<or> is_digit c \<or> c \<in> set ''._:-'') (tl s)"

text \<open>\<open>_DRIVE_PATH\<close> at the start of the text.\<close>

definition drive_path :: "string \<Rightarrow> bool" where
  "drive_path s \<longleftrightarrow> (case s of a # b # _ \<Rightarrow> ascii_letter a \<and> b = CHR '':'' | _ \<Rightarrow> False)"

definition windows_reserved :: "string list" where
  "windows_reserved = [''con'', ''prn'', ''aux'', ''nul''] @ map (\<lambda>n. ''com'' @ show_nat n) [1..<10]
    @ map (\<lambda>n. ''lpt'' @ show_nat n) [1..<10]"

text \<open>\<open>s.split("/")\<close>; the byte of a slash stands for nothing else in UTF-8.\<close>

definition segments :: "string \<Rightarrow> string list" where
  "segments s = split_on (CHR ''/'') s"

definition portable_segment :: "lib \<Rightarrow> string \<Rightarrow> bool" where
  "portable_segment L p \<longleftrightarrow> (p \<noteq> [] \<longrightarrow> last p \<notin> {CHR '' '', CHR ''.''}) \<and> CHR '':'' \<notin> set p
    \<and> casefold L (takeWhile (\<lambda>c. c \<noteq> CHR ''.'') p) \<notin> set windows_reserved"

text \<open>\<open>validate_normalized_relative_path\<close>: whether the path is returned.\<close>

definition normalized_relative_path :: "lib \<Rightarrow> string \<Rightarrow> bool" where
  "normalized_relative_path L s \<longleftrightarrow>
    s \<noteq> [] \<and> py_len s \<le> MAX_MEDIA_IMPORT_PATH_LENGTH
    \<and> strip s = s \<and> nfc L s = s
    \<and> hd s \<noteq> CHR ''/'' \<and> \<not> drive_path s \<and> CHR 0x5C \<notin> set s \<and> \<not> list_ex (control1 L) (chars s)
    \<and> list_all (\<lambda>p. p \<notin> {[], ''.'', ''..''} \<and> portable_segment L p) (segments s)"

definition path_collision_key :: "lib \<Rightarrow> string \<Rightarrow> string" where
  "path_collision_key L s = casefold L (nfkc L s)"

text \<open>The comparison of each key with the next in the sorted list.\<close>

fun adjacent_prefix :: "string list list \<Rightarrow> bool" where
  "adjacent_prefix (p # c # rest) \<longleftrightarrow> (length p < length c \<and> take (length p) c = p) \<or> adjacent_prefix (c # rest)"
| "adjacent_prefix _ \<longleftrightarrow> False"

definition segmented_keys :: "lib \<Rightarrow> string list \<Rightarrow> string list list" where
  "segmented_keys L paths = sort (map (\<lambda>p. segments (path_collision_key L p)) paths)"

definition validate_unique_paths :: "lib \<Rightarrow> bool \<Rightarrow> string list \<Rightarrow> bool" where
  "validate_unique_paths L reject_prefix_collisions paths \<longleftrightarrow>
    distinct paths \<and> distinct (map (path_collision_key L) paths)
    \<and> (reject_prefix_collisions \<longrightarrow> \<not> adjacent_prefix (segmented_keys L paths))"

definition validate_aggregate_path_bytes :: "string list \<Rightarrow> bool" where
  "validate_aggregate_path_bytes paths \<longleftrightarrow>
    sum_list (map length paths) \<le> MAX_MEDIA_IMPORT_AGGREGATE_PATH_BYTES"

definition normalize_media_import_reason :: "lib \<Rightarrow> string option \<Rightarrow> exn + string option" where
  "normalize_media_import_reason L reason =
    (case reason of
       None \<Rightarrow> Inr None
     | Some r \<Rightarrow>
         if list_ex (control1 L) (chars r) then Inl PyValueError
         else if strip r = [] then Inr None
         else let sanitized = sanitize_public_text L (strip r) in
           if MAX_MEDIA_IMPORT_REASON_LENGTH < py_len sanitized then Inl PyValueError else Inr (Some sanitized))"

text \<open>A field declared \<open>Literal[b]\<close> takes that boolean only.\<close>

definition dec_literal :: "bool \<Rightarrow> json \<Rightarrow> bool option" where
  "dec_literal b j = (if j = JBool b then Some b else None)"

definition list_sized :: "nat \<Rightarrow> nat \<Rightarrow> 'a list \<Rightarrow> bool" where
  "list_sized lo hi xs \<longleftrightarrow> lo \<le> length xs \<and> length xs \<le> hi"

text \<open>\<open>_require_timezone\<close>\<close>

definition has_timezone :: "datetime \<Rightarrow> bool" where
  "has_timezone t \<longleftrightarrow> (case t of Aware _ \<Rightarrow> True | Naive _ \<Rightarrow> False)"

definition hex_field :: "nat \<Rightarrow> string option \<Rightarrow> bool" where
  "hex_field n h \<longleftrightarrow> opt_ok (\<lambda>s. length s = n \<and> list_all lower_hex_char s) h"

section \<open>The source manifest\<close>

record manifest_file =
  mf_relative_path :: string
  mf_size_bytes :: int

record source_manifest =
  sm_source_root_ref :: string
  sm_files :: "manifest_file list"

definition manifest_file_ok :: "lib \<Rightarrow> manifest_file \<Rightarrow> bool" where
  "manifest_file_ok L f \<longleftrightarrow> normalized_relative_path L (mf_relative_path f) \<and> 0 \<le> mf_size_bytes f"

definition source_manifest_ok :: "lib \<Rightarrow> source_manifest \<Rightarrow> bool" where
  "source_manifest_ok L m \<longleftrightarrow>
    (let paths = map mf_relative_path (sm_files m) in
     validate_internal_root_ref (sm_source_root_ref m)
     \<and> list_sized 1 MAX_MEDIA_IMPORT_FILES (sm_files m) \<and> list_all (manifest_file_ok L) (sm_files m)
     \<and> validate_aggregate_path_bytes paths \<and> validate_unique_paths L True paths)"

definition manifest_file_json :: "manifest_file \<Rightarrow> json" where
  "manifest_file_json f = JObj [(''relative_path'', JStr (mf_relative_path f)), (''size_bytes'', JInt (mf_size_bytes f))]"

definition source_manifest_json :: "source_manifest \<Rightarrow> json" where
  "source_manifest_json m = JObj
    [(''source_root_ref'', JStr (sm_source_root_ref m)), (''files'', JList (map manifest_file_json (sm_files m)))]"

definition dec_manifest_file :: "lib \<Rightarrow> json \<Rightarrow> manifest_file option" where
  "dec_manifest_file L j = do {
     kvs \<leftarrow> dec_obj j;
     only_keys [''relative_path'', ''size_bytes''] kvs;
     p \<leftarrow> required ''relative_path'' dec_str kvs;
     n \<leftarrow> required ''size_bytes'' (dec_int L) kvs;
     let f = \<lparr> mf_relative_path = p, mf_size_bytes = n \<rparr>;
     check (manifest_file_ok L f);
     Some f }"

definition parse_source_manifest :: "lib \<Rightarrow> json \<Rightarrow> source_manifest option" where
  "parse_source_manifest L j = do {
     kvs \<leftarrow> dec_obj j;
     only_keys [''source_root_ref'', ''files''] kvs;
     r \<leftarrow> required ''source_root_ref'' dec_str kvs;
     fs \<leftarrow> required ''files'' (dec_list (dec_manifest_file L)) kvs;
     let m = \<lparr> sm_source_root_ref = r, sm_files = fs \<rparr>;
     check (source_manifest_ok L m);
     Some m }"

section \<open>The target mapping\<close>

record target_entry =
  te_source_relative_path :: string
  te_target_relative_path :: string

record target_mapping =
  tm_target_root_ref :: string
  tm_files :: "target_entry list"
  tm_source_retention :: bool
  tm_overwrite :: bool

definition target_entry_ok :: "lib \<Rightarrow> target_entry \<Rightarrow> bool" where
  "target_entry_ok L e \<longleftrightarrow> normalized_relative_path L (te_source_relative_path e)
    \<and> normalized_relative_path L (te_target_relative_path e)"

definition target_mapping_ok :: "lib \<Rightarrow> target_mapping \<Rightarrow> bool" where
  "target_mapping_ok L m \<longleftrightarrow>
    validate_internal_root_ref (tm_target_root_ref m)
    \<and> list_sized 1 MAX_MEDIA_IMPORT_FILES (tm_files m) \<and> list_all (target_entry_ok L) (tm_files m)
    \<and> tm_source_retention m \<and> \<not> tm_overwrite m
    \<and> validate_aggregate_path_bytes
        (concat (map (\<lambda>e. [te_source_relative_path e, te_target_relative_path e]) (tm_files m)))
    \<and> validate_unique_paths L False (map te_source_relative_path (tm_files m))
    \<and> validate_unique_paths L True (map te_target_relative_path (tm_files m))"

definition target_entry_json :: "target_entry \<Rightarrow> json" where
  "target_entry_json e = JObj
    [(''source_relative_path'', JStr (te_source_relative_path e)),
     (''target_relative_path'', JStr (te_target_relative_path e))]"

definition target_mapping_json :: "target_mapping \<Rightarrow> json" where
  "target_mapping_json m = JObj
    [(''target_root_ref'', JStr (tm_target_root_ref m)), (''files'', JList (map target_entry_json (tm_files m))),
     (''source_retention'', JBool (tm_source_retention m)), (''overwrite'', JBool (tm_overwrite m))]"

definition dec_target_entry :: "lib \<Rightarrow> json \<Rightarrow> target_entry option" where
  "dec_target_entry L j = do {
     kvs \<leftarrow> dec_obj j;
     only_keys [''source_relative_path'', ''target_relative_path''] kvs;
     s \<leftarrow> required ''source_relative_path'' dec_str kvs;
     t \<leftarrow> required ''target_relative_path'' dec_str kvs;
     let e = \<lparr> te_source_relative_path = s, te_target_relative_path = t \<rparr>;
     check (target_entry_ok L e);
     Some e }"

definition parse_target_mapping :: "lib \<Rightarrow> json \<Rightarrow> target_mapping option" where
  "parse_target_mapping L j = do {
     kvs \<leftarrow> dec_obj j;
     only_keys [''target_root_ref'', ''files'', ''source_retention'', ''overwrite''] kvs;
     r \<leftarrow> required ''target_root_ref'' dec_str kvs;
     fs \<leftarrow> required ''files'' (dec_list (dec_target_entry L)) kvs;
     keep \<leftarrow> defaulted ''source_retention'' True (dec_literal True) kvs;
     ow \<leftarrow> defaulted ''overwrite'' False (dec_literal False) kvs;
     let m = \<lparr> tm_target_root_ref = r, tm_files = fs, tm_source_retention = keep, tm_overwrite = ow \<rparr>;
     check (target_mapping_ok L m);
     Some m }"

section \<open>The summary of the download\<close>

record job_summary =
  js_download_job_id :: string
  js_media_item_id :: string
  js_execution_id :: string
  js_approval_id :: string
  js_job_status :: job_status
  js_progress :: string
  js_info_hash_v1 :: "string option"
  js_info_hash_v2 :: "string option"
  js_size_bytes :: int
  js_file_count :: int
  js_completed_at :: "datetime option"
  js_hnr_status :: hnr_status
  js_media_type :: media_type
  js_tmdb_id :: "int option"
  js_media_title :: string
  js_media_year :: "int option"
  js_execution_status :: execution_status
  js_actual_info_hash_v1 :: "string option"
  js_actual_info_hash_v2 :: "string option"
  js_actual_size_bytes :: int
  js_actual_file_count :: int
  js_verified_at :: datetime

definition summary_hashes_ok :: "job_summary \<Rightarrow> bool" where
  "summary_hashes_ok s \<longleftrightarrow> hex_field 40 (js_info_hash_v1 s) \<and> hex_field 64 (js_info_hash_v2 s)
    \<and> hex_field 40 (js_actual_info_hash_v1 s) \<and> hex_field 64 (js_actual_info_hash_v2 s)
    \<and> (js_info_hash_v1 s \<noteq> None \<or> js_info_hash_v2 s \<noteq> None)
    \<and> (js_actual_info_hash_v1 s \<noteq> None \<or> js_actual_info_hash_v2 s \<noteq> None)"

definition job_summary_ok :: "lib \<Rightarrow> job_summary \<Rightarrow> bool" where
  "job_summary_ok L s \<longleftrightarrow> summary_hashes_ok s
    \<and> float_at_least L 0 (js_progress s) \<and> float_at_most L 1 (js_progress s)
    \<and> 1 \<le> js_size_bytes s \<and> 1 \<le> js_file_count s \<and> 1 \<le> js_actual_size_bytes s \<and> 1 \<le> js_actual_file_count s
    \<and> opt_ok (\<lambda>n. 1 \<le> n) (js_tmdb_id s) \<and> opt_ok (\<lambda>y. 1870 \<le> y \<and> y \<le> 2200) (js_media_year s)
    \<and> 1 \<le> py_len (js_media_title s) \<and> py_len (js_media_title s) \<le> 500
    \<and> opt_ok has_timezone (js_completed_at s) \<and> has_timezone (js_verified_at s)"

definition dt_json :: "lib \<Rightarrow> datetime \<Rightarrow> json" where
  "dt_json L t = JStr (dt_text L t)"

definition job_summary_json :: "lib \<Rightarrow> job_summary \<Rightarrow> json" where
  "job_summary_json L s = JObj
    [(''download_job_id'', JStr (js_download_job_id s)),
     (''media_item_id'', JStr (js_media_item_id s)),
     (''execution_id'', JStr (js_execution_id s)),
     (''approval_id'', JStr (js_approval_id s)),
     (''job_status'', JStr (job_status_value (js_job_status s))),
     (''progress'', JFloat (js_progress s)),
     (''info_hash_v1'', opt_json JStr (js_info_hash_v1 s)),
     (''info_hash_v2'', opt_json JStr (js_info_hash_v2 s)),
     (''size_bytes'', JInt (js_size_bytes s)),
     (''file_count'', JInt (js_file_count s)),
     (''completed_at'', opt_json (dt_json L) (js_completed_at s)),
     (''hnr_status'', JStr (hnr_status_value (js_hnr_status s))),
     (''media_type'', JStr (media_type_value (js_media_type s))),
     (''tmdb_id'', opt_json JInt (js_tmdb_id s)),
     (''media_title'', JStr (js_media_title s)),
     (''media_year'', opt_json JInt (js_media_year s)),
     (''execution_status'', JStr (execution_status_value (js_execution_status s))),
     (''actual_info_hash_v1'', opt_json JStr (js_actual_info_hash_v1 s)),
     (''actual_info_hash_v2'', opt_json JStr (js_actual_info_hash_v2 s)),
     (''actual_size_bytes'', JInt (js_actual_size_bytes s)),
     (''actual_file_count'', JInt (js_actual_file_count s)),
     (''verified_at'', dt_json L (js_verified_at s))]"

definition job_summary_keys :: "string list" where
  "job_summary_keys = [''download_job_id'', ''media_item_id'', ''execution_id'', ''approval_id'', ''job_status'',
    ''progress'', ''info_hash_v1'', ''info_hash_v2'', ''size_bytes'', ''file_count'', ''completed_at'',
    ''hnr_status'', ''media_type'', ''tmdb_id'', ''media_title'', ''media_year'', ''execution_status'',
    ''actual_info_hash_v1'', ''actual_info_hash_v2'', ''actual_size_bytes'', ''actual_file_count'', ''verified_at'']"

definition parse_job_summary :: "lib \<Rightarrow> json \<Rightarrow> job_summary option" where
  "parse_job_summary L j = do {
     kvs \<leftarrow> dec_obj j;
     only_keys job_summary_keys kvs;
     jb \<leftarrow> required ''download_job_id'' dec_str kvs;
     media \<leftarrow> required ''media_item_id'' dec_str kvs;
     ex \<leftarrow> required ''execution_id'' dec_str kvs;
     ap \<leftarrow> required ''approval_id'' dec_str kvs;
     jst \<leftarrow> Option.bind (required ''job_status'' dec_str kvs) job_status_of;
     progress \<leftarrow> required ''progress'' (dec_float L) kvs;
     h1 \<leftarrow> defaulted ''info_hash_v1'' None (dec_opt dec_str) kvs;
     h2 \<leftarrow> defaulted ''info_hash_v2'' None (dec_opt dec_str) kvs;
     sz \<leftarrow> required ''size_bytes'' (dec_int L) kvs;
     fc \<leftarrow> required ''file_count'' (dec_int L) kvs;
     done \<leftarrow> required ''completed_at'' (dec_opt (parse_dt L)) kvs;
     hnr \<leftarrow> Option.bind (required ''hnr_status'' dec_str kvs) hnr_status_of;
     mt \<leftarrow> Option.bind (required ''media_type'' dec_str kvs) media_type_of;
     tmdb \<leftarrow> defaulted ''tmdb_id'' None (dec_opt (dec_int L)) kvs;
     title \<leftarrow> required ''media_title'' dec_str kvs;
     year \<leftarrow> defaulted ''media_year'' None (dec_opt (dec_int L)) kvs;
     est \<leftarrow> Option.bind (required ''execution_status'' dec_str kvs) execution_status_of;
     a1 \<leftarrow> defaulted ''actual_info_hash_v1'' None (dec_opt dec_str) kvs;
     a2 \<leftarrow> defaulted ''actual_info_hash_v2'' None (dec_opt dec_str) kvs;
     asz \<leftarrow> required ''actual_size_bytes'' (dec_int L) kvs;
     afc \<leftarrow> required ''actual_file_count'' (dec_int L) kvs;
     verified \<leftarrow> required ''verified_at'' (parse_dt L) kvs;
     let s = \<lparr> js_download_job_id = jb, js_media_item_id = media, js_execution_id = ex, js_approval_id = ap,
       js_job_status = jst, js_progress = progress, js_info_hash_v1 = h1, js_info_hash_v2 = h2,
       js_size_bytes = sz, js_file_count = fc, js_completed_at = done, js_hnr_status = hnr,
       js_media_type = mt, js_tmdb_id = tmdb, js_media_title = title, js_media_year = year,
       js_execution_status = est, js_actual_info_hash_v1 = a1, js_actual_info_hash_v2 = a2,
       js_actual_size_bytes = asz, js_actual_file_count = afc, js_verified_at = verified \<rparr>;
     check (job_summary_ok L s);
     Some s }"

section \<open>The inspection\<close>

record inspected_source =
  is_relative_path :: string
  is_size_bytes :: int
  is_exists :: bool
  is_regular_file :: bool
  is_symlink :: bool
  is_complete :: bool

record inspected_target =
  it_relative_path :: string
  it_exists :: bool

record inspection =
  in_download_job_id :: string
  in_source_root_ref :: string
  in_target_root_ref :: string
  in_info_hash_v1 :: "string option"
  in_info_hash_v2 :: "string option"
  in_source_files :: "inspected_source list"
  in_target_files :: "inspected_target list"
  in_same_filesystem :: "bool option"
  in_available_bytes :: "int option"
  in_inspected_at :: datetime

definition inspected_source_ok :: "lib \<Rightarrow> inspected_source \<Rightarrow> bool" where
  "inspected_source_ok L f \<longleftrightarrow> normalized_relative_path L (is_relative_path f) \<and> 0 \<le> is_size_bytes f"

definition inspected_target_ok :: "lib \<Rightarrow> inspected_target \<Rightarrow> bool" where
  "inspected_target_ok L f \<longleftrightarrow> normalized_relative_path L (it_relative_path f)"

definition inspected_paths_ok :: "lib \<Rightarrow> string list \<Rightarrow> bool" where
  "inspected_paths_ok L paths \<longleftrightarrow> list_sized 1 MAX_MEDIA_IMPORT_FILES paths
    \<and> validate_aggregate_path_bytes paths \<and> validate_unique_paths L True paths"

definition inspection_ok :: "lib \<Rightarrow> inspection \<Rightarrow> bool" where
  "inspection_ok L i \<longleftrightarrow> 1 \<le> py_len (in_download_job_id i) \<and> py_len (in_download_job_id i) \<le> 36
    \<and> validate_internal_root_ref (in_source_root_ref i) \<and> validate_internal_root_ref (in_target_root_ref i)
    \<and> hex_field 40 (in_info_hash_v1 i) \<and> hex_field 64 (in_info_hash_v2 i)
    \<and> list_all (inspected_source_ok L) (in_source_files i) \<and> list_all (inspected_target_ok L) (in_target_files i)
    \<and> inspected_paths_ok L (map is_relative_path (in_source_files i))
    \<and> inspected_paths_ok L (map it_relative_path (in_target_files i))
    \<and> opt_ok (\<lambda>n. 0 \<le> n) (in_available_bytes i) \<and> has_timezone (in_inspected_at i)
    \<and> (in_info_hash_v1 i \<noteq> None \<or> in_info_hash_v2 i \<noteq> None)"

definition inspected_source_json :: "inspected_source \<Rightarrow> json" where
  "inspected_source_json f = JObj
    [(''relative_path'', JStr (is_relative_path f)), (''size_bytes'', JInt (is_size_bytes f)),
     (''exists'', JBool (is_exists f)), (''is_regular_file'', JBool (is_regular_file f)),
     (''is_symlink'', JBool (is_symlink f)), (''complete'', JBool (is_complete f))]"

definition inspected_target_json :: "inspected_target \<Rightarrow> json" where
  "inspected_target_json f = JObj
    [(''relative_path'', JStr (it_relative_path f)), (''exists'', JBool (it_exists f))]"

definition inspection_json :: "lib \<Rightarrow> inspection \<Rightarrow> json" where
  "inspection_json L i = JObj
    [(''download_job_id'', JStr (in_download_job_id i)),
     (''source_root_ref'', JStr (in_source_root_ref i)),
     (''target_root_ref'', JStr (in_target_root_ref i)),
     (''info_hash_v1'', opt_json JStr (in_info_hash_v1 i)),
     (''info_hash_v2'', opt_json JStr (in_info_hash_v2 i)),
     (''source_files'', JList (map inspected_source_json (in_source_files i))),
     (''target_files'', JList (map inspected_target_json (in_target_files i))),
     (''same_filesystem'', opt_json JBool (in_same_filesystem i)),
     (''available_bytes'', opt_json JInt (in_available_bytes i)),
     (''inspected_at'', dt_json L (in_inspected_at i))]"

definition dec_inspected_source :: "lib \<Rightarrow> json \<Rightarrow> inspected_source option" where
  "dec_inspected_source L j = do {
     kvs \<leftarrow> dec_obj j;
     only_keys [''relative_path'', ''size_bytes'', ''exists'', ''is_regular_file'', ''is_symlink'', ''complete''] kvs;
     p \<leftarrow> required ''relative_path'' dec_str kvs;
     n \<leftarrow> required ''size_bytes'' (dec_int L) kvs;
     e \<leftarrow> required ''exists'' (dec_bool L) kvs;
     g \<leftarrow> required ''is_regular_file'' (dec_bool L) kvs;
     l \<leftarrow> required ''is_symlink'' (dec_bool L) kvs;
     c \<leftarrow> required ''complete'' (dec_bool L) kvs;
     let f = \<lparr> is_relative_path = p, is_size_bytes = n, is_exists = e, is_regular_file = g, is_symlink = l,
       is_complete = c \<rparr>;
     check (inspected_source_ok L f);
     Some f }"

definition dec_inspected_target :: "lib \<Rightarrow> json \<Rightarrow> inspected_target option" where
  "dec_inspected_target L j = do {
     kvs \<leftarrow> dec_obj j;
     only_keys [''relative_path'', ''exists''] kvs;
     p \<leftarrow> required ''relative_path'' dec_str kvs;
     e \<leftarrow> required ''exists'' (dec_bool L) kvs;
     let f = \<lparr> it_relative_path = p, it_exists = e \<rparr>;
     check (inspected_target_ok L f);
     Some f }"

definition inspection_keys :: "string list" where
  "inspection_keys = [''download_job_id'', ''source_root_ref'', ''target_root_ref'', ''info_hash_v1'', ''info_hash_v2'',
    ''source_files'', ''target_files'', ''same_filesystem'', ''available_bytes'', ''inspected_at'']"

definition parse_inspection :: "lib \<Rightarrow> json \<Rightarrow> inspection option" where
  "parse_inspection L j = do {
     kvs \<leftarrow> dec_obj j;
     only_keys inspection_keys kvs;
     jb \<leftarrow> required ''download_job_id'' dec_str kvs;
     sr \<leftarrow> required ''source_root_ref'' dec_str kvs;
     tr \<leftarrow> required ''target_root_ref'' dec_str kvs;
     h1 \<leftarrow> defaulted ''info_hash_v1'' None (dec_opt dec_str) kvs;
     h2 \<leftarrow> defaulted ''info_hash_v2'' None (dec_opt dec_str) kvs;
     ss \<leftarrow> required ''source_files'' (dec_list (dec_inspected_source L)) kvs;
     ts \<leftarrow> required ''target_files'' (dec_list (dec_inspected_target L)) kvs;
     sf \<leftarrow> defaulted ''same_filesystem'' None (dec_opt (dec_bool L)) kvs;
     ab \<leftarrow> defaulted ''available_bytes'' None (dec_opt (dec_int L)) kvs;
     t \<leftarrow> required ''inspected_at'' (parse_dt L) kvs;
     let i = \<lparr> in_download_job_id = jb, in_source_root_ref = sr, in_target_root_ref = tr, in_info_hash_v1 = h1,
       in_info_hash_v2 = h2, in_source_files = ss, in_target_files = ts, in_same_filesystem = sf,
       in_available_bytes = ab, in_inspected_at = t \<rparr>;
     check (inspection_ok L i);
     Some i }"

section \<open>The result of the checks\<close>

record import_check =
  ick_code :: string
  ick_status :: preflight_status
  ick_message :: string

record import_result =
  irs_overall_status :: preflight_status
  irs_checked_at :: datetime
  irs_config_fingerprint :: string
  irs_checks :: "import_check list"

text \<open>\<open>^[A-Z0-9_]{3,80}$\<close>\<close>

definition import_code_char :: "char \<Rightarrow> bool" where
  "import_code_char c \<longleftrightarrow> (65 \<le> byte c \<and> byte c \<le> 90) \<or> is_digit c \<or> c = CHR ''_''"

definition import_check_ok :: "import_check \<Rightarrow> bool" where
  "import_check_ok c \<longleftrightarrow> list_sized 3 80 (ick_code c) \<and> list_all import_code_char (ick_code c)
    \<and> 1 \<le> py_len (ick_message c) \<and> py_len (ick_message c) \<le> 300"

definition import_result_ok :: "import_result \<Rightarrow> bool" where
  "import_result_ok r \<longleftrightarrow> has_timezone (irs_checked_at r) \<and> hex64 (irs_config_fingerprint r)
    \<and> list_sized 1 50 (irs_checks r) \<and> list_all import_check_ok (irs_checks r)"

definition import_check_json :: "import_check \<Rightarrow> json" where
  "import_check_json c = JObj
    [(''code'', JStr (ick_code c)), (''status'', JStr (preflight_status_value (ick_status c))),
     (''message'', JStr (ick_message c))]"

definition import_result_json :: "lib \<Rightarrow> import_result \<Rightarrow> json" where
  "import_result_json L r = JObj
    [(''overall_status'', JStr (preflight_status_value (irs_overall_status r))),
     (''checked_at'', dt_json L (irs_checked_at r)),
     (''config_fingerprint'', JStr (irs_config_fingerprint r)),
     (''checks'', JList (map import_check_json (irs_checks r)))]"

definition dec_import_check :: "json \<Rightarrow> import_check option" where
  "dec_import_check j = do {
     kvs \<leftarrow> dec_obj j;
     only_keys [''code'', ''status'', ''message''] kvs;
     c \<leftarrow> required ''code'' dec_str kvs;
     st \<leftarrow> Option.bind (required ''status'' dec_str kvs) preflight_status_of;
     m \<leftarrow> required ''message'' dec_str kvs;
     let x = \<lparr> ick_code = c, ick_status = st, ick_message = m \<rparr>;
     check (import_check_ok x);
     Some x }"

definition parse_import_result :: "lib \<Rightarrow> json \<Rightarrow> import_result option" where
  "parse_import_result L j = do {
     kvs \<leftarrow> dec_obj j;
     only_keys [''overall_status'', ''checked_at'', ''config_fingerprint'', ''checks''] kvs;
     st \<leftarrow> Option.bind (required ''overall_status'' dec_str kvs) preflight_status_of;
     t \<leftarrow> required ''checked_at'' (parse_dt L) kvs;
     f \<leftarrow> required ''config_fingerprint'' dec_str kvs;
     cs \<leftarrow> required ''checks'' (dec_list dec_import_check) kvs;
     let r = \<lparr> irs_overall_status = st, irs_checked_at = t, irs_config_fingerprint = f, irs_checks = cs \<rparr>;
     check (import_result_ok r);
     Some r }"

section \<open>Requests\<close>

record import_create =
  mc_download_job_id :: string
  mc_proposed_operation :: import_operation
  mc_source_manifest :: source_manifest
  mc_target_mapping :: target_mapping

definition import_create_ok :: "lib \<Rightarrow> import_create \<Rightarrow> bool" where
  "import_create_ok L c \<longleftrightarrow> 1 \<le> py_len (mc_download_job_id c) \<and> py_len (mc_download_job_id c) \<le> 36
    \<and> source_manifest_ok L (mc_source_manifest c) \<and> target_mapping_ok L (mc_target_mapping c)"

definition parse_import_create :: "lib \<Rightarrow> json \<Rightarrow> import_create option" where
  "parse_import_create L j = do {
     kvs \<leftarrow> dec_obj j;
     only_keys [''download_job_id'', ''proposed_operation'', ''source_manifest'', ''target_mapping''] kvs;
     jb \<leftarrow> required ''download_job_id'' dec_str kvs;
     op \<leftarrow> Option.bind (required ''proposed_operation'' dec_str kvs) import_operation_of;
     sm \<leftarrow> required ''source_manifest'' (parse_source_manifest L) kvs;
     tm \<leftarrow> required ''target_mapping'' (parse_target_mapping L) kvs;
     let c = \<lparr> mc_download_job_id = jb, mc_proposed_operation = op, mc_source_manifest = sm, mc_target_mapping = tm \<rparr>;
     check (import_create_ok L c);
     Some c }"

record import_approve =
  ma_acknowledges_plan_only :: bool
  ma_acknowledges_source_retention :: bool
  ma_acknowledges_no_overwrite :: bool
  ma_acknowledges_hnr :: bool

definition parse_import_approve :: "lib \<Rightarrow> json \<Rightarrow> import_approve option" where
  "parse_import_approve L j = do {
     kvs \<leftarrow> dec_obj j;
     only_keys [''acknowledges_plan_only'', ''acknowledges_source_retention'', ''acknowledges_no_overwrite'',
       ''acknowledges_hnr''] kvs;
     p \<leftarrow> defaulted ''acknowledges_plan_only'' False (dec_bool L) kvs;
     r \<leftarrow> defaulted ''acknowledges_source_retention'' False (dec_bool L) kvs;
     n \<leftarrow> defaulted ''acknowledges_no_overwrite'' False (dec_bool L) kvs;
     h \<leftarrow> defaulted ''acknowledges_hnr'' False (dec_bool L) kvs;
     Some \<lparr> ma_acknowledges_plan_only = p, ma_acknowledges_source_retention = r, ma_acknowledges_no_overwrite = n,
       ma_acknowledges_hnr = h \<rparr> }"

text \<open>A decision is its reason, normalised; the length is checked before and after.\<close>

definition parse_import_decision :: "lib \<Rightarrow> json \<Rightarrow> string option option" where
  "parse_import_decision L j = do {
     kvs \<leftarrow> dec_obj j;
     only_keys [''reason''] kvs;
     r \<leftarrow> defaulted ''reason'' None (dec_opt dec_str) kvs;
     check (opt_ok (\<lambda>s. py_len s \<le> MAX_MEDIA_IMPORT_REASON_LENGTH) r);
     (case normalize_media_import_reason L r of Inl _ \<Rightarrow> None | Inr x \<Rightarrow> Some x) }"

text \<open>\<open>MediaImportDecisionAcknowledgements\<close>: three literals and the acknowledgement of the H&R duty.\<close>

definition acknowledgements_json :: "bool \<Rightarrow> json" where
  "acknowledgements_json hnr = JObj
    [(''acknowledges_plan_only'', JBool True), (''acknowledges_source_retention'', JBool True),
     (''acknowledges_no_overwrite'', JBool True), (''acknowledges_hnr'', JBool hnr)]"

definition parse_acknowledgements :: "lib \<Rightarrow> json \<Rightarrow> bool option" where
  "parse_acknowledgements L j = do {
     kvs \<leftarrow> dec_obj j;
     only_keys [''acknowledges_plan_only'', ''acknowledges_source_retention'', ''acknowledges_no_overwrite'',
       ''acknowledges_hnr''] kvs;
     required ''acknowledges_plan_only'' (dec_literal True) kvs;
     required ''acknowledges_source_retention'' (dec_literal True) kvs;
     required ''acknowledges_no_overwrite'' (dec_literal True) kvs;
     required ''acknowledges_hnr'' (dec_bool L) kvs }"

end
