(* ===== verification/ImportStore.thy ===== *)
theory ImportStore
  imports Entities
begin

text \<open>
  The tables of media import requests, their plans, preflights and events (\<open>models/entities.py\<close>): the
  constraints of the database, the listeners that guard an update, and the writes.
\<close>

section \<open>Constraints\<close>

definition active_import_statuses :: "import_status list" where
  "active_import_statuses = [MI_PREFLIGHT_REQUIRED, MI_REVIEW_REQUIRED, MI_APPROVED_PLAN_ONLY]"

definition active_import :: "import_request \<Rightarrow> bool" where
  "active_import r \<longleftrightarrow> im_status r \<in> set active_import_statuses"

definition not_approved :: "import_request \<Rightarrow> bool" where
  "not_approved r \<longleftrightarrow> im_approved_by r = None \<and> im_approved_at r = None \<and> im_decision_acknowledgements r = None"

definition is_approved :: "import_request \<Rightarrow> bool" where
  "is_approved r \<longleftrightarrow> im_approved_by r \<noteq> None \<and> im_approved_at r \<noteq> None \<and> im_decision_acknowledgements r \<noteq> None"

definition not_rejected :: "import_request \<Rightarrow> bool" where
  "not_rejected r \<longleftrightarrow> im_rejected_by r = None \<and> im_rejected_at r = None \<and> im_rejection_reason r = None"

definition not_revoked :: "import_request \<Rightarrow> bool" where
  "not_revoked r \<longleftrightarrow> im_revoked_by r = None \<and> im_revoked_at r = None \<and> im_revocation_reason r = None"

text \<open>\<open>ck_media_import_requests_decision_shape\<close>\<close>

definition import_request_check :: "import_request \<Rightarrow> bool" where
  "import_request_check r \<longleftrightarrow>
    (case im_status r of
       MI_APPROVED_PLAN_ONLY \<Rightarrow> is_approved r \<and> not_rejected r \<and> not_revoked r
     | MI_REJECTED \<Rightarrow> not_approved r \<and> im_rejected_by r \<noteq> None \<and> im_rejected_at r \<noteq> None \<and> not_revoked r
     | MI_REVOKED \<Rightarrow> is_approved r \<and> not_rejected r \<and> im_revoked_by r \<noteq> None \<and> im_revoked_at r \<noteq> None
     | _ \<Rightarrow> not_approved r \<and> not_rejected r \<and> not_revoked r)"

definition hex64_column :: "string \<Rightarrow> bool" where
  "hex64_column h \<longleftrightarrow> portable_hex_check (Some h) [64]"

definition import_plan_check :: "import_plan \<Rightarrow> bool" where
  "import_plan_check p \<longleftrightarrow> ip_mode p = ''PLAN_ONLY_NO_FILE_OPERATION'' \<and> ip_source_retention p \<and> \<not> ip_overwrite_allowed p
    \<and> hex64_column (ip_source_manifest_hash p) \<and> hex64_column (ip_target_mapping_hash p)
    \<and> hex64_column (ip_summary_snapshot_hash p) \<and> hex64_column (ip_config_fingerprint p)
    \<and> hex64_column (ip_plan_hash p)"

definition import_preflight_check :: "import_preflight \<Rightarrow> bool" where
  "import_preflight_check c \<longleftrightarrow> hex64_column (ic_inspection_hash c) \<and> hex64_column (ic_result_hash c)
    \<and> hex64_column (ic_preflight_hash c) \<and> hex64_column (ic_config_fingerprint c)"

text \<open>\<open>uq_media_import_active_download_job\<close>\<close>

definition import_requests_clash :: "import_request \<Rightarrow> import_request \<Rightarrow> bool" where
  "import_requests_clash a b \<longleftrightarrow> im_id a \<noteq> im_id b \<and> active_import a \<and> active_import b
    \<and> im_download_job_id a = im_download_job_id b"

section \<open>The guard of a request\<close>

definition import_transitions :: "import_status \<Rightarrow> import_status list" where
  "import_transitions st =
    (case st of
       MI_PREFLIGHT_REQUIRED \<Rightarrow> [MI_REVIEW_REQUIRED, MI_REJECTED]
     | MI_REVIEW_REQUIRED \<Rightarrow> [MI_PREFLIGHT_REQUIRED, MI_APPROVED_PLAN_ONLY, MI_REJECTED]
     | MI_APPROVED_PLAN_ONLY \<Rightarrow> [MI_REVOKED]
     | _ \<Rightarrow> [])"

definition import_terminal_statuses :: "import_status list" where
  "import_terminal_statuses = [MI_APPROVED_PLAN_ONLY, MI_REJECTED, MI_REVOKED]"

definition import_identity_ok :: "import_request \<Rightarrow> import_request \<Rightarrow> bool" where
  "import_identity_ok old new \<longleftrightarrow> im_download_job_id old = im_download_job_id new
    \<and> im_media_item_id old = im_media_item_id new \<and> im_execution_id old = im_execution_id new
    \<and> im_requested_by old = im_requested_by new \<and> im_requested_at old = im_requested_at new
    \<and> im_created_at old = im_created_at new"

text \<open>A decision column may change only when the transition allows it, and only from null.\<close>

definition decision_field_ok :: "bool \<Rightarrow> 'a option \<Rightarrow> 'a option \<Rightarrow> bool" where
  "decision_field_ok allowed old new \<longleftrightarrow> new = old \<or> (allowed \<and> old = None)"

definition import_decisions_ok :: "import_request \<Rightarrow> import_request \<Rightarrow> bool" where
  "import_decisions_ok old new \<longleftrightarrow>
    (let moved = im_status new \<noteq> im_status old;
         approve = moved \<and> im_status new = MI_APPROVED_PLAN_ONLY;
         reject = moved \<and> im_status new = MI_REJECTED;
         revoke = moved \<and> im_status new = MI_REVOKED
     in decision_field_ok approve (im_approved_by old) (im_approved_by new)
      \<and> decision_field_ok approve (im_approved_at old) (im_approved_at new)
      \<and> decision_field_ok approve (im_decision_acknowledgements old) (im_decision_acknowledgements new)
      \<and> decision_field_ok reject (im_rejected_by old) (im_rejected_by new)
      \<and> decision_field_ok reject (im_rejected_at old) (im_rejected_at new)
      \<and> decision_field_ok reject (im_rejection_reason old) (im_rejection_reason new)
      \<and> decision_field_ok revoke (im_revoked_by old) (im_revoked_by new)
      \<and> decision_field_ok revoke (im_revoked_at old) (im_revoked_at new)
      \<and> decision_field_ok revoke (im_revocation_reason old) (im_revocation_reason new))"

definition import_update_ok :: "import_request \<Rightarrow> import_request \<Rightarrow> bool" where
  "import_update_ok old new \<longleftrightarrow> import_identity_ok old new
    \<and> (if im_status new \<noteq> im_status old then im_status new \<in> set (import_transitions (im_status old))
       else im_status new \<notin> set import_terminal_statuses)
    \<and> import_decisions_ok old new"

section \<open>Writes\<close>

definition save_import_request :: "import_request \<Rightarrow> unit session" where
  "save_import_request r = bindH (getH (\<lambda>s. row_get im_id (im_id r) (db_import_requests s))) (\<lambda>old.
    bindH (guarded import_update_ok old r) (\<lambda>_.
    bindH (getH db_import_requests) (\<lambda>rows.
    bindH (raise_ifH (\<not> import_request_check r \<or> list_ex (import_requests_clash r) rows)
      (IntegrityErr ''media_import_requests'')) (\<lambda>_.
    modifyH (\<lambda>s. s\<lparr> db_import_requests := row_put im_id r (db_import_requests s) \<rparr>)))))"

definition insert_import_request :: "import_request \<Rightarrow> unit session" where
  "insert_import_request r = bindH (getH db_import_requests) (\<lambda>rows.
    bindH (raise_ifH (\<not> import_request_check r \<or> im_id r \<in> set (map im_id rows)
        \<or> list_ex (import_requests_clash r) rows)
      (IntegrityErr ''media_import_requests'')) (\<lambda>_.
    modifyH (\<lambda>s. s\<lparr> db_import_requests := row_add r (db_import_requests s) \<rparr>)))"

definition insert_import_plan :: "import_plan \<Rightarrow> unit session" where
  "insert_import_plan p = bindH (getH db_import_plans) (\<lambda>rows.
    bindH (raise_ifH (\<not> import_plan_check p \<or> ip_id p \<in> set (map ip_id rows)
        \<or> ip_request_id p \<in> set (map ip_request_id rows) \<or> ip_plan_hash p \<in> set (map ip_plan_hash rows))
      (IntegrityErr ''media_import_plans'')) (\<lambda>_.
    modifyH (\<lambda>s. s\<lparr> db_import_plans := row_add p (db_import_plans s) \<rparr>)))"

definition insert_import_preflight :: "import_preflight \<Rightarrow> unit session" where
  "insert_import_preflight c = bindH (getH db_import_preflights) (\<lambda>rows.
    bindH (raise_ifH (\<not> import_preflight_check c \<or> ic_id c \<in> set (map ic_id rows)
        \<or> ic_preflight_hash c \<in> set (map ic_preflight_hash rows))
      (IntegrityErr ''media_import_preflights'')) (\<lambda>_.
    modifyH (\<lambda>s. s\<lparr> db_import_preflights := row_add c (db_import_preflights s) \<rparr>)))"

definition insert_import_event :: "import_event \<Rightarrow> unit session" where
  "insert_import_event e = modifyH (\<lambda>s. s\<lparr> db_import_events := row_add e (db_import_events s) \<rparr>)"

end
