(* ===== verification/MediaImports.thy ===== *)
theory MediaImports
  imports ImportStore ImportSchemas Executions
begin

text \<open>
  The media import service (\<open>services/media_imports.py\<close>). A request proposes how the files of a finished
  download would be placed in the library; a read-only inspection is checked against the proposal and
  recorded; an administrator approves, rejects or revokes the plan. No file is ever touched. Clocks and
  new identifiers are arguments, display texts are given by key.
\<close>

section \<open>Configuration\<close>

definition eligible_job_statuses :: "job_status list" where
  "eligible_job_statuses = [DJ_SEEDING, DJ_COMPLETED, DJ_PAUSED]"

definition final_execution_statuses :: "execution_status list" where
  "final_execution_statuses = [DE_SUBMITTED, DE_ALREADY_PRESENT]"

definition MEDIA_IMPORT_PREFLIGHT_CHECK_CODES :: "string list" where
  "MEDIA_IMPORT_PREFLIGHT_CHECK_CODES =
    [''SUMMARY_BINDING'', ''DOWNLOAD_READY'', ''SOURCE_MANIFEST_BINDING'', ''SOURCE_FILES_SAFE'',
     ''SOURCE_FILES_COMPLETE'', ''TARGET_MAPPING_BINDING'', ''TARGET_COLLISION_FREE'', ''OPERATION_CAPABILITY'',
     ''SOURCE_RETENTION_POLICY'', ''NO_OVERWRITE_POLICY'', ''HNR_DISCLOSURE'']"

primrec status_severity :: "preflight_status \<Rightarrow> nat" where
  "status_severity PF_PASS = 0"
| "status_severity PF_WARNING = 1"
| "status_severity PF_UNKNOWN = 2"
| "status_severity PF_BLOCKED = 3"

definition require_media_import_enabled :: "settings \<Rightarrow> exn + unit" where
  "require_media_import_enabled st =
    raise_if (\<not> st_enable_media_import_control_plane st) (app_err ''MEDIA_IMPORT_DISABLED'' 409)"

definition validated_target_roots :: "lib \<Rightarrow> settings \<Rightarrow> exn + string list" where
  "validated_target_roots L st =
    (let roots = st_media_import_target_root_refs st in
     bindR (raise_if (roots = []) (app_err ''MEDIA_IMPORT_TARGETS_NOT_CONFIGURED'' 409)) (\<lambda>_.
     bindR (raise_if (\<not> list_all validate_internal_root_ref roots) (app_err ''MEDIA_IMPORT_TARGETS_INVALID'' 409)) (\<lambda>_.
     bindR (raise_if (\<not> distinct roots \<or> \<not> distinct (map (casefold L) roots))
       (app_err ''MEDIA_IMPORT_TARGETS_INVALID'' 409)) (\<lambda>_.
     Inr roots))))"

definition media_import_config_fingerprint :: "lib \<Rightarrow> settings \<Rightarrow> exn + string" where
  "media_import_config_fingerprint L st =
    bindR (validated_target_roots L st) (\<lambda>roots.
    Inr (canonical_hash L (JObj
      [(''schema_version'', JInt 1), (''plan_mode'', JStr MEDIA_IMPORT_PLAN_MODE),
       (''allowed_operations'', strs_json (map import_operation_value [MO_COPY, MO_HARDLINK])),
       (''target_root_refs'', strs_json (sort_key (casefold L) roots)),
       (''source_retention'', JBool True), (''overwrite_allowed'', JBool False),
       (''preflight_max_age_seconds'', JInt (st_media_import_preflight_max_age_seconds st))])))"

definition media_import_plan_hash :: "lib \<Rightarrow> import_plan \<Rightarrow> string" where
  "media_import_plan_hash L p = canonical_hash L (JObj
    [(''request_id'', JStr (ip_request_id p)),
     (''download_job_id'', JStr (ip_download_job_id p)),
     (''media_item_id'', JStr (ip_media_item_id p)),
     (''execution_id'', JStr (ip_execution_id p)),
     (''mode'', JStr (ip_mode p)),
     (''proposed_operation'', JStr (import_operation_value (ip_proposed_operation p))),
     (''source_manifest_hash'', JStr (ip_source_manifest_hash p)),
     (''target_mapping_hash'', JStr (ip_target_mapping_hash p)),
     (''summary_snapshot_hash'', JStr (ip_summary_snapshot_hash p)),
     (''config_fingerprint'', JStr (ip_config_fingerprint p)),
     (''source_retention'', JBool (ip_source_retention p)),
     (''overwrite_allowed'', JBool (ip_overwrite_allowed p))])"

text \<open>The time of the check is written as \<open>isoformat\<close> of its instant.\<close>

definition media_import_preflight_hash :: "lib \<Rightarrow> import_preflight \<Rightarrow> string" where
  "media_import_preflight_hash L c = canonical_hash L (JObj
    [(''request_id'', JStr (ic_request_id c)),
     (''plan_id'', JStr (ic_plan_id c)),
     (''overall_status'', JStr (preflight_status_value (ic_overall_status c))),
     (''inspection_hash'', JStr (ic_inspection_hash c)),
     (''result_hash'', JStr (ic_result_hash c)),
     (''config_fingerprint'', JStr (ic_config_fingerprint c)),
     (''checked_by'', JStr (ic_checked_by c)),
     (''checked_at'', JStr (iso_text L (Aware (as_utc (ic_checked_at c)))))])"

definition validate_import_actor :: "string \<Rightarrow> exn + string" where
  "validate_import_actor actor =
    (if strip actor = [] \<or> 120 < py_len (strip actor) then Inl PyValueError else Inr (strip actor))"

definition sanitize_reason :: "lib \<Rightarrow> string option \<Rightarrow> exn + string option" where
  "sanitize_reason L reason =
    (case normalize_media_import_reason L reason of
       Inl _ \<Rightarrow> Inl (app_err ''MEDIA_IMPORT_REASON_INVALID'' 422)
     | Inr r \<Rightarrow> Inr r)"

definition add_import_event ::
    "lib \<Rightarrow> import_request \<Rightarrow> string \<Rightarrow> import_status option \<Rightarrow> string \<Rightarrow> (string \<times> json) list \<Rightarrow> unit session" where
  "add_import_event L r event_type from_status actor details = insert_import_event \<lparr>
     ie_request_id = im_id r, ie_event_type = event_type,
     ie_from_status = map_option import_status_value from_status,
     ie_to_status = import_status_value (im_status r), ie_actor = actor,
     ie_sanitized_details = sanitize_details L (JObj details) \<rparr>"

section \<open>What a request is bound to\<close>

record bound_entities =
  bo_job :: job
  bo_media :: media_row
  bo_execution :: execution
  bo_approval :: approval

definition import_binding_invalid :: exn where
  "import_binding_invalid = app_err ''MEDIA_IMPORT_BINDING_INVALID'' 409"

definition entities_agree :: "bound_entities \<Rightarrow> bool" where
  "entities_agree b \<longleftrightarrow>
    (let j = bo_job b; m = bo_media b; e = bo_execution b; a = bo_approval b in
     dj_media_item_id j = me_id m \<and> dj_execution_id j = de_id e \<and> dj_approval_id j = de_approval_id e
     \<and> dj_approval_id j = ar_id a \<and> ar_media_item_id a = me_id m)"

definition download_agrees :: "bound_entities \<Rightarrow> bool" where
  "download_agrees b \<longleftrightarrow>
    (let j = bo_job b; e = bo_execution b in
     dj_info_hash_v1 j = de_actual_info_hash_v1 e \<and> dj_info_hash_v2 j = de_actual_info_hash_v2 e
     \<and> Some (dj_size_bytes j) = de_actual_size_bytes e \<and> Some (dj_file_count j) = de_actual_file_count e)"

definition load_bound_entities :: "lib \<Rightarrow> string \<Rightarrow> bound_entities session" where
  "load_bound_entities L download_job_id =
    bindH (getH (\<lambda>s. row_get dj_id download_job_id (db_jobs s))) (\<lambda>x.
    bindH (liftH (option_or (app_err ''DOWNLOAD_JOB_NOT_FOUND'' 404) x)) (\<lambda>j.
    bindH (getH (\<lambda>s. row_get me_id (dj_media_item_id j) (db_media s))) (\<lambda>mo.
    bindH (getH (\<lambda>s. row_get de_id (dj_execution_id j) (db_executions s))) (\<lambda>eo.
    bindH (getH (approval_by_id (dj_approval_id j))) (\<lambda>ao.
    bindH (liftH (option_or import_binding_invalid mo)) (\<lambda>m.
    bindH (liftH (option_or import_binding_invalid eo)) (\<lambda>e.
    bindH (liftH (option_or import_binding_invalid ao)) (\<lambda>a.
    let b = \<lparr> bo_job = j, bo_media = m, bo_execution = e, bo_approval = a \<rparr> in
    bindH (verifiedH L e) (\<lambda>_.
    bindH (raise_ifH (\<not> entities_agree b) import_binding_invalid) (\<lambda>_.
    bindH (raise_ifH (\<not> download_agrees b) import_binding_invalid) (\<lambda>_.
    returnH b)))))))))))"

text \<open>\<open>progress < 1\<close>, which a NaN does not satisfy.\<close>

definition float_below :: "lib \<Rightarrow> rat \<Rightarrow> string \<Rightarrow> bool" where
  "float_below L q r \<longleftrightarrow> r = ''-Infinity'' \<or> (finite_text r \<and> float_val L r < q)"

definition require_download_ready :: "lib \<Rightarrow> bound_entities \<Rightarrow> exn + unit" where
  "require_download_ready L b =
    (let j = bo_job b; e = bo_execution b in
     bindR (raise_if (dj_status j \<notin> set eligible_job_statuses \<or> float_below L 1 (dj_progress j))
       (app_err ''MEDIA_IMPORT_DOWNLOAD_NOT_READY'' 409)) (\<lambda>_.
     raise_if (de_status e \<notin> set final_execution_statuses \<or> requires_reconciliation e
         \<or> de_verified_at e = None \<or> ar_status (bo_approval b) \<noteq> AP_CONSUMED)
       (app_err ''MEDIA_IMPORT_EXECUTION_NOT_FINAL'' 409)))"

definition validate_mapping_sources :: "source_manifest \<Rightarrow> target_mapping \<Rightarrow> exn + unit" where
  "validate_mapping_sources sm tm =
    raise_if (\<not> list_all (\<lambda>e. te_source_relative_path e \<in> set (map mf_relative_path (sm_files sm))) (tm_files tm))
      (app_err ''MEDIA_IMPORT_TARGET_PROPOSAL_INVALID'' 409)"

definition validate_proposal_bindings :: "job \<Rightarrow> import_create \<Rightarrow> exn + unit" where
  "validate_proposal_bindings j c =
    (let fs = sm_files (mc_source_manifest c) in
     bindR (raise_if (int (length fs) \<noteq> dj_file_count j \<or> sum_list (map mf_size_bytes fs) \<noteq> dj_size_bytes j)
       (app_err ''MEDIA_IMPORT_SOURCE_PROPOSAL_MISMATCH'' 409)) (\<lambda>_.
     validate_mapping_sources (mc_source_manifest c) (mc_target_mapping c)))"

definition job_summary_snapshot :: "lib \<Rightarrow> bound_entities \<Rightarrow> exn + job_summary" where
  "job_summary_snapshot L b =
    (let j = bo_job b; m = bo_media b; e = bo_execution b in
     case (de_actual_size_bytes e, de_actual_file_count e, de_verified_at e) of
       (Some sz, Some fc, Some v) \<Rightarrow>
         let s = \<lparr> js_download_job_id = dj_id j, js_media_item_id = me_id m, js_execution_id = de_id e,
           js_approval_id = dj_approval_id j, js_job_status = dj_status j, js_progress = dj_progress j,
           js_info_hash_v1 = dj_info_hash_v1 j, js_info_hash_v2 = dj_info_hash_v2 j,
           js_size_bytes = dj_size_bytes j, js_file_count = dj_file_count j,
           js_completed_at = map_option (\<lambda>t. Aware (as_utc t)) (dj_completed_at j),
           js_hnr_status = dj_hnr_status j, js_media_type = me_media_type m, js_tmdb_id = me_tmdb_id m,
           js_media_title = me_title m, js_media_year = me_year m, js_execution_status = de_status e,
           js_actual_info_hash_v1 = de_actual_info_hash_v1 e, js_actual_info_hash_v2 = de_actual_info_hash_v2 e,
           js_actual_size_bytes = sz, js_actual_file_count = fc, js_verified_at = Aware (as_utc v) \<rparr> in
         bindR (raise_if (\<not> job_summary_ok L s) import_binding_invalid) (\<lambda>_. Inr s)
     | _ \<Rightarrow> Inl import_binding_invalid)"

section \<open>Proposing a plan\<close>

definition new_import_request :: "string \<Rightarrow> bound_entities \<Rightarrow> string \<Rightarrow> int \<Rightarrow> import_request" where
  "new_import_request nid b actor now = \<lparr>
     im_id = nid, im_download_job_id = dj_id (bo_job b), im_media_item_id = me_id (bo_media b),
     im_execution_id = de_id (bo_execution b), im_status = MI_PREFLIGHT_REQUIRED,
     im_requested_by = actor, im_requested_at = Aware now, im_approved_by = None, im_approved_at = None,
     im_rejected_by = None, im_rejected_at = None, im_rejection_reason = None, im_revoked_by = None,
     im_revoked_at = None, im_revocation_reason = None, im_decision_acknowledgements = None,
     im_created_at = Aware now, im_updated_at = Aware now \<rparr>"

definition new_import_plan ::
    "lib \<Rightarrow> string \<Rightarrow> import_request \<Rightarrow> import_create \<Rightarrow> job_summary \<Rightarrow> string \<Rightarrow> string \<Rightarrow> int \<Rightarrow> import_plan" where
  "new_import_plan L nid r c summary fingerprint actor now =
    (let sm = source_manifest_json (mc_source_manifest c); tm = target_mapping_json (mc_target_mapping c);
         js = job_summary_json L summary;
         p = \<lparr> ip_id = nid, ip_request_id = im_id r, ip_download_job_id = im_download_job_id r,
           ip_media_item_id = im_media_item_id r, ip_execution_id = im_execution_id r,
           ip_mode = MEDIA_IMPORT_PLAN_MODE, ip_proposed_operation = mc_proposed_operation c,
           ip_source_manifest = sm, ip_source_manifest_hash = canonical_hash L sm,
           ip_target_mapping = tm, ip_target_mapping_hash = canonical_hash L tm,
           ip_job_summary_snapshot = js, ip_summary_snapshot_hash = canonical_hash L js,
           ip_config_fingerprint = fingerprint, ip_plan_hash = [], ip_source_retention = True,
           ip_overwrite_allowed = False, ip_created_by = actor, ip_created_at = Aware now \<rparr>
     in p\<lparr> ip_plan_hash := media_import_plan_hash L p \<rparr>)"

definition active_import_for :: "string \<Rightarrow> db \<Rightarrow> import_request option" where
  "active_import_for job_id s =
    find (\<lambda>r. im_download_job_id r = job_id \<and> active_import r) (db_import_requests s)"

text \<open>The checks of a proposal against the download it is for.\<close>

definition require_proposal :: "lib \<Rightarrow> import_create \<Rightarrow> bound_entities \<Rightarrow> exn + unit" where
  "require_proposal L c b =
    bindR (require_download_ready L b) (\<lambda>_.
    bindR (raise_if (sm_source_root_ref (mc_source_manifest c) \<noteq> dj_save_path_ref (bo_job b))
      (app_err ''MEDIA_IMPORT_SOURCE_REF_MISMATCH'' 409)) (\<lambda>_.
    bindR (raise_if (tm_target_root_ref (mc_target_mapping c) = dj_save_path_ref (bo_job b))
      (app_err ''MEDIA_IMPORT_TARGET_INVALID'' 409)) (\<lambda>_.
    validate_proposal_bindings (bo_job b) c)))"

definition plan_event_details :: "import_plan \<Rightarrow> (string \<times> json) list" where
  "plan_event_details p =
    [(''plan_hash'', JStr (ip_plan_hash p)),
     (''source_manifest_hash'', JStr (ip_source_manifest_hash p)),
     (''target_mapping_hash'', JStr (ip_target_mapping_hash p)),
     (''proposed_operation'', JStr (import_operation_value (ip_proposed_operation p))),
     (''trusted_inspection_required'', JBool True),
     (''mode'', JStr MEDIA_IMPORT_PLAN_MODE)]"

definition create_media_import_request ::
    "lib \<Rightarrow> import_create \<Rightarrow> settings \<Rightarrow> string \<Rightarrow> int \<Rightarrow> string \<Rightarrow> string
      \<Rightarrow> (import_request \<times> import_plan) session" where
  "create_media_import_request L c st raw_actor now nid plan_nid =
    bindH (liftH (require_media_import_enabled st)) (\<lambda>_.
    bindH (liftH (validate_import_actor raw_actor)) (\<lambda>actor.
    bindH (liftH (validated_target_roots L st)) (\<lambda>roots.
    bindH (raise_ifH (tm_target_root_ref (mc_target_mapping c) \<notin> set roots)
      (app_err ''MEDIA_IMPORT_TARGET_NOT_ALLOWED'' 409)) (\<lambda>_.
    bindH (load_bound_entities L (mc_download_job_id c)) (\<lambda>b.
    bindH (liftH (require_proposal L c b)) (\<lambda>_.
    bindH (getH (active_import_for (dj_id (bo_job b)))) (\<lambda>existing.
    bindH (raise_ifH (existing \<noteq> None) (app_err ''MEDIA_IMPORT_REQUEST_CONFLICT'' 409)) (\<lambda>_.
    bindH (liftH (job_summary_snapshot L b)) (\<lambda>summary.
    let r = new_import_request nid b actor now in
    bindH (insert_import_request r) (\<lambda>_.
    bindH (liftH (media_import_config_fingerprint L st)) (\<lambda>fingerprint.
    let p = new_import_plan L plan_nid r c summary fingerprint actor now in
    bindH (insert_import_plan p) (\<lambda>_.
    bindH (add_import_event L r ''MEDIA_IMPORT_PLAN_PROPOSAL_CREATED'' None actor (plan_event_details p)) (\<lambda>_.
    returnH (r, p))))))))))))))"

section \<open>Verification of what is stored\<close>

definition plan_content_invalid :: exn where
  "plan_content_invalid = app_err ''MEDIA_IMPORT_PLAN_CONTENT_INVALID'' 409"

record plan_content =
  pcn_manifest :: source_manifest
  pcn_mapping :: target_mapping
  pcn_summary :: job_summary

definition plan_contents :: "lib \<Rightarrow> import_plan \<Rightarrow> plan_content option" where
  "plan_contents L p = do {
     sm \<leftarrow> parse_source_manifest L (ip_source_manifest p);
     tm \<leftarrow> parse_target_mapping L (ip_target_mapping p);
     js \<leftarrow> parse_job_summary L (ip_job_summary_snapshot p);
     Some \<lparr> pcn_manifest = sm, pcn_mapping = tm, pcn_summary = js \<rparr> }"

definition plan_sealed :: "lib \<Rightarrow> import_plan \<Rightarrow> plan_content \<Rightarrow> bool" where
  "plan_sealed L p k \<longleftrightarrow>
    canonical_hash L (source_manifest_json (pcn_manifest k)) = ip_source_manifest_hash p
    \<and> canonical_hash L (target_mapping_json (pcn_mapping k)) = ip_target_mapping_hash p
    \<and> canonical_hash L (job_summary_json L (pcn_summary k)) = ip_summary_snapshot_hash p
    \<and> media_import_plan_hash L p = ip_plan_hash p"

definition plan_bound :: "import_plan \<Rightarrow> import_request \<Rightarrow> job_summary \<Rightarrow> bool" where
  "plan_bound p r js \<longleftrightarrow> ip_request_id p = im_id r \<and> ip_download_job_id p = im_download_job_id r
    \<and> ip_media_item_id p = im_media_item_id r \<and> ip_execution_id p = im_execution_id r
    \<and> js_download_job_id js = im_download_job_id r \<and> js_media_item_id js = im_media_item_id r
    \<and> js_execution_id js = im_execution_id r"

definition verify_media_import_plan :: "lib \<Rightarrow> import_plan \<Rightarrow> import_request \<Rightarrow> exn + import_plan" where
  "verify_media_import_plan L p r =
    bindR (option_or plan_content_invalid (plan_contents L p)) (\<lambda>k.
    bindR (raise_if (ip_mode p \<noteq> MEDIA_IMPORT_PLAN_MODE \<or> \<not> ip_source_retention p \<or> ip_overwrite_allowed p
        \<or> sm_source_root_ref (pcn_manifest k) = tm_target_root_ref (pcn_mapping k)) plan_content_invalid) (\<lambda>_.
    bindR (raise_if (\<not> plan_sealed L p k) (app_err ''MEDIA_IMPORT_PLAN_TAMPERED'' 409)) (\<lambda>_.
    bindR (raise_if (\<not> plan_bound p r (pcn_summary k)) (app_err ''MEDIA_IMPORT_PLAN_BINDING_INVALID'' 409)) (\<lambda>_.
    bindR (validate_mapping_sources (pcn_manifest k) (pcn_mapping k)) (\<lambda>_.
    Inr p)))))"

text \<open>The dictionaries of a comprehension: the last value of a key stands.\<close>

definition dict_get :: "('k \<times> 'v) list \<Rightarrow> 'k \<Rightarrow> 'v option" where
  "dict_get kvs k = map_of (rev kvs) k"

definition same_dict :: "('k \<times> 'v) list \<Rightarrow> ('k \<times> 'v) list \<Rightarrow> bool" where
  "same_dict xs ys \<longleftrightarrow> list_all (\<lambda>k. dict_get xs k = dict_get ys k) (map fst xs @ map fst ys)"

definition proposed_sources :: "source_manifest \<Rightarrow> (string \<times> int) list" where
  "proposed_sources sm = map (\<lambda>f. (mf_relative_path f, mf_size_bytes f)) (sm_files sm)"

definition inspected_sources :: "inspection \<Rightarrow> (string \<times> int) list" where
  "inspected_sources i = map (\<lambda>f. (is_relative_path f, is_size_bytes f)) (in_source_files i)"

definition proposed_targets :: "target_mapping \<Rightarrow> string list" where
  "proposed_targets tm = map te_target_relative_path (tm_files tm)"

definition inspected_targets :: "inspection \<Rightarrow> string list" where
  "inspected_targets i = map it_relative_path (in_target_files i)"

definition source_binding :: "source_manifest \<Rightarrow> inspection \<Rightarrow> bool" where
  "source_binding sm i \<longleftrightarrow> in_source_root_ref i = sm_source_root_ref sm
    \<and> same_dict (inspected_sources i) (proposed_sources sm)"

definition target_binding :: "target_mapping \<Rightarrow> inspection \<Rightarrow> bool" where
  "target_binding tm i \<longleftrightarrow> in_target_root_ref i = tm_target_root_ref tm
    \<and> set (inspected_targets i) = set (proposed_targets tm)"

definition verify_inspection_proposal_binding :: "lib \<Rightarrow> import_plan \<Rightarrow> inspection \<Rightarrow> exn + unit" where
  "verify_inspection_proposal_binding L p i =
    bindR (option_or PyValueError (plan_contents L p)) (\<lambda>k.
    raise_if (in_download_job_id i \<noteq> ip_download_job_id p
        \<or> in_info_hash_v1 i \<noteq> js_info_hash_v1 (pcn_summary k) \<or> in_info_hash_v2 i \<noteq> js_info_hash_v2 (pcn_summary k)
        \<or> \<not> source_binding (pcn_manifest k) i \<or> \<not> target_binding (pcn_mapping k) i)
      (app_err ''MEDIA_IMPORT_INSPECTION_BINDING_INVALID'' 409))"

text \<open>\<open>max\<close> by severity takes the first of the most severe checks.\<close>

fun most_severe :: "preflight_status \<Rightarrow> preflight_status list \<Rightarrow> preflight_status" where
  "most_severe best [] = best"
| "most_severe best (x # xs) = most_severe (if status_severity best < status_severity x then x else best) xs"

definition overall_status :: "import_check list \<Rightarrow> exn + preflight_status" where
  "overall_status cs =
    (case map ick_status cs of [] \<Rightarrow> Inl PyValueError | x # xs \<Rightarrow> Inr (most_severe x xs))"

definition preflight_bound :: "import_preflight \<Rightarrow> import_plan \<Rightarrow> import_result \<Rightarrow> bool" where
  "preflight_bound c p res \<longleftrightarrow> ic_request_id c = ip_request_id p \<and> ic_plan_id c = ip_id p
    \<and> ic_config_fingerprint c = ip_config_fingerprint p
    \<and> irs_config_fingerprint res = ic_config_fingerprint c
    \<and> as_utc (irs_checked_at res) = as_utc (ic_checked_at c)
    \<and> irs_overall_status res = ic_overall_status c"

definition verify_media_import_preflight :: "lib \<Rightarrow> import_preflight \<Rightarrow> import_plan \<Rightarrow> exn + import_preflight" where
  "verify_media_import_preflight L c p =
    bindR (option_or (app_err ''MEDIA_IMPORT_PREFLIGHT_INVALID'' 409) (parse_inspection L (ic_inspection_snapshot c))) (\<lambda>i.
    bindR (option_or (app_err ''MEDIA_IMPORT_PREFLIGHT_INVALID'' 409) (parse_import_result L (ic_result c))) (\<lambda>res.
    bindR (raise_if (canonical_hash L (inspection_json L i) \<noteq> ic_inspection_hash c
        \<or> canonical_hash L (import_result_json L res) \<noteq> ic_result_hash c
        \<or> media_import_preflight_hash L c \<noteq> ic_preflight_hash c)
      (app_err ''MEDIA_IMPORT_PREFLIGHT_TAMPERED'' 409)) (\<lambda>_.
    bindR (raise_if (\<not> preflight_bound c p res) (app_err ''MEDIA_IMPORT_PREFLIGHT_BINDING_INVALID'' 409)) (\<lambda>_.
    bindR (raise_if (\<not> distinct (map ick_code (irs_checks res))
        \<or> set (map ick_code (irs_checks res)) \<noteq> set MEDIA_IMPORT_PREFLIGHT_CHECK_CODES)
      (app_err ''MEDIA_IMPORT_PREFLIGHT_CHECKS_INVALID'' 409)) (\<lambda>_.
    bindR (overall_status (irs_checks res)) (\<lambda>o'.
    bindR (raise_if (o' \<noteq> irs_overall_status res) (app_err ''MEDIA_IMPORT_PREFLIGHT_SUMMARY_INVALID'' 409)) (\<lambda>_.
    bindR (verify_inspection_proposal_binding L p i) (\<lambda>_.
    Inr c))))))))"

section \<open>The checks of an inspection\<close>

definition checked_as :: "lib \<Rightarrow> string \<Rightarrow> preflight_status \<Rightarrow> import_check" where
  "checked_as L code st = \<lparr> ick_code = code, ick_status = st,
     ick_message = text_of L (code @ '' '' @ preflight_status_value st) \<rparr>"

definition pass_if :: "lib \<Rightarrow> string \<Rightarrow> bool \<Rightarrow> import_check" where
  "pass_if L code ok = checked_as L code (if ok then PF_PASS else PF_BLOCKED)"

definition summary_matches :: "lib \<Rightarrow> import_plan \<Rightarrow> inspection \<Rightarrow> job_summary \<Rightarrow> approval \<Rightarrow> bool" where
  "summary_matches L p i js a \<longleftrightarrow>
    canonical_hash L (job_summary_json L js) = ip_summary_snapshot_hash p
    \<and> in_download_job_id i = ip_download_job_id p
    \<and> in_info_hash_v1 i = js_info_hash_v1 js \<and> in_info_hash_v2 i = js_info_hash_v2 js
    \<and> ar_status a = AP_CONSUMED"

definition download_ready :: "lib \<Rightarrow> job_summary \<Rightarrow> bool" where
  "download_ready L js \<longleftrightarrow> float_at_least L 1 (js_progress js)
    \<and> js_job_status js \<in> set eligible_job_statuses \<and> js_execution_status js \<in> set final_execution_statuses"

definition safe_source :: "inspected_source \<Rightarrow> bool" where
  "safe_source f \<longleftrightarrow> is_exists f \<and> is_regular_file f \<and> \<not> is_symlink f"

text \<open>The bytes a copy needs; a mapped path without a size would be a \<open>KeyError\<close>.\<close>

definition required_bytes :: "source_manifest \<Rightarrow> target_mapping \<Rightarrow> exn + int" where
  "required_bytes sm tm =
    bindR (mapR (\<lambda>e. option_or PyKeyError (dict_get (proposed_sources sm) (te_source_relative_path e))) (tm_files tm)) (\<lambda>ns.
    Inr (sum_list ns))"

definition operation_status :: "import_operation \<Rightarrow> inspection \<Rightarrow> int \<Rightarrow> preflight_status" where
  "operation_status oper i needed =
    (case oper of
       MO_HARDLINK \<Rightarrow> (case in_same_filesystem i of
           Some same \<Rightarrow> if same then PF_PASS else PF_BLOCKED
         | None \<Rightarrow> PF_UNKNOWN)
     | MO_COPY \<Rightarrow> (case in_available_bytes i of
           None \<Rightarrow> PF_UNKNOWN
         | Some n \<Rightarrow> if n < needed then PF_BLOCKED else PF_PASS))"

definition inspection_checks ::
    "lib \<Rightarrow> import_plan \<Rightarrow> source_manifest \<Rightarrow> target_mapping \<Rightarrow> inspection \<Rightarrow> job_summary \<Rightarrow> approval
      \<Rightarrow> int \<Rightarrow> import_check list" where
  "inspection_checks L p sm tm i js a needed =
    (let src = source_binding sm i; tgt = target_binding tm i in
     [pass_if L ''SUMMARY_BINDING'' (summary_matches L p i js a),
      pass_if L ''DOWNLOAD_READY'' (download_ready L js),
      pass_if L ''SOURCE_MANIFEST_BINDING'' src,
      pass_if L ''SOURCE_FILES_SAFE'' (src \<and> list_all safe_source (in_source_files i)),
      pass_if L ''SOURCE_FILES_COMPLETE'' (src \<and> list_all is_complete (in_source_files i)),
      pass_if L ''TARGET_MAPPING_BINDING'' tgt,
      pass_if L ''TARGET_COLLISION_FREE'' (tgt \<and> list_all (\<lambda>f. \<not> it_exists f) (in_target_files i)),
      checked_as L ''OPERATION_CAPABILITY'' (operation_status (ip_proposed_operation p) i needed),
      checked_as L ''SOURCE_RETENTION_POLICY'' PF_PASS,
      checked_as L ''NO_OVERWRITE_POLICY'' PF_PASS,
      checked_as L ''HNR_DISCLOSURE'' (if js_hnr_status js = HNR_SATISFIED then PF_PASS else PF_WARNING)])"

definition evaluate_inspection ::
    "lib \<Rightarrow> import_plan \<Rightarrow> inspection \<Rightarrow> job_summary \<Rightarrow> approval \<Rightarrow> int \<Rightarrow> exn + import_result" where
  "evaluate_inspection L p i js a now =
    bindR (option_or PyValueError (parse_source_manifest L (ip_source_manifest p))) (\<lambda>sm.
    bindR (option_or PyValueError (parse_target_mapping L (ip_target_mapping p))) (\<lambda>tm.
    bindR (required_bytes sm tm) (\<lambda>needed.
    let cs = inspection_checks L p sm tm i js a needed in
    bindR (overall_status cs) (\<lambda>st.
    bindR (raise_if (\<not> hex64 (ip_config_fingerprint p)) PyValueError) (\<lambda>_.
    Inr \<lparr> irs_overall_status = st, irs_checked_at = Aware now,
      irs_config_fingerprint = ip_config_fingerprint p, irs_checks = cs \<rparr>)))))"

section \<open>Requests and their rows\<close>

definition get_media_import_request :: "string \<Rightarrow> import_request session" where
  "get_media_import_request request_id =
    bindH (getH (\<lambda>s. row_get im_id request_id (db_import_requests s))) (\<lambda>x.
    liftH (option_or (app_err ''MEDIA_IMPORT_REQUEST_NOT_FOUND'' 404) x))"

definition plan_of_request :: "string \<Rightarrow> db \<Rightarrow> import_plan option" where
  "plan_of_request request_id s = find (\<lambda>p. ip_request_id p = request_id) (db_import_plans s)"

definition get_import_plan :: "string \<Rightarrow> import_plan session" where
  "get_import_plan request_id =
    bindH (getH (plan_of_request request_id)) (\<lambda>x.
    liftH (option_or (app_err ''MEDIA_IMPORT_PLAN_NOT_FOUND'' 409) x))"

text \<open>The newest preflight: by its time of creation, then by its identifier.\<close>

definition newer_preflight :: "import_preflight \<Rightarrow> import_preflight \<Rightarrow> bool" where
  "newer_preflight a b \<longleftrightarrow> as_utc (ic_created_at b) < as_utc (ic_created_at a)
    \<or> as_utc (ic_created_at a) = as_utc (ic_created_at b) \<and> ic_id b < ic_id a"

fun newest_preflight :: "import_preflight list \<Rightarrow> import_preflight option" where
  "newest_preflight [] = None"
| "newest_preflight (c # cs) =
    (case newest_preflight cs of None \<Rightarrow> Some c | Some d \<Rightarrow> if newer_preflight c d then Some c else Some d)"

definition latest_preflight :: "string \<Rightarrow> db \<Rightarrow> import_preflight option" where
  "latest_preflight request_id s =
    newest_preflight (filter (\<lambda>c. ic_request_id c = request_id) (db_import_preflights s))"

definition get_import_preflight :: "string \<Rightarrow> import_preflight session" where
  "get_import_preflight request_id =
    bindH (getH (latest_preflight request_id)) (\<lambda>x.
    liftH (option_or (app_err ''MEDIA_IMPORT_PREFLIGHT_NOT_FOUND'' 409) x))"

section \<open>Recording an inspection\<close>

definition import_config_changed :: exn where
  "import_config_changed = app_err ''MEDIA_IMPORT_CONFIG_CHANGED'' 409"

definition passable :: "preflight_status \<Rightarrow> bool" where
  "passable st \<longleftrightarrow> st \<in> {PF_PASS, PF_WARNING}"

definition new_import_preflight ::
    "lib \<Rightarrow> string \<Rightarrow> import_plan \<Rightarrow> inspection \<Rightarrow> import_result \<Rightarrow> string \<Rightarrow> string \<Rightarrow> int \<Rightarrow> import_preflight" where
  "new_import_preflight L nid p i res fingerprint actor now =
    (let ij = inspection_json L i; rj = import_result_json L res;
         c = \<lparr> ic_id = nid, ic_request_id = ip_request_id p, ic_plan_id = ip_id p,
           ic_overall_status = irs_overall_status res, ic_inspection_snapshot = ij,
           ic_inspection_hash = canonical_hash L ij, ic_result = rj, ic_result_hash = canonical_hash L rj,
           ic_preflight_hash = [], ic_config_fingerprint = fingerprint, ic_checked_by = actor,
           ic_checked_at = Aware now, ic_created_at = Aware now \<rparr>
     in c\<lparr> ic_preflight_hash := media_import_preflight_hash L c \<rparr>)"

definition preflight_event_details :: "import_plan \<Rightarrow> import_preflight \<Rightarrow> (string \<times> json) list" where
  "preflight_event_details p c =
    [(''plan_hash'', JStr (ip_plan_hash p)), (''inspection_hash'', JStr (ic_inspection_hash c)),
     (''preflight_hash'', JStr (ic_preflight_hash c)),
     (''overall_status'', JStr (preflight_status_value (ic_overall_status c))), (''read_only'', JBool True)]"

definition reviewed :: "import_request \<Rightarrow> import_preflight \<Rightarrow> int \<Rightarrow> import_request" where
  "reviewed r c now = r\<lparr>
     im_status := (if passable (ic_overall_status c) then MI_REVIEW_REQUIRED else MI_PREFLIGHT_REQUIRED),
     im_updated_at := Aware now \<rparr>"

definition store_import_preflight ::
    "lib \<Rightarrow> import_request \<Rightarrow> import_plan \<Rightarrow> import_preflight \<Rightarrow> string \<Rightarrow> int \<Rightarrow> import_preflight session" where
  "store_import_preflight L r p c actor now =
    bindH (insert_import_preflight c) (\<lambda>_.
    bindH (save_import_request (reviewed r c now)) (\<lambda>_.
    bindH (add_import_event L (reviewed r c now) ''MEDIA_IMPORT_TRUSTED_PREFLIGHT_RECORDED'' (Some (im_status r)) actor
      (preflight_event_details p c)) (\<lambda>_.
    returnH c)))"

definition record_media_import_preflight ::
    "lib \<Rightarrow> string \<Rightarrow> inspection \<Rightarrow> settings \<Rightarrow> string \<Rightarrow> int \<Rightarrow> string \<Rightarrow> import_preflight session" where
  "record_media_import_preflight L request_id i st raw_actor now nid =
    bindH (liftH (require_media_import_enabled st)) (\<lambda>_.
    bindH (liftH (validate_import_actor raw_actor)) (\<lambda>actor.
    bindH (get_media_import_request request_id) (\<lambda>r.
    bindH (raise_ifH (im_status r \<notin> {MI_PREFLIGHT_REQUIRED, MI_REVIEW_REQUIRED})
      (app_err ''MEDIA_IMPORT_PREFLIGHT_STATE_INVALID'' 409)) (\<lambda>_.
    bindH (get_import_plan (im_id r)) (\<lambda>p.
    bindH (liftH (verify_media_import_plan L p r)) (\<lambda>_.
    bindH (liftH (media_import_config_fingerprint L st)) (\<lambda>fingerprint.
    bindH (raise_ifH (ip_config_fingerprint p \<noteq> fingerprint) import_config_changed) (\<lambda>_.
    bindH (raise_ifH (now < as_utc (in_inspected_at i)
        \<or> seconds (st_media_import_preflight_max_age_seconds st) < now - as_utc (in_inspected_at i))
      (app_err ''MEDIA_IMPORT_INSPECTION_STALE'' 409)) (\<lambda>_.
    bindH (load_bound_entities L (im_download_job_id r)) (\<lambda>b.
    bindH (liftH (job_summary_snapshot L b)) (\<lambda>js.
    bindH (liftH (verify_inspection_proposal_binding L p i)) (\<lambda>_.
    bindH (liftH (evaluate_inspection L p i js (bo_approval b) now)) (\<lambda>res.
    store_import_preflight L r p (new_import_preflight L nid p i res fingerprint actor now) actor now)))))))))))))"

section \<open>Decisions\<close>

text \<open>A decision writes the request and its event, which records the status it leaves.\<close>

definition write_decision ::
    "lib \<Rightarrow> import_request \<Rightarrow> import_request \<Rightarrow> string \<Rightarrow> string \<Rightarrow> (string \<times> json) list \<Rightarrow> import_request session" where
  "write_decision L r r' event_type actor details =
    bindH (save_import_request r') (\<lambda>_.
    bindH (add_import_event L r' event_type (Some (im_status r)) actor details) (\<lambda>_.
    returnH r'))"

definition acknowledged :: "import_approve \<Rightarrow> bool" where
  "acknowledged d \<longleftrightarrow> ma_acknowledges_plan_only d \<and> ma_acknowledges_source_retention d
    \<and> ma_acknowledges_no_overwrite d"

text \<open>The preflight is current: the inspection is not after the check, the check not after now, the inspection not too old.\<close>

definition preflight_current :: "settings \<Rightarrow> inspection \<Rightarrow> import_preflight \<Rightarrow> int \<Rightarrow> bool" where
  "preflight_current st i c now \<longleftrightarrow>
    as_utc (in_inspected_at i) \<le> as_utc (ic_checked_at c) \<and> as_utc (ic_checked_at c) \<le> now
    \<and> now - as_utc (in_inspected_at i) \<le> seconds (st_media_import_preflight_max_age_seconds st)"

text \<open>What the stored plan and preflight must be for a decision to approve.\<close>

definition require_approvable ::
    "lib \<Rightarrow> import_request \<Rightarrow> import_plan \<Rightarrow> import_preflight \<Rightarrow> import_approve \<Rightarrow> settings \<Rightarrow> int \<Rightarrow> exn + unit" where
  "require_approvable L r p c d st now =
    bindR (verify_media_import_plan L p r) (\<lambda>_.
    bindR (verify_media_import_preflight L c p) (\<lambda>_.
    bindR (media_import_config_fingerprint L st) (\<lambda>fingerprint.
    bindR (raise_if (ip_config_fingerprint p \<noteq> fingerprint \<or> ic_config_fingerprint c \<noteq> fingerprint)
      import_config_changed) (\<lambda>_.
    bindR (option_or PyValueError (parse_inspection L (ic_inspection_snapshot c))) (\<lambda>i.
    bindR (raise_if (\<not> preflight_current st i c now) (app_err ''MEDIA_IMPORT_PREFLIGHT_STALE'' 409)) (\<lambda>_.
    bindR (raise_if (\<not> passable (ic_overall_status c)) (app_err ''MEDIA_IMPORT_PREFLIGHT_NOT_PASSABLE'' 409)) (\<lambda>_.
    raise_if (\<not> acknowledged d) (app_err ''MEDIA_IMPORT_CONFIRMATIONS_REQUIRED'' 409))))))))"

definition approved_import :: "import_request \<Rightarrow> import_approve \<Rightarrow> string \<Rightarrow> int \<Rightarrow> import_request" where
  "approved_import r d actor now = r\<lparr>
     im_status := MI_APPROVED_PLAN_ONLY, im_approved_by := Some actor, im_approved_at := Some (Aware now),
     im_decision_acknowledgements := Some (acknowledgements_json (ma_acknowledges_hnr d)),
     im_updated_at := Aware now \<rparr>"

definition approval_event_details :: "import_plan \<Rightarrow> import_preflight \<Rightarrow> import_approve \<Rightarrow> (string \<times> json) list" where
  "approval_event_details p c d =
    [(''plan_hash'', JStr (ip_plan_hash p)), (''preflight_hash'', JStr (ic_preflight_hash c)),
     (''acknowledges_plan_only'', JBool True), (''acknowledges_source_retention'', JBool True),
     (''acknowledges_no_overwrite'', JBool True), (''acknowledges_hnr'', JBool (ma_acknowledges_hnr d)),
     (''execution_authorized'', JBool False)]"

definition approve_media_import_request ::
    "lib \<Rightarrow> string \<Rightarrow> import_approve \<Rightarrow> settings \<Rightarrow> string \<Rightarrow> int \<Rightarrow> import_request session" where
  "approve_media_import_request L request_id d st raw_actor now =
    bindH (liftH (require_media_import_enabled st)) (\<lambda>_.
    bindH (liftH (validate_import_actor raw_actor)) (\<lambda>actor.
    bindH (get_media_import_request request_id) (\<lambda>r.
    bindH (raise_ifH (im_status r \<noteq> MI_REVIEW_REQUIRED) (app_err ''MEDIA_IMPORT_APPROVAL_STATE_INVALID'' 409)) (\<lambda>_.
    bindH (get_import_plan (im_id r)) (\<lambda>p.
    bindH (get_import_preflight (im_id r)) (\<lambda>c.
    bindH (liftH (require_approvable L r p c d st now)) (\<lambda>_.
    bindH (load_bound_entities L (im_download_job_id r)) (\<lambda>b.
    bindH (liftH (require_download_ready L b)) (\<lambda>_.
    bindH (liftH (job_summary_snapshot L b)) (\<lambda>js.
    bindH (raise_ifH (canonical_hash L (job_summary_json L js) \<noteq> ip_summary_snapshot_hash p)
      (app_err ''MEDIA_IMPORT_SUMMARY_CHANGED'' 409)) (\<lambda>_.
    bindH (raise_ifH (dj_hnr_status (bo_job b) \<noteq> HNR_SATISFIED \<and> \<not> ma_acknowledges_hnr d)
      (app_err ''MEDIA_IMPORT_HNR_CONFIRMATION_REQUIRED'' 409)) (\<lambda>_.
    write_decision L r (approved_import r d actor now) ''MEDIA_IMPORT_PLAN_ONLY_APPROVED'' actor
      (approval_event_details p c d)))))))))))))"

definition reason_details :: "string option \<Rightarrow> (string \<times> json) list" where
  "reason_details reason = [(''reason'', opt_json JStr reason)]"

definition rejected_import :: "import_request \<Rightarrow> string option \<Rightarrow> string \<Rightarrow> int \<Rightarrow> import_request" where
  "rejected_import r reason actor now = r\<lparr>
     im_status := MI_REJECTED, im_rejected_by := Some actor, im_rejected_at := Some (Aware now),
     im_rejection_reason := reason, im_updated_at := Aware now \<rparr>"

definition revoked_import :: "import_request \<Rightarrow> string option \<Rightarrow> string \<Rightarrow> int \<Rightarrow> import_request" where
  "revoked_import r reason actor now = r\<lparr>
     im_status := MI_REVOKED, im_revoked_by := Some actor, im_revoked_at := Some (Aware now),
     im_revocation_reason := reason, im_updated_at := Aware now \<rparr>"

definition reject_media_import_request ::
    "lib \<Rightarrow> string \<Rightarrow> string option \<Rightarrow> settings \<Rightarrow> string \<Rightarrow> int \<Rightarrow> import_request session" where
  "reject_media_import_request L request_id reason st raw_actor now =
    bindH (liftH (require_media_import_enabled st)) (\<lambda>_.
    bindH (liftH (validate_import_actor raw_actor)) (\<lambda>actor.
    bindH (get_media_import_request request_id) (\<lambda>r.
    bindH (raise_ifH (im_status r \<notin> {MI_PREFLIGHT_REQUIRED, MI_REVIEW_REQUIRED})
      (app_err ''MEDIA_IMPORT_REJECTION_STATE_INVALID'' 409)) (\<lambda>_.
    bindH (liftH (sanitize_reason L reason)) (\<lambda>clean.
    write_decision L r (rejected_import r clean actor now) ''MEDIA_IMPORT_REQUEST_REJECTED'' actor
      (reason_details clean))))))"

definition revoke_media_import_request ::
    "lib \<Rightarrow> string \<Rightarrow> string option \<Rightarrow> settings \<Rightarrow> string \<Rightarrow> int \<Rightarrow> import_request session" where
  "revoke_media_import_request L request_id reason st raw_actor now =
    bindH (liftH (require_media_import_enabled st)) (\<lambda>_.
    bindH (liftH (validate_import_actor raw_actor)) (\<lambda>actor.
    bindH (get_media_import_request request_id) (\<lambda>r.
    bindH (raise_ifH (im_status r \<noteq> MI_APPROVED_PLAN_ONLY) (app_err ''MEDIA_IMPORT_REVOCATION_STATE_INVALID'' 409)) (\<lambda>_.
    bindH (liftH (sanitize_reason L reason)) (\<lambda>clean.
    write_decision L r (revoked_import r clean actor now) ''MEDIA_IMPORT_PLAN_ONLY_REVOKED'' actor
      (reason_details clean))))))"

end
