(* ===== verification/ImportPaths.thy ===== *)
theory ImportPaths
  imports ImportSchemas
begin

text \<open>
  What the path checks of a media import guarantee. An accepted relative path names a place below its
  root and no two accepted paths name the same place; the comparison of neighbours in the sorted list of
  collision keys finds every pair of a file and a directory of the same name.
\<close>

section \<open>Splitting a path\<close>

lemma split_on_nonempty [simp]: "split_on x s \<noteq> []"
  by (induction s) (auto split: list.splits)

lemma split_on_join: "join [x] (split_on x s) = s"
proof (induction s)
  case (Cons c s)
  obtain w ws where ws: "split_on x s = w # ws" using split_on_nonempty [of x s] by (cases "split_on x s") simp_all
  with Cons show ?case by (cases ws) (auto simp: join_Cons)
qed simp

lemma segments_inj [simp]: "segments s = segments t \<longleftrightarrow> s = t"
  unfolding segments_def by (metis split_on_join)

lemma segments_nonempty [simp]: "segments s \<noteq> []"
  by (simp add: segments_def)

section \<open>Where a path leads\<close>

text \<open>The place a file system gives a relative path below a directory, one segment after the other.\<close>

fun walk :: "string list \<Rightarrow> string list \<Rightarrow> string list" where
  "walk dir [] = dir"
| "walk dir (p # ps) =
    (if p = [] \<or> p = ''.'' then walk dir ps
     else if p = ''..'' then walk (butlast dir) ps
     else walk (dir @ [p]) ps)"

lemma walk_plain: "list_all (\<lambda>p. p \<notin> {[], ''.'', ''..''}) ps \<Longrightarrow> walk dir ps = dir @ ps"
  by (induction ps arbitrary: dir) simp_all

lemma normalized_segments:
  "normalized_relative_path L s \<Longrightarrow> list_all (\<lambda>p. p \<notin> {[], ''.'', ''..''}) (segments s)"
  by (auto simp: normalized_relative_path_def list_all_iff)

text \<open>C21: An accepted relative path stays below its root, whatever the root: it leads to a place strictly
  inside, and two accepted paths lead to the same place only when they are the same text, so no
  spelling with empty, dot or parent segments reaches a file another path names.\<close>
theorem accepted_path_stays_below:
  assumes "normalized_relative_path L s" and "normalized_relative_path L t"
  shows "strict_prefix dir (walk dir (segments s))
    \<and> (walk dir (segments s) = walk dir (segments t) \<longleftrightarrow> s = t)"
  using assms [THEN normalized_segments] by (simp add: walk_plain strict_prefix_def)

lemma accepted_path_stays_below_witness:
  "strict_prefix [''srv''] (walk [''srv''] (segments ''Film (2020)/Film.mkv''))
    \<and> (walk [''srv''] (segments ''Film (2020)/Film.mkv'') = walk [''srv''] (segments ''Film.mkv'')
        \<longleftrightarrow> ''Film (2020)/Film.mkv'' = ''Film.mkv'')"
proof (rule accepted_path_stays_below [of example_lib])
  show "normalized_relative_path example_lib ''Film (2020)/Film.mkv''" by code_simp
  show "normalized_relative_path example_lib ''Film.mkv''" by code_simp
qed

lemma rejected_paths:
  "\<not> normalized_relative_path example_lib ''../Film.mkv''" "\<not> normalized_relative_path example_lib ''/Film.mkv''"
  "\<not> normalized_relative_path example_lib ''C:/Film.mkv''" "\<not> normalized_relative_path example_lib ''a//b''"
  "\<not> normalized_relative_path example_lib ''Film./b''" "\<not> normalized_relative_path example_lib ''x/CON.txt''"
  by code_simp+

section \<open>Files that are directories of others\<close>

definition strictly_below :: "string list \<Rightarrow> string list \<Rightarrow> bool" where
  "strictly_below p c \<longleftrightarrow> length p < length c \<and> take (length p) c = p"

lemma strictly_below_strict_prefix: "strictly_below p c \<longleftrightarrow> strict_prefix p c"
  unfolding strictly_below_def strict_prefix_def prefix_def
  by (metis append_eq_conv_conj append_take_drop_id length_append less_add_same_cancel1 length_greater_0_conv
      append_self_conv order_less_irrefl)

lemma strict_prefix_less: "strict_prefix p q \<Longrightarrow> p < (q :: 'a::linorder list)"
proof (induction p arbitrary: q)
  case (Cons x p)
  then show ?case by (cases q) (auto simp: strict_prefix_def)
qed (auto simp: strict_prefix_def less_le)

text \<open>What lies between a list and an extension of it extends it too.\<close>

lemma between_prefix:
  "strict_prefix p q \<Longrightarrow> p < r \<Longrightarrow> r \<le> q \<Longrightarrow> strict_prefix p (r :: 'a::linorder list)"
proof (induction p arbitrary: q r)
  case Nil
  then show ?case by (cases r) auto
next
  case (Cons x p)
  obtain q' where q: "q = x # q'" "strict_prefix p q'"
    using Cons.prems(1) by (cases q) (simp_all add: strict_prefix_def)
  obtain y r' where r: "r = y # r'" using Cons.prems(2) by (cases r) simp_all
  have "y = x" using Cons.prems(2,3) unfolding q(1) r by fastforce
  then have "p < r'" "r' \<le> q'" using Cons.prems(2,3) unfolding q(1) r by simp_all
  with Cons.IH [OF q(2)] have "strict_prefix p r'" by blast
  with r \<open>y = x\<close> show ?case by (simp add: strict_prefix_def)
qed

lemma adjacent_prefix_sorted:
  assumes "sorted ks" and "distinct ks"
  shows "adjacent_prefix ks \<longleftrightarrow> (\<exists>p q. p \<in> set ks \<and> q \<in> set ks \<and> strict_prefix p q)"
  using assms
proof (induction ks rule: adjacent_prefix.induct)
  case (1 p c rest)
  have sorted: "sorted (c # rest)" "distinct (c # rest)" and first: "p < c" "\<forall>x \<in> set (c # rest). p < x"
    using 1 by (auto simp: less_le)
  have least: "\<forall>x \<in> set (c # rest). c \<le> x" using sorted(1) by auto
  have down: "\<not> strict_prefix x p" if "x \<in> set (c # rest)" for x
    using first that strict_prefix_less [of x p] by (auto dest: order_less_asym)
  have up: "(\<exists>q. q \<in> set (c # rest) \<and> strict_prefix p q) \<longleftrightarrow> strict_prefix p c"
    using first(1) least between_prefix [of p _ c] by auto
  have split: "(\<exists>x y. x \<in> set (p # c # rest) \<and> y \<in> set (p # c # rest) \<and> strict_prefix x y)
      \<longleftrightarrow> (\<exists>q. q \<in> set (c # rest) \<and> strict_prefix p q)
        \<or> (\<exists>x y. x \<in> set (c # rest) \<and> y \<in> set (c # rest) \<and> strict_prefix x y)"
    using down by (auto simp: strict_prefix_def)
  have "(length p < length c \<and> take (length p) c = p) \<longleftrightarrow> strict_prefix p c"
    using strictly_below_strict_prefix [of p c] by (simp add: strictly_below_def)
  with 1(1) [OF sorted] show ?case by (simp only: adjacent_prefix.simps split up)
qed (auto simp: strict_prefix_def)

text \<open>The specification: no key is a directory on the way to another.\<close>

definition no_prefix_collisions :: "string list \<Rightarrow> bool" where
  "no_prefix_collisions keys \<longleftrightarrow>
    \<not> list_ex (\<lambda>p. list_ex (\<lambda>q. strict_prefix (segments p) (segments q)) keys) keys"

lemma no_prefix_collisions_iff:
  "no_prefix_collisions keys \<longleftrightarrow> \<not> (\<exists>p q. p \<in> segments ` set keys \<and> q \<in> segments ` set keys \<and> strict_prefix p q)"
  by (auto simp: no_prefix_collisions_def list_ex_iff)

text \<open>The check of neighbours is complete: comparing each collision key with the next one in sorted
  order accepts a list of paths exactly when the paths and their keys are pairwise different and no
  key names a directory that another key lies in, although it looks at one pair per path only.\<close>
theorem unique_paths_equiv:
  "validate_unique_paths L True paths \<longleftrightarrow>
    distinct paths \<and> distinct (map (path_collision_key L) paths)
    \<and> no_prefix_collisions (map (path_collision_key L) paths)"
proof (cases "distinct (map (path_collision_key L) paths)")
  case True
  let ?ks = "map (\<lambda>p. segments (path_collision_key L p)) paths"
  have "distinct ?ks" using True by (auto simp: distinct_map inj_on_def)
  then have "adjacent_prefix (segmented_keys L paths)
      \<longleftrightarrow> (\<exists>p q. p \<in> set ?ks \<and> q \<in> set ?ks \<and> strict_prefix p q)"
    using adjacent_prefix_sorted [of "sort ?ks"] by (simp add: segmented_keys_def)
  then show ?thesis
    by (simp add: validate_unique_paths_def no_prefix_collisions_iff image_image image_iff)
qed (simp add: validate_unique_paths_def)

end
