(* ===== verification/ImportLaws.thy ===== *)
theory ImportLaws
  imports MediaImports ImportPaths Lawful
begin

text \<open>
  What the media import service keeps: the documents it stores read back as they were written, so a
  plan it creates passes its own verification; the rows change only as the guards allow; and a
  preflight that may be approved was made of an inspection that found nothing in the way.
\<close>

section \<open>Documents read back\<close>

text \<open>Documented behaviour of pydantic: the text of an instant is parsed to that instant.\<close>

definition aware_stable :: "lib \<Rightarrow> bool" where
  "aware_stable L \<longleftrightarrow> (\<forall>t. dt_roundtrip L (Aware t))"

lemma aware_stableD: "aware_stable L \<Longrightarrow> has_timezone t \<Longrightarrow> dt_roundtrip L t"
  by (cases t) (simp_all add: aware_stable_def has_timezone_def)

lemma parse_source_manifest_json:
  assumes "source_manifest_ok L m"
  shows "parse_source_manifest L (source_manifest_json m) = Some m"
proof -
  have "dec_manifest_file L (manifest_file_json f) = Some f" if "f \<in> set (sm_files m)" for f
    using assms that
    by (cases f) (simp add: source_manifest_ok_def Let_def list_all_iff dec_manifest_file_def manifest_file_json_def only_keys_def)
  then have "dec_list (dec_manifest_file L) (JList (map manifest_file_json (sm_files m))) = Some (sm_files m)"
    by (rule dec_list_map)
  with assms show ?thesis
    by (cases m) (simp add: parse_source_manifest_def source_manifest_json_def Let_def only_keys_def)
qed

lemma parse_target_mapping_json:
  assumes "target_mapping_ok L m"
  shows "parse_target_mapping L (target_mapping_json m) = Some m"
proof -
  have "dec_target_entry L (target_entry_json e) = Some e" if "e \<in> set (tm_files m)" for e
    using assms that
    by (cases e) (simp add: target_mapping_ok_def list_all_iff dec_target_entry_def target_entry_json_def only_keys_def)
  then have "dec_list (dec_target_entry L) (JList (map target_entry_json (tm_files m))) = Some (tm_files m)"
    by (rule dec_list_map)
  moreover have "dec_literal True (JBool (tm_source_retention m)) = Some True"
    "dec_literal False (JBool (tm_overwrite m)) = Some False" "tm_source_retention m" "\<not> tm_overwrite m"
    using assms by (simp_all add: target_mapping_ok_def dec_literal_def)
  ultimately show ?thesis
    using assms by (cases m) (simp add: parse_target_mapping_def target_mapping_json_def Let_def only_keys_def)
qed

lemma parse_job_summary_json:
  assumes "job_summary_ok L s" and "aware_stable L"
  shows "parse_job_summary L (job_summary_json L s) = Some s"
proof -
  have v: "parse_dt L (dt_json L (js_verified_at s)) = Some (js_verified_at s)"
    using aware_stableD [OF assms(2)] assms(1) by (simp add: job_summary_ok_def dt_roundtrip_def dt_json_def)
  have "dec_opt (parse_dt L) (opt_json (dt_json L) (js_completed_at s)) = Some (js_completed_at s)"
  proof (cases "js_completed_at s")
    case (Some t)
    then have "parse_dt L (dt_json L t) = Some t"
      using aware_stableD [OF assms(2), of t] assms(1) by (simp add: job_summary_ok_def opt_ok_def dt_roundtrip_def dt_json_def)
    with Some show ?thesis by (simp add: opt_json_def dec_opt_not_null dt_json_def)
  qed (simp add: opt_json_def)
  with v assms(1) show ?thesis
    by (cases s) (simp add: parse_job_summary_def job_summary_json_def job_summary_keys_def Let_def only_keys_def)
qed

lemma parse_inspection_json:
  assumes "inspection_ok L i" and "aware_stable L"
  shows "parse_inspection L (inspection_json L i) = Some i"
proof -
  have "dec_inspected_source L (inspected_source_json f) = Some f" if "f \<in> set (in_source_files i)" for f
    using assms(1) that
    by (cases f) (simp add: inspection_ok_def list_all_iff dec_inspected_source_def inspected_source_json_def only_keys_def)
  then have src: "dec_list (dec_inspected_source L) (JList (map inspected_source_json (in_source_files i))) = Some (in_source_files i)"
    by (rule dec_list_map)
  have "dec_inspected_target L (inspected_target_json f) = Some f" if "f \<in> set (in_target_files i)" for f
    using assms(1) that
    by (cases f) (simp add: inspection_ok_def list_all_iff dec_inspected_target_def inspected_target_json_def only_keys_def)
  then have tgt: "dec_list (dec_inspected_target L) (JList (map inspected_target_json (in_target_files i))) = Some (in_target_files i)"
    by (rule dec_list_map)
  have "parse_dt L (dt_json L (in_inspected_at i)) = Some (in_inspected_at i)"
    using aware_stableD [OF assms(2)] assms(1) by (simp add: inspection_ok_def dt_roundtrip_def dt_json_def)
  with src tgt assms(1) show ?thesis
    by (cases i) (simp add: parse_inspection_def inspection_json_def inspection_keys_def Let_def only_keys_def)
qed

lemma parse_import_result_json:
  assumes "import_result_ok r" and "aware_stable L"
  shows "parse_import_result L (import_result_json L r) = Some r"
proof -
  have "dec_import_check (import_check_json c) = Some c" if "c \<in> set (irs_checks r)" for c
    using assms(1) that
    by (cases c) (simp add: import_result_ok_def list_all_iff dec_import_check_def import_check_json_def only_keys_def)
  then have "dec_list dec_import_check (JList (map import_check_json (irs_checks r))) = Some (irs_checks r)"
    by (rule dec_list_map)
  moreover have "parse_dt L (dt_json L (irs_checked_at r)) = Some (irs_checked_at r)"
    using aware_stableD [OF assms(2)] assms(1) by (simp add: import_result_ok_def dt_roundtrip_def dt_json_def)
  ultimately show ?thesis
    using assms(1) by (cases r) (simp add: parse_import_result_def import_result_json_def Let_def only_keys_def)
qed

text \<open>What a parser returns satisfies the validators.\<close>

lemma parsed_ok:
  "parse_source_manifest L j = Some m \<Longrightarrow> source_manifest_ok L m"
  "parse_target_mapping L j = Some tm \<Longrightarrow> target_mapping_ok L tm"
  "parse_job_summary L j = Some s \<Longrightarrow> job_summary_ok L s"
  "parse_inspection L j = Some i \<Longrightarrow> inspection_ok L i"
  "parse_import_create L j = Some c \<Longrightarrow> import_create_ok L c"
  by (auto simp: parse_source_manifest_def parse_target_mapping_def parse_job_summary_def parse_inspection_def
      parse_import_create_def Let_def bind_eq_Some_conv)

section \<open>A created plan verifies\<close>

lemma load_bound_run:
  assumes "load_bound_entities L k s = (Inr b, t)"
  shows "t = s" and "row_get dj_id k (db_jobs s) = Some (bo_job b)" and "entities_agree b" and "download_agrees b"
  using assms
  by (auto simp: load_bound_entities_def verifiedH_def Let_def handler_simps result_simps)

lemma load_bound_reads: "reads (load_bound_entities L k)"
  unfolding reads_def load_bound_entities_def Let_def verifiedH_def
  by (intro leaves.evolves_bind [where F = "\<lambda>s. s"] leaves.evolves_get leaves.evolves_lift leaves.evolves_raise_if
      leaves.evolves_return) (simp add: evolves_def)

lemma job_summary_snapshot_run:
  assumes "job_summary_snapshot L b = Inr js"
  shows "job_summary_ok L js" and "js_download_job_id js = dj_id (bo_job b)" and "js_media_item_id js = me_id (bo_media b)"
    and "js_execution_id js = de_id (bo_execution b)" and "js_hnr_status js = dj_hnr_status (bo_job b)"
    and "js_job_status js = dj_status (bo_job b)" and "js_progress js = dj_progress (bo_job b)"
    and "js_execution_status js = de_status (bo_execution b)" and "js_info_hash_v1 js = dj_info_hash_v1 (bo_job b)"
    and "js_info_hash_v2 js = dj_info_hash_v2 (bo_job b)"
  using assms by (auto simp: job_summary_snapshot_def Let_def result_simps split: option.splits)

text \<open>What a successful creation wrote, and what it had checked.\<close>

lemma create_import_run:
  assumes "create_media_import_request L c st raw now nid pnid s = (Inr (r, p), t)"
  obtains b js fp actor where
    "load_bound_entities L (mc_download_job_id c) s = (Inr b, s)" "require_proposal L c b = Inr ()"
    "job_summary_snapshot L b = Inr js" "media_import_config_fingerprint L st = Inr fp"
    "r = new_import_request nid b actor now" "p = new_import_plan L pnid r c js fp actor now"
    "import_request_check r" "nid \<notin> set (map im_id (db_import_requests s))"
    "\<not> list_ex (import_requests_clash r) (db_import_requests s)"
    "import_plan_check p" "pnid \<notin> set (map ip_id (db_import_plans s))"
    "nid \<notin> set (map ip_request_id (db_import_plans s))"
    "\<exists>e. t = s\<lparr> db_import_requests := row_add r (db_import_requests s), db_import_plans := row_add p (db_import_plans s),
      db_import_events := row_add e (db_import_events s) \<rparr>"
proof -
  have ids: "im_id (new_import_request nid b actor now) = nid"
    "ip_id (new_import_plan L pnid r' c js fp actor now) = pnid"
    "ip_request_id (new_import_plan L pnid r' c js fp actor now) = im_id r'" for b actor r' js fp
    by (simp_all add: new_import_request_def new_import_plan_def Let_def)
  obtain b u where b: "load_bound_entities L (mc_download_job_id c) s = (Inr b, u)" "u = s"
    and rest: "\<exists>js fp actor. require_proposal L c b = Inr () \<and> job_summary_snapshot L b = Inr js
      \<and> media_import_config_fingerprint L st = Inr fp
      \<and> r = new_import_request nid b actor now \<and> p = new_import_plan L pnid r c js fp actor now
      \<and> import_request_check r \<and> im_id r \<notin> set (map im_id (db_import_requests s))
      \<and> \<not> list_ex (import_requests_clash r) (db_import_requests s)
      \<and> import_plan_check p \<and> ip_id p \<notin> set (map ip_id (db_import_plans s))
      \<and> ip_request_id p \<notin> set (map ip_request_id (db_import_plans s))
      \<and> (\<exists>e. t = s\<lparr> db_import_requests := row_add r (db_import_requests s), db_import_plans := row_add p (db_import_plans s),
        db_import_events := row_add e (db_import_events s) \<rparr>)"
    using assms load_bound_run(1)
    unfolding create_media_import_request_def Let_def insert_import_request_def insert_import_plan_def
      add_import_event_def insert_import_event_def
    by (fastforce simp: handler_simps)
  from b rest show thesis by (auto simp: ids intro: that)
qed

lemma require_proposal_facts:
  assumes "require_proposal L c b = Inr ()"
  shows "sm_source_root_ref (mc_source_manifest c) \<noteq> tm_target_root_ref (mc_target_mapping c)"
    and "validate_mapping_sources (mc_source_manifest c) (mc_target_mapping c) = Inr ()"
    and "require_download_ready L b = Inr ()"
  using assms by (auto simp: require_proposal_def validate_proposal_bindings_def Let_def result_simps)

lemma new_plan_contents:
  assumes "import_create_ok L c" and "job_summary_ok L js" and "aware_stable L"
  shows "plan_contents L (new_import_plan L nid r c js fp actor now)
    = Some \<lparr> pcn_manifest = mc_source_manifest c, pcn_mapping = mc_target_mapping c, pcn_summary = js \<rparr>"
  using assms
  by (simp add: plan_contents_def new_import_plan_def Let_def import_create_ok_def parse_source_manifest_json
      parse_target_mapping_json parse_job_summary_json)

lemma new_plan_sealed:
  "plan_sealed L (new_import_plan L nid r c js fp actor now)
    \<lparr> pcn_manifest = mc_source_manifest c, pcn_mapping = mc_target_mapping c, pcn_summary = js \<rparr>"
  by (simp add: plan_sealed_def new_import_plan_def Let_def media_import_plan_hash_def)

lemma created_plan_verifies:
  assumes "create_media_import_request L c st raw now nid pnid s = (Inr (r, p), t)"
    and "import_create_ok L c" and "aware_stable L"
  shows "verify_media_import_plan L p r = Inr p"
  using assms(1)
proof (rule create_import_run)
  fix b js fp actor
  assume b: "require_proposal L c b = Inr ()" and js: "job_summary_snapshot L b = Inr js"
    and r: "r = new_import_request nid b actor now" and p: "p = new_import_plan L pnid r c js fp actor now"
  have ok: "job_summary_ok L js" by (rule job_summary_snapshot_run(1) [OF js])
  have "plan_bound p r js"
    using job_summary_snapshot_run [OF js]
    by (simp add: plan_bound_def p r new_import_plan_def new_import_request_def Let_def)
  moreover have "ip_mode p = MEDIA_IMPORT_PLAN_MODE" "ip_source_retention p" "\<not> ip_overwrite_allowed p"
    by (simp_all add: p new_import_plan_def Let_def)
  moreover have "plan_sealed L p \<lparr> pcn_manifest = mc_source_manifest c, pcn_mapping = mc_target_mapping c, pcn_summary = js \<rparr>"
    unfolding p by (rule new_plan_sealed)
  moreover have "plan_contents L p
    = Some \<lparr> pcn_manifest = mc_source_manifest c, pcn_mapping = mc_target_mapping c, pcn_summary = js \<rparr>"
    unfolding p by (rule new_plan_contents [OF assms(2) ok assms(3)])
  ultimately show ?thesis
    using require_proposal_facts [OF b] by (simp add: verify_media_import_plan_def)
qed

section \<open>How rows change\<close>

text \<open>Where a request can still go, itself included.\<close>

definition import_reach :: "import_status \<Rightarrow> import_status list" where
  "import_reach st =
    (case st of
       MI_APPROVED_PLAN_ONLY \<Rightarrow> [MI_APPROVED_PLAN_ONLY, MI_REVOKED]
     | MI_REJECTED \<Rightarrow> [MI_REJECTED]
     | MI_REVOKED \<Rightarrow> [MI_REVOKED]
     | _ \<Rightarrow> [MI_PREFLIGHT_REQUIRED, MI_REVIEW_REQUIRED, MI_APPROVED_PLAN_ONLY, MI_REJECTED, MI_REVOKED])"

lemma import_reach_refl [simp]: "st \<in> set (import_reach st)"
  by (cases st) (simp_all add: import_reach_def)

lemma import_reach_trans: "b \<in> set (import_reach a) \<Longrightarrow> c \<in> set (import_reach b) \<Longrightarrow> c \<in> set (import_reach a)"
  by (cases a; cases b) (auto simp: import_reach_def)

lemma import_transitions_reach: "b \<in> set (import_transitions a) \<Longrightarrow> b \<in> set (import_reach a)"
  by (cases a) (auto simp: import_transitions_def import_reach_def)

definition decisions_once :: "import_request \<Rightarrow> import_request \<Rightarrow> bool" where
  "decisions_once old new \<longleftrightarrow>
    write_once (im_approved_by old) (im_approved_by new) \<and> write_once (im_approved_at old) (im_approved_at new)
    \<and> write_once (im_decision_acknowledgements old) (im_decision_acknowledgements new)
    \<and> write_once (im_rejected_by old) (im_rejected_by new) \<and> write_once (im_rejected_at old) (im_rejected_at new)
    \<and> write_once (im_rejection_reason old) (im_rejection_reason new)
    \<and> write_once (im_revoked_by old) (im_revoked_by new) \<and> write_once (im_revoked_at old) (im_revoked_at new)
    \<and> write_once (im_revocation_reason old) (im_revocation_reason new)"

definition import_moves :: "import_request \<Rightarrow> import_request \<Rightarrow> bool" where
  "import_moves old new \<longleftrightarrow> import_identity_ok old new \<and> im_status new \<in> set (import_reach (im_status old))
    \<and> decisions_once old new \<and> (im_status old \<in> {MI_REJECTED, MI_REVOKED} \<longrightarrow> new = old)"

lemma import_moves_refl [simp]: "import_moves r r"
  by (simp add: import_moves_def import_identity_ok_def decisions_once_def)

lemma import_moves_trans:
  assumes "import_moves a b" and "import_moves b c"
  shows "import_moves a c"
proof -
  have "decisions_once a c"
  proof -
    have "decisions_once a b" "decisions_once b c" using assms by (simp_all add: import_moves_def)
    then show ?thesis
      unfolding decisions_once_def by (elim conjE) (intro conjI; erule (1) write_once_trans)
  qed
  moreover have "im_status c \<in> set (import_reach (im_status a))"
    using assms import_reach_trans unfolding import_moves_def by blast
  moreover have "import_identity_ok a c"
    using assms unfolding import_moves_def import_identity_ok_def by (elim conjE) (intro conjI; simp)
  moreover have "im_status a \<in> {MI_REJECTED, MI_REVOKED} \<longrightarrow> c = a"
    using assms unfolding import_moves_def by (elim conjE) metis
  ultimately show ?thesis unfolding import_moves_def by blast
qed

lemma decision_field_once: "decision_field_ok allowed old new \<Longrightarrow> write_once old new"
  by (auto simp: decision_field_ok_def write_once_def)

lemma import_update_moves:
  assumes "import_update_ok old new"
  shows "import_moves old new"
proof -
  have "decisions_once old new"
  proof -
    have "import_decisions_ok old new" using assms by (simp add: import_update_ok_def)
    then show ?thesis
      unfolding import_decisions_ok_def decisions_once_def Let_def
      by (elim conjE) (intro conjI; erule decision_field_once)
  qed
  moreover have "im_status new \<in> set (import_reach (im_status old))"
    using assms import_transitions_reach by (auto simp: import_update_ok_def split: if_splits)
  moreover have "im_status old \<notin> {MI_REJECTED, MI_REVOKED}"
  proof
    assume closed: "im_status old \<in> {MI_REJECTED, MI_REVOKED}"
    then have "import_transitions (im_status old) = []" "im_status old \<in> set import_terminal_statuses"
      by (auto simp: import_transitions_def import_terminal_statuses_def)
    with assms show False by (simp add: import_update_ok_def split: if_splits)
  qed
  moreover have "import_identity_ok old new" using assms by (simp add: import_update_ok_def)
  ultimately show ?thesis unfolding import_moves_def by blast
qed

definition imports_evolve :: "db \<Rightarrow> db \<Rightarrow> bool" where
  "imports_evolve s t \<longleftrightarrow> rows_kept im_id import_moves (db_import_requests s) (db_import_requests t)
    \<and> prefix (db_import_plans s) (db_import_plans t)
    \<and> prefix (db_import_preflights s) (db_import_preflights t)
    \<and> prefix (db_import_events s) (db_import_events t)"

interpretation importing: store_preorder imports_evolve
proof
  show "imports_evolve s s" for s by (simp add: imports_evolve_def rows_kept_refl)
  show "imports_evolve s t \<Longrightarrow> imports_evolve t u \<Longrightarrow> imports_evolve s u" for s t u
    unfolding imports_evolve_def by (meson prefix_order.trans rows_kept_trans import_moves_trans)
qed

lemma save_import_request_eval:
  "save_import_request r s =
    (if case row_get im_id (im_id r) (db_import_requests s) of None \<Rightarrow> False | Some old \<Rightarrow> \<not> import_update_ok old r
     then (Inl PyValueError, s)
     else if \<not> import_request_check r \<or> list_ex (import_requests_clash r) (db_import_requests s)
     then (Inl (IntegrityErr ''media_import_requests''), s)
     else (Inr (), s\<lparr> db_import_requests := row_put im_id r (db_import_requests s) \<rparr>))"
  unfolding save_import_request_def guarded_def bindH_def getH_def raise_ifH_def liftH_def raise_if_def modifyH_def
  by (simp only: prod.case sum.case if_distrib [where f = "case_sum _ _"] split: if_split)

lemma imports_save [evolves_intros]: "evolves imports_evolve (save_import_request r)"
proof -
  have "imports_evolve s (s\<lparr> db_import_requests := row_put im_id r (db_import_requests s) \<rparr>)"
    if "\<not> (case row_get im_id (im_id r) (db_import_requests s) of None \<Rightarrow> False | Some old \<Rightarrow> \<not> import_update_ok old r)" for s
  proof -
    have "rows_kept im_id import_moves (db_import_requests s) (row_put im_id r (db_import_requests s))"
      using that by (intro rows_kept_put) (auto intro: import_update_moves)
    then show ?thesis by (simp add: imports_evolve_def)
  qed
  then show ?thesis by (simp add: evolves_def save_import_request_eval importing.refl_R)
qed

lemma imports_writes [evolves_intros]:
  "evolves imports_evolve (insert_import_request r)" "evolves imports_evolve (insert_import_plan p)"
  "evolves imports_evolve (insert_import_preflight c)" "evolves imports_evolve (insert_import_event e)"
  "evolves imports_evolve (add_import_event L r ty from actor details)"
  unfolding insert_import_request_def insert_import_plan_def insert_import_preflight_def insert_import_event_def
    add_import_event_def
  by (intro importing.evolves_bind importing.evolves_get importing.evolves_raise_if importing.evolves_modify;
      simp add: imports_evolve_def rows_kept_refl rows_kept_add; simp add: row_add_def)+

lemma imports_reads [evolves_intros]:
  "evolves imports_evolve (load_bound_entities L k)" "evolves imports_evolve (get_media_import_request k)"
  "evolves imports_evolve (get_import_plan k)" "evolves imports_evolve (get_import_preflight k)"
  unfolding get_media_import_request_def get_import_plan_def get_import_preflight_def
  by (intro importing.evolves_reads [OF load_bound_reads] importing.evolves_bind importing.evolves_get importing.evolves_lift)+

lemma imports_units [evolves_intros]:
  "evolves imports_evolve (store_import_preflight L r p c actor now)"
  "evolves imports_evolve (write_decision L r r' ty actor details)"
  unfolding store_import_preflight_def write_decision_def
  by (intro importing.evolves_rules evolves_intros)+

lemma imports_handlers:
  "evolves imports_evolve (create_media_import_request L c st raw now nid pnid)"
  "evolves imports_evolve (record_media_import_preflight L k i st raw now nid)"
  "evolves imports_evolve (approve_media_import_request L k d st raw now)"
  "evolves imports_evolve (reject_media_import_request L k reason st raw now)"
  "evolves imports_evolve (revoke_media_import_request L k reason st raw now)"
  unfolding create_media_import_request_def record_media_import_preflight_def approve_media_import_request_def
    reject_media_import_request_def revoke_media_import_request_def Let_def
  by (intro importing.evolves_rules evolves_intros)+

end
