(* ===== verification/ImportMachine.thy ===== *)
theory ImportMachine
  imports ImportLaws
begin

text \<open>
  The media import service as a state machine: its five operations, and every change of the rest of the
  store in between. The invariant ties an approved request to a stored inspection that found every
  source file whole and no target in the way.
\<close>

section \<open>What a passable result says\<close>

definition inspection_safe :: "source_manifest \<Rightarrow> target_mapping \<Rightarrow> inspection \<Rightarrow> bool" where
  "inspection_safe sm tm i \<longleftrightarrow> source_binding sm i \<and> target_binding tm i
    \<and> list_all safe_source (in_source_files i) \<and> list_all is_complete (in_source_files i)
    \<and> list_all (\<lambda>f. \<not> it_exists f) (in_target_files i)"

definition operation_possible :: "import_operation \<Rightarrow> inspection \<Rightarrow> int \<Rightarrow> bool" where
  "operation_possible oper i needed \<longleftrightarrow>
    (case oper of
       MO_HARDLINK \<Rightarrow> in_same_filesystem i = Some True
     | MO_COPY \<Rightarrow> (case in_available_bytes i of None \<Rightarrow> False | Some n \<Rightarrow> needed \<le> n))"

lemma passable_worse:
  "passable (if status_severity a < status_severity b then b else a) \<longleftrightarrow> passable a \<and> passable b"
  by (cases a; cases b) (simp_all add: passable_def)

lemma most_severe_passable:
  "passable (most_severe best xs) \<longleftrightarrow> passable best \<and> list_all passable xs"
  by (induction xs arbitrary: best) (simp_all only: most_severe.simps list.pred_inject passable_worse conj_assoc simp_thms)

lemma overall_passable:
  "overall_status cs = Inr st \<Longrightarrow> passable st \<Longrightarrow> list_all (\<lambda>c. passable (ick_status c)) cs"
  by (cases cs) (auto simp: overall_status_def most_severe_passable list.pred_map comp_def)

lemma check_passable [simp]:
  "passable (ick_status (pass_if L code ok)) \<longleftrightarrow> ok"
  "passable (ick_status (checked_as L code st)) \<longleftrightarrow> passable st"
  by (simp_all add: pass_if_def checked_as_def passable_def)

lemma operation_passable: "passable (operation_status oper i needed) \<longleftrightarrow> operation_possible oper i needed"
  by (simp add: operation_status_def operation_possible_def passable_def
      split: import_operation.split option.split)

lemma hnr_passable [simp]: "passable (if b then PF_PASS else PF_WARNING)" "passable PF_PASS"
  by (simp_all add: passable_def)

lemma checks_passable:
  "list_all (\<lambda>c. passable (ick_status c)) (inspection_checks L p sm tm i js a needed) \<longleftrightarrow>
    summary_matches L p i js a \<and> download_ready L js \<and> inspection_safe sm tm i
    \<and> operation_possible (ip_proposed_operation p) i needed"
  unfolding inspection_checks_def Let_def list.pred_inject check_passable hnr_passable operation_passable
    inspection_safe_def
  by auto

lemma evaluate_passable:
  assumes "evaluate_inspection L p i js a now = Inr res" and "passable (irs_overall_status res)"
  obtains sm tm needed where "parse_source_manifest L (ip_source_manifest p) = Some sm"
    "parse_target_mapping L (ip_target_mapping p) = Some tm" "required_bytes sm tm = Inr needed"
    "inspection_safe sm tm i" "operation_possible (ip_proposed_operation p) i needed"
    "summary_matches L p i js a" "download_ready L js"
proof -
  obtain sm tm needed st where docs: "parse_source_manifest L (ip_source_manifest p) = Some sm"
    "parse_target_mapping L (ip_target_mapping p) = Some tm" "required_bytes sm tm = Inr needed"
    and st: "overall_status (inspection_checks L p sm tm i js a needed) = Inr st" "irs_overall_status res = st"
    using assms(1) unfolding evaluate_inspection_def Let_def by (auto simp: bindR_Inr_iff option_or_Inr_iff)
  show thesis
    using overall_passable [OF st(1)] assms(2) unfolding st(2) checks_passable by (blast intro: that [OF docs])
qed

section \<open>What each operation did\<close>

lemma insert_import_preflight_eval:
  "insert_import_preflight c s =
    (if \<not> import_preflight_check c \<or> ic_id c \<in> set (map ic_id (db_import_preflights s))
        \<or> ic_preflight_hash c \<in> set (map ic_preflight_hash (db_import_preflights s))
     then (Inl (IntegrityErr ''media_import_preflights''), s)
     else (Inr (), s\<lparr> db_import_preflights := row_add c (db_import_preflights s) \<rparr>))"
  by (simp add: insert_import_preflight_def bindH_def getH_def raise_ifH_def liftH_def raise_if_def modifyH_def)

lemma add_import_event_run:
  "add_import_event L r ty from actor details s = (u, t) \<Longrightarrow>
    \<exists>e. t = s\<lparr> db_import_events := row_add e (db_import_events s) \<rparr>"
  unfolding add_import_event_def insert_import_event_def modifyH_def by blast

text \<open>A save that returned.\<close>

definition saved_import :: "import_request \<Rightarrow> db \<Rightarrow> bool" where
  "saved_import r s \<longleftrightarrow> import_request_check r \<and> \<not> list_ex (import_requests_clash r) (db_import_requests s)"

lemma save_import_request_run:
  "save_import_request r s = (Inr u, t) \<Longrightarrow>
    saved_import r s \<and> t = s\<lparr> db_import_requests := row_put im_id r (db_import_requests s) \<rparr>"
  by (auto simp: save_import_request_eval saved_import_def split: if_splits)

lemma store_import_preflight_run:
  assumes "store_import_preflight L r p c actor now s = (Inr d, t)"
  shows "d = c" and "ic_id c \<notin> set (map ic_id (db_import_preflights s))" and "saved_import (reviewed r c now) s"
    and "\<exists>e. t = s\<lparr> db_import_preflights := row_add c (db_import_preflights s),
      db_import_requests := row_put im_id (reviewed r c now) (db_import_requests s),
      db_import_events := row_add e (db_import_events s) \<rparr>"
proof -
  obtain v w where w: "insert_import_preflight c s = (Inr (), v)" "save_import_request (reviewed r c now) v = (Inr (), w)"
    "add_import_event L (reviewed r c now) ''MEDIA_IMPORT_TRUSTED_PREFLIGHT_RECORDED'' (Some (im_status r)) actor
        (preflight_event_details p c) w = (Inr (), t)" and "d = c"
    using assms by (auto simp: store_import_preflight_def handler_simps)
  then show "d = c" by simp
  show "ic_id c \<notin> set (map ic_id (db_import_preflights s))"
    using w(1) by (auto simp: insert_import_preflight_eval split: if_splits)
  have v: "v = s\<lparr> db_import_preflights := row_add c (db_import_preflights s) \<rparr>"
    using w(1) by (auto simp: insert_import_preflight_eval split: if_splits)
  show "saved_import (reviewed r c now) s"
    using save_import_request_run [OF w(2)] v by (simp add: saved_import_def)
  have "w = v\<lparr> db_import_requests := row_put im_id (reviewed r c now) (db_import_requests v) \<rparr>"
    using save_import_request_run [OF w(2)] by simp
  moreover have "\<exists>e. t = w\<lparr> db_import_events := row_add e (db_import_events w) \<rparr>"
    by (rule add_import_event_run [OF w(3)])
  ultimately show "\<exists>e. t = s\<lparr> db_import_preflights := row_add c (db_import_preflights s),
      db_import_requests := row_put im_id (reviewed r c now) (db_import_requests s),
      db_import_events := row_add e (db_import_events s) \<rparr>"
    by (simp add: v)
qed

lemma write_decision_run:
  assumes "write_decision L r r' ty actor details s = (Inr d, t)"
  shows "d = r'" and "saved_import r' s"
    and "\<exists>e. t = s\<lparr> db_import_requests := row_put im_id r' (db_import_requests s),
      db_import_events := row_add e (db_import_events s) \<rparr>"
proof -
  obtain w where w: "save_import_request r' s = (Inr (), w)"
    "add_import_event L r' ty (Some (im_status r)) actor details w = (Inr (), t)" and "d = r'"
    using assms by (auto simp: write_decision_def handler_simps)
  then show "d = r'" "saved_import r' s" using save_import_request_run [OF w(1)] by simp_all
  have "w = s\<lparr> db_import_requests := row_put im_id r' (db_import_requests s) \<rparr>"
    using save_import_request_run [OF w(1)] by simp
  moreover have "\<exists>e. t = w\<lparr> db_import_events := row_add e (db_import_events w) \<rparr>"
    by (rule add_import_event_run [OF w(2)])
  ultimately show "\<exists>e. t = s\<lparr> db_import_requests := row_put im_id r' (db_import_requests s),
      db_import_events := row_add e (db_import_events s) \<rparr>" by simp
qed

lemma record_import_run:
  assumes "record_media_import_preflight L k i st raw now nid s = (Inr c, t)"
  obtains r p x b js res actor fp where
    "row_get im_id k (db_import_requests s) = Some r" "im_status r \<in> {MI_PREFLIGHT_REQUIRED, MI_REVIEW_REQUIRED}"
    "plan_of_request (im_id r) s = Some p" "verify_media_import_plan L p r = Inr x"
    "load_bound_entities L (im_download_job_id r) s = (Inr b, s)"
    "evaluate_inspection L p i js (bo_approval b) now = Inr res"
    "store_import_preflight L r p (new_import_preflight L nid p i res fp actor now) actor now s = (Inr c, t)"
proof -
  have "\<exists>r p x b js res actor fp. row_get im_id k (db_import_requests s) = Some r
    \<and> im_status r \<in> {MI_PREFLIGHT_REQUIRED, MI_REVIEW_REQUIRED}
    \<and> plan_of_request (im_id r) s = Some p \<and> verify_media_import_plan L p r = Inr x
    \<and> load_bound_entities L (im_download_job_id r) s = (Inr b, s)
    \<and> evaluate_inspection L p i js (bo_approval b) now = Inr res
    \<and> store_import_preflight L r p (new_import_preflight L nid p i res fp actor now) actor now s = (Inr c, t)"
    using assms load_bound_run(1)
    unfolding record_media_import_preflight_def get_media_import_request_def get_import_plan_def
    by (fastforce simp: handler_simps option_or_Inr_iff)
  then show thesis by (elim exE conjE) (rule that)
qed

lemma approve_import_run:
  assumes "approve_media_import_request L k d st raw now s = (Inr r', t)"
  obtains r p c b js actor where
    "row_get im_id k (db_import_requests s) = Some r" "im_status r = MI_REVIEW_REQUIRED"
    "plan_of_request (im_id r) s = Some p" "latest_preflight (im_id r) s = Some c"
    "require_approvable L r p c d st now = Inr ()"
    "load_bound_entities L (im_download_job_id r) s = (Inr b, s)" "require_download_ready L b = Inr ()"
    "job_summary_snapshot L b = Inr js" "canonical_hash L (job_summary_json L js) = ip_summary_snapshot_hash p"
    "dj_hnr_status (bo_job b) = HNR_SATISFIED \<or> ma_acknowledges_hnr d"
    "write_decision L r (approved_import r d actor now) ''MEDIA_IMPORT_PLAN_ONLY_APPROVED'' actor
      (approval_event_details p c d) s = (Inr r', t)"
proof -
  have "\<exists>r p c b js actor. row_get im_id k (db_import_requests s) = Some r \<and> im_status r = MI_REVIEW_REQUIRED
    \<and> plan_of_request (im_id r) s = Some p \<and> latest_preflight (im_id r) s = Some c
    \<and> require_approvable L r p c d st now = Inr ()
    \<and> load_bound_entities L (im_download_job_id r) s = (Inr b, s) \<and> require_download_ready L b = Inr ()
    \<and> job_summary_snapshot L b = Inr js \<and> canonical_hash L (job_summary_json L js) = ip_summary_snapshot_hash p
    \<and> (dj_hnr_status (bo_job b) = HNR_SATISFIED \<or> ma_acknowledges_hnr d)
    \<and> write_decision L r (approved_import r d actor now) ''MEDIA_IMPORT_PLAN_ONLY_APPROVED'' actor
      (approval_event_details p c d) s = (Inr r', t)"
    using assms load_bound_run(1)
    unfolding approve_media_import_request_def get_media_import_request_def get_import_plan_def get_import_preflight_def
    by (fastforce simp: handler_simps option_or_Inr_iff)
  then show thesis by (elim exE conjE) (rule that)
qed

lemma settle_import_run:
  assumes "reject_media_import_request L k reason st raw now s = (Inr r', t)
    \<or> revoke_media_import_request L k reason st raw now s = (Inr r', t)"
  obtains r actor clean ty details d where "row_get im_id k (db_import_requests s) = Some r"
    "d = rejected_import r clean actor now \<and> im_status r \<in> {MI_PREFLIGHT_REQUIRED, MI_REVIEW_REQUIRED}
      \<or> d = revoked_import r clean actor now \<and> im_status r = MI_APPROVED_PLAN_ONLY"
    "write_decision L r d ty actor details s = (Inr r', t)"
proof -
  have "\<exists>r actor clean ty details d. row_get im_id k (db_import_requests s) = Some r
    \<and> (d = rejected_import r clean actor now \<and> im_status r \<in> {MI_PREFLIGHT_REQUIRED, MI_REVIEW_REQUIRED}
      \<or> d = revoked_import r clean actor now \<and> im_status r = MI_APPROVED_PLAN_ONLY)
    \<and> write_decision L r d ty actor details s = (Inr r', t)"
    using assms
    unfolding reject_media_import_request_def revoke_media_import_request_def get_media_import_request_def
    by (fastforce simp: handler_simps option_or_Inr_iff)
  then show thesis by (elim exE conjE) (rule that)
qed

section \<open>The machine\<close>

definition import_tables ::
    "db \<Rightarrow> import_request list \<times> import_plan list \<times> import_preflight list \<times> import_event list" where
  "import_tables s = (db_import_requests s, db_import_plans s, db_import_preflights s, db_import_events s)"

text \<open>
  A step of an operation that returned, with arguments its types allow; an operation that raises is
  rolled back. Between them the rest of the program may change everything else.
\<close>

inductive import_step :: "lib \<Rightarrow> db \<Rightarrow> db \<Rightarrow> bool" for L where
  create: "create_media_import_request L c st actor now nid pnid s = (Inr rp, t) \<Longrightarrow> import_create_ok L c
    \<Longrightarrow> import_step L s t"
| inspect: "record_media_import_preflight L k i st actor now nid s = (Inr c, t) \<Longrightarrow> inspection_ok L i
    \<Longrightarrow> import_step L s t"
| approve: "approve_media_import_request L k d st actor now s = (Inr r, t) \<Longrightarrow> import_step L s t"
| reject: "reject_media_import_request L k reason st actor now s = (Inr r, t) \<Longrightarrow> import_step L s t"
| revoke: "revoke_media_import_request L k reason st actor now s = (Inr r, t) \<Longrightarrow> import_step L s t"
| elsewhere: "import_tables t = import_tables s \<Longrightarrow> import_step L s t"

definition import_initial :: "db \<Rightarrow> bool" where
  "import_initial s \<longleftrightarrow> import_tables s = ([], [], [], [])"

definition import_reachable :: "lib \<Rightarrow> db \<Rightarrow> bool" where
  "import_reachable L t \<longleftrightarrow> (\<exists>s. import_initial s \<and> (import_step L)\<^sup>*\<^sup>* s t)"

lemma import_step_evolves: "import_step L s t \<Longrightarrow> imports_evolve s t"
proof (induction rule: import_step.induct)
  case (elsewhere t s)
  then show ?case using importing.refl_R [of s] by (simp add: import_tables_def imports_evolve_def)
qed (erule evolvesD [OF imports_handlers(1)] evolvesD [OF imports_handlers(2)] evolvesD [OF imports_handlers(3)]
    evolvesD [OF imports_handlers(4)] evolvesD [OF imports_handlers(5)])+

section \<open>The invariant\<close>

definition import_requests_ok :: "import_request list \<Rightarrow> bool" where
  "import_requests_ok rows \<longleftrightarrow> distinct (map im_id rows) \<and> list_all import_request_check rows
    \<and> list_all (\<lambda>a. \<not> list_ex (import_requests_clash a) rows) rows"

text \<open>A stored preflight was made of an inspection, and is passable only if that found nothing in the way.\<close>

definition preflight_sound :: "lib \<Rightarrow> import_plan list \<Rightarrow> import_preflight \<Rightarrow> bool" where
  "preflight_sound L ps c \<longleftrightarrow>
    (\<exists>p i. p \<in> set ps \<and> ip_request_id p = ic_request_id c \<and> ip_id p = ic_plan_id c
      \<and> ic_inspection_snapshot c = inspection_json L i \<and> inspection_ok L i
      \<and> (passable (ic_overall_status c) \<longrightarrow>
          (\<exists>sm tm needed. parse_source_manifest L (ip_source_manifest p) = Some sm
            \<and> parse_target_mapping L (ip_target_mapping p) = Some tm \<and> required_bytes sm tm = Inr needed
            \<and> inspection_safe sm tm i \<and> operation_possible (ip_proposed_operation p) i needed)))"

definition once_approved :: "import_request \<Rightarrow> bool" where
  "once_approved r \<longleftrightarrow> im_status r \<in> {MI_APPROVED_PLAN_ONLY, MI_REVOKED}"

definition approval_backed :: "import_preflight list \<Rightarrow> import_request \<Rightarrow> bool" where
  "approval_backed cs r \<longleftrightarrow>
    (once_approved r \<longrightarrow> (\<exists>c \<in> set cs. ic_request_id c = im_id r \<and> passable (ic_overall_status c)))"

definition imports_ok :: "lib \<Rightarrow> db \<Rightarrow> bool" where
  "imports_ok L s \<longleftrightarrow> import_requests_ok (db_import_requests s)
    \<and> distinct (map ip_id (db_import_plans s)) \<and> distinct (map ip_request_id (db_import_plans s))
    \<and> distinct (map ic_id (db_import_preflights s))
    \<and> list_all (preflight_sound L (db_import_plans s)) (db_import_preflights s)
    \<and> list_all (approval_backed (db_import_preflights s)) (db_import_requests s)"

lemma imports_clash_sym: "import_requests_clash a b \<longleftrightarrow> import_requests_clash b a"
  by (auto simp: import_requests_clash_def)

lemma imports_clash_irrefl [simp]: "\<not> import_requests_clash a a"
  by (simp add: import_requests_clash_def)

lemma import_requests_ok_add:
  assumes "import_requests_ok rows" and "import_request_check r" and "im_id r \<notin> set (map im_id rows)"
    and "\<not> list_ex (import_requests_clash r) rows"
  shows "import_requests_ok (row_add r rows)"
  using assms by (auto simp: import_requests_ok_def list_all_iff list_ex_iff imports_clash_sym)

lemma import_requests_ok_put:
  assumes "import_requests_ok (db_import_requests s)" and "saved_import r s"
  shows "import_requests_ok (row_put im_id r (db_import_requests s))"
  using assms
  by (auto simp: import_requests_ok_def saved_import_def list_all_iff list_ex_iff imports_clash_sym dest!: set_row_putD)

lemma preflight_sound_mono: "set ps \<subseteq> set qs \<Longrightarrow> preflight_sound L ps c \<Longrightarrow> preflight_sound L qs c"
  unfolding preflight_sound_def by blast

lemma approval_backed_mono: "set cs \<subseteq> set ds \<Longrightarrow> approval_backed cs r \<Longrightarrow> approval_backed ds r"
  unfolding approval_backed_def by blast

lemma new_preflight_fields:
  "ic_id (new_import_preflight L nid p i res fp actor now) = nid"
  "ic_request_id (new_import_preflight L nid p i res fp actor now) = ip_request_id p"
  "ic_plan_id (new_import_preflight L nid p i res fp actor now) = ip_id p"
  "ic_overall_status (new_import_preflight L nid p i res fp actor now) = irs_overall_status res"
  "ic_inspection_snapshot (new_import_preflight L nid p i res fp actor now) = inspection_json L i"
  by (simp_all add: new_import_preflight_def Let_def)

lemma plan_of_requestD: "plan_of_request k s = Some p \<Longrightarrow> p \<in> set (db_import_plans s) \<and> ip_request_id p = k"
  by (auto simp: plan_of_request_def dest: find_SomeD)

lemma new_preflight_sound:
  assumes "evaluate_inspection L p i js a now = Inr res" and "inspection_ok L i" and "p \<in> set ps"
  shows "preflight_sound L ps (new_import_preflight L nid p i res fp actor now)"
proof -
  have "\<exists>sm tm needed. parse_source_manifest L (ip_source_manifest p) = Some sm
      \<and> parse_target_mapping L (ip_target_mapping p) = Some tm \<and> required_bytes sm tm = Inr needed
      \<and> inspection_safe sm tm i \<and> operation_possible (ip_proposed_operation p) i needed"
    if "passable (irs_overall_status res)"
    using evaluate_passable [OF assms(1) that] by metis
  with assms(2,3) show ?thesis unfolding preflight_sound_def new_preflight_fields by blast
qed

section \<open>Every step keeps it\<close>

lemma imports_ok_create:
  assumes ok: "imports_ok L s" and run: "create_media_import_request L c st raw now nid pnid s = (Inr (r, p), t)"
  shows "imports_ok L t"
  using run
proof (rule create_import_run)
  fix b js fp actor
  assume r: "r = new_import_request nid b actor now" and p: "p = new_import_plan L pnid r c js fp actor now"
    and chk: "import_request_check r" and fresh: "nid \<notin> set (map im_id (db_import_requests s))"
    and clash: "\<not> list_ex (import_requests_clash r) (db_import_requests s)"
    and pfresh: "pnid \<notin> set (map ip_id (db_import_plans s))" "nid \<notin> set (map ip_request_id (db_import_plans s))"
    and t: "\<exists>e. t = s\<lparr> db_import_requests := row_add r (db_import_requests s), db_import_plans := row_add p (db_import_plans s),
      db_import_events := row_add e (db_import_events s) \<rparr>"
  have ids: "im_id r = nid" "ip_id p = pnid" "ip_request_id p = nid" "\<not> once_approved r"
    by (simp_all add: r p new_import_request_def new_import_plan_def Let_def once_approved_def)
  have "import_requests_ok (row_add r (db_import_requests s))"
    using ok fresh by (intro import_requests_ok_add chk clash) (simp_all add: imports_ok_def ids)
  moreover have "list_all (preflight_sound L (row_add p (db_import_plans s))) (db_import_preflights s)"
    using ok preflight_sound_mono [of "db_import_plans s" "row_add p (db_import_plans s)" L]
    by (auto simp: imports_ok_def list_all_iff)
  moreover have "approval_backed (db_import_preflights s) r" using ids(4) by (simp add: approval_backed_def)
  ultimately show ?thesis using ok pfresh t by (auto simp: imports_ok_def ids)
qed

lemma imports_ok_inspect:
  assumes ok: "imports_ok L s" and run: "record_media_import_preflight L k i st raw now nid s = (Inr c, t)"
    and insp: "inspection_ok L i"
  shows "imports_ok L t"
  using run
proof (rule record_import_run)
  fix r p x b js res actor fp
  assume r: "row_get im_id k (db_import_requests s) = Some r" "im_status r \<in> {MI_PREFLIGHT_REQUIRED, MI_REVIEW_REQUIRED}"
    and p: "plan_of_request (im_id r) s = Some p"
    and res: "evaluate_inspection L p i js (bo_approval b) now = Inr res"
    and st: "store_import_preflight L r p (new_import_preflight L nid p i res fp actor now) actor now s = (Inr c, t)"
  note stored = store_import_preflight_run [OF st]
  have c: "c = new_import_preflight L nid p i res fp actor now" by (rule stored(1))
  obtain e where t: "t = s\<lparr> db_import_preflights := row_add c (db_import_preflights s),
      db_import_requests := row_put im_id (reviewed r c now) (db_import_requests s),
      db_import_events := row_add e (db_import_events s) \<rparr>"
    using stored(4) unfolding c by blast
  have "import_requests_ok (row_put im_id (reviewed r c now) (db_import_requests s))"
    using ok stored(3) unfolding c by (intro import_requests_ok_put) (simp_all add: imports_ok_def)
  moreover have "preflight_sound L (db_import_plans s) c"
    unfolding c using plan_of_requestD [OF p] by (intro new_preflight_sound [OF res insp]) simp
  moreover have "list_all (approval_backed (row_add c (db_import_preflights s)))
      (row_put im_id (reviewed r c now) (db_import_requests s))"
  proof -
    have "\<not> once_approved (reviewed r c now)" by (simp add: once_approved_def reviewed_def)
    then have "approval_backed (row_add c (db_import_preflights s)) (reviewed r c now)" by (simp add: approval_backed_def)
    moreover have "list_all (approval_backed (row_add c (db_import_preflights s))) (db_import_requests s)"
      using ok approval_backed_mono [of "db_import_preflights s" "row_add c (db_import_preflights s)"]
      by (auto simp: imports_ok_def list_all_iff)
    ultimately show ?thesis by (rule list_all_row_put [rotated])
  qed
  moreover have "ic_id c \<notin> set (map ic_id (db_import_preflights s))" using stored(2) unfolding c .
  ultimately show ?thesis using ok unfolding t by (simp add: imports_ok_def)
qed

text \<open>A decision keeps the invariant when what it leaves approved is backed by a preflight.\<close>

lemma imports_ok_decision:
  assumes ok: "imports_ok L s" and w: "write_decision L r d ty actor details s = (Inr x, t)"
    and backed: "approval_backed (db_import_preflights s) d"
  shows "imports_ok L t"
proof -
  note wrote = write_decision_run [OF w]
  obtain e where t: "t = s\<lparr> db_import_requests := row_put im_id d (db_import_requests s),
      db_import_events := row_add e (db_import_events s) \<rparr>"
    using wrote(3) by blast
  have "import_requests_ok (row_put im_id d (db_import_requests s))"
    using ok wrote(2) by (intro import_requests_ok_put) (simp_all add: imports_ok_def)
  then show ?thesis using ok backed unfolding t by (simp add: imports_ok_def list_all_row_put)
qed

lemma newest_preflight_member: "newest_preflight cs = Some c \<Longrightarrow> c \<in> set cs"
  by (induction cs arbitrary: c) (auto split: option.splits if_splits)

lemma latest_preflightD:
  "latest_preflight k s = Some c \<Longrightarrow> c \<in> set (db_import_preflights s) \<and> ic_request_id c = k"
  by (auto simp: latest_preflight_def dest: newest_preflight_member)

lemma require_approvable_passable: "require_approvable L r p c d st now = Inr () \<Longrightarrow> passable (ic_overall_status c) \<and> acknowledged d"
  by (auto simp: require_approvable_def result_simps)

lemma settled_backed:
  assumes "imports_ok L s" and "row_get im_id k (db_import_requests s) = Some r"
    and "d = rejected_import r clean actor now \<and> im_status r \<in> {MI_PREFLIGHT_REQUIRED, MI_REVIEW_REQUIRED}
        \<or> d = revoked_import r clean actor now \<and> im_status r = MI_APPROVED_PLAN_ONLY"
  shows "approval_backed (db_import_preflights s) d"
proof -
  have "approval_backed (db_import_preflights s) r"
    using assms(1,2) by (auto simp: imports_ok_def list_all_iff dest!: row_get_SomeD)
  with assms(3) show ?thesis
    by (auto simp: approval_backed_def once_approved_def rejected_import_def revoked_import_def)
qed

lemma imports_ok_step: "import_step L s t \<Longrightarrow> imports_ok L s \<Longrightarrow> imports_ok L t"
proof (induction rule: import_step.induct)
  case (create c st actor now nid pnid s rp t)
  then show ?case by (cases rp) (blast intro: imports_ok_create)
next
  case (inspect k i st actor now nid s c t)
  then show ?case by (blast intro: imports_ok_inspect)
next
  case (approve k d st raw now s x t)
  from approve.hyps show ?case
  proof (rule approve_import_run)
    fix r p c b js actor
    assume c: "latest_preflight (im_id r) s = Some c" and a: "require_approvable L r p c d st now = Inr ()"
      and w: "write_decision L r (approved_import r d actor now) ''MEDIA_IMPORT_PLAN_ONLY_APPROVED'' actor
      (approval_event_details p c d) s = (Inr x, t)"
    have "approval_backed (db_import_preflights s) (approved_import r d actor now)"
      using latest_preflightD [OF c] require_approvable_passable [OF a]
      by (auto simp: approval_backed_def approved_import_def)
    then show ?thesis by (rule imports_ok_decision [OF approve.prems w])
  qed
next
  case (reject k reason st raw now s x t)
  from disjI1 [OF reject.hyps] show ?case
  proof (rule settle_import_run)
    fix r actor clean ty details d
    assume r: "row_get im_id k (db_import_requests s) = Some r"
      and d: "d = rejected_import r clean actor now \<and> im_status r \<in> {MI_PREFLIGHT_REQUIRED, MI_REVIEW_REQUIRED}
        \<or> d = revoked_import r clean actor now \<and> im_status r = MI_APPROVED_PLAN_ONLY"
      and w: "write_decision L r d ty actor details s = (Inr x, t)"
    show ?thesis by (rule imports_ok_decision [OF reject.prems w settled_backed [OF reject.prems r d]])
  qed
next
  case (revoke k reason st raw now s x t)
  from disjI2 [OF revoke.hyps] show ?case
  proof (rule settle_import_run)
    fix r actor clean ty details d
    assume r: "row_get im_id k (db_import_requests s) = Some r"
      and d: "d = rejected_import r clean actor now \<and> im_status r \<in> {MI_PREFLIGHT_REQUIRED, MI_REVIEW_REQUIRED}
        \<or> d = revoked_import r clean actor now \<and> im_status r = MI_APPROVED_PLAN_ONLY"
      and w: "write_decision L r d ty actor details s = (Inr x, t)"
    show ?thesis by (rule imports_ok_decision [OF revoke.prems w settled_backed [OF revoke.prems r d]])
  qed
next
  case (elsewhere t s)
  then show ?case by (simp add: import_tables_def imports_ok_def)
qed

lemma import_reachable_ok:
  assumes "import_reachable L t"
  shows "imports_ok L t"
proof -
  obtain s where s: "import_initial s" "(import_step L)\<^sup>*\<^sup>* s t" using assms by (auto simp: import_reachable_def)
  have "imports_ok L s"
    using s(1) by (simp add: import_initial_def import_tables_def imports_ok_def import_requests_ok_def)
  from s(2) this show ?thesis by (induction rule: rtranclp_induct) (auto intro: imports_ok_step)
qed

end
