(* ===== verification/ImportRun.thy ===== *)
theory ImportRun
  imports ImportMachine ExampleRun
begin

text \<open>
  One media import on a concrete store: the plan for a finished download of one file, the inspection that
  finds the file whole and the target free, and the approval. It shows that the reachable states of
  the machine include approved requests.
\<close>

section \<open>The finished download\<close>

definition import_approval :: approval where
  "import_approval = run_approval\<lparr> ar_status := AP_CONSUMED \<rparr>"

definition import_execution :: execution where
  "import_execution = run_reserved\<lparr> de_status := DE_SUBMITTED, de_locked_at := None, de_locked_by := None,
     de_lease_token := None, de_verified_at := Some (Aware 0) \<rparr>"

definition import_job :: job where
  "import_job = \<lparr> dj_id = ''j1'', dj_execution_id = ''e1'', dj_approval_id = ''a1'', dj_media_item_id = ''m1'',
     dj_status = DJ_SEEDING, dj_release_title = ''Film 1080p'', dj_info_hash_v1 = Some run_hash, dj_info_hash_v2 = None,
     dj_save_path_ref = ''main'', dj_category = ''tv'', dj_size_bytes = 8, dj_file_count = 1, dj_progress = ''1.0'',
     dj_download_speed_bps = 0, dj_upload_speed_bps = 0, dj_downloaded_bytes = 8, dj_uploaded_bytes = 0,
     dj_ratio = ''0.0'', dj_hnr_status = HNR_AT_RISK, dj_started_at = Aware 0, dj_completed_at = Some (Aware 0),
     dj_last_seen_at = None, dj_error_code = None, dj_error_message = None, dj_created_at = Aware 0 \<rparr>"

definition import_db ::
    "import_request list \<Rightarrow> import_plan list \<Rightarrow> import_preflight list \<Rightarrow> import_event list \<Rightarrow> db" where
  "import_db rs ps cs es = (run_db import_approval [run_spent] [import_execution] [] [])\<lparr> db_jobs := [import_job],
     db_import_requests := rs, db_import_plans := ps, db_import_preflights := cs, db_import_events := es \<rparr>"

definition import_media :: media_row where
  "import_media = hd (db_media example_db)"

lemma import_db_simps [simp]:
  "db_import_requests (import_db rs ps cs es) = rs" "db_import_plans (import_db rs ps cs es) = ps"
  "db_import_preflights (import_db rs ps cs es) = cs" "db_import_events (import_db rs ps cs es) = es"
  "db_jobs (import_db rs ps cs es) = [import_job]" "db_approvals (import_db rs ps cs es) = [import_approval]"
  "db_executions (import_db rs ps cs es) = [import_execution]" "db_intents (import_db rs ps cs es) = [run_spent]"
  "db_plans (import_db rs ps cs es) = [ready_plan]" "db_media (import_db rs ps cs es) = [import_media]"
  "(import_db rs ps cs es)\<lparr> db_import_requests := rs' \<rparr> = import_db rs' ps cs es"
  "(import_db rs ps cs es)\<lparr> db_import_plans := ps' \<rparr> = import_db rs ps' cs es"
  "(import_db rs ps cs es)\<lparr> db_import_preflights := cs' \<rparr> = import_db rs ps cs' es"
  "(import_db rs ps cs es)\<lparr> db_import_events := es' \<rparr> = import_db rs ps cs es'"
  by (simp_all add: import_db_def run_db_def ready_db_def example_db_def empty_db_def import_media_def)

lemma import_approval_simps [simp]:
  "ar_id import_approval = ''a1''" "ar_status import_approval = AP_CONSUMED" "ar_media_item_id import_approval = ''m1''"
  "ar_snapshot_hash import_approval = zeros"
  using run_snapshot_hash
  by (simp_all add: import_approval_def) (simp add: run_approval_def decided_def ready_approval_def example_approval_def)

lemma import_media_simps [simp]: "me_id import_media = ''m1''" "me_media_type import_media = MT_MOVIE"
  "me_tmdb_id import_media = Some 7" "me_title import_media = ''Film''" "me_year import_media = None"
  by (simp_all add: import_media_def example_db_def)

lemma import_execution_row:
  "de_id import_execution = ''e1''" "de_approval_id import_execution = ''a1''" "de_intent_id import_execution = ''i1''"
  "de_status import_execution = DE_SUBMITTED" "de_actual_info_hash import_execution = Some run_hash"
  "de_actual_info_hash_v1 import_execution = Some run_hash" "de_actual_info_hash_v2 import_execution = None"
  "de_actual_size_bytes import_execution = Some 8" "de_actual_file_count import_execution = Some 1"
  "de_verified_at import_execution = Some (Aware 0)" "de_origin import_execution = OR_MANUAL"
  "de_launch_mode import_execution = LM_ADD_PAUSED" "execution_binding import_execution = manual_binding"
  by (simp_all add: import_execution_def)
    (simp_all add: run_reserved_def reserved_def run_torrent_def run_claimed_def claimed_def run_execution_def
      new_execution_def execution_binding_def manual_binding_def)

lemma import_execution_sealed:
  "digests_ok import_execution" "actual_hash_ok sealed_lib import_execution" "submission_bundle import_execution"
  "bindings_agree sealed_lib import_execution import_approval run_spent ready_plan"
proof -
  note row = import_execution_def run_reserved_def reserved_def run_torrent_def run_claimed_def claimed_def run_execution_def
    new_execution_def
  show "digests_ok import_execution"
    by (simp add: digests_ok_def hex64_def hex_zeros row run_plan_parts)
  show "actual_hash_ok sealed_lib import_execution"
    by (simp add: actual_hash_ok_def import_execution_row bound_hashes_def) code_simp
  show "submission_bundle import_execution"
    by (simp add: submission_bundle_def import_execution_row) (simp add: row)
  show "bindings_agree sealed_lib import_execution import_approval run_spent ready_plan"
    by (simp add: bindings_agree_def row run_plan_parts execution_request_hash_def intent_binding_def execution_binding_def
        run_spent_def consumed_intent_def run_intent_def)
qed

lemma import_approval_verifies:
  "verify_snapshot sealed_lib import_approval = Inr open_snapshot"
  "verify_download_plan sealed_lib ready_plan import_approval = Inr ready_plan"
proof -
  have same: "same_approval ready_approval import_approval"
    using run_approval_same by (simp add: import_approval_def same_approval_def)
  show "verify_snapshot sealed_lib import_approval = Inr open_snapshot"
    using ready_verified verify_snapshot_same [OF same, of sealed_lib] by simp
  show "verify_download_plan sealed_lib ready_plan import_approval = Inr ready_plan"
    by (rule same_verifies [OF same]) (simp add: import_approval_def run_approval_def decided_def)
qed

definition import_bound :: bound_entities where
  "import_bound = \<lparr> bo_job = import_job, bo_media = import_media, bo_execution = import_execution,
     bo_approval = import_approval \<rparr>"

lemma import_load:
  "load_bound_entities sealed_lib ''j1'' (import_db rs ps cs es) = (Inr import_bound, import_db rs ps cs es)"
proof -
  have "verify_download_execution sealed_lib (import_db rs ps cs es) import_execution = Inr import_execution"
    by (simp add: verify_download_execution_def import_execution_sealed import_execution_row approval_by_id_def row_get_def
        plan_for_approval_def run_plan_parts import_approval_verifies require_origin_binding_def run_fields(4,6)
        verify_automation_binding_def)
  then show ?thesis
    by (simp add: load_bound_entities_def Let_def run_handlers verifiedH_def approval_by_id_def import_job_def
        import_execution_row entities_agree_def download_agrees_def import_bound_def)
qed

section \<open>The proposal\<close>

definition import_manifest :: source_manifest where
  "import_manifest = \<lparr> sm_source_root_ref = ''main'',
     sm_files = [\<lparr> mf_relative_path = ''Film.mkv'', mf_size_bytes = 8 \<rparr>] \<rparr>"

definition import_mapping :: target_mapping where
  "import_mapping = \<lparr> tm_target_root_ref = ''library'',
     tm_files = [\<lparr> te_source_relative_path = ''Film.mkv'', te_target_relative_path = ''Film/Film.mkv'' \<rparr>],
     tm_source_retention = True, tm_overwrite = False \<rparr>"

definition import_proposal :: import_create where
  "import_proposal = \<lparr> mc_download_job_id = ''j1'', mc_proposed_operation = MO_HARDLINK,
     mc_source_manifest = import_manifest, mc_target_mapping = import_mapping \<rparr>"

definition import_inspection :: inspection where
  "import_inspection = \<lparr> in_download_job_id = ''j1'', in_source_root_ref = ''main'', in_target_root_ref = ''library'',
     in_info_hash_v1 = Some run_hash, in_info_hash_v2 = None,
     in_source_files = [\<lparr> is_relative_path = ''Film.mkv'', is_size_bytes = 8, is_exists = True, is_regular_file = True,
       is_symlink = False, is_complete = True \<rparr>],
     in_target_files = [\<lparr> it_relative_path = ''Film/Film.mkv'', it_exists = False \<rparr>],
     in_same_filesystem = Some True, in_available_bytes = None, in_inspected_at = Aware 0 \<rparr>"

definition import_summary :: job_summary where
  "import_summary = (case job_summary_snapshot sealed_lib import_bound of Inr s \<Rightarrow> s)"

lemma import_paths:
  "normalized_relative_path sealed_lib ''Film.mkv''" "normalized_relative_path sealed_lib ''Film/Film.mkv''"
  by code_simp+

lemma import_refs: "validate_internal_root_ref ''main''" "validate_internal_root_ref ''library''"
  by code_simp+

lemma one_path_ok: "length p \<le> 4096 \<Longrightarrow> inspected_paths_ok L [p] \<and> validate_aggregate_path_bytes [p]
    \<and> validate_unique_paths L b [p]"
  by (simp add: inspected_paths_ok_def list_sized_def MAX_MEDIA_IMPORT_FILES_def validate_aggregate_path_bytes_def
      MAX_MEDIA_IMPORT_AGGREGATE_PATH_BYTES_def validate_unique_paths_def segmented_keys_def)

lemma run_hash_field: "hex_field 40 (Some run_hash)"
  by (simp add: hex_field_def opt_ok_def run_hash_def hex_zeros)

lemma import_documents_ok:
  "import_create_ok sealed_lib import_proposal" "inspection_ok sealed_lib import_inspection"
proof -
  have len: "py_len ''j1'' = 2" by code_simp
  show "import_create_ok sealed_lib import_proposal"
    by (simp add: import_create_ok_def import_proposal_def len source_manifest_ok_def target_mapping_ok_def import_manifest_def
        import_mapping_def import_refs import_paths manifest_file_ok_def target_entry_ok_def one_path_ok list_sized_def
        MAX_MEDIA_IMPORT_FILES_def validate_aggregate_path_bytes_def MAX_MEDIA_IMPORT_AGGREGATE_PATH_BYTES_def)
  show "inspection_ok sealed_lib import_inspection"
    by (simp add: inspection_ok_def import_inspection_def len import_refs import_paths inspected_source_ok_def
        inspected_target_ok_def one_path_ok run_hash_field has_timezone_def opt_ok_def hex_field_def [of 64])
qed

lemma import_create_parts:
  "mc_download_job_id import_proposal = ''j1''" "mc_source_manifest import_proposal = import_manifest"
  "mc_target_mapping import_proposal = import_mapping" "tm_target_root_ref import_mapping = ''library''"
  by (simp_all add: import_proposal_def import_mapping_def)

lemma import_summary_shape:
  "\<exists>js. job_summary_snapshot sealed_lib import_bound = Inr js"
proof -
  have "py_len ''Film'' = 4" by code_simp
  moreover have "float_val sealed_lib ''1.0'' = 1" by (simp add: sealed_lib_def example_lib_def)
  ultimately show ?thesis
    by (simp add: job_summary_snapshot_def Let_def import_bound_def import_execution_row job_summary_ok_def
        summary_hashes_ok_def import_job_def run_hash_field hex_field_def [of 64] opt_ok_def has_timezone_def
        float_at_least_def float_at_most_def finite_text_def)
qed

lemma import_summary_run: "job_summary_snapshot sealed_lib import_bound = Inr import_summary"
  using import_summary_shape by (auto simp: import_summary_def)

lemma import_summary_simps:
  "js_download_job_id import_summary = ''j1''" "js_media_item_id import_summary = ''m1''"
  "js_execution_id import_summary = ''e1''" "js_info_hash_v1 import_summary = Some run_hash"
  "js_info_hash_v2 import_summary = None" "js_hnr_status import_summary = HNR_AT_RISK"
  "js_job_status import_summary = DJ_SEEDING" "js_progress import_summary = ''1.0''"
  "js_execution_status import_summary = DE_SUBMITTED" "job_summary_ok sealed_lib import_summary"
  using job_summary_snapshot_run [OF import_summary_run]
  by (simp_all add: import_bound_def import_job_def import_execution_row)

lemma import_gate:
  "require_media_import_enabled example_settings = Inr ()" "validate_import_actor ''admin'' = Inr ''admin''"
  "validated_target_roots sealed_lib example_settings = Inr [''library'', ''archive'']"
  "media_import_config_fingerprint sealed_lib example_settings = Inr zeros"
proof -
  show "require_media_import_enabled example_settings = Inr ()" by code_simp
  show "validate_import_actor ''admin'' = Inr ''admin''" by code_simp
  show "validated_target_roots sealed_lib example_settings = Inr [''library'', ''archive'']" by code_simp
  then show "media_import_config_fingerprint sealed_lib example_settings = Inr zeros"
    by (simp add: media_import_config_fingerprint_def)
qed

definition import_row :: import_request where
  "import_row = new_import_request ''q1'' import_bound ''admin'' 0"

definition import_plan_row :: import_plan where
  "import_plan_row = new_import_plan sealed_lib ''ip1'' import_row import_proposal import_summary zeros ''admin'' 0"

lemma hex64_zeros [simp]: "hex64_column zeros" "hex64 zeros"
  by (simp_all add: hex64_column_def portable_hex_check_def hex64_def hex_zeros)

lemma import_plan_row_simps:
  "import_plan_check import_plan_row" "ip_id import_plan_row = ''ip1''" "ip_request_id import_plan_row = ''q1''"
  "ip_plan_hash import_plan_row = zeros" "ip_summary_snapshot_hash import_plan_row = zeros"
  "ip_config_fingerprint import_plan_row = zeros" "ip_download_job_id import_plan_row = ''j1''"
  "ip_source_manifest import_plan_row = source_manifest_json import_manifest"
  "ip_target_mapping import_plan_row = target_mapping_json import_mapping"
  "ip_proposed_operation import_plan_row = MO_HARDLINK"
  by (simp_all add: import_plan_row_def new_import_plan_def Let_def import_plan_check_def MEDIA_IMPORT_PLAN_MODE_def
      media_import_plan_hash_def import_row_def new_import_request_def import_proposal_def import_bound_def import_job_def)

lemma import_row_simps:
  "im_id import_row = ''q1''" "im_download_job_id import_row = ''j1''" "im_status import_row = MI_PREFLIGHT_REQUIRED"
  "import_request_check import_row"
  by (simp_all add: import_row_def new_import_request_def import_bound_def import_job_def import_request_check_def
      not_approved_def not_rejected_def not_revoked_def)

lemma import_ready: "require_download_ready sealed_lib import_bound = Inr ()"
proof -
  have "float_val sealed_lib ''1.0'' = 1" by (simp add: sealed_lib_def example_lib_def)
  then show ?thesis
    by (simp add: require_download_ready_def Let_def import_bound_def import_job_def import_execution_row
        eligible_job_statuses_def final_execution_statuses_def requires_reconciliation_def float_below_def finite_text_def)
qed

lemma import_proposal_fits: "require_proposal sealed_lib import_proposal import_bound = Inr ()"
  unfolding require_proposal_def import_ready bindR_simps
  by (simp add: import_proposal_def import_manifest_def import_mapping_def import_bound_def
      import_job_def validate_proposal_bindings_def validate_mapping_sources_def)

lemma import_created:
  "\<exists>e. create_media_import_request sealed_lib import_proposal example_settings ''admin'' 0 ''q1'' ''ip1'' (import_db [] [] [] [])
    = (Inr (import_row, import_plan_row), import_db [import_row] [import_plan_row] [] [e])"
proof -
  have job: "dj_id (bo_job import_bound) = ''j1''" by (simp add: import_bound_def import_job_def)
  have event: "\<exists>e. add_import_event sealed_lib import_row ''MEDIA_IMPORT_PLAN_PROPOSAL_CREATED'' None ''admin''
      (plan_event_details import_plan_row) (import_db [import_row] [import_plan_row] [] [])
    = (Inr (), import_db [import_row] [import_plan_row] [] [e])"
    unfolding add_import_event_def insert_import_event_def modifyH_def by (simp add: row_add_def) blast
  then obtain e where e: "add_import_event sealed_lib import_row ''MEDIA_IMPORT_PLAN_PROPOSAL_CREATED'' None ''admin''
      (plan_event_details import_plan_row) (import_db [import_row] [import_plan_row] [] [])
    = (Inr (), import_db [import_row] [import_plan_row] [] [e])" by blast
  show ?thesis
    unfolding create_media_import_request_def Let_def
    by (simp add: import_gate import_create_parts import_load import_proposal_fits job active_import_for_def import_summary_run
        import_row_def [symmetric] import_plan_row_def [symmetric] insert_import_request_def insert_import_plan_def
        import_row_simps import_plan_row_simps e run_handlers) blast
qed

section \<open>The inspection\<close>

lemma import_plan_verifies:
  "verify_media_import_plan sealed_lib import_plan_row import_row = Inr import_plan_row"
  using import_created created_plan_verifies [OF _ import_documents_ok(1)] sealed_roundtrip
  by (auto simp: aware_stable_def)

lemma import_same_identity:
  "im_id r = im_id import_row \<Longrightarrow> im_download_job_id r = im_download_job_id import_row \<Longrightarrow>
    im_media_item_id r = im_media_item_id import_row \<Longrightarrow> im_execution_id r = im_execution_id import_row \<Longrightarrow>
    verify_media_import_plan sealed_lib import_plan_row r = Inr import_plan_row"
  using import_plan_verifies by (simp add: verify_media_import_plan_def plan_bound_def)

lemma import_stable: "aware_stable sealed_lib"
  by (simp add: aware_stable_def sealed_roundtrip)

lemma import_contents:
  "plan_contents sealed_lib import_plan_row
    = Some \<lparr> pcn_manifest = import_manifest, pcn_mapping = import_mapping, pcn_summary = import_summary \<rparr>"
  using new_plan_contents [OF import_documents_ok(1) import_summary_simps(10) import_stable]
  by (simp add: import_plan_row_def import_create_parts)

lemma import_parts:
  "parse_source_manifest sealed_lib (ip_source_manifest import_plan_row) = Some import_manifest"
  "parse_target_mapping sealed_lib (ip_target_mapping import_plan_row) = Some import_mapping"
  using import_contents by (auto simp: plan_contents_def bind_eq_Some_conv)

lemma import_bindings: "source_binding import_manifest import_inspection" "target_binding import_mapping import_inspection"
  by code_simp+

lemma import_binding: "verify_inspection_proposal_binding sealed_lib import_plan_row import_inspection = Inr ()"
  by (simp add: verify_inspection_proposal_binding_def import_contents import_bindings import_summary_simps import_plan_row_simps)
    (simp add: import_inspection_def)

definition import_checks :: "import_check list" where
  "import_checks = inspection_checks sealed_lib import_plan_row import_manifest import_mapping import_inspection import_summary
     import_approval 8"

definition import_outcome :: import_result where
  "import_outcome = \<lparr> irs_overall_status = PF_WARNING, irs_checked_at = Aware 0, irs_config_fingerprint = zeros,
     irs_checks = import_checks \<rparr>"

lemma import_check_statuses:
  "map ick_status import_checks = replicate 10 PF_PASS @ [PF_WARNING]"
  "map ick_code import_checks = MEDIA_IMPORT_PREFLIGHT_CHECK_CODES"
proof -
  have safe: "list_all safe_source (in_source_files import_inspection)" "list_all is_complete (in_source_files import_inspection)"
    "list_all (\<lambda>f. \<not> it_exists f) (in_target_files import_inspection)"
    "operation_status MO_HARDLINK import_inspection 8 = PF_PASS"
    by (simp_all add: import_inspection_def safe_source_def operation_status_def)
  have "summary_matches sealed_lib import_plan_row import_inspection import_summary import_approval"
    by (simp add: summary_matches_def import_plan_row_simps import_summary_simps) (simp add: import_inspection_def)
  moreover have "download_ready sealed_lib import_summary"
    by (simp add: download_ready_def import_summary_simps eligible_job_statuses_def final_execution_statuses_def
        float_at_least_def finite_text_def) (simp add: sealed_lib_def example_lib_def)
  ultimately show "map ick_status import_checks = replicate 10 PF_PASS @ [PF_WARNING]"
    by (simp add: import_checks_def inspection_checks_def pass_if_def checked_as_def import_bindings safe
        import_summary_simps import_plan_row_simps numeral_eq_Suc)
  show "map ick_code import_checks = MEDIA_IMPORT_PREFLIGHT_CHECK_CODES"
    unfolding import_checks_def inspection_checks_def Let_def MEDIA_IMPORT_PREFLIGHT_CHECK_CODES_def
    by (simp only: pass_if_def checked_as_def list.map import_check.simps)
qed

lemma import_overall: "overall_status import_checks = Inr PF_WARNING"
  by (simp add: overall_status_def import_check_statuses numeral_eq_Suc)

lemma import_evaluated:
  "evaluate_inspection sealed_lib import_plan_row import_inspection import_summary import_approval 0 = Inr import_outcome"
proof -
  have "required_bytes import_manifest import_mapping = Inr 8" by code_simp
  then show ?thesis
    unfolding evaluate_inspection_def import_parts option_or_simps bindR_simps
    by (simp add: import_checks_def [symmetric] import_overall import_plan_row_simps(6) import_outcome_def)
qed

definition import_preflight_row :: import_preflight where
  "import_preflight_row = new_import_preflight sealed_lib ''ic1'' import_plan_row import_inspection import_outcome zeros ''admin'' 0"

definition import_reviewed :: import_request where
  "import_reviewed = reviewed import_row import_preflight_row 0"

lemma import_preflight_row_simps:
  "ic_id import_preflight_row = ''ic1''" "ic_request_id import_preflight_row = ''q1''"
  "ic_plan_id import_preflight_row = ''ip1''" "ic_overall_status import_preflight_row = PF_WARNING"
  "ic_inspection_snapshot import_preflight_row = inspection_json sealed_lib import_inspection"
  "ic_result import_preflight_row = import_result_json sealed_lib import_outcome"
  "ic_preflight_hash import_preflight_row = zeros" "ic_config_fingerprint import_preflight_row = zeros"
  "ic_checked_at import_preflight_row = Aware 0" "import_preflight_check import_preflight_row"
  "ic_inspection_hash import_preflight_row = zeros" "ic_result_hash import_preflight_row = zeros"
  by (simp_all add: import_preflight_row_def new_import_preflight_def Let_def import_plan_row_simps import_outcome_def
      import_preflight_check_def media_import_preflight_hash_def)

lemma import_reviewed_simps:
  "im_id import_reviewed = ''q1''" "im_status import_reviewed = MI_REVIEW_REQUIRED"
  "im_download_job_id import_reviewed = ''j1''" "import_request_check import_reviewed"
  "import_update_ok import_row import_reviewed"
  by (simp_all add: import_reviewed_def reviewed_def import_row_simps import_preflight_row_simps passable_def)
    (simp_all add: import_row_def new_import_request_def import_request_check_def not_approved_def not_rejected_def
      not_revoked_def import_update_ok_def import_identity_ok_def import_transitions_def import_decisions_ok_def
      decision_field_ok_def Let_def)

lemma import_current: "preflight_current example_settings import_inspection import_preflight_row 0"
  "0 \<le> st_media_import_preflight_max_age_seconds example_settings"
  "as_utc (in_inspected_at import_inspection) = 0"
  by (simp_all add: preflight_current_def import_preflight_row_simps import_inspection_def example_settings_def seconds_def)

lemma import_bound_approval: "bo_approval import_bound = import_approval"
  by (simp add: import_bound_def)

lemma raise_if_not: "\<not> b \<Longrightarrow> raise_if b e = Inr ()"
  by (simp add: raise_if_def)

lemma import_inspected:
  "\<exists>e'. record_media_import_preflight sealed_lib ''q1'' import_inspection example_settings ''admin'' 0 ''ic1''
      (import_db [import_row] [import_plan_row] [] [e])
    = (Inr import_preflight_row, import_db [import_reviewed] [import_plan_row] [import_preflight_row] [e, e'])"
proof -
  let ?s = "import_db [import_row] [import_plan_row] [] [e]"
  obtain e' where ev: "add_import_event sealed_lib import_reviewed ''MEDIA_IMPORT_TRUSTED_PREFLIGHT_RECORDED''
      (Some MI_PREFLIGHT_REQUIRED) ''admin'' (preflight_event_details import_plan_row import_preflight_row)
      (import_db [import_reviewed] [import_plan_row] [import_preflight_row] [e])
    = (Inr (), import_db [import_reviewed] [import_plan_row] [import_preflight_row] [e, e'])"
    unfolding add_import_event_def insert_import_event_def modifyH_def by (simp add: row_add_def)
  have ins: "insert_import_preflight import_preflight_row ?s
      = (Inr (), import_db [import_row] [import_plan_row] [import_preflight_row] [e])"
    by (simp add: insert_import_preflight_eval import_preflight_row_simps row_add_def)
  have save: "save_import_request import_reviewed (import_db [import_row] [import_plan_row] [import_preflight_row] [e])
      = (Inr (), import_db [import_reviewed] [import_plan_row] [import_preflight_row] [e])"
    by (simp add: save_import_request_eval import_reviewed_simps import_row_simps row_get_def row_put_def
        import_requests_clash_def)
  have store: "store_import_preflight sealed_lib import_row import_plan_row import_preflight_row ''admin'' 0 ?s
      = (Inr import_preflight_row, import_db [import_reviewed] [import_plan_row] [import_preflight_row] [e, e'])"
    unfolding store_import_preflight_def import_reviewed_def [symmetric] import_row_simps
    by (subst bindH_eval(1), rule ins, subst bindH_eval(1), rule save, subst bindH_eval(1), rule ev) (simp add: returnH_def)
  have age: "\<not> (0 < as_utc (in_inspected_at import_inspection)
      \<or> seconds (st_media_import_preflight_max_age_seconds example_settings) < 0 - as_utc (in_inspected_at import_inspection))"
    using import_current by (simp add: seconds_def)
  have "record_media_import_preflight sealed_lib ''q1'' import_inspection example_settings ''admin'' 0 ''ic1'' ?s
      = store_import_preflight sealed_lib import_row import_plan_row import_preflight_row ''admin'' 0 ?s"
    unfolding record_media_import_preflight_def get_media_import_request_def get_import_plan_def raise_ifH_def raise_if_not [OF age]
    by (simp add: import_gate run_handlers import_row_simps plan_of_request_def import_plan_row_simps(3,6) import_plan_verifies
        import_load import_summary_run import_binding import_bound_approval import_evaluated import_preflight_row_def [symmetric])
  with store show ?thesis by auto
qed

section \<open>The approval\<close>

definition import_decision :: import_approve where
  "import_decision = \<lparr> ma_acknowledges_plan_only = True, ma_acknowledges_source_retention = True,
     ma_acknowledges_no_overwrite = True, ma_acknowledges_hnr = True \<rparr>"

definition import_approved :: import_request where
  "import_approved = approved_import import_reviewed import_decision ''admin'' 0"

lemma import_approved_simps:
  "im_id import_approved = ''q1''" "im_status import_approved = MI_APPROVED_PLAN_ONLY"
  "import_request_check import_approved" "import_update_ok import_reviewed import_approved"
  by (simp_all add: import_approved_def approved_import_def import_reviewed_simps)
    (simp_all add: import_reviewed_def reviewed_def import_preflight_row_simps import_row_def new_import_request_def
      import_request_check_def is_approved_def not_approved_def not_rejected_def not_revoked_def import_update_ok_def
      import_identity_ok_def import_transitions_def import_decisions_ok_def decision_field_ok_def Let_def passable_def)

lemma text_of_sealed: "text_of sealed_lib x = ''text''" "py_len ''text'' = 4"
proof -
  show "text_of sealed_lib x = ''text''" by (simp add: sealed_lib_def example_lib_def)
  show "py_len ''text'' = 4" by code_simp
qed

lemma import_check_codes_ok: "list_all (\<lambda>c. list_sized 3 80 c \<and> list_all import_code_char c) MEDIA_IMPORT_PREFLIGHT_CHECK_CODES"
  by code_simp

lemma import_result_parses:
  "parse_import_result sealed_lib (import_result_json sealed_lib import_outcome) = Some import_outcome"
proof -
  have "ick_message c = ''text''" if "c \<in> set import_checks" for c
    using that unfolding import_checks_def inspection_checks_def Let_def
    by (auto simp: pass_if_def checked_as_def text_of_sealed)
  moreover have "list_sized 3 80 (ick_code c) \<and> list_all import_code_char (ick_code c)" if "c \<in> set import_checks" for c
    using import_check_codes_ok that unfolding import_check_statuses(2) [symmetric] by (simp add: list_all_iff)
  ultimately have ok: "list_all import_check_ok import_checks"
    by (simp add: list_all_iff import_check_ok_def text_of_sealed)
  have "length import_checks = 11"
    using import_check_statuses(1) by (metis length_map length_append length_replicate list.size(3,4) numeral_plus_one
        semiring_norm(2,5) Suc_eq_plus1 add_0 add_num_simps(1) length_Cons numeral_eq_Suc)
  then have "import_result_ok import_outcome"
    using ok by (simp add: import_result_ok_def import_outcome_def has_timezone_def list_sized_def)
  then show ?thesis
    by (intro parse_import_result_json) (simp_all add: import_stable)
qed

lemma import_preflight_verifies:
  "verify_media_import_preflight sealed_lib import_preflight_row import_plan_row = Inr import_preflight_row"
proof -
  have checks: "distinct (map ick_code (irs_checks import_outcome))"
    "set (map ick_code (irs_checks import_outcome)) = set MEDIA_IMPORT_PREFLIGHT_CHECK_CODES"
    "overall_status (irs_checks import_outcome) = Inr (irs_overall_status import_outcome)"
    by (simp_all add: import_outcome_def import_check_statuses(2) import_overall) code_simp
  have codes: "ick_code ` set (irs_checks import_outcome) = set MEDIA_IMPORT_PREFLIGHT_CHECK_CODES"
    using checks(2) by (simp only: set_map)
  have "preflight_bound import_preflight_row import_plan_row import_outcome"
    by (simp add: preflight_bound_def import_preflight_row_simps import_plan_row_simps import_outcome_def)
  then show ?thesis
    unfolding verify_media_import_preflight_def import_preflight_row_simps
    by (simp add: parse_inspection_json [OF import_documents_ok(2) import_stable] import_result_parses
        import_preflight_row_simps media_import_preflight_hash_def checks(1,3) codes import_binding)
qed

lemma import_approvable:
  "require_approvable sealed_lib import_reviewed import_plan_row import_preflight_row import_decision example_settings 0 = Inr ()"
proof -
  have "verify_media_import_plan sealed_lib import_plan_row import_reviewed = Inr import_plan_row"
    by (rule import_same_identity) (simp_all add: import_reviewed_def reviewed_def)
  then show ?thesis
    by (simp add: require_approvable_def import_preflight_verifies import_gate import_plan_row_simps import_preflight_row_simps
        parse_inspection_json [OF import_documents_ok(2) import_stable] import_current passable_def acknowledged_def
        import_decision_def)
qed

lemma import_approves:
  "\<exists>e'. approve_media_import_request sealed_lib ''q1'' import_decision example_settings ''admin'' 0
      (import_db [import_reviewed] [import_plan_row] [import_preflight_row] es)
    = (Inr import_approved, import_db [import_approved] [import_plan_row] [import_preflight_row] (es @ [e']))"
proof -
  let ?s = "import_db [import_reviewed] [import_plan_row] [import_preflight_row] es"
  let ?d = "approval_event_details import_plan_row import_preflight_row import_decision"
  obtain e' where ev: "add_import_event sealed_lib import_approved ''MEDIA_IMPORT_PLAN_ONLY_APPROVED''
      (Some MI_REVIEW_REQUIRED) ''admin'' ?d (import_db [import_approved] [import_plan_row] [import_preflight_row] es)
    = (Inr (), import_db [import_approved] [import_plan_row] [import_preflight_row] (es @ [e']))"
    unfolding add_import_event_def insert_import_event_def modifyH_def by (simp add: row_add_def)
  have save: "save_import_request import_approved ?s
      = (Inr (), import_db [import_approved] [import_plan_row] [import_preflight_row] es)"
    by (simp add: save_import_request_eval import_reviewed_simps import_approved_simps row_get_def row_put_def
        import_requests_clash_def)
  have wrote: "write_decision sealed_lib import_reviewed import_approved ''MEDIA_IMPORT_PLAN_ONLY_APPROVED'' ''admin'' ?d ?s
      = (Inr import_approved, import_db [import_approved] [import_plan_row] [import_preflight_row] (es @ [e']))"
    unfolding write_decision_def import_reviewed_simps
    by (subst bindH_eval(1), rule save, subst bindH_eval(1), rule ev) (simp add: returnH_def)
  have "latest_preflight ''q1'' ?s = Some import_preflight_row"
    by (simp add: latest_preflight_def import_preflight_row_simps)
  then have "approve_media_import_request sealed_lib ''q1'' import_decision example_settings ''admin'' 0 ?s
      = write_decision sealed_lib import_reviewed import_approved ''MEDIA_IMPORT_PLAN_ONLY_APPROVED'' ''admin'' ?d ?s"
    unfolding approve_media_import_request_def get_media_import_request_def get_import_plan_def get_import_preflight_def
    by (simp add: import_gate run_handlers import_reviewed_simps plan_of_request_def import_plan_row_simps(3,5)
        import_approvable import_load import_ready import_summary_run import_approved_def [symmetric])
      (simp add: import_decision_def)
  with wrote show ?thesis by auto
qed

section \<open>The run\<close>

lemma import_run_reachable:
  "\<exists>es. import_reachable sealed_lib (import_db [import_approved] [import_plan_row] [import_preflight_row] es)"
proof -
  obtain e where "create_media_import_request sealed_lib import_proposal example_settings ''admin'' 0 ''q1'' ''ip1'' (import_db [] [] [] [])
    = (Inr (import_row, import_plan_row), import_db [import_row] [import_plan_row] [] [e])" using import_created by blast
  then have 1: "import_step sealed_lib (import_db [] [] [] []) (import_db [import_row] [import_plan_row] [] [e])"
    using import_documents_ok(1) by (rule import_step.create)
  obtain e' where "record_media_import_preflight sealed_lib ''q1'' import_inspection example_settings ''admin'' 0 ''ic1''
      (import_db [import_row] [import_plan_row] [] [e])
    = (Inr import_preflight_row, import_db [import_reviewed] [import_plan_row] [import_preflight_row] [e, e'])"
    using import_inspected by blast
  then have 2: "import_step sealed_lib (import_db [import_row] [import_plan_row] [] [e])
      (import_db [import_reviewed] [import_plan_row] [import_preflight_row] [e, e'])"
    using import_documents_ok(2) by (rule import_step.inspect)
  obtain e'' where "approve_media_import_request sealed_lib ''q1'' import_decision example_settings ''admin'' 0
      (import_db [import_reviewed] [import_plan_row] [import_preflight_row] [e, e'])
    = (Inr import_approved, import_db [import_approved] [import_plan_row] [import_preflight_row] ([e, e'] @ [e'']))"
    using import_approves by blast
  then have 3: "import_step sealed_lib (import_db [import_reviewed] [import_plan_row] [import_preflight_row] [e, e'])
      (import_db [import_approved] [import_plan_row] [import_preflight_row] ([e, e'] @ [e'']))"
    by (rule import_step.approve)
  have "(import_step sealed_lib)\<^sup>*\<^sup>* (import_db [] [] [] []) (import_db [import_row] [import_plan_row] [] [e])"
    by (rule r_into_rtranclp) (rule 1)
  then have "(import_step sealed_lib)\<^sup>*\<^sup>* (import_db [] [] [] [])
      (import_db [import_reviewed] [import_plan_row] [import_preflight_row] [e, e'])"
    using 2 by (rule rtranclp.rtrancl_into_rtrancl)
  then have "(import_step sealed_lib)\<^sup>*\<^sup>* (import_db [] [] [] [])
      (import_db [import_approved] [import_plan_row] [import_preflight_row] ([e, e'] @ [e'']))"
    using 3 by (rule rtranclp.rtrancl_into_rtrancl)
  moreover have "import_initial (import_db [] [] [] [])" by (simp add: import_initial_def import_tables_def)
  ultimately show ?thesis unfolding import_reachable_def by blast
qed

end
