(* ===== verification/ImportProperties.thy ===== *)
theory ImportProperties
  imports ImportRun
begin

text \<open>
  What holds of every media import: how its requests move, what an approval requires, and what an
  approved request rests on.
\<close>

section \<open>Helpers\<close>

lemma same_dict_keys: "same_dict xs ys \<Longrightarrow> set (map fst xs) = set (map fst ys)"
proof -
  have get: "dict_get zs k = None \<longleftrightarrow> k \<notin> fst ` set zs" for zs :: "('a \<times> 'b) list" and k
    by (simp add: dict_get_def map_of_eq_None_iff)
  assume same: "same_dict xs ys"
  have "dict_get xs k = dict_get ys k" if "k \<in> fst ` set xs \<union> fst ` set ys" for k
    using same that by (auto simp: same_dict_def list_all_iff)
  then show ?thesis by (simp add: set_eq_iff) (metis UnI1 UnI2 get)
qed

lemma imports_evolve_steps: "(import_step L)\<^sup>*\<^sup>* s t \<Longrightarrow> imports_evolve s t"
  by (induction rule: rtranclp_induct) (auto intro: importing.refl_R importing.trans_R import_step_evolves)

text \<open>A mapping that was parsed has targets that can all be placed below one root.\<close>

lemma parsed_targets:
  assumes "parse_target_mapping L j = Some tm"
  shows "distinct (proposed_targets tm)" and "no_prefix_collisions (map (path_collision_key L) (proposed_targets tm))"
    and "list_all (normalized_relative_path L) (proposed_targets tm)"
  using parsed_ok(2) [OF assms] unique_paths_equiv [of L "proposed_targets tm"]
  by (auto simp: target_mapping_ok_def proposed_targets_def list_all_iff target_entry_ok_def)

section \<open>The state machine\<close>

text \<open>C7: A media import request moves only along its transitions: whatever operations run, in any order
  and with the rest of the program in between, a stored request stays stored with the same binding to
  its download, its status is one it could reach, each decision column is written at most once, a
  rejected or revoked request never changes again, and plans, preflights and events are only added.\<close>
theorem imports_move_forward:
  assumes "(import_step L)\<^sup>*\<^sup>* s t" and "row_get im_id k (db_import_requests s) = Some r"
  shows "(case row_get im_id k (db_import_requests t) of
        None \<Rightarrow> False
      | Some r' \<Rightarrow> import_identity_ok r r' \<and> im_status r' \<in> set (import_reach (im_status r)) \<and> decisions_once r r'
          \<and> (if im_status r = MI_REJECTED \<or> im_status r = MI_REVOKED then r' = r else True))
    \<and> prefix (db_import_plans s) (db_import_plans t) \<and> prefix (db_import_preflights s) (db_import_preflights t)
    \<and> prefix (db_import_events s) (db_import_events t)"
proof -
  have "imports_evolve s t" by (rule imports_evolve_steps [OF assms(1)])
  then show ?thesis using assms(2) by (force simp: imports_evolve_def rows_kept_def import_moves_def)
qed

lemma imports_move_forward_witness:
  "\<exists>e t. (import_step sealed_lib)\<^sup>*\<^sup>* (import_db [import_reviewed] [import_plan_row] [import_preflight_row] []) t
    \<and> t = import_db [import_approved] [import_plan_row] [import_preflight_row] [e]
    \<and> im_status import_approved \<in> set (import_reach (im_status import_reviewed))"
proof -
  let ?s = "import_db [import_reviewed] [import_plan_row] [import_preflight_row] []"
  obtain e where "approve_media_import_request sealed_lib ''q1'' import_decision example_settings ''admin'' 0 ?s
    = (Inr import_approved, import_db [import_approved] [import_plan_row] [import_preflight_row] ([] @ [e]))"
    using import_approves by blast
  then have step: "import_step sealed_lib ?s (import_db [import_approved] [import_plan_row] [import_preflight_row] ([] @ [e]))"
    by (rule import_step.approve)
  have go: "(import_step sealed_lib)\<^sup>*\<^sup>* ?s (import_db [import_approved] [import_plan_row] [import_preflight_row] [e])"
    by (rule r_into_rtranclp) (use step in simp)
  have "row_get im_id ''q1'' (db_import_requests ?s) = Some import_reviewed"
    by (simp add: row_get_def import_reviewed_simps)
  from imports_move_forward [OF go this]
  have "im_status import_approved \<in> set (import_reach (im_status import_reviewed))"
    by (simp add: row_get_def import_approved_simps)
  with go show ?thesis by blast
qed

text \<open>C11: In every reachable store a download has at most one media import that is not yet rejected or
  revoked, and a request has at most one plan.\<close>
theorem one_import_per_download:
  assumes "import_reachable L s"
    and "a \<in> set (db_import_requests s)" and "b \<in> set (db_import_requests s)"
    and "active_import a" and "active_import b" and "im_download_job_id a = im_download_job_id b"
  shows "a = b \<and> distinct (map ip_request_id (db_import_plans s))"
proof -
  have ok: "imports_ok L s" by (rule import_reachable_ok [OF assms(1)])
  then have "\<not> import_requests_clash a b" and ids: "distinct (map im_id (db_import_requests s))"
    using assms(2,3) by (auto simp: imports_ok_def import_requests_ok_def list_all_iff list_ex_iff)
  then have "im_id a = im_id b" using assms(4-6) by (simp add: import_requests_clash_def)
  then have "a = b" using ids assms(2,3) by (auto simp: distinct_map inj_on_def)
  with ok show ?thesis by (simp add: imports_ok_def)
qed

lemma one_import_per_download_witness:
  "\<exists>s. import_reachable sealed_lib s \<and> db_import_requests s = [import_approved]
    \<and> active_import import_approved \<and> distinct (map ip_request_id (db_import_plans s))"
proof -
  obtain es where r: "import_reachable sealed_lib (import_db [import_approved] [import_plan_row] [import_preflight_row] es)"
    using import_run_reachable by blast
  have act: "active_import import_approved"
    by (simp add: active_import_def active_import_statuses_def import_approved_simps)
  show ?thesis
    using one_import_per_download [OF r _ _ act act] r act by auto
qed

section \<open>Approval\<close>

text \<open>C12: What an approval requires: it succeeds only for a request under review whose newest preflight is
  passable, was made for the stored plan and is not too old, when the three undertakings were given,
  the download is complete, seeding or finished, unchanged since the plan was made, and its seeding
  duty is satisfied or acknowledged; then exactly this request becomes approved.\<close>
theorem import_approval_requires:
  assumes "approve_media_import_request L k d st raw now s = (Inr r', t)"
  shows "\<exists>r p c i b js actor. row_get im_id k (db_import_requests s) = Some r \<and> im_status r = MI_REVIEW_REQUIRED
    \<and> plan_of_request (im_id r) s = Some p \<and> verify_media_import_plan L p r = Inr p
    \<and> latest_preflight (im_id r) s = Some c \<and> verify_media_import_preflight L c p = Inr c
    \<and> passable (ic_overall_status c)
    \<and> parse_inspection L (ic_inspection_snapshot c) = Some i \<and> preflight_current st i c now \<and> acknowledged d
    \<and> load_bound_entities L (im_download_job_id r) s = (Inr b, s) \<and> require_download_ready L b = Inr ()
    \<and> job_summary_snapshot L b = Inr js \<and> canonical_hash L (job_summary_json L js) = ip_summary_snapshot_hash p
    \<and> (dj_hnr_status (bo_job b) = HNR_SATISFIED \<or> ma_acknowledges_hnr d)
    \<and> r' = approved_import r d actor now
    \<and> db_import_requests t = row_put im_id r' (db_import_requests s)"
  using assms
proof (rule approve_import_run)
  fix r p c b js actor
  assume r: "row_get im_id k (db_import_requests s) = Some r" "im_status r = MI_REVIEW_REQUIRED"
    and p: "plan_of_request (im_id r) s = Some p" and c: "latest_preflight (im_id r) s = Some c"
    and a: "require_approvable L r p c d st now = Inr ()"
    and b: "load_bound_entities L (im_download_job_id r) s = (Inr b, s)" "require_download_ready L b = Inr ()"
      "job_summary_snapshot L b = Inr js" "canonical_hash L (job_summary_json L js) = ip_summary_snapshot_hash p"
      "dj_hnr_status (bo_job b) = HNR_SATISFIED \<or> ma_acknowledges_hnr d"
    and w: "write_decision L r (approved_import r d actor now) ''MEDIA_IMPORT_PLAN_ONLY_APPROVED'' actor
      (approval_event_details p c d) s = (Inr r', t)"
  have v: "verify_media_import_plan L p r = Inr p" "verify_media_import_preflight L c p = Inr c"
    using a by (auto simp: require_approvable_def verify_media_import_plan_def verify_media_import_preflight_def result_simps)
  obtain i where i: "parse_inspection L (ic_inspection_snapshot c) = Some i" "preflight_current st i c now"
    "passable (ic_overall_status c)" "acknowledged d"
    using a by (auto simp: require_approvable_def result_simps)
  have "r' = approved_import r d actor now" "db_import_requests t = row_put im_id r' (db_import_requests s)"
    using write_decision_run [OF w] by auto
  with r p c v i b show ?thesis by blast
qed

lemma import_approval_requires_witness:
  "\<exists>p c i. latest_preflight ''q1'' (import_db [import_reviewed] [import_plan_row] [import_preflight_row] []) = Some c
    \<and> plan_of_request ''q1'' (import_db [import_reviewed] [import_plan_row] [import_preflight_row] []) = Some p
    \<and> passable (ic_overall_status c) \<and> parse_inspection sealed_lib (ic_inspection_snapshot c) = Some i
    \<and> preflight_current example_settings i c 0 \<and> acknowledged import_decision"
proof -
  let ?s = "import_db [import_reviewed] [import_plan_row] [import_preflight_row] []"
  obtain e where "approve_media_import_request sealed_lib ''q1'' import_decision example_settings ''admin'' 0 ?s
    = (Inr import_approved, import_db [import_approved] [import_plan_row] [import_preflight_row] ([] @ [e]))"
    using import_approves by blast
  from import_approval_requires [OF this] show ?thesis
    by (auto simp: row_get_def import_reviewed_simps)
qed

text \<open>C6: An approved media import rests on an inspection that found nothing in the way: in every reachable
  store the request has a stored plan and a preflight of it whose inspection saw exactly the proposed
  source files, each present, regular, no link and complete, and exactly the mapped targets, none of
  them present; the operation was possible there, and the targets are different, none lies inside
  another, and each stays below its root. Later operations never take this away.\<close>
theorem approved_import_is_safe:
  assumes "import_reachable L s" and "r \<in> set (db_import_requests s)" and "once_approved r"
  shows "\<exists>p c i sm tm needed. p \<in> set (db_import_plans s) \<and> ip_request_id p = im_id r
    \<and> c \<in> set (db_import_preflights s) \<and> ic_request_id c = im_id r \<and> ic_plan_id c = ip_id p
    \<and> ic_inspection_snapshot c = inspection_json L i \<and> inspection_ok L i
    \<and> parse_source_manifest L (ip_source_manifest p) = Some sm \<and> parse_target_mapping L (ip_target_mapping p) = Some tm
    \<and> set (map fst (inspected_sources i)) = set (map fst (proposed_sources sm))
    \<and> list_all (\<lambda>f. is_exists f \<and> is_regular_file f \<and> \<not> is_symlink f \<and> is_complete f) (in_source_files i)
    \<and> set (inspected_targets i) = set (proposed_targets tm) \<and> list_all (\<lambda>f. \<not> it_exists f) (in_target_files i)
    \<and> required_bytes sm tm = Inr needed \<and> operation_possible (ip_proposed_operation p) i needed
    \<and> distinct (proposed_targets tm) \<and> no_prefix_collisions (map (path_collision_key L) (proposed_targets tm))
    \<and> list_all (normalized_relative_path L) (proposed_targets tm)"
proof -
  have ok: "imports_ok L s" by (rule import_reachable_ok [OF assms(1)])
  obtain c where c: "c \<in> set (db_import_preflights s)" "ic_request_id c = im_id r" "passable (ic_overall_status c)"
    using ok assms(2,3) by (auto simp: imports_ok_def list_all_iff approval_backed_def)
  then have "preflight_sound L (db_import_plans s) c" using ok by (simp add: imports_ok_def list_all_iff)
  then obtain p i sm tm needed where p: "p \<in> set (db_import_plans s)" "ip_request_id p = ic_request_id c" "ip_id p = ic_plan_id c"
    and i: "ic_inspection_snapshot c = inspection_json L i" "inspection_ok L i"
    and docs: "parse_source_manifest L (ip_source_manifest p) = Some sm" "parse_target_mapping L (ip_target_mapping p) = Some tm"
      "required_bytes sm tm = Inr needed"
    and safe: "inspection_safe sm tm i" "operation_possible (ip_proposed_operation p) i needed"
    using c(3) unfolding preflight_sound_def by blast
  have "list_all (\<lambda>f. is_exists f \<and> is_regular_file f \<and> \<not> is_symlink f \<and> is_complete f) (in_source_files i)"
    "list_all (\<lambda>f. \<not> it_exists f) (in_target_files i)" "set (inspected_targets i) = set (proposed_targets tm)"
    using safe(1) by (auto simp: inspection_safe_def list_all_iff safe_source_def target_binding_def)
  moreover have "set (map fst (inspected_sources i)) = set (map fst (proposed_sources sm))"
    using safe(1) by (intro same_dict_keys) (simp add: inspection_safe_def source_binding_def)
  ultimately show ?thesis
    using c(1,2) p i docs safe(2) parsed_targets [OF docs(2)]
    by (intro exI [of _ p] exI [of _ c] exI [of _ i] exI [of _ sm] exI [of _ tm] exI [of _ needed] conjI) simp_all
qed

lemma approved_import_is_safe_witness:
  "\<exists>s i. import_reachable sealed_lib s \<and> import_approved \<in> set (db_import_requests s)
    \<and> ic_inspection_snapshot import_preflight_row = inspection_json sealed_lib i
    \<and> list_all (\<lambda>f. \<not> it_exists f) (in_target_files i)"
proof -
  obtain es where r: "import_reachable sealed_lib (import_db [import_approved] [import_plan_row] [import_preflight_row] es)"
    using import_run_reachable by blast
  have "once_approved import_approved" by (simp add: once_approved_def import_approved_simps)
  with approved_import_is_safe [OF r, of import_approved] r show ?thesis by auto
qed

section \<open>What is stored\<close>

text \<open>C13: The plan a creation stores is well formed: its documents parse back to the proposal and to the
  summary of the download, its four digests match, and it is bound to the request created with it, so the
  verification every later operation starts with accepts it.\<close>
theorem created_plan_is_verified:
  assumes "create_media_import_request L c st raw now nid pnid s = (Inr (r, p), t)"
    and "import_create_ok L c" and "aware_stable L"
  shows "verify_media_import_plan L p r = Inr p"
  using assms by (rule created_plan_verifies)

lemma created_plan_is_verified_witness:
  "\<exists>s t. create_media_import_request sealed_lib import_proposal example_settings ''admin'' 0 ''q1'' ''ip1'' s
      = (Inr (import_row, import_plan_row), t)
    \<and> verify_media_import_plan sealed_lib import_plan_row import_row = Inr import_plan_row"
proof -
  obtain e where run: "create_media_import_request sealed_lib import_proposal example_settings ''admin'' 0 ''q1'' ''ip1''
      (import_db [] [] [] []) = (Inr (import_row, import_plan_row), import_db [import_row] [import_plan_row] [] [e])"
    using import_created by blast
  from created_plan_is_verified [OF run import_documents_ok(1) import_stable] run show ?thesis by blast
qed

end
