(* ===== verification/ImportRoutes.thy ===== *)
theory ImportRoutes
  imports ImportProperties
begin

text \<open>
  The answers and transactions of \<open>api/routes/media_imports.py\<close>: a mutation commits before its answer is
  built, and a clash in the database is answered as a conflict. The answer verifies what it shows.
\<close>

section \<open>The answer\<close>

record plan_view =
  pv_row :: import_plan
  pv_content :: plan_content

record preflight_view =
  cv_row :: import_preflight
  cv_result :: import_result

record import_view =
  vw_request :: import_request
  vw_acknowledges_hnr :: "bool option"
  vw_plan :: plan_view
  vw_preflight :: "preflight_view option"
  vw_events :: "import_event list"

text \<open>The digests are declared as 64 hexadecimal digits in the response models.\<close>

definition plan_response :: "lib \<Rightarrow> import_plan \<Rightarrow> exn + plan_view" where
  "plan_response L p =
    bindR (option_or PyValueError (plan_contents L p)) (\<lambda>k.
    bindR (raise_if (\<not> list_all hex64 [ip_source_manifest_hash p, ip_target_mapping_hash p, ip_summary_snapshot_hash p,
      ip_config_fingerprint p, ip_plan_hash p]) PyValueError) (\<lambda>_.
    Inr \<lparr> pv_row = p\<lparr> ip_mode := MEDIA_IMPORT_PLAN_MODE \<rparr>, pv_content = k \<rparr>))"

definition preflight_response :: "lib \<Rightarrow> import_preflight \<Rightarrow> exn + preflight_view" where
  "preflight_response L c =
    bindR (option_or PyValueError (parse_import_result L (ic_result c))) (\<lambda>res.
    bindR (raise_if (\<not> list_all hex64 [ic_inspection_hash c, ic_result_hash c, ic_preflight_hash c,
      ic_config_fingerprint c]) PyValueError) (\<lambda>_.
    Inr \<lparr> cv_row = c, cv_result = res \<rparr>))"

definition shown_preflight :: "lib \<Rightarrow> import_plan \<Rightarrow> import_preflight option \<Rightarrow> exn + preflight_view option" where
  "shown_preflight L p found =
    (case found of
       None \<Rightarrow> Inr None
     | Some c \<Rightarrow>
         bindR (verify_media_import_preflight L c p) (\<lambda>_.
         bindR (preflight_response L c) (\<lambda>v. Inr (Some v))))"

definition shown_acknowledgements :: "lib \<Rightarrow> json option \<Rightarrow> exn + bool option" where
  "shown_acknowledgements L stored =
    (case stored of
       None \<Rightarrow> Inr None
     | Some j \<Rightarrow> bindR (option_or PyValueError (parse_acknowledgements L j)) (\<lambda>h. Inr (Some h)))"

definition media_import_request_response :: "lib \<Rightarrow> import_request \<Rightarrow> import_view session" where
  "media_import_request_response L r =
    bindH (get_import_plan (im_id r)) (\<lambda>p.
    bindH (liftH (verify_media_import_plan L p r)) (\<lambda>_.
    bindH (getH (latest_preflight (im_id r))) (\<lambda>found.
    bindH (liftH (shown_preflight L p found)) (\<lambda>cv.
    bindH (getH (\<lambda>s. filter (\<lambda>e. ie_request_id e = im_id r) (db_import_events s))) (\<lambda>events.
    bindH (liftH (shown_acknowledgements L (im_decision_acknowledgements r))) (\<lambda>ack.
    bindH (liftH (plan_response L p)) (\<lambda>pv.
    returnH \<lparr> vw_request = r, vw_acknowledges_hnr = ack, vw_plan = pv, vw_preflight = cv,
      vw_events = map (\<lambda>e. e\<lparr> ie_sanitized_details := sanitize_details L (ie_sanitized_details e) \<rparr>) events \<rparr>)))))))"

section \<open>Requests\<close>

definition conflict_if_integrity :: "exn \<Rightarrow> exn" where
  "conflict_if_integrity e = (case e of IntegrityErr _ \<Rightarrow> app_err ''MEDIA_IMPORT_REQUEST_CONFLICT'' 409 | _ \<Rightarrow> e)"

definition create_import_request ::
    "lib \<Rightarrow> import_create \<Rightarrow> settings \<Rightarrow> string \<Rightarrow> int \<Rightarrow> string \<Rightarrow> string \<Rightarrow> import_view session" where
  "create_import_request L c st actor now nid plan_nid =
    bindH (transact (catchH (create_media_import_request L c st actor now nid plan_nid)
      (\<lambda>e. raiseH (conflict_if_integrity e)))) (\<lambda>rp.
    media_import_request_response L (fst rp))"

definition get_import_request :: "lib \<Rightarrow> string \<Rightarrow> settings \<Rightarrow> import_view session" where
  "get_import_request L request_id st =
    bindH (liftH (require_media_import_enabled st)) (\<lambda>_.
    bindH (get_media_import_request request_id) (media_import_request_response L))"

definition approve_import_request ::
    "lib \<Rightarrow> string \<Rightarrow> import_approve \<Rightarrow> settings \<Rightarrow> string \<Rightarrow> int \<Rightarrow> import_view session" where
  "approve_import_request L request_id d st actor now =
    bindH (transact (approve_media_import_request L request_id d st actor now)) (media_import_request_response L)"

definition reject_import_request ::
    "lib \<Rightarrow> string \<Rightarrow> string option \<Rightarrow> settings \<Rightarrow> string \<Rightarrow> int \<Rightarrow> import_view session" where
  "reject_import_request L request_id reason st actor now =
    bindH (transact (reject_media_import_request L request_id reason st actor now)) (media_import_request_response L)"

definition revoke_import_request ::
    "lib \<Rightarrow> string \<Rightarrow> string option \<Rightarrow> settings \<Rightarrow> string \<Rightarrow> int \<Rightarrow> import_view session" where
  "revoke_import_request L request_id reason st actor now =
    bindH (transact (revoke_media_import_request L request_id reason st actor now)) (media_import_request_response L)"

section \<open>Requests are steps\<close>

lemma response_reads: "reads (media_import_request_response L r)"
  unfolding reads_def media_import_request_response_def get_import_plan_def
  by (intro leaves.evolves_bind [where F = "\<lambda>s. s"] leaves.evolves_get leaves.evolves_lift leaves.evolves_return)

lemma response_state: "snd (media_import_request_response L r s) = s"
  using response_reads by (auto simp: reads_def evolves_def)

lemma transact_then_response:
  assumes "\<And>x t. m s = (Inr x, t) \<Longrightarrow> import_step L s t"
  shows "import_step L s (snd (bindH (transact m) (\<lambda>x. media_import_request_response L (f x)) s))"
proof (cases "m s")
  case (Pair u t)
  have "import_step L s s" by (rule import_step.elsewhere) simp
  with Pair assms show ?thesis
    by (cases u) (simp_all add: bindH_def transact_def response_state)
qed

lemma create_route_step:
  assumes "import_create_ok L c"
  shows "import_step L s (snd (create_import_request L c st actor now nid plan_nid s))"
  unfolding create_import_request_def
proof (rule transact_then_response)
  fix x t
  assume "catchH (create_media_import_request L c st actor now nid plan_nid)
    (\<lambda>e. raiseH (conflict_if_integrity e)) s = (Inr x, t)"
  then have "create_media_import_request L c st actor now nid plan_nid s = (Inr x, t)"
    by (auto simp: catchH_def raiseH_def split: prod.splits sum.splits)
  then show "import_step L s t" using assms by (rule import_step.create)
qed

lemma decision_route_steps:
  "import_step L s (snd (approve_import_request L k d st actor now s))"
  "import_step L s (snd (reject_import_request L k reason st actor now s))"
  "import_step L s (snd (revoke_import_request L k reason st actor now s))"
  unfolding approve_import_request_def reject_import_request_def revoke_import_request_def
  by (rule transact_then_response [where f = "\<lambda>x. x"]; erule import_step.intros)+

end
