(* ===== verification/Base64.thy ===== *)
theory Base64
  imports Platform
begin

text \<open>
  The URL-safe alphabet of \<open>base64\<close> as \<open>core/auth.py\<close> uses it: the encoding without padding, and the two
  decoders of \<open>binascii.a2b_base64\<close>, the lenient one behind \<open>urlsafe_b64decode\<close> and the strict one behind
  \<open>b64decode(..., validate=True)\<close>. Texts and bytes are both lists of bytes. What was encoded is decoded
  again by either.
\<close>

section \<open>Encoding\<close>

definition b64_char :: "nat \<Rightarrow> char" where
  "b64_char n =
    (if n < 26 then char_of (n + 65) else if n < 52 then char_of (n + 71) else if n < 62 then char_of (n - 4)
     else if n = 62 then CHR ''-'' else CHR ''_'')"

fun sextets :: "nat list \<Rightarrow> nat list" where
  "sextets (a # b # c # r) =
    (a div 4) # ((a mod 4) * 16 + b div 16) # ((b mod 16) * 4 + c div 64) # (c mod 64) # sextets r"
| "sextets [a, b] = [a div 4, (a mod 4) * 16 + b div 16, (b mod 16) * 4]"
| "sextets [a] = [a div 4, (a mod 4) * 16]"
| "sextets [] = []"

definition bytes_of :: "string \<Rightarrow> nat list" where
  "bytes_of s = map of_char s"

definition b64encode :: "string \<Rightarrow> string" where
  "b64encode s = map b64_char (sextets (bytes_of s))"

section \<open>Decoding\<close>

text \<open>The value of a character; both alphabets are read, since the translation keeps \<open>+\<close> and \<open>/\<close>.\<close>

definition sextet :: "char \<Rightarrow> nat option" where
  "sextet c =
    (let n = of_char c in
     if 65 \<le> n \<and> n \<le> 90 then Some (n - 65) else if 97 \<le> n \<and> n \<le> 122 then Some (n - 71)
     else if 48 \<le> n \<and> n \<le> 57 then Some (n + 4) else if c \<in> {CHR ''-'', CHR ''+''} then Some 62
     else if c \<in> {CHR ''_'', CHR ''/''} then Some 63 else None)"

definition padding :: "string \<Rightarrow> string" where
  "padding s = replicate ((4 - py_len s mod 4) mod 4) (CHR ''='')"

text \<open>
  The loop of \<open>a2b_base64\<close>: the sextets of the current group, the pads seen in it, and in strict mode
  whether padding has begun. None is \<open>binascii.Error\<close>.
\<close>

fun a2b :: "bool \<Rightarrow> nat list \<Rightarrow> nat \<Rightarrow> bool \<Rightarrow> string \<Rightarrow> nat list option" where
  "a2b strict q pads begun [] = (if q = [] then Some [] else None)"
| "a2b strict q pads begun (c # cs) =
    (if c = CHR ''='' then
       (if 2 \<le> length q then
          (if 4 \<le> length q + pads + 1 then (if strict \<and> cs \<noteq> [] then None else Some [])
           else a2b strict q (pads + 1) True cs)
        else a2b strict q pads True cs)
     else case sextet c of
       None \<Rightarrow> if strict then None else a2b strict q pads begun cs
     | Some v \<Rightarrow>
         if strict \<and> begun then None
         else case q of
           [] \<Rightarrow> a2b strict [v] 0 begun cs
         | [x] \<Rightarrow> map_option ((#) (x * 4 + v div 16)) (a2b strict [x, v] 0 begun cs)
         | [x, y] \<Rightarrow> map_option ((#) ((y mod 16) * 16 + v div 4)) (a2b strict [x, y, v] 0 begun cs)
         | x # y # z # _ \<Rightarrow> map_option ((#) ((z mod 4) * 64 + v)) (a2b strict [] 0 begun cs))"

definition a2b_bytes :: "bool \<Rightarrow> string \<Rightarrow> string option" where
  "a2b_bytes strict s =
    (if \<not> ascii_text s \<or> (strict \<and> s \<noteq> [] \<and> hd s = CHR ''='') then None
     else map_option (map char_of) (a2b strict [] 0 False s))"

text \<open>The padding is added before the text is decoded.\<close>

definition urlsafe_b64decode :: "string \<Rightarrow> string option" where
  "urlsafe_b64decode s = a2b_bytes False (s @ padding s)"

definition b64decode_strict :: "string \<Rightarrow> string option" where
  "b64decode_strict s = a2b_bytes True (s @ padding s)"

section \<open>The round trip\<close>

lemma sextet_b64_char: "n < 64 \<Longrightarrow> sextet (b64_char n) = Some n"
  by (auto simp: sextet_def b64_char_def Let_def)

lemma b64_char_not_pad: "n < 64 \<Longrightarrow> b64_char n \<noteq> CHR ''=''"
proof
  assume "n < 64" "b64_char n = CHR ''=''"
  then have "sextet (CHR ''='') = Some n" using sextet_b64_char [of n] by simp
  then show False by (simp add: sextet_def Let_def)
qed

lemma b64_char_step:
  assumes "n < 64"
  shows "a2b strict q pads False (b64_char n # cs) =
    (case q of
       [] \<Rightarrow> a2b strict [n] 0 False cs
     | [x] \<Rightarrow> map_option ((#) (x * 4 + n div 16)) (a2b strict [x, n] 0 False cs)
     | [x, y] \<Rightarrow> map_option ((#) ((y mod 16) * 16 + n div 4)) (a2b strict [x, y, n] 0 False cs)
     | x # y # z # _ \<Rightarrow> map_option ((#) ((z mod 4) * 64 + n)) (a2b strict [] 0 False cs))"
  using assms by (simp add: sextet_b64_char b64_char_not_pad)

lemma sextets_below: "list_all (\<lambda>a. a < 256) bs \<Longrightarrow> list_all (\<lambda>n. n < 64) (sextets bs)"
  by (induction bs rule: sextets.induct) auto

lemma small_div:
  fixes a :: nat
  assumes "a < 256"
  shows "a div 4 < 64" "a div 16 < 16" "a div 64 < 4"
  using assms less_mult_imp_div_less [of a 64 4] less_mult_imp_div_less [of a 16 16] less_mult_imp_div_less [of a 4 64]
  by simp_all

lemma small_sum:
  fixes a b :: nat
  assumes "b < 256"
  shows "(a mod 4) * 16 + b div 16 < 64" "(a mod 16) * 4 + b div 64 < 64"
    "(a mod 4) * 16 < 64" "(a mod 16) * 4 < 64"
proof -
  have "a mod 4 < 4" "a mod 16 < 16" by simp_all
  then show "(a mod 4) * 16 + b div 16 < 64" "(a mod 16) * 4 + b div 64 < 64"
    "(a mod 4) * 16 < 64" "(a mod 16) * 4 < 64"
    using small_div [OF assms] by linarith+
qed

lemma div_div_mod:
  fixes a :: nat
  assumes "a < 256"
  shows "a div 16 div 16 = 0" "a div 16 mod 16 = a div 16" "a div 64 div 4 = 0" "a div 64 mod 4 = a div 64"
  using small_div [OF assms] by simp_all

text \<open>The pads that complete an encoding of so many sextets.\<close>

definition pads_for :: "nat \<Rightarrow> string" where
  "pads_for n = replicate ((4 - n mod 4) mod 4) (CHR ''='')"

lemma pads_for_texts: "pads_for 2 = ''==''" "pads_for 3 = ''=''"
  by code_simp+

lemma a2b_ends:
  "a2b strict [] 0 False [] = Some []" "a2b strict [x, y] 0 False (pads_for 2) = Some []"
  "a2b strict [x, y, z] 0 False (pads_for 3) = Some []"
  by (simp_all add: pads_for_texts)

lemma a2b_sextets:
  "list_all (\<lambda>a. a < 256) bs \<Longrightarrow>
    a2b strict [] 0 False (map b64_char (sextets bs) @ pads_for (length (sextets bs))) = Some bs"
proof (induction bs rule: sextets.induct)
  case (1 a b c r)
  have "a < 256" "b < 256" "c < 256" using 1(2) by simp_all
  then have lt: "a div 4 < 64" "(a mod 4) * 16 + b div 16 < 64" "(b mod 16) * 4 + c div 64 < 64" "c mod 64 < 64"
    by (simp_all add: small_div small_sum)
  have pads: "pads_for (Suc (Suc (Suc (Suc (length (sextets r)))))) = pads_for (length (sextets r))"
    by (simp add: pads_for_def)
  from 1 show ?case
    by (simp add: b64_char_step lt pads div_div_mod del: a2b.simps)
next
  case (2 a b)
  have "a < 256" "b < 256" using 2 by simp_all
  then have lt: "a div 4 < 64" "(a mod 4) * 16 + b div 16 < 64" "(b mod 16) * 4 < 64"
    using small_sum(4) [of b b] by (simp_all add: small_div small_sum)
  have two: "(b div 16) * 16 + b mod 16 = b" by simp
  from 2 show ?case
    by (simp add: b64_char_step lt two div_div_mod a2b_ends flip: numeral_3_eq_3 del: a2b.simps)
next
  case (3 a)
  have lt: "a div 4 < 64" "(a mod 4) * 16 < 64" by (use 3 small_sum(3) [of a a] in \<open>simp_all add: small_div\<close>)
  from 3 show ?case by (simp add: b64_char_step lt a2b_ends flip: numeral_2_eq_2 del: a2b.simps)
next
  case 4
  show ?case by (simp add: pads_for_def)
qed

lemma byte_nat: "byte c = int (of_char c)"
  by (simp add: byte_def of_nat_of_char)

lemma sextet_ascii: "sextet c = Some n \<Longrightarrow> byte c < 0x80"
  by (auto simp: byte_nat sextet_def Let_def split: if_splits)

lemma b64_char_ascii: "n < 64 \<Longrightarrow> byte (b64_char n) < 0x80"
  by (rule sextet_ascii [OF sextet_b64_char])

lemma b64encode_ascii: "ascii_text (b64encode s)"
proof -
  have "list_all (\<lambda>n. n < 64) (sextets (bytes_of s))"
    by (rule sextets_below) (simp add: bytes_of_def list_all_iff)
  then show ?thesis by (auto simp: ascii_text_def b64encode_def list_all_iff intro: b64_char_ascii)
qed

lemma py_len_ascii: "ascii_text s \<Longrightarrow> py_len s = length s"
  by (simp add: py_len_def ascii_text_def list_all_iff chars_ascii)

lemma b64_hd_not_pad: "s \<noteq> [] \<Longrightarrow> hd (b64encode s @ p) \<noteq> CHR ''='' \<and> b64encode s \<noteq> []"
proof -
  assume "s \<noteq> []"
  then obtain n ns where ns: "sextets (bytes_of s) = n # ns"
    by (cases "bytes_of s" rule: sextets.cases) (auto simp: bytes_of_def)
  have "list_all (\<lambda>n. n < 64) (sextets (bytes_of s))"
    by (rule sextets_below) (simp add: bytes_of_def list_all_iff)
  with ns show ?thesis by (simp add: b64encode_def b64_char_not_pad)
qed

lemma b64_decode_encode: "a2b_bytes strict (b64encode s @ padding (b64encode s)) = Some s"
proof -
  have pad: "padding (b64encode s) = pads_for (length (sextets (bytes_of s)))"
    using b64encode_ascii [of s] by (simp add: padding_def pads_for_def py_len_ascii b64encode_def)
  have bytes: "list_all (\<lambda>a. a < 256) (bytes_of s)" by (simp add: bytes_of_def list_all_iff)
  have ascii: "ascii_text (b64encode s @ padding (b64encode s))"
    using b64encode_ascii [of s] by (auto simp: ascii_text_def padding_def byte_def list_all_iff set_replicate_conv_if)
  have lead: "b64encode s @ padding (b64encode s) = [] \<or> hd (b64encode s @ padding (b64encode s)) \<noteq> CHR ''=''"
  proof (cases "s = []")
    case True
    then show ?thesis by (simp add: b64encode_def bytes_of_def padding_def py_len_def)
  next
    case False
    then show ?thesis using b64_hd_not_pad by blast
  qed
  have "a2b strict [] 0 False (b64encode s @ padding (b64encode s)) = Some (bytes_of s)"
    unfolding pad unfolding b64encode_def by (rule a2b_sextets [OF bytes])
  then show ?thesis
    using ascii lead by (auto simp: a2b_bytes_def bytes_of_def comp_def)
qed

lemma b64_round_trip [simp]: "urlsafe_b64decode (b64encode s) = Some s" "b64decode_strict (b64encode s) = Some s"
  by (simp_all add: urlsafe_b64decode_def b64decode_strict_def b64_decode_encode)

lemma b64_no_dot: "CHR ''.'' \<notin> set (b64encode s)" "CHR ''$'' \<notin> set (b64encode s)"
proof -
  have "list_all (\<lambda>n. n < 64) (sextets (bytes_of s))"
    by (rule sextets_below) (simp add: bytes_of_def list_all_iff)
  moreover have dot: "b64_char n \<noteq> CHR ''.''" "b64_char n \<noteq> CHR ''$''" if "n < 64" for n
    using sextet_b64_char [OF that] by (auto simp: sextet_def)
  ultimately show "CHR ''.'' \<notin> set (b64encode s)" "CHR ''$'' \<notin> set (b64encode s)"
    by (force simp: b64encode_def list_all_iff)+
qed

lemma b64_examples:
  "b64encode ''hello?'' = ''aGVsbG8_''" "b64encode ''hi'' = ''aGk''" "urlsafe_b64decode ''a.G.k'' = Some ''hi''"
  "urlsafe_b64decode ''a'' = None" "b64decode_strict ''a.G.k'' = None"
  by code_simp+

end
