(* ===== verification/RuntimeConfig.thy ===== *)
theory RuntimeConfig
  imports Preflight
begin

text \<open>
  The local configuration an operator edits (\<open>core/runtime_config.py\<close>, \<open>core/config.py\<close>,
  \<open>schemas/configuration.py\<close>): the record of the administrator and the connections to NextFind, TMDB, a
  PT site and qBittorrent, each in a JSON file. The two files are a state; what the operating system
  answers to a write is an argument. A helper that raises \<open>ValueError\<close> or \<open>TypeError\<close> returns None.
\<close>

section \<open>Errors and files\<close>

datatype config_error =
    RuntimeConfigError
  | RuntimeConfigAlreadyInitialized
  | RuntimeConfigValidationError
  | ConfigValueError
  | ConfigOSError

text \<open>
  A file is absent, holds a JSON value, or cannot be used: its status or text cannot be read, it is
  larger than the limit, or it is not JSON.
\<close>

datatype stored_file = Missing | Unusable | Document json

record config_files =
  auth_file :: stored_file
  integrations_file :: stored_file

text \<open>
  A write ends well, fails before the file is replaced, fails after (\<open>chmod\<close> or \<open>fsync\<close> of the directory), or
  its private directory cannot be made.
\<close>

datatype write_outcome = Written | Failed_before | Failed_after | No_directory

definition MAX_CONFIG_BYTES :: nat where "MAX_CONFIG_BYTES = 65536"

definition fits :: "json \<Rightarrow> bool" where
  "fits payload \<longleftrightarrow> length (dumps payload) \<le> MAX_CONFIG_BYTES"

text \<open>\<open>_read_json_object\<close>: the members of the object in the file.\<close>

definition read_json_object :: "stored_file \<Rightarrow> (string \<times> json) list option" where
  "read_json_object f = (case f of Document j \<Rightarrow> dec_obj j | _ \<Rightarrow> None)"

section \<open>Values\<close>

definition control_free :: "string \<Rightarrow> bool" where
  "control_free s \<longleftrightarrow> \<not> list_ex (\<lambda>c. byte c < 32 \<or> byte c = 127) s"

definition clean_text :: "nat \<Rightarrow> string \<Rightarrow> bool" where
  "clean_text maximum s \<longleftrightarrow> s = strip s \<and> py_len s \<le> maximum \<and> control_free s"

definition single_line :: "nat \<Rightarrow> json \<Rightarrow> string option" where
  "single_line maximum j = do {
     s \<leftarrow> dec_str j;
     check (s \<noteq> [] \<and> clean_text maximum s);
     Some s }"

text \<open>\<open>payload.get(k)\<close> of a decoded object; a missing key and null are the same here.\<close>

definition dict_value :: "(string \<times> json) list \<Rightarrow> string \<Rightarrow> json" where
  "dict_value kvs k = (case map_of kvs k of None \<Rightarrow> JNull | Some j \<Rightarrow> j)"

definition stored_optional_string :: "json \<Rightarrow> nat \<Rightarrow> string option option" where
  "stored_optional_string j maximum =
    (case j of
       JNull \<Rightarrow> Some None
     | JStr s \<Rightarrow> if clean_text maximum s then Some (Some s) else None
     | _ \<Rightarrow> None)"

definition stored_required_string :: "json \<Rightarrow> nat \<Rightarrow> string option" where
  "stored_required_string j maximum = do {
     stored \<leftarrow> stored_optional_string j maximum;
     s \<leftarrow> stored;
     check (s \<noteq> []);
     Some s }"

text \<open>\<open>value == n\<close>, true of the integer, of an equal float and, for 0 and 1, of a boolean.\<close>

definition equals_int :: "lib \<Rightarrow> json \<Rightarrow> int \<Rightarrow> bool" where
  "equals_int L j n \<longleftrightarrow>
    (case j of
       JInt i \<Rightarrow> i = n
     | JBool b \<Rightarrow> (if b then 1 else 0) = n
     | JFloat r \<Rightarrow> finite_text r \<and> float_val L r = of_int n
     | _ \<Rightarrow> False)"

definition optional_public_update ::
    "(string \<times> json) list \<Rightarrow> string \<Rightarrow> string option \<Rightarrow> nat \<Rightarrow> string option option" where
  "optional_public_update values key current maximum =
    (case map_of values key of
       None \<Rightarrow> Some current
     | Some (JStr s) \<Rightarrow> if clean_text maximum s then Some (Some s) else None
     | Some _ \<Rightarrow> None)"

definition required_public :: "(string \<times> json) list \<Rightarrow> string \<Rightarrow> nat \<Rightarrow> string option" where
  "required_public values key maximum = do {
     v \<leftarrow> optional_public_update values key None maximum;
     s \<leftarrow> v;
     check (s \<noteq> []);
     Some s }"

definition optional_secret_update ::
    "(string \<times> json) list \<Rightarrow> string \<Rightarrow> string option \<Rightarrow> string option option" where
  "optional_secret_update values key current =
    (case map_of values key of
       None \<Rightarrow> Some current
     | Some j \<Rightarrow> if j = JNull \<or> j = JStr [] then Some current else map_option Some (single_line 8192 j))"

section \<open>Addresses\<close>

definition validate_https_origin :: "lib \<Rightarrow> string \<Rightarrow> string option" where
  "validate_https_origin L s = do {
     u \<leftarrow> urlsplit L s;
     p \<leftarrow> (case port u of Inl _ \<Rightarrow> None | Inr p \<Rightarrow> Some p);
     check (casefold L (scheme u) = ''https'' \<and> hostname L u \<noteq> [] \<and> username u = None \<and> password u = None
       \<and> query u = [] \<and> fragment u = [] \<and> url_path u \<in> {[], ''/''} \<and> opt_ok (\<lambda>n. 1 \<le> n \<and> n \<le> 65535) p);
     Some (rstrip_slash s) }"

definition url_host :: "lib \<Rightarrow> string \<Rightarrow> string option" where
  "url_host L s = do {
     v \<leftarrow> validate_https_origin L s;
     u \<leftarrow> urlsplit L v;
     check (hostname L u \<noteq> []);
     Some (casefold L (hostname L u)) }"

definition truthy_text :: "string option \<Rightarrow> bool" where
  "truthy_text s \<longleftrightarrow> \<not> falsy_str s"

definition validate_qb_url :: "lib \<Rightarrow> string option \<Rightarrow> bool \<Rightarrow> bool" where
  "validate_qb_url L s allow \<longleftrightarrow>
    (if falsy_str s then True
     else case urlsplit L (the s) of
       None \<Rightarrow> False
     | Some u \<Rightarrow> scheme u \<in> set (if allow then [''https'', ''http''] else [''https'']) \<and> hostname L u \<noteq> []
         \<and> \<not> truthy_text (username u) \<and> \<not> truthy_text (password u) \<and> query u = [] \<and> fragment u = [])"

section \<open>The configuration\<close>

datatype site_architecture = SA_AVISTAZ | SA_NEXUSPHP

primrec site_architecture_value :: "site_architecture \<Rightarrow> string" where
  "site_architecture_value SA_AVISTAZ = ''avistaz''"
| "site_architecture_value SA_NEXUSPHP = ''nexusphp''"

record runtime_site =
  rs_architecture :: site_architecture
  rs_base_url :: string
  rs_site_id :: string
  rs_display_name :: string
  rs_username :: "string option"
  rs_password :: "string option"
  rs_pid :: "string option"
  rs_cookie :: "string option"
  rs_passkey :: "string option"

definition site_configured :: "runtime_site \<Rightarrow> bool" where
  "site_configured s \<longleftrightarrow>
    (case rs_architecture s of
       SA_AVISTAZ \<Rightarrow> rs_base_url s \<noteq> [] \<and> truthy_text (rs_username s) \<and> truthy_text (rs_password s) \<and> truthy_text (rs_pid s)
     | SA_NEXUSPHP \<Rightarrow> rs_site_id s \<noteq> [] \<and> rs_display_name s \<noteq> [] \<and> rs_base_url s \<noteq> [] \<and> truthy_text (rs_cookie s))"

definition site_runtime_supported :: "runtime_site \<Rightarrow> bool" where
  "site_runtime_supported s \<longleftrightarrow> rs_architecture s = SA_AVISTAZ"

record runtime_configuration =
  rc_nextfind_base_url :: "string option"
  rc_nextfind_username :: "string option"
  rc_nextfind_password :: "string option"
  rc_tmdb_token :: "string option"
  rc_pt_site_architecture :: "site_architecture option"
  rc_avistaz_site :: "runtime_site option"
  rc_nexusphp_site :: "runtime_site option"
  rc_qb_url :: "string option"
  rc_qb_username :: "string option"
  rc_qb_password :: "string option"
  rc_qb_save_path :: "string option"
  rc_qb_category :: "string option"
  rc_qb_allow_insecure_http :: "bool option"

definition empty_configuration :: runtime_configuration where
  "empty_configuration = \<lparr> rc_nextfind_base_url = None, rc_nextfind_username = None, rc_nextfind_password = None,
     rc_tmdb_token = None, rc_pt_site_architecture = None, rc_avistaz_site = None, rc_nexusphp_site = None,
     rc_qb_url = None, rc_qb_username = None, rc_qb_password = None, rc_qb_save_path = None, rc_qb_category = None,
     rc_qb_allow_insecure_http = None \<rparr>"

definition active_pt_site :: "runtime_configuration \<Rightarrow> runtime_site option" where
  "active_pt_site c =
    (case rc_pt_site_architecture c of
       None \<Rightarrow> None | Some SA_AVISTAZ \<Rightarrow> rc_avistaz_site c | Some SA_NEXUSPHP \<Rightarrow> rc_nexusphp_site c)"

definition nextfind_identity_set :: "runtime_configuration \<Rightarrow> bool" where
  "nextfind_identity_set c \<longleftrightarrow> rc_nextfind_base_url c \<noteq> None \<or> rc_nextfind_username c \<noteq> None"

definition qb_identity_set :: "runtime_configuration \<Rightarrow> bool" where
  "qb_identity_set c \<longleftrightarrow> rc_qb_url c \<noteq> None \<or> rc_qb_username c \<noteq> None"

section \<open>Updates\<close>

text \<open>An update is a dictionary of groups, each a dictionary of texts, booleans and nulls.\<close>

type_synonym updates = "(string \<times> (string \<times> json) list) list"

definition update_group :: "updates \<Rightarrow> string \<Rightarrow> (string \<times> json) list" where
  "update_group ups k = (case map_of ups k of None \<Rightarrow> [] | Some g \<Rightarrow> g)"

text \<open>A secret is kept only with what it was entered for.\<close>

definition kept_if :: "bool \<Rightarrow> string option \<Rightarrow> string option" where
  "kept_if same secret = (if same then secret else None)"

definition merge_avistaz :: "lib \<Rightarrow> runtime_site option \<Rightarrow> (string \<times> json) list \<Rightarrow> runtime_site option" where
  "merge_avistaz L current up = do {
     raw \<leftarrow> required_public up ''base_url'' 2048;
     base_url \<leftarrow> validate_https_origin L raw;
     user \<leftarrow> required_public up ''username'' 120;
     let same = (case current of None \<Rightarrow> False | Some s \<Rightarrow> rs_base_url s = base_url \<and> rs_username s = Some user);
     pw \<leftarrow> optional_secret_update up ''password'' (kept_if same (Option.bind current rs_password));
     pid \<leftarrow> optional_secret_update up ''pid'' (kept_if same (Option.bind current rs_pid));
     Some \<lparr> rs_architecture = SA_AVISTAZ, rs_base_url = base_url, rs_site_id = ''avistaz'', rs_display_name = ''AvistaZ'',
       rs_username = Some user, rs_password = pw, rs_pid = pid, rs_cookie = None, rs_passkey = None \<rparr> }"

definition merge_nexusphp :: "lib \<Rightarrow> runtime_site option \<Rightarrow> (string \<times> json) list \<Rightarrow> runtime_site option" where
  "merge_nexusphp L current up = do {
     site_id \<leftarrow> required_public up ''site_id'' 24;
     check (site_id_ok site_id);
     display \<leftarrow> required_public up ''display_name'' 100;
     raw \<leftarrow> required_public up ''base_url'' 2048;
     base_url \<leftarrow> validate_https_origin L raw;
     let same = (case current of None \<Rightarrow> False | Some s \<Rightarrow> rs_site_id s = site_id \<and> rs_base_url s = base_url);
     ck \<leftarrow> optional_secret_update up ''cookie'' (kept_if same (Option.bind current rs_cookie));
     pk \<leftarrow> optional_secret_update up ''passkey'' (kept_if same (Option.bind current rs_passkey));
     Some \<lparr> rs_architecture = SA_NEXUSPHP, rs_base_url = base_url, rs_site_id = site_id, rs_display_name = display,
       rs_username = None, rs_password = None, rs_pid = None, rs_cookie = ck, rs_passkey = pk \<rparr> }"

definition merge_pt_sites ::
    "lib \<Rightarrow> runtime_configuration \<Rightarrow> (string \<times> json) list option
      \<Rightarrow> (site_architecture option \<times> runtime_site option \<times> runtime_site option) option" where
  "merge_pt_sites L c up =
    (case up of
       None \<Rightarrow> Some (rc_pt_site_architecture c, rc_avistaz_site c, rc_nexusphp_site c)
     | Some values \<Rightarrow>
         if dict_value values ''architecture'' = JStr ''avistaz''
         then map_option (\<lambda>s. (Some SA_AVISTAZ, Some s, rc_nexusphp_site c)) (merge_avistaz L (rc_avistaz_site c) values)
         else if dict_value values ''architecture'' = JStr ''nexusphp''
         then map_option (\<lambda>s. (Some SA_NEXUSPHP, rc_avistaz_site c, Some s)) (merge_nexusphp L (rc_nexusphp_site c) values)
         else None)"

text \<open>\<open>values.get(key, current)\<close> must be a boolean or null.\<close>

definition flag_update :: "(string \<times> json) list \<Rightarrow> string \<Rightarrow> bool option \<Rightarrow> bool option option" where
  "flag_update values key current =
    (case map_of values key of
       None \<Rightarrow> Some current
     | Some JNull \<Rightarrow> Some None
     | Some (JBool b) \<Rightarrow> Some (Some b)
     | Some _ \<Rightarrow> None)"

definition merged_nextfind ::
    "lib \<Rightarrow> runtime_configuration \<Rightarrow> (string \<times> json) list \<Rightarrow> runtime_configuration option" where
  "merged_nextfind L c g = do {
     raw \<leftarrow> optional_public_update g ''base_url'' (rc_nextfind_base_url c) 2048;
     url \<leftarrow> (case raw of None \<Rightarrow> Some None | Some s \<Rightarrow> map_option Some (validate_https_origin L s));
     user \<leftarrow> optional_public_update g ''username'' (rc_nextfind_username c) 120;
     let same = url = rc_nextfind_base_url c \<and> user = rc_nextfind_username c;
     pw \<leftarrow> optional_secret_update g ''password'' (kept_if same (rc_nextfind_password c));
     Some (c\<lparr> rc_nextfind_base_url := url, rc_nextfind_username := user, rc_nextfind_password := pw \<rparr>) }"

definition merged_qb ::
    "lib \<Rightarrow> runtime_configuration \<Rightarrow> (string \<times> json) list \<Rightarrow> runtime_configuration option" where
  "merged_qb L c g = do {
     url \<leftarrow> optional_public_update g ''url'' (rc_qb_url c) 2048;
     user \<leftarrow> optional_public_update g ''username'' (rc_qb_username c) 120;
     let same = url = rc_qb_url c \<and> user = rc_qb_username c;
     pw \<leftarrow> optional_secret_update g ''password'' (kept_if same (rc_qb_password c));
     save_path \<leftarrow> optional_public_update g ''save_path'' (rc_qb_save_path c) 4096;
     category \<leftarrow> optional_public_update g ''category'' (rc_qb_category c) 300;
     allow \<leftarrow> flag_update g ''allow_insecure_http'' (rc_qb_allow_insecure_http c);
     check (validate_qb_url L url (allow = Some True));
     Some (c\<lparr> rc_qb_url := url, rc_qb_username := user, rc_qb_password := pw, rc_qb_save_path := save_path,
       rc_qb_category := category, rc_qb_allow_insecure_http := allow \<rparr>) }"

definition merged :: "lib \<Rightarrow> runtime_configuration \<Rightarrow> updates \<Rightarrow> runtime_configuration option" where
  "merged L c ups = do {
     c1 \<leftarrow> merged_nextfind L c (update_group ups ''nextfind'');
     token \<leftarrow> optional_secret_update (update_group ups ''tmdb'') ''token'' (rc_tmdb_token c);
     sites \<leftarrow> merge_pt_sites L c (map_of ups ''pt_site'');
     let c2 = c1\<lparr> rc_tmdb_token := token, rc_pt_site_architecture := fst sites,
       rc_avistaz_site := fst (snd sites), rc_nexusphp_site := snd (snd sites) \<rparr>;
     merged_qb L c2 (update_group ups ''qbittorrent'') }"

definition merge_configuration ::
    "lib \<Rightarrow> runtime_configuration \<Rightarrow> updates \<Rightarrow> config_error + runtime_configuration" where
  "merge_configuration L c ups =
    bindR (raise_if (\<not> list_all (\<lambda>g. fst g \<in> set [''nextfind'', ''tmdb'', ''pt_site'', ''qbittorrent'']) ups)
      RuntimeConfigError) (\<lambda>_.
    option_or RuntimeConfigValidationError (merged L c ups))"

section \<open>The stored form\<close>

definition pt_site_payload :: "runtime_site \<Rightarrow> json" where
  "pt_site_payload s = JObj
    [(''architecture'', JStr (site_architecture_value (rs_architecture s))),
     (''base_url'', JStr (rs_base_url s)),
     (''site_id'', JStr (rs_site_id s)),
     (''display_name'', JStr (rs_display_name s)),
     (''username'', opt_json JStr (rs_username s)),
     (''password'', opt_json JStr (rs_password s)),
     (''pid'', opt_json JStr (rs_pid s)),
     (''cookie'', opt_json JStr (rs_cookie s)),
     (''passkey'', opt_json JStr (rs_passkey s))]"

definition configuration_payload :: "runtime_configuration \<Rightarrow> json" where
  "configuration_payload c = JObj
    [(''version'', JInt 2),
     (''nextfind'', JObj
       [(''base_url'', opt_json JStr (rc_nextfind_base_url c)),
        (''username'', opt_json JStr (rc_nextfind_username c)),
        (''password'', opt_json JStr (rc_nextfind_password c))]),
     (''tmdb'', JObj [(''token'', opt_json JStr (rc_tmdb_token c))]),
     (''pt_sites'', JObj
       [(''active_architecture'', opt_json (\<lambda>a. JStr (site_architecture_value a)) (rc_pt_site_architecture c)),
        (''avistaz'', opt_json pt_site_payload (rc_avistaz_site c)),
        (''nexusphp'', opt_json pt_site_payload (rc_nexusphp_site c))]),
     (''qbittorrent'', JObj
       [(''url'', opt_json JStr (rc_qb_url c)),
        (''username'', opt_json JStr (rc_qb_username c)),
        (''password'', opt_json JStr (rc_qb_password c)),
        (''save_path'', opt_json JStr (rc_qb_save_path c)),
        (''category'', opt_json JStr (rc_qb_category c)),
        (''allow_insecure_http'', opt_json JBool (rc_qb_allow_insecure_http c))])]"

definition stored_site_of :: "lib \<Rightarrow> site_architecture \<Rightarrow> (string \<times> json) list \<Rightarrow> runtime_site option" where
  "stored_site_of L arch kvs = do {
     check (dict_value kvs ''architecture'' = JStr (site_architecture_value arch));
     raw \<leftarrow> stored_required_string (dict_value kvs ''base_url'') 2048;
     base_url \<leftarrow> validate_https_origin L raw;
     site_id \<leftarrow> stored_required_string (dict_value kvs ''site_id'') 24;
     check (site_id_ok site_id);
     display \<leftarrow> stored_required_string (dict_value kvs ''display_name'') 100;
     user \<leftarrow> stored_optional_string (dict_value kvs ''username'') 120;
     pw \<leftarrow> stored_optional_string (dict_value kvs ''password'') 8192;
     pid \<leftarrow> stored_optional_string (dict_value kvs ''pid'') 8192;
     ck \<leftarrow> stored_optional_string (dict_value kvs ''cookie'') 8192;
     pk \<leftarrow> stored_optional_string (dict_value kvs ''passkey'') 8192;
     Some \<lparr> rs_architecture = arch, rs_base_url = base_url, rs_site_id = site_id, rs_display_name = display,
       rs_username = user, rs_password = pw, rs_pid = pid, rs_cookie = ck, rs_passkey = pk \<rparr> }"

definition stored_pt_site :: "lib \<Rightarrow> site_architecture \<Rightarrow> json \<Rightarrow> runtime_site option option" where
  "stored_pt_site L arch j =
    (if j = JNull then Some None else Option.bind (dec_obj j) (\<lambda>kvs. map_option Some (stored_site_of L arch kvs)))"

definition stored_architecture :: "json \<Rightarrow> site_architecture option option" where
  "stored_architecture j =
    (if j = JNull then Some None else if j = JStr ''avistaz'' then Some (Some SA_AVISTAZ)
     else if j = JStr ''nexusphp'' then Some (Some SA_NEXUSPHP) else None)"

definition stored_flag :: "json \<Rightarrow> bool option option" where
  "stored_flag j = (case j of JNull \<Rightarrow> Some None | JBool b \<Rightarrow> Some (Some b) | _ \<Rightarrow> None)"

section \<open>The settings a configuration overrides\<close>

text \<open>A secret setting: its value, and the file that replaces it, with what reading the file gives (\<open>Inl\<close> is \<open>OSError\<close>).\<close>

record secret_source =
  so_value :: "string option"
  so_file :: "(string \<times> (unit + string)) option"

definition read_secret :: "secret_source \<Rightarrow> unit + string option" where
  "read_secret s =
    (case so_file s of
       None \<Rightarrow> Inr (so_value s)
     | Some (_, Inl e) \<Rightarrow> Inl e
     | Some (_, Inr text) \<Rightarrow> Inr (if strip text = [] then None else Some (strip text)))"

definition plain_secret :: "string option \<Rightarrow> secret_source" where
  "plain_secret v = \<lparr> so_value = v, so_file = None \<rparr>"

record connections =
  cn_nextfind_base_url :: string
  cn_nextfind_allowed_hosts :: "string list"
  cn_nextfind_username :: secret_source
  cn_nextfind_password :: secret_source
  cn_tmdb_access_token :: secret_source
  cn_pt_site_architecture :: site_architecture
  cn_pt_site_id :: string
  cn_pt_site_display_name :: string
  cn_pt_site_runtime_configured :: "bool option"
  cn_pt_site_runtime_supported :: bool
  cn_avistaz_base_url :: string
  cn_avistaz_allowed_hosts :: "string list"
  cn_avistaz_username :: secret_source
  cn_avistaz_password :: secret_source
  cn_avistaz_pid :: secret_source
  cn_qb_base_url :: secret_source
  cn_qb_username :: secret_source
  cn_qb_password :: secret_source
  cn_qb_allowed_hosts :: "string list"
  cn_qb_allow_insecure_http :: bool
  cn_qb_target_save_path :: "string option"
  cn_qb_allowed_save_paths :: "string list"
  cn_qb_target_category :: "string option"

text \<open>Secrets that belong together: all of them, or None.\<close>

definition all_secrets :: "secret_source list \<Rightarrow> unit + string list option" where
  "all_secrets ss =
    bindR (mapR read_secret ss) (\<lambda>vs.
    Inr (if list_ex falsy_str vs then None else Some (map the vs)))"

definition nextfind_credentials :: "connections \<Rightarrow> unit + string list option" where
  "nextfind_credentials st = all_secrets [cn_nextfind_username st, cn_nextfind_password st]"

definition avistaz_credentials :: "connections \<Rightarrow> unit + string list option" where
  "avistaz_credentials st = all_secrets [cn_avistaz_username st, cn_avistaz_password st, cn_avistaz_pid st]"

definition qb_credentials :: "connections \<Rightarrow> unit + string list option" where
  "qb_credentials st = all_secrets [cn_qb_base_url st, cn_qb_username st, cn_qb_password st]"

definition tmdb_token_value :: "connections \<Rightarrow> unit + string option" where
  "tmdb_token_value st = read_secret (cn_tmdb_access_token st)"

section \<open>Reading the stored form\<close>

definition v1_avistaz_site :: "lib \<Rightarrow> connections \<Rightarrow> (string \<times> json) list \<Rightarrow> runtime_site option option" where
  "v1_avistaz_site L st kvs = do {
     a \<leftarrow> dec_obj (dict_value kvs ''avistaz'');
     user \<leftarrow> stored_optional_string (dict_value a ''username'') 120;
     pw \<leftarrow> stored_optional_string (dict_value a ''password'') 8192;
     pid \<leftarrow> stored_optional_string (dict_value a ''pid'') 8192;
     if user = None \<and> pw = None \<and> pid = None then Some None
     else map_option (\<lambda>url. Some \<lparr> rs_architecture = SA_AVISTAZ, rs_base_url = url, rs_site_id = ''avistaz'',
       rs_display_name = ''AvistaZ'', rs_username = user, rs_password = pw, rs_pid = pid, rs_cookie = None,
       rs_passkey = None \<rparr>) (validate_https_origin L (cn_avistaz_base_url st)) }"

text \<open>The active architecture with the two sites, in the first and in the second version of the file.\<close>

definition v1_sites ::
    "lib \<Rightarrow> connections \<Rightarrow> (string \<times> json) list
      \<Rightarrow> (site_architecture option \<times> runtime_site option \<times> runtime_site option) option" where
  "v1_sites L st kvs =
    map_option (\<lambda>site. (map_option (\<lambda>_. SA_AVISTAZ) site, site, None)) (v1_avistaz_site L st kvs)"

definition v2_sites ::
    "lib \<Rightarrow> (string \<times> json) list
      \<Rightarrow> (site_architecture option \<times> runtime_site option \<times> runtime_site option) option" where
  "v2_sites L kvs = do {
     sites \<leftarrow> dec_obj (dict_value kvs ''pt_sites'');
     active \<leftarrow> stored_architecture (dict_value sites ''active_architecture'');
     a \<leftarrow> stored_pt_site L SA_AVISTAZ (dict_value sites ''avistaz'');
     n \<leftarrow> stored_pt_site L SA_NEXUSPHP (dict_value sites ''nexusphp'');
     check (\<not> (active = Some SA_AVISTAZ \<and> a = None) \<and> \<not> (active = Some SA_NEXUSPHP \<and> n = None));
     Some (active, a, n) }"

text \<open>The address of NextFind, which the first version of the file took from the settings.\<close>

definition stored_nextfind_url :: "lib \<Rightarrow> connections \<Rightarrow> bool \<Rightarrow> (string \<times> json) list \<Rightarrow> string option option" where
  "stored_nextfind_url L st v1 nf = do {
     raw \<leftarrow> stored_optional_string (dict_value nf ''base_url'') 2048;
     (case (if v1 \<and> raw = None then Some (cn_nextfind_base_url st) else raw) of
        None \<Rightarrow> Some None
      | Some s \<Rightarrow> map_option Some (validate_https_origin L s)) }"

definition stored_qb ::
    "lib \<Rightarrow> runtime_configuration \<Rightarrow> (string \<times> json) list \<Rightarrow> runtime_configuration option" where
  "stored_qb L c q = do {
     allow \<leftarrow> stored_flag (dict_value q ''allow_insecure_http'');
     url \<leftarrow> stored_optional_string (dict_value q ''url'') 2048;
     check (validate_qb_url L url (allow = Some True));
     user \<leftarrow> stored_optional_string (dict_value q ''username'') 120;
     pw \<leftarrow> stored_optional_string (dict_value q ''password'') 8192;
     save_path \<leftarrow> stored_optional_string (dict_value q ''save_path'') 4096;
     category \<leftarrow> stored_optional_string (dict_value q ''category'') 300;
     Some (c\<lparr> rc_qb_url := url, rc_qb_username := user, rc_qb_password := pw, rc_qb_save_path := save_path,
       rc_qb_category := category, rc_qb_allow_insecure_http := allow \<rparr>) }"

definition stored_nextfind ::
    "lib \<Rightarrow> connections \<Rightarrow> bool \<Rightarrow> runtime_configuration \<Rightarrow> (string \<times> json) list \<Rightarrow> runtime_configuration option" where
  "stored_nextfind L st v1 c nf = do {
     url \<leftarrow> stored_nextfind_url L st v1 nf;
     user \<leftarrow> stored_optional_string (dict_value nf ''username'') 120;
     pw \<leftarrow> stored_optional_string (dict_value nf ''password'') 8192;
     Some (c\<lparr> rc_nextfind_base_url := url, rc_nextfind_username := user, rc_nextfind_password := pw \<rparr>) }"

definition configuration_from_payload ::
    "lib \<Rightarrow> connections \<Rightarrow> bool \<Rightarrow> (string \<times> json) list \<Rightarrow> runtime_configuration option" where
  "configuration_from_payload L st v1 kvs = do {
     nf \<leftarrow> dec_obj (dict_value kvs ''nextfind'');
     tm \<leftarrow> dec_obj (dict_value kvs ''tmdb'');
     q \<leftarrow> dec_obj (dict_value kvs ''qbittorrent'');
     sites \<leftarrow> (if v1 then v1_sites L st kvs else v2_sites L kvs);
     token \<leftarrow> stored_optional_string (dict_value tm ''token'') 8192;
     let c = empty_configuration\<lparr> rc_tmdb_token := token, rc_pt_site_architecture := fst sites,
       rc_avistaz_site := fst (snd sites), rc_nexusphp_site := snd (snd sites) \<rparr>;
     c1 \<leftarrow> stored_nextfind L st v1 c nf;
     stored_qb L c1 q }"

definition configuration :: "lib \<Rightarrow> connections \<Rightarrow> config_files \<Rightarrow> config_error + runtime_configuration" where
  "configuration L st fs =
    (if integrations_file fs = Missing then Inr empty_configuration
     else option_or RuntimeConfigError (do {
       kvs \<leftarrow> read_json_object (integrations_file fs);
       let version = dict_value kvs ''version'';
       check (equals_int L version 1 \<or> equals_int L version 2);
       configuration_from_payload L st (equals_int L version 1) kvs }))"

section \<open>Writing\<close>

text \<open>\<open>save_configuration\<close>: the outcome, and the files it leaves.\<close>

definition save_configuration ::
    "lib \<Rightarrow> connections \<Rightarrow> updates \<Rightarrow> write_outcome \<Rightarrow> config_files
      \<Rightarrow> (config_error + runtime_configuration) \<times> config_files" where
  "save_configuration L st ups io fs =
    (case bindR (configuration L st fs) (\<lambda>c. merge_configuration L c ups) of
       Inl e \<Rightarrow> (Inl e, fs)
     | Inr c \<Rightarrow>
         let payload = configuration_payload c; written = fs\<lparr> integrations_file := Document payload \<rparr> in
         if \<not> fits payload \<or> io \<in> {Failed_before, No_directory} then (Inl RuntimeConfigError, fs)
         else if io = Failed_after then (Inl RuntimeConfigError, written)
         else (Inr c, written))"

record auth_record =
  ac_username :: string
  ac_password_digest :: string
  ac_signing_key :: string

definition auth_payload :: "auth_record \<Rightarrow> json" where
  "auth_payload r = JObj
    [(''version'', JInt 1), (''username'', JStr (ac_username r)), (''password_digest'', JStr (ac_password_digest r)),
     (''session_signing_key'', JStr (ac_signing_key r))]"

definition auth_record_of :: "lib \<Rightarrow> config_files \<Rightarrow> config_error + auth_record option" where
  "auth_record_of L fs =
    (if auth_file fs = Missing then Inr None
     else option_or RuntimeConfigError (do {
       kvs \<leftarrow> read_json_object (auth_file fs);
       check (equals_int L (dict_value kvs ''version'') 1);
       user \<leftarrow> single_line 120 (dict_value kvs ''username'');
       digest \<leftarrow> single_line 1024 (dict_value kvs ''password_digest'');
       key \<leftarrow> single_line 1024 (dict_value kvs ''session_signing_key'');
       check (32 \<le> py_len key);
       Some (Some \<lparr> ac_username = user, ac_password_digest = digest, ac_signing_key = key \<rparr>) }))"

text \<open>
  \<open>setup_admin\<close> with a new signing key: the link to the file is created only when there is none. A name
  that is not one line raises \<open>ValueError\<close> and a directory that cannot be made \<open>OSError\<close>; nothing catches them.
\<close>

definition setup_admin ::
    "lib \<Rightarrow> string \<Rightarrow> string \<Rightarrow> string \<Rightarrow> write_outcome \<Rightarrow> config_files \<Rightarrow> (config_error + auth_record) \<times> config_files" where
  "setup_admin L user digest key io fs =
    (case (single_line 120 (JStr user), single_line 1024 (JStr digest)) of
       (Some u, Some d) \<Rightarrow>
         let r = \<lparr> ac_username = u, ac_password_digest = d, ac_signing_key = key \<rparr>;
             written = fs\<lparr> auth_file := Document (auth_payload r) \<rparr> in
         if io = No_directory then (Inl ConfigOSError, fs)
         else if \<not> fits (auth_payload r) \<or> io = Failed_before then (Inl RuntimeConfigError, fs)
         else if auth_file fs \<noteq> Missing then (Inl RuntimeConfigAlreadyInitialized, fs)
         else if io = Failed_after then (Inl RuntimeConfigError, written)
         else (Inr r, written)
     | _ \<Rightarrow> (Inl ConfigValueError, fs))"

section \<open>The effective settings\<close>

definition overridden_nextfind :: "lib \<Rightarrow> runtime_configuration \<Rightarrow> connections \<Rightarrow> connections option" where
  "overridden_nextfind L c st = do {
     st1 \<leftarrow> (case rc_nextfind_base_url c of
        None \<Rightarrow> Some st
      | Some url \<Rightarrow> map_option (\<lambda>h. st\<lparr> cn_nextfind_base_url := url, cn_nextfind_allowed_hosts := [h] \<rparr>) (url_host L url));
     Some (if nextfind_identity_set c
       then st1\<lparr> cn_nextfind_username := plain_secret (rc_nextfind_username c),
         cn_nextfind_password := plain_secret (rc_nextfind_password c) \<rparr>
       else st1) }"

definition overridden_tmdb :: "runtime_configuration \<Rightarrow> connections \<Rightarrow> connections" where
  "overridden_tmdb c st =
    (case rc_tmdb_token c of None \<Rightarrow> st | Some t \<Rightarrow> st\<lparr> cn_tmdb_access_token := plain_secret (Some t) \<rparr>)"

text \<open>An architecture the program cannot run never inherits the AvistaZ secrets of the settings.\<close>

definition overridden_site :: "lib \<Rightarrow> runtime_configuration \<Rightarrow> connections \<Rightarrow> connections option" where
  "overridden_site L c st =
    (case active_pt_site c of
       None \<Rightarrow> Some st
     | Some s \<Rightarrow>
         let st1 = st\<lparr> cn_pt_site_architecture := rs_architecture s, cn_pt_site_id := rs_site_id s,
               cn_pt_site_display_name := rs_display_name s, cn_pt_site_runtime_configured := Some (site_configured s),
               cn_pt_site_runtime_supported := site_runtime_supported s \<rparr> in
         (case rs_architecture s of
            SA_AVISTAZ \<Rightarrow> map_option (\<lambda>h. st1\<lparr> cn_avistaz_base_url := rs_base_url s, cn_avistaz_allowed_hosts := [h],
              cn_avistaz_username := plain_secret (rs_username s), cn_avistaz_password := plain_secret (rs_password s),
              cn_avistaz_pid := plain_secret (rs_pid s) \<rparr>) (url_host L (rs_base_url s))
          | SA_NEXUSPHP \<Rightarrow> Some (st1\<lparr> cn_avistaz_username := plain_secret None,
              cn_avistaz_password := plain_secret None, cn_avistaz_pid := plain_secret None \<rparr>)))"

definition or_none :: "string \<Rightarrow> string option" where
  "or_none s = (if s = [] then None else Some s)"

definition overridden_qb :: "runtime_configuration \<Rightarrow> connections \<Rightarrow> connections" where
  "overridden_qb c st0 =
    (let st1 = (case rc_qb_url c of None \<Rightarrow> st0 | Some url \<Rightarrow> st0\<lparr> cn_qb_base_url := plain_secret (Some url) \<rparr>);
         st2 = (if qb_identity_set c
           then st1\<lparr> cn_qb_username := plain_secret (rc_qb_username c), cn_qb_password := plain_secret (rc_qb_password c) \<rparr>
           else st1);
         st3 = (case rc_qb_save_path c of None \<Rightarrow> st2 | Some p \<Rightarrow> st2\<lparr> cn_qb_target_save_path := or_none p,
           cn_qb_allowed_save_paths := (if p = [] then [] else [p]) \<rparr>);
         st4 = (case rc_qb_category c of None \<Rightarrow> st3 | Some k \<Rightarrow> st3\<lparr> cn_qb_target_category := or_none k \<rparr>)
     in (case rc_qb_allow_insecure_http c of None \<Rightarrow> st4 | Some b \<Rightarrow> st4\<lparr> cn_qb_allow_insecure_http := b \<rparr>))"

definition settings_overrides :: "lib \<Rightarrow> runtime_configuration \<Rightarrow> connections \<Rightarrow> connections option" where
  "settings_overrides L c st = do {
     st1 \<leftarrow> overridden_nextfind L c st;
     st2 \<leftarrow> overridden_site L c (overridden_tmdb c st1);
     Some (overridden_qb c st2) }"

definition has_overrides :: "runtime_configuration \<Rightarrow> bool" where
  "has_overrides c \<longleftrightarrow> nextfind_identity_set c \<or> rc_tmdb_token c \<noteq> None \<or> active_pt_site c \<noteq> None \<or> qb_identity_set c
    \<or> rc_qb_save_path c \<noteq> None \<or> rc_qb_category c \<noteq> None \<or> rc_qb_allow_insecure_http c \<noteq> None"

text \<open>The only host an address may be asked at; \<open>urlsplit\<close> may raise \<open>ValueError\<close>.\<close>

definition pinned_host :: "lib \<Rightarrow> string \<Rightarrow> string list \<Rightarrow> string list option" where
  "pinned_host L url hosts =
    map_option (\<lambda>u. if hostname L u = [] then hosts else [casefold L (hostname L u)]) (urlsplit L url)"

definition pinned_qb :: "lib \<Rightarrow> connections \<Rightarrow> config_error + connections" where
  "pinned_qb L st =
    (case qb_credentials st of
       Inl _ \<Rightarrow> Inl ConfigOSError
     | Inr None \<Rightarrow> Inr st
     | Inr (Some creds) \<Rightarrow>
         (case urlsplit L (hd creds) of
            None \<Rightarrow> Inl ConfigValueError
          | Some u \<Rightarrow>
              let allowed = scheme u = ''https'' \<or> (scheme u = ''http'' \<and> cn_qb_allow_insecure_http st) in
              Inr (if hostname L u \<noteq> [] \<and> allowed \<and> \<not> truthy_text (username u) \<and> \<not> truthy_text (password u)
                then st\<lparr> cn_qb_allowed_hosts := [lower L (hostname L u)] \<rparr> else st)))"

definition apply_runtime_configuration :: "lib \<Rightarrow> connections \<Rightarrow> config_files \<Rightarrow> config_error + connections" where
  "apply_runtime_configuration L base fs =
    bindR (configuration L base fs) (\<lambda>c.
    if \<not> has_overrides c then Inr base
    else bindR (option_or ConfigValueError (settings_overrides L c base)) (\<lambda>st.
    bindR (option_or ConfigValueError (pinned_host L (cn_nextfind_base_url st) (cn_nextfind_allowed_hosts st))) (\<lambda>nh.
    bindR (option_or ConfigValueError (pinned_host L (cn_avistaz_base_url st) (cn_avistaz_allowed_hosts st))) (\<lambda>ah.
    pinned_qb L (st\<lparr> cn_nextfind_allowed_hosts := nh, cn_avistaz_allowed_hosts := ah \<rparr>)))))"

section \<open>Whether all is configured\<close>

text \<open>The credentials of the settings, where a file that cannot be read counts as none.\<close>

definition readable :: "unit + 'a option \<Rightarrow> 'a option" where
  "readable r = (case r of Inl _ \<Rightarrow> None | Inr x \<Rightarrow> x)"

definition some_text :: "string option \<Rightarrow> string" where
  "some_text s = (case s of None \<Rightarrow> [] | Some t \<Rightarrow> t)"

definition nth_text :: "string list option \<Rightarrow> nat \<Rightarrow> string" where
  "nth_text xs n = (case xs of None \<Rightarrow> [] | Some ts \<Rightarrow> if n < length ts then ts ! n else [])"

definition pt_site_complete :: "connections \<Rightarrow> runtime_configuration \<Rightarrow> bool" where
  "pt_site_complete st c =
    (case active_pt_site c of Some s \<Rightarrow> site_configured s | None \<Rightarrow> readable (avistaz_credentials st) \<noteq> None)"

definition effective_values :: "connections \<Rightarrow> runtime_configuration \<Rightarrow> (string \<times> string) list" where
  "effective_values st c =
    (let nf = readable (nextfind_credentials st); qb = readable (qb_credentials st);
         tm = some_text (readable (tmdb_token_value st)) in
     [(''nextfind_base_url'', (if truthy_text (rc_nextfind_base_url c) then the (rc_nextfind_base_url c)
        else cn_nextfind_base_url st)),
      (''nextfind_username'', (if nextfind_identity_set c then some_text (rc_nextfind_username c) else nth_text nf 0)),
      (''nextfind_password'', (if nextfind_identity_set c then some_text (rc_nextfind_password c) else nth_text nf 1)),
      (''tmdb_token'', (case rc_tmdb_token c of Some t \<Rightarrow> t | None \<Rightarrow> tm)),
      (''qb_url'', (if qb_identity_set c then some_text (rc_qb_url c) else nth_text qb 0)),
      (''qb_username'', (if qb_identity_set c then some_text (rc_qb_username c) else nth_text qb 1)),
      (''qb_password'', (if qb_identity_set c then some_text (rc_qb_password c) else nth_text qb 2))])"

definition configuration_complete :: "lib \<Rightarrow> connections \<Rightarrow> config_files \<Rightarrow> config_error + bool" where
  "configuration_complete L st fs =
    bindR (configuration L st fs) (\<lambda>c.
    Inr (list_all (\<lambda>kv. snd kv \<noteq> []) (effective_values st c) \<and> pt_site_complete st c))"

record setup_status =
  ss_admin_configured :: bool
  ss_configuration_complete :: bool

definition setup_status_of :: "lib \<Rightarrow> connections \<Rightarrow> config_files \<Rightarrow> config_error + setup_status" where
  "setup_status_of L st fs =
    bindR (auth_record_of L fs) (\<lambda>r.
    bindR (configuration_complete L st fs) (\<lambda>done.
    Inr \<lparr> ss_admin_configured = (r \<noteq> None), ss_configuration_complete = done \<rparr>))"

end
