(* ===== verification/OriginLaws.thy ===== *)
theory OriginLaws
  imports RuntimeConfig
begin

text \<open>
  The addresses of the local configuration: an address that was accepted, once its final slashes are
  taken off, is accepted again as it is. This is shown for addresses of printable ASCII characters
  without spaces; white space before the slash is what breaks it.
\<close>

section \<open>Splitting with slashes at the end\<close>

definition plain_text :: "string \<Rightarrow> bool" where
  "plain_text s \<longleftrightarrow> list_all (\<lambda>c. 32 < byte c \<and> byte c < 127) s"

lemma plain_chars: "plain_text s \<Longrightarrow> chars s = map (\<lambda>c. [c]) s"
  by (rule chars_ascii) (auto simp: plain_text_def list_all_iff)

lemma plain_cleaned:
  assumes "plain_text s"
  shows "cleaned_url s = map (\<lambda>c. [c]) s"
proof -
  have char: "\<not> control_or_space [c] \<and> c \<notin> {CHR 0x09, CHR 0x0A, CHR 0x0D}" if "c \<in> set s" for c
  proof -
    have "32 < byte c" using assms that by (simp add: plain_text_def list_all_iff)
    then show ?thesis by (auto simp: control_or_space_def byte_def)
  qed
  have "dropWhile control_or_space (map (\<lambda>c. [c]) s) = map (\<lambda>c. [c]) s"
    using char by (cases s) simp_all
  then show ?thesis
    unfolding cleaned_url_def plain_chars [OF assms] using char by (auto simp: filter_id_conv)
qed

lemma plain_slashes: "plain_text s \<Longrightarrow> plain_text (s @ replicate k (CHR ''/''))"
  by (auto simp: plain_text_def list_all_iff byte_def)

lemma part_append_hit:
  assumes "\<exists>x \<in> set xs. p x"
  shows "part p (xs @ ys) = (fst (part p xs), map_option (\<lambda>r. r @ ys) (snd (part p xs))) \<and> snd (part p xs) \<noteq> None"
proof -
  from assms obtain y r where d: "dropWhile (\<lambda>x. \<not> p x) xs = y # r"
    by (metis (mono_tags, lifting) dropWhile_eq_Nil_conv neq_Nil_conv)
  obtain x where x: "x \<in> set xs" "p x" using assms by blast
  then have "dropWhile (\<lambda>x. \<not> p x) (xs @ ys) = y # r @ ys"
    using d by (simp add: dropWhile_append1 [of x])
  moreover have "takeWhile (\<lambda>x. \<not> p x) (xs @ ys) = takeWhile (\<lambda>x. \<not> p x) xs"
    using x by (simp add: takeWhile_append1 [of x])
  ultimately show ?thesis using d by (simp add: part_def before_def)
qed

lemma part_miss: "\<not> (\<exists>x \<in> set xs. p x) \<Longrightarrow> part p xs = (xs, None)"
proof -
  assume "\<not> (\<exists>x \<in> set xs. p x)"
  then have "dropWhile (\<lambda>x. \<not> p x) xs = []" by (simp add: dropWhile_eq_Nil_conv)
  then show ?thesis by (simp add: part_def del: dropWhile_eq_Nil_conv)
qed

lemma part_rest: "part p xs = (a, Some b) \<Longrightarrow> set b \<subseteq> set xs"
proof -
  assume "part p xs = (a, Some b)"
  then obtain y where "dropWhile (\<lambda>x. \<not> p x) xs = y # b"
    by (auto simp: part_def split: list.splits)
  then show ?thesis by (metis insert_subset list.simps(15) set_dropWhileD subsetI)
qed

lemma until_slashes:
  fixes k :: nat
  assumes "p ''/''"
  shows "takeWhile (\<lambda>c. \<not> p c) (xs @ replicate k ''/'') = takeWhile (\<lambda>c. \<not> p c) xs"
    and "dropWhile (\<lambda>c. \<not> p c) (xs @ replicate k ''/'') = dropWhile (\<lambda>c. \<not> p c) xs @ replicate k ''/''"
proof -
  show "takeWhile (\<lambda>c. \<not> p c) (xs @ replicate k ''/'') = takeWhile (\<lambda>c. \<not> p c) xs"
    using assms by (induction xs) (cases k, simp_all)
  show "dropWhile (\<lambda>c. \<not> p c) (xs @ replicate k ''/'') = dropWhile (\<lambda>c. \<not> p c) xs @ replicate k ''/''"
    using assms by (induction xs) (cases k, simp_all)
qed

lemma scheme_with_slashes:
  assumes "split_scheme (P @ replicate k ''/'') = (sch, r0)" and "sch \<noteq> []"
  obtains r where "split_scheme P = (sch, r)" and "r0 = r @ replicate k ''/''"
proof (cases "\<exists>x \<in> set P. x = '':''")
  case True
  obtain w r where w: "part (\<lambda>c. c = '':'') P = (w, Some r)"
    using part_append_hit [OF True, of "[]"] by (cases "part (\<lambda>c. c = '':'') P") auto
  then have "part (\<lambda>c. c = '':'') (P @ replicate k ''/'') = (w, Some (r @ replicate k ''/''))"
    using part_append_hit [OF True, of "replicate k ''/''"] by simp
  with assms w that show ?thesis by (auto simp: split_scheme_def split: if_splits)
next
  case False
  then have "part (\<lambda>c. c = '':'') (P @ replicate k ''/'') = (P @ replicate k ''/'', None)"
    by (intro part_miss) auto
  with assms show ?thesis by (simp add: split_scheme_def)
qed

lemma netloc_with_slashes:
  assumes "split_netloc (r @ replicate k ''/'') = (nl, r1)" and "nl \<noteq> []"
  obtains d where "split_netloc r = (nl, d)" and "r1 = d @ replicate k ''/''" and "set d \<subseteq> set r"
proof -
  define p where "p = (\<lambda>c. c \<in> {''/'', ''?'', ''#''})"
  let ?z = "replicate k ''/''"
  have p: "p ''/''" by (simp add: p_def)
  have slashes: "take 2 (r @ ?z) = [''/'', ''/'']" and nl: "nl = takeWhile (\<lambda>c. \<not> p c) (drop 2 (r @ ?z))"
    and r1: "r1 = dropWhile (\<lambda>c. \<not> p c) (drop 2 (r @ ?z))"
    using assms by (auto simp: split_netloc_def before_def p_def split: if_splits)
  have long: "2 \<le> length r"
  proof (rule ccontr)
    assume "\<not> 2 \<le> length r"
    then have "drop 2 (r @ ?z) = [] @ replicate (k + length r - 2) ''/''" by simp
    then have "nl = []" unfolding nl using until_slashes(1) [where p = p, OF p, of "[]"] by simp
    with assms(2) show False by simp
  qed
  then have r: "take 2 r = [''/'', ''/'']" and rest: "drop 2 (r @ ?z) = drop 2 r @ ?z" using slashes by simp_all
  have "set (dropWhile (\<lambda>c. \<not> p c) (drop 2 r)) \<subseteq> set r"
    by (meson order_trans set_dropWhileD set_drop_subset subsetI)
  moreover have "split_netloc r = (takeWhile (\<lambda>c. \<not> p c) (drop 2 r), dropWhile (\<lambda>c. \<not> p c) (drop 2 r))"
    using r by (simp add: split_netloc_def before_def p_def)
  moreover have "nl = takeWhile (\<lambda>c. \<not> p c) (drop 2 r)"
    unfolding nl rest by (rule until_slashes(1) [where p = p, OF p])
  moreover have "r1 = dropWhile (\<lambda>c. \<not> p c) (drop 2 r) @ ?z"
    unfolding r1 rest by (rule until_slashes(2) [where p = p, OF p])
  ultimately show ?thesis using that by blast
qed

section \<open>An accepted address is accepted again\<close>

lemma rstrip_slash_form: "\<exists>k. s = rstrip_slash s @ replicate k (CHR ''/'')"
proof -
  have "rev s = takeWhile (\<lambda>c. c = CHR ''/'') (rev s) @ dropWhile (\<lambda>c. c = CHR ''/'') (rev s)" by simp
  moreover have "takeWhile (\<lambda>c. c = CHR ''/'') (rev s) = replicate (length (takeWhile (\<lambda>c. c = CHR ''/'') (rev s))) (CHR ''/'')"
    by (metis (full_types) replicate_length_same set_takeWhileD)
  ultimately have "s = rstrip_slash s @ rev (replicate (length (takeWhile (\<lambda>c. c = CHR ''/'') (rev s))) (CHR ''/''))"
    unfolding rstrip_slash_def by (metis rev_append rev_rev_ident)
  then show ?thesis by auto
qed

lemma rstrip_slash_again [simp]: "rstrip_slash (rstrip_slash s) = rstrip_slash s"
  by (simp add: rstrip_slash_def)

lemma host_parts:
  assumes "netloc u = netloc u'"
  shows "hostname L u = hostname L u'" "port u = port u'" "username u = username u'" "password u = password u'"
  using assms by (simp_all add: hostname_def port_def username_def password_def hostinfo_def)

lemma no_netloc_no_host: "netloc u = [] \<Longrightarrow> hostname L u = []"
  by (simp add: hostname_def hostinfo_def rpart_at_def part_def before_def lower_def Let_def)

text \<open>The split of an address whose only path is the slash that ends it.\<close>

lemma urlsplit_without_slashes:
  assumes plain: "plain_text v" and raw: "urlsplit L (v @ replicate k (CHR ''/'')) = Some u" and k: "0 < k"
    and "scheme u \<noteq> []" and "netloc u \<noteq> []" and "query u = []" and "fragment u = []" and "url_path u \<in> {[], ''/''}"
  shows "\<exists>u'. urlsplit L v = Some u' \<and> scheme u' = scheme u \<and> netloc u' = netloc u
    \<and> url_path u' = [] \<and> query u' = [] \<and> fragment u' = []"
proof -
  let ?P = "map (\<lambda>c. [c]) v" and ?z = "replicate k ''/''"
  have cs: "cleaned_url (v @ replicate k (CHR ''/'')) = ?P @ ?z"
    using plain_cleaned [OF plain_slashes [OF plain]] by simp
  obtain sch r0 where sch: "split_scheme (?P @ ?z) = (sch, r0)" by fastforce
  obtain nl r1 where nl: "split_netloc r0 = (nl, r1)" by fastforce
  obtain r2 frag where frag: "part (\<lambda>c. c = ''#'') r1 = (r2, frag)" by fastforce
  obtain pth qry where qry: "part (\<lambda>c. c = ''?'') r2 = (pth, qry)" by fastforce
  have ok: "brackets_ok nl" "netloc_valid L (concat nl)"
    and u: "u = \<lparr> scheme = sch, netloc = concat nl, url_path = concat pth,
      query = (case qry of None \<Rightarrow> [] | Some t \<Rightarrow> concat t), fragment = (case frag of None \<Rightarrow> [] | Some t \<Rightarrow> concat t) \<rparr>"
    using raw by (auto simp: urlsplit_def cs sch nl frag qry Let_def split: if_splits)
  obtain r where r: "split_scheme ?P = (sch, r)" "r0 = r @ ?z"
    using scheme_with_slashes [OF sch] assms(4) u by auto
  have "nl \<noteq> []" using assms(5) u by auto
  then obtain d where d: "split_netloc r = (nl, d)" "r1 = d @ ?z" "set d \<subseteq> set r"
    using netloc_with_slashes nl r(2) by metis
  have tail: "concat (xs @ ?z) \<noteq> []" for xs using k by (cases k) simp_all
  have "\<not> (\<exists>x \<in> set d. x = ''#'')"
  proof
    assume h: "\<exists>x \<in> set d. x = ''#''"
    obtain y where "frag = Some (y @ ?z)"
      using part_append_hit [OF h, of ?z] frag d(2) by auto
    then show False using assms(7) u tail [of y] by (simp only: split_url.simps option.case)
  qed
  then have "part (\<lambda>c. c = ''#'') r1 = (r1, None)" by (intro part_miss) (auto simp: d(2))
  with frag have r2: "r2 = d @ ?z" using d(2) by simp
  have "\<not> (\<exists>x \<in> set d. x = ''?'')"
  proof
    assume h: "\<exists>x \<in> set d. x = ''?''"
    obtain y where "qry = Some (y @ ?z)"
      using part_append_hit [OF h, of ?z] qry r2 by auto
    then show False using assms(6) u tail [of y] by (simp only: split_url.simps option.case)
  qed
  then have "part (\<lambda>c. c = ''?'') r2 = (r2, None)" by (intro part_miss) (auto simp: r2)
  with qry have "pth = d @ ?z" using r2 by simp
  moreover have "concat ?z = replicate k (CHR ''/'')" by (induction k) simp_all
  ultimately have "concat d @ replicate k (CHR ''/'') \<in> {[], ''/''}" using assms(8) u by simp
  then have "concat d = []" using k by (cases "concat d") (auto simp: Cons_eq_append_conv)
  moreover have "set d \<subseteq> set ?P"
  proof -
    have "set r \<subseteq> set ?P"
      using r(1) part_rest [of "\<lambda>c. c = '':''" ?P] by (auto simp: split_scheme_def split: option.splits prod.splits if_splits)
    with d(3) show ?thesis by blast
  qed
  ultimately have "d = []" by (cases d) auto
  then have "urlsplit L v = Some \<lparr> scheme = sch, netloc = concat nl, url_path = [], query = [], fragment = [] \<rparr>"
    using plain_cleaned [OF plain] r(1) d(1) ok by (simp add: urlsplit_def part_def Let_def)
  then show ?thesis using u by simp
qed

lemma origin_again:
  assumes "validate_https_origin L raw = Some v" and "plain_text v"
  shows "validate_https_origin L v = Some v"
proof -
  obtain u p where u: "urlsplit L raw = Some u" "port u = Inr p" "casefold L (scheme u) = ''https''" "hostname L u \<noteq> []"
    "username u = None" "password u = None" "query u = []" "fragment u = []" "url_path u \<in> {[], ''/''}"
    "opt_ok (\<lambda>n. 1 \<le> n \<and> n \<le> 65535) p" and v: "v = rstrip_slash raw"
    using assms(1) by (auto simp: validate_https_origin_def split: bind_splits sum.splits)
  obtain k where raw: "raw = v @ replicate k (CHR ''/'')" using rstrip_slash_form [of raw] v by auto
  have stable: "rstrip_slash v = v" using v by simp
  show ?thesis
  proof (cases "k = 0")
    case True
    with raw assms(1) show ?thesis by simp
  next
    case False
    have "scheme u \<noteq> []" using u(3) by auto
    moreover have "netloc u \<noteq> []" using u(4) no_netloc_no_host by auto
    ultimately obtain u' where u': "urlsplit L v = Some u'" "scheme u' = scheme u" "netloc u' = netloc u"
      "url_path u' = []" "query u' = []" "fragment u' = []"
      using urlsplit_without_slashes [OF assms(2) u(1) [unfolded raw]] False u(7-9) by blast
    then show ?thesis
      using u host_parts [OF u'(3)] stable by (simp add: validate_https_origin_def)
  qed
qed

end
