(* ===== verification/ConfigStore.thy ===== *)
theory ConfigStore
  imports ConfigLaws
begin

text \<open>
  What the local configuration stores: every configuration that is read or merged is well formed, a saved
  one reads back as it was, one with white space at the end of an address locks itself, and the administrator is
  created once.
\<close>

section \<open>What is read is well formed\<close>

lemma stored_site_ok: "stored_site_of L arch kvs = Some s \<Longrightarrow> site_ok L arch s"
  by (auto simp: stored_site_of_def site_ok_def split: bind_splits if_splits
      dest!: stored_required_ok intro: origin_okI stored_text_ok)

lemma stored_pt_site_ok: "stored_pt_site L arch j = Some s \<Longrightarrow> opt_ok (site_ok L arch) s"
  by (auto simp: stored_pt_site_def opt_ok_def split: bind_splits if_splits dest: stored_site_ok)

lemma v1_site_ok:
  assumes "v1_avistaz_site L st kvs = Some s"
  shows "opt_ok (site_ok L SA_AVISTAZ) s"
proof -
  obtain user pw pid where texts: "text_ok 120 user" "text_ok 8192 pw" "text_ok 8192 pid"
    and s: "s = None \<or> (\<exists>url. origin_ok L url \<and> s = Some \<lparr> rs_architecture = SA_AVISTAZ, rs_base_url = url,
       rs_site_id = ''avistaz'', rs_display_name = ''AvistaZ'', rs_username = user, rs_password = pw, rs_pid = pid,
       rs_cookie = None, rs_passkey = None \<rparr>)"
    using assms
    by (auto simp: v1_avistaz_site_def split: bind_splits if_splits dest!: stored_text_ok origin_okI)
  then show ?thesis by (auto simp: opt_ok_def site_ok_def own_site_texts)
qed

lemma v1_sites_ok: "v1_sites L st kvs = Some (active, a, n) \<Longrightarrow> sites_ok L active a n"
  by (auto simp: v1_sites_def sites_ok_def opt_ok_def split: option.splits dest: v1_site_ok)

lemma v2_sites_ok: "v2_sites L kvs = Some (active, a, n) \<Longrightarrow> sites_ok L active a n"
  by (auto simp: v2_sites_def sites_ok_def split: bind_splits if_splits dest: stored_pt_site_ok)

lemma stored_nextfind_ok:
  assumes "stored_nextfind L st v1 c nf = Some c'"
  shows "opt_ok (origin_ok L) (rc_nextfind_base_url c') \<and> text_ok 120 (rc_nextfind_username c')
    \<and> text_ok 8192 (rc_nextfind_password c')"
  using assms
  by (auto simp: stored_nextfind_def stored_nextfind_url_def opt_ok_def split: bind_splits option.splits if_splits
      intro: origin_okI stored_text_ok)

lemma stored_nextfind_frame:
  "stored_nextfind L st v1 c nf = Some c' \<Longrightarrow> rc_tmdb_token c' = rc_tmdb_token c
    \<and> rc_pt_site_architecture c' = rc_pt_site_architecture c \<and> rc_avistaz_site c' = rc_avistaz_site c
    \<and> rc_nexusphp_site c' = rc_nexusphp_site c"
  by (auto simp: stored_nextfind_def split: bind_splits)

lemma stored_qb_ok: "stored_qb L c q = Some c' \<Longrightarrow> qb_ok L c'"
  by (auto simp: stored_qb_def qb_ok_def split: bind_splits if_splits intro: stored_text_ok)

lemma stored_qb_frame:
  "stored_qb L c q = Some c' \<Longrightarrow> rc_nextfind_base_url c' = rc_nextfind_base_url c
    \<and> rc_nextfind_username c' = rc_nextfind_username c \<and> rc_nextfind_password c' = rc_nextfind_password c
    \<and> rc_tmdb_token c' = rc_tmdb_token c
    \<and> rc_pt_site_architecture c' = rc_pt_site_architecture c \<and> rc_avistaz_site c' = rc_avistaz_site c
    \<and> rc_nexusphp_site c' = rc_nexusphp_site c"
  by (auto simp: stored_qb_def split: bind_splits)

lemma payload_ok:
  assumes "configuration_from_payload L st v1 kvs = Some c"
  shows "config_ok L c"
proof -
  obtain nf q active a n token c0 c1 where
    sites: "(if v1 then v1_sites L st kvs else v2_sites L kvs) = Some (active, a, n)"
    and token: "text_ok 8192 token"
    and c0: "c0 = empty_configuration\<lparr> rc_tmdb_token := token, rc_pt_site_architecture := active,
      rc_avistaz_site := a, rc_nexusphp_site := n \<rparr>"
    and c1: "stored_nextfind L st v1 c0 nf = Some c1" and qb: "stored_qb L c1 q = Some c"
    using assms by (fastforce simp: configuration_from_payload_def Let_def split: bind_splits dest: stored_text_ok)
  have "sites_ok L active a n" using sites by (cases v1) (simp_all add: v1_sites_ok v2_sites_ok)
  then show ?thesis
    using stored_nextfind_ok [OF c1] stored_nextfind_frame [OF c1] stored_qb_ok [OF qb] stored_qb_frame [OF qb] token
    by (simp add: config_ok_def c0)
qed

lemma empty_ok: "config_ok L empty_configuration"
  by (simp add: config_ok_def empty_configuration_def sites_ok_def qb_ok_def opt_ok_def validate_qb_url_def falsy_str_def)

lemma configuration_ok: "configuration L st fs = Inr c \<Longrightarrow> config_ok L c"
  by (auto simp: configuration_def empty_ok option_or_Inr_iff Let_def split: bind_splits if_splits dest!: payload_ok)

section \<open>What is merged is well formed\<close>

lemma merged_nextfind_ok:
  assumes "merged_nextfind L c g = Some c'" and "config_ok L c"
  shows "opt_ok (origin_ok L) (rc_nextfind_base_url c') \<and> text_ok 120 (rc_nextfind_username c')
    \<and> text_ok 8192 (rc_nextfind_password c')"
  using assms
  by (auto simp: merged_nextfind_def Let_def config_ok_def opt_ok_def split: bind_splits option.splits
      intro: origin_okI public_text_ok secret_text_ok [OF _ kept_text_ok])

lemma merged_qb_ok:
  assumes "merged_qb L c g = Some c'" and "qb_ok L c"
  shows "qb_ok L c'"
  using assms
  by (auto simp: merged_qb_def Let_def qb_ok_def split: bind_splits if_splits
      intro: public_text_ok secret_text_ok [OF _ kept_text_ok])

lemma qb_ok_frame:
  "rc_qb_url c' = rc_qb_url c \<Longrightarrow> rc_qb_username c' = rc_qb_username c \<Longrightarrow> rc_qb_password c' = rc_qb_password c \<Longrightarrow>
    rc_qb_save_path c' = rc_qb_save_path c \<Longrightarrow> rc_qb_category c' = rc_qb_category c \<Longrightarrow>
    rc_qb_allow_insecure_http c' = rc_qb_allow_insecure_http c \<Longrightarrow> qb_ok L c \<Longrightarrow> qb_ok L c'"
  by (simp add: qb_ok_def)

lemma merge_ok:
  assumes "merge_configuration L c ups = Inr c'" and ok: "config_ok L c"
  shows "config_ok L c'"
proof -
  have "merged L c ups = Some c'" using assms(1) by (auto simp: merge_configuration_def result_simps)
  then obtain c1 c2 sites token where
    nf: "merged_nextfind L c (update_group ups ''nextfind'') = Some c1"
    and tk: "optional_secret_update (update_group ups ''tmdb'') ''token'' (rc_tmdb_token c) = Some token"
    and st: "merge_pt_sites L c (map_of ups ''pt_site'') = Some sites"
    and c2: "c2 = c1\<lparr> rc_tmdb_token := token, rc_pt_site_architecture := fst sites,
       rc_avistaz_site := fst (snd sites), rc_nexusphp_site := snd (snd sites) \<rparr>"
    and qb: "merged_qb L c2 (update_group ups ''qbittorrent'') = Some c'"
    by (rule merged_parts)
  obtain active a n where sites: "sites = (active, a, n)" by (cases sites) auto
  have "sites_ok L active a n"
    by (rule merge_sites_ok [OF st [unfolded sites]]) (use ok in \<open>simp add: config_ok_def\<close>)
  moreover have "text_ok 8192 token" by (rule secret_text_ok [OF tk]) (use ok in \<open>simp add: config_ok_def\<close>)
  moreover have "qb_ok L c2"
    by (rule qb_ok_frame [where c = c]) (use merged_nextfind_frame [OF nf] ok in \<open>simp_all add: c2 config_ok_def\<close>)
  ultimately show ?thesis
    using merged_nextfind_ok [OF nf ok] merged_qb_ok [OF qb] merged_qb_frame [OF qb]
    by (simp add: config_ok_def c2 sites)
qed

section \<open>Reading back\<close>

definition address_ok :: "string \<Rightarrow> bool" where
  "address_ok v \<longleftrightarrow> plain_text v \<and> length v \<le> 2048"

definition addresses :: "runtime_configuration \<Rightarrow> string list" where
  "addresses c = List.map_filter (\<lambda>x. x)
    [rc_nextfind_base_url c, map_option rs_base_url (rc_avistaz_site c), map_option rs_base_url (rc_nexusphp_site c)]"

lemma plain_strip:
  assumes "plain_text v"
  shows "strip v = v"
proof -
  have sp: "\<not> space_char [c]" if "32 < byte c \<and> byte c < 127" for c
    using that by (simp add: space_char_def)
  have drop: "dropWhile space_char (map (\<lambda>c. [c]) w) = map (\<lambda>c. [c]) w" if "plain_text w" for w
    using that sp by (cases w) (auto simp: plain_text_def)
  have "plain_text (rev v)" using assms by (simp add: plain_text_def list_all_iff)
  then show ?thesis
    unfolding strip_def strip_chars_def plain_chars [OF assms] drop [OF assms] rev_map
    by (simp add: drop rev_map)
qed

lemma address_clean: "address_ok v \<Longrightarrow> clean_text 2048 v"
  by (auto simp: address_ok_def clean_text_def plain_strip py_len_def plain_chars control_free_def
      plain_text_def list_ex_iff list_all_iff)

lemma no_empty_origin: "validate_https_origin L [] = None"
proof -
  have "split_scheme (cleaned_url []) = ([], [])" by code_simp
  then have "urlsplit L [] = None \<or> (\<exists>u. urlsplit L [] = Some u \<and> scheme u = [])"
    by (auto simp: urlsplit_def Let_def split: prod.splits)
  then show ?thesis by (auto simp: validate_https_origin_def check_def split: sum.splits)
qed

lemma origin_reads_back:
  "origin_ok L v \<Longrightarrow> address_ok v \<Longrightarrow> validate_https_origin L v = Some v \<and> v \<noteq> []"
  using no_empty_origin [of L] by (auto simp: origin_ok_def address_ok_def dest: origin_again)

lemma json_option [simp]: "opt_json f None = JNull" "opt_json f (Some x) = f x"
  by (simp_all add: opt_json_def)

lemma stored_text_reads_back: "text_ok n x \<Longrightarrow> stored_optional_string (opt_json JStr x) n = Some x"
  by (cases x) (simp_all add: stored_optional_string_def)

lemma stored_required_reads_back: "clean_text n s \<Longrightarrow> s \<noteq> [] \<Longrightarrow> stored_required_string (JStr s) n = Some s"
  by (simp add: stored_required_string_def stored_optional_string_def)

lemma site_reads_back:
  assumes ok: "opt_ok (site_ok L arch) s" and "opt_ok (\<lambda>s. address_ok (rs_base_url s)) s"
  shows "stored_pt_site L arch (opt_json pt_site_payload s) = Some s"
proof (cases s)
  case (Some t)
  have "address_ok (rs_base_url t)" "site_ok L arch t" using assms Some by (simp_all add: opt_ok_def)
  then show ?thesis
    using origin_reads_back [of L "rs_base_url t"] address_clean [of "rs_base_url t"]
    by (simp add: Some stored_pt_site_def pt_site_payload_def stored_site_of_def dict_value_def
        stored_text_reads_back stored_required_reads_back site_ok_def dec_obj_def)
qed (simp add: stored_pt_site_def)

text \<open>The payload of a configuration, and what a successful save leaves in the file.\<close>

lemma architecture_reads_back:
  "stored_architecture (opt_json (\<lambda>a. JStr (site_architecture_value a)) x) = Some x"
  by (cases x; cases "the x") (simp_all add: stored_architecture_def)

lemma flag_reads_back: "stored_flag (opt_json JBool x) = Some x"
  by (cases x) (simp_all add: stored_flag_def)

lemma nextfind_reads_back:
  assumes "config_ok L c" and "opt_ok address_ok (rc_nextfind_base_url c)"
  shows "stored_nextfind_url L st False [(''base_url'', opt_json JStr (rc_nextfind_base_url c)), u, p]
    = Some (rc_nextfind_base_url c)"
proof (cases "rc_nextfind_base_url c")
  case (Some v)
  then have v: "origin_ok L v" "address_ok v" using assms by (simp_all add: config_ok_def opt_ok_def)
  then show ?thesis
    using origin_reads_back [OF v] address_clean [OF v(2)]
    by (simp add: stored_nextfind_url_def dict_value_def stored_optional_string_def Some)
qed (simp add: stored_nextfind_url_def dict_value_def stored_optional_string_def)

lemma addresses_all:
  "list_all P (addresses c) \<longleftrightarrow> opt_ok P (rc_nextfind_base_url c)
    \<and> opt_ok (\<lambda>s. P (rs_base_url s)) (rc_avistaz_site c) \<and> opt_ok (\<lambda>s. P (rs_base_url s)) (rc_nexusphp_site c)"
  by (cases "rc_nextfind_base_url c"; cases "rc_avistaz_site c"; cases "rc_nexusphp_site c")
    (simp_all add: addresses_def opt_ok_def map_filter_def)

lemma payload_reads_back:
  assumes ok: "config_ok L c" and addr: "list_all address_ok (addresses c)"
  shows "configuration L st \<lparr> auth_file = a, integrations_file = Document (configuration_payload c) \<rparr> = Inr c"
proof -
  note addr = addr [unfolded addresses_all]
  have sites: "stored_pt_site L SA_AVISTAZ (opt_json pt_site_payload (rc_avistaz_site c)) = Some (rc_avistaz_site c)"
      "stored_pt_site L SA_NEXUSPHP (opt_json pt_site_payload (rc_nexusphp_site c)) = Some (rc_nexusphp_site c)"
    using ok addr by (simp_all add: site_reads_back config_ok_def sites_ok_def)
  have active: "(rc_pt_site_architecture c = Some SA_AVISTAZ \<longrightarrow> (\<exists>y. rc_avistaz_site c = Some y))
      \<and> (rc_pt_site_architecture c = Some SA_NEXUSPHP \<longrightarrow> (\<exists>y. rc_nexusphp_site c = Some y))"
    using ok by (auto simp: config_ok_def sites_ok_def)
  have texts: "text_ok 120 (rc_nextfind_username c)" "text_ok 8192 (rc_nextfind_password c)"
      "text_ok 8192 (rc_tmdb_token c)" and qb: "qb_ok L c"
    using ok by (simp_all add: config_ok_def)
  show ?thesis
    using qb texts active unfolding qb_ok_def configuration_def read_json_object_def configuration_payload_def
    by (simp add: dec_obj_def dict_value_def equals_int_def Let_def result_simps configuration_from_payload_def
        v2_sites_def sites architecture_reads_back stored_text_reads_back stored_nextfind_def
        nextfind_reads_back [OF ok addr [THEN conjunct1]] stored_qb_def flag_reads_back empty_configuration_def)
qed

lemma saved_file:
  assumes "save_configuration L st ups io fs = (Inr c, fs')"
  shows "config_ok L c \<and> fs' = fs\<lparr> integrations_file := Document (configuration_payload c) \<rparr> \<and> io = Written
    \<and> fits (configuration_payload c)"
  using assms
  by (cases io)
    (auto simp: save_configuration_def result_simps Let_def dest: configuration_ok merge_ok
      split: sum.splits if_splits)

text \<open>C16: What is saved reads back. When a save ends well, the file holds exactly the configuration the operator
  was answered with: read again, under whatever settings, it is the same record, every secret, flag and site included. The
  addresses must be printable ASCII without spaces and at most 2048 characters long; without that the statement fails.\<close>
theorem saved_configuration_reads_back:
  assumes "save_configuration L st ups io fs = (Inr c, fs')" and "list_all address_ok (addresses c)"
  shows "configuration L st' fs' = Inr c \<and> auth_file fs' = auth_file fs"
proof -
  have fs': "fs' = \<lparr> auth_file = auth_file fs, integrations_file = Document (configuration_payload c) \<rparr>"
    using saved_file [OF assms(1)] by simp
  show ?thesis
    using payload_reads_back [OF _ assms(2)] saved_file [OF assms(1)] unfolding fs' by simp
qed

definition no_secret :: secret_source where "no_secret = plain_secret None"

definition example_connections :: connections where
  "example_connections = \<lparr> cn_nextfind_base_url = ''https://nextfind.example'',
     cn_nextfind_allowed_hosts = [''nextfind.example''], cn_nextfind_username = no_secret,
     cn_nextfind_password = no_secret, cn_tmdb_access_token = no_secret, cn_pt_site_architecture = SA_AVISTAZ,
     cn_pt_site_id = ''avistaz'', cn_pt_site_display_name = ''AvistaZ'', cn_pt_site_runtime_configured = None,
     cn_pt_site_runtime_supported = True, cn_avistaz_base_url = ''https://avistaz.example'',
     cn_avistaz_allowed_hosts = [''avistaz.example''], cn_avistaz_username = no_secret, cn_avistaz_password = no_secret,
     cn_avistaz_pid = no_secret, cn_qb_base_url = no_secret, cn_qb_username = no_secret, cn_qb_password = no_secret,
     cn_qb_allowed_hosts = [], cn_qb_allow_insecure_http = False, cn_qb_target_save_path = None,
     cn_qb_allowed_save_paths = [], cn_qb_target_category = None \<rparr>"

definition no_files :: config_files where
  "no_files = \<lparr> auth_file = Missing, integrations_file = Missing \<rparr>"

definition site_update :: "string \<Rightarrow> updates" where
  "site_update url =
    [(''nextfind'', [(''base_url'', JStr url), (''username'', JStr ''ann''), (''password'', JStr ''pw'')])]"

definition saved_example :: runtime_configuration where
  "saved_example = empty_configuration\<lparr> rc_nextfind_base_url := Some ''https://nextfind.example'',
     rc_nextfind_username := Some ''ann'', rc_nextfind_password := Some ''pw'' \<rparr>"

lemma example_origins:
  "validate_https_origin example_lib ''https://nextfind.example/'' = Some ''https://nextfind.example''"
  "validate_https_origin example_lib ''https://nextfind.example /'' = Some ''https://nextfind.example ''"
  by code_simp+

lemma example_texts:
  "clean_text 2048 ''https://nextfind.example/''" "clean_text 2048 ''https://nextfind.example /''"
  "clean_text 120 ''ann''" "single_line 8192 (JStr ''pw'') = Some ''pw''"
  "\<not> clean_text 2048 ''https://nextfind.example ''" "address_ok ''https://nextfind.example''"
  by code_simp+

lemma example_fits:
  "fits (configuration_payload saved_example)"
  "fits (configuration_payload (saved_example\<lparr> rc_nextfind_base_url := Some ''https://nextfind.example '' \<rparr>))"
proof -
  have "length (dumps (configuration_payload saved_example)) < 600"
    "length (dumps (configuration_payload
      (saved_example\<lparr> rc_nextfind_base_url := Some ''https://nextfind.example '' \<rparr>))) < 600"
    by code_simp+
  then show "fits (configuration_payload saved_example)"
    "fits (configuration_payload (saved_example\<lparr> rc_nextfind_base_url := Some ''https://nextfind.example '' \<rparr>))"
    by (simp_all add: fits_def MAX_CONFIG_BYTES_def)
qed

lemma first_save:
  assumes "clean_text 2048 url" and "validate_https_origin example_lib url = Some v"
    and "fits (configuration_payload (saved_example\<lparr> rc_nextfind_base_url := Some v \<rparr>))"
  shows "save_configuration example_lib st (site_update url) Written no_files
    = (Inr (saved_example\<lparr> rc_nextfind_base_url := Some v \<rparr>),
       no_files\<lparr> integrations_file := Document (configuration_payload (saved_example\<lparr> rc_nextfind_base_url := Some v \<rparr>)) \<rparr>)"
  using assms
  by (simp add: save_configuration_def configuration_def no_files_def merge_configuration_def site_update_def
      result_simps merged_def merged_nextfind_def update_group_def optional_public_update_def empty_configuration_def
      example_texts optional_secret_update_def kept_if_def merge_pt_sites_def merged_qb_def flag_update_def
      validate_qb_url_def falsy_str_def saved_example_def Let_def)

theorem saved_configuration_reads_back_witness:
  "let fs' = no_files\<lparr> integrations_file := Document (configuration_payload saved_example) \<rparr> in
    save_configuration example_lib example_connections (site_update ''https://nextfind.example/'') Written no_files
      = (Inr saved_example, fs')
    \<and> configuration example_lib example_connections fs' = Inr saved_example"
proof -
  have same: "saved_example\<lparr> rc_nextfind_base_url := Some ''https://nextfind.example'' \<rparr> = saved_example"
    by (simp add: saved_example_def)
  have saved: "save_configuration example_lib example_connections (site_update ''https://nextfind.example/'') Written no_files
      = (Inr saved_example, no_files\<lparr> integrations_file := Document (configuration_payload saved_example) \<rparr>)"
    using first_save [OF example_texts(1) example_origins(1), of example_connections] example_fits
    unfolding same by simp
  have "list_all address_ok (addresses saved_example)"
    by (simp add: addresses_all saved_example_def empty_configuration_def example_texts opt_ok_def)
  then show ?thesis
    using saved saved_configuration_reads_back [OF saved] by (simp add: Let_def)
qed

lemma locked_when_unreadable:
  "configuration L st fs = Inl e \<Longrightarrow> save_configuration L st ups io fs = (Inl e, fs)"
  by (simp add: save_configuration_def result_simps)

section \<open>The administrator\<close>

text \<open>What the program does with the two files: creating the administrator and saving, with any outcome.\<close>

inductive config_run :: "lib \<Rightarrow> config_files \<Rightarrow> config_files \<Rightarrow> bool" for L where
  config_same: "config_run L fs fs"
| config_setup: "config_run L fs mid \<Longrightarrow> config_run L fs (snd (setup_admin L user digest key io mid))"
| config_save: "config_run L fs mid \<Longrightarrow> config_run L fs (snd (save_configuration L st ups io mid))"

definition signing_key_text :: "string \<Rightarrow> bool" where
  "signing_key_text key \<longleftrightarrow> clean_text 1024 key \<and> 32 \<le> py_len key \<and> key \<noteq> []"

lemma save_keeps_auth: "auth_file (snd (save_configuration L st ups io fs)) = auth_file fs"
  by (simp add: save_configuration_def Let_def split: sum.splits)

lemma setup_keeps_auth:
  "auth_file fs \<noteq> Missing \<Longrightarrow> auth_file (snd (setup_admin L user digest key io fs)) = auth_file fs
    \<and> fst (setup_admin L user digest key io fs) \<noteq> Inr r"
  by (simp add: setup_admin_def Let_def split: option.splits)

lemma run_keeps_auth: "config_run L fs fs' \<Longrightarrow> auth_file fs \<noteq> Missing \<Longrightarrow> auth_file fs' = auth_file fs"
  by (induction rule: config_run.induct) (simp_all add: setup_keeps_auth save_keeps_auth)

lemma setup_writes:
  assumes "setup_admin L user digest key io fs = (Inr r, fs')"
  shows "auth_file fs' = Document (auth_payload r) \<and> ac_signing_key r = key
    \<and> single_line 120 (JStr (ac_username r)) = Some (ac_username r)
    \<and> single_line 1024 (JStr (ac_password_digest r)) = Some (ac_password_digest r)"
  using assms
  by (auto simp: setup_admin_def Let_def single_line_def dec_str_def check_def split: option.splits if_splits bind_splits)

lemma auth_reads_back:
  assumes "auth_file fs = Document (auth_payload r)" and "signing_key_text (ac_signing_key r)"
    and "single_line 120 (JStr (ac_username r)) = Some (ac_username r)"
    and "single_line 1024 (JStr (ac_password_digest r)) = Some (ac_password_digest r)"
  shows "auth_record_of L fs = Inr (Some r)"
proof -
  have "single_line 1024 (JStr (ac_signing_key r)) = Some (ac_signing_key r)"
    using assms(2) by (simp add: single_line_def dec_str_def signing_key_text_def)
  then show ?thesis
    using assms
    by (simp add: auth_record_of_def read_json_object_def auth_payload_def dec_obj_def dict_value_def equals_int_def
        signing_key_text_def)
qed

text \<open>C25: The administrator is created once. After \<open>setup_admin\<close> has answered with a record, and after whatever
  setups and saves follow with whatever outcome, the stored record is still that one, and no setup succeeds again. The
  new signing key is what \<open>token_urlsafe\<close> documents: a line of at least 32 characters.\<close>
theorem administrator_is_created_once:
  assumes "setup_admin L user digest key io fs = (Inr r, created)" and "signing_key_text key"
    and "config_run L created later"
  shows "auth_record_of L later = Inr (Some r)
    \<and> (\<forall>user' digest' key' io' r'. fst (setup_admin L user' digest' key' io' later) \<noteq> Inr r')"
proof -
  note w = setup_writes [OF assms(1)]
  have "auth_file later = Document (auth_payload r)"
    using run_keeps_auth [OF assms(3)] w by simp
  then show ?thesis
    using auth_reads_back [of later r L] w assms(2) setup_keeps_auth [of later] by simp
qed

lemma example_admin:
  "single_line 120 (JStr ''ann'') = Some ''ann''" "single_line 1024 (JStr ''digest'') = Some ''digest''"
  "signing_key_text (replicate 43 (CHR ''k''))"
  by code_simp+

lemma example_admin_fits:
  "fits (auth_payload \<lparr> ac_username = ''ann'', ac_password_digest = ''digest'',
    ac_signing_key = replicate 43 (CHR ''k'') \<rparr>)"
proof -
  have "length (dumps (auth_payload \<lparr> ac_username = ''ann'', ac_password_digest = ''digest'',
    ac_signing_key = replicate 43 (CHR ''k'') \<rparr>)) < 300"
    by code_simp
  then show ?thesis by (simp add: fits_def MAX_CONFIG_BYTES_def)
qed

theorem administrator_is_created_once_witness:
  "\<exists>r created later.
    setup_admin example_lib ''ann'' ''digest'' (replicate 43 (CHR ''k'')) Written no_files = (Inr r, created)
    \<and> later = snd (setup_admin example_lib ''eve'' ''digest'' (replicate 43 (CHR ''x'')) Written created)
    \<and> auth_record_of example_lib later = Inr (Some r) \<and> ac_username r = ''ann''"
proof -
  let ?r = "\<lparr> ac_username = ''ann'', ac_password_digest = ''digest'', ac_signing_key = replicate 43 (CHR ''k'') \<rparr>"
  let ?created = "no_files\<lparr> auth_file := Document (auth_payload ?r) \<rparr>"
  let ?later = "snd (setup_admin example_lib ''eve'' ''digest'' (replicate 43 (CHR ''x'')) Written ?created)"
  have made: "setup_admin example_lib ''ann'' ''digest'' (replicate 43 (CHR ''k'')) Written no_files = (Inr ?r, ?created)"
    using example_admin_fits by (simp add: setup_admin_def example_admin no_files_def Let_def)
  have "config_run example_lib ?created ?later" by (rule config_setup [OF config_same])
  from administrator_is_created_once [OF made example_admin(3) this] made
  show ?thesis by (intro exI [of _ ?r] exI [of _ ?created] exI [of _ ?later]) simp
qed

section \<open>A configuration that locks itself\<close>

lemma stored_text_clean: "stored_optional_string (JStr v) n = Some x \<Longrightarrow> clean_text n v"
  by (simp add: stored_optional_string_def split: if_splits)

lemma readable_site_clean:
  "stored_pt_site L arch (opt_json pt_site_payload x) = Some y \<Longrightarrow> opt_ok (\<lambda>s. clean_text 2048 (rs_base_url s)) x"
  by (cases x)
    (auto simp: stored_pt_site_def pt_site_payload_def stored_site_of_def stored_required_string_def dict_value_def
      dec_obj_def opt_ok_def dest: stored_text_clean split: bind_splits)

lemma readable_nextfind_clean:
  "stored_nextfind_url L st False [(''base_url'', opt_json JStr x), u, p] = Some y \<Longrightarrow> opt_ok (clean_text 2048) x"
  by (cases x) (auto simp: stored_nextfind_url_def dict_value_def opt_ok_def dest: stored_text_clean split: bind_splits)

lemma readable_addresses_clean:
  assumes "configuration L st fs = Inr c'" and "integrations_file fs = Document (configuration_payload c)"
  shows "list_all (clean_text 2048) (addresses c)"
  using assms unfolding configuration_def read_json_object_def configuration_payload_def addresses_all
  by (auto simp: dec_obj_def dict_value_def equals_int_def Let_def result_simps configuration_from_payload_def
      v2_sites_def stored_nextfind_def split: bind_splits dest!: readable_site_clean readable_nextfind_clean)

lemma configuration_error: "configuration L st fs = Inl e \<Longrightarrow> e = RuntimeConfigError"
  by (auto simp: configuration_def option_or_def split: if_splits option.splits)

lemma unclean_address_unreadable:
  assumes "integrations_file fs = Document (configuration_payload c)" and "v \<in> set (addresses c)" and "strip v \<noteq> v"
  shows "configuration L st fs = Inl RuntimeConfigError"
proof (cases "configuration L st fs")
  case (Inr c')
  from readable_addresses_clean [OF this assms(1)] assms(2,3) show ?thesis
    by (auto simp: list_all_iff clean_text_def)
qed (use configuration_error in blast)

lemma setup_keeps_integrations: "integrations_file (snd (setup_admin L user digest key io fs)) = integrations_file fs"
  by (simp add: setup_admin_def Let_def split: option.splits)

lemma run_keeps_unreadable:
  assumes "config_run L fs later" and "\<And>st mid. integrations_file mid = integrations_file fs \<Longrightarrow>
    configuration L st mid = Inl RuntimeConfigError"
  shows "integrations_file later = integrations_file fs"
  using assms by (induction rule: config_run.induct) (simp_all add: setup_keeps_integrations locked_when_unreadable)

text \<open>The address an update gives is stored without its final slashes, and otherwise as it is.\<close>

lemma given_address_is_stored:
  assumes "save_configuration L st ups io fs = (Inr c, saved)"
    and "map_of (update_group ups ''nextfind'') ''base_url'' = Some (JStr url)"
  shows "rstrip_slash url \<in> set (addresses c)"
proof -
  from assms(1) obtain c0 where "merge_configuration L c0 ups = Inr c"
    by (auto simp: save_configuration_def result_simps Let_def split: sum.splits if_splits)
  then have "merged L c0 ups = Some c" by (auto simp: merge_configuration_def result_simps)
  then obtain c1 c2 sites token where nf: "merged_nextfind L c0 (update_group ups ''nextfind'') = Some c1"
    and c2: "c2 = c1\<lparr> rc_tmdb_token := token, rc_pt_site_architecture := fst sites,
       rc_avistaz_site := fst (snd sites), rc_nexusphp_site := snd (snd sites) \<rparr>"
    and qb: "merged_qb L c2 (update_group ups ''qbittorrent'') = Some c"
    by (rule merged_parts)
  have "rc_nextfind_base_url c1 = Some (rstrip_slash url)"
    using nf assms(2)
    by (auto simp: merged_nextfind_def optional_public_update_def Let_def validate_https_origin_def
        split: bind_splits if_splits)
  then show ?thesis using merged_qb_frame [OF qb] by (simp add: c2 addresses_def map_filter_def)
qed

text \<open>C39: A save that stores an address with white space at its end locks the configuration. The address of
  NextFind and those of the two sites are stored as \<open>_validate_https_origin\<close> returns them, without their final slashes
  and unchecked from then on, so that one given with white space before its final slash is such an
  address. When the save has been answered as a success, the file is unreadable: whatever
  setups and saves follow, with whatever outcome, the configuration cannot be read, the settings cannot be
  overridden, no update is accepted, under any settings, and the file stays as it is.\<close>
theorem trailing_space_locks_the_configuration:
  assumes "save_configuration L st ups io fs = (Inr c, saved)" and "v \<in> set (addresses c)" and "strip v \<noteq> v"
    and "config_run L saved later"
  shows "configuration L st' later = Inl RuntimeConfigError
    \<and> apply_runtime_configuration L st' later = Inl RuntimeConfigError
    \<and> save_configuration L st' ups' io' later = (Inl RuntimeConfigError, later)
    \<and> integrations_file later = integrations_file saved"
proof -
  have stored: "integrations_file saved = Document (configuration_payload c)" using saved_file [OF assms(1)] by simp
  note unreadable = unclean_address_unreadable [OF _ assms(2,3)]
  have same: "integrations_file later = integrations_file saved"
    by (rule run_keeps_unreadable [OF assms(4)]) (rule unreadable, simp add: stored)
  then have "configuration L st' later = Inl RuntimeConfigError" using unreadable stored by simp
  with same show ?thesis by (simp add: locked_when_unreadable apply_runtime_configuration_def result_simps)
qed

text \<open>Such a save: the address ends in a space and a slash, and the answer is a success. The next save repairs nothing.\<close>

lemma trailing_space_locks_the_configuration_witness:
  "\<exists>saved later.
    save_configuration example_lib example_connections (site_update ''https://nextfind.example /'') Written no_files
      = (Inr (saved_example\<lparr> rc_nextfind_base_url := Some ''https://nextfind.example '' \<rparr>), saved)
    \<and> later = snd (save_configuration example_lib example_connections
        (site_update ''https://nextfind.example/'') Written saved)
    \<and> configuration example_lib example_connections later = Inl RuntimeConfigError
    \<and> integrations_file later = integrations_file saved"
proof -
  define v where "v = ''https://nextfind.example ''"
  let ?c = "saved_example\<lparr> rc_nextfind_base_url := Some v \<rparr>"
  let ?saved = "no_files\<lparr> integrations_file := Document (configuration_payload ?c) \<rparr>"
  let ?later = "snd (save_configuration example_lib example_connections
    (site_update ''https://nextfind.example/'') Written ?saved)"
  have saved: "save_configuration example_lib example_connections (site_update ''https://nextfind.example /'') Written no_files
      = (Inr ?c, ?saved)"
    unfolding v_def by (rule first_save [OF example_texts(2) example_origins(2) example_fits(2)])
  have unclean: "strip v \<noteq> v" unfolding v_def by code_simp
  have "v \<in> set (addresses ?c)" by (simp add: addresses_def map_filter_def)
  from trailing_space_locks_the_configuration [OF saved this unclean config_save [OF config_same]]
  have "configuration example_lib example_connections ?later = Inl RuntimeConfigError
    \<and> integrations_file ?later = integrations_file ?saved" by blast
  with saved show ?thesis
    unfolding v_def [symmetric] by (intro exI [of _ ?saved] exI [of _ ?later]) simp
qed

section \<open>Secrets and identities\<close>

text \<open>C15: A stored secret never reaches another address or account. After an update every password, PID, cookie and
  passkey of the configuration was either given by this update, or was stored before with the same
  address and the same account (the same site identifier for NexusPHP); otherwise it is gone.\<close>
theorem saved_secrets_stay_with_their_identity:
  assumes "merge_configuration L c ups = Inr c'"
  shows "secret_follows (supplied (update_group ups ''nextfind'') ''password'' (the (rc_nextfind_password c')))
      (rc_nextfind_password c)
      (rc_nextfind_base_url c' = rc_nextfind_base_url c \<and> rc_nextfind_username c' = rc_nextfind_username c)
      (rc_nextfind_password c')
    \<and> secret_follows (supplied (update_group ups ''qbittorrent'') ''password'' (the (rc_qb_password c')))
      (rc_qb_password c) (rc_qb_url c' = rc_qb_url c \<and> rc_qb_username c' = rc_qb_username c) (rc_qb_password c')
    \<and> list_all (\<lambda>(key, secret). site_secret_follows (update_group ups ''pt_site'') key secret
        (\<lambda>s. (rs_base_url s, rs_username s)) (rc_avistaz_site c) (rc_avistaz_site c'))
      [(''password'', rs_password), (''pid'', rs_pid)]
    \<and> list_all (\<lambda>(key, secret). site_secret_follows (update_group ups ''pt_site'') key secret
        (\<lambda>s. (rs_site_id s, rs_base_url s)) (rc_nexusphp_site c) (rc_nexusphp_site c'))
      [(''cookie'', rs_cookie), (''passkey'', rs_passkey)]"
proof -
  have "merged L c ups = Some c'" using assms by (auto simp: merge_configuration_def result_simps)
  then obtain c1 c2 sites token where
    nf: "merged_nextfind L c (update_group ups ''nextfind'') = Some c1"
    and st: "merge_pt_sites L c (map_of ups ''pt_site'') = Some sites"
    and c2: "c2 = c1\<lparr> rc_tmdb_token := token, rc_pt_site_architecture := fst sites,
       rc_avistaz_site := fst (snd sites), rc_nexusphp_site := snd (snd sites) \<rparr>"
    and qb: "merged_qb L c2 (update_group ups ''qbittorrent'') = Some c'"
    by (rule merged_parts)
  obtain arch a n where sites: "sites = (arch, a, n)" by (cases sites) auto
  show ?thesis
    using merged_nextfind_follows [OF nf] merged_qb_follows [OF qb] merge_sites_follow [OF st [unfolded sites]]
      merged_nextfind_frame [OF nf] merged_qb_frame [OF qb]
    by (simp add: c2 sites update_group_def)
qed

lemma moved_save:
  assumes "clean_text 2048 url" and "validate_https_origin L url = Some url" and "url \<noteq> ''https://nextfind.example''"
  shows "merge_configuration L saved_example [(''nextfind'', [(''base_url'', JStr url)])]
    = Inr (saved_example\<lparr> rc_nextfind_base_url := Some url, rc_nextfind_password := None \<rparr>)"
proof -
  have old: "rc_nextfind_base_url saved_example = Some ''https://nextfind.example''"
    "rc_nextfind_username saved_example = Some ''ann''"
    by (simp_all add: saved_example_def)
  have rest: "rc_tmdb_token saved_example = None" "rc_pt_site_architecture saved_example = None"
    "rc_avistaz_site saved_example = None" "rc_nexusphp_site saved_example = None" "rc_qb_url saved_example = None"
    "rc_qb_username saved_example = None" "rc_qb_password saved_example = None" "rc_qb_save_path saved_example = None"
    "rc_qb_category saved_example = None" "rc_qb_allow_insecure_http saved_example = None"
    "saved_example\<lparr> rc_nextfind_username := Some ''ann'' \<rparr> = saved_example"
    by (simp_all add: saved_example_def empty_configuration_def)
  have nf: "merged_nextfind L saved_example [(''base_url'', JStr url)]
      = Some (saved_example\<lparr> rc_nextfind_base_url := Some url, rc_nextfind_username := Some ''ann'', rc_nextfind_password := None \<rparr>)"
    unfolding merged_nextfind_def Let_def old
    using assms by (simp add: optional_public_update_def optional_secret_update_def kept_if_def)
  have "merged L saved_example [(''nextfind'', [(''base_url'', JStr url)])]
      = Some (saved_example\<lparr> rc_nextfind_base_url := Some url, rc_nextfind_password := None \<rparr>)"
    unfolding merged_def update_group_def
    by (simp add: nf Let_def optional_secret_update_def merge_pt_sites_def merged_qb_def optional_public_update_def
        flag_update_def kept_if_def rest validate_qb_url_def falsy_str_def)
      (simp add: saved_example_def empty_configuration_def)
  then show ?thesis by (simp add: merge_configuration_def result_simps)
qed

theorem saved_secrets_stay_with_their_identity_witness:
  "\<exists>url c'. merge_configuration example_lib saved_example [(''nextfind'', [(''base_url'', JStr url)])] = Inr c'
    \<and> rc_nextfind_password saved_example = Some ''pw'' \<and> rc_nextfind_password c' = None
    \<and> secret_follows False (rc_nextfind_password saved_example) False (rc_nextfind_password c')"
proof -
  define url where "url = ''https://other.example''"
  have url: "clean_text 2048 url" "validate_https_origin example_lib url = Some url" "url \<noteq> ''https://nextfind.example''"
    unfolding url_def by code_simp+
  have new: "supplied (update_group [(''nextfind'', [(''base_url'', JStr url)])] ''nextfind'') ''password'' x = False" for x
    by (simp add: supplied_def update_group_def)
  have old: "rc_nextfind_password saved_example = Some ''pw''"
    "rc_nextfind_base_url saved_example = Some ''https://nextfind.example''"
    by (simp_all add: saved_example_def)
  have "(Some url = Some ''https://nextfind.example'') = False" using url(3) by simp
  with saved_secrets_stay_with_their_identity [OF moved_save [OF url], THEN conjunct1, unfolded new]
  have "secret_follows False (rc_nextfind_password saved_example) False
      (rc_nextfind_password (saved_example\<lparr> rc_nextfind_base_url := Some url, rc_nextfind_password := None \<rparr>))"
    by (simp add: old)
  then show ?thesis using moved_save [OF url] old(1) by (intro exI conjI) (assumption | simp)+
qed

end
