(* ===== verification/Auth.thy ===== *)
theory Auth
  imports Base64 RuntimeConfig Episodes
begin

text \<open>
  Sessions, CSRF tokens and passwords (\<open>core/auth.py\<close>), the checks every route depends on
  (\<open>api/dependencies.py\<close>) and the authentication routes (\<open>api/routes/auth.py\<close>). The digests and
  \<open>json.loads\<close> are parameters; the clock, the random texts and the salt are arguments.
\<close>

section \<open>Library functions\<close>

text \<open>
  HMAC with SHA-256 of a key and a message, PBKDF2 of a password, a salt and a number of iterations with
  a key of 32 bytes, and \<open>json.loads\<close> of bytes, where None is \<open>ValueError\<close>.
\<close>

record crypto =
  hmac_sha256 :: "string \<Rightarrow> string \<Rightarrow> string"
  pbkdf2_sha256 :: "string \<Rightarrow> string \<Rightarrow> int \<Rightarrow> string"
  json_loads :: "string \<Rightarrow> json option"

text \<open>\<open>hmac.compare_digest\<close> of two texts, which must be ASCII.\<close>

definition compare_digest :: "string \<Rightarrow> string \<Rightarrow> exn + bool" where
  "compare_digest a b = (if \<not> ascii_text a \<or> \<not> ascii_text b then Inl PyTypeError else Inr (a = b))"

text \<open>
  \<open>int(s)\<close>: spaces around, a sign, and decimal digits of any script with single underscores between them,
  at most 4300 digits.
\<close>

fun int_body :: "lib \<Rightarrow> bool \<Rightarrow> nat \<Rightarrow> string list \<Rightarrow> nat option" where
  "int_body L after_digit acc [] = (if after_digit then Some acc else None)"
| "int_body L after_digit acc (u # us) =
    (if u = ''_'' then (if after_digit then int_body L False acc us else None)
     else case digit_of (uni_digit L) u of None \<Rightarrow> None | Some d \<Rightarrow> int_body L True (acc * 10 + d) us)"

definition int_unsigned :: "lib \<Rightarrow> string list \<Rightarrow> int option" where
  "int_unsigned L us =
    (if 4300 < length (filter (\<lambda>u. u \<noteq> ''_'') us) then None else map_option int (int_body L False 0 us))"

definition py_int :: "lib \<Rightarrow> string \<Rightarrow> int option" where
  "py_int L s =
    (case strip_chars (chars s) of
       [] \<Rightarrow> None
     | u # us \<Rightarrow>
         if u = ''-'' then map_option uminus (int_unsigned L us)
         else if u = ''+'' then int_unsigned L us
         else int_unsigned L (u # us))"

section \<open>Tokens\<close>

definition PASSWORD_DIGEST_ITERATIONS :: int where "PASSWORD_DIGEST_ITERATIONS = 600000"

record principal =
  pr_username :: string
  pr_role :: auth_role
  pr_issued_at :: int
  pr_expires_at :: int
  pr_csrf_digest :: string

datatype credential_kind = CK_PLAINTEXT | CK_PBKDF2

record auth_material =
  am_username :: string
  am_credential_kind :: credential_kind
  am_role :: auth_role
  am_credential :: string
  am_signing_key :: string

definition invalid_session :: exn where "invalid_session = app_err ''AUTH_SESSION_INVALID'' 401"
definition invalid_csrf :: exn where "invalid_csrf = app_err ''CSRF_TOKEN_INVALID'' 403"

definition token_sign :: "crypto \<Rightarrow> string \<Rightarrow> string \<Rightarrow> string" where
  "token_sign C key text = b64encode (hmac_sha256 C key text)"

definition new_csrf_token :: "string \<Rightarrow> string" where
  "new_csrf_token random = ''s1_'' @ random"

definition session_payload :: "lib \<Rightarrow> string \<Rightarrow> auth_role \<Rightarrow> string \<Rightarrow> int \<Rightarrow> int \<Rightarrow> json" where
  "session_payload L user role csrf issued ttl = JObj
    [(''sub'', JStr user), (''role'', JStr (auth_role_value role)), (''iat'', JInt issued),
     (''exp'', JInt (issued + ttl)), (''csrf'', JStr (sha256_hex L csrf))]"

definition create_session_token ::
    "lib \<Rightarrow> crypto \<Rightarrow> string \<Rightarrow> auth_role \<Rightarrow> string \<Rightarrow> string \<Rightarrow> int \<Rightarrow> int \<Rightarrow> string" where
  "create_session_token L C user role csrf key ttl now =
    (let signed = ''v1.'' @ b64encode (dumps (session_payload L user role csrf now ttl))
     in signed @ ''.'' @ token_sign C key signed)"

text \<open>An instance of \<open>int\<close>, which a boolean is as well.\<close>

definition int_like :: "json \<Rightarrow> int option" where
  "int_like j = (case j of JInt i \<Rightarrow> Some i | JBool b \<Rightarrow> Some (if b then 1 else 0) | _ \<Rightarrow> None)"

text \<open>The fields of the signed object, read and checked; whatever is wrong with them is the same error.\<close>

definition session_fields :: "json \<Rightarrow> principal option" where
  "session_fields j = do {
     kvs \<leftarrow> dec_obj j;
     user \<leftarrow> Option.bind (map_of kvs ''sub'') dec_str;
     role \<leftarrow> Option.bind (Option.bind (map_of kvs ''role'') dec_str) auth_role_of;
     issued \<leftarrow> Option.bind (map_of kvs ''iat'') int_like;
     expires \<leftarrow> Option.bind (map_of kvs ''exp'') int_like;
     csrf \<leftarrow> Option.bind (map_of kvs ''csrf'') dec_str;
     check (1 \<le> py_len user \<and> py_len user \<le> 120 \<and> py_len csrf = 64);
     Some \<lparr> pr_username = user, pr_role = role, pr_issued_at = issued, pr_expires_at = expires,
       pr_csrf_digest = csrf \<rparr> }"

definition session_body :: "crypto \<Rightarrow> string \<Rightarrow> principal option" where
  "session_body C body = Option.bind (Option.bind (urlsafe_b64decode body) (json_loads C)) session_fields"

definition parse_session_token :: "crypto \<Rightarrow> string \<Rightarrow> string \<Rightarrow> int \<Rightarrow> exn + principal" where
  "parse_session_token C token key now =
    (if 4096 < py_len token then Inl invalid_session
     else case split_on (CHR ''.'') token of
       [version, body, sig] \<Rightarrow>
         if version \<noteq> ''v1'' then Inl invalid_session
         else bindR (compare_digest sig (token_sign C key (version @ ''.'' @ body))) (\<lambda>same.
           bindR (raise_if (\<not> same) invalid_session) (\<lambda>_.
           bindR (option_or invalid_session (session_body C body)) (\<lambda>p.
           if pr_issued_at p > now + 60 then Inl invalid_session
           else if pr_expires_at p \<le> now then Inl (app_err ''AUTH_SESSION_EXPIRED'' 401)
           else Inr p)))
     | _ \<Rightarrow> Inl invalid_session)"

definition create_bootstrap_csrf :: "crypto \<Rightarrow> string \<Rightarrow> string \<Rightarrow> int \<Rightarrow> string" where
  "create_bootstrap_csrf C key random now =
    (let signed = ''b1.'' @ show_int now @ ''.'' @ random in signed @ ''.'' @ token_sign C key signed)"

definition matching_csrf_tokens :: "string option \<Rightarrow> string option \<Rightarrow> exn + string" where
  "matching_csrf_tokens cookie header =
    (if falsy_str cookie \<or> falsy_str header then Inl (app_err ''CSRF_TOKEN_REQUIRED'' 403)
     else if 1024 < py_len (the cookie) \<or> 1024 < py_len (the header) then Inl invalid_csrf
     else bindR (compare_digest (the cookie) (the header)) (\<lambda>same.
       if same then Inr (the cookie) else Inl invalid_csrf))"

definition validate_bootstrap_csrf ::
    "lib \<Rightarrow> crypto \<Rightarrow> string option \<Rightarrow> string option \<Rightarrow> string \<Rightarrow> int \<Rightarrow> int \<Rightarrow> exn + unit" where
  "validate_bootstrap_csrf L C cookie header key ttl now =
    bindR (matching_csrf_tokens cookie header) (\<lambda>token.
    case split_on (CHR ''.'') token of
      [version, issued, random, sig] \<Rightarrow>
        if version \<noteq> ''b1'' then Inl invalid_csrf
        else bindR (compare_digest sig (token_sign C key (version @ ''.'' @ issued @ ''.'' @ random))) (\<lambda>same.
          bindR (raise_if (\<not> same) invalid_csrf) (\<lambda>_.
          bindR (option_or invalid_csrf (py_int L issued)) (\<lambda>issued_at.
          raise_if (issued_at > now + 60 \<or> now - issued_at > ttl) (app_err ''CSRF_TOKEN_EXPIRED'' 403))))
    | _ \<Rightarrow> Inl invalid_csrf)"

definition validate_session_csrf :: "lib \<Rightarrow> string option \<Rightarrow> string option \<Rightarrow> principal \<Rightarrow> exn + unit" where
  "validate_session_csrf L cookie header p =
    bindR (matching_csrf_tokens cookie header) (\<lambda>token.
    bindR (compare_digest (sha256_hex L token) (pr_csrf_digest p)) (\<lambda>same.
    raise_if (\<not> same) invalid_csrf))"

section \<open>Passwords\<close>

text \<open>Two texts have the same SHA-256 digest: the comparison of \<open>_credential_digest\<close>.\<close>

definition same_credential :: "lib \<Rightarrow> string \<Rightarrow> string \<Rightarrow> bool" where
  "same_credential L a b \<longleftrightarrow> sha256_hex L a = sha256_hex L b"

definition verify_local_credentials :: "lib \<Rightarrow> string \<Rightarrow> string \<Rightarrow> string \<Rightarrow> string \<Rightarrow> bool" where
  "verify_local_credentials L user pw expected_user expected_pw \<longleftrightarrow>
    same_credential L user expected_user \<and> same_credential L pw expected_pw"

text \<open>A number of iterations below one raises \<open>ValueError\<close>; the salt of 16 bytes is an argument.\<close>

definition create_password_digest :: "crypto \<Rightarrow> string \<Rightarrow> int \<Rightarrow> string \<Rightarrow> exn + string" where
  "create_password_digest C pw iterations salt =
    (if iterations < 1 then Inl PyValueError
     else Inr (join ''$'' [''pbkdf2_sha256'', ''v1'', show_int iterations, b64encode salt,
       b64encode (pbkdf2_sha256 C pw salt iterations)]))"

definition decode_password_component :: "string \<Rightarrow> nat \<Rightarrow> string option" where
  "decode_password_component s expected_length = do {
     bytes \<leftarrow> b64decode_strict s;
     check (length bytes = expected_length);
     Some bytes }"

text \<open>The iterations, the salt and the derived key of a stored digest.\<close>

definition digest_parts :: "lib \<Rightarrow> string \<Rightarrow> (int \<times> string \<times> string) option" where
  "digest_parts L encoded =
    (case split_on (CHR ''$'') encoded of
       [algorithm, version, raw_iterations, raw_salt, raw_expected] \<Rightarrow> do {
         check (algorithm = ''pbkdf2_sha256'' \<and> version = ''v1'');
         iterations \<leftarrow> py_int L raw_iterations;
         check (1 \<le> iterations \<and> iterations \<le> PASSWORD_DIGEST_ITERATIONS);
         salt \<leftarrow> decode_password_component raw_salt 16;
         expected \<leftarrow> decode_password_component raw_expected 32;
         Some (iterations, salt, expected) }
     | _ \<Rightarrow> None)"

definition verify_password_digest :: "lib \<Rightarrow> crypto \<Rightarrow> string \<Rightarrow> string \<Rightarrow> bool" where
  "verify_password_digest L C pw encoded =
    (case digest_parts L encoded of
       None \<Rightarrow> False
     | Some (iterations, salt, expected) \<Rightarrow> pbkdf2_sha256 C pw salt iterations = expected)"

definition verify_runtime_credentials :: "lib \<Rightarrow> crypto \<Rightarrow> string \<Rightarrow> string \<Rightarrow> string \<Rightarrow> string \<Rightarrow> bool" where
  "verify_runtime_credentials L C user pw expected_user expected_digest \<longleftrightarrow>
    same_credential L user expected_user \<and> verify_password_digest L C pw expected_digest"

definition verify_auth_material_credentials :: "lib \<Rightarrow> crypto \<Rightarrow> string \<Rightarrow> string \<Rightarrow> auth_material \<Rightarrow> bool" where
  "verify_auth_material_credentials L C user pw m =
    (case am_credential_kind m of
       CK_PLAINTEXT \<Rightarrow> verify_local_credentials L user pw (am_username m) (am_credential m)
     | CK_PBKDF2 \<Rightarrow> verify_runtime_credentials L C user pw (am_username m) (am_credential m))"

primrec role_rank :: "auth_role \<Rightarrow> int" where
  "role_rank AR_VIEWER = 10"
| "role_rank AR_OPERATOR = 20"
| "role_rank AR_ADMIN = 30"

definition role_allows :: "auth_role \<Rightarrow> auth_role \<Rightarrow> bool" where
  "role_allows actual needed \<longleftrightarrow> role_rank actual \<ge> role_rank needed"

section \<open>What a route depends on\<close>

record auth_settings =
  au_local_username :: secret_source
  au_local_password :: secret_source
  au_session_signing_key :: secret_source
  au_local_role :: auth_role
  au_session_ttl_seconds :: int
  au_bootstrap_csrf_ttl_seconds :: int
  au_cookie_secure :: bool

definition legacy_auth_fields_present :: "auth_settings \<Rightarrow> bool" where
  "legacy_auth_fields_present st \<longleftrightarrow>
    list_ex (\<lambda>so. truthy_text (so_value so)
        \<or> (case so_file so of None \<Rightarrow> False | Some f \<Rightarrow> fst f \<notin> {[], ''.''}))
      [au_local_username st, au_local_password st, au_session_signing_key st]"

text \<open>\<open>Settings.auth_material\<close>: the user, the password, the key and the role.\<close>

definition settings_auth_material :: "auth_settings \<Rightarrow> unit + (string \<times> string \<times> string \<times> auth_role) option" where
  "settings_auth_material st =
    bindR (read_secret (au_local_username st)) (\<lambda>user.
    bindR (read_secret (au_local_password st)) (\<lambda>pw.
    bindR (read_secret (au_session_signing_key st)) (\<lambda>key.
    Inr (if falsy_str user \<or> 120 < py_len (the user) \<or> falsy_str pw \<or> falsy_str key \<or> py_len (the key) < 32 then None
         else Some (the user, the pw, the key, au_local_role st)))))"

definition require_legacy_auth_material :: "auth_settings \<Rightarrow> exn + auth_material" where
  "require_legacy_auth_material st =
    (case settings_auth_material st of
       Inr (Some (user, pw, key, role)) \<Rightarrow> Inr \<lparr> am_username = user, am_credential_kind = CK_PLAINTEXT,
         am_role = role, am_credential = pw, am_signing_key = key \<rparr>
     | _ \<Rightarrow> Inl (app_err ''AUTH_NOT_CONFIGURED'' 503))"

definition admin_material :: "auth_record \<Rightarrow> auth_material" where
  "admin_material r = \<lparr> am_username = ac_username r, am_credential_kind = CK_PBKDF2, am_role = AR_ADMIN,
     am_credential = ac_password_digest r, am_signing_key = ac_signing_key r \<rparr>"

definition require_auth_material :: "lib \<Rightarrow> auth_settings \<Rightarrow> config_files \<Rightarrow> exn + auth_material" where
  "require_auth_material L st fs =
    (if legacy_auth_fields_present st then require_legacy_auth_material st
     else case auth_record_of L fs of
       Inl _ \<Rightarrow> Inl (app_err ''AUTH_NOT_CONFIGURED'' 503)
     | Inr None \<Rightarrow> Inl (app_err ''AUTH_SETUP_REQUIRED'' 409)
     | Inr (Some r) \<Rightarrow> Inr (admin_material r))"

text \<open>What a request carries: the two cookies and the header.\<close>

record auth_request =
  rq_session :: "string option"
  rq_csrf_cookie :: "string option"
  rq_csrf_header :: "string option"

text \<open>What the checks read: the settings, the files and the clock.\<close>

record auth_env =
  ae_settings :: auth_settings
  ae_files :: config_files
  ae_now :: int

definition current_principal :: "auth_material \<Rightarrow> principal \<Rightarrow> exn + principal" where
  "current_principal m p =
    (if pr_username p \<noteq> am_username m \<or> pr_role p \<noteq> am_role m then Inl (app_err ''AUTH_SESSION_STALE'' 401) else Inr p)"

definition get_current_principal :: "lib \<Rightarrow> crypto \<Rightarrow> auth_env \<Rightarrow> auth_request \<Rightarrow> exn + principal" where
  "get_current_principal L C env rq =
    (if falsy_str (rq_session rq) then Inl (app_err ''AUTH_REQUIRED'' 401)
     else bindR (require_auth_material L (ae_settings env) (ae_files env)) (\<lambda>m.
       bindR (parse_session_token C (the (rq_session rq)) (am_signing_key m) (ae_now env)) (\<lambda>p.
       current_principal m p)))"

definition require_role :: "principal \<Rightarrow> auth_role \<Rightarrow> exn + principal" where
  "require_role p needed =
    (if role_allows (pr_role p) needed then Inr p
     else Inl (app_err_details ''AUTH_ROLE_FORBIDDEN'' 403 [(''required_role'', JStr (auth_role_value needed))]))"

definition get_viewer_principal :: "lib \<Rightarrow> crypto \<Rightarrow> auth_env \<Rightarrow> auth_request \<Rightarrow> exn + principal" where
  "get_viewer_principal L C env rq = bindR (get_current_principal L C env rq) (\<lambda>p. require_role p AR_VIEWER)"

definition get_authenticated_mutation_principal ::
    "lib \<Rightarrow> crypto \<Rightarrow> auth_env \<Rightarrow> auth_request \<Rightarrow> exn + principal" where
  "get_authenticated_mutation_principal L C env rq =
    bindR (get_current_principal L C env rq) (\<lambda>p.
    bindR (validate_session_csrf L (rq_csrf_cookie rq) (rq_csrf_header rq) p) (\<lambda>_. Inr p))"

definition get_operator_principal :: "lib \<Rightarrow> crypto \<Rightarrow> auth_env \<Rightarrow> auth_request \<Rightarrow> exn + principal" where
  "get_operator_principal L C env rq =
    bindR (get_authenticated_mutation_principal L C env rq) (\<lambda>p. require_role p AR_OPERATOR)"

definition get_admin_principal :: "lib \<Rightarrow> crypto \<Rightarrow> auth_env \<Rightarrow> auth_request \<Rightarrow> exn + principal" where
  "get_admin_principal L C env rq =
    bindR (get_authenticated_mutation_principal L C env rq) (\<lambda>p. require_role p AR_ADMIN)"

definition require_bootstrap_csrf :: "lib \<Rightarrow> crypto \<Rightarrow> auth_env \<Rightarrow> auth_request \<Rightarrow> exn + unit" where
  "require_bootstrap_csrf L C env rq =
    bindR (require_auth_material L (ae_settings env) (ae_files env)) (\<lambda>m.
    validate_bootstrap_csrf L C (rq_csrf_cookie rq) (rq_csrf_header rq) (am_signing_key m)
      (au_bootstrap_csrf_ttl_seconds (ae_settings env)) (ae_now env))"

section \<open>The routes\<close>

text \<open>What a response does to the two cookies; a set cookie has its value and its age.\<close>

datatype cookie_action =
    Set_session_cookie string int
  | Set_csrf_cookie string int
  | Clear_auth_cookies

record login_response =
  lr_username :: string
  lr_role :: auth_role
  lr_csrf_token :: string

definition start_session ::
    "lib \<Rightarrow> crypto \<Rightarrow> auth_env \<Rightarrow> string \<Rightarrow> auth_material \<Rightarrow> login_response \<times> cookie_action list" where
  "start_session L C env random m =
    (let csrf = new_csrf_token random; ttl = au_session_ttl_seconds (ae_settings env);
         session = create_session_token L C (am_username m) (am_role m) csrf (am_signing_key m) ttl (ae_now env)
     in (\<lparr> lr_username = am_username m, lr_role = am_role m, lr_csrf_token = csrf \<rparr>,
         [Set_session_cookie session ttl, Set_csrf_cookie csrf ttl]))"

definition login ::
    "lib \<Rightarrow> crypto \<Rightarrow> auth_env \<Rightarrow> auth_request \<Rightarrow> string \<Rightarrow> string \<Rightarrow> string
      \<Rightarrow> exn + (login_response \<times> cookie_action list)" where
  "login L C env rq random user pw =
    bindR (require_bootstrap_csrf L C env rq) (\<lambda>_.
    bindR (require_auth_material L (ae_settings env) (ae_files env)) (\<lambda>m.
    bindR (raise_if (\<not> verify_auth_material_credentials L C user pw m) (app_err ''AUTH_LOGIN_FAILED'' 401)) (\<lambda>_.
    Inr (start_session L C env random m))))"

definition already_configured :: exn where "already_configured = app_err ''AUTH_ALREADY_CONFIGURED'' 409"
definition config_unavailable :: exn where "config_unavailable = app_err ''RUNTIME_CONFIG_UNAVAILABLE'' 503"

text \<open>The errors of the store that the route translates; the others leave it as they are.\<close>

definition setup_error :: "config_error \<Rightarrow> exn" where
  "setup_error e =
    (case e of
       RuntimeConfigAlreadyInitialized \<Rightarrow> already_configured
     | RuntimeConfigError \<Rightarrow> config_unavailable
     | RuntimeConfigValidationError \<Rightarrow> config_unavailable
     | ConfigValueError \<Rightarrow> PyValueError
     | ConfigOSError \<Rightarrow> PyOSError)"

definition setup_route ::
    "lib \<Rightarrow> crypto \<Rightarrow> connections \<Rightarrow> auth_env \<Rightarrow> string \<Rightarrow> string \<Rightarrow> string \<Rightarrow> string \<Rightarrow> string \<Rightarrow> write_outcome
      \<Rightarrow> (exn + (login_response \<times> cookie_action list)) \<times> config_files" where
  "setup_route L C st env user pw salt key random io =
    (let fs = ae_files env in
     if legacy_auth_fields_present (ae_settings env)
     then (bindR (require_auth_material L (ae_settings env) fs) (\<lambda>_. Inl already_configured), fs)
     else case setup_status_of L st fs of
       Inl e \<Rightarrow> (Inl (setup_error e), fs)
     | Inr status \<Rightarrow>
         if ss_admin_configured status then (Inl already_configured, fs)
         else case create_password_digest C pw PASSWORD_DIGEST_ITERATIONS salt of
           Inl e \<Rightarrow> (Inl e, fs)
         | Inr digest \<Rightarrow>
             (case setup_admin L user digest key io fs of
                (Inl e, fs') \<Rightarrow> (Inl (setup_error e), fs')
              | (Inr r, fs') \<Rightarrow> (Inr (start_session L C env random (admin_material r)), fs')))"

text \<open>The principal a cookie pair stands for, as \<open>get_csrf_token\<close> checks it.\<close>

definition csrf_session :: "lib \<Rightarrow> crypto \<Rightarrow> auth_env \<Rightarrow> auth_request \<Rightarrow> auth_material \<Rightarrow> exn + unit" where
  "csrf_session L C env rq m =
    bindR (parse_session_token C (the (rq_session rq)) (am_signing_key m) (ae_now env)) (\<lambda>p.
    bindR (current_principal m p) (\<lambda>_.
    validate_session_csrf L (rq_csrf_cookie rq) (rq_csrf_cookie rq) p))"

definition is_app_error :: "exn \<Rightarrow> bool" where
  "is_app_error e \<longleftrightarrow> (case e of AppErr _ \<Rightarrow> True | _ \<Rightarrow> False)"

definition get_csrf_token ::
    "lib \<Rightarrow> crypto \<Rightarrow> auth_env \<Rightarrow> auth_request \<Rightarrow> string \<Rightarrow> exn + (string \<times> cookie_action list)" where
  "get_csrf_token L C env rq random =
    bindR (require_auth_material L (ae_settings env) (ae_files env)) (\<lambda>m.
    let token = create_bootstrap_csrf C (am_signing_key m) random (ae_now env);
        fresh = [Set_csrf_cookie token (au_bootstrap_csrf_ttl_seconds (ae_settings env))] in
    if falsy_str (rq_session rq) then Inr (token, fresh)
    else case csrf_session L C env rq m of
      Inr _ \<Rightarrow> Inr (some_text (rq_csrf_cookie rq), [])
    | Inl e \<Rightarrow> if is_app_error e then Inr (token, Clear_auth_cookies # fresh) else Inl e)"

definition current_user :: "lib \<Rightarrow> crypto \<Rightarrow> auth_env \<Rightarrow> auth_request \<Rightarrow> exn + (string \<times> auth_role)" where
  "current_user L C env rq = bindR (get_viewer_principal L C env rq) (\<lambda>p. Inr (pr_username p, pr_role p))"

definition logout :: "lib \<Rightarrow> crypto \<Rightarrow> auth_env \<Rightarrow> auth_request \<Rightarrow> exn + cookie_action list" where
  "logout L C env rq = bindR (get_authenticated_mutation_principal L C env rq) (\<lambda>_. Inr [Clear_auth_cookies])"

text \<open>\<open>setup_status\<close> of the routes: whether the administrator exists and all is configured.\<close>

definition setup_status_route ::
    "lib \<Rightarrow> connections \<Rightarrow> auth_env \<Rightarrow> exn + setup_status" where
  "setup_status_route L st env =
    (if legacy_auth_fields_present (ae_settings env)
     then bindR (require_auth_material L (ae_settings env) (ae_files env)) (\<lambda>_.
       case configuration_complete L st (ae_files env) of
         Inl e \<Rightarrow> Inl (setup_error e)
       | Inr ready \<Rightarrow> Inr \<lparr> ss_admin_configured = True, ss_configuration_complete = ready \<rparr>)
     else case setup_status_of L st (ae_files env) of
       Inl e \<Rightarrow> Inl (setup_error e)
     | Inr s \<Rightarrow> Inr s)"

end
