(* ===== verification/AuthLaws.thy ===== *)
theory AuthLaws
  imports Auth EpisodeLaws
begin

text \<open>
  What the tokens and passwords guarantee: exactly the tokens that carry a valid signature over fields in
  range are accepted, a state changing request was authenticated, a session that was started is
  accepted until it expires, and a password matches its own digest.
\<close>

section \<open>Splitting at a separator\<close>

lemma split_on_free: "x \<notin> set w \<Longrightarrow> split_on x w = [w]"
  by (induction w) auto

lemma split_on_first: "x \<notin> set w \<Longrightarrow> split_on x (w @ x # s) = w # split_on x s"
  by (induction w) auto

lemma split_on_not_Nil: "split_on x s \<noteq> []"
  by (induction s) (auto split: list.splits)

lemma split_on_ConsD:
  "split_on x s = w # ws \<Longrightarrow> x \<notin> set w \<and> (if ws = [] then s = w else \<exists>s'. s = w @ x # s' \<and> split_on x s' = ws)"
proof (induction s arbitrary: w ws)
  case (Cons c s)
  obtain v vs where v: "split_on x s = v # vs" using split_on_not_Nil [of x s] by (cases "split_on x s") auto
  show ?case
  proof (cases "c = x")
    case True
    then show ?thesis using Cons.prems v by auto
  next
    case False
    then have w: "w = c # v" "ws = vs" using Cons.prems v by auto
    show ?thesis using Cons.IH [OF v] False by (auto simp: w)
  qed
qed simp

lemma split_on_three:
  "split_on x s = [a, b, c] \<longleftrightarrow> s = a @ x # b @ x # c \<and> x \<notin> set a \<and> x \<notin> set b \<and> x \<notin> set c"
proof
  assume "split_on x s = [a, b, c]"
  from split_on_ConsD [OF this] obtain s' where s': "x \<notin> set a" "s = a @ x # s'" "split_on x s' = [b, c]" by auto
  from split_on_ConsD [OF this(3)] obtain s'' where "x \<notin> set b" "s' = b @ x # s''" "split_on x s'' = [c]" by auto
  moreover from split_on_ConsD [OF this(3)] have "x \<notin> set c \<and> s'' = c" by simp
  ultimately show "s = a @ x # b @ x # c \<and> x \<notin> set a \<and> x \<notin> set b \<and> x \<notin> set c" using s' by simp
next
  assume "s = a @ x # b @ x # c \<and> x \<notin> set a \<and> x \<notin> set b \<and> x \<notin> set c"
  then show "split_on x s = [a, b, c]" by (simp add: split_on_first split_on_free)
qed

section \<open>Session tokens\<close>

lemma token_sign_text: "ascii_text (token_sign C key s)" "CHR ''.'' \<notin> set (token_sign C key s)"
  by (simp_all add: token_sign_def b64encode_ascii b64_no_dot)

definition signed_token :: "crypto \<Rightarrow> string \<Rightarrow> string \<Rightarrow> string" where
  "signed_token C key body = ''v1.'' @ body @ ''.'' @ token_sign C key (''v1.'' @ body)"

text \<open>C22: \<open>parse_session_token\<close> accepts exactly the tokens of at most 4096 characters whose third part is the
  signature of the first two under the key, whose body decodes to fields of the right types and lengths, and
  which were issued at most a minute in the future and have not expired.\<close>
theorem session_token_accepted_iff:
  "parse_session_token C token key now = Inr p \<longleftrightarrow>
    py_len token \<le> 4096
    \<and> (\<exists>body. token = signed_token C key body \<and> CHR ''.'' \<notin> set body \<and> session_body C body = Some p)
    \<and> pr_issued_at p \<le> now + 60 \<and> now < pr_expires_at p"
proof
  assume "parse_session_token C token key now = Inr p"
  then show "py_len token \<le> 4096
    \<and> (\<exists>body. token = signed_token C key body \<and> CHR ''.'' \<notin> set body \<and> session_body C body = Some p)
    \<and> pr_issued_at p \<le> now + 60 \<and> now < pr_expires_at p"
    by (auto simp: parse_session_token_def compare_digest_def result_simps signed_token_def split_on_three
        split: if_splits list.splits)
next
  assume "py_len token \<le> 4096
    \<and> (\<exists>body. token = signed_token C key body \<and> CHR ''.'' \<notin> set body \<and> session_body C body = Some p)
    \<and> pr_issued_at p \<le> now + 60 \<and> now < pr_expires_at p"
  then obtain body where t: "py_len token \<le> 4096" "token = signed_token C key body" "CHR ''.'' \<notin> set body"
    "session_body C body = Some p" "pr_issued_at p \<le> now + 60" "now < pr_expires_at p" by blast
  have "split_on (CHR ''.'') token = [''v1'', body, token_sign C key (''v1.'' @ body)]"
    unfolding split_on_three by (simp add: t(2,3) signed_token_def token_sign_text)
  then show "parse_session_token C token key now = Inr p"
    using t by (simp add: parse_session_token_def compare_digest_def token_sign_text)
qed

text \<open>C40: \<open>parse_session_token\<close> raises \<open>TypeError\<close>, which no caller turns into the answer 401, exactly for a token of the right
  shape whose signature part is not ASCII; this is independent of the key, so any client can do it.\<close>
theorem session_token_type_error_iff:
  "parse_session_token C token key now = Inl PyTypeError \<longleftrightarrow>
    py_len token \<le> 4096 \<and> (\<exists>body sig. split_on (CHR ''.'') token = [''v1'', body, sig] \<and> \<not> ascii_text sig)"
  by (auto simp: parse_session_token_def compare_digest_def token_sign_text raise_if_def option_or_def bindR_def
      invalid_session_def app_err_def split: list.splits option.splits)

section \<open>Requests\<close>

lemma matching_tokens_iff:
  "matching_csrf_tokens cookie header = Inr t \<longleftrightarrow>
    cookie = Some t \<and> header = Some t \<and> t \<noteq> [] \<and> py_len t \<le> 1024 \<and> ascii_text t"
  by (cases cookie; cases header)
    (auto simp: matching_csrf_tokens_def falsy_str_def compare_digest_def result_simps bindR_Inr_iff)

lemma session_csrf_iff:
  "validate_session_csrf L cookie header p = Inr u \<longleftrightarrow>
    (\<exists>t. cookie = Some t \<and> header = Some t \<and> t \<noteq> [] \<and> py_len t \<le> 1024 \<and> ascii_text t
      \<and> sha256_hex L t = pr_csrf_digest p \<and> ascii_text (sha256_hex L t))"
  by (auto simp: validate_session_csrf_def matching_tokens_iff bindR_Inr_iff compare_digest_def result_simps)

lemma current_principal_iff:
  "get_current_principal L C env rq = Inr p \<longleftrightarrow>
    (\<exists>m token. require_auth_material L (ae_settings env) (ae_files env) = Inr m
      \<and> rq_session rq = Some token \<and> token \<noteq> []
      \<and> parse_session_token C token (am_signing_key m) (ae_now env) = Inr p
      \<and> pr_username p = am_username m \<and> pr_role p = am_role m)"
  by (cases "rq_session rq")
    (auto simp: get_current_principal_def falsy_str_def bindR_Inr_iff current_principal_def)

lemma mutation_principal_iff:
  "get_authenticated_mutation_principal L C env rq = Inr p \<longleftrightarrow>
    get_current_principal L C env rq = Inr p
    \<and> validate_session_csrf L (rq_csrf_cookie rq) (rq_csrf_header rq) p = Inr ()"
  by (auto simp: get_authenticated_mutation_principal_def bindR_Inr_iff)

lemma accepted_fields:
  assumes "session_fields j = Some p"
  shows "1 \<le> py_len (pr_username p) \<and> py_len (pr_username p) \<le> 120 \<and> py_len (pr_csrf_digest p) = 64"
  using assms by (auto simp: session_fields_def split: bind_splits)

text \<open>What a request that a route admits for a role has shown.\<close>

definition authenticated :: "lib \<Rightarrow> crypto \<Rightarrow> auth_env \<Rightarrow> auth_request \<Rightarrow> principal \<Rightarrow> auth_material \<Rightarrow> bool" where
  "authenticated L C env rq p m \<longleftrightarrow>
    require_auth_material L (ae_settings env) (ae_files env) = Inr m
    \<and> pr_username p = am_username m \<and> pr_role p = am_role m \<and> ae_now env < pr_expires_at p
    \<and> (\<exists>body. rq_session rq = Some (signed_token C (am_signing_key m) body) \<and> session_body C body = Some p)
    \<and> (\<exists>t. rq_csrf_cookie rq = Some t \<and> rq_csrf_header rq = Some t \<and> t \<noteq> [] \<and> sha256_hex L t = pr_csrf_digest p)"

lemma token_accepted:
  "parse_session_token C token key now = Inr p \<Longrightarrow>
    (\<exists>body. token = signed_token C key body \<and> session_body C body = Some p) \<and> now < pr_expires_at p"
  by (auto simp: parse_session_token_def compare_digest_def result_simps signed_token_def split_on_three
      split: if_splits list.splits)

lemma mutation_authenticated:
  "get_authenticated_mutation_principal L C env rq = Inr p \<Longrightarrow> \<exists>m. authenticated L C env rq p m"
  by (auto simp: mutation_principal_iff current_principal_iff session_csrf_iff authenticated_def
      dest!: token_accepted)

text \<open>C14: No state changing request is admitted without authentication. A request that an operator or administrator route
  lets in carries a session signed with the stored key that has not expired and names the configured
  account and its role, the role ranks high enough, and the header repeats the CSRF cookie whose digest
  the session holds.\<close>
theorem admitted_requests_are_authenticated:
  assumes "(needed = AR_OPERATOR \<and> get_operator_principal L C env rq = Inr p)
    \<or> (needed = AR_ADMIN \<and> get_admin_principal L C env rq = Inr p)"
  shows "\<exists>m. authenticated L C env rq p m \<and> role_allows (am_role m) needed"
proof -
  have p: "get_authenticated_mutation_principal L C env rq = Inr p \<and> role_allows (pr_role p) needed"
    using assms
    by (auto simp: get_operator_principal_def get_admin_principal_def bindR_Inr_iff require_role_def split: if_splits)
  then obtain m where m: "authenticated L C env rq p m" using mutation_authenticated by blast
  then have "pr_role p = am_role m" by (simp add: authenticated_def)
  then show ?thesis using m p by auto
qed

section \<open>Sessions\<close>

lemma material_user:
  assumes "require_auth_material L st fs = Inr m"
  shows "1 \<le> py_len (am_username m) \<and> py_len (am_username m) \<le> 120"
proof -
  have len: "s \<noteq> [] \<Longrightarrow> Suc 0 \<le> py_len s" for s :: string
    by (simp add: py_len_def Suc_le_eq del: chars.simps)
  show ?thesis
    using assms
    by (auto simp: require_auth_material_def require_legacy_auth_material_def settings_auth_material_def
        auth_record_of_def admin_material_def falsy_str_def bindR_Inr_iff option_or_Inr_iff single_line_def
        clean_text_def len split: if_splits sum.splits option.splits bind_splits)
qed

lemma payload_fields:
  assumes "hex64 (sha256_hex L csrf)" and "1 \<le> py_len user" and "py_len user \<le> 120"
  shows "session_fields (canon (session_payload L user role csrf now ttl)) =
    Some \<lparr> pr_username = user, pr_role = role, pr_issued_at = now, pr_expires_at = now + ttl,
      pr_csrf_digest = sha256_hex L csrf \<rparr>"
proof -
  have canon: "canon (session_payload L user role csrf now ttl) = JObj
    [(''csrf'', JStr (sha256_hex L csrf)), (''exp'', JInt (now + ttl)), (''iat'', JInt now),
     (''role'', JStr (auth_role_value role)), (''sub'', JStr user)]"
    by (simp add: session_payload_def)
  have "py_len (sha256_hex L csrf) = 64"
    using assms(1) by (subst py_len_ascii)
      (auto simp: hex64_def ascii_text_def list_all_iff lower_hex_char_def is_digit_def byte_def)
  then show ?thesis
    using assms(2,3) by (simp add: canon session_fields_def dec_obj_def dec_str_def int_like_def)
qed

text \<open>\<open>json.loads\<close> reads back what \<open>json.dumps\<close> wrote.\<close>

definition reads_back :: "crypto \<Rightarrow> json \<Rightarrow> bool" where
  "reads_back C j \<longleftrightarrow> json_loads C (dumps j) = Some (canon j)"

lemma new_session_parses:
  assumes "reads_back C (session_payload L user role csrf now ttl)" and "hex64 (sha256_hex L csrf)"
    and "1 \<le> py_len user" and "py_len user \<le> 120"
    and "py_len (create_session_token L C user role csrf key ttl now) \<le> 4096"
    and "now \<le> later + 60" and "later < now + ttl"
  shows "parse_session_token C (create_session_token L C user role csrf key ttl now) key later = Inr
    \<lparr> pr_username = user, pr_role = role, pr_issued_at = now, pr_expires_at = now + ttl,
      pr_csrf_digest = sha256_hex L csrf \<rparr>"
proof -
  let ?body = "b64encode (dumps (session_payload L user role csrf now ttl))"
  have token: "create_session_token L C user role csrf key ttl now = signed_token C key ?body"
    by (simp add: create_session_token_def signed_token_def Let_def)
  have split: "split_on (CHR ''.'') (signed_token C key ?body) = [''v1'', ?body, token_sign C key (''v1.'' @ ?body)]"
    unfolding split_on_three by (simp add: signed_token_def token_sign_text b64_no_dot)
  have "session_body C ?body = Some \<lparr> pr_username = user, pr_role = role, pr_issued_at = now,
      pr_expires_at = now + ttl, pr_csrf_digest = sha256_hex L csrf \<rparr>"
    using assms(1) payload_fields [OF assms(2-4)] by (simp add: session_body_def reads_back_def)
  then show ?thesis
    using assms(5-7) unfolding token
    by (simp add: parse_session_token_def split compare_digest_def token_sign_text)
qed

lemma login_starts:
  assumes "login L C env rq random user pw = Inr (answer, actions)"
  shows "\<exists>m. require_auth_material L (ae_settings env) (ae_files env) = Inr m
    \<and> verify_auth_material_credentials L C user pw m \<and> (answer, actions) = start_session L C env random m"
  using assms by (auto simp: login_def bindR_Inr_iff result_simps)

text \<open>The payload of the session that a login starts.\<close>

definition login_payload :: "lib \<Rightarrow> auth_env \<Rightarrow> login_response \<Rightarrow> json" where
  "login_payload L env answer = session_payload L (lr_username answer) (lr_role answer) (lr_csrf_token answer)
    (ae_now env) (au_session_ttl_seconds (ae_settings env))"

text \<open>C23: Whoever logs in is let in. The two cookies of a login are accepted on every state changing request under the same
  configuration until the session expires, for the account and role that logged in, when the header repeats
  the CSRF token of the answer, and with no other header. \<open>json.loads\<close> is assumed to read back what
  \<open>json.dumps\<close> wrote, SHA-256 to give 64 hexadecimal digits, the random token to be ASCII.\<close>
theorem login_session_is_accepted:
  assumes "login L C env rq random user pw = Inr (answer, [Set_session_cookie session ttl, Set_csrf_cookie csrf age])"
    and "reads_back C (login_payload L env answer)" and "hex64 (sha256_hex L csrf)"
    and "ascii_text csrf" and "py_len csrf \<le> 1024" and "py_len session \<le> 4096"
    and "ae_now env \<le> later + 60" and "later < ae_now env + ttl"
  shows "(case get_authenticated_mutation_principal L C (env\<lparr> ae_now := later \<rparr>)
        \<lparr> rq_session = Some session, rq_csrf_cookie = Some csrf, rq_csrf_header = header \<rparr> of
      Inr p \<Rightarrow> header = Some csrf \<and> pr_username p = lr_username answer \<and> pr_role p = lr_role answer
    | Inl _ \<Rightarrow> header \<noteq> Some csrf)"
proof -
  obtain m where m: "require_auth_material L (ae_settings env) (ae_files env) = Inr m"
    and started: "(answer, [Set_session_cookie session ttl, Set_csrf_cookie csrf age]) = start_session L C env random m"
    using login_starts [OF assms(1)] by blast
  let ?p = "\<lparr> pr_username = am_username m, pr_role = am_role m, pr_issued_at = ae_now env,
    pr_expires_at = ae_now env + ttl, pr_csrf_digest = sha256_hex L csrf \<rparr>"
  have s: "session = create_session_token L C (am_username m) (am_role m) csrf (am_signing_key m) ttl (ae_now env)"
    "csrf = ''s1_'' @ random" "ttl = au_session_ttl_seconds (ae_settings env)" "lr_username answer = am_username m"
    "lr_role answer = am_role m" "lr_csrf_token answer = csrf"
    using started by (simp_all add: start_session_def new_csrf_token_def Let_def)
  have reads: "reads_back C (session_payload L (am_username m) (am_role m) csrf (ae_now env) ttl)"
    using assms(2) s by (simp add: login_payload_def)
  have parsed: "parse_session_token C session (am_signing_key m) later = Inr ?p"
    unfolding s(1)
    by (rule new_session_parses [OF reads assms(3) _ _ assms(6) [unfolded s(1)] assms(7,8)])
      (use material_user [OF m] in simp_all)
  have "session \<noteq> []" by (simp add: s(1) create_session_token_def Let_def)
  then have current: "get_current_principal L C (env\<lparr> ae_now := later \<rparr>)
      \<lparr> rq_session = Some session, rq_csrf_cookie = Some csrf, rq_csrf_header = header \<rparr> = Inr ?p"
    unfolding current_principal_iff using m parsed by simp
  have ascii: "ascii_text (sha256_hex L csrf)"
    using assms(3) by (auto simp: hex64_def ascii_text_def list_all_iff lower_hex_char_def is_digit_def byte_def)
  have "csrf \<noteq> []" by (simp add: s(2))
  then have "validate_session_csrf L (Some csrf) header ?p = Inr () \<longleftrightarrow> header = Some csrf"
    unfolding session_csrf_iff using assms(4,5) ascii by auto
  then show ?thesis
    using current s
    by (cases "validate_session_csrf L (Some csrf) header ?p") (auto simp: get_authenticated_mutation_principal_def)
qed

section \<open>Passwords\<close>

lemma digits_body:
  "list_all is_digit ds \<Longrightarrow> int_body L flag acc (map (\<lambda>c. [c]) ds) =
    (if ds = [] then (if flag then Some acc else None) else Some (foldl (\<lambda>a c. a * 10 + char_digit c) acc ds))"
proof (induction ds arbitrary: flag acc)
  case (Cons c ds)
  have "[c] \<noteq> ''_''" using Cons.prems by (auto simp: is_digit_def)
  then show ?case using Cons by simp
qed simp

lemma strip_chars_digits:
  assumes "list_all is_digit ds"
  shows "strip_chars (map (\<lambda>c. [c]) ds) = map (\<lambda>c. [c]) ds"
proof -
  have drop: "dropWhile space_char (map (\<lambda>c. [c]) es) = map (\<lambda>c. [c]) es" if "list_all is_digit es" for es
    using that by (cases es) (simp_all add: digit_not_space)
  have "list_all is_digit (rev ds)" using assms by (simp add: list_all_iff)
  then show ?thesis by (simp add: strip_chars_def drop [OF assms] rev_map drop)
qed

lemma py_int_digits:
  assumes "list_all is_digit ds" and "ds \<noteq> []"
  shows "py_int L ds = (if 4300 < length ds then None else Some (int (read_nat ds)))"
proof -
  obtain d rest where ds: "ds = d # rest" using assms(2) by (cases ds) auto
  have "is_digit d" using assms(1) by (simp add: ds)
  then have signs: "[d] \<noteq> ''-''" "[d] \<noteq> ''+''" by (auto simp: is_digit_def)
  have body: "int_body L False 0 (map (\<lambda>c. [c]) ds) = Some (read_nat ds)"
    unfolding digits_body [OF assms(1)] read_nat_def using assms(2) by simp
  have no_bar: "filter (\<lambda>u. u \<noteq> ''_'') (map (\<lambda>c. [c]) ds) = map (\<lambda>c. [c]) ds"
    using assms(1) by (intro filter_True) (force simp: list_all_iff is_digit_def)
  have "py_int L ds = int_unsigned L (map (\<lambda>c. [c]) ds)"
    using signs unfolding py_int_def chars_digits [OF assms(1)] strip_chars_digits [OF assms(1)] by (simp add: ds)
  then show ?thesis unfolding int_unsigned_def no_bar body by simp
qed

lemma positive_digits: "1 \<le> n \<Longrightarrow> list_all is_digit (show_int n) \<and> show_int n \<noteq> [] \<and> int (read_nat (show_int n)) = n"
  using show_nat_digits [of "nat n"] by (auto simp: show_int_def list_all_iff read_show_nat)

lemma show_nat_short: "n < 10 ^ Suc k \<Longrightarrow> length (show_nat n) \<le> Suc k"
proof (induction k arbitrary: n)
  case 0
  then show ?case by (simp add: show_nat.simps [of n])
next
  case (Suc k)
  have "n div 10 < 10 ^ Suc k" by (rule less_mult_imp_div_less) (use Suc.prems in simp)
  from Suc.IH [OF this] show ?case by (subst show_nat.simps) simp
qed

lemma py_int_iterations:
  assumes "1 \<le> n" and "n \<le> PASSWORD_DIGEST_ITERATIONS"
  shows "py_int L (show_int n) = Some n"
proof -
  have "nat n < 10 ^ Suc 5" using assms by (simp add: PASSWORD_DIGEST_ITERATIONS_def nat_less_iff)
  then have "length (show_nat (nat n)) \<le> 6" using show_nat_short [of "nat n" 5] by simp
  then have "length (show_int n) \<le> 6" using assms by (simp add: show_int_def)
  then show ?thesis using positive_digits [OF assms(1)] by (simp add: py_int_digits)
qed

lemma py_int_value: "1 \<le> n \<Longrightarrow> py_int L (show_int n) = Some i \<Longrightarrow> i = n"
  using positive_digits [of n] by (auto simp: py_int_digits split: if_splits)

lemma split_join:
  assumes "\<forall>w \<in> set ws. c \<notin> set w" and "ws \<noteq> []"
  shows "split_on c (join [c] ws) = ws"
  using assms
proof (induction "[c]" ws rule: join.induct)
  case (3 x y zs)
  then show ?case by (simp add: split_on_first)
qed (simp_all add: split_on_free)

lemma no_dollar_digits: "1 \<le> n \<Longrightarrow> CHR ''$'' \<notin> set (show_int n)"
  using positive_digits [of n] by (force simp: list_all_iff is_digit_def)

text \<open>C26: A password matches the digest that was created for it, and another password matches only when PBKDF2 derives
  the same key from it: the stored form is parsed back to the same iterations, salt and key. A digest of more than
  600000 iterations never matches, not even its own password. The salt has 16 bytes and the key 32.\<close>
theorem password_digest_verifies:
  assumes "create_password_digest C pw n salt = Inr d"
    and "length salt = 16" and "length (pbkdf2_sha256 C pw salt n) = 32"
  shows "verify_password_digest L C pw' d \<longleftrightarrow>
    n \<le> PASSWORD_DIGEST_ITERATIONS \<and> pbkdf2_sha256 C pw' salt n = pbkdf2_sha256 C pw salt n"
proof -
  let ?parts = "[''pbkdf2_sha256'', ''v1'', show_int n, b64encode salt, b64encode (pbkdf2_sha256 C pw salt n)]"
  have n: "1 \<le> n" and d: "d = join ''$'' ?parts"
    using assms(1) by (auto simp: create_password_digest_def split: if_splits)
  have "\<forall>w \<in> set ?parts. CHR ''$'' \<notin> set w" using no_dollar_digits [OF n] b64_no_dot by simp
  then have parts: "split_on (CHR ''$'') d = ?parts" unfolding d by (rule split_join) simp
  have "digest_parts L d =
    (if n \<le> PASSWORD_DIGEST_ITERATIONS then Some (n, salt, pbkdf2_sha256 C pw salt n) else None)"
    using assms(2,3) n py_int_iterations [OF n, of L] py_int_value [OF n, of L]
    by (cases "py_int L (show_int n)")
      (auto simp: digest_parts_def parts decode_password_component_def check_def)
  then show ?thesis by (auto simp: verify_password_digest_def)
qed

section \<open>An example\<close>

definition example_crypto :: crypto where
  "example_crypto = \<lparr> hmac_sha256 = (\<lambda>key text. ''mac''), pbkdf2_sha256 = (\<lambda>pw salt n. take 32 (pw @ replicate 32 (CHR ''x''))),
     json_loads = (\<lambda>_. Some (canon (session_payload example_lib ''ann'' AR_ADMIN ''s1_random'' 0 300))) \<rparr>"

definition example_key :: string where "example_key = replicate 32 (CHR ''k'')"

definition example_env :: auth_env where
  "example_env = \<lparr> ae_settings = \<lparr> au_local_username = plain_secret (Some ''ann''),
       au_local_password = plain_secret (Some ''secret''), au_session_signing_key = plain_secret (Some example_key),
       au_local_role = AR_ADMIN, au_session_ttl_seconds = 300, au_bootstrap_csrf_ttl_seconds = 60,
       au_cookie_secure = True \<rparr>,
     ae_files = \<lparr> auth_file = Missing, integrations_file = Missing \<rparr>, ae_now = 0 \<rparr>"

definition example_login_request :: auth_request where
  "example_login_request = (let token = create_bootstrap_csrf example_crypto example_key ''r'' 0 in
    \<lparr> rq_session = None, rq_csrf_cookie = Some token, rq_csrf_header = Some token \<rparr>)"

definition example_session :: string where
  "example_session = create_session_token example_lib example_crypto ''ann'' AR_ADMIN ''s1_random'' example_key 300 0"

lemma example_env_parts: "ae_now example_env = 0" "au_session_ttl_seconds (ae_settings example_env) = 300"
  by (simp_all add: example_env_def)

lemma example_material:
  "require_auth_material example_lib (ae_settings example_env) (ae_files example_env)
    = Inr \<lparr> am_username = ''ann'', am_credential_kind = CK_PLAINTEXT, am_role = AR_ADMIN, am_credential = ''secret'',
        am_signing_key = example_key \<rparr>"
  by code_simp

lemma example_login:
  "login example_lib example_crypto example_env example_login_request ''random'' ''ann'' ''secret''
    = Inr (\<lparr> lr_username = ''ann'', lr_role = AR_ADMIN, lr_csrf_token = ''s1_random'' \<rparr>,
        [Set_session_cookie example_session 300, Set_csrf_cookie ''s1_random'' 300])"
proof -
  have "require_bootstrap_csrf example_lib example_crypto example_env example_login_request = Inr ()"
    by code_simp
  then show ?thesis
    by (simp add: login_def example_material verify_auth_material_credentials_def verify_local_credentials_def same_credential_def
        start_session_def new_csrf_token_def Let_def example_env_parts example_session_def)
qed

lemma example_session_length: "py_len example_session \<le> 4096"
proof -
  have "py_len example_session < 400" by code_simp
  then show ?thesis by simp
qed

theorem login_session_is_accepted_witness:
  "\<exists>session p. login example_lib example_crypto example_env example_login_request ''random'' ''ann'' ''secret''
      = Inr (\<lparr> lr_username = ''ann'', lr_role = AR_ADMIN, lr_csrf_token = ''s1_random'' \<rparr>,
          [Set_session_cookie session 300, Set_csrf_cookie ''s1_random'' 300])
    \<and> get_authenticated_mutation_principal example_lib example_crypto (example_env\<lparr> ae_now := 299 \<rparr>)
        \<lparr> rq_session = Some session, rq_csrf_cookie = Some ''s1_random'', rq_csrf_header = Some ''s1_random'' \<rparr> = Inr p
    \<and> pr_username p = ''ann''"
proof -
  have "reads_back example_crypto (login_payload example_lib example_env
      \<lparr> lr_username = ''ann'', lr_role = AR_ADMIN, lr_csrf_token = ''s1_random'' \<rparr>)"
    by (simp add: reads_back_def login_payload_def example_crypto_def example_env_def)
  moreover have "hex64 (sha256_hex example_lib ''s1_random'')" "ascii_text ''s1_random''" "py_len ''s1_random'' \<le> 1024"
    by code_simp+
  moreover have "ae_now example_env \<le> 299 + 60" "299 < ae_now example_env + 300" by (simp_all add: example_env_def)
  ultimately have seen: "case get_authenticated_mutation_principal example_lib example_crypto (example_env\<lparr> ae_now := 299 \<rparr>)
        \<lparr> rq_session = Some example_session, rq_csrf_cookie = Some ''s1_random'', rq_csrf_header = Some ''s1_random'' \<rparr> of
      Inr p \<Rightarrow> Some ''s1_random'' = Some ''s1_random'' \<and> pr_username p = ''ann'' \<and> pr_role p = AR_ADMIN
    | Inl _ \<Rightarrow> Some ''s1_random'' \<noteq> Some ''s1_random''"
    using login_session_is_accepted [OF example_login _ _ _ _ example_session_length, of 299 "Some ''s1_random''"]
    by (simp only: login_response.simps)
  show ?thesis
    using example_login seen
    by (cases "get_authenticated_mutation_principal example_lib example_crypto (example_env\<lparr> ae_now := 299 \<rparr>)
        \<lparr> rq_session = Some example_session, rq_csrf_cookie = Some ''s1_random'', rq_csrf_header = Some ''s1_random'' \<rparr>")
      (fastforce simp only: sum.case simp_thms)+
qed

lemma example_admitted:
  "get_admin_principal example_lib example_crypto example_env
      \<lparr> rq_session = Some example_session, rq_csrf_cookie = Some ''s1_random'', rq_csrf_header = Some ''s1_random'' \<rparr>
    = Inr \<lparr> pr_username = ''ann'', pr_role = AR_ADMIN, pr_issued_at = 0, pr_expires_at = 300,
        pr_csrf_digest = replicate 64 (CHR ''0'') \<rparr>"
    (is "get_admin_principal _ _ _ ?rq = Inr ?p")
proof -
  have digest: "sha256_hex example_lib ''s1_random'' = replicate 64 (CHR ''0'')" by (simp add: example_lib_def)
  have "reads_back example_crypto (session_payload example_lib ''ann'' AR_ADMIN ''s1_random'' 0 300)"
    by (simp add: reads_back_def example_crypto_def)
  moreover have "hex64 (sha256_hex example_lib ''s1_random'')" "1 \<le> py_len ''ann''" "py_len ''ann'' \<le> 120" by code_simp+
  ultimately have "parse_session_token example_crypto example_session example_key 0 = Inr ?p"
    using new_session_parses [OF _ _ _ _ example_session_length [unfolded example_session_def], of 0]
    by (simp add: example_session_def digest)
  moreover have "validate_session_csrf example_lib (Some ''s1_random'') (Some ''s1_random'') ?p = Inr ()" by code_simp
  moreover have "example_session \<noteq> []" by (simp add: example_session_def create_session_token_def Let_def)
  ultimately show ?thesis
    using example_material
    by (simp add: get_admin_principal_def get_authenticated_mutation_principal_def get_current_principal_def
        falsy_str_def current_principal_def require_role_def role_allows_def example_env_parts)
qed

theorem admitted_requests_are_authenticated_witness:
  "\<exists>p m. get_admin_principal example_lib example_crypto example_env
      \<lparr> rq_session = Some example_session, rq_csrf_cookie = Some ''s1_random'', rq_csrf_header = Some ''s1_random'' \<rparr> = Inr p
    \<and> authenticated example_lib example_crypto example_env
      \<lparr> rq_session = Some example_session, rq_csrf_cookie = Some ''s1_random'', rq_csrf_header = Some ''s1_random'' \<rparr> p m
    \<and> role_allows (am_role m) AR_ADMIN"
proof -
  let ?rq = "\<lparr> rq_session = Some example_session, rq_csrf_cookie = Some ''s1_random'', rq_csrf_header = Some ''s1_random'' \<rparr>"
  obtain p where p: "get_admin_principal example_lib example_crypto example_env ?rq = Inr p"
    using example_admitted by simp
  then show ?thesis
    using admitted_requests_are_authenticated [of AR_ADMIN example_lib example_crypto example_env ?rq p] by auto
qed

theorem password_digest_verifies_witness:
  "\<exists>d. create_password_digest example_crypto ''secret'' 600000 (replicate 16 (CHR ''s'')) = Inr d
    \<and> verify_password_digest example_lib example_crypto ''secret'' d
    \<and> \<not> verify_password_digest example_lib example_crypto ''public'' d"
proof -
  obtain d where d: "create_password_digest example_crypto ''secret'' 600000 (replicate 16 (CHR ''s'')) = Inr d"
    by (simp add: create_password_digest_def)
  have len: "length (replicate 16 (CHR ''s'')) = 16"
    "length (pbkdf2_sha256 example_crypto ''secret'' (replicate 16 (CHR ''s'')) 600000) = 32"
    by (simp_all add: example_crypto_def)
  have "pbkdf2_sha256 example_crypto ''public'' (replicate 16 (CHR ''s'')) 600000
      \<noteq> pbkdf2_sha256 example_crypto ''secret'' (replicate 16 (CHR ''s'')) 600000"
    by (simp add: example_crypto_def)
  then show ?thesis
    using d password_digest_verifies [OF d len, of example_lib "''secret''"]
      password_digest_verifies [OF d len, of example_lib "''public''"]
    by (simp add: PASSWORD_DIGEST_ITERATIONS_def)
qed

end
