(* ===== verification/ConfigRoutes.thy ===== *)
theory ConfigRoutes
  imports Auth
begin

text \<open>
  The configuration routes (\<open>api/routes/configuration.py\<close>) with their request and response
  (\<open>schemas/configuration.py\<close>): what an update may contain, how it is saved and answered, and what is shown of
  the configuration. The routes that test a connection only call adapters and are left out.
\<close>

section \<open>The request\<close>

text \<open>An optional text of at most so many characters; an absent field is not part of the update, null is.\<close>

definition text_field :: "nat \<Rightarrow> string \<Rightarrow> (string \<times> json) list \<Rightarrow> (string \<times> json) list option" where
  "text_field maximum key kvs =
    (case map_of kvs key of
       None \<Rightarrow> Some []
     | Some JNull \<Rightarrow> Some [(key, JNull)]
     | Some (JStr s) \<Rightarrow> if py_len s \<le> maximum then Some [(key, JStr s)] else None
     | Some _ \<Rightarrow> None)"

definition needed_field :: "nat \<Rightarrow> string \<Rightarrow> (string \<times> json) list \<Rightarrow> (string \<times> json) list option" where
  "needed_field maximum key kvs =
    (case map_of kvs key of
       Some (JStr s) \<Rightarrow> if py_len s \<le> maximum then Some [(key, JStr s)] else None
     | _ \<Rightarrow> None)"

definition literal_field :: "string \<Rightarrow> string \<Rightarrow> (string \<times> json) list \<Rightarrow> (string \<times> json) list option" where
  "literal_field v key kvs = (if map_of kvs key = Some (JStr v) then Some [(key, JStr v)] else None)"

definition flag_field :: "lib \<Rightarrow> string \<Rightarrow> (string \<times> json) list \<Rightarrow> (string \<times> json) list option" where
  "flag_field L key kvs =
    (case map_of kvs key of
       None \<Rightarrow> Some []
     | Some JNull \<Rightarrow> Some [(key, JNull)]
     | Some (JBool b) \<Rightarrow> Some [(key, JBool b)]
     | Some j \<Rightarrow> map_option (\<lambda>b. [(key, JBool b)]) (lax_bool L j))"

text \<open>The fields of a group one after the other, with no others in it.\<close>

fun all_fields ::
    "(string \<times> ((string \<times> json) list \<Rightarrow> (string \<times> json) list option)) list \<Rightarrow> (string \<times> json) list
      \<Rightarrow> (string \<times> json) list option" where
  "all_fields [] kvs = Some []"
| "all_fields ((key, field) # rest) kvs =
    Option.bind (field kvs) (\<lambda>xs. map_option ((@) xs) (all_fields rest kvs))"

definition update_model ::
    "(string \<times> ((string \<times> json) list \<Rightarrow> (string \<times> json) list option)) list \<Rightarrow> json \<Rightarrow> (string \<times> json) list option" where
  "update_model specs j = do {
     kvs \<leftarrow> dec_obj j;
     only_keys (map fst specs) kvs;
     all_fields specs kvs }"

definition texts :: "(string \<times> nat) list \<Rightarrow> (string \<times> ((string \<times> json) list \<Rightarrow> (string \<times> json) list option)) list" where
  "texts specs = map (\<lambda>(key, n). (key, text_field n key)) specs"

definition needed_texts :: "(string \<times> nat) list \<Rightarrow> (string \<times> ((string \<times> json) list \<Rightarrow> (string \<times> json) list option)) list" where
  "needed_texts specs = map (\<lambda>(key, n). (key, needed_field n key)) specs"

definition nextfind_update :: "json \<Rightarrow> (string \<times> json) list option" where
  "nextfind_update = update_model (texts [(''base_url'', 2048), (''username'', 120), (''password'', 8192)])"

definition tmdb_update :: "json \<Rightarrow> (string \<times> json) list option" where
  "tmdb_update = update_model (texts [(''token'', 8192)])"

definition avistaz_update :: "json \<Rightarrow> (string \<times> json) list option" where
  "avistaz_update = update_model ((''architecture'', literal_field ''avistaz'' ''architecture'')
     # needed_texts [(''base_url'', 2048), (''username'', 120)] @ texts [(''password'', 8192), (''pid'', 8192)])"

definition nexusphp_update :: "json \<Rightarrow> (string \<times> json) list option" where
  "nexusphp_update j = do {
     g \<leftarrow> update_model ((''architecture'', literal_field ''nexusphp'' ''architecture'')
       # needed_texts [(''site_id'', 24), (''display_name'', 100), (''base_url'', 2048)] @ texts [(''cookie'', 8192), (''passkey'', 8192)]) j;
     check (case map_of g ''site_id'' of Some (JStr s) \<Rightarrow> site_id_ok s | _ \<Rightarrow> False);
     Some g }"

text \<open>The two kinds of site, told apart by their architecture.\<close>

definition pt_site_update :: "json \<Rightarrow> (string \<times> json) list option" where
  "pt_site_update j = do {
     kvs \<leftarrow> dec_obj j;
     if map_of kvs ''architecture'' = Some (JStr ''avistaz'') then avistaz_update j
     else if map_of kvs ''architecture'' = Some (JStr ''nexusphp'') then nexusphp_update j
     else None }"

definition qb_update :: "lib \<Rightarrow> json \<Rightarrow> (string \<times> json) list option" where
  "qb_update L = update_model (texts [(''url'', 2048), (''username'', 120), (''password'', 8192), (''save_path'', 4096),
     (''category'', 300)] @ [(''allow_insecure_http'', flag_field L ''allow_insecure_http'')])"

definition group_update :: "string \<Rightarrow> (json \<Rightarrow> (string \<times> json) list option) \<Rightarrow> (string \<times> json) list \<Rightarrow> updates option" where
  "group_update key model kvs =
    (case map_of kvs key of
       None \<Rightarrow> Some []
     | Some j \<Rightarrow> if j = JNull then Some [] else map_option (\<lambda>g. [(key, g)]) (model j))"

text \<open>\<open>ConfigurationUpdateRequest\<close> and its \<open>runtime_updates\<close>.\<close>

definition parse_update_request :: "lib \<Rightarrow> json \<Rightarrow> updates option" where
  "parse_update_request L j = do {
     kvs \<leftarrow> dec_obj j;
     only_keys [''nextfind'', ''tmdb'', ''pt_site'', ''qbittorrent''] kvs;
     nf \<leftarrow> group_update ''nextfind'' nextfind_update kvs;
     tm \<leftarrow> group_update ''tmdb'' tmdb_update kvs;
     site \<leftarrow> group_update ''pt_site'' pt_site_update kvs;
     qb \<leftarrow> group_update ''qbittorrent'' (qb_update L) kvs;
     Some (nf @ tm @ site @ qb) }"

section \<open>The response\<close>

record nextfind_answer =
  na_base_url :: string
  na_username :: string
  na_password_configured :: bool
  na_configured :: bool

record avistaz_answer =
  aa_base_url :: string
  aa_username :: string
  aa_password_configured :: bool
  aa_pid_configured :: bool
  aa_configured :: bool
  aa_search_ready :: bool

record nexusphp_answer =
  xa_site_id :: string
  xa_display_name :: string
  xa_base_url :: string
  xa_cookie_configured :: bool
  xa_passkey_configured :: bool
  xa_configured :: bool

datatype site_answer = Avistaz_answer avistaz_answer | Nexusphp_answer nexusphp_answer

record qb_answer =
  qa_url :: string
  qa_username :: string
  qa_save_path :: string
  qa_category :: string
  qa_configured :: bool
  qa_allow_insecure_http :: bool

record configuration_answer =
  cf_nextfind :: nextfind_answer
  cf_tmdb_configured :: bool
  cf_pt_site :: site_answer
  cf_avistaz :: "avistaz_answer option"
  cf_nexusphp :: "nexusphp_answer option"
  cf_qbittorrent :: qb_answer
  cf_complete :: bool

definition avistaz_configured :: "connections \<Rightarrow> bool" where
  "avistaz_configured st \<longleftrightarrow> readable (avistaz_credentials st) \<noteq> None"

definition site_search_ready :: "bool \<Rightarrow> connections \<Rightarrow> bool" where
  "site_search_ready live st \<longleftrightarrow>
    cn_pt_site_architecture st = SA_AVISTAZ \<and> cn_pt_site_runtime_supported st
    \<and> (case cn_pt_site_runtime_configured st of Some b \<Rightarrow> b | None \<Rightarrow> avistaz_configured st) \<and> live"

text \<open>\<open>_pt_site_response\<close>; without a site it reads the credentials of the settings, which may raise \<open>OSError\<close>.\<close>

definition runtime_site_answer :: "bool \<Rightarrow> connections \<Rightarrow> runtime_site \<Rightarrow> site_answer" where
  "runtime_site_answer live st s =
    (case rs_architecture s of
       SA_AVISTAZ \<Rightarrow> Avistaz_answer \<lparr> aa_base_url = rs_base_url s, aa_username = some_text (rs_username s),
         aa_password_configured = truthy_text (rs_password s), aa_pid_configured = truthy_text (rs_pid s),
         aa_configured = site_configured s, aa_search_ready = site_search_ready live st \<rparr>
     | SA_NEXUSPHP \<Rightarrow> Nexusphp_answer \<lparr> xa_site_id = rs_site_id s, xa_display_name = rs_display_name s,
         xa_base_url = rs_base_url s, xa_cookie_configured = truthy_text (rs_cookie s),
         xa_passkey_configured = truthy_text (rs_passkey s), xa_configured = site_configured s \<rparr>)"

definition pt_site_response :: "bool \<Rightarrow> connections \<Rightarrow> runtime_site option \<Rightarrow> exn + site_answer" where
  "pt_site_response live st site =
    (case site of
       Some s \<Rightarrow> Inr (runtime_site_answer live st s)
     | None \<Rightarrow>
         (case avistaz_credentials st of
            Inl _ \<Rightarrow> Inl PyOSError
          | Inr creds \<Rightarrow> Inr (Avistaz_answer \<lparr> aa_base_url = cn_avistaz_base_url st, aa_username = nth_text creds 0,
              aa_password_configured = (nth_text creds 1 \<noteq> []), aa_pid_configured = (nth_text creds 2 \<noteq> []),
              aa_configured = (creds \<noteq> None), aa_search_ready = site_search_ready live st \<rparr>)))"

definition avistaz_part :: "site_answer \<Rightarrow> avistaz_answer option" where
  "avistaz_part a = (case a of Avistaz_answer x \<Rightarrow> Some x | _ \<Rightarrow> None)"

definition nexusphp_part :: "site_answer \<Rightarrow> nexusphp_answer option" where
  "nexusphp_part a = (case a of Nexusphp_answer x \<Rightarrow> Some x | _ \<Rightarrow> None)"

text \<open>The stored site of an architecture, or else the active one when it has that architecture.\<close>

definition stored_part :: "(site_answer \<Rightarrow> 'a option) \<Rightarrow> bool \<Rightarrow> connections \<Rightarrow> runtime_site option \<Rightarrow> site_answer \<Rightarrow> 'a option" where
  "stored_part pick live st stored active =
    (case Option.bind stored (\<lambda>s. pick (runtime_site_answer live st s)) of
       Some x \<Rightarrow> Some x
     | None \<Rightarrow> pick active)"

text \<open>What \<open>_response\<close> reads: the stored configuration with its completeness, and two credentials.\<close>

record shown_state =
  sh_runtime :: "runtime_configuration option"
  sh_complete :: bool
  sh_nextfind :: "string list option"
  sh_qb :: "string list option"

definition nothing_shown :: shown_state where
  "nothing_shown = \<lparr> sh_runtime = None, sh_complete = False, sh_nextfind = None, sh_qb = None \<rparr>"

definition shown :: "lib \<Rightarrow> connections \<Rightarrow> config_files \<Rightarrow> shown_state" where
  "shown L st fs =
    (case (configuration L st fs, configuration_complete L st fs, nextfind_credentials st, qb_credentials st) of
       (Inr c, Inr ready, Inr nf, Inr qb) \<Rightarrow> \<lparr> sh_runtime = Some c, sh_complete = ready, sh_nextfind = nf, sh_qb = qb \<rparr>
     | _ \<Rightarrow> nothing_shown)"

definition qb_configured :: "connections \<Rightarrow> bool" where
  "qb_configured st \<longleftrightarrow> readable (qb_credentials st) \<noteq> None \<and> cn_qb_allowed_hosts st \<noteq> []"

definition response_of :: "bool \<Rightarrow> connections \<Rightarrow> shown_state \<Rightarrow> exn + configuration_answer" where
  "response_of live st sh =
    (let nf = sh_nextfind sh; qb = sh_qb sh in
     bindR (pt_site_response live st (Option.bind (sh_runtime sh) active_pt_site)) (\<lambda>active.
     Inr \<lparr> cf_nextfind = \<lparr> na_base_url = cn_nextfind_base_url st,
             na_username = (if nf = None then some_text (so_value (cn_nextfind_username st)) else nth_text nf 0),
             na_password_configured = (nth_text nf 1 \<noteq> []),
             na_configured = (readable (nextfind_credentials st) \<noteq> None \<and> cn_nextfind_base_url st \<noteq> []) \<rparr>,
           cf_tmdb_configured = truthy_text (readable (tmdb_token_value st)),
           cf_pt_site = active,
           cf_avistaz = stored_part avistaz_part live st (Option.bind (sh_runtime sh) rc_avistaz_site) active,
           cf_nexusphp = stored_part nexusphp_part live st (Option.bind (sh_runtime sh) rc_nexusphp_site) active,
           cf_qbittorrent = \<lparr> qa_url = (if qb = None then some_text (so_value (cn_qb_base_url st)) else nth_text qb 0),
             qa_username = (if qb = None then some_text (so_value (cn_qb_username st)) else nth_text qb 1),
             qa_save_path = some_text (cn_qb_target_save_path st), qa_category = some_text (cn_qb_target_category st),
             qa_configured = qb_configured st, qa_allow_insecure_http = cn_qb_allow_insecure_http st \<rparr>,
           cf_complete = sh_complete sh \<rparr>))"

definition configuration_response :: "lib \<Rightarrow> bool \<Rightarrow> connections \<Rightarrow> config_files \<Rightarrow> exn + configuration_answer" where
  "configuration_response L live st fs = response_of live st (shown L st fs)"

section \<open>The routes\<close>

definition configuration_unavailable :: exn where
  "configuration_unavailable = app_err ''CONFIGURATION_UNAVAILABLE'' 503"

text \<open>The two errors an update answers; the rest is not caught.\<close>

definition update_error :: "config_error \<Rightarrow> exn" where
  "update_error e =
    (case e of
       RuntimeConfigValidationError \<Rightarrow> app_err ''CONFIGURATION_INVALID'' 422
     | RuntimeConfigError \<Rightarrow> configuration_unavailable
     | RuntimeConfigAlreadyInitialized \<Rightarrow> configuration_unavailable
     | ConfigValueError \<Rightarrow> PyValueError
     | ConfigOSError \<Rightarrow> PyOSError)"

definition read_error :: "config_error \<Rightarrow> exn" where
  "read_error e = (case e of RuntimeConfigValidationError \<Rightarrow> configuration_unavailable | _ \<Rightarrow> update_error e)"

definition get_configuration ::
    "lib \<Rightarrow> crypto \<Rightarrow> bool \<Rightarrow> connections \<Rightarrow> auth_env \<Rightarrow> auth_request \<Rightarrow> exn + configuration_answer" where
  "get_configuration L C live st env rq =
    bindR (get_viewer_principal L C env rq) (\<lambda>p.
    bindR (raise_if (pr_role p \<noteq> AR_ADMIN)
      (app_err_details ''AUTH_ROLE_FORBIDDEN'' 403 [(''required_role'', JStr (auth_role_value AR_ADMIN))])) (\<lambda>_.
    case apply_runtime_configuration L st (ae_files env) of
      Inl e \<Rightarrow> Inl (read_error e)
    | Inr effective \<Rightarrow> configuration_response L live effective (ae_files env)))"

definition update_configuration ::
    "lib \<Rightarrow> crypto \<Rightarrow> bool \<Rightarrow> connections \<Rightarrow> auth_env \<Rightarrow> auth_request \<Rightarrow> updates \<Rightarrow> write_outcome
      \<Rightarrow> (exn + configuration_answer) \<times> config_files" where
  "update_configuration L C live st env rq ups io =
    (case get_admin_principal L C env rq of
       Inl e \<Rightarrow> (Inl e, ae_files env)
     | Inr _ \<Rightarrow>
         (case save_configuration L st ups io (ae_files env) of
            (Inl e, fs) \<Rightarrow> (Inl (update_error e), fs)
          | (Inr _, fs) \<Rightarrow>
              ((case apply_runtime_configuration L st fs of
                  Inl e \<Rightarrow> Inl (update_error e)
                | Inr effective \<Rightarrow> configuration_response L live effective fs), fs)))"

end
