(* ===== verification/ConfigAnswers.thy ===== *)
theory ConfigAnswers
  imports ConfigRoutes ConfigStore
begin

text \<open>
  What the configuration routes reveal: an answer depends on a secret only through whether it is set.
\<close>

section \<open>Hiding secrets\<close>

definition hide_text :: "string \<Rightarrow> string" where
  "hide_text s = (if s = [] then [] else ''x'')"

definition hide_secret :: "secret_source \<Rightarrow> secret_source" where
  "hide_secret so = \<lparr> so_value = map_option hide_text (so_value so),
     so_file = map_option (map_prod id (map_sum id (\<lambda>t. hide_text (strip t)))) (so_file so) \<rparr>"

definition hide_site :: "runtime_site \<Rightarrow> runtime_site" where
  "hide_site s = s\<lparr> rs_password := map_option hide_text (rs_password s), rs_pid := map_option hide_text (rs_pid s),
     rs_cookie := map_option hide_text (rs_cookie s), rs_passkey := map_option hide_text (rs_passkey s) \<rparr>"

definition hide_configuration :: "runtime_configuration \<Rightarrow> runtime_configuration" where
  "hide_configuration c = c\<lparr> rc_nextfind_password := map_option hide_text (rc_nextfind_password c),
     rc_tmdb_token := map_option hide_text (rc_tmdb_token c), rc_avistaz_site := map_option hide_site (rc_avistaz_site c),
     rc_nexusphp_site := map_option hide_site (rc_nexusphp_site c),
     rc_qb_password := map_option hide_text (rc_qb_password c) \<rparr>"

definition hide_connections :: "connections \<Rightarrow> connections" where
  "hide_connections st = st\<lparr> cn_nextfind_password := hide_secret (cn_nextfind_password st),
     cn_tmdb_access_token := hide_secret (cn_tmdb_access_token st),
     cn_avistaz_password := hide_secret (cn_avistaz_password st), cn_avistaz_pid := hide_secret (cn_avistaz_pid st),
     cn_qb_password := hide_secret (cn_qb_password st) \<rparr>"

lemma hide_text_simps [simp]: "hide_text s = [] \<longleftrightarrow> s = []" "hide_text [] = []"
  by (simp_all add: hide_text_def)

lemma truthy_hidden [simp]: "truthy_text (map_option hide_text x) = truthy_text x"
  by (cases x) (simp_all add: truthy_text_def falsy_str_def)

lemma falsy_hidden [simp]: "falsy_str (map_option hide_text x) = falsy_str x"
  by (cases x) (simp_all add: falsy_str_def)

lemma strip_hidden: "strip (hide_text (strip t)) = hide_text (strip t)"
proof -
  have "strip ''x'' = ''x''" by code_simp
  then show ?thesis by (simp add: hide_text_def)
qed

lemma read_hidden: "read_secret (hide_secret so) = map_sum id (map_option hide_text) (read_secret so)"
  by (auto simp: read_secret_def hide_secret_def strip_hidden split: option.splits sum.splits prod.splits)

lemma hidden_site_simps [simp]:
  "rs_architecture (hide_site s) = rs_architecture s" "rs_base_url (hide_site s) = rs_base_url s"
  "rs_site_id (hide_site s) = rs_site_id s" "rs_display_name (hide_site s) = rs_display_name s"
  "rs_username (hide_site s) = rs_username s"
  "rs_password (hide_site s) = map_option hide_text (rs_password s)" "rs_pid (hide_site s) = map_option hide_text (rs_pid s)"
  "rs_cookie (hide_site s) = map_option hide_text (rs_cookie s)"
  "rs_passkey (hide_site s) = map_option hide_text (rs_passkey s)"
  by (simp_all add: hide_site_def)

lemma hidden_site_configured [simp]: "site_configured (hide_site s) = site_configured s"
  by (simp add: site_configured_def split: site_architecture.splits)

lemma hidden_active [simp]: "active_pt_site (hide_configuration c) = map_option hide_site (active_pt_site c)"
  by (simp add: active_pt_site_def hide_configuration_def split: option.splits site_architecture.splits)

text \<open>The credentials of the hidden settings: the same texts where they are shown, hidden ones elsewhere.\<close>

lemma hidden_credentials:
  "nextfind_credentials (hide_connections st) =
    map_sum id (map_option (\<lambda>ts. [ts ! 0, hide_text (ts ! 1)])) (nextfind_credentials st)"
  "avistaz_credentials (hide_connections st) =
    map_sum id (map_option (\<lambda>ts. [ts ! 0, hide_text (ts ! 1), hide_text (ts ! 2)])) (avistaz_credentials st)"
  "qb_credentials (hide_connections st) =
    map_sum id (map_option (\<lambda>ts. [ts ! 0, ts ! 1, hide_text (ts ! 2)])) (qb_credentials st)"
  "tmdb_token_value (hide_connections st) = map_sum id (map_option hide_text) (tmdb_token_value st)"
  by (auto simp: nextfind_credentials_def avistaz_credentials_def qb_credentials_def tmdb_token_value_def
      all_secrets_def hide_connections_def read_hidden bindR_def falsy_str_def split: sum.splits)

section \<open>Answers of the hidden state\<close>

lemma readable_sum: "readable (map_sum id (map_option f) r) = map_option f (readable r)"
  by (simp add: readable_def split: sum.splits)

text \<open>The credentials have as many texts as there are fields, none empty.\<close>

lemma credentials_shape:
  "nextfind_credentials st = Inr (Some ts) \<Longrightarrow> length ts = 2 \<and> [] \<notin> set ts"
  "avistaz_credentials st = Inr (Some ts) \<Longrightarrow> length ts = 3 \<and> [] \<notin> set ts"
  "qb_credentials st = Inr (Some ts) \<Longrightarrow> length ts = 3 \<and> [] \<notin> set ts"
  by (auto simp: nextfind_credentials_def avistaz_credentials_def qb_credentials_def all_secrets_def
      bindR_Inr_iff falsy_str_def split: if_splits)

lemma readable_shape:
  "readable (nextfind_credentials st) = Some ts \<Longrightarrow> length ts = 2 \<and> [] \<notin> set ts"
  "readable (avistaz_credentials st) = Some ts \<Longrightarrow> length ts = 3 \<and> [] \<notin> set ts"
  "readable (qb_credentials st) = Some ts \<Longrightarrow> length ts = 3 \<and> [] \<notin> set ts"
  by (auto simp: readable_def credentials_shape split: sum.splits)

lemma hidden_avistaz_configured [simp]: "avistaz_configured (hide_connections st) = avistaz_configured st"
  by (simp add: avistaz_configured_def hidden_credentials readable_sum)

lemma hidden_plain_fields [simp]:
  "cn_nextfind_base_url (hide_connections st) = cn_nextfind_base_url st"
  "cn_nextfind_username (hide_connections st) = cn_nextfind_username st"
  "cn_avistaz_base_url (hide_connections st) = cn_avistaz_base_url st"
  "cn_pt_site_architecture (hide_connections st) = cn_pt_site_architecture st"
  "cn_pt_site_runtime_supported (hide_connections st) = cn_pt_site_runtime_supported st"
  "cn_pt_site_runtime_configured (hide_connections st) = cn_pt_site_runtime_configured st"
  "cn_qb_base_url (hide_connections st) = cn_qb_base_url st"
  "cn_qb_username (hide_connections st) = cn_qb_username st"
  "cn_qb_allowed_hosts (hide_connections st) = cn_qb_allowed_hosts st"
  "cn_qb_allow_insecure_http (hide_connections st) = cn_qb_allow_insecure_http st"
  "cn_qb_target_save_path (hide_connections st) = cn_qb_target_save_path st"
  "cn_qb_target_category (hide_connections st) = cn_qb_target_category st"
  by (simp_all add: hide_connections_def)

lemma hidden_search_ready [simp]: "site_search_ready live (hide_connections st) = site_search_ready live st"
  by (cases "cn_pt_site_runtime_configured st") (simp_all add: site_search_ready_def)

lemma hidden_site_answer [simp]:
  "runtime_site_answer live (hide_connections st) (hide_site s) = runtime_site_answer live st s"
  by (simp add: runtime_site_answer_def split: site_architecture.splits)

lemma hidden_site_response [simp]:
  "pt_site_response live (hide_connections st) (map_option hide_site site) = pt_site_response live st site"
proof (cases site)
  case None
  show ?thesis
  proof (cases "avistaz_credentials st")
    case (Inr creds)
    show ?thesis
    proof (cases creds)
      case (Some ts)
      then have "length ts = 3 \<and> [] \<notin> set ts" using credentials_shape(2) Inr by blast
      then show ?thesis
        by (auto simp: None Inr Some pt_site_response_def hidden_credentials nth_text_def in_set_conv_nth)
    qed (simp add: None Inr pt_site_response_def hidden_credentials nth_text_def)
  qed (simp add: None pt_site_response_def hidden_credentials)
qed (simp add: pt_site_response_def)

lemma hidden_stored_part [simp]:
  "stored_part pick live (hide_connections st) (map_option hide_site stored) active = stored_part pick live st stored active"
  by (cases stored) (simp_all add: stored_part_def)

text \<open>What is shown of a configuration that was read.\<close>

definition all_set :: "connections \<Rightarrow> runtime_configuration \<Rightarrow> bool" where
  "all_set st c \<longleftrightarrow> list_all (\<lambda>kv. snd kv \<noteq> []) (effective_values st c) \<and> pt_site_complete st c"



lemma hidden_text_empty [simp]: "some_text (map_option hide_text x) = [] \<longleftrightarrow> some_text x = []"
  by (cases x) (simp_all add: some_text_def)

lemma hidden_identities [simp]:
  "nextfind_identity_set (hide_configuration c) = nextfind_identity_set c"
  "qb_identity_set (hide_configuration c) = qb_identity_set c"
  by (simp_all add: nextfind_identity_set_def qb_identity_set_def hide_configuration_def)

lemma hidden_config_fields [simp]:
  "rc_nextfind_base_url (hide_configuration c) = rc_nextfind_base_url c"
  "rc_nextfind_username (hide_configuration c) = rc_nextfind_username c"
  "rc_nextfind_password (hide_configuration c) = map_option hide_text (rc_nextfind_password c)"
  "rc_tmdb_token (hide_configuration c) = map_option hide_text (rc_tmdb_token c)"
  "rc_qb_url (hide_configuration c) = rc_qb_url c" "rc_qb_username (hide_configuration c) = rc_qb_username c"
  "rc_qb_password (hide_configuration c) = map_option hide_text (rc_qb_password c)"
  "rc_avistaz_site (hide_configuration c) = map_option hide_site (rc_avistaz_site c)"
  "rc_nexusphp_site (hide_configuration c) = map_option hide_site (rc_nexusphp_site c)"
  by (simp_all add: hide_configuration_def)

text \<open>A text of the credentials is shown as it is or hidden; either way it is as empty as before.\<close>

lemma hidden_nth:
  "length ts = 2 \<and> [] \<notin> set ts \<Longrightarrow> nth_text (Some [ts ! 0, hide_text (ts ! Suc 0)]) n = [] \<longleftrightarrow> nth_text (Some ts) n = []"
  "length ts = 3 \<and> [] \<notin> set ts \<Longrightarrow>
    nth_text (Some [ts ! 0, ts ! Suc 0, hide_text (ts ! 2)]) n = [] \<longleftrightarrow> nth_text (Some ts) n = []"
  by (auto simp: nth_text_def nth_Cons' in_set_conv_nth numeral_2_eq_2 numeral_3_eq_3 less_Suc_eq)

lemma hidden_nextfind_text [simp]:
  "nth_text (readable (nextfind_credentials (hide_connections st))) n = [] \<longleftrightarrow>
    nth_text (readable (nextfind_credentials st)) n = []"
  by (cases "readable (nextfind_credentials st)")
    (simp_all add: hidden_credentials readable_sum hidden_nth readable_shape nth_text_def [of None])

lemma hidden_qb_text [simp]:
  "nth_text (readable (qb_credentials (hide_connections st))) n = [] \<longleftrightarrow> nth_text (readable (qb_credentials st)) n = []"
  by (cases "readable (qb_credentials st)")
    (simp_all add: hidden_credentials readable_sum hidden_nth readable_shape nth_text_def [of None])

lemma hidden_all_set [simp]: "all_set (hide_connections st) (hide_configuration c) = all_set st c"
proof -
  have site: "pt_site_complete (hide_connections st) (hide_configuration c) = pt_site_complete st c"
    by (cases "active_pt_site c") (simp_all add: pt_site_complete_def hidden_credentials readable_sum)
  show ?thesis
    unfolding all_set_def site
    by (cases "rc_tmdb_token c") (simp_all add: effective_values_def Let_def hidden_credentials(4) readable_sum)
qed













end
