(* ===== verification/Spec2Isabelle.thy ===== *)
theory Spec2Isabelle
  imports Prelude Json Platform Episodes EpisodeLaws SiteRules TorrentValidation Enums Schemas PathUrl Preflight
    Redaction RedactionLaws Entities
    Approvals ApprovalLaws AutomationPolicy AutomationLaws Executions DownloadExecutor Lawful HandlerLaws Routes
    ExecutorProtocol ExampleRun ExecutorLaws QbClient QbQueries QbAdapter QbLaws ProcessClaim ClaimLaws
    Matching WorkflowStore Capability Workflow Catalog Eligibility Automation EngineLaws
    JobQueue PreflightWorker Processor SearchWorker DiscoveryWorker WorkerLaws QueueLaws
    QueueMachine Discovery WorkflowRoutes QueueProperties EngineProperties
    ImportSchemas ImportStore MediaImports ImportPaths ImportLaws ImportMachine ImportRun ImportProperties ImportRoutes
    Base64 RuntimeConfig OriginLaws ConfigLaws ConfigStore Auth AuthLaws ConfigRoutes ConfigAnswers
begin

text \<open>
  \<^bold>\<open>A verification development of LibSeek.\<close>

  LibSeek finds media missing from a library, resolves their identity, searches a PT site for
  torrents, asks for approval and hands the chosen torrent to qBittorrent; a finished download may be
  planned into the library. The server is Python (\<open>src/backend/app\<close>): routes and workers call services,
  each call is one database transaction, and every decision is recorded with a digest of what it was
  made on. The development translates the services, the workers, the qBittorrent client and the models
  they exchange; file names below are relative to \<open>src/backend/app\<close>.

  \<^bold>\<open>How the program is modelled.\<close>

  \<^item> \<open>Prelude\<close>: a call that may raise is a value of \<open>exn + 'a\<close>; a call on the database is a function from
    the store to a result and a store (\<open>session\<close>), combined by \<open>bindH\<close>, \<open>catchH\<close> and \<open>transact\<close>, which
    is the commit or rollback of a route. A table is a list of rows in the order of insertion. The
    relation \<open>evolves R m\<close> says that every run of \<open>m\<close> is related by \<open>R\<close>; the locale \<open>store_preorder\<close> and its
    interpretations carry it through handlers.
  \<^item> \<open>Platform\<close>: what the code uses of Python: text as UTF-8 bytes, instants in microseconds, errors, and the
    record \<open>lib\<close> of what is not translated: digests, Unicode tables (NFC, NFKC, case, categories), the text
    and rounding of floats, pydantic's lax conversions, the texts of messages. No law is assumed of it
    globally; a property that needs one (a stable rendering of times, no collision of two given texts)
    names it, and its witness instantiates \<open>lib\<close> by a concrete record.
  \<^item> \<open>Json\<close>: JSON values, \<open>dumps\<close> with sorted keys, and its injectivity, on which every seal rests.
  \<^item> \<open>PathUrl\<close>: \<open>pathlib\<close>'s pure paths, \<open>urlsplit\<close> and \<open>fnmatchcase\<close>.
  \<^item> \<open>Enums\<close>, \<open>Schemas\<close>, \<open>Entities\<close>, \<open>WorkflowStore\<close>, \<open>ImportSchemas\<close>, \<open>ImportStore\<close>: the enumerations, the
    pydantic models (\<open>parse_x\<close> is \<open>model_validate\<close>, \<open>x_json\<close> is \<open>model_dump\<close>), the tables with their unique
    indexes, check constraints and update listeners, and the writes that enforce them.

  Identifiers, random tokens and the readings of the clock are arguments. A network service is an
  argument that gives the outcome of each call, a value or an error, chosen freely.

  \<^bold>\<open>The parts.\<close>

  \<^item> Approval of a download: \<open>Approvals\<close> (\<open>services/approvals.py\<close>), \<open>Preflight\<close> (\<open>services/preflight.py\<close>),
    \<open>SiteRules\<close>, \<open>Redaction\<close> (\<open>core/security.py\<close>). \<open>ApprovalLaws\<close> shows what a created and an approved request
    guarantee, and that the digests detect changes; \<open>RedactionLaws\<close> that no secret is left in redacted details.
  \<^item> Execution: \<open>Executions\<close> (\<open>services/executions.py\<close>), \<open>DownloadExecutor\<close> and \<open>ProcessClaim\<close>
    (\<open>workers/download_executor.py\<close>), \<open>TorrentValidation\<close> (\<open>services/torrent_validation.py\<close>), and the client
    \<open>QbClient\<close>, \<open>QbQueries\<close>, \<open>QbAdapter\<close> (\<open>adapters/downloaders\<close>). \<open>ExecutorProtocol\<close> lets the transactions of
    all routes and workers interleave as a step relation; \<open>ExecutorLaws\<close> proves its invariant, the
    refinement of the contract of submissions and that a torrent is added at most once; \<open>ClaimLaws\<close> proves
    that the code of one claim is a sequence of such steps; \<open>QbLaws\<close> says what the client sends and
    reports. \<open>ExampleRun\<close> reaches the last phase on a concrete store.
  \<^item> Automation: \<open>AutomationPolicy\<close> (\<open>services/automation_policy.py\<close>), \<open>Eligibility\<close> and \<open>Automation\<close>
    (\<open>services/automation.py\<close>), \<open>Capability\<close>. \<open>AutomationLaws\<close>, \<open>EngineLaws\<close> and \<open>EngineProperties\<close> show the
    hash chain of policies, the compare-and-swap of a publication, and when the engine acts.
  \<^item> Identity, search and discovery: \<open>Episodes\<close>, \<open>Matching\<close>, \<open>Workflow\<close> (\<open>services/workflow.py\<close>), \<open>Discovery\<close>,
    \<open>Catalog\<close>, and the workers \<open>JobQueue\<close>, \<open>Processor\<close>, \<open>SearchWorker\<close>, \<open>DiscoveryWorker\<close>
    (\<open>workers/processor.py\<close>) and \<open>PreflightWorker\<close> (\<open>workers/automation.py\<close>). \<open>QueueMachine\<close>, \<open>QueueLaws\<close> and
    \<open>QueueProperties\<close> treat the table of jobs as a state machine: jobs move forward, a worker that lost its
    lease changes nothing, a claimable job is claimed. \<open>EpisodeLaws\<close> has the round trips of the matrices.
  \<^item> Media imports: \<open>MediaImports\<close> (\<open>services/media_imports.py\<close>) and \<open>ImportRoutes\<close>. \<open>ImportPaths\<close> shows what the
    path checks guarantee, \<open>ImportLaws\<close> that stored documents read back, \<open>ImportMachine\<close> the invariant of the
    state machine, \<open>ImportProperties\<close> what an approved import rests on, \<open>ImportRun\<close> a concrete run.
  \<^item> Local configuration: \<open>RuntimeConfig\<close> (\<open>core/runtime_config.py\<close> and the settings it overrides in
    \<open>core/config.py\<close>) over the state of its two files, and \<open>ConfigRoutes\<close> (\<open>api/routes/configuration.py\<close>,
    \<open>schemas/configuration.py\<close>). \<open>OriginLaws\<close> shows when an accepted address is accepted again, \<open>ConfigLaws\<close> what
    a well-formed configuration is and where a secret may go, \<open>ConfigStore\<close> that a saved configuration reads
    back, how one locks itself, and that the administrator is created once; \<open>ConfigAnswers\<close> that an answer
    depends on a secret only through whether it is set.
  \<^item> Authentication: \<open>Base64\<close> and \<open>Auth\<close> (\<open>core/auth.py\<close>, \<open>api/dependencies.py\<close>, \<open>api/routes/auth.py\<close>), with the
    digests and \<open>json.loads\<close> in the record \<open>crypto\<close>. \<open>AuthLaws\<close> characterises the accepted tokens, what an
    admitted request has shown, and that the session of a login and a password's own digest are accepted.
  \<^item> Across parts: \<open>Lawful\<close> states what every handler keeps of the store (constraints, append-only audit
    tables, immutable columns, statuses that only move forward); \<open>HandlerLaws\<close>, \<open>EngineLaws\<close> and \<open>WorkerLaws\<close>
    prove it handler by handler; \<open>Routes\<close> and \<open>WorkflowRoutes\<close> are the transactions of the routes.

  \<^bold>\<open>Recursion.\<close> Loops are structural recursions or functions with a termination proof; no fuel is used. The
  walk over a torrent's file tree recurses on the tree, with the depth bound of the code; the loops of the
  client decrease the queried hashes or the pages that may still be asked for; the interleavings of workers
  are inductive relations without bound on their length.

  \<^bold>\<open>Not modelled.\<close>

  \<^item> The adapters that speak HTTP to NextFind, TMDB, AvistaZ and NexusPHP: the services use them through the
    interfaces of \<open>adapters/base.py\<close>, which are arguments here. Their bodies parse pages and answers of
    services whose formats are not part of the repository.
  \<^item> The wiring of processes and requests: FastAPI's routing, the main modules of the workers, signals,
    timers, logging, health checks, sessions of the database; the renewals a worker runs beside its work
    are steps of their own in the state machines.
  \<^item> The setup wizard, the contract probe and the migrations of the database, which are tools.
  \<^item> The routes that test a connection, and the validators that pydantic runs again on overridden settings.
    Writing a file is one step that ends well or fails before or after the file is replaced.
  \<^item> Listings and responses that only show rows. Foreign keys are declared by the tables and not enforced by
    the model; rows are never deleted by the code.
  \<^item> The text of messages for people, which is given by a key.
\<close>

end
